(* ===== verification/Prelude.thy ===== *)
theory Prelude
  imports Main "HOL-Library.Word"
begin

text \<open>
  Shared vocabulary of the development: the machine integer types of the firmware, byte
  strings and their little-endian codecs (every packed struct of \<^verbatim>\<open>espnow_types.h\<close>
  is laid out little-endian on the ESP32 and ESP8266 targets), the interface that
  fixed-width codecs share, and the lemmas on lists and words that several components use.
\<close>

unbundle bit_operations_syntax

type_synonym u8 = "8 word"
type_synonym u16 = "16 word"
type_synonym u32 = "32 word"
type_synonym u64 = "64 word"
type_synonym bytes = "8 word list"

named_theorems geometry_simps \<open>definitions that compute sizes and indices\<close>
named_theorems wire_simps \<open>definitions that lay out or read a packed struct\<close>

section \<open>Lists\<close>

lemma list_update_at_length [simp]: "(xs @ y # ys)[length xs := z] = xs @ z # ys"
  by (induction xs) auto

lemma list_update_at_length':
  "n = length xs \<Longrightarrow> (xs @ y # ys)[n := z] = xs @ z # ys"
  by simp

lemma take_drop_split: "n \<le> length xs \<Longrightarrow> take n xs @ drop n xs = xs"
  by simp

lemma drop_eq_ConsD: "drop n xs = y # ys \<Longrightarrow> n < length xs \<and> xs ! n = y \<and> drop (Suc n) xs = ys"
  by (metis drop_Suc drop_eq_Nil list.distinct(1) list.sel(3) not_le nth_via_drop tl_drop)

lemma drop_less_Cons: "n < length xs \<Longrightarrow> drop n xs = xs ! n # drop (Suc n) xs"
  by (simp add: Cons_nth_drop_Suc)

lemma nth_append_mid: "n = length xs \<Longrightarrow> (xs @ y # ys) ! n = y"
  by (simp add: nth_append)

section \<open>Words\<close>

lemma unat_of_nat_small: "n < 2 ^ LENGTH('a) \<Longrightarrow> unat (of_nat n :: 'a::len word) = n"
  by (simp add: unat_of_nat take_bit_nat_eq_self)

lemma of_nat_word_inj:
  "n < 2 ^ LENGTH('a) \<Longrightarrow> m < 2 ^ LENGTH('a) \<Longrightarrow> (of_nat n = (of_nat m :: 'a::len word)) = (n = m)"
  by (metis unat_of_nat_small)

lemma unat_u8_bound [simp]: "unat (w :: u8) < 256"
  using unsigned_less [of w] by (simp add: unsigned_less)

lemma unat_u16_bound [simp]: "unat (w :: u16) < 65536"
  using unsigned_less [of w] by (simp add: unsigned_less)

lemma unat_u32_bound [simp]: "unat (w :: u32) < 4294967296"
  using unsigned_less [of w] by (simp add: unsigned_less)

lemma xor_cancel [simp]: "(a :: 'a::len word) XOR (a XOR b) = b"
  by (simp flip: xor.assoc)

lemma xor_cancel_right [simp]: "((a :: 'a::len word) XOR b) XOR b = a"
  by (simp add: xor.assoc)

section \<open>Little-endian codecs\<close>

definition le16 :: "u16 \<Rightarrow> bytes" where
  [wire_simps]: "le16 w = [ucast w, ucast (drop_bit 8 w)]"

definition le32 :: "u32 \<Rightarrow> bytes" where
  [wire_simps]: "le32 w = [ucast w, ucast (drop_bit 8 w), ucast (drop_bit 16 w), ucast (drop_bit 24 w)]"

definition rd16 :: "bytes \<Rightarrow> nat \<Rightarrow> u16" where
  [wire_simps]: "rd16 bs i = ucast (bs ! i) OR push_bit 8 (ucast (bs ! (i + 1)))"

definition rd32 :: "bytes \<Rightarrow> nat \<Rightarrow> u32" where
  [wire_simps]: "rd32 bs i = ucast (bs ! i) OR push_bit 8 (ucast (bs ! (i + 1)))
     OR push_bit 16 (ucast (bs ! (i + 2))) OR push_bit 24 (ucast (bs ! (i + 3)))"

lemma length_le16 [simp]: "length (le16 w) = 2"
  by (simp add: le16_def)

lemma length_le32 [simp]: "length (le32 w) = 4"
  by (simp add: le32_def)

lemma rd16_le16: "rd16 (le16 w) 0 = w"
proof (rule bit_word_eqI)
  fix n assume "n < LENGTH(16)"
  then show "bit (rd16 (le16 w) 0) n = bit w n"
    by (cases "n < 8") (auto simp: rd16_def le16_def bit_simps)
qed

lemma rd32_le32: "rd32 (le32 w) 0 = w"
proof (rule bit_word_eqI)
  fix n assume n: "n < LENGTH(32)"
  consider "n < 8" | "8 \<le> n" "n < 16" | "16 \<le> n" "n < 24" | "24 \<le> n" by linarith
  then show "bit (rd32 (le32 w) 0) n = bit w n"
    using n by cases (auto simp: rd32_def le32_def bit_simps)
qed

lemma rd16_append: "i + 1 < length xs \<Longrightarrow> rd16 (xs @ ys) i = rd16 xs i"
  by (simp add: rd16_def nth_append)

lemma rd32_append: "i + 3 < length xs \<Longrightarrow> rd32 (xs @ ys) i = rd32 xs i"
  by (simp add: rd32_def nth_append)

lemma rd16_drop: "length xs \<le> i \<Longrightarrow> rd16 (xs @ ys) i = rd16 ys (i - length xs)"
  by (simp add: rd16_def nth_append Suc_diff_le)

lemma rd32_drop: "length xs \<le> i \<Longrightarrow> rd32 (xs @ ys) i = rd32 ys (i - length xs)"
  by (simp add: rd32_def nth_append Suc_diff_le)

end
