(* ===== verification/CobsCodec.thy ===== *)
theory CobsCodec
  imports Prelude
begin

text \<open>
  The consistent-overhead byte stuffing used on the wired serial transport
  (\<^verbatim>\<open>esp_tree_common/cobs_codec.h\<close>). The encoder is translated with its output array and
  its two indices: it reserves a code byte and comes back to it when the block closes. The
  decoder is translated as the index loop it is. A functional specification of the encoding
  (\<open>cobs_spec\<close>) is refined by the array version, and the properties are proved of the
  array version through it.
\<close>

section \<open>The code\<close>

text \<open>
  \<open>cobs_encode_loop bs out out_idx code_idx code\<close> is the loop over the rest \<open>bs\<close> of the
  input. The buffer is the caller's; its length is fixed and writes go through list update.
\<close>

fun cobs_encode_loop :: "bytes \<Rightarrow> bytes \<Rightarrow> nat \<Rightarrow> nat \<Rightarrow> u8 \<Rightarrow> bytes \<times> nat \<times> nat \<times> u8" where
  "cobs_encode_loop [] out out_idx code_idx code = (out, out_idx, code_idx, code)"
| "cobs_encode_loop (b # bs) out out_idx code_idx code =
     (if b = 0 then cobs_encode_loop bs (out[code_idx := code]) (out_idx + 1) out_idx 1
      else if code + 1 = 255
           then cobs_encode_loop bs (out[out_idx := b, code_idx := 255]) (out_idx + 2) (out_idx + 1) 1
           else cobs_encode_loop bs (out[out_idx := b]) (out_idx + 1) code_idx (code + 1))"

definition cobs_encode :: "bytes \<Rightarrow> bytes \<Rightarrow> bytes \<times> nat" where
  "cobs_encode input output =
     (if input = [] then (output[0 := 1], 1)
      else case cobs_encode_loop input output 1 0 1 of
             (out, out_idx, code_idx, code) \<Rightarrow> (out[code_idx := code], out_idx))"

text \<open>The bytes a caller sends: the first \<open>out_idx\<close> bytes of the buffer.\<close>

definition cobs_encoded :: "bytes \<Rightarrow> bytes \<Rightarrow> bytes" where
  "cobs_encoded input output = (case cobs_encode input output of (out, n) \<Rightarrow> take n out)"

text \<open>
  \<open>cobs_decode_loop input in_idx out\<close> is the \<^verbatim>\<open>while\<close> loop; \<open>out\<close> holds the
  bytes written so far, so its length is \<^verbatim>\<open>out_length\<close>.
\<close>

function cobs_decode_loop :: "bytes \<Rightarrow> nat \<Rightarrow> bytes \<Rightarrow> bool \<times> bytes" where
  "cobs_decode_loop input in_idx out =
     (if in_idx < length input then
        (let code = input ! in_idx; in_idx = in_idx + 1 in
         if code = 0 then (False, out)
         else
           (let copy_len = unat code - 1 in
            if in_idx + copy_len > length input then (False, out)
            else
              (let out = out @ take copy_len (drop in_idx input); in_idx = in_idx + copy_len in
               cobs_decode_loop input in_idx
                 (if code < 255 \<and> in_idx < length input then out @ [0] else out))))
      else (True, out))"
  by pat_completeness auto
termination
  by (relation "measure (\<lambda>(input, in_idx, out). length input - in_idx)") auto

declare cobs_decode_loop.simps [simp del]

definition cobs_decode :: "bytes \<Rightarrow> bool \<times> bytes" where
  "cobs_decode input = (if input = [] then (False, []) else cobs_decode_loop input 0 [])"

section \<open>A functional specification of the encoding\<close>

text \<open>\<open>cobs_spec cur bs\<close>: the encoding of \<open>cur @ bs\<close> with \<open>cur\<close> already in the open block.\<close>

fun cobs_spec :: "bytes \<Rightarrow> bytes \<Rightarrow> bytes" where
  "cobs_spec cur [] = of_nat (length cur + 1) # cur"
| "cobs_spec cur (b # bs) =
     (if b = 0 then of_nat (length cur + 1) # cur @ cobs_spec [] bs
      else if length cur + 2 = 255 then 255 # cur @ b # cobs_spec [] bs
      else cobs_spec (cur @ [b]) bs)"

lemma code_is_255:
  "length cur < 254 \<Longrightarrow> (of_nat (length cur + 1) + 1 = (255 :: u8)) = (length cur + 2 = 255)"
proof -
  assume l: "length cur < 254"
  have "(of_nat (length cur + 1) + 1 = (255 :: u8)) = (of_nat (length cur + 2) = (of_nat 255 :: u8))"
    by (simp only: of_nat_add of_nat_numeral of_nat_1 add.assoc one_add_one)
  also have "\<dots> = (length cur + 2 = 255)"
    by (rule of_nat_word_inj) (use l in auto)
  finally show ?thesis .
qed

lemma cobs_spec_length_ge: "length cur + length bs + 1 \<le> length (cobs_spec cur bs)"
  by (induction cur bs rule: cobs_spec.induct) auto

lemma cobs_encode_loop_spec:
  assumes "length cur < 254"
    and "length (pre @ c # cur @ rest) \<ge> length pre + length (cobs_spec cur bs)"
    and "cobs_encode_loop bs (pre @ c # cur @ rest) (length pre + 1 + length cur) (length pre)
           (of_nat (length cur + 1)) = (out, n, ci, code)"
  shows "take n (out[ci := code]) = pre @ cobs_spec cur bs \<and> n = length pre + length (cobs_spec cur bs)
    \<and> length out = length (pre @ c # cur @ rest)"
  using assms
proof (induction cur bs arbitrary: pre c rest rule: cobs_spec.induct)
  case (1 cur)
  then show ?case by auto
next
  case (2 cur b bs)
  let ?k = "of_nat (length cur + 1) :: u8"
  obtain r rest' where rest: "rest = r # rest'"
    using "2.prems"(2) cobs_spec_length_ge [of "[]" bs] cobs_spec_length_ge [of "cur @ [b]" bs]
    by (cases rest) (auto split: if_splits)
  have upd: "(pre @ c # cur @ r # rest')[length pre + 1 + length cur := b] = pre @ c # cur @ b # rest'"
    using list_update_at_length [of "pre @ c # cur" r rest' b] by simp
  consider (zero) "b = 0" | (full) "b \<noteq> 0" "length cur + 2 = 255" | (mid) "b \<noteq> 0" "length cur + 2 \<noteq> 255"
    by blast
  then show ?case
  proof cases
    case zero
    have eq: "cobs_encode_loop bs ((pre @ ?k # cur) @ r # [] @ rest') (length (pre @ ?k # cur) + 1 + length ([] :: bytes))
        (length (pre @ ?k # cur)) (of_nat (length ([] :: bytes) + 1)) = (out, n, ci, code)"
      using "2.prems"(3) zero rest by (simp add: algebra_simps)
    show ?thesis
      using "2.IH"(1) [OF zero _ _ eq] "2.prems"(2) zero rest by auto
  next
    case full
    obtain r2 rest2 where rest': "rest' = r2 # rest2"
      using "2.prems"(2) full cobs_spec_length_ge [of "[]" bs] rest by (cases rest') auto
    have "?k + 1 = (255 :: u8)" using code_is_255 [of cur] full "2.prems"(1) by simp
    moreover have "(pre @ c # cur @ b # rest')[length pre := 255] = pre @ 255 # cur @ b # rest'"
      by simp
    ultimately have eq: "cobs_encode_loop bs ((pre @ 255 # cur @ [b]) @ r2 # [] @ rest2)
        (length (pre @ 255 # cur @ [b]) + 1 + length ([] :: bytes)) (length (pre @ 255 # cur @ [b]))
        (of_nat (length ([] :: bytes) + 1)) = (out, n, ci, code)"
      using "2.prems"(3) full rest rest' upd by (simp add: algebra_simps)
    show ?thesis
      using "2.IH"(2) [OF full(1) full(2) _ _ eq] "2.prems"(2) full rest rest' by auto
  next
    case mid
    have "?k + 1 \<noteq> (255 :: u8)" using code_is_255 [of cur] mid "2.prems"(1) by simp
    then have eq: "cobs_encode_loop bs (pre @ c # (cur @ [b]) @ rest') (length pre + 1 + length (cur @ [b]))
        (length pre) (of_nat (length (cur @ [b]) + 1)) = (out, n, ci, code)"
      using "2.prems"(3) mid rest upd by (simp add: algebra_simps)
    show ?thesis
      using "2.IH"(3) [OF mid(1) mid(2) _ _ eq] "2.prems"(1,2) mid rest by auto
  qed
qed

lemma cobs_encode_refines:
  assumes "length (cobs_spec [] input) \<le> length output"
  shows "cobs_encoded input output = cobs_spec [] input"
proof -
  obtain c rest where o: "output = c # rest"
    using assms cobs_spec_length_ge [of "[]" input] by (cases "output") auto
  show ?thesis
  proof (cases "input = []")
    case True
    with o show ?thesis by (simp add: cobs_encoded_def cobs_encode_def)
  next
    case False
    obtain out n ci code where l: "cobs_encode_loop input output 1 0 1 = (out, n, ci, code)"
      by (cases "cobs_encode_loop input output 1 0 1") auto
    have "take n (out[ci := code]) = [] @ cobs_spec [] input"
      by (rule cobs_encode_loop_spec [where c = c and rest = rest and bs = input, THEN conjunct1])
        (use assms l o in simp_all)
    with l False show ?thesis by (simp add: cobs_encoded_def cobs_encode_def)
  qed
qed

section \<open>Length, zero-freedom, decoding\<close>

lemma cobs_spec_length_le:
  "length cur < 254 \<Longrightarrow>
    length (cobs_spec cur bs) \<le> length cur + length bs + 1 + (length cur + length bs) div 254"
proof (induction cur bs rule: cobs_spec.induct)
  case (2 cur b bs)
  consider (zero) "b = 0" | (full) "b \<noteq> 0" "length cur = 253" | (mid) "b \<noteq> 0" "length cur + 2 \<noteq> 255"
    by linarith
  then show ?case
  proof cases
    case zero
    have "length bs div 254 \<le> (length cur + length (b # bs)) div 254" by (rule div_le_mono) simp
    with 2 zero show ?thesis by simp
  next
    case full
    have "(length cur + length (b # bs)) div 254 = length bs div 254 + 1" using full by simp
    with 2 full show ?thesis by simp
  next
    case mid
    with 2 show ?thesis by simp
  qed
qed simp

lemma cobs_spec_no_zero:
  "length cur < 254 \<Longrightarrow> 0 \<notin> set cur \<Longrightarrow> 0 \<notin> set (cobs_spec cur bs)"
proof (induction cur bs rule: cobs_spec.induct)
  have code: "k < 254 \<Longrightarrow> (of_nat (k + 1) :: u8) \<noteq> 0" for k
    using of_nat_word_inj [where 'a = 8, of "k + 1" 0] by simp
  case (1 cur)
  then show ?case using code [of "length cur"] by auto
next
  have code: "k < 254 \<Longrightarrow> (of_nat (k + 1) :: u8) \<noteq> 0" for k
    using of_nat_word_inj [where 'a = 8, of "k + 1" 0] by simp
  case (2 cur b bs)
  then show ?case using code [of "length cur"] by auto
qed

text \<open>One whole block at the cursor: its code byte, its data, and what the loop does next.\<close>

lemma cobs_decode_loop_block:
  assumes "k + 1 < 256" and "length blk = k"
  shows "cobs_decode_loop (pre @ of_nat (k + 1) # blk @ rest) (length pre) acc =
    cobs_decode_loop (pre @ of_nat (k + 1) # blk @ rest) (length pre + 1 + k)
      (if k < 254 \<and> rest \<noteq> [] then acc @ blk @ [0] else acc @ blk)"
proof -
  have u: "unat (of_nat (k + 1) :: u8) = k + 1" using assms(1) by (intro unat_of_nat_small) simp
  then have nz: "(of_nat (k + 1) :: u8) \<noteq> 0" by (metis Suc_eq_plus1 nat.distinct(1) unat_0)
  have lt: "((of_nat (k + 1) :: u8) < 255) = (k < 254)" using u by (simp add: word_less_nat_alt)
  show ?thesis
    by (subst cobs_decode_loop.simps) (use assms u nz lt in \<open>auto simp: nth_append Let_def\<close>)
qed

lemma cobs_decode_loop_end: "length input \<le> i \<Longrightarrow> cobs_decode_loop input i acc = (True, acc)"
  by (subst cobs_decode_loop.simps) simp

lemma cobs_spec_nonempty [simp]: "cobs_spec cur bs \<noteq> []"
  using cobs_spec_length_ge [of cur bs] by auto

lemma cobs_decode_loop_spec:
  "length cur < 254 \<Longrightarrow>
    cobs_decode_loop (pre @ cobs_spec cur bs) (length pre) acc = (True, acc @ cur @ bs)"
proof (induction cur bs arbitrary: pre acc rule: cobs_spec.induct)
  case (1 cur)
  then show ?case
    using cobs_decode_loop_block [of "length cur" cur pre "[]" acc] by (simp add: cobs_decode_loop_end)
next
  case (2 cur b bs)
  consider (zero) "b = 0" | (full) "b \<noteq> 0" "length cur = 253" | (mid) "b \<noteq> 0" "length cur + 2 \<noteq> 255"
    by linarith
  then show ?case
  proof cases
    case zero
    then show ?thesis
      using cobs_decode_loop_block [of "length cur" cur pre "cobs_spec [] bs" acc] "2.prems"
        "2.IH"(1) [of "pre @ of_nat (length cur + 1) # cur" "acc @ cur @ [0]"]
      by (simp add: algebra_simps)
  next
    case full
    then show ?thesis
      using cobs_decode_loop_block [of 254 "cur @ [b]" pre "cobs_spec [] bs" acc]
        "2.IH"(2) [of "pre @ 255 # cur @ [b]" "acc @ cur @ [b]"]
      by (simp add: algebra_simps)
  next
    case mid
    then show ?thesis using 2 by simp
  qed
qed

lemma cobs_decode_loop_length:
  "length out \<le> i \<Longrightarrow> i \<le> length input \<Longrightarrow>
    length (snd (cobs_decode_loop input i out)) \<le> length input - (if i < length input then 1 else 0)"
proof (induction input i out rule: cobs_decode_loop.induct)
  case (1 input i out)
  define code where "code = input ! i"
  define copy where "copy = unat code - 1"
  show ?case
  proof (cases "i < length input \<and> code \<noteq> 0 \<and> i + 1 + copy \<le> length input")
    case False
    then show ?thesis using "1.prems"
      by (subst cobs_decode_loop.simps) (auto simp: code_def copy_def Let_def)
  next
    case True
    define out' where "out' = out @ take copy (drop (i + 1) input)"
    define nxt where "nxt = (if code < 255 \<and> i + 1 + copy < length input then out' @ [0] else out')"
    have eq: "cobs_decode_loop input i out = cobs_decode_loop input (i + 1 + copy) nxt"
      by (subst cobs_decode_loop.simps) (use True in \<open>simp add: Let_def code_def copy_def out'_def nxt_def\<close>)
    have ih: "length (snd (cobs_decode_loop input (i + 1 + copy) nxt))
        \<le> length input - (if i + 1 + copy < length input then 1 else 0)"
      if "length nxt \<le> i + 1 + copy"
      using "1.IH" [OF _ refl refl _ refl _ refl refl] True that
      unfolding code_def copy_def out'_def nxt_def by (meson not_less)
    have len: "length nxt \<le> i + 1 + copy" "i + 1 + copy = length input \<Longrightarrow> length nxt < length input"
      using True "1.prems" by (auto simp: nxt_def out'_def)
    show ?thesis
    proof (cases "i + 1 + copy < length input")
      case True
      with ih len eq show ?thesis by auto
    next
      case False
      with True have "i + 1 + copy = length input" by simp
      with len eq show ?thesis by (auto simp: cobs_decode_loop_end)
    qed
  qed
qed

section \<open>Properties\<close>

text \<open>The worst-case size of an encoding of \<open>n\<close> bytes, the buffer size the callers allocate for.\<close>

definition cobs_max_encoded :: "nat \<Rightarrow> nat" where
  "cobs_max_encoded n = n + n div 254 + 1"

lemma cobs_encode_ok:
  "cobs_max_encoded (length input) \<le> length output \<Longrightarrow> cobs_encoded input output = cobs_spec [] input"
  using cobs_spec_length_le [of "[]" input]
  by (intro cobs_encode_refines) (simp add: cobs_max_encoded_def)

text \<open>
  C24: COBS round trip. Whatever the frame (any bytes, any length, zeros included) and whatever the
  output buffer held before, decoding what the array encoder left in the buffer succeeds and
  returns the frame.
\<close>

theorem cobs_decode_encode:
  assumes "cobs_max_encoded (length input) \<le> length output"
  shows "cobs_decode (cobs_encoded input output) = (True, input)"
  using cobs_decode_loop_spec [of "[]" "[]" input "[]"] cobs_encode_ok [OF assms]
  by (simp add: cobs_decode_def)

theorem cobs_decode_encode_witness:
  "cobs_decode (cobs_encoded [17, 0, 34, 0] (replicate 6 7)) = (True, [17, 0, 34, 0])
    \<and> cobs_encoded [17, 0, 34, 0] (replicate 6 7) = [2, 17, 2, 34, 1]"
proof
  show "cobs_decode (cobs_encoded [17, 0, 34, 0] (replicate 6 7)) = (True, [17, 0, 34, 0])"
    by (rule cobs_decode_encode) (simp add: cobs_max_encoded_def)
  show "cobs_encoded [17, 0, 34, 0] (replicate 6 7) = [2, 17, 2, 34, 1]"
    by code_simp
qed

text \<open>
  What the encoder puts on the wire contains no zero byte, so a zero delimits frames
  unambiguously, and is between one and one-plus-one-in-254 bytes longer than the frame.
\<close>

theorem cobs_encoded_safe:
  assumes "cobs_max_encoded (length input) \<le> length output"
  shows "0 \<notin> set (cobs_encoded input output)
    \<and> length input < length (cobs_encoded input output)
    \<and> length (cobs_encoded input output) \<le> cobs_max_encoded (length input)"
  using cobs_encode_ok [OF assms] cobs_spec_no_zero [of "[]" input] cobs_spec_length_ge [of "[]" input]
    cobs_spec_length_le [of "[]" input]
  by (simp add: cobs_max_encoded_def)

theorem cobs_encoded_safe_witness:
  "0 \<notin> set (cobs_encoded [0, 0, 5] (replicate 4 0)) \<and> length (cobs_encoded [0, 0, 5] (replicate 4 0)) \<le> 4"
  using cobs_encoded_safe [of "[0, 0, 5]" "replicate 4 0"] by (simp add: cobs_max_encoded_def)

text \<open>
  The decoder is memory safe for a receive buffer of the size of its input: whatever bytes
  arrive, well-formed or not, it writes strictly fewer bytes than it was given.
\<close>

theorem cobs_decode_shrinks:
  assumes "input \<noteq> []"
  shows "length (snd (cobs_decode input)) < length input"
  using cobs_decode_loop_length [of "[]" 0 input] assms
  by (cases "length input") (auto simp: cobs_decode_def)

theorem cobs_decode_shrinks_witness:
  "length (snd (cobs_decode [255, 1, 2])) < 3 \<and> \<not> fst (cobs_decode [255, 1, 2])"
  using cobs_decode_shrinks [of "[255, 1, 2]"]
  by (simp add: cobs_decode_def cobs_decode_loop.simps)

end
