(* ===== verification/Codec.thy ===== *)
theory Codec
  imports Prelude
begin

text \<open>
  The packed structs of \<^verbatim>\<open>espnow_types.h\<close> are read and written by overlaying the
  struct on a byte buffer. A \<open>codec\<close> is one such layout: its size, which values fit it, the
  bytes it writes and what it reads from the front of a buffer. Layouts are put together field
  by field in declaration order (\<open>pair_codec\<close>) and renamed to the struct's record
  (\<open>iso_codec\<close>). The interface every layout obeys is the locale \<open>lawful_codec\<close>; the
  combinators preserve it, so a struct's laws are one interpretation.
\<close>

record 'a codec =
  c_width :: nat
  c_fits :: "'a \<Rightarrow> bool"
  c_enc :: "'a \<Rightarrow> bytes"
  c_dec :: "bytes \<Rightarrow> 'a option"

section \<open>Fields\<close>

definition u8_codec :: "u8 codec" where
  "u8_codec = \<lparr>c_width = 1, c_fits = (\<lambda>_. True), c_enc = (\<lambda>b. [b]),
     c_dec = (\<lambda>p. case p of [] \<Rightarrow> None | b # _ \<Rightarrow> Some b)\<rparr>"

definition u16_codec :: "u16 codec" where
  "u16_codec = \<lparr>c_width = 2, c_fits = (\<lambda>_. True), c_enc = le16,
     c_dec = (\<lambda>p. if length p < 2 then None else Some (rd16 p 0))\<rparr>"

definition u32_codec :: "u32 codec" where
  "u32_codec = \<lparr>c_width = 4, c_fits = (\<lambda>_. True), c_enc = le32,
     c_dec = (\<lambda>p. if length p < 4 then None else Some (rd32 p 0))\<rparr>"

definition array_codec :: "nat \<Rightarrow> bytes codec" where
  "array_codec n = \<lparr>c_width = n, c_fits = (\<lambda>a. length a = n), c_enc = (\<lambda>a. a),
     c_dec = (\<lambda>p. if length p < n then None else Some (take n p))\<rparr>"

definition pair_codec :: "'a codec \<Rightarrow> 'b codec \<Rightarrow> ('a \<times> 'b) codec" where
  "pair_codec A B = \<lparr>c_width = c_width A + c_width B,
     c_fits = (\<lambda>(a, b). c_fits A a \<and> c_fits B b),
     c_enc = (\<lambda>(a, b). c_enc A a @ c_enc B b),
     c_dec = (\<lambda>p. case c_dec A p of None \<Rightarrow> None
        | Some a \<Rightarrow> (case c_dec B (drop (c_width A) p) of None \<Rightarrow> None | Some b \<Rightarrow> Some (a, b)))\<rparr>"

definition iso_codec :: "('a \<Rightarrow> 'b) \<Rightarrow> ('b \<Rightarrow> 'a) \<Rightarrow> 'a codec \<Rightarrow> 'b codec" where
  "iso_codec mk un C = \<lparr>c_width = c_width C, c_fits = (\<lambda>x. c_fits C (un x)),
     c_enc = (\<lambda>x. c_enc C (un x)), c_dec = (\<lambda>p. map_option mk (c_dec C p))\<rparr>"

lemmas codec_defs = u8_codec_def u16_codec_def u32_codec_def array_codec_def pair_codec_def iso_codec_def

section \<open>The interface\<close>

locale lawful_codec =
  fixes C :: "'a codec"
  assumes enc_length: "c_fits C x \<Longrightarrow> length (c_enc C x) = c_width C"
    and dec_enc: "c_fits C x \<Longrightarrow> c_dec C (c_enc C x @ rest) = Some x"
    and enc_dec: "c_dec C p = Some x \<Longrightarrow> c_fits C x \<and> c_enc C x = take (c_width C) p"
    and dec_None_iff: "c_dec C p = None \<longleftrightarrow> length p < c_width C"
begin

lemma dec_enc_exact: "c_fits C x \<Longrightarrow> c_dec C (c_enc C x) = Some x"
  using dec_enc [of x "[]"] by simp

lemma dec_iff: "c_dec C p = Some x \<longleftrightarrow> c_fits C x \<and> (\<exists>rest. p = c_enc C x @ rest)"
  by (metis append_take_drop_id dec_enc enc_dec)

lemma enc_inj:
  assumes "c_fits C x" and "c_fits C y" and "c_enc C x @ r = c_enc C y @ s"
  shows "x = y \<and> r = s"
proof -
  have "c_dec C (c_enc C x @ r) = Some x" and "c_dec C (c_enc C y @ s) = Some y"
    using assms(1,2) by (simp_all add: dec_enc)
  with assms(3) have "x = y" by simp
  with assms(3) show ?thesis by simp
qed

lemma dec_total: "c_width C \<le> length p \<Longrightarrow> \<exists>x. c_dec C p = Some x \<and> c_fits C x"
  using dec_None_iff [of p] enc_dec [of p] by (cases "c_dec C p") auto

end

section \<open>The combinators obey the interface\<close>

lemma le16_rd16: "2 \<le> length p \<Longrightarrow> le16 (rd16 p 0) = take 2 p"
proof -
  assume "2 \<le> length p"
  then obtain a b r where p: "p = a # b # r"
    by (metis Suc_le_length_iff numeral_2_eq_2)
  have "ucast (rd16 p 0) = a"
    by (rule bit_word_eqI) (auto simp: p rd16_def bit_simps dest: bit_imp_le_length)
  moreover have "ucast (drop_bit 8 (rd16 p 0)) = b"
    by (rule bit_word_eqI) (auto simp: p rd16_def bit_simps dest: bit_imp_le_length)
  ultimately show ?thesis by (simp add: le16_def p)
qed

lemma le32_rd32: "4 \<le> length p \<Longrightarrow> le32 (rd32 p 0) = take 4 p"
proof -
  assume "4 \<le> length p"
  then obtain a q where "p = a # q" "3 \<le> length q" by (cases p) auto
  moreover then obtain b c where "q = b # c" "2 \<le> length c" by (cases q) auto
  moreover then obtain d e where "c = d # e" "1 \<le> length e" by (cases c) auto
  moreover then obtain f r where "e = f # r" by (cases e) auto
  ultimately have p: "p = a # b # d # f # r" by simp
  have "ucast (rd32 p 0) = a"
    by (rule bit_word_eqI) (auto simp: p rd32_def bit_simps dest: bit_imp_le_length)
  moreover have "ucast (drop_bit 8 (rd32 p 0)) = b"
    by (rule bit_word_eqI) (auto simp: p rd32_def bit_simps dest: bit_imp_le_length)
  moreover have "ucast (drop_bit 16 (rd32 p 0)) = d"
    by (rule bit_word_eqI) (auto simp: p rd32_def bit_simps dest: bit_imp_le_length)
  moreover have "ucast (drop_bit 24 (rd32 p 0)) = f"
    by (rule bit_word_eqI) (auto simp: p rd32_def bit_simps dest: bit_imp_le_length)
  ultimately show ?thesis by (simp add: le32_def p)
qed

named_theorems lawful \<open>layouts that obey the codec interface\<close>

lemma lawful_u8 [lawful]: "lawful_codec u8_codec"
  by unfold_locales (auto simp: u8_codec_def split: list.splits)

lemma lawful_u16 [lawful]: "lawful_codec u16_codec"
  by unfold_locales
    (auto simp: u16_codec_def rd16_append [of 0, simplified] rd16_le16 le16_rd16 split: if_splits)

lemma lawful_u32 [lawful]: "lawful_codec u32_codec"
proof unfold_locales
  fix x rest
  show "c_dec u32_codec (c_enc u32_codec x @ rest) = Some x"
    using rd32_append [of 0 "le32 x" rest] rd32_le32 [of x] by (simp add: u32_codec_def)
next
  fix p x assume "c_dec u32_codec p = Some x"
  then show "c_fits u32_codec x \<and> c_enc u32_codec x = take (c_width u32_codec) p"
    using le32_rd32 [of p] by (auto simp: u32_codec_def split: if_splits)
qed (simp_all add: u32_codec_def)

lemma lawful_array [lawful]: "lawful_codec (array_codec n)"
  by unfold_locales (auto simp: array_codec_def split: if_splits)

lemma lawful_pair [lawful]:
  assumes "lawful_codec A" and "lawful_codec B"
  shows "lawful_codec (pair_codec A B)"
proof -
  note A = lawful_codec.enc_length [OF assms(1)] lawful_codec.dec_enc [OF assms(1)]
  note B = lawful_codec.enc_length [OF assms(2)] lawful_codec.dec_enc [OF assms(2)]
  note Ad = lawful_codec.enc_dec [OF assms(1)] and Bd = lawful_codec.enc_dec [OF assms(2)]
  note An = lawful_codec.dec_None_iff [OF assms(1)] and Bn = lawful_codec.dec_None_iff [OF assms(2)]
  show ?thesis
  proof unfold_locales
    fix x rest assume "c_fits (pair_codec A B) x"
    then show "c_dec (pair_codec A B) (c_enc (pair_codec A B) x @ rest) = Some x"
      by (cases x) (simp add: pair_codec_def A B)
  next
    fix p x assume dec: "c_dec (pair_codec A B) p = Some x"
    obtain a b where x: "x = (a, b)" by (cases x)
    with dec have ab: "c_dec A p = Some a" "c_dec B (drop (c_width A) p) = Some b"
      by (auto simp: pair_codec_def split: option.splits)
    from Ad [OF ab(1)] Bd [OF ab(2)] show "c_fits (pair_codec A B) x \<and>
        c_enc (pair_codec A B) x = take (c_width (pair_codec A B)) p"
      by (simp add: x pair_codec_def take_add)
  next
    fix p
    show "(c_dec (pair_codec A B) p = None) = (length p < c_width (pair_codec A B))"
      using An [of p] Bn [of "drop (c_width A) p"]
      by (cases "c_dec A p"; cases "c_dec B (drop (c_width A) p)") (simp_all add: pair_codec_def)
  next
    fix x assume "c_fits (pair_codec A B) x"
    then show "length (c_enc (pair_codec A B) x) = c_width (pair_codec A B)"
      by (cases x) (simp add: pair_codec_def A B)
  qed
qed

lemma lawful_iso:
  assumes "lawful_codec C" and "\<And>x. mk (un x) = x" and "\<And>y. un (mk y) = y"
  shows "lawful_codec (iso_codec mk un C)"
proof -
  note C = lawful_codec.enc_length [OF assms(1)] lawful_codec.dec_enc [OF assms(1)]
    lawful_codec.dec_None_iff [OF assms(1)]
  note Cd = lawful_codec.enc_dec [OF assms(1)]
  show ?thesis
  proof unfold_locales
    fix p x assume "c_dec (iso_codec mk un C) p = Some x"
    then obtain y where "c_dec C p = Some y" "x = mk y" by (auto simp: iso_codec_def)
    with Cd show "c_fits (iso_codec mk un C) x \<and>
        c_enc (iso_codec mk un C) x = take (c_width (iso_codec mk un C)) p"
      by (simp add: iso_codec_def assms(3))
  qed (simp_all add: iso_codec_def C assms(2))
qed

end
