(* ===== verification/WireTypes.thy ===== *)
theory WireTypes
  imports Codec
begin

text \<open>
  The shared protocol vocabulary (\<^verbatim>\<open>esp_tree_common/espnow_types.h\<close>): constants, packet
  types and their classification, the hop-count byte, and every packed wire struct as a record
  with its layout. Each layout interprets the codec interface, which gives its round trips.
\<close>

section \<open>Constants\<close>

abbreviation (input) ESPNOW_PROTOCOL_VER :: u8 where "ESPNOW_PROTOCOL_VER \<equiv> 3"
abbreviation (input) ESPNOW_HEADER_WITH_PSK_TAG_LEN :: nat where "ESPNOW_HEADER_WITH_PSK_TAG_LEN \<equiv> 17"
abbreviation (input) ESPNOW_PSK_TAG_LEN :: nat where "ESPNOW_PSK_TAG_LEN \<equiv> 4"
abbreviation (input) ESPNOW_SESSION_TAG_LEN :: nat where "ESPNOW_SESSION_TAG_LEN \<equiv> 8"
abbreviation (input) ESPNOW_V1_MAX_PAYLOAD :: nat where "ESPNOW_V1_MAX_PAYLOAD \<equiv> 250"
abbreviation (input) ESPNOW_V2_MAX_PAYLOAD :: nat where "ESPNOW_V2_MAX_PAYLOAD \<equiv> 1470"
abbreviation (input) ESPNOW_SESSION_FLAG_V2_MTU :: u8 where "ESPNOW_SESSION_FLAG_V2_MTU \<equiv> 1"
abbreviation (input) ESPNOW_ENTITY_PACKET_HEADER_LEN :: nat where "ESPNOW_ENTITY_PACKET_HEADER_LEN \<equiv> 5"
abbreviation (input) ESPNOW_ENTITY_FLAG_MORE_FRAGMENTS :: u8 where "ESPNOW_ENTITY_FLAG_MORE_FRAGMENTS \<equiv> 1"
abbreviation (input) ESPNOW_ENTITY_FLAG_MORE_DIRTY :: u8 where "ESPNOW_ENTITY_FLAG_MORE_DIRTY \<equiv> 2"
abbreviation (input) ESPNOW_HOPS_DIR_BIT :: u8 where "ESPNOW_HOPS_DIR_BIT \<equiv> 128"
abbreviation (input) ESPNOW_HOPS_PARENT_CHECK_BIT :: u8 where "ESPNOW_HOPS_PARENT_CHECK_BIT \<equiv> 64"
abbreviation (input) ESPNOW_HOPS_COUNT_MASK :: u8 where "ESPNOW_HOPS_COUNT_MASK \<equiv> 15"
abbreviation (input) ESPNOW_HOPS_LIMIT :: nat where "ESPNOW_HOPS_LIMIT \<equiv> 8"
abbreviation (input) ESPNOW_HOPS_DIR_UP :: u8 where "ESPNOW_HOPS_DIR_UP \<equiv> 0"
abbreviation (input) ESPNOW_PARENT_MAC_LEN :: nat where "ESPNOW_PARENT_MAC_LEN \<equiv> 6"
abbreviation (input) ESPNOW_ROUTE_TTL_DEFAULT_SECONDS :: u32 where "ESPNOW_ROUTE_TTL_DEFAULT_SECONDS \<equiv> 172800"
abbreviation (input) ESPNOW_DISCOVER_ROUTE_TTL_MS :: u32 where "ESPNOW_DISCOVER_ROUTE_TTL_MS \<equiv> 5000"
abbreviation (input) ESPNOW_FILE_ACTION_OTA_FLASH :: u8 where "ESPNOW_FILE_ACTION_OTA_FLASH \<equiv> 1"
abbreviation (input) ESPNOW_FILE_PHASE_ANNOUNCE :: u8 where "ESPNOW_FILE_PHASE_ANNOUNCE \<equiv> 0"
abbreviation (input) ESPNOW_FILE_PHASE_END :: u8 where "ESPNOW_FILE_PHASE_END \<equiv> 1"
abbreviation (input) ESPNOW_FILE_PHASE_ABORT :: u8 where "ESPNOW_FILE_PHASE_ABORT \<equiv> 2"
abbreviation (input) ESPNOW_FILE_PHASE_BLAST_COMPLETE :: u8 where "ESPNOW_FILE_PHASE_BLAST_COMPLETE \<equiv> 3"
abbreviation (input) ESPNOW_FILE_ACK_ACCEPT :: u8 where "ESPNOW_FILE_ACK_ACCEPT \<equiv> 0"
abbreviation (input) ESPNOW_FILE_ACK_REJECT :: u8 where "ESPNOW_FILE_ACK_REJECT \<equiv> 1"
abbreviation (input) ESPNOW_FILE_ACK_COMPLETE :: u8 where "ESPNOW_FILE_ACK_COMPLETE \<equiv> 3"
abbreviation (input) ESPNOW_FILE_ACK_ABORT :: u8 where "ESPNOW_FILE_ACK_ABORT \<equiv> 4"
abbreviation (input) ESPNOW_FILE_ACK_GAPS :: u8 where "ESPNOW_FILE_ACK_GAPS \<equiv> 5"
abbreviation (input) ESPNOW_FILE_REJECT_BUSY :: u8 where "ESPNOW_FILE_REJECT_BUSY \<equiv> 1"
abbreviation (input) ESPNOW_FILE_REJECT_NO_SPACE :: u8 where "ESPNOW_FILE_REJECT_NO_SPACE \<equiv> 2"
abbreviation (input) ESPNOW_FILE_REJECT_UNSUPPORTED :: u8 where "ESPNOW_FILE_REJECT_UNSUPPORTED \<equiv> 3"
abbreviation (input) ESPNOW_FILE_REJECT_ALREADY :: u8 where "ESPNOW_FILE_REJECT_ALREADY \<equiv> 4"
abbreviation (input) ESPNOW_FILE_REJECT_DEEP_SLEEP :: u8 where "ESPNOW_FILE_REJECT_DEEP_SLEEP \<equiv> 5"
abbreviation (input) ESPNOW_FILE_REJECT_CHIP_MISMATCH :: u8 where "ESPNOW_FILE_REJECT_CHIP_MISMATCH \<equiv> 6"
abbreviation (input) ESPNOW_FILE_COMPLETE_SUCCESS :: u8 where "ESPNOW_FILE_COMPLETE_SUCCESS \<equiv> 0"
abbreviation (input) ESPNOW_FILE_COMPLETE_MD5_MISMATCH :: u8 where "ESPNOW_FILE_COMPLETE_MD5_MISMATCH \<equiv> 1"
abbreviation (input) ESPNOW_FILE_COMPLETE_FLASH_ERROR :: u8 where "ESPNOW_FILE_COMPLETE_FLASH_ERROR \<equiv> 2"
abbreviation (input) ESPNOW_FILE_COMPLETE_WRITE_ERROR :: u8 where "ESPNOW_FILE_COMPLETE_WRITE_ERROR \<equiv> 3"
abbreviation (input) ESPNOW_FILE_COMPLETE_ABORTED :: u8 where "ESPNOW_FILE_COMPLETE_ABORTED \<equiv> 4"
abbreviation (input) ESPNOW_FILE_ABORT_USER :: u8 where "ESPNOW_FILE_ABORT_USER \<equiv> 0"
abbreviation (input) ESPNOW_FILE_ABORT_TIMEOUT :: u8 where "ESPNOW_FILE_ABORT_TIMEOUT \<equiv> 1"
abbreviation (input) ESPNOW_FILE_ABORT_SESSION_LOST :: u8 where "ESPNOW_FILE_ABORT_SESSION_LOST \<equiv> 2"
abbreviation (input) ESPNOW_FILE_ABORT_SEND_FAILURE :: u8 where "ESPNOW_FILE_ABORT_SEND_FAILURE \<equiv> 3"
abbreviation (input) ESPNOW_FILE_ABORT_FLASH_ERROR :: u8 where "ESPNOW_FILE_ABORT_FLASH_ERROR \<equiv> 4"
abbreviation (input) ESPNOW_FILE_ANNOUNCE_TIMEOUT_MS :: u32 where "ESPNOW_FILE_ANNOUNCE_TIMEOUT_MS \<equiv> 5000"
abbreviation (input) ESPNOW_FILE_MAX_RETRIES :: u8 where "ESPNOW_FILE_MAX_RETRIES \<equiv> 3"
abbreviation (input) ESPNOW_BLAST_COMPLETE_TIMEOUT_MS :: u32 where "ESPNOW_BLAST_COMPLETE_TIMEOUT_MS \<equiv> 1000"
abbreviation (input) ESPNOW_MAX_BLAST_COMPLETE_RETRIES :: u8 where "ESPNOW_MAX_BLAST_COMPLETE_RETRIES \<equiv> 20"
abbreviation (input) ESPNOW_MAX_RETRANSMIT_ROUNDS :: u8 where "ESPNOW_MAX_RETRANSMIT_ROUNDS \<equiv> 10"
abbreviation (input) ESPNOW_RADIO_SILENCE_ABORT_MS :: u32 where "ESPNOW_RADIO_SILENCE_ABORT_MS \<equiv> 10000"
abbreviation (input) ESPNOW_WAITING_GAPS_TIMEOUT_MS :: u32 where "ESPNOW_WAITING_GAPS_TIMEOUT_MS \<equiv> 45000"
abbreviation (input) ESPNOW_MAX_INCREMENT_KB :: u16 where "ESPNOW_MAX_INCREMENT_KB \<equiv> 8"
abbreviation (input) ESPNOW_DESCRIPTOR_TYPE_IDENTITY :: u8 where "ESPNOW_DESCRIPTOR_TYPE_IDENTITY \<equiv> 0"
abbreviation (input) ESPNOW_DESCRIPTOR_TYPE_ENTITY :: u8 where "ESPNOW_DESCRIPTOR_TYPE_ENTITY \<equiv> 1"
abbreviation (input) ESPNOW_NODE_ROLE_BRIDGE :: u8 where "ESPNOW_NODE_ROLE_BRIDGE \<equiv> 0"
abbreviation (input) ESPNOW_NODE_ROLE_RELAY :: u8 where "ESPNOW_NODE_ROLE_RELAY \<equiv> 1"
abbreviation (input) CFG_CMD_REBOOT :: u8 where "CFG_CMD_REBOOT \<equiv> 1"
abbreviation (input) CFG_CMD_HEARTBEAT_INTERVAL :: u8 where "CFG_CMD_HEARTBEAT_INTERVAL \<equiv> 4"
abbreviation (input) CFG_CMD_FORCE_REDISCOVER :: u8 where "CFG_CMD_FORCE_REDISCOVER \<equiv> 5"
abbreviation (input) CFG_CMD_SET_PARENT_MAC :: u8 where "CFG_CMD_SET_PARENT_MAC \<equiv> 6"
abbreviation (input) CFG_CMD_RELAY :: u8 where "CFG_CMD_RELAY \<equiv> 7"
abbreviation (input) CFG_RESULT_OK :: u8 where "CFG_RESULT_OK \<equiv> 0"
abbreviation (input) CFG_RESULT_REJECTED :: u8 where "CFG_RESULT_REJECTED \<equiv> 1"
abbreviation (input) CFG_RESULT_UNSUPPORTED :: u8 where "CFG_RESULT_UNSUPPORTED \<equiv> 2"
abbreviation (input) CFG_RESULT_INVALID_PAYLOAD :: u8 where "CFG_RESULT_INVALID_PAYLOAD \<equiv> 3"
abbreviation (input) CFG_RESULT_BUSY :: u8 where "CFG_RESULT_BUSY \<equiv> 4"

abbreviation (input) ESPNOW_HOPS_DIR_DOWN :: u8 where "ESPNOW_HOPS_DIR_DOWN \<equiv> ESPNOW_HOPS_DIR_BIT"

text \<open>
  \<^verbatim>\<open>ESPNOW_FILE_DATA_HEADER_OVERHEAD\<close>: the frame header, the chunk sequence number and the
  session tag; and the chunk size that leaves room for them in the smallest frame.
\<close>

definition ESPNOW_FILE_DATA_HEADER_OVERHEAD :: nat where
  "ESPNOW_FILE_DATA_HEADER_OVERHEAD = ESPNOW_HEADER_WITH_PSK_TAG_LEN + 4 + ESPNOW_SESSION_TAG_LEN"

definition ESPNOW_FILE_DEFAULT_CHUNK_SIZE :: nat where
  "ESPNOW_FILE_DEFAULT_CHUNK_SIZE = ESPNOW_V1_MAX_PAYLOAD - ESPNOW_FILE_DATA_HEADER_OVERHEAD"

section \<open>Enumerations\<close>

datatype espnow_field_type =
    FIELD_TYPE_SENSOR
  | FIELD_TYPE_SWITCH
  | FIELD_TYPE_BINARY
  | FIELD_TYPE_BUTTON
  | FIELD_TYPE_NUMBER
  | FIELD_TYPE_TEXT
  | FIELD_TYPE_CLIMATE
  | FIELD_TYPE_COVER
  | FIELD_TYPE_LIGHT
  | FIELD_TYPE_FAN
  | FIELD_TYPE_LOCK
  | FIELD_TYPE_ALARM
  | FIELD_TYPE_SELECT
  | FIELD_TYPE_EVENT
  | FIELD_TYPE_HUMIDIFIER
  | FIELD_TYPE_DEHUMIDIFIER
  | FIELD_TYPE_VALVE
  | FIELD_TYPE_TIME
  | FIELD_TYPE_DATETIME
  | FIELD_TYPE_TEXT_SENSOR

fun field_type_code :: "espnow_field_type \<Rightarrow> u8" where
  "field_type_code FIELD_TYPE_SENSOR = 1"
| "field_type_code FIELD_TYPE_SWITCH = 2"
| "field_type_code FIELD_TYPE_BINARY = 3"
| "field_type_code FIELD_TYPE_BUTTON = 4"
| "field_type_code FIELD_TYPE_NUMBER = 5"
| "field_type_code FIELD_TYPE_TEXT = 6"
| "field_type_code FIELD_TYPE_CLIMATE = 7"
| "field_type_code FIELD_TYPE_COVER = 8"
| "field_type_code FIELD_TYPE_LIGHT = 9"
| "field_type_code FIELD_TYPE_FAN = 10"
| "field_type_code FIELD_TYPE_LOCK = 11"
| "field_type_code FIELD_TYPE_ALARM = 12"
| "field_type_code FIELD_TYPE_SELECT = 13"
| "field_type_code FIELD_TYPE_EVENT = 14"
| "field_type_code FIELD_TYPE_HUMIDIFIER = 15"
| "field_type_code FIELD_TYPE_DEHUMIDIFIER = 16"
| "field_type_code FIELD_TYPE_VALVE = 17"
| "field_type_code FIELD_TYPE_TIME = 18"
| "field_type_code FIELD_TYPE_DATETIME = 19"
| "field_type_code FIELD_TYPE_TEXT_SENSOR = 20"

datatype espnow_packet_type =
    PKT_DISCOVER
  | PKT_DISCOVER_ANNOUNCE
  | PKT_JOIN
  | PKT_JOIN_ACK
  | PKT_STATE
  | PKT_ACK
  | PKT_COMMAND
  | PKT_CONFIG
  | PKT_SCHEMA_REQUEST
  | PKT_SCHEMA_PUSH
  | PKT_HEARTBEAT
  | PKT_DEAUTH
  | PKT_FILE_TRANSFER
  | PKT_FILE_DATA

fun packet_code :: "espnow_packet_type \<Rightarrow> u8" where
  "packet_code PKT_DISCOVER = 0"
| "packet_code PKT_DISCOVER_ANNOUNCE = 1"
| "packet_code PKT_JOIN = 2"
| "packet_code PKT_JOIN_ACK = 3"
| "packet_code PKT_STATE = 4"
| "packet_code PKT_ACK = 5"
| "packet_code PKT_COMMAND = 6"
| "packet_code PKT_CONFIG = 7"
| "packet_code PKT_SCHEMA_REQUEST = 8"
| "packet_code PKT_SCHEMA_PUSH = 9"
| "packet_code PKT_HEARTBEAT = 16"
| "packet_code PKT_DEAUTH = 17"
| "packet_code PKT_FILE_TRANSFER = 18"
| "packet_code PKT_FILE_DATA = 19"

text \<open>
  A C enumeration holds any byte: the classifiers switch on the byte and have a default branch.
\<close>

definition packet_type_name :: "u8 \<Rightarrow> string" where
  "packet_type_name t = (
     if t = packet_code PKT_DISCOVER then ''DISCOVER'' else
     if t = packet_code PKT_DISCOVER_ANNOUNCE then ''DISCOVER_ANNOUNCE'' else
     if t = packet_code PKT_JOIN then ''JOIN'' else
     if t = packet_code PKT_JOIN_ACK then ''JOIN_ACK'' else
     if t = packet_code PKT_STATE then ''STATE'' else
     if t = packet_code PKT_ACK then ''ACK'' else
     if t = packet_code PKT_COMMAND then ''COMMAND'' else
     if t = packet_code PKT_CONFIG then ''CONFIG'' else
     if t = packet_code PKT_SCHEMA_REQUEST then ''SCHEMA_REQUEST'' else
     if t = packet_code PKT_SCHEMA_PUSH then ''SCHEMA_PUSH'' else
     if t = packet_code PKT_HEARTBEAT then ''HEARTBEAT'' else
     if t = packet_code PKT_DEAUTH then ''DEAUTH'' else
     if t = packet_code PKT_FILE_TRANSFER then ''FILE_TRANSFER'' else
     if t = packet_code PKT_FILE_DATA then ''FILE_DATA'' else
     ''UNKNOWN'')"

definition is_encrypted_packet :: "u8 \<Rightarrow> bool" where
  "is_encrypted_packet t \<longleftrightarrow>
     t = packet_code PKT_STATE
   \<or> t = packet_code PKT_ACK
   \<or> t = packet_code PKT_COMMAND
   \<or> t = packet_code PKT_CONFIG
   \<or> t = packet_code PKT_SCHEMA_REQUEST
   \<or> t = packet_code PKT_SCHEMA_PUSH
   \<or> t = packet_code PKT_HEARTBEAT
   \<or> t = packet_code PKT_FILE_TRANSFER
   \<or> t = packet_code PKT_FILE_DATA"

definition is_valid_packet_type :: "u8 \<Rightarrow> bool" where
  "is_valid_packet_type t \<longleftrightarrow>
     t = packet_code PKT_DISCOVER
   \<or> t = packet_code PKT_DISCOVER_ANNOUNCE
   \<or> t = packet_code PKT_JOIN
   \<or> t = packet_code PKT_JOIN_ACK
   \<or> t = packet_code PKT_STATE
   \<or> t = packet_code PKT_ACK
   \<or> t = packet_code PKT_COMMAND
   \<or> t = packet_code PKT_CONFIG
   \<or> t = packet_code PKT_SCHEMA_REQUEST
   \<or> t = packet_code PKT_SCHEMA_PUSH
   \<or> t = packet_code PKT_HEARTBEAT
   \<or> t = packet_code PKT_DEAUTH
   \<or> t = packet_code PKT_FILE_TRANSFER
   \<or> t = packet_code PKT_FILE_DATA"

definition abort_reason_to_string :: "u8 \<Rightarrow> string" where
  "abort_reason_to_string reason = (
     if reason = ESPNOW_FILE_ABORT_USER then ''user_abort'' else
     if reason = ESPNOW_FILE_ABORT_TIMEOUT then ''timeout'' else
     if reason = ESPNOW_FILE_ABORT_SESSION_LOST then ''session_lost'' else
     if reason = ESPNOW_FILE_ABORT_SEND_FAILURE then ''send_failure'' else
     if reason = ESPNOW_FILE_ABORT_FLASH_ERROR then ''flash_error'' else
     ''abort_unknown'')"

section \<open>The hop-count byte\<close>

definition hops_is_upstream :: "u8 \<Rightarrow> bool" where
  "hops_is_upstream h \<longleftrightarrow> h AND ESPNOW_HOPS_DIR_BIT = 0"

definition hops_is_downstream :: "u8 \<Rightarrow> bool" where
  "hops_is_downstream h \<longleftrightarrow> h AND ESPNOW_HOPS_DIR_BIT \<noteq> 0"

definition hops_make :: "u8 \<Rightarrow> u8 \<Rightarrow> u8" where
  "hops_make dir count = (dir AND ESPNOW_HOPS_DIR_BIT) OR (count AND ESPNOW_HOPS_COUNT_MASK)"

definition hops_count :: "u8 \<Rightarrow> u8" where
  "hops_count h = h AND ESPNOW_HOPS_COUNT_MASK"

definition espnow_is_parent_mac_all_zeros :: "bytes \<Rightarrow> bool" where
  "espnow_is_parent_mac_all_zeros mac \<longleftrightarrow>
     mac ! 0 = 0 \<and> mac ! 1 = 0 \<and> mac ! 2 = 0 \<and> mac ! 3 = 0 \<and> mac ! 4 = 0 \<and> mac ! 5 = 0"

section \<open>Packed structs\<close>

record espnow_frame_header =
  fh_protocol_version :: u8
  fh_hop_count :: u8
  fh_packet_type :: u8
  fh_leaf_mac :: bytes
  fh_tx_counter :: u32
  fh_psk_tag :: bytes

definition espnow_frame_header_codec :: "espnow_frame_header codec" where
  "espnow_frame_header_codec = iso_codec
     (\<lambda>(p0, h1, p2, l3, t4, p5). \<lparr>fh_protocol_version = p0, fh_hop_count = h1,
      fh_packet_type = p2, fh_leaf_mac = l3, fh_tx_counter = t4, fh_psk_tag = p5\<rparr>)
     (\<lambda>x. (fh_protocol_version x, fh_hop_count x, fh_packet_type x, fh_leaf_mac x,
      fh_tx_counter x, fh_psk_tag x))
     (pair_codec u8_codec (pair_codec u8_codec (pair_codec u8_codec (pair_codec (array_codec 6)
      (pair_codec u32_codec (array_codec 4))))))"

lemma lawful_espnow_frame_header [lawful]: "lawful_codec espnow_frame_header_codec"
  unfolding espnow_frame_header_codec_def
  by (rule lawful_iso) (simp_all add: lawful split_beta)

interpretation fh: lawful_codec espnow_frame_header_codec
  by (rule lawful_espnow_frame_header)

record espnow_discover =
  disc_network_id :: bytes
  disc_network_id_len :: u8
  disc_capability_flags :: u8

definition espnow_discover_codec :: "espnow_discover codec" where
  "espnow_discover_codec = iso_codec
     (\<lambda>(n0, n1, c2). \<lparr>disc_network_id = n0, disc_network_id_len = n1,
      disc_capability_flags = c2\<rparr>)
     (\<lambda>x. (disc_network_id x, disc_network_id_len x, disc_capability_flags x))
     (pair_codec (array_codec 32) (pair_codec u8_codec u8_codec))"

lemma lawful_espnow_discover [lawful]: "lawful_codec espnow_discover_codec"
  unfolding espnow_discover_codec_def
  by (rule lawful_iso) (simp_all add: lawful split_beta)

interpretation disc: lawful_codec espnow_discover_codec
  by (rule lawful_espnow_discover)

record espnow_discover_announce =
  ann_network_id :: bytes
  ann_network_id_len :: u8
  ann_responder_mac :: bytes
  ann_responder_role :: u8
  ann_hops_to_bridge :: u8
  ann_bridge_reachable :: u8
  ann_flags :: u8

definition espnow_discover_announce_codec :: "espnow_discover_announce codec" where
  "espnow_discover_announce_codec = iso_codec
     (\<lambda>(n0, n1, r2, r3, h4, b5, f6). \<lparr>ann_network_id = n0, ann_network_id_len = n1,
      ann_responder_mac = r2, ann_responder_role = r3, ann_hops_to_bridge = h4, ann_bridge_reachable
      = b5, ann_flags = f6\<rparr>)
     (\<lambda>x. (ann_network_id x, ann_network_id_len x, ann_responder_mac x, ann_responder_role
      x, ann_hops_to_bridge x, ann_bridge_reachable x, ann_flags x))
     (pair_codec (array_codec 32) (pair_codec u8_codec (pair_codec (array_codec 6) (pair_codec
      u8_codec (pair_codec u8_codec (pair_codec u8_codec u8_codec))))))"

lemma lawful_espnow_discover_announce [lawful]: "lawful_codec espnow_discover_announce_codec"
  unfolding espnow_discover_announce_codec_def
  by (rule lawful_iso) (simp_all add: lawful split_beta)

interpretation ann: lawful_codec espnow_discover_announce_codec
  by (rule lawful_espnow_discover_announce)

record espnow_join =
  join_remote_nonce :: bytes
  join_schema_hash :: bytes
  join_hops_to_bridge :: u8
  join_dirty_count :: u8
  join_session_flags :: u8

definition espnow_join_codec :: "espnow_join codec" where
  "espnow_join_codec = iso_codec
     (\<lambda>(r0, s1, h2, d3, s4). \<lparr>join_remote_nonce = r0, join_schema_hash = s1,
      join_hops_to_bridge = h2, join_dirty_count = d3, join_session_flags = s4\<rparr>)
     (\<lambda>x. (join_remote_nonce x, join_schema_hash x, join_hops_to_bridge x, join_dirty_count
      x, join_session_flags x))
     (pair_codec (array_codec 16) (pair_codec (array_codec 32) (pair_codec u8_codec (pair_codec
      u8_codec u8_codec))))"

lemma lawful_espnow_join [lawful]: "lawful_codec espnow_join_codec"
  unfolding espnow_join_codec_def
  by (rule lawful_iso) (simp_all add: lawful split_beta)

interpretation join: lawful_codec espnow_join_codec
  by (rule lawful_espnow_join)

record espnow_join_ack =
  jack_accepted :: u8
  jack_reason :: u8
  jack_stage :: u8
  jack_bridge_nonce :: bytes
  jack_session_flags :: u8

definition espnow_join_ack_codec :: "espnow_join_ack codec" where
  "espnow_join_ack_codec = iso_codec
     (\<lambda>(a0, r1, s2, b3, s4). \<lparr>jack_accepted = a0, jack_reason = r1, jack_stage = s2,
      jack_bridge_nonce = b3, jack_session_flags = s4\<rparr>)
     (\<lambda>x. (jack_accepted x, jack_reason x, jack_stage x, jack_bridge_nonce x,
      jack_session_flags x))
     (pair_codec u8_codec (pair_codec u8_codec (pair_codec u8_codec (pair_codec (array_codec 16)
      u8_codec))))"

lemma lawful_espnow_join_ack [lawful]: "lawful_codec espnow_join_ack_codec"
  unfolding espnow_join_ack_codec_def
  by (rule lawful_iso) (simp_all add: lawful split_beta)

interpretation jack: lawful_codec espnow_join_ack_codec
  by (rule lawful_espnow_join_ack)

record espnow_heartbeat =
  hb_uptime_seconds :: u32
  hb_expected_contact_interval_seconds :: u32
  hb_parent_mac :: bytes
  hb_direct_child_count :: u8
  hb_total_child_count :: u16
  hb_remote_rssi_dbm :: u8

definition espnow_heartbeat_codec :: "espnow_heartbeat codec" where
  "espnow_heartbeat_codec = iso_codec
     (\<lambda>(u0, e1, p2, d3, t4, r5). \<lparr>hb_uptime_seconds = u0,
      hb_expected_contact_interval_seconds = e1, hb_parent_mac = p2, hb_direct_child_count = d3,
      hb_total_child_count = t4, hb_remote_rssi_dbm = r5\<rparr>)
     (\<lambda>x. (hb_uptime_seconds x, hb_expected_contact_interval_seconds x, hb_parent_mac x,
      hb_direct_child_count x, hb_total_child_count x, hb_remote_rssi_dbm x))
     (pair_codec u32_codec (pair_codec u32_codec (pair_codec (array_codec 6) (pair_codec u8_codec
      (pair_codec u16_codec u8_codec)))))"

lemma lawful_espnow_heartbeat [lawful]: "lawful_codec espnow_heartbeat_codec"
  unfolding espnow_heartbeat_codec_def
  by (rule lawful_iso) (simp_all add: lawful split_beta)

interpretation hb: lawful_codec espnow_heartbeat_codec
  by (rule lawful_espnow_heartbeat)

record espnow_entity_packet_header =
  eph_entity_index :: u8
  eph_flags :: u8
  eph_fragment_index :: u8
  eph_fragment_count :: u8
  eph_value_len :: u8

definition espnow_entity_packet_header_codec :: "espnow_entity_packet_header codec" where
  "espnow_entity_packet_header_codec = iso_codec
     (\<lambda>(e0, f1, f2, f3, v4). \<lparr>eph_entity_index = e0, eph_flags = f1,
      eph_fragment_index = f2, eph_fragment_count = f3, eph_value_len = v4\<rparr>)
     (\<lambda>x. (eph_entity_index x, eph_flags x, eph_fragment_index x, eph_fragment_count x,
      eph_value_len x))
     (pair_codec u8_codec (pair_codec u8_codec (pair_codec u8_codec (pair_codec u8_codec
      u8_codec))))"

lemma lawful_espnow_entity_packet_header [lawful]: "lawful_codec espnow_entity_packet_header_codec"
  unfolding espnow_entity_packet_header_codec_def
  by (rule lawful_iso) (simp_all add: lawful split_beta)

interpretation eph: lawful_codec espnow_entity_packet_header_codec
  by (rule lawful_espnow_entity_packet_header)

record espnow_ack =
  ack_ack_type :: u8
  ack_result :: u8
  ack_ref_tx_counter :: u32

definition espnow_ack_codec :: "espnow_ack codec" where
  "espnow_ack_codec = iso_codec
     (\<lambda>(a0, r1, r2). \<lparr>ack_ack_type = a0, ack_result = r1, ack_ref_tx_counter =
      r2\<rparr>)
     (\<lambda>x. (ack_ack_type x, ack_result x, ack_ref_tx_counter x))
     (pair_codec u8_codec (pair_codec u8_codec u32_codec))"

lemma lawful_espnow_ack [lawful]: "lawful_codec espnow_ack_codec"
  unfolding espnow_ack_codec_def
  by (rule lawful_iso) (simp_all add: lawful split_beta)

interpretation ack: lawful_codec espnow_ack_codec
  by (rule lawful_espnow_ack)

record espnow_config =
  cfg_command :: u8
  cfg_flags :: u8
  cfg_payload_len :: u8

definition espnow_config_codec :: "espnow_config codec" where
  "espnow_config_codec = iso_codec
     (\<lambda>(c0, f1, p2). \<lparr>cfg_command = c0, cfg_flags = f1, cfg_payload_len =
      p2\<rparr>)
     (\<lambda>x. (cfg_command x, cfg_flags x, cfg_payload_len x))
     (pair_codec u8_codec (pair_codec u8_codec u8_codec))"

lemma lawful_espnow_config [lawful]: "lawful_codec espnow_config_codec"
  unfolding espnow_config_codec_def
  by (rule lawful_iso) (simp_all add: lawful split_beta)

interpretation cfg: lawful_codec espnow_config_codec
  by (rule lawful_espnow_config)

record espnow_state_ack =
  sack_rx_counter :: u32
  sack_result :: u8

definition espnow_state_ack_codec :: "espnow_state_ack codec" where
  "espnow_state_ack_codec = iso_codec
     (\<lambda>(r0, r1). \<lparr>sack_rx_counter = r0, sack_result = r1\<rparr>)
     (\<lambda>x. (sack_rx_counter x, sack_result x))
     (pair_codec u32_codec u8_codec)"

lemma lawful_espnow_state_ack [lawful]: "lawful_codec espnow_state_ack_codec"
  unfolding espnow_state_ack_codec_def
  by (rule lawful_iso) (simp_all add: lawful split_beta)

interpretation sack: lawful_codec espnow_state_ack_codec
  by (rule lawful_espnow_state_ack)

record espnow_command_ack =
  cack_field_index :: u8
  cack_result :: u8

definition espnow_command_ack_codec :: "espnow_command_ack codec" where
  "espnow_command_ack_codec = iso_codec
     (\<lambda>(f0, r1). \<lparr>cack_field_index = f0, cack_result = r1\<rparr>)
     (\<lambda>x. (cack_field_index x, cack_result x))
     (pair_codec u8_codec u8_codec)"

lemma lawful_espnow_command_ack [lawful]: "lawful_codec espnow_command_ack_codec"
  unfolding espnow_command_ack_codec_def
  by (rule lawful_iso) (simp_all add: lawful split_beta)

interpretation cack: lawful_codec espnow_command_ack_codec
  by (rule lawful_espnow_command_ack)

record espnow_schema_request =
  sreq_descriptor_type :: u8
  sreq_descriptor_index :: u8

definition espnow_schema_request_codec :: "espnow_schema_request codec" where
  "espnow_schema_request_codec = iso_codec
     (\<lambda>(d0, d1). \<lparr>sreq_descriptor_type = d0, sreq_descriptor_index = d1\<rparr>)
     (\<lambda>x. (sreq_descriptor_type x, sreq_descriptor_index x))
     (pair_codec u8_codec u8_codec)"

lemma lawful_espnow_schema_request [lawful]: "lawful_codec espnow_schema_request_codec"
  unfolding espnow_schema_request_codec_def
  by (rule lawful_iso) (simp_all add: lawful split_beta)

interpretation sreq: lawful_codec espnow_schema_request_codec
  by (rule lawful_espnow_schema_request)

record espnow_schema_push =
  spush_descriptor_type :: u8
  spush_descriptor_index :: u8
  spush_entity_index :: u8
  spush_total_entities :: u8
  spush_entity_type :: u8
  spush_entity_name :: bytes
  spush_entity_unit :: bytes
  spush_entity_id :: bytes

definition espnow_schema_push_codec :: "espnow_schema_push codec" where
  "espnow_schema_push_codec = iso_codec
     (\<lambda>(d0, d1, e2, t3, e4, e5, e6, e7). \<lparr>spush_descriptor_type = d0,
      spush_descriptor_index = d1, spush_entity_index = e2, spush_total_entities = t3,
      spush_entity_type = e4, spush_entity_name = e5, spush_entity_unit = e6, spush_entity_id =
      e7\<rparr>)
     (\<lambda>x. (spush_descriptor_type x, spush_descriptor_index x, spush_entity_index x,
      spush_total_entities x, spush_entity_type x, spush_entity_name x, spush_entity_unit x,
      spush_entity_id x))
     (pair_codec u8_codec (pair_codec u8_codec (pair_codec u8_codec (pair_codec u8_codec
      (pair_codec u8_codec (pair_codec (array_codec 32) (pair_codec (array_codec 8) (array_codec
      32))))))))"

lemma lawful_espnow_schema_push [lawful]: "lawful_codec espnow_schema_push_codec"
  unfolding espnow_schema_push_codec_def
  by (rule lawful_iso) (simp_all add: lawful split_beta)

interpretation spush: lawful_codec espnow_schema_push_codec
  by (rule lawful_espnow_schema_push)

record espnow_identity_descriptor =
  idd_esphome_name :: bytes
  idd_node_label :: bytes
  idd_firmware_epoch :: u32
  idd_project_name :: bytes
  idd_project_version :: bytes
  idd_total_entities :: u8
  idd_max_frame_payload :: u16
  idd_chip_model :: u32
  idd_build_date :: bytes
  idd_build_time :: bytes
  idd_firmware_md5 :: bytes

definition espnow_identity_descriptor_codec :: "espnow_identity_descriptor codec" where
  "espnow_identity_descriptor_codec = iso_codec
     (\<lambda>(e0, n1, f2, p3, p4, t5, m6, c7, b8, b9, f10). \<lparr>idd_esphome_name = e0,
      idd_node_label = n1, idd_firmware_epoch = f2, idd_project_name = p3, idd_project_version = p4,
      idd_total_entities = t5, idd_max_frame_payload = m6, idd_chip_model = c7, idd_build_date = b8,
      idd_build_time = b9, idd_firmware_md5 = f10\<rparr>)
     (\<lambda>x. (idd_esphome_name x, idd_node_label x, idd_firmware_epoch x, idd_project_name x,
      idd_project_version x, idd_total_entities x, idd_max_frame_payload x, idd_chip_model x,
      idd_build_date x, idd_build_time x, idd_firmware_md5 x))
     (pair_codec (array_codec 32) (pair_codec (array_codec 64) (pair_codec u32_codec (pair_codec
      (array_codec 32) (pair_codec (array_codec 16) (pair_codec u8_codec (pair_codec u16_codec
      (pair_codec u32_codec (pair_codec (array_codec 16) (pair_codec (array_codec 16) (array_codec
      16)))))))))))"

lemma lawful_espnow_identity_descriptor [lawful]: "lawful_codec espnow_identity_descriptor_codec"
  unfolding espnow_identity_descriptor_codec_def
  by (rule lawful_iso) (simp_all add: lawful split_beta)

interpretation idd: lawful_codec espnow_identity_descriptor_codec
  by (rule lawful_espnow_identity_descriptor)

record espnow_identity_push =
  idp_descriptor_type :: u8
  idp_descriptor_index :: u8
  idp_identity :: espnow_identity_descriptor

definition espnow_identity_push_codec :: "espnow_identity_push codec" where
  "espnow_identity_push_codec = iso_codec
     (\<lambda>(d0, d1, i2). \<lparr>idp_descriptor_type = d0, idp_descriptor_index = d1,
      idp_identity = i2\<rparr>)
     (\<lambda>x. (idp_descriptor_type x, idp_descriptor_index x, idp_identity x))
     (pair_codec u8_codec (pair_codec u8_codec espnow_identity_descriptor_codec))"

lemma lawful_espnow_identity_push [lawful]: "lawful_codec espnow_identity_push_codec"
  unfolding espnow_identity_push_codec_def
  by (rule lawful_iso) (simp_all add: lawful split_beta)

interpretation idp: lawful_codec espnow_identity_push_codec
  by (rule lawful_espnow_identity_push)

record espnow_file_announce =
  fann_phase :: u8
  fann_file_size :: u32
  fann_md5 :: bytes
  fann_chunk_size :: u16
  fann_action :: u8
  fann_file_id :: bytes

definition espnow_file_announce_codec :: "espnow_file_announce codec" where
  "espnow_file_announce_codec = iso_codec
     (\<lambda>(p0, f1, m2, c3, a4, f5). \<lparr>fann_phase = p0, fann_file_size = f1, fann_md5 =
      m2, fann_chunk_size = c3, fann_action = a4, fann_file_id = f5\<rparr>)
     (\<lambda>x. (fann_phase x, fann_file_size x, fann_md5 x, fann_chunk_size x, fann_action x,
      fann_file_id x))
     (pair_codec u8_codec (pair_codec u32_codec (pair_codec (array_codec 16) (pair_codec u16_codec
      (pair_codec u8_codec (array_codec 12))))))"

lemma lawful_espnow_file_announce [lawful]: "lawful_codec espnow_file_announce_codec"
  unfolding espnow_file_announce_codec_def
  by (rule lawful_iso) (simp_all add: lawful split_beta)

interpretation fann: lawful_codec espnow_file_announce_codec
  by (rule lawful_espnow_file_announce)

record espnow_file_end =
  fend_phase :: u8

definition espnow_file_end_codec :: "espnow_file_end codec" where
  "espnow_file_end_codec = iso_codec
     (\<lambda>p0. \<lparr>fend_phase = p0\<rparr>)
     (\<lambda>x. fend_phase x)
     (u8_codec)"

lemma lawful_espnow_file_end [lawful]: "lawful_codec espnow_file_end_codec"
  unfolding espnow_file_end_codec_def
  by (rule lawful_iso) (simp_all add: lawful split_beta)

interpretation fend: lawful_codec espnow_file_end_codec
  by (rule lawful_espnow_file_end)

record espnow_file_abort =
  fabort_phase :: u8
  fabort_reason :: u8

definition espnow_file_abort_codec :: "espnow_file_abort codec" where
  "espnow_file_abort_codec = iso_codec
     (\<lambda>(p0, r1). \<lparr>fabort_phase = p0, fabort_reason = r1\<rparr>)
     (\<lambda>x. (fabort_phase x, fabort_reason x))
     (pair_codec u8_codec u8_codec)"

lemma lawful_espnow_file_abort [lawful]: "lawful_codec espnow_file_abort_codec"
  unfolding espnow_file_abort_codec_def
  by (rule lawful_iso) (simp_all add: lawful split_beta)

interpretation fabort: lawful_codec espnow_file_abort_codec
  by (rule lawful_espnow_file_abort)

record espnow_file_blast_complete =
  fbc_phase :: u8
  fbc_increment_index :: u16

definition espnow_file_blast_complete_codec :: "espnow_file_blast_complete codec" where
  "espnow_file_blast_complete_codec = iso_codec
     (\<lambda>(p0, i1). \<lparr>fbc_phase = p0, fbc_increment_index = i1\<rparr>)
     (\<lambda>x. (fbc_phase x, fbc_increment_index x))
     (pair_codec u8_codec u16_codec)"

lemma lawful_espnow_file_blast_complete [lawful]: "lawful_codec espnow_file_blast_complete_codec"
  unfolding espnow_file_blast_complete_codec_def
  by (rule lawful_iso) (simp_all add: lawful split_beta)

interpretation fbc: lawful_codec espnow_file_blast_complete_codec
  by (rule lawful_espnow_file_blast_complete)

record espnow_file_data_header =
  fdh_sequence :: u32

definition espnow_file_data_header_codec :: "espnow_file_data_header codec" where
  "espnow_file_data_header_codec = iso_codec
     (\<lambda>s0. \<lparr>fdh_sequence = s0\<rparr>)
     (\<lambda>x. fdh_sequence x)
     (u32_codec)"

lemma lawful_espnow_file_data_header [lawful]: "lawful_codec espnow_file_data_header_codec"
  unfolding espnow_file_data_header_codec_def
  by (rule lawful_iso) (simp_all add: lawful split_beta)

interpretation fdh: lawful_codec espnow_file_data_header_codec
  by (rule lawful_espnow_file_data_header)

record espnow_deauth =
  deauth_reason :: u8
  deauth_response_to_packet_type :: u8
  deauth_response_to_tx_counter :: u32
  deauth_request_fingerprint :: bytes

definition espnow_deauth_codec :: "espnow_deauth codec" where
  "espnow_deauth_codec = iso_codec
     (\<lambda>(r0, r1, r2, r3). \<lparr>deauth_reason = r0, deauth_response_to_packet_type = r1,
      deauth_response_to_tx_counter = r2, deauth_request_fingerprint = r3\<rparr>)
     (\<lambda>x. (deauth_reason x, deauth_response_to_packet_type x, deauth_response_to_tx_counter
      x, deauth_request_fingerprint x))
     (pair_codec u8_codec (pair_codec u8_codec (pair_codec u32_codec (array_codec 4))))"

lemma lawful_espnow_deauth [lawful]: "lawful_codec espnow_deauth_codec"
  unfolding espnow_deauth_codec_def
  by (rule lawful_iso) (simp_all add: lawful split_beta)

interpretation deauth: lawful_codec espnow_deauth_codec
  by (rule lawful_espnow_deauth)

lemma codec_widths [simp]:
  "c_width espnow_frame_header_codec = 17"
  "c_width espnow_discover_codec = 34"
  "c_width espnow_discover_announce_codec = 43"
  "c_width espnow_join_codec = 51"
  "c_width espnow_join_ack_codec = 20"
  "c_width espnow_heartbeat_codec = 18"
  "c_width espnow_entity_packet_header_codec = 5"
  "c_width espnow_ack_codec = 6"
  "c_width espnow_config_codec = 3"
  "c_width espnow_state_ack_codec = 5"
  "c_width espnow_command_ack_codec = 2"
  "c_width espnow_schema_request_codec = 2"
  "c_width espnow_schema_push_codec = 77"
  "c_width espnow_identity_descriptor_codec = 203"
  "c_width espnow_identity_push_codec = 205"
  "c_width espnow_file_announce_codec = 36"
  "c_width espnow_file_end_codec = 1"
  "c_width espnow_file_abort_codec = 2"
  "c_width espnow_file_blast_complete_codec = 3"
  "c_width espnow_file_data_header_codec = 4"
  "c_width espnow_deauth_codec = 10"
  by (simp_all add: espnow_frame_header_codec_def espnow_discover_codec_def espnow_discover_announce_codec_def espnow_join_codec_def espnow_join_ack_codec_def espnow_heartbeat_codec_def espnow_entity_packet_header_codec_def espnow_ack_codec_def espnow_config_codec_def espnow_state_ack_codec_def espnow_command_ack_codec_def espnow_schema_request_codec_def espnow_schema_push_codec_def espnow_identity_descriptor_codec_def espnow_identity_push_codec_def espnow_file_announce_codec_def espnow_file_end_codec_def espnow_file_abort_codec_def espnow_file_blast_complete_codec_def espnow_file_data_header_codec_def espnow_deauth_codec_def codec_defs)

end
