(* ===== verification/Payloads.thy ===== *)
theory Payloads
  imports WireTypes
begin

text \<open>
  The payload helpers of \<^verbatim>\<open>espnow_types.h\<close>: entity packets (state and command values),
  schema and identity descriptors, the replay counter order, and the sizes derived from the
  negotiated frame length. A C pointer with a length is a byte list; a pointer that may be null
  is an option; a view's pointer into the payload is the bytes it points at.
\<close>

section \<open>Entity packets\<close>

record EntityPayloadView =
  epv_entity_index :: u8
  epv_flags :: u8
  epv_fragment_index :: u8
  epv_fragment_count :: u8
  epv_value :: bytes

definition parse_entity_payload :: "bytes \<Rightarrow> EntityPayloadView option" where
  "parse_entity_payload payload =
     (case c_dec espnow_entity_packet_header_codec payload of
        None \<Rightarrow> None
      | Some header \<Rightarrow>
          if eph_fragment_count header = 0 then None
          else if eph_fragment_count header \<le> eph_fragment_index header then None
          else Some \<lparr>epv_entity_index = eph_entity_index header, epv_flags = eph_flags header,
                 epv_fragment_index = eph_fragment_index header,
                 epv_fragment_count = eph_fragment_count header,
                 epv_value = drop ESPNOW_ENTITY_PACKET_HEADER_LEN payload\<rparr>)"

text \<open>
  The payload is resized (new bytes are zero) and the header written; the value is copied unless
  the pointer is null. The length byte of the header is the value length modulo 256.
\<close>

definition append_entity_payload :: "u8 \<Rightarrow> u8 \<Rightarrow> u8 \<Rightarrow> u8 \<Rightarrow> bytes option \<Rightarrow> nat \<Rightarrow> bytes" where
  "append_entity_payload entity_index flags fragment_index fragment_count value value_len =
     c_enc espnow_entity_packet_header_codec
       \<lparr>eph_entity_index = entity_index, eph_flags = flags, eph_fragment_index = fragment_index,
        eph_fragment_count = (if fragment_count = 0 then 1 else fragment_count),
        eph_value_len = of_nat value_len\<rparr>
     @ (case value of Some v \<Rightarrow> take value_len v | None \<Rightarrow> replicate value_len 0)"

definition fragment_message_tx_base :: "espnow_frame_header \<Rightarrow> EntityPayloadView \<Rightarrow> u32" where
  "fragment_message_tx_base header view = fh_tx_counter header - ucast (epv_fragment_index view)"

section \<open>The replay counter\<close>

definition counter_is_newer :: "u32 \<Rightarrow> u32 \<Rightarrow> bool" where
  "counter_is_newer candidate previous \<longleftrightarrow> 0 < sint (candidate - previous)"

section \<open>Schema and identity descriptors\<close>

text \<open>A zeroed array field of size \<open>n\<close> after \<^verbatim>\<open>memcpy(field, src, min(len, sizeof(field)))\<close>.\<close>

definition zero_padded :: "nat \<Rightarrow> bytes \<Rightarrow> bytes" where
  "zero_padded n src = take n src @ replicate (n - length src) 0"

record SchemaPushView =
  spv_descriptor_type :: u8
  spv_descriptor_index :: u8
  spv_entity_index :: u8
  spv_total_entities :: u8
  spv_entity_type :: u8
  spv_entity_name :: bytes
  spv_entity_unit :: bytes
  spv_entity_id :: bytes
  spv_entity_options :: bytes

definition schema_push_payload_len :: nat where
  "schema_push_payload_len = c_width espnow_schema_push_codec"

definition parse_schema_push_payload :: "bytes \<Rightarrow> SchemaPushView option" where
  "parse_schema_push_payload payload =
     (case c_dec espnow_schema_push_codec payload of
        None \<Rightarrow> None
      | Some schema \<Rightarrow> Some
          \<lparr>spv_descriptor_type = spush_descriptor_type schema,
           spv_descriptor_index = spush_descriptor_index schema,
           spv_entity_index = spush_entity_index schema,
           spv_total_entities = spush_total_entities schema,
           spv_entity_type = spush_entity_type schema,
           spv_entity_name = spush_entity_name schema,
           spv_entity_unit = spush_entity_unit schema,
           spv_entity_id = spush_entity_id schema,
           spv_entity_options = drop schema_push_payload_len payload\<rparr>)"

definition append_schema_push_payload ::
  "u8 \<Rightarrow> u8 \<Rightarrow> u8 \<Rightarrow> u8 \<Rightarrow> u8 \<Rightarrow> bytes \<Rightarrow> bytes \<Rightarrow> bytes \<Rightarrow> bytes \<Rightarrow> bytes" where
  "append_schema_push_payload descriptor_type descriptor_index entity_index total_entities entity_type
     entity_name entity_unit entity_id entity_options =
     c_enc espnow_schema_push_codec
       \<lparr>spush_descriptor_type = descriptor_type, spush_descriptor_index = descriptor_index,
        spush_entity_index = entity_index, spush_total_entities = total_entities,
        spush_entity_type = entity_type,
        spush_entity_name = zero_padded 32 entity_name,
        spush_entity_unit = zero_padded 8 entity_unit,
        spush_entity_id = zero_padded 32 entity_id\<rparr> @ entity_options"

record IdentityDescriptorView =
  idv_esphome_name :: bytes
  idv_node_label :: bytes
  idv_firmware_epoch :: u32
  idv_project_name :: bytes
  idv_project_version :: bytes
  idv_total_entities :: u8
  idv_max_frame_payload :: u16
  idv_chip_model :: u32
  idv_build_date :: bytes
  idv_build_time :: bytes
  idv_firmware_md5 :: bytes

definition parse_identity_descriptor_payload :: "bytes \<Rightarrow> (IdentityDescriptorView \<times> u8) option" where
  "parse_identity_descriptor_payload payload =
     (case c_dec espnow_identity_push_codec payload of
        None \<Rightarrow> None
      | Some identity_push \<Rightarrow>
          if length payload \<noteq> c_width espnow_identity_push_codec then None
          else if idp_descriptor_type identity_push \<noteq> ESPNOW_DESCRIPTOR_TYPE_IDENTITY then None
          else (let i = idp_identity identity_push in Some
            (\<lparr>idv_esphome_name = idd_esphome_name i, idv_node_label = idd_node_label i,
              idv_firmware_epoch = idd_firmware_epoch i, idv_project_name = idd_project_name i,
              idv_project_version = idd_project_version i,
              idv_total_entities = idd_total_entities i,
              idv_max_frame_payload = idd_max_frame_payload i, idv_chip_model = idd_chip_model i,
              idv_build_date = idd_build_date i, idv_build_time = idd_build_time i,
              idv_firmware_md5 = idd_firmware_md5 i\<rparr>, idp_descriptor_index identity_push)))"

definition append_identity_descriptor_payload ::
  "bytes \<Rightarrow> bytes \<Rightarrow> u32 \<Rightarrow> bytes \<Rightarrow> bytes \<Rightarrow> u8 \<Rightarrow> u16 \<Rightarrow> u32 \<Rightarrow> bytes \<Rightarrow> bytes \<Rightarrow> bytes \<Rightarrow> bytes" where
  "append_identity_descriptor_payload esphome_name node_label firmware_epoch project_name
     project_version total_entities max_frame_payload chip_model build_date build_time firmware_md5 =
     c_enc espnow_identity_push_codec
       \<lparr>idp_descriptor_type = ESPNOW_DESCRIPTOR_TYPE_IDENTITY, idp_descriptor_index = 0,
        idp_identity =
          \<lparr>idd_esphome_name = zero_padded 32 esphome_name,
           idd_node_label = zero_padded 64 node_label,
           idd_firmware_epoch = firmware_epoch,
           idd_project_name = zero_padded 32 project_name,
           idd_project_version = zero_padded 16 project_version,
           idd_total_entities = total_entities,
           idd_max_frame_payload = max_frame_payload,
           idd_chip_model = chip_model,
           idd_build_date = zero_padded 16 build_date,
           idd_build_time = zero_padded 16 build_time,
           idd_firmware_md5 = zero_padded 16 firmware_md5\<rparr>\<rparr>"

section \<open>Sizes derived from the frame length\<close>

definition espnow_max_plaintext :: "u16 \<Rightarrow> u16" where
  "espnow_max_plaintext max_payload =
     max_payload - of_nat ESPNOW_HEADER_WITH_PSK_TAG_LEN - of_nat ESPNOW_SESSION_TAG_LEN"

definition espnow_max_plaintext_with_parent :: "u16 \<Rightarrow> u16" where
  "espnow_max_plaintext_with_parent max_payload =
     max_payload - of_nat ESPNOW_HEADER_WITH_PSK_TAG_LEN - of_nat ESPNOW_PARENT_MAC_LEN
       - of_nat ESPNOW_SESSION_TAG_LEN"

definition espnow_max_entity_fragment :: "u16 \<Rightarrow> u16" where
  "espnow_max_entity_fragment max_payload =
     espnow_max_plaintext max_payload - of_nat ESPNOW_ENTITY_PACKET_HEADER_LEN"

definition espnow_max_entity_fragment_with_parent :: "u16 \<Rightarrow> u16" where
  "espnow_max_entity_fragment_with_parent max_payload =
     espnow_max_plaintext_with_parent max_payload - of_nat ESPNOW_ENTITY_PACKET_HEADER_LEN"

definition espnow_max_assembly_bytes :: "u16 \<Rightarrow> u16" where
  "espnow_max_assembly_bytes max_payload = espnow_max_entity_fragment max_payload * 6"

definition espnow_max_total_fragment_bytes :: "u16 \<Rightarrow> u16" where
  "espnow_max_total_fragment_bytes max_payload = espnow_max_assembly_bytes max_payload * 4"

definition RETRY_BACKOFF_MS :: "u16 list" where
  "RETRY_BACKOFF_MS = [200, 400, 800, 1600]"

definition retry_backoff_ms :: "u8 \<Rightarrow> u32" where
  "retry_backoff_ms retry_count =
     ucast (RETRY_BACKOFF_MS ! min (unat retry_count) (length RETRY_BACKOFF_MS - 1))"

section \<open>Lemmas\<close>

lemma length_zero_padded [simp]: "length (zero_padded n src) = n"
  by (simp add: zero_padded_def)

lemma zero_padded_prefix: "take (min n (length src)) (zero_padded n src) = take n src"
  by (simp add: zero_padded_def min_def)

lemmas struct_fits_simps =
  espnow_entity_packet_header_codec_def espnow_schema_push_codec_def
  espnow_identity_push_codec_def espnow_identity_descriptor_codec_def codec_defs

lemma eph_fits [simp]: "c_fits espnow_entity_packet_header_codec h"
  by (simp add: struct_fits_simps)

lemma spush_fits: "c_fits espnow_schema_push_codec s \<longleftrightarrow>
    length (spush_entity_name s) = 32 \<and> length (spush_entity_unit s) = 8 \<and> length (spush_entity_id s) = 32"
  by (simp add: struct_fits_simps)

lemma idp_fits: "c_fits espnow_identity_push_codec p \<longleftrightarrow>
    (let i = idp_identity p in length (idd_esphome_name i) = 32 \<and> length (idd_node_label i) = 64
     \<and> length (idd_project_name i) = 32 \<and> length (idd_project_version i) = 16
     \<and> length (idd_build_date i) = 16 \<and> length (idd_build_time i) = 16 \<and> length (idd_firmware_md5 i) = 16)"
  by (simp add: struct_fits_simps Let_def)

lemma sint_pos_u32: "0 < sint (w :: u32) \<longleftrightarrow> 0 < unat w \<and> unat w < 2 ^ 31"
proof -
  have "sint w = (if unat w < 2 ^ 31 then int (unat w) else int (unat w) - 2 ^ 32)"
  proof -
    have "sint w = signed_take_bit 31 (int (unat w))"
      by (simp add: sint_uint)
    also have "\<dots> = (if unat w < 2 ^ 31 then int (unat w) else int (unat w) - 2 ^ 32)"
    proof (cases "unat w < 2 ^ 31")
      case True
      then have "signed_take_bit 31 (int (unat w)) = int (unat w)"
        by (intro signed_take_bit_int_eq_self) (use True in \<open>simp_all del: of_nat_unat\<close>)
      with True show ?thesis by simp
    next
      case False
      have "signed_take_bit 31 (int (unat w)) = signed_take_bit 31 (int (unat w) - 2 ^ 32)"
        by (simp add: signed_take_bit_eq_iff_take_bit_eq take_bit_eq_mod)
      also have "\<dots> = int (unat w) - 2 ^ 32"
        by (intro signed_take_bit_int_eq_self)
          (use False less_trans [OF unat_u32_bound [of w]] in \<open>simp_all del: of_nat_unat\<close>)
      finally show ?thesis using False by simp
    qed
    finally show ?thesis .
  qed
  then show ?thesis using less_not_sym [OF unat_u32_bound [of w]] by (simp del: of_nat_unat)
qed

lemma unat_neg_u32: "unat (- w :: u32) = (if w = 0 then 0 else 2 ^ 32 - unat w)"
  using unat_sub_if_size [of 0 w] by (simp add: word_size unat_eq_0)

section \<open>Properties\<close>

text \<open>
  Entity packets round trip. For every index, flags and value (even one longer than the
  header's one-byte length field can express, as happens with long frames) a packet built with a
  fragment index below its fragment count parses back to exactly its parts; a fragment count of
  zero is sent as one.
\<close>

theorem parse_append_entity_payload:
  assumes "fragment_index < (if fragment_count = 0 then 1 else fragment_count)"
  shows "parse_entity_payload
      (append_entity_payload entity_index flags fragment_index fragment_count (Some value) (length value)) =
    Some \<lparr>epv_entity_index = entity_index, epv_flags = flags, epv_fragment_index = fragment_index,
       epv_fragment_count = (if fragment_count = 0 then 1 else fragment_count), epv_value = value\<rparr>"
  using assms eph.enc_length by (simp add: parse_entity_payload_def append_entity_payload_def eph.dec_enc not_le)

theorem parse_append_entity_payload_witness:
  "parse_entity_payload (append_entity_payload 7 1 2 5 (Some [10, 20]) (length [10 :: u8, 20])) =
     Some \<lparr>epv_entity_index = 7, epv_flags = 1, epv_fragment_index = 2, epv_fragment_count = 5,
       epv_value = [10, 20]\<rparr>"
  using parse_append_entity_payload [of 2 5 7 1 "[10, 20]"] by simp

text \<open>
  The replay counter is a window comparison modulo \<open>2 ^ 32\<close>: a counter is newer exactly when
  it is between 1 and \<open>2 ^ 31 - 1\<close> steps ahead, so it survives wrap-around, and two counters are
  never newer than each other.
\<close>

theorem counter_is_newer_window:
  "(counter_is_newer (previous + of_nat k) previous \<longleftrightarrow> 0 < k mod 2 ^ 32 \<and> k mod 2 ^ 32 < 2 ^ 31)
    \<and> \<not> (counter_is_newer a b \<and> counter_is_newer b a)"
proof
  have "unat (of_nat k :: u32) = k mod 2 ^ 32" by (simp add: unat_of_nat take_bit_eq_mod)
  then show "counter_is_newer (previous + of_nat k) previous \<longleftrightarrow> 0 < k mod 2 ^ 32 \<and> k mod 2 ^ 32 < 2 ^ 31"
    by (simp add: counter_is_newer_def sint_pos_u32)
  have "unat (b - a) = (if a = b then 0 else 2 ^ 32 - unat (a - b))"
  proof -
    have "b - a = - (a - b)" by simp
    then show ?thesis by (metis eq_iff_diff_eq_0 unat_0 unat_neg_u32)
  qed
  then show "\<not> (counter_is_newer a b \<and> counter_is_newer b a)"
    using unat_u32_bound [of "a - b"] by (auto simp: counter_is_newer_def sint_pos_u32 split: if_splits)
qed

text \<open>
  Schema and identity descriptors round trip: what a node sends is parsed back with the same
  numbers, the entity options verbatim, and every name cut or zero-filled to its field size.
\<close>

theorem parse_append_descriptors:
  "parse_schema_push_payload (append_schema_push_payload dt di ei te et name unit eid options) =
     Some \<lparr>spv_descriptor_type = dt, spv_descriptor_index = di, spv_entity_index = ei,
       spv_total_entities = te, spv_entity_type = et, spv_entity_name = zero_padded 32 name,
       spv_entity_unit = zero_padded 8 unit, spv_entity_id = zero_padded 32 eid,
       spv_entity_options = options\<rparr>
   \<and> parse_identity_descriptor_payload
     (append_identity_descriptor_payload nm lbl epoch pn pv tot mfp chip bd bt md5) =
     Some (\<lparr>idv_esphome_name = zero_padded 32 nm, idv_node_label = zero_padded 64 lbl,
       idv_firmware_epoch = epoch, idv_project_name = zero_padded 32 pn,
       idv_project_version = zero_padded 16 pv, idv_total_entities = tot,
       idv_max_frame_payload = mfp, idv_chip_model = chip, idv_build_date = zero_padded 16 bd,
       idv_build_time = zero_padded 16 bt, idv_firmware_md5 = zero_padded 16 md5\<rparr>, 0)"
  by (simp add: parse_schema_push_payload_def append_schema_push_payload_def schema_push_payload_len_def
      spush.dec_enc spush.enc_length spush_fits parse_identity_descriptor_payload_def
      append_identity_descriptor_payload_def idp.dec_enc_exact idp.enc_length idp_fits Let_def)

text \<open>
  For any frame length from the 30 bytes of overhead up to 2760, the derived sizes do not wrap:
  a maximal fragment with its headers and tag fills the frame exactly, six fragments fit an
  assembly, and the session total is four assemblies.
\<close>

theorem fragment_sizes:
  assumes "30 \<le> unat max_payload" and "unat max_payload \<le> 2760"
  shows "ESPNOW_HEADER_WITH_PSK_TAG_LEN + ESPNOW_ENTITY_PACKET_HEADER_LEN
      + unat (espnow_max_entity_fragment max_payload) + ESPNOW_SESSION_TAG_LEN = unat max_payload
    \<and> unat (espnow_max_assembly_bytes max_payload) = 6 * unat (espnow_max_entity_fragment max_payload)
    \<and> unat (espnow_max_total_fragment_bytes max_payload) = 24 * unat (espnow_max_entity_fragment max_payload)"
proof -
  have f: "unat (espnow_max_entity_fragment max_payload) = unat max_payload - 30"
    using assms(1) by (simp add: espnow_max_entity_fragment_def espnow_max_plaintext_def unat_sub
        word_le_nat_alt unat_word_ariths)
  have a: "unat (espnow_max_assembly_bytes max_payload) = 6 * unat (espnow_max_entity_fragment max_payload)"
    using f assms(2) by (simp add: espnow_max_assembly_bytes_def unat_word_ariths)
  have "unat (espnow_max_total_fragment_bytes max_payload) = 24 * unat (espnow_max_entity_fragment max_payload)"
    using f assms(2) a by (simp add: espnow_max_total_fragment_bytes_def unat_word_ariths)
  with f a assms(1) show ?thesis by simp
qed

theorem fragment_sizes_witness:
  "unat (espnow_max_entity_fragment 1470) = 1440 \<and> unat (espnow_max_total_fragment_bytes 1470) = 34560"
  using fragment_sizes [of 1470] by simp

end
