(* ===== verification/Aes256.thy ===== *)
theory Aes256
  imports Prelude
begin

text \<open>
  The AES-256 block cipher and its counter mode, written out in
  \<^verbatim>\<open>esp_tree_common/espnow_crypto.cpp\<close> for the ESP targets. Byte arrays are byte lists;
  the in-place updates of the 16-byte state are functions on lists. The loops keep the counters
  of the code.
\<close>

section \<open>The code\<close>

definition kAesSBox :: "u8 list" where
  "kAesSBox =
    [99, 124, 119, 123, 242, 107, 111, 197, 48, 1, 103, 43, 254, 215, 171, 118,
     202, 130, 201, 125, 250, 89, 71, 240, 173, 212, 162, 175, 156, 164, 114, 192,
     183, 253, 147, 38, 54, 63, 247, 204, 52, 165, 229, 241, 113, 216, 49, 21,
     4, 199, 35, 195, 24, 150, 5, 154, 7, 18, 128, 226, 235, 39, 178, 117,
     9, 131, 44, 26, 27, 110, 90, 160, 82, 59, 214, 179, 41, 227, 47, 132,
     83, 209, 0, 237, 32, 252, 177, 91, 106, 203, 190, 57, 74, 76, 88, 207,
     208, 239, 170, 251, 67, 77, 51, 133, 69, 249, 2, 127, 80, 60, 159, 168,
     81, 163, 64, 143, 146, 157, 56, 245, 188, 182, 218, 33, 16, 255, 243, 210,
     205, 12, 19, 236, 95, 151, 68, 23, 196, 167, 126, 61, 100, 93, 25, 115,
     96, 129, 79, 220, 34, 42, 144, 136, 70, 238, 184, 20, 222, 94, 11, 219,
     224, 50, 58, 10, 73, 6, 36, 92, 194, 211, 172, 98, 145, 149, 228, 121,
     231, 200, 55, 109, 141, 213, 78, 169, 108, 86, 244, 234, 101, 122, 174, 8,
     186, 120, 37, 46, 28, 166, 180, 198, 232, 221, 116, 31, 75, 189, 139, 138,
     112, 62, 181, 102, 72, 3, 246, 14, 97, 53, 87, 185, 134, 193, 29, 158,
     225, 248, 152, 17, 105, 217, 142, 148, 155, 30, 135, 233, 206, 85, 40, 223,
     140, 161, 137, 13, 191, 230, 66, 104, 65, 153, 45, 15, 176, 84, 187, 22]"

definition kAesRcon :: "u8 list" where
  "kAesRcon = [0, 1, 2, 4, 8, 16, 32, 64, 128, 27, 54, 108, 216, 171, 77]"

definition sbox :: "u8 \<Rightarrow> u8" where
  "sbox b = kAesSBox ! unat b"

definition xtime :: "u8 \<Rightarrow> u8" where
  "xtime x = push_bit 1 x XOR ((drop_bit 7 x AND 1) * 27)"

definition sub_word :: "bytes \<Rightarrow> bytes" where
  "sub_word w = [sbox (w ! 0), sbox (w ! 1), sbox (w ! 2), sbox (w ! 3)]"

definition rot_word :: "bytes \<Rightarrow> bytes" where
  "rot_word w = [w ! 1, w ! 2, w ! 3, w ! 0]"

definition xor_bytes :: "bytes \<Rightarrow> bytes \<Rightarrow> bytes" where
  "xor_bytes a b = map2 (XOR) a b"

text \<open>
  \<open>bytes_generated\<close> is the length of the prefix of the 240-byte array written so far, which is
  what \<open>round_keys\<close> holds.
\<close>

function aes256_key_expand_loop :: "nat \<Rightarrow> u8 \<Rightarrow> bytes \<Rightarrow> bytes" where
  "aes256_key_expand_loop bytes_generated rcon_iter round_keys =
     (if bytes_generated < 240 then
        (let temp = take 4 (drop (bytes_generated - 4) round_keys);
             (temp, rcon_iter) =
               (if bytes_generated mod 32 = 0 then
                  (let t = sub_word (rot_word temp)
                   in (t[0 := t ! 0 XOR kAesRcon ! unat rcon_iter], rcon_iter + 1))
                else if bytes_generated mod 32 = 16 then (sub_word temp, rcon_iter)
                else (temp, rcon_iter))
         in aes256_key_expand_loop (bytes_generated + 4) rcon_iter
              (round_keys @ xor_bytes (take 4 (drop (bytes_generated - 32) round_keys)) temp))
      else round_keys)"
  by pat_completeness auto
termination
  by (relation "measure (\<lambda>(n, _, _). 240 - n)") auto

declare aes256_key_expand_loop.simps [simp del]

definition aes256_key_expand :: "bytes \<Rightarrow> bytes" where
  "aes256_key_expand key = aes256_key_expand_loop 32 1 (take 32 key)"

text \<open>The round key pointer runs on past its 16 bytes; only as many as the state has are used.\<close>

definition add_round_key :: "bytes \<Rightarrow> bytes \<Rightarrow> bytes" where
  "add_round_key state round_key = xor_bytes state round_key"

definition sub_bytes :: "bytes \<Rightarrow> bytes" where
  "sub_bytes state = map sbox state"

definition shift_rows :: "bytes \<Rightarrow> bytes" where
  "shift_rows temp =
     [temp ! 0, temp ! 5, temp ! 10, temp ! 15, temp ! 4, temp ! 9, temp ! 14, temp ! 3,
      temp ! 8, temp ! 13, temp ! 2, temp ! 7, temp ! 12, temp ! 1, temp ! 6, temp ! 11]"

fun mix_columns :: "bytes \<Rightarrow> bytes" where
  "mix_columns (a0 # a1 # a2 # a3 # rest) =
     (let t = a0 XOR a1 XOR a2 XOR a3; u = a0
      in [a0 XOR (t XOR xtime (a0 XOR a1)),
          a1 XOR (t XOR xtime (a1 XOR a2)),
          a2 XOR (t XOR xtime (a2 XOR a3)),
          a3 XOR (t XOR xtime (a3 XOR u))] @ mix_columns rest)"
| "mix_columns _ = []"

definition aes256_round :: "bytes \<Rightarrow> nat \<Rightarrow> bytes \<Rightarrow> bytes" where
  "aes256_round round_keys round state =
     add_round_key (mix_columns (shift_rows (sub_bytes state))) (drop (round * 16) round_keys)"

definition aes256_encrypt_block :: "bytes \<Rightarrow> bytes \<Rightarrow> bytes" where
  "aes256_encrypt_block round_keys input =
     (let state = add_round_key (take 16 input) round_keys;
          state = fold (aes256_round round_keys) [1..<14] state
      in add_round_key (shift_rows (sub_bytes state)) (drop 224 round_keys))"

fun increment_counter_from :: "nat \<Rightarrow> bytes \<Rightarrow> bytes" where
  "increment_counter_from i counter =
     (let counter = counter[i := counter ! i + 1]
      in if counter ! i \<noteq> 0 then counter
         else (case i of 0 \<Rightarrow> counter | Suc j \<Rightarrow> increment_counter_from j counter))"

declare increment_counter_from.simps [simp del]

definition increment_counter :: "bytes \<Rightarrow> bytes" where
  "increment_counter counter = increment_counter_from 15 counter"

definition ctr_initial_counter :: "u32 \<Rightarrow> bytes" where
  "ctr_initial_counter tx_counter =
     [ucast (tx_counter AND 255), ucast (drop_bit 8 tx_counter AND 255),
      ucast (drop_bit 16 tx_counter AND 255), ucast (drop_bit 24 tx_counter AND 255)] @ replicate 12 0"

text \<open>\<open>out\<close> holds the \<open>offset\<close> bytes written so far.\<close>

function aes256_ctr_loop :: "bytes \<Rightarrow> bytes \<Rightarrow> bytes \<Rightarrow> nat \<Rightarrow> bytes \<Rightarrow> bytes" where
  "aes256_ctr_loop round_keys counter input offset out =
     (if offset < length input then
        (let keystream = aes256_encrypt_block round_keys counter;
             block_len = (if length input - offset < 16 then length input - offset else 16)
         in aes256_ctr_loop round_keys (increment_counter counter) input (offset + block_len)
              (out @ xor_bytes (take block_len (drop offset input)) keystream))
      else out)"
  by pat_completeness auto
termination
  by (relation "measure (\<lambda>(_, _, input, offset, _). length input - offset)") auto

declare aes256_ctr_loop.simps [simp del]

definition aes256_ctr_crypt :: "bytes \<Rightarrow> u32 \<Rightarrow> bytes \<Rightarrow> bytes" where
  "aes256_ctr_crypt key tx_counter input =
     aes256_ctr_loop (aes256_key_expand key) (ctr_initial_counter tx_counter) input 0 []"

end
