(* ===== verification/Aes256Props.thy ===== *)
theory Aes256Props
  imports Aes256
begin

text \<open>
  Correctness of the cipher of \<open>Aes256\<close>: the byte-wise key schedule is the word recurrence of
  FIPS-197, \<open>mix_columns\<close> is the matrix product over GF(2^8), a block is enciphered
  injectively, counter mode is its own inverse, and no two packets share a counter block.
\<close>

section \<open>Lengths\<close>

lemma length_xor_bytes [simp]: "length (xor_bytes a b) = min (length a) (length b)"
  by (simp add: xor_bytes_def)

lemma length_sub_bytes [simp]: "length (sub_bytes s) = length s"
  by (simp add: sub_bytes_def)

lemma length_shift_rows [simp]: "length (shift_rows s) = 16"
  by (simp add: shift_rows_def)

lemma length_sub_word [simp]: "length (sub_word w) = 4"
  by (simp add: sub_word_def)

lemma length_rot_word [simp]: "length (rot_word w) = 4"
  by (simp add: rot_word_def)

lemma four_dvd_Suc4: "4 dvd Suc (Suc (Suc (Suc n))) \<longleftrightarrow> 4 dvd n"
  by presburger

lemma not_four_dvd_small: "\<not> 4 dvd Suc 0" "\<not> 4 dvd Suc (Suc 0)" "\<not> 4 dvd Suc (Suc (Suc 0))"
  by presburger+

lemma length_mix_columns: "4 dvd length s \<Longrightarrow> length (mix_columns s) = length s"
  by (induction s rule: mix_columns.induct) (auto simp: Let_def four_dvd_Suc4 not_four_dvd_small)

lemma length_add_round_key: "16 \<le> length k \<Longrightarrow> length s = 16 \<Longrightarrow> length (add_round_key s k) = 16"
  by (simp add: add_round_key_def)

lemma length_mix_columns_16 [simp]: "length s = 16 \<Longrightarrow> length (mix_columns s) = 16"
  by (simp add: length_mix_columns)

lemma length_round:
  "240 \<le> length rk \<Longrightarrow> r < 14 \<Longrightarrow> length s = 16 \<Longrightarrow> length (aes256_round rk r s) = 16"
  unfolding aes256_round_def by (intro length_add_round_key) auto

lemma length_rounds:
  "240 \<le> length rk \<Longrightarrow> \<forall>r \<in> set rs. r < 14 \<Longrightarrow> length s = 16 \<Longrightarrow> length (fold (aes256_round rk) rs s) = 16"
  by (induction rs arbitrary: s) (auto simp: length_round)

lemma length_encrypt_block:
  "240 \<le> length rk \<Longrightarrow> length b = 16 \<Longrightarrow> length (aes256_encrypt_block rk b) = 16"
  unfolding aes256_encrypt_block_def Let_def
  by (intro length_add_round_key) auto

section \<open>Arithmetic of the field\<close>

lemma xtime_fips: "xtime x = (if bit x 7 then push_bit 1 x XOR 27 else push_bit 1 x)"
proof -
  have "drop_bit 7 x AND 1 = (if bit x 7 then 1 else 0)"
  proof (rule bit_word_eqI)
    fix n
    show "bit (drop_bit 7 x AND 1) n = bit (if bit x 7 then 1 else 0 :: u8) n"
      by (cases n) (auto simp: bit_simps dest: bit_imp_le_length)
  qed
  then show ?thesis by (simp add: xtime_def)
qed

lemma xtime_xor: "xtime (a XOR b) = xtime a XOR xtime b"
  by (auto simp: xtime_fips bit_xor_iff push_bit_xor ac_simps)

text \<open>Multiplication in GF(2^8) by shift and add over the bits of the multiplier.\<close>

fun gf_mul :: "nat \<Rightarrow> u8 \<Rightarrow> u8" where
  "gf_mul c a = (if c = 0 then 0 else (if odd c then a else 0) XOR gf_mul (c div 2) (xtime a))"

declare gf_mul.simps [simp del]

text \<open>The MixColumns matrix of FIPS-197 applied to one column.\<close>

definition fips_mix_column :: "u8 \<Rightarrow> u8 \<Rightarrow> u8 \<Rightarrow> u8 \<Rightarrow> bytes" where
  "fips_mix_column a0 a1 a2 a3 =
     [gf_mul 2 a0 XOR gf_mul 3 a1 XOR gf_mul 1 a2 XOR gf_mul 1 a3,
      gf_mul 1 a0 XOR gf_mul 2 a1 XOR gf_mul 3 a2 XOR gf_mul 1 a3,
      gf_mul 1 a0 XOR gf_mul 1 a1 XOR gf_mul 2 a2 XOR gf_mul 3 a3,
      gf_mul 3 a0 XOR gf_mul 1 a1 XOR gf_mul 1 a2 XOR gf_mul 2 a3]"

lemma gf_mul_small:
  "gf_mul (Suc 0) a = a" "gf_mul 2 a = xtime a" "gf_mul 3 a = a XOR xtime a"
  by (simp_all add: gf_mul.simps)

lemma mix_column_fips:
  "mix_columns (a0 # a1 # a2 # a3 # rest) = fips_mix_column a0 a1 a2 a3 @ mix_columns rest"
  by (simp add: fips_mix_column_def gf_mul_small xtime_xor Let_def ac_simps)

section \<open>The inverse of MixColumns\<close>

fun inv_mix_columns :: "bytes \<Rightarrow> bytes" where
  "inv_mix_columns (a0 # a1 # a2 # a3 # rest) =
     (let m2 = xtime; m4 = (\<lambda>a. xtime (xtime a)); m8 = (\<lambda>a. xtime (xtime (xtime a)));
          m9 = (\<lambda>a. m8 a XOR a); mb = (\<lambda>a. m8 a XOR m2 a XOR a);
          md = (\<lambda>a. m8 a XOR m4 a XOR a); me = (\<lambda>a. m8 a XOR m4 a XOR m2 a)
      in [me a0 XOR mb a1 XOR md a2 XOR m9 a3, m9 a0 XOR me a1 XOR mb a2 XOR md a3,
          md a0 XOR m9 a1 XOR me a2 XOR mb a3, mb a0 XOR md a1 XOR m9 a2 XOR me a3])
     @ inv_mix_columns rest"
| "inv_mix_columns _ = []"

lemma inv_mix_columns_mix_columns: "4 dvd length s \<Longrightarrow> inv_mix_columns (mix_columns s) = s"
proof (induction s rule: mix_columns.induct)
  case (1 a0 a1 a2 a3 rest)
  then show ?case by (simp add: xtime_xor Let_def ac_simps four_dvd_Suc4)
qed (auto simp: not_four_dvd_small)

section \<open>A block is enciphered injectively\<close>

lemma distinct_sbox: "distinct kAesSBox"
proof -
  have "distinct (map unat kAesSBox)" by (simp add: kAesSBox_def)
  then show ?thesis by (simp add: distinct_map)
qed

lemma length_sbox: "length kAesSBox = 256"
  by (simp add: kAesSBox_def)

lemma sbox_inj: "sbox a = sbox b \<Longrightarrow> a = b"
  using distinct_sbox nth_eq_iff_index_eq [of kAesSBox "unat a" "unat b"]
  by (simp add: sbox_def length_sbox unsigned_word_eqI)

lemma sub_bytes_inj: "sub_bytes s = sub_bytes t \<Longrightarrow> s = t"
  unfolding sub_bytes_def by (rule map_injective) (auto intro: injI sbox_inj)

lemma xor_bytes_cancel:
  "length s = length t \<Longrightarrow> length s \<le> length k \<Longrightarrow> xor_bytes s k = xor_bytes t k \<Longrightarrow> s = t"
proof (induction s t arbitrary: k rule: list_induct2)
  case (Cons x xs y ys)
  then obtain c k' where "k = c # k'" by (cases k) auto
  with Cons show ?case
    by (auto simp: xor_bytes_def) (metis xor_cancel_right)
qed simp

lemma list16_eq:
  "length (s :: 'a list) = 16 \<Longrightarrow> s = [s ! 0, s ! 1, s ! 2, s ! 3, s ! 4, s ! 5, s ! 6, s ! 7,
     s ! 8, s ! 9, s ! 10, s ! 11, s ! 12, s ! 13, s ! 14, s ! 15]"
  by (rule nth_equalityI) (auto simp: less_Suc_eq numeral_eq_Suc)

definition inv_shift_rows :: "bytes \<Rightarrow> bytes" where
  "inv_shift_rows t =
     [t ! 0, t ! 13, t ! 10, t ! 7, t ! 4, t ! 1, t ! 14, t ! 11,
      t ! 8, t ! 5, t ! 2, t ! 15, t ! 12, t ! 9, t ! 6, t ! 3]"

lemma inv_shift_rows: "length s = 16 \<Longrightarrow> inv_shift_rows (shift_rows s) = s"
  by (rule trans [OF _ list16_eq [symmetric]]) (simp_all add: inv_shift_rows_def shift_rows_def)

lemma shift_rows_inj:
  "length s = 16 \<Longrightarrow> length t = 16 \<Longrightarrow> shift_rows s = shift_rows t \<Longrightarrow> s = t"
  by (metis inv_shift_rows)

lemma mix_columns_inj:
  assumes "length s = 16" and "length t = 16" and "mix_columns s = mix_columns t"
  shows "s = t"
proof -
  have "inv_mix_columns (mix_columns s) = s" "inv_mix_columns (mix_columns t) = t"
    using assms(1,2) by (simp_all add: inv_mix_columns_mix_columns)
  with assms(3) show ?thesis by argo
qed

lemma add_round_key_inj:
  "length s = 16 \<Longrightarrow> length t = 16 \<Longrightarrow> 16 \<le> length k \<Longrightarrow> add_round_key s k = add_round_key t k \<Longrightarrow> s = t"
  unfolding add_round_key_def by (rule xor_bytes_cancel) auto

lemma round_inj:
  assumes "240 \<le> length rk" and "r < 14" and "length s = 16" and "length t = 16"
    and "aes256_round rk r s = aes256_round rk r t"
  shows "s = t"
proof -
  have k: "16 \<le> length (drop (r * 16) rk)" using assms(1,2) by simp
  have l: "length (mix_columns (shift_rows (sub_bytes u))) = 16" for u by simp
  have "mix_columns (shift_rows (sub_bytes s)) = mix_columns (shift_rows (sub_bytes t))"
    by (rule add_round_key_inj [OF l l k assms(5) [unfolded aes256_round_def]])
  then have "shift_rows (sub_bytes s) = shift_rows (sub_bytes t)"
    by (rule mix_columns_inj [OF length_shift_rows length_shift_rows])
  then have "sub_bytes s = sub_bytes t"
    by (rule shift_rows_inj [rotated 2]) (simp_all add: assms(3,4))
  then show ?thesis by (rule sub_bytes_inj)
qed

lemma rounds_inj:
  assumes "240 \<le> length rk" and "\<forall>r \<in> set rs. r < 14" and "length s = 16" and "length t = 16"
    and "fold (aes256_round rk) rs s = fold (aes256_round rk) rs t"
  shows "s = t"
  using assms
proof (induction rs arbitrary: s t)
  case (Cons r rs)
  note p = Cons.prems
  have r: "r < 14" "\<forall>q \<in> set rs. q < 14" using p(2) by auto
  have "aes256_round rk r s = aes256_round rk r t"
    by (rule Cons.IH [OF p(1) r(2)]) (use p r length_round in simp_all)
  then show ?case by (rule round_inj [OF p(1) r(1) p(3,4)])
qed simp

section \<open>The key schedule is the word recurrence of FIPS-197\<close>

fun fips_word :: "bytes \<Rightarrow> nat \<Rightarrow> bytes" where
  "fips_word key i =
     (if i < 8 then take 4 (drop (4 * i) key)
      else xor_bytes (fips_word key (i - 8))
        (let t = fips_word key (i - 1)
         in if i mod 8 = 0 then xor_bytes (sub_word (rot_word t)) [kAesRcon ! (i div 8), 0, 0, 0]
            else if i mod 8 = 4 then sub_word t else t))"

declare fips_word.simps [simp del]

lemma length_fips_word: "length key = 32 \<Longrightarrow> length (fips_word key i) = 4"
proof (induction i rule: less_induct)
  case (less i)
  then show ?case
    by (subst fips_word.simps) (auto simp: Let_def)
qed

lemma length_concat_words: "length key = 32 \<Longrightarrow> length (concat (map (fips_word key) [0..<n])) = 4 * n"
  by (induction n) (auto simp: length_fips_word)

lemma nth_word_concat:
  assumes "length key = 32" and "k < n"
  shows "take 4 (drop (4 * k) (concat (map (fips_word key) [0..<n]))) = fips_word key k"
proof -
  have "[0..<n] = [0..<k] @ k # [Suc k..<n]"
    using assms(2) upt_add_eq_append [of 0 k "n - k"] by (simp add: upt_conv_Cons)
  then show ?thesis
    using assms(1) by (simp add: length_concat_words length_fips_word)
qed

lemma xor_first_byte:
  "length t = 4 \<Longrightarrow> t[0 := t ! 0 XOR r] = xor_bytes t [r, 0, 0, 0]"
  by (cases t; cases "tl t"; cases "tl (tl t)"; cases "tl (tl (tl t))") (auto simp: xor_bytes_def)

lemma key_expand_loop_unfold:
  assumes "n < 240" and "take 4 (drop (n - 4) rk) = t"
  shows "aes256_key_expand_loop n r rk =
    aes256_key_expand_loop (n + 4) (if n mod 32 = 0 then r + 1 else r)
      (rk @ xor_bytes (take 4 (drop (n - 32) rk))
        (if n mod 32 = 0 then xor_bytes (sub_word (rot_word t)) [kAesRcon ! unat r, 0, 0, 0]
         else if n mod 32 = 16 then sub_word t else t))"
  by (subst aes256_key_expand_loop.simps)
    (simp only: assms if_True Let_def xor_first_byte [OF length_sub_word] prod.case split: if_split, simp)

lemma div_Suc_if_pred:
  assumes "0 < i"
  shows "i mod 8 = 0 \<Longrightarrow> (i - 1) div 8 + 1 = i div 8" and "i mod 8 \<noteq> 0 \<Longrightarrow> (i - 1) div 8 = i div (8 :: nat)"
proof -
  obtain q r where i: "i = 8 * q + r" "r < 8" "q = i div 8" "r = i mod 8"
    by (metis div_mult_mod_eq mod_less_divisor mult.commute zero_less_numeral)
  show "(i - 1) div 8 + 1 = i div 8" if "i mod 8 = 0"
  proof -
    have "i - 1 = 8 * (q - 1) + 7" "0 < q" using i that assms by auto
    then show ?thesis using i(3) by simp
  qed
  show "(i - 1) div 8 = i div 8" if "i mod 8 \<noteq> 0"
  proof -
    have "i - 1 = 8 * q + (r - 1)" "r - 1 < 8" using i that by auto
    then show ?thesis using i(3) by simp
  qed
qed

lemma key_expand_step:
  assumes key: "length key = 32" and i: "8 \<le> i" "i < 60"
  shows "aes256_key_expand_loop (4 * i) (of_nat ((i - 1) div 8 + 1)) (concat (map (fips_word key) [0..<i]))
    = aes256_key_expand_loop (4 * Suc i) (of_nat (i div 8 + 1)) (concat (map (fips_word key) [0..<Suc i]))"
proof -
  let ?W = "concat (map (fips_word key) [0..<i])"
  have prev: "take 4 (drop (4 * i - 4) ?W) = fips_word key (i - 1)"
    using nth_word_concat [OF key, of "i - 1" i] i by (simp add: diff_mult_distrib2)
  have bk: "take 4 (drop (4 * i - 32) ?W) = fips_word key (i - 8)"
    using nth_word_concat [OF key, of "i - 8" i] i by (simp add: diff_mult_distrib2)
  have m: "4 * i mod 32 = 4 * (i mod 8)"
    using mult_mod_right [of 4 i 8] by simp
  have rc: "i mod 8 = 0 \<Longrightarrow> (i - 1) div 8 + 1 = i div 8" "i mod 8 \<noteq> 0 \<Longrightarrow> (i - 1) div 8 = i div 8"
    using div_Suc_if_pred [of i] i by auto
  have un: "unat (of_nat (i div 8) :: u8) = i div 8"
    using i by (intro unat_of_nat_small) simp
  have w: "fips_word key i = xor_bytes (fips_word key (i - 8))
      (let t = fips_word key (i - 1)
       in if i mod 8 = 0 then xor_bytes (sub_word (rot_word t)) [kAesRcon ! (i div 8), 0, 0, 0]
          else if i mod 8 = 4 then sub_word t else t)"
    using i by (subst fips_word.simps) simp
  have app: "concat (map (fips_word key) [0..<Suc i]) = ?W @ fips_word key i"
    by simp
  have "4 * i < 240" using i by simp
  note unf = key_expand_loop_unfold [OF this prev, of "of_nat ((i - 1) div 8 + 1)"]
  show ?thesis
  proof (cases "i mod 8 = 0")
    case True
    then have eq: "(i - 1) div 8 + 1 = i div 8" by (rule rc(1))
    from unf True show ?thesis
      unfolding app w eq by (simp add: m bk un Let_def add.commute)
  next
    case False
    then have "(i - 1) div 8 = i div 8" by (rule rc(2))
    with False unf show ?thesis
      unfolding app w by (simp add: m bk Let_def add.commute)
  qed
qed

lemma key_expand_loop_words:
  assumes "length key = 32" and "8 \<le> i" and "i \<le> 60"
  shows "aes256_key_expand_loop (4 * i) (of_nat ((i - 1) div 8 + 1)) (concat (map (fips_word key) [0..<i]))
    = concat (map (fips_word key) [0..<60])"
  using assms(2,3)
proof (induction "60 - i" arbitrary: i)
  case 0
  then show ?case by (subst aes256_key_expand_loop.simps) simp
next
  case (Suc n)
  then have "n = 60 - Suc i" "8 \<le> Suc i" "Suc i \<le> 60" "i < 60" by auto
  with Suc.hyps(1) [of "Suc i"] key_expand_step [OF assms(1), of i] Suc.prems show ?case by simp
qed

lemma first_words:
  assumes "length key = 32"
  shows "concat (map (fips_word key) [0..<8]) = key"
proof -
  have w: "k < 8 \<Longrightarrow> fips_word key k = take 4 (drop (4 * k) key)" for k
    by (subst fips_word.simps) simp
  have "n \<le> 8 \<Longrightarrow> concat (map (fips_word key) [0..<n]) = take (4 * n) key" for n
    by (induction n) (auto simp: w take_add [symmetric] add.commute)
  from this [of 8] assms show ?thesis by simp
qed

lemma key_expand_words:
  assumes "length key = 32"
  shows "aes256_key_expand key = concat (map (fips_word key) [0..<60])"
  using key_expand_loop_words [OF assms, of 8] first_words [OF assms] assms
  by (simp add: aes256_key_expand_def)

lemma length_key_expand: "length key = 32 \<Longrightarrow> length (aes256_key_expand key) = 240"
  by (simp add: key_expand_words length_concat_words)

section \<open>Counter mode\<close>

fun ctr_spec :: "bytes \<Rightarrow> bytes \<Rightarrow> bytes \<Rightarrow> bytes" where
  "ctr_spec rk counter p =
     (if p = [] then []
      else xor_bytes (take 16 p) (aes256_encrypt_block rk counter)
        @ ctr_spec rk (increment_counter counter) (drop 16 p))"

declare ctr_spec.simps [simp del]

lemma ctr_loop_spec:
  "offset \<le> length input \<Longrightarrow>
    aes256_ctr_loop rk counter input offset out = out @ ctr_spec rk counter (drop offset input)"
proof (induction "length input - offset" arbitrary: counter offset out rule: less_induct)
  case less
  show ?case
  proof (cases "offset < length input")
    case False
    with less.prems show ?thesis
      by (subst aes256_ctr_loop.simps, subst ctr_spec.simps) simp
  next
    case True
    let ?n = "if length input - offset < 16 then length input - offset else 16"
    have tk: "take ?n (drop offset input) = take 16 (drop offset input)" by simp
    have dr: "drop (offset + ?n) input = drop 16 (drop offset input)" by (simp add: add.commute)
    have "aes256_ctr_loop rk counter input offset out =
        aes256_ctr_loop rk (increment_counter counter) input (offset + ?n)
          (out @ xor_bytes (take ?n (drop offset input)) (aes256_encrypt_block rk counter))"
      using True by (subst aes256_ctr_loop.simps) (simp add: Let_def)
    also have "\<dots> = (out @ xor_bytes (take ?n (drop offset input)) (aes256_encrypt_block rk counter))
        @ ctr_spec rk (increment_counter counter) (drop (offset + ?n) input)"
      using True by (intro less.hyps) auto
    also have "\<dots> = out @ ctr_spec rk counter (drop offset input)"
      using True by (subst (2) ctr_spec.simps) (simp only: tk dr, simp)
    finally show ?thesis .
  qed
qed

lemma length_increment_counter_from [simp]: "length (increment_counter_from i c) = length c"
  by (induction i c rule: increment_counter_from.induct)
    (subst increment_counter_from.simps, auto simp: Let_def split: nat.splits)

lemma length_increment_counter [simp]: "length (increment_counter c) = length c"
  by (simp add: increment_counter_def)

lemma xor_bytes_twice: "length p \<le> length k \<Longrightarrow> xor_bytes (xor_bytes p k) k = p"
proof (induction p arbitrary: k)
  case (Cons x p)
  then show ?case by (cases k) (auto simp: xor_bytes_def)
qed (simp add: xor_bytes_def)

lemma ctr_spec_twice:
  assumes "240 \<le> length rk" and "length c = 16"
  shows "length (ctr_spec rk c p) = length p \<and> ctr_spec rk c (ctr_spec rk c p) = p"
  using assms(2)
proof (induction "length p" arbitrary: c p rule: less_induct)
  case less
  show ?case
  proof (cases "p = []")
    case True
    then show ?thesis by (simp add: ctr_spec.simps)
  next
    case False
    let ?b = "xor_bytes (take 16 p) (aes256_encrypt_block rk c)"
    let ?r = "ctr_spec rk (increment_counter c) (drop 16 p)"
    have E: "length (aes256_encrypt_block rk c) = 16"
      using assms(1) less.prems by (rule length_encrypt_block)
    have ih: "length ?r = length (drop 16 p) \<and> ctr_spec rk (increment_counter c) ?r = drop 16 p"
      using False less.prems by (intro less.hyps) auto
    have eq: "ctr_spec rk c p = ?b @ ?r" using False by (subst ctr_spec.simps) simp
    have nb: "length ?b = min 16 (length p)" using E by (simp add: min.commute)
    have tk: "take 16 (?b @ ?r) = ?b"
    proof (cases "16 \<le> length p")
      case True
      then show ?thesis using nb by simp
    next
      case False
      then have "?r = []" using ih by simp
      then show ?thesis using nb by simp
    qed
    then have dr: "drop 16 (?b @ ?r) = ?r"
      using append_take_drop_id [of 16 "?b @ ?r"] by (metis same_append_eq)
    have "0 < length ?b" unfolding nb using False by simp
    then have "?b @ ?r \<noteq> []" by (metis append_is_Nil_conv length_greater_0_conv)
    then have "ctr_spec rk c (?b @ ?r) = xor_bytes ?b (aes256_encrypt_block rk c) @ ctr_spec rk (increment_counter c) ?r"
      by (subst ctr_spec.simps) (simp only: tk dr if_False)
    also have "\<dots> = p" using ih E by (simp add: xor_bytes_twice)
    finally show ?thesis using eq nb ih by simp
  qed
qed

lemma length_ctr_initial_counter [simp]: "length (ctr_initial_counter t) = 16"
  by (simp add: ctr_initial_counter_def)

lemma ctr_crypt_spec:
  "aes256_ctr_crypt key t input = ctr_spec (aes256_key_expand key) (ctr_initial_counter t) input"
  by (simp add: aes256_ctr_crypt_def ctr_loop_spec)

section \<open>Counter blocks\<close>

text \<open>The counter block as the big-endian number that \<open>increment_counter\<close> counts in.\<close>

definition be_value :: "bytes \<Rightarrow> nat" where
  "be_value = foldl (\<lambda>v b. v * 256 + unat b) 0"

lemma be_value_Nil [simp]: "be_value [] = 0"
  by (simp add: be_value_def)

lemma be_value_snoc [simp]: "be_value (xs @ [b]) = be_value xs * 256 + unat b"
  by (simp add: be_value_def)

lemma be_value_append: "be_value (xs @ ys) = be_value xs * 256 ^ length ys + be_value ys"
  by (induction ys rule: rev_induct) (simp_all add: algebra_simps flip: append_assoc)

lemma digit_bound: "v < m \<Longrightarrow> b < 256 \<Longrightarrow> v * 256 + b < 256 * (m :: nat)"
  by linarith

lemma be_value_bound: "be_value xs < 256 ^ length xs"
  by (induction xs rule: rev_induct) (simp_all add: digit_bound)

lemma be_value_inj: "length xs = length ys \<Longrightarrow> be_value xs = be_value ys \<Longrightarrow> xs = ys"
proof (induction xs arbitrary: ys rule: rev_induct)
  case (snoc b xs)
  then obtain ys' c where ys: "ys = ys' @ [c]" by (cases ys rule: rev_cases) auto
  have "be_value xs * 256 + unat b = be_value ys' * 256 + unat c" using snoc.prems ys by simp
  then have "(be_value xs * 256 + unat b) div 256 = (be_value ys' * 256 + unat c) div 256"
    "(be_value xs * 256 + unat b) mod 256 = (be_value ys' * 256 + unat c) mod 256" by simp_all
  then have "be_value xs = be_value ys'" "unat b = unat c" by simp_all
  then show ?case using snoc ys by (auto intro: unsigned_word_eqI)
qed simp

lemma unat_u8_inc:
  "unat (b + 1 :: u8) = (if b + 1 = 0 then 0 else unat b + 1)" "b + 1 = 0 \<Longrightarrow> unat (b :: u8) = 255"
proof -
  show z: "b + 1 = 0 \<Longrightarrow> unat b = 255"
  proof -
    assume "b + 1 = 0"
    then have "b = 255" by (simp add: add_eq_0_iff2)
    then show ?thesis by simp
  qed
  have "unat (b + 1) = (unat b + 1) mod 256" by (simp add: unat_word_ariths)
  moreover have "b + 1 \<noteq> 0 \<Longrightarrow> unat b + 1 < 256"
    using unat_u8_bound [of b] of_nat_word_inj [where 'a = 8, of "unat b + 1" 0]
    by (metis (no_types, opaque_lifting) Suc_eq_plus1 Suc_lessI mod_self of_nat_unat unat_eq_0
        calculation unat_0)
  ultimately show "unat (b + 1) = (if b + 1 = 0 then 0 else unat b + 1)" by auto
qed

lemma increment_counter_from_value:
  "i < length c \<Longrightarrow>
    be_value (take (Suc i) (increment_counter_from i c)) = (be_value (take (Suc i) c) + 1) mod 256 ^ Suc i
    \<and> drop (Suc i) (increment_counter_from i c) = drop (Suc i) c"
proof (induction i arbitrary: c)
  case 0
  then obtain b cs where "c = b # cs" by (cases c) auto
  then show ?case
    using unat_u8_inc [of b] unat_u8_bound [of "b + 1"]
    by (cases "b + 1 = 0") (auto simp: increment_counter_from.simps [of 0] Let_def be_value_def)
next
  case (Suc i)
  let ?b = "c ! Suc i" and ?V = "be_value (take (Suc i) c)"
  let ?c = "c[Suc i := ?b + 1]"
  have tk: "take (Suc (Suc i)) d = take (Suc i) d @ [d ! Suc i]" if "length d = length c" for d :: bytes
    using Suc.prems that by (simp add: take_Suc_conv_app_nth)
  have orig: "be_value (take (Suc (Suc i)) c) = ?V * 256 + unat ?b" by (simp only: tk be_value_snoc)
  have len: "length (take (Suc i) c) = Suc i" using Suc.prems by simp
  then have bnd: "?V < 256 ^ Suc i" using be_value_bound [of "take (Suc i) c"] by simp
  show ?case
  proof (cases "?b + 1 = 0")
    case False
    have r: "increment_counter_from (Suc i) c = ?c"
      by (subst increment_counter_from.simps) (use False Suc.prems in \<open>simp add: Let_def\<close>)
    have "be_value (take (Suc (Suc i)) ?c) = ?V * 256 + (unat ?b + 1)"
      using False Suc.prems unat_u8_inc(1) [of ?b] by (simp only: tk length_list_update be_value_snoc) simp
    moreover have "?V * 256 + (unat ?b + 1) < 256 ^ Suc (Suc i)"
      using bnd False unat_u8_inc(1) [of ?b] unat_u8_bound [of "?b + 1"] by simp
    ultimately show ?thesis using r orig by simp
  next
    case True
    have r: "increment_counter_from (Suc i) c = increment_counter_from i ?c"
      by (subst increment_counter_from.simps) (use True Suc.prems in \<open>simp add: Let_def\<close>)
    have ih: "be_value (take (Suc i) (increment_counter_from i ?c)) = (?V + 1) mod 256 ^ Suc i"
      "drop (Suc i) (increment_counter_from i ?c) = drop (Suc i) ?c"
      using Suc.IH [of ?c] Suc.prems by simp_all
    have n: "increment_counter_from i ?c ! Suc i = 0"
      using ih(2) True Suc.prems by (metis add.right_neutral le_refl length_increment_counter_from
          length_list_update nth_drop nth_list_update_eq order.strict_implies_order)
    have "be_value (take (Suc (Suc i)) (increment_counter_from i ?c)) = (?V + 1) mod 256 ^ Suc i * 256"
      using ih(1) n by (simp only: tk length_increment_counter_from length_list_update be_value_snoc) simp
    also have "\<dots> = (?V * 256 + unat ?b + 1) mod 256 ^ Suc (Suc i)"
      using unat_u8_inc(2) [OF True] mult_mod_left [of "?V + 1" "256 ^ Suc i" 256] by (simp add: algebra_simps)
    finally have "be_value (take (Suc (Suc i)) (increment_counter_from (Suc i) c))
        = (be_value (take (Suc (Suc i)) c) + 1) mod 256 ^ Suc (Suc i)"
      using r orig by simp
    moreover have "drop (Suc (Suc i)) (increment_counter_from i ?c) = drop (Suc (Suc i)) c"
      using ih(2) by (metis drop_Suc drop_update_cancel lessI tl_drop)
    ultimately show ?thesis using r by simp
  qed
qed

lemma be_value_increment:
  assumes "length c = 16"
  shows "be_value (increment_counter c) = (be_value c + 1) mod 2 ^ 128"
proof -
  have "(2 :: nat) ^ 128 = 256 ^ Suc 15" by simp
  with increment_counter_from_value [of 15 c] assms show ?thesis
    by (simp add: increment_counter_def)
qed

lemma length_increments [simp]: "length ((increment_counter ^^ n) c) = length c"
  by (induction n) simp_all

lemma be_value_increments:
  "length c = 16 \<Longrightarrow> be_value ((increment_counter ^^ n) c) = (be_value c + n) mod 2 ^ 128"
proof (induction n)
  case 0
  then show ?case using be_value_bound [of c] by simp
next
  case (Suc n)
  then show ?case by (simp add: be_value_increment mod_Suc_eq)
qed

lemma be_value_zeros: "be_value (replicate n 0) = 0"
  by (induction n) (simp_all add: replicate_append_same [symmetric] del: replicate_append_same)

lemma ctr_initial_counter_bytes: "ctr_initial_counter t = le32 t @ replicate 12 0"
proof -
  have m: "ucast (w AND 255) = (ucast w :: u8)" for w :: u32
  proof (rule bit_word_eqI)
    fix n assume n: "n < LENGTH(8)"
    then have "bit (mask 8 :: u32) n" by (simp add: bit_mask_iff)
    then have "bit (255 :: u32) n" by (simp add: mask_eq_exp_minus_1)
    with n show "bit (ucast (w AND 255) :: u8) n = bit (ucast w :: u8) n" by (simp add: bit_simps)
  qed
  show ?thesis by (simp only: ctr_initial_counter_def le32_def m)
qed

lemma be_value_initial: "be_value (ctr_initial_counter t) = be_value (le32 t) * 2 ^ 96"
proof -
  have "(256 :: nat) ^ 12 = 2 ^ 96" by simp
  then show ?thesis by (simp add: ctr_initial_counter_bytes be_value_append be_value_zeros)
qed

lemma counter_block_value:
  assumes "n < 2 ^ 96"
  shows "be_value ((increment_counter ^^ n) (ctr_initial_counter t)) = be_value (le32 t) * 2 ^ 96 + n"
proof -
  have "be_value (le32 t) < 2 ^ 32" using be_value_bound [of "le32 t"] by simp
  with assms have "be_value (le32 t) * 2 ^ 96 + n < (2 :: nat) ^ 128" by simp
  then show ?thesis by (simp only: be_value_increments length_ctr_initial_counter be_value_initial mod_less)
qed

lemma encrypt_block_inj:
  assumes "240 \<le> length rk" and "length b1 = 16" and "length b2 = 16"
    and "aes256_encrypt_block rk b1 = aes256_encrypt_block rk b2"
  shows "b1 = b2"
proof -
  define x where "x b = fold (aes256_round rk) [1..<14] (add_round_key (take 16 b) rk)" for b
  have l: "length (add_round_key (take 16 b) rk) = 16" if "length b = 16" for b
    using that assms(1) by (intro length_add_round_key) auto
  have lx: "length (x b) = 16" if "length b = 16" for b
    unfolding x_def by (rule length_rounds) (use assms(1) l that in auto)
  have "add_round_key (shift_rows (sub_bytes (x b1))) (drop 224 rk)
      = add_round_key (shift_rows (sub_bytes (x b2))) (drop 224 rk)"
    using assms(4) by (simp add: aes256_encrypt_block_def x_def Let_def)
  then have "shift_rows (sub_bytes (x b1)) = shift_rows (sub_bytes (x b2))"
    by (rule add_round_key_inj [rotated 3]) (use assms(1) in simp_all)
  then have "sub_bytes (x b1) = sub_bytes (x b2)"
    by (rule shift_rows_inj [rotated 2]) (use lx assms(2,3) in simp_all)
  then have "x b1 = x b2" by (rule sub_bytes_inj)
  then have "add_round_key (take 16 b1) rk = add_round_key (take 16 b2) rk"
    unfolding x_def by (rule rounds_inj [rotated 4]) (use assms(1-3) l in auto)
  then have "take 16 b1 = take 16 b2"
    by (rule add_round_key_inj [rotated 3]) (use assms(1-3) in auto)
  with assms(2,3) show ?thesis by simp
qed

lemma digits_unique:
  "a * m + b = c * m + d \<Longrightarrow> b < m \<Longrightarrow> d < m \<Longrightarrow> a = c \<and> b = (d :: nat)"
  by (metis div_mult_self3 div_less mod_less mod_mult_self3 add_0_right less_nat_zero_code)

section \<open>Properties\<close>

text \<open>
  The key schedule of the code, a byte loop over a 240-byte array with its own round-constant
  counter, generates the FIPS 197 key schedule: the sixty words of the standard's recurrence, in
  order.
\<close>

theorem aes256_key_schedule:
  assumes "length key = 32"
  shows "aes256_key_expand key = concat (map (fips_word key) [0..<60])"
  using assms by (rule key_expand_words)

theorem aes256_key_schedule_witness:
  "aes256_key_expand (map of_nat [0..<32]) = concat (map (fips_word (map of_nat [0..<32])) [0..<60])"
  by (rule aes256_key_schedule) simp

lemma ctr_crypt_twice:
  assumes "length key = 32"
  shows "length (aes256_ctr_crypt key tx input) = length input"
    and "aes256_ctr_crypt key tx (aes256_ctr_crypt key tx input) = input"
  using ctr_spec_twice [of "aes256_key_expand key" "ctr_initial_counter tx" input]
    length_key_expand [OF assms]
  by (simp_all add: ctr_crypt_spec)

text \<open>
  Counter mode is its own inverse and keeps the length: what one node encrypts with a session key
  and transmit counter, the peer decrypts by the same call, for payloads of any length (whole blocks
  or not).
\<close>

theorem aes256_ctr_involution:
  assumes "length key = 32"
  shows "length (aes256_ctr_crypt key tx input) = length input
    \<and> aes256_ctr_crypt key tx (aes256_ctr_crypt key tx input) = input"
  using ctr_crypt_twice [OF assms] by simp

theorem aes256_ctr_involution_witness:
  "aes256_ctr_crypt (replicate 32 7) 258 (aes256_ctr_crypt (replicate 32 7) 258 [1, 2, 3]) = [1, 2, 3]"
  using aes256_ctr_involution [of "replicate 32 7" 258 "[1, 2, 3]"] by simp

text \<open>
  C25: Under one key no two keystream blocks are the same: a block cipher input is used by one
  transmit counter and one block index only, and the cipher itself maps different inputs to
  different blocks. (Messages are far shorter than the 2^96 blocks after which the counter part
  would reach the next transmit counter.)
\<close>

theorem aes256_keystream_unique:
  assumes "length key = 32" and "n1 < 2 ^ 96" and "n2 < 2 ^ 96" and "(t1, n1) \<noteq> (t2, n2)"
  shows "aes256_encrypt_block (aes256_key_expand key) ((increment_counter ^^ n1) (ctr_initial_counter t1))
    \<noteq> aes256_encrypt_block (aes256_key_expand key) ((increment_counter ^^ n2) (ctr_initial_counter t2))"
proof
  assume "aes256_encrypt_block (aes256_key_expand key) ((increment_counter ^^ n1) (ctr_initial_counter t1))
      = aes256_encrypt_block (aes256_key_expand key) ((increment_counter ^^ n2) (ctr_initial_counter t2))"
  then have "(increment_counter ^^ n1) (ctr_initial_counter t1) = (increment_counter ^^ n2) (ctr_initial_counter t2)"
    by (rule encrypt_block_inj [rotated 3]) (simp_all add: length_key_expand assms(1))
  then have "be_value (le32 t1) * 2 ^ 96 + n1 = be_value (le32 t2) * 2 ^ 96 + n2"
    using counter_block_value assms(2,3) by metis
  then have "be_value (le32 t1) = be_value (le32 t2) \<and> n1 = n2"
    using assms(2,3) by (rule digits_unique)
  then have "t1 = t2 \<and> n1 = n2"
    using rd32_le32 be_value_inj [of "le32 t1" "le32 t2"] by (metis length_le32)
  with assms(4) show False by simp
qed

theorem aes256_keystream_unique_witness:
  "aes256_encrypt_block (aes256_key_expand (replicate 32 9)) (increment_counter (ctr_initial_counter 5))
    \<noteq> aes256_encrypt_block (aes256_key_expand (replicate 32 9)) (ctr_initial_counter 6)"
  using aes256_keystream_unique [of "replicate 32 9" 1 0 5 6] by simp

end
