(* ===== verification/Crypto.thy ===== *)
theory Crypto
  imports Aes256Props WireTypes
begin

text \<open>
  The keys and tags of \<^verbatim>\<open>esp_tree_common/espnow_crypto.cpp\<close>. HMAC-SHA256 is the
  platform's (mbedtls, BearSSL): it is the argument \<open>hmac\<close> (key, data) of the definitions,
  and what is relied on is that it returns 32 bytes (\<open>hmac32\<close>). C strings are their bytes
  before the terminator. The module's two variables are the record \<open>crypto_state\<close>.
\<close>

section \<open>The code\<close>

record crypto_state =
  g_psk :: bytes
  g_psk_set :: bool

definition crypto_initial :: crypto_state where
  "crypto_initial = \<lparr>g_psk = replicate 32 0, g_psk_set = False\<rparr>"

text \<open>The loop ORs the differences into one accumulator; only its being zero is used.\<close>

fun constant_time_diff :: "bytes \<Rightarrow> bytes \<Rightarrow> nat \<Rightarrow> nat \<Rightarrow> u8 \<Rightarrow> u8" where
  "constant_time_diff a b i 0 diff = diff"
| "constant_time_diff a b i (Suc k) diff = constant_time_diff a b (Suc i) k (diff OR (a ! i XOR b ! i))"

definition constant_time_equal :: "bytes \<Rightarrow> bytes \<Rightarrow> nat \<Rightarrow> bool" where
  "constant_time_equal a b len \<longleftrightarrow> constant_time_diff a b 0 len 0 = 0"

definition kHkdfSalt :: bytes where
  "kHkdfSalt = replicate 32 0"

definition hkdf_extract :: "(bytes \<Rightarrow> bytes \<Rightarrow> bytes) \<Rightarrow> bytes \<Rightarrow> bytes \<Rightarrow> bytes" where
  "hkdf_extract hmac salt ikm = hmac salt ikm"

text \<open>
  The content of \<^verbatim>\<open>block[96]\<close> in one round: the previous output but in the first
  round, the info, the round number. The code copies without a check, so that more than 96 bytes run
  over the array on the stack; such a round has no result, \<open>None\<close>.
\<close>

definition kHkdfBlockSize :: nat where "kHkdfBlockSize = 96"

definition hkdf_block :: "u8 \<Rightarrow> bytes \<Rightarrow> bytes \<Rightarrow> bytes option" where
  "hkdf_block counter t info =
     (let block = (if counter = 1 then info else t @ info) @ [counter]
      in if kHkdfBlockSize < length block then None else Some block)"

function hkdf_expand_loop ::
  "(bytes \<Rightarrow> bytes \<Rightarrow> bytes) \<Rightarrow> bytes \<Rightarrow> bytes \<Rightarrow> nat \<Rightarrow> u8 \<Rightarrow> bytes \<Rightarrow> nat \<Rightarrow> bytes \<Rightarrow> bytes option" where
  "hkdf_expand_loop hmac prk info out_len counter t offset out =
     (if offset < out_len then
        (let counter = counter + 1
         in case hkdf_block counter t info of
              None \<Rightarrow> None
            | Some block \<Rightarrow>
                (let t = hmac prk block;
                     copy = (if offset + 32 \<le> out_len then 32 else out_len - offset)
                 in hkdf_expand_loop hmac prk info out_len counter t (offset + copy) (out @ take copy t)))
      else Some out)"
  by pat_completeness auto
termination
  by (relation "measure (\<lambda>(_, _, _, out_len, _, _, offset, _). out_len - offset)") auto

declare hkdf_expand_loop.simps [simp del]

definition hkdf_expand :: "(bytes \<Rightarrow> bytes \<Rightarrow> bytes) \<Rightarrow> bytes \<Rightarrow> bytes \<Rightarrow> nat \<Rightarrow> bytes option" where
  "hkdf_expand hmac prk info out_len = hkdf_expand_loop hmac prk info out_len 0 [] 0 []"

definition hex_nibble :: "u8 \<Rightarrow> int" where
  "hex_nibble c =
     (if 97 \<le> c \<and> c \<le> 102 then uint c - 97 + 10
      else if 65 \<le> c \<and> c \<le> 70 then uint c - 65 + 10
      else if 48 \<le> c \<and> c \<le> 57 then uint c - 48 else - 1)"

text \<open>The loop over the digit pairs; \<open>acc\<close> holds the bytes stored so far.\<close>

fun hex_to_bytes_loop :: "bytes \<Rightarrow> bytes \<Rightarrow> int \<times> bytes" where
  "hex_to_bytes_loop (hi # lo # rest) acc =
     (if hex_nibble hi < 0 \<or> hex_nibble lo < 0 then (- 1, acc)
      else hex_to_bytes_loop rest
             (acc @ [push_bit 4 (word_of_int (hex_nibble hi)) OR word_of_int (hex_nibble lo)]))"
| "hex_to_bytes_loop _ acc = (0, acc)"

text \<open>Result code, the output array (written from its start), and \<^verbatim>\<open>*out_len\<close>.\<close>

definition hex_to_bytes :: "bytes \<Rightarrow> bytes \<Rightarrow> nat \<Rightarrow> int \<times> bytes \<times> nat" where
  "hex_to_bytes hex out out_len =
     (if length hex mod 2 \<noteq> 0 then (- 1, out, out_len)
      else case hex_to_bytes_loop hex [] of
             (rc, acc) \<Rightarrow> (rc, acc @ drop (length acc) out, length hex div 2))"

text \<open>
  The info string is \<^verbatim>\<open>esp-tree-psk\<close>. Both callers of \<open>hkdf_expand\<close> pass an
  info of fixed length (12 and 32 bytes) that fits the block, for which it has a result
  (\<open>callers_expand\<close>), so \<open>the\<close> reads an existing value.
\<close>

definition derive_psk_from_string :: "(bytes \<Rightarrow> bytes \<Rightarrow> bytes) \<Rightarrow> bytes \<Rightarrow> bytes" where
  "derive_psk_from_string hmac input =
     the (hkdf_expand hmac (hkdf_extract hmac kHkdfSalt input)
       [101, 115, 112, 45, 116, 114, 101, 101, 45, 112, 115, 107] 32)"

definition espnow_crypto_init ::
  "(bytes \<Rightarrow> bytes \<Rightarrow> bytes) \<Rightarrow> bytes \<Rightarrow> crypto_state \<Rightarrow> crypto_state \<times> int" where
  "espnow_crypto_init hmac psk_input s =
     (let (rc, key, len) = (if length psk_input = 64 then hex_to_bytes psk_input (g_psk s) 0
                            else (- 1, g_psk s, 0))
      in if length psk_input = 64 \<and> rc = 0 \<and> len = 32
         then (s\<lparr>g_psk := key, g_psk_set := True\<rparr>, 0)
         else if length psk_input = 0
         then (s\<lparr>g_psk := replicate 32 0, g_psk_set := False\<rparr>, - 1)
         else (s\<lparr>g_psk := derive_psk_from_string hmac psk_input, g_psk_set := True\<rparr>, 0))"

definition espnow_crypto_derive_session_key ::
  "(bytes \<Rightarrow> bytes \<Rightarrow> bytes) \<Rightarrow> crypto_state \<Rightarrow> bytes \<Rightarrow> bytes \<Rightarrow> bytes" where
  "espnow_crypto_derive_session_key hmac s bridge_nonce remote_nonce =
     (if \<not> g_psk_set s then replicate 32 0
      else the (hkdf_expand hmac (hkdf_extract hmac kHkdfSalt (g_psk s))
             (take 16 bridge_nonce @ take 16 remote_nonce) 32))"

text \<open>The authenticated bytes: bytes 2 to 12 of the header, then the payload.\<close>

definition tag_data :: "bytes \<Rightarrow> bytes \<Rightarrow> bytes" where
  "tag_data header_bytes payload = take 11 (drop 2 header_bytes) @ payload"

definition espnow_crypto_psk_tag ::
  "(bytes \<Rightarrow> bytes \<Rightarrow> bytes) \<Rightarrow> crypto_state \<Rightarrow> bytes \<Rightarrow> bytes \<Rightarrow> bytes" where
  "espnow_crypto_psk_tag hmac s header_bytes payload =
     (if \<not> g_psk_set s then replicate ESPNOW_PSK_TAG_LEN 0
      else take ESPNOW_PSK_TAG_LEN (hmac (g_psk s) (tag_data header_bytes payload)))"

definition espnow_crypto_verify_psk_tag ::
  "(bytes \<Rightarrow> bytes \<Rightarrow> bytes) \<Rightarrow> crypto_state \<Rightarrow> bytes \<Rightarrow> bytes \<Rightarrow> bytes \<Rightarrow> bool" where
  "espnow_crypto_verify_psk_tag hmac s header_bytes payload received_psk_tag \<longleftrightarrow>
     (if \<not> g_psk_set s then False
      else constant_time_equal (espnow_crypto_psk_tag hmac s header_bytes payload)
             received_psk_tag ESPNOW_PSK_TAG_LEN)"

definition espnow_crypto_session_tag ::
  "(bytes \<Rightarrow> bytes \<Rightarrow> bytes) \<Rightarrow> bytes \<Rightarrow> bytes \<Rightarrow> bytes \<Rightarrow> bytes" where
  "espnow_crypto_session_tag hmac session_key header_bytes ciphertext =
     take ESPNOW_SESSION_TAG_LEN (hmac session_key (tag_data header_bytes ciphertext))"

definition espnow_crypto_verify_session_tag ::
  "(bytes \<Rightarrow> bytes \<Rightarrow> bytes) \<Rightarrow> bytes \<Rightarrow> bytes \<Rightarrow> bytes \<Rightarrow> bytes \<Rightarrow> bool" where
  "espnow_crypto_verify_session_tag hmac session_key header_bytes ciphertext received_session_tag \<longleftrightarrow>
     constant_time_equal (espnow_crypto_session_tag hmac session_key header_bytes ciphertext)
       received_session_tag ESPNOW_SESSION_TAG_LEN"

text \<open>\<^verbatim>\<open>None\<close> is the result \<open>-1\<close>; a null key pointer is \<^verbatim>\<open>None\<close> as well.\<close>

definition espnow_crypto_crypt :: "crypto_state \<Rightarrow> bytes option \<Rightarrow> u32 \<Rightarrow> bytes \<Rightarrow> bytes option" where
  "espnow_crypto_crypt s session_key tx_counter payload_in =
     (if \<not> g_psk_set s then None
      else case session_key of None \<Rightarrow> None
           | Some key \<Rightarrow> Some (aes256_ctr_crypt key tx_counter payload_in))"

text \<open>What is relied on of the platform's HMAC-SHA256.\<close>

definition hmac32 :: "(bytes \<Rightarrow> bytes \<Rightarrow> bytes) \<Rightarrow> bool" where
  "hmac32 hmac \<longleftrightarrow> (\<forall>key data. length (hmac key data) = 32)"

section \<open>Lemmas\<close>

lemma constant_time_diff_iff:
  "constant_time_diff a b i k diff = 0 \<longleftrightarrow> diff = 0 \<and> (\<forall>j < k. a ! (i + j) = b ! (i + j))"
proof (induction k arbitrary: i diff)
  case (Suc k)
  have "(\<forall>j < Suc k. a ! (i + j) = b ! (i + j)) \<longleftrightarrow> a ! i = b ! i \<and> (\<forall>j < k. a ! (Suc i + j) = b ! (Suc i + j))"
    by (auto simp: less_Suc_eq_0_disj)
  moreover have "(diff OR (a ! i XOR b ! i) = 0) = (diff = 0 \<and> a ! i = b ! i)"
    by (metis or_eq_0_iff xor_cancel xor.right_neutral bit.xor_self)
  ultimately show ?case by (simp add: Suc.IH)
qed simp

lemma constant_time_equal_iff:
  "n \<le> length a \<Longrightarrow> n \<le> length b \<Longrightarrow> constant_time_equal a b n \<longleftrightarrow> take n a = take n b"
  by (auto simp: constant_time_equal_def constant_time_diff_iff list_eq_iff_nth_eq min_def)

lemma length_psk_tag: "hmac32 hmac \<Longrightarrow> length (espnow_crypto_psk_tag hmac s h p) = 4"
  by (simp add: espnow_crypto_psk_tag_def hmac32_def)

lemma length_session_tag: "hmac32 hmac \<Longrightarrow> length (espnow_crypto_session_tag hmac k h p) = 8"
  by (simp add: espnow_crypto_session_tag_def hmac32_def)

lemma verify_psk_tag_iff:
  "hmac32 hmac \<Longrightarrow> length tag = 4 \<Longrightarrow>
    espnow_crypto_verify_psk_tag hmac s h p tag \<longleftrightarrow> g_psk_set s \<and> tag = espnow_crypto_psk_tag hmac s h p"
  using length_psk_tag [of hmac s h p]
  by (auto simp: espnow_crypto_verify_psk_tag_def constant_time_equal_iff)

lemma verify_session_tag_iff:
  "hmac32 hmac \<Longrightarrow> length tag = 8 \<Longrightarrow>
    espnow_crypto_verify_session_tag hmac k h p tag \<longleftrightarrow> tag = espnow_crypto_session_tag hmac k h p"
  using length_session_tag [of hmac k h p]
  by (auto simp: espnow_crypto_verify_session_tag_def constant_time_equal_iff)

subsection \<open>HKDF\<close>

text \<open>The blocks T(1), T(2), ... of RFC 5869, section 2.3.\<close>

fun rfc5869_T :: "(bytes \<Rightarrow> bytes \<Rightarrow> bytes) \<Rightarrow> bytes \<Rightarrow> bytes \<Rightarrow> nat \<Rightarrow> bytes" where
  "rfc5869_T hmac prk info 0 = []"
| "rfc5869_T hmac prk info (Suc n) = hmac prk (rfc5869_T hmac prk info n @ info @ [of_nat (Suc n)])"

definition rfc5869_expand :: "(bytes \<Rightarrow> bytes \<Rightarrow> bytes) \<Rightarrow> bytes \<Rightarrow> bytes \<Rightarrow> nat \<Rightarrow> bytes" where
  "rfc5869_expand hmac prk info L =
     take L (concat (map (\<lambda>i. rfc5869_T hmac prk info (Suc i)) [0..<(L + 31) div 32]))"

lemma length_rfc5869_blocks:
  "hmac32 hmac \<Longrightarrow> length (concat (map (\<lambda>i. rfc5869_T hmac prk info (Suc i)) [0..<n])) = 32 * n"
  by (induction n) (simp_all add: hmac32_def)

lemma round_number: "n < 255 \<Longrightarrow> (of_nat (Suc n) = (1 :: u8)) = (n = 0)"
proof -
  assume n: "n < 255"
  have "(of_nat (Suc n) = (1 :: u8)) = (of_nat (Suc n) = (of_nat 1 :: u8))" by simp
  also have "\<dots> = (Suc n = 1)" by (rule of_nat_word_inj) (use n in auto)
  finally show ?thesis by simp
qed

lemma hkdf_block_T:
  assumes "hmac32 hmac" and n: "n < 255" and len: "(if n = 0 then 0 else 32) + length info < 96"
  shows "hkdf_block (of_nat (Suc n)) (rfc5869_T hmac prk info n) info
    = Some (rfc5869_T hmac prk info n @ info @ [of_nat (Suc n)])"
proof (cases n)
  case 0
  then show ?thesis using len by (simp add: hkdf_block_def kHkdfBlockSize_def)
next
  case (Suc m)
  then have "length (rfc5869_T hmac prk info n) = 32" using assms(1) by (simp add: hmac32_def)
  then show ?thesis using round_number [OF n] len Suc
    by (simp add: hkdf_block_def kHkdfBlockSize_def del: rfc5869_T.simps of_nat_Suc)
qed

lemma hkdf_expand_loop_rfc:
  assumes "hmac32 hmac" and "out_len \<le> 255 * 32" and "32 * n < out_len + 32"
    and "length info + (if out_len \<le> 32 then 0 else 32) < 96"
    and "blocks = concat (map (\<lambda>i. rfc5869_T hmac prk info (Suc i)) [0..<n])"
  shows "hkdf_expand_loop hmac prk info out_len (of_nat n) (rfc5869_T hmac prk info n)
           (min (32 * n) out_len) (take out_len blocks) = Some (rfc5869_expand hmac prk info out_len)"
  using assms(3,5)
proof (induction "out_len - 32 * n" arbitrary: n blocks rule: less_induct)
  case less
  let ?T = "rfc5869_T hmac prk info"
  have lb: "length blocks = 32 * n" using less.prems(2) length_rfc5869_blocks [OF assms(1)] by simp
  show ?case
  proof (cases "32 * n < out_len")
    case False
    then have "(out_len + 31) div 32 = n" using less.prems(1) by simp
    with False lb show ?thesis
      by (subst hkdf_expand_loop.simps) (simp add: rfc5869_expand_def less.prems(2))
  next
    case True
    have n: "n < 255" using True assms(2) by simp
    let ?b = "blocks @ ?T (Suc n)"
    have T: "?b = concat (map (\<lambda>i. ?T (Suc i)) [0..<Suc n])" using less.prems(2) by simp
    have lT: "length (?T (Suc n)) = 32" using assms(1) by (simp add: hmac32_def)
    have copy: "take out_len blocks @ take (if 32 * n + 32 \<le> out_len then 32 else out_len - 32 * n) (?T (Suc n))
        = take out_len ?b"
      using lb lT True by auto
    have off: "32 * n + (if 32 * n + 32 \<le> out_len then 32 else out_len - 32 * n) = min (32 * Suc n) out_len"
      using True by auto
    have block: "hkdf_block (of_nat (Suc n)) (?T n) info = Some (?T n @ info @ [of_nat (Suc n)])"
      by (rule hkdf_block_T [OF assms(1) n]) (use True assms(4) in \<open>auto split: if_splits\<close>)
    have "hkdf_expand_loop hmac prk info out_len (of_nat n) (?T n) (32 * n) (take out_len blocks)
        = hkdf_expand_loop hmac prk info out_len (of_nat (Suc n)) (?T (Suc n)) (min (32 * Suc n) out_len) (take out_len ?b)"
      using block True copy off
      by (subst hkdf_expand_loop.simps) (simp add: Let_def add.commute)
    also have "\<dots> = Some (rfc5869_expand hmac prk info out_len)"
      by (rule less.hyps [OF _ _ T]) (use True in auto)
    finally show ?thesis using True by (simp add: min_def)
  qed
qed

lemma hkdf_expand_rfc:
  "hmac32 hmac \<Longrightarrow> out_len \<le> 255 * 32 \<Longrightarrow> length info + (if out_len \<le> 32 then 0 else 32) < 96 \<Longrightarrow>
    hkdf_expand hmac prk info out_len = Some (rfc5869_expand hmac prk info out_len)"
  using hkdf_expand_loop_rfc [of hmac out_len 0 info "[]" prk] by (simp add: hkdf_expand_def)

text \<open>An info that does not fit is noticed in the first round, or else in the second.\<close>

lemma hkdf_expand_overrun:
  assumes "hmac32 hmac" and "0 < out_len" and "96 \<le> length info + (if out_len \<le> 32 then 0 else 32)"
  shows "hkdf_expand hmac prk info out_len = None"
proof -
  let ?loop = "hkdf_expand_loop hmac prk info out_len"
  have len: "length (hmac k d) = 32" for k d using assms(1) by (simp add: hmac32_def)
  have second: "?loop 1 t 32 out = None" if "length t = 32" and "32 < out_len" for t out
    using that assms(3) by (subst hkdf_expand_loop.simps) (simp add: hkdf_block_def kHkdfBlockSize_def)
  show ?thesis
  proof (cases "95 < length info")
    case True
    then show ?thesis unfolding hkdf_expand_def using assms(2)
      by (subst hkdf_expand_loop.simps) (simp add: hkdf_block_def kHkdfBlockSize_def)
  next
    case False
    then have "32 < out_len" using assms(3) by (auto split: if_splits)
    then show ?thesis unfolding hkdf_expand_def using False len second
      by (subst hkdf_expand_loop.simps) (simp add: hkdf_block_def kHkdfBlockSize_def)
  qed
qed

lemma length_rfc5869_expand: "hmac32 hmac \<Longrightarrow> length (rfc5869_expand hmac prk info out_len) = out_len"
  using length_rfc5869_blocks [of hmac prk info "(out_len + 31) div 32"] by (simp add: rfc5869_expand_def)

text \<open>The two uses in the code: a 32 byte key from an info that fits the block.\<close>

lemma callers_expand:
  assumes "hmac32 hmac" and "length info < 96"
  shows "hkdf_expand hmac prk info 32 = Some (rfc5869_expand hmac prk info 32)"
    and "length (the (hkdf_expand hmac prk info 32)) = 32"
  using hkdf_expand_rfc [OF assms(1), of 32 info prk] length_rfc5869_expand [OF assms(1)] assms(2) by simp_all

lemma length_derive_psk: "hmac32 hmac \<Longrightarrow> length (derive_psk_from_string hmac input) = 32"
  by (simp add: derive_psk_from_string_def callers_expand(1) length_rfc5869_expand)

lemma length_session_key:
  "hmac32 hmac \<Longrightarrow> length (espnow_crypto_derive_session_key hmac c m n) = 32"
  by (simp add: espnow_crypto_derive_session_key_def callers_expand(1) length_rfc5869_expand)

subsection \<open>Hexadecimal keys\<close>

definition hex_digit :: "bool \<Rightarrow> nat \<Rightarrow> u8" where
  "hex_digit upper n = (if n < 10 then of_nat (48 + n) else of_nat ((if upper then 55 else 87) + n))"

fun to_hex :: "bool \<Rightarrow> bytes \<Rightarrow> bytes" where
  "to_hex upper [] = []"
| "to_hex upper (b # bs) = hex_digit upper (unat b div 16) # hex_digit upper (unat b mod 16) # to_hex upper bs"

lemma hex_nibble_digit: "n < 16 \<Longrightarrow> hex_nibble (hex_digit upper n) = int n"
proof -
  assume "n < 16"
  then have "n \<in> set [0..<16]" by simp
  moreover have "\<forall>n \<in> set [0..<16]. hex_nibble (hex_digit u n) = int n" for u
    by (cases u) (simp_all add: hex_nibble_def hex_digit_def upt_rec)
  ultimately show ?thesis by blast
qed

lemma unat_nibbles: "unat (b :: u8) div 16 < 16" "unat (b :: u8) mod 16 < 16"
  using unat_u8_bound [of b] by linarith+

lemma join_nibbles: "push_bit 4 (word_of_int (int (unat b div 16))) OR word_of_int (int (unat b mod 16)) = (b :: u8)"
proof (rule bit_word_eqI)
  fix n assume "n < LENGTH(8)"
  have hi: "word_of_int (int (unat b div 16)) = (drop_bit 4 b :: u8)"
  proof -
    have "unat b div 16 < 2 ^ LENGTH(8)" using unat_nibbles(1) [of b] by simp
    then have "unat (of_nat (unat b div 16) :: u8) = unat (drop_bit 4 b)"
      by (simp add: unat_of_nat_small unat_drop_bit_eq) (simp add: drop_bit_eq_div)
    then show ?thesis by (metis of_int_of_nat_eq unsigned_word_eqI)
  qed
  have lo: "word_of_int (int (unat b mod 16)) = (take_bit 4 b :: u8)"
  proof -
    have "unat b mod 16 < 2 ^ LENGTH(8)" using unat_nibbles(2) [of b] by simp
    then have "unat (of_nat (unat b mod 16) :: u8) = unat (take_bit 4 b)"
      by (simp add: unat_of_nat_small unsigned_take_bit_eq) (simp add: take_bit_eq_mod)
    then show ?thesis by (metis of_int_of_nat_eq unsigned_word_eqI)
  qed
  show "bit (push_bit 4 (word_of_int (int (unat b div 16))) OR word_of_int (int (unat b mod 16)) :: u8) n = bit b n"
    unfolding hi lo using \<open>n < LENGTH(8)\<close> by (auto simp: bit_simps)
qed

lemma hex_to_bytes_loop_to_hex: "hex_to_bytes_loop (to_hex upper bs) acc = (0, acc @ bs)"
  by (induction bs arbitrary: acc)
    (simp_all only: to_hex.simps hex_to_bytes_loop.simps hex_nibble_digit unat_nibbles join_nibbles, simp_all)

lemma length_to_hex [simp]: "length (to_hex upper bs) = 2 * length bs"
  by (induction bs) simp_all

lemma hex_to_bytes_loop_length:
  "hex_to_bytes_loop hex acc = (0, out) \<Longrightarrow> length out = length acc + length hex div 2"
  by (induction hex acc rule: hex_to_bytes_loop.induct) (auto split: if_splits)

section \<open>Properties\<close>

text \<open>
  C26: The key derivation of the code (a loop with a round counter, a 96 byte block buffer and a
  partial last copy) is HKDF-Expand of RFC 5869 for every output length the standard allows, exactly
  as long as the block fits its buffer: up to 95 bytes of info when one round is enough (32 bytes of
  output), up to 63 bytes of info otherwise. With a longer info the code writes past the buffer
  (\<open>None\<close>). The two keys the code derives (from the passphrase, and a session key from the two
  nonces) are in the good case and are the RFC's output.
\<close>

theorem hkdf_expand_is_rfc5869:
  assumes "hmac32 hmac" and "out_len \<le> 255 * 32"
  shows "hkdf_expand hmac prk info out_len =
      (if out_len = 0 \<or> length info \<le> (if out_len \<le> 32 then 95 else 63)
       then Some (rfc5869_expand hmac prk info out_len) else None)
    \<and> length (rfc5869_expand hmac prk info out_len) = out_len
    \<and> derive_psk_from_string hmac input = rfc5869_expand hmac (hmac (replicate 32 0) input)
        [101, 115, 112, 45, 116, 114, 101, 101, 45, 112, 115, 107] 32
    \<and> (if g_psk_set c
       then espnow_crypto_derive_session_key hmac c bridge_nonce remote_nonce
         = rfc5869_expand hmac (hmac (replicate 32 0) (g_psk c)) (take 16 bridge_nonce @ take 16 remote_nonce) 32
       else espnow_crypto_derive_session_key hmac c bridge_nonce remote_nonce = replicate 32 0)"
proof (intro conjI)
  have zero: "hkdf_expand hmac prk info 0 = Some (rfc5869_expand hmac prk info 0)"
    unfolding hkdf_expand_def by (subst hkdf_expand_loop.simps) (simp add: rfc5869_expand_def)
  show "hkdf_expand hmac prk info out_len =
      (if out_len = 0 \<or> length info \<le> (if out_len \<le> 32 then 95 else 63)
       then Some (rfc5869_expand hmac prk info out_len) else None)"
    using zero hkdf_expand_rfc [OF assms, of info prk] hkdf_expand_overrun [OF assms(1), of out_len info prk]
    by (cases "out_len \<le> 32") auto
  show "length (rfc5869_expand hmac prk info out_len) = out_len" by (rule length_rfc5869_expand [OF assms(1)])
qed (use assms(1) in \<open>simp_all add: derive_psk_from_string_def espnow_crypto_derive_session_key_def
  hkdf_extract_def kHkdfSalt_def callers_expand\<close>)

theorem hkdf_expand_is_rfc5869_witness:
  "hkdf_expand (\<lambda>k d. replicate 32 (of_nat (length d))) [] [7, 8] 40 = Some (replicate 32 3 @ replicate 8 35)
   \<and> hkdf_expand (\<lambda>k d. replicate 32 (of_nat (length d))) [] (replicate 64 7) 33 = None"
proof -
  let ?h = "\<lambda>k d. replicate 32 (of_nat (length d)) :: bytes"
  have "hkdf_expand ?h [] [7, 8] 40 = Some (rfc5869_expand ?h [] [7, 8] 40)"
    using hkdf_expand_is_rfc5869 [of ?h 40 "[]" "[7, 8]"] by (simp add: hmac32_def)
  also have "rfc5869_expand ?h [] [7, 8] 40 = replicate 32 3 @ replicate 8 35"
  proof -
    have T: "rfc5869_T ?h [] [7, 8] (Suc 0) = replicate 32 3"
      "rfc5869_T ?h [] [7, 8] (Suc 1) = replicate 32 35" by simp_all
    have u: "[0..<(40 + 31) div 32] = [0, 1 :: nat]" by (simp add: upt_rec)
    show ?thesis by (simp only: rfc5869_expand_def u list.map concat.simps T) simp
  qed
  finally show ?thesis
    using hkdf_expand_is_rfc5869 [of ?h 33 "[]" "replicate 64 7"] by (simp add: hmac32_def)
qed

text \<open>
  Setting the pre-shared key, on every branch: the empty string is refused and clears the key;
  64 hexadecimal digits (either case) install exactly the 32 bytes they spell; every other string
  (a wrong length or a bad digit included) succeeds with the key derived from it. A key that is
  set always has 32 bytes.
\<close>

theorem espnow_crypto_init_cases:
  assumes "hmac32 hmac" and "length (g_psk s) = 32"
  shows "espnow_crypto_init hmac [] s = (\<lparr>g_psk = replicate 32 0, g_psk_set = False\<rparr>, - 1)
    \<and> (length key = 32 \<longrightarrow> espnow_crypto_init hmac (to_hex upper key) s = (\<lparr>g_psk = key, g_psk_set = True\<rparr>, 0))
    \<and> (input \<noteq> [] \<and> (length input \<noteq> 64 \<or> fst (hex_to_bytes_loop input []) \<noteq> 0) \<longrightarrow>
        espnow_crypto_init hmac input s = (\<lparr>g_psk = derive_psk_from_string hmac input, g_psk_set = True\<rparr>, 0))
    \<and> length (g_psk (fst (espnow_crypto_init hmac input s))) = 32"
proof (intro conjI impI)
  show "espnow_crypto_init hmac [] s = (\<lparr>g_psk = replicate 32 0, g_psk_set = False\<rparr>, - 1)"
    by (simp add: espnow_crypto_init_def)
  show "espnow_crypto_init hmac (to_hex upper key) s = (\<lparr>g_psk = key, g_psk_set = True\<rparr>, 0)" if "length key = 32"
    using that assms(2) by (simp add: espnow_crypto_init_def hex_to_bytes_def hex_to_bytes_loop_to_hex)
  show "espnow_crypto_init hmac input s = (\<lparr>g_psk = derive_psk_from_string hmac input, g_psk_set = True\<rparr>, 0)"
    if "input \<noteq> [] \<and> (length input \<noteq> 64 \<or> fst (hex_to_bytes_loop input []) \<noteq> 0)"
    using that by (auto simp: espnow_crypto_init_def hex_to_bytes_def split: prod.splits)
  show "length (g_psk (fst (espnow_crypto_init hmac input s))) = 32"
    using hex_to_bytes_loop_length [of input "[]"] assms
    by (auto simp: espnow_crypto_init_def hex_to_bytes_def length_derive_psk
        split: prod.splits)
qed

theorem espnow_crypto_init_cases_witness:
  "espnow_crypto_init (\<lambda>k d. replicate 32 1) (to_hex True (replicate 32 171)) crypto_initial
     = (\<lparr>g_psk = replicate 32 171, g_psk_set = True\<rparr>, 0)"
  using espnow_crypto_init_cases [of "\<lambda>k d. replicate 32 1" crypto_initial "replicate 32 171" True "[]"]
  by (simp add: hmac32_def crypto_initial_def)

text \<open>
  Both tags are accepted exactly when they are the computed ones, and never before a key is set
  for the network tag; neither depends on the two leading header bytes (protocol version and hop
  count), which relays rewrite, nor on the tag field behind byte 12.
\<close>

theorem tags_ignore_hop_count:
  assumes "hmac32 hmac" and "length tag = 4" and "length stag = 8" and "length hdr = 11"
  shows "espnow_crypto_verify_psk_tag hmac s (ver # hop # hdr @ rest) p tag
      = (g_psk_set s \<and> tag = take 4 (hmac (g_psk s) (hdr @ p)))
    \<and> espnow_crypto_verify_session_tag hmac k (ver # hop # hdr @ rest) p stag
      = (stag = take 8 (hmac k (hdr @ p)))"
proof -
  have "tag_data (ver # hop # hdr @ rest) p = hdr @ p" using assms(4) by (simp add: tag_data_def)
  then show ?thesis
    using assms by (auto simp: verify_psk_tag_iff verify_session_tag_iff espnow_crypto_psk_tag_def
        espnow_crypto_session_tag_def)
qed

theorem tags_ignore_hop_count_witness:
  "espnow_crypto_verify_psk_tag (\<lambda>k d. replicate 32 (last d)) \<lparr>g_psk = [], g_psk_set = True\<rparr>
     (3 # 130 # replicate 11 0 @ []) [9] (replicate 4 9)"
  using tags_ignore_hop_count [of "\<lambda>k d. replicate 32 (last d)" "replicate 4 9" "replicate 8 0" "replicate 11 0"
      "\<lparr>g_psk = [], g_psk_set = True\<rparr>" 3 130 "[]" "[9]" "[]"]
  by (simp add: hmac32_def)

end
