(* ===== verification/Frames.thy ===== *)
theory Frames
  imports Crypto Payloads
begin

text \<open>
  Frame building and parsing (\<^verbatim>\<open>esp_tree_common/espnow_frames.h\<close>) and the text
  forms of addresses and names (\<^verbatim>\<open>espnow_mac_utils.h\<close>,
  \<^verbatim>\<open>esp_tree_utils.h\<close>). A frame is the 17-byte header, the parent's address when the
  parent-check bit of the hop byte is set, and the payload. SHA-256 is the platform's and is the
  argument \<open>sha256\<close>; strings are their bytes.
\<close>

section \<open>Text forms\<close>

abbreviation (input) ESPNOW_BROADCAST_MAC :: bytes where "ESPNOW_BROADCAST_MAC \<equiv> replicate 6 255"

text \<open>\<^verbatim>\<open>snprintf\<close> keeps the first \<open>out_len - 1\<close> characters of the text.\<close>

definition format_mac :: "bytes \<Rightarrow> nat \<Rightarrow> bytes" where
  "format_mac mac out_len =
     take (out_len - 1)
       (to_hex True [mac ! 0] @ 58 # to_hex True [mac ! 1] @ 58 # to_hex True [mac ! 2] @ 58 #
        to_hex True [mac ! 3] @ 58 # to_hex True [mac ! 4] @ 58 # to_hex True [mac ! 5])"

definition espnow_mac_to_hex_string :: "bytes \<Rightarrow> bytes" where
  "espnow_mac_to_hex_string mac =
     take 13 (to_hex True [mac ! 0, mac ! 1, mac ! 2, mac ! 3, mac ! 4, mac ! 5])"

definition mac_hex :: "bytes option \<Rightarrow> bytes" where
  "mac_hex mac = (case mac of None \<Rightarrow> [] | Some m \<Rightarrow> espnow_mac_to_hex_string m)"

definition espnow_mac_to_display_string :: "bytes \<Rightarrow> bytes" where
  "espnow_mac_to_display_string mac = format_mac mac 19"

text \<open>The text for a null pointer is \<^verbatim>\<open><null>\<close>.\<close>

definition mac_display :: "bytes option \<Rightarrow> bytes" where
  "mac_display mac =
     (case mac of None \<Rightarrow> [60, 110, 117, 108, 108, 62] | Some m \<Rightarrow> espnow_mac_to_display_string m)"

definition sanitize_char :: "u8 \<Rightarrow> u8" where
  "sanitize_char ch =
     (let ch = (if 65 \<le> ch \<and> ch \<le> 90 then ch - 65 + 97 else ch)
      in if \<not> ((97 \<le> ch \<and> ch \<le> 122) \<or> (48 \<le> ch \<and> ch \<le> 57)) then 95 else ch)"

definition sanitize_object_id :: "bytes \<Rightarrow> bytes" where
  "sanitize_object_id input = map sanitize_char input"

section \<open>Building frames\<close>

text \<open>A null tag leaves the four bytes of the buffer as they were.\<close>

definition build_frame_header ::
  "bytes \<Rightarrow> u8 \<Rightarrow> u8 \<Rightarrow> u8 \<Rightarrow> u32 \<Rightarrow> bytes option \<Rightarrow> bytes \<Rightarrow> bytes" where
  "build_frame_header src_mac protocol_version hop_count packet_type tx_counter psk_tag frame =
     c_enc espnow_frame_header_codec
       \<lparr>fh_protocol_version = protocol_version, fh_hop_count = hop_count,
        fh_packet_type = packet_type, fh_leaf_mac = take 6 src_mac, fh_tx_counter = tx_counter,
        fh_psk_tag = (case psk_tag of Some t \<Rightarrow> take ESPNOW_PSK_TAG_LEN t
                      | None \<Rightarrow> take ESPNOW_PSK_TAG_LEN (drop 13 frame))\<rparr>
     @ drop 17 frame"

definition make_discover_payload :: "bytes \<Rightarrow> u8 \<Rightarrow> espnow_discover" where
  "make_discover_payload network_id capability_flags =
     \<lparr>disc_network_id = zero_padded 32 network_id,
      disc_network_id_len = of_nat (length network_id),
      disc_capability_flags = capability_flags\<rparr>"

definition make_discover_announce_payload ::
  "bytes \<Rightarrow> bytes \<Rightarrow> u8 \<Rightarrow> u8 \<Rightarrow> bool \<Rightarrow> espnow_discover_announce" where
  "make_discover_announce_payload network_id responder_mac responder_role hops_to_bridge bridge_reachable =
     \<lparr>ann_network_id = zero_padded 32 network_id,
      ann_network_id_len = of_nat (length network_id),
      ann_responder_mac = take 6 responder_mac,
      ann_responder_role = responder_role, ann_hops_to_bridge = hops_to_bridge,
      ann_bridge_reachable = (if bridge_reachable then 1 else 0), ann_flags = 0\<rparr>"

definition make_join_payload :: "bytes \<Rightarrow> bytes option \<Rightarrow> u8 \<Rightarrow> u8 \<Rightarrow> u8 \<Rightarrow> espnow_join" where
  "make_join_payload remote_nonce schema_hash hops_to_bridge dirty_count session_flags =
     \<lparr>join_remote_nonce = take 16 remote_nonce,
      join_schema_hash = (case schema_hash of Some h \<Rightarrow> take 32 h | None \<Rightarrow> replicate 32 0),
      join_hops_to_bridge = hops_to_bridge, join_dirty_count = dirty_count,
      join_session_flags = session_flags\<rparr>"

text \<open>Null and empty C strings contribute nothing; each field is closed by a zero byte.\<close>

definition empty_node_schema_bytes :: "bytes option \<Rightarrow> bytes option \<Rightarrow> u32 \<Rightarrow> bytes option \<Rightarrow> bytes option \<Rightarrow> bytes" where
  "empty_node_schema_bytes esphome_name node_label firmware_epoch project_name project_version =
     (let str = case_option [] (\<lambda>t. t)
      in str esphome_name @ [0] @ str node_label @ [0]
         @ map (\<lambda>i. ucast (drop_bit (i * 8) firmware_epoch AND 255)) [0..<4]
         @ str project_name @ [0] @ str project_version @ [0])"

definition compute_schema_hash_for_empty_node ::
  "(bytes \<Rightarrow> bytes) \<Rightarrow> bytes option \<Rightarrow> bytes option \<Rightarrow> u32 \<Rightarrow> bytes option \<Rightarrow> bytes option \<Rightarrow> bytes" where
  "compute_schema_hash_for_empty_node sha256 esphome_name node_label firmware_epoch project_name project_version =
     sha256 (empty_node_schema_bytes esphome_name node_label firmware_epoch project_name project_version)"

definition make_join_ack_payload :: "bool \<Rightarrow> u8 \<Rightarrow> u8 \<Rightarrow> bytes \<Rightarrow> u8 \<Rightarrow> espnow_join_ack" where
  "make_join_ack_payload accepted reason stage bridge_nonce session_flags =
     \<lparr>jack_accepted = (if accepted then 1 else 0), jack_reason = reason, jack_stage = stage,
      jack_bridge_nonce = take 16 bridge_nonce, jack_session_flags = session_flags\<rparr>"

text \<open>
  The tag bytes of the header are not initialised when the tag is computed; bytes 2 to 12 are, and
  only those are read.
\<close>

definition assemble_plain_frame ::
  "(bytes \<Rightarrow> bytes \<Rightarrow> bytes) \<Rightarrow> crypto_state \<Rightarrow> u8 \<Rightarrow> bytes \<Rightarrow> u8 \<Rightarrow> u32 \<Rightarrow> bytes \<Rightarrow> bytes" where
  "assemble_plain_frame hmac s packet_type leaf_mac hop_count tx_counter payload =
     (let hdr = \<lparr>fh_protocol_version = ESPNOW_PROTOCOL_VER, fh_hop_count = hop_count,
                 fh_packet_type = packet_type, fh_leaf_mac = take 6 leaf_mac,
                 fh_tx_counter = tx_counter, fh_psk_tag = replicate 4 0\<rparr>;
          tag = espnow_crypto_psk_tag hmac s (c_enc espnow_frame_header_codec hdr) payload
      in c_enc espnow_frame_header_codec (hdr\<lparr>fh_psk_tag := tag\<rparr>) @ payload)"

definition make_discover_frame ::
  "(bytes \<Rightarrow> bytes \<Rightarrow> bytes) \<Rightarrow> crypto_state \<Rightarrow> bytes \<Rightarrow> bytes \<Rightarrow> u8 \<Rightarrow> bytes" where
  "make_discover_frame hmac s leaf_mac network_id capability_flags =
     assemble_plain_frame hmac s (packet_code PKT_DISCOVER) leaf_mac ESPNOW_HOPS_DIR_UP 0
       (c_enc espnow_discover_codec (make_discover_payload network_id capability_flags))"

definition make_join_frame ::
  "(bytes \<Rightarrow> bytes \<Rightarrow> bytes) \<Rightarrow> crypto_state \<Rightarrow> bytes \<Rightarrow> u8 \<Rightarrow> u8 \<Rightarrow> u8 \<Rightarrow> bytes \<Rightarrow> bytes option \<Rightarrow> bytes" where
  "make_join_frame hmac s leaf_mac hops_to_bridge dirty_count session_flags remote_nonce schema_hash =
     assemble_plain_frame hmac s (packet_code PKT_JOIN) leaf_mac ESPNOW_HOPS_DIR_UP 1
       (c_enc espnow_join_codec
         (make_join_payload remote_nonce schema_hash hops_to_bridge dirty_count session_flags))"

definition make_discover_announce_frame ::
  "(bytes \<Rightarrow> bytes \<Rightarrow> bytes) \<Rightarrow> crypto_state \<Rightarrow> bytes \<Rightarrow> bytes \<Rightarrow> bytes \<Rightarrow> u8 \<Rightarrow> u8 \<Rightarrow> bool \<Rightarrow> bytes" where
  "make_discover_announce_frame hmac s leaf_mac network_id responder_mac responder_role hops_to_bridge
     bridge_reachable =
     assemble_plain_frame hmac s (packet_code PKT_DISCOVER_ANNOUNCE) leaf_mac ESPNOW_HOPS_DIR_DOWN 0
       (c_enc espnow_discover_announce_codec
         (make_discover_announce_payload network_id responder_mac responder_role hops_to_bridge bridge_reachable))"

definition make_schema_push_payload ::
  "u8 \<Rightarrow> u8 \<Rightarrow> u8 \<Rightarrow> u8 \<Rightarrow> bytes \<Rightarrow> bytes \<Rightarrow> bytes \<Rightarrow> espnow_schema_push" where
  "make_schema_push_payload descriptor_index entity_index total_entities entity_type
     entity_name entity_unit entity_id =
     \<lparr>spush_descriptor_type = ESPNOW_DESCRIPTOR_TYPE_ENTITY,
      spush_descriptor_index = descriptor_index, spush_entity_index = entity_index,
      spush_total_entities = total_entities, spush_entity_type = entity_type,
      spush_entity_name = zero_padded 32 entity_name,
      spush_entity_unit = zero_padded 8 entity_unit,
      spush_entity_id = zero_padded 32 entity_id\<rparr>"

definition make_schema_push_frame ::
  "(bytes \<Rightarrow> bytes \<Rightarrow> bytes) \<Rightarrow> crypto_state \<Rightarrow> bytes \<Rightarrow> u8 \<Rightarrow> u32 \<Rightarrow> u8 \<Rightarrow> u8 \<Rightarrow> u8 \<Rightarrow> u8 \<Rightarrow> bytes \<Rightarrow> bytes \<Rightarrow> bytes \<Rightarrow> bytes" where
  "make_schema_push_frame hmac s leaf_mac hops_to_bridge tx_counter descriptor_index entity_index
     total_entities entity_type entity_name entity_unit entity_id =
     assemble_plain_frame hmac s (packet_code PKT_SCHEMA_PUSH) leaf_mac
       (hops_make ESPNOW_HOPS_DIR_UP hops_to_bridge) tx_counter
       (c_enc espnow_schema_push_codec
         (make_schema_push_payload descriptor_index entity_index total_entities entity_type
           entity_name entity_unit entity_id))"

section \<open>Reading frames\<close>

definition verify_frame_psk_tag :: "(bytes \<Rightarrow> bytes \<Rightarrow> bytes) \<Rightarrow> crypto_state \<Rightarrow> bytes \<Rightarrow> bytes \<Rightarrow> bool" where
  "verify_frame_psk_tag hmac s frame payload \<longleftrightarrow>
     (if length payload = 0 then False
      else espnow_crypto_verify_psk_tag hmac s frame payload (take 4 (drop 13 frame)))"

text \<open>The header, the parent's address (zeros when the frame carries none) and the payload.\<close>

definition parse_received_header :: "bytes \<Rightarrow> (espnow_frame_header \<times> bytes \<times> bytes) option" where
  "parse_received_header frame =
     (case c_dec espnow_frame_header_codec frame of
        None \<Rightarrow> None
      | Some hdr \<Rightarrow>
          (let has_parent_check = (fh_hop_count hdr AND ESPNOW_HOPS_PARENT_CHECK_BIT \<noteq> 0);
               header_size = 17 + (if has_parent_check then ESPNOW_PARENT_MAC_LEN else 0)
           in if length frame < header_size then None
              else Some (hdr, if has_parent_check then take 6 (drop 17 frame) else replicate 6 0,
                     drop header_size frame)))"

definition parse_join_ack :: "bytes \<Rightarrow> espnow_join_ack option" where
  "parse_join_ack payload = c_dec espnow_join_ack_codec payload"

definition parse_discover_announce :: "bytes \<Rightarrow> espnow_discover_announce option" where
  "parse_discover_announce payload = c_dec espnow_discover_announce_codec payload"

definition parse_discover :: "bytes \<Rightarrow> espnow_discover option" where
  "parse_discover payload = c_dec espnow_discover_codec payload"

text \<open>
  \<^verbatim>\<open>memcmp\<close> compares \<open>network_id_len\<close> bytes of the 32-byte field; a longer
  comparison leaves the field, which is \<open>None\<close>.
\<close>

definition verify_network_id :: "espnow_discover \<Rightarrow> bytes \<Rightarrow> bool option" where
  "verify_network_id discover expected_network_id =
     (if unat (disc_network_id_len discover) \<noteq> length expected_network_id then Some False
      else if 32 < unat (disc_network_id_len discover) then None
      else Some (take (unat (disc_network_id_len discover)) (disc_network_id discover)
             = take (unat (disc_network_id_len discover)) expected_network_id))"

definition derive_session_key_from_join_ack ::
  "(bytes \<Rightarrow> bytes \<Rightarrow> bytes) \<Rightarrow> crypto_state \<Rightarrow> espnow_join_ack \<Rightarrow> bytes \<Rightarrow> bytes" where
  "derive_session_key_from_join_ack hmac s join_ack remote_nonce =
     espnow_crypto_derive_session_key hmac s (jack_bridge_nonce join_ack) remote_nonce"

section \<open>Lemmas\<close>

lemma fh_fits [simp]:
  "c_fits espnow_frame_header_codec h \<longleftrightarrow> length (fh_leaf_mac h) = 6 \<and> length (fh_psk_tag h) = 4"
  by (simp add: espnow_frame_header_codec_def codec_defs)

lemma disc_fits [simp]: "c_fits espnow_discover_codec d \<longleftrightarrow> length (disc_network_id d) = 32"
  by (simp add: espnow_discover_codec_def codec_defs)

lemma jack_fits [simp]: "c_fits espnow_join_ack_codec a \<longleftrightarrow> length (jack_bridge_nonce a) = 16"
  by (simp add: espnow_join_ack_codec_def codec_defs)

lemma join_fits [simp]:
  "c_fits espnow_join_codec j \<longleftrightarrow> length (join_remote_nonce j) = 16 \<and> length (join_schema_hash j) = 32"
  by (simp add: espnow_join_codec_def codec_defs)

text \<open>The encoded header, byte by byte: what the tag covers and where the tag stands.\<close>

lemma header_bytes:
  assumes "length (fh_leaf_mac h) = 6" and "length (fh_psk_tag h) = 4"
  shows "c_enc espnow_frame_header_codec h =
    fh_protocol_version h # fh_hop_count h # (fh_packet_type h # fh_leaf_mac h @ le32 (fh_tx_counter h)) @ fh_psk_tag h"
  by (simp add: espnow_frame_header_codec_def codec_defs)

definition header_core :: "u8 \<Rightarrow> bytes \<Rightarrow> u32 \<Rightarrow> bytes" where
  "header_core packet_type leaf_mac tx_counter = packet_type # take 6 leaf_mac @ le32 tx_counter"

lemma length_header_core: "length mac = 6 \<Longrightarrow> length (header_core t mac c) = 11"
  by (simp add: header_core_def)

lemma tag_data_core: "length core = 11 \<Longrightarrow> tag_data (v # h # core @ rest) p = core @ p"
  by (simp add: tag_data_def)

lemma assembled_frame_bytes:
  assumes "hmac32 hmac" and "length mac = 6"
  shows "assemble_plain_frame hmac s t mac hop c p =
    3 # hop # header_core t mac c
      @ (if g_psk_set s then take 4 (hmac (g_psk s) (header_core t mac c @ p)) else replicate 4 0) @ p"
proof -
  have "length (header_core t mac c) = 11" by (rule length_header_core) (rule assms(2))
  then show ?thesis
    using assms by (simp add: assemble_plain_frame_def Let_def header_bytes espnow_crypto_psk_tag_def
        tag_data_def header_core_def hmac32_def)
qed

lemma parse_header_no_parent:
  assumes "c_dec espnow_frame_header_codec f = Some h" and "fh_hop_count h AND 64 = 0"
  shows "parse_received_header f = Some (h, replicate 6 0, drop 17 f)"
  using assms fh.dec_None_iff [of f] by (auto simp: parse_received_header_def Let_def)

lemma to_hex_inj: "to_hex u xs = to_hex u ys \<Longrightarrow> xs = ys"
  by (metis append_Nil hex_to_bytes_loop_to_hex prod.inject)

lemma sanitize_char_range:
  "97 \<le> sanitize_char c \<and> sanitize_char c \<le> 122 \<or> 48 \<le> sanitize_char c \<and> sanitize_char c \<le> 57 \<or> sanitize_char c = 95"
  by (auto simp: sanitize_char_def Let_def)

lemma sanitize_char_fixed:
  "97 \<le> c \<and> c \<le> 122 \<or> 48 \<le> c \<and> c \<le> 57 \<or> c = 95 \<Longrightarrow> sanitize_char c = c"
  by (auto simp: sanitize_char_def Let_def word_le_nat_alt)

lemma plain_frame_parsed:
  assumes "hmac32 hmac" and "length leaf_mac = 6" and "hop' AND 64 = 0"
    and "frame = (assemble_plain_frame hmac s packet_type leaf_mac hop tx_counter payload)[1 := hop']"
  shows "\<exists>hdr. parse_received_header frame = Some (hdr, replicate 6 0, payload)
    \<and> fh_protocol_version hdr = 3 \<and> fh_hop_count hdr = hop' \<and> fh_packet_type hdr = packet_type
    \<and> fh_leaf_mac hdr = leaf_mac \<and> fh_tx_counter hdr = tx_counter
    \<and> verify_frame_psk_tag hmac s frame payload = (g_psk_set s \<and> payload \<noteq> [])"
proof -
  let ?core = "header_core packet_type leaf_mac tx_counter"
  define tag where "tag = (if g_psk_set s then take 4 (hmac (g_psk s) (?core @ payload)) else replicate 4 0)"
  define hdr where "hdr = \<lparr>fh_protocol_version = 3, fh_hop_count = hop', fh_packet_type = packet_type,
    fh_leaf_mac = leaf_mac, fh_tx_counter = tx_counter, fh_psk_tag = tag\<rparr>"
  have lt: "length tag = 4" using assms(1) by (simp add: tag_def hmac32_def)
  have lc: "length ?core = 11" by (rule length_header_core) (rule assms(2))
  have f: "frame = 3 # hop' # ?core @ tag @ payload"
    by (simp add: assms(4) assembled_frame_bytes assms(1,2) tag_def)
  have "frame = c_enc espnow_frame_header_codec hdr @ payload"
    using f lt assms(2) by (simp add: hdr_def header_bytes header_core_def)
  then have "c_dec espnow_frame_header_codec frame = Some hdr"
    using fh.dec_enc [of hdr payload] lt assms(2) by (simp add: hdr_def)
  then have "parse_received_header frame = Some (hdr, replicate 6 0, payload)"
    using parse_header_no_parent [of frame hdr] f lt lc assms(3) by (simp add: hdr_def)
  moreover have "take 4 (drop 13 frame) = tag" using f lt lc by simp
  then have "verify_frame_psk_tag hmac s frame payload = (g_psk_set s \<and> payload \<noteq> [])"
    using lt lc assms(1) by (simp add: verify_frame_psk_tag_def verify_psk_tag_iff f
        espnow_crypto_psk_tag_def tag_data_core tag_def)
  ultimately show ?thesis by (intro exI [of _ hdr]) (simp add: hdr_def)
qed

section \<open>Properties\<close>

text \<open>
  A frame built by one node is read back by any other with the same key: the header with its
  packet type, leaf address and counter, the payload, and a valid network tag exactly when a key is set and the
  payload is not empty. This still holds when relays have rewritten the hop byte on the way, as
  long as they do not claim an inserted parent address.
\<close>

theorem plain_frame_roundtrip:
  assumes "hmac32 hmac" and "length leaf_mac = 6" and "hop' AND 64 = 0"
    and "frame = (assemble_plain_frame hmac s packet_type leaf_mac hop tx_counter payload)[1 := hop']"
  shows "\<exists>hdr. parse_received_header frame = Some (hdr, replicate 6 0, payload)
    \<and> fh_protocol_version hdr = 3 \<and> fh_hop_count hdr = hop' \<and> fh_packet_type hdr = packet_type
    \<and> fh_leaf_mac hdr = leaf_mac \<and> fh_tx_counter hdr = tx_counter
    \<and> verify_frame_psk_tag hmac s frame payload = (g_psk_set s \<and> payload \<noteq> [])"
  using assms by (rule plain_frame_parsed)

theorem plain_frame_roundtrip_witness:
  "\<exists>hdr. parse_received_header ((assemble_plain_frame (\<lambda>k d. replicate 32 5) crypto_initial 2 (replicate 6 9) 0 1 [7])[1 := 3])
     = Some (hdr, replicate 6 0, [7]) \<and> fh_hop_count hdr = 3"
  using plain_frame_roundtrip [OF _ _ _ refl, of "\<lambda>k d. replicate 32 5" "replicate 6 9" 3 crypto_initial 2 0 1 "[7]"]
  by (auto simp: hmac32_def)

text \<open>
  Network selection. For network names of at most 32 bytes, a discover frame built for one name
  is parsed back and matches an expected name exactly when the two names are equal (a name is not
  confused with its own prefix or with zero padding).
\<close>

theorem discover_network_match:
  assumes "hmac32 hmac" and "length leaf_mac = 6" and "length name \<le> 32" and "length expected \<le> 32"
  shows "\<exists>hdr p d. parse_received_header (make_discover_frame hmac s leaf_mac name flags) = Some (hdr, replicate 6 0, p)
    \<and> fh_packet_type hdr = packet_code PKT_DISCOVER \<and> parse_discover p = Some d
    \<and> disc_capability_flags d = flags \<and> verify_network_id d expected = Some (name = expected)"
proof -
  let ?d = "make_discover_payload name flags"
  let ?p = "c_enc espnow_discover_codec ?d"
  let ?f = "make_discover_frame hmac s leaf_mac name flags"
  have fits: "c_fits espnow_discover_codec ?d" by (simp add: make_discover_payload_def)
  have upd: "?f[1 := 0] = ?f"
    by (simp add: make_discover_frame_def assembled_frame_bytes assms(1,2))
  obtain hdr where "parse_received_header ?f = Some (hdr, replicate 6 0, ?p)"
    "fh_packet_type hdr = packet_code PKT_DISCOVER"
    using plain_frame_parsed [OF assms(1,2) _ refl, of 0 s "packet_code PKT_DISCOVER" 0 0 ?p] upd
    by (auto simp: make_discover_frame_def)
  moreover have "parse_discover ?p = Some ?d"
    using disc.dec_enc_exact [OF fits] by (simp add: parse_discover_def)
  moreover have "verify_network_id ?d expected = Some (name = expected)"
  proof -
    have "unat (of_nat (length name) :: u8) = length name" by (rule unat_of_nat_small) (use assms(3) in simp)
    moreover have "take (length name) (zero_padded 32 name) = name"
      using assms(3) by (simp add: zero_padded_def)
    ultimately show ?thesis using assms(3) by (auto simp: verify_network_id_def make_discover_payload_def)
  qed
  ultimately show ?thesis by (intro exI conjI) (auto simp: make_discover_payload_def)
qed

theorem discover_network_match_witness:
  "\<exists>hdr p d. parse_received_header (make_discover_frame (\<lambda>k d. replicate 32 5) crypto_initial (replicate 6 9) [104, 111] 1)
       = Some (hdr, replicate 6 0, p) \<and> parse_discover p = Some d \<and> verify_network_id d [104, 111, 0] = Some False"
  using discover_network_match [of "\<lambda>k d. replicate 32 5" "replicate 6 9" "[104, 111]" "[104, 111, 0]" crypto_initial 1]
  by (auto simp: hmac32_def)

text \<open>
  Join handshake. The bridge reads the remote's nonce from the JOIN payload and derives the
  session key; the remote reads the bridge's nonce from the JOIN_ACK payload and derives it from
  there: both get the same 32-byte key, whatever the other fields say.
\<close>

theorem join_session_key_agreement:
  assumes "hmac32 hmac" and "length remote_nonce = 16" and "length bridge_nonce = 16"
    and "\<forall>h. schema_hash = Some h \<longrightarrow> 32 \<le> length h"
  shows "\<exists>join ack. c_dec espnow_join_codec (c_enc espnow_join_codec (make_join_payload remote_nonce schema_hash hops dirty flags)) = Some join
    \<and> parse_join_ack (c_enc espnow_join_ack_codec (make_join_ack_payload True reason stage bridge_nonce flags')) = Some ack
    \<and> derive_session_key_from_join_ack hmac s ack remote_nonce
      = espnow_crypto_derive_session_key hmac s bridge_nonce (join_remote_nonce join)
    \<and> length (derive_session_key_from_join_ack hmac s ack remote_nonce) = 32"
proof (intro exI conjI)
  let ?j = "make_join_payload remote_nonce schema_hash hops dirty flags"
  let ?a = "make_join_ack_payload True reason stage bridge_nonce flags'"
  have "c_fits espnow_join_codec ?j"
    using assms(2,4) by (cases schema_hash) (auto simp: make_join_payload_def)
  then show "c_dec espnow_join_codec (c_enc espnow_join_codec ?j) = Some ?j" by (rule join.dec_enc_exact)
  have "c_fits espnow_join_ack_codec ?a" using assms(3) by (simp add: make_join_ack_payload_def)
  then show "parse_join_ack (c_enc espnow_join_ack_codec ?a) = Some ?a"
    unfolding parse_join_ack_def by (rule jack.dec_enc_exact)
  show "derive_session_key_from_join_ack hmac s ?a remote_nonce
      = espnow_crypto_derive_session_key hmac s bridge_nonce (join_remote_nonce ?j)"
    using assms(2,3) by (simp add: derive_session_key_from_join_ack_def make_join_ack_payload_def make_join_payload_def)
  show "length (derive_session_key_from_join_ack hmac s ?a remote_nonce) = 32"
    using assms(1) by (simp add: derive_session_key_from_join_ack_def length_session_key)
qed

theorem join_session_key_agreement_witness:
  "\<exists>ack. parse_join_ack (c_enc espnow_join_ack_codec (make_join_ack_payload True 0 2 (replicate 16 1) 0)) = Some ack
    \<and> length (derive_session_key_from_join_ack (\<lambda>k d. replicate 32 5) crypto_initial ack (replicate 16 2)) = 32"
  using join_session_key_agreement [of "\<lambda>k d. replicate 32 5" "replicate 16 2" "replicate 16 1" None 0 0 0 0 2 0 crypto_initial]
  by (auto simp: hmac32_def)

text \<open>
  The text keys of addresses and names: different addresses get different keys; a sanitised
  name keeps its length, consists of lower-case letters, digits and underscores, and is not changed
  by sanitising it again.
\<close>

theorem text_keys:
  shows "(length m = 6 \<and> length m' = 6 \<and> mac_hex (Some m) = mac_hex (Some m') \<longrightarrow> m = m')
    \<and> length (sanitize_object_id name) = length name
    \<and> list_all (\<lambda>c. 97 \<le> c \<and> c \<le> 122 \<or> 48 \<le> c \<and> c \<le> 57 \<or> c = 95) (sanitize_object_id name)
    \<and> sanitize_object_id (sanitize_object_id name) = sanitize_object_id name"
proof (intro conjI impI)
  assume m: "length m = 6 \<and> length m' = 6 \<and> mac_hex (Some m) = mac_hex (Some m')"
  have six: "[x ! 0, x ! 1, x ! 2, x ! 3, x ! 4, x ! 5] = x" if "length x = 6" for x :: bytes
    using that by (intro nth_equalityI) (auto simp: less_Suc_eq numeral_eq_Suc)
  have h: "mac_hex (Some x) = to_hex True x" if "length x = 6" for x
  proof -
    have "length (to_hex True x) \<le> 13" using that by simp
    then show ?thesis
      by (simp only: mac_hex_def option.case espnow_mac_to_hex_string_def six [OF that] take_all)
  qed
  from m have "to_hex True m = to_hex True m'" using h [of m] h [of m'] by argo
  then show "m = m'" by (rule to_hex_inj)
qed (auto simp: sanitize_object_id_def sanitize_char_range list_all_iff sanitize_char_fixed)

theorem text_keys_witness:
  "sanitize_object_id (sanitize_object_id [65, 32, 98]) = sanitize_object_id [65, 32, 98]"
  using text_keys [of "[]" "[]" "[65, 32, 98]"] by simp

end
