(* ===== verification/FileReceiver.thy ===== *)
theory FileReceiver
  imports Payloads
begin

text \<open>
  The receiving side of a file transfer (\<^verbatim>\<open>esp_tree_remote/remote_file_receiver.cpp\<close>,
  class \<^verbatim>\<open>FileReceiver\<close>). A transfer is announced, delivered in increments of a few
  chunks each, and every increment is handed to an action handler once all its chunks are there.

  The class is the record \<open>'h fr\<close>, its methods functions on it that return the new state and the
  C++ result. Action handlers are virtual: their operations are the record \<open>action_handler\<close>
  over the handler's own state \<open>'h\<close>, the objects live in a store \<open>fr_objects\<close>, and a pointer
  is an index of it, so the handler table and \<^verbatim>\<open>active_handler_\<close> share an object as
  they do in the code. \<^verbatim>\<open>millis()\<close> is the argument \<open>now\<close>, read once per call. The
  send callback is a function of what was sent before, so it may fail at any point;
  everything handed to it is recorded in \<open>fr_sent\<close>. \<^verbatim>\<open>size_t\<close> is the 32-bit type
  of the ESP targets.
\<close>

section \<open>The increment buffer\<close>

record IncrementBuffer =
  ib_data :: bytes
  ib_received_bitmap :: bytes
  ib_chunks_received :: u16
  ib_chunks_expected :: u16

definition IncrementBuffer_empty :: IncrementBuffer where
  "IncrementBuffer_empty = \<lparr>ib_data = [], ib_received_bitmap = [], ib_chunks_received = 0, ib_chunks_expected = 0\<rparr>"

definition ib_reset :: "u16 \<Rightarrow> u32 \<Rightarrow> IncrementBuffer" where
  "ib_reset num_chunks data_size =
     \<lparr>ib_data = replicate (unat data_size) 0,
      ib_received_bitmap = replicate ((unat num_chunks + 7) div 8) 0,
      ib_chunks_received = 0, ib_chunks_expected = num_chunks\<rparr>"

definition ib_is_complete :: "IncrementBuffer \<Rightarrow> bool" where
  "ib_is_complete b \<longleftrightarrow> ib_chunks_received b = ib_chunks_expected b"

definition ib_bit_mask :: "u16 \<Rightarrow> u8" where
  "ib_bit_mask chunk_in_increment = push_bit (unat chunk_in_increment mod 8) 1"

definition ib_is_chunk_received :: "u16 \<Rightarrow> IncrementBuffer \<Rightarrow> bool" where
  "ib_is_chunk_received chunk_in_increment b \<longleftrightarrow>
     (if ib_received_bitmap b = [] then False
      else let byte_idx = unat chunk_in_increment div 8 in
        if length (ib_received_bitmap b) \<le> byte_idx then False
        else ib_received_bitmap b ! byte_idx AND ib_bit_mask chunk_in_increment \<noteq> 0)"

definition ib_mark_chunk_received :: "u16 \<Rightarrow> IncrementBuffer \<Rightarrow> IncrementBuffer" where
  "ib_mark_chunk_received chunk_in_increment b =
     (let byte_idx = unat chunk_in_increment div 8; bit_mask = ib_bit_mask chunk_in_increment in
      if byte_idx < length (ib_received_bitmap b) \<and> ib_received_bitmap b ! byte_idx AND bit_mask = 0
      then b\<lparr>ib_received_bitmap := (ib_received_bitmap b)[byte_idx := ib_received_bitmap b ! byte_idx OR bit_mask],
             ib_chunks_received := ib_chunks_received b + 1\<rparr>
      else b)"

section \<open>Action handlers\<close>

record AnnounceResponse =
  ar_accepted :: bool
  ar_reject_reason :: u8
  ar_negotiated_chunk_size :: u16

record ChunkResponse =
  cr_accepted :: bool
  cr_abort_reason :: u8

text \<open>
  \<open>ah_on_announce file_size md5 chunk_size action file_id buffer_size_kb\<close> also returns the buffer size,
  a reference parameter.
\<close>

record 'h action_handler =
  ah_on_announce :: "u32 \<Rightarrow> bytes \<Rightarrow> u16 \<Rightarrow> u8 \<Rightarrow> bytes \<Rightarrow> u16 \<Rightarrow> 'h \<Rightarrow> 'h \<times> AnnounceResponse \<times> u16"
  ah_on_data :: "u32 \<Rightarrow> bytes \<Rightarrow> 'h \<Rightarrow> 'h \<times> ChunkResponse"
  ah_on_end :: "'h \<Rightarrow> 'h \<times> u8"
  ah_on_abort :: "u8 \<Rightarrow> 'h \<Rightarrow> 'h"
  ah_is_receiving :: "'h \<Rightarrow> bool"
  ah_wants_restart_after_complete :: "'h \<Rightarrow> bool"

section \<open>The state\<close>

datatype fr_state_t =
  FR_IDLE | FR_ANNOUNCED | FR_RECEIVING | FR_CHECKING | FR_WRITING | FR_WAITING_END | FR_VERIFYING | FR_COMPLETE

record 'h fr =
  fr_state :: fr_state_t
  fr_active_handler :: "nat option"
  fr_handlers :: "u8 \<Rightarrow> nat option"
  fr_objects :: "nat \<Rightarrow> 'h"
  fr_increment_buf :: IncrementBuffer
  fr_file_size :: u32
  fr_chunk_payload_size :: u16
  fr_buffer_size_kb :: u16
  fr_chunks_per_increment :: u16
  fr_total_increments :: u16
  fr_chunks_in_last_increment :: u16
  fr_current_increment :: u16
  fr_total_chunks :: u32
  fr_action :: u8
  fr_file_id :: bytes
  fr_last_announce_md5 :: bytes
  fr_announce_tx_counter :: u32
  fr_last_activity_ms :: u32
  fr_last_blast_complete_tx_counter :: u32
  fr_retransmit_round :: u8
  fr_increment_written :: bool
  fr_local_mac :: bytes
  fr_send_ack_fn :: "(bytes list \<Rightarrow> bytes \<Rightarrow> bool) option"
  fr_sent :: "bytes list"
  fr_ota_enabled :: bool
  fr_deep_sleep_active :: bool
  fr_max_chunk_size :: u16
  fr_restart_pending :: bool
  fr_restart_due_ms :: u32
  fr_restarts :: nat
  fr_in_complete_phase :: bool
  fr_complete_action :: u8
  fr_complete_result :: u8
  fr_complete_ack_remaining :: "8 word"
  fr_next_complete_ack_ms :: u32

abbreviation (input) kRestartDelayMs :: u32 where "kRestartDelayMs \<equiv> 250"
abbreviation (input) kCompleteAckRetries :: u8 where "kCompleteAckRetries \<equiv> 5"
abbreviation (input) kCompleteAckIntervalMs :: u32 where "kCompleteAckIntervalMs \<equiv> 1000"

text \<open>A new receiver with one handler object, registered for firmware updates.\<close>

definition FileReceiver_init :: "'h \<Rightarrow> 'h fr" where
  "FileReceiver_init h =
     \<lparr>fr_state = FR_IDLE, fr_active_handler = None, fr_handlers = [ESPNOW_FILE_ACTION_OTA_FLASH \<mapsto> 0],
      fr_objects = (\<lambda>_. h), fr_increment_buf = IncrementBuffer_empty, fr_file_size = 0,
      fr_chunk_payload_size = 0, fr_buffer_size_kb = ESPNOW_MAX_INCREMENT_KB,
      fr_chunks_per_increment = 0, fr_total_increments = 0, fr_chunks_in_last_increment = 0,
      fr_current_increment = 0, fr_total_chunks = 0, fr_action = 0, fr_file_id = replicate 12 0,
      fr_last_announce_md5 = replicate 16 0, fr_announce_tx_counter = 0, fr_last_activity_ms = 0,
      fr_last_blast_complete_tx_counter = 0, fr_retransmit_round = 0, fr_increment_written = False,
      fr_local_mac = replicate 6 0, fr_send_ack_fn = None, fr_sent = [], fr_ota_enabled = False,
      fr_deep_sleep_active = False, fr_max_chunk_size = of_nat ESPNOW_FILE_DEFAULT_CHUNK_SIZE,
      fr_restart_pending = False, fr_restart_due_ms = 0, fr_restarts = 0,
      fr_in_complete_phase = False, fr_complete_action = 0, fr_complete_result = 0,
      fr_complete_ack_remaining = 0, fr_next_complete_ack_ms = 0\<rparr>"

definition fr_set_local_mac :: "bytes option \<Rightarrow> 'h fr \<Rightarrow> 'h fr" where
  "fr_set_local_mac mac s = (case mac of None \<Rightarrow> s | Some m \<Rightarrow> s\<lparr>fr_local_mac := take 6 m\<rparr>)"

definition fr_register_handler :: "u8 \<Rightarrow> nat option \<Rightarrow> 'h fr \<Rightarrow> 'h fr" where
  "fr_register_handler action handler s = s\<lparr>fr_handlers := (fr_handlers s)(action := handler)\<rparr>"

definition fr_set_announce_tx_counter :: "u32 \<Rightarrow> 'h fr \<Rightarrow> 'h fr" where
  "fr_set_announce_tx_counter tx_counter s = s\<lparr>fr_announce_tx_counter := tx_counter\<rparr>"

definition fr_set_blast_complete_tx_counter :: "u32 \<Rightarrow> 'h fr \<Rightarrow> 'h fr" where
  "fr_set_blast_complete_tx_counter tx_counter s = s\<lparr>fr_last_blast_complete_tx_counter := tx_counter\<rparr>"

definition fr_is_receiving :: "'h fr \<Rightarrow> bool" where
  "fr_is_receiving s \<longleftrightarrow> fr_state s \<noteq> FR_IDLE"

definition fr_reset :: "'h fr \<Rightarrow> 'h fr" where
  "fr_reset s = s\<lparr>fr_state := FR_IDLE, fr_active_handler := None, fr_file_size := 0,
     fr_chunk_payload_size := 0, fr_buffer_size_kb := ESPNOW_MAX_INCREMENT_KB,
     fr_chunks_per_increment := 0, fr_total_increments := 0, fr_chunks_in_last_increment := 0,
     fr_current_increment := 0, fr_total_chunks := 0, fr_action := 0, fr_file_id := replicate 12 0,
     fr_last_announce_md5 := replicate 16 0, fr_announce_tx_counter := 0, fr_last_activity_ms := 0,
     fr_last_blast_complete_tx_counter := 0, fr_retransmit_round := 0, fr_increment_written := False,
     fr_increment_buf := IncrementBuffer_empty, fr_in_complete_phase := False,
     fr_complete_ack_remaining := 0, fr_next_complete_ack_ms := 0\<rparr>"

section \<open>Acknowledgements\<close>

definition fr_send_ack :: "u8 \<Rightarrow> bytes \<Rightarrow> 'h fr \<Rightarrow> 'h fr \<times> bool" where
  "fr_send_ack result trailing s =
     (case fr_send_ack_fn s of
        None \<Rightarrow> (s, False)
      | Some send \<Rightarrow>
          (let payload = c_enc espnow_ack_codec
                 \<lparr>ack_ack_type = packet_code PKT_FILE_TRANSFER, ack_result = result,
                  ack_ref_tx_counter = (if result = ESPNOW_FILE_ACK_GAPS
                    then fr_last_blast_complete_tx_counter s else fr_announce_tx_counter s)\<rparr> @ trailing
           in (s\<lparr>fr_sent := fr_sent s @ [payload]\<rparr>, send (fr_sent s) payload)))"

definition fr_send_ack_accept :: "u16 \<Rightarrow> u8 \<Rightarrow> u16 \<Rightarrow> 'h fr \<Rightarrow> 'h fr \<times> bool" where
  "fr_send_ack_accept chunk_size action buffer_size_kb =
     fr_send_ack ESPNOW_FILE_ACK_ACCEPT (le16 chunk_size @ [ucast buffer_size_kb, action])"

definition fr_send_ack_reject :: "u8 \<Rightarrow> u8 \<Rightarrow> 'h fr \<Rightarrow> 'h fr \<times> bool" where
  "fr_send_ack_reject action reason = fr_send_ack ESPNOW_FILE_ACK_REJECT [action, reason]"

definition fr_send_gaps_ack :: "bytes \<Rightarrow> 'h fr \<Rightarrow> 'h fr \<times> bool" where
  "fr_send_gaps_ack bitmap = fr_send_ack ESPNOW_FILE_ACK_GAPS (le16 (of_nat (length bitmap)) @ bitmap)"

definition fr_send_ack_complete :: "u8 \<Rightarrow> u8 \<Rightarrow> 'h fr \<Rightarrow> 'h fr \<times> bool" where
  "fr_send_ack_complete action result = fr_send_ack ESPNOW_FILE_ACK_COMPLETE [action, result]"

definition fr_send_ack_abort :: "u8 \<Rightarrow> 'h fr \<Rightarrow> 'h fr \<times> bool" where
  "fr_send_ack_abort reason = fr_send_ack ESPNOW_FILE_ACK_ABORT [reason]"

section \<open>Handler calls\<close>

definition fr_call_on_data :: "'h action_handler \<Rightarrow> nat \<Rightarrow> u32 \<Rightarrow> bytes \<Rightarrow> 'h fr \<Rightarrow> 'h fr \<times> ChunkResponse" where
  "fr_call_on_data H p sequence data s =
     (case ah_on_data H sequence data (fr_objects s p) of
        (h, response) \<Rightarrow> (s\<lparr>fr_objects := (fr_objects s)(p := h)\<rparr>, response))"

definition fr_call_on_abort :: "'h action_handler \<Rightarrow> nat \<Rightarrow> u8 \<Rightarrow> 'h fr \<Rightarrow> 'h fr" where
  "fr_call_on_abort H p reason s =
     s\<lparr>fr_objects := (fr_objects s)(p := ah_on_abort H reason (fr_objects s p))\<rparr>"

definition fr_abort :: "'h action_handler \<Rightarrow> u8 \<Rightarrow> bool \<Rightarrow> 'h fr \<Rightarrow> 'h fr" where
  "fr_abort H reason notify_sender s =
     (let s = (case fr_active_handler s of None \<Rightarrow> s | Some p \<Rightarrow> fr_call_on_abort H p reason s);
          s = (if notify_sender then fst (fr_send_ack_abort reason s) else s)
      in fr_reset s)"

section \<open>Geometry\<close>

definition fr_compute_increment_geometry :: "'h fr \<Rightarrow> 'h fr" where
  "fr_compute_increment_geometry s =
     (let effective_kb = min (fr_buffer_size_kb s) ESPNOW_MAX_INCREMENT_KB;
          increment_data_size = ucast effective_kb * 1024 :: u32;
          chunk = ucast (fr_chunk_payload_size s) :: u32;
          cpi = ucast (increment_data_size div chunk) :: u16;
          cpi = (if cpi = 0 then 1 else cpi);
          total_chunks = fr_file_size s div chunk + (if fr_file_size s mod chunk \<noteq> 0 then 1 else 0);
          total_increments = ucast (total_chunks div ucast cpi + (if total_chunks mod ucast cpi \<noteq> 0 then 1 else 0)) :: u16;
          total_increments = (if total_increments = 0 then 1 else total_increments);
          last = ucast (total_chunks - (ucast total_increments - 1) * ucast cpi) :: u16;
          last = (if last = 0 then cpi else last)
      in s\<lparr>fr_chunks_per_increment := cpi, fr_total_chunks := total_chunks,
           fr_total_increments := total_increments, fr_chunks_in_last_increment := last\<rparr>)"

text \<open>The sum \<^verbatim>\<open>increment_index + 1U\<close> is computed in 32 bits.\<close>

definition fr_chunks_in_increment :: "u16 \<Rightarrow> 'h fr \<Rightarrow> u16" where
  "fr_chunks_in_increment increment_index s =
     (if ucast (fr_total_increments s) \<le> (ucast increment_index + 1 :: u32)
      then fr_chunks_in_last_increment s else fr_chunks_per_increment s)"

definition fr_expected_chunk_len :: "u32 \<Rightarrow> 'h fr \<Rightarrow> u32" where
  "fr_expected_chunk_len sequence s =
     (if fr_chunk_payload_size s = 0 \<or> fr_total_chunks s \<le> sequence then 0
      else let offset = ucast sequence * ucast (fr_chunk_payload_size s) :: u64 in
        if ucast (fr_file_size s) \<le> offset then 0
        else ucast (min (ucast (fr_file_size s) - offset) (ucast (fr_chunk_payload_size s)) :: u64))"

section \<open>Chunks\<close>

definition fr_handle_file_data :: "u32 \<Rightarrow> bytes \<Rightarrow> 'h fr \<Rightarrow> 'h fr \<times> bool" where
  "fr_handle_file_data now payload s =
     (case c_dec espnow_file_data_header_codec payload of
        None \<Rightarrow> (s, False)
      | Some header \<Rightarrow>
        if fr_state s \<noteq> FR_RECEIVING \<or> fr_active_handler s = None then (s, False)
        else
          (let data = drop 4 payload; data_len = length data; sequence = fdh_sequence header in
           if fr_total_chunks s \<le> sequence then (s, False)
           else
             (let inc_start = ucast (fr_current_increment s) * ucast (fr_chunks_per_increment s) :: u32;
                  inc_end = min (inc_start + ucast (fr_chunks_in_increment (fr_current_increment s) s)) (fr_total_chunks s)
              in if sequence < inc_start \<or> inc_end \<le> sequence
                 then (s, sequence < inc_start \<and> fr_increment_written s)
                 else
                   (let expected_len = unat (fr_expected_chunk_len sequence s) in
                    if expected_len = 0 \<or> data_len \<noteq> expected_len then (s, False)
                    else
                      (let s = s\<lparr>fr_last_activity_ms := now\<rparr>;
                           chunk_in_increment = ucast (sequence mod ucast (fr_chunks_per_increment s)) :: u16
                       in if ib_is_chunk_received chunk_in_increment (fr_increment_buf s) then (s, True)
                          else
                            (let offset = unat (ucast chunk_in_increment * ucast (fr_chunk_payload_size s) :: u32);
                                 buf = fr_increment_buf s
                             in if length (ib_data buf) < offset + data_len then (s, False)
                                else
                                  (let stored = take offset (ib_data buf) @ data @ drop (offset + data_len) (ib_data buf)
                                   in (s\<lparr>fr_increment_buf :=
                                          ib_mark_chunk_received chunk_in_increment (buf\<lparr>ib_data := stored\<rparr>)\<rparr>,
                                       True))))))))"

section \<open>Writing an increment\<close>

text \<open>
  The bytes chunk \<open>i\<close> of the increment hands over: a whole chunk, or for the last chunk of the
  increment what is left of the file. The subtraction is in 64 bits and is cut to
  \<^verbatim>\<open>size_t\<close>.
\<close>

definition fr_slice_offset :: "u16 \<Rightarrow> 'h fr \<Rightarrow> u32" where
  "fr_slice_offset i s = ucast i * ucast (fr_chunk_payload_size s)"

definition fr_slice_len :: "u16 \<Rightarrow> u16 \<Rightarrow> 'h fr \<Rightarrow> u32" where
  "fr_slice_len num_chunks i s =
     (if int (unat i) = int (unat num_chunks) - 1 then
        (let done = ucast (fr_current_increment s) * ucast (fr_chunks_per_increment s)
               * ucast (fr_chunk_payload_size s) + ucast (fr_slice_offset i s) :: u64
         in if ucast (fr_file_size s) < done + ucast (fr_chunk_payload_size s)
            then ucast (ucast (fr_file_size s) - done) else ucast (fr_chunk_payload_size s))
      else ucast (fr_chunk_payload_size s))"

definition fr_slice_stops :: "u16 \<Rightarrow> u16 \<Rightarrow> 'h fr \<Rightarrow> bool" where
  "fr_slice_stops num_chunks i s \<longleftrightarrow>
     fr_slice_len num_chunks i s = 0
     \<or> length (ib_data (fr_increment_buf s)) < unat (fr_slice_offset i s + fr_slice_len num_chunks i s)"

definition fr_write_slice :: "'h action_handler \<Rightarrow> nat \<Rightarrow> u16 \<Rightarrow> u16 \<Rightarrow> 'h fr \<Rightarrow> 'h fr \<times> ChunkResponse" where
  "fr_write_slice H p num_chunks i s =
     fr_call_on_data H p
       (ucast (fr_current_increment s) * ucast (fr_chunks_per_increment s) + ucast i)
       (take (unat (fr_slice_len num_chunks i s)) (drop (unat (fr_slice_offset i s)) (ib_data (fr_increment_buf s)))) s"

text \<open>The inner loop of the retry over the remaining indices; \<open>False\<close> after an abort.\<close>

fun fr_retry_loop :: "'h action_handler \<Rightarrow> nat \<Rightarrow> u16 \<Rightarrow> nat list \<Rightarrow> 'h fr \<Rightarrow> 'h fr \<times> bool" where
  "fr_retry_loop H p num_chunks [] s = (s, True)"
| "fr_retry_loop H p num_chunks (j # js) s =
     (if fr_slice_stops num_chunks (of_nat j) s then (s, True)
      else case fr_write_slice H p num_chunks (of_nat j) s of
             (s, response) \<Rightarrow>
               if \<not> cr_accepted response then (fr_abort H ESPNOW_FILE_ABORT_FLASH_ERROR True s, False)
               else fr_retry_loop H p num_chunks js s)"

fun fr_write_loop :: "'h action_handler \<Rightarrow> nat \<Rightarrow> u16 \<Rightarrow> nat list \<Rightarrow> 'h fr \<Rightarrow> 'h fr \<times> bool" where
  "fr_write_loop H p num_chunks [] s = (s, True)"
| "fr_write_loop H p num_chunks (i # is) s =
     (if fr_slice_stops num_chunks (of_nat i) s then (s, True)
      else case fr_write_slice H p num_chunks (of_nat i) s of
             (s, response) \<Rightarrow>
               if \<not> cr_accepted response then fr_retry_loop H p num_chunks [0..<unat num_chunks] s
               else fr_write_loop H p num_chunks is s)"

definition fr_write_increment_to_flash :: "'h action_handler \<Rightarrow> 'h fr \<Rightarrow> 'h fr \<times> bool" where
  "fr_write_increment_to_flash H s =
     (case fr_active_handler s of
        None \<Rightarrow> (s, False)
      | Some p \<Rightarrow>
        if ib_data (fr_increment_buf s) = [] then (s, False)
        else
          (let num_chunks = fr_chunks_in_increment (fr_current_increment s) s in
           case fr_write_loop H p num_chunks [0..<unat num_chunks] s of
             (s, ok) \<Rightarrow>
               if \<not> ok then (s, False)
               else
                 (let s = s\<lparr>fr_increment_written := True\<rparr> in
                  if (ucast (fr_total_increments s) :: u32) \<le> ucast (fr_current_increment s) + 1
                  then fr_send_gaps_ack [] (s\<lparr>fr_state := FR_WAITING_END\<rparr>)
                  else case fr_send_gaps_ack [] s of
                         (s, ack_ok) \<Rightarrow>
                           (let s = s\<lparr>fr_current_increment := fr_current_increment s + 1,
                                      fr_retransmit_round := 0, fr_increment_written := False\<rparr>;
                                next_inc_chunks = fr_chunks_in_increment (fr_current_increment s) s;
                                next_inc_data_size = ucast next_inc_chunks * ucast (fr_chunk_payload_size s) :: u32
                            in (s\<lparr>fr_increment_buf := ib_reset next_inc_chunks next_inc_data_size,
                                  fr_state := FR_RECEIVING\<rparr>, ack_ok)))))"

section \<open>Control packets\<close>

definition fr_handle_blast_complete ::
  "'h action_handler \<Rightarrow> u32 \<Rightarrow> espnow_file_blast_complete \<Rightarrow> 'h fr \<Rightarrow> 'h fr \<times> bool" where
  "fr_handle_blast_complete H now bc s =
     (if fr_state s \<noteq> FR_RECEIVING \<or> fr_active_handler s = None then (s, False)
      else
        (let s = s\<lparr>fr_last_activity_ms := now\<rparr>; inc = fbc_increment_index bc in
         if inc = fr_current_increment s \<and> fr_increment_written s then fr_send_gaps_ack [] s
         else if inc < fr_current_increment s then fr_send_gaps_ack [] s
         else if inc \<noteq> fr_current_increment s then (s, False)
         else if ib_is_complete (fr_increment_buf s)
         then fr_write_increment_to_flash H (s\<lparr>fr_state := FR_WRITING\<rparr>)
         else if ESPNOW_MAX_RETRANSMIT_ROUNDS \<le> fr_retransmit_round s
         then (fr_abort H ESPNOW_FILE_ABORT_TIMEOUT True s, True)
         else case fr_send_gaps_ack (ib_received_bitmap (fr_increment_buf s))
                     (s\<lparr>fr_retransmit_round := fr_retransmit_round s + 1\<rparr>) of
                (s, ack_ok) \<Rightarrow> (s\<lparr>fr_state := FR_RECEIVING\<rparr>, ack_ok)))"

definition fr_handle_end :: "'h action_handler \<Rightarrow> u32 \<Rightarrow> espnow_file_end \<Rightarrow> 'h fr \<Rightarrow> 'h fr \<times> bool" where
  "fr_handle_end H now end_packet s =
     (if fend_phase end_packet \<noteq> ESPNOW_FILE_PHASE_END then (s, False)
      else case fr_active_handler s of
        None \<Rightarrow> (s, False)
      | Some p \<Rightarrow>
        if fr_state s \<noteq> FR_WAITING_END then (s, False)
        else case ah_on_end H (fr_objects s p) of
          (h, result) \<Rightarrow>
            (let s = s\<lparr>fr_state := FR_VERIFYING, fr_objects := (fr_objects s)(p := h)\<rparr>;
                 should_restart = (result = ESPNOW_FILE_COMPLETE_SUCCESS \<and> ah_wants_restart_after_complete H h)
             in if should_restart
                then (s\<lparr>fr_complete_action := fr_action s, fr_complete_result := result,
                        fr_complete_ack_remaining := kCompleteAckRetries,
                        fr_next_complete_ack_ms := now, fr_in_complete_phase := True\<rparr>, True)
                else case fr_send_ack_complete (fr_action s) result s of
                       (s, ack_sent) \<Rightarrow> (fr_reset s, ack_sent)))"

definition fr_handle_abort :: "'h action_handler \<Rightarrow> espnow_file_abort \<Rightarrow> 'h fr \<Rightarrow> 'h fr \<times> bool" where
  "fr_handle_abort H abort_packet s =
     (if fabort_phase abort_packet \<noteq> ESPNOW_FILE_PHASE_ABORT then (s, False)
      else case fr_active_handler s of
        None \<Rightarrow> (s, True)
      | Some p \<Rightarrow>
        if fr_state s = FR_IDLE then (s, True)
        else (fr_reset (fr_call_on_abort H p (fabort_reason abort_packet) s), True))"

text \<open>
  The fields an accepted announcement installs, and the part of the handler from the geometry on.
  The state \<open>FR_ANNOUNCED\<close> is left again in the same call.
\<close>

definition fr_install_announce :: "nat \<Rightarrow> espnow_file_announce \<Rightarrow> AnnounceResponse \<Rightarrow> u16 \<Rightarrow> 'h fr \<Rightarrow> 'h fr" where
  "fr_install_announce p announce response remote_buffer_size_kb s =
     fr_compute_increment_geometry
       (s\<lparr>fr_active_handler := Some p, fr_file_size := fann_file_size announce,
          fr_chunk_payload_size := ar_negotiated_chunk_size response,
          fr_action := fann_action announce, fr_file_id := fann_file_id announce,
          fr_last_announce_md5 := fann_md5 announce, fr_buffer_size_kb := remote_buffer_size_kb\<rparr>)"

definition fr_start_transfer :: "'h action_handler \<Rightarrow> nat \<Rightarrow> u8 \<Rightarrow> 'h fr \<Rightarrow> 'h fr \<times> bool" where
  "fr_start_transfer H p announced_action s =
     (if fr_total_chunks s = 0 \<or> fr_total_increments s = 0 \<or> fr_chunks_per_increment s = 0
      then fr_send_ack_reject announced_action ESPNOW_FILE_REJECT_UNSUPPORTED
             (fr_reset (fr_call_on_abort H p ESPNOW_FILE_ABORT_FLASH_ERROR s))
      else
        (let s = s\<lparr>fr_current_increment := 0, fr_retransmit_round := 0, fr_increment_written := False\<rparr>;
             first_inc_chunks = fr_chunks_in_increment 0 s;
             increment_data_size = ucast first_inc_chunks * ucast (fr_chunk_payload_size s) :: u32;
             s = s\<lparr>fr_increment_buf := ib_reset first_inc_chunks increment_data_size, fr_state := FR_ANNOUNCED\<rparr>
         in case fr_send_ack_accept (fr_chunk_payload_size s) (fr_action s) (fr_buffer_size_kb s) s of
              (s, ack_sent) \<Rightarrow>
                if \<not> ack_sent
                then (fr_reset (fr_call_on_abort H p ESPNOW_FILE_ABORT_SEND_FAILURE s), False)
                else (s\<lparr>fr_state := FR_RECEIVING\<rparr>, True)))"

definition fr_handle_announce :: "'h action_handler \<Rightarrow> espnow_file_announce \<Rightarrow> 'h fr \<Rightarrow> 'h fr \<times> bool" where
  "fr_handle_announce H announce s =
     (if \<not> fr_ota_enabled s \<and> fann_action announce = ESPNOW_FILE_ACTION_OTA_FLASH
      then fr_send_ack_reject (fann_action announce) ESPNOW_FILE_REJECT_UNSUPPORTED s
      else if fr_deep_sleep_active s
      then fr_send_ack_reject (fann_action announce) ESPNOW_FILE_REJECT_DEEP_SLEEP s
      else if fr_state s \<noteq> FR_IDLE
        \<or> (case fr_active_handler s of None \<Rightarrow> False | Some p \<Rightarrow> ah_is_receiving H (fr_objects s p))
      then
        (if fr_file_id s = fann_file_id announce \<and> fr_file_size s = fann_file_size announce
            \<and> fr_action s = fann_action announce \<and> fr_last_announce_md5 s = fann_md5 announce
            \<and> fr_state s \<in> {FR_ANNOUNCED, FR_RECEIVING, FR_CHECKING, FR_WRITING}
         then fr_send_ack_accept (fr_chunk_payload_size s) (fr_action s) (fr_buffer_size_kb s) s
         else fr_send_ack_reject (fann_action announce) ESPNOW_FILE_REJECT_ALREADY s)
      else if fann_file_size announce = 0 \<or> fann_chunk_size announce = 0
      then fr_send_ack_reject (fann_action announce) ESPNOW_FILE_REJECT_UNSUPPORTED s
      else if 1073741824 < fann_file_size announce
      then fr_send_ack_reject (fann_action announce) ESPNOW_FILE_REJECT_NO_SPACE s
      else case fr_handlers s (fann_action announce) of
        None \<Rightarrow> fr_send_ack_reject (fann_action announce) ESPNOW_FILE_REJECT_UNSUPPORTED s
      | Some p \<Rightarrow>
        (case ah_on_announce H (fann_file_size announce) (fann_md5 announce) (fann_chunk_size announce)
                (fann_action announce) (fann_file_id announce @ [0]) ESPNOW_MAX_INCREMENT_KB (fr_objects s p) of
           (h, response, remote_buffer_size_kb) \<Rightarrow>
             (let s = s\<lparr>fr_objects := (fr_objects s)(p := h)\<rparr> in
              if \<not> ar_accepted response
              then fr_send_ack_reject (fann_action announce) (ar_reject_reason response) s
              else if ar_negotiated_chunk_size response = 0
                \<or> fann_chunk_size announce < ar_negotiated_chunk_size response
                \<or> fr_max_chunk_size s < ar_negotiated_chunk_size response
              then fr_send_ack_reject (fann_action announce) ESPNOW_FILE_REJECT_UNSUPPORTED
                     (fr_call_on_abort H p ESPNOW_FILE_ABORT_FLASH_ERROR s)
              else fr_start_transfer H p (fann_action announce)
                     (fr_install_announce p announce response remote_buffer_size_kb s))))"

text \<open>
  The dispatcher: the length must be the packet's exactly, and the activity timer is restarted by any
  non-empty packet, also by one that is then refused.
\<close>

definition fr_handle_file_transfer :: "'h action_handler \<Rightarrow> u32 \<Rightarrow> bytes \<Rightarrow> 'h fr \<Rightarrow> 'h fr \<times> bool" where
  "fr_handle_file_transfer H now payload s =
     (if payload = [] then (s, False)
      else
        (let s = s\<lparr>fr_last_activity_ms := now\<rparr>; phase = payload ! 0; len = length payload in
         if phase = ESPNOW_FILE_PHASE_ANNOUNCE then
           (if len \<noteq> c_width espnow_file_announce_codec then (s, False)
            else case c_dec espnow_file_announce_codec payload of
                   None \<Rightarrow> (s, False) | Some a \<Rightarrow> fr_handle_announce H a s)
         else if phase = ESPNOW_FILE_PHASE_END then
           (if len \<noteq> c_width espnow_file_end_codec then (s, False)
            else case c_dec espnow_file_end_codec payload of
                   None \<Rightarrow> (s, False) | Some e \<Rightarrow> fr_handle_end H now e s)
         else if phase = ESPNOW_FILE_PHASE_ABORT then
           (if len \<noteq> c_width espnow_file_abort_codec then (s, False)
            else case c_dec espnow_file_abort_codec payload of
                   None \<Rightarrow> (s, False) | Some a \<Rightarrow> fr_handle_abort H a s)
         else if phase = ESPNOW_FILE_PHASE_BLAST_COMPLETE then
           (if len \<noteq> c_width espnow_file_blast_complete_codec then (s, False)
            else case c_dec espnow_file_blast_complete_codec payload of
                   None \<Rightarrow> (s, False) | Some bc \<Rightarrow> fr_handle_blast_complete H now bc s)
         else (s, False)))"

section \<open>The main loop\<close>

definition fr_schedule_restart :: "u32 \<Rightarrow> 'h fr \<Rightarrow> 'h fr" where
  "fr_schedule_restart now s = s\<lparr>fr_restart_pending := True, fr_restart_due_ms := now + kRestartDelayMs\<rparr>"

text \<open>\<open>fr_restarts\<close> counts the calls of \<^verbatim>\<open>esp_restart\<close>, which does not return.\<close>

definition fr_perform_restart_if_due :: "u32 \<Rightarrow> 'h fr \<Rightarrow> 'h fr" where
  "fr_perform_restart_if_due now s =
     (if \<not> fr_restart_pending s then s
      else if sint (now - fr_restart_due_ms s) < 0 then s
      else s\<lparr>fr_restart_pending := False, fr_restarts := fr_restarts s + 1\<rparr>)"

definition fr_loop :: "'h action_handler \<Rightarrow> u32 \<Rightarrow> 'h fr \<Rightarrow> 'h fr" where
  "fr_loop H now s =
     (let s = fr_perform_restart_if_due now s in
      if fr_in_complete_phase s then
        (let s = (if kCompleteAckIntervalMs \<le> now - fr_next_complete_ack_ms s
                  then (fst (fr_send_ack_complete (fr_complete_action s) (fr_complete_result s) s))
                         \<lparr>fr_complete_ack_remaining := fr_complete_ack_remaining s - 1,
                          fr_next_complete_ack_ms := now\<rparr>
                  else s)
         in if sint (fr_complete_ack_remaining s) \<le> 0
            then (fr_schedule_restart now (fr_reset s))\<lparr>fr_in_complete_phase := False\<rparr>
            else s)
      else if fr_state s = FR_IDLE \<or> fr_active_handler s = None then s
      else if fr_state s = FR_ANNOUNCED then
        (if ESPNOW_FILE_ANNOUNCE_TIMEOUT_MS < now - fr_last_activity_ms s
         then fr_abort H ESPNOW_FILE_ABORT_TIMEOUT True s else s)
      else if fr_state s = FR_WRITING \<or> fr_state s = FR_CHECKING then s
      else if fr_state s = FR_WAITING_END then
        (if ESPNOW_RADIO_SILENCE_ABORT_MS < now - fr_last_activity_ms s
         then fr_abort H ESPNOW_FILE_ABORT_TIMEOUT True s else s)
      else if ESPNOW_RADIO_SILENCE_ABORT_MS < now - fr_last_activity_ms s
      then fr_abort H ESPNOW_FILE_ABORT_TIMEOUT True s
      else s)"

section \<open>The public interface as events\<close>

text \<open>
  \<open>set_max_chunk_size\<close> also sets the built-in handler, object 0; its setter is not part of the
  handler interface and is the argument \<open>set_max\<close>.
\<close>

definition fr_set_max_chunk_size :: "(u16 \<Rightarrow> 'h \<Rightarrow> 'h) \<Rightarrow> u16 \<Rightarrow> 'h fr \<Rightarrow> 'h fr" where
  "fr_set_max_chunk_size set_max max_chunk s =
     s\<lparr>fr_max_chunk_size := max_chunk, fr_objects := (fr_objects s)(0 := set_max max_chunk (fr_objects s 0))\<rparr>"

datatype fr_event =
    EvFileTransfer u32 bytes
  | EvFileData u32 bytes
  | EvLoop u32
  | EvAbort u8 bool
  | EvAnnounceTx u32
  | EvBlastCompleteTx u32
  | EvOtaEnabled bool
  | EvDeepSleep bool
  | EvMaxChunk u16
  | EvSendAckFn "bytes list \<Rightarrow> bytes \<Rightarrow> bool"
  | EvRegisterHandler u8 "nat option"
  | EvLocalMac "bytes option"

fun fr_step :: "'h action_handler \<Rightarrow> (u16 \<Rightarrow> 'h \<Rightarrow> 'h) \<Rightarrow> fr_event \<Rightarrow> 'h fr \<Rightarrow> 'h fr" where
  "fr_step H set_max (EvFileTransfer now payload) s = fst (fr_handle_file_transfer H now payload s)"
| "fr_step H set_max (EvFileData now payload) s = fst (fr_handle_file_data now payload s)"
| "fr_step H set_max (EvLoop now) s = fr_loop H now s"
| "fr_step H set_max (EvAbort reason notify) s = fr_abort H reason notify s"
| "fr_step H set_max (EvAnnounceTx tx) s = fr_set_announce_tx_counter tx s"
| "fr_step H set_max (EvBlastCompleteTx tx) s = fr_set_blast_complete_tx_counter tx s"
| "fr_step H set_max (EvOtaEnabled b) s = s\<lparr>fr_ota_enabled := b\<rparr>"
| "fr_step H set_max (EvDeepSleep b) s = s\<lparr>fr_deep_sleep_active := b\<rparr>"
| "fr_step H set_max (EvMaxChunk m) s = fr_set_max_chunk_size set_max m s"
| "fr_step H set_max (EvSendAckFn send) s = s\<lparr>fr_send_ack_fn := Some send\<rparr>"
| "fr_step H set_max (EvRegisterHandler action handler) s = fr_register_handler action handler s"
| "fr_step H set_max (EvLocalMac mac) s = fr_set_local_mac mac s"

definition fr_run :: "'h action_handler \<Rightarrow> (u16 \<Rightarrow> 'h \<Rightarrow> 'h) \<Rightarrow> fr_event list \<Rightarrow> 'h fr \<Rightarrow> 'h fr" where
  "fr_run H set_max evs s = fold (fr_step H set_max) evs s"

end
