(* ===== verification/OtaFlash.thy ===== *)
theory OtaFlash
  imports FileReceiver
begin

text \<open>
  The firmware update handler of the receiver (\<^verbatim>\<open>FileReceiver::OTAFlashHandler\<close>, the
  branch for the ESP targets). The calls into ESP-IDF are the record \<open>ota_platform\<close> over the
  platform's own state \<open>'p\<close>; the branch of the host build, which has a 4 MB partition and no
  flash, is one such platform. \<^verbatim>\<open>MD5Digest\<close> is ESPHome's: the bytes added to it are kept,
  and the digest of all of them is the argument \<open>md5\<close>.
\<close>

section \<open>The platform\<close>

text \<open>A partition is known by its size; a result \<open>True\<close> is \<^verbatim>\<open>ESP_OK\<close>.\<close>

record 'p ota_platform =
  esp_ota_get_next_update_partition :: "'p \<Rightarrow> u32 option"
  esp_ota_begin :: "u32 \<Rightarrow> u32 \<Rightarrow> 'p \<Rightarrow> 'p \<times> bool \<times> u32"
  heap_caps_get_largest_free_block :: "'p \<Rightarrow> u32"
  esp_ota_write :: "u32 \<Rightarrow> bytes \<Rightarrow> 'p \<Rightarrow> 'p \<times> bool"
  esp_ota_end :: "u32 \<Rightarrow> 'p \<Rightarrow> 'p \<times> bool"
  esp_ota_set_boot_partition :: "u32 option \<Rightarrow> 'p \<Rightarrow> 'p \<times> bool"
  esp_ota_abort :: "u32 \<Rightarrow> 'p \<Rightarrow> 'p"

text \<open>The host build: the largest block only has to make the buffer its maximum.\<close>

definition host_platform :: "unit ota_platform" where
  "host_platform =
     \<lparr>esp_ota_get_next_update_partition = (\<lambda>_. Some (4 * 1024 * 1024)),
      esp_ota_begin = (\<lambda>part sz p. (p, True, 1)),
      heap_caps_get_largest_free_block = (\<lambda>_. 65536),
      esp_ota_write = (\<lambda>h data p. (p, True)),
      esp_ota_end = (\<lambda>h p. (p, True)),
      esp_ota_set_boot_partition = (\<lambda>part p. (p, True)),
      esp_ota_abort = (\<lambda>h p. p)\<rparr>"

section \<open>The handler\<close>

datatype ofh_state_t = OFH_IDLE | OFH_RECEIVING | OFH_VERIFYING

record 'p ofh =
  ofh_state :: ofh_state_t
  ofh_file_size :: u32
  ofh_expected_md5 :: bytes
  ofh_chunk_size :: u16
  ofh_max_chunk_size :: u16
  ofh_total_written :: u32
  ofh_restart_requested :: bool
  ofh_md5_data :: bytes
  ofh_md5_active :: bool
  ofh_update_partition :: "u32 option"
  ofh_ota_handle :: u32
  ofh_platform :: 'p

abbreviation (input) kEspImageMagic :: u8 where "kEspImageMagic \<equiv> 233"

definition ofh_init :: "'p \<Rightarrow> 'p ofh" where
  "ofh_init p = \<lparr>ofh_state = OFH_IDLE, ofh_file_size = 0, ofh_expected_md5 = replicate 16 0, ofh_chunk_size = 0,
     ofh_max_chunk_size = of_nat ESPNOW_FILE_DEFAULT_CHUNK_SIZE, ofh_total_written = 0,
     ofh_restart_requested = False, ofh_md5_data = [], ofh_md5_active = False,
     ofh_update_partition = None, ofh_ota_handle = 0, ofh_platform = p\<rparr>"

definition ofh_set_max_chunk_size :: "u16 \<Rightarrow> 'p ofh \<Rightarrow> 'p ofh" where
  "ofh_set_max_chunk_size max_chunk h = h\<lparr>ofh_max_chunk_size := max_chunk\<rparr>"

definition ofh_is_receiving :: "'p ofh \<Rightarrow> bool" where
  "ofh_is_receiving h \<longleftrightarrow> ofh_state h \<noteq> OFH_IDLE"

definition ofh_wants_restart_after_complete :: "'p ofh \<Rightarrow> bool" where
  "ofh_wants_restart_after_complete h = ofh_restart_requested h"

definition ofh_reset_state :: "'p ofh \<Rightarrow> 'p ofh" where
  "ofh_reset_state h = h\<lparr>ofh_state := OFH_IDLE, ofh_file_size := 0, ofh_chunk_size := 0,
     ofh_total_written := 0, ofh_restart_requested := False, ofh_expected_md5 := replicate 16 0,
     ofh_update_partition := None, ofh_ota_handle := 0, ofh_md5_active := False\<rparr>"

definition ofh_begin_md5 :: "'p ofh \<Rightarrow> 'p ofh \<times> bool" where
  "ofh_begin_md5 h = (h\<lparr>ofh_md5_data := [], ofh_md5_active := True\<rparr>, True)"

definition ofh_update_md5 :: "bytes \<Rightarrow> 'p ofh \<Rightarrow> 'p ofh \<times> bool" where
  "ofh_update_md5 data h =
     (if \<not> ofh_md5_active h then (h, False) else (h\<lparr>ofh_md5_data := ofh_md5_data h @ data\<rparr>, True))"

definition ofh_finish_md5 :: "(bytes \<Rightarrow> bytes) \<Rightarrow> 'p ofh \<Rightarrow> 'p ofh \<times> bytes option" where
  "ofh_finish_md5 md5 h =
     (if \<not> ofh_md5_active h then (h, None)
      else (h\<lparr>ofh_md5_active := False\<rparr>, Some (md5 (ofh_md5_data h))))"

definition ofh_rejected :: "u8 \<Rightarrow> AnnounceResponse" where
  "ofh_rejected reason = \<lparr>ar_accepted = False, ar_reject_reason = reason, ar_negotiated_chunk_size = 0\<rparr>"

text \<open>Half the largest free block in KB, at least 8 and at most the protocol's maximum.\<close>

definition ofh_heap_kb :: "u32 \<Rightarrow> u16" where
  "ofh_heap_kb largest_free =
     (let heap_kb = ucast ((ucast largest_free * 50 :: u64) div 100 div 1024) :: u16;
          heap_kb = (if heap_kb < 8 then 8 else heap_kb)
      in if ESPNOW_MAX_INCREMENT_KB < heap_kb then ESPNOW_MAX_INCREMENT_KB else heap_kb)"

definition ofh_on_announce ::
  "'p ota_platform \<Rightarrow> u32 \<Rightarrow> bytes \<Rightarrow> u16 \<Rightarrow> u8 \<Rightarrow> bytes \<Rightarrow> u16 \<Rightarrow> 'p ofh \<Rightarrow> 'p ofh \<times> AnnounceResponse \<times> u16" where
  "ofh_on_announce P sz md5 chunk_size action file_id buffer_size_kb h =
     (if ofh_state h \<noteq> OFH_IDLE then (h, ofh_rejected ESPNOW_FILE_REJECT_ALREADY, buffer_size_kb)
      else if sz = 0 \<or> chunk_size = 0 then (h, ofh_rejected ESPNOW_FILE_REJECT_UNSUPPORTED, buffer_size_kb)
      else
        (let negotiated_chunk_size = min chunk_size (ofh_max_chunk_size h) in
         if negotiated_chunk_size = 0 then (h, ofh_rejected ESPNOW_FILE_REJECT_UNSUPPORTED, buffer_size_kb)
         else
           (let h = h\<lparr>ofh_update_partition := esp_ota_get_next_update_partition P (ofh_platform h)\<rparr> in
            case ofh_update_partition h of
              None \<Rightarrow> (h, ofh_rejected ESPNOW_FILE_REJECT_UNSUPPORTED, buffer_size_kb)
            | Some part \<Rightarrow>
                if part < sz then (h, ofh_rejected ESPNOW_FILE_REJECT_NO_SPACE, buffer_size_kb)
                else case esp_ota_begin P part sz (ofh_platform h) of
                  (p, begin_ok, handle) \<Rightarrow>
                    (let h = h\<lparr>ofh_ota_handle := handle, ofh_platform := p\<rparr> in
                     if \<not> begin_ok then (h, ofh_rejected ESPNOW_FILE_REJECT_BUSY, buffer_size_kb)
                     else
                       (let buffer_size_kb = ofh_heap_kb (heap_caps_get_largest_free_block P (ofh_platform h)) in
                        case ofh_begin_md5 h of
                          (h, md5_ok) \<Rightarrow>
                            if \<not> md5_ok
                            then (h\<lparr>ofh_platform := esp_ota_abort P (ofh_ota_handle h) (ofh_platform h),
                                    ofh_ota_handle := 0, ofh_update_partition := None\<rparr>,
                                  ofh_rejected ESPNOW_FILE_REJECT_BUSY, buffer_size_kb)
                            else (h\<lparr>ofh_file_size := sz, ofh_chunk_size := negotiated_chunk_size,
                                    ofh_total_written := 0, ofh_restart_requested := False,
                                    ofh_expected_md5 := md5, ofh_state := OFH_RECEIVING\<rparr>,
                                  \<lparr>ar_accepted = True, ar_reject_reason = ESPNOW_FILE_REJECT_UNSUPPORTED,
                                   ar_negotiated_chunk_size = negotiated_chunk_size\<rparr>,
                                  buffer_size_kb))))))"

definition ofh_refused :: ChunkResponse where
  "ofh_refused = \<lparr>cr_accepted = False, cr_abort_reason = ESPNOW_FILE_ABORT_FLASH_ERROR\<rparr>"

definition ofh_on_data :: "'p ota_platform \<Rightarrow> u32 \<Rightarrow> bytes \<Rightarrow> 'p ofh \<Rightarrow> 'p ofh \<times> ChunkResponse" where
  "ofh_on_data P sequence data h =
     (if ofh_state h \<noteq> OFH_RECEIVING \<or> length data = 0 then (h, ofh_refused)
      else if ofh_total_written h = 0 \<and> data ! 0 \<noteq> kEspImageMagic then (h, ofh_refused)
      else case esp_ota_write P (ofh_ota_handle h) data (ofh_platform h) of
        (p, write_ok) \<Rightarrow>
          (let h = h\<lparr>ofh_platform := p\<rparr> in
           if \<not> write_ok then (h, ofh_refused)
           else case ofh_update_md5 data h of
             (h, md5_ok) \<Rightarrow>
               if \<not> md5_ok then (h, ofh_refused)
               else (h\<lparr>ofh_total_written := ofh_total_written h + of_nat (length data)\<rparr>,
                     \<lparr>cr_accepted = True, cr_abort_reason = ESPNOW_FILE_ABORT_FLASH_ERROR\<rparr>)))"

definition ofh_platform_abort :: "'p ota_platform \<Rightarrow> 'p ofh \<Rightarrow> 'p ofh" where
  "ofh_platform_abort P h = h\<lparr>ofh_platform := esp_ota_abort P (ofh_ota_handle h) (ofh_platform h)\<rparr>"

definition ofh_on_end :: "(bytes \<Rightarrow> bytes) \<Rightarrow> 'p ota_platform \<Rightarrow> 'p ofh \<Rightarrow> 'p ofh \<times> u8" where
  "ofh_on_end md5 P h =
     (if ofh_state h \<noteq> OFH_RECEIVING then (h, ESPNOW_FILE_COMPLETE_ABORTED)
      else
        (let h = h\<lparr>ofh_state := OFH_VERIFYING\<rparr> in
         if ofh_total_written h \<noteq> ofh_file_size h
         then (ofh_reset_state (ofh_platform_abort P h), ESPNOW_FILE_COMPLETE_WRITE_ERROR)
         else case ofh_finish_md5 md5 h of
           (h, None) \<Rightarrow> (ofh_reset_state (ofh_platform_abort P h), ESPNOW_FILE_COMPLETE_FLASH_ERROR)
         | (h, Some computed_md5) \<Rightarrow>
             if computed_md5 \<noteq> ofh_expected_md5 h
             then (ofh_reset_state (ofh_platform_abort P h), ESPNOW_FILE_COMPLETE_MD5_MISMATCH)
             else case esp_ota_end P (ofh_ota_handle h) (ofh_platform h) of
               (p, end_ok) \<Rightarrow>
                 (let h = h\<lparr>ofh_platform := p\<rparr> in
                  if \<not> end_ok then (ofh_reset_state h, ESPNOW_FILE_COMPLETE_FLASH_ERROR)
                  else case esp_ota_set_boot_partition P (ofh_update_partition h) (ofh_platform h) of
                    (p, set_boot_ok) \<Rightarrow>
                      (let h = h\<lparr>ofh_platform := p\<rparr> in
                       if \<not> set_boot_ok then (ofh_reset_state h, ESPNOW_FILE_COMPLETE_FLASH_ERROR)
                       else ((ofh_reset_state h)\<lparr>ofh_restart_requested := True\<rparr>, ESPNOW_FILE_COMPLETE_SUCCESS)))))"

definition ofh_on_abort :: "'p ota_platform \<Rightarrow> u8 \<Rightarrow> 'p ofh \<Rightarrow> 'p ofh" where
  "ofh_on_abort P reason h =
     ofh_reset_state (if ofh_state h \<noteq> OFH_IDLE \<and> ofh_ota_handle h \<noteq> 0 then ofh_platform_abort P h else h)"

definition flash_handler :: "(bytes \<Rightarrow> bytes) \<Rightarrow> 'p ota_platform \<Rightarrow> 'p ofh action_handler" where
  "flash_handler md5 P =
     \<lparr>ah_on_announce = ofh_on_announce P, ah_on_data = ofh_on_data P, ah_on_end = ofh_on_end md5 P,
      ah_on_abort = ofh_on_abort P, ah_is_receiving = ofh_is_receiving,
      ah_wants_restart_after_complete = ofh_wants_restart_after_complete\<rparr>"

end
