(* ===== verification/FileGeometry.thy ===== *)
theory FileGeometry
  imports FileReceiver
begin

text \<open>
  The arithmetic of a transfer, apart from the machine words: how many chunks and increments a file
  has, and that the receiver's 16- and 32-bit computations are these numbers as long as the count of
  increments fits its 16-bit variable.
\<close>

section \<open>Counting chunks and increments\<close>

definition ceil_div :: "nat \<Rightarrow> nat \<Rightarrow> nat" where
  "ceil_div a b = a div b + (if a mod b \<noteq> 0 then 1 else 0)"

lemma less_ceil_div_iff:
  assumes b: "0 < b"
  shows "i < ceil_div a b \<longleftrightarrow> i * b < a"
proof (cases "a mod b = 0")
  case True
  then obtain q where "a = q * b" by (metis mod_0_imp_dvd dvd_def mult.commute)
  with b show ?thesis by (simp add: ceil_div_def)
next
  case False
  let ?q = "a div b"
  have a: "a = ?q * b + a mod b" by simp
  have m: "a mod b < b" using b by simp
  have "i \<le> ?q \<longleftrightarrow> i * b < a"
  proof
    assume "i \<le> ?q"
    then have "i * b \<le> ?q * b" by simp
    with a False show "i * b < a" by linarith
  next
    assume "i * b < a"
    then have "i * b < ?q * b + b" using a m by linarith
    then have "i * b < (?q + 1) * b" by (simp only: add_mult_distrib mult_1)
    then have "i < ?q + 1" by (metis mult_less_cancel2)
    then show "i \<le> ?q" by simp
  qed
  with False show ?thesis by (simp add: ceil_div_def less_Suc_eq_le)
qed

lemma ceil_div_pos: "0 < b \<Longrightarrow> 0 < a \<Longrightarrow> 0 < ceil_div a b"
  by (simp add: less_ceil_div_iff)

lemma ceil_div_upper: "0 < b \<Longrightarrow> a \<le> ceil_div a b * b"
  using less_ceil_div_iff [of b "ceil_div a b" a] by simp

lemma ceil_div_lower: "0 < b \<Longrightarrow> 0 < a \<Longrightarrow> (ceil_div a b - 1) * b < a"
  using less_ceil_div_iff [of b "ceil_div a b - 1" a] ceil_div_pos [of b a] by simp

lemma ceil_div_le: "0 < b \<Longrightarrow> ceil_div a b \<le> a"
proof (rule ccontr)
  assume b: "0 < b" and "\<not> ceil_div a b \<le> a"
  then have "a * b < a" using less_ceil_div_iff [OF b, of a a] by simp
  moreover have "a * 1 \<le> a * b" by (rule mult_le_mono2) (use b in simp)
  ultimately show False by linarith
qed

text \<open>The length of chunk \<open>q\<close> of a file of \<open>F\<close> bytes in chunks of \<open>c\<close>.\<close>

definition chunk_len :: "nat \<Rightarrow> nat \<Rightarrow> nat \<Rightarrow> nat" where
  "chunk_len F c q = min c (F - q * c)"

definition chunk_of :: "bytes \<Rightarrow> nat \<Rightarrow> nat \<Rightarrow> bytes" where
  "chunk_of file c q = take c (drop (q * c) file)"

lemma length_chunk_of: "length (chunk_of file c q) = chunk_len (length file) c q"
  by (simp add: chunk_of_def chunk_len_def)

lemma take_chunks: "take (q * c) file @ chunk_of file c q = take (Suc q * c) file"
  by (simp add: chunk_of_def take_add [of "q * c" c, symmetric] add.commute)

lemma chunk_len_pos: "0 < c \<Longrightarrow> q < ceil_div F c \<Longrightarrow> 0 < chunk_len F c q"
  by (simp add: less_ceil_div_iff chunk_len_def)

text \<open>The sizes of all chunks add up to the file.\<close>

lemma sum_chunk_len:
  assumes "0 < c"
  shows "(\<Sum>q<ceil_div F c. chunk_len F c q) = F"
proof -
  have "n \<le> ceil_div F c \<Longrightarrow> (\<Sum>q<n. chunk_len F c q) = min (n * c) F" for n
  proof (induction n)
    case (Suc n)
    then have "n * c < F" by (simp add: less_ceil_div_iff assms Suc_le_eq)
    then have "min (n * c) F + min c (F - n * c) = min (c + n * c) F" by linarith
    moreover have "(\<Sum>q<n. chunk_len F c q) = min (n * c) F" using Suc by simp
    ultimately show ?case by (simp add: chunk_len_def)
  qed simp
  from this [of "ceil_div F c"] show ?thesis using ceil_div_upper [OF assms, of F] by simp
qed

section \<open>The receiver's geometry\<close>

definition geo_cpi :: "nat \<Rightarrow> nat \<Rightarrow> nat" where
  "geo_cpi c kb = max 1 (min kb 8 * 1024 div c)"

text \<open>The increments fit their 16-bit counter.\<close>

definition geometry_fits :: "nat \<Rightarrow> nat \<Rightarrow> nat \<Rightarrow> bool" where
  "geometry_fits F c kb \<longleftrightarrow> ceil_div (ceil_div F c) (geo_cpi c kb) < 65536"

text \<open>
  What the geometry variables are: \<open>T\<close> chunks, \<open>N\<close> increments of \<open>k\<close> chunks but the last,
  which has the rest.
\<close>

definition fr_geometry_ok :: "'h fr \<Rightarrow> bool" where
  "fr_geometry_ok s \<longleftrightarrow>
     (let F = unat (fr_file_size s); c = unat (fr_chunk_payload_size s); k = unat (fr_chunks_per_increment s);
          T = unat (fr_total_chunks s); N = unat (fr_total_increments s); L = unat (fr_chunks_in_last_increment s)
      in 0 < F \<and> 0 < c \<and> 0 < k \<and> T = ceil_div F c \<and> N = ceil_div T k \<and> (N - 1) * k + L = T \<and> 0 < L \<and> L \<le> k
         \<and> k * c \<le> max c 8192)"

lemma unat_ucast_wider:
  "LENGTH('a) \<le> LENGTH('b) \<Longrightarrow> unat (ucast (w :: 'a::len word) :: 'b::len word) = unat w"
proof -
  assume "LENGTH('a) \<le> LENGTH('b)"
  then have "(2 :: nat) ^ LENGTH('a) \<le> 2 ^ LENGTH('b)" by simp
  moreover have "unat w < 2 ^ LENGTH('a)" by (rule unsigned_less)
  ultimately have "unat w < 2 ^ LENGTH('b)" by (rule less_le_trans [rotated])
  then show ?thesis by (simp add: unsigned_ucast_eq take_bit_nat_eq_self)
qed

lemma unat_ucast_up [simp]:
  "unat (ucast (w :: u16) :: u32) = unat w" "unat (ucast (w :: u16) :: u64) = unat w"
  "unat (ucast (v :: u32) :: u64) = unat v" "unat (ucast (b :: u8) :: u16) = unat b"
  by (simp_all add: unat_ucast_wider)

lemma unat_ucast_down:
  "unat (v :: u32) < 65536 \<Longrightarrow> unat (ucast v :: u16) = unat v"
  by (simp add: unsigned_ucast_eq take_bit_nat_eq_self)

lemma unat_ucast_down64:
  "unat (v :: u64) < 4294967296 \<Longrightarrow> unat (ucast v :: u32) = unat v"
  by (simp add: unsigned_ucast_eq take_bit_nat_eq_self)

lemma unat_add_small: "unat a + unat b < 2 ^ LENGTH('a) \<Longrightarrow> unat (a + b :: 'a::len word) = unat a + unat b"
  by (simp add: unat_word_ariths)

lemma unat_mult_small: "unat a * unat b < 2 ^ LENGTH('a) \<Longrightarrow> unat (a * b :: 'a::len word) = unat a * unat b"
  by (simp add: unat_word_ariths)

lemma unat_sub_small: "unat b \<le> unat a \<Longrightarrow> unat (a - b :: 'a::len word) = unat a - unat b"
  by (simp add: unat_sub_if_size)

lemma unat_mult_u16: "unat (ucast (a :: u16) * ucast (b :: u16) :: u32) = unat a * unat b"
proof -
  have "unat a * unat b \<le> 65535 * 65535"
    using unat_u16_bound [of a] unat_u16_bound [of b] by (intro mult_le_mono) linarith+
  then show ?thesis by (simp add: unat_mult_small)
qed

section \<open>The computation meets the specification\<close>

lemma unat_ceil_div_u32:
  fixes a b :: u32
  assumes "0 < unat b"
  shows "unat (a div b + (if a mod b \<noteq> 0 then 1 else 0)) = ceil_div (unat a) (unat b)"
proof -
  have "ceil_div (unat a) (unat b) < 2 ^ 32"
    by (rule le_less_trans [OF ceil_div_le [OF assms]]) simp
  moreover have "(a mod b \<noteq> 0) = (unat a mod unat b \<noteq> 0)"
    by (metis unat_0 unat_eq_zero unat_mod)
  ultimately show ?thesis
    by (auto simp: ceil_div_def unat_div unat_add_small)
qed

lemma geo_cpi_bounds:
  assumes "0 < c"
  shows "0 < geo_cpi c kb" and "geo_cpi c kb * c \<le> max c 8192" and "geo_cpi c kb \<le> 8192"
proof -
  have m: "min kb 8 * 1024 div c * c \<le> 8192"
    using div_times_less_eq_dividend [of "min kb 8 * 1024" c] by linarith
  show "0 < geo_cpi c kb" by (simp add: geo_cpi_def)
  show "geo_cpi c kb * c \<le> max c 8192" using m by (auto simp: geo_cpi_def max_def)
  have "min kb 8 * 1024 div c \<le> min kb 8 * 1024" "min kb 8 * 1024 \<le> 8192"
    by (rule div_le_dividend) simp
  then have "min kb 8 * 1024 div c \<le> 8192" by (rule le_trans)
  then show "geo_cpi c kb \<le> 8192" by (auto simp: geo_cpi_def max_def)
qed

lemma cpi_word:
  assumes "0 < unat c"
  shows "unat (let cpi = ucast ((ucast (min kb 8 :: u16) * 1024 :: u32) div ucast c) :: u16 in if cpi = 0 then 1 else cpi)
    = geo_cpi (unat (c :: u16)) (unat kb)"
proof -
  have mn: "unat (min kb 8) = min (unat kb) 8" by (simp add: min_def word_le_nat_alt)
  have inc: "unat (ucast (min kb 8) * 1024 :: u32) = min (unat kb) 8 * 1024"
    by (subst unat_mult_small) (simp_all add: mn)
  let ?q = "min (unat kb) 8 * 1024 div unat c"
  have "?q \<le> 8192" by (rule le_trans [OF div_le_dividend]) simp
  then have q: "unat (ucast ((ucast (min kb 8) * 1024 :: u32) div ucast c) :: u16) = ?q"
    by (subst unat_ucast_down) (simp_all add: unat_div inc)
  have "((ucast ((ucast (min kb 8) * 1024 :: u32) div ucast c) :: u16) = 0) = (?q = 0)"
    by (metis q unat_0 unat_eq_zero)
  with q show ?thesis by (auto simp: Let_def geo_cpi_def)
qed

lemma ceil_div_last:
  assumes "0 < k" and "0 < T"
  shows "(ceil_div T k - 1) * k + (T - (ceil_div T k - 1) * k) = T"
    and "0 < T - (ceil_div T k - 1) * k" and "T - (ceil_div T k - 1) * k \<le> k"
proof -
  have lo: "(ceil_div T k - 1) * k < T" by (rule ceil_div_lower [OF assms])
  then show "(ceil_div T k - 1) * k + (T - (ceil_div T k - 1) * k) = T" "0 < T - (ceil_div T k - 1) * k"
    by simp_all
  have "ceil_div T k * k = (ceil_div T k - 1) * k + k"
    using ceil_div_pos [OF assms] by (cases "ceil_div T k") simp_all
  with ceil_div_upper [OF assms(1), of T] show "T - (ceil_div T k - 1) * k \<le> k" by linarith
qed

lemma compute_increment_geometry_ok:
  assumes F: "0 < unat (fr_file_size s)" and c: "0 < unat (fr_chunk_payload_size s)"
    and fits: "geometry_fits (unat (fr_file_size s)) (unat (fr_chunk_payload_size s)) (unat (fr_buffer_size_kb s))"
  shows "fr_geometry_ok (fr_compute_increment_geometry s)"
proof -
  let ?F = "unat (fr_file_size s)" and ?c = "unat (fr_chunk_payload_size s)"
  let ?chunk = "ucast (fr_chunk_payload_size s) :: u32"
  define k where "k = geo_cpi ?c (unat (fr_buffer_size_kb s))"
  define T where "T = ceil_div ?F ?c"
  define N where "N = ceil_div T k"
  define kw where "kw = (let cpi = ucast ((ucast (min (fr_buffer_size_kb s) 8) * 1024 :: u32) div ?chunk) :: u16
    in if cpi = 0 then 1 else cpi)"
  define Tw where "Tw = fr_file_size s div ?chunk + (if fr_file_size s mod ?chunk \<noteq> 0 then 1 else 0)"
  define Nw where "Nw = (ucast (Tw div ucast kw + (if Tw mod ucast kw \<noteq> 0 then 1 else 0)) :: u16)"
  define Lw where "Lw = (ucast (Tw - (ucast Nw - 1) * ucast kw) :: u16)"
  have kpos: "0 < k" and kc: "k * ?c \<le> max ?c 8192" and kle: "k \<le> 8192"
    using geo_cpi_bounds [OF c] by (simp_all add: k_def)
  have Tpos: "0 < T" using ceil_div_pos [OF c F] by (simp add: T_def)
  have Npos: "0 < N" using ceil_div_pos [OF kpos Tpos] by (simp add: N_def)
  have kw: "unat kw = k" unfolding kw_def k_def by (rule cpi_word [OF c])
  have Tw: "unat Tw = T" unfolding Tw_def T_def using unat_ceil_div_u32 [of ?chunk "fr_file_size s"] c by simp
  have N': "unat (Tw div ucast kw + (if Tw mod ucast kw \<noteq> 0 then 1 else 0)) = N"
    unfolding N_def using unat_ceil_div_u32 [of "ucast kw" Tw] kw Tw kpos by simp
  have "N < 65536" using fits by (simp add: geometry_fits_def N_def T_def k_def)
  then have Nw: "unat Nw = N" unfolding Nw_def by (subst unat_ucast_down) (simp_all only: N')
  have Nw0: "Nw \<noteq> 0" using Nw Npos by auto
  note last = ceil_div_last [OF kpos Tpos, folded N_def]
  have m1: "unat (ucast Nw - 1 :: u32) = N - 1"
    by (subst unat_sub_small) (use Nw Npos in simp_all)
  have "(N - 1) * k < 2 ^ 32"
  proof (rule le_less_trans)
    show "(N - 1) * k \<le> unat Tw" using last(1) Tw by linarith
  qed simp
  then have m2: "unat ((ucast Nw - 1) * ucast kw :: u32) = (N - 1) * k"
    by (subst unat_mult_small) (simp_all add: m1 kw)
  have "unat (Tw - (ucast Nw - 1) * ucast kw) = T - (N - 1) * k"
    by (subst unat_sub_small) (use m2 Tw last(1) in simp_all)
  then have Lw: "unat Lw = T - (N - 1) * k"
    unfolding Lw_def by (subst unat_ucast_down) (use last(3) kle in simp_all)
  have Lw0: "Lw \<noteq> 0" using Lw last(2) by auto
  have g: "fr_compute_increment_geometry s = s\<lparr>fr_chunks_per_increment := kw, fr_total_chunks := Tw,
      fr_total_increments := Nw, fr_chunks_in_last_increment := Lw\<rparr>"
    using Nw0 Lw0
    by (simp add: fr_compute_increment_geometry_def Let_def kw_def [symmetric, unfolded Let_def]
        Tw_def [symmetric] Nw_def [symmetric] Lw_def [symmetric])
  show ?thesis
    unfolding fr_geometry_ok_def g Let_def
    using F c kpos kc last by (simp add: kw Tw Nw Lw T_def [symmetric] N_def [symmetric])
qed

end
