(* ===== verification/IncrementBitmap.thy ===== *)
theory IncrementBitmap
  imports FileGeometry
begin

text \<open>
  The received-chunk bitmap of an increment as the set of chunks it stands for: marking adds one
  element, the counter is the size of the set, and the buffer is complete exactly when every
  chunk is in it.
\<close>

definition ib_has :: "bytes \<Rightarrow> nat \<Rightarrow> bool" where
  "ib_has bm j \<longleftrightarrow> j div 8 < length bm \<and> bit (bm ! (j div 8)) (j mod 8)"

text \<open>The buffer of an increment of \<open>n\<close> chunks of \<open>c\<close> bytes.\<close>

definition ib_ok :: "nat \<Rightarrow> nat \<Rightarrow> IncrementBuffer \<Rightarrow> bool" where
  "ib_ok n c b \<longleftrightarrow> length (ib_data b) = n * c \<and> length (ib_received_bitmap b) = (n + 7) div 8
     \<and> unat (ib_chunks_expected b) = n
     \<and> unat (ib_chunks_received b) = card {j. j < n \<and> ib_has (ib_received_bitmap b) j}"

lemma bit_mask_bit: "k < 8 \<Longrightarrow> (w AND push_bit k 1 \<noteq> (0 :: u8)) = bit w k"
  by (metis and_exp_eq_0_iff_not_bit push_bit_of_1)

lemma is_chunk_received_iff: "ib_is_chunk_received c b \<longleftrightarrow> ib_has (ib_received_bitmap b) (unat c)"
  using bit_mask_bit [of "unat c mod 8"]
  by (auto simp: ib_is_chunk_received_def ib_has_def ib_bit_mask_def Let_def)

lemma ib_has_mark:
  assumes "k div 8 < length bm"
  shows "ib_has (bm[k div 8 := bm ! (k div 8) OR push_bit (k mod 8) 1]) j \<longleftrightarrow> ib_has bm j \<or> j = k"
proof -
  have "bit (push_bit (k mod 8) 1 :: u8) (j mod 8) \<longleftrightarrow> j mod 8 = k mod 8"
    by (auto simp: bit_simps)
  moreover have "j = k \<longleftrightarrow> j div 8 = k div 8 \<and> j mod 8 = k mod 8"
    by (metis div_mult_mod_eq)
  ultimately show ?thesis using assms by (auto simp: ib_has_def nth_list_update bit_or_iff)
qed

lemma byte_index_bound: "j < n \<Longrightarrow> j div 8 < (n + 7) div (8 :: nat)"
  by linarith

lemma mark_chunk_received_bitmap:
  assumes "unat c < n" and "ib_ok n k b"
  shows "ib_has (ib_received_bitmap (ib_mark_chunk_received c b)) j \<longleftrightarrow> ib_has (ib_received_bitmap b) j \<or> j = unat c"
proof -
  have l: "unat c div 8 < length (ib_received_bitmap b)"
    using assms byte_index_bound by (simp add: ib_ok_def)
  show ?thesis
    using ib_has_mark [OF l, of j] l bit_mask_bit [of "unat c mod 8" "ib_received_bitmap b ! (unat c div 8)"]
    by (auto simp: ib_mark_chunk_received_def Let_def ib_bit_mask_def ib_has_def)
qed

lemma ib_ok_card_le: "ib_ok n k b \<Longrightarrow> unat (ib_chunks_received b) \<le> n"
proof -
  assume "ib_ok n k b"
  moreover have "card {j. j < n \<and> ib_has (ib_received_bitmap b) j} \<le> card {..<n}"
    by (rule card_mono) auto
  ultimately show ?thesis by (simp add: ib_ok_def)
qed

lemma is_complete_iff:
  assumes "ib_ok n k b"
  shows "ib_is_complete b \<longleftrightarrow> (\<forall>j < n. ib_has (ib_received_bitmap b) j)"
proof -
  let ?S = "{j. j < n \<and> ib_has (ib_received_bitmap b) j}"
  have "ib_is_complete b \<longleftrightarrow> unat (ib_chunks_received b) = unat (ib_chunks_expected b)"
    by (auto simp: ib_is_complete_def intro: unsigned_word_eqI)
  also have "\<dots> \<longleftrightarrow> card ?S = card {..<n}" using assms by (simp add: ib_ok_def)
  also have "\<dots> \<longleftrightarrow> ?S = {..<n}"
  proof
    assume "card ?S = card {..<n}"
    then show "?S = {..<n}" by (intro card_subset_eq) auto
  qed simp
  finally show ?thesis by auto
qed

lemma ib_ok_reset:
  assumes "unat n * c < 2 ^ 32" and "unat sz = unat n * c"
  shows "ib_ok (unat n) c (ib_reset n sz)"
proof -
  have "{j. j < unat n \<and> ib_has (replicate ((unat n + 7) div 8) 0) j} = {}"
    by (auto simp: ib_has_def)
  then show ?thesis by (simp add: ib_ok_def ib_reset_def assms)
qed

lemma ib_has_reset: "\<not> ib_has (ib_received_bitmap (ib_reset n sz)) j"
  by (auto simp: ib_has_def ib_reset_def)

text \<open>Storing the bytes of a new chunk and marking it keeps the buffer well-formed.\<close>

lemma ib_ok_mark:
  assumes "ib_ok n k b" and "unat c < n" and "\<not> ib_has (ib_received_bitmap b) (unat c)"
    and "length d = n * k" and "n < 65536"
  shows "ib_ok n k (ib_mark_chunk_received c (b\<lparr>ib_data := d\<rparr>))"
proof -
  let ?b = "b\<lparr>ib_data := d\<rparr>"
  let ?S = "{j. j < n \<and> ib_has (ib_received_bitmap b) j}"
  have b: "ib_ok n k ?b" using assms(1,4) by (simp add: ib_ok_def)
  have l: "unat c div 8 < length (ib_received_bitmap b)"
    using assms byte_index_bound by (simp add: ib_ok_def)
  have m: "ib_mark_chunk_received c ?b = ?b\<lparr>ib_received_bitmap := (ib_received_bitmap b)[unat c div 8 :=
        ib_received_bitmap b ! (unat c div 8) OR ib_bit_mask c], ib_chunks_received := ib_chunks_received b + 1\<rparr>"
    using l assms(3) bit_mask_bit [of "unat c mod 8" "ib_received_bitmap b ! (unat c div 8)"]
    by (auto simp: ib_mark_chunk_received_def ib_has_def ib_bit_mask_def Let_def)
  have S: "{j. j < n \<and> ib_has (ib_received_bitmap (ib_mark_chunk_received c ?b)) j} = insert (unat c) ?S"
    using mark_chunk_received_bitmap [OF assms(2) b] assms(2) by auto
  have fin: "finite ?S" by simp
  have "card (insert (unat c) ?S) = card ?S + 1"
    using card_insert_disjoint [OF fin, of "unat c"] assms(3) by simp
  moreover have "card (insert (unat c) ?S) \<le> card {..<n}"
    by (rule card_mono) (use assms(2) in auto)
  moreover have "unat (ib_chunks_received b) = card ?S" using assms(1) by (simp add: ib_ok_def)
  ultimately have "unat (ib_chunks_received b + 1) = card (insert (unat c) ?S)"
    using assms(5) unat_add_small [of "ib_chunks_received b" 1] by simp
  then show ?thesis using b S unfolding ib_ok_def by (simp add: m)
qed

end
