(* ===== verification/FileReceiverProps.thy ===== *)
theory FileReceiverProps
  imports IncrementBitmap
begin

text \<open>
  Correctness of the file receiver. First what its index computations are in a well-formed
  transfer, then the invariant every public operation keeps, then what reaches the action handler.
  Handlers enter through two interfaces: \<open>bounded_handler\<close> (the sizes it accepts can be counted)
  and \<open>file_sink\<close> (it stores what it is handed).
\<close>

section \<open>Indices of a well-formed transfer\<close>

lemma geometry_okD:
  assumes "fr_geometry_ok s"
  shows "0 < unat (fr_file_size s)" "0 < unat (fr_chunk_payload_size s)" "0 < unat (fr_chunks_per_increment s)"
    "unat (fr_total_chunks s) = ceil_div (unat (fr_file_size s)) (unat (fr_chunk_payload_size s))"
    "unat (fr_total_increments s) = ceil_div (unat (fr_total_chunks s)) (unat (fr_chunks_per_increment s))"
    "(unat (fr_total_increments s) - 1) * unat (fr_chunks_per_increment s) + unat (fr_chunks_in_last_increment s)
      = unat (fr_total_chunks s)"
    "0 < unat (fr_chunks_in_last_increment s)"
    "unat (fr_chunks_in_last_increment s) \<le> unat (fr_chunks_per_increment s)"
    "unat (fr_chunks_per_increment s) * unat (fr_chunk_payload_size s) \<le> max (unat (fr_chunk_payload_size s)) 8192"
    "0 < unat (fr_total_increments s)" "0 < unat (fr_total_chunks s)"
proof -
  let ?F = "unat (fr_file_size s)" and ?c = "unat (fr_chunk_payload_size s)" and ?k = "unat (fr_chunks_per_increment s)"
    and ?T = "unat (fr_total_chunks s)" and ?N = "unat (fr_total_increments s)" and ?L = "unat (fr_chunks_in_last_increment s)"
  show F: "0 < ?F" and c: "0 < ?c" and k: "0 < ?k" and T: "?T = ceil_div ?F ?c" and N: "?N = ceil_div ?T ?k"
    and "(?N - 1) * ?k + ?L = ?T" and "0 < ?L" and "?L \<le> ?k" and "?k * ?c \<le> max ?c 8192"
    using assms unfolding fr_geometry_ok_def Let_def by blast+
  show Tpos: "0 < ?T" unfolding T by (rule ceil_div_pos [OF c F])
  show "0 < ?N" unfolding N by (rule ceil_div_pos [OF k Tpos])
qed

lemma unat_chunks_in_increment:
  "unat (fr_chunks_in_increment i s) =
    (if unat (fr_total_increments s) \<le> unat i + 1 then unat (fr_chunks_in_last_increment s)
     else unat (fr_chunks_per_increment s))"
proof -
  have "unat i + 1 < 4294967296" using unat_u16_bound [of i] by linarith
  then have "unat (ucast i + 1 :: u32) = unat i + 1" by (subst unat_add_small) simp_all
  then show ?thesis by (simp add: fr_chunks_in_increment_def word_le_nat_alt)
qed

abbreviation fr_n :: "'h fr \<Rightarrow> nat" where
  "fr_n s \<equiv> unat (fr_chunks_in_increment (fr_current_increment s) s)"

text \<open>The number of the first chunk of the current increment.\<close>

definition fr_base :: "'h fr \<Rightarrow> nat" where
  "fr_base s = unat (fr_current_increment s) * unat (fr_chunks_per_increment s)"

lemma increment_bounds:
  assumes g: "fr_geometry_ok s" and i: "unat (fr_current_increment s) < unat (fr_total_increments s)"
  shows "0 < fr_n s" "fr_n s \<le> unat (fr_chunks_per_increment s)" "fr_base s + fr_n s \<le> unat (fr_total_chunks s)"
    "unat (fr_current_increment s) + 1 = unat (fr_total_increments s) \<Longrightarrow> fr_base s + fr_n s = unat (fr_total_chunks s)"
    "unat (fr_current_increment s) + 1 < unat (fr_total_increments s) \<Longrightarrow> fr_n s = unat (fr_chunks_per_increment s)"
proof -
  let ?i = "unat (fr_current_increment s)" and ?N = "unat (fr_total_increments s)"
    and ?k = "unat (fr_chunks_per_increment s)" and ?L = "unat (fr_chunks_in_last_increment s)"
    and ?T = "unat (fr_total_chunks s)"
  note d = geometry_okD [OF g]
  show "0 < fr_n s" "fr_n s \<le> ?k" using d(3,7,8) by (simp_all add: unat_chunks_in_increment)
  show last: "fr_base s + fr_n s = ?T" if "?i + 1 = ?N"
  proof -
    have "?N - 1 = ?i" using that by simp
    then show ?thesis using d(6) that by (simp add: fr_base_def unat_chunks_in_increment)
  qed
  show mid: "fr_n s = ?k" if "?i + 1 < ?N" using that by (simp add: unat_chunks_in_increment)
  show "fr_base s + fr_n s \<le> ?T"
  proof (cases "?i + 1 = ?N")
    case False
    with i have less: "?i + 1 < ?N" by simp
    then have "(?i + 1) * ?k \<le> (?N - 1) * ?k" by (intro mult_le_mono1) simp
    with d(6) mid [OF less] show ?thesis by (simp add: fr_base_def add_mult_distrib)
  qed (use last in simp)
qed

lemma unat_expected_chunk_len:
  assumes g: "fr_geometry_ok s" and q: "unat q < unat (fr_total_chunks s)"
  shows "unat (fr_expected_chunk_len q s) = chunk_len (unat (fr_file_size s)) (unat (fr_chunk_payload_size s)) (unat q)"
proof -
  let ?F = "unat (fr_file_size s)" and ?c = "unat (fr_chunk_payload_size s)"
  note d = geometry_okD [OF g]
  have less: "unat q * ?c < ?F" using q d(4) less_ceil_div_iff [OF d(2)] by simp
  then have "unat q * ?c < 2 ^ LENGTH(64)"
    by (rule less_trans) (rule less_trans [OF unat_u32_bound], simp)
  then have off: "unat (ucast q * ucast (fr_chunk_payload_size s) :: u64) = unat q * ?c"
    by (subst unat_mult_small) simp_all
  have rem: "unat (ucast (fr_file_size s) - ucast q * ucast (fr_chunk_payload_size s) :: u64) = ?F - unat q * ?c"
    by (subst unat_sub_small) (use off less in simp_all)
  have mn: "unat (min (ucast (fr_file_size s) - ucast q * ucast (fr_chunk_payload_size s))
      (ucast (fr_chunk_payload_size s)) :: u64) = min (?F - unat q * ?c) ?c"
    by (simp add: min_def word_le_nat_alt rem)
  have "min (?F - unat q * ?c) ?c < 4294967296"
    by (rule le_less_trans [OF min.cobounded2]) (rule less_trans [OF unat_u16_bound], simp)
  with mn have "unat (ucast (min (ucast (fr_file_size s) - ucast q * ucast (fr_chunk_payload_size s))
      (ucast (fr_chunk_payload_size s)) :: u64) :: u32) = min (?F - unat q * ?c) ?c"
    by (subst unat_ucast_down64) simp_all
  moreover have "fr_chunk_payload_size s \<noteq> 0" using d(2) by auto
  ultimately show ?thesis
    using off less q
    by (simp add: fr_expected_chunk_len_def Let_def word_le_nat_alt chunk_len_def min.commute)
qed

lemma unat_slice_offset: "unat (fr_slice_offset i s) = unat i * unat (fr_chunk_payload_size s)"
  by (simp add: fr_slice_offset_def unat_mult_u16)

lemma chunk_end_bound:
  "q < ceil_div F c \<Longrightarrow> 0 < c \<Longrightarrow> Suc q < ceil_div F c \<Longrightarrow> chunk_len F c q = c"
  using less_ceil_div_iff [of c "Suc q" F] by (simp add: chunk_len_def)

text \<open>The slice written for chunk \<open>i\<close> of the increment has the length of that chunk of the file.\<close>

lemma unat_slice_len:
  assumes g: "fr_geometry_ok s" and cur: "unat (fr_current_increment s) < unat (fr_total_increments s)"
    and i: "unat i < fr_n s"
  shows "unat (fr_slice_len (fr_chunks_in_increment (fr_current_increment s) s) i s) =
    chunk_len (unat (fr_file_size s)) (unat (fr_chunk_payload_size s)) (fr_base s + unat i)"
proof -
  let ?F = "unat (fr_file_size s)" and ?c = "unat (fr_chunk_payload_size s)" and ?n = "fr_n s"
  let ?q = "fr_base s + unat i"
  note d = geometry_okD [OF g] and b = increment_bounds [OF g cur]
  have q: "?q < ceil_div ?F ?c" using b(3) i d(4) by simp
  show ?thesis
  proof (cases "int (unat i) = int ?n - 1")
    case False
    have "Suc (unat i) \<noteq> ?n"
    proof
      assume "Suc (unat i) = ?n"
      then have "int (unat i) = int ?n - 1" by linarith
      with False show False by contradiction
    qed
    with i have "Suc ?q < ceil_div ?F ?c" using b(3) d(4) by linarith
    then have "chunk_len ?F ?c ?q = ?c" using chunk_end_bound [OF q d(2)] by simp
    with False show ?thesis by (simp add: fr_slice_len_def)
  next
    case True
    let ?done = "ucast (fr_current_increment s) * ucast (fr_chunks_per_increment s)
      * ucast (fr_chunk_payload_size s) + ucast (fr_slice_offset i s) :: u64"
    have less: "?q * ?c < ?F" using q less_ceil_div_iff [OF d(2)] by simp
    have small: "x \<le> ?F \<Longrightarrow> x + ?c < 18446744073709551616" for x
      using unat_u32_bound [of "fr_file_size s"] unat_u16_bound [of "fr_chunk_payload_size s"] by linarith
    have dist: "?q * ?c = fr_base s * ?c + unat i * ?c" by (rule add_mult_distrib)
    then have s1: "fr_base s * ?c < ?F" using less by simp
    have "fr_base s \<le> fr_base s * ?c" using d(2) by simp
    then have s0: "fr_base s < 18446744073709551616"
      using s1 unat_u32_bound [of "fr_file_size s"] by linarith
    have p1: "unat (ucast (fr_current_increment s) * ucast (fr_chunks_per_increment s) :: u64) = fr_base s"
      using s0 by (subst unat_mult_small) (simp_all add: fr_base_def)
    have p2: "unat (ucast (fr_current_increment s) * ucast (fr_chunks_per_increment s)
        * ucast (fr_chunk_payload_size s) :: u64) = fr_base s * ?c"
      using small [of "fr_base s * ?c"] s1 by (subst unat_mult_small) (simp_all add: p1)
    have dn: "unat ?done = ?q * ?c"
      using small [of "?q * ?c"] less dist by (subst unat_add_small) (simp_all add: p2 unat_slice_offset)
    have sum: "unat (?done + ucast (fr_chunk_payload_size s)) = ?q * ?c + ?c"
      using small [of "?q * ?c"] less by (subst unat_add_small) (simp_all add: dn)
    have rem: "unat (ucast (fr_file_size s) - ?done) = ?F - ?q * ?c"
      by (subst unat_sub_small) (use dn less in simp_all)
    have lt: "ucast (fr_file_size s) < ?done + ucast (fr_chunk_payload_size s) \<longleftrightarrow> ?F < ?q * ?c + ?c"
      by (simp add: word_less_nat_alt sum)
    show ?thesis
    proof (cases "?F < ?q * ?c + ?c")
      case fits: True
      have "unat (ucast (ucast (fr_file_size s) - ?done) :: u32) = ?F - ?q * ?c"
        by (subst unat_ucast_down64) (simp_all only: rem, rule le_less_trans [OF diff_le_self unat_u32_bound])
      with True fits lt less show ?thesis
        by (simp add: fr_slice_len_def Let_def chunk_len_def min_def)
    next
      case False
      with True lt show ?thesis by (simp add: fr_slice_len_def Let_def chunk_len_def min_def)
    qed
  qed
qed

lemma slice_not_stops:
  assumes g: "fr_geometry_ok s" and cur: "unat (fr_current_increment s) < unat (fr_total_increments s)"
    and i: "unat i < fr_n s" and buf: "length (ib_data (fr_increment_buf s)) = fr_n s * unat (fr_chunk_payload_size s)"
  shows "\<not> fr_slice_stops (fr_chunks_in_increment (fr_current_increment s) s) i s"
proof -
  let ?F = "unat (fr_file_size s)" and ?c = "unat (fr_chunk_payload_size s)"
  let ?len = "fr_slice_len (fr_chunks_in_increment (fr_current_increment s) s) i s"
  note d = geometry_okD [OF g] and b = increment_bounds [OF g cur]
  have len: "unat ?len = chunk_len ?F ?c (fr_base s + unat i)" by (rule unat_slice_len [OF g cur i])
  have "fr_base s + unat i < ceil_div ?F ?c" using b(3) i d(4) by simp
  then have pos: "0 < unat ?len" using len chunk_len_pos [OF d(2)] by simp
  have "unat ?len \<le> ?c" by (simp add: len chunk_len_def)
  moreover have "unat i * ?c + ?c \<le> fr_n s * ?c" using mult_le_mono1 [of "Suc (unat i)" "fr_n s" ?c] i by simp
  moreover have "fr_n s * ?c \<le> 65535 * 65535"
    using unat_u16_bound [of "fr_chunks_in_increment (fr_current_increment s) s"]
      unat_u16_bound [of "fr_chunk_payload_size s"] by (intro mult_le_mono) linarith+
  ultimately have "unat (fr_slice_offset i s + ?len) \<le> fr_n s * ?c"
    by (subst unat_add_small) (simp_all add: unat_slice_offset)
  moreover have "?len \<noteq> 0" using pos by auto
  ultimately show ?thesis using buf by (simp add: fr_slice_stops_def)
qed

section \<open>The invariant\<close>

definition fr_transfer_ok :: "'h fr \<Rightarrow> bool" where
  "fr_transfer_ok s \<longleftrightarrow> fr_geometry_ok s \<and> unat (fr_current_increment s) < unat (fr_total_increments s)
     \<and> fr_active_handler s \<noteq> None \<and> \<not> fr_in_complete_phase s"

definition fr_ok :: "'h fr \<Rightarrow> bool" where
  "fr_ok s \<longleftrightarrow>
     (case fr_state s of
        FR_IDLE \<Rightarrow> fr_active_handler s = None \<and> \<not> fr_in_complete_phase s
      | FR_RECEIVING \<Rightarrow> fr_transfer_ok s \<and> \<not> fr_increment_written s \<and> fr_retransmit_round s \<le> ESPNOW_MAX_RETRANSMIT_ROUNDS
          \<and> ib_ok (fr_n s) (unat (fr_chunk_payload_size s)) (fr_increment_buf s)
      | FR_WAITING_END \<Rightarrow> fr_transfer_ok s \<and> unat (fr_current_increment s) + 1 = unat (fr_total_increments s)
          \<and> fr_increment_written s
      | FR_VERIFYING \<Rightarrow> fr_active_handler s \<noteq> None \<and> fr_in_complete_phase s \<and> fr_complete_result s = ESPNOW_FILE_COMPLETE_SUCCESS
          \<and> 0 < fr_complete_ack_remaining s \<and> fr_complete_ack_remaining s \<le> kCompleteAckRetries
      | _ \<Rightarrow> False)"

text \<open>Fields the invariant does not read.\<close>

lemma chunks_in_increment_update [simp]:
  "fr_chunks_in_increment i (fr_sent_update f s) = fr_chunks_in_increment i s"
  "fr_chunks_in_increment i (fr_objects_update g s) = fr_chunks_in_increment i s"
  "fr_chunks_in_increment i (fr_last_activity_ms_update t s) = fr_chunks_in_increment i s"
  "fr_chunks_in_increment i (fr_state_update st s) = fr_chunks_in_increment i s"
  "fr_chunks_in_increment i (fr_increment_written_update w s) = fr_chunks_in_increment i s"
  "fr_chunks_in_increment i (fr_retransmit_round_update r s) = fr_chunks_in_increment i s"
  "fr_chunks_in_increment i (fr_increment_buf_update b s) = fr_chunks_in_increment i s"
  "fr_chunks_in_increment i (fr_announce_tx_counter_update u s) = fr_chunks_in_increment i s"
  "fr_chunks_in_increment i (fr_last_blast_complete_tx_counter_update u s) = fr_chunks_in_increment i s"
  "fr_chunks_in_increment i (fr_ota_enabled_update v s) = fr_chunks_in_increment i s"
  "fr_chunks_in_increment i (fr_send_ack_fn_update sf s) = fr_chunks_in_increment i s"
  "fr_chunks_in_increment i (fr_handlers_update hs s) = fr_chunks_in_increment i s"
  "fr_chunks_in_increment i (fr_local_mac_update lm s) = fr_chunks_in_increment i s"
  "fr_chunks_in_increment i (fr_deep_sleep_active_update v s) = fr_chunks_in_increment i s"
  "fr_chunks_in_increment i (fr_max_chunk_size_update m s) = fr_chunks_in_increment i s"
  "fr_chunks_in_increment i (fr_restart_pending_update v s) = fr_chunks_in_increment i s"
  "fr_chunks_in_increment i (fr_restart_due_ms_update t s) = fr_chunks_in_increment i s"
  "fr_chunks_in_increment i (fr_restarts_update n s) = fr_chunks_in_increment i s"
  "fr_chunks_in_increment i (fr_current_increment_update c s) = fr_chunks_in_increment i s"
  by (simp_all add: fr_chunks_in_increment_def)

lemma geometry_ok_update [simp]:
  "fr_geometry_ok (fr_sent_update f s) = fr_geometry_ok s"
  "fr_geometry_ok (fr_objects_update g s) = fr_geometry_ok s"
  "fr_geometry_ok (fr_last_activity_ms_update t s) = fr_geometry_ok s"
  "fr_geometry_ok (fr_state_update st s) = fr_geometry_ok s"
  "fr_geometry_ok (fr_increment_written_update w s) = fr_geometry_ok s"
  "fr_geometry_ok (fr_retransmit_round_update r s) = fr_geometry_ok s"
  "fr_geometry_ok (fr_increment_buf_update b s) = fr_geometry_ok s"
  "fr_geometry_ok (fr_announce_tx_counter_update u s) = fr_geometry_ok s"
  "fr_geometry_ok (fr_last_blast_complete_tx_counter_update u s) = fr_geometry_ok s"
  "fr_geometry_ok (fr_ota_enabled_update v s) = fr_geometry_ok s"
  "fr_geometry_ok (fr_send_ack_fn_update sf s) = fr_geometry_ok s"
  "fr_geometry_ok (fr_handlers_update hs s) = fr_geometry_ok s"
  "fr_geometry_ok (fr_local_mac_update lm s) = fr_geometry_ok s"
  "fr_geometry_ok (fr_deep_sleep_active_update v s) = fr_geometry_ok s"
  "fr_geometry_ok (fr_max_chunk_size_update m s) = fr_geometry_ok s"
  "fr_geometry_ok (fr_restart_pending_update v s) = fr_geometry_ok s"
  "fr_geometry_ok (fr_restart_due_ms_update t s) = fr_geometry_ok s"
  "fr_geometry_ok (fr_restarts_update n s) = fr_geometry_ok s"
  "fr_geometry_ok (fr_current_increment_update c s) = fr_geometry_ok s"
  by (simp_all add: fr_geometry_ok_def)

lemmas fr_ok_defs = fr_ok_def fr_transfer_ok_def

lemma fr_ok_update [simp]:
  "fr_ok (fr_sent_update f s) = fr_ok s"
  "fr_ok (fr_objects_update g s) = fr_ok s"
  "fr_ok (fr_last_activity_ms_update t s) = fr_ok s"
  "fr_ok (fr_announce_tx_counter_update u s) = fr_ok s"
  "fr_ok (fr_last_blast_complete_tx_counter_update u s) = fr_ok s"
  "fr_ok (fr_ota_enabled_update v s) = fr_ok s"
  "fr_ok (fr_send_ack_fn_update sf s) = fr_ok s"
  "fr_ok (fr_handlers_update hs s) = fr_ok s"
  "fr_ok (fr_local_mac_update lm s) = fr_ok s"
  "fr_ok (fr_deep_sleep_active_update v s) = fr_ok s"
  "fr_ok (fr_max_chunk_size_update m s) = fr_ok s"
  "fr_ok (fr_restart_pending_update v s) = fr_ok s"
  "fr_ok (fr_restart_due_ms_update t s) = fr_ok s"
  "fr_ok (fr_restarts_update n s) = fr_ok s"
  by (simp_all add: fr_ok_defs split: fr_state_t.split)

lemma fr_ok_reset [simp]: "fr_ok (fr_reset s)"
  by (simp add: fr_ok_def fr_reset_def)

lemma fr_reset_fields [simp]:
  "fr_state (fr_reset s) = FR_IDLE" "fr_active_handler (fr_reset s) = None" "\<not> fr_in_complete_phase (fr_reset s)"
  "fr_objects (fr_reset s) = fr_objects s" "fr_sent (fr_reset s) = fr_sent s"
  by (simp_all add: fr_reset_def)

lemma send_ack_fst: "\<exists>xs. fst (fr_send_ack r t s) = s\<lparr>fr_sent := xs\<rparr>"
proof (cases "fr_send_ack_fn s")
  case None
  then have "fst (fr_send_ack r t s) = s\<lparr>fr_sent := fr_sent s\<rparr>" by (simp add: fr_send_ack_def)
  then show ?thesis ..
qed (auto simp: fr_send_ack_def Let_def)

lemmas fr_sends = fr_send_ack_accept_def fr_send_ack_reject_def fr_send_gaps_ack_def
  fr_send_ack_complete_def fr_send_ack_abort_def

lemma send_ackE:
  assumes "fr_send_ack r t s = (s', ok)"
  obtains xs where "s' = s\<lparr>fr_sent := xs\<rparr>"
  using send_ack_fst [of r t s] assms by auto

lemma fr_ok_send_ack [simp]: "fr_ok (fst (fr_send_ack r t s)) = fr_ok s"
  using send_ack_fst [of r t s] by auto

lemma fr_ok_call_on_abort [simp]: "fr_ok (fr_call_on_abort H p r s) = fr_ok s"
  by (simp add: fr_call_on_abort_def)

lemma fr_ok_abort [simp]: "fr_ok (fr_abort H r n s)"
  by (simp add: fr_abort_def Let_def)

section \<open>Every operation keeps the invariant\<close>

text \<open>Chunks: the state is only changed when the chunk belongs to the current increment and is new.\<close>

lemma file_data_mod_chunk:
  assumes g: "fr_geometry_ok s" and cur: "unat (fr_current_increment s) < unat (fr_total_increments s)"
    and q: "fr_base s \<le> unat q" "unat q < fr_base s + fr_n s"
  shows "unat (ucast ((q :: u32) mod ucast (fr_chunks_per_increment s)) :: u16) = unat q - fr_base s"
proof -
  let ?k = "unat (fr_chunks_per_increment s)"
  note d = geometry_okD [OF g] and b = increment_bounds [OF g cur]
  obtain j where j: "unat q = fr_base s + j" "j < fr_n s"
    using q by (metis add_diff_inverse_nat less_diff_conv2 add.commute not_le)
  have "j < ?k" using j b(2) by simp
  then have "unat q mod ?k = j" by (simp add: j fr_base_def)
  then have m: "unat (q mod ucast (fr_chunks_per_increment s)) = j" by (simp add: unat_mod)
  have "j < 65536" using \<open>j < ?k\<close> unat_u16_bound [of "fr_chunks_per_increment s"] by linarith
  then show ?thesis using unat_ucast_down [of "q mod ucast (fr_chunks_per_increment s)"] m j by simp
qed

lemma unat_inc_start:
  "unat (ucast (fr_current_increment s) * ucast (fr_chunks_per_increment s) :: u32) = fr_base s"
  by (simp add: unat_mult_u16 fr_base_def)

lemma unat_inc_end:
  assumes g: "fr_geometry_ok s" and cur: "unat (fr_current_increment s) < unat (fr_total_increments s)"
  shows "unat (min (ucast (fr_current_increment s) * ucast (fr_chunks_per_increment s)
      + ucast (fr_chunks_in_increment (fr_current_increment s) s)) (fr_total_chunks s)) = fr_base s + fr_n s"
proof -
  note b = increment_bounds [OF g cur]
  have "fr_base s + fr_n s < 2 ^ 32"
    by (rule le_less_trans [OF b(3)]) simp
  then have "unat (ucast (fr_current_increment s) * ucast (fr_chunks_per_increment s)
      + ucast (fr_chunks_in_increment (fr_current_increment s) s) :: u32) = fr_base s + fr_n s"
    by (subst unat_add_small) (simp_all add: unat_inc_start)
  with b(3) show ?thesis by (simp add: min_def word_le_nat_alt)
qed

text \<open>What a stored chunk does to the buffer.\<close>

definition store_chunk :: "nat \<Rightarrow> bytes \<Rightarrow> bytes \<Rightarrow> bytes" where
  "store_chunk offset data buf = take offset buf @ data @ drop (offset + length data) buf"

lemma length_store_chunk:
  "offset + length data \<le> length buf \<Longrightarrow> length (store_chunk offset data buf) = length buf"
  by (simp add: store_chunk_def)

text \<open>The behaviour of a data packet in a well-formed transfer, with the index arithmetic resolved.\<close>

lemma handle_file_data_cases:
  assumes ok: "fr_transfer_ok s" and st: "fr_state s = FR_RECEIVING" and wr: "\<not> fr_increment_written s"
    and buf: "ib_ok (fr_n s) (unat (fr_chunk_payload_size s)) (fr_increment_buf s)"
    and dec: "c_dec espnow_file_data_header_codec payload = Some header"
  defines "q \<equiv> unat (fdh_sequence header)" and "data \<equiv> drop 4 payload"
  defines "j \<equiv> q - fr_base s" and "c \<equiv> unat (fr_chunk_payload_size s)"
  shows "fr_handle_file_data now payload s =
    (if \<not> (fr_base s \<le> q \<and> q < fr_base s + fr_n s) \<or> length data \<noteq> chunk_len (unat (fr_file_size s)) c q then (s, False)
     else if ib_has (ib_received_bitmap (fr_increment_buf s)) j then (s\<lparr>fr_last_activity_ms := now\<rparr>, True)
     else (s\<lparr>fr_last_activity_ms := now, fr_increment_buf := ib_mark_chunk_received (of_nat j)
              ((fr_increment_buf s)\<lparr>ib_data := store_chunk (j * c) data (ib_data (fr_increment_buf s))\<rparr>)\<rparr>, True))"
proof -
  have g: "fr_geometry_ok s" and cur: "unat (fr_current_increment s) < unat (fr_total_increments s)"
    and act: "fr_active_handler s \<noteq> None" using ok by (simp_all add: fr_transfer_ok_def)
  note d = geometry_okD [OF g] and b = increment_bounds [OF g cur]
  let ?sq = "fdh_sequence header"
  let ?start = "ucast (fr_current_increment s) * ucast (fr_chunks_per_increment s) :: u32"
  let ?stop = "min (?start + ucast (fr_chunks_in_increment (fr_current_increment s) s)) (fr_total_chunks s)"
  let ?ch = "ucast (?sq mod ucast (fr_chunks_per_increment s)) :: u16"
  have rng: "?sq < ?start \<longleftrightarrow> q < fr_base s" "?stop \<le> ?sq \<longleftrightarrow> fr_base s + fr_n s \<le> q"
    by (simp_all only: word_less_nat_alt word_le_nat_alt unat_inc_start unat_inc_end [OF g cur] q_def)
  show ?thesis
  proof (cases "fr_base s \<le> q \<and> q < fr_base s + fr_n s")
    case False
    then have "?sq < ?start \<or> ?stop \<le> ?sq" by (auto simp only: rng not_le)
    with False show ?thesis using dec st wr act
      by (simp add: fr_handle_file_data_def Let_def del: not_le)
  next
    case in_rng: True
    then have qT: "q < unat (fr_total_chunks s)" using b(3) by simp
    then have nT: "\<not> fr_total_chunks s \<le> ?sq" by (simp add: word_le_nat_alt q_def)
    have nr: "\<not> (?sq < ?start \<or> ?stop \<le> ?sq)" using in_rng by (simp only: rng) auto
    have el: "unat (fr_expected_chunk_len ?sq s) = chunk_len (unat (fr_file_size s)) c q"
      unfolding q_def c_def by (rule unat_expected_chunk_len [OF g]) (use qT in \<open>simp add: q_def\<close>)
    have elpos: "0 < chunk_len (unat (fr_file_size s)) c q"
      unfolding c_def by (rule chunk_len_pos [OF d(2)]) (use qT d(4) in simp)
    have ch: "unat ?ch = j" unfolding j_def q_def
      by (rule file_data_mod_chunk [OF g cur]) (use in_rng in \<open>simp_all add: q_def\<close>)
    have jn: "j < fr_n s" unfolding j_def using in_rng by linarith
    have chw: "?ch = of_nat j" by (metis ch of_nat_unat ucast_id)
    have off: "unat (ucast ?ch * ucast (fr_chunk_payload_size s) :: u32) = j * c"
      by (simp only: unat_mult_u16 ch c_def)
    have "chunk_len (unat (fr_file_size s)) c q \<le> c" by (simp add: chunk_len_def)
    moreover have "j * c + c \<le> fr_n s * c" using mult_le_mono1 [of "Suc j" "fr_n s" c] jn by simp
    moreover have "length (ib_data (fr_increment_buf s)) = fr_n s * c" using buf by (simp add: ib_ok_def c_def)
    ultimately have fit: "\<not> length (ib_data (fr_increment_buf s)) < j * c + chunk_len (unat (fr_file_size s)) c q"
      by linarith
    show ?thesis
      using dec st act in_rng nT nr el elpos ch off fit
      by (auto simp: fr_handle_file_data_def Let_def is_chunk_received_iff chw store_chunk_def data_def)
  qed
qed

lemma fr_okD:
  assumes "fr_ok s"
  shows "fr_state s = FR_RECEIVING \<Longrightarrow> fr_transfer_ok s \<and> \<not> fr_increment_written s
      \<and> fr_retransmit_round s \<le> 10 \<and> ib_ok (fr_n s) (unat (fr_chunk_payload_size s)) (fr_increment_buf s)"
    and "fr_state s = FR_WAITING_END \<Longrightarrow> fr_transfer_ok s \<and> fr_increment_written s
      \<and> unat (fr_current_increment s) + 1 = unat (fr_total_increments s)"
    and "fr_in_complete_phase s \<longleftrightarrow> fr_state s = FR_VERIFYING"
    and "fr_active_handler s = None \<longleftrightarrow> fr_state s = FR_IDLE"
    and "fr_state s \<in> {FR_IDLE, FR_RECEIVING, FR_WAITING_END, FR_VERIFYING}"
  using assms by (auto simp: fr_ok_defs split: fr_state_t.splits)

text \<open>The chunk at index \<open>j\<close> of the buffer lies inside it.\<close>

lemma chunk_fits_buffer:
  assumes "fr_transfer_ok s" and "q < fr_base s + fr_n s" and "fr_base s \<le> q"
    and "length (ib_data (fr_increment_buf s)) = fr_n s * c"
  shows "(q - fr_base s) * c + chunk_len F c q \<le> length (ib_data (fr_increment_buf s))"
proof -
  have "Suc (q - fr_base s) * c \<le> fr_n s * c" by (rule mult_le_mono1) (use assms(2,3) in simp)
  then show ?thesis using assms(4) by (simp add: chunk_len_def)
qed

lemma handle_file_data_idle:
  "fr_state s \<noteq> FR_RECEIVING \<Longrightarrow> fr_handle_file_data now payload s = (s, False)"
  by (simp add: fr_handle_file_data_def split: option.split)

lemma handle_file_data_short:
  "c_dec espnow_file_data_header_codec payload = None \<Longrightarrow> fr_handle_file_data now payload s = (s, False)"
  by (simp add: fr_handle_file_data_def)

lemma fr_ok_handle_file_data:
  assumes ok: "fr_ok s"
  shows "fr_ok (fst (fr_handle_file_data now payload s))"
proof (cases "fr_state s = FR_RECEIVING \<and> c_dec espnow_file_data_header_codec payload \<noteq> None")
  case False
  then show ?thesis using ok handle_file_data_idle [of s now payload] handle_file_data_short [of payload now s] by auto
next
  case True
  then obtain header where st: "fr_state s = FR_RECEIVING" and dec: "c_dec espnow_file_data_header_codec payload = Some header"
    by auto
  note r = fr_okD(1) [OF ok st]
  let ?q = "unat (fdh_sequence header)" and ?c = "unat (fr_chunk_payload_size s)" and ?b = "fr_increment_buf s"
  let ?d = "store_chunk ((?q - fr_base s) * ?c) (drop 4 payload) (ib_data ?b)"
  let ?j = "of_nat (?q - fr_base s) :: u16"
  have keep: "fr_ok (s\<lparr>fr_last_activity_ms := now, fr_increment_buf := ib_mark_chunk_received ?j (?b\<lparr>ib_data := ?d\<rparr>)\<rparr>)"
    if in_rng: "fr_base s \<le> ?q" "?q < fr_base s + fr_n s"
      and len: "length (drop 4 payload) = chunk_len (unat (fr_file_size s)) ?c ?q"
      and new: "\<not> ib_has (ib_received_bitmap ?b) (?q - fr_base s)"
  proof -
    have n: "fr_n s < 65536" by simp
    have "?q - fr_base s < fr_n s" using in_rng by linarith
    then have "?q - fr_base s < 65536" using n by (rule less_trans)
    then have j: "unat ?j = ?q - fr_base s" by (intro unat_of_nat_small) simp
    have bl: "length (ib_data ?b) = fr_n s * ?c" using r by (simp add: ib_ok_def)
    have "length ?d = fr_n s * ?c"
      using length_store_chunk [of "(?q - fr_base s) * ?c" "drop 4 payload" "ib_data ?b"] bl len
        chunk_fits_buffer [of s ?q ?c "unat (fr_file_size s)"] r in_rng by simp
    then have "ib_ok (fr_n s) ?c (ib_mark_chunk_received ?j (?b\<lparr>ib_data := ?d\<rparr>))"
      using r j new \<open>?q - fr_base s < fr_n s\<close> n by (intro ib_ok_mark) simp_all
    then show ?thesis using r st by (simp add: fr_ok_defs)
  qed
  show ?thesis
    using keep ok handle_file_data_cases [OF _ st _ _ dec, of now] r by (auto split: if_splits)
qed

text \<open>The loops that hand slices to the handler change nothing but the handler, unless they abort.\<close>

lemma write_slice_fst: "\<exists>ob. fst (fr_write_slice H p n i s) = s\<lparr>fr_objects := ob\<rparr>"
  by (auto simp: fr_write_slice_def fr_call_on_data_def split: prod.split)

lemma retry_loop_fst:
  assumes "fr_retry_loop H p n js s = (s', ok)"
  shows "if ok then \<exists>ob. s' = s\<lparr>fr_objects := ob\<rparr> else \<exists>t. s' = fr_abort H ESPNOW_FILE_ABORT_FLASH_ERROR True t"
  using assms
proof (induction js arbitrary: s)
  case Nil
  then show ?case by (auto intro!: exI [of _ "fr_objects s"])
next
  case (Cons j js)
  show ?case
  proof (cases "fr_slice_stops n (of_nat j) s")
    case True
    with Cons.prems show ?thesis by (auto intro!: exI [of _ "fr_objects s"])
  next
    case False
    obtain s1 resp where w: "fr_write_slice H p n (of_nat j) s = (s1, resp)" by fastforce
    obtain o1 where s1: "s1 = s\<lparr>fr_objects := o1\<rparr>" using write_slice_fst [of H p n "of_nat j" s] w by auto
    show ?thesis
    proof (cases "cr_accepted resp")
      case True
      then have "fr_retry_loop H p n js s1 = (s', ok)" using Cons.prems False w by simp
      from Cons.IH [OF this] show ?thesis by (auto simp: s1 split: if_splits)
    next
      case refused: False
      with Cons.prems False w show ?thesis by auto
    qed
  qed
qed

lemma write_loop_fst:
  assumes "fr_write_loop H p n is s = (s', ok)"
  shows "if ok then \<exists>ob. s' = s\<lparr>fr_objects := ob\<rparr> else \<exists>t. s' = fr_abort H ESPNOW_FILE_ABORT_FLASH_ERROR True t"
  using assms
proof (induction "is" arbitrary: s)
  case Nil
  then show ?case by (auto intro!: exI [of _ "fr_objects s"])
next
  case (Cons i "is")
  show ?case
  proof (cases "fr_slice_stops n (of_nat i) s")
    case True
    with Cons.prems show ?thesis by (auto intro!: exI [of _ "fr_objects s"])
  next
    case False
    obtain s1 resp where w: "fr_write_slice H p n (of_nat i) s = (s1, resp)" by fastforce
    obtain o1 where s1: "s1 = s\<lparr>fr_objects := o1\<rparr>" using write_slice_fst [of H p n "of_nat i" s] w by auto
    show ?thesis
    proof (cases "cr_accepted resp")
      case True
      then have "fr_write_loop H p n is s1 = (s', ok)" using Cons.prems False w by simp
      from Cons.IH [OF this] show ?thesis by (auto simp: s1 split: if_splits)
    next
      case refused: False
      with Cons.prems False w have "fr_retry_loop H p n [0..<unat n] s1 = (s', ok)" by simp
      from retry_loop_fst [OF this] show ?thesis by (auto simp: s1 split: if_splits)
    qed
  qed
qed

lemma ib_ok_reset_increment:
  "ib_ok (unat n) (unat (c :: u16)) (ib_reset n (ucast n * ucast c))"
proof -
  have "unat n * unat c \<le> 65535 * 65535"
    using unat_u16_bound [of n] unat_u16_bound [of c] by (intro mult_le_mono) linarith+
  then show ?thesis by (intro ib_ok_reset) (simp_all add: unat_mult_u16)
qed

lemma last_increment_test:
  "(ucast (fr_total_increments s) :: u32) \<le> ucast (fr_current_increment s) + 1 \<longleftrightarrow>
    unat (fr_total_increments s) \<le> unat (fr_current_increment s) + 1"
proof -
  have "unat (fr_current_increment s) + 1 < 4294967296" using unat_u16_bound [of "fr_current_increment s"] by linarith
  then have "unat (ucast (fr_current_increment s) + 1 :: u32) = unat (fr_current_increment s) + 1"
    by (subst unat_add_small) simp_all
  then show ?thesis by (simp add: word_le_nat_alt)
qed

text \<open>What follows a completed write loop: the acknowledgement and the next increment, or the end.\<close>

definition fr_next_increment :: "'h fr \<Rightarrow> 'h fr" where
  "fr_next_increment s =
     (let s = s\<lparr>fr_current_increment := fr_current_increment s + 1, fr_retransmit_round := 0,
                fr_increment_written := False\<rparr>;
          n = fr_chunks_in_increment (fr_current_increment s) s
      in s\<lparr>fr_increment_buf := ib_reset n (ucast n * ucast (fr_chunk_payload_size s)), fr_state := FR_RECEIVING\<rparr>)"

lemma write_increment_cases:
  assumes "fr_active_handler s = Some p" and "ib_data (fr_increment_buf s) \<noteq> []"
    and "fr_write_loop H p (fr_chunks_in_increment (fr_current_increment s) s) [0..<fr_n s] s = (s1, ok)"
  shows "fr_write_increment_to_flash H s =
    (if \<not> ok then (s1, False)
     else if unat (fr_total_increments s1) \<le> unat (fr_current_increment s1) + 1
     then fr_send_gaps_ack [] (s1\<lparr>fr_increment_written := True, fr_state := FR_WAITING_END\<rparr>)
     else case fr_send_gaps_ack [] (s1\<lparr>fr_increment_written := True\<rparr>) of (s2, ack_ok) \<Rightarrow> (fr_next_increment s2, ack_ok))"
  using assms last_increment_test [of "s1\<lparr>fr_increment_written := True\<rparr>"]
  by (simp add: fr_write_increment_to_flash_def fr_next_increment_def Let_def cong: if_cong)

lemma unat_next_increment:
  "unat (fr_current_increment s) + 1 < unat (fr_total_increments s) \<Longrightarrow>
    unat (fr_current_increment s + 1) = unat (fr_current_increment s) + 1"
proof -
  assume "unat (fr_current_increment s) + 1 < unat (fr_total_increments s)"
  then have "unat (fr_current_increment s) + 1 < 65536" using unat_u16_bound by (rule less_trans)
  then show ?thesis by (subst unat_add_small) simp_all
qed

lemma fr_ok_next_increment:
  assumes "fr_transfer_ok s" and "unat (fr_current_increment s) + 1 < unat (fr_total_increments s)"
  shows "fr_ok (fr_next_increment s)"
  using assms ib_ok_reset_increment [of "fr_chunks_in_increment (fr_current_increment s + 1) s" "fr_chunk_payload_size s"]
  by (simp add: fr_ok_defs fr_next_increment_def Let_def unat_next_increment)

lemma transfer_ok_update [simp]:
  "fr_transfer_ok (fr_sent_update f s) = fr_transfer_ok s"
  "fr_transfer_ok (fr_objects_update g s) = fr_transfer_ok s"
  "fr_transfer_ok (fr_state_update st s) = fr_transfer_ok s"
  "fr_transfer_ok (fr_increment_written_update w s) = fr_transfer_ok s"
  "fr_transfer_ok (fr_retransmit_round_update r s) = fr_transfer_ok s"
  "fr_transfer_ok (fr_last_activity_ms_update t s) = fr_transfer_ok s"
  by (simp_all add: fr_transfer_ok_def)

lemma fr_ok_write_increment:
  assumes tr: "fr_transfer_ok s" and buf: "ib_ok (fr_n s) (unat (fr_chunk_payload_size s)) (fr_increment_buf s)"
  shows "fr_ok (fst (fr_write_increment_to_flash H s))"
proof -
  obtain p where p: "fr_active_handler s = Some p" using tr by (auto simp: fr_transfer_ok_def)
  have g: "fr_geometry_ok s" and cur: "unat (fr_current_increment s) < unat (fr_total_increments s)"
    using tr by (simp_all add: fr_transfer_ok_def)
  have "0 < fr_n s * unat (fr_chunk_payload_size s)"
    using increment_bounds(1) [OF g cur] geometry_okD(2) [OF g] by simp
  then have ne: "ib_data (fr_increment_buf s) \<noteq> []" using buf by (auto simp: ib_ok_def)
  obtain s1 ok where l: "fr_write_loop H p (fr_chunks_in_increment (fr_current_increment s) s) [0..<fr_n s] s = (s1, ok)"
    by fastforce
  note w = write_loop_fst [OF l]
  show ?thesis
  proof (cases ok)
    case False
    then show ?thesis using w write_increment_cases [OF p ne l] by auto
  next
    case True
    then obtain ob where s1: "s1 = s\<lparr>fr_objects := ob\<rparr>" using w by auto
    show ?thesis
    proof (cases "unat (fr_total_increments s) \<le> unat (fr_current_increment s) + 1")
      case last: True
      then have "fr_ok (s1\<lparr>fr_increment_written := True, fr_state := FR_WAITING_END\<rparr>)"
        using tr cur by (simp add: s1 fr_ok_def)
      then show ?thesis using write_increment_cases [OF p ne l] True last by (simp add: s1 fr_sends)
    next
      case False
      obtain s2 ack where a: "fr_send_gaps_ack [] (s1\<lparr>fr_increment_written := True\<rparr>) = (s2, ack)" by fastforce
      then obtain xs where s2: "s2 = s1\<lparr>fr_increment_written := True, fr_sent := xs\<rparr>"
        unfolding fr_sends by (rule send_ackE) auto
      have "fr_ok (fr_next_increment s2)"
        by (rule fr_ok_next_increment) (use tr False in \<open>simp_all add: s2 s1\<close>)
      then show ?thesis using write_increment_cases [OF p ne l] True False a by (simp add: s1)
    qed
  qed
qed

lemma fr_ok_handle_blast_complete:
  assumes ok: "fr_ok s"
  shows "fr_ok (fst (fr_handle_blast_complete H now bc s))"
proof (cases "fr_state s = FR_RECEIVING")
  case False
  then show ?thesis using ok by (simp add: fr_handle_blast_complete_def)
next
  case True
  note r = fr_okD(1) [OF ok True]
  let ?s = "s\<lparr>fr_last_activity_ms := now\<rparr>"
  have w: "fr_ok (fst (fr_write_increment_to_flash H (?s\<lparr>fr_state := FR_WRITING\<rparr>)))"
    by (rule fr_ok_write_increment) (use r in simp_all)
  have gaps: "fr_ok (fst (case fr_send_gaps_ack bm (?s\<lparr>fr_retransmit_round := fr_retransmit_round s + 1\<rparr>) of
      (s, ack_ok) \<Rightarrow> (s\<lparr>fr_state := FR_RECEIVING\<rparr>, ack_ok)))" if "\<not> 10 \<le> fr_retransmit_round s" for bm
  proof -
    obtain s2 ack where a: "fr_send_gaps_ack bm (?s\<lparr>fr_retransmit_round := fr_retransmit_round s + 1\<rparr>) = (s2, ack)"
      by fastforce
    then obtain xs where s2: "s2 = ?s\<lparr>fr_retransmit_round := fr_retransmit_round s + 1, fr_sent := xs\<rparr>"
      unfolding fr_sends by (rule send_ackE) auto
    have "unat (fr_retransmit_round s) < 10" using that by (simp add: word_le_nat_alt)
    then have "unat (fr_retransmit_round s + 1) \<le> 10" by (subst unat_add_small) simp_all
    then have "fr_retransmit_round s + 1 \<le> 10" by (simp add: word_le_nat_alt)
    then show ?thesis using r a by (simp add: s2 fr_ok_def)
  qed
  show ?thesis
    using ok True r w gaps
    by (auto simp: fr_handle_blast_complete_def Let_def fr_sends cong: if_cong)
qed

lemma fr_ok_handle_end:
  assumes "fr_ok s"
  shows "fr_ok (fst (fr_handle_end H now e s))"
proof (cases "fr_state s = FR_WAITING_END")
  case False
  then show ?thesis using assms by (auto simp: fr_handle_end_def split: option.split)
next
  case True
  then show ?thesis using fr_okD(2) [OF assms True] assms
    by (auto simp: fr_handle_end_def Let_def fr_sends fr_ok_def fr_transfer_ok_def
        split: option.split prod.split)
qed

lemma fr_ok_handle_abort: "fr_ok s \<Longrightarrow> fr_ok (fst (fr_handle_abort H a s))"
  by (auto simp: fr_handle_abort_def split: option.split)

lemma fr_ok_start_transfer:
  assumes g: "fr_geometry_ok s" and p: "fr_active_handler s = Some p" and ph: "\<not> fr_in_complete_phase s"
  shows "fr_ok (fst (fr_start_transfer H p act s))"
proof -
  let ?s = "s\<lparr>fr_current_increment := 0, fr_retransmit_round := 0, fr_increment_written := False\<rparr>"
  let ?n = "fr_chunks_in_increment 0 ?s"
  let ?t = "?s\<lparr>fr_increment_buf := ib_reset ?n (ucast ?n * ucast (fr_chunk_payload_size ?s)), fr_state := FR_ANNOUNCED\<rparr>"
  obtain s2 ack where a: "fr_send_ack_accept (fr_chunk_payload_size ?t) (fr_action ?t) (fr_buffer_size_kb ?t) ?t = (s2, ack)"
    by fastforce
  then obtain xs where s2: "s2 = ?t\<lparr>fr_sent := xs\<rparr>"
    unfolding fr_sends by (rule send_ackE) auto
  note d = geometry_okD [OF g]
  have "fr_ok (s2\<lparr>fr_state := FR_RECEIVING\<rparr>)"
    using g p ph d(10) ib_ok_reset_increment [of "fr_chunks_in_increment 0 s" "fr_chunk_payload_size s"]
    by (simp add: s2 fr_ok_defs)
  then show ?thesis using a
    by (auto simp: fr_start_transfer_def Let_def fr_sends split: prod.splits)
qed

text \<open>
  The interface the receiver needs of an action handler to count a transfer: the sizes it accepts
  give at most 65535 increments.
\<close>

locale bounded_handler =
  fixes H :: "'h action_handler"
  assumes announce_fits:
    "ah_on_announce H sz md5 chunk action fid kb0 h = (h', r, kb) \<Longrightarrow> ar_accepted r \<Longrightarrow>
      0 < unat sz \<Longrightarrow> ar_negotiated_chunk_size r \<noteq> 0 \<Longrightarrow>
      geometry_fits (unat sz) (unat (ar_negotiated_chunk_size r)) (unat kb)"
begin

lemma install_announce_ok:
  assumes "ah_on_announce H (fann_file_size a) md5 chunk action fid kb0 h = (h', r, kb)" and "ar_accepted r"
    and "fann_file_size a \<noteq> 0" and "ar_negotiated_chunk_size r \<noteq> 0"
  shows "fr_geometry_ok (fr_install_announce p a r kb s)"
proof -
  have pos: "0 < unat (fann_file_size a)" "0 < unat (ar_negotiated_chunk_size r)"
    using assms(3,4) by (simp_all add: unat_gt_0)
  show ?thesis
    unfolding fr_install_announce_def
    by (rule compute_increment_geometry_ok)
      (use pos announce_fits [OF assms(1,2) pos(1) assms(4)] in simp_all)
qed

lemma ok_handle_announce:
  assumes "fr_ok s"
  shows "fr_ok (fst (fr_handle_announce H a s))"
proof -
  have start: "fr_ok (fst (fr_start_transfer H p act (fr_install_announce p a r kb (t\<lparr>fr_objects := ob\<rparr>))))"
    if "ah_on_announce H (fann_file_size a) md5 chunk action fid kb0 h = (h', r, kb)" "ar_accepted r"
      "fann_file_size a \<noteq> 0" "ar_negotiated_chunk_size r \<noteq> 0" "\<not> fr_in_complete_phase t"
    for p act r kb t ob md5 chunk action fid kb0 h h'
    by (rule fr_ok_start_transfer [OF install_announce_ok [OF that(1-4)]])
      (use that(5) in \<open>simp_all add: fr_install_announce_def fr_compute_increment_geometry_def Let_def\<close>)
  have idle: "\<not> fr_in_complete_phase s" if "fr_state s = FR_IDLE"
    using fr_okD(3) [OF assms] that by simp
  show ?thesis
    unfolding fr_handle_announce_def
    using assms start idle
    by (simp add: fr_sends Let_def split: option.split prod.split)
qed

lemma ok_handle_file_transfer:
  assumes "fr_ok s"
  shows "fr_ok (fst (fr_handle_file_transfer H now payload s))"
proof -
  let ?s = "s\<lparr>fr_last_activity_ms := now\<rparr>"
  have s: "fr_ok ?s" using assms by simp
  show ?thesis
    using assms s ok_handle_announce [OF s] fr_ok_handle_end [OF s] fr_ok_handle_abort [OF s]
      fr_ok_handle_blast_complete [OF s]
    unfolding fr_handle_file_transfer_def Let_def
    by (simp split: option.split)
qed

end

lemma fr_ok_loop:
  assumes "fr_ok s"
  shows "fr_ok (fr_loop H now s)"
proof -
  define t where "t = fr_perform_restart_if_due now s"
  have t: "fr_ok t" using assms by (simp add: t_def fr_perform_restart_if_due_def)
  have st: "fr_state t = fr_state s" by (simp add: t_def fr_perform_restart_if_due_def)
  show ?thesis
  proof (cases "fr_in_complete_phase t")
    case False
    then show ?thesis using t by (simp add: fr_loop_def Let_def t_def [symmetric])
  next
    case True
    then have v: "fr_active_handler t \<noteq> None" "fr_state t = FR_VERIFYING" "fr_complete_result t = 0"
      "0 < fr_complete_ack_remaining t" "fr_complete_ack_remaining t \<le> 5"
      using t fr_okD(3) [OF t] by (auto simp: fr_ok_def)
    define u where "u = (if kCompleteAckIntervalMs \<le> now - fr_next_complete_ack_ms t
                  then (fst (fr_send_ack_complete (fr_complete_action t) (fr_complete_result t) t))
                         \<lparr>fr_complete_ack_remaining := fr_complete_ack_remaining t - 1,
                          fr_next_complete_ack_ms := now\<rparr>
                  else t)"
    have loop: "fr_loop H now s = (if sint (fr_complete_ack_remaining u) \<le> 0
        then (fr_schedule_restart now (fr_reset u))\<lparr>fr_in_complete_phase := False\<rparr> else u)"
      using True by (simp add: fr_loop_def Let_def t_def [symmetric] u_def)
    have "fr_ok ((fr_schedule_restart now (fr_reset u))\<lparr>fr_in_complete_phase := False\<rparr>)"
      by (simp add: fr_schedule_restart_def fr_ok_def fr_reset_def)
    moreover have "fr_ok u" if "0 < sint (fr_complete_ack_remaining u)"
    proof (cases "kCompleteAckIntervalMs \<le> now - fr_next_complete_ack_ms t")
      case False
      then show ?thesis using t by (simp add: u_def)
    next
      case due: True
      obtain xs where xs: "fst (fr_send_ack_complete (fr_complete_action t) (fr_complete_result t) t) = t\<lparr>fr_sent := xs\<rparr>"
        unfolding fr_sends using send_ack_fst by blast
      have rem: "fr_complete_ack_remaining u = fr_complete_ack_remaining t - 1" using due by (simp add: u_def)
      have le: "fr_complete_ack_remaining t - 1 \<le> 5"
        using v(4,5) by (simp add: word_le_nat_alt word_less_nat_alt unat_sub_if_size)
      have "fr_complete_ack_remaining t - 1 \<noteq> 0" using that rem by auto
      then have "0 < fr_complete_ack_remaining t - 1" by (simp add: word_gt_0)
      then show ?thesis using due xs v le fr_okD(3) [OF t] by (simp add: u_def fr_ok_def)
    qed
    ultimately show ?thesis unfolding loop by (auto simp: not_le)
  qed
qed

context bounded_handler
begin

lemma ok_step: "fr_ok s \<Longrightarrow> fr_ok (fr_step H set_max ev s)"
  by (cases ev)
    (simp_all add: ok_handle_file_transfer fr_ok_handle_file_data fr_ok_loop fr_set_announce_tx_counter_def
      fr_set_blast_complete_tx_counter_def fr_set_max_chunk_size_def fr_register_handler_def fr_set_local_mac_def
      split: option.split)

lemma ok_init: "fr_ok (FileReceiver_init h)"
  by (simp add: fr_ok_def FileReceiver_init_def)

lemma ok_run: "fr_ok s \<Longrightarrow> fr_ok (fr_run H set_max evs s)"
  by (induction evs arbitrary: s) (simp_all add: fr_run_def ok_step)

end

end
