(* ===== verification/FileDelivery.thy ===== *)
theory FileDelivery
  imports FileReceiverProps
begin

text \<open>
  What the handler gets. A sender is honest when it announces a file of the right size and every data
  packet carries the bytes of the chunk it names; packets may be lost, repeated and reordered at
  will. Then whenever the receiver waits for the end of the transfer, the handler holds exactly the
  file. The handler enters through the interface \<open>file_sink\<close>.
\<close>

section \<open>The interface\<close>

text \<open>
  \<open>contents\<close> is what a handler has been given, \<open>ready\<close> that it is in the middle of a transfer. A
  handler takes a piece that continues the img, and starts empty.
\<close>

locale file_sink = bounded_handler H
  for H :: "'h action_handler" +
  fixes set_max :: "u16 \<Rightarrow> 'h \<Rightarrow> 'h"
    and contents :: "'h \<Rightarrow> bytes"
    and ready :: "'h \<Rightarrow> bool"
    and img :: bytes
  assumes sink_announce:
    "ah_on_announce H sz md5 chunk action fid kb0 h = (h', r, kb) \<Longrightarrow> ar_accepted r \<Longrightarrow> unat sz = length img \<Longrightarrow>
      ready h' \<and> contents h' = []"
    and sink_data:
    "ready h \<Longrightarrow> d \<noteq> [] \<Longrightarrow> contents h @ d = take (length (contents h @ d)) img \<Longrightarrow>
      ah_on_data H sq d h = (h', resp) \<Longrightarrow> cr_accepted resp \<and> ready h' \<and> contents h' = contents h @ d"
    and sink_set_max: "ready (set_max m h) = ready h" "contents (set_max m h) = contents h"

section \<open>Honest senders\<close>

definition honest_event :: "bytes \<Rightarrow> 'h fr \<Rightarrow> fr_event \<Rightarrow> bool" where
  "honest_event img s ev \<longleftrightarrow>
     (case ev of
        EvFileData now payload \<Rightarrow>
          (case c_dec espnow_file_data_header_codec payload of
             None \<Rightarrow> True
           | Some h \<Rightarrow> fr_state s = FR_RECEIVING \<longrightarrow>
               drop 4 payload = chunk_of img (unat (fr_chunk_payload_size s)) (unat (fdh_sequence h)))
      | EvFileTransfer now payload \<Rightarrow>
          (case c_dec espnow_file_announce_codec payload of
             None \<Rightarrow> True
           | Some a \<Rightarrow> fann_phase a = ESPNOW_FILE_PHASE_ANNOUNCE \<longrightarrow> unat (fann_file_size a) = length img)
      | _ \<Rightarrow> True)"

fun honest_run :: "'h action_handler \<Rightarrow> (u16 \<Rightarrow> 'h \<Rightarrow> 'h) \<Rightarrow> bytes \<Rightarrow> fr_event list \<Rightarrow> 'h fr \<Rightarrow> bool" where
  "honest_run H set_max img [] s \<longleftrightarrow> True"
| "honest_run H set_max img (ev # evs) s \<longleftrightarrow>
     honest_event img s ev \<and> honest_run H set_max img evs (fr_step H set_max ev s)"

section \<open>The stored chunks are the img's\<close>

definition buffer_matches :: "bytes \<Rightarrow> 'h fr \<Rightarrow> bool" where
  "buffer_matches img s \<longleftrightarrow>
     (\<forall>j < fr_n s. ib_has (ib_received_bitmap (fr_increment_buf s)) j \<longrightarrow>
        take (chunk_len (length img) (unat (fr_chunk_payload_size s)) (fr_base s + j))
             (drop (j * unat (fr_chunk_payload_size s)) (ib_data (fr_increment_buf s)))
          = chunk_of img (unat (fr_chunk_payload_size s)) (fr_base s + j))"

lemma store_chunk_same:
  "offset \<le> length buf \<Longrightarrow> take (length data) (drop offset (store_chunk offset data buf)) = data"
  by (simp add: store_chunk_def)

lemma store_chunk_other:
  assumes "offset + length data \<le> length buf" and "a + len \<le> offset \<or> offset + length data \<le> a"
  shows "take len (drop a (store_chunk offset data buf)) = take len (drop a buf)"
proof (rule nth_equalityI)
  have l: "length (store_chunk offset data buf) = length buf" by (rule length_store_chunk [OF assms(1)])
  show "length (take len (drop a (store_chunk offset data buf))) = length (take len (drop a buf))" by (simp add: l)
  fix i assume "i < length (take len (drop a (store_chunk offset data buf)))"
  then have "i < len \<and> i < length buf - a" by (simp add: l)
  then have i: "i < len" "a + i < length buf" by linarith+
  have "a + i < offset \<or> offset + length data \<le> a + i" using assms(2) i by linarith
  then have "store_chunk offset data buf ! (a + i) = buf ! (a + i)"
    using i(2) assms(1) by (auto simp: store_chunk_def nth_append)
  then show "take len (drop a (store_chunk offset data buf)) ! i = take len (drop a buf) ! i"
    using i by (simp add: l)
qed

lemma take_length_take: "take (length (take m xs)) xs = take m xs"
  by (simp add: min_def)

context file_sink
begin

text \<open>The invariant of a delivery.\<close>

definition delivers :: "'h fr \<Rightarrow> bool" where
  "delivers s \<longleftrightarrow>
     (case fr_state s of
        FR_RECEIVING \<Rightarrow> unat (fr_file_size s) = length img \<and> ready (fr_objects s (the (fr_active_handler s)))
          \<and> contents (fr_objects s (the (fr_active_handler s))) = take (fr_base s * unat (fr_chunk_payload_size s)) img
          \<and> buffer_matches img s
      | FR_WAITING_END \<Rightarrow> contents (fr_objects s (the (fr_active_handler s))) = img
      | _ \<Rightarrow> True)"

text \<open>The write loop hands over the rest of a complete increment, chunk by chunk.\<close>

lemma write_loop_delivers:
  assumes tr: "fr_transfer_ok s" and p: "fr_active_handler s = Some p"
    and F: "unat (fr_file_size s) = length img"
    and buf: "ib_ok (fr_n s) (unat (fr_chunk_payload_size s)) (fr_increment_buf s)"
    and full: "\<forall>j < fr_n s. ib_has (ib_received_bitmap (fr_increment_buf s)) j" and m: "buffer_matches img s"
    and i: "i \<le> fr_n s" and rd: "ready (fr_objects s p)"
    and con: "contents (fr_objects s p) = take ((fr_base s + i) * unat (fr_chunk_payload_size s)) img"
  shows "\<exists>ob. fr_write_loop H p (fr_chunks_in_increment (fr_current_increment s) s) [i..<fr_n s] s = (s\<lparr>fr_objects := ob\<rparr>, True)
    \<and> ready (ob p) \<and> contents (ob p) = take ((fr_base s + fr_n s) * unat (fr_chunk_payload_size s)) img"
  using assms
proof (induction "fr_n s - i" arbitrary: i s)
  case 0
  then show ?case by (intro exI [of _ "fr_objects s"]) simp
next
  case (Suc d)
  let ?c = "unat (fr_chunk_payload_size s)" and ?n = "fr_n s"
  let ?q = "fr_base s + i"
  note prems = Suc.prems
  have g: "fr_geometry_ok s" and cur: "unat (fr_current_increment s) < unat (fr_total_increments s)"
    using prems(1) by (simp_all add: fr_transfer_ok_def)
  note gd = geometry_okD [OF g] and b = increment_bounds [OF g cur]
  have i_less: "i < ?n" using Suc.hyps(2) by simp
  have "i < 65536" by (rule less_trans [OF i_less]) simp
  then have iw: "unat (of_nat i :: u16) = i" by (intro unat_of_nat_small) simp
  have no_stop: "\<not> fr_slice_stops (fr_chunks_in_increment (fr_current_increment s) s) (of_nat i) s"
    by (rule slice_not_stops [OF g cur]) (use iw i_less prems(4) in \<open>simp_all add: ib_ok_def\<close>)
  have len: "unat (fr_slice_len (fr_chunks_in_increment (fr_current_increment s) s) (of_nat i) s) = chunk_len (length img) ?c ?q"
    using unat_slice_len [OF g cur, of "of_nat i"] iw i_less prems(3) by simp
  have off: "unat (fr_slice_offset (of_nat i) s) = i * ?c" by (simp add: unat_slice_offset iw)
  have slice: "take (chunk_len (length img) ?c ?q) (drop (i * ?c) (ib_data (fr_increment_buf s))) = chunk_of img ?c ?q"
    using prems(5,6) i_less by (simp add: buffer_matches_def)
  obtain h' r where od: "ah_on_data H (ucast (fr_current_increment s) * ucast (fr_chunks_per_increment s) + ucast (of_nat i :: u16))
      (chunk_of img ?c ?q) (fr_objects s p) = (h', r)" by fastforce
  have next_con: "contents (fr_objects s p) @ chunk_of img ?c ?q = take ((fr_base s + Suc i) * ?c) img"
    using prems(9) take_chunks [of ?q ?c img] by simp
  have "?q < ceil_div (length img) ?c" using b(3) i_less gd(4) prems(3) by simp
  then have "0 < length (chunk_of img ?c ?q)" unfolding length_chunk_of by (rule chunk_len_pos [OF gd(2)])
  then have ne: "chunk_of img ?c ?q \<noteq> []" by simp
  have sink: "cr_accepted r \<and> ready h' \<and> contents h' = contents (fr_objects s p) @ chunk_of img ?c ?q"
    by (rule sink_data [OF prems(8) ne _ od]) (simp only: next_con take_length_take)
  let ?s = "s\<lparr>fr_objects := (fr_objects s)(p := h')\<rparr>"
  have w: "fr_write_slice H p (fr_chunks_in_increment (fr_current_increment s) s) (of_nat i) s = (?s, r)"
    using od by (simp add: fr_write_slice_def fr_call_on_data_def len off slice)
  have "\<exists>ob. fr_write_loop H p (fr_chunks_in_increment (fr_current_increment ?s) ?s) [Suc i..<fr_n ?s] ?s = (?s\<lparr>fr_objects := ob\<rparr>, True)
      \<and> ready (ob p) \<and> contents (ob p) = take ((fr_base ?s + fr_n ?s) * unat (fr_chunk_payload_size ?s)) img"
    by (rule Suc.hyps(1)) (use Suc.hyps(2) prems sink next_con i_less in \<open>simp_all add: buffer_matches_def fr_base_def\<close>)
  then show ?case
    using i_less no_stop w sink by (simp add: upt_conv_Cons fr_base_def)
qed

lemma write_increment_delivers:
  assumes tr: "fr_transfer_ok s" and F: "unat (fr_file_size s) = length img"
    and buf: "ib_ok (fr_n s) (unat (fr_chunk_payload_size s)) (fr_increment_buf s)"
    and complete: "ib_is_complete (fr_increment_buf s)" and m: "buffer_matches img s"
    and rd: "ready (fr_objects s (the (fr_active_handler s)))"
    and con: "contents (fr_objects s (the (fr_active_handler s))) = take (fr_base s * unat (fr_chunk_payload_size s)) img"
  shows "delivers (fst (fr_write_increment_to_flash H s))"
proof -
  let ?c = "unat (fr_chunk_payload_size s)"
  obtain p where p: "fr_active_handler s = Some p" using tr by (auto simp: fr_transfer_ok_def)
  have g: "fr_geometry_ok s" and cur: "unat (fr_current_increment s) < unat (fr_total_increments s)"
    using tr by (simp_all add: fr_transfer_ok_def)
  note gd = geometry_okD [OF g] and b = increment_bounds [OF g cur]
  have "0 < fr_n s * ?c" using b(1) gd(2) by simp
  then have ne: "ib_data (fr_increment_buf s) \<noteq> []" using buf by (auto simp: ib_ok_def)
  have full: "\<forall>j < fr_n s. ib_has (ib_received_bitmap (fr_increment_buf s)) j"
    using complete is_complete_iff [OF buf] by simp
  obtain ob where l: "fr_write_loop H p (fr_chunks_in_increment (fr_current_increment s) s) [0..<fr_n s] s = (s\<lparr>fr_objects := ob\<rparr>, True)"
    and rdo: "ready (ob p)" and cono: "contents (ob p) = take ((fr_base s + fr_n s) * ?c) img"
    using write_loop_delivers [OF tr p F buf full m, of 0] rd con p by auto
  note cases = write_increment_cases [OF p ne l]
  show ?thesis
  proof (cases "unat (fr_total_increments s) \<le> unat (fr_current_increment s) + 1")
    case True
    then have "fr_base s + fr_n s = unat (fr_total_chunks s)" using b(4) cur by simp
    then have "length img \<le> (fr_base s + fr_n s) * ?c" using ceil_div_upper [OF gd(2), of "length img"] gd(4) F by simp
    then have con': "contents (ob p) = img" using cono by simp
    obtain s2 ack where a: "fr_send_gaps_ack [] (s\<lparr>fr_objects := ob, fr_increment_written := True, fr_state := FR_WAITING_END\<rparr>) = (s2, ack)"
      by fastforce
    then obtain xs where "s2 = s\<lparr>fr_objects := ob, fr_increment_written := True, fr_state := FR_WAITING_END, fr_sent := xs\<rparr>"
      unfolding fr_sends by (rule send_ackE) auto
    then show ?thesis using cases True a con' p by (simp add: delivers_def)
  next
    case False
    then have less: "unat (fr_current_increment s) + 1 < unat (fr_total_increments s)" by simp
    obtain s2 ack where a: "fr_send_gaps_ack [] (s\<lparr>fr_objects := ob, fr_increment_written := True\<rparr>) = (s2, ack)"
      by fastforce
    then obtain xs where s2: "s2 = s\<lparr>fr_objects := ob, fr_increment_written := True, fr_sent := xs\<rparr>"
      unfolding fr_sends by (rule send_ackE) auto
    have "fr_base (fr_next_increment s2) = fr_base s + fr_n s"
      using unat_next_increment [OF less] b(5) [OF less]
      by (simp add: fr_base_def fr_next_increment_def Let_def s2)
    then have "delivers (fr_next_increment s2)"
      using F rdo cono p ib_has_reset
      by (simp add: delivers_def buffer_matches_def fr_next_increment_def Let_def s2)
    then show ?thesis using cases False a by simp
  qed
qed

lemma delivers_handle_file_data:
  assumes ok: "fr_ok s" and dl: "delivers s" and hon: "honest_event img s (EvFileData now payload)"
  shows "delivers (fst (fr_handle_file_data now payload s))"
proof (cases "fr_state s = FR_RECEIVING \<and> c_dec espnow_file_data_header_codec payload \<noteq> None")
  case False
  then show ?thesis using dl handle_file_data_idle [of s now payload] handle_file_data_short [of payload now s] by auto
next
  case True
  then obtain header where st: "fr_state s = FR_RECEIVING" and dec: "c_dec espnow_file_data_header_codec payload = Some header"
    by auto
  note r = fr_okD(1) [OF ok st]
  let ?c = "unat (fr_chunk_payload_size s)" and ?b = "fr_increment_buf s"
  define q where "q = unat (fdh_sequence header)"
  define j where "j = q - fr_base s"
  have data: "drop 4 payload = chunk_of img ?c q" using hon dec st by (simp add: honest_event_def q_def)
  have F: "unat (fr_file_size s) = length img" using dl st by (simp add: delivers_def)
  let ?d = "store_chunk (j * ?c) (drop 4 payload) (ib_data ?b)"
  let ?s = "s\<lparr>fr_last_activity_ms := now, fr_increment_buf := ib_mark_chunk_received (of_nat j) (?b\<lparr>ib_data := ?d\<rparr>)\<rparr>"
  have keep: "delivers ?s"
    if in_rng: "fr_base s \<le> q" "q < fr_base s + fr_n s" and len: "length (drop 4 payload) = chunk_len (length img) ?c q"
  proof -
    have jn: "j < fr_n s" unfolding j_def using in_rng by linarith
    then have "j < 65536" by (rule less_trans) simp
    then have jw: "unat (of_nat j :: u16) = j" by (intro unat_of_nat_small) simp
    have bl: "length (ib_data ?b) = fr_n s * ?c" using r by (simp add: ib_ok_def)
    have fit: "j * ?c + chunk_len (length img) ?c q \<le> length (ib_data ?b)"
      unfolding j_def by (rule chunk_fits_buffer) (use r in_rng bl in simp_all)
    have data_upd: "ib_data (ib_mark_chunk_received (of_nat j) (?b\<lparr>ib_data := ?d\<rparr>)) = ?d"
      by (simp add: ib_mark_chunk_received_def Let_def)
    have "ib_ok (fr_n s) ?c (?b\<lparr>ib_data := ?d\<rparr>)"
      using r bl length_store_chunk [of "j * ?c" "drop 4 payload" "ib_data ?b"] fit len by (simp add: ib_ok_def)
    then have bm: "ib_has (ib_received_bitmap (ib_mark_chunk_received (of_nat j) (?b\<lparr>ib_data := ?d\<rparr>))) l
        \<longleftrightarrow> ib_has (ib_received_bitmap ?b) l \<or> l = j" for l
      using mark_chunk_received_bitmap [of "of_nat j :: u16" "fr_n s" ?c "?b\<lparr>ib_data := ?d\<rparr>" l] jw jn by simp
    have piece: "take (chunk_len (length img) ?c (fr_base s + l)) (drop (l * ?c) ?d) = chunk_of img ?c (fr_base s + l)"
      if l: "l < fr_n s" "ib_has (ib_received_bitmap ?b) l \<or> l = j" for l
    proof (cases "l = j")
      case True
      have "fr_base s + j = q" using in_rng by (simp add: j_def)
      moreover have "j * ?c \<le> length (ib_data ?b)" using fit by simp
      ultimately show ?thesis using store_chunk_same [of "j * ?c" "ib_data ?b" "drop 4 payload"] len data True by simp
    next
      case False
      have cl: "chunk_len (length img) ?c x \<le> ?c" for x by (simp add: chunk_len_def)
      have "l * ?c + ?c \<le> j * ?c \<or> j * ?c + ?c \<le> l * ?c"
        using False mult_le_mono1 [of "Suc l" j ?c] mult_le_mono1 [of "Suc j" l ?c] by (cases "l < j") auto
      then have apart: "l * ?c + chunk_len (length img) ?c (fr_base s + l) \<le> j * ?c
          \<or> j * ?c + length (drop 4 payload) \<le> l * ?c"
        using cl [of "fr_base s + l"] cl [of q] len by linarith
      have "take (chunk_len (length img) ?c (fr_base s + l)) (drop (l * ?c) (ib_data ?b)) = chunk_of img ?c (fr_base s + l)"
        using dl st l False by (simp add: delivers_def buffer_matches_def)
      then show ?thesis using store_chunk_other [OF _ apart] fit len by simp
    qed
    have "buffer_matches img ?s"
      using piece bm by (simp add: buffer_matches_def data_upd fr_base_def)
    then show ?thesis using dl st F by (simp add: delivers_def fr_base_def)
  qed
  have act: "delivers (s\<lparr>fr_last_activity_ms := now\<rparr>)"
    using dl st by (simp add: delivers_def buffer_matches_def fr_base_def)
  show ?thesis
    using keep act dl handle_file_data_cases [OF _ st _ _ dec, of now] r F
    by (auto simp: q_def [symmetric] j_def [symmetric] split: if_splits)
qed

lemma delivers_idle: "fr_state s = FR_IDLE \<Longrightarrow> delivers s"
  by (simp add: delivers_def)

lemma delivers_verifying: "fr_state s = FR_VERIFYING \<Longrightarrow> delivers s"
  by (simp add: delivers_def)

lemma delivers_update [simp]:
  "delivers (fr_sent_update f s) = delivers s"
  "delivers (fr_last_activity_ms_update t s) = delivers s"
  "delivers (fr_announce_tx_counter_update u s) = delivers s"
  "delivers (fr_last_blast_complete_tx_counter_update u s) = delivers s"
  "delivers (fr_ota_enabled_update v s) = delivers s"
  "delivers (fr_send_ack_fn_update sf s) = delivers s"
  "delivers (fr_handlers_update hs s) = delivers s"
  "delivers (fr_local_mac_update lm s) = delivers s"
  "delivers (fr_deep_sleep_active_update v s) = delivers s"
  "delivers (fr_restart_pending_update v s) = delivers s"
  "delivers (fr_restarts_update n s) = delivers s"
  by (simp_all add: delivers_def buffer_matches_def fr_base_def split: fr_state_t.split)

lemma delivers_abort [simp]: "delivers (fr_abort H r n s)"
  by (rule delivers_idle) (simp add: fr_abort_def Let_def)

lemma delivers_send [simp]: "delivers (fst (fr_send_ack r t s)) = delivers s"
  using send_ack_fst [of r t s] by auto

lemma delivers_blast_complete:
  assumes ok: "fr_ok s" and dl: "delivers s"
  shows "delivers (fst (fr_handle_blast_complete H now bc s))"
proof (cases "fr_state s = FR_RECEIVING")
  case False
  then show ?thesis using dl by (simp add: fr_handle_blast_complete_def)
next
  case True
  note r = fr_okD(1) [OF ok True]
  let ?s = "s\<lparr>fr_last_activity_ms := now\<rparr>"
  have w: "delivers (fst (fr_write_increment_to_flash H (?s\<lparr>fr_state := FR_WRITING\<rparr>)))"
    if "ib_is_complete (fr_increment_buf s)"
    by (rule write_increment_delivers)
      (use r dl True that in \<open>simp_all add: delivers_def buffer_matches_def fr_base_def\<close>)
  have gaps: "delivers (fst (case fr_send_gaps_ack bm (?s\<lparr>fr_retransmit_round := fr_retransmit_round s + 1\<rparr>) of
      (s, ack_ok) \<Rightarrow> (s\<lparr>fr_state := FR_RECEIVING\<rparr>, ack_ok)))" for bm
  proof -
    obtain s2 ack where a: "fr_send_gaps_ack bm (?s\<lparr>fr_retransmit_round := fr_retransmit_round s + 1\<rparr>) = (s2, ack)"
      by fastforce
    then obtain xs where s2: "s2 = ?s\<lparr>fr_retransmit_round := fr_retransmit_round s + 1, fr_sent := xs\<rparr>"
      unfolding fr_sends by (rule send_ackE) auto
    show ?thesis using dl True a by (simp add: s2 delivers_def buffer_matches_def fr_base_def)
  qed
  show ?thesis
    using True dl w gaps by (auto simp: fr_handle_blast_complete_def Let_def fr_sends cong: if_cong)
qed

lemma delivers_handle_end: "delivers s \<Longrightarrow> delivers (fst (fr_handle_end H now e s))"
  by (auto simp: fr_handle_end_def Let_def delivers_idle delivers_verifying split: option.split prod.split)

lemma delivers_handle_abort: "delivers s \<Longrightarrow> delivers (fst (fr_handle_abort H a s))"
  by (auto simp: fr_handle_abort_def delivers_idle split: option.split)

lemma delivers_start_transfer:
  assumes p: "fr_active_handler s = Some p" and F: "unat (fr_file_size s) = length img"
    and rd: "ready (fr_objects s p)" and con: "contents (fr_objects s p) = []"
    and st: "fr_state s = FR_IDLE"
  shows "delivers (fst (fr_start_transfer H p act s))"
proof -
  let ?s = "s\<lparr>fr_current_increment := 0, fr_retransmit_round := 0, fr_increment_written := False\<rparr>"
  let ?n = "fr_chunks_in_increment 0 ?s"
  let ?t = "?s\<lparr>fr_increment_buf := ib_reset ?n (ucast ?n * ucast (fr_chunk_payload_size ?s)), fr_state := FR_ANNOUNCED\<rparr>"
  obtain s2 ack where a: "fr_send_ack_accept (fr_chunk_payload_size ?t) (fr_action ?t) (fr_buffer_size_kb ?t) ?t = (s2, ack)"
    by fastforce
  then obtain xs where s2: "s2 = ?t\<lparr>fr_sent := xs\<rparr>"
    unfolding fr_sends by (rule send_ackE) auto
  have "delivers (s2\<lparr>fr_state := FR_RECEIVING\<rparr>)"
    using p F rd con by (simp add: s2 delivers_def buffer_matches_def fr_base_def ib_has_reset)
  then show ?thesis using a
    by (auto simp: fr_start_transfer_def Let_def fr_sends delivers_idle split: prod.splits)
qed

lemma install_announce_fields [simp]:
  "fr_active_handler (fr_install_announce p a r kb s) = Some p"
  "fr_file_size (fr_install_announce p a r kb s) = fann_file_size a"
  "fr_objects (fr_install_announce p a r kb s) = fr_objects s"
  "fr_state (fr_install_announce p a r kb s) = fr_state s"
  by (simp_all add: fr_install_announce_def fr_compute_increment_geometry_def Let_def)

lemma delivers_call_on_abort_idle:
  "fr_state s = FR_IDLE \<Longrightarrow> delivers (fr_call_on_abort H p r s)"
  by (rule delivers_idle) (simp add: fr_call_on_abort_def)

lemma delivers_handle_announce:
  assumes ok: "fr_ok s" and dl: "delivers s" and sz: "unat (fann_file_size a) = length img"
  shows "delivers (fst (fr_handle_announce H a s))"
proof (cases "fr_state s = FR_IDLE")
  case False
  then show ?thesis using dl by (simp add: fr_handle_announce_def fr_sends cong: if_cong)
next
  case True
  have start: "delivers (fst (fr_start_transfer H p act (fr_install_announce p a r kb (s\<lparr>fr_objects := (fr_objects s)(p := h')\<rparr>))))"
    if "ah_on_announce H (fann_file_size a) md5 chunk action fid kb0 h = (h', r, kb)" "ar_accepted r"
    for p act r kb md5 chunk action fid kb0 h h'
    by (rule delivers_start_transfer) (use sink_announce [OF that sz] sz True in simp_all)
  have idle: "delivers (s\<lparr>fr_objects := ob\<rparr>)" for ob by (rule delivers_idle) (use True in simp)
  show ?thesis
    unfolding fr_handle_announce_def
    using dl start idle True
    by (simp add: fr_sends Let_def delivers_call_on_abort_idle split: option.split prod.split)
qed

lemma delivers_handle_file_transfer:
  assumes ok: "fr_ok s" and dl: "delivers s" and hon: "honest_event img s (EvFileTransfer now payload)"
  shows "delivers (fst (fr_handle_file_transfer H now payload s))"
proof -
  let ?s = "s\<lparr>fr_last_activity_ms := now\<rparr>"
  have s: "fr_ok ?s" "delivers ?s" using ok dl by simp_all
  have ann: "delivers (fst (fr_handle_announce H a ?s))"
    if "c_dec espnow_file_announce_codec payload = Some a" "payload \<noteq> []" "payload ! 0 = 0" for a
  proof (rule delivers_handle_announce [OF s])
    have "c_enc espnow_file_announce_codec a = take 36 payload"
      using fann.enc_dec [OF that(1)] by simp
    then have "fann_phase a = payload ! 0"
      using that(2) by (cases payload) (simp_all add: espnow_file_announce_codec_def codec_defs)
    then show "unat (fann_file_size a) = length img" using hon that by (simp add: honest_event_def)
  qed
  show ?thesis
    using dl s ann delivers_handle_end [OF s(2)] delivers_handle_abort [OF s(2)] delivers_blast_complete [OF s]
    unfolding fr_handle_file_transfer_def Let_def
    by (simp split: option.split)
qed

lemma delivers_loop:
  assumes "delivers s" and "fr_ok s"
  shows "delivers (fr_loop H now s)"
proof -
  define t where "t = fr_perform_restart_if_due now s"
  have t: "delivers t" "fr_ok t" using assms by (simp_all add: t_def fr_perform_restart_if_due_def)
  show ?thesis
  proof (cases "fr_in_complete_phase t")
    case False
    then show ?thesis using t by (simp add: fr_loop_def Let_def t_def [symmetric])
  next
    case True
    then have v: "fr_state t = FR_VERIFYING" using fr_okD(3) [OF t(2)] by simp
    obtain xs where xs: "fst (fr_send_ack_complete (fr_complete_action t) (fr_complete_result t) t) = t\<lparr>fr_sent := xs\<rparr>"
      unfolding fr_sends using send_ack_fst by blast
    show ?thesis using True v xs
      by (simp add: fr_loop_def Let_def t_def [symmetric] delivers_def fr_schedule_restart_def)
  qed
qed

lemma delivers_step:
  assumes "fr_ok s" and "delivers s" and "honest_event img s ev"
  shows "delivers (fr_step H set_max ev s)"
proof (cases ev)
  case (EvMaxChunk m)
  then show ?thesis using assms(2)
    by (auto simp: fr_set_max_chunk_size_def delivers_def buffer_matches_def fr_base_def sink_set_max
        split: fr_state_t.splits)
qed (use assms in \<open>simp_all add: delivers_handle_file_transfer delivers_handle_file_data delivers_loop
      fr_set_announce_tx_counter_def fr_set_blast_complete_tx_counter_def fr_register_handler_def
      fr_set_local_mac_def split: option.split\<close>)

lemma delivers_run:
  "fr_ok s \<Longrightarrow> delivers s \<Longrightarrow> honest_run H set_max img evs s \<Longrightarrow> delivers (fr_run H set_max evs s)"
  by (induction evs arbitrary: s) (simp_all add: fr_run_def ok_step delivers_step)

text \<open>From a new receiver, whatever happened: when the end is awaited, the handler holds the file.\<close>

lemma delivered:
  assumes "honest_run H set_max img evs (FileReceiver_init h)"
    and "fr_state (fr_run H set_max evs (FileReceiver_init h)) = FR_WAITING_END"
  shows "contents (fr_objects (fr_run H set_max evs (FileReceiver_init h))
      (the (fr_active_handler (fr_run H set_max evs (FileReceiver_init h))))) = img"
proof -
  have "delivers (FileReceiver_init h)" by (rule delivers_idle) (simp add: FileReceiver_init_def)
  then have "delivers (fr_run H set_max evs (FileReceiver_init h))"
    by (rule delivers_run [OF ok_init _ assms(1)])
  with assms(2) show ?thesis by (simp add: delivers_def)
qed

end

end
