(* ===== verification/OtaDelivery.thy ===== *)
theory OtaDelivery
  imports OtaFlash FileDelivery
begin

text \<open>
  The receiver with the flash handler: the handler obeys both interfaces of the receiver, and the two
  together never restart into an image whose digest is not the announced one. The properties of the
  receiving side are stated here, over the code's own handler.
\<close>

section \<open>The flash handler obeys the interfaces\<close>

text \<open>What is relied on of the flash: partitions of at most 128 MB, the largest flash of these chips.\<close>

definition partition_bounded :: "'p ota_platform \<Rightarrow> bool" where
  "partition_bounded P \<longleftrightarrow> (\<forall>p part. esp_ota_get_next_update_partition P p = Some part \<longrightarrow> unat part \<le> 2 ^ 27)"

definition writes_succeed :: "'p ota_platform \<Rightarrow> bool" where
  "writes_succeed P \<longleftrightarrow> (\<forall>h data p. snd (esp_ota_write P h data p))"

lemma heap_kb_8: "ofh_heap_kb n = 8"
  by (auto simp: ofh_heap_kb_def Let_def not_less)

lemma announce_accepted:
  assumes "ofh_on_announce P sz md5 chunk action fid kb0 h = (h', r, kb)" and "ar_accepted r"
  shows "kb = 8 \<and> ar_negotiated_chunk_size r = min chunk (ofh_max_chunk_size h) \<and> ar_negotiated_chunk_size r \<noteq> 0
    \<and> sz \<noteq> 0 \<and> (\<exists>part. esp_ota_get_next_update_partition P (ofh_platform h) = Some part \<and> sz \<le> part)
    \<and> ofh_state h' = OFH_RECEIVING \<and> ofh_file_size h' = sz \<and> ofh_expected_md5 h' = md5
    \<and> ofh_total_written h' = 0 \<and> ofh_md5_data h' = [] \<and> ofh_md5_active h'"
  using assms
  by (auto simp: ofh_on_announce_def ofh_rejected_def ofh_begin_md5_def Let_def heap_kb_8 not_less
      split: if_splits option.splits prod.splits)

lemma geo_cpi_lower:
  assumes "0 < c"
  shows "4096 \<le> geo_cpi c 8 * c"
proof (cases "8192 < c")
  case True
  have "1 * c \<le> geo_cpi c 8 * c" by (rule mult_le_mono1) (simp add: geo_cpi_def)
  with True show ?thesis by linarith
next
  case False
  let ?k = "8192 div c"
  have "8192 = ?k * c + 8192 mod c" by simp
  moreover have "8192 mod c < c" using assms by simp
  moreover have "1 \<le> ?k" using False assms by (simp add: div_greater_zero_iff Suc_le_eq)
  then have "1 * c \<le> ?k * c" by (rule mult_le_mono1)
  ultimately have "4096 \<le> ?k * c" by linarith
  moreover have "geo_cpi c 8 = ?k" using \<open>1 \<le> ?k\<close> by (simp add: geo_cpi_def)
  ultimately show ?thesis by simp
qed

lemma geometry_fits_128MB:
  assumes "0 < F" and "0 < c" and "F \<le> 2 ^ 27"
  shows "geometry_fits F c 8"
proof -
  have k: "0 < geo_cpi c 8" by (rule geo_cpi_bounds(1) [OF assms(2)])
  have fits: "F \<le> 134217728" using assms(3) by simp
  have "65535 * 4096 \<le> 65535 * (geo_cpi c 8 * c)" by (rule mult_le_mono2) (rule geo_cpi_lower [OF assms(2)])
  also have "\<dots> = 65535 * geo_cpi c 8 * c" by (simp only: mult.assoc)
  finally have "\<not> 65535 * geo_cpi c 8 * c < F" using fits by linarith
  then show ?thesis
    unfolding geometry_fits_def
    using less_ceil_div_iff [OF k, of 65535 "ceil_div F c"]
      less_ceil_div_iff [OF assms(2), of "65535 * geo_cpi c 8" F]
    by simp
qed

lemma flash_bounded: "partition_bounded P \<Longrightarrow> bounded_handler (flash_handler md5 P)"
proof unfold_locales
  fix sz md5' chunk action fid kb0 h h' r kb
  assume P: "partition_bounded P"
    and a: "ah_on_announce (flash_handler md5 P) sz md5' chunk action fid kb0 h = (h', r, kb)" "ar_accepted r"
    and pos: "0 < unat sz" "ar_negotiated_chunk_size r \<noteq> 0"
  from a have acc: "ofh_on_announce P sz md5' chunk action fid kb0 h = (h', r, kb)" by (simp add: flash_handler_def)
  note an = announce_accepted [OF acc a(2)]
  then obtain part where "esp_ota_get_next_update_partition P (ofh_platform h) = Some part" "sz \<le> part" by auto
  then have "unat sz \<le> 2 ^ 27" using P by (auto simp: partition_bounded_def word_le_nat_alt intro: le_trans)
  moreover have "0 < unat (ar_negotiated_chunk_size r)" using pos(2) by (simp add: unat_gt_0)
  ultimately show "geometry_fits (unat sz) (unat (ar_negotiated_chunk_size r)) (unat kb)"
    using geometry_fits_128MB pos(1) an by simp
qed

text \<open>In the middle of a transfer of \<open>img\<close>.\<close>

definition ofh_ready :: "bytes \<Rightarrow> 'p ofh \<Rightarrow> bool" where
  "ofh_ready img h \<longleftrightarrow> ofh_state h = OFH_RECEIVING \<and> ofh_md5_active h
     \<and> ofh_total_written h = of_nat (length (ofh_md5_data h)) \<and> length (ofh_md5_data h) \<le> length img"

lemma flash_sink:
  assumes P: "partition_bounded P" and w: "writes_succeed P"
    and img: "hd img = kEspImageMagic" "length img < 2 ^ 32"
  shows "file_sink (flash_handler md5 P) ofh_set_max_chunk_size ofh_md5_data (ofh_ready img) img"
proof (rule file_sink.intro [OF flash_bounded [OF P]], rule file_sink_axioms.intro)
  fix sz md5' chunk action fid kb0 h h' r kb
  assume "ah_on_announce (flash_handler md5 P) sz md5' chunk action fid kb0 h = (h', r, kb)" "ar_accepted r"
  then have "ofh_state h' = OFH_RECEIVING \<and> ofh_total_written h' = 0 \<and> ofh_md5_data h' = [] \<and> ofh_md5_active h'"
    using announce_accepted [of P sz md5' chunk action fid kb0 h h' r kb] by (simp add: flash_handler_def)
  then show "ofh_ready img h' \<and> ofh_md5_data h' = []" by (simp add: ofh_ready_def)
next
  fix h :: "'a ofh" and d sq h' resp
  assume rd: "ofh_ready img h" and d: "d \<noteq> []"
    and pre: "ofh_md5_data h @ d = take (length (ofh_md5_data h @ d)) img"
    and od: "ah_on_data (flash_handler md5 P) sq d h = (h', resp)"
  have len: "length (ofh_md5_data h @ d) \<le> length img" using arg_cong [OF pre, of length] by simp
  have magic: "d ! 0 = kEspImageMagic" if "ofh_total_written h = 0"
  proof -
    have "(of_nat (length (ofh_md5_data h)) = (of_nat 0 :: u32)) = (length (ofh_md5_data h) = 0)"
      by (rule of_nat_word_inj) (use rd img(2) in \<open>simp_all add: ofh_ready_def\<close>)
    then have "ofh_md5_data h = []" using rd that by (simp add: ofh_ready_def)
    with pre d have "d = take (length d) img" by simp
    then have "hd d = hd img" using d by (metis hd_take length_greater_0_conv)
    with d img(1) show ?thesis by (simp add: hd_conv_nth)
  qed
  have "snd (esp_ota_write P (ofh_ota_handle h) d (ofh_platform h))" using w by (simp add: writes_succeed_def)
  then show "cr_accepted resp \<and> ofh_ready img h' \<and> ofh_md5_data h' = ofh_md5_data h @ d"
    using od rd d magic len
    by (auto simp: flash_handler_def ofh_on_data_def ofh_ready_def ofh_update_md5_def Let_def
        split: prod.splits if_splits)
qed (simp_all add: ofh_ready_def ofh_set_max_chunk_size_def)

lemma host_bounded: "partition_bounded host_platform"
  by (simp add: partition_bounded_def host_platform_def)

lemma host_writes: "writes_succeed host_platform"
  by (simp add: writes_succeed_def host_platform_def)

interpretation host: bounded_handler "flash_handler md5 host_platform"
  for md5 by (rule flash_bounded [OF host_bounded])

interpretation host_sink: file_sink "flash_handler md5 host_platform" ofh_set_max_chunk_size ofh_md5_data
    "ofh_ready (kEspImageMagic # take 134217727 rest)" "kEspImageMagic # take 134217727 rest"
  for md5 rest
  by (rule flash_sink [OF host_bounded host_writes]) simp_all

section \<open>No restart into an unverified image\<close>

lemma write_slice_preserves:
  assumes "\<And>sq d h. Q h \<Longrightarrow> Q (fst (ah_on_data H sq d h))" and "Q (fr_objects s p)"
  shows "Q (fr_objects (fst (fr_write_slice H p n i s)) p)"
proof -
  have "fr_objects (fst (fr_call_on_data H p sq d s)) p = fst (ah_on_data H sq d (fr_objects s p))" for sq d
    by (simp add: fr_call_on_data_def split: prod.split)
  then show ?thesis unfolding fr_write_slice_def using assms by simp
qed

lemma retry_loop_preserves:
  assumes "\<And>sq d h. Q h \<Longrightarrow> Q (fst (ah_on_data H sq d h))" and "Q (fr_objects s p)"
    and "fr_retry_loop H p n js s = (s', True)"
  shows "Q (fr_objects s' p)"
  using assms(2,3)
proof (induction js arbitrary: s)
  case (Cons j js)
  show ?case
  proof (cases "fr_slice_stops n (of_nat j) s")
    case True
    with Cons.prems show ?thesis by simp
  next
    case False
    obtain s1 resp where w: "fr_write_slice H p n (of_nat j) s = (s1, resp)" by fastforce
    have Q1: "Q (fr_objects s1 p)"
      using write_slice_preserves [of Q H s p n "of_nat j", OF assms(1) Cons.prems(1)] w by simp
    from Cons.prems(2) False w have "fr_retry_loop H p n js s1 = (s', True)" by (simp split: if_splits)
    with Q1 show ?thesis by (rule Cons.IH)
  qed
qed simp

lemma write_loop_preserves:
  assumes "\<And>sq d h. Q h \<Longrightarrow> Q (fst (ah_on_data H sq d h))" and "Q (fr_objects s p)"
    and "fr_write_loop H p n is s = (s', True)"
  shows "Q (fr_objects s' p)"
  using assms(2,3)
proof (induction "is" arbitrary: s)
  case (Cons i "is")
  show ?case
  proof (cases "fr_slice_stops n (of_nat i) s")
    case True
    with Cons.prems show ?thesis by simp
  next
    case False
    obtain s1 resp where w: "fr_write_slice H p n (of_nat i) s = (s1, resp)" by fastforce
    have Q1: "Q (fr_objects s1 p)"
      using write_slice_preserves [of Q H s p n "of_nat i", OF assms(1) Cons.prems(1)] w by simp
    show ?thesis
    proof (cases "cr_accepted resp")
      case True
      with Cons.prems(2) False w have "fr_write_loop H p n is s1 = (s', True)" by simp
      with Q1 show ?thesis by (rule Cons.IH)
    next
      case refused: False
      from refused Cons.prems(2) False w have "fr_retry_loop H p n [0..<unat n] s1 = (s', True)" by simp
      show ?thesis by (rule retry_loop_preserves [where Q = Q, OF assms(1) Q1 \<open>fr_retry_loop H p n [0..<unat n] s1 = (s', True)\<close>])
    qed
  qed
qed simp

text \<open>A handler in a transfer counts what it digests and holds what was announced.\<close>

definition ofh_counts :: "u32 \<Rightarrow> bytes \<Rightarrow> 'p ofh \<Rightarrow> bool" where
  "ofh_counts F m h \<longleftrightarrow> (ofh_state h = OFH_RECEIVING \<longrightarrow>
     ofh_file_size h = F \<and> ofh_expected_md5 h = m \<and> ofh_total_written h = of_nat (length (ofh_md5_data h)))"

lemma ofh_counts_data: "ofh_counts F m h \<Longrightarrow> ofh_counts F m (fst (ah_on_data (flash_handler md5 P) sq d h))"
  by (auto simp: flash_handler_def ofh_on_data_def ofh_counts_def ofh_update_md5_def Let_def split: prod.split)

lemma on_end_success:
  assumes "ofh_on_end md5 P h = (h', ESPNOW_FILE_COMPLETE_SUCCESS)"
  shows "ofh_state h = OFH_RECEIVING \<and> ofh_total_written h = ofh_file_size h
    \<and> md5 (ofh_md5_data h) = ofh_expected_md5 h \<and> ofh_md5_data h' = ofh_md5_data h \<and> ofh_state h' = OFH_IDLE"
  using assms
  by (auto simp: ofh_on_end_def ofh_finish_md5_def ofh_reset_state_def Let_def split: if_splits prod.splits)

definition verified :: "(bytes \<Rightarrow> bytes) \<Rightarrow> 'p ofh fr \<Rightarrow> bool" where
  "verified md5 s \<longleftrightarrow>
     (case fr_active_handler s of
        None \<Rightarrow> True
      | Some p \<Rightarrow>
          if fr_state s = FR_VERIFYING
          then md5 (ofh_md5_data (fr_objects s p)) = fr_last_announce_md5 s
            \<and> of_nat (length (ofh_md5_data (fr_objects s p))) = fr_file_size s
          else ofh_counts (fr_file_size s) (fr_last_announce_md5 s) (fr_objects s p))"

lemma verified_update [simp]:
  "verified md5 (fr_sent_update f s) = verified md5 s"
  "verified md5 (fr_last_activity_ms_update t s) = verified md5 s"
  "verified md5 (fr_announce_tx_counter_update u s) = verified md5 s"
  "verified md5 (fr_last_blast_complete_tx_counter_update u s) = verified md5 s"
  "verified md5 (fr_ota_enabled_update v s) = verified md5 s"
  "verified md5 (fr_send_ack_fn_update sf s) = verified md5 s"
  "verified md5 (fr_handlers_update hs s) = verified md5 s"
  "verified md5 (fr_local_mac_update lm s) = verified md5 s"
  "verified md5 (fr_deep_sleep_active_update v s) = verified md5 s"
  "verified md5 (fr_restart_pending_update v s) = verified md5 s"
  "verified md5 (fr_restarts_update n s) = verified md5 s"
  "verified md5 (fr_increment_written_update w s) = verified md5 s"
  "verified md5 (fr_retransmit_round_update r s) = verified md5 s"
  "verified md5 (fr_increment_buf_update b s) = verified md5 s"
  "verified md5 (fr_current_increment_update c s) = verified md5 s"
  "verified md5 (fr_complete_ack_remaining_update ca s) = verified md5 s"
  "verified md5 (fr_next_complete_ack_ms_update t s) = verified md5 s"
  by (simp_all add: verified_def split: option.split)

lemma verified_idle: "fr_active_handler s = None \<Longrightarrow> verified md5 s"
  by (simp add: verified_def)

lemma verified_state:
  "verified md5 s \<Longrightarrow> fr_state s \<noteq> FR_VERIFYING \<Longrightarrow> st \<noteq> FR_VERIFYING \<Longrightarrow> verified md5 (s\<lparr>fr_state := st\<rparr>)"
  by (simp add: verified_def split: option.splits)

lemma verified_send [simp]: "verified md5 (fst (fr_send_ack r t s)) = verified md5 s"
  using send_ack_fst [of r t s] by auto

lemma verified_abort [simp]: "verified md5 (fr_abort H r n s)"
  by (rule verified_idle) (simp add: fr_abort_def Let_def)

lemma state_send [simp]: "fr_state (fst (fr_send_ack r t s)) = fr_state s"
  using send_ack_fst [of r t s] by auto

lemma verified_next_increment:
  "verified md5 s \<Longrightarrow> fr_state s \<noteq> FR_VERIFYING \<Longrightarrow> verified md5 (fr_next_increment s)"
  by (simp add: fr_next_increment_def Let_def verified_def split: option.splits)

lemma verified_write_increment:
  assumes v: "verified md5 s" and st: "fr_state s \<noteq> FR_VERIFYING"
  shows "verified md5 (fst (fr_write_increment_to_flash (flash_handler md5 P) s))"
proof (cases "fr_active_handler s = None \<or> ib_data (fr_increment_buf s) = []")
  case True
  then show ?thesis using v by (auto simp: fr_write_increment_to_flash_def split: option.split)
next
  case False
  let ?H = "flash_handler md5 P"
  obtain p where p: "fr_active_handler s = Some p" and ne: "ib_data (fr_increment_buf s) \<noteq> []" using False by auto
  obtain s1 ok where l: "fr_write_loop ?H p (fr_chunks_in_increment (fr_current_increment s) s) [0..<fr_n s] s = (s1, ok)"
    by fastforce
  note w = write_loop_fst [OF l] and c = write_increment_cases [OF p ne l]
  show ?thesis
  proof (cases ok)
    case False
    then show ?thesis using w c by auto
  next
    case True
    then obtain ob where s1: "s1 = s\<lparr>fr_objects := ob\<rparr>" using w by auto
    have l': "fr_write_loop ?H p (fr_chunks_in_increment (fr_current_increment s) s) [0..<fr_n s] s = (s1, True)"
      using l True by simp
    have "ofh_counts (fr_file_size s) (fr_last_announce_md5 s) (fr_objects s1 p)"
      by (rule write_loop_preserves [of "ofh_counts (fr_file_size s) (fr_last_announce_md5 s)" "flash_handler md5 P",
            OF ofh_counts_data _ l'])
        (use v p st in \<open>simp_all add: verified_def\<close>)
    then have v1: "verified md5 s1" using p st by (simp add: verified_def s1)
    have st1: "fr_state s1 \<noteq> FR_VERIFYING" using st by (simp add: s1)
    have "verified md5 (s1\<lparr>fr_increment_written := True, fr_state := FR_WAITING_END\<rparr>)"
      using verified_state [OF _ _ , of md5 "s1\<lparr>fr_increment_written := True\<rparr>" FR_WAITING_END] v1 st1 by simp
    moreover have "verified md5 (fr_next_increment s2)"
      if "fr_send_ack r t (s1\<lparr>fr_increment_written := True\<rparr>) = (s2, a)" for r t s2 a
    proof -
      obtain xs where "s2 = s1\<lparr>fr_increment_written := True, fr_sent := xs\<rparr>"
        using \<open>fr_send_ack r t (s1\<lparr>fr_increment_written := True\<rparr>) = (s2, a)\<close> by (rule send_ackE) auto
      then show ?thesis using v1 st1 by (intro verified_next_increment) simp_all
    qed
    ultimately show ?thesis using c True by (auto simp: fr_sends split: prod.splits)
  qed
qed

lemma verified_blast_complete:
  assumes ok: "fr_ok s" and v: "verified md5 s"
  shows "verified md5 (fst (fr_handle_blast_complete (flash_handler md5 P) now bc s))"
proof (cases "fr_state s = FR_RECEIVING")
  case False
  then show ?thesis using v by (simp add: fr_handle_blast_complete_def)
next
  case True
  let ?s = "s\<lparr>fr_last_activity_ms := now\<rparr>"
  have w: "verified md5 (fst (fr_write_increment_to_flash (flash_handler md5 P) (?s\<lparr>fr_state := FR_WRITING\<rparr>)))"
    by (rule verified_write_increment, rule verified_state) (use v True in simp_all)
  have gaps: "verified md5 (fst (case fr_send_gaps_ack bm (?s\<lparr>fr_retransmit_round := fr_retransmit_round s + 1\<rparr>) of
      (s, ack_ok) \<Rightarrow> (s\<lparr>fr_state := FR_RECEIVING\<rparr>, ack_ok)))" for bm
  proof -
    obtain s2 ack where a: "fr_send_gaps_ack bm (?s\<lparr>fr_retransmit_round := fr_retransmit_round s + 1\<rparr>) = (s2, ack)"
      by fastforce
    then obtain xs where s2: "s2 = ?s\<lparr>fr_retransmit_round := fr_retransmit_round s + 1, fr_sent := xs\<rparr>"
      unfolding fr_sends by (rule send_ackE) auto
    then have "verified md5 (s2\<lparr>fr_state := FR_RECEIVING\<rparr>)" by (intro verified_state) (use v True in simp_all)
    then show ?thesis by (simp add: a)
  qed
  show ?thesis
    using True v w gaps by (auto simp: fr_handle_blast_complete_def Let_def fr_sends cong: if_cong)
qed

lemma verified_handle_end:
  assumes v: "verified md5 s"
  shows "verified md5 (fst (fr_handle_end (flash_handler md5 P) now e s))"
proof -
  have fin: "verified md5 (s\<lparr>fr_state := FR_VERIFYING, fr_objects := (fr_objects s)(p := h), fr_complete_action := a,
      fr_complete_result := 0, fr_complete_ack_remaining := n, fr_next_complete_ack_ms := t, fr_in_complete_phase := True\<rparr>)"
    if "fr_active_handler s = Some p" "fr_state s = FR_WAITING_END" "ofh_on_end md5 P (fr_objects s p) = (h, 0)"
    for p h a n t
    using v that on_end_success [OF that(3)] by (simp add: verified_def ofh_counts_def) metis
  show ?thesis
    using v fin
    by (auto simp: fr_handle_end_def Let_def verified_idle flash_handler_def split: option.split prod.split)
qed

lemma verified_handle_announce:
  assumes ok: "fr_ok s" and v: "verified md5 s"
  shows "verified md5 (fst (fr_handle_announce (flash_handler md5 P) a s))"
proof (cases "fr_state s = FR_IDLE")
  case False
  then show ?thesis using v by (simp add: fr_handle_announce_def fr_sends cong: if_cong)
next
  case True
  let ?H = "flash_handler md5 P"
  have act: "fr_active_handler s = None" using fr_okD(4) [OF ok] True by simp
  have start: "verified md5 (fst (fr_start_transfer ?H p act (fr_install_announce p a r kb (s\<lparr>fr_objects := (fr_objects s)(p := h')\<rparr>))))"
    if "ah_on_announce ?H (fann_file_size a) (fann_md5 a) chunk action fid kb0 h = (h', r, kb)" "ar_accepted r"
    for p act r kb chunk action fid kb0 h h'
  proof -
    let ?t = "fr_install_announce p a r kb (s\<lparr>fr_objects := (fr_objects s)(p := h')\<rparr>)"
    from that have "ofh_state h' = OFH_RECEIVING \<and> ofh_file_size h' = fann_file_size a \<and> ofh_expected_md5 h' = fann_md5 a
        \<and> ofh_total_written h' = 0 \<and> ofh_md5_data h' = []"
      using announce_accepted [of P "fann_file_size a" "fann_md5 a" chunk action fid kb0 h h' r kb] by (simp add: flash_handler_def)
    then have c: "ofh_counts (fann_file_size a) (fann_md5 a) h'" by (simp add: ofh_counts_def)
    let ?u = "?t\<lparr>fr_current_increment := 0, fr_retransmit_round := 0, fr_increment_written := False\<rparr>"
    let ?n = "fr_chunks_in_increment 0 ?u"
    let ?w = "?u\<lparr>fr_increment_buf := ib_reset ?n (ucast ?n * ucast (fr_chunk_payload_size ?u)), fr_state := FR_ANNOUNCED\<rparr>"
    obtain s2 ack where a2: "fr_send_ack_accept (fr_chunk_payload_size ?w) (fr_action ?w) (fr_buffer_size_kb ?w) ?w = (s2, ack)"
      by fastforce
    then obtain xs where s2: "s2 = ?w\<lparr>fr_sent := xs\<rparr>"
      unfolding fr_sends by (rule send_ackE) auto
    have "fr_last_announce_md5 ?t = fann_md5 a"
      by (simp add: fr_install_announce_def fr_compute_increment_geometry_def Let_def)
    then have "verified md5 (s2\<lparr>fr_state := FR_RECEIVING\<rparr>)"
      using c by (simp add: s2 verified_def)
    then show ?thesis using a2
      by (auto simp: fr_start_transfer_def Let_def fr_sends verified_idle split: prod.splits)
  qed
  have idle: "verified md5 (s\<lparr>fr_objects := ob\<rparr>)" for ob by (rule verified_idle) (use act in simp)
  have abort: "verified md5 (fr_call_on_abort ?H p r (s\<lparr>fr_objects := ob\<rparr>))" for p r ob
    by (rule verified_idle) (use act in \<open>simp add: fr_call_on_abort_def\<close>)
  show ?thesis
    unfolding fr_handle_announce_def
    using v start idle abort
    by (simp add: fr_sends Let_def split: option.split prod.split)
qed

lemma verified_handle_abort: "verified md5 s \<Longrightarrow> verified md5 (fst (fr_handle_abort H a s))"
  by (auto simp: fr_handle_abort_def verified_idle split: option.split)

lemma verified_file_transfer:
  assumes ok: "fr_ok s" and v: "verified md5 s"
  shows "verified md5 (fst (fr_handle_file_transfer (flash_handler md5 P) now payload s))"
proof -
  let ?s = "s\<lparr>fr_last_activity_ms := now\<rparr>"
  have s: "fr_ok ?s" "verified md5 ?s" using ok v by simp_all
  show ?thesis
    using v verified_handle_announce [OF s] verified_handle_end [OF s(2)] verified_handle_abort [OF s(2)]
      verified_blast_complete [OF s]
    unfolding fr_handle_file_transfer_def Let_def by (simp split: option.split)
qed

lemma verified_file_data:
  assumes ok: "fr_ok s" and v: "verified md5 s"
  shows "verified md5 (fst (fr_handle_file_data now payload s))"
proof (cases "fr_state s = FR_RECEIVING \<and> c_dec espnow_file_data_header_codec payload \<noteq> None")
  case False
  then show ?thesis using v handle_file_data_idle [of s now payload] handle_file_data_short [of payload now s] by auto
next
  case True
  then obtain header where st: "fr_state s = FR_RECEIVING" and dec: "c_dec espnow_file_data_header_codec payload = Some header"
    by auto
  show ?thesis using v handle_file_data_cases [OF _ st _ _ dec, of now] fr_okD(1) [OF ok st] by (auto split: if_splits)
qed

lemma verified_loop:
  assumes ok: "fr_ok s" and v: "verified md5 s"
  shows "verified md5 (fr_loop (flash_handler md5 P) now s)"
proof -
  define t where "t = fr_perform_restart_if_due now s"
  have t: "verified md5 t" using v by (simp add: t_def fr_perform_restart_if_due_def)
  show ?thesis
    using t by (simp add: fr_loop_def Let_def t_def [symmetric] fr_schedule_restart_def verified_idle fr_sends)
qed

lemma verified_step:
  assumes "fr_ok s" and "verified md5 s"
  shows "verified md5 (fr_step (flash_handler md5 P) ofh_set_max_chunk_size ev s)"
proof (cases ev)
  case (EvMaxChunk m)
  then show ?thesis using assms(2)
    by (auto simp: fr_set_max_chunk_size_def verified_def ofh_counts_def ofh_set_max_chunk_size_def split: option.splits)
qed (use assms in \<open>simp_all add: verified_file_transfer verified_file_data verified_loop
      fr_set_announce_tx_counter_def fr_set_blast_complete_tx_counter_def fr_register_handler_def
      fr_set_local_mac_def split: option.split\<close>)

lemma verified_run:
  assumes P: "partition_bounded P"
  shows "fr_ok s \<Longrightarrow> verified md5 s \<Longrightarrow> verified md5 (fr_run (flash_handler md5 P) ofh_set_max_chunk_size evs s)"
  by (induction evs arbitrary: s)
    (simp_all add: fr_run_def verified_step bounded_handler.ok_step [OF flash_bounded [OF P]])

section \<open>A small transfer\<close>

text \<open>
  Two chunks of one byte, the second sent first and repeated, an early BLAST_COMPLETE, then the first.
\<close>

definition demo_events :: "fr_event list" where
  "demo_events =
    [EvSendAckFn (\<lambda>_ _. True), EvOtaEnabled True,
     EvFileTransfer 10 ([0, 2, 0, 0, 0] @ replicate 16 0 @ [1, 0, 1] @ replicate 12 0),
     EvFileData 11 [1, 0, 0, 0, 7], EvFileData 12 [1, 0, 0, 0, 7], EvFileTransfer 13 [3, 0, 0],
     EvFileData 14 [0, 0, 0, 0, 233], EvFileTransfer 15 [3, 0, 0]]"

abbreviation (input) demo_md5 :: "bytes \<Rightarrow> bytes" where "demo_md5 \<equiv> \<lambda>_. replicate 16 0"

abbreviation (input) demo_start :: "unit ofh fr" where "demo_start \<equiv> FileReceiver_init (ofh_init ())"

lemma demo_honest: "honest_run (flash_handler demo_md5 host_platform) ofh_set_max_chunk_size [233, 7] demo_events demo_start"
  by code_simp

lemma demo_waiting:
  "fr_state (fr_run (flash_handler demo_md5 host_platform) ofh_set_max_chunk_size demo_events demo_start) = FR_WAITING_END"
  by code_simp

lemma demo_complete:
  "fr_in_complete_phase (fr_run (flash_handler demo_md5 host_platform) ofh_set_max_chunk_size
     (demo_events @ [EvFileTransfer 16 [1]]) demo_start)"
  by code_simp

section \<open>Properties\<close>

lemma sum_chunks_in_increment:
  assumes g: "fr_geometry_ok t"
  shows "(\<Sum>i<unat (fr_total_increments t). unat (fr_chunks_in_increment (of_nat i) t)) = unat (fr_total_chunks t)"
proof -
  let ?N = "unat (fr_total_increments t)" and ?k = "unat (fr_chunks_per_increment t)"
  note d = geometry_okD [OF g]
  have w: "unat (of_nat i :: u16) = i" if "i < ?N" for i
    using less_trans [OF that unat_u16_bound] by (intro unat_of_nat_small) simp
  have "n \<le> ?N - 1 \<Longrightarrow> (\<Sum>i<n. unat (fr_chunks_in_increment (of_nat i) t)) = n * ?k" for n
  proof (induction n)
    case (Suc n)
    then have "\<not> ?N \<le> Suc n" by arith
    then show ?case using Suc w [of n] by (simp add: unat_chunks_in_increment)
  qed simp
  from this [of "?N - 1"] have "(\<Sum>i<?N - 1. unat (fr_chunks_in_increment (of_nat i) t)) = (?N - 1) * ?k" by simp
  moreover have "unat (fr_chunks_in_increment (of_nat (?N - 1)) t) = unat (fr_chunks_in_last_increment t)"
    using w [of "?N - 1"] d(10) by (simp add: unat_chunks_in_increment)
  moreover have "{..<?N} = insert (?N - 1) {..<?N - 1}" using d(10) by auto
  ultimately show ?thesis using d(6) by simp
qed

text \<open>
  The geometry of a transfer. Whenever the count of increments fits its 16-bit variable, the
  increments partition the chunks of the file (their sizes add up to the chunk count), the chunk lengths add up
  to the file size, and every increment fits the 8 KB buffer (or is a single chunk larger than it).
\<close>

theorem increment_geometry_partition:
  assumes "0 < unat (fr_file_size s)" and "0 < unat (fr_chunk_payload_size s)"
    and "geometry_fits (unat (fr_file_size s)) (unat (fr_chunk_payload_size s)) (unat (fr_buffer_size_kb s))"
    and "t = fr_compute_increment_geometry s"
  shows "(\<Sum>i<unat (fr_total_increments t). unat (fr_chunks_in_increment (of_nat i) t)) = unat (fr_total_chunks t)
    \<and> (\<Sum>q<unat (fr_total_chunks t). unat (fr_expected_chunk_len (of_nat q) t)) = unat (fr_file_size s)
    \<and> unat (fr_chunks_per_increment t) * unat (fr_chunk_payload_size s) \<le> max (unat (fr_chunk_payload_size s)) 8192"
proof -
  have g: "fr_geometry_ok t" unfolding assms(4) by (rule compute_increment_geometry_ok [OF assms(1-3)])
  have same: "fr_file_size t = fr_file_size s" "fr_chunk_payload_size t = fr_chunk_payload_size s"
    by (simp_all add: assms(4) fr_compute_increment_geometry_def Let_def)
  note d = geometry_okD [OF g]
  have "unat (fr_expected_chunk_len (of_nat q) t) = chunk_len (unat (fr_file_size t)) (unat (fr_chunk_payload_size t)) q"
    if "q < unat (fr_total_chunks t)" for q
  proof -
    have "unat (of_nat q :: u32) = q" using less_trans [OF that unat_u32_bound] by (intro unat_of_nat_small) simp
    then show ?thesis using unat_expected_chunk_len [OF g, of "of_nat q"] that by simp
  qed
  then have "(\<Sum>q<unat (fr_total_chunks t). unat (fr_expected_chunk_len (of_nat q) t)) = unat (fr_file_size s)"
    using sum_chunk_len [OF d(2), of "unat (fr_file_size t)"] d(4) by (simp add: same)
  then show ?thesis using sum_chunks_in_increment [OF g] d(9) by (simp add: same)
qed

theorem increment_geometry_partition_witness:
  "(\<Sum>q<unat (fr_total_chunks (fr_compute_increment_geometry ((FileReceiver_init ())\<lparr>fr_file_size := 100000, fr_chunk_payload_size := 221\<rparr>))).
      unat (fr_expected_chunk_len (of_nat q) (fr_compute_increment_geometry ((FileReceiver_init ())\<lparr>fr_file_size := 100000, fr_chunk_payload_size := 221\<rparr>)))) = 100000"
  using increment_geometry_partition [OF _ _ _ refl, of "(FileReceiver_init ())\<lparr>fr_file_size := 100000, fr_chunk_payload_size := 221\<rparr>"]
    geometry_fits_128MB [of 100000 221]
  by (simp add: FileReceiver_init_def)

text \<open>
  C7: The receiver's invariant. After any sequence of packets (well-formed or not, honest or not),
  timer calls, aborts and settings, the receiver is idle, receiving, waiting for the end or reporting
  completion, never in the transient states; while it receives, the current increment is one of
  the transfer, its buffer has room for exactly its chunks and the received counter equals the
  number of marked chunks.
\<close>

theorem receiver_invariant:
  assumes "partition_bounded P" and "s = fr_run (flash_handler md5 P) ofh_set_max_chunk_size evs (FileReceiver_init (ofh_init p))"
  shows "fr_ok s \<and> fr_state s \<in> {FR_IDLE, FR_RECEIVING, FR_WAITING_END, FR_VERIFYING}
    \<and> (fr_active_handler s = None \<longleftrightarrow> fr_state s = FR_IDLE)
    \<and> (fr_state s = FR_RECEIVING \<longrightarrow> unat (fr_current_increment s) < unat (fr_total_increments s)
        \<and> length (ib_data (fr_increment_buf s)) = fr_n s * unat (fr_chunk_payload_size s)
        \<and> unat (ib_chunks_received (fr_increment_buf s)) = card {j. j < fr_n s \<and> ib_has (ib_received_bitmap (fr_increment_buf s)) j})"
proof -
  have ok: "fr_ok s" unfolding assms(2)
    by (rule bounded_handler.ok_run [OF flash_bounded [OF assms(1)]])
      (rule bounded_handler.ok_init [OF flash_bounded [OF assms(1)]])
  then show ?thesis using fr_okD [OF ok] by (simp add: fr_transfer_ok_def ib_ok_def)
qed

theorem receiver_invariant_witness:
  "fr_ok (fr_run (flash_handler demo_md5 host_platform) ofh_set_max_chunk_size
     (EvFileTransfer 5 [0] # demo_events @ [EvFileData 20 [7], EvLoop 20000]) demo_start)"
  using receiver_invariant [OF host_bounded refl] by blast

text \<open>
  C1: Delivery. If every announcement is for a file of the image's size and every data packet carries
  the image's bytes for the chunk it names, then however packets are lost, repeated, reordered and mixed with anything else,
  whenever the receiver waits for END the flash handler has been given exactly the image, in order. (The
  image starts with the magic byte and flash writes succeed.)
\<close>

theorem transfer_delivers_image:
  assumes "partition_bounded P" and "writes_succeed P" and "hd img = kEspImageMagic" and "length img < 2 ^ 32"
    and "honest_run (flash_handler md5 P) ofh_set_max_chunk_size img evs (FileReceiver_init (ofh_init p))"
    and "s = fr_run (flash_handler md5 P) ofh_set_max_chunk_size evs (FileReceiver_init (ofh_init p))"
    and "fr_state s = FR_WAITING_END"
  shows "ofh_md5_data (fr_objects s (the (fr_active_handler s))) = img"
  using file_sink.delivered [OF flash_sink [OF assms(1-4)] assms(5)] assms(6,7) by simp

theorem transfer_delivers_image_witness:
  "\<exists>p. ofh_md5_data (fr_objects (fr_run (flash_handler demo_md5 host_platform) ofh_set_max_chunk_size demo_events demo_start) p) = [233, 7]"
  using transfer_delivers_image [OF host_bounded host_writes _ _ demo_honest refl demo_waiting] by auto

text \<open>
  The retransmission request. In a well-formed receiving state a BLAST_COMPLETE for the current,
  incomplete increment is answered by a GAPS acknowledgement that refers to that BLAST_COMPLETE and
  whose bitmap has one bit per chunk of the increment, set exactly for the chunks that are stored; the
  receiver keeps receiving and counts the round.
\<close>

theorem gaps_ack_names_missing:
  assumes "fr_ok s" and "fr_state s = FR_RECEIVING" and "fbc_increment_index bc = fr_current_increment s"
    and "\<not> ib_is_complete (fr_increment_buf s)" and "fr_retransmit_round s < ESPNOW_MAX_RETRANSMIT_ROUNDS"
    and "fr_send_ack_fn s = Some send"
  shows "\<exists>bitmap. length bitmap = (fr_n s + 7) div 8
    \<and> (\<forall>j < fr_n s. bit (bitmap ! (j div 8)) (j mod 8) = ib_has (ib_received_bitmap (fr_increment_buf s)) j)
    \<and> (\<exists>j < fr_n s. \<not> bit (bitmap ! (j div 8)) (j mod 8))
    \<and> fst (fr_handle_blast_complete H now bc s) =
        s\<lparr>fr_last_activity_ms := now, fr_retransmit_round := fr_retransmit_round s + 1,
          fr_sent := fr_sent s @ [c_enc espnow_ack_codec
            \<lparr>ack_ack_type = packet_code PKT_FILE_TRANSFER, ack_result = ESPNOW_FILE_ACK_GAPS,
             ack_ref_tx_counter = fr_last_blast_complete_tx_counter s\<rparr> @ le16 (of_nat (length bitmap)) @ bitmap]\<rparr>"
proof -
  note r = fr_okD(1) [OF assms(1,2)]
  let ?bm = "ib_received_bitmap (fr_increment_buf s)"
  have len: "length ?bm = (fr_n s + 7) div 8" using r by (simp add: ib_ok_def)
  have bits: "\<forall>j < fr_n s. bit (?bm ! (j div 8)) (j mod 8) = ib_has ?bm j"
    using len byte_index_bound by (auto simp: ib_has_def)
  have miss: "\<exists>j < fr_n s. \<not> bit (?bm ! (j div 8)) (j mod 8)"
    using bits is_complete_iff [of "fr_n s" "unat (fr_chunk_payload_size s)" "fr_increment_buf s"] r assms(4) by blast
  obtain p where act: "fr_active_handler s = Some p" using r by (auto simp: fr_transfer_ok_def)
  have "\<not> ESPNOW_MAX_RETRANSMIT_ROUNDS \<le> fr_retransmit_round s" using assms(5) by simp
  then show ?thesis
    using assms(2-4,6) r act len bits miss
    by (intro exI [of _ ?bm]) (simp add: fr_handle_blast_complete_def fr_sends fr_send_ack_def Let_def)
qed

text \<open>
  A repeated chunk is harmless: once a data packet has been taken, the same packet again is
  confirmed and changes nothing but the activity timer.
\<close>

theorem file_data_idempotent:
  assumes "fr_ok s" and "fr_state s = FR_RECEIVING" and "fr_handle_file_data now payload s = (s1, True)"
  shows "fr_handle_file_data now' payload s1 = (s1\<lparr>fr_last_activity_ms := now'\<rparr>, True)"
proof -
  note r = fr_okD(1) [OF assms(1,2)]
  have ok1: "fr_ok s1" using fr_ok_handle_file_data [OF assms(1), of now payload] assms(3) by simp
  obtain header where dec: "c_dec espnow_file_data_header_codec payload = Some header"
    using assms(3) handle_file_data_short [of payload now s] by (cases "c_dec espnow_file_data_header_codec payload") auto
  note c = handle_file_data_cases [OF _ assms(2) _ _ dec, of now]
  let ?q = "unat (fdh_sequence header)"
  let ?j = "?q - fr_base s"
  have cond: "fr_base s \<le> ?q \<and> ?q < fr_base s + fr_n s"
      "length (drop 4 payload) = chunk_len (unat (fr_file_size s)) (unat (fr_chunk_payload_size s)) ?q"
    using c r assms(3) by (auto split: if_splits)
  have jn: "?j < fr_n s" using cond(1) by linarith
  then have "?j < 65536" by (rule less_trans) simp
  then have jw: "unat (of_nat ?j :: u16) = ?j" by (intro unat_of_nat_small) simp
  have same: "fr_base s1 = fr_base s" "fr_n s1 = fr_n s" "fr_file_size s1 = fr_file_size s"
    "fr_chunk_payload_size s1 = fr_chunk_payload_size s" "fr_state s1 = FR_RECEIVING"
    using c r assms(2,3) cond by (auto simp: fr_base_def split: if_splits)
  have len: "length (ib_data (fr_increment_buf s)) = fr_n s * unat (fr_chunk_payload_size s)" using r by (simp add: ib_ok_def)
  have has: "ib_has (ib_received_bitmap (fr_increment_buf s1)) ?j"
  proof (cases "ib_has (ib_received_bitmap (fr_increment_buf s)) ?j")
    case True
    then show ?thesis using c r assms(3) cond by auto
  next
    case False
    let ?d = "store_chunk (?j * unat (fr_chunk_payload_size s)) (drop 4 payload) (ib_data (fr_increment_buf s))"
    let ?b = "(fr_increment_buf s)\<lparr>ib_data := ?d\<rparr>"
    have "length ?d = fr_n s * unat (fr_chunk_payload_size s)"
      using length_store_chunk [of "?j * unat (fr_chunk_payload_size s)" "drop 4 payload" "ib_data (fr_increment_buf s)"]
        chunk_fits_buffer [of s ?q "unat (fr_chunk_payload_size s)" "unat (fr_file_size s)"] r cond len by simp
    then have "ib_ok (fr_n s) (unat (fr_chunk_payload_size s)) ?b" using r by (simp add: ib_ok_def)
    then have "ib_has (ib_received_bitmap (ib_mark_chunk_received (of_nat ?j) ?b)) ?j"
      using mark_chunk_received_bitmap [of "of_nat ?j :: u16" "fr_n s" "unat (fr_chunk_payload_size s)" ?b ?j] jw jn by simp
    then show ?thesis using c r assms(3) cond False by auto
  qed
  show ?thesis
    using handle_file_data_cases [OF _ same(5) _ _ dec, of now'] fr_okD(1) [OF ok1 same(5)] cond has
    by (simp add: same)
qed

text \<open>A receiver that has one of two chunks.\<close>

abbreviation (input) demo_half :: "unit ofh fr" where
  "demo_half \<equiv> fr_run (flash_handler demo_md5 host_platform) ofh_set_max_chunk_size (take 4 demo_events) demo_start"

lemma demo_half_ok: "fr_ok demo_half"
  by (rule host.ok_run [OF host.ok_init])

lemma demo_half_facts:
  "fr_state demo_half = FR_RECEIVING" "fr_current_increment demo_half = 0"
  "\<not> ib_is_complete (fr_increment_buf demo_half)" "fr_retransmit_round demo_half = 0"
  "snd (fr_handle_file_data 20 [1, 0, 0, 0, 7] demo_half)" "fr_n demo_half = 2"
  by code_simp+

lemma demo_half_send: "\<exists>send. fr_send_ack_fn demo_half = Some send"
proof -
  have "\<not> Option.is_none (fr_send_ack_fn demo_half)" by code_simp
  then show ?thesis by (cases "fr_send_ack_fn demo_half") auto
qed

theorem gaps_ack_names_missing_witness:
  "\<exists>bitmap. length bitmap = 1
    \<and> fr_sent (fst (fr_handle_blast_complete (flash_handler demo_md5 host_platform) 9 \<lparr>fbc_phase = 3, fbc_increment_index = 0\<rparr> demo_half))
      = fr_sent demo_half @ [c_enc espnow_ack_codec \<lparr>ack_ack_type = packet_code PKT_FILE_TRANSFER,
          ack_result = ESPNOW_FILE_ACK_GAPS, ack_ref_tx_counter = fr_last_blast_complete_tx_counter demo_half\<rparr>
          @ le16 (of_nat (length bitmap)) @ bitmap]"
proof -
  obtain send where "fr_send_ack_fn demo_half = Some send" using demo_half_send by blast
  from gaps_ack_names_missing [OF demo_half_ok demo_half_facts(1) _ demo_half_facts(3) _ this,
      of "\<lparr>fbc_phase = 3, fbc_increment_index = 0\<rparr>" "flash_handler demo_md5 host_platform" 9]
  show ?thesis using demo_half_facts by auto
qed

theorem file_data_idempotent_witness:
  "\<exists>s1. fr_handle_file_data 30 [1, 0, 0, 0, 7] s1 = (s1\<lparr>fr_last_activity_ms := 30\<rparr>, True) \<and> s1 = fst (fr_handle_file_data 20 [1, 0, 0, 0, 7] demo_half)"
proof -
  have "fr_handle_file_data 20 [1, 0, 0, 0, 7] demo_half = (fst (fr_handle_file_data 20 [1, 0, 0, 0, 7] demo_half), True)"
    using demo_half_facts(5) by (simp add: prod_eq_iff)
  from file_data_idempotent [OF demo_half_ok demo_half_facts(1) this] show ?thesis by blast
qed

text \<open>
  The end of an update, on every branch. With a digest running, the result is decided in this
  order: too few or too many bytes written, a wrong digest, a failure to close or to select the partition,
  success. In every branch the handler is idle afterwards; it asks for a restart exactly on success, and the written partition
  is given up exactly in the first two failures.
\<close>

theorem ofh_on_end_branches:
  assumes "ofh_state h = OFH_RECEIVING" and "ofh_md5_active h" and "ofh_on_end md5 P h = (h', result)"
  shows "result =
      (if ofh_total_written h \<noteq> ofh_file_size h then ESPNOW_FILE_COMPLETE_WRITE_ERROR
       else if md5 (ofh_md5_data h) \<noteq> ofh_expected_md5 h then ESPNOW_FILE_COMPLETE_MD5_MISMATCH
       else if \<not> snd (esp_ota_end P (ofh_ota_handle h) (ofh_platform h)) then ESPNOW_FILE_COMPLETE_FLASH_ERROR
       else if \<not> snd (esp_ota_set_boot_partition P (ofh_update_partition h)
                        (fst (esp_ota_end P (ofh_ota_handle h) (ofh_platform h)))) then ESPNOW_FILE_COMPLETE_FLASH_ERROR
       else ESPNOW_FILE_COMPLETE_SUCCESS)
    \<and> ofh_state h' = OFH_IDLE \<and> \<not> ofh_md5_active h'
    \<and> ofh_wants_restart_after_complete h' = (result = ESPNOW_FILE_COMPLETE_SUCCESS)
    \<and> (result \<in> {ESPNOW_FILE_COMPLETE_WRITE_ERROR, ESPNOW_FILE_COMPLETE_MD5_MISMATCH} \<longrightarrow>
        ofh_platform h' = esp_ota_abort P (ofh_ota_handle h) (ofh_platform h))"
  using assms
  by (auto simp: ofh_on_end_def ofh_finish_md5_def ofh_reset_state_def ofh_platform_abort_def
      ofh_wants_restart_after_complete_def Let_def split: if_splits prod.splits)

theorem ofh_on_end_branches_witness:
  "snd (ofh_on_end demo_md5 host_platform ((ofh_init ())\<lparr>ofh_state := OFH_RECEIVING, ofh_md5_active := True, ofh_file_size := 3\<rparr>))
     = ESPNOW_FILE_COMPLETE_WRITE_ERROR"
proof -
  let ?h = "(ofh_init ())\<lparr>ofh_state := OFH_RECEIVING, ofh_md5_active := True, ofh_file_size := 3\<rparr>"
  obtain h' result where e: "ofh_on_end demo_md5 host_platform ?h = (h', result)" by fastforce
  have "ofh_total_written ?h \<noteq> ofh_file_size ?h" by (simp add: ofh_init_def)
  then show ?thesis using ofh_on_end_branches [OF _ _ e] e by simp
qed

text \<open>
  Radio silence. A receiver that is receiving or waiting for END gives the transfer up at the
  first timer call more than ten seconds after the last activity (across a wrap of the clock as
  well): the handler is told, an ABORT acknowledgement with reason timeout is handed to the sender, and it is idle
  again. Before that the timer call changes nothing. (No restart is pending.)
\<close>

theorem radio_silence_aborts:
  assumes "fr_ok s" and "fr_state s \<in> {FR_RECEIVING, FR_WAITING_END}" and "\<not> fr_restart_pending s"
    and "fr_active_handler s = Some p" and "fr_send_ack_fn s = Some send"
  shows "if unat (now - fr_last_activity_ms s) \<le> 10000 then fr_loop H now s = s
    else fr_state (fr_loop H now s) = FR_IDLE
      \<and> fr_objects (fr_loop H now s) p = ah_on_abort H ESPNOW_FILE_ABORT_TIMEOUT (fr_objects s p)
      \<and> fr_sent (fr_loop H now s) = fr_sent s @ [c_enc espnow_ack_codec
          \<lparr>ack_ack_type = packet_code PKT_FILE_TRANSFER, ack_result = ESPNOW_FILE_ACK_ABORT,
           ack_ref_tx_counter = fr_announce_tx_counter s\<rparr> @ [ESPNOW_FILE_ABORT_TIMEOUT]]"
proof -
  have "\<not> fr_in_complete_phase s" using fr_okD(3) [OF assms(1)] assms(2) by auto
  then have l: "fr_loop H now s = (if 10000 < now - fr_last_activity_ms s then fr_abort H ESPNOW_FILE_ABORT_TIMEOUT True s else s)"
    using assms(2-4) by (auto simp: fr_loop_def fr_perform_restart_if_due_def Let_def)
  show ?thesis
    using assms(4,5)
    by (simp add: l word_less_nat_alt fr_abort_def fr_call_on_abort_def fr_sends fr_send_ack_def Let_def)
qed

theorem radio_silence_aborts_witness:
  "fr_state (fr_loop (flash_handler demo_md5 host_platform) 10100 demo_half) = FR_IDLE"
proof -
  have "fr_state demo_half \<in> {FR_RECEIVING, FR_WAITING_END}" using demo_half_facts(1) by simp
  moreover have "\<not> fr_restart_pending demo_half" "fr_active_handler demo_half = Some 0" "fr_last_activity_ms demo_half = 11"
    by code_simp+
  moreover obtain send where "fr_send_ack_fn demo_half = Some send" using demo_half_send by blast
  ultimately show ?thesis
    using radio_silence_aborts [OF demo_half_ok, of 0 send 10100 "flash_handler demo_md5 host_platform"]
    by simp
qed

end
