(* ===== verification/OtaRestart.thy ===== *)
theory OtaRestart
  imports OtaDelivery
begin

text \<open>
  The end of an update: the receiver restarts the device only after a completion phase that a
  verified image has entered; this phase repeats the result a bounded number of times and then
  restarts; and what happens when one flash write fails in the middle of an increment.
\<close>

section \<open>Only verified images\<close>

text \<open>The two fields of the restart: whether one is scheduled, and how often it was made.\<close>

definition restart_fields :: "'h fr \<Rightarrow> bool \<times> nat" where
  "restart_fields s = (fr_restart_pending s, fr_restarts s)"

lemma restart_fields_send [simp]: "restart_fields (fst (fr_send_ack r t s)) = restart_fields s"
  using send_ack_fst [of r t s] by (auto simp: restart_fields_def)

lemma restart_fields_sent: "fr_send_ack r t s = (s', ok) \<Longrightarrow> restart_fields s' = restart_fields s"
  using restart_fields_send [of r t s] by simp

lemma restart_fields_update [simp]:
  "restart_fields (fr_state_update f1 s) = restart_fields s"
  "restart_fields (fr_objects_update f2 s) = restart_fields s"
  "restart_fields (fr_last_activity_ms_update f3 s) = restart_fields s"
  "restart_fields (fr_increment_written_update f4 s) = restart_fields s"
  "restart_fields (fr_retransmit_round_update f5 s) = restart_fields s"
  "restart_fields (fr_increment_buf_update f6 s) = restart_fields s"
  "restart_fields (fr_current_increment_update f7 s) = restart_fields s"
  "restart_fields (fr_complete_ack_remaining_update f8 s) = restart_fields s"
  "restart_fields (fr_next_complete_ack_ms_update f9 s) = restart_fields s"
  "restart_fields (fr_reset s) = restart_fields s"
  "restart_fields (fr_complete_action_update f10 s) = restart_fields s"
  "restart_fields (fr_complete_result_update f11 s) = restart_fields s"
  "restart_fields (fr_in_complete_phase_update f12 s) = restart_fields s"
  "restart_fields (fr_call_on_abort H p r s) = restart_fields s"
  "restart_fields (fr_install_announce p a resp kb s) = restart_fields s"
  by (simp_all add: restart_fields_def fr_reset_def fr_call_on_abort_def fr_install_announce_def
      fr_compute_increment_geometry_def Let_def)

lemma restart_fields_abort [simp]: "restart_fields (fr_abort H r n s) = restart_fields s"
  by (simp add: fr_abort_def Let_def fr_sends split: option.split)

lemma restart_fields_slice: "fr_write_slice H p n i s = (s', resp) \<Longrightarrow> restart_fields s' = restart_fields s"
  using write_slice_fst [of H p n i s] by auto

lemma restart_fields_retry: "restart_fields (fst (fr_retry_loop H p n js s)) = restart_fields s"
  by (induction js arbitrary: s) (auto split: prod.split dest: restart_fields_slice)

lemma restart_fields_write: "restart_fields (fst (fr_write_loop H p n is s)) = restart_fields s"
  by (induction "is" arbitrary: s) (auto simp: restart_fields_retry split: prod.split dest: restart_fields_slice)

lemma restart_fields_increment: "restart_fields (fst (fr_write_increment_to_flash H s)) = restart_fields s"
proof -
  have w: "restart_fields s' = restart_fields s" if "fr_write_loop H p n is s = (s', ok)" for p n "is" s' ok
    using restart_fields_write [of H p n "is" s] that by simp
  show ?thesis
    unfolding fr_write_increment_to_flash_def Let_def fr_sends
    by (auto split: option.split prod.split dest!: w restart_fields_sent)
qed

lemma restart_fields_announce: "restart_fields (fst (fr_handle_announce H a s)) = restart_fields s"
  unfolding fr_handle_announce_def fr_start_transfer_def Let_def fr_sends
  by (auto split: option.split prod.split dest!: restart_fields_sent)

lemma restart_fields_end: "restart_fields (fst (fr_handle_end H now e s)) = restart_fields s"
  unfolding fr_handle_end_def Let_def fr_sends
  by (auto split: option.split prod.split dest!: restart_fields_sent)

lemma restart_fields_blast: "restart_fields (fst (fr_handle_blast_complete H now bc s)) = restart_fields s"
  unfolding fr_handle_blast_complete_def Let_def fr_sends
  by (auto simp: restart_fields_increment split: prod.split dest!: restart_fields_sent)

lemma restart_fields_handle_abort: "restart_fields (fst (fr_handle_abort H a s)) = restart_fields s"
  by (simp add: fr_handle_abort_def split: option.split)

lemma restart_fields_transfer: "restart_fields (fst (fr_handle_file_transfer H now payload s)) = restart_fields s"
  unfolding fr_handle_file_transfer_def Let_def
  by (simp add: restart_fields_announce restart_fields_end restart_fields_blast restart_fields_handle_abort
      split: option.split)

lemma restart_fields_data: "restart_fields (fst (fr_handle_file_data now payload s)) = restart_fields s"
  unfolding fr_handle_file_data_def Let_def by (simp split: option.split)

text \<open>The image of the transfer in progress is as long as announced and has the announced digest.\<close>

definition image_verified :: "(bytes \<Rightarrow> bytes) \<Rightarrow> 'p ofh fr \<Rightarrow> bool" where
  "image_verified md5 s \<longleftrightarrow>
     (case fr_active_handler s of
        None \<Rightarrow> False
      | Some p \<Rightarrow> md5 (ofh_md5_data (fr_objects s p)) = fr_last_announce_md5 s
          \<and> of_nat (length (ofh_md5_data (fr_objects s p))) = fr_file_size s)"

text \<open>How often, in a run, a timer call ends the completion phase of a verified image.\<close>

definition ends_verified_phase :: "(bytes \<Rightarrow> bytes) \<Rightarrow> fr_event \<Rightarrow> 'p ofh fr \<Rightarrow> 'p ofh fr \<Rightarrow> bool" where
  "ends_verified_phase md5 ev s s' \<longleftrightarrow>
     (case ev of EvLoop now \<Rightarrow> fr_in_complete_phase s \<and> image_verified md5 s \<and> \<not> fr_in_complete_phase s' | _ \<Rightarrow> False)"

fun verified_phases :: "(bytes \<Rightarrow> bytes) \<Rightarrow> 'p ofh action_handler \<Rightarrow> fr_event list \<Rightarrow> 'p ofh fr \<Rightarrow> nat" where
  "verified_phases md5 H [] s = 0"
| "verified_phases md5 H (ev # evs) s =
     (let s' = fr_step H ofh_set_max_chunk_size ev s
      in (if ends_verified_phase md5 ev s s' then 1 else 0) + verified_phases md5 H evs s')"

lemma complete_phase_verified:
  assumes "fr_ok s" and "verified md5 s" and "fr_in_complete_phase s"
  shows "image_verified md5 s"
proof -
  obtain p where "fr_active_handler s = Some p" "fr_state s = FR_VERIFYING"
    using fr_okD(3,4) [OF assms(1)] assms(3) by (cases "fr_active_handler s") auto
  then show ?thesis using assms(2) by (simp add: verified_def image_verified_def)
qed

definition restart_budget :: "'h fr \<Rightarrow> nat" where
  "restart_budget s = fr_restarts s + (if fr_restart_pending s then 1 else 0)"

lemma restart_budget_fields: "restart_fields s' = restart_fields s \<Longrightarrow> restart_budget s' = restart_budget s"
  by (simp add: restart_budget_def restart_fields_def)

lemma restart_budget_loop:
  "restart_budget (fr_loop H now s) \<le> restart_budget s
    + (if fr_in_complete_phase s \<and> \<not> fr_in_complete_phase (fr_loop H now s) then 1 else 0)"
proof -
  define t where "t = fr_perform_restart_if_due now s"
  have t: "restart_budget t = restart_budget s" "fr_in_complete_phase t = fr_in_complete_phase s"
    by (auto simp: t_def fr_perform_restart_if_due_def restart_budget_def)
  have field: "restart_budget (f t) = restart_budget s" if "restart_fields (f t) = restart_fields t" for f
    using restart_budget_fields [OF that] t by simp
  show ?thesis
  proof (cases "fr_in_complete_phase t")
    case False
    then have "restart_fields (fr_loop H now s) = restart_fields t"
      by (simp add: fr_loop_def Let_def t_def [symmetric])
    then show ?thesis using restart_budget_fields t(1) by (metis le_add1)
  next
    case True
    define u where "u = (if kCompleteAckIntervalMs \<le> now - fr_next_complete_ack_ms t
      then (fst (fr_send_ack_complete (fr_complete_action t) (fr_complete_result t) t))
             \<lparr>fr_complete_ack_remaining := fr_complete_ack_remaining t - 1, fr_next_complete_ack_ms := now\<rparr>
      else t)"
    have u: "restart_fields u = restart_fields t" by (simp add: u_def fr_sends)
    have l: "fr_loop H now s = (if sint (fr_complete_ack_remaining u) \<le> 0
        then (fr_schedule_restart now (fr_reset u))\<lparr>fr_in_complete_phase := False\<rparr> else u)"
      using True by (simp add: fr_loop_def Let_def t_def [symmetric] u_def)
    have r: "fr_restarts (fr_reset u) = fr_restarts t"
      using u restart_fields_update(10) [of u] by (simp add: restart_fields_def)
    show ?thesis
    proof (cases "sint (fr_complete_ack_remaining u) \<le> 0")
      case True
      then show ?thesis using l r t \<open>fr_in_complete_phase t\<close>
        by (simp add: restart_budget_def fr_schedule_restart_def)
    next
      case False
      then show ?thesis using l restart_budget_fields [OF u] t by simp
    qed
  qed
qed

lemma restart_budget_step:
  assumes "fr_ok s" and "verified md5 s"
  shows "restart_budget (fr_step H ofh_set_max_chunk_size ev s) \<le> restart_budget s
    + (if ends_verified_phase md5 ev s (fr_step H ofh_set_max_chunk_size ev s) then 1 else 0)"
proof (cases "\<exists>now. ev = EvLoop now")
  case True
  then obtain now where "ev = EvLoop now" by blast
  then show ?thesis
    using restart_budget_loop [of H now s] complete_phase_verified [OF assms]
    by (auto simp: ends_verified_phase_def split: if_splits)
next
  case False
  then have "restart_fields (fr_step H ofh_set_max_chunk_size ev s) = restart_fields s"
    by (cases ev) (simp_all add: restart_fields_transfer restart_fields_data,
      simp_all add: restart_fields_def fr_set_announce_tx_counter_def fr_set_blast_complete_tx_counter_def
        fr_register_handler_def fr_set_max_chunk_size_def fr_set_local_mac_def split: option.split)
  then show ?thesis using restart_budget_fields by (metis le_add1)
qed

lemma restart_budget_run:
  assumes P: "partition_bounded P"
  shows "fr_ok s \<Longrightarrow> verified md5 s \<Longrightarrow>
    restart_budget (fr_run (flash_handler md5 P) ofh_set_max_chunk_size evs s)
      \<le> restart_budget s + verified_phases md5 (flash_handler md5 P) evs s"
proof (induction evs arbitrary: s)
  case (Cons ev evs)
  let ?H = "flash_handler md5 P"
  let ?t = "fr_step ?H ofh_set_max_chunk_size ev s"
  have "fr_ok ?t" by (rule bounded_handler.ok_step [OF flash_bounded [OF P] Cons.prems(1)])
  moreover have "verified md5 ?t" by (rule verified_step [OF Cons.prems])
  ultimately have "restart_budget (fr_run ?H ofh_set_max_chunk_size evs ?t)
      \<le> restart_budget ?t + verified_phases md5 ?H evs ?t"
    by (rule Cons.IH)
  then show ?case using restart_budget_step [OF Cons.prems, of ?H ev] by (simp add: fr_run_def Let_def)
qed (simp add: fr_run_def)

text \<open>
  C3: No restart into an unverified image. Whatever was received and from whom, and however the
  receiver is called: while it is in its completion phase, the digest of all bytes accepted by the
  flash is the announced one and their number is the announced file size; and the restarts it has
  made, together with the one it has scheduled, are at most as many as the timer calls that ended the
  completion phase of such a verified image. An aborted or failed transfer and a completion phase
  that is left in another way lead to no restart.
\<close>

theorem restart_only_verified:
  assumes "partition_bounded P" and "s = fr_run (flash_handler md5 P) ofh_set_max_chunk_size evs (FileReceiver_init (ofh_init p))"
  shows "(fr_in_complete_phase s \<longrightarrow> image_verified md5 s)
    \<and> fr_restarts s + (if fr_restart_pending s then 1 else 0)
      \<le> verified_phases md5 (flash_handler md5 P) evs (FileReceiver_init (ofh_init p))"
proof -
  let ?s0 = "FileReceiver_init (ofh_init p)"
  have ok0: "fr_ok ?s0" by (rule bounded_handler.ok_init [OF flash_bounded [OF assms(1), of md5]])
  have v0: "verified md5 ?s0" by (simp add: verified_def FileReceiver_init_def)
  have ok: "fr_ok s" unfolding assms(2) by (rule bounded_handler.ok_run [OF flash_bounded [OF assms(1)] ok0])
  have "verified md5 s" unfolding assms(2) by (rule verified_run [OF assms(1) ok0 v0])
  moreover have "restart_budget s \<le> verified_phases md5 (flash_handler md5 P) evs ?s0"
  proof -
    have "restart_budget ?s0 = 0" by (simp add: restart_budget_def FileReceiver_init_def)
    then show ?thesis using restart_budget_run [OF assms(1) ok0 v0, of evs] assms(2) by simp
  qed
  ultimately show ?thesis using complete_phase_verified [OF ok] by (simp add: restart_budget_def)
qed

text \<open>The completed sample transfer is in its completion phase, and nothing is scheduled yet.\<close>

theorem restart_only_verified_witness:
  "image_verified demo_md5 (fr_run (flash_handler demo_md5 host_platform) ofh_set_max_chunk_size
       (demo_events @ [EvFileTransfer 16 [1]]) demo_start)
   \<and> \<not> fr_restart_pending (fr_run (flash_handler demo_md5 host_platform) ofh_set_max_chunk_size
       (demo_events @ [EvFileTransfer 16 [1]]) demo_start)"
proof -
  have "verified_phases demo_md5 (flash_handler demo_md5 host_platform) (demo_events @ [EvFileTransfer 16 [1]]) demo_start = 0"
    by code_simp
  then show ?thesis
    using restart_only_verified [OF host_bounded refl, of demo_md5 "demo_events @ [EvFileTransfer 16 [1]]" "()"] demo_complete
    by (auto split: if_splits)
qed

section \<open>The completion phase\<close>

text \<open>
  The acknowledgements of the completion phase: \<open>n\<close> times the announcement's COMPLETE with the
  action and SUCCESS, provided the receiver was given a function to send them with.
\<close>

definition complete_acks :: "'h fr \<Rightarrow> nat \<Rightarrow> bytes list" where
  "complete_acks s n =
     (if fr_send_ack_fn s = None then []
      else replicate n (c_enc espnow_ack_codec
             \<lparr>ack_ack_type = packet_code PKT_FILE_TRANSFER, ack_result = ESPNOW_FILE_ACK_COMPLETE,
              ack_ref_tx_counter = fr_announce_tx_counter s\<rparr>
           @ [fr_complete_action s, ESPNOW_FILE_COMPLETE_SUCCESS]))"

lemma send_complete:
  "fst (fr_send_ack_complete (fr_complete_action s) ESPNOW_FILE_COMPLETE_SUCCESS s)
    = s\<lparr>fr_sent := fr_sent s @ complete_acks s 1\<rparr>"
  by (cases "fr_send_ack_fn s") (simp_all add: fr_sends fr_send_ack_def complete_acks_def Let_def)

text \<open>One timer call of the completion phase.\<close>

lemma complete_phase_step:
  assumes ok: "fr_ok s" and ph: "fr_in_complete_phase s" and np: "\<not> fr_restart_pending s"
    and due: "1000 \<le> now - fr_next_complete_ack_ms s"
    and t_def: "t = fr_loop H now s"
  shows "if fr_complete_ack_remaining s = 1
    then fr_state t = FR_IDLE \<and> fr_restart_pending t \<and> fr_restart_due_ms t = now + kRestartDelayMs
    else fr_ok t \<and> fr_in_complete_phase t \<and> \<not> fr_restart_pending t \<and> fr_next_complete_ack_ms t = now
      \<and> fr_complete_ack_remaining t = fr_complete_ack_remaining s - 1"
    and "fr_sent t = fr_sent s @ complete_acks s 1"
    and "fr_send_ack_fn t = fr_send_ack_fn s"
    and "fr_complete_ack_remaining s \<noteq> 1 \<Longrightarrow> fr_announce_tx_counter t = fr_announce_tx_counter s
      \<and> fr_complete_action t = fr_complete_action s"
proof -
  have r: "0 < fr_complete_ack_remaining s" "fr_complete_ack_remaining s \<le> 5"
    using ok ph fr_okD(3) [OF ok] by (auto simp: fr_ok_def)
  let ?m = "fr_complete_ack_remaining s - 1"
  have um: "unat ?m = unat (fr_complete_ack_remaining s) - 1" "unat ?m \<le> 4"
    using r by (simp_all add: unat_sub_if_size word_less_nat_alt word_le_nat_alt)
  have sm: "sint ?m \<le> 0 \<longleftrightarrow> ?m = 0"
  proof -
    have inv: "w = of_nat k" if "unat w = k" for w :: u8 and k using that by (metis of_nat_unat ucast_id)
    consider "unat ?m = 0" | "unat ?m = 1" | "unat ?m = 2" | "unat ?m = 3" | "unat ?m = 4" using um(2) by linarith
    then show ?thesis by cases (auto dest!: inv)
  qed
  have one: "?m = 0 \<longleftrightarrow> fr_complete_ack_remaining s = 1" by simp
  have res: "fr_complete_result s = ESPNOW_FILE_COMPLETE_SUCCESS"
    using ok ph fr_okD(3) [OF ok] by (auto simp: fr_ok_def)
  define xs where "xs = fr_sent s @ complete_acks s 1"
  have xs: "fst (fr_send_ack_complete (fr_complete_action s) (fr_complete_result s) s) = s\<lparr>fr_sent := xs\<rparr>"
    unfolding res xs_def by (rule send_complete)
  have l: "t = (if ?m = 0 then (fr_schedule_restart now (fr_reset (s\<lparr>fr_sent := xs, fr_complete_ack_remaining := ?m, fr_next_complete_ack_ms := now\<rparr>)))\<lparr>fr_in_complete_phase := False\<rparr>
      else s\<lparr>fr_sent := xs, fr_complete_ack_remaining := ?m, fr_next_complete_ack_ms := now\<rparr>)"
    using ph np due xs sm by (simp add: t_def fr_loop_def fr_perform_restart_if_due_def Let_def)
  have "fr_ok t" unfolding t_def by (rule fr_ok_loop [OF ok])
  show "fr_sent t = fr_sent s @ complete_acks s 1" "fr_send_ack_fn t = fr_send_ack_fn s"
    using l by (simp_all add: fr_schedule_restart_def fr_reset_def xs_def)
  show "fr_announce_tx_counter t = fr_announce_tx_counter s \<and> fr_complete_action t = fr_complete_action s"
    if "fr_complete_ack_remaining s \<noteq> 1" using l one that by simp
  show "if fr_complete_ack_remaining s = 1
    then fr_state t = FR_IDLE \<and> fr_restart_pending t \<and> fr_restart_due_ms t = now + kRestartDelayMs
    else fr_ok t \<and> fr_in_complete_phase t \<and> \<not> fr_restart_pending t \<and> fr_next_complete_ack_ms t = now
      \<and> fr_complete_ack_remaining t = fr_complete_ack_remaining s - 1"
  proof (cases "fr_complete_ack_remaining s = 1")
    case True
    then show ?thesis using one ph np l by (simp add: fr_schedule_restart_def)
  next
    case False
    then have "t = s\<lparr>fr_sent := xs, fr_complete_ack_remaining := ?m, fr_next_complete_ack_ms := now\<rparr>"
      using one l by simp
    then have "fr_in_complete_phase t \<and> \<not> fr_restart_pending t \<and> fr_next_complete_ack_ms t = now
        \<and> fr_complete_ack_remaining t = ?m"
      using ph np by simp
    then show ?thesis using False \<open>fr_ok t\<close> by simp
  qed
qed

text \<open>Timer calls at least a second apart, the first at least a second after \<open>t0\<close>.\<close>

fun spaced :: "u32 \<Rightarrow> u32 list \<Rightarrow> bool" where
  "spaced t0 [] \<longleftrightarrow> True"
| "spaced t0 (t # ts) \<longleftrightarrow> kCompleteAckIntervalMs \<le> t - t0 \<and> spaced t ts"

lemma complete_phase_run:
  assumes "fr_ok s" and "fr_in_complete_phase s" and "\<not> fr_restart_pending s"
    and "ts \<noteq> []" and "length ts = unat (fr_complete_ack_remaining s)" and "spaced (fr_next_complete_ack_ms s) ts"
    and "s' = fold (fr_loop H) ts s"
  shows "fr_state s' = FR_IDLE \<and> fr_restart_pending s' \<and> fr_restart_due_ms s' = last ts + kRestartDelayMs
    \<and> fr_sent s' = fr_sent s @ complete_acks s (length ts)"
  using assms
proof (induction ts arbitrary: s)
  case (Cons t ts)
  let ?t = "fr_loop H t s"
  have due: "1000 \<le> t - fr_next_complete_ack_ms s" using Cons.prems(6) by simp
  note step = complete_phase_step [OF Cons.prems(1-3) due refl, of H]
  show ?case
  proof (cases "fr_complete_ack_remaining s = 1")
    case True
    then have "ts = []" using Cons.prems(5) by simp
    then show ?thesis using step(1,2) True Cons.prems(7) by simp
  next
    case False
    have pos: "0 < unat (fr_complete_ack_remaining s)" using Cons.prems(5) by (metis length_Cons zero_less_Suc)
    then have "unat (fr_complete_ack_remaining s - 1) = length ts"
      using Cons.prems(5) by (subst unat_sub_small) simp_all
    then have len: "length ts = unat (fr_complete_ack_remaining ?t)" using step False by simp
    have "unat (fr_complete_ack_remaining s) \<noteq> 1" using False by (metis of_nat_1 of_nat_unat ucast_id)
    then have "ts \<noteq> []" using Cons.prems(5) by auto
    moreover have "complete_acks s (length (t # ts)) = complete_acks s 1 @ complete_acks ?t (length ts)"
      using step(3) step(4) [OF False] by (simp add: complete_acks_def)
    ultimately show ?thesis using Cons.IH [of ?t] step(1,2) False len Cons.prems(6,7) by simp
  qed
qed simp

text \<open>
  C8: A successful update is reported and followed by a restart: from the completion phase, as many
  timer calls a second apart as acknowledgements are left (at most five) send one COMPLETE
  acknowledgement each, with the action and SUCCESS (when a sending function is set; nothing else is
  sent), and end the phase with the receiver idle and a restart scheduled a quarter of a second
  later, and any timer call after that moment restarts exactly once.
\<close>

theorem complete_phase_restarts:
  assumes "fr_ok s" and "fr_in_complete_phase s" and "\<not> fr_restart_pending s"
    and "length ts = unat (fr_complete_ack_remaining s)" and "spaced (fr_next_complete_ack_ms s) ts"
    and "s' = fold (fr_loop H) ts s" and "unat (now - (last ts + kRestartDelayMs)) < 2 ^ 31"
  shows "fr_sent s' = fr_sent s @ complete_acks s (unat (fr_complete_ack_remaining s))
    \<and> fr_state s' = FR_IDLE \<and> fr_restart_pending s' \<and> fr_restart_due_ms s' = last ts + kRestartDelayMs
    \<and> fr_restarts (fr_loop H now s') = fr_restarts s' + 1 \<and> \<not> fr_restart_pending (fr_loop H now s')"
proof -
  have "0 < fr_complete_ack_remaining s"
    using assms(1,2) fr_okD(3) [OF assms(1)] by (auto simp: fr_ok_def)
  then have "ts \<noteq> []" using assms(4) by (auto simp: word_less_nat_alt)
  then have r: "fr_state s' = FR_IDLE \<and> fr_restart_pending s' \<and> fr_restart_due_ms s' = last ts + kRestartDelayMs
      \<and> fr_sent s' = fr_sent s @ complete_acks s (length ts)"
    by (rule complete_phase_run [OF assms(1-3) _ assms(4-6)])
  have "fr_ok s'" unfolding assms(6)
  proof -
    show "fr_ok (fold (fr_loop H) ts s)" using assms(1) by (induction ts arbitrary: s) (simp_all add: fr_ok_loop)
  qed
  then have ph: "\<not> fr_in_complete_phase s'" using fr_okD(3) [OF \<open>fr_ok s'\<close>] r by simp
  have "\<not> sint (now - (last ts + kRestartDelayMs)) < 0"
  proof -
    have "\<not> bit (unat (now - (last ts + kRestartDelayMs))) 31"
      using assms(7) by (simp add: bit_iff_odd)
    then have "\<not> bit (now - (last ts + kRestartDelayMs)) 31" by (simp add: bit_unsigned_iff)
    then show ?thesis using bit_last_iff [of "now - (last ts + kRestartDelayMs)"] by simp
  qed
  then show ?thesis using r ph assms(4) by (simp add: fr_loop_def fr_perform_restart_if_due_def Let_def)
qed

text \<open>The completion phase of the sample transfer.\<close>

abbreviation (input) demo_finished :: "unit ofh fr" where
  "demo_finished \<equiv> fr_run (flash_handler demo_md5 host_platform) ofh_set_max_chunk_size
     (demo_events @ [EvFileTransfer 16 [1]]) demo_start"

lemma demo_finished_ok: "fr_ok demo_finished"
  by (rule host.ok_run [OF host.ok_init])

theorem complete_phase_restarts_witness:
  "fr_restarts (fr_loop (flash_handler demo_md5 host_platform) 6000
     (fold (fr_loop (flash_handler demo_md5 host_platform)) [1100, 2200, 3300, 4400, 5500] demo_finished))
   = fr_restarts (fold (fr_loop (flash_handler demo_md5 host_platform)) [1100, 2200, 3300, 4400, 5500] demo_finished) + 1
   \<and> fr_sent (fold (fr_loop (flash_handler demo_md5 host_platform)) [1100, 2200, 3300, 4400, 5500] demo_finished)
     = fr_sent demo_finished @ complete_acks demo_finished 5"
proof -
  have "fr_in_complete_phase demo_finished" "\<not> fr_restart_pending demo_finished"
    "length [1100, 2200, 3300, 4400, 5500 :: u32] = unat (fr_complete_ack_remaining demo_finished)"
    "spaced (fr_next_complete_ack_ms demo_finished) [1100, 2200, 3300, 4400, 5500]"
    "fr_complete_ack_remaining demo_finished = 5"
    by code_simp+
  then show ?thesis using complete_phase_restarts [OF demo_finished_ok _ _ _ _ refl, of "[1100, 2200, 3300, 4400, 5500]" 6000]
    by simp
qed

text \<open>A flash driver whose second write fails once while every other write succeeds.\<close>

definition flaky_platform :: "nat ota_platform" where
  "flaky_platform =
     \<lparr>esp_ota_get_next_update_partition = (\<lambda>_. Some (4 * 1024 * 1024)),
      esp_ota_begin = (\<lambda>part sz p. (p, True, 1)),
      heap_caps_get_largest_free_block = (\<lambda>_. 65536),
      esp_ota_write = (\<lambda>h data p. (p + 1, p \<noteq> 1)),
      esp_ota_end = (\<lambda>h p. (p, True)),
      esp_ota_set_boot_partition = (\<lambda>part p. (p, True)),
      esp_ota_abort = (\<lambda>h p. p)\<rparr>"

abbreviation (input) flaky_start :: "nat ofh fr" where "flaky_start \<equiv> FileReceiver_init (ofh_init 0)"

abbreviation (input) flaky_end :: "nat ofh fr" where
  "flaky_end \<equiv> fr_run (flash_handler demo_md5 flaky_platform) ofh_set_max_chunk_size demo_events flaky_start"

lemma flaky_end_facts:
  "honest_run (flash_handler demo_md5 flaky_platform) ofh_set_max_chunk_size [233, 7] demo_events flaky_start"
  "ofh_md5_data (fr_objects flaky_end 0) = [233, 233, 7]"
  "ofh_total_written (fr_objects flaky_end 0) = 3"
  by code_simp+

abbreviation (input) demo_waiting_end :: "unit ofh fr" where
  "demo_waiting_end \<equiv> fr_run (flash_handler demo_md5 host_platform) ofh_set_max_chunk_size demo_events demo_start"

text \<open>
  One flash write that fails once makes a complete, honest transfer end in an error: the repeated
  attempt starts again from the first chunk of the increment although the handler appends, so the
  two-byte image is written as three bytes and the END packet is answered with WRITE_ERROR (the last
  acknowledgement sent), the restart is not scheduled.
\<close>

theorem failed_write_duplicates_prefix:
  "ofh_md5_data (fr_objects flaky_end 0) = [233] @ [233, 7] \<and> fr_state flaky_end = FR_WAITING_END
   \<and> last (last (fr_sent (fr_run (flash_handler demo_md5 flaky_platform) ofh_set_max_chunk_size
        (demo_events @ [EvFileTransfer 16 [1]]) flaky_start))) = ESPNOW_FILE_COMPLETE_WRITE_ERROR
   \<and> \<not> fr_restart_pending (fr_run (flash_handler demo_md5 flaky_platform) ofh_set_max_chunk_size
        (demo_events @ [EvFileTransfer 16 [1]]) flaky_start)"
  by (intro conjI; code_simp)

text \<open>
  Once the last increment is on flash the receiver no longer answers BLAST_COMPLETE: the packet
  is reported as not handled and nothing is sent, yet it counts as activity, so a sender that missed
  the last acknowledgement and repeats its question keeps the receiver waiting for END.
\<close>

theorem waiting_end_ignores_blast_complete:
  assumes "fr_state s = FR_WAITING_END" and "fr_active_handler s \<noteq> None" and "length inc = 2"
    and "\<not> (fr_in_complete_phase s \<or> fr_restart_pending s)"
  shows "fr_handle_file_transfer H now (ESPNOW_FILE_PHASE_BLAST_COMPLETE # inc) s = (s\<lparr>fr_last_activity_ms := now\<rparr>, False)
    \<and> (now' - now \<le> ESPNOW_RADIO_SILENCE_ABORT_MS \<longrightarrow>
        fr_loop H now' (fst (fr_handle_file_transfer H now (ESPNOW_FILE_PHASE_BLAST_COMPLETE # inc) s))
        = s\<lparr>fr_last_activity_ms := now\<rparr>)"
proof -
  have h: "fr_handle_file_transfer H now (ESPNOW_FILE_PHASE_BLAST_COMPLETE # inc) s = (s\<lparr>fr_last_activity_ms := now\<rparr>, False)"
    using assms by (auto simp: fr_handle_file_transfer_def fr_handle_blast_complete_def Let_def split: option.splits)
  show ?thesis
    using assms by (auto simp: h fr_loop_def fr_perform_restart_if_due_def Let_def not_less)
qed

theorem waiting_end_ignores_blast_complete_witness:
  "\<not> snd (fr_handle_file_transfer (flash_handler demo_md5 host_platform) 20 [3, 0, 0] demo_waiting_end)"
proof -
  have "fr_state demo_waiting_end = FR_WAITING_END" "\<not> Option.is_none (fr_active_handler demo_waiting_end)"
    "\<not> (fr_in_complete_phase demo_waiting_end \<or> fr_restart_pending demo_waiting_end)"
    by code_simp+
  then show ?thesis
    using waiting_end_ignores_blast_complete [of demo_waiting_end "[0, 0]" "flash_handler demo_md5 host_platform" 20]
    by (simp add: Option.is_none_def)
qed

end
