(* ===== verification/BridgeOta.thy ===== *)
theory BridgeOta
  imports Payloads
begin

text \<open>
  The sending side of a file transfer
  (\<^verbatim>\<open>esp_tree_bridge/bridge_ota_manager.cpp\<close>, class \<^verbatim>\<open>ESPNowOTAManager\<close>).
  The bridge announces a file, asks the host for the chunks of one increment after the other, sends
  them to the remote without waiting, asks with BLAST_COMPLETE which ones arrived, repeats the
  missing ones and finally sends END.

  The class is the record \<open>bo\<close>, its methods functions on it that return the new state and the C++
  result. \<^verbatim>\<open>send_frame_fn_\<close> is a function of everything sent before, so it may fail at any
  point; all frames handed to it are recorded in \<open>bo_sent\<close>. \<^verbatim>\<open>millis()\<close> is the
  argument \<open>now\<close>, read once per public call; the mutex makes each public call atomic. A
  \<^verbatim>\<open>std::set\<close> is a set, a pointer with its length an optional byte string. The ESP-IDF
  error codes are known only by the comparisons the code makes.
\<close>

section \<open>Reasons as text\<close>

definition reject_reason_to_string :: "u8 \<Rightarrow> string" where
  "reject_reason_to_string reason = (
     if reason = ESPNOW_FILE_REJECT_BUSY then ''busy'' else
     if reason = ESPNOW_FILE_REJECT_NO_SPACE then ''no_space'' else
     if reason = ESPNOW_FILE_REJECT_UNSUPPORTED then ''unsupported_action'' else
     if reason = ESPNOW_FILE_REJECT_ALREADY then ''already_receiving'' else
     if reason = ESPNOW_FILE_REJECT_DEEP_SLEEP then ''deep_sleep'' else
     if reason = ESPNOW_FILE_REJECT_CHIP_MISMATCH then ''chip_mismatch'' else
     ''reject_unknown'')"

definition complete_result_to_string :: "u8 \<Rightarrow> string" where
  "complete_result_to_string result = (
     if result = ESPNOW_FILE_COMPLETE_SUCCESS then ''success'' else
     if result = ESPNOW_FILE_COMPLETE_MD5_MISMATCH then ''md5_mismatch'' else
     if result = ESPNOW_FILE_COMPLETE_FLASH_ERROR then ''flash_error'' else
     if result = ESPNOW_FILE_COMPLETE_WRITE_ERROR then ''write_error'' else
     if result = ESPNOW_FILE_COMPLETE_ABORTED then ''aborted'' else
     ''complete_unknown'')"

section \<open>The increment tracker\<close>

record increment_tracker =
  it_current_increment :: u16
  it_total_increments :: u16
  it_chunks_per_increment :: u16
  it_chunks_in_last_increment :: u16
  it_total_chunks :: u32
  it_buffer_size_kb :: u16
  it_retransmit_round :: u8
  it_blast_complete_retries :: u8
  it_blast_complete_sent_ms :: u32
  it_last_blast_complete_tx_counter :: u32
  it_blast_complete_tx_history :: "u32 list"
  it_received_bitmap :: bytes
  it_gap_sequences :: "u32 set"
  it_requested_sequences :: "u32 set"
  it_sent_sequences :: "u32 set"
  it_last_remote_activity_ms :: u32

text \<open>Every field is assigned by \<^verbatim>\<open>reset\<close>; it also gives the initial values.\<close>

definition it_reset :: increment_tracker where
  "it_reset = \<lparr>it_current_increment = 0, it_total_increments = 0, it_chunks_per_increment = 0,
     it_chunks_in_last_increment = 0, it_total_chunks = 0, it_buffer_size_kb = ESPNOW_MAX_INCREMENT_KB,
     it_retransmit_round = 0, it_blast_complete_retries = 0, it_blast_complete_sent_ms = 0,
     it_last_blast_complete_tx_counter = 0, it_blast_complete_tx_history = [], it_received_bitmap = [],
     it_gap_sequences = {}, it_requested_sequences = {}, it_sent_sequences = {},
     it_last_remote_activity_ms = 0\<rparr>"

definition it_is_last_increment :: "increment_tracker \<Rightarrow> bool" where
  "it_is_last_increment t \<longleftrightarrow> (ucast (it_total_increments t) :: u32) \<le> ucast (it_current_increment t) + 1"

definition it_chunks_in_this_increment :: "increment_tracker \<Rightarrow> u16" where
  "it_chunks_in_this_increment t =
     (if it_is_last_increment t then it_chunks_in_last_increment t else it_chunks_per_increment t)"

definition it_increment_start_seq :: "increment_tracker \<Rightarrow> u32" where
  "it_increment_start_seq t = ucast (it_current_increment t) * ucast (it_chunks_per_increment t)"

definition it_increment_end_seq :: "increment_tracker \<Rightarrow> u32" where
  "it_increment_end_seq t =
     min (it_increment_start_seq t + ucast (it_chunks_in_this_increment t)) (it_total_chunks t)"

section \<open>The manager\<close>

record bo_config =
  cfg_global_timeout_ms :: u32
  cfg_no_mem_backoff_ms :: u32
  cfg_max_no_mem_backoff_ms :: u32
  cfg_tx_cooldown_ms :: u32

definition bo_default_config :: bo_config where
  "bo_default_config = \<lparr>cfg_global_timeout_ms = 900000, cfg_no_mem_backoff_ms = 5,
     cfg_max_no_mem_backoff_ms = 250, cfg_tx_cooldown_ms = 2\<rparr>"

datatype bo_state_t =
    BO_IDLE | BO_ANNOUNCING | BO_BLASTING | BO_WAITING_GAPS | BO_ENDING | BO_ABORTING | BO_COMPLETE | BO_FAILED

datatype esp_err_t = ESP_OK | ESP_ERR_ESPNOW_NO_MEM | ESP_ERR_NOT_FOUND | ESP_ERR_other

type_synonym sent_frame = "bytes \<times> u8 \<times> bytes"
type_synonym send_frame_fn_t = "sent_frame list \<Rightarrow> bytes \<Rightarrow> u8 \<Rightarrow> bytes \<Rightarrow> esp_err_t \<times> u32"

record QueuedChunk =
  qc_sequence :: u32
  qc_data :: bytes

record bo =
  bo_config :: bo_config
  bo_send_frame_fn :: "send_frame_fn_t option"
  bo_target_reachable_fn :: "(bytes \<Rightarrow> bool) option"
  bo_state :: bo_state_t
  bo_tracker :: increment_tracker
  bo_leaf_mac :: bytes
  bo_md5 :: bytes
  bo_file_id :: bytes
  bo_last_error :: string
  bo_file_size :: u32
  bo_transfer_started_ms :: u32
  bo_last_activity_ms :: u32
  bo_last_control_send_ms :: u32
  bo_announce_tx_counter :: u32
  bo_no_mem_backoff_until_ms :: u32
  bo_last_chunk_send_ms :: u32
  bo_requested_chunk_size :: u16
  bo_negotiated_chunk_size :: u16
  bo_max_encrypted_plaintext :: u16
  bo_action :: u8
  bo_control_attempt_count :: u8
  bo_progress_pct :: u8
  bo_consecutive_no_mem_errors :: u8
  bo_public_busy :: bool
  bo_public_progress_pct :: u8
  bo_public_state :: string
  bo_status_leaf_mac :: bytes
  bo_pending_chunks :: "QueuedChunk list"
  bo_sent :: "sent_frame list"

definition ESPNowOTAManager_init :: "bo_config \<Rightarrow> bo" where
  "ESPNowOTAManager_init config =
     \<lparr>bo_config = config, bo_send_frame_fn = None, bo_target_reachable_fn = None, bo_state = BO_IDLE,
      bo_tracker = it_reset, bo_leaf_mac = replicate 6 0, bo_md5 = replicate 16 0, bo_file_id = [],
      bo_last_error = [], bo_file_size = 0, bo_transfer_started_ms = 0, bo_last_activity_ms = 0,
      bo_last_control_send_ms = 0, bo_announce_tx_counter = 0, bo_no_mem_backoff_until_ms = 0,
      bo_last_chunk_send_ms = 0, bo_requested_chunk_size = 0, bo_negotiated_chunk_size = 0,
      bo_max_encrypted_plaintext = 0, bo_action = 0, bo_control_attempt_count = 0, bo_progress_pct = 0,
      bo_consecutive_no_mem_errors = 0, bo_public_busy = False, bo_public_progress_pct = 0,
      bo_public_state = ''IDLE'', bo_status_leaf_mac = replicate 6 0, bo_pending_chunks = [], bo_sent = []\<rparr>"

definition bo_is_busy :: "bo \<Rightarrow> bool" where
  "bo_is_busy s \<longleftrightarrow> bo_state s \<noteq> BO_IDLE"

definition bo_reset :: "bo \<Rightarrow> bo" where
  "bo_reset s = s\<lparr>bo_state := BO_IDLE, bo_tracker := it_reset, bo_pending_chunks := [], bo_file_size := 0,
     bo_transfer_started_ms := 0, bo_last_activity_ms := 0, bo_last_control_send_ms := 0,
     bo_announce_tx_counter := 0, bo_no_mem_backoff_until_ms := 0, bo_last_chunk_send_ms := 0,
     bo_requested_chunk_size := 0, bo_negotiated_chunk_size := 0, bo_action := 0,
     bo_control_attempt_count := 0, bo_progress_pct := 0, bo_consecutive_no_mem_errors := 0,
     bo_file_id := [], bo_leaf_mac := replicate 6 0, bo_md5 := replicate 16 0\<rparr>"

definition bo_target_reachable :: "bo \<Rightarrow> bool" where
  "bo_target_reachable s =
     (case bo_target_reachable_fn s of None \<Rightarrow> True | Some f \<Rightarrow> f (bo_leaf_mac s))"

definition bo_same_leaf :: "bytes option \<Rightarrow> bo \<Rightarrow> bool" where
  "bo_same_leaf leaf_mac s = (case leaf_mac of None \<Rightarrow> False | Some mac \<Rightarrow> bo_leaf_mac s = take 6 mac)"

definition bo_clamp_chunk_size :: "u16 \<Rightarrow> u16" where
  "bo_clamp_chunk_size remote_max_frame_payload =
     (if unat remote_max_frame_payload \<le> ESPNOW_FILE_DATA_HEADER_OVERHEAD then 0
      else remote_max_frame_payload - of_nat ESPNOW_FILE_DATA_HEADER_OVERHEAD)"

definition bo_expected_chunk_len :: "u32 \<Rightarrow> bo \<Rightarrow> u32" where
  "bo_expected_chunk_len sequence s =
     (if bo_negotiated_chunk_size s = 0 \<or> it_total_chunks (bo_tracker s) \<le> sequence then 0
      else
        (let offset = ucast sequence * ucast (bo_negotiated_chunk_size s) :: u64 in
         if ucast (bo_file_size s) \<le> offset then 0
         else ucast (min (ucast (bo_file_size s) - offset) (ucast (bo_negotiated_chunk_size s)))))"

section \<open>Backing off when the radio queue is full\<close>

definition bo_mark_no_mem_backoff :: "u32 \<Rightarrow> bo \<Rightarrow> bo" where
  "bo_mark_no_mem_backoff now s =
     (let errors = bo_consecutive_no_mem_errors s + 1;
          shift = min (errors - 1) 7;
          limit = cfg_max_no_mem_backoff_ms (bo_config s);
          backoff_ms = cfg_no_mem_backoff_ms (bo_config s);
          backoff_ms = (if 0 < shift then ucast (min (push_bit (unat shift) (ucast backoff_ms :: u64)) (ucast limit))
                        else backoff_ms)
      in s\<lparr>bo_consecutive_no_mem_errors := errors, bo_no_mem_backoff_until_ms := now + min backoff_ms limit\<rparr>)"

definition bo_decay_no_mem_backoff :: "bo \<Rightarrow> bo" where
  "bo_decay_no_mem_backoff s =
     (if 0 < bo_consecutive_no_mem_errors s
      then (let s = s\<lparr>bo_consecutive_no_mem_errors := bo_consecutive_no_mem_errors s div 2\<rparr>
            in if bo_consecutive_no_mem_errors s = 0 then s\<lparr>bo_no_mem_backoff_until_ms := 0\<rparr> else s)
      else s)"

definition bo_clear_no_mem_backoff :: "bo \<Rightarrow> bo" where
  "bo_clear_no_mem_backoff s = s\<lparr>bo_consecutive_no_mem_errors := 0, bo_no_mem_backoff_until_ms := 0\<rparr>"

section \<open>Sending\<close>

text \<open>
  A call of \<^verbatim>\<open>send_frame_fn_\<close>. It is set before a transfer can start and only to a
  function, so the last case does not arise while busy.
\<close>

definition bo_call_send :: "espnow_packet_type \<Rightarrow> bytes \<Rightarrow> bo \<Rightarrow> bo \<times> esp_err_t \<times> u32" where
  "bo_call_send type payload s =
     (case bo_send_frame_fn s of
        Some send \<Rightarrow> (s\<lparr>bo_sent := bo_sent s @ [(bo_leaf_mac s, packet_code type, payload)]\<rparr>,
                      send (bo_sent s) (bo_leaf_mac s) (packet_code type) payload)
      | None \<Rightarrow> (s, ESP_ERR_other, 0))"

definition bo_send_abort :: "u32 \<Rightarrow> u8 \<Rightarrow> bo \<Rightarrow> bo \<times> bool" where
  "bo_send_abort now reason s =
     (if bo_send_frame_fn s = None then (s, False)
      else
        (let abort_packet = \<lparr>fabort_phase = ESPNOW_FILE_PHASE_ABORT, fabort_reason = reason\<rparr> in
         case bo_call_send PKT_FILE_TRANSFER (c_enc espnow_file_abort_codec abort_packet) s of
           (s, err, tx) \<Rightarrow>
             if err = ESP_ERR_ESPNOW_NO_MEM then (bo_mark_no_mem_backoff now s, False)
             else (bo_clear_no_mem_backoff s, err = ESP_OK)))"

definition bo_fail_transfer :: "u32 \<Rightarrow> u8 \<Rightarrow> string \<Rightarrow> bool \<Rightarrow> bo \<Rightarrow> bo" where
  "bo_fail_transfer now abort_reason message notify_remote s =
     (let s = s\<lparr>bo_last_error := message, bo_public_busy := False, bo_public_state := ''FAIL''\<rparr>;
          s = (if notify_remote \<and> bo_state s \<noteq> BO_ABORTING
               then fst (bo_send_abort now abort_reason (s\<lparr>bo_state := BO_ABORTING\<rparr>)) else s)
      in bo_reset s)"

definition bo_send_announce :: "u32 \<Rightarrow> bo \<Rightarrow> bo \<times> bool" where
  "bo_send_announce now s =
     (if bo_state s \<noteq> BO_ANNOUNCING then (s, False)
      else if ESPNOW_FILE_MAX_RETRIES \<le> bo_control_attempt_count s
      then (bo_fail_transfer now ESPNOW_FILE_ABORT_TIMEOUT ''announce retry limit exceeded'' True s, False)
      else
        (let announce = \<lparr>fann_phase = ESPNOW_FILE_PHASE_ANNOUNCE, fann_file_size = bo_file_size s,
               fann_md5 = bo_md5 s, fann_chunk_size = bo_requested_chunk_size s, fann_action = bo_action s,
               fann_file_id = zero_padded 12 (bo_file_id s)\<rparr>
         in case bo_call_send PKT_FILE_TRANSFER (c_enc espnow_file_announce_codec announce) s of
              (s, err, tx_counter) \<Rightarrow>
                if err = ESP_ERR_ESPNOW_NO_MEM then (bo_mark_no_mem_backoff now s, False)
                else
                  (let s = bo_clear_no_mem_backoff s in
                   if err \<noteq> ESP_OK
                   then (bo_fail_transfer now
                           (if err = ESP_ERR_NOT_FOUND then ESPNOW_FILE_ABORT_SESSION_LOST else ESPNOW_FILE_ABORT_SEND_FAILURE)
                           (if err = ESP_ERR_NOT_FOUND then ''target unreachable'' else ''failed to send announce'')
                           False s, False)
                   else (s\<lparr>bo_announce_tx_counter := tx_counter, bo_last_control_send_ms := now,
                           bo_last_activity_ms := now,
                           bo_control_attempt_count := bo_control_attempt_count s + 1\<rparr>, True))))"

text \<open>The last eight transmit counters of BLAST_COMPLETE are remembered.\<close>

definition it_note_blast_complete :: "u32 \<Rightarrow> u32 \<Rightarrow> increment_tracker \<Rightarrow> increment_tracker" where
  "it_note_blast_complete now tx_counter t =
     (let history = it_blast_complete_tx_history t @ [tx_counter];
          history = (if 8 < length history then tl history else history)
      in t\<lparr>it_last_blast_complete_tx_counter := tx_counter, it_blast_complete_tx_history := history,
           it_blast_complete_sent_ms := now, it_blast_complete_retries := it_blast_complete_retries t + 1\<rparr>)"

definition bo_send_blast_complete :: "u32 \<Rightarrow> bo \<Rightarrow> bo \<times> bool" where
  "bo_send_blast_complete now s =
     (let bc = \<lparr>fbc_phase = ESPNOW_FILE_PHASE_BLAST_COMPLETE,
                fbc_increment_index = it_current_increment (bo_tracker s)\<rparr>
      in case bo_call_send PKT_FILE_TRANSFER (c_enc espnow_file_blast_complete_codec bc) s of
           (s, err, tx_counter) \<Rightarrow>
             if err = ESP_ERR_ESPNOW_NO_MEM then (bo_mark_no_mem_backoff now s, False)
             else
               (let s = bo_clear_no_mem_backoff s in
                if err \<noteq> ESP_OK
                then (if err = ESP_ERR_NOT_FOUND
                      then bo_fail_transfer now ESPNOW_FILE_ABORT_SESSION_LOST ''target unreachable during BLAST_COMPLETE'' False s
                      else s, False)
                else (s\<lparr>bo_tracker := it_note_blast_complete now tx_counter (bo_tracker s),
                        bo_last_activity_ms := now\<rparr>, True)))"

definition bo_send_end :: "u32 \<Rightarrow> bo \<Rightarrow> bo \<times> bool" where
  "bo_send_end now s =
     (if bo_state s \<noteq> BO_WAITING_GAPS \<and> bo_state s \<noteq> BO_ENDING then (s, False)
      else if ESPNOW_FILE_MAX_RETRIES \<le> bo_control_attempt_count s
      then (bo_fail_transfer now ESPNOW_FILE_ABORT_TIMEOUT ''end retry limit exceeded'' True s, False)
      else
        case bo_call_send PKT_FILE_TRANSFER (c_enc espnow_file_end_codec \<lparr>fend_phase = ESPNOW_FILE_PHASE_END\<rparr>) s of
          (s, err, tx) \<Rightarrow>
            if err = ESP_ERR_ESPNOW_NO_MEM
            then (bo_fail_transfer now ESPNOW_FILE_ABORT_SEND_FAILURE ''end no mem'' True (bo_mark_no_mem_backoff now s), False)
            else
              (let s = bo_clear_no_mem_backoff s in
               if err \<noteq> ESP_OK
               then (bo_fail_transfer now
                       (if err = ESP_ERR_NOT_FOUND then ESPNOW_FILE_ABORT_SESSION_LOST else ESPNOW_FILE_ABORT_SEND_FAILURE)
                       (if err = ESP_ERR_NOT_FOUND then ''target unreachable'' else ''failed to send end'')
                       (err \<noteq> ESP_ERR_NOT_FOUND) s, False)
               else (s\<lparr>bo_state := BO_ENDING, bo_last_control_send_ms := now, bo_last_activity_ms := now,
                       bo_control_attempt_count := bo_control_attempt_count s + 1\<rparr>, True)))"

definition bo_send_chunk :: "u32 \<Rightarrow> u32 \<Rightarrow> bytes \<Rightarrow> bo \<Rightarrow> bo \<times> bool" where
  "bo_send_chunk now sequence data s =
     (let payload = c_enc espnow_file_data_header_codec \<lparr>fdh_sequence = sequence\<rparr> @ data in
      if unat (bo_max_encrypted_plaintext s) < length payload
      then (bo_fail_transfer now ESPNOW_FILE_ABORT_SEND_FAILURE ''chunk payload exceeds encrypted limit'' True s, False)
      else
        case bo_call_send PKT_FILE_DATA payload s of
          (s, err, tx) \<Rightarrow>
            if err = ESP_ERR_ESPNOW_NO_MEM then (bo_mark_no_mem_backoff now s, False)
            else
              (let s = bo_decay_no_mem_backoff s in
               if err \<noteq> ESP_OK then (s, False)
               else
                 (let s = s\<lparr>bo_last_chunk_send_ms := now, bo_last_activity_ms := now\<rparr> in
                  (if bo_state s = BO_BLASTING
                   then s\<lparr>bo_tracker := (bo_tracker s)\<lparr>it_last_remote_activity_ms := now\<rparr>\<rparr> else s, True))))"

section \<open>Requesting and sending chunks\<close>

fun insert_range :: "u32 list \<Rightarrow> u32 set \<Rightarrow> u32 set" where
  "insert_range [] requested = requested"
| "insert_range (seq # seqs) requested = insert_range seqs (insert seq requested)"

definition it_request_increment_chunks :: "increment_tracker \<Rightarrow> increment_tracker" where
  "it_request_increment_chunks t =
     (if it_retransmit_round t = 0
      then t\<lparr>it_requested_sequences :=
               insert_range (map of_nat [unat (it_increment_start_seq t)..<unat (it_increment_end_seq t)]) {},
             it_sent_sequences := {}\<rparr>
      else t\<lparr>it_requested_sequences := it_gap_sequences t, it_sent_sequences := {}\<rparr>)"

definition bo_request_increment_chunks :: "bo \<Rightarrow> bo" where
  "bo_request_increment_chunks s = s\<lparr>bo_tracker := it_request_increment_chunks (bo_tracker s)\<rparr>"

text \<open>The guards both pumps begin with.\<close>

definition bo_pump_blocked :: "u32 \<Rightarrow> bo \<Rightarrow> bool" where
  "bo_pump_blocked now s \<longleftrightarrow>
     bo_state s \<noteq> BO_BLASTING \<or> now < bo_no_mem_backoff_until_ms s \<or>
     (0 < cfg_tx_cooldown_ms (bo_config s) \<and> 0 < bo_last_chunk_send_ms s
        \<and> now - bo_last_chunk_send_ms s < cfg_tx_cooldown_ms (bo_config s))"

definition bo_pump_blasting :: "u32 \<Rightarrow> bo \<Rightarrow> bo" where
  "bo_pump_blasting now s =
     (if bo_pump_blocked now s then s
      else if it_requested_sequences (bo_tracker s) = {} \<and> it_sent_sequences (bo_tracker s) = {}
              \<and> bo_pending_chunks s = []
      then (bo_request_increment_chunks s)\<lparr>bo_public_state := ''TRANSFERRING''\<rparr>
      else s)"

definition bo_ask_for_gaps :: "u32 \<Rightarrow> bo \<Rightarrow> bo" where
  "bo_ask_for_gaps now s =
     (case bo_send_blast_complete now s of
        (s, ok) \<Rightarrow> if ok then s\<lparr>bo_state := BO_WAITING_GAPS\<rparr> else s)"

definition bo_pump_queued_chunks :: "u32 \<Rightarrow> bo \<Rightarrow> bo" where
  "bo_pump_queued_chunks now s =
     (if bo_pump_blocked now s then s
      else case bo_pending_chunks s of
        [] \<Rightarrow>
          if it_requested_sequences (bo_tracker s) = {} \<and> it_sent_sequences (bo_tracker s) \<noteq> {}
          then bo_ask_for_gaps now s else s
      | qc # _ \<Rightarrow>
          (case bo_send_chunk now (qc_sequence qc) (qc_data qc) s of
             (s, ok) \<Rightarrow>
               if \<not> ok then s
               else
                 (let s = s\<lparr>bo_tracker := (bo_tracker s)
                              \<lparr>it_sent_sequences := insert (qc_sequence qc) (it_sent_sequences (bo_tracker s))\<rparr>,
                            bo_pending_chunks := tl (bo_pending_chunks s)\<rparr>
                  in if bo_pending_chunks s = [] \<and> it_requested_sequences (bo_tracker s) = {}
                     then bo_ask_for_gaps now s else s)))"

section \<open>The host's calls\<close>

text \<open>\<^verbatim>\<open>ota.bin\<close>, and the length of the identifier in the announcement.\<close>

definition bo_default_file_id :: bytes where
  "bo_default_file_id = [111, 116, 97, 46, 98, 105, 110]"

abbreviation (input) FILE_ID_LEN :: nat where "FILE_ID_LEN \<equiv> 12"

definition bo_start_transfer ::
  "u32 \<Rightarrow> bytes option \<Rightarrow> u32 \<Rightarrow> bytes option \<Rightarrow> u8 \<Rightarrow> u16 \<Rightarrow> bytes option \<Rightarrow> bo \<Rightarrow> bo \<times> bool" where
  "bo_start_transfer now leaf_mac sz md5 action remote_max_frame_payload file_id s =
     (case (leaf_mac, md5) of
        (Some mac, Some digest) \<Rightarrow>
          if sz = 0 then (s, False)
          else if bo_is_busy s then (s\<lparr>bo_last_error := ''busy''\<rparr>, False)
          else if bo_send_frame_fn s = None then (s\<lparr>bo_last_error := ''send_frame_fn not configured''\<rparr>, False)
          else if 1073741824 < sz then (s\<lparr>bo_last_error := ''file_size exceeds 1GB limit''\<rparr>, False)
          else
            (let requested_chunk_size = bo_clamp_chunk_size remote_max_frame_payload in
             if requested_chunk_size < 64 then (s\<lparr>bo_last_error := ''remote chunk size below minimum''\<rparr>, False)
             else
               (let s = bo_reset (s\<lparr>bo_max_encrypted_plaintext := espnow_max_plaintext remote_max_frame_payload\<rparr>);
                    fid = (case file_id of None \<Rightarrow> bo_default_file_id | Some f \<Rightarrow> f);
                    s = s\<lparr>bo_leaf_mac := take 6 mac, bo_status_leaf_mac := take 6 mac, bo_md5 := take 16 digest,
                          bo_file_size := sz, bo_requested_chunk_size := requested_chunk_size,
                          bo_negotiated_chunk_size := requested_chunk_size, bo_action := action,
                          bo_file_id := (if FILE_ID_LEN < length fid then take FILE_ID_LEN fid else fid),
                          bo_transfer_started_ms := now, bo_last_activity_ms := now, bo_public_busy := True,
                          bo_public_progress_pct := 0, bo_public_state := ''START_RECEIVED'', bo_last_error := [],
                          bo_state := BO_ANNOUNCING\<rparr>
                in case bo_send_announce now s of
                     (s, ok) \<Rightarrow> (s, \<not> (\<not> ok \<and> bo_state s = BO_IDLE))))
      | _ \<Rightarrow> (s, False))"

definition bo_on_source_chunk :: "u32 \<Rightarrow> bytes option \<Rightarrow> bo \<Rightarrow> bo \<times> bool" where
  "bo_on_source_chunk sequence chunk s =
     (case chunk of
        None \<Rightarrow> (s, False)
      | Some data \<Rightarrow>
          if bo_state s \<noteq> BO_BLASTING then (s, False)
          else if sequence \<notin> it_requested_sequences (bo_tracker s) then (s, False)
          else
            (let expected_len = bo_expected_chunk_len sequence s in
             if expected_len = 0 \<or> length data \<noteq> unat expected_len then (s, False)
             else (s\<lparr>bo_pending_chunks := bo_pending_chunks s @ [\<lparr>qc_sequence = sequence, qc_data = data\<rparr>],
                     bo_tracker := (bo_tracker s)\<lparr>it_requested_sequences := it_requested_sequences (bo_tracker s) - {sequence}\<rparr>\<rparr>,
                   True)))"

definition bo_on_source_abort :: "u32 \<Rightarrow> u8 \<Rightarrow> bo \<Rightarrow> bo" where
  "bo_on_source_abort now reason s =
     (if \<not> bo_is_busy s then s else bo_fail_transfer now reason (abort_reason_to_string reason) True s)"

section \<open>Acknowledgements of the remote\<close>

text \<open>The geometry the bridge derives from an accepted announcement.\<close>

definition it_accept_geometry :: "u32 \<Rightarrow> u32 \<Rightarrow> u16 \<Rightarrow> u8 \<Rightarrow> increment_tracker \<Rightarrow> increment_tracker" where
  "it_accept_geometry now sz negotiated_chunk_size remote_buffer_kb t =
     (let effective_kb = min (ucast remote_buffer_kb) ESPNOW_MAX_INCREMENT_KB;
          increment_data_size = ucast effective_kb * 1024 :: u32;
          cpi = ucast (increment_data_size div ucast negotiated_chunk_size) :: u16;
          cpi = (if cpi = 0 then 1 else cpi);
          total_chunks = sz div ucast negotiated_chunk_size
            + (if sz mod ucast negotiated_chunk_size \<noteq> 0 then 1 else 0) :: u32;
          total_increments = ucast (total_chunks div ucast cpi
            + (if total_chunks mod ucast cpi \<noteq> 0 then 1 else 0)) :: u16;
          total_increments = (if total_increments = 0 then 1 else total_increments);
          last_chunks = ucast (total_chunks - (ucast total_increments - 1) * ucast cpi) :: u16;
          last_chunks = (if last_chunks = 0 then cpi else last_chunks)
      in t\<lparr>it_buffer_size_kb := effective_kb, it_chunks_per_increment := cpi, it_total_chunks := total_chunks,
           it_total_increments := total_increments, it_chunks_in_last_increment := last_chunks,
           it_current_increment := 0, it_retransmit_round := 0, it_blast_complete_retries := 0,
           it_blast_complete_tx_history := [], it_last_remote_activity_ms := now\<rparr>)"

definition bo_handle_accept :: "u32 \<Rightarrow> bytes option \<Rightarrow> bo \<Rightarrow> bo" where
  "bo_handle_accept now ack_trailing s =
     (case ack_trailing of
        None \<Rightarrow> bo_fail_transfer now ESPNOW_FILE_ABORT_SEND_FAILURE ''malformed accept ack'' True s
      | Some trailing \<Rightarrow>
          if length trailing < 4
          then bo_fail_transfer now ESPNOW_FILE_ABORT_SEND_FAILURE ''malformed accept ack'' True s
          else
            (let negotiated_chunk_size = rd16 trailing 0; remote_buffer_kb = trailing ! 2; action = trailing ! 3 in
             if action \<noteq> bo_action s
             then bo_fail_transfer now ESPNOW_FILE_ABORT_SEND_FAILURE ''accept ack action mismatch'' True s
             else if negotiated_chunk_size = 0 \<or> bo_requested_chunk_size s < negotiated_chunk_size
             then bo_fail_transfer now ESPNOW_FILE_ABORT_SEND_FAILURE ''invalid negotiated chunk size'' True s
             else if remote_buffer_kb = 0
             then bo_fail_transfer now ESPNOW_FILE_ABORT_SEND_FAILURE ''remote buffer_size_kb is 0'' True s
             else
               (let s = s\<lparr>bo_negotiated_chunk_size := negotiated_chunk_size,
                          bo_tracker := it_accept_geometry now (bo_file_size s) negotiated_chunk_size remote_buffer_kb (bo_tracker s)\<rparr>
                in if it_total_chunks (bo_tracker s) = 0
                   then bo_fail_transfer now ESPNOW_FILE_ABORT_SEND_FAILURE ''invalid negotiated geometry'' True s
                   else bo_request_increment_chunks
                          (s\<lparr>bo_control_attempt_count := 0, bo_progress_pct := 0, bo_public_progress_pct := 0,
                             bo_public_state := ''TRANSFERRING'', bo_state := BO_BLASTING\<rparr>))))"

text \<open>The percentage after an increment, never 100 before the remote reported success.\<close>

definition bo_increment_progress :: "bo \<Rightarrow> u8" where
  "bo_increment_progress s =
     (let t = bo_tracker s;
          bytes_done = min (ucast (bo_file_size s) :: u64)
            (ucast (ucast (it_current_increment t) + 1 :: u32) * ucast (it_chunks_per_increment t)
               * ucast (bo_negotiated_chunk_size s));
          pct = ucast (min 100 (bytes_done * 100 div ucast (bo_file_size s))) :: u8
      in if 100 \<le> pct then 99 else pct)"

definition it_next_increment :: "increment_tracker \<Rightarrow> increment_tracker" where
  "it_next_increment t = t\<lparr>it_blast_complete_retries := 0, it_blast_complete_tx_history := [],
     it_retransmit_round := 0, it_current_increment := it_current_increment t + 1,
     it_requested_sequences := {}, it_sent_sequences := {}, it_gap_sequences := {}\<rparr>"

definition bitmap_received :: "bytes \<Rightarrow> u16 \<Rightarrow> nat \<Rightarrow> bool" where
  "bitmap_received bitmap bitmap_len i \<longleftrightarrow>
     i div 8 < unat bitmap_len \<and> bitmap ! (i div 8) AND push_bit (i mod 8) 1 \<noteq> 0"

fun collect_gaps :: "bytes \<Rightarrow> u16 \<Rightarrow> u32 \<Rightarrow> nat list \<Rightarrow> u32 set \<Rightarrow> u32 set" where
  "collect_gaps bitmap bitmap_len start [] gaps = gaps"
| "collect_gaps bitmap bitmap_len start (i # is) gaps =
     collect_gaps bitmap bitmap_len start is
       (if bitmap_received bitmap bitmap_len i then gaps else insert (start + of_nat i) gaps)"

text \<open>The tracker after a bitmap in which no chunk is missing.\<close>

definition it_all_received :: "increment_tracker \<Rightarrow> increment_tracker" where
  "it_all_received t = t\<lparr>it_retransmit_round := 0, it_blast_complete_retries := 0, it_requested_sequences := {},
     it_sent_sequences := {}, it_gap_sequences := {}, it_current_increment := it_current_increment t + 1\<rparr>"

definition bo_handle_gaps_bitmap :: "bytes \<Rightarrow> u16 \<Rightarrow> bo \<Rightarrow> bo" where
  "bo_handle_gaps_bitmap bitmap bitmap_len s =
     (let t = bo_tracker s;
          total_inc_chunks = it_chunks_in_this_increment t;
          gaps = collect_gaps bitmap bitmap_len (it_increment_start_seq t) [0..<unat total_inc_chunks] {};
          t = t\<lparr>it_gap_sequences := gaps\<rparr>
      in if gaps = {}
         then bo_request_increment_chunks (s\<lparr>bo_tracker := it_all_received t, bo_state := BO_BLASTING\<rparr>)
         else s\<lparr>bo_tracker := t\<lparr>it_retransmit_round := it_retransmit_round t + 1, it_blast_complete_retries := 0,
                                 it_blast_complete_tx_history := [], it_requested_sequences := gaps,
                                 it_sent_sequences := {}\<rparr>,
                bo_state := BO_BLASTING\<rparr>)"

definition bo_handle_gaps_ack :: "u32 \<Rightarrow> bytes option \<Rightarrow> bo \<Rightarrow> bo" where
  "bo_handle_gaps_ack now ack_trailing s =
     (case ack_trailing of
        None \<Rightarrow> bo_fail_transfer now ESPNOW_FILE_ABORT_SEND_FAILURE ''malformed gaps ack'' True s
      | Some trailing \<Rightarrow>
          if length trailing < 2
          then bo_fail_transfer now ESPNOW_FILE_ABORT_SEND_FAILURE ''malformed gaps ack'' True s
          else
            (let bitmap_len = rd16 trailing 0; bitmap = drop 2 trailing in
             if length trailing < 2 + unat bitmap_len
             then bo_fail_transfer now ESPNOW_FILE_ABORT_SEND_FAILURE ''gaps ack trailing too short'' True s
             else if bitmap_len = 0
             then
               (let pct = bo_increment_progress s; s = s\<lparr>bo_progress_pct := pct, bo_public_progress_pct := pct\<rparr> in
                if it_is_last_increment (bo_tracker s)
                then fst (bo_send_end now (s\<lparr>bo_state := BO_ENDING, bo_control_attempt_count := 0,
                                             bo_public_state := ''VERIFYING''\<rparr>))
                else bo_request_increment_chunks
                       (s\<lparr>bo_tracker := it_next_increment (bo_tracker s), bo_state := BO_BLASTING\<rparr>))
             else if ESPNOW_MAX_RETRANSMIT_ROUNDS \<le> it_retransmit_round (bo_tracker s)
             then bo_fail_transfer now ESPNOW_FILE_ABORT_TIMEOUT ''retransmit rounds exceeded'' True s
             else bo_handle_gaps_bitmap bitmap bitmap_len s))"

definition bo_handle_complete :: "u32 \<Rightarrow> bytes option \<Rightarrow> bo \<Rightarrow> bo" where
  "bo_handle_complete now ack_trailing s =
     (case ack_trailing of
        None \<Rightarrow> bo_fail_transfer now ESPNOW_FILE_ABORT_SEND_FAILURE ''malformed complete ack'' False s
      | Some trailing \<Rightarrow>
          if length trailing < 2
          then bo_fail_transfer now ESPNOW_FILE_ABORT_SEND_FAILURE ''malformed complete ack'' False s
          else if trailing ! 0 \<noteq> bo_action s
          then bo_fail_transfer now ESPNOW_FILE_ABORT_SEND_FAILURE ''complete ack action mismatch'' False s
          else if trailing ! 1 = ESPNOW_FILE_COMPLETE_SUCCESS
          then bo_reset (s\<lparr>bo_progress_pct := 100, bo_public_progress_pct := 100, bo_public_busy := False,
                           bo_public_state := ''SUCCESS'', bo_last_error := [], bo_state := BO_COMPLETE\<rparr>)
          else bo_fail_transfer now ESPNOW_FILE_ABORT_FLASH_ERROR (complete_result_to_string (trailing ! 1)) False s)"

definition bo_handle_reject :: "u32 \<Rightarrow> bytes option \<Rightarrow> bo \<Rightarrow> bo" where
  "bo_handle_reject now ack_trailing s =
     (case ack_trailing of
        None \<Rightarrow> bo_fail_transfer now ESPNOW_FILE_ABORT_SEND_FAILURE ''malformed reject ack'' False s
      | Some trailing \<Rightarrow>
          if length trailing < 2
          then bo_fail_transfer now ESPNOW_FILE_ABORT_SEND_FAILURE ''malformed reject ack'' False s
          else bo_fail_transfer now ESPNOW_FILE_ABORT_SEND_FAILURE (reject_reason_to_string (trailing ! 1)) False s)"

definition bo_handle_abort_ack :: "u32 \<Rightarrow> bytes option \<Rightarrow> bo \<Rightarrow> bo" where
  "bo_handle_abort_ack now ack_trailing s =
     (let reason = (case ack_trailing of None \<Rightarrow> ESPNOW_FILE_ABORT_TIMEOUT
                     | Some trailing \<Rightarrow> if 1 \<le> length trailing then trailing ! 0 else ESPNOW_FILE_ABORT_TIMEOUT)
      in bo_fail_transfer now reason (abort_reason_to_string reason) False s)"

definition bo_on_file_ack :: "u32 \<Rightarrow> bytes option \<Rightarrow> espnow_ack \<Rightarrow> bytes option \<Rightarrow> bo \<Rightarrow> bo \<times> bool" where
  "bo_on_file_ack now leaf_mac ack_header trailing s =
     (if \<not> bo_is_busy s \<or> leaf_mac = None then (s, False)
      else if ack_ack_type ack_header \<noteq> packet_code PKT_FILE_TRANSFER then (s, False)
      else if \<not> bo_same_leaf leaf_mac s then (s, False)
      else
        (let s = s\<lparr>bo_last_activity_ms := now,
                   bo_tracker := (bo_tracker s)\<lparr>it_last_remote_activity_ms := now\<rparr>\<rparr>;
             result = ack_result ack_header in
         if result = ESPNOW_FILE_ACK_ACCEPT then
           (if bo_state s = BO_ANNOUNCING
            then (if ack_ref_tx_counter ack_header \<noteq> bo_announce_tx_counter s then (s, False)
                  else (bo_handle_accept now trailing s, True))
            else (s, True))
         else if result = ESPNOW_FILE_ACK_REJECT then (bo_handle_reject now trailing s, True)
         else if result = ESPNOW_FILE_ACK_GAPS then
           (if bo_state s = BO_WAITING_GAPS
            then (if ack_ref_tx_counter ack_header \<notin> set (it_blast_complete_tx_history (bo_tracker s)) then (s, False)
                  else (bo_handle_gaps_ack now trailing s, True))
            else (s, True))
         else if result = ESPNOW_FILE_ACK_COMPLETE then (bo_handle_complete now trailing s, True)
         else if result = ESPNOW_FILE_ACK_ABORT then (bo_handle_abort_ack now trailing s, True)
         else (s, False)))"

section \<open>The main loop\<close>

definition bo_loop_state :: "u32 \<Rightarrow> bo \<Rightarrow> bo" where
  "bo_loop_state now s =
     (case bo_state s of
        BO_ANNOUNCING \<Rightarrow>
          if bo_control_attempt_count s = 0 \<or> ESPNOW_FILE_ANNOUNCE_TIMEOUT_MS \<le> now - bo_last_control_send_ms s
          then fst (bo_send_announce now s) else s
      | BO_BLASTING \<Rightarrow> bo_pump_queued_chunks now (bo_pump_blasting now s)
      | BO_WAITING_GAPS \<Rightarrow>
          if 0 < it_blast_complete_sent_ms (bo_tracker s)
             \<and> ESPNOW_BLAST_COMPLETE_TIMEOUT_MS \<le> now - it_blast_complete_sent_ms (bo_tracker s)
          then (if ESPNOW_MAX_BLAST_COMPLETE_RETRIES \<le> it_blast_complete_retries (bo_tracker s)
                then bo_fail_transfer now ESPNOW_FILE_ABORT_TIMEOUT ''BLAST_COMPLETE retry limit exceeded'' True s
                else fst (bo_send_blast_complete now s))
          else s
      | BO_ENDING \<Rightarrow>
          if bo_control_attempt_count s = 0 \<or> ESPNOW_FILE_ANNOUNCE_TIMEOUT_MS \<le> now - bo_last_control_send_ms s
          then fst (bo_send_end now s) else s
      | _ \<Rightarrow> s)"

definition bo_loop :: "u32 \<Rightarrow> bo \<Rightarrow> bo" where
  "bo_loop now s =
     (if \<not> bo_is_busy s then s
      else if \<not> bo_target_reachable s
      then bo_fail_transfer now ESPNOW_FILE_ABORT_SESSION_LOST ''target unreachable'' False s
      else if 0 < cfg_global_timeout_ms (bo_config s)
              \<and> cfg_global_timeout_ms (bo_config s) < now - bo_transfer_started_ms s
      then bo_fail_transfer now ESPNOW_FILE_ABORT_TIMEOUT ''transfer global timeout'' True s
      else if now < bo_no_mem_backoff_until_ms s then s
      else if 0 < it_last_remote_activity_ms (bo_tracker s)
              \<and> (bo_state s = BO_BLASTING \<or> bo_state s = BO_WAITING_GAPS)
              \<and> (if bo_state s = BO_WAITING_GAPS then ESPNOW_WAITING_GAPS_TIMEOUT_MS else ESPNOW_RADIO_SILENCE_ABORT_MS)
                  < now - it_last_remote_activity_ms (bo_tracker s)
      then bo_fail_transfer now ESPNOW_FILE_ABORT_TIMEOUT ''radio silence from remote'' True s
      else bo_loop_state now s)"

section \<open>The status document\<close>

fun bo_escape_json :: "string \<Rightarrow> string" where
  "bo_escape_json [] = []"
| "bo_escape_json (ch # value) =
     (if ch = CHR 0x5C \<or> ch = CHR 0x22 then CHR 0x5C # ch # bo_escape_json value else ch # bo_escape_json value)"

fun decimal :: "nat \<Rightarrow> string" where
  "decimal n = (if n < 10 then [char_of (48 + n)] else decimal (n div 10) @ [char_of (48 + n mod 10)])"

declare decimal.simps [simp del]

definition hex_digit_upper :: "nat \<Rightarrow> char" where
  "hex_digit_upper d = char_of (if d < 10 then 48 + d else 55 + d)"

definition hex_byte_upper :: "u8 \<Rightarrow> string" where
  "hex_byte_upper b = [hex_digit_upper (unat b div 16), hex_digit_upper (unat b mod 16)]"

definition bo_format_mac :: "bytes \<Rightarrow> string" where
  "bo_format_mac mac =
     hex_byte_upper (mac ! 0) @ '':'' @ hex_byte_upper (mac ! 1) @ '':'' @ hex_byte_upper (mac ! 2) @ '':'' @
     hex_byte_upper (mac ! 3) @ '':'' @ hex_byte_upper (mac ! 4) @ '':'' @ hex_byte_upper (mac ! 5)"

fun join_decimals :: "bool \<Rightarrow> nat list \<Rightarrow> string" where
  "join_decimals first [] = []"
| "join_decimals first (n # ns) = (if first then [] else '','') @ decimal n @ join_decimals False ns"

definition json_quote :: "string \<Rightarrow> string" where
  "json_quote s = CHR 0x22 # s @ [CHR 0x22]"

definition bo_status_json :: "bo \<Rightarrow> string" where
  "bo_status_json s =
     ''{'' @ json_quote ''state'' @ '':'' @ json_quote (bo_public_state s) @
     '','' @ json_quote ''busy'' @ '':'' @ (if bo_public_busy s then ''true'' else ''false'') @
     '','' @ json_quote ''leaf_mac'' @ '':'' @
       json_quote (bo_format_mac (if bo_public_busy s then bo_leaf_mac s else bo_status_leaf_mac s)) @
     '','' @ json_quote ''file_size'' @ '':'' @ decimal (unat (bo_file_size s)) @
     '','' @ json_quote ''chunk_size'' @ '':'' @ decimal (unat (bo_negotiated_chunk_size s)) @
     '','' @ json_quote ''total_chunks'' @ '':'' @ decimal (unat (it_total_chunks (bo_tracker s))) @
     '','' @ json_quote ''current_increment'' @ '':'' @ decimal (unat (it_current_increment (bo_tracker s))) @
     '','' @ json_quote ''total_increments'' @ '':'' @ decimal (unat (it_total_increments (bo_tracker s))) @
     '','' @ json_quote ''retransmit_round'' @ '':'' @ decimal (unat (it_retransmit_round (bo_tracker s))) @
     '','' @ json_quote ''buffer_size_kb'' @ '':'' @ decimal (unat (it_buffer_size_kb (bo_tracker s))) @
     '','' @ json_quote ''progress_pct'' @ '':'' @ decimal (unat (bo_public_progress_pct s)) @
     '','' @ json_quote ''error'' @ '':'' @ json_quote (bo_escape_json (bo_last_error s)) @
     '','' @ json_quote ''requested'' @ '':['' @
       join_decimals True (sorted_list_of_set (unat ` it_requested_sequences (bo_tracker s))) @ '']}''"

section \<open>The public interface as events\<close>

datatype bo_event =
    BoSetSend send_frame_fn_t
  | BoSetReachable "bytes \<Rightarrow> bool"
  | BoStart u32 "bytes option" u32 "bytes option" u8 u16 "bytes option"
  | BoChunk u32 "bytes option"
  | BoAbort u32 u8
  | BoAck u32 "bytes option" espnow_ack "bytes option"
  | BoLoop u32

fun bo_step :: "bo_event \<Rightarrow> bo \<Rightarrow> bo" where
  "bo_step (BoSetSend f) s = s\<lparr>bo_send_frame_fn := Some f\<rparr>"
| "bo_step (BoSetReachable f) s = s\<lparr>bo_target_reachable_fn := Some f\<rparr>"
| "bo_step (BoStart now mac sz md5 action mtu fid) s = fst (bo_start_transfer now mac sz md5 action mtu fid s)"
| "bo_step (BoChunk sequence data) s = fst (bo_on_source_chunk sequence data s)"
| "bo_step (BoAbort now reason) s = bo_on_source_abort now reason s"
| "bo_step (BoAck now mac ack trailing) s = fst (bo_on_file_ack now mac ack trailing s)"
| "bo_step (BoLoop now) s = bo_loop now s"

definition bo_run :: "bo_event list \<Rightarrow> bo \<Rightarrow> bo" where
  "bo_run evs s = fold bo_step evs s"

end
