(* ===== verification/BridgeOtaProps.thy ===== *)
theory BridgeOtaProps
  imports BridgeOta FileReceiverProps
begin

text \<open>
  Correctness of the sender. Its geometry is the receiver's: seen through \<open>bo_view\<close> the two classes
  compute the same numbers, so the facts about the receiver's indices carry over. The invariant
  \<open>bo_ok\<close> says what a round of an increment is: the chunks still to be fetched, those queued and those
  sent are disjoint and together the chunks of the round.
\<close>

section \<open>The geometry is the receiver's\<close>

definition bo_view :: "bo \<Rightarrow> unit fr" where
  "bo_view s = (FileReceiver_init ())
     \<lparr>fr_file_size := bo_file_size s, fr_chunk_payload_size := bo_negotiated_chunk_size s,
      fr_buffer_size_kb := it_buffer_size_kb (bo_tracker s),
      fr_chunks_per_increment := it_chunks_per_increment (bo_tracker s),
      fr_total_increments := it_total_increments (bo_tracker s),
      fr_chunks_in_last_increment := it_chunks_in_last_increment (bo_tracker s),
      fr_current_increment := it_current_increment (bo_tracker s),
      fr_total_chunks := it_total_chunks (bo_tracker s)\<rparr>"

lemma bo_view_fields [simp]:
  "fr_file_size (bo_view s) = bo_file_size s"
  "fr_chunk_payload_size (bo_view s) = bo_negotiated_chunk_size s"
  "fr_chunks_per_increment (bo_view s) = it_chunks_per_increment (bo_tracker s)"
  "fr_total_increments (bo_view s) = it_total_increments (bo_tracker s)"
  "fr_chunks_in_last_increment (bo_view s) = it_chunks_in_last_increment (bo_tracker s)"
  "fr_current_increment (bo_view s) = it_current_increment (bo_tracker s)"
  "fr_total_chunks (bo_view s) = it_total_chunks (bo_tracker s)"
  by (simp_all add: bo_view_def)

lemma view_chunks_in_this_increment:
  "it_chunks_in_this_increment (bo_tracker s) = fr_chunks_in_increment (it_current_increment (bo_tracker s)) (bo_view s)"
  by (simp add: it_chunks_in_this_increment_def it_is_last_increment_def fr_chunks_in_increment_def)

lemma view_expected_chunk_len: "bo_expected_chunk_len q s = fr_expected_chunk_len q (bo_view s)"
  by (simp add: bo_expected_chunk_len_def fr_expected_chunk_len_def Let_def)

definition bo_geometry_ok :: "bo \<Rightarrow> bool" where
  "bo_geometry_ok s \<longleftrightarrow> fr_geometry_ok (bo_view s)"

text \<open>An accepted announcement installs the geometry that the receiver computes for itself.\<close>

lemma accept_geometry_view:
  "bo_view (s\<lparr>bo_negotiated_chunk_size := c, bo_tracker := it_accept_geometry now (bo_file_size s) c kb (bo_tracker s)\<rparr>)
   = (fr_compute_increment_geometry
       ((FileReceiver_init ())\<lparr>fr_file_size := bo_file_size s, fr_chunk_payload_size := c, fr_buffer_size_kb := ucast kb\<rparr>))
     \<lparr>fr_buffer_size_kb := min (ucast kb) 8\<rparr>"
  by (simp add: bo_view_def it_accept_geometry_def fr_compute_increment_geometry_def Let_def FileReceiver_init_def
      fr_register_handler_def)

section \<open>Sets of sequence numbers\<close>

lemma insert_range_eq: "insert_range seqs S = set seqs \<union> S"
  by (induction seqs S rule: insert_range.induct) auto

lemma range_seqs: "set (map of_nat [unat a..<unat b]) = {a..<b :: u32}"
proof (rule set_eqI, rule iffI)
  fix q :: u32 assume "q \<in> set (map of_nat [unat a..<unat b])"
  then obtain n where n: "unat a \<le> n" "n < unat b" "q = of_nat n" by auto
  moreover have "unat (of_nat n :: u32) = n"
    by (rule unat_of_nat_small, rule less_trans [OF n(2)]) simp
  ultimately show "q \<in> {a..<b}" by (simp add: word_le_nat_alt word_less_nat_alt)
next
  fix q :: u32 assume "q \<in> {a..<b}"
  then have "unat q \<in> {unat a..<unat b}" by (simp add: word_le_nat_alt word_less_nat_alt)
  moreover have "of_nat (unat q) = q" by (metis of_nat_unat ucast_id)
  ultimately show "q \<in> set (map of_nat [unat a..<unat b])" by (metis atLeastLessThan_upt image_eqI list.set_map)
qed

definition it_range :: "increment_tracker \<Rightarrow> u32 set" where
  "it_range t = {it_increment_start_seq t..<it_increment_end_seq t}"

text \<open>The chunks of a round: the whole increment at first, then the gaps.\<close>

definition it_round :: "increment_tracker \<Rightarrow> u32 set" where
  "it_round t = (if it_retransmit_round t = 0 then it_range t else it_gap_sequences t)"

lemma request_increment_chunks_eq:
  "it_request_increment_chunks t = t\<lparr>it_requested_sequences := it_round t, it_sent_sequences := {}\<rparr>"
  by (simp only: it_request_increment_chunks_def insert_range_eq range_seqs it_round_def it_range_def Un_empty_right)
    simp

lemma collect_gaps_eq:
  "collect_gaps bitmap n start is gaps = gaps \<union> {start + of_nat i | i. i \<in> set is \<and> \<not> bitmap_received bitmap n i}"
  by (induction bitmap n start "is" gaps rule: collect_gaps.induct) auto

section \<open>Indices of a well-formed transfer\<close>

abbreviation bo_n :: "bo \<Rightarrow> nat" where
  "bo_n s \<equiv> unat (it_chunks_in_this_increment (bo_tracker s))"

definition bo_base :: "bo \<Rightarrow> nat" where
  "bo_base s = unat (it_current_increment (bo_tracker s)) * unat (it_chunks_per_increment (bo_tracker s))"

abbreviation bo_in_file :: "bo \<Rightarrow> bool" where
  "bo_in_file s \<equiv> unat (it_current_increment (bo_tracker s)) < unat (it_total_increments (bo_tracker s))"

lemma view_base: "fr_base (bo_view s) = bo_base s"
  by (simp add: fr_base_def bo_base_def)

lemma view_n: "fr_n (bo_view s) = bo_n s"
  by (simp add: view_chunks_in_this_increment)

lemma unat_start_seq: "unat (it_increment_start_seq (bo_tracker s)) = bo_base s"
  by (simp add: it_increment_start_seq_def bo_base_def unat_mult_u16)

lemma bo_increment_bounds:
  assumes "bo_geometry_ok s" and "bo_in_file s"
  shows "0 < bo_n s" "bo_n s \<le> unat (it_chunks_per_increment (bo_tracker s))"
    "bo_base s + bo_n s \<le> unat (it_total_chunks (bo_tracker s))"
  using increment_bounds(1,2,3) [OF assms(1) [unfolded bo_geometry_ok_def], unfolded view_base view_n] assms(2)
  by simp_all

lemma unat_end_seq:
  assumes "bo_geometry_ok s" and "bo_in_file s"
  shows "unat (it_increment_end_seq (bo_tracker s)) = bo_base s + bo_n s"
proof -
  have "bo_base s + bo_n s < 2 ^ 32"
    by (rule le_less_trans [OF bo_increment_bounds(3) [OF assms]]) simp
  then have "unat (it_increment_start_seq (bo_tracker s) + ucast (it_chunks_in_this_increment (bo_tracker s))) = bo_base s + bo_n s"
    by (subst unat_add_small) (simp_all add: unat_start_seq)
  then show ?thesis
    using bo_increment_bounds(3) [OF assms] by (simp add: it_increment_end_seq_def min_def word_le_nat_alt)
qed

lemma in_range_iff:
  assumes "bo_geometry_ok s" and "bo_in_file s"
  shows "q \<in> it_range (bo_tracker s) \<longleftrightarrow> bo_base s \<le> unat q \<and> unat q < bo_base s + bo_n s"
  by (simp add: it_range_def word_le_nat_alt word_less_nat_alt unat_start_seq unat_end_seq [OF assms])

lemma range_nonempty:
  assumes "bo_geometry_ok s" and "bo_in_file s"
  shows "it_range (bo_tracker s) \<noteq> {}"
proof -
  have "it_increment_start_seq (bo_tracker s) \<in> it_range (bo_tracker s)"
    using bo_increment_bounds(1) [OF assms] by (simp add: in_range_iff [OF assms] unat_start_seq)
  then show ?thesis by blast
qed

text \<open>Past the last increment there is nothing to ask for.\<close>

lemma range_overrun:
  assumes "bo_geometry_ok s" and "it_current_increment (bo_tracker s) = it_total_increments (bo_tracker s)"
  shows "it_range (bo_tracker s) = {}"
proof -
  note d = geometry_okD [OF assms(1) [unfolded bo_geometry_ok_def], simplified]
  have "unat (it_total_chunks (bo_tracker s)) \<le> bo_base s"
    using ceil_div_upper [OF d(3)] d(5) assms(2) by (simp add: bo_base_def)
  then have "it_total_chunks (bo_tracker s) \<le> it_increment_start_seq (bo_tracker s)"
    by (simp add: word_le_nat_alt unat_start_seq)
  then show ?thesis by (simp add: it_range_def it_increment_end_seq_def not_less)
qed

lemma gaps_eq:
  assumes "bo_geometry_ok s" and "bo_in_file s"
  shows "collect_gaps bitmap len (it_increment_start_seq (bo_tracker s)) [0..<bo_n s] {}
    = {q \<in> it_range (bo_tracker s). \<not> bitmap_received bitmap len (unat q - bo_base s)}"
proof (rule set_eqI)
  fix q
  have w: "unat (it_increment_start_seq (bo_tracker s) + of_nat i) = bo_base s + i" if "i < bo_n s" for i
  proof -
    have b: "bo_base s + i < 2 ^ 32"
      by (rule less_trans [OF _ le_less_trans [OF bo_increment_bounds(3) [OF assms]]]) (use that in simp_all)
    then have "unat (of_nat i :: u32) = i" by (intro unat_of_nat_small) simp
    then show ?thesis using b by (subst unat_add_small) (simp_all add: unat_start_seq)
  qed
  show "q \<in> collect_gaps bitmap len (it_increment_start_seq (bo_tracker s)) [0..<bo_n s] {} \<longleftrightarrow>
      q \<in> {q \<in> it_range (bo_tracker s). \<not> bitmap_received bitmap len (unat q - bo_base s)}" (is "?l \<longleftrightarrow> ?r")
  proof
    assume ?l
    then obtain i where "i < bo_n s" "\<not> bitmap_received bitmap len i" "q = it_increment_start_seq (bo_tracker s) + of_nat i"
      by (auto simp: collect_gaps_eq)
    then show ?r using w by (simp add: in_range_iff [OF assms])
  next
    assume r: ?r
    define i where "i = unat q - bo_base s"
    have i: "i < bo_n s" "unat q = bo_base s + i" "\<not> bitmap_received bitmap len i"
      using r by (auto simp: in_range_iff [OF assms] i_def)
    have "q = it_increment_start_seq (bo_tracker s) + of_nat i"
      by (simp add: word_unat_eq_iff w i)
    with i show ?l by (auto simp: collect_gaps_eq)
  qed
qed

section \<open>The invariant\<close>

abbreviation bo_queued :: "bo \<Rightarrow> u32 set" where
  "bo_queued s \<equiv> set (map qc_sequence (bo_pending_chunks s))"

definition bo_round_ok :: "bo \<Rightarrow> bool" where
  "bo_round_ok s \<longleftrightarrow>
     (let t = bo_tracker s in
      bo_geometry_ok s \<and> it_current_increment t \<le> it_total_increments t
      \<and> (it_current_increment t = it_total_increments t \<longrightarrow> it_retransmit_round t = 0)
      \<and> it_round t \<subseteq> it_range t \<and> it_retransmit_round t \<le> ESPNOW_MAX_RETRANSMIT_ROUNDS
      \<and> it_requested_sequences t \<union> bo_queued s \<union> it_sent_sequences t = it_round t
      \<and> it_requested_sequences t \<inter> bo_queued s = {} \<and> it_requested_sequences t \<inter> it_sent_sequences t = {}
      \<and> bo_queued s \<inter> it_sent_sequences t = {} \<and> distinct (map qc_sequence (bo_pending_chunks s))
      \<and> (\<forall>qc \<in> set (bo_pending_chunks s). length (qc_data qc) = unat (bo_expected_chunk_len (qc_sequence qc) s))
      \<and> 0 < bo_negotiated_chunk_size s \<and> bo_negotiated_chunk_size s \<le> bo_requested_chunk_size s)"

definition bo_busy_ok :: "bo \<Rightarrow> bool" where
  "bo_busy_ok s \<longleftrightarrow> bo_send_frame_fn s \<noteq> None \<and> 0 < unat (bo_file_size s) \<and> unat (bo_file_size s) \<le> 2 ^ 24
     \<and> 64 \<le> bo_requested_chunk_size s
     \<and> unat (bo_requested_chunk_size s) + 4 = unat (bo_max_encrypted_plaintext s)
     \<and> bo_control_attempt_count s \<le> ESPNOW_FILE_MAX_RETRIES \<and> bo_progress_pct s \<le> 99"

definition bo_ok :: "bo \<Rightarrow> bool" where
  "bo_ok s \<longleftrightarrow>
     (bo_state s = BO_IDLE \<longrightarrow> bo_reset s = s)
     \<and> (bo_state s \<noteq> BO_IDLE \<longrightarrow> bo_busy_ok s)
     \<and> bo_state s \<in> {BO_IDLE, BO_ANNOUNCING, BO_BLASTING, BO_WAITING_GAPS, BO_ENDING}
     \<and> (bo_state s = BO_ANNOUNCING \<longrightarrow> bo_pending_chunks s = [])
     \<and> (bo_state s = BO_BLASTING \<longrightarrow> bo_round_ok s \<and> it_blast_complete_retries (bo_tracker s) = 0)
     \<and> (bo_state s = BO_WAITING_GAPS \<longrightarrow> bo_round_ok s \<and> bo_in_file s
          \<and> it_requested_sequences (bo_tracker s) = {} \<and> bo_pending_chunks s = []
          \<and> 0 < it_blast_complete_retries (bo_tracker s)
          \<and> it_blast_complete_retries (bo_tracker s) \<le> ESPNOW_MAX_BLAST_COMPLETE_RETRIES)"

lemma bo_reset_idem [simp]: "bo_reset (bo_reset s) = bo_reset s" and bo_reset_state [simp]: "bo_state (bo_reset s) = BO_IDLE"
  by (simp_all add: bo_reset_def)

lemma bo_ok_reset [simp]: "bo_ok (bo_reset s)"
  by (simp add: bo_ok_def)

lemma bo_ok_fail [simp]: "bo_ok (bo_fail_transfer now r m notify s)"
  by (simp add: bo_fail_transfer_def Let_def)

lemma bo_state_fail [simp]: "bo_state (bo_fail_transfer now r m notify s) = BO_IDLE"
  by (simp add: bo_fail_transfer_def Let_def)

text \<open>Which fields matter.\<close>

lemma bo_view_update [simp]:
  "bo_view (s\<lparr>bo_sent := a\<rparr>) = bo_view s" "bo_view (s\<lparr>bo_state := b\<rparr>) = bo_view s"
  "bo_view (s\<lparr>bo_last_activity_ms := c\<rparr>) = bo_view s" "bo_view (s\<lparr>bo_pending_chunks := d\<rparr>) = bo_view s"
  "bo_view (s\<lparr>bo_consecutive_no_mem_errors := e\<rparr>) = bo_view s" "bo_view (s\<lparr>bo_no_mem_backoff_until_ms := f\<rparr>) = bo_view s"
  "bo_view (s\<lparr>bo_last_chunk_send_ms := g\<rparr>) = bo_view s" "bo_view (s\<lparr>bo_last_control_send_ms := h\<rparr>) = bo_view s"
  "bo_view (s\<lparr>bo_control_attempt_count := i\<rparr>) = bo_view s" "bo_view (s\<lparr>bo_public_state := j\<rparr>) = bo_view s"
  "bo_view (s\<lparr>bo_progress_pct := k\<rparr>) = bo_view s" "bo_view (s\<lparr>bo_public_progress_pct := l\<rparr>) = bo_view s"
  "bo_view (s\<lparr>bo_announce_tx_counter := m\<rparr>) = bo_view s" "bo_view (s\<lparr>bo_send_frame_fn := n\<rparr>) = bo_view s"
  "bo_view (s\<lparr>bo_target_reachable_fn := q\<rparr>) = bo_view s" "bo_view (s\<lparr>bo_last_error := p\<rparr>) = bo_view s"
  by (simp_all add: bo_view_def)

lemma bo_geometry_update [simp]:
  "bo_geometry_ok (s\<lparr>bo_sent := a\<rparr>) = bo_geometry_ok s" "bo_geometry_ok (s\<lparr>bo_state := b\<rparr>) = bo_geometry_ok s"
  "bo_geometry_ok (s\<lparr>bo_last_activity_ms := c\<rparr>) = bo_geometry_ok s" "bo_geometry_ok (s\<lparr>bo_pending_chunks := d\<rparr>) = bo_geometry_ok s"
  "bo_geometry_ok (s\<lparr>bo_consecutive_no_mem_errors := e\<rparr>) = bo_geometry_ok s" "bo_geometry_ok (s\<lparr>bo_no_mem_backoff_until_ms := f\<rparr>) = bo_geometry_ok s"
  "bo_geometry_ok (s\<lparr>bo_last_chunk_send_ms := g\<rparr>) = bo_geometry_ok s" "bo_geometry_ok (s\<lparr>bo_last_control_send_ms := h\<rparr>) = bo_geometry_ok s"
  "bo_geometry_ok (s\<lparr>bo_control_attempt_count := i\<rparr>) = bo_geometry_ok s" "bo_geometry_ok (s\<lparr>bo_public_state := j\<rparr>) = bo_geometry_ok s"
  "bo_geometry_ok (s\<lparr>bo_progress_pct := k\<rparr>) = bo_geometry_ok s" "bo_geometry_ok (s\<lparr>bo_public_progress_pct := l\<rparr>) = bo_geometry_ok s"
  "bo_geometry_ok (s\<lparr>bo_announce_tx_counter := m\<rparr>) = bo_geometry_ok s" "bo_geometry_ok (s\<lparr>bo_send_frame_fn := n\<rparr>) = bo_geometry_ok s"
  "bo_geometry_ok (s\<lparr>bo_target_reachable_fn := q\<rparr>) = bo_geometry_ok s" "bo_geometry_ok (s\<lparr>bo_last_error := p\<rparr>) = bo_geometry_ok s"
  by (simp_all add: bo_geometry_ok_def)

lemma bo_round_update [simp]:
  "bo_round_ok (s\<lparr>bo_sent := a\<rparr>) = bo_round_ok s" "bo_round_ok (s\<lparr>bo_state := b\<rparr>) = bo_round_ok s"
  "bo_round_ok (s\<lparr>bo_last_activity_ms := c\<rparr>) = bo_round_ok s"
  "bo_round_ok (s\<lparr>bo_consecutive_no_mem_errors := e\<rparr>) = bo_round_ok s" "bo_round_ok (s\<lparr>bo_no_mem_backoff_until_ms := f\<rparr>) = bo_round_ok s"
  "bo_round_ok (s\<lparr>bo_last_chunk_send_ms := g\<rparr>) = bo_round_ok s" "bo_round_ok (s\<lparr>bo_last_control_send_ms := h\<rparr>) = bo_round_ok s"
  "bo_round_ok (s\<lparr>bo_control_attempt_count := i\<rparr>) = bo_round_ok s" "bo_round_ok (s\<lparr>bo_public_state := j\<rparr>) = bo_round_ok s"
  "bo_round_ok (s\<lparr>bo_progress_pct := k\<rparr>) = bo_round_ok s" "bo_round_ok (s\<lparr>bo_public_progress_pct := l\<rparr>) = bo_round_ok s"
  "bo_round_ok (s\<lparr>bo_announce_tx_counter := m\<rparr>) = bo_round_ok s" "bo_round_ok (s\<lparr>bo_send_frame_fn := n\<rparr>) = bo_round_ok s"
  "bo_round_ok (s\<lparr>bo_target_reachable_fn := q\<rparr>) = bo_round_ok s" "bo_round_ok (s\<lparr>bo_last_error := p\<rparr>) = bo_round_ok s"
  by (simp_all add: bo_round_ok_def view_expected_chunk_len Let_def)

lemma bo_busy_update [simp]:
  "bo_busy_ok (s\<lparr>bo_sent := a\<rparr>) = bo_busy_ok s" "bo_busy_ok (s\<lparr>bo_state := b\<rparr>) = bo_busy_ok s"
  "bo_busy_ok (s\<lparr>bo_last_activity_ms := c\<rparr>) = bo_busy_ok s" "bo_busy_ok (s\<lparr>bo_pending_chunks := d\<rparr>) = bo_busy_ok s"
  "bo_busy_ok (s\<lparr>bo_consecutive_no_mem_errors := e\<rparr>) = bo_busy_ok s" "bo_busy_ok (s\<lparr>bo_no_mem_backoff_until_ms := f\<rparr>) = bo_busy_ok s"
  "bo_busy_ok (s\<lparr>bo_last_chunk_send_ms := g\<rparr>) = bo_busy_ok s" "bo_busy_ok (s\<lparr>bo_last_control_send_ms := h\<rparr>) = bo_busy_ok s"
  "bo_busy_ok (s\<lparr>bo_public_state := j\<rparr>) = bo_busy_ok s" "bo_busy_ok (s\<lparr>bo_public_progress_pct := l\<rparr>) = bo_busy_ok s"
  "bo_busy_ok (s\<lparr>bo_announce_tx_counter := m\<rparr>) = bo_busy_ok s" "bo_busy_ok (s\<lparr>bo_tracker := t\<rparr>) = bo_busy_ok s"
  "bo_busy_ok (s\<lparr>bo_target_reachable_fn := q\<rparr>) = bo_busy_ok s" "bo_busy_ok (s\<lparr>bo_last_error := p\<rparr>) = bo_busy_ok s"
  "bo_busy_ok (s\<lparr>bo_negotiated_chunk_size := v\<rparr>) = bo_busy_ok s"
  by (simp_all add: bo_busy_ok_def)

text \<open>Tracker updates that leave the geometry alone.\<close>

lemma it_range_update [simp]:
  "it_range (t\<lparr>it_requested_sequences := a\<rparr>) = it_range t" "it_range (t\<lparr>it_sent_sequences := b\<rparr>) = it_range t"
  "it_range (t\<lparr>it_gap_sequences := c\<rparr>) = it_range t" "it_range (t\<lparr>it_retransmit_round := d\<rparr>) = it_range t"
  "it_range (t\<lparr>it_blast_complete_retries := e\<rparr>) = it_range t" "it_range (t\<lparr>it_blast_complete_tx_history := f\<rparr>) = it_range t"
  "it_range (t\<lparr>it_last_remote_activity_ms := g\<rparr>) = it_range t" "it_range (t\<lparr>it_blast_complete_sent_ms := h\<rparr>) = it_range t"
  "it_range (t\<lparr>it_last_blast_complete_tx_counter := i\<rparr>) = it_range t"
  by (simp_all add: it_range_def it_increment_start_seq_def it_increment_end_seq_def it_chunks_in_this_increment_def
      it_is_last_increment_def)

lemma it_round_update [simp]:
  "it_round (t\<lparr>it_requested_sequences := a\<rparr>) = it_round t" "it_round (t\<lparr>it_sent_sequences := b\<rparr>) = it_round t"
  "it_round (t\<lparr>it_blast_complete_retries := e\<rparr>) = it_round t" "it_round (t\<lparr>it_blast_complete_tx_history := f\<rparr>) = it_round t"
  "it_round (t\<lparr>it_last_remote_activity_ms := g\<rparr>) = it_round t" "it_round (t\<lparr>it_blast_complete_sent_ms := h\<rparr>) = it_round t"
  "it_round (t\<lparr>it_last_blast_complete_tx_counter := i\<rparr>) = it_round t"
  by (simp_all add: it_round_def)

section \<open>What a send does\<close>

text \<open>
  \<open>attempted\<close>: a frame went to the callback and at most the back-off variables changed besides.
\<close>

definition attempted :: "bo \<Rightarrow> sent_frame \<Rightarrow> bo \<Rightarrow> bool" where
  "attempted s frame s' \<longleftrightarrow>
     (\<exists>errors until. s' = s\<lparr>bo_sent := bo_sent s @ [frame], bo_consecutive_no_mem_errors := errors,
                             bo_no_mem_backoff_until_ms := until\<rparr>)"

lemma call_send:
  assumes "bo_send_frame_fn s \<noteq> None"
  obtains err tx where "bo_call_send type payload s =
    (s\<lparr>bo_sent := bo_sent s @ [(bo_leaf_mac s, packet_code type, payload)]\<rparr>, err, tx)"
  using assms by (auto simp: bo_call_send_def prod_eq_iff split: option.split)

lemma mark_no_mem_form:
  "\<exists>errors until. bo_mark_no_mem_backoff now s = s\<lparr>bo_consecutive_no_mem_errors := errors, bo_no_mem_backoff_until_ms := until\<rparr>"
  unfolding bo_mark_no_mem_backoff_def Let_def by blast

lemma clear_no_mem_form:
  "\<exists>errors until. bo_clear_no_mem_backoff s = s\<lparr>bo_consecutive_no_mem_errors := errors, bo_no_mem_backoff_until_ms := until\<rparr>"
  unfolding bo_clear_no_mem_backoff_def by blast

lemma decay_no_mem_form:
  "\<exists>errors until. bo_decay_no_mem_backoff s = s\<lparr>bo_consecutive_no_mem_errors := errors, bo_no_mem_backoff_until_ms := until\<rparr>"
proof -
  have "s = s\<lparr>bo_consecutive_no_mem_errors := bo_consecutive_no_mem_errors s, bo_no_mem_backoff_until_ms := bo_no_mem_backoff_until_ms s\<rparr>"
    by simp
  moreover have "s\<lparr>bo_consecutive_no_mem_errors := k\<rparr>
      = s\<lparr>bo_consecutive_no_mem_errors := k, bo_no_mem_backoff_until_ms := bo_no_mem_backoff_until_ms s\<rparr>" for k
    by simp
  ultimately show ?thesis unfolding bo_decay_no_mem_backoff_def Let_def by (metis (no_types))
qed

lemma send_blast_complete_cases:
  assumes "bo_send_frame_fn s \<noteq> None" and "bo_send_blast_complete now s = (s', ok)"
  defines "frame \<equiv> (bo_leaf_mac s, packet_code PKT_FILE_TRANSFER,
    c_enc espnow_file_blast_complete_codec \<lparr>fbc_phase = 3, fbc_increment_index = it_current_increment (bo_tracker s)\<rparr>)"
  shows "(\<not> ok \<and> (attempted s frame s' \<or> (\<exists>u. attempted s frame u \<and> s' = bo_fail_transfer now 2 ''target unreachable during BLAST_COMPLETE'' False u)))
    \<or> (ok \<and> (\<exists>u tx. attempted s frame u \<and>
          s' = u\<lparr>bo_tracker := it_note_blast_complete now tx (bo_tracker u), bo_last_activity_ms := now\<rparr>))"
proof -
  obtain err tx where c: "bo_call_send PKT_FILE_TRANSFER
      (c_enc espnow_file_blast_complete_codec \<lparr>fbc_phase = 3, fbc_increment_index = it_current_increment (bo_tracker s)\<rparr>) s
      = (s\<lparr>bo_sent := bo_sent s @ [frame]\<rparr>, err, tx)"
    unfolding frame_def by (rule call_send [OF assms(1)])
  let ?u = "s\<lparr>bo_sent := bo_sent s @ [frame]\<rparr>"
  have a: "attempted s frame (bo_mark_no_mem_backoff now ?u)" "attempted s frame (bo_clear_no_mem_backoff ?u)"
    using mark_no_mem_form [of now ?u] clear_no_mem_form [of ?u] unfolding attempted_def by simp_all
  have "bo_send_blast_complete now s = (if err = ESP_ERR_ESPNOW_NO_MEM then (bo_mark_no_mem_backoff now ?u, False)
      else let v = bo_clear_no_mem_backoff ?u in if err \<noteq> ESP_OK
        then (if err = ESP_ERR_NOT_FOUND then bo_fail_transfer now 2 ''target unreachable during BLAST_COMPLETE'' False v else v, False)
        else (v\<lparr>bo_tracker := it_note_blast_complete now tx (bo_tracker v), bo_last_activity_ms := now\<rparr>, True))"
    by (simp add: bo_send_blast_complete_def Let_def c)
  then show ?thesis using a assms(2) by (auto simp: Let_def split: if_splits)
qed

lemma send_chunk_cases:
  assumes "bo_send_frame_fn s \<noteq> None" and "bo_send_chunk now q data s = (s', ok)"
    and fit: "length data + 4 \<le> unat (bo_max_encrypted_plaintext s)" and st: "bo_state s = BO_BLASTING"
  defines "frame \<equiv> (bo_leaf_mac s, packet_code PKT_FILE_DATA, c_enc espnow_file_data_header_codec \<lparr>fdh_sequence = q\<rparr> @ data)"
  shows "(\<not> ok \<and> attempted s frame s')
    \<or> (ok \<and> (\<exists>u. attempted s frame u \<and>
          s' = u\<lparr>bo_last_chunk_send_ms := now, bo_last_activity_ms := now,
                 bo_tracker := (bo_tracker u)\<lparr>it_last_remote_activity_ms := now\<rparr>\<rparr>))"
proof -
  obtain err tx where c: "bo_call_send PKT_FILE_DATA (c_enc espnow_file_data_header_codec \<lparr>fdh_sequence = q\<rparr> @ data) s
      = (s\<lparr>bo_sent := bo_sent s @ [frame]\<rparr>, err, tx)"
    unfolding frame_def by (rule call_send [OF assms(1)])
  let ?u = "s\<lparr>bo_sent := bo_sent s @ [frame]\<rparr>"
  have a: "attempted s frame (bo_mark_no_mem_backoff now ?u)" "attempted s frame (bo_decay_no_mem_backoff ?u)"
    using mark_no_mem_form [of now ?u] decay_no_mem_form [of ?u] unfolding attempted_def by simp_all
  have st': "bo_state (bo_decay_no_mem_backoff ?u) = BO_BLASTING"
    using st decay_no_mem_form [of ?u] by auto
  have len: "length (c_enc espnow_file_data_header_codec \<lparr>fdh_sequence = q\<rparr>) = 4"
    by (simp add: espnow_file_data_header_codec_def codec_defs)
  have "bo_send_chunk now q data s = (if err = ESP_ERR_ESPNOW_NO_MEM then (bo_mark_no_mem_backoff now ?u, False)
      else let v = bo_decay_no_mem_backoff ?u in if err \<noteq> ESP_OK then (v, False)
        else (v\<lparr>bo_last_chunk_send_ms := now, bo_last_activity_ms := now,
                bo_tracker := (bo_tracker v)\<lparr>it_last_remote_activity_ms := now\<rparr>\<rparr>, True))"
    using fit st' by (simp add: bo_send_chunk_def Let_def c len)
  then show ?thesis using a assms(2) by (auto simp: Let_def split: if_splits)
qed

lemma send_announce_cases:
  assumes "bo_send_frame_fn s \<noteq> None" and "bo_state s = BO_ANNOUNCING"
    and "bo_send_announce now s = (s', ok)"
  defines "frame \<equiv> (bo_leaf_mac s, packet_code PKT_FILE_TRANSFER, c_enc espnow_file_announce_codec
    \<lparr>fann_phase = 0, fann_file_size = bo_file_size s, fann_md5 = bo_md5 s, fann_chunk_size = bo_requested_chunk_size s,
     fann_action = bo_action s, fann_file_id = zero_padded 12 (bo_file_id s)\<rparr>)"
  shows "(\<not> ok \<and> (attempted s frame s' \<or> (\<exists>m. s' = bo_fail_transfer now 1 m True s)
          \<or> (\<exists>u r m. attempted s frame u \<and> s' = bo_fail_transfer now r m False u)))
    \<or> (ok \<and> bo_control_attempt_count s < 3 \<and> (\<exists>u tx. attempted s frame u \<and>
          s' = u\<lparr>bo_announce_tx_counter := tx, bo_last_control_send_ms := now, bo_last_activity_ms := now,
                 bo_control_attempt_count := bo_control_attempt_count u + 1\<rparr>))"
proof -
  obtain err tx where c: "bo_call_send PKT_FILE_TRANSFER (c_enc espnow_file_announce_codec
    \<lparr>fann_phase = 0, fann_file_size = bo_file_size s, fann_md5 = bo_md5 s, fann_chunk_size = bo_requested_chunk_size s,
     fann_action = bo_action s, fann_file_id = zero_padded 12 (bo_file_id s)\<rparr>) s
      = (s\<lparr>bo_sent := bo_sent s @ [frame]\<rparr>, err, tx)"
    unfolding frame_def by (rule call_send [OF assms(1)])
  let ?u = "s\<lparr>bo_sent := bo_sent s @ [frame]\<rparr>"
  have a: "attempted s frame (bo_mark_no_mem_backoff now ?u)" "attempted s frame (bo_clear_no_mem_backoff ?u)"
    using mark_no_mem_form [of now ?u] clear_no_mem_form [of ?u] unfolding attempted_def by simp_all
  have "bo_send_announce now s =
     (if 3 \<le> bo_control_attempt_count s then (bo_fail_transfer now 1 ''announce retry limit exceeded'' True s, False)
      else if err = ESP_ERR_ESPNOW_NO_MEM then (bo_mark_no_mem_backoff now ?u, False)
      else let v = bo_clear_no_mem_backoff ?u in if err \<noteq> ESP_OK
        then (bo_fail_transfer now (if err = ESP_ERR_NOT_FOUND then 2 else 3)
               (if err = ESP_ERR_NOT_FOUND then ''target unreachable'' else ''failed to send announce'') False v, False)
        else (v\<lparr>bo_announce_tx_counter := tx, bo_last_control_send_ms := now, bo_last_activity_ms := now,
                bo_control_attempt_count := bo_control_attempt_count v + 1\<rparr>, True))"
    using assms(2) by (simp add: bo_send_announce_def Let_def c)
  then show ?thesis using a assms(3) by (auto simp: Let_def not_le split: if_splits)
qed

lemma send_end_cases:
  assumes "bo_send_frame_fn s \<noteq> None" and "bo_state s = BO_ENDING"
    and "bo_send_end now s = (s', ok)"
  defines "frame \<equiv> (bo_leaf_mac s, packet_code PKT_FILE_TRANSFER, c_enc espnow_file_end_codec \<lparr>fend_phase = 1\<rparr>)"
  shows "(\<exists>r m n. s' = bo_fail_transfer now r m n s)
    \<or> (\<exists>u r m n. attempted s frame u \<and> s' = bo_fail_transfer now r m n u)
    \<or> (bo_control_attempt_count s < 3 \<and> (\<exists>u. attempted s frame u \<and>
          s' = u\<lparr>bo_state := BO_ENDING, bo_last_control_send_ms := now, bo_last_activity_ms := now,
                 bo_control_attempt_count := bo_control_attempt_count u + 1\<rparr>))"
proof -
  obtain err tx where c: "bo_call_send PKT_FILE_TRANSFER (c_enc espnow_file_end_codec \<lparr>fend_phase = 1\<rparr>) s
      = (s\<lparr>bo_sent := bo_sent s @ [frame]\<rparr>, err, tx)"
    unfolding frame_def by (rule call_send [OF assms(1)])
  let ?u = "s\<lparr>bo_sent := bo_sent s @ [frame]\<rparr>"
  have a: "attempted s frame (bo_mark_no_mem_backoff now ?u)" "attempted s frame (bo_clear_no_mem_backoff ?u)"
    using mark_no_mem_form [of now ?u] clear_no_mem_form [of ?u] unfolding attempted_def by simp_all
  have "bo_send_end now s =
     (if 3 \<le> bo_control_attempt_count s then (bo_fail_transfer now 1 ''end retry limit exceeded'' True s, False)
      else if err = ESP_ERR_ESPNOW_NO_MEM then (bo_fail_transfer now 3 ''end no mem'' True (bo_mark_no_mem_backoff now ?u), False)
      else let v = bo_clear_no_mem_backoff ?u in if err \<noteq> ESP_OK
        then (bo_fail_transfer now (if err = ESP_ERR_NOT_FOUND then 2 else 3)
               (if err = ESP_ERR_NOT_FOUND then ''target unreachable'' else ''failed to send end'') (err \<noteq> ESP_ERR_NOT_FOUND) v, False)
        else (v\<lparr>bo_state := BO_ENDING, bo_last_control_send_ms := now, bo_last_activity_ms := now,
                bo_control_attempt_count := bo_control_attempt_count v + 1\<rparr>, True))"
    using assms(2) by (simp add: bo_send_end_def Let_def c)
  then show ?thesis using a assms(3) by (auto simp: Let_def not_le split: if_splits)
qed

section \<open>The invariant is kept\<close>

lemma attempted_state:
  assumes "attempted s frame u"
  shows "bo_state u = bo_state s" "bo_tracker u = bo_tracker s" "bo_pending_chunks u = bo_pending_chunks s"
    "bo_view u = bo_view s" "bo_busy_ok u = bo_busy_ok s" "bo_round_ok u = bo_round_ok s"
    "bo_control_attempt_count u = bo_control_attempt_count s" "bo_sent u = bo_sent s @ [frame]"
  using assms by (auto simp: attempted_def)

lemma attempted_ok:
  assumes "attempted s frame u" and "bo_ok s" and "bo_state s \<noteq> BO_IDLE"
  shows "bo_ok u"
  using assms(2,3) by (simp add: bo_ok_def attempted_state [OF assms(1)])

lemma bo_okD:
  assumes "bo_ok s"
  shows "bo_state s = BO_IDLE \<Longrightarrow> bo_reset s = s"
    "bo_state s \<noteq> BO_IDLE \<Longrightarrow> bo_busy_ok s"
    "bo_state s = BO_BLASTING \<Longrightarrow> bo_round_ok s \<and> it_blast_complete_retries (bo_tracker s) = 0"
    "bo_state s \<noteq> BO_IDLE \<Longrightarrow> bo_send_frame_fn s \<noteq> None"
  using assms by (auto simp: bo_ok_def bo_busy_ok_def)

lemma expected_len_le:
  assumes "bo_round_ok s"
  shows "unat (bo_expected_chunk_len q s) \<le> unat (bo_negotiated_chunk_size s)"
proof (cases "unat q < unat (it_total_chunks (bo_tracker s))")
  case True
  have g: "fr_geometry_ok (bo_view s)" using assms by (simp add: bo_round_ok_def bo_geometry_ok_def Let_def)
  show ?thesis using unat_expected_chunk_len [OF g, of q] True by (simp add: view_expected_chunk_len chunk_len_def)
next
  case False
  then show ?thesis by (simp add: bo_expected_chunk_len_def word_le_nat_alt)
qed

lemma note_blast_complete_fields [simp]:
  "it_range (it_note_blast_complete now tx t) = it_range t" "it_round (it_note_blast_complete now tx t) = it_round t"
  "it_current_increment (it_note_blast_complete now tx t) = it_current_increment t"
  "it_total_increments (it_note_blast_complete now tx t) = it_total_increments t"
  "it_retransmit_round (it_note_blast_complete now tx t) = it_retransmit_round t"
  "it_requested_sequences (it_note_blast_complete now tx t) = it_requested_sequences t"
  "it_sent_sequences (it_note_blast_complete now tx t) = it_sent_sequences t"
  "it_blast_complete_retries (it_note_blast_complete now tx t) = it_blast_complete_retries t + 1"
  by (simp_all add: it_note_blast_complete_def Let_def)

text \<open>Updates of the sets and counters leave the geometry alone.\<close>

definition same_geometry :: "increment_tracker \<Rightarrow> increment_tracker \<Rightarrow> bool" where
  "same_geometry t t' \<longleftrightarrow> it_current_increment t' = it_current_increment t \<and> it_total_increments t' = it_total_increments t
     \<and> it_chunks_per_increment t' = it_chunks_per_increment t \<and> it_total_chunks t' = it_total_chunks t
     \<and> it_chunks_in_last_increment t' = it_chunks_in_last_increment t \<and> it_buffer_size_kb t' = it_buffer_size_kb t"

lemma same_geometry_view:
  "same_geometry (bo_tracker s) t \<Longrightarrow> bo_view (s\<lparr>bo_tracker := t\<rparr>) = bo_view s"
  by (simp add: same_geometry_def bo_view_def)

lemma same_geometry_range: "same_geometry t t' \<Longrightarrow> it_range t' = it_range t"
  by (simp add: same_geometry_def it_range_def it_increment_start_seq_def it_increment_end_seq_def
      it_chunks_in_this_increment_def it_is_last_increment_def)

lemma note_same_geometry [simp]: "same_geometry t (it_note_blast_complete now tx t)"
  by (simp add: same_geometry_def it_note_blast_complete_def Let_def)

lemma round_ok_note [simp]:
  "bo_round_ok (s\<lparr>bo_tracker := it_note_blast_complete now tx (bo_tracker s)\<rparr>) = bo_round_ok s"
  by (simp add: bo_round_ok_def Let_def bo_geometry_ok_def view_expected_chunk_len same_geometry_view)

lemma round_in_file:
  assumes "bo_round_ok s" and "q \<in> it_requested_sequences (bo_tracker s) \<union> bo_queued s \<union> it_sent_sequences (bo_tracker s)"
  shows "bo_in_file s"
proof (rule ccontr)
  assume "\<not> bo_in_file s"
  then have "it_current_increment (bo_tracker s) = it_total_increments (bo_tracker s)"
    using assms(1) by (auto simp: bo_round_ok_def Let_def word_le_nat_alt intro!: word_unat_eq_iff [THEN iffD2])
  then have "it_range (bo_tracker s) = {}"
    using range_overrun [of s] assms(1) by (simp add: bo_round_ok_def Let_def)
  then show False using assms by (auto simp: bo_round_ok_def Let_def)
qed

lemma bo_ok_ask_for_gaps:
  assumes ok: "bo_ok s" and st: "bo_state s = BO_BLASTING"
    and r: "it_requested_sequences (bo_tracker s) = {}" and p: "bo_pending_chunks s = []"
    and n: "it_sent_sequences (bo_tracker s) \<noteq> {}"
  shows "bo_ok (bo_ask_for_gaps now s)"
proof -
  obtain s' b where e: "bo_send_blast_complete now s = (s', b)" by fastforce
  note d = bo_okD [OF ok]
  have fn: "bo_send_frame_fn s \<noteq> None" using d(4) st by simp
  have rd: "bo_round_ok s" "it_blast_complete_retries (bo_tracker s) = 0" using d(3) [OF st] by auto
  obtain q where "q \<in> it_sent_sequences (bo_tracker s)" using n by blast
  then have infile: "bo_in_file s" using round_in_file [OF rd(1), of q] by simp
  consider frame where "\<not> b" "attempted s frame s'" | u where "s' = bo_fail_transfer now 2 ''target unreachable during BLAST_COMPLETE'' False u" "\<not> b"
    | frame u tx where "b" "attempted s frame u" "s' = u\<lparr>bo_tracker := it_note_blast_complete now tx (bo_tracker u), bo_last_activity_ms := now\<rparr>"
    using send_blast_complete_cases [OF fn e] by blast
  then show ?thesis
  proof cases
    case 1
    then show ?thesis using attempted_ok [OF 1(2) ok] st by (simp add: bo_ask_for_gaps_def e)
  next
    case 2
    then show ?thesis by (simp add: bo_ask_for_gaps_def e)
  next
    case 3
    note a = attempted_state [OF 3(2)]
    have "bo_round_ok (u\<lparr>bo_tracker := it_note_blast_complete now tx (bo_tracker s)\<rparr>)"
      using round_ok_note [where s = u] rd(1) by (simp only: a)
    then show ?thesis
      using 3 ok rd infile r p st by (simp add: bo_ask_for_gaps_def e bo_ok_def a)
  qed
qed

lemma bo_ok_pump_blasting:
  assumes ok: "bo_ok s"
  shows "bo_ok (bo_pump_blasting now s)" and "bo_state (bo_pump_blasting now s) = bo_state s"
proof -
  let ?t = "bo_tracker s"
  have e: "bo_request_increment_chunks s = s\<lparr>bo_tracker := ?t\<lparr>it_requested_sequences := it_round ?t, it_sent_sequences := {}\<rparr>\<rparr>"
    by (simp add: bo_request_increment_chunks_def request_increment_chunks_eq)
  show "bo_state (bo_pump_blasting now s) = bo_state s"
    by (simp add: bo_pump_blasting_def e)
  have "bo_ok ((bo_request_increment_chunks s)\<lparr>bo_public_state := ''TRANSFERRING''\<rparr>)"
    if st: "bo_state s = BO_BLASTING" and emp: "bo_pending_chunks s = []"
  proof -
    have g: "same_geometry ?t (?t\<lparr>it_requested_sequences := it_round ?t, it_sent_sequences := {}\<rparr>)"
      by (simp add: same_geometry_def)
    show ?thesis
      using ok st emp
      by (simp add: e bo_ok_def bo_round_ok_def Let_def bo_geometry_ok_def view_expected_chunk_len same_geometry_view [OF g])
  qed
  then show "bo_ok (bo_pump_blasting now s)"
    using ok by (auto simp: bo_pump_blasting_def bo_pump_blocked_def)
qed

lemma round_ok_sent_front:
  assumes r: "bo_round_ok s" and p: "bo_pending_chunks s = qc # qcs"
  shows "bo_round_ok (s\<lparr>bo_tracker := (bo_tracker s)\<lparr>it_sent_sequences := insert (qc_sequence qc) (it_sent_sequences (bo_tracker s))\<rparr>,
    bo_pending_chunks := qcs\<rparr>)"
proof -
  let ?t = "bo_tracker s"
  let ?t' = "?t\<lparr>it_sent_sequences := insert (qc_sequence qc) (it_sent_sequences ?t)\<rparr>"
  have g: "same_geometry ?t ?t'" by (simp add: same_geometry_def)
  show ?thesis
    using r by (auto simp: bo_round_ok_def Let_def bo_geometry_ok_def view_expected_chunk_len same_geometry_view [OF g] p)
qed

lemma round_ok_remote_activity:
  "bo_round_ok (s\<lparr>bo_tracker := (bo_tracker s)\<lparr>it_last_remote_activity_ms := now\<rparr>\<rparr>) = bo_round_ok s"
proof -
  have g: "same_geometry (bo_tracker s) ((bo_tracker s)\<lparr>it_last_remote_activity_ms := now\<rparr>)" by (simp add: same_geometry_def)
  show ?thesis by (simp add: bo_round_ok_def Let_def bo_geometry_ok_def view_expected_chunk_len same_geometry_view [OF g])
qed

text \<open>A queued chunk fits the encrypted frame.\<close>

lemma queued_chunk_fits:
  assumes ok: "bo_ok s" and st: "bo_state s = BO_BLASTING" and qc: "qc \<in> set (bo_pending_chunks s)"
  shows "length (qc_data qc) + 4 \<le> unat (bo_max_encrypted_plaintext s)"
proof -
  have rd: "bo_round_ok s" and busy: "bo_busy_ok s" using bo_okD [OF ok] st by auto
  have "length (qc_data qc) = unat (bo_expected_chunk_len (qc_sequence qc) s)"
    using rd qc by (simp add: bo_round_ok_def Let_def)
  then have "length (qc_data qc) \<le> unat (bo_requested_chunk_size s)"
    using expected_len_le [OF rd, of "qc_sequence qc"] rd by (simp add: bo_round_ok_def Let_def word_le_nat_alt)
  then show ?thesis using busy by (simp add: bo_busy_ok_def)
qed

lemma bo_ok_pump_queued:
  assumes ok: "bo_ok s"
  shows "bo_ok (bo_pump_queued_chunks now s)"
proof (cases "bo_pump_blocked now s")
  case True
  then show ?thesis using ok by (simp add: bo_pump_queued_chunks_def)
next
  case unblocked: False
  then have st: "bo_state s = BO_BLASTING" by (simp add: bo_pump_blocked_def)
  note d = bo_okD [OF ok]
  have rd: "bo_round_ok s" and fn: "bo_send_frame_fn s \<noteq> None" and busy: "bo_busy_ok s" using d st by auto
  show ?thesis
  proof (cases "bo_pending_chunks s")
    case Nil
    then show ?thesis
      using unblocked ok bo_ok_ask_for_gaps [OF ok st _ Nil] by (simp add: bo_pump_queued_chunks_def)
  next
    case (Cons qc qcs)
    obtain s' b where e: "bo_send_chunk now (qc_sequence qc) (qc_data qc) s = (s', b)" by fastforce
    have fit: "length (qc_data qc) + 4 \<le> unat (bo_max_encrypted_plaintext s)"
      using queued_chunk_fits [OF ok st] Cons by simp
    show ?thesis
    proof (cases b)
      case False
      then obtain frame where "attempted s frame s'" using send_chunk_cases [OF fn e fit st] by auto
      then show ?thesis using attempted_ok [OF _ ok] st unblocked False by (simp add: bo_pump_queued_chunks_def Cons e)
    next
      case True
      then obtain frame u where u: "attempted s frame u" and s': "s' = u\<lparr>bo_last_chunk_send_ms := now, bo_last_activity_ms := now,
          bo_tracker := (bo_tracker u)\<lparr>it_last_remote_activity_ms := now\<rparr>\<rparr>"
        using send_chunk_cases [OF fn e fit st] by auto
      note a = attempted_state [OF u]
      have s'': "s' = u\<lparr>bo_tracker := (bo_tracker u)\<lparr>it_last_remote_activity_ms := now\<rparr>, bo_last_chunk_send_ms := now,
          bo_last_activity_ms := now\<rparr>"
        by (simp add: s')
      have rs': "bo_round_ok s'"
        using rd round_ok_remote_activity [where s = u and now = now] by (simp add: s'' a)
      have ps': "bo_pending_chunks s' = qc # qcs" by (simp add: s' a Cons)
      define v where "v = s'\<lparr>bo_tracker := (bo_tracker s')\<lparr>it_sent_sequences := insert (qc_sequence qc) (it_sent_sequences (bo_tracker s'))\<rparr>,
        bo_pending_chunks := qcs\<rparr>"
      have rv: "bo_round_ok v" unfolding v_def by (rule round_ok_sent_front [OF rs' ps'])
      have okv: "bo_ok v" using d(3) [OF st] busy st rv by (simp add: bo_ok_def v_def s' a)
      have "bo_state v = BO_BLASTING" using st by (simp add: v_def s' a)
      moreover have "it_sent_sequences (bo_tracker v) \<noteq> {}" by (simp add: v_def)
      ultimately have okv': "bo_ok (if bo_pending_chunks v = [] \<and> it_requested_sequences (bo_tracker v) = {} then bo_ask_for_gaps now v else v)"
        using okv bo_ok_ask_for_gaps [OF okv] by simp
      have "bo_pump_queued_chunks now s
          = (if bo_pending_chunks v = [] \<and> it_requested_sequences (bo_tracker v) = {} then bo_ask_for_gaps now v else v)"
        using unblocked True by (simp add: bo_pump_queued_chunks_def Cons e Let_def ps' v_def)
      with okv' show ?thesis by simp
    qed
  qed
qed

lemma bo_ok_on_source_chunk:
  assumes ok: "bo_ok s"
  shows "bo_ok (fst (bo_on_source_chunk q chunk s))"
proof -
  let ?t = "bo_tracker s"
  let ?t' = "?t\<lparr>it_requested_sequences := it_requested_sequences ?t - {q}\<rparr>"
  have g: "same_geometry ?t ?t'" by (simp add: same_geometry_def)
  have "bo_ok (s\<lparr>bo_pending_chunks := bo_pending_chunks s @ [\<lparr>qc_sequence = q, qc_data = data\<rparr>], bo_tracker := ?t'\<rparr>)"
    if st: "bo_state s = BO_BLASTING" and q: "q \<in> it_requested_sequences ?t"
      and len: "length data = unat (bo_expected_chunk_len q s)" for data
  proof -
    have rd: "bo_round_ok s" "it_blast_complete_retries ?t = 0" using bo_okD(3) [OF ok st] by auto
    have "bo_round_ok (s\<lparr>bo_pending_chunks := bo_pending_chunks s @ [\<lparr>qc_sequence = q, qc_data = data\<rparr>], bo_tracker := ?t'\<rparr>)"
      using rd q len g
      by (auto simp: bo_round_ok_def Let_def bo_geometry_ok_def view_expected_chunk_len same_geometry_view)
    then show ?thesis using ok st rd by (simp add: bo_ok_def)
  qed
  then show ?thesis using ok by (auto simp: bo_on_source_chunk_def Let_def split: option.split)
qed

text \<open>The geometry fits for every file an ESP can hold and every buffer size a remote may report.\<close>

lemma geo_cpi_at_least:
  assumes c: "0 < c" and kb: "0 < kb"
  shows "512 \<le> geo_cpi c kb * c"
proof (cases "c \<le> 512")
  case True
  let ?K = "min kb 8 * 1024"
  have K: "1024 \<le> ?K" using kb by simp
  have "?K mod c < c" using c by simp
  moreover have "?K = ?K div c * c + ?K mod c" by simp
  ultimately have "512 \<le> ?K div c * c" using K True by linarith
  also have "\<dots> \<le> geo_cpi c kb * c" by (simp add: geo_cpi_def)
  finally show ?thesis .
next
  case False
  have "1 * c \<le> geo_cpi c kb * c" by (rule mult_le_mono1) (simp add: geo_cpi_def)
  with False show ?thesis by linarith
qed

lemma geometry_fits_16MB:
  assumes c: "0 < c" and kb: "0 < kb" and F: "0 < F" "F \<le> 2 ^ 24"
  shows "geometry_fits F c kb"
proof -
  let ?k = "geo_cpi c kb" and ?T = "ceil_div F c"
  let ?N = "ceil_div ?T ?k"
  have k: "0 < ?k" using geo_cpi_bounds(1) [OF c] .
  have T: "0 < ?T" using ceil_div_pos [OF c F(1)] .
  have "(?N - 1) * ?k \<le> ?T - 1" using ceil_div_lower [OF k T] by simp
  then have "(?N - 1) * ?k * c \<le> (?T - 1) * c" by (rule mult_le_mono1)
  also have "\<dots> < F" by (rule ceil_div_lower [OF c F(1)])
  finally have "(?N - 1) * (?k * c) < F" by (simp only: mult.assoc)
  moreover have "(?N - 1) * 512 \<le> (?N - 1) * (?k * c)"
    by (rule mult_le_mono2) (rule geo_cpi_at_least [OF c kb])
  ultimately have "(?N - 1) * 512 < 2 ^ 24" using F(2) by linarith
  then show ?thesis by (simp add: geometry_fits_def)
qed

lemma geometry_ok_buffer: "fr_geometry_ok (r\<lparr>fr_buffer_size_kb := kb\<rparr>) = fr_geometry_ok r"
  by (simp add: fr_geometry_ok_def)

lemma accept_geometry_ok:
  assumes F: "0 < unat (bo_file_size s)" "unat (bo_file_size s) \<le> 2 ^ 24" and c: "0 < unat c" and kb: "0 < unat kb"
  shows "bo_geometry_ok (s\<lparr>bo_negotiated_chunk_size := c, bo_tracker := it_accept_geometry now (bo_file_size s) c kb (bo_tracker s)\<rparr>)"
proof -
  let ?r = "(FileReceiver_init ())\<lparr>fr_file_size := bo_file_size s, fr_chunk_payload_size := c, fr_buffer_size_kb := ucast kb\<rparr>"
  have "fr_geometry_ok (fr_compute_increment_geometry ?r)"
    by (rule compute_increment_geometry_ok) (use F c kb geometry_fits_16MB [OF c kb F] in simp_all)
  then have "fr_geometry_ok ((fr_compute_increment_geometry ?r)\<lparr>fr_buffer_size_kb := min (ucast kb) 8\<rparr>)"
    by (simp only: geometry_ok_buffer)
  then show ?thesis by (simp only: bo_geometry_ok_def accept_geometry_view)
qed

lemma bo_ok_handle_accept:
  assumes ok: "bo_ok s" and st: "bo_state s = BO_ANNOUNCING"
  shows "bo_ok (bo_handle_accept now trailing s)"
proof -
  have busy: "bo_busy_ok s" and p: "bo_pending_chunks s = []" using ok st by (simp_all add: bo_ok_def)
  have F: "0 < unat (bo_file_size s)" "unat (bo_file_size s) \<le> 2 ^ 24" using busy by (simp_all add: bo_busy_ok_def)
  have "bo_ok (bo_request_increment_chunks
      (s\<lparr>bo_negotiated_chunk_size := c, bo_tracker := it_accept_geometry now (bo_file_size s) c kb (bo_tracker s),
         bo_control_attempt_count := 0, bo_progress_pct := 0, bo_public_progress_pct := 0,
         bo_public_state := ''TRANSFERRING'', bo_state := BO_BLASTING\<rparr>))"
    if c: "c \<noteq> 0" "c \<le> bo_requested_chunk_size s" and kb: "kb \<noteq> 0" for c kb
  proof -
    define s1 where "s1 = s\<lparr>bo_negotiated_chunk_size := c, bo_tracker := it_accept_geometry now (bo_file_size s) c kb (bo_tracker s)\<rparr>"
    have cp: "0 < unat c" "0 < unat kb" using c kb by (simp_all add: unat_gt_0)
    have g: "bo_geometry_ok s1" unfolding s1_def by (rule accept_geometry_ok [OF F cp])
    have t: "it_current_increment (bo_tracker s1) = 0" "it_retransmit_round (bo_tracker s1) = 0"
      "it_blast_complete_retries (bo_tracker s1) = 0" "bo_negotiated_chunk_size s1 = c"
      "bo_requested_chunk_size s1 = bo_requested_chunk_size s" "bo_pending_chunks s1 = []"
      by (simp_all add: s1_def it_accept_geometry_def Let_def p)
    define s2 where "s2 = s1\<lparr>bo_tracker := (bo_tracker s1)\<lparr>it_requested_sequences := it_round (bo_tracker s1), it_sent_sequences := {}\<rparr>\<rparr>"
    have N: "0 < unat (it_total_increments (bo_tracker s1))"
      using geometry_okD(10) [OF g [unfolded bo_geometry_ok_def]] by simp
    have r2: "bo_round_ok s2"
      using g t c N
      by (auto simp: s2_def bo_round_ok_def Let_def bo_geometry_ok_def view_expected_chunk_len same_geometry_view
          same_geometry_def it_round_def word_neq_0_conv)
    have eq: "bo_request_increment_chunks
      (s\<lparr>bo_negotiated_chunk_size := c, bo_tracker := it_accept_geometry now (bo_file_size s) c kb (bo_tracker s),
         bo_control_attempt_count := 0, bo_progress_pct := 0, bo_public_progress_pct := 0,
         bo_public_state := ''TRANSFERRING'', bo_state := BO_BLASTING\<rparr>)
      = s2\<lparr>bo_control_attempt_count := 0, bo_progress_pct := 0, bo_public_progress_pct := 0,
         bo_public_state := ''TRANSFERRING'', bo_state := BO_BLASTING\<rparr>"
      by (simp add: bo_request_increment_chunks_def request_increment_chunks_eq s2_def s1_def)
    have "bo_busy_ok (s2\<lparr>bo_control_attempt_count := 0, bo_progress_pct := 0\<rparr>)"
      using busy by (simp add: bo_busy_ok_def s2_def s1_def)
    then show ?thesis using r2 t(3) by (simp add: eq bo_ok_def s2_def)
  qed
  then show ?thesis
    by (auto simp: bo_handle_accept_def Let_def split: option.split)
qed

lemma geometry_ok_tracker:
  assumes "it_total_increments t = it_total_increments (bo_tracker s)" "it_total_chunks t = it_total_chunks (bo_tracker s)"
    "it_chunks_per_increment t = it_chunks_per_increment (bo_tracker s)"
    "it_chunks_in_last_increment t = it_chunks_in_last_increment (bo_tracker s)"
  shows "bo_geometry_ok (s\<lparr>bo_tracker := t\<rparr>) = bo_geometry_ok s"
  using assms by (simp add: bo_geometry_ok_def fr_geometry_ok_def)

lemma is_last_iff:
  "it_is_last_increment t \<longleftrightarrow> unat (it_total_increments t) \<le> unat (it_current_increment t) + 1"
proof -
  have "unat (it_current_increment t) + 1 < 4294967296"
    using unat_u16_bound [of "it_current_increment t"] by linarith
  then have "unat (ucast (it_current_increment t) + 1 :: u32) = unat (it_current_increment t) + 1"
    by (subst unat_add_small) simp_all
  then show ?thesis by (simp add: it_is_last_increment_def word_le_nat_alt)
qed

lemma unat_cur_Suc:
  assumes "unat (i :: u16) < unat (n :: u16)"
  shows "unat (i + 1) = unat i + 1"
proof -
  have "unat i + 1 < 65536" using assms unat_u16_bound [of n] by linarith
  then show ?thesis by (simp add: unat_add_small)
qed

text \<open>Starting a fresh round in increment \<open>i\<close>, which may lie one past the last.\<close>

lemma round_ok_fresh:
  assumes g: "bo_geometry_ok s" and p: "bo_pending_chunks s = []"
    and c: "0 < bo_negotiated_chunk_size s" "bo_negotiated_chunk_size s \<le> bo_requested_chunk_size s"
    and t: "it_total_increments t = it_total_increments (bo_tracker s)" "it_total_chunks t = it_total_chunks (bo_tracker s)"
      "it_chunks_per_increment t = it_chunks_per_increment (bo_tracker s)"
      "it_chunks_in_last_increment t = it_chunks_in_last_increment (bo_tracker s)"
    and z: "it_retransmit_round t = 0" and i: "it_current_increment t \<le> it_total_increments t"
  shows "bo_round_ok (bo_request_increment_chunks (s\<lparr>bo_tracker := t\<rparr>))"
proof -
  let ?t = "t\<lparr>it_requested_sequences := it_round t, it_sent_sequences := {}\<rparr>"
  have "bo_geometry_ok (s\<lparr>bo_tracker := ?t\<rparr>)"
    using g t by (simp add: geometry_ok_tracker)
  moreover have "it_round t = it_range t" by (simp add: it_round_def z)
  ultimately show ?thesis
    using p c z i by (simp add: bo_request_increment_chunks_def request_increment_chunks_eq bo_round_ok_def Let_def)
qed

lemma bo_ok_gaps_bitmap:
  assumes ok: "bo_ok s" and st: "bo_state s = BO_WAITING_GAPS"
    and r: "it_retransmit_round (bo_tracker s) < ESPNOW_MAX_RETRANSMIT_ROUNDS"
  shows "bo_ok (bo_handle_gaps_bitmap bitmap len s)"
proof -
  let ?t = "bo_tracker s"
  have rd: "bo_round_ok s" and f: "bo_in_file s" and p: "bo_pending_chunks s = []" and busy: "bo_busy_ok s"
    using ok st by (simp_all add: bo_ok_def)
  have g: "bo_geometry_ok s" and c: "0 < bo_negotiated_chunk_size s" "bo_negotiated_chunk_size s \<le> bo_requested_chunk_size s"
    using rd by (simp_all add: bo_round_ok_def Let_def)
  define gaps where "gaps = collect_gaps bitmap len (it_increment_start_seq ?t) [0..<bo_n s] {}"
  show ?thesis
  proof (cases "gaps = {}")
    case True
    let ?s = "s\<lparr>bo_state := BO_BLASTING\<rparr>"
    define t where "t = it_all_received (?t\<lparr>it_gap_sequences := gaps\<rparr>)"
    have "it_current_increment t \<le> it_total_increments t"
      using f unat_cur_Suc [OF f] by (simp add: t_def it_all_received_def word_le_nat_alt)
    then have "bo_round_ok (bo_request_increment_chunks (?s\<lparr>bo_tracker := t\<rparr>))"
      by (intro round_ok_fresh) (use g p c in \<open>simp_all add: t_def it_all_received_def\<close>)
    moreover have "bo_handle_gaps_bitmap bitmap len s = bo_request_increment_chunks (?s\<lparr>bo_tracker := t\<rparr>)"
      using True by (simp add: bo_handle_gaps_bitmap_def Let_def gaps_def [symmetric] t_def bo_request_increment_chunks_def)
    ultimately show ?thesis
      using busy by (simp add: bo_ok_def bo_request_increment_chunks_def request_increment_chunks_eq t_def it_all_received_def)
  next
    case False
    let ?t' = "?t\<lparr>it_gap_sequences := gaps, it_retransmit_round := it_retransmit_round ?t + 1, it_blast_complete_retries := 0,
      it_blast_complete_tx_history := [], it_requested_sequences := gaps, it_sent_sequences := {}\<rparr>"
    have sub: "gaps \<subseteq> it_range ?t" unfolding gaps_def gaps_eq [OF g f] by blast
    have ru: "unat (it_retransmit_round ?t) < 10" using r by (simp add: word_less_nat_alt)
    then have rs: "unat (it_retransmit_round ?t + 1) = unat (it_retransmit_round ?t) + 1" by (simp add: unat_add_small)
    then have r0: "it_retransmit_round ?t + 1 \<noteq> 0" "it_retransmit_round ?t + 1 \<le> 10"
      using ru by (auto simp: word_le_nat_alt unat_eq_zero [symmetric] simp del: unat_eq_zero)
    have "it_current_increment ?t \<noteq> it_total_increments ?t" "it_current_increment ?t \<le> it_total_increments ?t"
      using f by (auto simp: word_le_nat_alt)
    then have "bo_round_ok (s\<lparr>bo_tracker := ?t'\<rparr>)"
      using g c p sub r0
      by (simp add: bo_round_ok_def Let_def bo_geometry_ok_def view_expected_chunk_len same_geometry_view same_geometry_def it_round_def)
    then have "bo_ok (s\<lparr>bo_tracker := ?t', bo_state := BO_BLASTING\<rparr>)" using busy by (simp add: bo_ok_def)
    then show ?thesis
      using False by (simp add: bo_handle_gaps_bitmap_def Let_def gaps_def [symmetric])
  qed
qed

lemma bo_ok_send_end:
  assumes ok: "bo_ok s" and st: "bo_state s = BO_ENDING"
  shows "bo_ok (fst (bo_send_end now s))"
proof -
  obtain s' b where e: "bo_send_end now s = (s', b)" by fastforce
  have fn: "bo_send_frame_fn s \<noteq> None" using bo_okD(4) [OF ok] st by simp
  consider r m n where "s' = bo_fail_transfer now r m n s" | frame u r m n where "attempted s frame u" "s' = bo_fail_transfer now r m n u"
    | frame u where "bo_control_attempt_count s < 3" "attempted s frame u"
        "s' = u\<lparr>bo_state := BO_ENDING, bo_last_control_send_ms := now, bo_last_activity_ms := now,
               bo_control_attempt_count := bo_control_attempt_count u + 1\<rparr>"
    using send_end_cases [OF fn st e] by blast
  then show ?thesis
  proof cases
    case 3
    have "unat (bo_control_attempt_count s + 1) = unat (bo_control_attempt_count s) + 1"
      using 3(1) by (simp add: unat_add_small word_less_nat_alt)
    then have "bo_control_attempt_count s + 1 \<le> 3" using 3(1) by (simp add: word_le_nat_alt word_less_nat_alt)
    moreover have "bo_busy_ok u" using ok st by (simp add: bo_ok_def attempted_state [OF 3(2)])
    ultimately show ?thesis by (simp add: e 3(3) bo_ok_def bo_busy_ok_def attempted_state [OF 3(2)])
  qed (simp_all add: e)
qed

lemma increment_progress_le: "bo_increment_progress s \<le> 99"
  by (simp add: bo_increment_progress_def Let_def word_le_nat_alt not_le split: if_split)

lemma bo_ok_handle_gaps_ack:
  assumes ok: "bo_ok s" and st: "bo_state s = BO_WAITING_GAPS"
  shows "bo_ok (bo_handle_gaps_ack now trailing s)"
proof -
  let ?t = "bo_tracker s"
  have rd: "bo_round_ok s" and f: "bo_in_file s" and p: "bo_pending_chunks s = []" and busy: "bo_busy_ok s"
    using ok st by (simp_all add: bo_ok_def)
  have g: "bo_geometry_ok s" and c: "0 < bo_negotiated_chunk_size s" "bo_negotiated_chunk_size s \<le> bo_requested_chunk_size s"
    using rd by (simp_all add: bo_round_ok_def Let_def)
  have busy': "bo_busy_ok (s\<lparr>bo_progress_pct := bo_increment_progress s\<rparr>)"
    using busy increment_progress_le [of s] by (simp add: bo_busy_ok_def)
  define s1 where "s1 = s\<lparr>bo_progress_pct := bo_increment_progress s, bo_public_progress_pct := bo_increment_progress s\<rparr>"
  have last: "bo_ok (fst (bo_send_end now (s1\<lparr>bo_state := BO_ENDING, bo_control_attempt_count := 0, bo_public_state := ''VERIFYING''\<rparr>)))"
    by (rule bo_ok_send_end) (use busy' in \<open>simp_all add: bo_ok_def bo_busy_ok_def s1_def\<close>)
  have nxt: "bo_ok (bo_request_increment_chunks (s1\<lparr>bo_tracker := it_next_increment (bo_tracker s1), bo_state := BO_BLASTING\<rparr>))"
    if nl: "\<not> it_is_last_increment ?t"
  proof -
    let ?s = "s1\<lparr>bo_state := BO_BLASTING\<rparr>"
    define t where "t = it_next_increment ?t"
    have "it_current_increment t \<le> it_total_increments t"
      using f unat_cur_Suc [OF f] by (simp add: t_def it_next_increment_def word_le_nat_alt)
    then have "bo_round_ok (bo_request_increment_chunks (?s\<lparr>bo_tracker := t\<rparr>))"
      by (intro round_ok_fresh) (use g p c in \<open>simp_all add: t_def it_next_increment_def s1_def\<close>)
    moreover have "bo_request_increment_chunks (s1\<lparr>bo_tracker := it_next_increment (bo_tracker s1), bo_state := BO_BLASTING\<rparr>)
        = bo_request_increment_chunks (?s\<lparr>bo_tracker := t\<rparr>)"
      by (simp add: bo_request_increment_chunks_def t_def s1_def)
    ultimately show ?thesis
      using busy' by (simp add: bo_ok_def bo_request_increment_chunks_def request_increment_chunks_eq t_def it_next_increment_def s1_def bo_busy_ok_def)
  qed
  have "it_is_last_increment (bo_tracker s1) = it_is_last_increment ?t" by (simp add: s1_def)
  then show ?thesis
    using last nxt bo_ok_gaps_bitmap [OF ok st]
    by (simp add: bo_handle_gaps_ack_def Let_def s1_def [symmetric] not_le split: option.split)
qed

lemma bo_ok_update_busy:
  assumes "bo_ok s" and "bo_state s \<noteq> BO_IDLE"
  shows "bo_ok (s\<lparr>bo_last_activity_ms := now, bo_tracker := (bo_tracker s)\<lparr>it_last_remote_activity_ms := now\<rparr>\<rparr>)"
proof -
  have "bo_round_ok (s\<lparr>bo_last_activity_ms := now, bo_tracker := (bo_tracker s)\<lparr>it_last_remote_activity_ms := now\<rparr>\<rparr>) = bo_round_ok s"
    using round_ok_remote_activity [where s = "s\<lparr>bo_last_activity_ms := now\<rparr>" and now = now] by simp
  then show ?thesis using assms by (simp add: bo_ok_def)
qed

lemma bo_ok_on_file_ack:
  assumes ok: "bo_ok s"
  shows "bo_ok (fst (bo_on_file_ack now mac ack trailing s))"
proof (cases "bo_state s = BO_IDLE")
  case True
  then show ?thesis using ok by (simp add: bo_on_file_ack_def bo_is_busy_def)
next
  case False
  let ?s = "s\<lparr>bo_last_activity_ms := now, bo_tracker := (bo_tracker s)\<lparr>it_last_remote_activity_ms := now\<rparr>\<rparr>"
  have s: "bo_ok ?s" by (rule bo_ok_update_busy [OF ok False])
  have "bo_ok (bo_handle_complete now trailing ?s)" "bo_ok (bo_handle_reject now trailing ?s)" "bo_ok (bo_handle_abort_ack now trailing ?s)"
    by (simp_all add: bo_handle_complete_def bo_handle_reject_def bo_handle_abort_ack_def Let_def split: option.split)
  then show ?thesis
    using ok s bo_ok_handle_accept [OF s] bo_ok_handle_gaps_ack [OF s]
    by (simp add: bo_on_file_ack_def Let_def)
qed

lemma bo_ok_send_announce:
  assumes ok: "bo_ok s" and st: "bo_state s = BO_ANNOUNCING"
  shows "bo_ok (fst (bo_send_announce now s))"
proof -
  obtain s' b where e: "bo_send_announce now s = (s', b)" by fastforce
  have fn: "bo_send_frame_fn s \<noteq> None" using bo_okD(4) [OF ok] st by simp
  consider frame where "attempted s frame s'" | u r m n where "s' = bo_fail_transfer now r m n u"
    | frame u tx where "bo_control_attempt_count s < 3" "attempted s frame u"
        "s' = u\<lparr>bo_announce_tx_counter := tx, bo_last_control_send_ms := now, bo_last_activity_ms := now,
               bo_control_attempt_count := bo_control_attempt_count u + 1\<rparr>"
    using send_announce_cases [OF fn st e] by blast
  then show ?thesis
  proof cases
    case 1
    then show ?thesis using attempted_ok [OF 1 ok] st by (simp add: e)
  next
    case 3
    have "unat (bo_control_attempt_count s + 1) = unat (bo_control_attempt_count s) + 1"
      using 3(1) by (simp add: unat_add_small word_less_nat_alt)
    then have "bo_control_attempt_count s + 1 \<le> 3" using 3(1) by (simp add: word_le_nat_alt word_less_nat_alt)
    moreover have "bo_busy_ok u" using ok st by (simp add: bo_ok_def attempted_state [OF 3(2)])
    ultimately show ?thesis using ok st by (simp add: e 3(3) bo_ok_def bo_busy_ok_def attempted_state [OF 3(2)])
  qed (simp add: e)
qed

text \<open>A request leaves room for the sequence number and the tags in a frame.\<close>

lemma clamp_fits:
  assumes "64 \<le> bo_clamp_chunk_size mtu"
  shows "unat (bo_clamp_chunk_size mtu) + 4 = unat (espnow_max_plaintext mtu)"
proof -
  have big: "29 < unat mtu"
    using assms by (simp add: bo_clamp_chunk_size_def ESPNOW_FILE_DATA_HEADER_OVERHEAD_def split: if_splits)
  then show ?thesis
    by (simp add: bo_clamp_chunk_size_def ESPNOW_FILE_DATA_HEADER_OVERHEAD_def espnow_max_plaintext_def unat_sub_small)
qed

lemma bo_reset_commute:
  "bo_reset (s\<lparr>bo_send_frame_fn := f\<rparr>) = (bo_reset s)\<lparr>bo_send_frame_fn := f\<rparr>"
  "bo_reset (s\<lparr>bo_target_reachable_fn := g\<rparr>) = (bo_reset s)\<lparr>bo_target_reachable_fn := g\<rparr>"
  "bo_reset (s\<lparr>bo_last_error := e\<rparr>) = (bo_reset s)\<lparr>bo_last_error := e\<rparr>"
  by (simp_all add: bo_reset_def)

lemma bo_ok_settings:
  assumes "bo_ok s"
  shows "bo_ok (s\<lparr>bo_send_frame_fn := Some f\<rparr>)" "bo_ok (s\<lparr>bo_target_reachable_fn := g\<rparr>)" "bo_ok (s\<lparr>bo_last_error := e\<rparr>)"
proof -
  have "bo_busy_ok (s\<lparr>bo_send_frame_fn := Some f\<rparr>)" if "bo_busy_ok s" using that by (simp add: bo_busy_ok_def)
  then show "bo_ok (s\<lparr>bo_send_frame_fn := Some f\<rparr>)" using assms by (simp add: bo_ok_def bo_reset_commute)
  show "bo_ok (s\<lparr>bo_target_reachable_fn := g\<rparr>)" "bo_ok (s\<lparr>bo_last_error := e\<rparr>)"
    using assms by (simp_all add: bo_ok_def bo_reset_commute)
qed

lemma bo_ok_start:
  assumes ok: "bo_ok s" and sz: "unat sz \<le> 2 ^ 24"
  shows "bo_ok (fst (bo_start_transfer now mac sz md5 action mtu fid s))"
proof (cases mac)
  case mac: (Some m)
  show ?thesis
  proof (cases md5)
    case md: (Some d)
    define fd where "fd = (case fid of None \<Rightarrow> bo_default_file_id | Some f \<Rightarrow> f)"
    define t where "t = (bo_reset (s\<lparr>bo_max_encrypted_plaintext := espnow_max_plaintext mtu\<rparr>))
        \<lparr>bo_leaf_mac := take 6 m, bo_status_leaf_mac := take 6 m, bo_md5 := take 16 d, bo_file_size := sz,
         bo_requested_chunk_size := bo_clamp_chunk_size mtu, bo_negotiated_chunk_size := bo_clamp_chunk_size mtu,
         bo_action := action, bo_file_id := (if FILE_ID_LEN < length fd then take FILE_ID_LEN fd else fd),
         bo_transfer_started_ms := now, bo_last_activity_ms := now,
         bo_public_busy := True, bo_public_progress_pct := 0, bo_public_state := ''START_RECEIVED'',
         bo_last_error := [], bo_state := BO_ANNOUNCING\<rparr>"
    have go: "bo_ok (fst (bo_send_announce now t))"
      if h: "sz \<noteq> 0" "bo_send_frame_fn s \<noteq> None" "64 \<le> bo_clamp_chunk_size mtu"
    proof (rule bo_ok_send_announce)
      show "bo_state t = BO_ANNOUNCING" by (simp add: t_def)
      have "bo_busy_ok t"
        using h sz clamp_fits [OF h(3)] by (simp add: bo_busy_ok_def t_def bo_reset_def unat_gt_0)
      then show "bo_ok t" by (simp add: bo_ok_def t_def bo_reset_def)
    qed
    have "fst (bo_start_transfer now mac sz md5 action mtu fid s) =
      (if sz = 0 then s else if bo_is_busy s then s\<lparr>bo_last_error := ''busy''\<rparr>
       else if bo_send_frame_fn s = None then s\<lparr>bo_last_error := ''send_frame_fn not configured''\<rparr>
       else if 1073741824 < sz then s\<lparr>bo_last_error := ''file_size exceeds 1GB limit''\<rparr>
       else if bo_clamp_chunk_size mtu < 64 then s\<lparr>bo_last_error := ''remote chunk size below minimum''\<rparr>
       else fst (bo_send_announce now t))"
      by (simp add: bo_start_transfer_def mac md Let_def t_def fd_def case_prod_unfold)
    then show ?thesis using ok go bo_ok_settings(3) [OF ok] by (simp add: not_less)
  qed (simp add: bo_start_transfer_def mac ok)
qed (simp add: bo_start_transfer_def ok)

lemma bo_ok_waiting_loop:
  assumes ok: "bo_ok s" and st: "bo_state s = BO_WAITING_GAPS"
    and r: "it_blast_complete_retries (bo_tracker s) < ESPNOW_MAX_BLAST_COMPLETE_RETRIES"
  shows "bo_ok (fst (bo_send_blast_complete now s))"
proof -
  obtain s' b where e: "bo_send_blast_complete now s = (s', b)" by fastforce
  have fn: "bo_send_frame_fn s \<noteq> None" using bo_okD(4) [OF ok] st by simp
  consider frame where "attempted s frame s'" | u where "s' = bo_fail_transfer now 2 ''target unreachable during BLAST_COMPLETE'' False u"
    | frame u tx where "attempted s frame u" "s' = u\<lparr>bo_tracker := it_note_blast_complete now tx (bo_tracker u), bo_last_activity_ms := now\<rparr>"
    using send_blast_complete_cases [OF fn e] by blast
  then show ?thesis
  proof cases
    case 1
    then show ?thesis using attempted_ok [OF 1 ok] st by (simp add: e)
  next
    case 2
    then show ?thesis by (simp add: e)
  next
    case 3
    note a = attempted_state [OF 3(1)]
    have "bo_round_ok (u\<lparr>bo_tracker := it_note_blast_complete now tx (bo_tracker s)\<rparr>)"
      using round_ok_note [where s = u] ok st by (simp only: a bo_ok_def)
    moreover have "unat (it_blast_complete_retries (bo_tracker s) + 1) = unat (it_blast_complete_retries (bo_tracker s)) + 1"
      using r by (simp add: unat_add_small word_less_nat_alt)
    then have "0 < it_blast_complete_retries (bo_tracker s) + 1" "it_blast_complete_retries (bo_tracker s) + 1 \<le> 20"
      using r by (simp_all add: word_less_nat_alt word_le_nat_alt)
    ultimately show ?thesis using ok st by (simp add: e 3(2) bo_ok_def a)
  qed
qed

lemma bo_ok_loop:
  assumes ok: "bo_ok s"
  shows "bo_ok (bo_loop now s)"
proof -
  have "bo_ok (bo_loop_state now s)"
    using ok bo_ok_send_announce [OF ok] bo_ok_send_end [OF ok] bo_ok_waiting_loop [OF ok]
      bo_ok_pump_queued [OF bo_ok_pump_blasting(1) [OF ok]]
    by (simp add: bo_loop_state_def not_le split: bo_state_t.split)
  then show ?thesis using ok by (simp add: bo_loop_def)
qed

text \<open>Events with files of at most 16 MB.\<close>

fun bo_event_bounded :: "bo_event \<Rightarrow> bool" where
  "bo_event_bounded (BoStart now mac sz md5 action mtu fid) \<longleftrightarrow> unat sz \<le> 2 ^ 24"
| "bo_event_bounded _ \<longleftrightarrow> True"

lemma bo_ok_step:
  assumes ok: "bo_ok s" and b: "bo_event_bounded ev"
  shows "bo_ok (bo_step ev s)"
proof (cases ev)
  case (BoSetSend f)
  then show ?thesis using bo_ok_settings(1) [OF ok] by simp
next
  case (BoSetReachable f)
  then show ?thesis using bo_ok_settings(2) [OF ok] by simp
next
  case (BoAbort now reason)
  then show ?thesis using ok by (simp add: bo_on_source_abort_def)
qed (use ok b bo_ok_start bo_ok_on_source_chunk bo_ok_on_file_ack bo_ok_loop in simp_all)

lemma bo_ok_init: "bo_ok (ESPNowOTAManager_init config)"
  by (simp add: bo_ok_def ESPNowOTAManager_init_def bo_reset_def)

lemma bo_ok_run:
  assumes "bo_ok s" and "\<forall>ev \<in> set evs. bo_event_bounded ev"
  shows "bo_ok (bo_run evs s)"
  using assms unfolding bo_run_def
  by (induction evs arbitrary: s) (simp_all add: bo_ok_step)

end
