(* ===== verification/BridgeOtaClaims.thy ===== *)
theory BridgeOtaClaims
  imports BridgeOtaProps OtaDelivery
begin

text \<open>
  What the sender promises: its invariant over any sequence of calls, that it asks for gaps only after
  the radio has taken the whole round, that it repeats exactly the chunks the remote names, that it agrees with
  the remote on the geometry, and that every transfer ends.
\<close>

section \<open>The transmitted chunks\<close>

text \<open>
  Every call only adds to the frames handed to the radio and keeps the sending function, but for the
  call that sets it.
\<close>

definition grows :: "bo \<Rightarrow> bo \<Rightarrow> bool" where
  "grows s t \<longleftrightarrow> bo_send_frame_fn t = bo_send_frame_fn s \<and> (\<exists>xs. bo_sent t = bo_sent s @ xs)"

lemma grows_refl [simp]: "grows s s"
  by (simp add: grows_def)

lemma grows_same: "bo_send_frame_fn t = bo_send_frame_fn u \<Longrightarrow> bo_sent t = bo_sent u \<Longrightarrow> grows s t = grows s u"
  by (simp add: grows_def)

lemma grows_update [simp]:
  "grows s (bo_state_update f1 t) = grows s t"
  "grows s (bo_tracker_update f2 t) = grows s t"
  "grows s (bo_last_error_update f3 t) = grows s t"
  "grows s (bo_last_activity_ms_update f4 t) = grows s t"
  "grows s (bo_last_control_send_ms_update f5 t) = grows s t"
  "grows s (bo_announce_tx_counter_update f6 t) = grows s t"
  "grows s (bo_control_attempt_count_update f7 t) = grows s t"
  "grows s (bo_progress_pct_update f8 t) = grows s t"
  "grows s (bo_public_progress_pct_update f9 t) = grows s t"
  "grows s (bo_public_state_update f10 t) = grows s t"
  "grows s (bo_public_busy_update f11 t) = grows s t"
  "grows s (bo_pending_chunks_update f12 t) = grows s t"
  "grows s (bo_last_chunk_send_ms_update f13 t) = grows s t"
  "grows s (bo_negotiated_chunk_size_update f14 t) = grows s t"
  "grows s (bo_reset t) = grows s t"
  "grows s (bo_mark_no_mem_backoff now t) = grows s t"
  "grows s (bo_decay_no_mem_backoff t) = grows s t"
  "grows s (bo_clear_no_mem_backoff t) = grows s t"
  "grows s (bo_request_increment_chunks t) = grows s t"
  by (rule grows_same; simp add: bo_reset_def bo_mark_no_mem_backoff_def bo_decay_no_mem_backoff_def
      bo_clear_no_mem_backoff_def bo_request_increment_chunks_def Let_def)+

lemma grows_call: "bo_call_send type payload t = (u, r) \<Longrightarrow> grows s t \<Longrightarrow> grows s u"
  by (auto simp: bo_call_send_def grows_def split: option.splits)

lemma grows_abort [simp]: "grows s t \<Longrightarrow> grows s (fst (bo_send_abort now r t))"
  by (auto simp: bo_send_abort_def Let_def split: prod.split dest: grows_call)

lemma grows_fail [simp]: "grows s t \<Longrightarrow> grows s (bo_fail_transfer now r m n t)"
  by (simp add: bo_fail_transfer_def Let_def)

lemma grows_announce [simp]: "grows s t \<Longrightarrow> grows s (fst (bo_send_announce now t))"
  by (auto simp: bo_send_announce_def Let_def split: prod.split dest: grows_call)

lemma grows_blast [simp]: "grows s t \<Longrightarrow> grows s (fst (bo_send_blast_complete now t))"
  by (auto simp: bo_send_blast_complete_def Let_def split: prod.split dest: grows_call)

lemma grows_end [simp]: "grows s t \<Longrightarrow> grows s (fst (bo_send_end now t))"
  by (auto simp: bo_send_end_def Let_def split: prod.split dest: grows_call)

lemma grows_chunk: "grows s t \<Longrightarrow> grows s (fst (bo_send_chunk now q d t))"
  by (auto simp: bo_send_chunk_def Let_def split: prod.split dest: grows_call)

lemma grows_ask [simp]: "grows s t \<Longrightarrow> grows s (bo_ask_for_gaps now t)"
proof -
  assume g: "grows s t"
  obtain u ok where e: "bo_send_blast_complete now t = (u, ok)" by fastforce
  then have "grows s u" using grows_blast [OF g, of now] by simp
  then show ?thesis by (simp add: bo_ask_for_gaps_def e)
qed

lemma grows_queued: "grows s t \<Longrightarrow> grows s (bo_pump_queued_chunks now t)"
proof -
  assume g: "grows s t"
  have "grows s (fst (bo_send_chunk now q d t))" for q d by (rule grows_chunk [OF g])
  then have "bo_send_chunk now q d t = (u, ok) \<Longrightarrow> grows s u" for q d u ok by (metis fst_conv)
  then show ?thesis using g
    by (auto simp: bo_pump_queued_chunks_def Let_def split: prod.split list.split)
qed

lemma grows_blasting: "grows s t \<Longrightarrow> grows s (bo_pump_blasting now t)"
  by (simp add: bo_pump_blasting_def)

lemma grows_loop: "grows s (bo_loop now s)"
  by (simp add: bo_loop_def bo_loop_state_def grows_queued grows_blasting split: bo_state_t.split)

lemma grows_file_ack: "grows s (fst (bo_on_file_ack now mac ack trailing s))"
  by (auto simp: bo_on_file_ack_def bo_handle_accept_def bo_handle_reject_def bo_handle_gaps_ack_def
      bo_handle_gaps_bitmap_def bo_handle_complete_def bo_handle_abort_ack_def Let_def split: option.split)

lemma grows_start: "grows s (fst (bo_start_transfer now mac sz md5 action mtu fid s))"
  by (auto simp: bo_start_transfer_def Let_def grows_def bo_reset_def case_prod_beta
      split: option.split intro!: grows_announce [unfolded grows_def])

lemma grows_step: "(\<forall>f. ev \<noteq> BoSetSend f) \<Longrightarrow> grows s (bo_step ev s)"
  by (cases ev) (simp_all add: grows_loop grows_file_ack grows_start bo_on_source_abort_def bo_on_source_chunk_def
      Let_def split: option.split, simp_all add: grows_def)

text \<open>A frame that carries chunk \<open>q\<close>.\<close>

definition chunk_frame :: "bo \<Rightarrow> u32 \<Rightarrow> bytes \<Rightarrow> sent_frame" where
  "chunk_frame s q data = (bo_leaf_mac s, packet_code PKT_FILE_DATA, c_enc espnow_file_data_header_codec \<lparr>fdh_sequence = q\<rparr> @ data)"

text \<open>
  The radio accepted the frame at place \<open>i\<close> of all frames handed to it; chunk \<open>q\<close>, with the
  length its place in the file demands, was accepted after the first \<open>m\<close> frames.
\<close>

definition accepted :: "send_frame_fn_t \<Rightarrow> sent_frame list \<Rightarrow> nat \<Rightarrow> bool" where
  "accepted send frames i \<longleftrightarrow>
     (case frames ! i of (mac, code, payload) \<Rightarrow> fst (send (take i frames) mac code payload) = ESP_OK)"

definition transmitted :: "send_frame_fn_t \<Rightarrow> nat \<Rightarrow> bo \<Rightarrow> u32 \<Rightarrow> bool" where
  "transmitted send m s q \<longleftrightarrow>
     (\<exists>i data. m \<le> i \<and> i < length (bo_sent s) \<and> bo_sent s ! i = chunk_frame s q data
        \<and> length data = unat (bo_expected_chunk_len q s) \<and> accepted send (bo_sent s) i)"

definition in_transfer :: "bo \<Rightarrow> bool" where
  "in_transfer s \<longleftrightarrow> bo_state s \<in> {BO_BLASTING, BO_WAITING_GAPS}"

definition sent_transmitted :: "send_frame_fn_t \<Rightarrow> nat \<Rightarrow> bo \<Rightarrow> bool" where
  "sent_transmitted send m s \<longleftrightarrow>
     (in_transfer s \<longrightarrow> (\<forall>q \<in> it_sent_sequences (bo_tracker s). transmitted send m s q))"

text \<open>
  The frames handed to the radio when the present round began: a round begins when the blasting
  begins, with the next increment and with every retransmission round.
\<close>

definition new_round :: "bo \<Rightarrow> bo \<Rightarrow> bool" where
  "new_round s t \<longleftrightarrow> \<not> in_transfer s
     \<or> it_current_increment (bo_tracker t) \<noteq> it_current_increment (bo_tracker s)
     \<or> it_retransmit_round (bo_tracker t) \<noteq> it_retransmit_round (bo_tracker s)"

fun round_start :: "bo_event list \<Rightarrow> bo \<Rightarrow> nat \<Rightarrow> nat" where
  "round_start [] s m = m"
| "round_start (ev # evs) s m =
     (let t = bo_step ev s in round_start evs t (if new_round s t then length (bo_sent t) else m))"

lemma transmitted_mono:
  assumes "transmitted send m s q" and "\<exists>xs. bo_sent t = bo_sent s @ xs" and "bo_leaf_mac t = bo_leaf_mac s" and "bo_view t = bo_view s"
  shows "transmitted send m t q"
proof -
  obtain i data where i: "m \<le> i" "i < length (bo_sent s)" "bo_sent s ! i = chunk_frame s q data"
      "length data = unat (bo_expected_chunk_len q s)" "accepted send (bo_sent s) i"
    using assms(1) by (auto simp: transmitted_def)
  obtain xs where xs: "bo_sent t = bo_sent s @ xs" using assms(2) by blast
  have "chunk_frame t q data = chunk_frame s q data" by (simp add: chunk_frame_def assms(3))
  moreover have "bo_expected_chunk_len q t = bo_expected_chunk_len q s" by (simp add: view_expected_chunk_len assms(4))
  moreover have "accepted send (bo_sent t) i" using i(2,5) by (simp add: accepted_def xs nth_append)
  ultimately show ?thesis using i unfolding transmitted_def
    by (intro exI [of _ i] exI [of _ data]) (simp add: xs nth_append)
qed

lemma sent_transmitted_mono:
  assumes "sent_transmitted send m s" and "\<exists>xs. bo_sent t = bo_sent s @ xs" and "bo_leaf_mac t = bo_leaf_mac s" and "bo_view t = bo_view s"
    and "bo_state s \<in> {BO_BLASTING, BO_WAITING_GAPS}" and "it_sent_sequences (bo_tracker t) \<subseteq> it_sent_sequences (bo_tracker s)"
  shows "sent_transmitted send m t"
  using transmitted_mono [OF _ assms(2-4)] assms(1,5,6) unfolding sent_transmitted_def in_transfer_def by blast

text \<open>A chunk whose sending is reported as done was accepted by the radio.\<close>

lemma send_chunk_accepted:
  assumes "bo_send_chunk now q data s = (s', True)"
  obtains send where "bo_send_frame_fn s = Some send"
    and "fst (send (bo_sent s) (bo_leaf_mac s) (packet_code PKT_FILE_DATA)
           (c_enc espnow_file_data_header_codec \<lparr>fdh_sequence = q\<rparr> @ data)) = ESP_OK"
proof (cases "bo_send_frame_fn s")
  case None
  then show ?thesis using assms by (simp add: bo_send_chunk_def bo_call_send_def Let_def split: if_splits)
next
  case (Some send)
  obtain err tx where r: "send (bo_sent s) (bo_leaf_mac s) (packet_code PKT_FILE_DATA)
      (c_enc espnow_file_data_header_codec \<lparr>fdh_sequence = q\<rparr> @ data) = (err, tx)"
    by fastforce
  have "err = ESP_OK"
    using assms r by (simp add: bo_send_chunk_def bo_call_send_def Let_def Some split: if_splits)
  then show ?thesis using that Some r by simp
qed

lemma sent_transmitted_empty: "it_sent_sequences (bo_tracker s) = {} \<Longrightarrow> sent_transmitted send k s"
  by (simp add: sent_transmitted_def in_transfer_def)

lemma sent_transmitted_other: "bo_state s \<notin> {BO_BLASTING, BO_WAITING_GAPS} \<Longrightarrow> sent_transmitted send k s"
  by (simp add: sent_transmitted_def in_transfer_def)

lemma attempted_mac: "attempted s frame u \<Longrightarrow> bo_leaf_mac u = bo_leaf_mac s"
  by (auto simp: attempted_def)

lemma sent_transmitted_attempted:
  assumes "attempted s frame u" and "sent_transmitted send k s" and "bo_state s \<in> {BO_BLASTING, BO_WAITING_GAPS}"
  shows "sent_transmitted send k u"
  by (rule sent_transmitted_mono [OF assms(2)]) (use assms attempted_state [OF assms(1)] attempted_mac [OF assms(1)] in auto)

lemma sent_transmitted_blast_complete:
  assumes st: "bo_state s \<in> {BO_BLASTING, BO_WAITING_GAPS}" and tr: "sent_transmitted send k s" and fn: "bo_send_frame_fn s \<noteq> None"
    and e: "bo_send_blast_complete now s = (s', b)"
  shows "sent_transmitted send k s' \<and> sent_transmitted send k (s'\<lparr>bo_state := x\<rparr>) \<or> bo_state s' = BO_IDLE \<and> \<not> b"
proof -
  have keep: "sent_transmitted send k t" if "attempted s frame u" "bo_sent t = bo_sent u" "bo_leaf_mac t = bo_leaf_mac u"
      "bo_view t = bo_view u" "it_sent_sequences (bo_tracker t) = it_sent_sequences (bo_tracker u)" for t u frame
    using sent_transmitted_mono [OF sent_transmitted_attempted [OF that(1) tr st], of t] that(2-) st attempted_state [OF that(1)]
    by simp
  consider frame where "attempted s frame s'" | "bo_state s' = BO_IDLE" "\<not> b"
    | frame u tx where "attempted s frame u" "s' = u\<lparr>bo_tracker := it_note_blast_complete now tx (bo_tracker u), bo_last_activity_ms := now\<rparr>"
    using send_blast_complete_cases [OF fn e] by auto
  then show ?thesis
  proof cases
    case 1
    then show ?thesis using keep [OF 1, of s'] keep [OF 1, of "s'\<lparr>bo_state := x\<rparr>"] by simp
  next
    case 3
    have v: "bo_view (u\<lparr>bo_tracker := it_note_blast_complete now tx (bo_tracker u)\<rparr>) = bo_view u"
      by (rule same_geometry_view) simp
    show ?thesis using keep [OF 3(1), of s'] keep [OF 3(1), of "s'\<lparr>bo_state := x\<rparr>"] by (simp add: 3(2) v)
  qed simp
qed

lemma sent_transmitted_ask:
  assumes st: "bo_state s = BO_BLASTING" and tr: "sent_transmitted send k s" and fn: "bo_send_frame_fn s \<noteq> None"
  shows "sent_transmitted send k (bo_ask_for_gaps now s)"
proof -
  obtain s' b where e: "bo_send_blast_complete now s = (s', b)" by fastforce
  show ?thesis
    using sent_transmitted_blast_complete [OF _ tr fn e, of BO_WAITING_GAPS] st sent_transmitted_other [of s']
    by (auto simp: bo_ask_for_gaps_def e)
qed

lemma sent_transmitted_pump:
  assumes ok: "bo_ok s" and tr: "sent_transmitted send k s" and send: "bo_send_frame_fn s = Some send" and k: "k \<le> length (bo_sent s)"
  shows "sent_transmitted send k (bo_pump_queued_chunks now s)"
proof (cases "bo_pump_blocked now s")
  case True
  then show ?thesis using tr by (simp add: bo_pump_queued_chunks_def)
next
  case unblocked: False
  then have st: "bo_state s = BO_BLASTING" by (simp add: bo_pump_blocked_def)
  have rd: "bo_round_ok s" and fn: "bo_send_frame_fn s \<noteq> None" and busy: "bo_busy_ok s" using bo_okD [OF ok] st by auto
  show ?thesis
  proof (cases "bo_pending_chunks s")
    case Nil
    then show ?thesis using unblocked tr sent_transmitted_ask [OF st tr fn] by (simp add: bo_pump_queued_chunks_def)
  next
    case (Cons qc qcs)
    let ?q = "qc_sequence qc"
    obtain s' b where e: "bo_send_chunk now ?q (qc_data qc) s = (s', b)" by fastforce
    have len: "length (qc_data qc) = unat (bo_expected_chunk_len ?q s)"
      using rd Cons by (simp add: bo_round_ok_def Let_def)
    note fit = queued_chunk_fits [OF ok st, of qc]
    show ?thesis
    proof (cases b)
      case False
      then obtain frame where "attempted s frame s'" using send_chunk_cases [OF fn e fit st] Cons by auto
      then show ?thesis using sent_transmitted_attempted [OF _ tr] st unblocked False by (simp add: bo_pump_queued_chunks_def Cons e)
    next
      case True
      then obtain u where u: "attempted s (chunk_frame s ?q (qc_data qc)) u" and s': "s' = u\<lparr>bo_last_chunk_send_ms := now,
          bo_last_activity_ms := now, bo_tracker := (bo_tracker u)\<lparr>it_last_remote_activity_ms := now\<rparr>\<rparr>"
        using send_chunk_cases [OF fn e fit st] Cons unfolding chunk_frame_def by auto
      note a = attempted_state [OF u]
      define v where "v = s'\<lparr>bo_tracker := (bo_tracker s')\<lparr>it_sent_sequences := insert ?q (it_sent_sequences (bo_tracker s'))\<rparr>,
        bo_pending_chunks := qcs\<rparr>"
      have vv: "bo_view v = bo_view s" using a(4) by (simp add: v_def s' bo_view_def a(2))
      have vs: "bo_sent v = bo_sent s @ [chunk_frame s ?q (qc_data qc)]" "bo_leaf_mac v = bo_leaf_mac s"
        using a(8) attempted_mac [OF u] by (simp_all add: v_def s')
      have vst: "bo_state v = BO_BLASTING" "bo_send_frame_fn v \<noteq> None"
        using st fn u by (auto simp: v_def s' attempted_def)
      obtain f where f: "bo_send_frame_fn s = Some f" "fst (f (bo_sent s) (bo_leaf_mac s) (packet_code PKT_FILE_DATA)
          (c_enc espnow_file_data_header_codec \<lparr>fdh_sequence = ?q\<rparr> @ qc_data qc)) = ESP_OK"
        using True e by (auto elim: send_chunk_accepted)
      have "accepted send (bo_sent v) (length (bo_sent s))"
        using f send by (simp add: accepted_def vs chunk_frame_def)
      then have "transmitted send k v ?q"
        using vs len vv k unfolding transmitted_def view_expected_chunk_len
        by (intro exI [of _ "length (bo_sent s)"] exI [of _ "qc_data qc"]) (simp add: chunk_frame_def)
      moreover have "transmitted send k v q" if "q \<in> it_sent_sequences (bo_tracker s)" for q
        by (rule transmitted_mono [of send k s]) (use tr that st vs vv in \<open>auto simp: sent_transmitted_def in_transfer_def\<close>)
      ultimately have trv: "sent_transmitted send k v" by (auto simp: sent_transmitted_def in_transfer_def v_def s' a)
      have "bo_pump_queued_chunks now s
          = (if bo_pending_chunks v = [] \<and> it_requested_sequences (bo_tracker v) = {} then bo_ask_for_gaps now v else v)"
        using unblocked True by (simp add: bo_pump_queued_chunks_def Cons e Let_def v_def s' a)
      then show ?thesis using trv sent_transmitted_ask [OF vst(1) trv vst(2)] by simp
    qed
  qed
qed

lemma sent_empty_requested:
  "it_sent_sequences (bo_tracker (bo_request_increment_chunks s)) = {}"
  by (simp add: bo_request_increment_chunks_def request_increment_chunks_eq)

lemma send_end_state:
  assumes "bo_send_frame_fn s \<noteq> None" and "bo_state s = BO_ENDING"
  shows "bo_state (fst (bo_send_end now s)) \<in> {BO_ENDING, BO_IDLE}"
proof -
  obtain s' b where e: "bo_send_end now s = (s', b)" by fastforce
  show ?thesis using send_end_cases [OF assms e] by (auto simp: e)
qed

lemma send_announce_state:
  assumes "bo_send_frame_fn s \<noteq> None" and "bo_state s = BO_ANNOUNCING"
  shows "bo_state (fst (bo_send_announce now s)) \<in> {BO_ANNOUNCING, BO_IDLE}"
proof -
  obtain s' b where e: "bo_send_announce now s = (s', b)" by fastforce
  show ?thesis using send_announce_cases [OF assms e] assms(2) by (auto simp: e attempted_state)
qed

lemma sent_transmitted_gaps_ack:
  assumes "bo_send_frame_fn s \<noteq> None"
  shows "sent_transmitted send k (bo_handle_gaps_ack now trailing s)"
proof -
  have 1: "sent_transmitted send k (bo_fail_transfer now r m n s)" for r m n s by (rule sent_transmitted_other) simp
  have 2: "sent_transmitted send k (bo_request_increment_chunks t)" for t
    by (rule sent_transmitted_empty) (rule sent_empty_requested)
  have 3: "sent_transmitted send k (bo_handle_gaps_bitmap bm n s)" for bm n
    using 2 by (auto simp: bo_handle_gaps_bitmap_def Let_def sent_transmitted_empty)
  have 4: "sent_transmitted send k (fst (bo_send_end now t))" if "bo_send_frame_fn t \<noteq> None" "bo_state t = BO_ENDING" for t
    using send_end_state [OF that, of now] by (intro sent_transmitted_other) auto
  show ?thesis
    using assms by (auto simp: bo_handle_gaps_ack_def Let_def 1 2 3 intro!: 4 split: option.split)
qed

lemma sent_transmitted_accept: "sent_transmitted send k (bo_handle_accept now trailing s)"
proof -
  have 1: "sent_transmitted send k (bo_fail_transfer now r m n s)" for r m n s by (rule sent_transmitted_other) simp
  have 2: "sent_transmitted send k (bo_request_increment_chunks t)" for t
    by (rule sent_transmitted_empty) (rule sent_empty_requested)
  show ?thesis by (auto simp: bo_handle_accept_def Let_def 1 2 split: option.split)
qed

lemma sent_transmitted_ack:
  assumes ok: "bo_ok s" and tr: "sent_transmitted send k s"
  shows "sent_transmitted send k (fst (bo_on_file_ack now mac ack trailing s))"
proof (cases "bo_state s = BO_IDLE")
  case True
  then show ?thesis using tr by (simp add: bo_on_file_ack_def bo_is_busy_def)
next
  case False
  let ?s = "s\<lparr>bo_last_activity_ms := now, bo_tracker := (bo_tracker s)\<lparr>it_last_remote_activity_ms := now\<rparr>\<rparr>"
  have v: "bo_view ?s = bo_view s" by (simp add: bo_view_def)
  have q: "transmitted send k ?s q" if "transmitted send k s q" for q
    by (rule transmitted_mono [OF that]) (simp_all add: v)
  then have s: "sent_transmitted send k ?s" using tr by (simp add: sent_transmitted_def in_transfer_def)
  have idle: "bo_state (bo_handle_complete now trailing ?s) = BO_IDLE" "bo_state (bo_handle_reject now trailing ?s) = BO_IDLE"
    "bo_state (bo_handle_abort_ack now trailing ?s) = BO_IDLE"
    by (simp_all add: bo_handle_complete_def bo_handle_reject_def bo_handle_abort_ack_def Let_def split: option.split)
  have i: "sent_transmitted send k (bo_handle_complete now trailing ?s)" "sent_transmitted send k (bo_handle_reject now trailing ?s)"
    "sent_transmitted send k (bo_handle_abort_ack now trailing ?s)"
    by (rule sent_transmitted_other; simp add: idle)+
  have fn: "bo_send_frame_fn ?s \<noteq> None" using bo_okD(4) [OF ok False] by simp
  show ?thesis
    using tr s i sent_transmitted_accept [of send k now trailing ?s] sent_transmitted_gaps_ack [OF fn, of send k now trailing]
    by (simp add: bo_on_file_ack_def Let_def)
qed

lemma sent_transmitted_loop:
  assumes ok: "bo_ok s" and tr: "sent_transmitted send k s" and send: "bo_send_frame_fn s \<in> {None, Some send}"
    and k: "k \<le> length (bo_sent s)"
  shows "sent_transmitted send k (bo_loop now s)"
proof -
  have f: "sent_transmitted send k (bo_fail_transfer now r m n s)" for r m n s by (rule sent_transmitted_other) simp
  have "sent_transmitted send k (bo_loop_state now s)"
  proof (cases "bo_state s")
    case BO_ANNOUNCING
    then have "sent_transmitted send k (fst (bo_send_announce now s))"
      using send_announce_state [of s now] bo_okD(4) [OF ok] by (intro sent_transmitted_other) auto
    then show ?thesis using BO_ANNOUNCING tr by (simp add: bo_loop_state_def)
  next
    case BO_BLASTING
    have p: "bo_ok (bo_pump_blasting now s)" by (rule bo_ok_pump_blasting(1) [OF ok])
    have "sent_transmitted send k (bo_pump_blasting now s)"
      using tr sent_empty_requested [of s] by (auto simp: bo_pump_blasting_def intro!: sent_transmitted_empty)
    moreover have "bo_send_frame_fn (bo_pump_blasting now s) = Some send"
      using send bo_okD(4) [OF ok] BO_BLASTING by (simp add: bo_pump_blasting_def bo_request_increment_chunks_def)
    moreover have "k \<le> length (bo_sent (bo_pump_blasting now s))"
      using k by (simp add: bo_pump_blasting_def bo_request_increment_chunks_def)
    ultimately show ?thesis using BO_BLASTING sent_transmitted_pump [OF p] by (simp add: bo_loop_state_def)
  next
    case BO_WAITING_GAPS
    obtain s' b where e: "bo_send_blast_complete now s = (s', b)" by fastforce
    have fn: "bo_send_frame_fn s \<noteq> None" using bo_okD(4) [OF ok] BO_WAITING_GAPS by simp
    have "sent_transmitted send k s'"
      using sent_transmitted_blast_complete [OF _ tr fn e, of BO_IDLE] BO_WAITING_GAPS sent_transmitted_other [of s'] by auto
    then show ?thesis using BO_WAITING_GAPS tr f by (simp add: bo_loop_state_def e)
  next
    case BO_ENDING
    then have "sent_transmitted send k (fst (bo_send_end now s))"
      using send_end_state [of s now] bo_okD(4) [OF ok] by (intro sent_transmitted_other) auto
    then show ?thesis using BO_ENDING tr by (simp add: bo_loop_state_def)
  qed (use tr in \<open>simp_all add: bo_loop_state_def\<close>)
  then show ?thesis using tr f by (simp add: bo_loop_def)
qed

lemma sent_transmitted_start:
  assumes tr: "sent_transmitted send k s"
  shows "sent_transmitted send k (fst (bo_start_transfer now mac sz md5 action mtu fid s))"
proof -
  have err: "sent_transmitted send k (s\<lparr>bo_last_error := m\<rparr>)" for m
    using tr transmitted_mono [of send k s _ "s\<lparr>bo_last_error := m\<rparr>"] by (simp add: sent_transmitted_def in_transfer_def)
  have go: "sent_transmitted send k (fst (bo_send_announce now t))"
    if "bo_send_frame_fn t \<noteq> None" "bo_state t = BO_ANNOUNCING" for t
    using send_announce_state [OF that, of now] by (intro sent_transmitted_other) auto
  have r: "bo_send_frame_fn (bo_reset t) = bo_send_frame_fn t" for t by (simp add: bo_reset_def)
  show ?thesis
    by (auto simp: bo_start_transfer_def Let_def case_prod_beta r tr err intro!: go split: option.split)
qed

lemma sent_transmitted_step:
  assumes ok: "bo_ok s" and tr: "sent_transmitted send k s" and send: "bo_send_frame_fn s \<in> {None, Some send}"
    and k: "k \<le> length (bo_sent s)"
  shows "sent_transmitted send k (bo_step ev s)"
proof (cases ev)
  case (BoSetSend f)
  then show ?thesis using tr transmitted_mono [of send k s _ "s\<lparr>bo_send_frame_fn := Some f\<rparr>"] by (simp add: sent_transmitted_def in_transfer_def)
next
  case (BoSetReachable f)
  then show ?thesis using tr transmitted_mono [of send k s _ "s\<lparr>bo_target_reachable_fn := Some f\<rparr>"] by (simp add: sent_transmitted_def in_transfer_def)
next
  case (BoChunk q chunk)
  let ?t = "fst (bo_on_source_chunk q chunk s)"
  have "bo_view ?t = bo_view s \<and> bo_sent ?t = bo_sent s \<and> bo_leaf_mac ?t = bo_leaf_mac s \<and> bo_state ?t = bo_state s
      \<and> it_sent_sequences (bo_tracker ?t) = it_sent_sequences (bo_tracker s)"
    by (auto simp: bo_on_source_chunk_def Let_def bo_view_def split: option.split)
  then show ?thesis using BoChunk tr transmitted_mono [of send k s _ ?t] by (simp add: sent_transmitted_def in_transfer_def)
next
  case (BoAbort now reason)
  then show ?thesis using tr by (simp add: bo_on_source_abort_def sent_transmitted_other)
qed (use ok tr sent_transmitted_start sent_transmitted_ack sent_transmitted_loop [OF ok tr send k] in simp_all)

text \<open>A new round begins with no chunk sent.\<close>

definition keeps_round :: "bo \<Rightarrow> bo \<Rightarrow> bool" where
  "keeps_round s t \<longleftrightarrow> (in_transfer t \<longrightarrow> it_sent_sequences (bo_tracker t) = {} \<or> \<not> new_round s t)"

lemma keeps_round_other: "\<not> in_transfer t \<Longrightarrow> keeps_round s t"
  by (simp add: keeps_round_def)

lemma keeps_round_empty: "it_sent_sequences (bo_tracker t) = {} \<Longrightarrow> keeps_round s t"
  by (simp add: keeps_round_def)

definition round_key :: "bo \<Rightarrow> u16 \<times> u8" where
  "round_key s = (it_current_increment (bo_tracker s), it_retransmit_round (bo_tracker s))"

lemma keeps_round_same: "in_transfer s \<Longrightarrow> bo_state t = BO_IDLE \<or> round_key t = round_key s \<Longrightarrow> keeps_round s t"
  by (auto simp: keeps_round_def new_round_def in_transfer_def round_key_def)

lemma keeps_round_quiet: "bo_state t = bo_state s \<Longrightarrow> round_key t = round_key s \<Longrightarrow> keeps_round s t"
  using keeps_round_same [of s t] keeps_round_other [of t s] by (auto simp: in_transfer_def)

lemma round_key_update [simp]:
  "round_key (bo_state_update f1 s) = round_key s"
  "round_key (bo_last_activity_ms_update f2 s) = round_key s"
  "round_key (bo_last_chunk_send_ms_update f3 s) = round_key s"
  "round_key (bo_pending_chunks_update f4 s) = round_key s"
  "round_key (bo_public_state_update f5 s) = round_key s"
  "round_key (bo_mark_no_mem_backoff now s) = round_key s"
  "round_key (bo_decay_no_mem_backoff s) = round_key s"
  "round_key (bo_clear_no_mem_backoff s) = round_key s"
  "round_key (s\<lparr>bo_tracker := (bo_tracker s)\<lparr>it_last_remote_activity_ms := t\<rparr>\<rparr>) = round_key s"
  "round_key (s\<lparr>bo_tracker := (bo_tracker s)\<lparr>it_sent_sequences := q\<rparr>\<rparr>) = round_key s"
  "round_key (s\<lparr>bo_tracker := it_note_blast_complete t tx (bo_tracker s)\<rparr>) = round_key s"
  "round_key (bo_request_increment_chunks s) = round_key s"
  by (simp_all add: round_key_def bo_mark_no_mem_backoff_def bo_decay_no_mem_backoff_def bo_clear_no_mem_backoff_def
      it_note_blast_complete_def bo_request_increment_chunks_def it_request_increment_chunks_def Let_def)

lemma call_tracker: "bo_call_send type payload s = (u, r) \<Longrightarrow> bo_tracker u = bo_tracker s"
  by (auto simp: bo_call_send_def split: option.splits)

lemma round_key_call: "bo_call_send type payload s = (u, r) \<Longrightarrow> round_key u = round_key s"
  by (auto simp: bo_call_send_def round_key_def split: option.splits)

lemma round_key_chunk: "bo_send_chunk now q d s = (t, ok) \<Longrightarrow> bo_state t = BO_IDLE \<and> \<not> ok \<or> round_key t = round_key s"
  by (auto simp: bo_send_chunk_def bo_mark_no_mem_backoff_def bo_decay_no_mem_backoff_def Let_def round_key_def
      split: if_splits prod.splits dest!: call_tracker)

lemma round_key_blast:
  "bo_send_blast_complete now s = (t, ok) \<Longrightarrow> bo_state t = BO_IDLE \<and> \<not> ok \<or> round_key t = round_key s"
  by (auto simp: bo_send_blast_complete_def Let_def split: if_splits prod.splits dest: round_key_call)

lemma round_key_ask: "bo_state (bo_ask_for_gaps now s) = BO_IDLE \<or> round_key (bo_ask_for_gaps now s) = round_key s"
proof -
  obtain t ok where "bo_send_blast_complete now s = (t, ok)" by fastforce
  then show ?thesis using round_key_blast [of now s t ok] by (auto simp: bo_ask_for_gaps_def)
qed

lemma round_key_queued:
  "bo_state (bo_pump_queued_chunks now s) = BO_IDLE \<or> round_key (bo_pump_queued_chunks now s) = round_key s"
proof (cases "bo_pump_blocked now s")
  case False
  show ?thesis
  proof (cases "bo_pending_chunks s")
    case Nil
    then show ?thesis using False round_key_ask [of now s] by (simp add: bo_pump_queued_chunks_def)
  next
    case (Cons qc qcs)
    obtain t ok where c: "bo_send_chunk now (qc_sequence qc) (qc_data qc) s = (t, ok)" by fastforce
    let ?t = "t\<lparr>bo_tracker := (bo_tracker t)\<lparr>it_sent_sequences := insert (qc_sequence qc) (it_sent_sequences (bo_tracker t))\<rparr>,
      bo_pending_chunks := tl (bo_pending_chunks t)\<rparr>"
    have "round_key ?t = round_key t" by (simp add: round_key_def)
    then show ?thesis using False round_key_chunk [OF c] round_key_ask [of now ?t]
      by (auto simp: bo_pump_queued_chunks_def Cons c Let_def)
  qed
qed (simp add: bo_pump_queued_chunks_def)

lemma keeps_round_loop: "bo_ok s \<Longrightarrow> keeps_round s (bo_loop now s)"
proof -
  assume ok: "bo_ok s"
  have f: "keeps_round s (bo_fail_transfer now r m n t)" for r m n t by (rule keeps_round_other) (simp add: in_transfer_def)
  have i: "keeps_round s s" by (cases "in_transfer s") (simp_all add: keeps_round_same keeps_round_other)
  have "keeps_round s (bo_loop_state now s)" if "bo_state s \<noteq> BO_IDLE"
  proof (cases "bo_state s")
    case BO_ANNOUNCING
    then have "bo_state (fst (bo_send_announce now s)) \<in> {BO_ANNOUNCING, BO_IDLE}"
      using send_announce_state bo_okD(4) [OF ok] by simp
    then have "keeps_round s (fst (bo_send_announce now s))" by (intro keeps_round_other) (auto simp: in_transfer_def)
    then show ?thesis using BO_ANNOUNCING i by (simp add: bo_loop_state_def)
  next
    case BO_BLASTING
    have "round_key (bo_pump_blasting now s) = round_key s" by (simp add: bo_pump_blasting_def)
    then show ?thesis using BO_BLASTING round_key_queued [of now "bo_pump_blasting now s"]
      by (intro keeps_round_same) (auto simp: bo_loop_state_def in_transfer_def)
  next
    case BO_WAITING_GAPS
    obtain t b where e: "bo_send_blast_complete now s = (t, b)" by fastforce
    then have "keeps_round s t" using BO_WAITING_GAPS round_key_blast [OF e] by (intro keeps_round_same) (auto simp: in_transfer_def)
    then show ?thesis using BO_WAITING_GAPS i f e by (simp add: bo_loop_state_def)
  next
    case BO_ENDING
    then have "bo_state (fst (bo_send_end now s)) \<in> {BO_ENDING, BO_IDLE}"
      using send_end_state bo_okD(4) [OF ok] by simp
    then have "keeps_round s (fst (bo_send_end now s))" by (intro keeps_round_other) (auto simp: in_transfer_def)
    then show ?thesis using BO_ENDING i by (simp add: bo_loop_state_def)
  qed (use i in \<open>simp_all add: bo_loop_state_def\<close>)
  then show ?thesis using i f by (simp add: bo_loop_def bo_is_busy_def)
qed

lemma keeps_round_gaps_ack:
  assumes "bo_send_frame_fn s \<noteq> None"
  shows "keeps_round s0 (bo_handle_gaps_ack now trailing s)"
proof -
  have 1: "keeps_round s0 (bo_fail_transfer now r m n t)" for r m n t by (rule keeps_round_other) (simp add: in_transfer_def)
  have 2: "keeps_round s0 (bo_request_increment_chunks t)" for t
    by (rule keeps_round_empty) (rule sent_empty_requested)
  have 3: "keeps_round s0 (bo_handle_gaps_bitmap bm n s)" for bm n
    using 2 by (auto simp: bo_handle_gaps_bitmap_def Let_def keeps_round_empty)
  have 4: "keeps_round s0 (fst (bo_send_end now t))" if "bo_send_frame_fn t \<noteq> None" "bo_state t = BO_ENDING" for t
    using send_end_state [OF that, of now] by (intro keeps_round_other) (auto simp: in_transfer_def)
  show ?thesis
    using assms by (auto simp: bo_handle_gaps_ack_def Let_def 1 2 3 intro!: 4 split: option.split)
qed

lemma keeps_round_accept: "keeps_round s0 (bo_handle_accept now trailing s)"
proof -
  have 1: "keeps_round s0 (bo_fail_transfer now r m n t)" for r m n t by (rule keeps_round_other) (simp add: in_transfer_def)
  have 2: "keeps_round s0 (bo_request_increment_chunks t)" for t
    by (rule keeps_round_empty) (rule sent_empty_requested)
  show ?thesis by (auto simp: bo_handle_accept_def Let_def 1 2 split: option.split)
qed

lemma keeps_round_ack:
  assumes ok: "bo_ok s"
  shows "keeps_round s (fst (bo_on_file_ack now mac ack trailing s))"
proof (cases "bo_state s = BO_IDLE")
  case True
  then show ?thesis by (simp add: bo_on_file_ack_def bo_is_busy_def keeps_round_other in_transfer_def)
next
  case False
  let ?s = "s\<lparr>bo_last_activity_ms := now, bo_tracker := (bo_tracker s)\<lparr>it_last_remote_activity_ms := now\<rparr>\<rparr>"
  have i: "keeps_round s s" by (cases "in_transfer s") (simp_all add: keeps_round_same keeps_round_other)
  have "round_key ?s = round_key s" by (simp add: round_key_def)
  then have s: "keeps_round s ?s" using keeps_round_quiet [of ?s s] by simp
  have idle: "bo_state (bo_handle_complete now trailing ?s) = BO_IDLE" "bo_state (bo_handle_reject now trailing ?s) = BO_IDLE"
    "bo_state (bo_handle_abort_ack now trailing ?s) = BO_IDLE"
    by (simp_all add: bo_handle_complete_def bo_handle_reject_def bo_handle_abort_ack_def Let_def split: option.split)
  have o: "keeps_round s (bo_handle_complete now trailing ?s)" "keeps_round s (bo_handle_reject now trailing ?s)"
    "keeps_round s (bo_handle_abort_ack now trailing ?s)"
    by (rule keeps_round_other; simp add: idle in_transfer_def)+
  have fn: "bo_send_frame_fn ?s \<noteq> None" using bo_okD(4) [OF ok False] by simp
  show ?thesis
    using i s o keeps_round_accept [of s now trailing ?s] keeps_round_gaps_ack [OF fn, of s now trailing]
    by (simp add: bo_on_file_ack_def Let_def)
qed

lemma keeps_round_start:
  assumes ok: "bo_ok s"
  shows "keeps_round s (fst (bo_start_transfer now mac sz md5 action mtu fid s))"
proof -
  have i: "keeps_round s s" "keeps_round s (s\<lparr>bo_last_error := m\<rparr>)" for m
    by (cases "in_transfer s"; simp add: keeps_round_same keeps_round_other in_transfer_def round_key_def)+
  have go: "keeps_round s (fst (bo_send_announce now t))"
    if "bo_send_frame_fn t \<noteq> None" "bo_state t = BO_ANNOUNCING" for t
    using send_announce_state [OF that, of now] by (intro keeps_round_other) (auto simp: in_transfer_def)
  have r: "bo_send_frame_fn (bo_reset t) = bo_send_frame_fn t" for t by (simp add: bo_reset_def)
  show ?thesis
    by (auto simp: bo_start_transfer_def Let_def case_prod_beta r i intro!: go split: option.split)
qed

lemma keeps_round_step: "bo_ok s \<Longrightarrow> keeps_round s (bo_step ev s)"
proof (cases ev)
  case (BoChunk q chunk)
  have "bo_state (fst (bo_on_source_chunk q chunk s)) = bo_state s \<and> round_key (fst (bo_on_source_chunk q chunk s)) = round_key s"
    by (auto simp: bo_on_source_chunk_def Let_def round_key_def split: option.split)
  then show ?thesis using BoChunk by (simp add: keeps_round_quiet)
next
  case (BoAbort now reason)
  then show ?thesis by (intro keeps_round_other) (simp add: bo_on_source_abort_def in_transfer_def bo_is_busy_def)
next
  case (BoSetSend f)
  then show ?thesis by (simp add: keeps_round_quiet round_key_def)
next
  case (BoSetReachable f)
  then show ?thesis by (simp add: keeps_round_quiet round_key_def)
qed (simp_all add: keeps_round_start keeps_round_ack keeps_round_loop)

lemma step_send_fn:
  assumes "\<forall>f. ev = BoSetSend f \<longrightarrow> f = send" and "bo_send_frame_fn s \<in> {None, Some send}"
  shows "bo_send_frame_fn (bo_step ev s) \<in> {None, Some send} \<and> length (bo_sent s) \<le> length (bo_sent (bo_step ev s))"
  using assms grows_step [of ev s] by (cases ev) (auto simp: grows_def)

lemma sent_transmitted_mark: "in_transfer s \<Longrightarrow> it_sent_sequences (bo_tracker s) = {} \<Longrightarrow> sent_transmitted send k s"
  by (simp add: sent_transmitted_def)

lemma sent_transmitted_run:
  assumes "bo_ok s" and "sent_transmitted send k s" and "\<forall>ev \<in> set evs. bo_event_bounded ev"
    and "\<forall>f. BoSetSend f \<in> set evs \<longrightarrow> f = send" and "bo_send_frame_fn s \<in> {None, Some send}" and "k \<le> length (bo_sent s)"
  shows "sent_transmitted send (round_start evs s k) (bo_run evs s)"
  using assms
proof (induction evs arbitrary: s k)
  case (Cons ev evs)
  let ?t = "bo_step ev s" and ?k = "if new_round s (bo_step ev s) then length (bo_sent (bo_step ev s)) else k"
  have f: "bo_send_frame_fn ?t \<in> {None, Some send} \<and> length (bo_sent s) \<le> length (bo_sent ?t)"
    by (rule step_send_fn) (use Cons.prems in auto)
  have t: "sent_transmitted send k ?t" by (rule sent_transmitted_step) (use Cons.prems in auto)
  have "sent_transmitted send ?k ?t"
    using t keeps_round_step [OF Cons.prems(1), of ev] by (auto simp: keeps_round_def sent_transmitted_def)
  then have "sent_transmitted send (round_start evs ?t ?k) (bo_run evs ?t)"
    by (intro Cons.IH) (use Cons.prems f in \<open>auto simp: bo_ok_step\<close>)
  then show ?case by (simp add: bo_run_def Let_def)
qed (simp add: bo_run_def)

lemma send_abort_attempted:
  assumes "bo_send_frame_fn s \<noteq> None"
  shows "attempted s (bo_leaf_mac s, packet_code PKT_FILE_TRANSFER, c_enc espnow_file_abort_codec \<lparr>fabort_phase = 2, fabort_reason = r\<rparr>)
    (fst (bo_send_abort now r s))"
proof -
  let ?frame = "(bo_leaf_mac s, packet_code PKT_FILE_TRANSFER, c_enc espnow_file_abort_codec \<lparr>fabort_phase = 2, fabort_reason = r\<rparr>)"
  let ?u = "s\<lparr>bo_sent := bo_sent s @ [?frame]\<rparr>"
  obtain err tx where c: "bo_call_send PKT_FILE_TRANSFER (c_enc espnow_file_abort_codec \<lparr>fabort_phase = 2, fabort_reason = r\<rparr>) s = (?u, err, tx)"
    by (rule call_send [OF assms])
  have "attempted s ?frame (bo_mark_no_mem_backoff now ?u)" "attempted s ?frame (bo_clear_no_mem_backoff ?u)"
    using mark_no_mem_form [of now ?u] clear_no_mem_form [of ?u] unfolding attempted_def by simp_all
  then show ?thesis using assms unfolding bo_send_abort_def Let_def c by (simp only: if_False) (simp split: if_split)
qed

text \<open>A failed transfer leaves the sender idle, with an ABORT on the air when the remote is to know.\<close>

lemma fail_transfer_fields:
  assumes "bo_send_frame_fn s \<noteq> None"
  shows "bo_state (bo_fail_transfer now r m n s) = BO_IDLE" "bo_public_state (bo_fail_transfer now r m n s) = ''FAIL''"
    "\<not> bo_public_busy (bo_fail_transfer now r m n s)" "bo_pending_chunks (bo_fail_transfer now r m n s) = []"
    "bo_tracker (bo_fail_transfer now r m n s) = it_reset"
proof -
  let ?s = "s\<lparr>bo_last_error := m, bo_public_busy := False, bo_public_state := ''FAIL'', bo_state := BO_ABORTING\<rparr>"
  have a: "bo_public_state (fst (bo_send_abort now r ?s)) = ''FAIL''" "\<not> bo_public_busy (fst (bo_send_abort now r ?s))"
    using send_abort_attempted [of ?s r now] assms by (auto simp: attempted_def)
  show "bo_state (bo_fail_transfer now r m n s) = BO_IDLE" "bo_pending_chunks (bo_fail_transfer now r m n s) = []"
    "bo_tracker (bo_fail_transfer now r m n s) = it_reset"
    by (simp_all add: bo_fail_transfer_def Let_def bo_reset_def)
  show "bo_public_state (bo_fail_transfer now r m n s) = ''FAIL''" "\<not> bo_public_busy (bo_fail_transfer now r m n s)"
    using a by (simp_all add: bo_fail_transfer_def Let_def bo_reset_def)
qed

lemma fail_transfer_sent:
  assumes "bo_send_frame_fn s \<noteq> None" and "bo_state s \<noteq> BO_ABORTING"
  shows "bo_sent (bo_fail_transfer now r m True s) = bo_sent s @ [(bo_leaf_mac s, packet_code PKT_FILE_TRANSFER,
      c_enc espnow_file_abort_codec \<lparr>fabort_phase = 2, fabort_reason = r\<rparr>)]"
proof -
  let ?s = "s\<lparr>bo_last_error := m, bo_public_busy := False, bo_public_state := ''FAIL'', bo_state := BO_ABORTING\<rparr>"
  have "bo_sent (fst (bo_send_abort now r ?s)) = bo_sent s @ [(bo_leaf_mac s, packet_code PKT_FILE_TRANSFER,
      c_enc espnow_file_abort_codec \<lparr>fabort_phase = 2, fabort_reason = r\<rparr>)]"
    using send_abort_attempted [of ?s r now] assms by (auto simp: attempted_def)
  then show ?thesis using assms(2) by (simp add: bo_fail_transfer_def Let_def bo_reset_def)
qed

section \<open>What the sender promises\<close>

text \<open>A transfer of 200 bytes in chunks of 70, fed by a host that answers every request.\<close>

definition tx_events :: "bo_event list" where
  "tx_events =
    [BoSetSend (\<lambda>_ _ _ _. (ESP_OK, 7)),
     BoStart 1000 (Some [1, 2, 3, 4, 5, 6]) 200 (Some (replicate 16 9)) 1 99 None,
     BoAck 1010 (Some [1, 2, 3, 4, 5, 6]) \<lparr>ack_ack_type = packet_code PKT_FILE_TRANSFER, ack_result = 0, ack_ref_tx_counter = 7\<rparr>
       (Some [70, 0, 8, 1]),
     BoChunk 0 (Some (replicate 70 1)), BoChunk 1 (Some (replicate 70 2)), BoChunk 2 (Some (replicate 60 3)),
     BoLoop 1020, BoLoop 1030, BoLoop 1040]"

abbreviation (input) tx_start :: bo where "tx_start \<equiv> ESPNowOTAManager_init bo_default_config"

lemma tx_bounded: "\<forall>ev \<in> set tx_events. bo_event_bounded ev"
  by (simp add: tx_events_def)

lemma tx_waiting: "bo_state (bo_run tx_events tx_start) = BO_WAITING_GAPS"
  by code_simp

text \<open>
  C9: The sender's invariant. After any sequence of calls (host, acknowledgements of any content,
  timer) with files of at most 16 MB: idle means nothing is left of a transfer; while an increment is
  blasted, the chunks still awaited from the host, those queued and those sent are disjoint and make up
  the round exactly, no chunk is queued twice, every queued chunk has the length its position in the
  file demands and fits an encrypted frame; the retry counters stay within their limits.
\<close>

theorem bridge_invariant:
  assumes "\<forall>ev \<in> set evs. bo_event_bounded ev" and "s = bo_run evs (ESPNowOTAManager_init config)"
  shows "(bo_state s = BO_IDLE \<longrightarrow> bo_reset s = s)
    \<and> (bo_state s = BO_BLASTING \<longrightarrow>
        it_requested_sequences (bo_tracker s) \<union> bo_queued s \<union> it_sent_sequences (bo_tracker s) = it_round (bo_tracker s)
        \<and> it_requested_sequences (bo_tracker s) \<inter> bo_queued s = {}
        \<and> it_requested_sequences (bo_tracker s) \<inter> it_sent_sequences (bo_tracker s) = {}
        \<and> bo_queued s \<inter> it_sent_sequences (bo_tracker s) = {} \<and> distinct (map qc_sequence (bo_pending_chunks s))
        \<and> (\<forall>qc \<in> set (bo_pending_chunks s). length (qc_data qc) = unat (bo_expected_chunk_len (qc_sequence qc) s)
             \<and> length (qc_data qc) + 4 \<le> unat (bo_max_encrypted_plaintext s)))
    \<and> (bo_state s \<noteq> BO_IDLE \<longrightarrow> bo_control_attempt_count s \<le> 3 \<and> bo_progress_pct s \<le> 99)
    \<and> (bo_state s = BO_WAITING_GAPS \<longrightarrow> it_blast_complete_retries (bo_tracker s) \<le> 20 \<and> it_retransmit_round (bo_tracker s) \<le> 10)"
proof -
  have ok: "bo_ok s" unfolding assms(2) by (rule bo_ok_run [OF bo_ok_init assms(1)])
  then show ?thesis
    using bo_okD [OF ok] queued_chunk_fits [OF ok]
    by (simp add: bo_ok_def bo_round_ok_def bo_busy_ok_def Let_def)
qed

theorem bridge_invariant_witness:
  "bo_queued (bo_run (take 6 tx_events) tx_start) \<inter> it_sent_sequences (bo_tracker (bo_run (take 6 tx_events) tx_start)) = {}"
proof -
  have "bo_state (bo_run (take 6 tx_events) tx_start) = BO_BLASTING" by code_simp
  moreover have "\<forall>ev \<in> set (take 6 tx_events). bo_event_bounded ev" by (simp add: tx_events_def)
  ultimately show ?thesis using bridge_invariant [OF _ refl] by blast
qed

text \<open>
  C10: The sender asks for gaps only when it has nothing left to send: with one sending function, and
  files of at most 16 MB, whenever it waits for the answer to BLAST_COMPLETE, that function has
  accepted, since the present round began, a frame with the right sequence number and length for every
  chunk of the round, which is the whole increment at first and the chunks reported missing later.
  A refused or failed transmission does not count.
\<close>

theorem gaps_asked_after_all_sent:
  assumes "\<forall>ev \<in> set evs. bo_event_bounded ev" and "\<forall>f. BoSetSend f \<in> set evs \<longrightarrow> f = send"
    and "s = bo_run evs (ESPNowOTAManager_init config)" and "bo_state s = BO_WAITING_GAPS"
  shows "bo_base s + bo_n s \<le> unat (it_total_chunks (bo_tracker s)) \<and> 0 < bo_n s
    \<and> (\<forall>q. bo_base s \<le> unat q \<and> unat q < bo_base s + bo_n s
          \<and> (it_retransmit_round (bo_tracker s) = 0 \<or> q \<in> it_gap_sequences (bo_tracker s))
        \<longrightarrow> transmitted send (round_start evs (ESPNowOTAManager_init config) 0) s q)"
proof -
  have ok: "bo_ok s" unfolding assms(3) by (rule bo_ok_run [OF bo_ok_init assms(1)])
  have tr: "sent_transmitted send (round_start evs (ESPNowOTAManager_init config) 0) s" unfolding assms(3)
    by (rule sent_transmitted_run [OF bo_ok_init _ assms(1,2)])
      (simp_all add: sent_transmitted_def ESPNowOTAManager_init_def in_transfer_def)
  have rd: "bo_round_ok s" and f: "bo_in_file s" and sent: "it_sent_sequences (bo_tracker s) = it_round (bo_tracker s)"
    using ok assms(4) by (auto simp: bo_ok_def bo_round_ok_def Let_def)
  have g: "bo_geometry_ok s" using rd by (simp add: bo_round_ok_def Let_def)
  show ?thesis
    using tr assms(4) sent bo_increment_bounds [OF g f]
    by (simp add: sent_transmitted_def in_transfer_def it_round_def in_range_iff [OF g f] split: if_splits)
qed

text \<open>
  The sample transfer, and a second round in which the remote misses chunk 1: after the repeated chunk
  it is the only one accepted since the round began.
\<close>

abbreviation (input) tx_again :: "bo_event list" where
  "tx_again \<equiv> tx_events @ [BoAck 1050 (Some [1, 2, 3, 4, 5, 6])
      \<lparr>ack_ack_type = packet_code PKT_FILE_TRANSFER, ack_result = ESPNOW_FILE_ACK_GAPS, ack_ref_tx_counter = 7\<rparr> (Some [1, 0, 5]),
    BoChunk 1 (Some (replicate 70 2)), BoLoop 1060]"

theorem gaps_asked_after_all_sent_witness:
  "transmitted (\<lambda>_ _ _ _. (ESP_OK, 7)) (round_start tx_events tx_start 0) (bo_run tx_events tx_start) 2
   \<and> transmitted (\<lambda>_ _ _ _. (ESP_OK, 7)) (round_start tx_again tx_start 0) (bo_run tx_again tx_start) 1
   \<and> round_start tx_again tx_start 0 + 2 = length (bo_sent (bo_run tx_again tx_start))"
proof -
  have n: "bo_base (bo_run tx_events tx_start) = 0 \<and> bo_n (bo_run tx_events tx_start) = 3
      \<and> it_retransmit_round (bo_tracker (bo_run tx_events tx_start)) = 0"
    "bo_base (bo_run tx_again tx_start) = 0 \<and> bo_n (bo_run tx_again tx_start) = 3
      \<and> it_gap_sequences (bo_tracker (bo_run tx_again tx_start)) = {1}"
    "bo_state (bo_run tx_again tx_start) = BO_WAITING_GAPS"
    "round_start tx_again tx_start 0 + 2 = length (bo_sent (bo_run tx_again tx_start))"
    by code_simp+
  have b: "\<forall>ev \<in> set tx_again. bo_event_bounded ev" "\<forall>f. BoSetSend f \<in> set tx_events \<longrightarrow> f = (\<lambda>_ _ _ _. (ESP_OK, 7))"
    "\<forall>f. BoSetSend f \<in> set tx_again \<longrightarrow> f = (\<lambda>_ _ _ _. (ESP_OK, 7))"
    by (simp_all add: tx_events_def)
  have u: "unat (2 :: u32) < 3" "unat (1 :: u32) < 3" by simp_all
  show ?thesis
    using gaps_asked_after_all_sent [OF tx_bounded b(2) refl tx_waiting]
      gaps_asked_after_all_sent [OF b(1,3) refl n(3)] n u by auto
qed

lemma bitmap_received_has:
  assumes "length bm < 65536"
  shows "bitmap_received bm (of_nat (length bm)) i \<longleftrightarrow> ib_has bm i"
proof -
  have "unat (of_nat (length bm) :: u16) = length bm" using assms by (intro unat_of_nat_small) simp
  then show ?thesis
    using bit_mask_bit [of "i mod 8" "bm ! (i div 8)"] by (simp add: bitmap_received_def ib_has_def)
qed

text \<open>
  Exactly the missing chunks are repeated: given the GAPS acknowledgement a receiver sends for the
  bitmap \<open>bm\<close>, the sender starts another round that consists of the chunks of the increment whose bit is
  clear, counts the round and forgets the BLAST_COMPLETE packets of the last one, so that a late
  acknowledgement of those is not taken for the new round.
\<close>

theorem gaps_ack_requests_missing:
  assumes "bo_ok s" and "bo_state s = BO_WAITING_GAPS" and "it_retransmit_round (bo_tracker s) < ESPNOW_MAX_RETRANSMIT_ROUNDS"
    and "0 < length bm" and "length bm < 65536" and "j < bo_n s" and "\<not> ib_has bm j"
    and "s' = bo_handle_gaps_ack now (Some (le16 (of_nat (length bm)) @ bm)) s"
  shows "it_requested_sequences (bo_tracker s') = {q. bo_base s \<le> unat q \<and> unat q < bo_base s + bo_n s \<and> \<not> ib_has bm (unat q - bo_base s)}
    \<and> bo_state s' = BO_BLASTING \<and> it_sent_sequences (bo_tracker s') = {}
    \<and> it_retransmit_round (bo_tracker s') = it_retransmit_round (bo_tracker s) + 1
    \<and> it_blast_complete_tx_history (bo_tracker s') = []"
proof -
  have rd: "bo_round_ok s" and f: "bo_in_file s" using assms(1,2) by (auto simp: bo_ok_def)
  then have g: "bo_geometry_ok s" by (simp add: bo_round_ok_def Let_def)
  let ?gaps = "{q :: u32. bo_base s \<le> unat q \<and> unat q < bo_base s + bo_n s \<and> \<not> ib_has bm (unat q - bo_base s)}"
  have gaps: "collect_gaps bm (of_nat (length bm)) (it_increment_start_seq (bo_tracker s)) [0..<bo_n s] {} = ?gaps"
    unfolding gaps_eq [OF g f] by (auto simp: in_range_iff [OF g f] bitmap_received_has [OF assms(5)])
  define q where "q = (of_nat (bo_base s + j) :: u32)"
  have "bo_base s + j < 2 ^ 32"
    by (rule less_trans [OF _ le_less_trans [OF bo_increment_bounds(3) [OF g f]]]) (use assms(6) in simp_all)
  then have uq: "unat q = bo_base s + j" unfolding q_def by (intro unat_of_nat_small) simp
  have qg: "q \<in> ?gaps"
  proof (intro CollectI conjI)
    show "bo_base s \<le> unat q" by (simp only: uq le_add1)
    show "unat q < bo_base s + bo_n s" by (simp only: uq add_less_cancel_left assms(6))
    show "\<not> ib_has bm (unat q - bo_base s)" unfolding uq add_diff_cancel_left' by (rule assms(7))
  qed
  then have ne: "?gaps \<noteq> {}" by blast
  have l: "unat (of_nat (length bm) :: u16) = length bm" using assms(5) by (intro unat_of_nat_small) simp
  have l0: "(of_nat (length bm) :: u16) \<noteq> 0"
  proof
    assume "(of_nat (length bm) :: u16) = 0"
    then have "unat (of_nat (length bm) :: u16) = 0" by (simp only: unsigned_0)
    with l assms(4) show False by simp
  qed
  have "s' = bo_handle_gaps_bitmap bm (of_nat (length bm)) s"
    unfolding assms(8) bo_handle_gaps_ack_def Let_def option.case using assms(3) l l0
    by (simp only: rd16_append rd16_le16 length_append length_le16 append_eq_append_conv drop_append) (simp add: not_le)
  then have "s' = (let t = (bo_tracker s)\<lparr>it_gap_sequences := ?gaps\<rparr> in
      s\<lparr>bo_tracker := t\<lparr>it_retransmit_round := it_retransmit_round t + 1, it_blast_complete_retries := 0,
         it_blast_complete_tx_history := [], it_requested_sequences := ?gaps, it_sent_sequences := {}\<rparr>, bo_state := BO_BLASTING\<rparr>)"
    unfolding bo_handle_gaps_bitmap_def Let_def gaps using ne by (simp only: if_False)
  then show ?thesis by (simp only: Let_def) simp
qed

theorem gaps_ack_requests_missing_witness:
  "it_requested_sequences (bo_tracker (bo_handle_gaps_ack 1100 (Some [1, 0, 5]) (bo_run tx_events tx_start))) =
    {q. unat q = bo_base (bo_run tx_events tx_start) + 1}"
proof -
  have ok: "bo_ok (bo_run tx_events tx_start)" by (rule bo_ok_run [OF bo_ok_init tx_bounded])
  have n: "bo_n (bo_run tx_events tx_start) = 3" "it_retransmit_round (bo_tracker (bo_run tx_events tx_start)) < 10"
    by code_simp+
  have h: "ib_has [5] j \<longleftrightarrow> j = 0 \<or> j = 2" if "j < 3" for j
  proof -
    have "j = 0 \<or> j = 1 \<or> j = 2" using that by linarith
    then show ?thesis by (auto simp: ib_has_def)
  qed
  have e: "le16 (of_nat (length [5 :: u8])) @ [5] = [1, 0, 5]" by (simp add: le16_def)
  have "{q. bo_base s \<le> unat (q :: u32) \<and> unat q < bo_base s + 3 \<and> \<not> ib_has [5] (unat q - bo_base s)} = {q. unat q = bo_base s + 1}" for s
    using h by force
  then show ?thesis
    using gaps_ack_requests_missing [OF ok tx_waiting n(2), of "[5]" 1 _ 1100, OF _ _ _ _ refl] h n(1) unfolding e by simp
qed

text \<open>
  C23: Both ends compute the same geometry. When the receiver accepts an announcement (installing chunk
  size \<open>c\<close> and \<open>kb\<close> KB of buffer) and the sender gets the ACCEPT acknowledgement the receiver sends for it, they agree
  on the file size, the chunk size, the number of chunks and increments, and the size of every
  increment, for every file size, also where the 16-bit count of increments wraps.
\<close>

theorem bridge_receiver_geometry:
  assumes "bo_state s = BO_ANNOUNCING" and "bo_file_size s = fann_file_size a" and "bo_file_size s \<noteq> 0"
    and "0 < c" and "c \<le> bo_requested_chunk_size s" and "0 < kb" and "kb \<le> 255"
    and "ar_negotiated_chunk_size response = c"
    and "r' = fr_install_announce p a response kb r"
    and "s' = bo_handle_accept now (Some (le16 c @ [ucast kb, bo_action s])) s" and "it_total_chunks (bo_tracker s') \<noteq> 0"
  shows "bo_file_size s' = fr_file_size r' \<and> bo_negotiated_chunk_size s' = fr_chunk_payload_size r'
    \<and> it_total_chunks (bo_tracker s') = fr_total_chunks r'
    \<and> it_chunks_per_increment (bo_tracker s') = fr_chunks_per_increment r'
    \<and> it_total_increments (bo_tracker s') = fr_total_increments r'
    \<and> it_chunks_in_last_increment (bo_tracker s') = fr_chunks_in_last_increment r'
    \<and> (\<forall>q. bo_expected_chunk_len q s' = fr_expected_chunk_len q r')"
proof -
  have "unat kb < 256" using assms(7) by (simp add: word_le_nat_alt)
  then have "unat (ucast (ucast kb :: u8) :: u16) = unat kb"
    by (simp add: unsigned_ucast_eq unsigned_take_bit_eq take_bit_nat_eq_self)
  then have kb: "ucast (ucast kb :: u8) = kb" by (simp add: word_unat_eq_iff)
  have kb0: "(ucast kb :: u8) \<noteq> 0" using kb assms(6) by (metis less_irrefl unsigned_0)
  define t where "t = it_accept_geometry now (bo_file_size s) c (ucast kb) (bo_tracker s)"
  have tot: "it_total_chunks t = bo_file_size s div ucast c + (if bo_file_size s mod ucast c \<noteq> 0 then 1 else 0)"
    by (simp add: t_def it_accept_geometry_def Let_def)
  have "s' = (if it_total_chunks t = 0 then bo_fail_transfer now 3 ''invalid negotiated geometry'' True (s\<lparr>bo_negotiated_chunk_size := c, bo_tracker := t\<rparr>)
      else bo_request_increment_chunks (s\<lparr>bo_negotiated_chunk_size := c, bo_tracker := t, bo_control_attempt_count := 0,
        bo_progress_pct := 0, bo_public_progress_pct := 0, bo_public_state := ''TRANSFERRING'', bo_state := BO_BLASTING\<rparr>))"
    using assms(4,5) kb0
    by (simp add: assms(10) bo_handle_accept_def Let_def rd16_append rd16_le16 nth_append t_def)
  moreover have "it_total_chunks (bo_tracker (bo_fail_transfer now r m n u)) = 0" for r m n u
    by (simp add: bo_fail_transfer_def Let_def bo_reset_def it_reset_def)
  ultimately have s': "s' = bo_request_increment_chunks (s\<lparr>bo_negotiated_chunk_size := c, bo_tracker := t, bo_control_attempt_count := 0,
        bo_progress_pct := 0, bo_public_progress_pct := 0, bo_public_state := ''TRANSFERRING'', bo_state := BO_BLASTING\<rparr>)"
    using assms(11) by (simp split: if_splits)
  have f: "bo_file_size s' = bo_file_size s" "bo_negotiated_chunk_size s' = c" "it_total_chunks (bo_tracker s') = it_total_chunks t"
    "it_chunks_per_increment (bo_tracker s') = it_chunks_per_increment t" "it_total_increments (bo_tracker s') = it_total_increments t"
    "it_chunks_in_last_increment (bo_tracker s') = it_chunks_in_last_increment t"
    by (simp_all add: s' bo_request_increment_chunks_def request_increment_chunks_eq)
  have r: "fr_file_size r' = bo_file_size s" "fr_chunk_payload_size r' = c" "fr_total_chunks r' = it_total_chunks t"
    "fr_chunks_per_increment r' = it_chunks_per_increment t" "fr_total_increments r' = it_total_increments t"
    "fr_chunks_in_last_increment r' = it_chunks_in_last_increment t"
    using assms(2,8) kb
    by (simp_all add: assms(9) fr_install_announce_def fr_compute_increment_geometry_def t_def it_accept_geometry_def Let_def)
  then show ?thesis using f by (simp add: bo_expected_chunk_len_def fr_expected_chunk_len_def Let_def)
qed

theorem bridge_receiver_geometry_witness:
  "it_total_increments (bo_tracker (bo_handle_accept 5 (Some (le16 200 @ [ucast (8 :: u16), 1]))
      ((ESPNowOTAManager_init bo_default_config)\<lparr>bo_state := BO_ANNOUNCING, bo_file_size := 100000, bo_requested_chunk_size := 221, bo_action := 1\<rparr>)))
   = fr_total_increments (fr_install_announce 0 \<lparr>fann_phase = 0, fann_file_size = 100000, fann_md5 = [], fann_chunk_size = 221,
      fann_action = 1, fann_file_id = []\<rparr> \<lparr>ar_accepted = True, ar_reject_reason = 0, ar_negotiated_chunk_size = 200\<rparr> 8 (FileReceiver_init ()))"
proof -
  let ?s = "(ESPNowOTAManager_init bo_default_config)\<lparr>bo_state := BO_ANNOUNCING, bo_file_size := 100000, bo_requested_chunk_size := 221, bo_action := 1\<rparr>"
  have "it_total_chunks (bo_tracker (bo_handle_accept 5 (Some (le16 200 @ [ucast (8 :: u16), bo_action ?s])) ?s)) \<noteq> 0"
    by code_simp
  then show ?thesis
    using bridge_receiver_geometry [where now = 5 and s = ?s and p = 0 and r = "FileReceiver_init ()" and c = 200 and kb = 8
        and a = "\<lparr>fann_phase = 0, fann_file_size = 100000, fann_md5 = [], fann_chunk_size = 221, fann_action = 1, fann_file_id = []\<rparr>"
        and response = "\<lparr>ar_accepted = True, ar_reject_reason = 0, ar_negotiated_chunk_size = 200\<rparr>", OF _ _ _ _ _ _ _ _ refl refl]
    by simp
qed

text \<open>
  Every transfer ends: whatever state it is in, a timer call after the target became unreachable,
  after the global timeout, or (while blasting or waiting for gaps, outside a back-off) after 10 or 45 seconds without
  a sign of the remote fails the transfer: the sender is idle, reports FAIL and is ready for the
  next one; unless the target is unreachable, the remote is told with an ABORT packet.
\<close>

theorem timeouts_end_transfer:
  assumes "bo_ok s" and "bo_state s \<noteq> BO_IDLE"
    and "\<not> bo_target_reachable s
      \<or> 0 < cfg_global_timeout_ms (bo_config s) \<and> cfg_global_timeout_ms (bo_config s) < now - bo_transfer_started_ms s
      \<or> bo_no_mem_backoff_until_ms s \<le> now \<and> 0 < it_last_remote_activity_ms (bo_tracker s)
         \<and> (bo_state s = BO_BLASTING \<and> 10000 < now - it_last_remote_activity_ms (bo_tracker s)
             \<or> bo_state s = BO_WAITING_GAPS \<and> 45000 < now - it_last_remote_activity_ms (bo_tracker s))"
    and "s' = bo_loop now s"
  shows "bo_state s' = BO_IDLE \<and> bo_public_state s' = ''FAIL'' \<and> \<not> bo_public_busy s' \<and> bo_pending_chunks s' = []
    \<and> bo_tracker s' = it_reset
    \<and> (bo_target_reachable s \<longrightarrow> bo_sent s' = bo_sent s @ [(bo_leaf_mac s, packet_code PKT_FILE_TRANSFER, c_enc espnow_file_abort_codec
          \<lparr>fabort_phase = ESPNOW_FILE_PHASE_ABORT, fabort_reason = ESPNOW_FILE_ABORT_TIMEOUT\<rparr>)])"
proof -
  have fn: "bo_send_frame_fn s \<noteq> None" and na: "bo_state s \<noteq> BO_ABORTING"
    using bo_okD(4) [OF assms(1,2)] assms(1) by (auto simp: bo_ok_def)
  note f = fail_transfer_fields [OF fn] and sent = fail_transfer_sent [OF fn na]
  consider "s' = bo_fail_transfer now 2 ''target unreachable'' False s" "\<not> bo_target_reachable s"
    | m where "s' = bo_fail_transfer now 1 m True s"
  proof (cases "bo_target_reachable s")
    case True
    let ?g = "0 < cfg_global_timeout_ms (bo_config s) \<and> cfg_global_timeout_ms (bo_config s) < now - bo_transfer_started_ms s"
    let ?silent = "0 < it_last_remote_activity_ms (bo_tracker s) \<and> (bo_state s = BO_BLASTING \<or> bo_state s = BO_WAITING_GAPS)
      \<and> (if bo_state s = BO_WAITING_GAPS then 45000 else 10000) < now - it_last_remote_activity_ms (bo_tracker s)"
    have s': "s' = (if ?g then bo_fail_transfer now 1 ''transfer global timeout'' True s
        else if now < bo_no_mem_backoff_until_ms s then s
        else if ?silent then bo_fail_transfer now 1 ''radio silence from remote'' True s else bo_loop_state now s)"
      using True assms(2) by (simp only: assms(4) bo_loop_def bo_is_busy_def not_True_eq_False if_False) simp
    have "?g \<or> \<not> now < bo_no_mem_backoff_until_ms s \<and> ?silent"
      using assms(3) True by (cases "bo_state s = BO_WAITING_GAPS") (auto simp add: not_less)
    then have "s' = bo_fail_transfer now 1 ''transfer global timeout'' True s \<or> s' = bo_fail_transfer now 1 ''radio silence from remote'' True s"
      unfolding s' by presburger
    then show thesis using that by blast
  qed (use assms(2) that in \<open>simp add: assms(4) bo_loop_def bo_is_busy_def\<close>)
  then show ?thesis by cases (simp_all add: f sent)
qed

theorem timeouts_end_transfer_witness:
  "bo_state (bo_loop 50000 (bo_run tx_events tx_start)) = BO_IDLE"
proof -
  have ok: "bo_ok (bo_run tx_events tx_start)" by (rule bo_ok_run [OF bo_ok_init tx_bounded])
  have "bo_no_mem_backoff_until_ms (bo_run tx_events tx_start) \<le> 50000 \<and> 0 < it_last_remote_activity_ms (bo_tracker (bo_run tx_events tx_start))
      \<and> 45000 < 50000 - it_last_remote_activity_ms (bo_tracker (bo_run tx_events tx_start))"
    by code_simp
  then show ?thesis using timeouts_end_transfer [OF ok _ _ refl, of 50000] tx_waiting by simp
qed

text \<open>
  C27: A bitmap that misses nothing makes the sender count on past the last increment: it is then blasting
  with nothing to request, nothing queued and nothing sent, so that timer calls neither send anything nor leave the state,
  until a timeout ends the transfer; END is never sent although the remote has everything.
\<close>

theorem full_bitmap_on_last_increment_stalls:
  assumes "bo_ok s" and "bo_state s = BO_WAITING_GAPS" and "it_retransmit_round (bo_tracker s) < ESPNOW_MAX_RETRANSMIT_ROUNDS"
    and "unat (it_current_increment (bo_tracker s)) + 1 = unat (it_total_increments (bo_tracker s))"
    and "0 < length bm" and "length bm < 65536" and "\<forall>j < bo_n s. ib_has bm j"
    and "s' = bo_handle_gaps_ack now (Some (le16 (of_nat (length bm)) @ bm)) s"
  shows "bo_state s' = BO_BLASTING \<and> it_requested_sequences (bo_tracker s') = {} \<and> bo_pending_chunks s' = []
    \<and> bo_sent (bo_pump_queued_chunks t (bo_pump_blasting t s')) = bo_sent s
    \<and> bo_state (bo_pump_queued_chunks t (bo_pump_blasting t s')) = BO_BLASTING"
proof -
  have rd: "bo_round_ok s" and f: "bo_in_file s" and p: "bo_pending_chunks s = []" using assms(1,2) by (auto simp: bo_ok_def)
  then have g: "bo_geometry_ok s" by (simp add: bo_round_ok_def Let_def)
  have gaps: "collect_gaps bm (of_nat (length bm)) (it_increment_start_seq (bo_tracker s)) [0..<bo_n s] {} = {}"
  proof -
    have "ib_has bm (unat q - bo_base s)" if "q \<in> it_range (bo_tracker s)" for q
    proof -
      have "unat q - bo_base s < bo_n s" using that unfolding in_range_iff [OF g f] by linarith
      then show ?thesis using assms(7) by blast
    qed
    then show ?thesis unfolding gaps_eq [OF g f] by (auto simp: bitmap_received_has [OF assms(6)])
  qed
  have l: "unat (of_nat (length bm) :: u16) = length bm" using assms(6) by (intro unat_of_nat_small) simp
  have l0: "(of_nat (length bm) :: u16) \<noteq> 0"
  proof
    assume "(of_nat (length bm) :: u16) = 0"
    then have "unat (of_nat (length bm) :: u16) = 0" by (simp only: unsigned_0)
    with l assms(5) show False by simp
  qed
  have gb: "s' = bo_handle_gaps_bitmap bm (of_nat (length bm)) s"
    unfolding assms(8) bo_handle_gaps_ack_def Let_def option.case using assms(3) l l0
    by (simp only: rd16_append rd16_le16 length_append length_le16 append_eq_append_conv drop_append) (simp add: not_le)
  define u where "u = it_all_received ((bo_tracker s)\<lparr>it_gap_sequences := {}\<rparr>)"
  have s': "s' = bo_request_increment_chunks (s\<lparr>bo_tracker := u, bo_state := BO_BLASTING\<rparr>)"
    by (simp add: gb bo_handle_gaps_bitmap_def Let_def gaps u_def)
  have cur: "it_current_increment u = it_total_increments u"
    using unat_cur_Suc [OF f] assms(4) by (simp add: u_def it_all_received_def word_unat_eq_iff)
  have "bo_geometry_ok (s\<lparr>bo_tracker := u\<rparr>)"
    using g by (simp add: geometry_ok_tracker u_def it_all_received_def)
  then have "it_range u = {}" using range_overrun [of "s\<lparr>bo_tracker := u\<rparr>"] cur by simp
  then have r: "it_round u = {}" by (simp add: it_round_def u_def it_all_received_def)
  have s1: "s' = s\<lparr>bo_tracker := u\<lparr>it_requested_sequences := {}, it_sent_sequences := {}\<rparr>, bo_state := BO_BLASTING\<rparr>"
    by (simp add: s' bo_request_increment_chunks_def request_increment_chunks_eq r)
  have pb: "bo_pump_blasting t s' = s' \<or> bo_pump_blasting t s' = s'\<lparr>bo_public_state := ''TRANSFERRING''\<rparr>"
    by (auto simp: bo_pump_blasting_def s1 bo_request_increment_chunks_def request_increment_chunks_eq r)
  have pq: "bo_pump_queued_chunks t v = v" if "bo_pending_chunks v = []" "it_sent_sequences (bo_tracker v) = {}" for v
    using that by (simp add: bo_pump_queued_chunks_def)
  show ?thesis using pb by (auto simp: pq s1 p)
qed

theorem full_bitmap_on_last_increment_stalls_witness:
  "it_requested_sequences (bo_tracker (bo_handle_gaps_ack 1100 (Some [1, 0, 7]) (bo_run tx_events tx_start))) = {}"
proof -
  have ok: "bo_ok (bo_run tx_events tx_start)" by (rule bo_ok_run [OF bo_ok_init tx_bounded])
  have n: "bo_n (bo_run tx_events tx_start) = 3" "it_retransmit_round (bo_tracker (bo_run tx_events tx_start)) < 10"
    "unat (it_current_increment (bo_tracker (bo_run tx_events tx_start))) + 1 = unat (it_total_increments (bo_tracker (bo_run tx_events tx_start)))"
    by code_simp+
  have h: "ib_has [7] j" if "j < 3" for j
  proof -
    have "j = 0 \<or> j = 1 \<or> j = 2" using that by linarith
    then show ?thesis by (auto simp: ib_has_def)
  qed
  have e: "le16 (of_nat (length [7 :: u8])) @ [7] = [1, 0, 7]" by (simp add: le16_def)
  show ?thesis
    using full_bitmap_on_last_increment_stalls [OF ok tx_waiting n(2,3), of "[7]" _ 1100, OF _ _ _ refl] h n(1) unfolding e by simp
qed

end
