(* ===== verification/Fragments.thy ===== *)
theory Fragments
  imports Payloads "HOL-Library.AList"
begin

text \<open>
  Values longer than a frame travel in fragments. The remote
  (\<^verbatim>\<open>esp_tree_remote/remote_protocol.cpp\<close>) and the bridge
  (\<^verbatim>\<open>esp_tree_bridge/bridge_protocol.cpp\<close>) each have their own copy of the reassembly
  buffer; both are translated. A slot of \<open>max_entity_fragment\<close> bytes is kept for each fragment;
  a fragment that arrives again is ignored. What the two copies promise is the locale
  \<open>reassembly\<close>, proved for both; the reassembly theorem is proved once inside it.
\<close>

section \<open>The assembly buffer\<close>

record espnow_fragment_assembly =
  fa_entity_index :: u8
  fa_flags :: u8
  fa_fragment_count :: u8
  fa_message_tx_base :: u32
  fa_first_seen_ms :: u32
  fa_last_seen_ms :: u32
  fa_bytes_received :: nat
  fa_lengths :: "u16 list"
  fa_received :: "bool list"
  fa_data :: bytes
  fa_active :: bool

definition fragment_assembly_init :: espnow_fragment_assembly where
  "fragment_assembly_init =
     \<lparr>fa_entity_index = 0, fa_flags = 0, fa_fragment_count = 0, fa_message_tx_base = 0,
      fa_first_seen_ms = 0, fa_last_seen_ms = 0, fa_bytes_received = 0, fa_lengths = [],
      fa_received = [], fa_data = [], fa_active = False\<rparr>"

definition fa_start :: "EntityPayloadView \<Rightarrow> u32 \<Rightarrow> u32 \<Rightarrow> nat \<Rightarrow> espnow_fragment_assembly \<Rightarrow> espnow_fragment_assembly" where
  "fa_start view message_tx_base now_ms reserved a =
     a\<lparr>fa_active := True, fa_entity_index := epv_entity_index view, fa_flags := epv_flags view,
       fa_fragment_count := epv_fragment_count view, fa_message_tx_base := message_tx_base,
       fa_first_seen_ms := now_ms, fa_last_seen_ms := now_ms,
       fa_lengths := replicate (unat (epv_fragment_count view)) 0,
       fa_received := replicate (unat (epv_fragment_count view)) False,
       fa_data := replicate reserved 0, fa_bytes_received := 0\<rparr>"

text \<open>The \<^verbatim>\<open>memcpy\<close> of a fragment's value and the bookkeeping after it.\<close>

definition fa_copy :: "nat \<Rightarrow> EntityPayloadView \<Rightarrow> espnow_fragment_assembly \<Rightarrow> espnow_fragment_assembly" where
  "fa_copy offset view a =
     a\<lparr>fa_data := take offset (fa_data a) @ epv_value view
                   @ drop (offset + length (epv_value view)) (fa_data a),
       fa_received := (fa_received a)[unat (epv_fragment_index view) := True],
       fa_lengths := (fa_lengths a)[unat (epv_fragment_index view) := of_nat (length (epv_value view))],
       fa_bytes_received := fa_bytes_received a + length (epv_value view)\<rparr>"

section \<open>The remote's copy\<close>

definition store_fragment ::
  "u16 \<Rightarrow> u16 \<Rightarrow> espnow_fragment_assembly \<Rightarrow> EntityPayloadView \<Rightarrow> u32 \<Rightarrow> u32 \<Rightarrow> espnow_fragment_assembly \<times> bool" where
  "store_fragment max_entity_fragment max_assembly_bytes assembly view message_tx_base now_ms =
     (let reserved = unat (epv_fragment_count view) * unat max_entity_fragment in
      if \<not> fa_active assembly \<and> reserved > unat max_assembly_bytes then (assembly, False)
      else if fa_active assembly
           \<and> (fa_message_tx_base assembly \<noteq> message_tx_base
              \<or> fa_fragment_count assembly \<noteq> epv_fragment_count view) then (assembly, False)
      else
        (let a = (if \<not> fa_active assembly then fa_start view message_tx_base now_ms reserved assembly
                  else assembly\<lparr>fa_last_seen_ms := now_ms\<rparr>);
             i = unat (epv_fragment_index view);
             offset = i * unat max_entity_fragment
         in if fa_received a ! i then (a, True)
            else if offset + length (epv_value view) > length (fa_data a) then (a, False)
            else (let a = fa_copy offset view a
                  in (a, fa_bytes_received a \<le> unat max_assembly_bytes))))"

definition fragment_assembly_complete :: "espnow_fragment_assembly \<Rightarrow> bool" where
  "fragment_assembly_complete a \<longleftrightarrow>
     fa_active a \<and> fa_fragment_count a \<noteq> 0
     \<and> (\<forall>i \<in> set [0..<unat (fa_fragment_count a)]. fa_received a ! i)"

definition assemble_fragment_payload :: "u16 \<Rightarrow> espnow_fragment_assembly \<Rightarrow> bytes" where
  "assemble_fragment_payload max_entity_fragment a =
     concat (map (\<lambda>i. take (unat (fa_lengths a ! i)) (drop (i * unat max_entity_fragment) (fa_data a)))
       [0..<unat (fa_fragment_count a)])"

section \<open>The bridge's copy\<close>

text \<open>
  It takes the flags of the last fragment, and refuses an index outside the message itself instead of
  relying on the parser.
\<close>

definition bridge_store_fragment ::
  "u16 \<Rightarrow> u16 \<Rightarrow> espnow_fragment_assembly \<Rightarrow> EntityPayloadView \<Rightarrow> u32 \<Rightarrow> u32 \<Rightarrow> espnow_fragment_assembly \<times> bool" where
  "bridge_store_fragment max_entity_fragment max_assembly_bytes assembly view message_tx_base now_ms =
     (let reserved = unat (epv_fragment_count view) * unat max_entity_fragment in
      if \<not> fa_active assembly \<and> reserved > unat max_assembly_bytes then (assembly, False)
      else if fa_active assembly
           \<and> (fa_message_tx_base assembly \<noteq> message_tx_base
              \<or> fa_fragment_count assembly \<noteq> epv_fragment_count view) then (assembly, False)
      else
        (let a = (if \<not> fa_active assembly then fa_start view message_tx_base now_ms reserved assembly
                  else assembly\<lparr>fa_last_seen_ms := now_ms\<rparr>);
             i = unat (epv_fragment_index view);
             a = (if int i = int (unat (fa_fragment_count a)) - 1 then a\<lparr>fa_flags := epv_flags view\<rparr> else a);
             offset = i * unat max_entity_fragment
         in if i \<ge> unat (fa_fragment_count a) then (a, False)
            else if fa_received a ! i then (a, True)
            else if offset + length (epv_value view) > length (fa_data a) then (a, False)
            else (let a = fa_copy offset view a
                  in (a, fa_bytes_received a \<le> unat max_assembly_bytes))))"

definition bridge_fragment_assembly_complete :: "espnow_fragment_assembly \<Rightarrow> bool" where
  "bridge_fragment_assembly_complete a \<longleftrightarrow>
     fa_active a \<and> fa_fragment_count a \<noteq> 0
     \<and> (\<forall>i \<in> set [0..<unat (fa_fragment_count a)]. fa_received a ! i)"

definition bridge_assemble_fragment_payload :: "u16 \<Rightarrow> espnow_fragment_assembly \<Rightarrow> bytes" where
  "bridge_assemble_fragment_payload max_entity_fragment a =
     concat (map (\<lambda>i. take (unat (fa_lengths a ! i)) (drop (i * unat max_entity_fragment) (fa_data a)))
       [0..<unat (fa_fragment_count a)])"

section \<open>Cutting a value\<close>

text \<open>
  The loop shared by \<^verbatim>\<open>send_state_\<close> and \<^verbatim>\<open>send_schema_push_\<close>: the value of
  fragment \<open>chunk\<close>; \<open>None\<close> is the null pointer passed for an empty one.
\<close>

definition fragment_chunk_count :: "u16 \<Rightarrow> nat \<Rightarrow> nat" where
  "fragment_chunk_count frag_size full_payload_len =
     max 1 ((full_payload_len + unat frag_size - 1) div unat frag_size)"

definition fragment_chunk_len :: "u16 \<Rightarrow> nat \<Rightarrow> nat \<Rightarrow> nat" where
  "fragment_chunk_len frag_size full_payload_len chunk =
     (let offset = chunk * unat frag_size;
          remaining = (if full_payload_len > offset then full_payload_len - offset else 0)
      in min (unat frag_size) remaining)"

definition fragment_packet :: "u16 \<Rightarrow> bytes \<Rightarrow> u8 \<Rightarrow> u8 \<Rightarrow> nat \<Rightarrow> bytes" where
  "fragment_packet frag_size full_payload entity_index flags chunk =
     (let len = fragment_chunk_len frag_size (length full_payload) chunk
      in append_entity_payload entity_index flags (of_nat chunk)
           (of_nat (fragment_chunk_count frag_size (length full_payload)))
           (if len > 0 then Some (drop (chunk * unat frag_size) full_payload) else None) len)"

section \<open>What a reassembly buffer promises\<close>

text \<open>
  The abstract buffer is the map from fragment numbers to their values. \<open>fa_slots\<close> reads it off the
  bytes; \<open>fa_wf\<close> is what the code keeps true of them: a slot for each fragment, and what is recorded of
  a fragment lies inside the data.
\<close>

definition fa_slots :: "u16 \<Rightarrow> espnow_fragment_assembly \<Rightarrow> nat \<Rightarrow> bytes option" where
  "fa_slots F a i = (if fa_active a \<and> i < unat (fa_fragment_count a) \<and> fa_received a ! i
     then Some (take (unat (fa_lengths a ! i)) (drop (i * unat F) (fa_data a))) else None)"

definition fa_wf :: "u16 \<Rightarrow> u16 \<Rightarrow> espnow_fragment_assembly \<Rightarrow> bool" where
  "fa_wf F M a \<longleftrightarrow> (fa_active a \<longrightarrow>
     length (fa_received a) = unat (fa_fragment_count a) \<and> length (fa_lengths a) = unat (fa_fragment_count a)
     \<and> length (fa_data a) = unat (fa_fragment_count a) * unat F \<and> length (fa_data a) \<le> unat M
     \<and> (\<forall>i < unat (fa_fragment_count a). i * unat F + unat (fa_lengths a ! i) \<le> length (fa_data a)))"

text \<open>
  \<open>fa_honest\<close>: every value recorded fits its own slot and the byte count is their sum, as it is while
  only a sender that cuts values by the same fragment size is heard.
\<close>

definition fa_honest :: "u16 \<Rightarrow> espnow_fragment_assembly \<Rightarrow> bool" where
  "fa_honest F a \<longleftrightarrow> (fa_active a \<longrightarrow>
     (\<forall>i < unat (fa_fragment_count a). unat (fa_lengths a ! i) \<le> unat F)
     \<and> (\<forall>i < unat (fa_fragment_count a). \<not> fa_received a ! i \<longrightarrow> fa_lengths a ! i = 0)
     \<and> fa_bytes_received a = sum_list (map unat (fa_lengths a)))"

section \<open>Lemmas on the buffer\<close>

lemma take_drop_overwrite:
  assumes "p + l \<le> o' \<or> o' + length v \<le> p" and "o' + length v \<le> length d" and "p + l \<le> length d"
  shows "take l (drop p (take o' d @ v @ drop (o' + length v) d)) = take l (drop p d)"
  using assms(1)
proof
  assume "p + l \<le> o'"
  then have "take (p + l) (take o' d @ v @ drop (o' + length v) d) = take (p + l) d"
    using assms(2) by simp
  then show ?thesis by (metis take_drop add.commute)
next
  assume "o' + length v \<le> p"
  then show ?thesis using assms(2) by simp
qed

lemma take_drop_written:
  "o' + length v \<le> length d \<Longrightarrow> take (length v) (drop o' (take o' d @ v @ drop (o' + length v) d)) = v"
  by simp

lemma slots_apart:
  assumes "i \<noteq> (j :: nat)" and "l \<le> F" and "m \<le> F"
  shows "j * F + l \<le> i * F \<or> i * F + m \<le> j * F"
proof (cases "i < j")
  case True
  then have "Suc i * F \<le> j * F" by (intro mult_le_mono1) simp
  then show ?thesis using assms(3) by simp
next
  case False
  then have "Suc j * F \<le> i * F" using assms(1) by (intro mult_le_mono1) simp
  then show ?thesis using assms(2) by simp
qed

lemma fa_copy_simps [simp]:
  "fa_active (fa_copy off view a) = fa_active a" "fa_fragment_count (fa_copy off view a) = fa_fragment_count a"
  "fa_message_tx_base (fa_copy off view a) = fa_message_tx_base a"
  "fa_received (fa_copy off view a) = (fa_received a)[unat (epv_fragment_index view) := True]"
  "fa_lengths (fa_copy off view a) = (fa_lengths a)[unat (epv_fragment_index view) := of_nat (length (epv_value view))]"
  "fa_bytes_received (fa_copy off view a) = fa_bytes_received a + length (epv_value view)"
  by (simp_all add: fa_copy_def)

lemma fa_copy_data:
  "fa_data (fa_copy off view a) = take off (fa_data a) @ epv_value view @ drop (off + length (epv_value view)) (fa_data a)"
  by (simp add: fa_copy_def)

lemma fa_start_simps [simp]:
  "fa_active (fa_start view b t r a)" "fa_fragment_count (fa_start view b t r a) = epv_fragment_count view"
  "fa_message_tx_base (fa_start view b t r a) = b"
  "fa_received (fa_start view b t r a) = replicate (unat (epv_fragment_count view)) False"
  "fa_lengths (fa_start view b t r a) = replicate (unat (epv_fragment_count view)) 0"
  "fa_data (fa_start view b t r a) = replicate r 0" "fa_bytes_received (fa_start view b t r a) = 0"
  by (simp_all add: fa_start_def)

lemma fa_wf_start:
  assumes "unat (epv_fragment_count view) * unat F \<le> unat M"
  shows "fa_wf F M (fa_start view b t (unat (epv_fragment_count view) * unat F) a)"
    and "fa_honest F (fa_start view b t (unat (epv_fragment_count view) * unat F) a)"
    and "fa_slots F (fa_start view b t r a) = Map.empty"
  using assms by (auto simp: fa_wf_def fa_honest_def fa_slots_def fun_eq_iff sum_list_replicate)

text \<open>Marking the time or the flags changes nothing the buffer is about.\<close>

lemma fa_touch [simp]:
  "fa_wf F M (a\<lparr>fa_last_seen_ms := t\<rparr>) = fa_wf F M a" "fa_honest F (a\<lparr>fa_last_seen_ms := t\<rparr>) = fa_honest F a"
  "fa_slots F (a\<lparr>fa_last_seen_ms := t\<rparr>) = fa_slots F a"
  "fa_wf F M (a\<lparr>fa_flags := w\<rparr>) = fa_wf F M a" "fa_honest F (a\<lparr>fa_flags := w\<rparr>) = fa_honest F a"
  "fa_slots F (a\<lparr>fa_flags := w\<rparr>) = fa_slots F a"
  by (simp_all add: fa_wf_def fa_honest_def fa_slots_def fun_eq_iff)

lemma fa_wf_copy:
  assumes wf: "fa_wf F M a" and "fa_active a" and "epv_fragment_index view < fa_fragment_count a"
    and "unat (epv_fragment_index view) * unat F + length (epv_value view) \<le> length (fa_data a)"
  shows "fa_wf F M (fa_copy (unat (epv_fragment_index view) * unat F) view a)"
proof -
  have "length (epv_value view) < 65536"
    using assms(4) wf assms(2) unat_u16_bound [of M] unfolding fa_wf_def by linarith
  then have l: "unat (of_nat (length (epv_value view)) :: u16) = length (epv_value view)"
    by (intro unat_of_nat_small) simp
  show ?thesis
    using assms by (auto simp: fa_wf_def fa_copy_data l nth_list_update min_def word_less_nat_alt)
qed

lemma fa_slots_copy:
  assumes wf: "fa_wf F M a" and h: "fa_honest F a" and act: "fa_active a"
    and i: "epv_fragment_index view < fa_fragment_count a" and v: "length (epv_value view) \<le> unat F"
  defines "a' \<equiv> fa_copy (unat (epv_fragment_index view) * unat F) view a"
  shows "fa_slots F a' = (fa_slots F a)(unat (epv_fragment_index view) \<mapsto> epv_value view)"
proof
  fix j
  let ?i = "unat (epv_fragment_index view)" and ?n = "unat (fa_fragment_count a)"
  have i': "?i < ?n" using i by (simp add: word_less_nat_alt)
  have len: "length (fa_data a) = ?n * unat F" "length (fa_lengths a) = ?n" "length (fa_received a) = ?n"
    using wf act by (simp_all add: fa_wf_def)
  have "Suc ?i * unat F \<le> ?n * unat F" using i' by (intro mult_le_mono1) simp
  then have fits: "?i * unat F + length (epv_value view) \<le> length (fa_data a)" using v len by simp
  have l: "unat (of_nat (length (epv_value view)) :: u16) = length (epv_value view)"
    by (rule unat_of_nat_small) (use le_less_trans [OF v unat_u16_bound] in simp)
  show "fa_slots F a' j = ((fa_slots F a)(?i \<mapsto> epv_value view)) j"
  proof (cases "j = ?i")
    case True
    then show ?thesis
      using i' act len l take_drop_written [OF fits] by (simp add: a'_def fa_slots_def fa_copy_data)
  next
    case False
    show ?thesis
    proof (cases "j < ?n")
      case True
      have lj: "unat (fa_lengths a ! j) \<le> unat F" "j * unat F + unat (fa_lengths a ! j) \<le> length (fa_data a)"
        using h wf act True unfolding fa_honest_def fa_wf_def by blast+
      show ?thesis
        using False True act take_drop_overwrite [OF slots_apart [OF False [symmetric] lj(1) v] fits lj(2)]
        by (simp add: a'_def fa_slots_def fa_copy_data)
    qed (use False in \<open>simp add: a'_def fa_slots_def\<close>)
  qed
qed

lemma fa_honest_copy:
  assumes wf: "fa_wf F M a" and h: "fa_honest F a" and act: "fa_active a"
    and i: "epv_fragment_index view < fa_fragment_count a" and v: "length (epv_value view) \<le> unat F"
    and new: "\<not> fa_received a ! unat (epv_fragment_index view)"
  shows "fa_honest F (fa_copy off view a)"
proof -
  let ?i = "unat (epv_fragment_index view)"
  have i': "?i < unat (fa_fragment_count a)" using i by (simp add: word_less_nat_alt)
  have len: "length (fa_lengths a) = unat (fa_fragment_count a)" "length (fa_received a) = unat (fa_fragment_count a)"
    using wf act by (simp_all add: fa_wf_def)
  have l: "unat (of_nat (length (epv_value view)) :: u16) = length (epv_value view)"
    by (rule unat_of_nat_small) (use le_less_trans [OF v unat_u16_bound] in simp)
  have z: "fa_lengths a ! ?i = 0" using h act i' new by (simp add: fa_honest_def)
  have "sum_list (map unat ((fa_lengths a)[?i := of_nat (length (epv_value view))]))
      = sum_list (map unat (fa_lengths a)) + length (epv_value view)"
    using i' len z l by (simp add: map_update sum_list_update)
  then show ?thesis
    using h act v len i' l by (auto simp: fa_honest_def nth_list_update)
qed

lemma fa_bytes_bound:
  assumes "fa_wf F M a" and "fa_honest F a" and "fa_active a"
  shows "fa_bytes_received a \<le> unat M"
proof -
  have "sum_list (map unat (fa_lengths a)) \<le> sum_list (map (\<lambda>_. unat F) (fa_lengths a))"
    using assms by (intro sum_list_mono) (auto simp: fa_honest_def fa_wf_def in_set_conv_nth)
  also have "\<dots> = length (fa_data a)" using assms by (simp add: fa_wf_def sum_list_replicate map_replicate_const)
  finally show ?thesis using assms by (simp add: fa_wf_def fa_honest_def)
qed

section \<open>The interface\<close>

definition fa_good :: "u16 \<Rightarrow> u16 \<Rightarrow> espnow_fragment_assembly \<Rightarrow> bool" where
  "fa_good F M a \<longleftrightarrow> fa_wf F M a \<and> fa_honest F a"

definition fa_fits :: "u16 \<Rightarrow> EntityPayloadView \<Rightarrow> bool" where
  "fa_fits F view \<longleftrightarrow> epv_fragment_index view < epv_fragment_count view \<and> length (epv_value view) \<le> unat F"

text \<open>
  A reassembly buffer is a map from fragment numbers to values: a fresh buffer takes the first fragment of any message that fits; a
  buffer in use takes the fragments of its message, keeping the value it has of a fragment it already
  holds; it is complete when no fragment is missing, and then yields the values in order.
\<close>

locale reassembly =
  fixes store :: "u16 \<Rightarrow> u16 \<Rightarrow> espnow_fragment_assembly \<Rightarrow> EntityPayloadView \<Rightarrow> u32 \<Rightarrow> u32 \<Rightarrow> espnow_fragment_assembly \<times> bool"
    and complete :: "espnow_fragment_assembly \<Rightarrow> bool"
    and assemble :: "u16 \<Rightarrow> espnow_fragment_assembly \<Rightarrow> bytes"
  assumes store_first: "\<And>F M a view base now. \<lbrakk>\<not> fa_active a; fa_fits F view;
      unat (epv_fragment_count view) * unat F \<le> unat M\<rbrakk> \<Longrightarrow>
      \<exists>a'. store F M a view base now = (a', True) \<and> fa_good F M a' \<and> fa_active a'
        \<and> fa_message_tx_base a' = base \<and> fa_fragment_count a' = epv_fragment_count view
        \<and> fa_slots F a' = [unat (epv_fragment_index view) \<mapsto> epv_value view]"
    and store_next: "\<And>F M a view base now. \<lbrakk>fa_active a; fa_good F M a; fa_fits F view;
      fa_message_tx_base a = base; fa_fragment_count a = epv_fragment_count view\<rbrakk> \<Longrightarrow>
      \<exists>a'. store F M a view base now = (a', True) \<and> fa_good F M a' \<and> fa_active a'
        \<and> fa_message_tx_base a' = base \<and> fa_fragment_count a' = epv_fragment_count view
        \<and> fa_slots F a' = [unat (epv_fragment_index view) \<mapsto> epv_value view] ++ fa_slots F a"
    and complete_slots: "\<And>F a. fa_active a \<Longrightarrow>
      complete a \<longleftrightarrow> fa_fragment_count a \<noteq> 0 \<and> {..<unat (fa_fragment_count a)} \<subseteq> dom (fa_slots F a)"
    and assemble_slots: "\<And>F a f. \<lbrakk>fa_active a; \<And>i. i < unat (fa_fragment_count a) \<Longrightarrow> fa_slots F a i = Some (f i)\<rbrakk> \<Longrightarrow>
      assemble F a = concat (map f [0..<unat (fa_fragment_count a)])"

text \<open>Storing fragments one after the other; the result says whether all were taken.\<close>

fun store_all ::
  "(espnow_fragment_assembly \<Rightarrow> EntityPayloadView \<Rightarrow> u32 \<Rightarrow> u32 \<Rightarrow> espnow_fragment_assembly \<times> bool)
    \<Rightarrow> (EntityPayloadView \<times> u32 \<times> u32) list \<Rightarrow> espnow_fragment_assembly \<Rightarrow> espnow_fragment_assembly \<times> bool" where
  "store_all store [] a = (a, True)"
| "store_all store ((view, base, now) # rest) a =
     (case store a view base now of (a, ok) \<Rightarrow> (case store_all store rest a of (a, oks) \<Rightarrow> (a, ok \<and> oks)))"

text \<open>A fragment of the message that has the values \<open>f\<close>.\<close>

definition fragment_of :: "u16 \<Rightarrow> u8 \<Rightarrow> u32 \<Rightarrow> (nat \<Rightarrow> bytes) \<Rightarrow> EntityPayloadView \<times> u32 \<times> u32 \<Rightarrow> bool" where
  "fragment_of F count base f = (\<lambda>(view, b, now).
     fa_fits F view \<and> epv_fragment_count view = count \<and> b = base
     \<and> epv_value view = f (unat (epv_fragment_index view)))"

context reassembly
begin

lemma store_all_next:
  assumes "\<forall>x \<in> set frags. fragment_of F count base f x" and "fa_active a" and "fa_good F M a"
    and "fa_message_tx_base a = base" and "fa_fragment_count a = count"
    and "\<And>i v. fa_slots F a i = Some v \<Longrightarrow> v = f i"
  shows "\<exists>a'. store_all (store F M) frags a = (a', True) \<and> fa_active a' \<and> fa_fragment_count a' = count
    \<and> dom (fa_slots F a') = dom (fa_slots F a) \<union> (\<lambda>(view, _). unat (epv_fragment_index view)) ` set frags
    \<and> (\<forall>i v. fa_slots F a' i = Some v \<longrightarrow> v = f i)"
  using assms
proof (induction frags arbitrary: a)
  case (Cons x frags)
  obtain view b now where x: "x = (view, b, now)" by (cases x)
  have fr: "fa_fits F view" "epv_fragment_count view = count" "b = base"
    "epv_value view = f (unat (epv_fragment_index view))"
    using Cons.prems(1) x by (auto simp: fragment_of_def)
  obtain a1 where a1: "store F M a view base now = (a1, True)" "fa_good F M a1" "fa_active a1"
    "fa_message_tx_base a1 = base" "fa_fragment_count a1 = count"
    "fa_slots F a1 = [unat (epv_fragment_index view) \<mapsto> epv_value view] ++ fa_slots F a"
    using store_next [of a F M view base now] Cons.prems fr by auto
  have "\<And>i v. fa_slots F a1 i = Some v \<Longrightarrow> v = f i"
    using Cons.prems(6) fr(4) by (auto simp: a1(6) map_add_def split: option.splits if_splits)
  then obtain a2 where a2: "store_all (store F M) frags a1 = (a2, True)" "fa_active a2" "fa_fragment_count a2 = count"
    "dom (fa_slots F a2) = dom (fa_slots F a1) \<union> (\<lambda>(view, _). unat (epv_fragment_index view)) ` set frags"
    "\<forall>i v. fa_slots F a2 i = Some v \<longrightarrow> v = f i"
    using Cons.IH [of a1] Cons.prems(1) a1 by auto
  then show ?case using a1(1) fr(3) by (intro exI [of _ a2]) (auto simp: x a1(6))
qed auto

lemma reassembles:
  assumes "\<forall>x \<in> set frags. fragment_of F count base f x" and "\<not> fa_active a"
    and "unat count * unat F \<le> unat M" and "count \<noteq> 0"
    and "(\<lambda>(view, _). unat (epv_fragment_index view)) ` set frags = {..<unat count}"
  shows "\<exists>a'. store_all (store F M) frags a = (a', True) \<and> complete a'
    \<and> assemble F a' = concat (map f [0..<unat count])"
proof (cases frags)
  case Nil
  have "0 < unat count" using assms(4) by (simp add: unat_gt_0)
  moreover have "0 \<notin> {..<unat count}" unfolding assms(5) [symmetric] Nil by simp
  ultimately show ?thesis by simp
next
  case (Cons x rest)
  obtain view b now where x: "x = (view, b, now)" by (cases x)
  have fr: "fa_fits F view" "epv_fragment_count view = count" "b = base"
    "epv_value view = f (unat (epv_fragment_index view))"
    using assms(1) x Cons by (auto simp: fragment_of_def)
  obtain a1 where a1: "store F M a view base now = (a1, True)" "fa_good F M a1" "fa_active a1"
    "fa_message_tx_base a1 = base" "fa_fragment_count a1 = count"
    "fa_slots F a1 = [unat (epv_fragment_index view) \<mapsto> epv_value view]"
    using store_first [of a F view M base now] assms(2,3) fr by auto
  have f1: "v = f i" if "fa_slots F a1 i = Some v" for i v
    using that fr(4) by (simp add: a1(6) split: if_splits)
  have "\<forall>x \<in> set rest. fragment_of F count base f x" using assms(1) Cons by simp
  then obtain a2 where a2: "store_all (store F M) rest a1 = (a2, True)" "fa_active a2" "fa_fragment_count a2 = count"
    "dom (fa_slots F a2) = dom (fa_slots F a1) \<union> (\<lambda>(view, _). unat (epv_fragment_index view)) ` set rest"
    "\<forall>i v. fa_slots F a2 i = Some v \<longrightarrow> v = f i"
    using store_all_next [OF _ a1(3,2,4,5), of rest f] f1 by blast
  have d: "dom (fa_slots F a2) = {..<unat count}"
    using assms(5) a2(4) by (simp add: a1(6) Cons x)
  have s: "fa_slots F a2 i = Some (f i)" if "i < unat count" for i
  proof -
    have "i \<in> dom (fa_slots F a2)" using that d by simp
    then show ?thesis using a2(5) by auto
  qed
  have "complete a2" using complete_slots [where F = F, OF a2(2)] a2(3) d assms(4) by simp
  moreover have "assemble F a2 = concat (map f [0..<unat count])"
    using assemble_slots [where F = F and f = f, OF a2(2)] s unfolding a2(3) by blast
  ultimately show ?thesis using a1(1) a2(1) fr(3) by (simp add: Cons x)
qed

end

section \<open>Both copies keep the promise\<close>

lemma store_fragment_wf:
  assumes "fa_wf F M a" and "epv_fragment_index view < epv_fragment_count view"
  shows "fa_wf F M (fst (store_fragment F M a view base now))"
proof -
  have c: "fa_wf F M (fa_copy (unat (epv_fragment_index view) * unat F) view x)"
    if "fa_wf F M x" "fa_active x" "fa_fragment_count x = epv_fragment_count view"
      "\<not> unat (epv_fragment_index view) * unat F + length (epv_value view) > length (fa_data x)" for x
    using fa_wf_copy [of F M x view] that assms(2) by simp
  show ?thesis
    using assms(1) fa_wf_start(1) [of view F M base now a] c
    by (auto simp: store_fragment_def Let_def not_less)
qed

lemma reassembly_store_fragment:
  assumes "fa_active a" "fa_good F M a" "fa_fits F view" "fa_fragment_count a = epv_fragment_count view"
  defines "i \<equiv> unat (epv_fragment_index view)"
  defines "a' \<equiv> if fa_received a ! i then a else fa_copy (i * unat F) view a"
  shows "fa_good F M a'" and "fa_active a'" and "fa_message_tx_base a' = fa_message_tx_base a"
    and "fa_fragment_count a' = epv_fragment_count view" and "i < unat (fa_fragment_count a)"
    and "i * unat F + length (epv_value view) \<le> length (fa_data a)"
    and "fa_slots F a' = [i \<mapsto> epv_value view] ++ fa_slots F a"
proof -
  have ix: "epv_fragment_index view < fa_fragment_count a" and v: "length (epv_value view) \<le> unat F"
    using assms(3,4) by (simp_all add: fa_fits_def)
  show i: "i < unat (fa_fragment_count a)" using ix by (simp add: i_def word_less_nat_alt)
  have "Suc i * unat F \<le> unat (fa_fragment_count a) * unat F" using i by (intro mult_le_mono1) simp
  then show fits: "i * unat F + length (epv_value view) \<le> length (fa_data a)"
    using v assms(1,2) by (simp add: fa_good_def fa_wf_def)
  have wf: "fa_wf F M a" and h: "fa_honest F a" using assms(2) by (simp_all add: fa_good_def)
  show "fa_good F M a'"
    using wf h fa_wf_copy [OF wf assms(1) ix] fa_honest_copy [OF wf h assms(1) ix v] fits
    by (simp add: a'_def fa_good_def i_def)
  show "fa_active a'" "fa_message_tx_base a' = fa_message_tx_base a" "fa_fragment_count a' = epv_fragment_count view"
    using assms(1,4) by (simp_all add: a'_def)
  show "fa_slots F a' = [i \<mapsto> epv_value view] ++ fa_slots F a"
  proof (cases "fa_received a ! i")
    case True
    then have "i \<in> dom (fa_slots F a)" using i assms(1) by (simp add: fa_slots_def dom_def)
    then show ?thesis using True by (auto simp: a'_def fun_eq_iff map_add_def split: option.splits)
  next
    case False
    then have "i \<notin> dom (fa_slots F a)" by (simp add: fa_slots_def dom_def)
    then show ?thesis
      using False fa_slots_copy [OF wf h assms(1) ix v]
      by (auto simp: a'_def i_def fun_eq_iff map_add_def split: option.splits)
  qed
qed

lemma fa_start_good:
  assumes "unat (epv_fragment_count view) * unat F \<le> unat M"
  shows "fa_good F M (fa_start view b t (unat (epv_fragment_count view) * unat F) a)"
  using fa_wf_start [OF assms] by (simp add: fa_good_def)

lemma fa_good_touch [simp]:
  "fa_good F M (a\<lparr>fa_last_seen_ms := t\<rparr>) = fa_good F M a" "fa_good F M (a\<lparr>fa_flags := w\<rparr>) = fa_good F M a"
  by (simp_all add: fa_good_def)

lemma complete_slots_iff:
  assumes "fa_active a"
  shows "(\<forall>i \<in> set [0..<unat (fa_fragment_count a)]. fa_received a ! i)
    \<longleftrightarrow> {..<unat (fa_fragment_count a)} \<subseteq> dom (fa_slots F a)"
  using assms by (auto simp: fa_slots_def dom_def subset_iff split: if_splits)

lemma assemble_slots_eq:
  assumes "fa_active a" and "\<And>i. i < unat (fa_fragment_count a) \<Longrightarrow> fa_slots F a i = Some (f i)"
  shows "concat (map (\<lambda>i. take (unat (fa_lengths a ! i)) (drop (i * unat F) (fa_data a))) [0..<unat (fa_fragment_count a)])
    = concat (map f [0..<unat (fa_fragment_count a)])"
proof (intro arg_cong [where f = concat] map_cong refl)
  fix i assume "i \<in> set [0..<unat (fa_fragment_count a)]"
  then show "take (unat (fa_lengths a ! i)) (drop (i * unat F) (fa_data a)) = f i"
    using assms(2) [of i] assms(1) by (auto simp: fa_slots_def split: if_splits)
qed

lemma store_fragment_active:
  assumes "fa_active a" "fa_good F M a" "fa_fits F view" "fa_fragment_count a = epv_fragment_count view"
  defines "i \<equiv> unat (epv_fragment_index view)"
  shows "store_fragment F M a view (fa_message_tx_base a) now =
      (let a = a\<lparr>fa_last_seen_ms := now\<rparr> in if fa_received a ! i then a else fa_copy (i * unat F) view a, True)"
proof -
  let ?a = "a\<lparr>fa_last_seen_ms := now\<rparr>"
  have r: "fa_active ?a" "fa_good F M ?a" "fa_fragment_count ?a = epv_fragment_count view" using assms by simp_all
  note st = reassembly_store_fragment [OF r(1,2) assms(3) r(3)]
  have b: "fa_bytes_received (fa_copy (i * unat F) view ?a) \<le> unat M" if "\<not> fa_received ?a ! i"
    using fa_bytes_bound [of F M] st(1,2) that unfolding i_def fa_good_def if_not_P [OF that [unfolded i_def]] by blast
  show ?thesis using st(6) b assms(1,4) unfolding i_def [symmetric]
    by (simp add: store_fragment_def Let_def i_def)
qed

interpretation remote_reassembly: reassembly store_fragment fragment_assembly_complete assemble_fragment_payload
proof unfold_locales
  fix F M :: u16 and view base now and a :: espnow_fragment_assembly
  assume a: "\<not> fa_active a" "fa_fits F view" "unat (epv_fragment_count view) * unat F \<le> unat M"
  let ?s = "fa_start view base now (unat (epv_fragment_count view) * unat F) a"
  have g: "fa_good F M ?s" by (rule fa_start_good [OF a(3)])
  note st = reassembly_store_fragment [OF _ g a(2), simplified]
  have "store_fragment F M a view base now = (fa_copy (unat (epv_fragment_index view) * unat F) view ?s, True)"
    using a st(5) fa_bytes_bound [of F M "fa_copy (unat (epv_fragment_index view) * unat F) view ?s"] st(1) st(6)
    by (simp add: store_fragment_def Let_def fa_good_def)
  then show "\<exists>a'. store_fragment F M a view base now = (a', True) \<and> fa_good F M a' \<and> fa_active a'
        \<and> fa_message_tx_base a' = base \<and> fa_fragment_count a' = epv_fragment_count view
        \<and> fa_slots F a' = [unat (epv_fragment_index view) \<mapsto> epv_value view]"
    using st fa_wf_start(3) [OF a(3)] by simp
next
  fix F M :: u16 and view base now and a :: espnow_fragment_assembly
  assume a: "fa_active a" "fa_good F M a" "fa_fits F view" "fa_message_tx_base a = base"
    "fa_fragment_count a = epv_fragment_count view"
  have r: "fa_active (a\<lparr>fa_last_seen_ms := now\<rparr>)" "fa_good F M (a\<lparr>fa_last_seen_ms := now\<rparr>)"
    "fa_fragment_count (a\<lparr>fa_last_seen_ms := now\<rparr>) = epv_fragment_count view" using a by simp_all
  show "\<exists>a'. store_fragment F M a view base now = (a', True) \<and> fa_good F M a' \<and> fa_active a'
        \<and> fa_message_tx_base a' = base \<and> fa_fragment_count a' = epv_fragment_count view
        \<and> fa_slots F a' = [unat (epv_fragment_index view) \<mapsto> epv_value view] ++ fa_slots F a"
    using store_fragment_active [OF a(1-3,5), of now] reassembly_store_fragment [OF r(1,2) a(3) r(3)] a(4)
    by (auto simp: Let_def)
next
  fix F :: u16 and a :: espnow_fragment_assembly
  assume "fa_active a"
  then show "fragment_assembly_complete a \<longleftrightarrow> fa_fragment_count a \<noteq> 0 \<and> {..<unat (fa_fragment_count a)} \<subseteq> dom (fa_slots F a)"
    using complete_slots_iff by (simp add: fragment_assembly_complete_def)
qed (simp add: assemble_fragment_payload_def assemble_slots_eq)

lemma bridge_store_fragment_active:
  assumes "fa_active a" "fa_good F M a" "fa_fits F view" "fa_fragment_count a = epv_fragment_count view"
  defines "i \<equiv> unat (epv_fragment_index view)"
  shows "\<exists>w. bridge_store_fragment F M a view (fa_message_tx_base a) now =
      (let a = a\<lparr>fa_last_seen_ms := now, fa_flags := w\<rparr> in if fa_received a ! i then a else fa_copy (i * unat F) view a, True)"
proof -
  define w where "w = (if int i = int (unat (fa_fragment_count a)) - 1 then epv_flags view else fa_flags a)"
  let ?a = "a\<lparr>fa_last_seen_ms := now, fa_flags := w\<rparr>"
  have r: "fa_active ?a" "fa_good F M ?a" "fa_fragment_count ?a = epv_fragment_count view" using assms by simp_all
  note st = reassembly_store_fragment [OF r(1,2) assms(3) r(3)]
  have b: "fa_bytes_received (fa_copy (i * unat F) view ?a) \<le> unat M" if "\<not> fa_received ?a ! i"
    using fa_bytes_bound [of F M] st(1,2) that unfolding i_def fa_good_def if_not_P [OF that [unfolded i_def]] by blast
  have "bridge_store_fragment F M a view (fa_message_tx_base a) now =
      (let a = ?a in if fa_received a ! i then a else fa_copy (i * unat F) view a, True)"
    using st(5,6) b assms(1,4) unfolding i_def [symmetric]
    by (simp add: bridge_store_fragment_def Let_def i_def w_def)
  then show ?thesis ..
qed

interpretation bridge_reassembly:
  reassembly bridge_store_fragment bridge_fragment_assembly_complete bridge_assemble_fragment_payload
proof unfold_locales
  fix F M :: u16 and view base now and a :: espnow_fragment_assembly
  assume a: "\<not> fa_active a" "fa_fits F view" "unat (epv_fragment_count view) * unat F \<le> unat M"
  define s where "s = fa_start view base now (unat (epv_fragment_count view) * unat F) a"
  have g: "fa_good F M s" unfolding s_def by (rule fa_start_good [OF a(3)])
  have s: "fa_active s" "fa_fragment_count s = epv_fragment_count view" "fa_message_tx_base s = base"
    "fa_slots F s = Map.empty"
    using fa_wf_start(3) [OF a(3)] by (simp_all add: s_def)
  have "s\<lparr>fa_last_seen_ms := now\<rparr> = s" by (simp add: s_def fa_start_def)
  then have "bridge_store_fragment F M a view base now = bridge_store_fragment F M s view base now"
    using a(1,3) s(1-3) unfolding bridge_store_fragment_def Let_def s_def [symmetric] by simp
  moreover obtain w where "bridge_store_fragment F M s view (fa_message_tx_base s) now =
      (let a = s\<lparr>fa_last_seen_ms := now, fa_flags := w\<rparr>
       in if fa_received a ! unat (epv_fragment_index view) then a
          else fa_copy (unat (epv_fragment_index view) * unat F) view a, True)"
    using bridge_store_fragment_active [OF s(1) g a(2) s(2)] by blast
  moreover have "fa_good F M (s\<lparr>fa_last_seen_ms := now, fa_flags := w\<rparr>)" "fa_active (s\<lparr>fa_last_seen_ms := now, fa_flags := w\<rparr>)"
    "fa_fragment_count (s\<lparr>fa_last_seen_ms := now, fa_flags := w\<rparr>) = epv_fragment_count view" for w
    using g s by simp_all
  note reassembly_store_fragment [OF this(2,1) a(2) this(3)]
  ultimately show "\<exists>a'. bridge_store_fragment F M a view base now = (a', True) \<and> fa_good F M a' \<and> fa_active a'
        \<and> fa_message_tx_base a' = base \<and> fa_fragment_count a' = epv_fragment_count view
        \<and> fa_slots F a' = [unat (epv_fragment_index view) \<mapsto> epv_value view]"
    using s by (simp add: Let_def)
next
  fix F M :: u16 and view base now and a :: espnow_fragment_assembly
  assume a: "fa_active a" "fa_good F M a" "fa_fits F view" "fa_message_tx_base a = base"
    "fa_fragment_count a = epv_fragment_count view"
  obtain w where w: "bridge_store_fragment F M a view (fa_message_tx_base a) now =
      (let a = a\<lparr>fa_last_seen_ms := now, fa_flags := w\<rparr>
       in if fa_received a ! unat (epv_fragment_index view) then a
          else fa_copy (unat (epv_fragment_index view) * unat F) view a, True)"
    using bridge_store_fragment_active [OF a(1-3,5)] by blast
  let ?s = "a\<lparr>fa_last_seen_ms := now, fa_flags := w\<rparr>"
  have r: "fa_active ?s" "fa_good F M ?s" "fa_fragment_count ?s = epv_fragment_count view" using a by simp_all
  show "\<exists>a'. bridge_store_fragment F M a view base now = (a', True) \<and> fa_good F M a' \<and> fa_active a'
        \<and> fa_message_tx_base a' = base \<and> fa_fragment_count a' = epv_fragment_count view
        \<and> fa_slots F a' = [unat (epv_fragment_index view) \<mapsto> epv_value view] ++ fa_slots F a"
    using w reassembly_store_fragment [OF r(1,2) a(3) r(3)] a(4) by (auto simp: Let_def)
next
  fix F :: u16 and a :: espnow_fragment_assembly
  assume "fa_active a"
  then show "bridge_fragment_assembly_complete a \<longleftrightarrow>
      fa_fragment_count a \<noteq> 0 \<and> {..<unat (fa_fragment_count a)} \<subseteq> dom (fa_slots F a)"
    using complete_slots_iff by (simp add: bridge_fragment_assembly_complete_def)
qed (simp add: bridge_assemble_fragment_payload_def assemble_slots_eq)

section \<open>Cutting and reassembling\<close>

lemma take_min_drop: "take (min m (length xs - k)) (drop k xs) = take m (drop k xs)"
  by (simp add: min_def)

lemma fragment_packet_parses:
  assumes "chunk < fragment_chunk_count F (length val)" and "fragment_chunk_count F (length val) < 256"
  shows "parse_entity_payload (fragment_packet F val entity_index flags chunk) =
    Some \<lparr>epv_entity_index = entity_index, epv_flags = flags, epv_fragment_index = of_nat chunk,
       epv_fragment_count = of_nat (fragment_chunk_count F (length val)),
       epv_value = take (unat F) (drop (chunk * unat F) val)\<rparr>"
proof -
  let ?n = "fragment_chunk_count F (length val)"
  have u: "unat (of_nat ?n :: u8) = ?n" "unat (of_nat chunk :: u8) = chunk"
    using assms by (simp_all add: unat_of_nat_small)
  have "(of_nat ?n :: u8) \<noteq> 0"
  proof
    assume "(of_nat ?n :: u8) = 0"
    then have "?n = 0" using u(1) by simp
    then show False using assms(1) by simp
  qed
  moreover have "\<not> (of_nat ?n :: u8) \<le> of_nat chunk" using assms(1) u by (simp add: word_le_nat_alt)
  ultimately show ?thesis
    using eph.enc_length
    by (simp add: fragment_packet_def fragment_chunk_len_def Let_def parse_entity_payload_def
        append_entity_payload_def eph.dec_enc take_min_drop)
qed

lemma concat_chunks: "concat (map (\<lambda>i. take F (drop (i * F) xs)) [0..<n]) = take (n * F) xs"
proof (induction n)
  case (Suc n)
  then show ?case by (simp add: add.commute flip: take_add)
qed simp

lemma fragment_chunk_count_covers:
  assumes "0 < unat F"
  shows "len \<le> fragment_chunk_count F len * unat F"
proof -
  have "(len + unat F - 1) div unat F * unat F + (len + unat F - 1) mod unat F = len + unat F - 1" by simp
  moreover have "(len + unat F - 1) mod unat F < unat F" using assms by simp
  ultimately have "len \<le> (len + unat F - 1) div unat F * unat F" by linarith
  also have "\<dots> \<le> fragment_chunk_count F len * unat F" by (intro mult_le_mono1) (simp add: fragment_chunk_count_def)
  finally show ?thesis .
qed

text \<open>
  What a node hands to its buffer of the packets it hears: those that parse, with the counter of the first
  fragment of their message and the time.
\<close>

definition received_fragments ::
  "(espnow_frame_header \<times> bytes \<times> u32) list \<Rightarrow> (EntityPayloadView \<times> u32 \<times> u32) list" where
  "received_fragments packets = concat (map (\<lambda>(header, packet, now).
     case parse_entity_payload packet of None \<Rightarrow> []
     | Some view \<Rightarrow> [(view, fragment_message_tx_base header view, now)]) packets)"

lemma received_fragments_sent:
  assumes "\<forall>i \<in> set order. i < fragment_chunk_count F (length val)" and "fragment_chunk_count F (length val) < 256"
    and "\<forall>i \<in> set order. fh_tx_counter (hdr i) = base + of_nat i"
  shows "received_fragments (map (\<lambda>i. (hdr i, fragment_packet F val e (flags i) i, now i)) order) =
    map (\<lambda>i. (\<lparr>epv_entity_index = e, epv_flags = flags i, epv_fragment_index = of_nat i,
       epv_fragment_count = of_nat (fragment_chunk_count F (length val)),
       epv_value = take (unat F) (drop (i * unat F) val)\<rparr>, base, now i)) order"
  using assms
proof (induction order)
  case (Cons i order)
  have i: "i < fragment_chunk_count F (length val)" using Cons.prems(1) by simp
  then have "unat (of_nat i :: u8) = i" using assms(2) by (intro unat_of_nat_small) simp
  then have "(ucast (of_nat i :: u8) :: u32) = of_nat i" by (metis of_nat_unat)
  then show ?case
    using Cons fragment_packet_parses [OF i assms(2)]
    by (simp add: received_fragments_def fragment_message_tx_base_def)
qed (simp add: received_fragments_def)

context reassembly
begin

lemma packets_reassemble:
  assumes "0 < F" and "n = fragment_chunk_count F (length val)" and "n < 256" and "n * unat F \<le> unat M"
    and "set order = {..<n}" and "\<forall>i < n. fh_tx_counter (hdr i) = base + of_nat i" and "\<not> fa_active a"
  shows "\<exists>a'. store_all (store F M)
      (received_fragments (map (\<lambda>i. (hdr i, fragment_packet F val e (flags i) i, now i)) order)) a = (a', True)
    \<and> complete a' \<and> assemble F a' = val"
proof -
  let ?frags = "received_fragments (map (\<lambda>i. (hdr i, fragment_packet F val e (flags i) i, now i)) order)"
  let ?f = "\<lambda>i. take (unat F) (drop (i * unat F) val)"
  have un: "unat (of_nat n :: u8) = n" using assms(3) by (intro unat_of_nat_small) simp
  have n0: "0 < n" by (simp add: assms(2) fragment_chunk_count_def)
  have eq: "?frags = map (\<lambda>i. (\<lparr>epv_entity_index = e, epv_flags = flags i, epv_fragment_index = of_nat i,
       epv_fragment_count = of_nat n, epv_value = ?f i\<rparr>, base, now i)) order"
    using received_fragments_sent [of order F val hdr base e flags now] assms(2,3,5,6) by simp
  have ui: "unat (of_nat i :: u8) = i" if "i < n" for i using that assms(3) by (intro unat_of_nat_small) simp
  have "\<forall>x \<in> set ?frags. fragment_of F (of_nat n) base ?f x"
    using assms(5) ui un by (auto simp: eq fragment_of_def fa_fits_def word_less_nat_alt)
  moreover have "(\<lambda>(view, _). unat (epv_fragment_index view)) ` set ?frags = {..<unat (of_nat n :: u8)}"
    using assms(5) ui by (force simp: eq un image_iff)
  moreover have "(of_nat n :: u8) \<noteq> 0"
  proof
    assume "(of_nat n :: u8) = 0"
    then show False using un n0 by simp
  qed
  ultimately obtain a' where a': "store_all (store F M) ?frags a = (a', True)" "complete a'"
    "assemble F a' = concat (map ?f [0..<unat (of_nat n :: u8)])"
    using reassembles [of ?frags F "of_nat n" base ?f a M] assms(4,7) un by auto
  have "length val \<le> n * unat F"
    using fragment_chunk_count_covers [of F "length val"] assms(1,2) by (simp add: word_less_nat_alt)
  then show ?thesis using a' by (simp add: un concat_chunks)
qed

end

lemma store_all_wf:
  assumes "fa_wf F M a" and "\<forall>x \<in> set frags. epv_fragment_index (fst x) < epv_fragment_count (fst x)"
  shows "fa_wf F M (fst (store_all (store_fragment F M) frags a))"
  using assms
proof (induction frags arbitrary: a)
  case (Cons x frags)
  obtain view base now where x: "x = (view, base, now)" by (cases x)
  have "fa_wf F M (fst (store_fragment F M a view base now))"
    by (rule store_fragment_wf) (use Cons.prems x in auto)
  then show ?case using Cons.IH Cons.prems(2) by (simp add: x split_beta)
qed simp

lemma parse_entity_payload_index:
  "parse_entity_payload packet = Some view \<Longrightarrow> epv_fragment_index view < epv_fragment_count view"
  by (auto simp: parse_entity_payload_def not_le split: option.splits if_splits)

lemma received_fragment_index:
  "x \<in> set (received_fragments packets) \<Longrightarrow> epv_fragment_index (fst x) < epv_fragment_count (fst x)"
  by (auto simp: received_fragments_def dest: parse_entity_payload_index [OF sym] split: option.splits)

section \<open>The remote's pending commands\<close>

text \<open>
  \<^verbatim>\<open>pending_command_assemblies_\<close> and \<^verbatim>\<open>pending_command_reserved_bytes_\<close>: one
  buffer for each entity with a command under way, and the bytes set aside for them. The map is a list
  of its entries; \<^verbatim>\<open>size_t\<close> has 32 bits on the targets.
\<close>

record command_assemblies =
  ca_pending :: "(u8 \<times> espnow_fragment_assembly) list"
  ca_reserved :: u32

definition command_assemblies_init :: command_assemblies where
  "command_assemblies_init = \<lparr>ca_pending = [], ca_reserved = 0\<rparr>"

datatype fragment_outcome = FragmentDropped | FragmentStored | FragmentComplete bytes

abbreviation (input) ESPNOW_MAX_PENDING_FRAGMENT_ASSEMBLIES :: nat where
  "ESPNOW_MAX_PENDING_FRAGMENT_ASSEMBLIES \<equiv> 8"
abbreviation (input) ESPNOW_FRAGMENT_ASSEMBLY_TIMEOUT_MS :: u32 where
  "ESPNOW_FRAGMENT_ASSEMBLY_TIMEOUT_MS \<equiv> 5000"

text \<open>
  The part of \<^verbatim>\<open>handle_command_\<close> that finds or makes the buffer of the command's entity.
  \<open>None\<close> is the early return when eight commands are pending.
\<close>

definition command_assembly_for ::
  "u16 \<Rightarrow> EntityPayloadView \<Rightarrow> u32 \<Rightarrow> command_assemblies \<Rightarrow> (command_assemblies \<times> espnow_fragment_assembly) option" where
  "command_assembly_for max_entity_fragment command message_tx_base ca =
     (case map_of (ca_pending ca) (epv_entity_index command) of
        None \<Rightarrow>
          if length (ca_pending ca) \<ge> ESPNOW_MAX_PENDING_FRAGMENT_ASSEMBLIES then None
          else Some (ca\<lparr>ca_pending := AList.update (epv_entity_index command) fragment_assembly_init (ca_pending ca),
                 ca_reserved := ca_reserved ca + of_nat (unat (epv_fragment_count command) * unat max_entity_fragment)\<rparr>,
               fragment_assembly_init)
      | Some a \<Rightarrow>
          if fa_active a \<and> fa_message_tx_base a \<noteq> message_tx_base \<and> fa_message_tx_base a < message_tx_base
          then Some (ca\<lparr>ca_pending := AList.update (epv_entity_index command) fragment_assembly_init (ca_pending ca)\<rparr>,
                 fragment_assembly_init)
          else Some (ca, a))"

text \<open>
  The checks, the store, and what follows a complete command: its reservation is returned and its
  buffer removed.
\<close>

definition command_fragment ::
  "u16 \<Rightarrow> u16 \<Rightarrow> u16 \<Rightarrow> EntityPayloadView \<Rightarrow> u32 \<Rightarrow> u32 \<Rightarrow> command_assemblies \<Rightarrow> command_assemblies \<times> fragment_outcome" where
  "command_fragment max_entity_fragment max_assembly_bytes max_total_fragment_bytes command message_tx_base now ca =
     (case command_assembly_for max_entity_fragment command message_tx_base ca of
        None \<Rightarrow> (ca, FragmentDropped)
      | Some (ca, assembly) \<Rightarrow>
          if \<not> fa_active assembly
             \<and> ca_reserved ca + of_nat (unat (epv_fragment_count command) * unat max_entity_fragment)
                 > ucast max_total_fragment_bytes
          then (ca, FragmentDropped)
          else
            (case store_fragment max_entity_fragment max_assembly_bytes assembly command message_tx_base now of
               (assembly, stored) \<Rightarrow>
                 (let ca = ca\<lparr>ca_pending := AList.update (epv_entity_index command) assembly (ca_pending ca)\<rparr>
                  in if \<not> stored then (ca, FragmentDropped)
                     else if \<not> fragment_assembly_complete assembly then (ca, FragmentStored)
                     else (ca\<lparr>ca_reserved := ca_reserved ca - of_nat (length (fa_data assembly)),
                             ca_pending := AList.delete (epv_entity_index command) (ca_pending ca)\<rparr>,
                           FragmentComplete (assemble_fragment_payload max_entity_fragment assembly)))))"

definition fragments_expired :: "u32 \<Rightarrow> espnow_fragment_assembly \<Rightarrow> bool" where
  "fragments_expired now a \<longleftrightarrow> fa_active a \<and> ESPNOW_FRAGMENT_ASSEMBLY_TIMEOUT_MS \<le> now - fa_last_seen_ms a"

definition prune_pending_command_fragments :: "u32 \<Rightarrow> command_assemblies \<Rightarrow> command_assemblies" where
  "prune_pending_command_fragments now ca =
     \<lparr>ca_pending = filter (\<lambda>(_, a). \<not> fragments_expired now a) (ca_pending ca),
      ca_reserved = fold (\<lambda>(_, a) r. if fragments_expired now a then r - of_nat (length (fa_data a)) else r)
        (ca_pending ca) (ca_reserved ca)\<rparr>"

datatype ca_event = CaFragment EntityPayloadView u32 u32 | CaPrune u32

fun command_run ::
  "u16 \<Rightarrow> u16 \<Rightarrow> u16 \<Rightarrow> ca_event list \<Rightarrow> command_assemblies \<Rightarrow> command_assemblies \<times> fragment_outcome list" where
  "command_run F M cap [] ca = (ca, [])"
| "command_run F M cap (CaFragment view base now # evs) ca =
     (case command_fragment F M cap view base now ca of
        (ca, out) \<Rightarrow> (case command_run F M cap evs ca of (ca, outs) \<Rightarrow> (ca, out # outs)))"
| "command_run F M cap (CaPrune now # evs) ca = command_run F M cap evs (prune_pending_command_fragments now ca)"

text \<open>
  No buffer is in use, yet at least the whole allowance is reserved: every fragment is refused at the check,
  and nothing releases the reservations.
\<close>

definition ca_blocked :: "u16 \<Rightarrow> u16 \<Rightarrow> command_assemblies \<Rightarrow> bool" where
  "ca_blocked F cap ca \<longleftrightarrow> (\<forall>a \<in> snd ` set (ca_pending ca). \<not> fa_active a)
     \<and> length (ca_pending ca) \<le> 8 \<and> unat cap \<le> unat (ca_reserved ca)
     \<and> unat (ca_reserved ca) \<le> (length (ca_pending ca) + 1) * 2 ^ 24"

lemma length_update_fresh:
  "map_of xs k = None \<Longrightarrow> length (AList.update k v xs) = Suc (length xs)"
  by (induction xs) (auto split: if_splits)

lemma snd_update_subset: "snd ` set (AList.update k v xs) \<subseteq> insert v (snd ` set xs)"
  by (induction xs) auto

lemma reserved_grows:
  assumes "unat (r :: u32) \<le> k * 2 ^ 24" and "k \<le> 9" and "m < 2 ^ 24"
  shows "unat (r + of_nat m) = unat r + m"
proof -
  have "k * 2 ^ 24 \<le> 9 * 2 ^ 24" using assms(2) by (intro mult_le_mono1)
  then have "unat r + m < 2 ^ 32" using assms(1,3) by simp
  moreover have "unat (of_nat m :: u32) = m" using assms(3) by (intro unat_of_nat_small) simp
  ultimately show ?thesis by (subst unat_plus_simple [THEN iffD1]) (simp_all add: no_olen_add_nat)
qed

lemma reservation_size: "unat (c :: u8) * unat (F :: u16) < 2 ^ 24"
proof -
  have "unat c * unat F \<le> 255 * 65535"
    using unat_u8_bound [of c] unat_u16_bound [of F] by (intro mult_le_mono) linarith+
  then show ?thesis by simp
qed

lemma ca_blocked_fragment:
  assumes "ca_blocked F cap ca" and "0 < F" and "epv_fragment_count view \<noteq> 0"
  shows "snd (command_fragment F M cap view base now ca) = FragmentDropped
    \<and> ca_blocked F cap (fst (command_fragment F M cap view base now ca))"
proof -
  let ?R = "unat (epv_fragment_count view) * unat F"
  have R: "0 < ?R" "?R < 2 ^ 24"
    using assms(2,3) reservation_size by (simp_all add: unat_gt_0 word_neq_0_conv)
  have over: "unat (cap :: u16) < unat (r + of_nat ?R :: u32)"
    if "unat cap \<le> unat r" "unat r \<le> k * 2 ^ 24" "k \<le> 9" for r k
    using reserved_grows [OF that(2,3) R(2)] that(1) R(1) by linarith
  have cap32: "unat (ucast cap :: u32) = unat cap" by (simp add: unsigned_ucast_eq take_bit_nat_eq_self less_trans [OF unat_u16_bound])
  show ?thesis
  proof (cases "map_of (ca_pending ca) (epv_entity_index view)")
    case None
    show ?thesis
    proof (cases "length (ca_pending ca) \<ge> 8")
      case False
      let ?r = "ca_reserved ca + of_nat ?R"
      have g: "unat ?r = unat (ca_reserved ca) + ?R"
        by (rule reserved_grows [of _ "length (ca_pending ca) + 1", OF _ _ R(2)])
          (use assms(1) in \<open>simp_all add: ca_blocked_def\<close>)
      have r: "unat cap \<le> unat ?r" "unat ?r \<le> (length (ca_pending ca) + 2) * 2 ^ 24"
        using assms(1) g R(2) by (simp_all add: ca_blocked_def)
      have o: "unat cap < unat (?r + of_nat ?R)" by (rule over [OF r]) (use False in simp)
      have inact: "\<forall>a \<in> snd ` set (AList.update (epv_entity_index view) fragment_assembly_init (ca_pending ca)). \<not> fa_active a"
        using assms(1) snd_update_subset by (fastforce simp: ca_blocked_def fragment_assembly_init_def)
      show ?thesis
        using None False o r inact
        by (simp add: command_fragment_def command_assembly_for_def word_less_nat_alt cap32 ca_blocked_def
            length_update_fresh fragment_assembly_init_def)
    qed (use None assms(1) in \<open>simp add: command_fragment_def command_assembly_for_def\<close>)
  next
    case (Some a)
    then have "\<not> fa_active a" using assms(1) by (auto simp: ca_blocked_def dest!: map_of_SomeD intro: rev_image_eqI)
    moreover have "unat cap < unat (ca_reserved ca + of_nat ?R)"
      by (rule over [of _ "length (ca_pending ca) + 1"]) (use assms(1) in \<open>simp_all add: ca_blocked_def\<close>)
    ultimately show ?thesis
      using Some assms(1) by (simp add: command_fragment_def command_assembly_for_def word_less_nat_alt cap32)
  qed
qed

lemma ca_blocked_prune:
  assumes "ca_blocked F cap ca"
  shows "prune_pending_command_fragments now ca = ca"
proof -
  have n: "\<not> fragments_expired now a" if "(e, a) \<in> set (ca_pending ca)" for e a
    using assms that by (force simp: ca_blocked_def fragments_expired_def)
  then have "filter (\<lambda>(_, a). \<not> fragments_expired now a) (ca_pending ca) = ca_pending ca"
    by (auto simp: filter_id_conv)
  moreover have "fold (\<lambda>(_, a) r. if fragments_expired now a then r - of_nat (length (fa_data a)) else r) xs r = r"
    if "set xs \<subseteq> set (ca_pending ca)" for xs r
    using that n by (induction xs arbitrary: r) auto
  note this [of "ca_pending ca" "ca_reserved ca"]
  ultimately show ?thesis by (simp add: prune_pending_command_fragments_def)
qed

lemma ca_blocked_run:
  assumes "ca_blocked F cap ca" and "0 < F"
    and "\<forall>view base now. CaFragment view base now \<in> set evs \<longrightarrow> epv_fragment_count view \<noteq> 0"
  shows "set (snd (command_run F M cap evs ca)) \<subseteq> {FragmentDropped}"
  using assms
proof (induction evs arbitrary: ca)
  case (Cons ev evs)
  show ?case
  proof (cases ev)
    case (CaFragment view base now)
    have p: "\<forall>view base now. CaFragment view base now \<in> set evs \<longrightarrow> epv_fragment_count view \<noteq> 0"
      and c: "epv_fragment_count view \<noteq> 0"
      using Cons.prems(3) CaFragment by auto
    note st = ca_blocked_fragment [OF Cons.prems(1,2) c, of M base now]
    show ?thesis using Cons.IH [OF conjunct2 [OF st] Cons.prems(2) p] st by (simp add: CaFragment split_beta)
  next
    case (CaPrune now)
    then show ?thesis using Cons ca_blocked_prune [OF Cons.prems(1)] by simp
  qed
qed simp

lemma first_long_command:
  assumes "epv_fragment_count view = 12" and "unat M = 6 * unat F" and "unat cap = 24 * unat F" and "0 < F"
  shows "command_fragment F M cap view base now command_assemblies_init =
    (\<lparr>ca_pending = [(epv_entity_index view, fragment_assembly_init)], ca_reserved = of_nat (12 * unat F)\<rparr>, FragmentDropped)"
proof -
  have u: "unat (12 :: u8) = 12" by simp
  have "(of_nat (12 * unat F) + of_nat (12 * unat F) :: u32) = of_nat (unat cap)" by (simp add: assms(3))
  then have "(of_nat (12 * unat F) + of_nat (12 * unat F) :: u32) = ucast cap" by simp
  then show ?thesis
    using assms by (simp add: command_fragment_def command_assembly_for_def command_assemblies_init_def
        store_fragment_def fragment_assembly_init_def u unat_gt_0 word_neq_0_conv Let_def)
qed

lemma second_long_command:
  assumes "epv_fragment_count view = 12" and "epv_entity_index view \<noteq> e" and "unat cap = 24 * unat F" and "0 < F"
  shows "command_fragment F M cap view base now
      \<lparr>ca_pending = [(e, fragment_assembly_init)], ca_reserved = of_nat (12 * unat F)\<rparr> =
    (\<lparr>ca_pending = [(e, fragment_assembly_init), (epv_entity_index view, fragment_assembly_init)],
      ca_reserved = of_nat (24 * unat F)\<rparr>, FragmentDropped)"
proof -
  have u: "unat (12 :: u8) = 12" by simp
  have f: "unat F < 65536" "0 < unat F" using assms(4) by (simp_all add: unat_gt_0 word_neq_0_conv)
  have r: "(of_nat (12 * unat F) + of_nat (12 * unat F) :: u32) = of_nat (24 * unat F)" by simp
  have b: "36 * unat F < 4294967296" using unat_u16_bound [of F] by linarith
  have "of_nat (24 * unat F) + of_nat (12 * unat F) = (of_nat (36 * unat F) :: u32)" by simp
  then have "unat (of_nat (24 * unat F) + of_nat (12 * unat F) :: u32) = 36 * unat F"
    using unat_of_nat_small [of "36 * unat F", where 'a = 32] b by (simp only: len_num1 len_bit0) simp
  moreover have "unat (ucast cap :: u32) = unat cap"
    by (simp add: unsigned_ucast_eq take_bit_nat_eq_self less_trans [OF unat_u16_bound])
  moreover have "unat cap < 36 * unat F" using assms(3) f by simp
  ultimately have "ucast cap < (of_nat (24 * unat F) + of_nat (12 * unat F) :: u32)"
    unfolding word_less_nat_alt by (simp only:)
  then show ?thesis
    using assms(1,2) r by (simp add: command_fragment_def command_assembly_for_def fragment_assembly_init_def u)
qed

section \<open>Properties\<close>

text \<open>
  A value cut into fragments comes back whole. The packets a sender makes of a value, with
  consecutive counters and any flags, may arrive in any order and repeatedly: the remote's buffer and the
  bridge's accept every one of them, are complete once each has arrived, and yield the value.
\<close>

theorem fragments_reassemble:
  assumes "0 < F" and "n = fragment_chunk_count F (length val)" and "n < 256" and "n * unat F \<le> unat M"
    and "set order = {..<n}" and "\<forall>i < n. fh_tx_counter (hdr i) = base + of_nat i"
    and "frags = received_fragments (map (\<lambda>i. (hdr i, fragment_packet F val e (flags i) i, now i)) order)"
  shows "(\<exists>a. store_all (store_fragment F M) frags fragment_assembly_init = (a, True)
      \<and> fragment_assembly_complete a \<and> assemble_fragment_payload F a = val)
    \<and> (\<exists>a. store_all (bridge_store_fragment F M) frags fragment_assembly_init = (a, True)
      \<and> bridge_fragment_assembly_complete a \<and> bridge_assemble_fragment_payload F a = val)"
proof -
  have a: "\<not> fa_active fragment_assembly_init" by (simp add: fragment_assembly_init_def)
  show ?thesis
    unfolding assms(7)
    using remote_reassembly.packets_reassemble [OF assms(1-6) a] bridge_reassembly.packets_reassemble [OF assms(1-6) a]
    by blast
qed

theorem fragments_reassemble_witness:
  "\<exists>a. store_all (store_fragment 3 10)
     (received_fragments (map (\<lambda>i.
       (\<lparr>fh_protocol_version = 3, fh_hop_count = 0, fh_packet_type = 4, fh_leaf_mac = replicate 6 1,
         fh_tx_counter = 100 + of_nat i, fh_psk_tag = replicate 4 0\<rparr>,
        fragment_packet 3 [1, 2, 3, 4, 5, 6, 7] 9 0 i, 50)) [2, 0, 2, 1])) fragment_assembly_init = (a, True)
     \<and> fragment_assembly_complete a \<and> assemble_fragment_payload 3 a = [1, 2, 3, 4, 5, 6, 7]"
  using fragments_reassemble [of 3 3 "[1, 2, 3, 4, 5, 6, 7]" 10 "[2, 0, 2, 1]"
      "\<lambda>i. \<lparr>fh_protocol_version = 3, fh_hop_count = 0, fh_packet_type = 4, fh_leaf_mac = replicate 6 1,
         fh_tx_counter = 100 + of_nat i, fh_psk_tag = replicate 4 0\<rparr>" 100 _ 9 "\<lambda>_. 0" "\<lambda>_. 50", OF _ _ _ _ _ _ refl]
  by (simp add: fragment_chunk_count_def lessThan_nat_numeral lessThan_Suc insert_commute)

text \<open>
  The reassembly buffer stays well formed whatever packets arrive: after any sequence of packets, of
  any content, the tables have an entry per fragment, the data has a slot per fragment and stays within
  the limit, and every recorded fragment lies inside the data, so that assembling never reads outside it.
\<close>

theorem fragment_buffer_well_formed:
  "fa_wf F M (fst (store_all (store_fragment F M) (received_fragments packets) fragment_assembly_init))"
  by (rule store_all_wf) (simp_all add: fa_wf_def fragment_assembly_init_def received_fragment_index)

text \<open>
  Reservations of refused commands are never returned. When the first fragments of two commands of
  12 fragments arrive for different entities (more than the six an assembly may have), both are refused but what they
  reserved stays: every fragment of every later command is refused too, however short it is and
  however much time passes, until the session ends.
\<close>

theorem long_commands_block_session:
  assumes "mp = of_nat ESPNOW_V1_MAX_PAYLOAD \<or> mp = of_nat ESPNOW_V2_MAX_PAYLOAD"
    and "F = espnow_max_entity_fragment mp" and "M = espnow_max_assembly_bytes mp" and "cap = espnow_max_total_fragment_bytes mp"
    and "epv_fragment_count v1 = 12" and "epv_fragment_count v2 = 12" and "epv_entity_index v1 \<noteq> epv_entity_index v2"
    and "\<forall>view base now. CaFragment view base now \<in> set evs \<longrightarrow> epv_fragment_count view \<noteq> 0"
  shows "set (snd (command_run F M cap (CaFragment v1 b1 t1 # CaFragment v2 b2 t2 # evs) command_assemblies_init))
    \<subseteq> {FragmentDropped}"
proof -
  have F: "unat M = 6 * unat F" "unat cap = 24 * unat F" "0 < F"
    using assms(1) unfolding assms(2-4) by (auto simp: espnow_max_entity_fragment_def espnow_max_assembly_bytes_def
        espnow_max_total_fragment_bytes_def espnow_max_plaintext_def)
  have "24 * unat F < 4294967296" using unat_u16_bound [of F] by linarith
  then have u: "unat (of_nat (24 * unat F) :: u32) = 24 * unat F"
    using unat_of_nat_small [of "24 * unat F", where 'a = 32] by (simp only: len_num1 len_bit0) simp
  have "ca_blocked F cap \<lparr>ca_pending = [(epv_entity_index v1, fragment_assembly_init), (epv_entity_index v2, fragment_assembly_init)],
      ca_reserved = of_nat (24 * unat F)\<rparr>"
    using F(2) u unat_u16_bound [of F] less_imp_le [OF less_trans [OF unat_u16_bound [of F], of 2097152]]
    by (simp add: ca_blocked_def fragment_assembly_init_def)
  from ca_blocked_run [OF this F(3) assms(8)] show ?thesis
    using first_long_command [OF assms(5) F] second_long_command [OF assms(6) assms(7) [symmetric] F(2,3)]
    by (simp add: split_beta)
qed

theorem long_commands_block_session_witness:
  "snd (command_run (espnow_max_entity_fragment 250) (espnow_max_assembly_bytes 250) (espnow_max_total_fragment_bytes 250)
      [CaFragment \<lparr>epv_entity_index = 0, epv_flags = 1, epv_fragment_index = 0, epv_fragment_count = 12, epv_value = [1]\<rparr> 10 0,
       CaFragment \<lparr>epv_entity_index = 1, epv_flags = 1, epv_fragment_index = 0, epv_fragment_count = 12, epv_value = [1]\<rparr> 30 0,
       CaPrune 60000,
       CaFragment \<lparr>epv_entity_index = 2, epv_flags = 0, epv_fragment_index = 0, epv_fragment_count = 1, epv_value = [1]\<rparr> 50 60000]
      command_assemblies_init) = replicate 3 FragmentDropped"
  using long_commands_block_session [of 250 "espnow_max_entity_fragment 250" "espnow_max_assembly_bytes 250"
      "espnow_max_total_fragment_bytes 250"
      "\<lparr>epv_entity_index = 0, epv_flags = 1, epv_fragment_index = 0, epv_fragment_count = 12, epv_value = [1]\<rparr>"
      "\<lparr>epv_entity_index = 1, epv_flags = 1, epv_fragment_index = 0, epv_fragment_count = 12, epv_value = [1]\<rparr>"
      "[CaPrune 60000,
       CaFragment \<lparr>epv_entity_index = 2, epv_flags = 0, epv_fragment_index = 0, epv_fragment_count = 1, epv_value = [1]\<rparr> 50 60000]"
      10 0 30 0]
  by (simp add: split_beta numeral_3_eq_3)

end
