(* ===== verification/RemoteState.thy ===== *)
theory RemoteState
  imports Frames Fragments FileReceiver "HOL-Library.Signed_Division"
begin

text \<open>
  The state of a remote (\<^verbatim>\<open>esp_tree_remote/remote_protocol.h\<close>): the class
  \<^verbatim>\<open>RemoteProtocol\<close> is the record \<open>remote\<close>, its methods are functions on it. What one call
  sees of the platform is the record \<open>rp_env\<close>: the clock (which does not advance within a call), random
  numbers, the radio, the keyed hash and the handler of firmware updates. What the class does to the outside
  is appended to lists: frames given to the radio, commands given to the application,
  channels tuned, restarts. Packet logs are left out. Signal strengths are integers; all of them fit
  \<^verbatim>\<open>int8_t\<close>.
\<close>

section \<open>Constants\<close>

abbreviation (input) ESPNOW_MAX_HOPS_DEFAULT :: u8 where "ESPNOW_MAX_HOPS_DEFAULT \<equiv> 5"
abbreviation (input) ESPNOW_ROUTE_TTL_DEFAULT_SECONDS :: u32 where "ESPNOW_ROUTE_TTL_DEFAULT_SECONDS \<equiv> 172800"
abbreviation (input) ESPNOW_MAX_PENDING_DISCOVER :: u8 where "ESPNOW_MAX_PENDING_DISCOVER \<equiv> 8"
abbreviation (input) ESPNOW_DISCOVER_COLLECTION_WINDOW_MS :: u32 where "ESPNOW_DISCOVER_COLLECTION_WINDOW_MS \<equiv> 40"
abbreviation (input) ESPNOW_DISCOVER_BACKOFF_START_MS :: u32 where "ESPNOW_DISCOVER_BACKOFF_START_MS \<equiv> 500"
abbreviation (input) ESPNOW_PREFERRED_RSSI_FLOOR_DBM :: int where "ESPNOW_PREFERRED_RSSI_FLOOR_DBM \<equiv> - 85"
abbreviation (input) ESPNOW_TOPOLOGY_REFRESH_INTERVAL_MS :: u32 where "ESPNOW_TOPOLOGY_REFRESH_INTERVAL_MS \<equiv> 120000"
abbreviation (input) ESPNOW_RSSI_EMA_ALPHA :: int where "ESPNOW_RSSI_EMA_ALPHA \<equiv> 10"
abbreviation (input) ESPNOW_WIFI_DISCOVER_WAIT_MS :: u32 where "ESPNOW_WIFI_DISCOVER_WAIT_MS \<equiv> 15000"
abbreviation (input) ESPNOW_MAX_RETRIES :: u8 where "ESPNOW_MAX_RETRIES \<equiv> 4"
abbreviation (input) ESPNOW_RETRY_INTERVAL_MS :: u32 where "ESPNOW_RETRY_INTERVAL_MS \<equiv> 200"
abbreviation (input) ESPNOW_RETRY_JITTER_MS :: u32 where "ESPNOW_RETRY_JITTER_MS \<equiv> 50"
abbreviation (input) ESPNOW_WAIT_REJECT_DELAY_MS :: u32 where "ESPNOW_WAIT_REJECT_DELAY_MS \<equiv> 10000"
abbreviation (input) ESPNOW_DISCOVER_ANNOUNCE_JITTER_MS :: u32 where "ESPNOW_DISCOVER_ANNOUNCE_JITTER_MS \<equiv> 20"
abbreviation (input) ESPNOW_JOINED_TO_NORMAL_TIMEOUT_MS :: u32 where "ESPNOW_JOINED_TO_NORMAL_TIMEOUT_MS \<equiv> 30000"
abbreviation (input) OTA_SESSION_TIMEOUT_MS :: u32 where "OTA_SESSION_TIMEOUT_MS \<equiv> 30000"
abbreviation (input) ESPNOW_JOIN_STATUS_SCHEMA_REFRESH :: u8 where "ESPNOW_JOIN_STATUS_SCHEMA_REFRESH \<equiv> 1"
abbreviation (input) ESPNOW_JOIN_STATUS_SEND_STATE :: u8 where "ESPNOW_JOIN_STATUS_SEND_STATE \<equiv> 2"
abbreviation (input) ESPNOW_JOIN_STATUS_COMPLETE :: u8 where "ESPNOW_JOIN_STATUS_COMPLETE \<equiv> 100"
abbreviation (input) ESPNOW_JOIN_REASON_WAIT :: u8 where "ESPNOW_JOIN_REASON_WAIT \<equiv> 3"
abbreviation (input) ESPNOW_SESSION_FLAG_V2_MTU :: u8 where "ESPNOW_SESSION_FLAG_V2_MTU \<equiv> 1"
abbreviation (input) ESPNOW_ENTITY_FLAG_MORE_FRAGMENTS :: u8 where "ESPNOW_ENTITY_FLAG_MORE_FRAGMENTS \<equiv> 1"
abbreviation (input) ESPNOW_ENTITY_FLAG_MORE_DIRTY :: u8 where "ESPNOW_ENTITY_FLAG_MORE_DIRTY \<equiv> 2"
abbreviation (input) ESPNOW_SCHEMA_HASH_LEN :: nat where "ESPNOW_SCHEMA_HASH_LEN \<equiv> 222"
abbreviation (input) ACK_STATE :: u8 where "ACK_STATE \<equiv> 4"
abbreviation (input) ACK_COMMAND :: u8 where "ACK_COMMAND \<equiv> 6"
abbreviation (input) CFG_CMD_OTA_ENABLE :: u8 where "CFG_CMD_OTA_ENABLE \<equiv> 2"
abbreviation (input) CFG_CMD_WIFI_CONNECT :: u8 where "CFG_CMD_WIFI_CONNECT \<equiv> 3"
abbreviation (input) SET_PARENT_MAC_FLAG_CLEAR :: u8 where "SET_PARENT_MAC_FLAG_CLEAR \<equiv> 1"
abbreviation (input) ANNOUNCE_QUEUE_SIZE :: nat where "ANNOUNCE_QUEUE_SIZE \<equiv> 8"
abbreviation (input) OUTSTANDING_REQUESTS :: nat where "OUTSTANDING_REQUESTS \<equiv> 8"

section \<open>Parts of the state\<close>

record OutstandingRequest =
  or_packet_type :: u8
  or_tx_counter :: u32
  or_request_fingerprint :: bytes

record RemoteRouteEntry =
  rr_leaf_mac :: bytes
  rr_next_hop_mac :: bytes
  rr_expiry_ms :: u32
  rr_has_logged_providing_relay :: bool

record DiscoverCandidate =
  dc_next_hop_mac :: bytes
  dc_responder_role :: u8
  dc_bridge_reachable :: bool
  dc_flags :: u8
  dc_channel :: u8
  dc_rssi :: int
  dc_hops_to_bridge :: u8
  dc_valid :: bool
  dc_preferred_index :: u8

record PendingDiscover =
  pd_leaf_mac :: bytes
  pd_expiry_ms :: u32

record PendingAnnounce =
  pa_leaf_mac :: bytes
  pa_sender_mac :: bytes
  pa_responder_role :: u8
  pa_hops_to_bridge :: u8
  pa_deadline_ms :: u32
  pa_valid :: bool

record RemoteEntitySchema =
  es_entity_index :: u8
  es_entity_type :: u8
  es_entity_name :: bytes
  es_entity_unit :: bytes
  es_entity_options :: bytes
  es_entity_id :: bytes

record EntityRecord =
  er_schema :: RemoteEntitySchema
  er_current_value :: bytes
  er_dirty :: bool
  er_current_text :: bytes
  er_last_completed_command_message_tx_base :: u32

abbreviation (input) zero_mac :: bytes where "zero_mac \<equiv> replicate 6 0"

definition DiscoverCandidate_init :: DiscoverCandidate where
  "DiscoverCandidate_init =
     \<lparr>dc_next_hop_mac = zero_mac, dc_responder_role = ESPNOW_NODE_ROLE_RELAY, dc_bridge_reachable = False,
      dc_flags = 0, dc_channel = 1, dc_rssi = - 127, dc_hops_to_bridge = 255, dc_valid = False,
      dc_preferred_index = 255\<rparr>"

definition PendingAnnounce_init :: PendingAnnounce where
  "PendingAnnounce_init =
     \<lparr>pa_leaf_mac = zero_mac, pa_sender_mac = zero_mac, pa_responder_role = 0, pa_hops_to_bridge = 0,
      pa_deadline_ms = 0, pa_valid = False\<rparr>"

datatype rp_state_name = RS_DISCOVERING | RS_WAIT_WIFI | RS_JOINING | RS_JOINED | RS_STATE_SYNC | RS_NORMAL

section \<open>The remote\<close>

record 'h remote =
  rp_network_id :: bytes
  rp_esphome_name :: bytes
  rp_node_label :: bytes
  rp_firmware_epoch :: u32
  rp_project_name :: bytes
  rp_project_version :: bytes
  rp_chip_model :: u32
  rp_build_date :: bytes
  rp_build_time :: bytes
  rp_firmware_md5 :: bytes
  rp_leaf_mac :: bytes
  rp_relay_enabled :: bool
  rp_ota_over_espnow :: bool
  rp_max_hops :: u8
  rp_max_discover_pending :: u8
  rp_route_ttl_seconds :: u32
  rp_preferred_parents :: "bytes list"
  rp_heartbeat_interval :: u16
  rp_boot_epoch_ms :: u32
  rp_parent_mac :: bytes
  rp_parent_valid :: bool
  rp_last_parent_mac :: bytes
  rp_bridge_mac :: bytes
  rp_remote_nonce :: bytes
  rp_bridge_nonce :: bytes
  rp_session_key :: bytes
  rp_session_key_valid :: bool
  rp_joined :: bool
  rp_normal :: bool
  rp_can_relay :: bool
  rp_state_push_enabled :: bool
  rp_local_session_flags :: u8
  rp_bridge_session_flags :: u8
  rp_session_max_payload :: u16
  rp_max_entity_fragment :: u16
  rp_max_assembly_bytes :: u16
  rp_max_total_fragment_bytes :: u16
  rp_hop_count :: u8
  rp_hops_to_bridge :: u8
  rp_tx_counter :: u32
  rp_last_seen_counter :: u32
  rp_outstanding_requests :: "OutstandingRequest list"
  rp_last_tx_ms :: u32
  rp_last_successful_outbound_ms :: u32
  rp_last_successful_state_ms :: u32
  rp_last_successful_heartbeat_ms :: u32
  rp_last_heartbeat_tx_ms :: u32
  rp_last_join_attempt_ms :: u32
  rp_join_delay_until_ms :: u32
  rp_joined_started_ms :: u32
  rp_heartbeat_due_ms :: u32
  rp_discover_due_ms :: u32
  rp_last_state_tx_ms :: u32
  rp_last_state_rtt_ms :: u32
  rp_topology_refresh_due_ms :: u32
  rp_ota_last_activity_ms :: u32
  rp_wifi_wait_deadline_ms :: u32
  rp_discovering :: bool
  rp_join_in_flight :: bool
  rp_best_parent :: DiscoverCandidate
  rp_discover_retry_count :: u8
  rp_join_retry_count :: u8
  rp_wait_reject_count :: u8
  rp_state_retry_count :: u8
  rp_consecutive_send_failures :: u8
  rp_channel_index :: u8
  rp_last_known_channel :: u8
  rp_sweep_complete :: bool
  rp_fast_rejoin :: bool
  rp_discovery_resume_normal_after_success :: bool
  rp_discovery_current_channel_only :: bool
  rp_wifi_waiting :: bool
  rp_discover_retry_pending :: bool
  rp_discover_phase :: u8
  rp_initial_discovery_pending :: bool
  rp_parent_link_rssi_ema :: int
  rp_waiting_for_state_ack :: bool
  rp_pending_state_message_tx_base :: u32
  rp_pending_state_field_index :: u8
  rp_pending_state_value :: bytes
  rp_pending_state_fragment_count :: u8
  rp_pending_state_payload_len :: nat
  rp_last_config_tx_counter :: u32
  rp_last_config_command :: u8
  rp_last_config_result :: u8
  rp_last_config_valid :: bool
  rp_routes :: "RemoteRouteEntry list"
  rp_pending_discovers :: "PendingDiscover list"
  rp_announce_queue :: "PendingAnnounce list"
  rp_announce_queue_head :: u8
  rp_announce_queue_tail :: u8
  rp_discover_announce_pending :: bool
  rp_entities :: "RemoteEntitySchema list"
  rp_entity_records :: "EntityRecord list"
  rp_pending_commands :: command_assemblies
  rp_file_receiver :: "'h fr"
  rp_state_name :: rp_state_name
  rp_sent :: "(bytes \<times> bytes) list"
  rp_commands_run :: "(u8 \<times> u8 \<times> bytes) list"
  rp_channels_tuned :: "u8 list"
  rp_restarts :: nat

end
