(* ===== verification/RemoteOps.thy ===== *)
theory RemoteOps
  imports RemoteState
begin

text \<open>
  What the remote's handlers and its loop are made of
  (\<^verbatim>\<open>esp_tree_remote/remote_protocol.cpp\<close>): construction and set-up, the routing table,
  the choice of a parent, the ring of answers to discoverers, sending, and the changes of phase.
\<close>

section \<open>The platform as one call sees it\<close>

text \<open>
  \<open>env_send\<close> is the result of the send function for what was sent before, the address and the frame.
  \<open>env_channel\<close> is the radio's channel, \<open>None\<close> when it cannot be read.
\<close>

record 'h rp_env =
  env_now :: u32
  env_random :: "nat \<Rightarrow> u32"
  env_nonce :: "nat \<Rightarrow> bytes"
  env_hmac :: "bytes \<Rightarrow> bytes \<Rightarrow> bytes"
  env_sha256 :: "bytes \<Rightarrow> bytes"
  env_crypto :: crypto_state
  env_handler :: "'h action_handler"
  env_set_max_chunk :: "u16 \<Rightarrow> 'h \<Rightarrow> 'h"
  env_wifi_component :: bool
  env_wifi_is_connected :: bool
  env_channel :: "u8 option"
  env_send :: "((bytes \<times> bytes) list \<Rightarrow> bytes \<Rightarrow> bytes \<Rightarrow> bool) option"
  env_command_fn :: bool
  env_chip_model :: u32
  env_build_date :: bytes
  env_build_time :: bytes
  env_firmware_md5 :: bytes

section \<open>Helpers\<close>

definition elapsed_ms_since :: "u32 \<Rightarrow> u32 \<Rightarrow> u32" where
  "elapsed_ms_since now before = (if before = 0 \<or> now < before then 0 else now - before)"

definition sweep_channel_from_index :: "u8 \<Rightarrow> u8" where
  "sweep_channel_from_index channel_index = channel_index mod 13 + 1"

definition discover_backoff_delay_ms :: "u8 \<Rightarrow> u32" where
  "discover_backoff_delay_ms stage = [500, 1000, 2000, 4000, 6000] ! min (unat stage) 4"

definition rp_wifi_connected :: "'h rp_env \<Rightarrow> bool" where
  "rp_wifi_connected env \<longleftrightarrow> env_wifi_component env \<and> env_wifi_is_connected env"

definition rp_current_wifi_channel :: "'h rp_env \<Rightarrow> u8" where
  "rp_current_wifi_channel env =
     (case env_channel env of None \<Rightarrow> 1 | Some ch \<Rightarrow> if ch = 0 \<or> 13 < ch then 1 else ch)"

definition rp_tune :: "u8 \<Rightarrow> 'h remote \<Rightarrow> 'h remote" where
  "rp_tune channel s = s\<lparr>rp_channels_tuned := rp_channels_tuned s @ [channel]\<rparr>"

section \<open>Construction and set-up\<close>

definition RemoteProtocol_new :: "'h \<Rightarrow> 'h remote" where
  "RemoteProtocol_new h =
     \<lparr>rp_network_id = [], rp_esphome_name = [], rp_node_label = [], rp_firmware_epoch = 0,
      rp_project_name = [], rp_project_version = [], rp_chip_model = 0, rp_build_date = [],
      rp_build_time = [], rp_firmware_md5 = replicate 16 0, rp_leaf_mac = zero_mac,
      rp_relay_enabled = True, rp_ota_over_espnow = False, rp_max_hops = ESPNOW_MAX_HOPS_DEFAULT,
      rp_max_discover_pending = ESPNOW_MAX_PENDING_DISCOVER,
      rp_route_ttl_seconds = ESPNOW_ROUTE_TTL_DEFAULT_SECONDS, rp_preferred_parents = [],
      rp_heartbeat_interval = 60, rp_boot_epoch_ms = 0, rp_parent_mac = zero_mac,
      rp_parent_valid = False, rp_last_parent_mac = zero_mac, rp_bridge_mac = zero_mac,
      rp_remote_nonce = replicate 16 0, rp_bridge_nonce = replicate 16 0,
      rp_session_key = replicate 32 0, rp_session_key_valid = False, rp_joined = False,
      rp_normal = False, rp_can_relay = False, rp_state_push_enabled = False,
      rp_local_session_flags = 0, rp_bridge_session_flags = 0,
      rp_session_max_payload = of_nat ESPNOW_V1_MAX_PAYLOAD,
      rp_max_entity_fragment = espnow_max_entity_fragment (of_nat ESPNOW_V1_MAX_PAYLOAD),
      rp_max_assembly_bytes = 1024, rp_max_total_fragment_bytes = 4096,
      rp_hop_count = 0, rp_hops_to_bridge = 255, rp_tx_counter = 1, rp_last_seen_counter = 0,
      rp_outstanding_requests = [], rp_last_tx_ms = 0, rp_last_successful_outbound_ms = 0,
      rp_last_successful_state_ms = 0, rp_last_successful_heartbeat_ms = 0,
      rp_last_heartbeat_tx_ms = 0, rp_last_join_attempt_ms = 0, rp_join_delay_until_ms = 0,
      rp_joined_started_ms = 0, rp_heartbeat_due_ms = 0, rp_discover_due_ms = 0,
      rp_last_state_tx_ms = 0, rp_last_state_rtt_ms = 0, rp_topology_refresh_due_ms = 0,
      rp_ota_last_activity_ms = 0, rp_wifi_wait_deadline_ms = 0, rp_discovering = True,
      rp_join_in_flight = False, rp_best_parent = DiscoverCandidate_init,
      rp_discover_retry_count = 0, rp_join_retry_count = 0, rp_wait_reject_count = 0,
      rp_state_retry_count = 0, rp_consecutive_send_failures = 0, rp_channel_index = 0,
      rp_last_known_channel = 1, rp_sweep_complete = False, rp_fast_rejoin = False,
      rp_discovery_resume_normal_after_success = False, rp_discovery_current_channel_only = False,
      rp_wifi_waiting = False, rp_discover_retry_pending = False, rp_discover_phase = 0,
      rp_initial_discovery_pending = False, rp_parent_link_rssi_ema = - 127,
      rp_waiting_for_state_ack = False, rp_pending_state_message_tx_base = 0,
      rp_pending_state_field_index = 0, rp_pending_state_value = [],
      rp_pending_state_fragment_count = 0, rp_pending_state_payload_len = 0,
      rp_last_config_tx_counter = 0, rp_last_config_command = 0,
      rp_last_config_result = CFG_RESULT_OK, rp_last_config_valid = False, rp_routes = [],
      rp_pending_discovers = [], rp_announce_queue = replicate ANNOUNCE_QUEUE_SIZE PendingAnnounce_init,
      rp_announce_queue_head = 0, rp_announce_queue_tail = 0, rp_discover_announce_pending = False,
      rp_entities = [], rp_entity_records = [], rp_pending_commands = command_assemblies_init,
      rp_file_receiver = FileReceiver_init h, rp_state_name = RS_DISCOVERING, rp_sent = [],
      rp_commands_run = [], rp_channels_tuned = [], rp_restarts = 0\<rparr>"

definition rp_refresh_can_relay :: "'h remote \<Rightarrow> 'h remote" where
  "rp_refresh_can_relay s =
     s\<lparr>rp_can_relay := rp_relay_enabled s \<and> rp_normal s \<and> rp_parent_valid s \<and> rp_hops_to_bridge s \<noteq> 255\<rparr>"

text \<open>
  \<^verbatim>\<open>init\<close> without its last line, the installation of the key (\<open>espnow_crypto_init\<close>). The
  acknowledgement callback it installs is \<open>rp_send_ack\<close> with counter 0; it is applied where the file
  receiver is called.
\<close>

definition rp_init ::
  "'h rp_env \<Rightarrow> bytes \<Rightarrow> bytes \<Rightarrow> bytes \<Rightarrow> u32 \<Rightarrow> bytes \<Rightarrow> bytes \<Rightarrow> u16 \<Rightarrow> 'h remote \<Rightarrow> 'h remote" where
  "rp_init env network_id esphome_name node_label firmware_epoch project_name project_version heartbeat_interval s =
     s\<lparr>rp_network_id := network_id, rp_esphome_name := esphome_name, rp_node_label := node_label,
       rp_firmware_epoch := firmware_epoch, rp_project_name := project_name,
       rp_project_version := project_version, rp_heartbeat_interval := heartbeat_interval,
       rp_boot_epoch_ms := env_now env, rp_initial_discovery_pending := True,
       rp_file_receiver := (rp_file_receiver s)\<lparr>fr_ota_enabled := rp_ota_over_espnow s\<rparr>\<rparr>"

definition rp_set_local_mac :: "bytes option \<Rightarrow> 'h remote \<Rightarrow> 'h remote" where
  "rp_set_local_mac mac s =
     (case mac of None \<Rightarrow> s
      | Some m \<Rightarrow> s\<lparr>rp_leaf_mac := take 6 m, rp_file_receiver := fr_set_local_mac (Some m) (rp_file_receiver s)\<rparr>)"

definition rp_set_relay_config :: "bool \<Rightarrow> u8 \<Rightarrow> u8 \<Rightarrow> 'h remote \<Rightarrow> 'h remote" where
  "rp_set_relay_config relay_enabled max_hops max_discover_pending s =
     rp_refresh_can_relay (s\<lparr>rp_relay_enabled := relay_enabled,
       rp_max_hops := (if max_hops = 0 then ESPNOW_MAX_HOPS_DEFAULT else max_hops),
       rp_max_discover_pending := (if max_discover_pending = 0 then 1 else max_discover_pending)\<rparr>)"

definition rp_set_route_ttl :: "u32 \<Rightarrow> 'h remote \<Rightarrow> 'h remote" where
  "rp_set_route_ttl route_ttl_seconds s = s\<lparr>rp_route_ttl_seconds := route_ttl_seconds\<rparr>"

definition rp_add_preferred_parent :: "bytes \<Rightarrow> 'h remote \<Rightarrow> 'h remote" where
  "rp_add_preferred_parent mac s = s\<lparr>rp_preferred_parents := rp_preferred_parents s @ [mac]\<rparr>"

definition rp_set_session_flags :: "u8 \<Rightarrow> 'h remote \<Rightarrow> 'h remote" where
  "rp_set_session_flags flags s = s\<lparr>rp_local_session_flags := flags\<rparr>"

definition rp_set_relay_enabled_runtime :: "bool \<Rightarrow> 'h remote \<Rightarrow> 'h remote" where
  "rp_set_relay_enabled_runtime enabled s = rp_refresh_can_relay (s\<lparr>rp_relay_enabled := enabled\<rparr>)"

definition rp_set_ota_over_espnow :: "bool \<Rightarrow> 'h remote \<Rightarrow> 'h remote" where
  "rp_set_ota_over_espnow enabled s =
     s\<lparr>rp_ota_over_espnow := enabled, rp_file_receiver := (rp_file_receiver s)\<lparr>fr_ota_enabled := enabled\<rparr>\<rparr>"

definition rp_update_mtu_from_route :: "'h rp_env \<Rightarrow> 'h remote \<Rightarrow> 'h remote" where
  "rp_update_mtu_from_route env s =
     s\<lparr>rp_max_entity_fragment := espnow_max_entity_fragment (rp_session_max_payload s),
       rp_max_assembly_bytes := espnow_max_assembly_bytes (rp_session_max_payload s),
       rp_max_total_fragment_bytes := espnow_max_total_fragment_bytes (rp_session_max_payload s),
       rp_file_receiver := fr_set_max_chunk_size (env_set_max_chunk env) (rp_session_max_payload s) (rp_file_receiver s)\<rparr>"

definition rp_get_uptime_s :: "'h rp_env \<Rightarrow> 'h remote \<Rightarrow> u32" where
  "rp_get_uptime_s env s = (env_now env - rp_boot_epoch_ms s) div 1000"

section \<open>Entities\<close>

definition rp_register_entity :: "u8 \<Rightarrow> bytes \<Rightarrow> bytes \<Rightarrow> bytes \<Rightarrow> bytes \<Rightarrow> 'h remote \<Rightarrow> 'h remote \<times> u8" where
  "rp_register_entity entity_type name unit options entity_id s =
     (let schema = \<lparr>es_entity_index = of_nat (length (rp_entities s)), es_entity_type = entity_type,
            es_entity_name = name, es_entity_unit = unit, es_entity_options = options, es_entity_id = entity_id\<rparr>;
          record = \<lparr>er_schema = schema, er_current_value = [], er_dirty = True, er_current_text = [],
            er_last_completed_command_message_tx_base = 0\<rparr>
      in (s\<lparr>rp_entities := rp_entities s @ [schema], rp_entity_records := rp_entity_records s @ [record]\<rparr>,
          es_entity_index schema))"

definition rp_update_record :: "nat \<Rightarrow> (EntityRecord \<Rightarrow> EntityRecord) \<Rightarrow> 'h remote \<Rightarrow> 'h remote" where
  "rp_update_record i f s =
     s\<lparr>rp_entity_records := (rp_entity_records s)[i := f (rp_entity_records s ! i)]\<rparr>"

definition rp_set_entity_options :: "u8 \<Rightarrow> bytes \<Rightarrow> 'h remote \<Rightarrow> 'h remote" where
  "rp_set_entity_options field_index options s =
     (let i = unat field_index in
      if i \<ge> length (rp_entities s) \<or> i \<ge> length (rp_entity_records s) then s
      else rp_update_record i (\<lambda>r. r\<lparr>er_schema := (er_schema r)\<lparr>es_entity_options := options\<rparr>\<rparr>)
             (s\<lparr>rp_entities := (rp_entities s)[i := (rp_entities s ! i)\<lparr>es_entity_options := options\<rparr>]\<rparr>))"

definition rp_on_entity_state_change :: "u8 \<Rightarrow> bytes option \<Rightarrow> 'h remote \<Rightarrow> 'h remote" where
  "rp_on_entity_state_change field_index val s =
     (case val of
        None \<Rightarrow> s
      | Some v \<Rightarrow>
          if unat field_index \<ge> length (rp_entity_records s) then s
          else rp_update_record (unat field_index) (\<lambda>r. r\<lparr>er_current_value := v, er_dirty := True\<rparr>) s)"

definition rp_on_entity_text_change :: "u8 \<Rightarrow> bytes \<Rightarrow> 'h remote \<Rightarrow> 'h remote" where
  "rp_on_entity_text_change field_index val s =
     (if unat field_index \<ge> length (rp_entity_records s) then s
      else rp_update_record (unat field_index)
             (\<lambda>r. r\<lparr>er_current_text := val, er_current_value := val, er_dirty := True\<rparr>) s)"

definition rp_mark_all_entities_dirty :: "'h remote \<Rightarrow> 'h remote" where
  "rp_mark_all_entities_dirty s = s\<lparr>rp_entity_records := map (\<lambda>r. r\<lparr>er_dirty := True\<rparr>) (rp_entity_records s)\<rparr>"

section \<open>The routing table\<close>

definition find_route :: "bytes \<Rightarrow> RemoteRouteEntry list \<Rightarrow> RemoteRouteEntry option" where
  "find_route leaf_mac routes = find (\<lambda>r. rr_leaf_mac r = leaf_mac) routes"

fun update_route :: "bytes \<Rightarrow> (RemoteRouteEntry \<Rightarrow> RemoteRouteEntry) \<Rightarrow> RemoteRouteEntry list \<Rightarrow> RemoteRouteEntry list" where
  "update_route leaf_mac f [] = []"
| "update_route leaf_mac f (r # rs) = (if rr_leaf_mac r = leaf_mac then f r # rs else r # update_route leaf_mac f rs)"

definition rp_refresh_route :: "'h rp_env \<Rightarrow> bytes \<Rightarrow> bytes \<Rightarrow> 'h remote \<Rightarrow> 'h remote" where
  "rp_refresh_route env leaf_mac next_hop_mac s =
     (if leaf_mac = rp_leaf_mac s then s
      else if next_hop_mac = rp_leaf_mac s then s
      else (let routes = (case find_route leaf_mac (rp_routes s) of
                  None \<Rightarrow> rp_routes s @ [\<lparr>rr_leaf_mac = leaf_mac, rr_next_hop_mac = zero_mac, rr_expiry_ms = 0,
                            rr_has_logged_providing_relay = False\<rparr>]
                | Some _ \<Rightarrow> rp_routes s)
            in s\<lparr>rp_routes := update_route leaf_mac
                   (\<lambda>r. r\<lparr>rr_next_hop_mac := next_hop_mac,
                          rr_expiry_ms := env_now env + rp_route_ttl_seconds s * 1000\<rparr>) routes\<rparr>))"

definition rp_log_providing_relay :: "bytes \<Rightarrow> 'h remote \<Rightarrow> 'h remote" where
  "rp_log_providing_relay leaf_mac s =
     s\<lparr>rp_routes := update_route leaf_mac (\<lambda>r. r\<lparr>rr_has_logged_providing_relay := True\<rparr>) (rp_routes s)\<rparr>"

definition rp_prune_routes :: "u32 \<Rightarrow> 'h remote \<Rightarrow> 'h remote" where
  "rp_prune_routes now s = s\<lparr>rp_routes := filter (\<lambda>r. \<not> rr_expiry_ms r \<le> now) (rp_routes s)\<rparr>"

definition rp_prune_pending_discovers :: "u32 \<Rightarrow> 'h remote \<Rightarrow> 'h remote" where
  "rp_prune_pending_discovers now s =
     s\<lparr>rp_pending_discovers := filter (\<lambda>e. \<not> pd_expiry_ms e \<le> now) (rp_pending_discovers s)\<rparr>"

definition rp_direct_child_count :: "'h remote \<Rightarrow> u8" where
  "rp_direct_child_count s =
     fold (\<lambda>r n. if rr_leaf_mac r = rp_leaf_mac s then n
                 else if rr_next_hop_mac r = rr_leaf_mac r then n + 1 else n) (rp_routes s) 0"

text \<open>The inner loop follows the next hops from a leaf for at most \<open>max_hops\<close> steps.\<close>

fun chain_reaches :: "bytes \<Rightarrow> RemoteRouteEntry list \<Rightarrow> nat \<Rightarrow> bytes \<Rightarrow> bool" where
  "chain_reaches self routes 0 next_hop = False"
| "chain_reaches self routes (Suc hops) next_hop =
     (if next_hop = self then True
      else case find_route next_hop routes of
             None \<Rightarrow> False
           | Some r \<Rightarrow> chain_reaches self routes hops (rr_next_hop_mac r))"

definition rp_total_children_count :: "'h remote \<Rightarrow> u16" where
  "rp_total_children_count s =
     (if \<not> rp_can_relay s then 0
      else fold (\<lambda>r n. if rr_leaf_mac r = rp_leaf_mac s then n
                       else if chain_reaches (rp_leaf_mac s) (rp_routes s) (length (rp_routes s) + 1) (rr_leaf_mac r)
                            then n + 1 else n)
             (rp_routes s) 0)"

section \<open>Choosing a parent\<close>

definition preferred_index :: "bytes \<Rightarrow> bytes \<Rightarrow> bytes list \<Rightarrow> u8" where
  "preferred_index sender_mac responder_mac preferred_parents =
     (case find (\<lambda>i. preferred_parents ! i = sender_mac \<or> preferred_parents ! i = responder_mac)
             [0..<length preferred_parents] of
        None \<Rightarrow> 255 | Some i \<Rightarrow> of_nat i)"

definition better_candidate :: "u8 \<Rightarrow> u8 \<Rightarrow> int \<Rightarrow> DiscoverCandidate \<Rightarrow> bool" where
  "better_candidate index hops rssi best \<longleftrightarrow>
     \<not> dc_valid best
     \<or> index < dc_preferred_index best
     \<or> (index = dc_preferred_index best
        \<and> (hops < dc_hops_to_bridge best \<or> (hops = dc_hops_to_bridge best \<and> rssi > dc_rssi best)))"

definition rp_select_parent_candidate ::
  "'h rp_env \<Rightarrow> bytes \<Rightarrow> espnow_discover_announce \<Rightarrow> int \<Rightarrow> 'h remote \<Rightarrow> 'h remote" where
  "rp_select_parent_candidate env sender_mac announce rssi s =
     (let index = preferred_index sender_mac (ann_responder_mac announce) (rp_preferred_parents s) in
      if \<not> better_candidate index (ann_hops_to_bridge announce) rssi (rp_best_parent s) then s
      else s\<lparr>rp_best_parent :=
             \<lparr>dc_next_hop_mac = take 6 sender_mac, dc_responder_role = ann_responder_role announce,
              dc_bridge_reachable = (ann_bridge_reachable announce \<noteq> 0), dc_flags = ann_flags announce,
              dc_channel = (case env_channel env of None \<Rightarrow> 1 | Some ch \<Rightarrow> ch), dc_rssi = rssi,
              dc_hops_to_bridge = ann_hops_to_bridge announce, dc_valid = True, dc_preferred_index = index\<rparr>\<rparr>)"

end
