(* ===== verification/RemoteSend.thy ===== *)
theory RemoteSend
  imports RemoteOps
begin

text \<open>
  What a remote sends (\<^verbatim>\<open>esp_tree_remote/remote_protocol.cpp\<close>): frames with their tags, the
  record of outstanding requests, JOIN, heartbeats, states and schemas in fragments, acknowledgements, and the
  answers to discoverers, which wait in a ring for their moment.
\<close>

section \<open>Frames\<close>

definition rp_header :: "u8 \<Rightarrow> u8 \<Rightarrow> bytes \<Rightarrow> u32 \<Rightarrow> espnow_frame_header" where
  "rp_header packet_type hop_count leaf_mac tx_counter =
     \<lparr>fh_protocol_version = ESPNOW_PROTOCOL_VER, fh_hop_count = hop_count, fh_packet_type = packet_type,
      fh_leaf_mac = leaf_mac, fh_tx_counter = tx_counter, fh_psk_tag = replicate 4 0\<rparr>"

text \<open>The header with its network tag, the payload, and the session tag when there is one.\<close>

definition rp_frame_bytes :: "'h rp_env \<Rightarrow> bytes option \<Rightarrow> espnow_frame_header \<Rightarrow> bytes \<Rightarrow> bytes" where
  "rp_frame_bytes env session_key hdr payload =
     (let raw = c_enc espnow_frame_header_codec hdr;
          psk_tag = espnow_crypto_psk_tag (env_hmac env) (env_crypto env) raw payload
      in c_enc espnow_frame_header_codec (hdr\<lparr>fh_psk_tag := psk_tag\<rparr>) @ payload
         @ (case session_key of None \<Rightarrow> [] | Some key \<Rightarrow> espnow_crypto_session_tag (env_hmac env) key raw payload))"

definition rp_transmit ::
  "'h rp_env \<Rightarrow> ((bytes \<times> bytes) list \<Rightarrow> bytes \<Rightarrow> bytes \<Rightarrow> bool) \<Rightarrow> bytes \<Rightarrow> bytes \<Rightarrow> 'h remote \<Rightarrow> 'h remote \<times> bool" where
  "rp_transmit env send mac frame s =
     (let sent = send (rp_sent s) mac frame;
          s = s\<lparr>rp_sent := rp_sent s @ [(mac, frame)], rp_last_tx_ms := env_now env\<rparr>
      in (if sent then s\<lparr>rp_last_successful_outbound_ms := env_now env, rp_consecutive_send_failures := 0\<rparr>
          else s\<lparr>rp_consecutive_send_failures :=
                   (if rp_consecutive_send_failures s = 255 then 255 else rp_consecutive_send_failures s + 1)\<rparr>, sent))"

definition rp_send_frame ::
  "'h rp_env \<Rightarrow> bytes \<Rightarrow> espnow_packet_type \<Rightarrow> u8 \<Rightarrow> u32 \<Rightarrow> bytes \<Rightarrow> bool \<Rightarrow> bytes option \<Rightarrow> 'h remote \<Rightarrow> 'h remote \<times> bool" where
  "rp_send_frame env mac type hop_count tx_counter payload encrypted pre_ciphertext s =
     (case env_send env of
        None \<Rightarrow> (s, False)
      | Some send \<Rightarrow>
          if encrypted \<and> length payload > unat (espnow_max_plaintext (rp_session_max_payload s)) then (s, False)
          else
            (let hdr = rp_header (packet_code type) hop_count (rp_leaf_mac s) tx_counter in
             if encrypted then
               (case (case pre_ciphertext of
                        Some c \<Rightarrow> Some (take (length payload) c)
                      | None \<Rightarrow> espnow_crypto_crypt (env_crypto env) (Some (rp_session_key s)) tx_counter payload) of
                  None \<Rightarrow> (s, False)
                | Some payload_out \<Rightarrow>
                    rp_transmit env send mac (rp_frame_bytes env (Some (rp_session_key s)) hdr payload_out) s)
             else rp_transmit env send mac (rp_frame_bytes env None hdr payload) s))"

abbreviation (input) rp_up_hops :: "'h remote \<Rightarrow> u8" where
  "rp_up_hops s \<equiv> hops_make ESPNOW_HOPS_DIR_UP (rp_hops_to_bridge s)"

section \<open>Outstanding requests\<close>

definition rp_update_outstanding_request ::
  "'h rp_env \<Rightarrow> u8 \<Rightarrow> u32 \<Rightarrow> espnow_frame_header \<Rightarrow> bytes \<Rightarrow> 'h remote \<Rightarrow> 'h remote" where
  "rp_update_outstanding_request env packet_type tx_counter hdr payload s =
     (let req = \<lparr>or_packet_type = packet_type, or_tx_counter = tx_counter,
            or_request_fingerprint = espnow_crypto_psk_tag (env_hmac env) (env_crypto env)
              (c_enc espnow_frame_header_codec hdr) payload\<rparr>
      in s\<lparr>rp_outstanding_requests :=
             (if length (rp_outstanding_requests s) < OUTSTANDING_REQUESTS then rp_outstanding_requests s
              else tl (rp_outstanding_requests s)) @ [req]\<rparr>)"

definition rp_record_outstanding_request :: "'h rp_env \<Rightarrow> u8 \<Rightarrow> u32 \<Rightarrow> bytes \<Rightarrow> 'h remote \<Rightarrow> 'h remote" where
  "rp_record_outstanding_request env packet_type tx_counter payload s =
     rp_update_outstanding_request env packet_type tx_counter
       (rp_header packet_type ESPNOW_HOPS_DIR_UP (rp_leaf_mac s) tx_counter) payload s"

definition rp_request_matches_outstanding :: "bytes \<Rightarrow> 'h remote \<Rightarrow> bool" where
  "rp_request_matches_outstanding payload s \<longleftrightarrow>
     length payload = c_width espnow_deauth_codec
     \<and> (case c_dec espnow_deauth_codec payload of
          None \<Rightarrow> False
        | Some deauth \<Rightarrow> list_ex (\<lambda>req. or_packet_type req = deauth_response_to_packet_type deauth
              \<and> or_tx_counter req = deauth_response_to_tx_counter deauth
              \<and> or_request_fingerprint req = deauth_request_fingerprint deauth) (rp_outstanding_requests s))"

section \<open>Acknowledgements\<close>

text \<open>The common end of the acknowledging functions: count, fingerprint of the ciphertext, send.\<close>

definition rp_send_upstream_ack :: "'h rp_env \<Rightarrow> bytes \<Rightarrow> 'h remote \<Rightarrow> 'h remote \<times> bool" where
  "rp_send_upstream_ack env payload s =
     (let tx_counter = rp_tx_counter s;
          s = s\<lparr>rp_tx_counter := tx_counter + 1\<rparr>;
          hdr = rp_header (packet_code PKT_ACK) (rp_up_hops s) (rp_leaf_mac s) tx_counter
      in case espnow_crypto_crypt (env_crypto env) (Some (rp_session_key s)) tx_counter payload of
           None \<Rightarrow> (s, False)
         | Some ciphertext \<Rightarrow>
             (let s = rp_update_outstanding_request env (packet_code PKT_ACK) tx_counter hdr ciphertext s
              in rp_send_frame env (rp_parent_mac s) PKT_ACK (rp_up_hops s) tx_counter payload True None s))"

definition rp_send_command_ack :: "'h rp_env \<Rightarrow> u8 \<Rightarrow> u8 \<Rightarrow> u32 \<Rightarrow> 'h remote \<Rightarrow> 'h remote \<times> bool" where
  "rp_send_command_ack env field_index result ref_tx_counter s =
     (if \<not> rp_joined s \<or> \<not> rp_parent_valid s then (s, False)
      else rp_send_upstream_ack env
             (c_enc espnow_ack_codec \<lparr>ack_ack_type = ACK_COMMAND, ack_result = result, ack_ref_tx_counter = ref_tx_counter\<rparr>) s)"

definition rp_send_ack :: "'h rp_env \<Rightarrow> bytes \<Rightarrow> u32 \<Rightarrow> 'h remote \<Rightarrow> 'h remote \<times> bool" where
  "rp_send_ack env payload ref_tx_counter s =
     (if \<not> rp_joined s \<or> \<not> rp_parent_valid s then (s, False)
      else case c_dec espnow_ack_codec payload of
             None \<Rightarrow> (s, False)
           | Some ack \<Rightarrow>
               rp_send_upstream_ack env
                 (c_enc espnow_ack_codec
                    (ack\<lparr>ack_ref_tx_counter := (if ref_tx_counter \<noteq> 0 then ref_tx_counter else ack_ref_tx_counter ack)\<rparr>)
                  @ drop (c_width espnow_ack_codec) payload) s)"

definition rp_send_config_ack :: "'h rp_env \<Rightarrow> u8 \<Rightarrow> u8 \<Rightarrow> u32 \<Rightarrow> 'h remote \<Rightarrow> 'h remote \<times> bool" where
  "rp_send_config_ack env command result ref_tx_counter s =
     (if \<not> rp_joined s \<or> \<not> rp_parent_valid s then (s, False)
      else rp_send_ack env
             (c_enc espnow_ack_codec \<lparr>ack_ack_type = packet_code PKT_CONFIG, ack_result = result,
                ack_ref_tx_counter = ref_tx_counter\<rparr> @ [command]) ref_tx_counter s)"

section \<open>Calls of the file receiver\<close>

text \<open>
  The receiver acknowledges through \<^verbatim>\<open>send_ack_(payload, len, 0)\<close>, which changes nothing the
  receiver reads. A call therefore runs on the receiver alone, where the result of an acknowledgement is that of sending it after the
  earlier ones; the acknowledgements are then sent in order.
\<close>

definition rp_send_acks :: "'h rp_env \<Rightarrow> bytes list \<Rightarrow> 'h remote \<Rightarrow> 'h remote" where
  "rp_send_acks env acks s = fold (\<lambda>payload s. fst (rp_send_ack env payload 0 s)) acks s"

definition rp_file_call :: "'h rp_env \<Rightarrow> ('h fr \<Rightarrow> 'h fr \<times> 'a) \<Rightarrow> 'h remote \<Rightarrow> 'h remote \<times> 'a" where
  "rp_file_call env f s =
     (let ack = (\<lambda>earlier payload. snd (rp_send_ack env payload 0 (rp_send_acks env earlier s)))
      in case f ((rp_file_receiver s)\<lparr>fr_sent := [], fr_send_ack_fn := Some ack\<rparr>) of
           (receiver, r) \<Rightarrow> ((rp_send_acks env (fr_sent receiver) s)\<lparr>rp_file_receiver := receiver\<rparr>, r))"

section \<open>JOIN, DEAUTH, heartbeat\<close>

definition rp_schema_hash_bytes :: "'h remote \<Rightarrow> bytes" where
  "rp_schema_hash_bytes s =
     rp_esphome_name s @ [0] @ rp_node_label s @ [0] @ le32 (rp_firmware_epoch s)
     @ rp_project_name s @ [0] @ rp_project_version s @ [0] @ le32 (rp_chip_model s)
     @ rp_build_date s @ [0] @ rp_build_time s @ [0]
     @ concat (map (\<lambda>i. let schema = er_schema (rp_entity_records s ! i) in
         take ESPNOW_SCHEMA_HASH_LEN
           (append_schema_push_payload ESPNOW_DESCRIPTOR_TYPE_ENTITY (of_nat i) (of_nat i)
             (of_nat (length (rp_entity_records s))) (es_entity_type schema) (es_entity_name schema)
             (es_entity_unit schema) (es_entity_id schema) (es_entity_options schema)))
         [0..<length (rp_entity_records s)])"

definition rp_compute_schema_hash :: "'h rp_env \<Rightarrow> 'h remote \<Rightarrow> bytes" where
  "rp_compute_schema_hash env s = env_sha256 env (rp_schema_hash_bytes s)"

definition rp_send_join :: "'h rp_env \<Rightarrow> 'h remote \<Rightarrow> 'h remote \<times> bool" where
  "rp_send_join env s =
     (if \<not> rp_parent_valid s \<or> \<not> dc_valid (rp_best_parent s) then (s, False)
      else
        (let s = s\<lparr>rp_join_delay_until_ms := 0\<rparr>;
             join = \<lparr>join_remote_nonce = rp_remote_nonce s, join_schema_hash = rp_compute_schema_hash env s,
                     join_hops_to_bridge = rp_hops_to_bridge s,
                     join_dirty_count = of_nat (length (filter er_dirty (rp_entity_records s))),
                     join_session_flags = rp_local_session_flags s\<rparr>;
             tx_counter = rp_tx_counter s;
             s = s\<lparr>rp_tx_counter := tx_counter + 1\<rparr>;
             (s, sent) = rp_send_frame env (rp_parent_mac s) PKT_JOIN (rp_up_hops s) tx_counter
                           (c_enc espnow_join_codec join) False None s;
             s = s\<lparr>rp_join_in_flight := sent, rp_last_join_attempt_ms := env_now env\<rparr>
         in (if sent then s\<lparr>rp_join_retry_count := rp_join_retry_count s + 1\<rparr> else s, sent)))"

definition rp_send_deauth :: "'h rp_env \<Rightarrow> bytes \<Rightarrow> espnow_frame_header \<Rightarrow> bytes \<Rightarrow> 'h remote \<Rightarrow> 'h remote \<times> bool" where
  "rp_send_deauth env mac trigger payload s =
     (let deauth = \<lparr>deauth_reason = 1, deauth_response_to_packet_type = fh_packet_type trigger,
            deauth_response_to_tx_counter = fh_tx_counter trigger,
            deauth_request_fingerprint = espnow_crypto_psk_tag (env_hmac env) (env_crypto env)
              (c_enc espnow_frame_header_codec trigger) payload\<rparr>;
          tx_counter = rp_tx_counter s
      in rp_send_frame env mac PKT_DEAUTH (hops_make ESPNOW_HOPS_DIR_UP 0) tx_counter
           (c_enc espnow_deauth_codec deauth) False None (s\<lparr>rp_tx_counter := tx_counter + 1\<rparr>))"

definition rp_heartbeat :: "'h rp_env \<Rightarrow> 'h remote \<Rightarrow> espnow_heartbeat" where
  "rp_heartbeat env s =
     \<lparr>hb_uptime_seconds = rp_get_uptime_s env s,
      hb_expected_contact_interval_seconds = ucast (rp_heartbeat_interval s),
      hb_parent_mac = rp_parent_mac s, hb_direct_child_count = rp_direct_child_count s,
      hb_total_child_count = (if rp_can_relay s then rp_total_children_count s else 0),
      hb_remote_rssi_dbm = word_of_int (rp_parent_link_rssi_ema s)\<rparr>"

definition rp_send_heartbeat :: "'h rp_env \<Rightarrow> 'h remote \<Rightarrow> 'h remote \<times> bool" where
  "rp_send_heartbeat env s =
     (if \<not> rp_joined s \<or> \<not> rp_parent_valid s \<or> \<not> rp_normal s then (s, False)
      else
        (let heartbeat = rp_heartbeat env s;
             tx_counter = rp_tx_counter s;
             s = s\<lparr>rp_tx_counter := tx_counter + 1\<rparr>;
             (s, sent) = rp_send_frame env (rp_parent_mac s) PKT_HEARTBEAT (rp_up_hops s) tx_counter
                           (c_enc espnow_heartbeat_codec heartbeat) True None s
         in (if sent
             then s\<lparr>rp_last_heartbeat_tx_ms := env_now env, rp_last_successful_heartbeat_ms := env_now env,
                    rp_heartbeat_due_ms := env_now env + ucast (rp_heartbeat_interval s) * 1000\<rparr>
             else s\<lparr>rp_heartbeat_due_ms := env_now env + 1000\<rparr>, sent)))"

section \<open>States\<close>

definition rp_is_text :: "RemoteEntitySchema \<Rightarrow> bool" where
  "rp_is_text schema \<longleftrightarrow> es_entity_type schema = field_type_code FIELD_TYPE_TEXT
     \<or> es_entity_type schema = field_type_code FIELD_TYPE_TEXT_SENSOR"

definition rp_state_flags :: "nat \<Rightarrow> nat \<Rightarrow> u8 \<Rightarrow> 'h remote \<Rightarrow> u8" where
  "rp_state_flags chunk chunk_count field_index s =
     (if chunk + 1 < chunk_count then ESPNOW_ENTITY_FLAG_MORE_FRAGMENTS
      else if list_ex er_dirty (drop (unat field_index + 1) (rp_entity_records s))
      then ESPNOW_ENTITY_FLAG_MORE_DIRTY else 0)"

text \<open>One fragment: counted, its fingerprint recorded, sent; a failing send makes the entity dirty again.\<close>

definition rp_send_state_chunk :: "'h rp_env \<Rightarrow> u8 \<Rightarrow> bytes \<Rightarrow> nat \<Rightarrow> 'h remote \<Rightarrow> 'h remote \<times> bool" where
  "rp_send_state_chunk env field_index full_payload chunk s =
     (let chunk_count = fragment_chunk_count (rp_max_entity_fragment s) (length full_payload);
          state = fragment_packet (rp_max_entity_fragment s) full_payload field_index
                    (rp_state_flags chunk chunk_count field_index s) chunk;
          tx_counter = rp_tx_counter s;
          s = s\<lparr>rp_tx_counter := tx_counter + 1\<rparr>;
          hdr = rp_header (packet_code PKT_STATE) (rp_up_hops s) (rp_leaf_mac s) tx_counter
      in case espnow_crypto_crypt (env_crypto env) (Some (rp_session_key s)) tx_counter state of
           None \<Rightarrow> (s, False)
         | Some ciphertext \<Rightarrow>
             (let s = rp_update_outstanding_request env (packet_code PKT_STATE) tx_counter hdr ciphertext s;
                  (s, sent) = rp_send_frame env (rp_parent_mac s) PKT_STATE (rp_up_hops s) tx_counter state True None s
              in if \<not> sent
                 then (rp_update_record (unat field_index) (\<lambda>r. r\<lparr>er_dirty := True\<rparr>) s
                         \<lparr>rp_waiting_for_state_ack := False, rp_last_state_tx_ms := env_now env\<rparr>, False)
                 else (s, True)))"

fun rp_send_state_chunks :: "'h rp_env \<Rightarrow> u8 \<Rightarrow> bytes \<Rightarrow> nat list \<Rightarrow> 'h remote \<Rightarrow> 'h remote \<times> bool" where
  "rp_send_state_chunks env field_index full_payload [] s = (s, True)"
| "rp_send_state_chunks env field_index full_payload (chunk # chunks) s =
     (case rp_send_state_chunk env field_index full_payload chunk s of
        (s, sent) \<Rightarrow> if sent then rp_send_state_chunks env field_index full_payload chunks s else (s, False))"

definition rp_send_state :: "'h rp_env \<Rightarrow> u8 \<Rightarrow> bytes \<Rightarrow> bool \<Rightarrow> 'h remote \<Rightarrow> 'h remote \<times> bool" where
  "rp_send_state env field_index val reset_retry_state s =
     (if \<not> rp_joined s \<or> \<not> rp_parent_valid s \<or> \<not> rp_state_push_enabled s
         \<or> unat field_index \<ge> length (rp_entity_records s) then (s, False)
      else
        (let record = rp_entity_records s ! unat field_index;
             full_payload = (if rp_is_text (er_schema record) then er_current_text record else val);
             chunk_count = fragment_chunk_count (rp_max_entity_fragment s) (length full_payload);
             message_tx_base = rp_tx_counter s;
             (s, sent) = rp_send_state_chunks env field_index full_payload [0..<chunk_count] s
         in if \<not> sent then (s, False)
            else (let s = s\<lparr>rp_pending_state_message_tx_base := message_tx_base,
                        rp_pending_state_field_index := field_index, rp_pending_state_value := val,
                        rp_pending_state_fragment_count := of_nat chunk_count,
                        rp_pending_state_payload_len := length full_payload,
                        rp_last_state_tx_ms := env_now env\<rparr>
                  in (if reset_retry_state then s\<lparr>rp_state_retry_count := 0\<rparr> else s, True))))"

section \<open>Schemas\<close>

definition rp_send_identity_descriptor :: "'h rp_env \<Rightarrow> 'h remote \<Rightarrow> 'h remote \<times> bool" where
  "rp_send_identity_descriptor env s =
     (if \<not> rp_joined s \<or> \<not> rp_parent_valid s then (s, False)
      else
        (let s = s\<lparr>rp_chip_model := env_chip_model env, rp_build_date := env_build_date env,
               rp_build_time := env_build_time env, rp_firmware_md5 := env_firmware_md5 env\<rparr>;
             push = append_identity_descriptor_payload (rp_esphome_name s) (rp_node_label s)
                      (rp_firmware_epoch s) (rp_project_name s) (rp_project_version s)
                      (of_nat (length (rp_entity_records s))) (rp_session_max_payload s)
                      (rp_chip_model s) (rp_build_date s) (rp_build_time s) (rp_firmware_md5 s);
             tx_counter = rp_tx_counter s;
             s = s\<lparr>rp_tx_counter := tx_counter + 1\<rparr>
         in rp_send_frame env (rp_parent_mac s) PKT_SCHEMA_PUSH (rp_up_hops s) tx_counter
              (append_entity_payload 0 0 0 1 (Some push) (length push)) True None s))"

definition rp_schema_push :: "u8 \<Rightarrow> 'h remote \<Rightarrow> bytes" where
  "rp_schema_push entity_index s =
     (let schema = er_schema (rp_entity_records s ! unat entity_index)
      in append_schema_push_payload ESPNOW_DESCRIPTOR_TYPE_ENTITY entity_index entity_index
           (of_nat (length (rp_entity_records s))) (es_entity_type schema) (es_entity_name schema)
           (es_entity_unit schema) (es_entity_id schema) (es_entity_options schema @ [0]))"

fun rp_send_schema_chunks :: "'h rp_env \<Rightarrow> u8 \<Rightarrow> bytes \<Rightarrow> nat list \<Rightarrow> 'h remote \<Rightarrow> 'h remote \<times> bool" where
  "rp_send_schema_chunks env entity_index push [] s = (s, True)"
| "rp_send_schema_chunks env entity_index push (chunk # chunks) s =
     (let chunk_count = fragment_chunk_count (rp_max_entity_fragment s) (length push);
          flags = (if chunk + 1 < chunk_count then ESPNOW_ENTITY_FLAG_MORE_FRAGMENTS else 0);
          fragment = fragment_packet (rp_max_entity_fragment s) push entity_index flags chunk;
          tx_counter = rp_tx_counter s;
          s = s\<lparr>rp_tx_counter := tx_counter + 1\<rparr>
      in case espnow_crypto_crypt (env_crypto env) (Some (rp_session_key s)) tx_counter fragment of
           None \<Rightarrow> (s, False)
         | Some _ \<Rightarrow>
             (case rp_send_frame env (rp_parent_mac s) PKT_SCHEMA_PUSH (rp_up_hops s) tx_counter fragment True None s of
                (s, sent) \<Rightarrow> if sent then rp_send_schema_chunks env entity_index push chunks s else (s, False)))"

definition rp_send_schema_push :: "'h rp_env \<Rightarrow> u8 \<Rightarrow> 'h remote \<Rightarrow> 'h remote \<times> bool" where
  "rp_send_schema_push env entity_index s =
     (if \<not> rp_joined s \<or> \<not> rp_parent_valid s then (s, False)
      else if unat entity_index \<ge> length (rp_entity_records s) then (s, False)
      else (let push = rp_schema_push entity_index s
            in rp_send_schema_chunks env entity_index push
                 [0..<fragment_chunk_count (rp_max_entity_fragment s) (length push)] s))"

section \<open>Answers to discoverers\<close>

definition rp_fill_discover_announce :: "u8 \<Rightarrow> u8 \<Rightarrow> 'h remote \<Rightarrow> espnow_discover_announce" where
  "rp_fill_discover_announce responder_role hops_to_bridge s =
     \<lparr>ann_network_id = zero_padded 32 (rp_network_id s), ann_network_id_len = of_nat (length (rp_network_id s)),
      ann_responder_mac = rp_leaf_mac s, ann_responder_role = responder_role,
      ann_hops_to_bridge = hops_to_bridge, ann_bridge_reachable = 1, ann_flags = 0\<rparr>"

definition rp_send_discover_announce_with_jitter ::
  "'h rp_env \<Rightarrow> bytes \<Rightarrow> bytes \<Rightarrow> u8 \<Rightarrow> u8 \<Rightarrow> 'h remote \<Rightarrow> 'h remote \<times> bool" where
  "rp_send_discover_announce_with_jitter env sender_mac leaf_mac responder_role hops_to_bridge s =
     (let next_tail = (rp_announce_queue_tail s + 1) mod 8 in
      if next_tail = rp_announce_queue_head s then (s, False)
      else (s\<lparr>rp_announce_queue := (rp_announce_queue s)[unat (rp_announce_queue_tail s) :=
                 \<lparr>pa_leaf_mac = leaf_mac, pa_sender_mac = sender_mac, pa_responder_role = responder_role,
                  pa_hops_to_bridge = hops_to_bridge,
                  pa_deadline_ms = env_now env + env_random env 0 mod (ESPNOW_DISCOVER_ANNOUNCE_JITTER_MS + 1),
                  pa_valid = True\<rparr>],
               rp_announce_queue_tail := next_tail, rp_discover_announce_pending := True\<rparr>, True))"

definition rp_flush_pending_discover_announce :: "'h rp_env \<Rightarrow> 'h remote \<Rightarrow> 'h remote" where
  "rp_flush_pending_discover_announce env s =
     (if rp_announce_queue_head s = rp_announce_queue_tail s then s
      else (let entry = rp_announce_queue s ! unat (rp_announce_queue_head s) in
        if \<not> pa_valid entry then s
        else if env_now env < pa_deadline_ms entry then s
        else
          (let announce = rp_fill_discover_announce (pa_responder_role entry) (pa_hops_to_bridge entry) s;
               frame = rp_frame_bytes env None
                 (rp_header (packet_code PKT_DISCOVER_ANNOUNCE) (hops_make ESPNOW_HOPS_DIR_DOWN 0) (pa_leaf_mac entry) 0)
                 (c_enc espnow_discover_announce_codec announce);
               s = (case env_send env of None \<Rightarrow> s | Some _ \<Rightarrow> s\<lparr>rp_sent := rp_sent s @ [(pa_sender_mac entry, frame)]\<rparr>);
               s = s\<lparr>rp_announce_queue := (rp_announce_queue s)[unat (rp_announce_queue_head s) := entry\<lparr>pa_valid := False\<rparr>],
                     rp_announce_queue_head := (rp_announce_queue_head s + 1) mod 8\<rparr>
           in if rp_announce_queue_head s = rp_announce_queue_tail s
              then s\<lparr>rp_discover_announce_pending := False\<rparr> else s)))"

end
