(* ===== verification/RemotePhases.thy ===== *)
theory RemotePhases
  imports RemoteSend
begin

text \<open>
  The phases of a remote and how it moves between them
  (\<^verbatim>\<open>esp_tree_remote/remote_protocol.cpp\<close>): losing the session, starting a discovery, a
  recovery of the route or a full rediscovery, sweeping the channels, and adopting the parent found.
\<close>

section \<open>Losing the session\<close>

text \<open>
  \<^verbatim>\<open>clear_session_state_(false, preserve_route)\<close>; no caller clears the entities. Only
  an active transfer is aborted, without telling the sender.
\<close>

definition rp_clear_session_state :: "'h rp_env \<Rightarrow> bool \<Rightarrow> 'h remote \<Rightarrow> 'h remote" where
  "rp_clear_session_state env preserve_route s =
     (let s = (if fr_is_receiving (rp_file_receiver s)
               then fst (rp_file_call env (\<lambda>r. (fr_abort (env_handler env) ESPNOW_FILE_ABORT_SESSION_LOST False r, ())) s)
               else s);
          s = s\<lparr>rp_ota_last_activity_ms := 0, rp_joined := False, rp_join_in_flight := False,
                rp_discovering := \<not> preserve_route, rp_session_key_valid := False\<rparr>;
          s = (if preserve_route then s
               else s\<lparr>rp_parent_valid := False, rp_best_parent := DiscoverCandidate_init,
                      rp_bridge_mac := zero_mac, rp_bridge_nonce := replicate 16 0\<rparr>);
          s = s\<lparr>rp_last_seen_counter := 0, rp_last_config_tx_counter := 0, rp_last_config_command := 0,
                rp_last_config_result := CFG_RESULT_OK, rp_last_config_valid := False\<rparr>;
          s = (if preserve_route then s else s\<lparr>rp_hop_count := 0, rp_hops_to_bridge := 255\<rparr>);
          s = s\<lparr>rp_outstanding_requests := [], rp_join_retry_count := 0, rp_wait_reject_count := 0,
                rp_join_delay_until_ms := 0, rp_state_push_enabled := False, rp_last_heartbeat_tx_ms := 0,
                rp_heartbeat_due_ms := 0, rp_waiting_for_state_ack := False, rp_state_retry_count := 0,
                rp_last_state_tx_ms := 0, rp_pending_state_message_tx_base := 0,
                rp_pending_state_field_index := 0, rp_pending_state_value := [],
                rp_pending_state_fragment_count := 0, rp_pending_state_payload_len := 0, rp_normal := False\<rparr>;
          s = rp_refresh_can_relay s;
          s = s\<lparr>rp_joined_started_ms := 0, rp_last_successful_outbound_ms := 0,
                rp_last_successful_state_ms := 0, rp_last_successful_heartbeat_ms := 0,
                rp_consecutive_send_failures := 0, rp_pending_commands := command_assemblies_init,
                rp_announce_queue_head := 0, rp_announce_queue_tail := 0,
                rp_announce_queue := replicate ANNOUNCE_QUEUE_SIZE PendingAnnounce_init,
                rp_discover_announce_pending := False\<rparr>
      in if preserve_route then s
         else s\<lparr>rp_fast_rejoin := False, rp_discovery_resume_normal_after_success := False,
                rp_discovery_current_channel_only := False, rp_wifi_waiting := False,
                rp_wifi_wait_deadline_ms := 0, rp_discover_retry_pending := False\<rparr>)"

section \<open>Starting a search\<close>

definition rp_start_discovery_cycle :: "'h rp_env \<Rightarrow> bool \<Rightarrow> 'h remote \<Rightarrow> 'h remote" where
  "rp_start_discovery_cycle env wifi_wait_expired s =
     (let s = rp_clear_session_state env False s;
          s = s\<lparr>rp_discovering := True, rp_fast_rejoin := False,
                rp_discovery_resume_normal_after_success := False,
                rp_discovery_current_channel_only := False, rp_discover_retry_pending := False,
                rp_discover_retry_count := 0, rp_discover_phase := 0, rp_sweep_complete := False,
                rp_topology_refresh_due_ms := 0, rp_remote_nonce := env_nonce env 0\<rparr>
      in if \<not> wifi_wait_expired \<and> env_wifi_component env \<and> \<not> rp_wifi_connected env
         then s\<lparr>rp_wifi_waiting := True,
                rp_wifi_wait_deadline_ms := env_now env + ESPNOW_WIFI_DISCOVER_WAIT_MS,
                rp_state_name := RS_WAIT_WIFI,
                rp_discover_due_ms := env_now env + ESPNOW_WIFI_DISCOVER_WAIT_MS\<rparr>
         else (let s = s\<lparr>rp_wifi_waiting := False, rp_wifi_wait_deadline_ms := 0,
                     rp_discovery_current_channel_only := rp_wifi_connected env,
                     rp_channel_index := 0, rp_state_name := RS_DISCOVERING, rp_discover_due_ms := env_now env\<rparr>
               in if rp_wifi_connected env then rp_tune (rp_current_wifi_channel env) s
                  else rp_tune (sweep_channel_from_index (rp_channel_index s)) s))"

definition rp_start_route_recovery_cycle :: "'h rp_env \<Rightarrow> 'h remote \<Rightarrow> 'h remote" where
  "rp_start_route_recovery_cycle env s =
     (let s = rp_refresh_can_relay (s\<lparr>rp_discovering := True, rp_fast_rejoin := True,
            rp_discovery_resume_normal_after_success := True, rp_discovery_current_channel_only := True,
            rp_normal := False\<rparr>)
      in s\<lparr>rp_best_parent := DiscoverCandidate_init, rp_state_push_enabled := False,
           rp_join_in_flight := False, rp_join_retry_count := 0, rp_join_delay_until_ms := 0,
           rp_waiting_for_state_ack := False, rp_state_retry_count := 0, rp_heartbeat_due_ms := 0,
           rp_last_heartbeat_tx_ms := 0, rp_last_successful_state_ms := 0,
           rp_last_successful_outbound_ms := 0, rp_last_successful_heartbeat_ms := 0,
           rp_wifi_waiting := False, rp_wifi_wait_deadline_ms := 0, rp_discover_retry_pending := False,
           rp_discover_retry_count := 0, rp_discover_phase := 0, rp_channel_index := 0,
           rp_discover_due_ms := env_now env, rp_topology_refresh_due_ms := 0,
           rp_sweep_complete := False, rp_state_name := RS_DISCOVERING\<rparr>)"

definition rp_start_config_full_rediscovery :: "'h rp_env \<Rightarrow> 'h remote \<Rightarrow> 'h remote" where
  "rp_start_config_full_rediscovery env s =
     (let s = (rp_clear_session_state env True s)
           \<lparr>rp_discovering := True, rp_sweep_complete := False, rp_fast_rejoin := False,
            rp_discovery_resume_normal_after_success := False, rp_discovery_current_channel_only := False,
            rp_wifi_waiting := False, rp_wifi_wait_deadline_ms := 0, rp_discover_retry_pending := False,
            rp_discover_retry_count := 0, rp_discover_phase := 0, rp_channel_index := 0,
            rp_discover_due_ms := env_now env, rp_topology_refresh_due_ms := 0,
            rp_remote_nonce := env_nonce env 0, rp_state_name := RS_DISCOVERING\<rparr>
      in rp_tune (sweep_channel_from_index (rp_channel_index s)) s)"

text \<open>
  When nothing went out for too long the remote restarts; \<^verbatim>\<open>esp_restart\<close> does not return,
  and the state is the one it leaves behind.
\<close>

definition rp_rejoin_due_to_transmit_stall :: "'h rp_env \<Rightarrow> u32 \<Rightarrow> bool \<Rightarrow> 'h remote \<Rightarrow> 'h remote" where
  "rp_rejoin_due_to_transmit_stall env now no_outbound_progress s =
     (if no_outbound_progress
      then (rp_clear_session_state env True s)\<lparr>rp_restarts := rp_restarts s + 1\<rparr>
      else (rp_start_route_recovery_cycle env s)\<lparr>rp_discover_due_ms := now\<rparr>)"

section \<open>Sweeping the channels\<close>

definition rp_send_on_channel :: "'h rp_env \<Rightarrow> u8 \<Rightarrow> 'h remote \<Rightarrow> 'h remote \<times> bool" where
  "rp_send_on_channel env channel s =
     (let discover = \<lparr>disc_network_id = zero_padded 32 (rp_network_id s),
            disc_network_id_len = of_nat (length (rp_network_id s)),
            disc_capability_flags = (if rp_relay_enabled s then 1 else 0)\<rparr>;
          (s, sent) = rp_send_frame env ESPNOW_BROADCAST_MAC PKT_DISCOVER (hops_make ESPNOW_HOPS_DIR_UP 0) 0
                        (c_enc espnow_discover_codec discover) False None (rp_tune channel s)
      in (s\<lparr>rp_discover_due_ms := env_now env + ESPNOW_DISCOVER_COLLECTION_WINDOW_MS\<rparr>, sent))"

definition rp_fast_channel :: "'h remote \<Rightarrow> u8" where
  "rp_fast_channel s = (if 1 \<le> rp_last_known_channel s \<and> rp_last_known_channel s \<le> 13 then rp_last_known_channel s else 1)"

definition rp_sweep_next :: "'h rp_env \<Rightarrow> 'h remote \<Rightarrow> 'h remote \<times> bool" where
  "rp_sweep_next env s =
     (let channel = sweep_channel_from_index (rp_channel_index s)
      in rp_send_on_channel env channel (s\<lparr>rp_channel_index := rp_channel_index s + 1\<rparr>))"

definition rp_discover_backoff :: "'h rp_env \<Rightarrow> 'h remote \<Rightarrow> 'h remote" where
  "rp_discover_backoff env s =
     s\<lparr>rp_discover_retry_pending := True,
       rp_discover_due_ms := env_now env + discover_backoff_delay_ms (rp_discover_phase s),
       rp_discover_phase := (if rp_discover_phase s < 4 then rp_discover_phase s + 1 else rp_discover_phase s)\<rparr>"

definition rp_send_discover :: "'h rp_env \<Rightarrow> 'h remote \<Rightarrow> 'h remote \<times> bool" where
  "rp_send_discover env s =
     (let s = s\<lparr>rp_state_name := RS_DISCOVERING\<rparr> in
      if rp_discover_retry_pending s then
        (let s = s\<lparr>rp_discover_retry_pending := False\<rparr> in
         if rp_fast_rejoin s
         then rp_send_on_channel env (rp_fast_channel s) (s\<lparr>rp_discover_retry_count := rp_discover_retry_count s + 1\<rparr>)
         else if rp_discovery_current_channel_only s
         then rp_send_on_channel env (rp_current_wifi_channel env) (s\<lparr>rp_discover_retry_count := rp_discover_retry_count s + 1\<rparr>)
         else rp_sweep_next env (if 13 \<le> rp_channel_index s then s\<lparr>rp_channel_index := 0\<rparr> else s))
      else if rp_fast_rejoin s then
        (if rp_discover_retry_count s = 0
         then rp_send_on_channel env (rp_fast_channel s) (s\<lparr>rp_discover_retry_count := 1\<rparr>)
         else if rp_discover_retry_count s = 1
         then (s\<lparr>rp_discover_retry_pending := True,
                 rp_discover_due_ms := env_now env + ESPNOW_DISCOVER_BACKOFF_START_MS\<rparr>, True)
         else rp_sweep_next env
                (s\<lparr>rp_fast_rejoin := False, rp_discover_retry_count := 0, rp_discover_phase := 0,
                   rp_discovery_current_channel_only := False,
                   rp_discovery_resume_normal_after_success := True, rp_channel_index := 0\<rparr>))
      else if rp_discovery_current_channel_only s then
        (if rp_discover_retry_count s = 0
         then rp_send_on_channel env (rp_current_wifi_channel env) (s\<lparr>rp_discover_retry_count := 1\<rparr>)
         else (rp_discover_backoff env s, True))
      else if 13 \<le> rp_channel_index s then
        (if dc_valid (rp_best_parent s) then (s\<lparr>rp_sweep_complete := True\<rparr>, True)
         else ((rp_discover_backoff env s)\<lparr>rp_channel_index := 0\<rparr>, True))
      else rp_sweep_next env s)"

section \<open>Adopting a parent\<close>

definition rp_adopt_best_parent_candidate :: "bool \<Rightarrow> 'h remote \<Rightarrow> 'h remote" where
  "rp_adopt_best_parent_candidate resume_normal_after_success s =
     (if \<not> dc_valid (rp_best_parent s) then s
      else
        (let s = rp_refresh_can_relay
               (s\<lparr>rp_parent_mac := dc_next_hop_mac (rp_best_parent s), rp_parent_valid := True, rp_hop_count := 0,
                  rp_hops_to_bridge := dc_hops_to_bridge (rp_best_parent s) + 1,
                  rp_last_known_channel := dc_channel (rp_best_parent s), rp_discovering := False,
                  rp_sweep_complete := False, rp_fast_rejoin := False, rp_discover_retry_pending := False,
                  rp_discover_retry_count := 0,
                  rp_discovery_resume_normal_after_success := resume_normal_after_success,
                  rp_normal := resume_normal_after_success, rp_joined := resume_normal_after_success,
                  rp_state_push_enabled := resume_normal_after_success,
                  rp_last_successful_state_ms := 0, rp_last_successful_outbound_ms := 0\<rparr>)
         in s\<lparr>rp_parent_link_rssi_ema := - 127, rp_topology_refresh_due_ms := 0, rp_state_name := RS_NORMAL\<rparr>))"

end
