(* ===== verification/RemoteHandlers.thy ===== *)
theory RemoteHandlers
  imports RemotePhases
begin

text \<open>
  What a remote does with a frame (\<^verbatim>\<open>esp_tree_remote/remote_protocol.cpp\<close>): parsing and
  checking it, the handler of each packet type, and forwarding what is for others. A handler returns the
  new state and the C++ result. The sender's address is not null but where a relayed frame is handled locally,
  and the handlers reached there do not use it.
\<close>

section \<open>Parsing and checking\<close>

text \<open>The header, the payload, the session tag of an encrypted packet and the parent's address.\<close>

definition rp_parse_frame :: "bytes \<Rightarrow> (espnow_frame_header \<times> bytes \<times> bytes option \<times> bytes) option" where
  "rp_parse_frame frame =
     (case c_dec espnow_frame_header_codec frame of
        None \<Rightarrow> None
      | Some hdr \<Rightarrow>
          if ESPNOW_V2_MAX_PAYLOAD < length frame then None
          else if fh_protocol_version hdr \<noteq> ESPNOW_PROTOCOL_VER then None
          else if \<not> is_valid_packet_type (fh_packet_type hdr) then None
          else
            (let has_parent_check = (fh_hop_count hdr AND ESPNOW_HOPS_PARENT_CHECK_BIT \<noteq> 0);
                 header_size = 17 + (if has_parent_check then ESPNOW_PARENT_MAC_LEN else 0);
                 parent_mac = (if has_parent_check then take 6 (drop 17 frame) else zero_mac);
                 payload = drop header_size frame
             in if length frame < header_size then None
                else if is_encrypted_packet (fh_packet_type hdr) then
                  (if length payload < ESPNOW_SESSION_TAG_LEN then None
                   else Some (hdr, take (length payload - ESPNOW_SESSION_TAG_LEN) payload,
                          Some (drop (length payload - ESPNOW_SESSION_TAG_LEN) payload), parent_mac))
                else Some (hdr, payload, None, parent_mac)))"

definition rp_validate_psk :: "'h rp_env \<Rightarrow> espnow_frame_header \<Rightarrow> bytes \<Rightarrow> bool" where
  "rp_validate_psk env hdr payload \<longleftrightarrow>
     espnow_crypto_verify_psk_tag (env_hmac env) (env_crypto env) (c_enc espnow_frame_header_codec hdr) payload (fh_psk_tag hdr)"

definition rp_validate_session :: "'h rp_env \<Rightarrow> espnow_frame_header \<Rightarrow> bytes \<Rightarrow> bytes option \<Rightarrow> 'h remote \<Rightarrow> bool" where
  "rp_validate_session env hdr ciphertext session_tag s \<longleftrightarrow>
     rp_session_key_valid s
     \<and> (case session_tag of
          None \<Rightarrow> False
        | Some tag \<Rightarrow> espnow_crypto_verify_session_tag (env_hmac env) (rp_session_key s)
                        (c_enc espnow_frame_header_codec hdr) ciphertext tag)"

text \<open>The plaintext of a packet whose session tag holds; the common start of the encrypted handlers.\<close>

definition rp_open :: "'h rp_env \<Rightarrow> espnow_frame_header \<Rightarrow> bytes \<Rightarrow> bytes option \<Rightarrow> 'h remote \<Rightarrow> bytes option" where
  "rp_open env hdr payload session_tag s =
     (if \<not> rp_validate_session env hdr payload session_tag s then None
      else espnow_crypto_crypt (env_crypto env) (Some (rp_session_key s)) (fh_tx_counter hdr) payload)"

definition rp_should_handle_locally :: "espnow_frame_header \<Rightarrow> 'h remote \<Rightarrow> bool" where
  "rp_should_handle_locally hdr s \<longleftrightarrow>
     fh_leaf_mac hdr = rp_leaf_mac s
     \<or> (fh_packet_type hdr = packet_code PKT_DISCOVER \<and> rp_relay_enabled s \<and> rp_normal s)
     \<or> fh_packet_type hdr = packet_code PKT_DISCOVER_ANNOUNCE"

section \<open>Discovery\<close>

text \<open>The name comparison reads as many bytes of the payload as the configured name has.\<close>

definition rp_network_matches :: "bytes \<Rightarrow> u8 \<Rightarrow> 'h remote \<Rightarrow> bool" where
  "rp_network_matches payload network_id_len s \<longleftrightarrow>
     unat network_id_len = length (rp_network_id s)
     \<and> take (length (rp_network_id s)) payload = rp_network_id s"

definition rp_handle_discover :: "'h rp_env \<Rightarrow> bytes \<Rightarrow> espnow_frame_header \<Rightarrow> bytes \<Rightarrow> 'h remote \<Rightarrow> 'h remote \<times> bool" where
  "rp_handle_discover env sender_mac hdr payload s =
     (if sender_mac = rp_leaf_mac s then (s, False)
      else if length payload \<noteq> c_width espnow_discover_codec then (s, False)
      else case c_dec espnow_discover_codec payload of
        None \<Rightarrow> (s, False)
      | Some discover \<Rightarrow>
          if \<not> rp_network_matches payload (disc_network_id_len discover) s then (s, False)
          else if \<not> rp_can_relay s then (s, False)
          else if rp_max_hops s < rp_hops_to_bridge s then (s, False)
          else if list_ex (\<lambda>p. pd_leaf_mac p = fh_leaf_mac hdr) (rp_pending_discovers s) then (s, True)
          else if length (rp_pending_discovers s) \<ge> unat (rp_max_discover_pending s) then (s, False)
          else rp_send_discover_announce_with_jitter env sender_mac (fh_leaf_mac hdr) ESPNOW_NODE_ROLE_RELAY
                 (rp_hops_to_bridge s)
                 (s\<lparr>rp_pending_discovers := rp_pending_discovers s @
                      [\<lparr>pd_leaf_mac = fh_leaf_mac hdr, pd_expiry_ms = env_now env + 500\<rparr>]\<rparr>))"

definition rp_handle_discover_announce ::
  "'h rp_env \<Rightarrow> bytes \<Rightarrow> bytes \<Rightarrow> int \<Rightarrow> 'h remote \<Rightarrow> 'h remote \<times> bool" where
  "rp_handle_discover_announce env sender_mac payload rssi s =
     (if length payload \<noteq> c_width espnow_discover_announce_codec then (s, False)
      else case c_dec espnow_discover_announce_codec payload of
        None \<Rightarrow> (s, False)
      | Some announce \<Rightarrow>
          if \<not> rp_network_matches payload (ann_network_id_len announce) s then (s, False)
          else if ann_bridge_reachable announce = 0 then (s, False)
          else if rp_max_hops s < ann_hops_to_bridge announce then (s, False)
          else (rp_select_parent_candidate env sender_mac announce rssi s, True))"

section \<open>Joining\<close>

definition rp_join_rejected :: "'h rp_env \<Rightarrow> espnow_join_ack \<Rightarrow> 'h remote \<Rightarrow> 'h remote" where
  "rp_join_rejected env ack s =
     (let s = s\<lparr>rp_session_key_valid := False, rp_fast_rejoin := False\<rparr> in
      if jack_reason ack = ESPNOW_JOIN_REASON_WAIT then
        (let s = s\<lparr>rp_wait_reject_count := rp_wait_reject_count s + 1\<rparr> in
         if ESPNOW_MAX_RETRIES \<le> rp_wait_reject_count s
         then (rp_start_discovery_cycle env False (s\<lparr>rp_join_in_flight := False, rp_wait_reject_count := 0\<rparr>))
                \<lparr>rp_discover_due_ms := env_now env + 1000\<rparr>
         else s\<lparr>rp_join_in_flight := False, rp_join_delay_until_ms := env_now env + ESPNOW_WAIT_REJECT_DELAY_MS,
                rp_join_retry_count := 0, rp_discover_due_ms := env_now env + ESPNOW_WAIT_REJECT_DELAY_MS\<rparr>)
      else rp_start_discovery_cycle env False (s\<lparr>rp_join_in_flight := False\<rparr>))"

definition rp_join_session :: "'h rp_env \<Rightarrow> espnow_frame_header \<Rightarrow> espnow_join_ack \<Rightarrow> 'h remote \<Rightarrow> 'h remote" where
  "rp_join_session env hdr ack s =
     (let s = s\<lparr>rp_bridge_nonce := jack_bridge_nonce ack, rp_bridge_session_flags := jack_session_flags ack,
                rp_local_session_flags := jack_session_flags ack\<rparr>;
          s = s\<lparr>rp_session_max_payload :=
                  (if rp_local_session_flags s AND ESPNOW_SESSION_FLAG_V2_MTU \<noteq> 0
                      \<and> rp_bridge_session_flags s AND ESPNOW_SESSION_FLAG_V2_MTU \<noteq> 0
                   then of_nat ESPNOW_V2_MAX_PAYLOAD else of_nat ESPNOW_V1_MAX_PAYLOAD)\<rparr>;
          s = rp_update_mtu_from_route env s
      in s\<lparr>rp_session_key := espnow_crypto_derive_session_key (env_hmac env) (env_crypto env)
             (rp_bridge_nonce s) (rp_remote_nonce s),
           rp_session_key_valid := True, rp_joined := True, rp_fast_rejoin := False,
           rp_discovering := False, rp_join_in_flight := False, rp_join_retry_count := 0,
           rp_last_seen_counter := fh_tx_counter hdr\<rparr>)"

definition rp_join_complete :: "'h rp_env \<Rightarrow> 'h remote \<Rightarrow> 'h remote" where
  "rp_join_complete env s =
     (let s = rp_refresh_can_relay
            (s\<lparr>rp_normal := True, rp_joined_started_ms := 0, rp_state_push_enabled := True,
               rp_last_successful_outbound_ms := 0, rp_consecutive_send_failures := 0,
               rp_last_successful_state_ms := 0, rp_parent_mac := dc_next_hop_mac (rp_best_parent s),
               rp_parent_valid := True, rp_hop_count := 0,
               rp_hops_to_bridge := dc_hops_to_bridge (rp_best_parent s) + 1\<rparr>)
      in fst (rp_send_heartbeat env (s\<lparr>rp_state_name := RS_NORMAL\<rparr>)))"

definition rp_handle_join_ack :: "'h rp_env \<Rightarrow> espnow_frame_header \<Rightarrow> bytes \<Rightarrow> 'h remote \<Rightarrow> 'h remote \<times> bool" where
  "rp_handle_join_ack env hdr payload s =
     (if rp_joined s \<and> \<not> counter_is_newer (fh_tx_counter hdr) (rp_last_seen_counter s) then (s, False)
      else if length payload \<noteq> c_width espnow_join_ack_codec then (s, False)
      else case c_dec espnow_join_ack_codec payload of
        None \<Rightarrow> (s, False)
      | Some ack \<Rightarrow>
          if jack_accepted ack \<noteq> 1 then (rp_join_rejected env ack s, False)
          else
            (let s = rp_join_session env hdr ack s in
             if jack_stage ack = ESPNOW_JOIN_STATUS_SCHEMA_REFRESH then
               (if rp_normal s then (s, True)
                else ((rp_refresh_can_relay (s\<lparr>rp_normal := False\<rparr>))
                        \<lparr>rp_state_push_enabled := False, rp_state_name := RS_JOINED, rp_joined_started_ms := env_now env\<rparr>, True))
             else if jack_stage ack = ESPNOW_JOIN_STATUS_SEND_STATE then
               (if rp_normal s then (s, True)
                else (rp_mark_all_entities_dirty
                        ((rp_refresh_can_relay (s\<lparr>rp_normal := False\<rparr>))
                          \<lparr>rp_state_push_enabled := True, rp_waiting_for_state_ack := False, rp_state_retry_count := 0,
                           rp_state_name := RS_STATE_SYNC, rp_joined_started_ms := env_now env\<rparr>), True))
             else if jack_stage ack = ESPNOW_JOIN_STATUS_COMPLETE then (rp_join_complete env s, True)
             else ((rp_refresh_can_relay (s\<lparr>rp_normal := False\<rparr>))
                     \<lparr>rp_state_push_enabled := False, rp_state_name := RS_JOINED, rp_joined_started_ms := env_now env\<rparr>, True)))"

definition rp_handle_deauth :: "'h rp_env \<Rightarrow> espnow_frame_header \<Rightarrow> bytes \<Rightarrow> 'h remote \<Rightarrow> 'h remote \<times> bool" where
  "rp_handle_deauth env hdr payload s =
     (if \<not> rp_should_handle_locally hdr s then (s, False)
      else if length payload \<noteq> c_width espnow_deauth_codec then (s, False)
      else
        (let have_route = (rp_parent_valid s \<and> dc_valid (rp_best_parent s));
             s = (rp_clear_session_state env True s)
                   \<lparr>rp_discovering := True, rp_sweep_complete := True, rp_fast_rejoin := False,
                    rp_discovery_resume_normal_after_success := False,
                    rp_discovery_current_channel_only := True, rp_remote_nonce := env_nonce env 1\<rparr>;
             (s, joining) = (if have_route then rp_send_join env s else (s, False))
         in if joining then (s\<lparr>rp_state_name := RS_JOINING\<rparr>, True)
            else (rp_start_discovery_cycle env False s, True)))"

section \<open>Acknowledged states\<close>

definition rp_handle_ack :: "'h rp_env \<Rightarrow> espnow_frame_header \<Rightarrow> bytes \<Rightarrow> bytes option \<Rightarrow> 'h remote \<Rightarrow> 'h remote \<times> bool" where
  "rp_handle_ack env hdr payload session_tag s =
     (if \<not> rp_joined s \<or> \<not> counter_is_newer (fh_tx_counter hdr) (rp_last_seen_counter s) then (s, False)
      else case rp_open env hdr payload session_tag s of
        None \<Rightarrow> (s, False)
      | Some plaintext \<Rightarrow>
          (case c_dec espnow_ack_codec plaintext of
             None \<Rightarrow> (s, False)
           | Some ack \<Rightarrow>
               if ack_ack_type ack = ACK_STATE then
                 (let s = s\<lparr>rp_last_seen_counter := fh_tx_counter hdr\<rparr> in
                  if rp_waiting_for_state_ack s \<and> ack_ref_tx_counter ack = rp_pending_state_message_tx_base s
                  then (let s = s\<lparr>rp_last_state_rtt_ms := env_now env - rp_last_state_tx_ms s,
                              rp_last_successful_state_ms := env_now env,
                              rp_waiting_for_state_ack := False, rp_state_retry_count := 0\<rparr>
                        in (if unat (rp_pending_state_field_index s) < length (rp_entity_records s)
                            then rp_update_record (unat (rp_pending_state_field_index s)) (\<lambda>r. r\<lparr>er_dirty := False\<rparr>) s
                            else s, True))
                  else (s, True))
               else (s, True)))"

section \<open>Commands\<close>

definition rp_handle_command :: "'h rp_env \<Rightarrow> espnow_frame_header \<Rightarrow> bytes \<Rightarrow> bytes option \<Rightarrow> 'h remote \<Rightarrow> 'h remote \<times> bool" where
  "rp_handle_command env hdr payload session_tag s =
     (if \<not> rp_joined s then (s, False)
      else case rp_open env hdr payload session_tag s of
        None \<Rightarrow> (s, False)
      | Some plaintext \<Rightarrow>
          (case parse_entity_payload plaintext of
             None \<Rightarrow> (s, False)
           | Some command \<Rightarrow>
               (let message_tx_base = fragment_message_tx_base hdr command;
                    i = unat (epv_entity_index command)
                in if i \<ge> length (rp_entity_records s)
                   then rp_send_command_ack env (epv_entity_index command) 2 message_tx_base s
                   else let record = rp_entity_records s ! i in
                     if \<not> counter_is_newer message_tx_base (er_last_completed_command_message_tx_base record)
                     then (if message_tx_base = er_last_completed_command_message_tx_base record
                           then rp_send_command_ack env (epv_entity_index command) 0 message_tx_base s
                           else (s, True))
                     else
                       (case command_fragment (rp_max_entity_fragment s) (rp_max_assembly_bytes s)
                               (rp_max_total_fragment_bytes s) command message_tx_base (env_now env) (rp_pending_commands s) of
                          (pending, FragmentDropped) \<Rightarrow> (s\<lparr>rp_pending_commands := pending\<rparr>, False)
                        | (pending, FragmentStored) \<Rightarrow>
                            (s\<lparr>rp_pending_commands := pending,
                               rp_last_seen_counter := max (rp_last_seen_counter s) (fh_tx_counter hdr)\<rparr>, True)
                        | (pending, FragmentComplete assembled) \<Rightarrow>
                            (let s = s\<lparr>rp_pending_commands := pending,
                                   rp_last_seen_counter := max (rp_last_seen_counter s) (fh_tx_counter hdr)\<rparr>;
                                 s = rp_update_record i (\<lambda>r. r\<lparr>er_current_value := assembled,
                                       er_current_text := (if rp_is_text (er_schema r) then assembled else er_current_text r),
                                       er_dirty := False,
                                       er_last_completed_command_message_tx_base := message_tx_base\<rparr>) s;
                                 s = (if env_command_fn env
                                      then s\<lparr>rp_commands_run := rp_commands_run s @
                                               [(epv_entity_index command, epv_flags command, assembled)]\<rparr> else s)
                             in rp_send_command_ack env (epv_entity_index command) 0 message_tx_base s)))))"

end
