(* ===== verification/RemoteProtocol.thy ===== *)
theory RemoteProtocol
  imports RemoteHandlers
begin

text \<open>
  The rest of the remote (\<^verbatim>\<open>esp_tree_remote/remote_protocol.cpp\<close>): configuration, schema
  requests and file packets, forwarding, the entry point for frames, the loop, and the calls of a remote as
  events.
\<close>

section \<open>Configuration\<close>

definition rp_ack_and_remember :: "'h rp_env \<Rightarrow> u32 \<Rightarrow> u8 \<Rightarrow> u8 \<Rightarrow> 'h remote \<Rightarrow> 'h remote \<times> bool" where
  "rp_ack_and_remember env tx_counter command result s =
     rp_send_config_ack env command result tx_counter
       (s\<lparr>rp_last_config_tx_counter := tx_counter, rp_last_config_command := command,
          rp_last_config_result := result, rp_last_config_valid := True\<rparr>)"

text \<open>Acknowledge a good command, and carry it out when the acknowledgement went out.\<close>

definition rp_ack_then :: "'h rp_env \<Rightarrow> u32 \<Rightarrow> u8 \<Rightarrow> ('h remote \<Rightarrow> 'h remote) \<Rightarrow> 'h remote \<Rightarrow> 'h remote \<times> bool" where
  "rp_ack_then env tx_counter command act s =
     (case rp_ack_and_remember env tx_counter command CFG_RESULT_OK s of
        (s, acked) \<Rightarrow> if acked then (act s, True) else (s, False))"

definition rp_prefer_parent :: "'h rp_env \<Rightarrow> u8 \<Rightarrow> bytes \<Rightarrow> 'h remote \<Rightarrow> 'h remote" where
  "rp_prefer_parent env flags preferred s =
     (let parents = (if flags AND SET_PARENT_MAC_FLAG_CLEAR \<noteq> 0 then [] else rp_preferred_parents s)
      in (rp_start_route_recovery_cycle env (s\<lparr>rp_preferred_parents := preferred # remove1 preferred parents\<rparr>))
           \<lparr>rp_fast_rejoin := False, rp_discovery_current_channel_only := False\<rparr>)"

definition rp_config_command :: "'h rp_env \<Rightarrow> u32 \<Rightarrow> u8 \<Rightarrow> bytes \<Rightarrow> 'h remote \<Rightarrow> 'h remote \<times> bool" where
  "rp_config_command env tx_counter command cmd_payload s =
     (let invalid = rp_ack_and_remember env tx_counter command CFG_RESULT_INVALID_PAYLOAD s in
      if command = CFG_CMD_REBOOT then
        (if length cmd_payload \<noteq> 0 then invalid
         else rp_ack_then env tx_counter command (\<lambda>s. s\<lparr>rp_restarts := rp_restarts s + 1\<rparr>) s)
      else if command = CFG_CMD_OTA_ENABLE \<or> command = CFG_CMD_WIFI_CONNECT
      then rp_ack_and_remember env tx_counter command CFG_RESULT_UNSUPPORTED s
      else if command = CFG_CMD_HEARTBEAT_INTERVAL then
        (if length cmd_payload \<noteq> 4 then invalid
         else let interval = rd32 cmd_payload 0 in
           if interval < 5 \<or> 3600 < interval then invalid
           else rp_ack_then env tx_counter command
                  (\<lambda>s. s\<lparr>rp_heartbeat_interval := ucast interval, rp_heartbeat_due_ms := env_now env + interval * 1000\<rparr>) s)
      else if command = CFG_CMD_FORCE_REDISCOVER then
        (if length cmd_payload \<noteq> 0 then invalid
         else rp_ack_then env tx_counter command (rp_start_config_full_rediscovery env) s)
      else if command = CFG_CMD_SET_PARENT_MAC then
        (if length cmd_payload \<noteq> 7 then invalid
         else if cmd_payload ! 0 AND NOT SET_PARENT_MAC_FLAG_CLEAR \<noteq> 0 then invalid
         else rp_ack_then env tx_counter command (rp_prefer_parent env (cmd_payload ! 0) (drop 1 cmd_payload)) s)
      else if command = CFG_CMD_RELAY then
        (if length cmd_payload \<noteq> 1 \<or> 1 < cmd_payload ! 0 then invalid
         else rp_ack_then env tx_counter command (rp_set_relay_enabled_runtime (cmd_payload ! 0 \<noteq> 0)) s)
      else rp_ack_and_remember env tx_counter command CFG_RESULT_UNSUPPORTED s)"

definition rp_handle_config :: "'h rp_env \<Rightarrow> espnow_frame_header \<Rightarrow> bytes \<Rightarrow> bytes option \<Rightarrow> 'h remote \<Rightarrow> 'h remote \<times> bool" where
  "rp_handle_config env hdr payload session_tag s =
     (if \<not> rp_joined s then (s, False)
      else case rp_open env hdr payload session_tag s of
        None \<Rightarrow> (s, False)
      | Some plaintext \<Rightarrow>
          if rp_last_config_valid s \<and> fh_tx_counter hdr = rp_last_config_tx_counter s
          then rp_send_config_ack env (rp_last_config_command s) (rp_last_config_result s) (fh_tx_counter hdr) s
          else if \<not> counter_is_newer (fh_tx_counter hdr) (rp_last_seen_counter s) then (s, False)
          else
            (let s = s\<lparr>rp_last_seen_counter := fh_tx_counter hdr\<rparr> in
             case c_dec espnow_config_codec plaintext of
               None \<Rightarrow> rp_ack_and_remember env (fh_tx_counter hdr) 0 CFG_RESULT_INVALID_PAYLOAD s
             | Some cfg \<Rightarrow>
                 (let cmd_payload = drop (c_width espnow_config_codec) plaintext in
                  if unat (cfg_payload_len cfg) \<noteq> length cmd_payload
                  then rp_ack_and_remember env (fh_tx_counter hdr) (cfg_command cfg) CFG_RESULT_INVALID_PAYLOAD s
                  else if \<not> rp_normal s
                  then rp_ack_and_remember env (fh_tx_counter hdr) (cfg_command cfg) CFG_RESULT_BUSY s
                  else rp_config_command env (fh_tx_counter hdr) (cfg_command cfg) cmd_payload s)))"

section \<open>Schema requests and file packets\<close>

definition rp_handle_schema_request ::
  "'h rp_env \<Rightarrow> espnow_frame_header \<Rightarrow> bytes \<Rightarrow> bytes option \<Rightarrow> 'h remote \<Rightarrow> 'h remote \<times> bool" where
  "rp_handle_schema_request env hdr payload session_tag s =
     (if \<not> rp_joined s \<or> \<not> counter_is_newer (fh_tx_counter hdr) (rp_last_seen_counter s) then (s, False)
      else case rp_open env hdr payload session_tag s of
        None \<Rightarrow> (s, False)
      | Some plaintext \<Rightarrow>
          if length plaintext \<noteq> c_width espnow_schema_request_codec then (s, False)
          else (case c_dec espnow_schema_request_codec plaintext of
            None \<Rightarrow> (s, False)
          | Some request \<Rightarrow>
              (let s = s\<lparr>rp_last_seen_counter := fh_tx_counter hdr, rp_state_push_enabled := False,
                         rp_last_heartbeat_tx_ms := 0, rp_heartbeat_due_ms := 0,
                         rp_last_successful_state_ms := 0, rp_last_successful_heartbeat_ms := 0\<rparr>
               in if sreq_descriptor_type request = ESPNOW_DESCRIPTOR_TYPE_IDENTITY
                  then (if sreq_descriptor_index request = 0 then rp_send_identity_descriptor env s else (s, False))
                  else if sreq_descriptor_type request = ESPNOW_DESCRIPTOR_TYPE_ENTITY
                  then rp_send_schema_push env (sreq_descriptor_index request) s
                  else (s, False))))"

definition rp_handle_file_transfer ::
  "'h rp_env \<Rightarrow> espnow_frame_header \<Rightarrow> bytes \<Rightarrow> bytes option \<Rightarrow> 'h remote \<Rightarrow> 'h remote \<times> bool" where
  "rp_handle_file_transfer env hdr payload session_tag s =
     (if fh_leaf_mac hdr \<noteq> rp_leaf_mac s then (s, False)
      else if \<not> rp_joined s then (s, False)
      else case rp_open env hdr payload session_tag s of
        None \<Rightarrow> (s, False)
      | Some plaintext \<Rightarrow>
          (let s = s\<lparr>rp_ota_last_activity_ms := env_now env\<rparr>;
               r = rp_file_receiver s;
               r = (if plaintext \<noteq> [] \<and> plaintext ! 0 = ESPNOW_FILE_PHASE_ANNOUNCE
                    then fr_set_announce_tx_counter (fh_tx_counter hdr) r else r);
               r = (if plaintext \<noteq> [] \<and> plaintext ! 0 = ESPNOW_FILE_PHASE_BLAST_COMPLETE
                    then fr_set_blast_complete_tx_counter (fh_tx_counter hdr) r else r)
           in rp_file_call env (fr_handle_file_transfer (env_handler env) (env_now env) plaintext)
                (s\<lparr>rp_file_receiver := r\<rparr>)))"

definition rp_handle_file_data ::
  "'h rp_env \<Rightarrow> espnow_frame_header \<Rightarrow> bytes \<Rightarrow> bytes option \<Rightarrow> 'h remote \<Rightarrow> 'h remote \<times> bool" where
  "rp_handle_file_data env hdr payload session_tag s =
     (if fh_leaf_mac hdr \<noteq> rp_leaf_mac s then (s, False)
      else if \<not> rp_joined s then (s, False)
      else case rp_open env hdr payload session_tag s of
        None \<Rightarrow> (s, False)
      | Some plaintext \<Rightarrow>
          rp_file_call env (fr_handle_file_data (env_now env) plaintext) (s\<lparr>rp_ota_last_activity_ms := env_now env\<rparr>))"

section \<open>Forwarding\<close>

definition rp_forwarded_hops :: "u8 \<Rightarrow> u8 \<Rightarrow> u8" where
  "rp_forwarded_hops hop_count delta =
     hops_make (hop_count AND ESPNOW_HOPS_DIR_BIT) (hops_count hop_count + delta) OR (hop_count AND ESPNOW_HOPS_PARENT_CHECK_BIT)"

definition rp_forward_frame ::
  "'h rp_env \<Rightarrow> bytes \<Rightarrow> espnow_frame_header \<Rightarrow> bytes \<Rightarrow> bytes option \<Rightarrow> u8 \<Rightarrow> 'h remote \<Rightarrow> 'h remote \<times> bool" where
  "rp_forward_frame env mac hdr payload session_tag hop_count_delta s =
     (case env_send env of
        None \<Rightarrow> (s, False)
      | Some send \<Rightarrow>
          (let has_parent_check = (fh_hop_count hdr AND ESPNOW_HOPS_PARENT_CHECK_BIT \<noteq> 0);
               hdr = hdr\<lparr>fh_hop_count := rp_forwarded_hops (fh_hop_count hdr) hop_count_delta\<rparr>;
               psk_tag = espnow_crypto_psk_tag (env_hmac env) (env_crypto env) (c_enc espnow_frame_header_codec hdr) payload;
               frame = c_enc espnow_frame_header_codec (hdr\<lparr>fh_psk_tag := psk_tag\<rparr>)
                       @ (if has_parent_check then zero_mac else []) @ payload
                       @ (case session_tag of None \<Rightarrow> [] | Some tag \<Rightarrow> take ESPNOW_SESSION_TAG_LEN tag);
               sent = send (rp_sent s) mac frame;
               s = s\<lparr>rp_sent := rp_sent s @ [(mac, frame)]\<rparr>
           in (if sent then s\<lparr>rp_last_successful_outbound_ms := env_now env\<rparr> else s, sent)))"

definition rp_forward_packet ::
  "'h rp_env \<Rightarrow> espnow_frame_header \<Rightarrow> bytes \<Rightarrow> bytes option \<Rightarrow> 'h remote \<Rightarrow> 'h remote \<times> bool" where
  "rp_forward_packet env hdr payload session_tag s =
     (if hops_is_upstream (fh_hop_count hdr) then
        (if \<not> rp_parent_valid s then (s, False)
         else rp_forward_frame env (rp_parent_mac s) hdr payload session_tag 0 s)
      else case find_route (fh_leaf_mac hdr) (rp_routes s) of
        None \<Rightarrow> (s, False)
      | Some route \<Rightarrow>
          rp_forward_frame env (rr_next_hop_mac route) hdr payload session_tag 1
            (rp_refresh_route env (fh_leaf_mac hdr) (rr_next_hop_mac route) s))"

definition rp_handle_upstream ::
  "'h rp_env \<Rightarrow> bytes \<Rightarrow> espnow_frame_header \<Rightarrow> bytes \<Rightarrow> bytes option \<Rightarrow> 'h remote \<Rightarrow> 'h remote \<times> bool" where
  "rp_handle_upstream env sender_mac hdr payload session_tag s =
     (if \<not> rp_parent_valid s then (s, False)
      else
        (let s = rp_refresh_route env (fh_leaf_mac hdr) sender_mac s;
             s = (if fh_packet_type hdr = packet_code PKT_JOIN \<or> fh_packet_type hdr = packet_code PKT_HEARTBEAT
                  then rp_log_providing_relay (fh_leaf_mac hdr) s else s)
         in rp_forward_packet env hdr payload session_tag s))"

definition rp_handle_downstream ::
  "'h rp_env \<Rightarrow> espnow_frame_header \<Rightarrow> bytes \<Rightarrow> bytes option \<Rightarrow> 'h remote \<Rightarrow> 'h remote \<times> bool" where
  "rp_handle_downstream env hdr payload session_tag s =
     (let t = fh_packet_type hdr in
      if rp_should_handle_locally hdr s then
        (if (t = packet_code PKT_FILE_TRANSFER \<or> t = packet_code PKT_FILE_DATA) \<and> \<not> rp_ota_over_espnow s then (s, False)
         else if t = packet_code PKT_CONFIG then rp_handle_config env hdr payload session_tag s
         else if t = packet_code PKT_FILE_TRANSFER then rp_handle_file_transfer env hdr payload session_tag s
         else if t = packet_code PKT_FILE_DATA then rp_handle_file_data env hdr payload session_tag s
         else (s, False))
      else rp_forward_packet env hdr payload session_tag s)"

section \<open>A frame from the radio\<close>

definition rp_observe_parent_rssi :: "bytes \<Rightarrow> int \<Rightarrow> 'h remote \<Rightarrow> 'h remote" where
  "rp_observe_parent_rssi sender_mac rssi s =
     (if rp_parent_valid s \<and> sender_mac = rp_parent_mac s
      then s\<lparr>rp_parent_link_rssi_ema :=
             (if rp_parent_link_rssi_ema s = - 127 then rssi
              else (rssi + (ESPNOW_RSSI_EMA_ALPHA - 1) * rp_parent_link_rssi_ema s) sdiv ESPNOW_RSSI_EMA_ALPHA)\<rparr>
      else s)"

definition rp_observe_hops :: "espnow_frame_header \<Rightarrow> 'h remote \<Rightarrow> 'h remote" where
  "rp_observe_hops hdr s =
     (if rp_should_handle_locally hdr s \<and> fh_leaf_mac hdr = rp_leaf_mac s
         \<and> hops_is_upstream (fh_hop_count hdr) \<and> hops_count (fh_hop_count hdr) < rp_hops_to_bridge s
      then s\<lparr>rp_hops_to_bridge := hops_count (fh_hop_count hdr)\<rparr> else s)"

text \<open>The handler of each packet type; types not for a remote are refused.\<close>

definition rp_dispatch ::
  "'h rp_env \<Rightarrow> bytes \<Rightarrow> espnow_frame_header \<Rightarrow> bytes \<Rightarrow> bytes option \<Rightarrow> int \<Rightarrow> 'h remote \<Rightarrow> 'h remote \<times> bool" where
  "rp_dispatch env sender_mac hdr payload session_tag rssi s =
     (let t = fh_packet_type hdr in
      if t = packet_code PKT_DISCOVER then rp_handle_discover env sender_mac hdr payload s
      else if t = packet_code PKT_DISCOVER_ANNOUNCE then rp_handle_discover_announce env sender_mac payload rssi s
      else if t = packet_code PKT_JOIN_ACK then rp_handle_join_ack env hdr payload s
      else if t = packet_code PKT_ACK then rp_handle_ack env hdr payload session_tag s
      else if t = packet_code PKT_COMMAND then rp_handle_command env hdr payload session_tag s
      else if t = packet_code PKT_CONFIG then rp_handle_config env hdr payload session_tag s
      else if t = packet_code PKT_SCHEMA_REQUEST then rp_handle_schema_request env hdr payload session_tag s
      else if t = packet_code PKT_DEAUTH then rp_handle_deauth env hdr payload s
      else if t = packet_code PKT_FILE_TRANSFER then rp_handle_file_transfer env hdr payload session_tag s
      else if t = packet_code PKT_FILE_DATA then rp_handle_file_data env hdr payload session_tag s
      else (s, False))"

definition rp_on_espnow_frame :: "'h rp_env \<Rightarrow> bytes \<Rightarrow> bytes \<Rightarrow> int \<Rightarrow> 'h remote \<Rightarrow> 'h remote \<times> bool" where
  "rp_on_espnow_frame env sender_mac frame rssi s =
     (case rp_parse_frame frame of
        None \<Rightarrow> (s, False)
      | Some (hdr, payload, session_tag, parent_mac) \<Rightarrow>
          (let t = fh_packet_type hdr;
               has_parent_check = (fh_hop_count hdr AND ESPNOW_HOPS_PARENT_CHECK_BIT \<noteq> 0)
           in if \<not> rp_validate_psk env hdr payload then (s, False)
              else if rp_max_hops s \<le> hops_count (fh_hop_count hdr) then (s, False)
              else if has_parent_check \<and> \<not> espnow_is_parent_mac_all_zeros parent_mac \<and> parent_mac \<noteq> rp_leaf_mac s
              then (s, False)
              else
                (let s = (if has_parent_check then s\<lparr>rp_last_parent_mac := parent_mac\<rparr> else s);
                     s = rp_observe_parent_rssi sender_mac rssi s
                 in if is_encrypted_packet t \<and> length frame > unat (rp_session_max_payload s) then (s, False)
                    else
                      (let handle_locally = rp_should_handle_locally hdr s;
                           s = rp_observe_hops hdr s
                       in if handle_locally \<and> (t = packet_code PKT_FILE_TRANSFER \<or> t = packet_code PKT_FILE_DATA)
                             \<and> \<not> rp_ota_over_espnow s then (s, False)
                          else if handle_locally then rp_dispatch env sender_mac hdr payload session_tag rssi s
                          else if \<not> rp_can_relay s then (s, False)
                          else if hops_is_upstream (fh_hop_count hdr)
                          then rp_handle_upstream env sender_mac hdr payload session_tag s
                          else rp_handle_downstream env hdr payload session_tag s))))"

end
