(* ===== verification/RemoteLoop.thy ===== *)
theory RemoteLoop
  imports RemoteProtocol
begin

text \<open>
  The remote's loop (\<^verbatim>\<open>RemoteProtocol::loop\<close>), in the order of its blocks, and the calls of
  a remote as events. A block returns the state and whether the loop returns there.
\<close>

section \<open>Blocks\<close>

definition rp_and_then :: "('h remote \<Rightarrow> 'h remote \<times> bool) \<Rightarrow> ('h remote \<Rightarrow> 'h remote \<times> bool) \<Rightarrow> 'h remote \<Rightarrow> 'h remote \<times> bool" where
  "rp_and_then f g s = (case f s of (s, returned) \<Rightarrow> if returned then (s, True) else g s)"

text \<open>Pruning, the file receiver, its session timeout, the announcements due.\<close>

definition rp_loop_upkeep :: "'h rp_env \<Rightarrow> 'h remote \<Rightarrow> 'h remote" where
  "rp_loop_upkeep env s =
     (let now = env_now env;
          s = rp_prune_routes now s;
          s = rp_prune_pending_discovers now s;
          s = s\<lparr>rp_pending_commands := prune_pending_command_fragments now (rp_pending_commands s)\<rparr>;
          s = fst (rp_file_call env (\<lambda>r. (fr_loop (env_handler env) now r, ())) s);
          s = (if fr_is_receiving (rp_file_receiver s)
               then (if rp_ota_last_activity_ms s = 0 then s\<lparr>rp_ota_last_activity_ms := now\<rparr>
                     else if OTA_SESSION_TIMEOUT_MS \<le> elapsed_ms_since now (rp_ota_last_activity_ms s)
                     then (fst (rp_file_call env
                             (\<lambda>r. (fr_abort (env_handler env) ESPNOW_FILE_ABORT_SESSION_LOST True r, ())) s))
                          \<lparr>rp_ota_last_activity_ms := 0\<rparr>
                     else s)
               else s\<lparr>rp_ota_last_activity_ms := 0\<rparr>)
      in rp_flush_pending_discover_announce env s)"

definition rp_loop_start :: "'h rp_env \<Rightarrow> 'h remote \<Rightarrow> 'h remote \<times> bool" where
  "rp_loop_start env s =
     (if rp_initial_discovery_pending s
      then (rp_start_discovery_cycle env False (s\<lparr>rp_initial_discovery_pending := False\<rparr>), True)
      else if rp_wifi_waiting s then
        (if \<not> rp_wifi_connected env \<and> env_now env < rp_wifi_wait_deadline_ms s then (s, True)
         else (rp_start_discovery_cycle env True s, True))
      else (s, False))"

text \<open>A weak parent link, or configured parents, make the remote look for a better parent now and then.\<close>

definition rp_topology_refresh :: "'h rp_env \<Rightarrow> bool \<Rightarrow> 'h remote \<Rightarrow> 'h remote \<times> bool" where
  "rp_topology_refresh env wanted s =
     (if \<not> wanted then (s, False)
      else
        (let due = env_now env + ESPNOW_TOPOLOGY_REFRESH_INTERVAL_MS;
             s = (if rp_topology_refresh_due_ms s = 0 then s\<lparr>rp_topology_refresh_due_ms := due\<rparr> else s)
         in if rp_topology_refresh_due_ms s \<le> env_now env
            then (rp_start_route_recovery_cycle env (s\<lparr>rp_topology_refresh_due_ms := due\<rparr>), True)
            else (s, False)))"

definition rp_loop_topology :: "'h rp_env \<Rightarrow> 'h remote \<Rightarrow> 'h remote \<times> bool" where
  "rp_loop_topology env s =
     (let tx_queue_clear = (\<not> rp_waiting_for_state_ack s \<and> rp_consecutive_send_failures s = 0 \<and> \<not> rp_discovering s)
      in rp_and_then
           (\<lambda>s. rp_topology_refresh env
              (rp_normal s \<and> tx_queue_clear \<and> rp_parent_link_rssi_ema s < ESPNOW_PREFERRED_RSSI_FLOOR_DBM) s)
           (\<lambda>s. rp_topology_refresh env (rp_normal s \<and> tx_queue_clear \<and> rp_preferred_parents s \<noteq> []) s) s)"

definition rp_loop_resume :: "'h rp_env \<Rightarrow> 'h remote \<Rightarrow> 'h remote \<times> bool" where
  "rp_loop_resume env s =
     (if rp_discovering s \<and> rp_sweep_complete s \<and> dc_valid (rp_best_parent s)
         \<and> rp_discovery_resume_normal_after_success s
      then (fst (rp_send_heartbeat env (rp_adopt_best_parent_candidate True s)), True)
      else (s, False))"

definition rp_loop_join :: "'h rp_env \<Rightarrow> 'h remote \<Rightarrow> 'h remote \<times> bool" where
  "rp_loop_join env s =
     (if rp_discovering s \<and> \<not> rp_discovery_resume_normal_after_success s \<and> rp_sweep_complete s
         \<and> dc_valid (rp_best_parent s) \<and> \<not> rp_joined s
      then
        (let waited = (retry_backoff_ms (rp_join_retry_count s) + env_random env 0 mod (ESPNOW_RETRY_JITTER_MS * 2 + 1)
                         \<le> env_now env - rp_last_join_attempt_ms s);
             join_retry_due = (rp_join_retry_count s < ESPNOW_MAX_RETRIES \<and> (\<not> rp_join_in_flight s \<or> waited))
         in if (rp_join_delay_until_ms s = 0 \<or> rp_join_delay_until_ms s \<le> env_now env) \<and> join_retry_due
            then
              (let s = s\<lparr>rp_last_known_channel := dc_channel (rp_best_parent s)\<rparr>;
                   s = (if rp_join_in_flight s \<and> waited then s\<lparr>rp_join_in_flight := False\<rparr> else s);
                   s = rp_refresh_can_relay
                         (s\<lparr>rp_parent_mac := dc_next_hop_mac (rp_best_parent s), rp_parent_valid := True,
                            rp_hop_count := 0, rp_hops_to_bridge := dc_hops_to_bridge (rp_best_parent s) + 1\<rparr>);
                   (s, sent) = rp_send_join env s
               in if sent then (s\<lparr>rp_state_name := RS_JOINING\<rparr>, True) else (s, False))
            else (s, False))
      else (s, False))"

definition rp_loop_discover :: "'h rp_env \<Rightarrow> 'h remote \<Rightarrow> 'h remote \<times> bool" where
  "rp_loop_discover env s =
     (if rp_discovering s \<and> \<not> rp_sweep_complete s \<and> rp_discover_due_ms s \<le> env_now env
      then (if dc_valid (rp_best_parent s) then (s\<lparr>rp_sweep_complete := True\<rparr>, True)
            else (fst (rp_send_discover env s), True))
      else (s, False))"

definition rp_loop_join_exhausted :: "'h rp_env \<Rightarrow> 'h remote \<Rightarrow> 'h remote \<times> bool" where
  "rp_loop_join_exhausted env s =
     (if rp_join_in_flight s \<and> ESPNOW_MAX_RETRIES \<le> rp_join_retry_count s \<and> \<not> rp_joined s
      then ((rp_start_discovery_cycle env False (s\<lparr>rp_join_in_flight := False, rp_fast_rejoin := False\<rparr>))
              \<lparr>rp_discover_due_ms := env_now env + 1000\<rparr>, False)
      else (s, False))"

section \<open>The joined remote\<close>

definition rp_loop_stalls :: "'h rp_env \<Rightarrow> 'h remote \<Rightarrow> 'h remote \<times> bool" where
  "rp_loop_stalls env s =
     (let now = env_now env;
          state_stall_timeout_ms = max (ESPNOW_RETRY_INTERVAL_MS * 16) 30000;
          outbound_stall_timeout_ms = max (ucast (rp_heartbeat_interval s) * 4000) 120000
      in if \<not> rp_normal s \<and> 0 < rp_joined_started_ms s
            \<and> ESPNOW_JOINED_TO_NORMAL_TIMEOUT_MS \<le> now - rp_joined_started_ms s
         then ((rp_start_discovery_cycle env False ((rp_clear_session_state env False s)\<lparr>rp_fast_rejoin := False\<rparr>))
                 \<lparr>rp_discover_due_ms := now + 1000\<rparr>, True)
         else if ESPNOW_MAX_RETRIES \<le> rp_consecutive_send_failures s
         then (rp_rejoin_due_to_transmit_stall env now False s, True)
         else if rp_waiting_for_state_ack s \<and> 0 < rp_last_successful_state_ms s
            \<and> state_stall_timeout_ms \<le> elapsed_ms_since now (rp_last_successful_state_ms s)
         then (rp_rejoin_due_to_transmit_stall env now False s, True)
         else if 0 < rp_last_successful_outbound_ms s
            \<and> outbound_stall_timeout_ms \<le> elapsed_ms_since now (rp_last_successful_outbound_ms s)
         then (rp_rejoin_due_to_transmit_stall env now True s, True)
         else (s, False))"

text \<open>The third retry also logs the entity's name, read from the table without a check of the index.\<close>

definition rp_loop_state_retry :: "'h rp_env \<Rightarrow> 'h remote \<Rightarrow> 'h remote \<times> bool" where
  "rp_loop_state_retry env s =
     (if \<not> rp_waiting_for_state_ack s then (s, False)
      else if rp_state_retry_count s < ESPNOW_MAX_RETRIES then
        (if retry_backoff_ms (rp_state_retry_count s) + env_random env 1 mod (ESPNOW_RETRY_JITTER_MS * 2 + 1)
              \<le> env_now env - rp_last_state_tx_ms s
         then (case rp_send_state env (rp_pending_state_field_index s) (rp_pending_state_value s) False s of
                 (s, sent) \<Rightarrow>
                   (if sent then s\<lparr>rp_state_retry_count := rp_state_retry_count s + 1\<rparr>
                    else s\<lparr>rp_last_state_tx_ms := env_now env\<rparr>, False))
         else (s, False))
      else
        (let s = s\<lparr>rp_waiting_for_state_ack := False, rp_state_retry_count := 0\<rparr>;
             i = unat (rp_pending_state_field_index s);
             s = (if i < length (rp_entity_records s) then rp_update_record i (\<lambda>r. r\<lparr>er_dirty := True\<rparr>) s else s)
         in (rp_start_route_recovery_cycle env s, True)))"

definition rp_loop_heartbeat :: "'h rp_env \<Rightarrow> 'h remote \<Rightarrow> 'h remote \<times> bool" where
  "rp_loop_heartbeat env s =
     (if \<not> rp_state_push_enabled s then (s, True)
      else if rp_normal s then
        (let s = (if rp_heartbeat_due_ms s = 0
                  then s\<lparr>rp_heartbeat_due_ms := env_now env + ucast (rp_heartbeat_interval s) * 1000\<rparr> else s)
         in if rp_heartbeat_due_ms s \<le> env_now env then (fst (rp_send_heartbeat env s), True) else (s, False))
      else (s, False))"

definition rp_loop_push_state :: "'h rp_env \<Rightarrow> 'h remote \<Rightarrow> 'h remote \<times> bool" where
  "rp_loop_push_state env s =
     (if rp_waiting_for_state_ack s then (s, False)
      else case find er_dirty (rp_entity_records s) of
        None \<Rightarrow> (s, False)
      | Some record \<Rightarrow>
          (case rp_send_state env (es_entity_index (er_schema record)) (er_current_value record) True s of
             (s, sent) \<Rightarrow> (if sent then s\<lparr>rp_waiting_for_state_ack := True\<rparr> else s, False)))"

definition rp_loop_joined :: "'h rp_env \<Rightarrow> 'h remote \<Rightarrow> 'h remote \<times> bool" where
  "rp_loop_joined env s =
     (if \<not> rp_joined s then (s, False)
      else rp_and_then (rp_loop_stalls env)
             (rp_and_then (rp_loop_state_retry env)
               (rp_and_then (rp_loop_heartbeat env) (rp_loop_push_state env))) s)"

definition rp_loop :: "'h rp_env \<Rightarrow> 'h remote \<Rightarrow> 'h remote" where
  "rp_loop env s = fst
     (rp_and_then (rp_loop_start env)
       (rp_and_then (rp_loop_topology env)
         (rp_and_then (rp_loop_resume env)
           (rp_and_then (rp_loop_join env)
             (rp_and_then (rp_loop_discover env)
               (rp_and_then (rp_loop_join_exhausted env) (rp_loop_joined env))))))
       (rp_loop_upkeep env s))"

section \<open>Calls as events\<close>

datatype rp_event =
    RpFrame bytes bytes int
  | RpLoop
  | RpRegister u8 bytes bytes bytes bytes
  | RpSetOptions u8 bytes
  | RpStateChange u8 "bytes option"
  | RpTextChange u8 bytes
  | RpLocalMac "bytes option"
  | RpRelayConfig bool u8 u8
  | RpRelayRuntime bool
  | RpRouteTtl u32
  | RpPreferredParent bytes
  | RpSessionFlags u8
  | RpOta bool

fun rp_step :: "'h rp_env \<Rightarrow> rp_event \<Rightarrow> 'h remote \<Rightarrow> 'h remote" where
  "rp_step env (RpFrame sender_mac frame rssi) s = fst (rp_on_espnow_frame env sender_mac frame rssi s)"
| "rp_step env RpLoop s = rp_loop env s"
| "rp_step env (RpRegister entity_type name unit options entity_id) s =
     fst (rp_register_entity entity_type name unit options entity_id s)"
| "rp_step env (RpSetOptions field_index options) s = rp_set_entity_options field_index options s"
| "rp_step env (RpStateChange field_index val) s = rp_on_entity_state_change field_index val s"
| "rp_step env (RpTextChange field_index val) s = rp_on_entity_text_change field_index val s"
| "rp_step env (RpLocalMac mac) s = rp_set_local_mac mac s"
| "rp_step env (RpRelayConfig enabled max_hops max_pending) s = rp_set_relay_config enabled max_hops max_pending s"
| "rp_step env (RpRelayRuntime enabled) s = rp_set_relay_enabled_runtime enabled s"
| "rp_step env (RpRouteTtl ttl) s = rp_set_route_ttl ttl s"
| "rp_step env (RpPreferredParent mac) s = rp_add_preferred_parent mac s"
| "rp_step env (RpSessionFlags flags) s = rp_set_session_flags flags s"
| "rp_step env (RpOta enabled) s = rp_set_ota_over_espnow enabled s"

definition rp_run :: "('h rp_env \<times> rp_event) list \<Rightarrow> 'h remote \<Rightarrow> 'h remote" where
  "rp_run steps s = fold (\<lambda>(env, ev). rp_step env ev) steps s"

end
