(* ===== verification/RemoteProps.thy ===== *)
theory RemoteProps
  imports RemoteLoop
begin

text \<open>
  The remote's invariant. \<open>rp_io s s'\<close>: \<open>s'\<close> is \<open>s\<close> but for what sending and the file receiver change; it holds
  of everything that only sends.
\<close>

section \<open>What sending changes\<close>

definition rp_core :: "'h remote \<Rightarrow> 'h remote" where
  "rp_core s = s\<lparr>rp_tx_counter := 0, rp_outstanding_requests := [], rp_sent := [], rp_last_tx_ms := 0,
     rp_last_successful_outbound_ms := 0, rp_consecutive_send_failures := 0, rp_file_receiver := undefined\<rparr>"

definition rp_io :: "'h remote \<Rightarrow> 'h remote \<Rightarrow> bool" where
  "rp_io s s' \<longleftrightarrow> rp_core s' = rp_core s
     \<and> (length (rp_outstanding_requests s) \<le> 8 \<longrightarrow> length (rp_outstanding_requests s') \<le> 8)"

lemma rp_io_refl [simp]: "rp_io s s"
  by (simp add: rp_io_def)

lemma rp_io_trans [trans]: "rp_io s s' \<Longrightarrow> rp_io s' s'' \<Longrightarrow> rp_io s s''"
  by (simp add: rp_io_def)

lemma rp_io_updates [simp]:
  "rp_io s (s\<lparr>rp_tx_counter := a\<rparr>)" "rp_io s (s\<lparr>rp_file_receiver := b\<rparr>)" "rp_io s (s\<lparr>rp_sent := c\<rparr>)"
  "rp_io s (s\<lparr>rp_last_tx_ms := d\<rparr>)" "rp_io s (s\<lparr>rp_last_successful_outbound_ms := d\<rparr>)"
  "rp_io s (s\<lparr>rp_consecutive_send_failures := e\<rparr>)"
  by (simp_all add: rp_io_def rp_core_def)

lemma rp_io_fields:
  assumes "rp_io s s'"
  shows "rp_joined s' = rp_joined s" "rp_normal s' = rp_normal s" "rp_can_relay s' = rp_can_relay s"
    "rp_relay_enabled s' = rp_relay_enabled s" "rp_parent_valid s' = rp_parent_valid s"
    "rp_hops_to_bridge s' = rp_hops_to_bridge s" "rp_best_parent s' = rp_best_parent s"
    "rp_fast_rejoin s' = rp_fast_rejoin s"
    "rp_discovery_resume_normal_after_success s' = rp_discovery_resume_normal_after_success s"
    "rp_restarts s' = rp_restarts s" "rp_waiting_for_state_ack s' = rp_waiting_for_state_ack s"
    "rp_pending_state_field_index s' = rp_pending_state_field_index s"
    "rp_entity_records s' = rp_entity_records s" "rp_entities s' = rp_entities s"
    "rp_announce_queue s' = rp_announce_queue s" "rp_announce_queue_head s' = rp_announce_queue_head s"
    "rp_announce_queue_tail s' = rp_announce_queue_tail s" "rp_pending_commands s' = rp_pending_commands s"
    "rp_routes s' = rp_routes s" "rp_leaf_mac s' = rp_leaf_mac s" "rp_commands_run s' = rp_commands_run s"
    "rp_session_key_valid s' = rp_session_key_valid s" "rp_session_key s' = rp_session_key s"
    "rp_channels_tuned s' = rp_channels_tuned s" "rp_channel_index s' = rp_channel_index s"
    "rp_state_push_enabled s' = rp_state_push_enabled s" "rp_max_entity_fragment s' = rp_max_entity_fragment s"
    "rp_discover_retry_pending s' = rp_discover_retry_pending s" "rp_parent_mac s' = rp_parent_mac s"
    "rp_discovery_current_channel_only s' = rp_discovery_current_channel_only s"
    "rp_pending_discovers s' = rp_pending_discovers s"
    "length (rp_outstanding_requests s) \<le> 8 \<Longrightarrow> length (rp_outstanding_requests s') \<le> 8"
proof -
  have c: "rp_core s' = rp_core s" using assms by (simp add: rp_io_def)
  note f = arg_cong [OF c]
  show "rp_joined s' = rp_joined s" using f [of rp_joined] by (simp add: rp_core_def)
  show "rp_normal s' = rp_normal s" using f [of rp_normal] by (simp add: rp_core_def)
  show "rp_can_relay s' = rp_can_relay s" using f [of rp_can_relay] by (simp add: rp_core_def)
  show "rp_relay_enabled s' = rp_relay_enabled s" using f [of rp_relay_enabled] by (simp add: rp_core_def)
  show "rp_parent_valid s' = rp_parent_valid s" using f [of rp_parent_valid] by (simp add: rp_core_def)
  show "rp_hops_to_bridge s' = rp_hops_to_bridge s" using f [of rp_hops_to_bridge] by (simp add: rp_core_def)
  show "rp_best_parent s' = rp_best_parent s" using f [of rp_best_parent] by (simp add: rp_core_def)
  show "rp_fast_rejoin s' = rp_fast_rejoin s" using f [of rp_fast_rejoin] by (simp add: rp_core_def)
  show "rp_discovery_resume_normal_after_success s' = rp_discovery_resume_normal_after_success s"
    using f [of rp_discovery_resume_normal_after_success] by (simp add: rp_core_def)
  show "rp_restarts s' = rp_restarts s" using f [of rp_restarts] by (simp add: rp_core_def)
  show "rp_waiting_for_state_ack s' = rp_waiting_for_state_ack s"
    using f [of rp_waiting_for_state_ack] by (simp add: rp_core_def)
  show "rp_pending_state_field_index s' = rp_pending_state_field_index s"
    using f [of rp_pending_state_field_index] by (simp add: rp_core_def)
  show "rp_entity_records s' = rp_entity_records s" using f [of rp_entity_records] by (simp add: rp_core_def)
  show "rp_entities s' = rp_entities s" using f [of rp_entities] by (simp add: rp_core_def)
  show "rp_announce_queue s' = rp_announce_queue s" using f [of rp_announce_queue] by (simp add: rp_core_def)
  show "rp_announce_queue_head s' = rp_announce_queue_head s"
    using f [of rp_announce_queue_head] by (simp add: rp_core_def)
  show "rp_announce_queue_tail s' = rp_announce_queue_tail s"
    using f [of rp_announce_queue_tail] by (simp add: rp_core_def)
  show "rp_pending_commands s' = rp_pending_commands s" using f [of rp_pending_commands] by (simp add: rp_core_def)
  show "rp_routes s' = rp_routes s" using f [of rp_routes] by (simp add: rp_core_def)
  show "rp_leaf_mac s' = rp_leaf_mac s" using f [of rp_leaf_mac] by (simp add: rp_core_def)
  show "rp_commands_run s' = rp_commands_run s" using f [of rp_commands_run] by (simp add: rp_core_def)
  show "rp_session_key_valid s' = rp_session_key_valid s" using f [of rp_session_key_valid] by (simp add: rp_core_def)
  show "rp_session_key s' = rp_session_key s" using f [of rp_session_key] by (simp add: rp_core_def)
  show "rp_channels_tuned s' = rp_channels_tuned s" using f [of rp_channels_tuned] by (simp add: rp_core_def)
  show "rp_channel_index s' = rp_channel_index s" using f [of rp_channel_index] by (simp add: rp_core_def)
  show "rp_state_push_enabled s' = rp_state_push_enabled s" using f [of rp_state_push_enabled] by (simp add: rp_core_def)
  show "rp_max_entity_fragment s' = rp_max_entity_fragment s" using f [of rp_max_entity_fragment] by (simp add: rp_core_def)
  show "rp_discover_retry_pending s' = rp_discover_retry_pending s"
    using f [of rp_discover_retry_pending] by (simp add: rp_core_def)
  show "rp_parent_mac s' = rp_parent_mac s" using f [of rp_parent_mac] by (simp add: rp_core_def)
  show "rp_discovery_current_channel_only s' = rp_discovery_current_channel_only s"
    using f [of rp_discovery_current_channel_only] by (simp add: rp_core_def)
  show "rp_pending_discovers s' = rp_pending_discovers s" using f [of rp_pending_discovers] by (simp add: rp_core_def)
  show "length (rp_outstanding_requests s') \<le> 8" if "length (rp_outstanding_requests s) \<le> 8"
    using assms that by (simp add: rp_io_def)
qed

lemma rp_io_transmit: "rp_io s (fst (rp_transmit env send mac frame s))"
  by (simp add: rp_transmit_def Let_def rp_io_def rp_core_def)

lemma rp_io_send_frame: "rp_io s (fst (rp_send_frame env mac t hop tx payload enc pre s))"
  by (simp add: rp_send_frame_def Let_def rp_io_transmit split: option.split)

lemma rp_io_outstanding: "rp_io s (rp_update_outstanding_request env t tx hdr payload s)"
  by (simp add: rp_update_outstanding_request_def rp_io_def rp_core_def Let_def)

lemma rp_io_upstream_ack: "rp_io s (fst (rp_send_upstream_ack env payload s))"
proof -
  have "rp_io s (fst (rp_send_frame env mac PKT_ACK h tx payload True None
      (rp_update_outstanding_request env t tx hdr c (s\<lparr>rp_tx_counter := tx'\<rparr>))))" for mac h tx t hdr c tx'
    by (rule rp_io_trans [OF rp_io_trans [OF rp_io_updates(1) rp_io_outstanding] rp_io_send_frame])
  then show ?thesis by (simp add: rp_send_upstream_ack_def Let_def split: option.split)
qed

lemma rp_io_send_ack: "rp_io s (fst (rp_send_ack env payload ref s))"
  by (simp add: rp_send_ack_def rp_io_upstream_ack split: option.split)

lemma rp_io_command_ack: "rp_io s (fst (rp_send_command_ack env e r ref s))"
  by (simp add: rp_send_command_ack_def rp_io_upstream_ack)

lemma rp_io_config_ack: "rp_io s (fst (rp_send_config_ack env e r ref s))"
  by (simp add: rp_send_config_ack_def rp_io_send_ack)

lemma rp_io_send_acks: "rp_io s (rp_send_acks env acks s)"
proof (induction acks arbitrary: s)
  case (Cons a acks)
  show ?case using rp_io_trans [OF rp_io_send_ack Cons] by (simp add: rp_send_acks_def)
qed (simp add: rp_send_acks_def)

lemma rp_io_file_call: "rp_io s (fst (rp_file_call env f s))"
  unfolding rp_file_call_def Let_def
  by (simp add: split_beta rp_io_trans [OF rp_io_send_acks rp_io_updates(2)])

section \<open>The invariant\<close>

text \<open>
  A normal remote is joined; the cached \<open>can_relay\<close> is true only of a normal remote with relaying enabled
  and a parent; only a joined remote looks for a new parent to resume with (unless it is restarting); a state
  waits for its acknowledgement only while joined and names an entity; the tables keep their sizes; no
  route is for the remote itself or leads to it.
\<close>

definition rp_ok :: "'h remote \<Rightarrow> bool" where
  "rp_ok s \<longleftrightarrow> (rp_normal s \<longrightarrow> rp_joined s)
     \<and> (rp_can_relay s \<longrightarrow> rp_relay_enabled s \<and> rp_normal s \<and> rp_parent_valid s)
     \<and> (rp_restarts s = 0 \<longrightarrow> rp_discovery_resume_normal_after_success s \<or> rp_fast_rejoin s \<longrightarrow> rp_joined s)
     \<and> (rp_waiting_for_state_ack s \<longrightarrow> rp_joined s \<and> unat (rp_pending_state_field_index s) < length (rp_entity_records s))
     \<and> length (rp_outstanding_requests s) \<le> 8
     \<and> length (rp_announce_queue s) = 8 \<and> rp_announce_queue_head s < 8 \<and> rp_announce_queue_tail s < 8
     \<and> length (ca_pending (rp_pending_commands s)) \<le> 8
     \<and> length (rp_entities s) = length (rp_entity_records s)
     \<and> length (rp_pending_discovers s) \<le> 255
     \<and> (\<forall>r \<in> set (rp_routes s). rr_leaf_mac r \<noteq> rp_leaf_mac s \<and> rr_next_hop_mac r \<noteq> rp_leaf_mac s)"

lemma rp_ok_new: "rp_ok (RemoteProtocol_new h)"
  by (simp add: rp_ok_def RemoteProtocol_new_def command_assemblies_init_def)

lemma rp_ok_io: "rp_io s s' \<Longrightarrow> rp_ok s \<Longrightarrow> rp_ok s'"
  by (simp add: rp_ok_def rp_io_fields)

lemma rp_ok_refresh:
  "rp_ok (s\<lparr>rp_can_relay := False\<rparr>) \<Longrightarrow> rp_ok (rp_refresh_can_relay s)"
  by (simp add: rp_ok_def rp_refresh_can_relay_def)

lemma ring_step: "(i + 1) mod 8 < (8 :: u8)"
proof -
  have "unat ((i + 1) mod 8) < 8" by (simp add: unat_mod)
  then show ?thesis by (simp add: word_less_nat_alt)
qed

lemma length_update_le: "length (AList.update k v xs) \<le> Suc (length xs)"
  by (induction xs) auto

lemma length_update_known: "map_of xs k \<noteq> None \<Longrightarrow> length (AList.update k v xs) = length xs"
  by (induction xs) auto

lemma length_delete_le: "length (AList.delete k xs) \<le> length xs"
  by (simp add: AList.delete_eq)

lemma command_assembly_for_bound:
  assumes "command_assembly_for F view base ca = Some (ca', a)" and "length (ca_pending ca) \<le> 8"
  shows "length (ca_pending ca') \<le> 8 \<and> map_of (ca_pending ca') (epv_entity_index view) \<noteq> None"
  using assms length_update_le [of "epv_entity_index view" fragment_assembly_init "ca_pending ca"]
    length_update_known [of "ca_pending ca" "epv_entity_index view" fragment_assembly_init]
  by (auto simp: command_assembly_for_def update_conv' split: option.splits if_splits)

lemma command_fragment_bound:
  assumes "length (ca_pending ca) \<le> 8"
  shows "length (ca_pending (fst (command_fragment F M cap view base now ca))) \<le> 8"
proof (cases "command_assembly_for F view base ca")
  case (Some p)
  obtain ca' a where p: "p = (ca', a)" by (cases p)
  have b: "length (ca_pending ca') \<le> 8" "map_of (ca_pending ca') (epv_entity_index view) \<noteq> None"
    using command_assembly_for_bound [of F view base ca ca' a] Some p assms by auto
  have "length (AList.delete k (AList.update (epv_entity_index view) v (ca_pending ca'))) \<le> 8" for k v
    by (rule order_trans [OF length_delete_le]) (simp add: length_update_known [OF b(2)] b(1))
  then show ?thesis
    using b(1) length_update_known [OF b(2)] by (simp add: command_fragment_def Some p Let_def split_beta)
qed (simp add: command_fragment_def assms)

lemma prune_fragments_bound:
  "length (ca_pending ca) \<le> 8 \<Longrightarrow> length (ca_pending (prune_pending_command_fragments now ca)) \<le> 8"
  by (simp add: prune_pending_command_fragments_def order_trans [OF length_filter_le])

section \<open>Every part keeps it\<close>

text \<open>
  Clearing the session and keeping the route leaves the two search flags as they were; the callers set them, or restart.
\<close>

lemma rp_ok_clear_flags:
  assumes ok: "rp_ok s"
  shows "rp_ok (rp_clear_session_state env False s)"
    and "rp_ok ((rp_clear_session_state env True s)\<lparr>rp_fast_rejoin := False, rp_discovery_resume_normal_after_success := False\<rparr>)"
    and "rp_ok ((rp_clear_session_state env True s)\<lparr>rp_restarts := Suc n\<rparr>)"
proof -
  define s1 where "s1 = (if fr_is_receiving (rp_file_receiver s)
    then fst (rp_file_call env (\<lambda>r. (fr_abort (env_handler env) ESPNOW_FILE_ABORT_SESSION_LOST False r, ())) s) else s)"
  have "rp_ok s1" by (simp add: s1_def ok rp_ok_io [OF rp_io_file_call ok])
  then show "rp_ok (rp_clear_session_state env False s)"
    "rp_ok ((rp_clear_session_state env True s)\<lparr>rp_fast_rejoin := False, rp_discovery_resume_normal_after_success := False\<rparr>)"
    "rp_ok ((rp_clear_session_state env True s)\<lparr>rp_restarts := Suc n\<rparr>)"
    unfolding rp_clear_session_state_def s1_def [symmetric] Let_def
    by (simp_all add: rp_ok_def rp_refresh_can_relay_def command_assemblies_init_def)
qed

lemma rp_ok_tune: "rp_ok s \<Longrightarrow> rp_ok (rp_tune ch s)"
  by (simp add: rp_ok_def rp_tune_def)

lemma rp_ok_start_discovery: "rp_ok s \<Longrightarrow> rp_ok (rp_start_discovery_cycle env w s)"
  using rp_ok_clear_flags(1) [of s env]
  by (simp add: rp_start_discovery_cycle_def Let_def rp_tune_def rp_ok_def)

lemma rp_ok_recovery: "rp_ok s \<Longrightarrow> rp_joined s \<Longrightarrow> rp_ok (rp_start_route_recovery_cycle env s)"
  by (simp add: rp_start_route_recovery_cycle_def Let_def rp_ok_def rp_refresh_can_relay_def)

lemma rp_clear_joined [simp]: "\<not> rp_joined (rp_clear_session_state env p s)"
  "\<not> rp_normal (rp_clear_session_state env p s)" "\<not> rp_waiting_for_state_ack (rp_clear_session_state env p s)"
  by (simp_all add: rp_clear_session_state_def Let_def rp_refresh_can_relay_def)

lemma rp_ok_full_rediscovery: "rp_ok s \<Longrightarrow> rp_ok (rp_start_config_full_rediscovery env s)"
  using rp_ok_clear_flags(2) [of s env]
  by (simp add: rp_start_config_full_rediscovery_def Let_def rp_tune_def rp_ok_def)

lemma rp_ok_stall: "rp_ok s \<Longrightarrow> rp_joined s \<Longrightarrow> rp_ok (rp_rejoin_due_to_transmit_stall env now b s)"
  using rp_ok_clear_flags(3) [of s, where n = "rp_restarts s" and env = env] rp_ok_recovery [of s env]
  by (simp add: rp_rejoin_due_to_transmit_stall_def rp_ok_def)

lemma rp_ok_send_on_channel: "rp_ok s \<Longrightarrow> rp_ok (fst (rp_send_on_channel env ch s))"
proof -
  assume "rp_ok s"
  then have "rp_ok (fst (rp_send_frame env mac t h tx p False None (rp_tune ch s)))" for mac t h tx p
    by (rule rp_ok_io [OF rp_io_send_frame rp_ok_tune])
  then show ?thesis by (simp add: rp_send_on_channel_def Let_def split_beta rp_ok_def)
qed

lemma rp_ok_sweep_next: "rp_ok s \<Longrightarrow> rp_ok (fst (rp_sweep_next env s))"
  unfolding rp_sweep_next_def Let_def by (rule rp_ok_send_on_channel) (simp add: rp_ok_def)

lemma rp_ok_discover_backoff: "rp_ok s \<Longrightarrow> rp_ok (rp_discover_backoff env s)"
  by (simp add: rp_discover_backoff_def rp_ok_def)

lemma rp_ok_send_discover: "rp_ok s \<Longrightarrow> rp_ok (fst (rp_send_discover env s))"
proof -
  assume ok: "rp_ok s"
  have u: "rp_ok (s\<lparr>rp_state_name := n, rp_discover_retry_pending := b, rp_discover_retry_count := c\<rparr>)"
    "rp_ok (s\<lparr>rp_state_name := n, rp_discover_retry_pending := b\<rparr>)" "rp_ok (s\<lparr>rp_state_name := n, rp_discover_retry_count := c\<rparr>)"
    "rp_ok (s\<lparr>rp_state_name := n, rp_discover_retry_pending := b, rp_channel_index := d\<rparr>)" "rp_ok (s\<lparr>rp_state_name := n\<rparr>)"
    "rp_ok (s\<lparr>rp_state_name := n, rp_discover_retry_pending := b, rp_discover_due_ms := t\<rparr>)"
    "rp_ok (s\<lparr>rp_state_name := n, rp_sweep_complete := b\<rparr>)" for n b c d t
    using ok by (simp_all add: rp_ok_def)
  have f: "rp_ok (s\<lparr>rp_state_name := n, rp_fast_rejoin := False, rp_discover_retry_count := 0, rp_discover_phase := 0,
      rp_discovery_current_channel_only := False, rp_discovery_resume_normal_after_success := True, rp_channel_index := 0\<rparr>)"
    if "rp_fast_rejoin s" for n
    using ok that by (simp add: rp_ok_def)
  have b: "rp_ok ((rp_discover_backoff env (s\<lparr>rp_state_name := n\<rparr>))\<lparr>rp_channel_index := 0\<rparr>)" for n
    using rp_ok_discover_backoff [OF u(5)] by (simp add: rp_ok_def)
  show ?thesis
    unfolding rp_send_discover_def Let_def
    using u f b by (simp add: rp_ok_send_on_channel rp_ok_sweep_next rp_ok_discover_backoff)
qed

lemma rp_ok_adopt: "rp_ok s \<Longrightarrow> rp_ok (rp_adopt_best_parent_candidate True s)"
  by (simp add: rp_adopt_best_parent_candidate_def Let_def rp_ok_def rp_refresh_can_relay_def)

lemma rp_ok_send_heartbeat: "rp_ok s \<Longrightarrow> rp_ok (fst (rp_send_heartbeat env s))"
proof -
  assume ok: "rp_ok s"
  have "rp_ok (fst (rp_send_frame env mac t h tx p enc pre (s\<lparr>rp_tx_counter := x\<rparr>)))" for mac t h tx p enc pre x
    by (rule rp_ok_io [OF rp_io_trans [OF rp_io_updates(1) rp_io_send_frame] ok])
  then show ?thesis using ok by (simp add: rp_send_heartbeat_def Let_def split_beta rp_ok_def)
qed

lemma rp_ok_send_join: "rp_ok s \<Longrightarrow> rp_ok (fst (rp_send_join env s))"
proof -
  assume ok: "rp_ok s"
  have "rp_ok (s\<lparr>rp_join_delay_until_ms := 0, rp_tx_counter := x\<rparr>)" for x using ok by (simp add: rp_ok_def)
  then have "rp_ok (fst (rp_send_frame env mac t h tx p enc pre (s\<lparr>rp_join_delay_until_ms := 0, rp_tx_counter := x\<rparr>)))"
    for mac t h tx p enc pre x by (rule rp_ok_io [OF rp_io_send_frame])
  then show ?thesis using ok by (simp add: rp_send_join_def Let_def split_beta rp_ok_def)
qed

lemma length_records_update [simp]:
  "length (rp_entity_records (rp_update_record i f s)) = length (rp_entity_records s)"
  by (simp add: rp_update_record_def)

lemma rp_ok_update_record: "rp_ok s \<Longrightarrow> rp_ok (rp_update_record i f s)"
  by (simp add: rp_update_record_def rp_ok_def)

lemma rp_ok_failed_state:
  "rp_ok s \<Longrightarrow> rp_ok (rp_update_record i f s\<lparr>rp_waiting_for_state_ack := False, rp_last_state_tx_ms := t\<rparr>)"
  by (simp add: rp_update_record_def rp_ok_def)

text \<open>Sending a state keeps the flags; it stops waiting at most, and names the entity it sends.\<close>

lemma rp_state_chunk_sends:
  assumes "rp_send_state_chunk env e full chunk s = (s', sent)"
  shows "\<exists>s1. rp_io s s1 \<and> (s' = s1 \<or> s' = rp_update_record (unat e) (\<lambda>r. r\<lparr>er_dirty := True\<rparr>) s1
    \<lparr>rp_waiting_for_state_ack := False, rp_last_state_tx_ms := env_now env\<rparr> \<and> \<not> sent)"
proof -
  have io: "rp_io s (fst (rp_send_frame env mac PKT_STATE h tx p True None
      (rp_update_outstanding_request env t tx hdr c (s\<lparr>rp_tx_counter := x\<rparr>))))" for mac h tx p t hdr c x
    by (rule rp_io_trans [OF rp_io_trans [OF rp_io_updates(1) rp_io_outstanding] rp_io_send_frame])
  show ?thesis
    using assms unfolding rp_send_state_chunk_def Let_def
    by (auto simp: split_beta split: option.splits if_splits intro: io rp_io_updates)
qed

lemma rp_state_chunks_send:
  "rp_send_state_chunks env e full chunks s = (s', sent) \<Longrightarrow>
   \<exists>s1. rp_io s s1 \<and> (s' = s1 \<or> s' = rp_update_record (unat e) (\<lambda>r. r\<lparr>er_dirty := True\<rparr>) s1
    \<lparr>rp_waiting_for_state_ack := False, rp_last_state_tx_ms := env_now env\<rparr> \<and> \<not> sent)"
proof (induction chunks arbitrary: s)
  case (Cons c chunks)
  obtain s2 ok where c: "rp_send_state_chunk env e full c s = (s2, ok)" by fastforce
  from rp_state_chunk_sends [OF c] obtain s1 where s1: "rp_io s s1"
    "s2 = s1 \<or> s2 = rp_update_record (unat e) (\<lambda>r. r\<lparr>er_dirty := True\<rparr>) s1
      \<lparr>rp_waiting_for_state_ack := False, rp_last_state_tx_ms := env_now env\<rparr> \<and> \<not> ok" by blast
  show ?case
  proof (cases ok)
    case True
    then have "rp_send_state_chunks env e full chunks s1 = (s', sent)" using Cons.prems c s1(2) by auto
    from Cons.IH [OF this] obtain s3 where s3: "rp_io s1 s3"
      "s' = s3 \<or> s' = rp_update_record (unat e) (\<lambda>r. r\<lparr>er_dirty := True\<rparr>) s3
        \<lparr>rp_waiting_for_state_ack := False, rp_last_state_tx_ms := env_now env\<rparr> \<and> \<not> sent" by blast
    show ?thesis using rp_io_trans [OF s1(1) s3(1)] s3(2) by blast
  next
    case False
    then show ?thesis using Cons.prems c s1 by auto
  qed
qed auto

lemma rp_ok_send_state:
  assumes ok: "rp_ok s"
  shows "rp_ok (fst (rp_send_state env e val reset s))"
proof -
  have u: "rp_ok s'" if "rp_send_state_chunks env e full chunks s = (s', sent)" for s' full chunks sent
  proof -
    from rp_state_chunks_send [OF that] obtain s1 where s1: "rp_io s s1"
      "s' = s1 \<or> s' = rp_update_record (unat e) (\<lambda>r. r\<lparr>er_dirty := True\<rparr>) s1
        \<lparr>rp_waiting_for_state_ack := False, rp_last_state_tx_ms := env_now env\<rparr>" by blast
    have "rp_ok s1" by (rule rp_ok_io [OF s1(1) ok])
    then show ?thesis using s1(2) rp_ok_failed_state by blast
  qed
  have r: "length (rp_entity_records s') = length (rp_entity_records s) \<and> rp_joined s' = rp_joined s"
    if "rp_send_state_chunks env e full chunks s = (s', sent)" for s' full chunks sent
  proof -
    from rp_state_chunks_send [OF that] obtain s1 where s1: "rp_io s s1"
      "s' = s1 \<or> s' = rp_update_record (unat e) (\<lambda>r. r\<lparr>er_dirty := True\<rparr>) s1
        \<lparr>rp_waiting_for_state_ack := False, rp_last_state_tx_ms := env_now env\<rparr>" by blast
    then show ?thesis by (auto simp: rp_io_fields rp_update_record_def)
  qed
  note uu = u [OF prod.collapse [symmetric]] and rr = r [OF prod.collapse [symmetric]]
  have k: "rp_ok (s'\<lparr>rp_pending_state_message_tx_base := b, rp_pending_state_field_index := e, rp_pending_state_value := val,
        rp_pending_state_fragment_count := n, rp_pending_state_payload_len := l, rp_last_state_tx_ms := t\<rparr>)"
    "rp_ok (s'\<lparr>rp_pending_state_message_tx_base := b, rp_pending_state_field_index := e, rp_pending_state_value := val,
        rp_pending_state_fragment_count := n, rp_pending_state_payload_len := l, rp_last_state_tx_ms := t, rp_state_retry_count := 0\<rparr>)"
    if "rp_ok s'" "unat e < length (rp_entity_records s')" for s' :: "'a remote" and b n l t
    using that by (simp_all add: rp_ok_def)
  show ?thesis
    unfolding rp_send_state_def Let_def using ok
    by (simp add: split_beta k uu rr)
qed

lemma rp_joined_send_state:
  "rp_joined (fst (rp_send_state env e val reset s)) = rp_joined s"
  "length (rp_entity_records (fst (rp_send_state env e val reset s))) = length (rp_entity_records s)"
  "rp_restarts (fst (rp_send_state env e val reset s)) = rp_restarts s"
  "snd (rp_send_state env e val reset s) \<Longrightarrow>
     rp_pending_state_field_index (fst (rp_send_state env e val reset s)) = e \<and> unat e < length (rp_entity_records s)"
proof -
  have r: "rp_joined s' = rp_joined s \<and> length (rp_entity_records s') = length (rp_entity_records s)
      \<and> rp_restarts s' = rp_restarts s"
    if "rp_send_state_chunks env e full chunks s = (s', sent)" for s' full chunks sent
  proof -
    from rp_state_chunks_send [OF that] obtain s1 where "rp_io s s1"
      "s' = s1 \<or> s' = rp_update_record (unat e) (\<lambda>r. r\<lparr>er_dirty := True\<rparr>) s1
        \<lparr>rp_waiting_for_state_ack := False, rp_last_state_tx_ms := env_now env\<rparr>" by blast
    then show ?thesis by (auto simp: rp_io_fields rp_update_record_def)
  qed
  note rr = r [OF prod.collapse [symmetric]]
  show "rp_joined (fst (rp_send_state env e val reset s)) = rp_joined s"
    "length (rp_entity_records (fst (rp_send_state env e val reset s))) = length (rp_entity_records s)"
    "rp_restarts (fst (rp_send_state env e val reset s)) = rp_restarts s"
    "snd (rp_send_state env e val reset s) \<Longrightarrow>
     rp_pending_state_field_index (fst (rp_send_state env e val reset s)) = e \<and> unat e < length (rp_entity_records s)"
    unfolding rp_send_state_def Let_def by (simp_all add: split_beta rr split: if_splits)
qed

lemma rp_ok_announce: "rp_ok s \<Longrightarrow> rp_ok (fst (rp_send_discover_announce_with_jitter env m l r h s))"
  using ring_step [of "rp_announce_queue_tail s"]
  by (simp add: rp_send_discover_announce_with_jitter_def Let_def rp_ok_def)

lemma rp_ok_flush: "rp_ok s \<Longrightarrow> rp_ok (rp_flush_pending_discover_announce env s)"
  using ring_step [of "rp_announce_queue_head s"]
  by (simp add: rp_flush_pending_discover_announce_def Let_def rp_ok_def split: option.split)

lemma rp_ok_handle_discover: "rp_ok s \<Longrightarrow> rp_ok (fst (rp_handle_discover env m hdr p s))"
proof -
  assume ok: "rp_ok s"
  have one: "rp_ok (s\<lparr>rp_pending_discovers := rp_pending_discovers s @ [x]\<rparr>)"
    if "length (rp_pending_discovers s) < unat (rp_max_discover_pending s)" for x
  proof -
    have "length (rp_pending_discovers s) < 255"
      using that unat_u8_bound [of "rp_max_discover_pending s"] by linarith
    then show ?thesis using ok by (simp add: rp_ok_def)
  qed
  then show ?thesis using ok by (simp add: rp_handle_discover_def rp_ok_announce not_le split: option.split)
qed

lemma rp_ok_handle_announce: "rp_ok s \<Longrightarrow> rp_ok (fst (rp_handle_discover_announce env m p rssi s))"
  by (simp add: rp_handle_discover_announce_def rp_select_parent_candidate_def Let_def rp_ok_def split: option.split)

lemma rp_ok_join_rejected:
  assumes ok: "rp_ok s"
  shows "rp_ok (rp_join_rejected env ack s)"
proof -
  have 1: "rp_ok (s\<lparr>rp_session_key_valid := a, rp_fast_rejoin := False, rp_join_in_flight := b\<rparr>)"
    "rp_ok (s\<lparr>rp_session_key_valid := a, rp_fast_rejoin := False, rp_wait_reject_count := c, rp_join_in_flight := b\<rparr>)"
    "rp_ok (s\<lparr>rp_session_key_valid := a, rp_fast_rejoin := False, rp_join_in_flight := b, rp_wait_reject_count := c\<rparr>)"
    "rp_ok (s\<lparr>rp_session_key_valid := a, rp_fast_rejoin := False, rp_wait_reject_count := c, rp_join_in_flight := b,
       rp_join_delay_until_ms := d, rp_join_retry_count := e, rp_discover_due_ms := f\<rparr>)"
    for a b c d e f using ok by (simp_all add: rp_ok_def)
  have "rp_ok ((rp_start_discovery_cycle env w s')\<lparr>rp_discover_due_ms := t\<rparr>)" if "rp_ok s'" for s' w t
    using rp_ok_start_discovery [OF that] by (simp add: rp_ok_def)
  with 1 show ?thesis by (simp add: rp_join_rejected_def Let_def rp_ok_start_discovery)
qed

lemma rp_ok_join_session: "rp_ok s \<Longrightarrow> rp_ok (rp_join_session env hdr ack s) \<and> rp_joined (rp_join_session env hdr ack s)"
  by (simp add: rp_join_session_def Let_def rp_update_mtu_from_route_def rp_ok_def)

lemma rp_ok_join_complete: "rp_ok s \<Longrightarrow> rp_joined s \<Longrightarrow> rp_ok (rp_join_complete env s)"
  unfolding rp_join_complete_def Let_def
  by (rule rp_ok_send_heartbeat) (simp add: rp_refresh_can_relay_def rp_ok_def)

lemma rp_ok_join_ack: "rp_ok s \<Longrightarrow> rp_ok (fst (rp_handle_join_ack env hdr p s))"
proof -
  assume ok: "rp_ok s"
  have j: "rp_ok (rp_join_session env hdr ack s)" "rp_joined (rp_join_session env hdr ack s)" for ack
    using rp_ok_join_session [OF ok] by auto
  have not_normal: "rp_ok ((rp_refresh_can_relay (s'\<lparr>rp_normal := False\<rparr>))
      \<lparr>rp_state_push_enabled := a, rp_state_name := n, rp_joined_started_ms := t\<rparr>)"
    "rp_ok (rp_mark_all_entities_dirty ((rp_refresh_can_relay (s'\<lparr>rp_normal := False\<rparr>))
      \<lparr>rp_state_push_enabled := a, rp_waiting_for_state_ack := False, rp_state_retry_count := 0, rp_state_name := n, rp_joined_started_ms := t\<rparr>))"
    if "rp_ok s'" for s' a n t
    using that by (simp_all add: rp_refresh_can_relay_def rp_mark_all_entities_dirty_def rp_ok_def)
  show ?thesis
    using ok by (simp add: rp_handle_join_ack_def Let_def rp_ok_join_rejected rp_ok_join_complete j not_normal split: option.split)
qed

lemma rp_ok_handle_deauth: "rp_ok s \<Longrightarrow> rp_ok (fst (rp_handle_deauth env hdr p s))"
proof -
  assume ok: "rp_ok s"
  let ?s = "(rp_clear_session_state env True s)\<lparr>rp_discovering := True, rp_sweep_complete := True, rp_fast_rejoin := False,
      rp_discovery_resume_normal_after_success := False, rp_discovery_current_channel_only := True, rp_remote_nonce := env_nonce env 1\<rparr>"
  have s: "rp_ok ?s" using rp_ok_clear_flags(2) [OF ok, of env] by (simp add: rp_ok_def)
  have "rp_ok (s'\<lparr>rp_state_name := n\<rparr>)" if "rp_ok s'" for s' :: "'a remote" and n using that by (simp add: rp_ok_def)
  then show ?thesis
    using ok s rp_ok_send_join [OF s, of env] by (simp add: rp_handle_deauth_def Let_def split_beta rp_ok_start_discovery)
qed

lemma rp_ok_handle_ack: "rp_ok s \<Longrightarrow> rp_ok (fst (rp_handle_ack env hdr p tag s))"
  by (simp add: rp_handle_ack_def Let_def rp_update_record_def rp_ok_def split: option.split)

text \<open>
  What a COMMAND frame can do: nothing but an acknowledgement; a change of the pending buffers;
  or the run of a command whose message is newer than the last one of its entity.
\<close>

definition rp_completed :: "'h rp_env \<Rightarrow> EntityPayloadView \<Rightarrow> u32 \<Rightarrow> command_assemblies \<Rightarrow> u32 \<Rightarrow> bytes \<Rightarrow> 'h remote \<Rightarrow> 'h remote" where
  "rp_completed env command base pending last_seen assembled s =
     (let s = rp_update_record (unat (epv_entity_index command)) (\<lambda>r. r\<lparr>er_current_value := assembled,
             er_current_text := (if rp_is_text (er_schema r) then assembled else er_current_text r),
             er_dirty := False, er_last_completed_command_message_tx_base := base\<rparr>)
             (s\<lparr>rp_pending_commands := pending, rp_last_seen_counter := last_seen\<rparr>)
      in if env_command_fn env
         then s\<lparr>rp_commands_run := rp_commands_run s @ [(epv_entity_index command, epv_flags command, assembled)]\<rparr> else s)"

lemma rp_handle_command_cases:
  assumes "rp_handle_command env hdr p tag s = (s', r)"
  obtains (kept) "rp_io s s'"
  | (fragment) pending last_seen where
      "s' = s\<lparr>rp_pending_commands := pending, rp_last_seen_counter := last_seen\<rparr>"
      "length (ca_pending (rp_pending_commands s)) \<le> 8 \<longrightarrow> length (ca_pending pending) \<le> 8"
      "rp_joined s" "rp_validate_session env hdr p tag s"
  | (run) plaintext command pending last_seen assembled where
      "rp_joined s" "rp_validate_session env hdr p tag s" "rp_open env hdr p tag s = Some plaintext"
      "parse_entity_payload plaintext = Some command"
      "unat (epv_entity_index command) < length (rp_entity_records s)"
      "counter_is_newer (fragment_message_tx_base hdr command)
         (er_last_completed_command_message_tx_base (rp_entity_records s ! unat (epv_entity_index command)))"
      "length (ca_pending (rp_pending_commands s)) \<le> 8 \<longrightarrow> length (ca_pending pending) \<le> 8"
      "rp_io (rp_completed env command (fragment_message_tx_base hdr command) pending last_seen assembled s) s'"
proof (cases "rp_joined s")
  case joined: True
  show thesis
  proof (cases "rp_open env hdr p tag s")
    case (Some plaintext)
    then have valid: "rp_validate_session env hdr p tag s" by (simp add: rp_open_def split: if_splits)
    note outer = joined Some
    show thesis
    proof (cases "parse_entity_payload plaintext")
      case (Some command)
      define base where "base = fragment_message_tx_base hdr command"
      note outer = outer Some
      have ack: "rp_io s s'" if "rp_send_command_ack env e c b s = (s', r)" for e c b
        using rp_io_command_ack [of s env e c b] that by simp
      show thesis
      proof (cases "unat (epv_entity_index command) < length (rp_entity_records s) \<and> counter_is_newer base
          (er_last_completed_command_message_tx_base (rp_entity_records s ! unat (epv_entity_index command)))")
        case False
        then have "rp_io s s'"
          using assms outer ack by (auto simp: rp_handle_command_def Let_def base_def split: if_splits)
        then show thesis by (rule kept)
      next
        case True
        obtain pending out where cf: "command_fragment (rp_max_entity_fragment s) (rp_max_assembly_bytes s)
            (rp_max_total_fragment_bytes s) command base (env_now env) (rp_pending_commands s) = (pending, out)" by fastforce
        have b: "length (ca_pending (rp_pending_commands s)) \<le> 8 \<longrightarrow> length (ca_pending pending) \<le> 8"
          using command_fragment_bound [of "rp_pending_commands s" "rp_max_entity_fragment s" "rp_max_assembly_bytes s"
              "rp_max_total_fragment_bytes s" command base "env_now env"] cf by simp
        show thesis
        proof (cases out)
          case (FragmentComplete assembled)
          have "rp_io (rp_completed env command base pending (max (rp_last_seen_counter s) (fh_tx_counter hdr)) assembled s) s'"
            using assms outer True cf FragmentComplete rp_io_command_ack
              [of "rp_completed env command base pending (max (rp_last_seen_counter s) (fh_tx_counter hdr)) assembled s" env
                "epv_entity_index command" 0 base]
            by (simp add: rp_handle_command_def Let_def base_def rp_completed_def)
          then show thesis using run [OF joined valid \<open>rp_open env hdr p tag s = Some plaintext\<close> Some _ _ b] True
            by (simp add: base_def)
        next
          case FragmentDropped
          have "s\<lparr>rp_pending_commands := pending, rp_last_seen_counter := rp_last_seen_counter s\<rparr> = s\<lparr>rp_pending_commands := pending\<rparr>"
            by simp
          then have "s' = s\<lparr>rp_pending_commands := pending, rp_last_seen_counter := rp_last_seen_counter s\<rparr>"
            unfolding base_def using assms outer True cf FragmentDropped
            by (simp only:) (simp add: rp_handle_command_def Let_def base_def)
          then show thesis using fragment b joined valid by blast
        next
          case FragmentStored
          then have "s' = s\<lparr>rp_pending_commands := pending, rp_last_seen_counter := max (rp_last_seen_counter s) (fh_tx_counter hdr)\<rparr>"
            using assms outer True cf by (simp add: rp_handle_command_def Let_def base_def)
          then show thesis using fragment b joined valid by blast
        qed
      qed
    qed (use assms outer kept in \<open>simp add: rp_handle_command_def\<close>)
  qed (use assms joined kept in \<open>simp add: rp_handle_command_def\<close>)
qed (use assms kept in \<open>simp add: rp_handle_command_def\<close>)

lemma rp_ok_handle_command:
  assumes ok: "rp_ok s"
  shows "rp_ok (fst (rp_handle_command env hdr p tag s))"
proof -
  obtain s' r where e: "rp_handle_command env hdr p tag s = (s', r)" by fastforce
  from e have "rp_ok s'"
  proof (cases rule: rp_handle_command_cases)
    case kept
    then show ?thesis by (rule rp_ok_io [OF _ ok])
  next
    case (fragment pending last_seen)
    then show ?thesis using ok by (simp add: rp_ok_def)
  next
    case (run plaintext command pending last_seen assembled)
    have "rp_ok (rp_completed env command (fragment_message_tx_base hdr command) pending last_seen assembled s)"
      using ok run(7) by (simp add: rp_completed_def Let_def rp_update_record_def rp_ok_def)
    then show ?thesis by (rule rp_ok_io [OF run(8)])
  qed
  with e show ?thesis by simp
qed

lemma rp_ok_config_ack: "rp_ok s \<Longrightarrow> rp_ok (fst (rp_send_config_ack env c r tx s))"
  by (rule rp_ok_io [OF rp_io_config_ack])

lemma rp_remember_io:
  "\<exists>s1. rp_io s1 (fst (rp_ack_and_remember env tx c r s)) \<and> s1 = s\<lparr>rp_last_config_tx_counter := tx, rp_last_config_command := c,
     rp_last_config_result := r, rp_last_config_valid := True\<rparr>"
  unfolding rp_ack_and_remember_def by (blast intro: rp_io_config_ack)

lemma rp_ok_remember: "rp_ok s \<Longrightarrow> rp_ok (fst (rp_ack_and_remember env tx c r s))"
  unfolding rp_ack_and_remember_def by (rule rp_ok_config_ack) (simp add: rp_ok_def)

lemma rp_remember_joined [simp]:
  "rp_joined (fst (rp_ack_and_remember env tx c r s)) = rp_joined s"
  unfolding rp_ack_and_remember_def by (simp add: rp_io_fields(1) [OF rp_io_config_ack])

lemma rp_ok_ack_then:
  assumes "rp_ok s" and "\<And>s'. rp_ok s' \<Longrightarrow> rp_joined s' = rp_joined s \<Longrightarrow> rp_ok (act s')"
  shows "rp_ok (fst (rp_ack_then env tx c act s))"
  using rp_ok_remember [OF assms(1), of env tx c CFG_RESULT_OK] assms(2)
  by (simp add: rp_ack_then_def split_beta)

lemma rp_ok_restart: "rp_ok s \<Longrightarrow> rp_ok (s\<lparr>rp_restarts := rp_restarts s + 1\<rparr>)"
  by (simp add: rp_ok_def)

lemma rp_ok_relay_runtime: "rp_ok s \<Longrightarrow> rp_ok (rp_set_relay_enabled_runtime b s)"
  by (simp add: rp_set_relay_enabled_runtime_def rp_refresh_can_relay_def rp_ok_def)

lemma rp_ok_prefer_parent: "rp_ok s \<Longrightarrow> rp_joined s \<Longrightarrow> rp_ok (rp_prefer_parent env f p s)"
proof -
  assume ok: "rp_ok s" and j: "rp_joined s"
  have "rp_ok (rp_start_route_recovery_cycle env (s\<lparr>rp_preferred_parents := x\<rparr>))" for x
    by (rule rp_ok_recovery) (use ok j in \<open>simp_all add: rp_ok_def\<close>)
  then show ?thesis by (simp add: rp_prefer_parent_def Let_def rp_ok_def)
qed

lemma rp_ok_config_command:
  assumes ok: "rp_ok s" and j: "rp_joined s"
  shows "rp_ok (fst (rp_config_command env tx c p s))"
proof -
  have hb: "rp_ok (s'\<lparr>rp_heartbeat_interval := a, rp_heartbeat_due_ms := b\<rparr>)" if "rp_ok s'" for s' :: "'a remote" and a b
    using that by (simp add: rp_ok_def)
  show ?thesis
    unfolding rp_config_command_def Let_def
    using ok j by (auto intro!: rp_ok_ack_then rp_ok_remember hb rp_ok_restart [unfolded Suc_eq_plus1 [symmetric]] rp_ok_full_rediscovery rp_ok_prefer_parent
        rp_ok_relay_runtime split: if_splits)
qed

lemma rp_ok_handle_config: "rp_ok s \<Longrightarrow> rp_ok (fst (rp_handle_config env hdr p tag s))"
proof -
  assume ok: "rp_ok s"
  have l: "rp_ok (s\<lparr>rp_last_seen_counter := x\<rparr>)" for x using ok by (simp add: rp_ok_def)
  show ?thesis
    using ok by (simp add: rp_handle_config_def Let_def rp_ok_config_ack rp_ok_remember rp_ok_config_command l split: option.split)
qed

lemma rp_io_schema_chunks: "rp_io s (fst (rp_send_schema_chunks env e push chunks s))"
proof (induction chunks arbitrary: s)
  case (Cons c chunks)
  have f: "rp_io s (fst (rp_send_frame env mac t h tx q True None (s\<lparr>rp_tx_counter := x\<rparr>)))" for mac t h tx q x
    by (rule rp_io_trans [OF rp_io_updates(1) rp_io_send_frame])
  show ?case
    using rp_io_trans [OF f Cons] f by (simp add: Let_def split_beta split: option.split)
qed simp

lemma rp_io_schema_push: "rp_io s (fst (rp_send_schema_push env e s))"
  by (simp add: rp_send_schema_push_def Let_def rp_io_schema_chunks)

lemma rp_ok_identity: "rp_ok s \<Longrightarrow> rp_ok (fst (rp_send_identity_descriptor env s))"
proof -
  assume ok: "rp_ok s"
  have "rp_ok (s\<lparr>rp_chip_model := a, rp_build_date := b, rp_build_time := c, rp_firmware_md5 := d, rp_tx_counter := e\<rparr>)"
    for a b c d e using ok by (simp add: rp_ok_def)
  then have "rp_ok (fst (rp_send_frame env m t h tx q True None
      (s\<lparr>rp_chip_model := a, rp_build_date := b, rp_build_time := c, rp_firmware_md5 := d, rp_tx_counter := e\<rparr>)))"
    for m t h tx q a b c d e by (rule rp_ok_io [OF rp_io_send_frame])
  then show ?thesis using ok by (simp add: rp_send_identity_descriptor_def Let_def)
qed

lemma rp_ok_schema_request: "rp_ok s \<Longrightarrow> rp_ok (fst (rp_handle_schema_request env hdr p tag s))"
proof -
  assume ok: "rp_ok s"
  have l: "rp_ok (s\<lparr>rp_last_seen_counter := a, rp_state_push_enabled := False, rp_last_heartbeat_tx_ms := 0,
      rp_heartbeat_due_ms := 0, rp_last_successful_state_ms := 0, rp_last_successful_heartbeat_ms := 0\<rparr>)" for a
    using ok by (simp add: rp_ok_def)
  then show ?thesis
    using ok rp_ok_io [OF rp_io_schema_push l]
    by (simp add: rp_handle_schema_request_def Let_def rp_ok_identity split: option.split)
qed

lemma rp_ok_handle_file:
  assumes ok: "rp_ok s"
  shows "rp_ok (fst (rp_handle_file_transfer env hdr p tag s))" and "rp_ok (fst (rp_handle_file_data env hdr p tag s))"
proof -
  have u: "rp_ok (s\<lparr>rp_ota_last_activity_ms := t\<rparr>)" "rp_ok (s\<lparr>rp_ota_last_activity_ms := t, rp_file_receiver := r\<rparr>)" for t r
    using ok by (simp_all add: rp_ok_def)
  show "rp_ok (fst (rp_handle_file_transfer env hdr p tag s))" "rp_ok (fst (rp_handle_file_data env hdr p tag s))"
    using ok by (simp_all add: rp_handle_file_transfer_def rp_handle_file_data_def Let_def
        rp_ok_io [OF rp_io_file_call u(1)] rp_ok_io [OF rp_io_file_call u(2)] split: option.split)
qed

lemma update_route_set:
  "r' \<in> set (update_route leaf f routes) \<Longrightarrow> r' \<in> set routes \<or> (\<exists>r \<in> set routes. rr_leaf_mac r = leaf \<and> r' = f r)"
  by (induction routes) (auto split: if_splits)

lemma rp_ok_routes:
  "rp_ok s \<Longrightarrow> \<forall>r \<in> set routes. rr_leaf_mac r \<noteq> rp_leaf_mac s \<and> rr_next_hop_mac r \<noteq> rp_leaf_mac s \<Longrightarrow> rp_ok (s\<lparr>rp_routes := routes\<rparr>)"
  by (simp add: rp_ok_def)

lemma find_route_leaf: "find_route leaf routes = Some r \<Longrightarrow> rr_leaf_mac r = leaf \<and> r \<in> set routes"
  by (auto simp: find_route_def find_Some_iff)

lemma rp_ok_refresh_route: "rp_ok s \<Longrightarrow> rp_ok (rp_refresh_route env l n s)"
proof -
  assume ok: "rp_ok s"
  let ?new = "\<lparr>rr_leaf_mac = l, rr_next_hop_mac = zero_mac, rr_expiry_ms = 0, rr_has_logged_providing_relay = False\<rparr>"
  have in_old: "rr_leaf_mac r \<noteq> rp_leaf_mac s \<and> rr_next_hop_mac r \<noteq> rp_leaf_mac s" if "r \<in> set (rp_routes s)" for r
    using ok that by (simp add: rp_ok_def)
  have "\<forall>r \<in> set (update_route l (\<lambda>r. r\<lparr>rr_next_hop_mac := n, rr_expiry_ms := t\<rparr>) (rp_routes s)).
      rr_leaf_mac r \<noteq> rp_leaf_mac s \<and> rr_next_hop_mac r \<noteq> rp_leaf_mac s" if "n \<noteq> rp_leaf_mac s" for t
    using in_old that by (fastforce dest!: update_route_set)
  moreover have "update_route l f (rp_routes s @ [?new]) = rp_routes s @ [f ?new]" if "find_route l (rp_routes s) = None" for f
  proof -
    have "\<forall>r \<in> set (rp_routes s). rr_leaf_mac r \<noteq> l" using that by (auto simp: find_route_def find_None_iff)
    moreover have "\<forall>r \<in> set rs. rr_leaf_mac r \<noteq> l \<Longrightarrow> update_route l f (rs @ [?new]) = rs @ [f ?new]" for rs
      by (induction rs) auto
    ultimately show ?thesis by blast
  qed
  ultimately show ?thesis
    using ok in_old by (auto simp: rp_refresh_route_def Let_def intro!: rp_ok_routes split: option.split)
qed

lemma rp_ok_log_relay: "rp_ok s \<Longrightarrow> rp_ok (rp_log_providing_relay l s)"
  unfolding rp_log_providing_relay_def
  by (rule rp_ok_routes) (auto simp: rp_ok_def dest!: update_route_set)

lemma rp_io_forward_frame: "rp_io s (fst (rp_forward_frame env mac hdr p tag d s))"
  by (simp add: rp_forward_frame_def Let_def rp_io_def rp_core_def split: option.split)

lemma rp_ok_forward: "rp_ok s \<Longrightarrow> rp_ok (fst (rp_forward_packet env hdr p tag s))"
  by (simp add: rp_forward_packet_def rp_ok_io [OF rp_io_forward_frame] rp_ok_refresh_route split: option.split)

lemma rp_ok_upstream: "rp_ok s \<Longrightarrow> rp_ok (fst (rp_handle_upstream env m hdr p tag s))"
  by (simp add: rp_handle_upstream_def Let_def rp_ok_log_relay rp_ok_forward rp_ok_refresh_route)

lemma rp_ok_downstream: "rp_ok s \<Longrightarrow> rp_ok (fst (rp_handle_downstream env hdr p tag s))"
  by (simp add: rp_handle_downstream_def Let_def rp_ok_handle_config rp_ok_handle_file rp_ok_forward)

lemma rp_ok_dispatch: "rp_ok s \<Longrightarrow> rp_ok (fst (rp_dispatch env m hdr p tag rssi s))"
  by (simp add: rp_dispatch_def Let_def rp_ok_handle_discover rp_ok_handle_announce rp_ok_join_ack rp_ok_handle_ack
      rp_ok_handle_command rp_ok_handle_config rp_ok_schema_request rp_ok_handle_deauth rp_ok_handle_file)

lemma rp_ok_observe: "rp_ok s \<Longrightarrow> rp_ok (rp_observe_parent_rssi m rssi s)" "rp_ok s \<Longrightarrow> rp_ok (rp_observe_hops hdr s)"
  "rp_ok s \<Longrightarrow> rp_ok (s\<lparr>rp_last_parent_mac := x\<rparr>)"
  by (simp_all add: rp_observe_parent_rssi_def rp_observe_hops_def rp_ok_def)

lemma rp_ok_frame: "rp_ok s \<Longrightarrow> rp_ok (fst (rp_on_espnow_frame env m frame rssi s))"
  by (simp add: rp_on_espnow_frame_def Let_def rp_ok_observe rp_ok_dispatch rp_ok_upstream rp_ok_downstream
      split: option.split)

section \<open>The loop keeps it\<close>

lemma rp_ok_and_then:
  assumes "rp_ok (fst (f s))" and "\<And>s'. f s = (s', False) \<Longrightarrow> rp_ok s' \<Longrightarrow> rp_ok (fst (g s'))"
  shows "rp_ok (fst (rp_and_then f g s))"
  using assms by (cases "f s") (auto simp: rp_and_then_def)

lemma rp_ok_upkeep:
  assumes ok: "rp_ok s"
  shows "rp_ok (rp_loop_upkeep env s)"
proof -
  let ?p = "(rp_prune_pending_discovers (env_now env) (rp_prune_routes (env_now env) s))
    \<lparr>rp_pending_commands := prune_pending_command_fragments (env_now env)
       (rp_pending_commands (rp_prune_pending_discovers (env_now env) (rp_prune_routes (env_now env) s)))\<rparr>"
  have p: "rp_ok ?p"
    using ok prune_fragments_bound
    by (auto simp: rp_prune_pending_discovers_def rp_prune_routes_def rp_ok_def intro: order_trans [OF length_filter_le])
  have t: "rp_ok (s'\<lparr>rp_ota_last_activity_ms := x\<rparr>)" if "rp_ok s'" for s' :: "'a remote" and x
    using that by (simp add: rp_ok_def)
  show ?thesis
    unfolding rp_loop_upkeep_def Let_def
    by (rule rp_ok_flush) (simp add: p t rp_ok_io [OF rp_io_file_call])
qed

lemma rp_ok_loop_start: "rp_ok s \<Longrightarrow> rp_ok (fst (rp_loop_start env s))"
proof -
  assume ok: "rp_ok s"
  have "rp_ok (s\<lparr>rp_initial_discovery_pending := False\<rparr>)" using ok by (simp add: rp_ok_def)
  then show ?thesis using ok by (simp add: rp_loop_start_def rp_ok_start_discovery)
qed

lemma rp_ok_topology: "rp_ok s \<Longrightarrow> (w \<Longrightarrow> rp_normal s) \<Longrightarrow> rp_ok (fst (rp_topology_refresh env w s))"
proof -
  assume ok: "rp_ok s" and w: "w \<Longrightarrow> rp_normal s"
  have u: "rp_ok (s\<lparr>rp_topology_refresh_due_ms := x\<rparr>)" for x using ok by (simp add: rp_ok_def)
  have "rp_ok (rp_start_route_recovery_cycle env (s\<lparr>rp_topology_refresh_due_ms := x\<rparr>))" if w for x
    by (rule rp_ok_recovery [OF u]) (use ok w that in \<open>simp add: rp_ok_def\<close>)
  then show ?thesis using ok u by (simp add: rp_topology_refresh_def Let_def)
qed

lemma rp_ok_loop_topology: "rp_ok s \<Longrightarrow> rp_ok (fst (rp_loop_topology env s))"
  unfolding rp_loop_topology_def Let_def by (intro rp_ok_and_then rp_ok_topology) simp_all

lemma rp_ok_loop_resume: "rp_ok s \<Longrightarrow> rp_ok (fst (rp_loop_resume env s))"
  by (simp add: rp_loop_resume_def rp_ok_send_heartbeat rp_ok_adopt)

lemma rp_ok_loop_join: "rp_ok s \<Longrightarrow> rp_ok (fst (rp_loop_join env s))"
proof -
  assume ok: "rp_ok s"
  have u: "rp_ok (s'\<lparr>rp_state_name := n\<rparr>)" if "rp_ok s'" for s' :: "'a remote" and n using that by (simp add: rp_ok_def)
  have r: "rp_ok (rp_refresh_can_relay ((if b then (s\<lparr>rp_last_known_channel := c\<rparr>)\<lparr>rp_join_in_flight := False\<rparr> else s\<lparr>rp_last_known_channel := c\<rparr>)
      \<lparr>rp_parent_mac := m, rp_parent_valid := True, rp_hop_count := 0, rp_hops_to_bridge := h\<rparr>))" for b c m h
    using ok by (simp add: rp_ok_def rp_refresh_can_relay_def)
  show ?thesis
    unfolding rp_loop_join_def Let_def
    using ok u rp_ok_send_join [OF r] by (simp add: split_beta)
qed

lemma rp_ok_due: "rp_ok s \<Longrightarrow> rp_ok (s\<lparr>rp_discover_due_ms := t\<rparr>)"
  by (simp add: rp_ok_def)

lemma rp_ok_loop_discover: "rp_ok s \<Longrightarrow> rp_ok (fst (rp_loop_discover env s))"
proof -
  assume ok: "rp_ok s"
  have "rp_ok (s\<lparr>rp_sweep_complete := True\<rparr>)" using ok by (simp add: rp_ok_def)
  then show ?thesis using ok by (simp add: rp_loop_discover_def rp_ok_send_discover)
qed

lemma rp_ok_loop_join_exhausted: "rp_ok s \<Longrightarrow> rp_ok (fst (rp_loop_join_exhausted env s))"
proof -
  assume ok: "rp_ok s"
  have "rp_ok (s\<lparr>rp_join_in_flight := False, rp_fast_rejoin := False\<rparr>)" using ok by (simp add: rp_ok_def)
  then show ?thesis using ok by (simp add: rp_loop_join_exhausted_def rp_ok_due rp_ok_start_discovery)
qed

lemma rp_ok_loop_stalls: "rp_ok s \<Longrightarrow> rp_joined s \<Longrightarrow> rp_ok (fst (rp_loop_stalls env s))"
proof -
  assume ok: "rp_ok s" and j: "rp_joined s"
  have "rp_ok ((rp_clear_session_state env False s)\<lparr>rp_fast_rejoin := False\<rparr>)"
    using rp_ok_clear_flags(1) [OF ok, of env] by (simp add: rp_ok_def)
  then show ?thesis
    using ok j by (simp add: rp_loop_stalls_def Let_def rp_ok_due rp_ok_start_discovery rp_ok_stall)
qed

lemma rp_loop_stalls_continue: "rp_loop_stalls env s = (s', False) \<Longrightarrow> s' = s"
  by (simp add: rp_loop_stalls_def Let_def split: if_splits)

lemma rp_ok_loop_state_retry: "rp_ok s \<Longrightarrow> rp_ok (fst (rp_loop_state_retry env s))"
proof -
  assume ok: "rp_ok s"
  have a: "rp_ok (s'\<lparr>rp_state_retry_count := x\<rparr>)" "rp_ok (s'\<lparr>rp_last_state_tx_ms := t\<rparr>)" if "rp_ok s'" for s' :: "'a remote" and x t
    using that by (simp_all add: rp_ok_def)
  let ?w = "s\<lparr>rp_waiting_for_state_ack := False, rp_state_retry_count := 0\<rparr>"
  have w: "rp_ok ?w" using ok by (simp add: rp_ok_def)
  have "rp_ok (rp_start_route_recovery_cycle env ?w)"
    "rp_ok (rp_start_route_recovery_cycle env (rp_update_record i f ?w))" if "rp_waiting_for_state_ack s" for i f
  proof -
    have "rp_joined s" using ok that by (simp add: rp_ok_def)
    then show "rp_ok (rp_start_route_recovery_cycle env ?w)" "rp_ok (rp_start_route_recovery_cycle env (rp_update_record i f ?w))"
      using rp_ok_recovery [OF w] rp_ok_recovery [OF rp_ok_update_record [OF w]] by (simp_all add: rp_update_record_def)
  qed
  then show ?thesis
    using ok rp_ok_send_state [OF ok, of env] a by (simp add: rp_loop_state_retry_def Let_def split_beta)
qed

lemma rp_ok_loop_heartbeat: "rp_ok s \<Longrightarrow> rp_ok (fst (rp_loop_heartbeat env s))"
proof -
  assume ok: "rp_ok s"
  have "rp_ok (s\<lparr>rp_heartbeat_due_ms := t\<rparr>)" for t using ok by (simp add: rp_ok_def)
  then show ?thesis using ok by (simp add: rp_loop_heartbeat_def Let_def rp_ok_send_heartbeat)
qed

lemma rp_ok_loop_push_state: "rp_ok s \<Longrightarrow> rp_ok (fst (rp_loop_push_state env s))"
proof -
  assume ok: "rp_ok s"
  have "rp_ok (fst (rp_send_state env e v True s)\<lparr>rp_waiting_for_state_ack := True\<rparr>)"
    if "snd (rp_send_state env e v True s)" for e v
  proof -
    have "rp_joined s" using that by (simp add: rp_send_state_def split: if_splits)
    then show ?thesis
      using rp_ok_send_state [OF ok, of env e v True] rp_joined_send_state [of env e v True s] that by (simp add: rp_ok_def)
  qed
  then show ?thesis
    using ok rp_ok_send_state [OF ok] by (simp add: rp_loop_push_state_def split_beta split: option.split)
qed

lemma rp_ok_loop: "rp_ok s \<Longrightarrow> rp_ok (rp_loop env s)"
proof -
  assume ok: "rp_ok s"
  have j: "rp_ok (fst (rp_loop_joined env s'))" if "rp_ok s'" for s'
    unfolding rp_loop_joined_def
    using that by (auto intro!: rp_ok_and_then rp_ok_loop_stalls rp_ok_loop_state_retry rp_ok_loop_heartbeat rp_ok_loop_push_state)
  show ?thesis
    unfolding rp_loop_def
    by (intro rp_ok_and_then rp_ok_upkeep [OF ok] rp_ok_loop_start rp_ok_loop_topology rp_ok_loop_resume
        rp_ok_loop_join rp_ok_loop_discover rp_ok_loop_join_exhausted j)
qed

lemma rp_ok_setters:
  assumes ok: "rp_ok s"
  shows "rp_ok (fst (rp_register_entity t n u options e s))" "rp_ok (rp_set_route_ttl ttl s)"
    "rp_ok (rp_add_preferred_parent p s)" "rp_ok (rp_set_session_flags f s)" "rp_ok (rp_set_ota_over_espnow b s)"
  using ok by (simp_all add: rp_register_entity_def Let_def rp_set_route_ttl_def
      rp_add_preferred_parent_def rp_set_session_flags_def rp_set_ota_over_espnow_def rp_ok_def less_SucI split: option.split)

text \<open>The address of a remote is set once, before anything else.\<close>

definition keeps_address :: "rp_event \<Rightarrow> bool" where
  "keeps_address ev \<longleftrightarrow> (case ev of RpLocalMac _ \<Rightarrow> False | _ \<Rightarrow> True)"

lemma rp_ok_step:
  assumes ok: "rp_ok s" and "keeps_address ev"
  shows "rp_ok (rp_step env ev s)"
proof (cases ev)
  case (RpSetOptions i v)
  then show ?thesis using ok by (simp add: rp_set_entity_options_def Let_def rp_update_record_def rp_ok_def)
next
  case (RpStateChange i v)
  then show ?thesis using ok by (simp add: rp_on_entity_state_change_def rp_ok_update_record split: option.split)
next
  case (RpRelayConfig a b c)
  then show ?thesis using ok by (simp add: rp_set_relay_config_def rp_refresh_can_relay_def rp_ok_def)
next
  case (RpLocalMac m)
  then show ?thesis using assms(2) by (simp add: keeps_address_def)
qed (use ok in \<open>simp_all add: rp_ok_frame rp_ok_loop rp_ok_relay_runtime rp_on_entity_text_change_def rp_ok_update_record rp_ok_setters\<close>)

lemma rp_ok_run: "rp_ok s \<Longrightarrow> \<forall>(env, ev) \<in> set steps. keeps_address ev \<Longrightarrow> rp_ok (rp_run steps s)"
  unfolding rp_run_def by (induction steps arbitrary: s) (auto simp: rp_ok_step)

text \<open>A new remote with its address, as set up before the first event.\<close>

abbreviation (input) rp_start :: "bytes \<Rightarrow> 'h \<Rightarrow> 'h remote" where
  "rp_start mac h \<equiv> rp_set_local_mac (Some mac) (RemoteProtocol_new h)"

lemma rp_ok_start: "rp_ok (rp_start mac h)"
  by (simp add: rp_ok_def rp_set_local_mac_def RemoteProtocol_new_def command_assemblies_init_def)

end
