(* ===== verification/RemoteClaims.thy ===== *)
theory RemoteClaims
  imports RemoteProps OtaFlash "HOL-Library.Product_Lexorder"
begin

text \<open>
  Properties of the remote protocol: the invariant of its phases and tables, what unauthenticated and
  repeated frames can do, forwarding, the channel sweep, the choice of a parent, and several behaviours that
  look unintended (a child count that is always zero, a JOIN_ACK nobody asked for, lost session keys, commands
  ignored after the bridge restarts).
\<close>

section \<open>A concrete environment for the examples\<close>

definition demo_env :: "unit ofh rp_env" where
  "demo_env = \<lparr>env_now = 1000, env_random = (\<lambda>_. 0), env_nonce = (\<lambda>_. replicate 16 7),
     env_hmac = (\<lambda>_ _. replicate 32 1), env_sha256 = (\<lambda>_. replicate 32 2),
     env_crypto = \<lparr>g_psk = replicate 32 3, g_psk_set = True\<rparr>,
     env_handler = flash_handler (\<lambda>_. replicate 16 0) host_platform,
     env_set_max_chunk = ofh_set_max_chunk_size, env_wifi_component = False, env_wifi_is_connected = False,
     env_channel = Some 6, env_send = None, env_command_fn = True, env_chip_model = 5,
     env_build_date = [], env_build_time = [], env_firmware_md5 = replicate 16 0\<rparr>"

abbreviation (input) demo_mac :: bytes where "demo_mac \<equiv> [2, 0, 0, 0, 0, 9]"
abbreviation (input) demo_remote :: "unit ofh remote" where "demo_remote \<equiv> rp_start demo_mac (ofh_init ())"

text \<open>A JOIN_ACK frame as any holder of the network key can make it.\<close>

definition join_ack_frame :: "(bytes \<Rightarrow> bytes \<Rightarrow> bytes) \<Rightarrow> crypto_state \<Rightarrow> bytes \<Rightarrow> u32 \<Rightarrow> espnow_join_ack \<Rightarrow> bytes" where
  "join_ack_frame hmac cs leaf_mac tx_counter ack =
     assemble_plain_frame hmac cs (packet_code PKT_JOIN_ACK) leaf_mac ESPNOW_HOPS_DIR_DOWN tx_counter
       (c_enc espnow_join_ack_codec ack)"

definition demo_frame :: "bytes" where
  "demo_frame = join_ack_frame (env_hmac demo_env) (env_crypto demo_env) demo_mac 5
     \<lparr>jack_accepted = 1, jack_reason = 0, jack_stage = ESPNOW_JOIN_STATUS_COMPLETE,
      jack_bridge_nonce = replicate 16 4, jack_session_flags = 1\<rparr>"

lemma demo_normal: "rp_normal (rp_run [(demo_env, RpFrame [3, 0, 0, 0, 0, 1] demo_frame (- 40))] demo_remote)"
  by code_simp

section \<open>Phases and tables\<close>

lemma discover_bound:
  "length (rp_pending_discovers (fst (rp_handle_discover env sender hdr payload s)))
    \<le> max (length (rp_pending_discovers s)) (unat (rp_max_discover_pending s))"
proof -
  have "rp_pending_discovers (fst (rp_send_discover_announce_with_jitter env m l r h t)) = rp_pending_discovers t" for m l r h t
    by (simp add: rp_send_discover_announce_with_jitter_def Let_def)
  then show ?thesis by (auto simp: rp_handle_discover_def not_le split: option.split)
qed

text \<open>
  C28: The invariant of a remote. Whatever frames arrive and however the application and the loop
  are called after the address is set: a normal remote is joined; it relays only while normal, with relaying
  enabled and a parent; a state it waits to have acknowledged belongs to a joined remote and names
  one of its entities (so the unchecked read of that entity's name is in range); at most eight requests, eight pending commands and the
  eight places of the announcement ring are used; at most 255 DISCOVERs are pending, the largest limit
  that can be configured, and handling a DISCOVER never brings their number above the limit that is
  configured; a search that will resume the session is only made by a joined remote.
\<close>

theorem remote_invariant:
  assumes "\<forall>(env, ev) \<in> set steps. keeps_address ev" and "s = rp_run steps (rp_start mac h)"
  shows "(rp_normal s \<longrightarrow> rp_joined s)
    \<and> (rp_can_relay s \<longrightarrow> rp_relay_enabled s \<and> rp_normal s \<and> rp_parent_valid s)
    \<and> (rp_waiting_for_state_ack s \<longrightarrow> rp_joined s \<and> unat (rp_pending_state_field_index s) < length (rp_entity_records s))
    \<and> (rp_restarts s = 0 \<longrightarrow> rp_discovery_resume_normal_after_success s \<longrightarrow> rp_joined s)
    \<and> length (rp_outstanding_requests s) \<le> 8 \<and> length (ca_pending (rp_pending_commands s)) \<le> 8
    \<and> length (rp_announce_queue s) = 8 \<and> rp_announce_queue_head s < 8 \<and> rp_announce_queue_tail s < 8
    \<and> length (rp_pending_discovers s) \<le> 255
    \<and> length (rp_pending_discovers (fst (rp_handle_discover env sender hdr payload s)))
      \<le> max (length (rp_pending_discovers s)) (unat (rp_max_discover_pending s))"
  using discover_bound [of env sender hdr payload s] rp_ok_run [OF rp_ok_start assms(1), of mac h] unfolding assms(2) [symmetric] by (simp add: rp_ok_def)

theorem remote_invariant_witness:
  "rp_joined (rp_run [(demo_env, RpFrame [3, 0, 0, 0, 0, 1] demo_frame (- 40))] demo_remote)
   \<and> length (rp_announce_queue (rp_run [(demo_env, RpFrame [3, 0, 0, 0, 0, 1] demo_frame (- 40))] demo_remote)) = 8"
  using remote_invariant [of "[(demo_env, RpFrame [3, 0, 0, 0, 0, 1] demo_frame (- 40))]", OF _ refl] demo_normal
  by (simp add: keeps_address_def)

section \<open>Children\<close>

lemma chain_never_reaches:
  assumes "\<forall>r \<in> set routes. rr_next_hop_mac r \<noteq> self" and "mac \<noteq> self"
  shows "\<not> chain_reaches self routes n mac"
  using assms(2)
proof (induction n arbitrary: mac)
  case (Suc n)
  then show ?case using assms(1) by (auto dest!: find_route_leaf split: option.split)
qed simp

lemma fold_const: "(\<And>x. x \<in> set xs \<Longrightarrow> \<forall>n. f x n = n) \<Longrightarrow> fold f xs n = n"
  by (induction xs) auto

lemma total_children_zero:
  assumes "rp_ok s"
  shows "rp_total_children_count s = 0"
proof -
  have routes: "rr_leaf_mac r \<noteq> rp_leaf_mac s" "rr_next_hop_mac r \<noteq> rp_leaf_mac s" if "r \<in> set (rp_routes s)" for r
    using assms that by (simp_all add: rp_ok_def)
  then have "\<not> chain_reaches (rp_leaf_mac s) (rp_routes s) n (rr_leaf_mac r)" if "r \<in> set (rp_routes s)" for r n
    using chain_never_reaches that by blast
  then have "fold (\<lambda>r n. if rr_leaf_mac r = rp_leaf_mac s then n
      else if chain_reaches (rp_leaf_mac s) (rp_routes s) (length (rp_routes s) + 1) (rr_leaf_mac r) then n + 1 else n)
    (rp_routes s) (0 :: u16) = 0"
    by (intro fold_const) (simp del: chain_reaches.simps)
  then show ?thesis by (simp only: rp_total_children_count_def if_cancel)
qed

text \<open>
  The number of children is never counted. The count follows the next hops from each leaf until they reach
  the remote itself, but no route of a remote leads to itself (such routes are refused), so the
  count is zero in every reachable state, and so is the number in every heartbeat, even of a
  relay with direct children.
\<close>

theorem total_children_always_zero:
  assumes "\<forall>(env, ev) \<in> set steps. keeps_address ev" and "s = rp_run steps (rp_start mac h)"
  shows "rp_total_children_count s = 0 \<and> hb_total_child_count (rp_heartbeat env s) = 0"
proof -
  have "rp_ok s" unfolding assms(2) by (rule rp_ok_run [OF rp_ok_start assms(1)])
  then show ?thesis by (simp add: total_children_zero rp_heartbeat_def)
qed

text \<open>In the example the normal remote relays for a child that is its direct neighbour.\<close>

definition child_frame :: bytes where
  "child_frame = rp_frame_bytes demo_env (Some (replicate 32 0))
     (rp_header (packet_code PKT_HEARTBEAT) ESPNOW_HOPS_DIR_UP [4, 0, 0, 0, 0, 4] 1) [0]"

abbreviation (input) demo_steps :: "(unit ofh rp_env \<times> rp_event) list" where
  "demo_steps \<equiv> [(demo_env, RpFrame [3, 0, 0, 0, 0, 1] demo_frame (- 40)),
     (demo_env, RpFrame [4, 0, 0, 0, 0, 4] child_frame (- 50))]"

lemma demo_direct_child: "rp_direct_child_count (rp_run demo_steps demo_remote) = 1"
  by code_simp

theorem total_children_always_zero_witness:
  "rp_direct_child_count (rp_run demo_steps demo_remote) = 1 \<and> rp_total_children_count (rp_run demo_steps demo_remote) = 0"
  using total_children_always_zero [of demo_steps, OF _ refl] demo_direct_child by (simp add: keeps_address_def)

section \<open>Frames that do not hold\<close>

lemma rp_observed_rssi: "\<exists>e. rp_observe_parent_rssi m rssi s = s\<lparr>rp_parent_link_rssi_ema := e\<rparr>"
proof (cases "rp_parent_valid s \<and> m = rp_parent_mac s")
  case False
  have "s = s\<lparr>rp_parent_link_rssi_ema := rp_parent_link_rssi_ema s\<rparr>" by simp
  then show ?thesis unfolding rp_observe_parent_rssi_def if_not_P [OF False] by (rule exI)
next
  case True
  show ?thesis unfolding rp_observe_parent_rssi_def if_P [OF True] by (rule exI, rule refl)
qed

lemma rp_observed_hops: "\<exists>h. rp_observe_hops hdr s = s\<lparr>rp_hops_to_bridge := h\<rparr>"
proof (cases "rp_should_handle_locally hdr s \<and> fh_leaf_mac hdr = rp_leaf_mac s
    \<and> hops_is_upstream (fh_hop_count hdr) \<and> hops_count (fh_hop_count hdr) < rp_hops_to_bridge s")
  case False
  have "s = s\<lparr>rp_hops_to_bridge := rp_hops_to_bridge s\<rparr>" by simp
  then show ?thesis unfolding rp_observe_hops_def if_not_P [OF False] by (rule exI)
next
  case True
  show ?thesis unfolding rp_observe_hops_def if_P [OF True] by (rule exI, rule refl)
qed

lemma rp_observed:
  obtains p e where "rp_observe_parent_rssi m rssi (if c then s\<lparr>rp_last_parent_mac := x\<rparr> else s)
    = s\<lparr>rp_last_parent_mac := p, rp_parent_link_rssi_ema := e\<rparr>"
proof -
  have p: "(if c then s\<lparr>rp_last_parent_mac := x\<rparr> else s) = s\<lparr>rp_last_parent_mac := (if c then x else rp_last_parent_mac s)\<rparr>"
    by simp
  show ?thesis
    unfolding p using that rp_observed_rssi [of m rssi "s\<lparr>rp_last_parent_mac := (if c then x else rp_last_parent_mac s)\<rparr>"]
    unfolding p by blast
qed

lemma rp_open_valid: "rp_open env hdr p tag s = Some q \<Longrightarrow> rp_validate_session env hdr p tag s"
  by (simp add: rp_open_def split: if_splits)

lemma invalid_refused:
  assumes "\<not> rp_validate_session env hdr payload tag s"
  shows "rp_handle_ack env hdr payload tag s = (s, False)" "rp_handle_command env hdr payload tag s = (s, False)"
    "rp_handle_config env hdr payload tag s = (s, False)" "rp_handle_schema_request env hdr payload tag s = (s, False)"
    "rp_handle_file_transfer env hdr payload tag s = (s, False)" "rp_handle_file_data env hdr payload tag s = (s, False)"
proof -
  have "rp_open env hdr payload tag s = None" using assms by (simp add: rp_open_def)
  then show "rp_handle_ack env hdr payload tag s = (s, False)" "rp_handle_command env hdr payload tag s = (s, False)"
    "rp_handle_config env hdr payload tag s = (s, False)" "rp_handle_schema_request env hdr payload tag s = (s, False)"
    "rp_handle_file_transfer env hdr payload tag s = (s, False)" "rp_handle_file_data env hdr payload tag s = (s, False)"
    unfolding rp_handle_ack_def rp_handle_command_def rp_handle_config_def rp_handle_schema_request_def
      rp_handle_file_transfer_def rp_handle_file_data_def by (simp_all only: option.case if_cancel)
qed

lemma rp_dispatch_invalid:
  assumes "is_encrypted_packet (fh_packet_type hdr)" and "\<not> rp_validate_session env hdr payload tag s"
  shows "rp_dispatch env m hdr payload tag rssi s = (s, False)"
proof -
  have "fh_packet_type hdr \<noteq> packet_code PKT_DISCOVER" "fh_packet_type hdr \<noteq> packet_code PKT_DISCOVER_ANNOUNCE"
    "fh_packet_type hdr \<noteq> packet_code PKT_JOIN_ACK" "fh_packet_type hdr \<noteq> packet_code PKT_DEAUTH"
    using assms(1) by (auto simp: is_encrypted_packet_def)
  then show ?thesis by (simp only: rp_dispatch_def Let_def invalid_refused [OF assms(2)] if_cancel if_False)
qed

text \<open>
  C30: A frame whose session tag is wrong does nothing. An encrypted packet addressed to the remote that does not verify under
  the current session key (or comes when there is none) is refused, and leaves the remote as it was but for
  the observations of the link: the signal average, the hop count seen and the parent named.
\<close>

theorem forged_frames_do_nothing:
  assumes "rp_parse_frame frame = Some (hdr, payload, tag, parent)" and "fh_leaf_mac hdr = rp_leaf_mac s"
    and "is_encrypted_packet (fh_packet_type hdr)" and "\<not> rp_validate_session env hdr payload tag s"
  shows "\<exists>p e h. rp_on_espnow_frame env m frame rssi s =
    (s\<lparr>rp_last_parent_mac := p, rp_parent_link_rssi_ema := e, rp_hops_to_bridge := h\<rparr>, False)"
proof -
  define s1 where "s1 = rp_observe_parent_rssi m rssi
    (if fh_hop_count hdr AND ESPNOW_HOPS_PARENT_CHECK_BIT \<noteq> 0 then s\<lparr>rp_last_parent_mac := parent\<rparr> else s)"
  obtain p e where s1: "s1 = s\<lparr>rp_last_parent_mac := p, rp_parent_link_rssi_ema := e\<rparr>"
    unfolding s1_def by (rule rp_observed)
  obtain h where o: "rp_observe_hops hdr s1 = s1\<lparr>rp_hops_to_bridge := h\<rparr>"
    using rp_observed_hops by blast
  have local: "rp_should_handle_locally hdr s1" using assms(2) by (simp add: rp_should_handle_locally_def s1)
  have "\<not> rp_validate_session env hdr payload tag (rp_observe_hops hdr s1)"
    using assms(4) by (cases tag) (simp_all add: o [unfolded s1] s1 rp_validate_session_def)
  then have d: "rp_dispatch env m hdr payload tag rssi (rp_observe_hops hdr s1) = (rp_observe_hops hdr s1, False)"
    by (rule rp_dispatch_invalid [OF assms(3)])
  have *: "rp_on_espnow_frame env m frame rssi s = (s, False)
      \<or> rp_on_espnow_frame env m frame rssi s = (s1, False)
      \<or> rp_on_espnow_frame env m frame rssi s = (rp_observe_hops hdr s1, False)"
    unfolding rp_on_espnow_frame_def assms(1) Let_def option.case prod.case s1_def [symmetric]
    by (auto simp only: local d if_True simp_thms split: if_split)
  have "s = s\<lparr>rp_last_parent_mac := rp_last_parent_mac s, rp_parent_link_rssi_ema := rp_parent_link_rssi_ema s,
      rp_hops_to_bridge := rp_hops_to_bridge s\<rparr>"
    "s1 = s\<lparr>rp_last_parent_mac := p, rp_parent_link_rssi_ema := e, rp_hops_to_bridge := rp_hops_to_bridge s\<rparr>"
    "rp_observe_hops hdr s1 = s\<lparr>rp_last_parent_mac := p, rp_parent_link_rssi_ema := e, rp_hops_to_bridge := h\<rparr>"
    by (simp_all add: s1 o [unfolded s1])
  then show ?thesis using * by metis
qed

definition forged_frame :: bytes where
  "forged_frame = rp_frame_bytes demo_env None
     (rp_header (packet_code PKT_COMMAND) ESPNOW_HOPS_DIR_DOWN demo_mac 9) [0, 0, 0, 1, 1] @ replicate 8 0"

abbreviation (input) demo_normal_remote :: "unit ofh remote" where
  "demo_normal_remote \<equiv> rp_run [(demo_env, RpFrame [3, 0, 0, 0, 0, 1] demo_frame (- 40))] demo_remote"

definition forged_parts :: "espnow_frame_header \<times> bytes \<times> bytes option \<times> bytes" where
  "forged_parts = (case rp_parse_frame forged_frame of Some parts \<Rightarrow> parts)"

lemma forged_evaluated:
  "rp_parse_frame forged_frame = Some (fst forged_parts, fst (snd forged_parts), fst (snd (snd forged_parts)), snd (snd (snd forged_parts)))"
  "fh_leaf_mac (fst forged_parts) = rp_leaf_mac demo_normal_remote"
  "is_encrypted_packet (fh_packet_type (fst forged_parts))"
  "rp_session_key_valid demo_normal_remote \<and> rp_validate_psk demo_env (fst forged_parts) (fst (snd forged_parts))"
  "\<not> rp_validate_session demo_env (fst forged_parts) (fst (snd forged_parts)) (fst (snd (snd forged_parts))) demo_normal_remote"
  by code_simp+

theorem forged_frames_do_nothing_witness:
  "rp_session_key_valid demo_normal_remote
   \<and> (\<exists>p e h. rp_on_espnow_frame demo_env [3, 0, 0, 0, 0, 1] forged_frame (- 40) demo_normal_remote =
        (demo_normal_remote\<lparr>rp_last_parent_mac := p, rp_parent_link_rssi_ema := e, rp_hops_to_bridge := h\<rparr>, False))"
  using forged_frames_do_nothing [OF forged_evaluated(1,2,3,5)] forged_evaluated(4) by blast

end
