(* ===== verification/RemoteCommands.thy ===== *)
theory RemoteCommands
  imports RemoteClaims Aes256Props
begin

text \<open>
  Which frames make a remote run a command of the application: only a COMMAND for the remote itself whose tags hold
  and whose message is newer than the last one of its entity, and each message once.
\<close>

section \<open>Everything else runs none\<close>

lemma runs_io: "rp_io s s' \<Longrightarrow> rp_commands_run s' = rp_commands_run s"
  by (rule rp_io_fields)

lemma runs_clear [simp]: "rp_commands_run (rp_clear_session_state env b s) = rp_commands_run s"
  by (simp add: rp_clear_session_state_def Let_def rp_refresh_can_relay_def runs_io [OF rp_io_file_call])

lemma runs_phases [simp]:
  "rp_commands_run (rp_tune ch s) = rp_commands_run s"
  "rp_commands_run (rp_refresh_can_relay s) = rp_commands_run s"
  "rp_commands_run (rp_start_discovery_cycle env w s) = rp_commands_run s"
  "rp_commands_run (rp_start_route_recovery_cycle env s) = rp_commands_run s"
  "rp_commands_run (rp_start_config_full_rediscovery env s) = rp_commands_run s"
  by (simp_all add: rp_tune_def rp_refresh_can_relay_def rp_start_discovery_cycle_def rp_start_route_recovery_cycle_def
      rp_start_config_full_rediscovery_def Let_def)

lemma runs_send [simp]:
  "rp_commands_run (fst (rp_send_frame env m t h tx p e pre s)) = rp_commands_run s"
  "rp_commands_run (fst (rp_send_ack env p ref s)) = rp_commands_run s"
  "rp_commands_run (fst (rp_send_config_ack env c r tx s)) = rp_commands_run s"
  "rp_commands_run (fst (rp_file_call env f s)) = rp_commands_run s"
  "rp_commands_run (fst (rp_send_schema_push env i s)) = rp_commands_run s"
  "rp_commands_run (fst (rp_forward_frame env m hdr p tag d s)) = rp_commands_run s"
  by (simp_all add: runs_io [OF rp_io_send_frame] runs_io [OF rp_io_send_ack] runs_io [OF rp_io_config_ack]
      runs_io [OF rp_io_file_call] runs_io [OF rp_io_schema_push] runs_io [OF rp_io_forward_frame])

lemma runs_send_join [simp]: "rp_commands_run (fst (rp_send_join env s)) = rp_commands_run s"
  by (simp add: rp_send_join_def Let_def split_beta)

lemma runs_send_heartbeat [simp]: "rp_commands_run (fst (rp_send_heartbeat env s)) = rp_commands_run s"
  by (simp add: rp_send_heartbeat_def Let_def split_beta)

lemma runs_discover [simp]:
  "rp_commands_run (fst (rp_handle_discover env m hdr p s)) = rp_commands_run s"
  "rp_commands_run (fst (rp_handle_discover_announce env m p rssi s)) = rp_commands_run s"
  by (simp_all add: rp_handle_discover_def rp_send_discover_announce_with_jitter_def Let_def
      rp_handle_discover_announce_def rp_select_parent_candidate_def split: option.split)

lemma runs_join_parts [simp]:
  "rp_commands_run (rp_join_rejected env ack s) = rp_commands_run s"
  "rp_commands_run (rp_join_session env hdr ack s) = rp_commands_run s"
  "rp_commands_run (rp_join_complete env s) = rp_commands_run s"
  by (simp_all add: rp_join_rejected_def rp_join_session_def rp_update_mtu_from_route_def rp_join_complete_def Let_def)

lemma runs_join_ack [simp]: "rp_commands_run (fst (rp_handle_join_ack env hdr p s)) = rp_commands_run s"
  by (simp add: rp_handle_join_ack_def Let_def rp_mark_all_entities_dirty_def split: option.split)

lemma runs_deauth [simp]: "rp_commands_run (fst (rp_handle_deauth env hdr p s)) = rp_commands_run s"
  by (simp add: rp_handle_deauth_def Let_def split_beta)

lemma runs_ack [simp]: "rp_commands_run (fst (rp_handle_ack env hdr p tag s)) = rp_commands_run s"
  by (simp add: rp_handle_ack_def Let_def rp_update_record_def split: option.split)

lemma runs_remember [simp]: "rp_commands_run (fst (rp_ack_and_remember env tx c r s)) = rp_commands_run s"
  by (simp add: rp_ack_and_remember_def)

lemma runs_ack_then:
  "(\<And>s. rp_commands_run (act s) = rp_commands_run s) \<Longrightarrow> rp_commands_run (fst (rp_ack_then env tx c act s)) = rp_commands_run s"
  using runs_remember [of env tx c CFG_RESULT_OK s]
  by (cases "rp_ack_and_remember env tx c CFG_RESULT_OK s") (simp add: rp_ack_then_def)

lemma runs_config_command [simp]: "rp_commands_run (fst (rp_config_command env tx c p s)) = rp_commands_run s"
  unfolding rp_config_command_def Let_def
  by (simp add: runs_ack_then rp_prefer_parent_def Let_def rp_set_relay_enabled_runtime_def)

lemma runs_config [simp]: "rp_commands_run (fst (rp_handle_config env hdr p tag s)) = rp_commands_run s"
  by (simp add: rp_handle_config_def Let_def split: option.split)

lemma runs_schema_request [simp]: "rp_commands_run (fst (rp_handle_schema_request env hdr p tag s)) = rp_commands_run s"
  by (simp add: rp_handle_schema_request_def rp_send_identity_descriptor_def Let_def split: option.split)

lemma runs_file [simp]:
  "rp_commands_run (fst (rp_handle_file_transfer env hdr p tag s)) = rp_commands_run s"
  "rp_commands_run (fst (rp_handle_file_data env hdr p tag s)) = rp_commands_run s"
  by (simp_all add: rp_handle_file_transfer_def rp_handle_file_data_def Let_def split: option.split)

lemma runs_forward [simp]: "rp_commands_run (fst (rp_forward_packet env hdr p tag s)) = rp_commands_run s"
  by (simp add: rp_forward_packet_def rp_refresh_route_def Let_def split: option.split)

lemma runs_upstream [simp]: "rp_commands_run (fst (rp_handle_upstream env m hdr p tag s)) = rp_commands_run s"
  by (simp add: rp_handle_upstream_def rp_refresh_route_def rp_log_providing_relay_def Let_def)

lemma runs_downstream [simp]: "rp_commands_run (fst (rp_handle_downstream env hdr p tag s)) = rp_commands_run s"
  by (simp add: rp_handle_downstream_def Let_def)

lemma runs_dispatch:
  assumes "fh_packet_type hdr \<noteq> packet_code PKT_COMMAND"
  shows "rp_commands_run (fst (rp_dispatch env m hdr p tag rssi s)) = rp_commands_run s"
  using assms by (simp add: rp_dispatch_def Let_def)

lemma runs_observe [simp]:
  "rp_commands_run (rp_observe_parent_rssi m rssi s) = rp_commands_run s"
  "rp_commands_run (rp_observe_hops hdr s) = rp_commands_run s"
  by (simp_all add: rp_observe_parent_rssi_def rp_observe_hops_def)

lemma observe_records [simp]:
  "rp_entity_records (rp_observe_parent_rssi m rssi s) = rp_entity_records s"
  "rp_entity_records (rp_observe_hops hdr s) = rp_entity_records s"
  by (simp_all add: rp_observe_parent_rssi_def rp_observe_hops_def)

lemma observe_session [simp]:
  "rp_session_key_valid (rp_observe_parent_rssi m rssi s) = rp_session_key_valid s"
  "rp_session_key_valid (rp_observe_hops hdr s) = rp_session_key_valid s"
  "rp_session_key (rp_observe_parent_rssi m rssi s) = rp_session_key s"
  "rp_session_key (rp_observe_hops hdr s) = rp_session_key s"
  "rp_leaf_mac (rp_observe_parent_rssi m rssi s) = rp_leaf_mac s"
  "rp_leaf_mac (rp_observe_hops hdr s) = rp_leaf_mac s"
  by (simp_all add: rp_observe_parent_rssi_def rp_observe_hops_def)

section \<open>A COMMAND runs at most one command\<close>

definition runs_command ::
  "'h rp_env \<Rightarrow> espnow_frame_header \<Rightarrow> bytes \<Rightarrow> bytes option \<Rightarrow> 'h remote \<Rightarrow> 'h remote \<Rightarrow> bool" where
  "runs_command env hdr payload tag s s' \<longleftrightarrow>
     rp_validate_session env hdr payload tag s
     \<and> (\<exists>plaintext command assembled. rp_open env hdr payload tag s = Some plaintext
          \<and> parse_entity_payload plaintext = Some command
          \<and> unat (epv_entity_index command) < length (rp_entity_records s)
          \<and> counter_is_newer (fragment_message_tx_base hdr command)
              (er_last_completed_command_message_tx_base (rp_entity_records s ! unat (epv_entity_index command)))
          \<and> rp_commands_run s' = rp_commands_run s @ [(epv_entity_index command, epv_flags command, assembled)]
          \<and> er_last_completed_command_message_tx_base (rp_entity_records s' ! unat (epv_entity_index command))
              = fragment_message_tx_base hdr command)"

lemma handle_command_runs:
  assumes "rp_handle_command env hdr p tag s = (s', r)"
  shows "rp_commands_run s' = rp_commands_run s \<or> runs_command env hdr p tag s s'"
  using assms
proof (cases rule: rp_handle_command_cases)
  case kept
  then show ?thesis by (simp add: runs_io)
next
  case (fragment pending last_seen)
  then show ?thesis by simp
next
  case (run plaintext command pending last_seen assembled)
  let ?c = "rp_completed env command (fragment_message_tx_base hdr command) pending last_seen assembled s"
  have io: "rp_commands_run s' = rp_commands_run ?c" "rp_entity_records s' = rp_entity_records ?c"
    using run(8) by (simp_all add: rp_io_fields)
  show ?thesis
  proof (cases "env_command_fn env")
    case True
    then have "rp_commands_run s' = rp_commands_run s @ [(epv_entity_index command, epv_flags command, assembled)]"
      "er_last_completed_command_message_tx_base (rp_entity_records s' ! unat (epv_entity_index command))
         = fragment_message_tx_base hdr command"
      using run(5) by (simp_all add: io rp_completed_def Let_def rp_update_record_def)
    then show ?thesis using run(2-6) unfolding runs_command_def by blast
  next
    case False
    then have "rp_commands_run s' = rp_commands_run s" by (simp add: io rp_completed_def Let_def rp_update_record_def)
    then show ?thesis ..
  qed
qed

lemma completed_key:
  "rp_session_key (rp_completed env command base pending last_seen assembled s) = rp_session_key s"
  "rp_session_key_valid (rp_completed env command base pending last_seen assembled s) = rp_session_key_valid s"
  by (cases "env_command_fn env"; simp add: rp_completed_def Let_def rp_update_record_def)+

lemma handle_command_key:
  assumes "rp_handle_command env hdr p tag s = (s', r)"
  shows "rp_session_key s' = rp_session_key s \<and> rp_session_key_valid s' = rp_session_key_valid s"
  using assms
proof (cases rule: rp_handle_command_cases)
  case (run plaintext command pending last_seen assembled)
  then show ?thesis by (simp add: rp_io_fields [OF run(8)] completed_key)
qed (simp_all add: rp_io_fields)

section \<open>Frames\<close>

text \<open>What a frame can come to, in terms of the state with the observations of the link.\<close>

lemma frame_cases:
  assumes "rp_parse_frame frame = Some (hdr, payload, tag, parent)"
  obtains (none) "rp_commands_run (fst (rp_on_espnow_frame env m frame rssi s)) = rp_commands_run s"
  | (command) p e h where "rp_validate_psk env hdr payload" "fh_packet_type hdr = packet_code PKT_COMMAND" "fh_leaf_mac hdr = rp_leaf_mac s"
      "rp_on_espnow_frame env m frame rssi s = rp_handle_command env hdr payload tag
         (s\<lparr>rp_last_parent_mac := p, rp_parent_link_rssi_ema := e, rp_hops_to_bridge := h\<rparr>)"
proof -
  define s1 where "s1 = rp_observe_parent_rssi m rssi
    (if fh_hop_count hdr AND ESPNOW_HOPS_PARENT_CHECK_BIT \<noteq> 0 then s\<lparr>rp_last_parent_mac := parent\<rparr> else s)"
  obtain p e where s1: "s1 = s\<lparr>rp_last_parent_mac := p, rp_parent_link_rssi_ema := e\<rparr>"
    unfolding s1_def by (rule rp_observed)
  obtain h where o: "rp_observe_hops hdr s1 = s1\<lparr>rp_hops_to_bridge := h\<rparr>"
    using rp_observed_hops by blast
  let ?o = "rp_observe_hops hdr s1"
  have runs: "rp_commands_run s1 = rp_commands_run s" "rp_commands_run ?o = rp_commands_run s"
    by (simp_all add: s1)
  have "rp_commands_run (fst (rp_on_espnow_frame env m frame rssi s)) = rp_commands_run s
      \<or> (rp_validate_psk env hdr payload \<and> rp_should_handle_locally hdr s1
         \<and> rp_on_espnow_frame env m frame rssi s = rp_dispatch env m hdr payload tag rssi ?o)"
    unfolding rp_on_espnow_frame_def assms(1) Let_def option.case prod.case s1_def [symmetric]
    by (auto simp only: runs runs_upstream runs_downstream fst_conv simp_thms split: if_split)
  then show thesis
  proof
    assume d: "rp_validate_psk env hdr payload \<and> rp_should_handle_locally hdr s1
         \<and> rp_on_espnow_frame env m frame rssi s = rp_dispatch env m hdr payload tag rssi ?o"
    show thesis
    proof (cases "fh_packet_type hdr = packet_code PKT_COMMAND")
      case True
      have "rp_dispatch env m hdr payload tag rssi ?o = rp_handle_command env hdr payload tag ?o"
        by (simp add: rp_dispatch_def Let_def True)
      moreover have "fh_leaf_mac hdr = rp_leaf_mac s" using d True by (simp add: rp_should_handle_locally_def s1)
      ultimately show thesis using command [where p = p and e = e and h = h] d True by (simp add: o [unfolded s1] s1)
    next
      case False
      then show thesis using none d runs by (simp add: runs_dispatch)
    qed
  qed (rule none)
qed

lemma counter_not_newer_than_itself [simp]: "\<not> counter_is_newer c c"
  by (simp add: counter_is_newer_def)

lemma runs_command_observed [simp]:
  "runs_command env hdr payload tag (s\<lparr>rp_last_parent_mac := p, rp_parent_link_rssi_ema := e, rp_hops_to_bridge := h\<rparr>) s'
     = runs_command env hdr payload tag s s'"
proof -
  have v: "rp_validate_session env hdr payload tag (s\<lparr>rp_last_parent_mac := p, rp_parent_link_rssi_ema := e, rp_hops_to_bridge := h\<rparr>)
      = rp_validate_session env hdr payload tag s"
    by (cases tag) (simp_all add: rp_validate_session_def)
  have "rp_open env hdr payload tag (s\<lparr>rp_last_parent_mac := p, rp_parent_link_rssi_ema := e, rp_hops_to_bridge := h\<rparr>)
      = rp_open env hdr payload tag s"
    by (simp add: v rp_open_def)
  then show ?thesis by (simp add: runs_command_def v)
qed

section \<open>An example\<close>

text \<open>
  A remote with one switch, joined but without a parent yet (so that it sends nothing), gets a COMMAND. The ciphertext is left
  unevaluated: of the cipher only its length and that it is undone by itself are used.
\<close>

definition switch_remote :: "unit ofh remote" where
  "switch_remote = rp_run
     [(demo_env, RpRegister 1 [65] [] [] [66]),
      (demo_env, RpFrame [3, 0, 0, 0, 0, 1]
         (join_ack_frame (env_hmac demo_env) (env_crypto demo_env) demo_mac 5
            \<lparr>jack_accepted = 1, jack_reason = 0, jack_stage = ESPNOW_JOIN_STATUS_SCHEMA_REFRESH,
             jack_bridge_nonce = replicate 16 4, jack_session_flags = 1\<rparr>) (- 40))] demo_remote"

definition command_plaintext :: bytes where
  "command_plaintext = append_entity_payload 0 0 0 1 (Some [1]) 1"

abbreviation (input) command_header :: espnow_frame_header where
  "command_header \<equiv> (rp_header (packet_code PKT_COMMAND) ESPNOW_HOPS_DIR_DOWN demo_mac 9)\<lparr>fh_psk_tag := replicate 4 1\<rparr>"

definition switch_cipher :: bytes where
  "switch_cipher = aes256_ctr_crypt (replicate 32 1) 9 command_plaintext"

definition switch_frame :: bytes where
  "switch_frame = c_enc espnow_frame_header_codec command_header @ switch_cipher @ replicate 8 1"

lemma switch_cipher_bytes: obtains a b c d e f where "switch_cipher = [a, b, c, d, e, f]"
proof -
  have "length command_plaintext = 6" by code_simp
  then have "length switch_cipher = 6" by (simp add: switch_cipher_def ctr_crypt_twice)
  then show ?thesis using that by (auto simp: length_Suc_conv eval_nat_numeral)
qed

lemma switch_parsed: "rp_parse_frame switch_frame = Some (command_header, switch_cipher, Some (replicate 8 1), zero_mac)"
proof -
  have "rp_parse_frame (c_enc espnow_frame_header_codec command_header @ [a, b, c, d, e, f] @ replicate 8 1)
      = Some (command_header, [a, b, c, d, e, f], Some (replicate 8 1), zero_mac)" for a b c d e f
    by code_simp
  then show ?thesis unfolding switch_frame_def by (metis switch_cipher_bytes)
qed

lemma switch_session: "rp_joined switch_remote" "rp_session_key switch_remote = replicate 32 1" "rp_commands_run switch_remote = []"
  by code_simp+

lemma switch_opened:
  "rp_open demo_env command_header switch_cipher (Some (replicate 8 1)) switch_remote = Some command_plaintext"
proof -
  have "rp_validate_session demo_env command_header [a, b, c, d, e, f] (Some (replicate 8 1)) switch_remote" for a b c d e f
    by code_simp
  then have "rp_validate_session demo_env command_header switch_cipher (Some (replicate 8 1)) switch_remote"
    by (metis switch_cipher_bytes)
  moreover have "g_psk_set (env_crypto demo_env)" by (simp add: demo_env_def)
  ultimately show ?thesis
    by (simp add: rp_open_def espnow_crypto_crypt_def switch_session switch_cipher_def ctr_crypt_twice rp_header_def)
qed

lemma switch_fields: "rp_leaf_mac switch_remote = demo_mac" "\<not> rp_parent_valid switch_remote" "rp_max_hops switch_remote = 5"
    "rp_session_max_payload switch_remote = 1470"
  by code_simp+

lemma switch_dispatched:
  "rp_on_espnow_frame demo_env [3, 0, 0, 0, 0, 1] switch_frame (- 40) switch_remote
     = rp_handle_command demo_env command_header switch_cipher (Some (replicate 8 1)) switch_remote"
proof -
  have "rp_validate_psk demo_env command_header [a, b, c, d, e, f]" for a b c d e f
    by code_simp
  then have psk: "rp_validate_psk demo_env command_header switch_cipher" by (metis switch_cipher_bytes)
  have obs: "rp_observe_parent_rssi [3, 0, 0, 0, 0, 1] (- 40) switch_remote = switch_remote"
    "rp_observe_hops command_header switch_remote = switch_remote"
    using switch_fields by (simp_all add: rp_observe_parent_rssi_def rp_observe_hops_def rp_header_def hops_is_upstream_def)
  have len: "length switch_frame = 31"
  proof -
    have "length (c_enc espnow_frame_header_codec command_header @ [a, b, c, d, e, f] @ replicate 8 1) = 31" for a b c d e f
      by code_simp
    then show ?thesis unfolding switch_frame_def by (metis switch_cipher_bytes)
  qed
  have loc: "rp_should_handle_locally command_header switch_remote" by (simp add: rp_should_handle_locally_def switch_fields rp_header_def)
  have "rp_on_espnow_frame demo_env [3, 0, 0, 0, 0, 1] switch_frame (- 40) switch_remote
      = rp_dispatch demo_env [3, 0, 0, 0, 0, 1] command_header switch_cipher (Some (replicate 8 1)) (- 40) switch_remote"
    unfolding rp_on_espnow_frame_def switch_parsed Let_def option.case prod.case
    using psk len loc switch_fields by (simp add: obs obs(2) [unfolded rp_header_def, simplified] rp_header_def hops_count_def)
  then show ?thesis by (simp add: rp_dispatch_def Let_def rp_header_def)
qed
lemma switch_run:
  "rp_commands_run (fst (rp_handle_command demo_env command_header switch_cipher (Some (replicate 8 1)) switch_remote)) = [(0, 0, [1])]"
  unfolding rp_handle_command_def switch_opened option.case
  by (simp only: switch_session not_True_eq_False if_False) code_simp

text \<open>
  C29: A command runs once, and only for a frame that holds. When a frame makes the remote run a command of the application, it is
  a COMMAND for this remote, its network and session tags verify, its plaintext is the packet of
  one entity of the remote whose message is newer than the last completed one, and exactly that entity's value is
  run. The same frame again, whatever happened to the link, runs nothing.
\<close>

theorem commands_run_once:
  assumes "rp_on_espnow_frame env m frame rssi s = (s', r)" and "rp_commands_run s' \<noteq> rp_commands_run s"
    and "rp_parse_frame frame = Some (hdr, payload, tag, parent)"
    and "env_hmac env' = env_hmac env" and "env_crypto env' = env_crypto env"
  shows "fh_packet_type hdr = packet_code PKT_COMMAND \<and> fh_leaf_mac hdr = rp_leaf_mac s
    \<and> rp_validate_psk env hdr payload \<and> runs_command env hdr payload tag s s'
    \<and> rp_commands_run (fst (rp_on_espnow_frame env' m' frame rssi' s')) = rp_commands_run s'"
using assms(3)
proof (cases rule: frame_cases [where env = env and m = m and rssi = rssi and s = s])
  case none
  then show ?thesis using assms(1,2) by simp
next
  case (command p e h)
  let ?t = "s\<lparr>rp_last_parent_mac := p, rp_parent_link_rssi_ema := e, rp_hops_to_bridge := h\<rparr>"
  have hc: "rp_handle_command env hdr payload tag ?t = (s', r)" using command(4) assms(1) by simp
  have runs: "runs_command env hdr payload tag s s'"
    using handle_command_runs [OF hc] assms(2) by simp
  have same: "rp_session_key s' = rp_session_key s" "rp_session_key_valid s' = rp_session_key_valid s"
    using handle_command_key [OF hc] by simp_all
  have opens: "rp_open env' hdr payload tag s' = rp_open env hdr payload tag s"
    by (cases tag) (simp_all add: rp_open_def rp_validate_session_def same assms(4,5))
  have "rp_commands_run (fst (rp_on_espnow_frame env' m' frame rssi' s')) = rp_commands_run s'"
    using assms(3)
  proof (cases rule: frame_cases [where env = env' and m = m' and rssi = rssi' and s = s'])
    case (command p e h)
    obtain s'' r' where hc': "rp_handle_command env' hdr payload tag
        (s'\<lparr>rp_last_parent_mac := p, rp_parent_link_rssi_ema := e, rp_hops_to_bridge := h\<rparr>) = (s'', r')" by fastforce
    have "\<not> runs_command env' hdr payload tag s' s''"
      using runs by (auto simp: runs_command_def opens)
    then show ?thesis using handle_command_runs [OF hc'] command(4) hc' by simp
  qed
  then show ?thesis using command(1-3) runs by blast
qed

theorem commands_run_once_witness:
  "rp_commands_run (fst (rp_on_espnow_frame demo_env [3, 0, 0, 0, 0, 1] switch_frame (- 40) switch_remote)) = [(0, 0, [1])]
   \<and> rp_commands_run (fst (rp_on_espnow_frame demo_env [9, 9, 9, 9, 9, 9] switch_frame (- 30)
        (fst (rp_on_espnow_frame demo_env [3, 0, 0, 0, 0, 1] switch_frame (- 40) switch_remote)))) = [(0, 0, [1])]"
proof -
  let ?r = "rp_on_espnow_frame demo_env [3, 0, 0, 0, 0, 1] switch_frame (- 40) switch_remote"
  have run: "rp_commands_run (fst ?r) = [(0, 0, [1])]" unfolding switch_dispatched by (rule switch_run)
  have "rp_commands_run (fst (rp_on_espnow_frame demo_env [9, 9, 9, 9, 9, 9] switch_frame (- 30) (fst ?r))) = rp_commands_run (fst ?r)"
    using commands_run_once [OF prod.collapse [symmetric] _ switch_parsed refl refl, of demo_env "[3, 0, 0, 0, 0, 1]" "- 40" switch_remote
        "[9, 9, 9, 9, 9, 9]" "- 30"] run by (simp add: switch_session)
  then show ?thesis using run by simp
qed

end
