(* ===== verification/BridgeState.thy ===== *)
theory BridgeState
  imports Frames Fragments BridgeOta
begin

text \<open>
  The state of the bridge's protocol (\<^verbatim>\<open>esp_tree_bridge/bridge_protocol.h\<close>): the class
  \<^verbatim>\<open>BridgeProtocol\<close> is the record \<open>bp\<close>, a remote's session is the record \<open>bp_session\<close>, and the
  \<^verbatim>\<open>std::map\<close> of sessions is a list of pairs sorted by key. A method that takes a session by
  reference is a function on the pair of the bridge and that session; the handler that looked the session up
  puts it back. The callbacks of the bridge component, which installs all of them before the first
  frame, are appended to the list \<open>bp_effects\<close>; those that call back do so as their handler's last action, and are
  separate events here. Packet and state logs are left out. Signal strengths are integers in the range of
  \<^verbatim>\<open>int8_t\<close>.
\<close>

section \<open>Constants\<close>

abbreviation (input) ESPNOW_MAX_ENTITY_FRAGMENT_LEN :: nat where "ESPNOW_MAX_ENTITY_FRAGMENT_LEN \<equiv> 220"
abbreviation (input) ESPNOW_MAX_FRAGMENT_ASSEMBLY_BYTES :: u16 where "ESPNOW_MAX_FRAGMENT_ASSEMBLY_BYTES \<equiv> 1024"
abbreviation (input) ESPNOW_MAX_TOTAL_FRAGMENT_BYTES_PER_SESSION :: u16 where
  "ESPNOW_MAX_TOTAL_FRAGMENT_BYTES_PER_SESSION \<equiv> 4096"
abbreviation (input) ESPNOW_MQTT_CONFIRM_TIMEOUT_MS :: u32 where "ESPNOW_MQTT_CONFIRM_TIMEOUT_MS \<equiv> 2000"
abbreviation (input) ESPNOW_STATE_SYNC_TIMEOUT_MS :: u32 where "ESPNOW_STATE_SYNC_TIMEOUT_MS \<equiv> 30000"
abbreviation (input) ESPNOW_SCHEMA_OPTIONS_LEN :: nat where "ESPNOW_SCHEMA_OPTIONS_LEN \<equiv> 145"
abbreviation (input) DIAG_PUBLISH_INTERVAL_MS :: u32 where "DIAG_PUBLISH_INTERVAL_MS \<equiv> 10000"
abbreviation (input) OFFLINE_TIMEOUT_GRACE_MS :: u32 where "OFFLINE_TIMEOUT_GRACE_MS \<equiv> 5000"
abbreviation (input) MAX_SESSIONS :: nat where "MAX_SESSIONS \<equiv> 128"
abbreviation (input) SESSION_CLEANUP_INTERVAL_MS :: u32 where "SESSION_CLEANUP_INTERVAL_MS \<equiv> 60000"
abbreviation (input) RAM_EVICTION_BUFFER_BYTES :: u32 where "RAM_EVICTION_BUFFER_BYTES \<equiv> 10240"
abbreviation (input) MIN_SESSIONS_TO_PROTECT :: nat where "MIN_SESSIONS_TO_PROTECT \<equiv> 8"
abbreviation (input) CONFIG_ACK_TIMEOUT_MS :: u32 where "CONFIG_ACK_TIMEOUT_MS \<equiv> 500"
abbreviation (input) CONFIG_MAX_RETRIES :: u8 where "CONFIG_MAX_RETRIES \<equiv> 3"
abbreviation (input) BP_RETRY_JITTER_MS :: u32 where "BP_RETRY_JITTER_MS \<equiv> 50"
abbreviation (input) BP_ANNOUNCE_JITTER_MS :: u32 where "BP_ANNOUNCE_JITTER_MS \<equiv> 20"
abbreviation (input) BP_MAX_RETRIES :: u8 where "BP_MAX_RETRIES \<equiv> 4"
abbreviation (input) BP_JOIN_WAIT :: u8 where "BP_JOIN_WAIT \<equiv> 3"
abbreviation (input) BP_SCHEMA_REFRESH :: u8 where "BP_SCHEMA_REFRESH \<equiv> 1"
abbreviation (input) BP_SEND_STATE :: u8 where "BP_SEND_STATE \<equiv> 2"
abbreviation (input) BP_COMPLETE :: u8 where "BP_COMPLETE \<equiv> 100"
abbreviation (input) BP_ACK_STATE :: u8 where "BP_ACK_STATE \<equiv> 4"
abbreviation (input) BP_ACK_COMMAND :: u8 where "BP_ACK_COMMAND \<equiv> 6"

section \<open>Sessions\<close>

datatype bp_remote_state = BRS_NONE | BRS_JOINED | BRS_NORMAL

record BridgeEntitySchema =
  bes_entity_index :: u8
  bes_entity_type :: u8
  bes_entity_name :: bytes
  bes_entity_unit :: bytes
  bes_entity_options :: bytes
  bes_entity_id :: bytes

definition BridgeEntitySchema_init :: BridgeEntitySchema where
  "BridgeEntitySchema_init =
     \<lparr>bes_entity_index = 0, bes_entity_type = 0, bes_entity_name = [], bes_entity_unit = [],
      bes_entity_options = [], bes_entity_id = []\<rparr>"

record bp_session =
  bs_leaf_mac :: bytes
  bs_parent_mac :: bytes
  bs_session_key :: bytes
  bs_bridge_nonce :: bytes
  bs_remote_nonce :: bytes
  bs_schema_hash :: bytes
  bs_next_hop_mac :: bytes
  bs_last_seen_counter :: u32
  bs_tx_counter :: u32
  bs_last_seen_bridge_uptime_s :: u32
  bs_discover_announce_deadline_ms :: u32
  bs_discover_announce_leaf_mac :: bytes
  bs_joined_ms :: u32
  bs_expected_contact_interval_s :: u32
  bs_uptime_seconds :: u32
  bs_hops_to_bridge :: u8
  bs_last_reported_hops_to_bridge :: u8
  bs_total_entities :: u8
  bs_session_max_payload :: u16
  bs_max_entity_fragment :: u16
  bs_max_assembly_bytes :: u16
  bs_max_total_fragment_bytes :: u16
  bs_leaf_session_flags :: u8
  bs_firmware_md5 :: bytes
  bs_chip_model :: u32
  bs_pending_schema_index :: u8
  bs_pending_schema_descriptor_type :: u8
  bs_schema_request_retries :: u8
  bs_join_complete_retry_count :: u8
  bs_direct_child_count :: u8
  bs_total_child_count :: u16
  bs_last_rssi :: int
  bs_rx_packets :: u32
  bs_tx_packets :: u32
  bs_last_schema_request_ms :: u32
  bs_last_join_complete_ms :: u32
  bs_last_completed_state_message_tx_base :: u32
  bs_session_key_valid :: bool
  bs_bridge_nonce_valid :: bool
  bs_remote_nonce_valid :: bool
  bs_online :: bool
  bs_remote_state :: bp_remote_state
  bs_schema_received :: bool
  bs_schema_request_in_flight :: bool
  bs_awaiting_discovery_confirm :: bool
  bs_pending_schema_request_index :: u8
  bs_last_discovery_confirm_ms :: u32
  bs_join_complete_pending :: bool
  bs_state_sync_pending :: bool
  bs_awaiting_more_dirty :: bool
  bs_join_in_progress :: bool
  bs_pending_discovery_count :: u8
  bs_discovery_all_confirmed :: bool
  bs_esphome_name :: bytes
  bs_node_label :: bytes
  bs_firmware_epoch :: u32
  bs_build_date :: bytes
  bs_build_time :: bytes
  bs_project_name :: bytes
  bs_project_version :: bytes
  bs_mac_hex_key :: bytes
  bs_parent_mac_hex_key :: bytes
  bs_last_offline_reason :: string
  bs_schema_entities :: "BridgeEntitySchema list"
  bs_pending_state_assemblies :: command_assemblies
  bs_pending_schema_assemblies :: command_assemblies

definition bp_session_init :: bp_session where
  "bp_session_init =
     \<lparr>bs_leaf_mac = replicate 6 0, bs_parent_mac = replicate 6 0, bs_session_key = replicate 32 0,
      bs_bridge_nonce = replicate 16 0, bs_remote_nonce = replicate 16 0, bs_schema_hash = replicate 32 0,
      bs_next_hop_mac = replicate 6 0, bs_last_seen_counter = 0, bs_tx_counter = 1,
      bs_last_seen_bridge_uptime_s = 0, bs_discover_announce_deadline_ms = 0,
      bs_discover_announce_leaf_mac = replicate 6 0, bs_joined_ms = 0, bs_expected_contact_interval_s = 0,
      bs_uptime_seconds = 0, bs_hops_to_bridge = 0, bs_last_reported_hops_to_bridge = 0,
      bs_total_entities = 0, bs_session_max_payload = of_nat ESPNOW_V1_MAX_PAYLOAD,
      bs_max_entity_fragment = of_nat ESPNOW_MAX_ENTITY_FRAGMENT_LEN,
      bs_max_assembly_bytes = ESPNOW_MAX_FRAGMENT_ASSEMBLY_BYTES,
      bs_max_total_fragment_bytes = ESPNOW_MAX_TOTAL_FRAGMENT_BYTES_PER_SESSION,
      bs_leaf_session_flags = 0, bs_firmware_md5 = replicate 16 0, bs_chip_model = 0,
      bs_pending_schema_index = 255, bs_pending_schema_descriptor_type = ESPNOW_DESCRIPTOR_TYPE_ENTITY,
      bs_schema_request_retries = 0, bs_join_complete_retry_count = 0, bs_direct_child_count = 0,
      bs_total_child_count = 0, bs_last_rssi = - 128, bs_rx_packets = 0, bs_tx_packets = 0,
      bs_last_schema_request_ms = 0, bs_last_join_complete_ms = 0,
      bs_last_completed_state_message_tx_base = 0, bs_session_key_valid = False,
      bs_bridge_nonce_valid = False, bs_remote_nonce_valid = False, bs_online = False,
      bs_remote_state = BRS_NONE, bs_schema_received = False, bs_schema_request_in_flight = False,
      bs_awaiting_discovery_confirm = False, bs_pending_schema_request_index = 255,
      bs_last_discovery_confirm_ms = 0, bs_join_complete_pending = False, bs_state_sync_pending = False,
      bs_awaiting_more_dirty = True, bs_join_in_progress = False, bs_pending_discovery_count = 0,
      bs_discovery_all_confirmed = False, bs_esphome_name = [], bs_node_label = [],
      bs_firmware_epoch = 0, bs_build_date = [], bs_build_time = [], bs_project_name = [],
      bs_project_version = [], bs_mac_hex_key = [], bs_parent_mac_hex_key = [],
      bs_last_offline_reason = '''', bs_schema_entities = [],
      bs_pending_state_assemblies = command_assemblies_init,
      bs_pending_schema_assemblies = command_assemblies_init\<rparr>"

definition bs_update_from_mtu :: "bp_session \<Rightarrow> bp_session" where
  "bs_update_from_mtu s =
     s\<lparr>bs_max_entity_fragment := espnow_max_entity_fragment (bs_session_max_payload s),
       bs_max_assembly_bytes := espnow_max_assembly_bytes (bs_session_max_payload s),
       bs_max_total_fragment_bytes := espnow_max_total_fragment_bytes (bs_session_max_payload s)\<rparr>"

section \<open>The bridge\<close>

record CachedSessionData =
  csd_schema_entities :: "BridgeEntitySchema list"
  csd_esphome_name :: bytes
  csd_node_label :: bytes
  csd_firmware_epoch :: u32
  csd_build_date :: bytes
  csd_build_time :: bytes
  csd_project_name :: bytes
  csd_project_version :: bytes
  csd_session_max_payload :: u16
  csd_chip_model :: u32
  csd_firmware_md5 :: bytes

record ConfigAckResult =
  car_acked :: bool
  car_timed_out :: bool
  car_no_session :: bool
  car_result :: u8
  car_command_echo :: u8

definition ConfigAckResult_init :: ConfigAckResult where
  "ConfigAckResult_init =
     \<lparr>car_acked = False, car_timed_out = False, car_no_session = False, car_result = CFG_RESULT_REJECTED,
      car_command_echo = 0\<rparr>"

record PendingCommand =
  pc_field_index :: u8
  pc_value :: bytes
  pc_leaf_mac :: bytes
  pc_next_hop_mac :: bytes
  pc_tx_base :: u32
  pc_last_tx_ms :: u32
  pc_retry_count :: u8

text \<open>The callback of a pending configuration is the caller's number for it.\<close>

record PendingConfig =
  pcf_leaf_mac :: bytes
  pcf_next_hop_mac :: bytes
  pcf_command :: u8
  pcf_payload :: bytes
  pcf_tx_base :: u32
  pcf_retry_count :: u8
  pcf_next_retry_ms :: u32
  pcf_ack_timeout_ms :: u32
  pcf_callback :: "nat option"

record BridgeIdentity =
  bi_chip_model :: u32
  bi_firmware_epoch :: u32
  bi_build_date :: bytes
  bi_build_time :: bytes
  bi_project_name :: bytes
  bi_project_version :: bytes
  bi_firmware_md5 :: bytes

datatype bp_effect =
    PublishState bytes BridgeEntitySchema bytes u8 bytes u32 bytes
  | PublishDiscovery bytes BridgeEntitySchema u8 bool
  | PublishAvailability bytes bool string
  | PublishTopologyChanged bytes string
  | PublishBridgeDiag u32 u8
  | ClearEntities bytes "BridgeEntitySchema list"
  | SchemaComplete bytes u8
  | FileAck bytes espnow_ack "bytes option"
  | ConfigDone nat ConfigAckResult

record bp =
  bp_network_id :: bytes
  bp_heartbeat_interval :: u16
  bp_psk_valid :: bool
  bp_bridge_mac :: bytes
  bp_bridge_mac_valid :: bool
  bp_runtime_ready :: bool
  bp_joining_in_progress :: bool
  bp_joining_leaf_mac :: bytes
  bp_join_started_ms :: u32
  bp_sessions :: "(u64 \<times> bp_session) list"
  bp_schema_cache :: "(bytes \<times> CachedSessionData) list"
  bp_schema_hash_cache :: "(bytes \<times> bytes) list"
  bp_bridge_uptime_s :: u32
  bp_last_diag_publish_ms :: u32
  bp_last_uptime_tick_ms :: u32
  bp_last_session_cleanup_ms :: u32
  bp_last_diag_online_count :: u8
  bp_bridge_session_flags :: u8
  bp_identity :: BridgeIdentity
  bp_command_queue :: "PendingCommand list"
  bp_pending_configs :: "PendingConfig list"
  bp_heap_reads :: nat
  bp_random_draws :: nat
  bp_sent :: "(bytes \<times> bytes) list"
  bp_effects :: "bp_effect list"

definition BridgeProtocol_new :: bp where
  "BridgeProtocol_new =
     \<lparr>bp_network_id = [], bp_heartbeat_interval = 60, bp_psk_valid = False, bp_bridge_mac = replicate 6 0,
      bp_bridge_mac_valid = False, bp_runtime_ready = False, bp_joining_in_progress = False,
      bp_joining_leaf_mac = replicate 6 0, bp_join_started_ms = 0, bp_sessions = [], bp_schema_cache = [],
      bp_schema_hash_cache = [], bp_bridge_uptime_s = 0, bp_last_diag_publish_ms = 0,
      bp_last_uptime_tick_ms = 0, bp_last_session_cleanup_ms = 0, bp_last_diag_online_count = 255,
      bp_bridge_session_flags = 0,
      bp_identity = \<lparr>bi_chip_model = 0, bi_firmware_epoch = 0, bi_build_date = [], bi_build_time = [],
        bi_project_name = [], bi_project_version = [], bi_firmware_md5 = replicate 16 0\<rparr>,
      bp_command_queue = [], bp_pending_configs = [], bp_heap_reads = 0, bp_random_draws = 0,
      bp_sent = [], bp_effects = []\<rparr>"

text \<open>
  What one call sees of the platform. \<open>bpe_send\<close> and \<open>bpe_send_err\<close> are the two send functions, applied to the
  frames sent before, the address and the frame. The n-th reading of the free heap and the n-th random number
  are functions of \<open>n\<close>, counted by \<open>bp_heap_reads\<close> and \<open>bp_random_draws\<close>. \<open>bpe_ram_low\<close> is the comparison of the free share of the
  heap with the warning level (or, when asked so, the critical level), and \<open>bpe_ram_critical\<close> that of the free bytes with a tenth of the
  heap, both in single precision.
\<close>

record bp_env =
  bpe_now :: u32
  bpe_random :: "nat \<Rightarrow> u32"
  bpe_nonce :: bytes
  bpe_hmac :: "bytes \<Rightarrow> bytes \<Rightarrow> bytes"
  bpe_crypto :: crypto_state
  bpe_send :: "((bytes \<times> bytes) list \<Rightarrow> bytes \<Rightarrow> bytes \<Rightarrow> bool) option"
  bpe_send_err :: "((bytes \<times> bytes) list \<Rightarrow> bytes \<Rightarrow> bytes \<Rightarrow> esp_err_t) option"
  bpe_free_heap :: "nat \<Rightarrow> u32"
  bpe_total_heap :: u32
  bpe_ram_low :: "bool \<Rightarrow> u32 \<Rightarrow> u32 \<Rightarrow> bool"
  bpe_ram_critical :: "u32 \<Rightarrow> u32 \<Rightarrow> bool"
  bpe_chip_model :: u32
  bpe_file_ack_fn :: bool

section \<open>The table of sessions\<close>

definition mac_to_key :: "bytes \<Rightarrow> u64" where
  "mac_to_key mac = fold (\<lambda>i key. key OR push_bit (i * 8) (ucast (mac ! i) :: u64)) [0..<6] 0"

fun bp_put :: "u64 \<Rightarrow> bp_session \<Rightarrow> (u64 \<times> bp_session) list \<Rightarrow> (u64 \<times> bp_session) list" where
  "bp_put k s [] = [(k, s)]"
| "bp_put k s ((k', s') # rest) =
     (if k < k' then (k, s) # (k', s') # rest
      else if k = k' then (k, s) # rest
      else (k', s') # bp_put k s rest)"

definition bp_get_session :: "bytes \<Rightarrow> bp \<Rightarrow> bp_session option" where
  "bp_get_session leaf_mac b = map_of (bp_sessions b) (mac_to_key leaf_mac)"

definition bp_store :: "bytes \<Rightarrow> bp \<times> bp_session \<Rightarrow> bp" where
  "bp_store leaf_mac bs = (case bs of (b, s) \<Rightarrow> b\<lparr>bp_sessions := bp_put (mac_to_key leaf_mac) s (bp_sessions b)\<rparr>)"

text \<open>
  \<^verbatim>\<open>ensure_session_\<close>: the session of an address, made when it is missing; it is in the table in any case.
\<close>

definition bp_ensure_session :: "bytes \<Rightarrow> bp \<Rightarrow> bp \<times> bp_session" where
  "bp_ensure_session leaf_mac b =
     (let s = (case bp_get_session leaf_mac b of None \<Rightarrow> bp_session_init | Some s \<Rightarrow> s);
          s = (if bs_mac_hex_key s = [] then s\<lparr>bs_mac_hex_key := mac_hex (Some leaf_mac)\<rparr> else s)\<lparr>bs_leaf_mac := leaf_mac\<rparr>
      in (bp_store leaf_mac (b, s), s))"

definition bp_active_remote_count :: "bp \<Rightarrow> u8" where
  "bp_active_remote_count b = fold (\<lambda>(_, s) n. if bs_online s then n + 1 else n) (bp_sessions b) 0"

definition bp_direct_remote_count :: "bp \<Rightarrow> u8" where
  "bp_direct_remote_count b =
     fold (\<lambda>(_, s) n. if bs_online s \<and> bs_hops_to_bridge s = 1 then n + 1 else n) (bp_sessions b) 0"

definition bp_schema_cache_key :: "bp_session \<Rightarrow> bytes" where
  "bp_schema_cache_key s = (if bs_esphome_name s \<noteq> [] then bs_esphome_name s else mac_hex (Some (bs_leaf_mac s)))"

definition bp_effect :: "bp_effect \<Rightarrow> bp \<Rightarrow> bp" where
  "bp_effect e b = b\<lparr>bp_effects := bp_effects b @ [e]\<rparr>"

definition bp_read_heap :: "bp_env \<Rightarrow> bp \<Rightarrow> bp \<times> u32" where
  "bp_read_heap env b = (b\<lparr>bp_heap_reads := bp_heap_reads b + 1\<rparr>, bpe_free_heap env (bp_heap_reads b))"

definition bp_draw_random :: "bp_env \<Rightarrow> bp \<Rightarrow> bp \<times> u32" where
  "bp_draw_random env b = (b\<lparr>bp_random_draws := bp_random_draws b + 1\<rparr>, bpe_random env (bp_random_draws b))"

section \<open>Set-up\<close>

text \<open>\<^verbatim>\<open>init\<close> without the installation of the key, whose result is given.\<close>

definition bp_init :: "bp_env \<Rightarrow> int \<Rightarrow> bytes \<Rightarrow> u16 \<Rightarrow> bp \<Rightarrow> bp \<times> int" where
  "bp_init env crypto_init_result network_id heartbeat_interval b =
     (let psk_valid = (crypto_init_result = 0) in
      (b\<lparr>bp_network_id := network_id, bp_heartbeat_interval := heartbeat_interval, bp_psk_valid := psk_valid,
         bp_identity := (bp_identity b)\<lparr>bi_chip_model := bpe_chip_model env\<rparr>\<rparr>,
       if psk_valid then 0 else - 1))"

definition bp_set_runtime_ready :: "bool \<Rightarrow> bp \<Rightarrow> bp" where
  "bp_set_runtime_ready ready b = b\<lparr>bp_runtime_ready := ready\<rparr>"

definition bp_set_session_flags :: "u8 \<Rightarrow> bp \<Rightarrow> bp" where
  "bp_set_session_flags flags b = b\<lparr>bp_bridge_session_flags := flags\<rparr>"

definition bp_set_bridge_mac :: "bytes option \<Rightarrow> bp \<Rightarrow> bp" where
  "bp_set_bridge_mac mac b =
     (case mac of None \<Rightarrow> b | Some m \<Rightarrow> b\<lparr>bp_bridge_mac := take 6 m, bp_bridge_mac_valid := True\<rparr>)"

definition bp_set_bridge_identity :: "BridgeIdentity \<Rightarrow> bp \<Rightarrow> bp" where
  "bp_set_bridge_identity i b = b\<lparr>bp_identity := i\<rparr>"

text \<open>Every session is announced offline and removed, and its entities are cleared.\<close>

definition bp_invalidate_all_sessions :: "bp \<Rightarrow> bp" where
  "bp_invalidate_all_sessions b =
     (fold (\<lambda>(_, s) b. bp_effect (ClearEntities (bs_leaf_mac s) (bs_schema_entities s))
              (bp_effect (PublishTopologyChanged (bs_leaf_mac s) ''node_removed'')
                (bp_effect (PublishAvailability (bs_leaf_mac s) False ''manual'') b)))
        (bp_sessions b) b)
      \<lparr>bp_sessions := [], bp_schema_cache := [], bp_schema_hash_cache := []\<rparr>"

end
