(* ===== verification/BridgeSend.thy ===== *)
theory BridgeSend
  imports BridgeState
begin

text \<open>
  What the bridge sends (\<^verbatim>\<open>esp_tree_bridge/bridge_protocol.cpp\<close>): frames with their tags,
  announcements, the answers to JOIN, acknowledgements, schema requests, commands in fragments, configuration and file
  frames, DEAUTH; and what it tells the bridge component about entities. A function on a pair
  takes the session by reference.
\<close>

section \<open>Frames\<close>

abbreviation (input) bp_down_hops :: u8 where "bp_down_hops \<equiv> hops_make ESPNOW_HOPS_DIR_DOWN 0"

definition downstream_hop_count_session :: "bp_session \<Rightarrow> u8" where
  "downstream_hop_count_session s = bp_down_hops"

definition downstream_hop_count_plain :: "u8 \<Rightarrow> u8" where
  "downstream_hop_count_plain bridge_flags = bp_down_hops"

definition bp_header :: "u8 \<Rightarrow> u8 \<Rightarrow> bytes \<Rightarrow> u32 \<Rightarrow> espnow_frame_header" where
  "bp_header packet_type hop_count leaf_mac tx_counter =
     \<lparr>fh_protocol_version = ESPNOW_PROTOCOL_VER, fh_hop_count = hop_count, fh_packet_type = packet_type,
      fh_leaf_mac = leaf_mac, fh_tx_counter = tx_counter, fh_psk_tag = replicate 4 0\<rparr>"

definition bp_frame_bytes :: "bp_env \<Rightarrow> bytes option \<Rightarrow> espnow_frame_header \<Rightarrow> bytes \<Rightarrow> bytes" where
  "bp_frame_bytes env session_key hdr payload =
     (let raw = c_enc espnow_frame_header_codec hdr;
          psk_tag = espnow_crypto_psk_tag (bpe_hmac env) (bpe_crypto env) raw payload
      in c_enc espnow_frame_header_codec (hdr\<lparr>fh_psk_tag := psk_tag\<rparr>) @ payload
         @ (case session_key of None \<Rightarrow> [] | Some key \<Rightarrow> espnow_crypto_session_tag (bpe_hmac env) key raw payload))"

definition bp_log_sent :: "bytes \<Rightarrow> bytes \<Rightarrow> bp \<Rightarrow> bp" where
  "bp_log_sent mac frame b = b\<lparr>bp_sent := bp_sent b @ [(mac, frame)]\<rparr>"

definition bp_send_encrypted ::
  "bp_env \<Rightarrow> bytes \<Rightarrow> espnow_packet_type \<Rightarrow> u8 \<Rightarrow> bytes \<Rightarrow> bp \<times> bp_session \<Rightarrow> (bp \<times> bp_session) \<times> bool" where
  "bp_send_encrypted env mac type hop_count plaintext bs =
     (case (bpe_send env, bs) of
        (None, _) \<Rightarrow> (bs, False)
      | (Some send, b, s) \<Rightarrow>
          if \<not> bs_session_key_valid s then (bs, False)
          else if length plaintext > unat (espnow_max_plaintext (bs_session_max_payload s)) then (bs, False)
          else
            (let tx_counter = bs_tx_counter s;
                 s = s\<lparr>bs_tx_counter := tx_counter + 1\<rparr>
             in case espnow_crypto_crypt (bpe_crypto env) (Some (bs_session_key s)) tx_counter plaintext of
                  None \<Rightarrow> ((b, s), False)
                | Some ciphertext \<Rightarrow>
                    (let frame = bp_frame_bytes env (Some (bs_session_key s))
                           (bp_header (packet_code type) hop_count (bs_leaf_mac s) tx_counter) ciphertext
                     in ((bp_log_sent mac frame b, s\<lparr>bs_tx_packets := bs_tx_packets s + 1\<rparr>),
                         send (bp_sent b) mac frame))))"

text \<open>The result function is preferred to the plain one. \<open>ESP_ERR_other\<close> stands for \<^verbatim>\<open>ESP_FAIL\<close>.\<close>

definition bp_send_with_result :: "bp_env \<Rightarrow> bytes \<Rightarrow> bytes \<Rightarrow> bp \<Rightarrow> esp_err_t" where
  "bp_send_with_result env mac frame b =
     (case bpe_send_err env of
        Some send \<Rightarrow> send (bp_sent b) mac frame
      | None \<Rightarrow> (case bpe_send env of
                   Some send \<Rightarrow> if send (bp_sent b) mac frame then ESP_OK else ESP_ERR_other
                 | None \<Rightarrow> ESP_ERR_other))"

definition bp_send_encrypted_with_tx_counter_result ::
  "bp_env \<Rightarrow> bytes \<Rightarrow> espnow_packet_type \<Rightarrow> u8 \<Rightarrow> u32 \<Rightarrow> bytes \<Rightarrow> bp \<times> bp_session \<Rightarrow> (bp \<times> bp_session) \<times> esp_err_t" where
  "bp_send_encrypted_with_tx_counter_result env mac type hop_count tx_counter plaintext bs =
     (case bs of (b, s) \<Rightarrow>
        if bpe_send env = None \<and> bpe_send_err env = None \<or> \<not> bs_session_key_valid s then (bs, ESP_ERR_other)
        else if length plaintext > unat (espnow_max_plaintext (bs_session_max_payload s)) then (bs, ESP_ERR_other)
        else
          (case bp_read_heap env b of (b, free_heap) \<Rightarrow>
             if unat free_heap < ESPNOW_HEADER_WITH_PSK_TAG_LEN + length plaintext + ESPNOW_SESSION_TAG_LEN + 4096
             then ((b, s), ESP_ERR_ESPNOW_NO_MEM)
             else case espnow_crypto_crypt (bpe_crypto env) (Some (bs_session_key s)) tx_counter plaintext of
                    None \<Rightarrow> ((b, s), ESP_ERR_other)
                  | Some ciphertext \<Rightarrow>
                      (let frame = bp_frame_bytes env (Some (bs_session_key s))
                             (bp_header (packet_code type) hop_count (bs_leaf_mac s) tx_counter) ciphertext
                       in ((bp_log_sent mac frame b, s\<lparr>bs_tx_packets := bs_tx_packets s + 1\<rparr>),
                           bp_send_with_result env mac frame b))))"

definition bp_send_encrypted_with_tx_counter ::
  "bp_env \<Rightarrow> bytes \<Rightarrow> espnow_packet_type \<Rightarrow> u8 \<Rightarrow> u32 \<Rightarrow> bytes \<Rightarrow> bp \<times> bp_session \<Rightarrow> (bp \<times> bp_session) \<times> bool" where
  "bp_send_encrypted_with_tx_counter env mac type hop_count tx_counter plaintext bs =
     (case bp_send_encrypted_with_tx_counter_result env mac type hop_count tx_counter plaintext bs of
        (bs, err) \<Rightarrow> (bs, err = ESP_OK))"

definition bp_send_plain_psk ::
  "bp_env \<Rightarrow> bytes \<Rightarrow> bytes \<Rightarrow> espnow_packet_type \<Rightarrow> u8 \<Rightarrow> u32 \<Rightarrow> bytes \<Rightarrow> bp \<Rightarrow> bp \<times> bool" where
  "bp_send_plain_psk env mac leaf_mac type hop_count tx_counter payload b =
     (case bpe_send env of
        None \<Rightarrow> (b, False)
      | Some send \<Rightarrow>
          (let frame = bp_frame_bytes env None (bp_header (packet_code type) hop_count leaf_mac tx_counter) payload
           in (bp_log_sent mac frame b, send (bp_sent b) mac frame)))"

section \<open>Announcements\<close>

definition bp_fill_discover_announce :: "u8 \<Rightarrow> bp \<Rightarrow> espnow_discover_announce" where
  "bp_fill_discover_announce hops_to_bridge b =
     \<lparr>ann_network_id = zero_padded 32 (bp_network_id b), ann_network_id_len = of_nat (length (bp_network_id b)),
      ann_responder_mac = bp_bridge_mac b, ann_responder_role = ESPNOW_NODE_ROLE_BRIDGE,
      ann_hops_to_bridge = hops_to_bridge, ann_bridge_reachable = 1, ann_flags = 0\<rparr>"

definition bp_send_discover_announce :: "bp_env \<Rightarrow> bytes \<Rightarrow> bytes \<Rightarrow> u8 \<Rightarrow> bp \<Rightarrow> bp \<times> bool" where
  "bp_send_discover_announce env mac leaf_mac hops_to_bridge b =
     bp_send_plain_psk env mac leaf_mac PKT_DISCOVER_ANNOUNCE
       (downstream_hop_count_plain (bp_bridge_session_flags b)) 0
       (c_enc espnow_discover_announce_codec (bp_fill_discover_announce hops_to_bridge b)) b"

section \<open>Joining\<close>

definition bp_clear_joining_slot :: "bp \<Rightarrow> bp" where
  "bp_clear_joining_slot b =
     b\<lparr>bp_joining_in_progress := False, bp_joining_leaf_mac := replicate 6 0, bp_join_started_ms := 0\<rparr>"

definition bp_claim_joining_slot :: "bp_env \<Rightarrow> bool \<Rightarrow> bytes \<Rightarrow> bp \<Rightarrow> bp" where
  "bp_claim_joining_slot env claim leaf_mac b =
     (if claim \<and> \<not> bp_joining_in_progress b
      then b\<lparr>bp_joining_in_progress := True, bp_joining_leaf_mac := leaf_mac, bp_join_started_ms := bpe_now env\<rparr>
      else b)"

definition bp_send_join_ack ::
  "bp_env \<Rightarrow> bytes \<Rightarrow> bool \<Rightarrow> u8 \<Rightarrow> u8 \<Rightarrow> bool \<Rightarrow> bp \<times> bp_session \<Rightarrow> (bp \<times> bp_session) \<times> bool" where
  "bp_send_join_ack env mac accepted reason stage claim_global_slot bs =
     (case bs of (b, s) \<Rightarrow>
        (let ack = \<lparr>jack_accepted = (if accepted then 1 else 0), jack_reason = reason, jack_stage = stage,
               jack_bridge_nonce = bs_bridge_nonce s, jack_session_flags = bp_bridge_session_flags b\<rparr>;
             b = (if accepted then bp_claim_joining_slot env claim_global_slot (bs_leaf_mac s) b else b);
             s = (if accepted then s\<lparr>bs_join_in_progress := True\<rparr> else s);
             tx_counter = bs_tx_counter s;
             s = s\<lparr>bs_tx_counter := tx_counter + 1\<rparr>
         in case bp_send_plain_psk env mac (bs_leaf_mac s) PKT_JOIN_ACK (downstream_hop_count_session s) tx_counter
                   (c_enc espnow_join_ack_codec ack) b of
              (b, sent) \<Rightarrow> ((b, s), sent)))"

definition bp_send_join_complete ::
  "bp_env \<Rightarrow> bytes \<Rightarrow> bool \<Rightarrow> bp \<times> bp_session \<Rightarrow> (bp \<times> bp_session) \<times> bool" where
  "bp_send_join_complete env mac reset_retry_state bs =
     (case bp_send_join_ack env mac True 0 BP_COMPLETE True bs of
        ((b, s), sent) \<Rightarrow>
          (let s = s\<lparr>bs_join_complete_pending := True, bs_join_in_progress := False,
                     bs_last_join_complete_ms := bpe_now env\<rparr>
           in ((bp_clear_joining_slot b,
                if reset_retry_state then s\<lparr>bs_join_complete_retry_count := 0\<rparr> else s), sent)))"

definition bp_check_and_complete_join :: "bp_env \<Rightarrow> bytes \<Rightarrow> bp \<Rightarrow> bp" where
  "bp_check_and_complete_join env leaf_mac b =
     (case bp_get_session leaf_mac b of
        None \<Rightarrow> b
      | Some s \<Rightarrow>
          if bs_state_sync_pending s \<and> bs_discovery_all_confirmed s \<and> \<not> bs_awaiting_more_dirty s
          then bp_store leaf_mac (fst (bp_send_join_complete env (bs_next_hop_mac s) True
                 (b, s\<lparr>bs_state_sync_pending := False\<rparr>)))
          else b)"

definition bp_get_joining_leaf_mac :: "bp \<Rightarrow> bytes option" where
  "bp_get_joining_leaf_mac b = (if bp_joining_in_progress b then Some (bp_joining_leaf_mac b) else None)"

section \<open>Acknowledgements and requests\<close>

definition bp_send_state_ack ::
  "bp_env \<Rightarrow> bytes \<Rightarrow> u32 \<Rightarrow> u8 \<Rightarrow> bp \<times> bp_session \<Rightarrow> (bp \<times> bp_session) \<times> bool" where
  "bp_send_state_ack env mac rx_counter result bs =
     bp_send_encrypted env mac PKT_ACK (downstream_hop_count_session (snd bs))
       (c_enc espnow_ack_codec \<lparr>ack_ack_type = BP_ACK_STATE, ack_result = result, ack_ref_tx_counter = rx_counter\<rparr>) bs"

definition bp_send_command_ack ::
  "bp_env \<Rightarrow> bytes \<Rightarrow> u8 \<Rightarrow> u8 \<Rightarrow> bp \<times> bp_session \<Rightarrow> (bp \<times> bp_session) \<times> bool" where
  "bp_send_command_ack env mac field_index result bs =
     bp_send_encrypted env mac PKT_ACK (downstream_hop_count_session (snd bs))
       (c_enc espnow_ack_codec \<lparr>ack_ack_type = BP_ACK_COMMAND, ack_result = result,
          ack_ref_tx_counter = bs_tx_counter (snd bs)\<rparr>) bs"

definition bp_send_schema_request ::
  "bp_env \<Rightarrow> bytes \<Rightarrow> u8 \<Rightarrow> u8 \<Rightarrow> bp \<times> bp_session \<Rightarrow> (bp \<times> bp_session) \<times> bool" where
  "bp_send_schema_request env mac descriptor_type descriptor_index bs =
     (case bp_send_encrypted env mac PKT_SCHEMA_REQUEST (downstream_hop_count_session (snd bs))
             (c_enc espnow_schema_request_codec
                \<lparr>sreq_descriptor_type = descriptor_type, sreq_descriptor_index = descriptor_index\<rparr>) bs of
        ((b, s), sent) \<Rightarrow>
          ((b, s\<lparr>bs_pending_schema_descriptor_type := descriptor_type, bs_pending_schema_index := descriptor_index,
                 bs_last_schema_request_ms := bpe_now env\<rparr>), sent))"

definition bp_trigger_fingerprint :: "bp_env \<Rightarrow> bytes \<Rightarrow> u8 \<Rightarrow> u32 \<Rightarrow> bytes \<Rightarrow> bytes" where
  "bp_trigger_fingerprint env leaf_mac response_type response_tx request_payload =
     espnow_crypto_psk_tag (bpe_hmac env) (bpe_crypto env)
       (c_enc espnow_frame_header_codec (bp_header response_type 0 leaf_mac response_tx)) request_payload"

definition bp_send_deauth ::
  "bp_env \<Rightarrow> bytes \<Rightarrow> u8 \<Rightarrow> u32 \<Rightarrow> bytes \<Rightarrow> bp \<times> bp_session \<Rightarrow> (bp \<times> bp_session) \<times> bool" where
  "bp_send_deauth env mac response_type response_tx request_payload bs =
     (case bs of (b, s) \<Rightarrow>
        (let deauth = \<lparr>deauth_reason = 1, deauth_response_to_packet_type = response_type,
               deauth_response_to_tx_counter = response_tx,
               deauth_request_fingerprint =
                 bp_trigger_fingerprint env (bs_leaf_mac s) response_type response_tx request_payload\<rparr>;
             tx_counter = bs_tx_counter s;
             s = s\<lparr>bs_tx_counter := tx_counter + 1\<rparr>
         in case bp_send_plain_psk env mac (bs_leaf_mac s) PKT_DEAUTH (downstream_hop_count_session s) tx_counter
                   (c_enc espnow_deauth_codec deauth) b of
              (b, sent) \<Rightarrow> ((b, s), sent)))"

text \<open>Unlike the fingerprint of a DEAUTH, this one leaves out the leaf's address.\<close>

definition bp_compute_request_fingerprint :: "bp_env \<Rightarrow> u8 \<Rightarrow> u32 \<Rightarrow> bytes \<Rightarrow> bytes" where
  "bp_compute_request_fingerprint env response_type response_tx request_payload =
     bp_trigger_fingerprint env (replicate 6 0) response_type response_tx request_payload"

section \<open>Commands\<close>

text \<open>One fragment of a command: its bytes, and the frame counter it takes.\<close>

definition bp_command_packet :: "u16 \<Rightarrow> bytes \<Rightarrow> u8 \<Rightarrow> nat \<Rightarrow> bytes" where
  "bp_command_packet frag_size val field_index chunk =
     (let chunk_count = fragment_chunk_count frag_size (length val);
          flags = (if chunk + 1 < chunk_count then ESPNOW_ENTITY_FLAG_MORE_FRAGMENTS else 0);
          len = fragment_chunk_len frag_size (length val) chunk
      in append_entity_payload field_index flags (of_nat chunk) (of_nat chunk_count)
           (if len > 0 then Some (drop (chunk * unat frag_size) val) else None) len)"

fun bp_send_command_chunks ::
  "bp_env \<Rightarrow> bytes \<Rightarrow> u8 \<Rightarrow> bytes \<Rightarrow> u32 \<Rightarrow> bool \<Rightarrow> nat list \<Rightarrow> bp \<times> bp_session \<Rightarrow> (bp \<times> bp_session) \<times> bool" where
  "bp_send_command_chunks env mac field_index val tx_base consume [] bs = (bs, True)"
| "bp_send_command_chunks env mac field_index val tx_base consume (chunk # chunks) (b, s) =
     (let tx_counter = tx_base + of_nat chunk;
          s = (if consume then s\<lparr>bs_tx_counter := tx_counter + 1\<rparr> else s)
      in case bp_send_encrypted_with_tx_counter env mac PKT_COMMAND (downstream_hop_count_session s) tx_counter
                (bp_command_packet (bs_max_entity_fragment s) val field_index chunk) (b, s) of
           (bs, sent) \<Rightarrow>
             if \<not> sent then (bs, False)
             else bp_send_command_chunks env mac field_index val tx_base consume chunks bs)"

definition bp_send_command_fragments ::
  "bp_env \<Rightarrow> bytes \<Rightarrow> u8 \<Rightarrow> bytes \<Rightarrow> u32 \<Rightarrow> bool \<Rightarrow> bp \<times> bp_session \<Rightarrow> (bp \<times> bp_session) \<times> bool" where
  "bp_send_command_fragments env mac field_index val tx_base consume bs =
     bp_send_command_chunks env mac field_index val tx_base consume
       [0..<fragment_chunk_count (bs_max_entity_fragment (snd bs)) (length val)] bs"

definition bp_send_command :: "bp_env \<Rightarrow> bytes \<Rightarrow> u8 \<Rightarrow> bytes \<Rightarrow> bp \<times> bp_session \<Rightarrow> (bp \<times> bp_session) \<times> bool" where
  "bp_send_command env mac field_index val bs =
     (let cmd = \<lparr>pc_field_index = field_index, pc_value = val, pc_leaf_mac = bs_leaf_mac (snd bs),
            pc_next_hop_mac = mac, pc_tx_base = bs_tx_counter (snd bs), pc_last_tx_ms = bpe_now env, pc_retry_count = 0\<rparr>
      in case bp_send_command_fragments env mac field_index val (pc_tx_base cmd) True bs of
           (bs, False) \<Rightarrow> (bs, False)
         | ((b, s), True) \<Rightarrow> ((b\<lparr>bp_command_queue := bp_command_queue b @ [cmd]\<rparr>, s), True))"

definition bp_send_command_to_leaf :: "bp_env \<Rightarrow> bytes \<Rightarrow> u8 \<Rightarrow> bytes \<Rightarrow> bp \<Rightarrow> bp \<times> bool" where
  "bp_send_command_to_leaf env leaf_mac field_index val b =
     (case bp_get_session leaf_mac b of
        None \<Rightarrow> (b, False)
      | Some s \<Rightarrow>
          if \<not> bs_online s \<or> \<not> bs_session_key_valid s then (b, False)
          else case bp_send_command env (bs_next_hop_mac s) field_index val (b, s) of
                 (bs, sent) \<Rightarrow> (bp_store leaf_mac bs, sent))"

section \<open>Configuration and files\<close>

abbreviation (input) BP_MAX_CONFIG_LEN :: nat where "BP_MAX_CONFIG_LEN \<equiv> ESPNOW_MAX_ENTITY_FRAGMENT_LEN - 3"

definition bp_send_config_frame ::
  "bp_env \<Rightarrow> PendingConfig \<Rightarrow> bp \<times> bp_session \<Rightarrow> (bp \<times> bp_session) \<times> bool" where
  "bp_send_config_frame env pending bs =
     (if \<not> bs_session_key_valid (snd bs) \<or> \<not> bs_online (snd bs) then (bs, False)
      else if length (pcf_payload pending) > BP_MAX_CONFIG_LEN then (bs, False)
      else bp_send_encrypted_with_tx_counter env (pcf_next_hop_mac pending) PKT_CONFIG
             (downstream_hop_count_session (snd bs)) (pcf_tx_base pending)
             (c_enc espnow_config_codec \<lparr>cfg_command = pcf_command pending, cfg_flags = 0,
                cfg_payload_len = of_nat (length (pcf_payload pending))\<rparr> @ pcf_payload pending) bs)"

definition bp_send_config_to_leaf ::
  "bp_env \<Rightarrow> bytes \<Rightarrow> u8 \<Rightarrow> bytes \<Rightarrow> nat option \<Rightarrow> bp \<Rightarrow> bp \<times> bool" where
  "bp_send_config_to_leaf env leaf_mac command payload callback b =
     (if length payload > BP_MAX_CONFIG_LEN then (b, False)
      else case bp_get_session leaf_mac b of
        None \<Rightarrow> (b, False)
      | Some s \<Rightarrow>
          if \<not> bs_online s \<or> \<not> bs_session_key_valid s then (b, False)
          else
            (let pending = \<lparr>pcf_leaf_mac = bs_leaf_mac s, pcf_next_hop_mac = bs_next_hop_mac s, pcf_command = command,
                   pcf_payload = payload, pcf_tx_base = bs_tx_counter s, pcf_retry_count = 0,
                   pcf_next_retry_ms = bpe_now env + CONFIG_ACK_TIMEOUT_MS,
                   pcf_ack_timeout_ms = CONFIG_ACK_TIMEOUT_MS, pcf_callback = callback\<rparr>
             in case bp_send_config_frame env pending (b, s\<lparr>bs_tx_counter := bs_tx_counter s + 1\<rparr>) of
                  (bs, sent) \<Rightarrow>
                    (let b = bp_store leaf_mac bs
                     in if sent then (b\<lparr>bp_pending_configs := bp_pending_configs b @ [pending]\<rparr>, True)
                        else (b, False))))"

text \<open>The counter of the frame is written out as soon as it is taken; \<open>None\<close> leaves the caller's variable alone.\<close>

definition bp_send_ota_frame ::
  "bp_env \<Rightarrow> bytes \<Rightarrow> espnow_packet_type \<Rightarrow> bytes \<Rightarrow> bp \<Rightarrow> bp \<times> esp_err_t \<times> u32 option" where
  "bp_send_ota_frame env leaf_mac type payload b =
     (if type \<noteq> PKT_FILE_TRANSFER \<and> type \<noteq> PKT_FILE_DATA then (b, ESP_ERR_other, None)
      else case bp_get_session leaf_mac b of
        None \<Rightarrow> (b, ESP_ERR_NOT_FOUND, None)
      | Some s \<Rightarrow>
          if \<not> bs_session_key_valid s then (b, ESP_ERR_NOT_FOUND, None)
          else
            (let tx_counter = bs_tx_counter s in
             case bp_send_encrypted_with_tx_counter_result env (bs_next_hop_mac s) type
                    (downstream_hop_count_session s) tx_counter payload (b, s\<lparr>bs_tx_counter := tx_counter + 1\<rparr>) of
               (bs, err) \<Rightarrow> (bp_store leaf_mac bs, err, Some tx_counter)))"

section \<open>What the component is told\<close>

definition bp_mark_online :: "bp_env \<Rightarrow> int \<Rightarrow> u32 \<Rightarrow> int \<Rightarrow> bp \<times> bp_session \<Rightarrow> bp \<times> bp_session" where
  "bp_mark_online env rssi tx_counter remote_reported_rssi bs =
     (case bs of (b, s) \<Rightarrow>
        (bp_effect (PublishTopologyChanged (bs_leaf_mac s) ''node_joined'')
          (bp_effect (PublishAvailability (bs_leaf_mac s) True
            (if bs_joined_ms s = 0 then ''joined'' else ''rejoined'')) b),
         s\<lparr>bs_online := True, bs_last_seen_counter := tx_counter, bs_joined_ms := bpe_now env,
           bs_last_rssi := (if remote_reported_rssi \<noteq> 0 then remote_reported_rssi else rssi),
           bs_last_offline_reason := ''''\<rparr>))"

definition bp_refresh_schema_cache :: "bp \<times> bp_session \<Rightarrow> bp" where
  "bp_refresh_schema_cache bs =
     (case bs of (b, s) \<Rightarrow>
        b\<lparr>bp_schema_cache := AList.update (bp_schema_cache_key s)
            \<lparr>csd_schema_entities = bs_schema_entities s, csd_esphome_name = bs_esphome_name s,
             csd_node_label = bs_node_label s, csd_firmware_epoch = bs_firmware_epoch s,
             csd_build_date = bs_build_date s, csd_build_time = bs_build_time s,
             csd_project_name = bs_project_name s, csd_project_version = bs_project_version s,
             csd_session_max_payload = bs_session_max_payload s, csd_chip_model = bs_chip_model s,
             csd_firmware_md5 = bs_firmware_md5 s\<rparr> (bp_schema_cache b),
          bp_schema_hash_cache := AList.update (bp_schema_cache_key s) (bs_schema_hash s) (bp_schema_hash_cache b)\<rparr>)"

definition bp_unimplemented_type :: "u8 \<Rightarrow> bool" where
  "bp_unimplemented_type t \<longleftrightarrow>
     t = field_type_code FIELD_TYPE_CLIMATE \<or> t = field_type_code FIELD_TYPE_HUMIDIFIER
     \<or> t = field_type_code FIELD_TYPE_DEHUMIDIFIER \<or> t = field_type_code FIELD_TYPE_TIME
     \<or> t = field_type_code FIELD_TYPE_DATETIME"

definition bp_is_commandable :: "u8 \<Rightarrow> bool" where
  "bp_is_commandable t \<longleftrightarrow>
     \<not> (t = field_type_code FIELD_TYPE_SENSOR \<or> t = field_type_code FIELD_TYPE_BINARY
        \<or> t = field_type_code FIELD_TYPE_BUTTON \<or> t = field_type_code FIELD_TYPE_EVENT
        \<or> t = field_type_code FIELD_TYPE_TEXT_SENSOR)"

definition bp_publish_entity :: "bp_session \<Rightarrow> BridgeEntitySchema \<Rightarrow> bp \<Rightarrow> bp" where
  "bp_publish_entity s entity b =
     (if bes_entity_type entity = 0 \<or> bp_unimplemented_type (bes_entity_type entity) then b
      else bp_effect (PublishDiscovery (bs_leaf_mac s) entity (bs_total_entities s)
             (bp_is_commandable (bes_entity_type entity))) b)"

definition bp_publish_discovery_for_entity :: "bp_session \<Rightarrow> u8 \<Rightarrow> bp \<Rightarrow> bp" where
  "bp_publish_discovery_for_entity s entity_index b =
     (if unat entity_index \<ge> length (bs_schema_entities s) then b
      else bp_publish_entity s (bs_schema_entities s ! unat entity_index) b)"

definition bp_publish_all_entities :: "bp_session \<Rightarrow> bp \<Rightarrow> bp" where
  "bp_publish_all_entities s b = fold (bp_publish_entity s) (bs_schema_entities s) b"

end
