(* ===== verification/BridgeHandlers.thy ===== *)
theory BridgeHandlers
  imports BridgeSend
begin

text \<open>
  What the bridge does with a frame (\<^verbatim>\<open>esp_tree_bridge/bridge_protocol.cpp\<close>): its checks, and the
  handler of every packet type, from DISCOVER and JOIN to the acknowledgements. A handler that looks its session
  up works on the pair of the bridge and that session and puts the session back (\<open>bp_on_session\<close>). The address of the sender is never null: the radio's
  callback always has one.
\<close>

section \<open>Parsing and checking\<close>

text \<open>The header, the payload without the session tag, that tag, and the parent's address (zeros when absent).\<close>

definition bp_parse_frame :: "bp_env \<Rightarrow> bytes \<Rightarrow> (espnow_frame_header \<times> bytes \<times> bytes option \<times> bytes) option" where
  "bp_parse_frame env frame =
     (case c_dec espnow_frame_header_codec frame of
        None \<Rightarrow> None
      | Some hdr \<Rightarrow>
          if length frame > ESPNOW_V2_MAX_PAYLOAD then None
          else if fh_protocol_version hdr \<noteq> ESPNOW_PROTOCOL_VER then None
          else if \<not> is_valid_packet_type (fh_packet_type hdr) then None
          else
            (let has_parent_check = (fh_hop_count hdr AND ESPNOW_HOPS_PARENT_CHECK_BIT \<noteq> 0);
                 header_size = ESPNOW_HEADER_WITH_PSK_TAG_LEN + (if has_parent_check then ESPNOW_PARENT_MAC_LEN else 0);
                 encrypted = is_encrypted_packet (fh_packet_type hdr);
                 payload_len = length frame - header_size
             in if length frame < header_size then None
                else if encrypted \<and> payload_len < ESPNOW_SESSION_TAG_LEN then None
                else
                  (let payload = take (if encrypted then payload_len - ESPNOW_SESSION_TAG_LEN else payload_len)
                         (drop header_size frame)
                   in if \<not> espnow_crypto_verify_psk_tag (bpe_hmac env) (bpe_crypto env) frame payload (fh_psk_tag hdr)
                      then None
                      else Some (hdr, payload,
                             if encrypted then Some (drop (length frame - ESPNOW_SESSION_TAG_LEN) frame) else None,
                             if has_parent_check then take 6 (drop ESPNOW_HEADER_WITH_PSK_TAG_LEN frame)
                             else replicate 6 0))))"

text \<open>The plaintext, when the session's tag is right.\<close>

definition bp_validate_session_packet ::
  "bp_env \<Rightarrow> bp_session \<Rightarrow> espnow_frame_header \<Rightarrow> bytes \<Rightarrow> bytes option \<Rightarrow> bytes option" where
  "bp_validate_session_packet env s hdr ciphertext session_tag =
     (if \<not> bs_session_key_valid s then None
      else case session_tag of
        None \<Rightarrow> None
      | Some tag \<Rightarrow>
          if \<not> espnow_crypto_verify_session_tag (bpe_hmac env) (bs_session_key s)
                 (c_enc espnow_frame_header_codec hdr) ciphertext tag then None
          else espnow_crypto_crypt (bpe_crypto env) (Some (bs_session_key s)) (fh_tx_counter hdr) ciphertext)"

definition bp_on_session ::
  "bytes \<Rightarrow> (bp \<times> bp_session \<Rightarrow> (bp \<times> bp_session) \<times> bool) \<Rightarrow> bp \<Rightarrow> bp \<times> bool" where
  "bp_on_session leaf_mac f b =
     (case bp_get_session leaf_mac b of
        None \<Rightarrow> (b, False)
      | Some s \<Rightarrow> (case f (b, s) of (bs, r) \<Rightarrow> (bp_store leaf_mac bs, r)))"

definition bp_log_dropped :: "string \<Rightarrow> bytes \<Rightarrow> bool" where
  "bp_log_dropped handler_name mac = False"

section \<open>DISCOVER\<close>

definition bp_handle_discover :: "bp_env \<Rightarrow> bytes \<Rightarrow> espnow_frame_header \<Rightarrow> bytes \<Rightarrow> bp \<Rightarrow> bp \<times> bool" where
  "bp_handle_discover env sender_mac hdr payload b =
     (if length payload \<noteq> c_width espnow_discover_codec then (b, False)
      else case c_dec espnow_discover_codec payload of
        None \<Rightarrow> (b, False)
      | Some discover \<Rightarrow>
          if unat (disc_network_id_len discover) \<noteq> length (bp_network_id b)
             \<or> take (length (bp_network_id b)) payload \<noteq> bp_network_id b then (b, False)
          else
            (case bp_ensure_session (fh_leaf_mac hdr) b of (b, s) \<Rightarrow>
               (case bp_draw_random env b of (b, r) \<Rightarrow>
                  (bp_store (fh_leaf_mac hdr)
                     (b, s\<lparr>bs_discover_announce_deadline_ms := bpe_now env + r mod (BP_ANNOUNCE_JITTER_MS + 1),
                           bs_discover_announce_leaf_mac := sender_mac\<rparr>), True))))"

section \<open>JOIN\<close>

text \<open>A JOIN seen again while its answer is under way: the same stage is answered again.\<close>

definition bp_join_retry ::
  "bp_env \<Rightarrow> bytes \<Rightarrow> espnow_frame_header \<Rightarrow> int \<Rightarrow> bp \<times> bp_session \<Rightarrow> (bp \<times> bp_session) \<times> bool" where
  "bp_join_retry env sender_mac hdr rssi bs =
     (case bs of (b, s) \<Rightarrow>
        (let stage = (if bs_join_complete_pending s then BP_COMPLETE
                      else if bs_state_sync_pending s \<or> bs_schema_received s then BP_SEND_STATE
                      else BP_SCHEMA_REFRESH)
         in bp_send_join_ack env sender_mac True 0 stage False
              (b, s\<lparr>bs_next_hop_mac := sender_mac, bs_last_seen_bridge_uptime_s := bpe_now env div 1000,
                    bs_last_seen_counter := fh_tx_counter hdr, bs_last_rssi := rssi\<rparr>)))"

text \<open>A new nonce of the bridge and the session key made of both nonces.\<close>

definition bp_join_key :: "bp_env \<Rightarrow> espnow_join \<Rightarrow> bp_session \<Rightarrow> bp_session" where
  "bp_join_key env join s =
     s\<lparr>bs_remote_nonce := join_remote_nonce join, bs_remote_nonce_valid := True,
       bs_bridge_nonce := bpe_nonce env, bs_bridge_nonce_valid := True,
       bs_join_complete_pending := False, bs_join_complete_retry_count := 0,
       bs_session_key := espnow_crypto_derive_session_key (bpe_hmac env) (bpe_crypto env)
         (bpe_nonce env) (join_remote_nonce join),
       bs_session_key_valid := True\<rparr>"

text \<open>The frame size both ends can take; without it the fixed limits of short frames.\<close>

definition bp_join_frame_size :: "u8 \<Rightarrow> u8 \<Rightarrow> bp_session \<Rightarrow> bp_session" where
  "bp_join_frame_size bridge_flags leaf_flags s =
     (let s = s\<lparr>bs_session_max_payload := of_nat ESPNOW_V1_MAX_PAYLOAD,
            bs_max_entity_fragment := of_nat ESPNOW_MAX_ENTITY_FRAGMENT_LEN,
            bs_max_assembly_bytes := ESPNOW_MAX_FRAGMENT_ASSEMBLY_BYTES,
            bs_max_total_fragment_bytes := ESPNOW_MAX_TOTAL_FRAGMENT_BYTES_PER_SESSION,
            bs_leaf_session_flags := leaf_flags\<rparr>
      in if leaf_flags AND ESPNOW_SESSION_FLAG_V2_MTU \<noteq> 0 \<and> bridge_flags AND ESPNOW_SESSION_FLAG_V2_MTU \<noteq> 0
         then bs_update_from_mtu (s\<lparr>bs_session_max_payload := of_nat ESPNOW_V2_MAX_PAYLOAD\<rparr>)
         else s)"

definition bp_join_reset ::
  "bp_env \<Rightarrow> bytes \<Rightarrow> espnow_frame_header \<Rightarrow> espnow_join \<Rightarrow> int \<Rightarrow> u8 \<Rightarrow> bp_session \<Rightarrow> bp_session" where
  "bp_join_reset env sender_mac hdr join rssi bridge_flags s =
     (let s = bp_join_key env join s;
          s = s\<lparr>bs_esphome_name := [], bs_node_label := [], bs_firmware_epoch := 0, bs_project_name := [],
                bs_project_version := []\<rparr>;
          s = bp_join_frame_size bridge_flags (join_session_flags join) s
      in s\<lparr>bs_schema_hash := join_schema_hash join, bs_next_hop_mac := sender_mac,
           bs_hops_to_bridge := hops_count (fh_hop_count hdr),
           bs_last_reported_hops_to_bridge := hops_count (fh_hop_count hdr), bs_remote_state := BRS_JOINED,
           bs_last_seen_bridge_uptime_s := bpe_now env div 1000, bs_last_seen_counter := fh_tx_counter hdr,
           bs_last_rssi := rssi\<rparr>)"

definition bp_join_clear_exchange :: "bp_session \<Rightarrow> bp_session" where
  "bp_join_clear_exchange s =
     s\<lparr>bs_pending_schema_index := 255, bs_pending_schema_descriptor_type := ESPNOW_DESCRIPTOR_TYPE_ENTITY,
       bs_schema_request_retries := 0, bs_schema_request_in_flight := False,
       bs_last_completed_state_message_tx_base := 0, bs_state_sync_pending := False,
       bs_pending_state_assemblies := command_assemblies_init,
       bs_pending_schema_assemblies := command_assemblies_init\<rparr>"

text \<open>
  The frame size of the cached session replaces the one just agreed, and the fragment sizes stay those of
  the latter.
\<close>

definition bp_join_from_cache :: "CachedSessionData option \<Rightarrow> bp_session \<Rightarrow> bp_session" where
  "bp_join_from_cache cached s =
     (case cached of
        None \<Rightarrow> s
      | Some c \<Rightarrow>
          s\<lparr>bs_schema_entities := csd_schema_entities c, bs_esphome_name := csd_esphome_name c,
            bs_node_label := csd_node_label c, bs_firmware_epoch := csd_firmware_epoch c,
            bs_project_name := csd_project_name c, bs_project_version := csd_project_version c,
            bs_chip_model := csd_chip_model c, bs_build_date := csd_build_date c,
            bs_build_time := csd_build_time c, bs_session_max_payload := csd_session_max_payload c,
            bs_firmware_md5 := csd_firmware_md5 c\<rparr>)"

definition bp_join_cached ::
  "bp_env \<Rightarrow> bytes \<Rightarrow> espnow_join \<Rightarrow> bytes \<Rightarrow> bp \<times> bp_session \<Rightarrow> (bp \<times> bp_session) \<times> bool" where
  "bp_join_cached env sender_mac join cache_key bs =
     (case bs of (b, s) \<Rightarrow>
        (let s = bp_join_from_cache (map_of (bp_schema_cache b) cache_key) s;
             s = s\<lparr>bs_schema_received := True, bs_total_entities := of_nat (length (bs_schema_entities s))\<rparr>;
             b = bp_effect (SchemaComplete (bs_leaf_mac s) (bs_total_entities s)) b
         in if join_dirty_count join = 0 then bp_send_join_complete env sender_mac True (b, s)
            else
              (case bp_send_join_ack env sender_mac True 0 BP_SEND_STATE True
                      (b, s\<lparr>bs_state_sync_pending := True, bs_awaiting_more_dirty := True\<rparr>) of
                 ((b, s), sent) \<Rightarrow>
                   ((bp_clear_joining_slot b,
                     if sent then s
                     else s\<lparr>bs_join_in_progress := False, bs_online := False, bs_remote_state := BRS_NONE,
                            bs_schema_received := False, bs_schema_request_in_flight := False,
                            bs_session_key_valid := False\<rparr>), sent))))"

definition bp_join_refresh :: "bp_env \<Rightarrow> bytes \<Rightarrow> bp \<times> bp_session \<Rightarrow> (bp \<times> bp_session) \<times> bool" where
  "bp_join_refresh env sender_mac bs =
     (case bs of (b, s) \<Rightarrow>
        (case bp_send_join_ack env sender_mac True 0 BP_SCHEMA_REFRESH True
                (b, s\<lparr>bs_schema_entities := [], bs_schema_received := False,
                      bs_pending_schema_descriptor_type := ESPNOW_DESCRIPTOR_TYPE_IDENTITY,
                      bs_pending_schema_index := 0\<rparr>) of
           ((b, s), False) \<Rightarrow>
             ((bp_clear_joining_slot b,
               s\<lparr>bs_join_in_progress := False, bs_online := False, bs_remote_state := BRS_NONE,
                 bs_schema_request_in_flight := False, bs_session_key_valid := False\<rparr>), False)
         | ((b, s), True) \<Rightarrow>
             (case bp_send_schema_request env sender_mac ESPNOW_DESCRIPTOR_TYPE_IDENTITY 0
                     (bp_clear_joining_slot b, s\<lparr>bs_schema_request_retries := 0\<rparr>) of
                ((b, s), requested) \<Rightarrow>
                  ((b, if requested
                       then s\<lparr>bs_schema_request_in_flight := True, bs_last_schema_request_ms := bpe_now env\<rparr>
                       else s\<lparr>bs_schema_request_in_flight := False, bs_join_in_progress := False,
                              bs_online := False, bs_remote_state := BRS_NONE, bs_schema_received := False,
                              bs_session_key_valid := False\<rparr>), requested))))"

definition bp_join_fresh ::
  "bp_env \<Rightarrow> bytes \<Rightarrow> espnow_frame_header \<Rightarrow> espnow_join \<Rightarrow> int \<Rightarrow> bp \<times> bp_session \<Rightarrow> (bp \<times> bp_session) \<times> bool" where
  "bp_join_fresh env sender_mac hdr join rssi bs =
     (case bs of (b, s) \<Rightarrow>
        (let prior_esphome_name = bs_esphome_name s;
             s = bp_join_reset env sender_mac hdr join rssi (bp_bridge_session_flags b) s;
             cache_key = (if prior_esphome_name \<noteq> [] then prior_esphome_name else bp_schema_cache_key s);
             cached_schema_hit = (map_of (bp_schema_hash_cache b) cache_key = Some (bs_schema_hash s));
             s = bp_join_clear_exchange s
         in if cached_schema_hit then bp_join_cached env sender_mac join cache_key (b, s)
            else bp_join_refresh env sender_mac (b, s)))"

definition bp_join_session ::
  "bp_env \<Rightarrow> bytes \<Rightarrow> espnow_frame_header \<Rightarrow> espnow_join \<Rightarrow> int \<Rightarrow> bp \<times> bp_session \<Rightarrow> (bp \<times> bp_session) \<times> bool" where
  "bp_join_session env sender_mac hdr join rssi bs =
     (case bs of (b, s) \<Rightarrow>
        if bp_joining_in_progress b \<and> fh_leaf_mac hdr \<noteq> bp_joining_leaf_mac b
        then bp_send_join_ack env sender_mac False BP_JOIN_WAIT 0 False (b, s)
        else if bs_join_in_progress s \<and> bs_remote_nonce s = join_remote_nonce join
                \<and> bs_schema_hash s = join_schema_hash join
        then bp_join_retry env sender_mac hdr rssi (b, s)
        else bp_join_fresh env sender_mac hdr join rssi (b, s\<lparr>bs_join_in_progress := False\<rparr>))"

definition bp_handle_join ::
  "bp_env \<Rightarrow> bytes \<Rightarrow> espnow_frame_header \<Rightarrow> bytes \<Rightarrow> int \<Rightarrow> bp \<Rightarrow> bp \<times> bool" where
  "bp_handle_join env sender_mac hdr payload rssi b =
     (if length payload \<noteq> c_width espnow_join_codec then (b, False)
      else case c_dec espnow_join_codec payload of
        None \<Rightarrow> (b, False)
      | Some join \<Rightarrow>
          (case bp_join_session env sender_mac hdr join rssi (bp_ensure_session (fh_leaf_mac hdr) b) of
             (bs, r) \<Rightarrow> (bp_store (fh_leaf_mac hdr) bs, r)))"

end
