(* ===== verification/BridgeExchange.thy ===== *)
theory BridgeExchange
  imports BridgeHandlers
begin

text \<open>
  The rest of the handlers of the bridge (\<^verbatim>\<open>esp_tree_bridge/bridge_protocol.cpp\<close>): schemas and states
  in fragments, the confirmation of a published state, heartbeats, acknowledgements, and the
  entry point for frames.
\<close>

section \<open>Fragments\<close>

datatype bp_fragment_outcome =
    BFDropped
  | BFStored
  | BFComplete bytes u8

text \<open>
  What \<^verbatim>\<open>handle_state_\<close> and \<^verbatim>\<open>handle_schema_push_\<close> both do with a fragment. The bridge finds the buffer as the
  remote does for commands (\<open>command_assembly_for\<close>). The two differ in what a complete message gives
  back of the reservation, the argument \<open>release\<close>. The outcome of a complete message carries its
  bytes and flags.
\<close>

definition bp_fragment ::
  "(espnow_fragment_assembly \<Rightarrow> nat) \<Rightarrow> bp_session \<Rightarrow> EntityPayloadView \<Rightarrow> u32 \<Rightarrow> u32 \<Rightarrow> command_assemblies
   \<Rightarrow> command_assemblies \<times> bp_fragment_outcome" where
  "bp_fragment release s view message_tx_base now ca =
     (case command_assembly_for (bs_max_entity_fragment s) view message_tx_base ca of
        None \<Rightarrow> (ca, BFDropped)
      | Some (ca, assembly) \<Rightarrow>
          if \<not> fa_active assembly
             \<and> ca_reserved ca + of_nat (unat (epv_fragment_count view) * unat (bs_max_entity_fragment s))
                 > ucast (bs_max_total_fragment_bytes s)
          then (ca, BFDropped)
          else
            (case bridge_store_fragment (bs_max_entity_fragment s) (bs_max_assembly_bytes s) assembly view
                    message_tx_base now of
               (assembly, stored) \<Rightarrow>
                 (let ca = ca\<lparr>ca_pending := AList.update (epv_entity_index view) assembly (ca_pending ca)\<rparr>
                  in if \<not> stored then (ca, BFDropped)
                     else if \<not> bridge_fragment_assembly_complete assembly then (ca, BFStored)
                     else (ca\<lparr>ca_reserved := ca_reserved ca - of_nat (release assembly),
                             ca_pending := AList.delete (epv_entity_index view) (ca_pending ca)\<rparr>,
                           BFComplete (bridge_assemble_fragment_payload (bs_max_entity_fragment s) assembly)
                             (fa_flags assembly)))))"

definition bp_schema_fragment ::
  "bp_session \<Rightarrow> EntityPayloadView \<Rightarrow> u32 \<Rightarrow> u32 \<Rightarrow> bp_session \<times> bp_fragment_outcome" where
  "bp_schema_fragment s view message_tx_base now =
     (case bp_fragment (\<lambda>a. unat (fa_fragment_count a) * unat (bs_max_entity_fragment s)) s view message_tx_base now
             (bs_pending_schema_assemblies s) of
        (ca, out) \<Rightarrow> (s\<lparr>bs_pending_schema_assemblies := ca\<rparr>, out))"

definition bp_state_fragment ::
  "bp_session \<Rightarrow> EntityPayloadView \<Rightarrow> u32 \<Rightarrow> u32 \<Rightarrow> bp_session \<times> bp_fragment_outcome" where
  "bp_state_fragment s view message_tx_base now =
     (case bp_fragment (\<lambda>a. length (fa_data a)) s view message_tx_base now (bs_pending_state_assemblies s) of
        (ca, out) \<Rightarrow> (s\<lparr>bs_pending_state_assemblies := ca\<rparr>, out))"

section \<open>SCHEMA_PUSH\<close>

definition c_string :: "bytes \<Rightarrow> bytes" where
  "c_string p = takeWhile (\<lambda>c. c \<noteq> 0) p"

definition bp_take_identity :: "IdentityDescriptorView \<Rightarrow> bp_session \<Rightarrow> bp_session" where
  "bp_take_identity identity s =
     s\<lparr>bs_esphome_name := c_string (idv_esphome_name identity), bs_node_label := c_string (idv_node_label identity),
       bs_firmware_epoch := idv_firmware_epoch identity, bs_project_name := c_string (idv_project_name identity),
       bs_project_version := c_string (idv_project_version identity),
       bs_total_entities := idv_total_entities identity, bs_chip_model := idv_chip_model identity,
       bs_build_date := c_string (idv_build_date identity), bs_build_time := c_string (idv_build_time identity),
       bs_firmware_md5 := idv_firmware_md5 identity,
       bs_pending_schema_descriptor_type := ESPNOW_DESCRIPTOR_TYPE_ENTITY, bs_pending_schema_index := 0,
       bs_schema_request_retries := 0\<rparr>"

text \<open>Ask for an entity's descriptor and note whether the request went out.\<close>

definition bp_request_entity :: "bp_env \<Rightarrow> bytes \<Rightarrow> u8 \<Rightarrow> bp \<times> bp_session \<Rightarrow> (bp \<times> bp_session) \<times> bool" where
  "bp_request_entity env sender_mac index bs =
     (case bp_send_schema_request env sender_mac ESPNOW_DESCRIPTOR_TYPE_ENTITY index bs of
        ((b, s), sent) \<Rightarrow> ((b, s\<lparr>bs_schema_request_in_flight := sent\<rparr>), sent))"

definition bp_schema_done :: "bp \<times> bp_session \<Rightarrow> bp \<times> bp_session" where
  "bp_schema_done bs =
     (case bs of (b, s) \<Rightarrow>
        (let s = s\<lparr>bs_schema_received := True, bs_schema_request_in_flight := False, bs_pending_schema_index := 255,
                   bs_pending_schema_descriptor_type := ESPNOW_DESCRIPTOR_TYPE_ENTITY\<rparr>
         in (bp_publish_all_entities s (bp_refresh_schema_cache (b, s)), s)))"

definition bp_identity_push :: "bp_env \<Rightarrow> bytes \<Rightarrow> bytes \<Rightarrow> bp \<times> bp_session \<Rightarrow> (bp \<times> bp_session) \<times> bool" where
  "bp_identity_push env sender_mac complete bs =
     (case parse_identity_descriptor_payload complete of
        None \<Rightarrow> (bs, False)
      | Some (identity, descriptor_index) \<Rightarrow>
          if descriptor_index \<noteq> 0 then (bs, False)
          else
            (case bs of (b, s) \<Rightarrow>
               (let s = bp_take_identity identity s;
                    b = (if bs_schema_entities s \<noteq> [] then bp_effect (ClearEntities (bs_leaf_mac s) (bs_schema_entities s)) b else b)
                in if idv_total_entities identity = 0
                   then (case bp_schema_done (b, s) of
                           (b, s) \<Rightarrow> bp_send_join_complete env sender_mac True
                             (bp_effect (SchemaComplete (bs_leaf_mac s) (bs_total_entities s)) b, s))
                   else bp_request_entity env sender_mac 0 (b, s))))"

definition bp_entity_of_push :: "bytes \<Rightarrow> SchemaPushView \<Rightarrow> BridgeEntitySchema" where
  "bp_entity_of_push complete push =
     \<lparr>bes_entity_index = spv_entity_index push, bes_entity_type = spv_entity_type push,
      bes_entity_name = c_string (spv_entity_name push), bes_entity_unit = c_string (spv_entity_unit push),
      bes_entity_options = c_string (take (min (length complete - schema_push_payload_len) ESPNOW_SCHEMA_OPTIONS_LEN)
        (spv_entity_options push)),
      bes_entity_id = c_string (spv_entity_id push)\<rparr>"

definition bp_put_entity :: "BridgeEntitySchema \<Rightarrow> nat \<Rightarrow> BridgeEntitySchema list \<Rightarrow> BridgeEntitySchema list" where
  "bp_put_entity entity index entities =
     (entities @ replicate (index + 1 - length entities) BridgeEntitySchema_init)[index := entity]"

definition bp_entity_push :: "bp_env \<Rightarrow> bytes \<Rightarrow> bytes \<Rightarrow> bp \<times> bp_session \<Rightarrow> (bp \<times> bp_session) \<times> bool" where
  "bp_entity_push env sender_mac complete bs =
     (case parse_schema_push_payload complete of
        None \<Rightarrow> (bs, False)
      | Some push \<Rightarrow>
          if spv_descriptor_type push \<noteq> ESPNOW_DESCRIPTOR_TYPE_ENTITY then (bs, False)
          else
            (case bs of (b, s) \<Rightarrow>
               (let index = spv_entity_index push;
                    s = s\<lparr>bs_schema_entities := bp_put_entity (bp_entity_of_push complete push) (unat index) (bs_schema_entities s),
                          bs_total_entities := spv_total_entities push, bs_next_hop_mac := sender_mac\<rparr>
                in if spv_total_entities push = 0 \<or> unat index + 1 \<ge> unat (spv_total_entities push)
                   then
                     (case bp_schema_done (b, s) of
                        (b, s) \<Rightarrow>
                          (let s = s\<lparr>bs_pending_discovery_count := 0, bs_discovery_all_confirmed := True\<rparr>;
                               b = bp_effect (SchemaComplete (bs_leaf_mac s) (bs_total_entities s)) b
                           in if spv_total_entities push = 0 then bp_send_join_complete env sender_mac True (b, s)
                              else bp_send_join_ack env sender_mac True 0 BP_SEND_STATE True
                                     (b, s\<lparr>bs_state_sync_pending := True, bs_awaiting_more_dirty := True\<rparr>)))
                   else
                     (let s = s\<lparr>bs_awaiting_discovery_confirm := False, bs_pending_schema_request_index := 255,
                                bs_last_discovery_confirm_ms := 0,
                                bs_pending_schema_descriptor_type := ESPNOW_DESCRIPTOR_TYPE_ENTITY,
                                bs_pending_schema_index := index, bs_schema_request_retries := 1\<rparr>
                      in bp_request_entity env sender_mac (index + 1) (bp_publish_discovery_for_entity s index b, s)))))"

definition bp_schema_push ::
  "bp_env \<Rightarrow> bytes \<Rightarrow> espnow_frame_header \<Rightarrow> bytes \<Rightarrow> bytes option
   \<Rightarrow> bp \<times> bp_session \<Rightarrow> (bp \<times> bp_session) \<times> bool" where
  "bp_schema_push env sender_mac hdr payload session_tag bs =
     (case bs of (b, s) \<Rightarrow>
       if \<not> counter_is_newer (fh_tx_counter hdr) (bs_last_seen_counter s) then ((b, s), False)
       else case bp_validate_session_packet env s hdr payload session_tag of
         None \<Rightarrow> ((b, s), False)
       | Some plaintext \<Rightarrow>
           (case parse_entity_payload plaintext of
              None \<Rightarrow> ((b, s), False)
            | Some view \<Rightarrow>
                (case bp_schema_fragment s view (fragment_message_tx_base hdr view) (bpe_now env) of
                   (s, BFDropped) \<Rightarrow> ((b, s), False)
                 | (s, out) \<Rightarrow>
                     (let s = s\<lparr>bs_last_seen_counter := max (bs_last_seen_counter s) (fh_tx_counter hdr),
                                bs_last_seen_bridge_uptime_s := bpe_now env div 1000,
                                bs_pending_schema_index := epv_entity_index view, bs_schema_request_retries := 0,
                                bs_last_schema_request_ms := 0\<rparr>
                      in case out of
                           BFComplete complete _ \<Rightarrow>
                             if length complete < 2 then ((b, s), False)
                             else if complete ! 0 = ESPNOW_DESCRIPTOR_TYPE_IDENTITY
                             then bp_identity_push env sender_mac complete (b, s)
                             else bp_entity_push env sender_mac complete (b, s)
                         | _ \<Rightarrow> ((b, s), True)))))"

definition bp_handle_schema_push ::
  "bp_env \<Rightarrow> bytes \<Rightarrow> espnow_frame_header \<Rightarrow> bytes \<Rightarrow> bytes option \<Rightarrow> bp \<Rightarrow> bp \<times> bool" where
  "bp_handle_schema_push env sender_mac hdr payload session_tag =
     bp_on_session (fh_leaf_mac hdr) (bp_schema_push env sender_mac hdr payload session_tag)"

section \<open>STATE\<close>

definition bp_is_text :: "u8 \<Rightarrow> bool" where
  "bp_is_text t \<longleftrightarrow> t = field_type_code FIELD_TYPE_TEXT \<or> t = field_type_code FIELD_TYPE_EVENT"

definition bp_publish_state ::
  "espnow_frame_header \<Rightarrow> u8 \<Rightarrow> bytes \<Rightarrow> u32 \<Rightarrow> bytes \<Rightarrow> bp \<times> bp_session \<Rightarrow> bp \<times> bp_session" where
  "bp_publish_state hdr entity_index complete message_tx_base sender_mac bs =
     (case bs of (b, s) \<Rightarrow>
        (let entity = (if unat entity_index < length (bs_schema_entities s)
                       then bs_schema_entities s ! unat entity_index else BridgeEntitySchema_init)
         in (bp_effect (PublishState (fh_leaf_mac hdr) entity complete (bes_entity_type entity)
               (if bp_is_text (bes_entity_type entity) then complete else []) message_tx_base sender_mac) b, s)))"

definition bp_state ::
  "bp_env \<Rightarrow> bytes \<Rightarrow> espnow_frame_header \<Rightarrow> bytes \<Rightarrow> int \<Rightarrow> bytes option
   \<Rightarrow> bp \<times> bp_session \<Rightarrow> (bp \<times> bp_session) \<times> bool" where
  "bp_state env sender_mac hdr payload rssi session_tag bs =
     (case bs of (b, s) \<Rightarrow>
       if \<not> bs_session_key_valid s then ((b, s), False)
       else case bp_validate_session_packet env s hdr payload session_tag of
         None \<Rightarrow> (fst (bp_send_deauth env sender_mac (fh_packet_type hdr) (fh_tx_counter hdr) payload (b, s)), False)
       | Some plaintext \<Rightarrow>
           (case parse_entity_payload plaintext of
              None \<Rightarrow> ((b, s), False)
            | Some view \<Rightarrow>
                (let message_tx_base = fragment_message_tx_base hdr view in
                 if \<not> counter_is_newer message_tx_base (bs_last_completed_state_message_tx_base s) then
                   (if message_tx_base = bs_last_completed_state_message_tx_base s
                    then bp_send_state_ack env sender_mac message_tx_base 0 (b, s)
                    else ((b, s), True))
                 else case bp_state_fragment s view message_tx_base (bpe_now env) of
                   (s, BFDropped) \<Rightarrow> ((b, s), False)
                 | (s, out) \<Rightarrow>
                     (let s = s\<lparr>bs_last_seen_counter := max (bs_last_seen_counter s) (fh_tx_counter hdr),
                                bs_last_seen_bridge_uptime_s := bpe_now env div 1000\<rparr>
                      in case out of
                           BFComplete complete flags \<Rightarrow>
                             (let s = (if bs_state_sync_pending s
                                       then s\<lparr>bs_awaiting_more_dirty := (flags AND ESPNOW_ENTITY_FLAG_MORE_DIRTY \<noteq> 0)\<rparr> else s);
                                  bs = (if bs_remote_state s = BRS_NORMAL \<and> \<not> bs_online s
                                        then bp_mark_online env rssi (fh_tx_counter hdr) 0 (b, s) else (b, s))
                              in (bp_publish_state hdr (epv_entity_index view) complete message_tx_base sender_mac bs, True))
                         | _ \<Rightarrow> ((b, s), True)))))"

definition bp_handle_state ::
  "bp_env \<Rightarrow> bytes \<Rightarrow> espnow_frame_header \<Rightarrow> bytes \<Rightarrow> int \<Rightarrow> bytes option \<Rightarrow> bp \<Rightarrow> bp \<times> bool" where
  "bp_handle_state env sender_mac hdr payload rssi session_tag =
     bp_on_session (fh_leaf_mac hdr) (bp_state env sender_mac hdr payload rssi session_tag)"

text \<open>The component's answer to a published state.\<close>

definition bp_confirm_state ::
  "bp_env \<Rightarrow> u32 \<Rightarrow> bytes \<Rightarrow> bp \<times> bp_session \<Rightarrow> (bp \<times> bp_session) \<times> bool" where
  "bp_confirm_state env message_tx_base next_hop_mac bs =
     (case bs of (b, s) \<Rightarrow>
       (let bs =
          (if counter_is_newer message_tx_base (bs_last_completed_state_message_tx_base s) then
             (let s = s\<lparr>bs_last_completed_state_message_tx_base := message_tx_base\<rparr> in
              if bs_state_sync_pending s \<and> \<not> bs_awaiting_more_dirty s \<and> bs_discovery_all_confirmed s
              then fst (bp_send_join_complete env next_hop_mac True (b, s\<lparr>bs_state_sync_pending := False\<rparr>))
              else (b, s))
           else (b, s))
        in bp_send_state_ack env next_hop_mac message_tx_base 0 bs))"

definition bp_confirm_state_delivery ::
  "bp_env \<Rightarrow> bytes \<Rightarrow> u8 \<Rightarrow> u32 \<Rightarrow> bytes \<Rightarrow> bp \<Rightarrow> bp \<times> bool" where
  "bp_confirm_state_delivery env leaf_mac entity_index message_tx_base next_hop_mac =
     bp_on_session leaf_mac (bp_confirm_state env message_tx_base next_hop_mac)"

section \<open>HEARTBEAT and ACK\<close>

definition bp_take_heartbeat ::
  "bp_env \<Rightarrow> bytes \<Rightarrow> espnow_frame_header \<Rightarrow> espnow_heartbeat \<Rightarrow> int \<Rightarrow> bp \<times> bp_session \<Rightarrow> bp \<times> bp_session" where
  "bp_take_heartbeat env sender_mac hdr heartbeat rssi bs =
     (case bs of (b, s) \<Rightarrow>
        (let parent_changed = (bs_parent_mac s \<noteq> hb_parent_mac heartbeat);
             remote_rssi = sint (hb_remote_rssi_dbm heartbeat);
             s = s\<lparr>bs_last_seen_counter := fh_tx_counter hdr, bs_last_seen_bridge_uptime_s := bpe_now env div 1000,
                   bs_uptime_seconds := hb_uptime_seconds heartbeat,
                   bs_expected_contact_interval_s := hb_expected_contact_interval_seconds heartbeat,
                   bs_parent_mac := hb_parent_mac heartbeat,
                   bs_parent_mac_hex_key := mac_hex (Some (hb_parent_mac heartbeat))\<rparr>;
             b = (if parent_changed \<and> bs_online s
                  then bp_effect (PublishTopologyChanged (bs_leaf_mac s) ''route_changed'') b else b);
             s = s\<lparr>bs_direct_child_count := hb_direct_child_count heartbeat,
                   bs_total_child_count := hb_total_child_count heartbeat, bs_last_rssi := remote_rssi,
                   bs_next_hop_mac := sender_mac\<rparr>;
             (b, s) = (if bs_remote_state s \<noteq> BRS_NORMAL
                       then bp_mark_online env rssi (fh_tx_counter hdr) remote_rssi (b, s\<lparr>bs_remote_state := BRS_NORMAL\<rparr>)
                       else (b, s));
             s = (if bs_join_complete_pending s
                  then s\<lparr>bs_join_complete_pending := False, bs_join_complete_retry_count := 0, bs_last_join_complete_ms := 0\<rparr>
                  else s)
         in (b, s\<lparr>bs_join_in_progress := False\<rparr>)))"

definition bp_heartbeat ::
  "bp_env \<Rightarrow> bytes \<Rightarrow> espnow_frame_header \<Rightarrow> bytes \<Rightarrow> int \<Rightarrow> bytes option
   \<Rightarrow> bp \<times> bp_session \<Rightarrow> (bp \<times> bp_session) \<times> bool" where
  "bp_heartbeat env sender_mac hdr payload rssi session_tag bs =
     (case bs of (b, s) \<Rightarrow>
       if \<not> bs_session_key_valid s then ((b, s), False)
       else if \<not> counter_is_newer (fh_tx_counter hdr) (bs_last_seen_counter s) then ((b, s), False)
       else case bp_validate_session_packet env s hdr payload session_tag of
         None \<Rightarrow> ((b, s), False)
       | Some plaintext \<Rightarrow>
           if length plaintext \<noteq> c_width espnow_heartbeat_codec then ((b, s), False)
           else (case c_dec espnow_heartbeat_codec plaintext of
                   None \<Rightarrow> ((b, s), False)
                 | Some heartbeat \<Rightarrow> (bp_take_heartbeat env sender_mac hdr heartbeat rssi (b, s), True)))"

definition bp_handle_heartbeat ::
  "bp_env \<Rightarrow> bytes \<Rightarrow> espnow_frame_header \<Rightarrow> bytes \<Rightarrow> int \<Rightarrow> bytes option \<Rightarrow> bp \<Rightarrow> bp \<times> bool" where
  "bp_handle_heartbeat env sender_mac hdr payload rssi session_tag =
     bp_on_session (fh_leaf_mac hdr) (bp_heartbeat env sender_mac hdr payload rssi session_tag)"

definition bp_config_acked :: "u8 \<Rightarrow> espnow_ack \<Rightarrow> bytes \<Rightarrow> ConfigAckResult" where
  "bp_config_acked command ack trailing =
     (let command_echo = (case trailing of [] \<Rightarrow> 0 | c # _ \<Rightarrow> c)
      in ConfigAckResult_init\<lparr>car_acked := True,
           car_result := (if command_echo \<noteq> command then CFG_RESULT_INVALID_PAYLOAD
                          else if trailing \<noteq> [] then ack_result ack else CFG_RESULT_INVALID_PAYLOAD),
           car_command_echo := command_echo\<rparr>)"

definition bp_config_done :: "nat option \<Rightarrow> ConfigAckResult \<Rightarrow> bp \<Rightarrow> bp" where
  "bp_config_done callback result b = (case callback of None \<Rightarrow> b | Some n \<Rightarrow> bp_effect (ConfigDone n result) b)"

definition bp_online_on_contact :: "bp_env \<Rightarrow> int \<Rightarrow> u32 \<Rightarrow> bp \<times> bp_session \<Rightarrow> bp \<times> bp_session" where
  "bp_online_on_contact env rssi tx_counter bs =
     (if bs_remote_state (snd bs) = BRS_NORMAL \<and> \<not> bs_online (snd bs) then bp_mark_online env rssi tx_counter 0 bs else bs)"

definition bp_config_ack ::
  "bp_env \<Rightarrow> espnow_frame_header \<Rightarrow> espnow_ack \<Rightarrow> bytes \<Rightarrow> int \<Rightarrow> bp \<times> bp_session \<Rightarrow> bp \<times> bp_session" where
  "bp_config_ack env hdr ack trailing rssi bs =
     (case bs of (b, s) \<Rightarrow>
        (case List.extract (\<lambda>p. ack_ref_tx_counter ack = pcf_tx_base p \<and> bs_leaf_mac s = pcf_leaf_mac p)
                (bp_pending_configs b) of
           None \<Rightarrow> (b, s)
         | Some (before, p, after) \<Rightarrow>
             (case bp_online_on_contact env rssi (fh_tx_counter hdr) (b\<lparr>bp_pending_configs := before @ after\<rparr>, s) of
                (b, s) \<Rightarrow> (bp_config_done (pcf_callback p) (bp_config_acked (pcf_command p) ack trailing) b, s))))"

definition bp_command_acked :: "espnow_ack \<Rightarrow> bytes \<Rightarrow> bp \<Rightarrow> bp" where
  "bp_command_acked ack leaf_mac b =
     (if ack_ack_type ack = BP_ACK_COMMAND \<and> ack_result ack = 0
      then case List.extract (\<lambda>c. ack_ref_tx_counter ack = pc_tx_base c \<and> leaf_mac = pc_leaf_mac c) (bp_command_queue b) of
             None \<Rightarrow> b
           | Some (before, _, after) \<Rightarrow> b\<lparr>bp_command_queue := before @ after\<rparr>
      else b)"

definition bp_ack ::
  "bp_env \<Rightarrow> espnow_frame_header \<Rightarrow> bytes \<Rightarrow> int \<Rightarrow> bytes option
   \<Rightarrow> bp \<times> bp_session \<Rightarrow> (bp \<times> bp_session) \<times> bool" where
  "bp_ack env hdr payload rssi session_tag bs =
     (case bs of (b, s) \<Rightarrow>
       if \<not> bs_session_key_valid s then ((b, s), False)
       else if \<not> counter_is_newer (fh_tx_counter hdr) (bs_last_seen_counter s) then ((b, s), False)
       else case bp_validate_session_packet env s hdr payload session_tag of
         None \<Rightarrow> ((b, s), False)
       | Some plaintext \<Rightarrow>
           (let s = s\<lparr>bs_last_seen_counter := fh_tx_counter hdr, bs_last_seen_bridge_uptime_s := bpe_now env div 1000\<rparr>
            in case c_dec espnow_ack_codec plaintext of
                 None \<Rightarrow> ((b, s), False)
               | Some ack \<Rightarrow>
                   (let trailing = drop (c_width espnow_ack_codec) plaintext in
                    if ack_ack_type ack = packet_code PKT_FILE_TRANSFER \<and> bpe_file_ack_fn env
                    then ((bp_effect (FileAck (bs_leaf_mac s) ack (if trailing = [] then None else Some trailing)) b, s), True)
                    else if ack_ack_type ack = packet_code PKT_CONFIG
                    then (bp_config_ack env hdr ack trailing rssi (b, s), True)
                    else (bp_online_on_contact env rssi (fh_tx_counter hdr) (bp_command_acked ack (bs_leaf_mac s) b, s), True))))"

definition bp_handle_ack ::
  "bp_env \<Rightarrow> espnow_frame_header \<Rightarrow> bytes \<Rightarrow> int \<Rightarrow> bytes option \<Rightarrow> bp \<Rightarrow> bp \<times> bool" where
  "bp_handle_ack env hdr payload rssi session_tag =
     bp_on_session (fh_leaf_mac hdr) (bp_ack env hdr payload rssi session_tag)"

section \<open>Discovery confirmed\<close>

definition bp_count_confirmed :: "bp_session \<Rightarrow> bp_session" where
  "bp_count_confirmed s =
     (if bs_pending_discovery_count s > 0
      then (let n = bs_pending_discovery_count s - 1; s = s\<lparr>bs_pending_discovery_count := n\<rparr>
            in if n = 0 then s\<lparr>bs_discovery_all_confirmed := True\<rparr> else s)
      else s)"

definition bp_request_again :: "bp_env \<Rightarrow> u8 \<Rightarrow> bp \<times> bp_session \<Rightarrow> bp \<times> bp_session" where
  "bp_request_again env index bs =
     (case bs of (b, s) \<Rightarrow>
        (case bp_send_schema_request env (bs_next_hop_mac s) ESPNOW_DESCRIPTOR_TYPE_ENTITY index
                (b, s\<lparr>bs_schema_request_retries := 1\<rparr>) of
           ((b, s), sent) \<Rightarrow> (b, s\<lparr>bs_schema_request_in_flight := sent, bs_last_schema_request_ms := bpe_now env\<rparr>)))"

definition bp_discovery_confirmed :: "bp_env \<Rightarrow> u8 \<Rightarrow> bool \<Rightarrow> bp \<times> bp_session \<Rightarrow> bp \<times> bp_session" where
  "bp_discovery_confirmed env entity_index success bs =
     (case bs of (b, s) \<Rightarrow>
        if \<not> bs_awaiting_discovery_confirm s then (b, if success then bp_count_confirmed s else s)
        else if \<not> success \<or> bpe_now env - bs_last_discovery_confirm_ms s > ESPNOW_MQTT_CONFIRM_TIMEOUT_MS
        then (case bp_request_again env entity_index (b, s) of
                (b, s) \<Rightarrow> (b, s\<lparr>bs_last_discovery_confirm_ms := bpe_now env\<rparr>))
        else
          (let s = (bp_count_confirmed s)\<lparr>bs_awaiting_discovery_confirm := False\<rparr> in
           if bs_pending_schema_request_index s = 255 then (b, s)
           else bp_request_again env (bs_pending_schema_request_index s) (b, s)))"

definition bp_on_discovery_confirmed :: "bp_env \<Rightarrow> bytes \<Rightarrow> u8 \<Rightarrow> bool \<Rightarrow> bp \<Rightarrow> bp" where
  "bp_on_discovery_confirmed env mac entity_index success b =
     fst (bp_on_session mac (\<lambda>bs. (bp_discovery_confirmed env entity_index success bs, True)) b)"

section \<open>A frame from the radio\<close>

text \<open>The session of a STATE, HEARTBEAT or ACK: a leaf without one, or without a key, is told to join again.\<close>

definition bp_touch_session ::
  "espnow_frame_header \<Rightarrow> bytes \<Rightarrow> int \<Rightarrow> bp \<times> bp_session \<Rightarrow> bp \<times> bp_session" where
  "bp_touch_session hdr sender_mac rssi bs =
     (case bs of (b, s) \<Rightarrow>
        (let s = s\<lparr>bs_next_hop_mac := sender_mac, bs_rx_packets := bs_rx_packets s + 1, bs_last_rssi := rssi\<rparr>;
             new_hops = hops_count (fh_hop_count hdr)
         in if new_hops \<noteq> bs_hops_to_bridge s
            then (bp_effect (PublishAvailability (bs_leaf_mac s) True ''hop_count_changed'') b, s\<lparr>bs_hops_to_bridge := new_hops\<rparr>)
            else (b, s)))"

definition bp_session_frame ::
  "bp_env \<Rightarrow> bytes \<Rightarrow> espnow_frame_header \<Rightarrow> nat \<Rightarrow> bytes \<Rightarrow> int \<Rightarrow> bytes option \<Rightarrow> bp \<Rightarrow> bp \<times> bool" where
  "bp_session_frame env sender_mac hdr len payload rssi session_tag b =
     (case bp_get_session (fh_leaf_mac hdr) b of
        None \<Rightarrow>
          (case bp_send_deauth env sender_mac (fh_packet_type hdr) (fh_tx_counter hdr) payload
                  (b, bp_session_init\<lparr>bs_leaf_mac := fh_leaf_mac hdr, bs_next_hop_mac := sender_mac\<rparr>) of
             ((b, _), sent) \<Rightarrow> (b, sent))
      | Some s \<Rightarrow>
          if \<not> bs_session_key_valid s
          then (case bp_send_deauth env sender_mac (fh_packet_type hdr) (fh_tx_counter hdr) payload
                       (b, s\<lparr>bs_next_hop_mac := sender_mac, bs_last_rssi := rssi\<rparr>) of
                  (bs, sent) \<Rightarrow> (bp_store (fh_leaf_mac hdr) bs, sent))
          else
            (case bp_ensure_session (fh_leaf_mac hdr)
                    (bp_store (fh_leaf_mac hdr) (bp_touch_session hdr sender_mac rssi (b, s))) of
               (b, s) \<Rightarrow>
                 if len > unat (bs_session_max_payload s) then (b, False)
                 else if fh_packet_type hdr = packet_code PKT_STATE
                 then bp_handle_state env sender_mac hdr payload rssi session_tag b
                 else if fh_packet_type hdr = packet_code PKT_HEARTBEAT
                 then bp_handle_heartbeat env sender_mac hdr payload rssi session_tag b
                 else bp_handle_ack env hdr payload rssi session_tag b))"

definition bp_on_espnow_frame :: "bp_env \<Rightarrow> bytes \<Rightarrow> bytes \<Rightarrow> int \<Rightarrow> bp \<Rightarrow> bp \<times> bool" where
  "bp_on_espnow_frame env sender_mac frame rssi b =
     (case bp_parse_frame env frame of
        None \<Rightarrow> (b, False)
      | Some (hdr, payload, session_tag, parent_mac) \<Rightarrow>
          (let t = fh_packet_type hdr in
           if fh_hop_count hdr AND ESPNOW_HOPS_PARENT_CHECK_BIT \<noteq> 0
              \<and> \<not> espnow_is_parent_mac_all_zeros parent_mac \<and> parent_mac \<noteq> bp_bridge_mac b then (b, False)
           else if t = packet_code PKT_DISCOVER then bp_handle_discover env sender_mac hdr payload b
           else if t = packet_code PKT_STATE \<or> t = packet_code PKT_HEARTBEAT \<or> t = packet_code PKT_ACK
           then bp_session_frame env sender_mac hdr (length frame) payload rssi session_tag b
           else if t = packet_code PKT_JOIN then bp_handle_join env sender_mac hdr payload rssi b
           else if t = packet_code PKT_SCHEMA_PUSH then bp_handle_schema_push env sender_mac hdr payload session_tag b
           else (b, False)))"

end
