(* ===== verification/BridgeLoop.thy ===== *)
theory BridgeLoop
  imports BridgeExchange
begin

text \<open>
  The loop of the bridge (\<^verbatim>\<open>esp_tree_bridge/bridge_protocol.cpp\<close>): eviction of sessions when memory is
  short, timeouts and repetitions of every exchange, announcements, configurations and commands under way,
  the diagnosis report; and the calls of a bridge as events.
\<close>

section \<open>Eviction\<close>

definition bp_remove_session :: "u64 \<Rightarrow> bp_session \<Rightarrow> bp \<Rightarrow> bp" where
  "bp_remove_session key s b =
     (let b = bp_effect (PublishTopologyChanged (bs_leaf_mac s) ''node_removed'') b;
          b = bp_effect (ClearEntities (bs_leaf_mac s) (bs_schema_entities s)) b
      in b\<lparr>bp_schema_cache := AList.delete (bp_schema_cache_key s) (bp_schema_cache b),
           bp_schema_hash_cache := AList.delete (bp_schema_cache_key s) (bp_schema_hash_cache b),
           bp_sessions := AList.delete key (bp_sessions b)\<rparr>)"

definition bp_has_assemblies :: "bp_session \<Rightarrow> bool" where
  "bp_has_assemblies s \<longleftrightarrow>
     ca_pending (bs_pending_state_assemblies s) \<noteq> [] \<or> ca_pending (bs_pending_schema_assemblies s) \<noteq> []"

text \<open>The candidates in turn, until enough memory is free or too few sessions are left.\<close>

fun bp_evict_loop :: "bp_env \<Rightarrow> bool \<Rightarrow> u32 \<Rightarrow> u64 list \<Rightarrow> nat \<Rightarrow> bp \<Rightarrow> bp \<times> nat" where
  "bp_evict_loop env aggressive target_free [] evicted b = (b, evicted)"
| "bp_evict_loop env aggressive target_free (key # keys) evicted b =
     (case bp_read_heap env b of (b, free_heap) \<Rightarrow>
        if free_heap \<ge> target_free then (b, evicted)
        else if length (bp_sessions b) - evicted \<le> MIN_SESSIONS_TO_PROTECT then (b, evicted)
        else case map_of (bp_sessions b) key of
          None \<Rightarrow> bp_evict_loop env aggressive target_free keys evicted b
        | Some s \<Rightarrow>
            if \<not> aggressive \<and> bp_has_assemblies s then bp_evict_loop env aggressive target_free keys evicted b
            else
              (let b = (if bs_online s then bp_effect (PublishAvailability (bs_leaf_mac s) False ''evicted'') b else b)
               in bp_evict_loop env aggressive target_free keys (evicted + 1) (bp_remove_session key s b)))"

text \<open>
  The candidates are copied to an array of \<open>MAX_SESSIONS\<close> entries; \<open>None\<close> is a write past its end. They are sorted, the
  one not heard of for longest first; equal ones are taken to keep their order, which the
  library leaves open.
\<close>

definition bp_evict_sessions_for_ram :: "bp_env \<Rightarrow> bool \<Rightarrow> bp \<Rightarrow> (bp \<times> bool) option" where
  "bp_evict_sessions_for_ram env aggressive b =
     (case bp_read_heap env b of (b, free_heap) \<Rightarrow>
        if \<not> bpe_ram_low env aggressive free_heap (bpe_total_heap env) then Some (b, False)
        else if length (bp_sessions b) > MAX_SESSIONS then None
        else
          (let candidates = map fst (sort_key (\<lambda>(_, s). bs_last_seen_bridge_uptime_s s) (bp_sessions b))
           in case bp_evict_loop env aggressive (free_heap + RAM_EVICTION_BUFFER_BYTES) candidates 0 b of
                (b, 0) \<Rightarrow> Some (b, False)
              | (b, _) \<Rightarrow> Some (case bp_read_heap env b of (b, _) \<Rightarrow> b, True)))"

fun bp_trim_sessions :: "u64 list \<Rightarrow> bp \<Rightarrow> bp" where
  "bp_trim_sessions [] b = b"
| "bp_trim_sessions (key # keys) b =
     (case map_of (bp_sessions b) key of
        None \<Rightarrow> bp_trim_sessions keys b
      | Some s \<Rightarrow>
          if bs_online s then bp_trim_sessions keys b
          else
            (let b = bp_remove_session key s b
             in if length (bp_sessions b) \<le> MAX_SESSIONS then b else bp_trim_sessions keys b))"

section \<open>One session\<close>

definition bp_prune_schema :: "u32 \<Rightarrow> bp_session \<Rightarrow> bp_session" where
  "bp_prune_schema now s =
     (let ca = bs_pending_schema_assemblies s in
      s\<lparr>bs_pending_schema_assemblies :=
          \<lparr>ca_pending = filter (\<lambda>(_, a). \<not> fragments_expired now a) (ca_pending ca),
           ca_reserved = fold (\<lambda>(_, a) r. if fragments_expired now a
               then r - of_nat (unat (fa_fragment_count a) * unat (bs_max_entity_fragment s)) else r)
             (ca_pending ca) (ca_reserved ca)\<rparr>\<rparr>)"

definition bp_prune_state :: "u32 \<Rightarrow> bp_session \<Rightarrow> bp_session" where
  "bp_prune_state now s =
     s\<lparr>bs_pending_state_assemblies := prune_pending_command_fragments now (bs_pending_state_assemblies s)\<rparr>"

definition bp_tell_offline :: "bytes \<Rightarrow> bp \<Rightarrow> bp" where
  "bp_tell_offline mac b =
     bp_effect (PublishTopologyChanged mac ''node_offline'') (bp_effect (PublishAvailability mac False ''timeout'') b)"

definition bp_contact_timeout_ms :: "u16 \<Rightarrow> bp_session \<Rightarrow> u32" where
  "bp_contact_timeout_ms heartbeat_interval s =
     max (ucast heartbeat_interval * 1000 + OFFLINE_TIMEOUT_GRACE_MS)
         (if bs_expected_contact_interval_s s > 0
          then bs_expected_contact_interval_s s * 3000 + OFFLINE_TIMEOUT_GRACE_MS
          else ucast heartbeat_interval * 3000 + OFFLINE_TIMEOUT_GRACE_MS)"

definition bp_check_contact :: "bp_env \<Rightarrow> bp \<times> bp_session \<Rightarrow> bp \<times> bp_session" where
  "bp_check_contact env bs =
     (case bs of (b, s) \<Rightarrow>
        if bs_online s \<and> bs_last_seen_bridge_uptime_s s > 0
           \<and> bpe_now env div 1000 - bs_last_seen_bridge_uptime_s s
              > bp_contact_timeout_ms (bp_heartbeat_interval b) s div 1000
        then (bp_tell_offline (bs_leaf_mac s) b,
              s\<lparr>bs_online := False, bs_remote_state := BRS_NONE, bs_last_offline_reason := ''timeout''\<rparr>)
        else (b, s))"

definition bp_backoff_ms :: "u8 \<Rightarrow> u32" where
  "bp_backoff_ms retries = ucast (RETRY_BACKOFF_MS ! min (unat retries) 3)"

definition bp_check_schema_request :: "bp_env \<Rightarrow> bp \<times> bp_session \<Rightarrow> bp \<times> bp_session" where
  "bp_check_schema_request env bs =
     (case bs of (b, s) \<Rightarrow>
        if bs_online s \<and> \<not> bs_schema_received s \<and> bs_schema_request_in_flight s \<and> bs_last_schema_request_ms s > 0
        then
          (case bp_draw_random env b of (b, r) \<Rightarrow>
             if bpe_now env - bs_last_schema_request_ms s
                \<ge> bp_backoff_ms (bs_schema_request_retries s) + r mod (BP_RETRY_JITTER_MS * 2 + 1)
             then
               (if bs_schema_request_retries s < BP_MAX_RETRIES
                then
                  (case bp_send_schema_request env (bs_next_hop_mac s) (bs_pending_schema_descriptor_type s)
                          (bs_pending_schema_index s) (b, s\<lparr>bs_schema_request_retries := bs_schema_request_retries s + 1\<rparr>) of
                     ((b, s), sent) \<Rightarrow> (b, s\<lparr>bs_schema_request_in_flight := sent\<rparr>))
                else (bp_tell_offline (bs_leaf_mac s) b,
                      s\<lparr>bs_online := False, bs_remote_state := BRS_NONE, bs_schema_request_in_flight := False,
                        bs_session_key_valid := False, bs_join_in_progress := False,
                        bs_last_offline_reason := ''timeout''\<rparr>))
             else (b, s))
        else (b, s))"

definition bp_check_state_sync :: "bp_env \<Rightarrow> bp_session \<Rightarrow> bp_session" where
  "bp_check_state_sync env s =
     (if bs_state_sync_pending s \<and> \<not> bs_join_complete_pending s \<and> bs_last_seen_bridge_uptime_s s > 0
         \<and> bpe_now env div 1000 - bs_last_seen_bridge_uptime_s s \<ge> ESPNOW_STATE_SYNC_TIMEOUT_MS div 1000
      then s\<lparr>bs_state_sync_pending := False, bs_join_in_progress := False,
             bs_pending_state_assemblies := command_assemblies_init\<rparr>
      else s)"

definition bp_check_join_complete :: "bp_env \<Rightarrow> bp \<times> bp_session \<Rightarrow> bp \<times> bp_session" where
  "bp_check_join_complete env bs =
     (case bs of (b, s) \<Rightarrow>
        if bs_join_complete_pending s then
          (case bp_draw_random env b of (b, r) \<Rightarrow>
             if bs_last_join_complete_ms s > 0
                \<and> bpe_now env - bs_last_join_complete_ms s
                   \<ge> bp_backoff_ms (bs_join_complete_retry_count s) + r mod (BP_RETRY_JITTER_MS * 2 + 1)
             then
               (if bs_join_complete_retry_count s < BP_MAX_RETRIES
                then
                  (case bp_send_join_complete env (bs_next_hop_mac s) False (b, s) of
                     ((b, s), sent) \<Rightarrow>
                       (b, if sent then s\<lparr>bs_join_complete_retry_count := bs_join_complete_retry_count s + 1\<rparr> else s))
                else
                  (bp_effect (ClearEntities (bs_leaf_mac s) (bs_schema_entities s)) (bp_tell_offline (bs_leaf_mac s) b),
                   s\<lparr>bs_join_complete_pending := False, bs_join_complete_retry_count := 0, bs_last_join_complete_ms := 0,
                     bs_join_in_progress := False, bs_online := False, bs_remote_state := BRS_NONE,
                     bs_schema_request_in_flight := False, bs_last_offline_reason := ''timeout''\<rparr>))
             else (b, s))
        else (b, s))"

definition bp_loop_session :: "bp_env \<Rightarrow> bp \<times> bp_session \<Rightarrow> bp \<times> bp_session" where
  "bp_loop_session env bs =
     (case bs of (b, s) \<Rightarrow>
        (case bp_check_schema_request env
                (bp_check_contact env (b, bp_prune_schema (bpe_now env) (bp_prune_state (bpe_now env) s))) of
           (b, s) \<Rightarrow> bp_check_join_complete env (b, bp_check_state_sync env s)))"

definition bp_announce_due :: "bp_env \<Rightarrow> bp \<times> bp_session \<Rightarrow> bp \<times> bp_session" where
  "bp_announce_due env bs =
     (case bs of (b, s) \<Rightarrow>
        if bs_discover_announce_deadline_ms s > 0 \<and> bpe_now env \<ge> bs_discover_announce_deadline_ms s
        then (fst (bp_send_discover_announce env (bs_discover_announce_leaf_mac s) (bs_leaf_mac s) 0 b),
              s\<lparr>bs_discover_announce_deadline_ms := 0, bs_discover_announce_leaf_mac := replicate 6 0\<rparr>)
        else (b, s))"

text \<open>A loop over the sessions in the order of their keys.\<close>

definition bp_each_session :: "(bp \<times> bp_session \<Rightarrow> bp \<times> bp_session) \<Rightarrow> bp \<Rightarrow> bp" where
  "bp_each_session f b =
     fold (\<lambda>key b. case map_of (bp_sessions b) key of
             None \<Rightarrow> b
           | Some s \<Rightarrow> (case f (b, s) of (b, s) \<Rightarrow> b\<lparr>bp_sessions := bp_put key s (bp_sessions b)\<rparr>))
       (map fst (bp_sessions b)) b"

section \<open>Configurations and commands under way\<close>

fun bp_config_loop :: "bp_env \<Rightarrow> PendingConfig list \<Rightarrow> bp \<Rightarrow> PendingConfig list \<times> bp" where
  "bp_config_loop env [] b = ([], b)"
| "bp_config_loop env (p # ps) b =
     (if bpe_now env < pcf_next_retry_ms p
      then (case bp_config_loop env ps b of (rest, b) \<Rightarrow> (p # rest, b))
      else if pcf_retry_count p \<ge> CONFIG_MAX_RETRIES
      then bp_config_loop env ps (bp_config_done (pcf_callback p)
             (ConfigAckResult_init\<lparr>car_timed_out := True, car_command_echo := pcf_command p\<rparr>) b)
      else case bp_get_session (pcf_leaf_mac p) b of
        None \<Rightarrow> bp_config_loop env ps (bp_config_done (pcf_callback p)
             (ConfigAckResult_init\<lparr>car_no_session := True, car_command_echo := pcf_command p\<rparr>) b)
      | Some s \<Rightarrow>
          if \<not> bs_online s \<or> \<not> bs_session_key_valid s
          then bp_config_loop env ps (bp_config_done (pcf_callback p)
                 (ConfigAckResult_init\<lparr>car_no_session := True, car_command_echo := pcf_command p\<rparr>) b)
          else
            (let p = p\<lparr>pcf_retry_count := pcf_retry_count p + 1, pcf_next_hop_mac := bs_next_hop_mac s\<rparr>;
                 b = bp_store (pcf_leaf_mac p) (fst (bp_send_config_frame env p (b, s)))
             in case bp_config_loop env ps b of
                  (rest, b) \<Rightarrow> (p\<lparr>pcf_next_retry_ms := bpe_now env + pcf_ack_timeout_ms p\<rparr> # rest, b)))"

definition bp_command_timeout :: "bytes \<Rightarrow> bp \<Rightarrow> bp" where
  "bp_command_timeout leaf_mac b =
     (case bp_get_session leaf_mac b of
        None \<Rightarrow> b
      | Some s \<Rightarrow> bp_tell_offline leaf_mac
          (bp_store leaf_mac (b, s\<lparr>bs_online := False, bs_last_offline_reason := ''timeout''\<rparr>)))"

fun bp_command_loop :: "bp_env \<Rightarrow> PendingCommand list \<Rightarrow> bp \<Rightarrow> PendingCommand list \<times> bp" where
  "bp_command_loop env [] b = ([], b)"
| "bp_command_loop env (c # cs) b =
     (if pc_retry_count c \<ge> BP_MAX_RETRIES then bp_command_loop env cs (bp_command_timeout (pc_leaf_mac c) b)
      else
        (case bp_draw_random env b of (b, r) \<Rightarrow>
           if bpe_now env - pc_last_tx_ms c
              \<ge> ucast (RETRY_BACKOFF_MS ! unat (pc_retry_count c)) + r mod (BP_RETRY_JITTER_MS * 2 + 1)
           then
             (case bp_get_session (pc_leaf_mac c) b of
                None \<Rightarrow> bp_command_loop env cs b
              | Some s \<Rightarrow>
                  if \<not> bs_online s \<or> \<not> bs_session_key_valid s then bp_command_loop env cs b
                  else
                    (let b = bp_store (pc_leaf_mac c) (fst (bp_send_command_fragments env (pc_next_hop_mac c)
                           (pc_field_index c) (pc_value c) (pc_tx_base c) False (b, s)))
                     in case bp_command_loop env cs b of
                          (rest, b) \<Rightarrow> (c\<lparr>pc_retry_count := pc_retry_count c + 1, pc_last_tx_ms := bpe_now env\<rparr> # rest, b)))
           else (case bp_command_loop env cs b of (rest, b) \<Rightarrow> (c # rest, b))))"

section \<open>The loop\<close>

definition bp_tick :: "u32 \<Rightarrow> bp \<Rightarrow> bp" where
  "bp_tick now b =
     (let b = (if bp_last_uptime_tick_ms b = 0 then b\<lparr>bp_last_uptime_tick_ms := now\<rparr> else b)
      in if now > bp_last_uptime_tick_ms b
         then b\<lparr>bp_bridge_uptime_s := bp_bridge_uptime_s b + (now - bp_last_uptime_tick_ms b) div 1000,
                bp_last_uptime_tick_ms := now - (now - bp_last_uptime_tick_ms b) mod 1000\<rparr>
         else b)"

definition bp_cleanup :: "bp_env \<Rightarrow> bp \<Rightarrow> bp option" where
  "bp_cleanup env b =
     (if bpe_now env - bp_last_session_cleanup_ms b \<ge> SESSION_CLEANUP_INTERVAL_MS
      then case bp_evict_sessions_for_ram env False (b\<lparr>bp_last_session_cleanup_ms := bpe_now env\<rparr>) of
             None \<Rightarrow> None
           | Some (b, _) \<Rightarrow>
               (let b = (if length (bp_sessions b) > MAX_SESSIONS then bp_trim_sessions (map fst (bp_sessions b)) b else b)
                in Some (bp_each_session (\<lambda>(b, s). (b, bp_prune_schema (bpe_now env) s)) b))
      else Some b)"

definition bp_join_slot_timeout :: "u32 \<Rightarrow> bp \<Rightarrow> bp" where
  "bp_join_slot_timeout now b =
     (if bp_joining_in_progress b \<and> bp_join_started_ms b > 0 \<and> now - bp_join_started_ms b \<ge> 45000
      then bp_clear_joining_slot b else b)"

definition bp_report :: "u32 \<Rightarrow> bp \<Rightarrow> bp" where
  "bp_report now b =
     (let online_count = bp_active_remote_count b in
      if now - bp_last_diag_publish_ms b \<ge> DIAG_PUBLISH_INTERVAL_MS \<or> online_count \<noteq> bp_last_diag_online_count b
      then bp_effect (PublishBridgeDiag (bp_bridge_uptime_s b) online_count)
             (b\<lparr>bp_last_diag_publish_ms := now, bp_last_diag_online_count := online_count\<rparr>)
      else b)"

definition bp_queues :: "bp_env \<Rightarrow> bp \<Rightarrow> bp" where
  "bp_queues env b =
     (case bp_config_loop env (bp_pending_configs b) b of
        (configs, b) \<Rightarrow>
          (case bp_command_loop env (bp_command_queue b) (b\<lparr>bp_pending_configs := configs\<rparr>) of
             (commands, b) \<Rightarrow> b\<lparr>bp_command_queue := commands\<rparr>))"

definition bp_loop :: "bp_env \<Rightarrow> bp \<Rightarrow> bp option" where
  "bp_loop env b =
     (case bp_cleanup env (bp_tick (bpe_now env) b) of
        None \<Rightarrow> None
      | Some b \<Rightarrow>
          (let b = bp_join_slot_timeout (bpe_now env) (bp_each_session (bp_loop_session env) b);
               b = bp_each_session (bp_announce_due env) b
           in case bp_read_heap env b of
                (b, free_heap) \<Rightarrow>
                  (case (if bpe_ram_critical env free_heap (bpe_total_heap env)
                         then map_option fst (bp_evict_sessions_for_ram env True b) else Some b) of
                     None \<Rightarrow> None
                   | Some b \<Rightarrow> Some (bp_report (bpe_now env) (bp_queues env b)))))"

section \<open>Events\<close>

text \<open>The calls of the bridge component, after \<^verbatim>\<open>init\<close>.\<close>

datatype bp_event =
    BpFrame bytes bytes int
  | BpLoop
  | BpCommand bytes u8 bytes
  | BpConfig bytes u8 bytes "nat option"
  | BpOtaFrame bytes espnow_packet_type bytes
  | BpConfirmState bytes u8 u32 bytes
  | BpDiscoveryConfirmed bytes u8 bool
  | BpCheckJoin bytes
  | BpInvalidate
  | BpSetFlags u8
  | BpSetMac bytes

fun bp_step :: "bp_env \<Rightarrow> bp_event \<Rightarrow> bp \<Rightarrow> bp option" where
  "bp_step env (BpFrame mac frame rssi) b = Some (fst (bp_on_espnow_frame env mac frame rssi b))"
| "bp_step env BpLoop b = bp_loop env b"
| "bp_step env (BpCommand mac index val) b = Some (fst (bp_send_command_to_leaf env mac index val b))"
| "bp_step env (BpConfig mac command payload callback) b = Some (fst (bp_send_config_to_leaf env mac command payload callback b))"
| "bp_step env (BpOtaFrame mac type payload) b = Some (fst (bp_send_ota_frame env mac type payload b))"
| "bp_step env (BpConfirmState mac index base next_hop) b = Some (fst (bp_confirm_state_delivery env mac index base next_hop b))"
| "bp_step env (BpDiscoveryConfirmed mac index success) b = Some (bp_on_discovery_confirmed env mac index success b)"
| "bp_step env (BpCheckJoin mac) b = Some (bp_check_and_complete_join env mac b)"
| "bp_step env BpInvalidate b = Some (bp_invalidate_all_sessions b)"
| "bp_step env (BpSetFlags flags) b = Some (bp_set_session_flags flags b)"
| "bp_step env (BpSetMac mac) b = Some (bp_set_bridge_mac (Some mac) b)"

text \<open>What holds of the platform in every call: tags have 32 bytes, nonces 16, addresses six.\<close>

definition bp_env_ok :: "bp_env \<Rightarrow> bool" where
  "bp_env_ok env \<longleftrightarrow> hmac32 (bpe_hmac env) \<and> length (bpe_nonce env) = 16"

definition bp_event_ok :: "bp_event \<Rightarrow> bool" where
  "bp_event_ok e \<longleftrightarrow> (\<forall>mac. e = BpSetMac mac \<longrightarrow> length mac = 6)"

inductive bp_reachable :: "bp \<Rightarrow> bool" where
  bp_reachable_init: "bp_reachable (fst (bp_init env r network_id heartbeat_interval BridgeProtocol_new))"
| bp_reachable_step: "bp_reachable b \<Longrightarrow> bp_env_ok env \<Longrightarrow> bp_event_ok e \<Longrightarrow> bp_step env e b = Some b' \<Longrightarrow> bp_reachable b'"

end
