(* ===== verification/BridgeFrames.thy ===== *)
theory BridgeFrames
  imports BridgeLoop
begin

text \<open>
  The frames of the bridge as bytes: what every frame it builds looks like (\<open>bp_frame_ok\<close>), and that the
  bridge's parser reads back the frames built with the shared header layout, plain or encrypted.
\<close>

section \<open>Layout\<close>

text \<open>Version, downstream hop byte and a known packet type, between a header and the longest radio frame.\<close>

definition bp_frame_ok :: "bytes \<Rightarrow> bool" where
  "bp_frame_ok f \<longleftrightarrow> ESPNOW_HEADER_WITH_PSK_TAG_LEN \<le> length f \<and> length f \<le> ESPNOW_V2_MAX_PAYLOAD
     \<and> f ! 0 = ESPNOW_PROTOCOL_VER \<and> hops_is_downstream (f ! 1) \<and> is_valid_packet_type (f ! 2)"

lemma bp_header_simps [simp]:
  "fh_protocol_version (bp_header t h m c) = ESPNOW_PROTOCOL_VER" "fh_hop_count (bp_header t h m c) = h"
  "fh_packet_type (bp_header t h m c) = t" "fh_leaf_mac (bp_header t h m c) = m"
  "fh_tx_counter (bp_header t h m c) = c" "fh_psk_tag (bp_header t h m c) = replicate 4 0"
  by (simp_all add: bp_header_def)

lemma valid_packet_code [simp]: "is_valid_packet_type (packet_code t)"
  by (cases t) (simp_all add: is_valid_packet_type_def)

definition hdr_core :: "espnow_frame_header \<Rightarrow> bytes" where
  "hdr_core hdr = header_core (fh_packet_type hdr) (fh_leaf_mac hdr) (fh_tx_counter hdr)"

definition bp_net_tag :: "bp_env \<Rightarrow> espnow_frame_header \<Rightarrow> bytes \<Rightarrow> bytes" where
  "bp_net_tag env hdr payload =
     (if g_psk_set (bpe_crypto env) then take 4 (bpe_hmac env (g_psk (bpe_crypto env)) (hdr_core hdr @ payload))
      else replicate 4 0)"

definition bp_key_tag :: "bp_env \<Rightarrow> bytes \<Rightarrow> espnow_frame_header \<Rightarrow> bytes \<Rightarrow> bytes" where
  "bp_key_tag env key hdr payload = take 8 (bpe_hmac env key (hdr_core hdr @ payload))"

definition bp_hdr_ok :: "espnow_frame_header \<Rightarrow> bool" where
  "bp_hdr_ok hdr \<longleftrightarrow> length (fh_leaf_mac hdr) = 6 \<and> length (fh_psk_tag hdr) = 4"

lemma length_net_tag [simp]: "hmac32 (bpe_hmac env) \<Longrightarrow> length (bp_net_tag env hdr payload) = 4"
  by (simp add: bp_net_tag_def hmac32_def)

lemma length_key_tag [simp]: "hmac32 (bpe_hmac env) \<Longrightarrow> length (bp_key_tag env key hdr payload) = 8"
  by (simp add: bp_key_tag_def hmac32_def)

lemma length_hdr_core [simp]: "bp_hdr_ok hdr \<Longrightarrow> length (hdr_core hdr) = 11"
  by (simp add: hdr_core_def bp_hdr_ok_def length_header_core)

lemma hdr_core_eqs [simp]: "hdr_core (hdr\<lparr>fh_psk_tag := t\<rparr>) = hdr_core hdr" "hdr_core hdr ! 0 = fh_packet_type hdr"
  by (simp_all add: hdr_core_def header_core_def)

lemma bp_hdr_ok_simps [simp]:
  "length tag = 4 \<Longrightarrow> bp_hdr_ok (hdr\<lparr>fh_psk_tag := tag\<rparr>) = (length (fh_leaf_mac hdr) = 6)"
  "bp_hdr_ok (bp_header t h m c) = (length m = 6)"
  by (auto simp: bp_hdr_ok_def)

lemma enc_hdr:
  "bp_hdr_ok hdr \<Longrightarrow> c_enc espnow_frame_header_codec hdr = fh_protocol_version hdr # fh_hop_count hdr # hdr_core hdr @ fh_psk_tag hdr"
  by (simp add: bp_hdr_ok_def hdr_core_def header_core_def header_bytes)

lemma bp_tags:
  assumes "length core = 11" and "core = hdr_core hdr"
  shows "espnow_crypto_psk_tag (bpe_hmac env) (bpe_crypto env) (v # h # core @ rest) payload = bp_net_tag env hdr payload"
    and "espnow_crypto_session_tag (bpe_hmac env) key (v # h # core @ rest) payload = bp_key_tag env key hdr payload"
  using assms by (simp_all add: espnow_crypto_psk_tag_def espnow_crypto_session_tag_def tag_data_core bp_net_tag_def bp_key_tag_def)

lemma bp_frame_layout:
  assumes "bp_hdr_ok hdr" and "hmac32 (bpe_hmac env)"
  shows "bp_frame_bytes env key hdr payload =
    fh_protocol_version hdr # fh_hop_count hdr # hdr_core hdr @ bp_net_tag env hdr payload @ payload
      @ (case key of None \<Rightarrow> [] | Some k \<Rightarrow> bp_key_tag env k hdr payload)"
proof -
  have "c_enc espnow_frame_header_codec (hdr\<lparr>fh_psk_tag := bp_net_tag env hdr payload\<rparr>)
      = fh_protocol_version hdr # fh_hop_count hdr # hdr_core hdr @ bp_net_tag env hdr payload"
    using enc_hdr [of "hdr\<lparr>fh_psk_tag := bp_net_tag env hdr payload\<rparr>"] assms by (simp add: bp_hdr_ok_def)
  then show ?thesis
    using assms by (cases key) (simp_all add: bp_frame_bytes_def Let_def enc_hdr bp_tags)
qed

lemma bp_frame_ok_built:
  assumes "length leaf = 6" and "hmac32 (bpe_hmac env)" and "length payload + (if key = None then 17 else 25) \<le> 1470"
  shows "bp_frame_ok (bp_frame_bytes env key (bp_header (packet_code t) bp_down_hops leaf c) payload)"
proof -
  have "hops_is_downstream bp_down_hops" by (simp add: hops_is_downstream_def hops_make_def)
  then show ?thesis
    using assms by (cases key) (simp_all add: bp_frame_ok_def bp_frame_layout nth_append)
qed

section \<open>The bridge's parser\<close>

text \<open>
  Frames without a parent's address, plain or encrypted, that were built with the same network key are read back; the
  header then carries the network tag.
\<close>

lemma bp_parse_frame_built:
  assumes hdr: "bp_hdr_ok hdr" and h: "hmac32 (bpe_hmac env)"
    and v: "fh_protocol_version hdr = ESPNOW_PROTOCOL_VER" "is_valid_packet_type (fh_packet_type hdr)"
    and hop: "fh_hop_count hdr AND ESPNOW_HOPS_PARENT_CHECK_BIT = 0"
    and enc: "is_encrypted_packet (fh_packet_type hdr) \<longleftrightarrow> key \<noteq> None"
    and len: "length payload + (if key = None then 17 else 25) \<le> 1470" and psk: "g_psk_set (bpe_crypto env)"
  shows "bp_parse_frame env (bp_frame_bytes env key hdr payload)
    = Some (hdr\<lparr>fh_psk_tag := bp_net_tag env hdr payload\<rparr>, payload,
        map_option (\<lambda>k. bp_key_tag env k hdr payload) key, replicate 6 0)"
proof -
  let ?f = "bp_frame_bytes env key hdr payload" and ?t = "bp_net_tag env hdr payload"
  let ?tail = "case key of None \<Rightarrow> [] | Some k \<Rightarrow> bp_key_tag env k hdr payload"
  have ok: "bp_hdr_ok (hdr\<lparr>fh_psk_tag := ?t\<rparr>)" using hdr h by (simp add: bp_hdr_ok_def)
  have f: "?f = fh_protocol_version hdr # fh_hop_count hdr # hdr_core hdr @ ?t @ payload @ ?tail"
    by (rule bp_frame_layout [OF hdr h])
  have "?f = c_enc espnow_frame_header_codec (hdr\<lparr>fh_psk_tag := ?t\<rparr>) @ payload @ ?tail"
    using enc_hdr [OF ok] f by simp
  then have dec: "c_dec espnow_frame_header_codec ?f = Some (hdr\<lparr>fh_psk_tag := ?t\<rparr>)"
    using ok by (simp add: fh.dec_enc bp_hdr_ok_def)
  have tail: "length ?tail = (if key = None then 0 else 8)" using h by (cases key) simp_all
  have lf: "length ?f = 17 + length payload + (if key = None then 0 else 8)"
    using hdr h tail by (simp add: f)
  have d: "drop 17 ?f = payload @ ?tail" using hdr h by (simp add: f)
  have "drop (17 + length payload) ?f = ?tail" using d by (metis add.commute append_eq_conv_conj drop_drop)
  moreover have "espnow_crypto_verify_psk_tag (bpe_hmac env) (bpe_crypto env) ?f payload ?t"
    using hdr h psk f by (simp add: verify_psk_tag_iff bp_tags)
  ultimately show ?thesis
    using v hop enc len d lf dec by (cases key) (simp_all add: bp_parse_frame_def Let_def)
qed

lemma bp_validate_built:
  assumes "bp_hdr_ok hdr" and "hmac32 (bpe_hmac env)" and "g_psk_set (bpe_crypto env)" and "bs_session_key_valid s"
  shows "bp_validate_session_packet env s (hdr\<lparr>fh_psk_tag := bp_net_tag env hdr ciphertext\<rparr>) ciphertext
      (Some (bp_key_tag env (bs_session_key s) hdr ciphertext))
    = Some (aes256_ctr_crypt (bs_session_key s) (fh_tx_counter hdr) ciphertext)"
proof -
  let ?h = "hdr\<lparr>fh_psk_tag := bp_net_tag env hdr ciphertext\<rparr>"
  have "bp_hdr_ok ?h" using assms(1,2) by (simp add: bp_hdr_ok_def)
  then have "espnow_crypto_verify_session_tag (bpe_hmac env) (bs_session_key s) (c_enc espnow_frame_header_codec ?h) ciphertext
      (bp_key_tag env (bs_session_key s) hdr ciphertext)"
    using assms(1,2) by (simp add: verify_session_tag_iff enc_hdr bp_tags)
  then show ?thesis using assms(3,4) by (simp add: bp_validate_session_packet_def espnow_crypto_crypt_def)
qed

end
