(* ===== verification/Delivery.thy ===== *)
theory Delivery
  imports BridgeFrames RemoteClaims Aes256Props
begin

text \<open>
  The bridge and a remote together. The frames that \<open>bp_send_command_to_leaf\<close> hands to the radio, carried to the
  remote in any order and with repetitions, make it run the command once, with the value given to the bridge.
  The lemmas follow a frame from the bridge's builder through the remote's checks, and a message
  through the buffer of its entity.
\<close>

section \<open>A message in the buffer of its entity\<close>

text \<open>The value of fragment \<open>i\<close> of a value cut by \<open>F\<close>, and how a receiver's parser sees it.\<close>

abbreviation (input) chunk_value :: "u16 \<Rightarrow> bytes \<Rightarrow> nat \<Rightarrow> bytes" where
  "chunk_value F val i \<equiv> take (unat F) (drop (i * unat F) val)"

definition chunk_view :: "u16 \<Rightarrow> u8 \<Rightarrow> bytes \<Rightarrow> u8 \<Rightarrow> nat \<Rightarrow> EntityPayloadView" where
  "chunk_view F e val flags i =
     \<lparr>epv_entity_index = e, epv_flags = flags, epv_fragment_index = of_nat i,
      epv_fragment_count = of_nat (fragment_chunk_count F (length val)), epv_value = chunk_value F val i\<rparr>"

text \<open>
  The state of a message of \<open>val\<close> for entity \<open>e\<close> of which the fragments \<open>S\<close> have arrived: at first there is no buffer and room for
  one, counted twice as the code does; later the buffer holds exactly these fragments.
\<close>

definition ca_holds :: "u16 \<Rightarrow> u16 \<Rightarrow> u16 \<Rightarrow> u8 \<Rightarrow> u32 \<Rightarrow> bytes \<Rightarrow> nat set \<Rightarrow> command_assemblies \<Rightarrow> bool" where
  "ca_holds F M cap e base val S ca \<longleftrightarrow>
     (if S = {}
      then map_of (ca_pending ca) e = None \<and> length (ca_pending ca) < ESPNOW_MAX_PENDING_FRAGMENT_ASSEMBLIES
        \<and> unat (ca_reserved ca) + 2 * (fragment_chunk_count F (length val) * unat F) \<le> unat cap
      else \<exists>a. map_of (ca_pending ca) e = Some a \<and> fa_active a \<and> fa_good F M a \<and> fa_message_tx_base a = base
        \<and> fa_fragment_count a = of_nat (fragment_chunk_count F (length val)) \<and> dom (fa_slots F a) = S
        \<and> (\<forall>i \<in> S. fa_slots F a i = Some (chunk_value F val i)))"

lemma chunk_view_fits:
  assumes "i < fragment_chunk_count F (length val)" and "fragment_chunk_count F (length val) < 256"
  shows "fa_fits F (chunk_view F e val flags i)"
    and "unat (epv_fragment_index (chunk_view F e val flags i)) = i"
    and "unat (epv_fragment_count (chunk_view F e val flags i)) = fragment_chunk_count F (length val)"
  using assms by (simp_all add: fa_fits_def chunk_view_def word_less_nat_alt unat_of_nat_small)

lemma stored_slots:
  assumes "dom (fa_slots F a') = insert i S"
    and "\<forall>j \<in> insert i S. fa_slots F a' j = Some (chunk_value F val j)"
    and "fa_active a'" and "fa_fragment_count a' = of_nat n" and "n = fragment_chunk_count F (length val)" "n < 256" "0 < F"
    and "insert i S \<subseteq> {..<n}"
  shows "fragment_assembly_complete a' \<longleftrightarrow> insert i S = {..<n}"
    and "insert i S = {..<n} \<Longrightarrow> assemble_fragment_payload F a' = val"
proof -
  have un: "unat (of_nat n :: u8) = n" using assms(6) by (simp add: unat_of_nat_small)
  have "0 < n" by (simp add: assms(5) fragment_chunk_count_def)
  then have n0: "(of_nat n :: u8) \<noteq> 0" using un by fastforce
  show "fragment_assembly_complete a' \<longleftrightarrow> insert i S = {..<n}"
    using remote_reassembly.complete_slots [OF assms(3), of F] n0 assms(4,8) by (auto simp: assms(1) un)
  assume all: "insert i S = {..<n}"
  have "assemble_fragment_payload F a' = concat (map (chunk_value F val) [0..<n])"
    using remote_reassembly.assemble_slots [where F = F and f = "chunk_value F val", OF assms(3)] assms(2,4) all un by auto
  moreover have "length val \<le> n * unat F"
    using fragment_chunk_count_covers [of F "length val"] assms(5,7) by (simp add: word_less_nat_alt)
  ultimately show "assemble_fragment_payload F a' = val" by (simp add: concat_chunks)
qed

lemma command_fragment_holds:
  assumes "ca_holds F M cap e base val S ca" and "0 < F" and "n = fragment_chunk_count F (length val)" and "n < 256"
    and "n * unat F \<le> unat M" and "i < n" and "S \<subset> {..<n}"
  shows "\<exists>ca'. command_fragment F M cap (chunk_view F e val flags i) base now ca
      = (ca', if insert i S = {..<n} then FragmentComplete val else FragmentStored)
    \<and> (insert i S \<noteq> {..<n} \<longrightarrow> ca_holds F M cap e base val (insert i S) ca')"
proof -
  let ?v = "chunk_view F e val flags i"
  note fit = chunk_view_fits [OF assms(6) [unfolded assms(3)] assms(4) [unfolded assms(3)], of e flags]
  have v: "epv_entity_index ?v = e" "epv_fragment_count ?v = of_nat n" "epv_value ?v = chunk_value F val i"
    by (simp_all add: chunk_view_def assms(3))
  have sub: "insert i S \<subseteq> {..<n}" using assms(6,7) by auto
  obtain ca1 a where f: "command_assembly_for F ?v base ca = Some (ca1, a)"
    and room: "\<not> (\<not> fa_active a \<and> ca_reserved ca1 + of_nat (unat (epv_fragment_count ?v) * unat F) > ucast cap)"
    and st: "\<exists>a'. store_fragment F M a ?v base now = (a', True) \<and> fa_good F M a' \<and> fa_active a'
        \<and> fa_message_tx_base a' = base \<and> fa_fragment_count a' = of_nat n
        \<and> fa_slots F a' = [i \<mapsto> chunk_value F val i] ++ (if S = {} then Map.empty else fa_slots F a)"
    and old: "S \<noteq> {} \<Longrightarrow> dom (fa_slots F a) = S \<and> (\<forall>i \<in> S. fa_slots F a i = Some (chunk_value F val i))"
  proof (cases "S = {}")
    case True
    let ?ca = "ca\<lparr>ca_pending := AList.update e fragment_assembly_init (ca_pending ca),
        ca_reserved := ca_reserved ca + of_nat (unat (epv_fragment_count ?v) * unat F)\<rparr>"
    have h: "map_of (ca_pending ca) e = None" "length (ca_pending ca) < 8" "unat (ca_reserved ca) + 2 * (n * unat F) \<le> unat cap"
      using assms(1) True by (simp_all add: ca_holds_def assms(3))
    have off: "\<not> fa_active fragment_assembly_init" by (simp add: fragment_assembly_init_def)
    define k where "k = n * unat F"
    have "ca_reserved ca + of_nat k + of_nat k \<le> (ucast cap :: u32)"
    proof -
      have "ca_reserved ca + of_nat k + of_nat k = of_nat (unat (ca_reserved ca) + 2 * k)" by simp
      moreover have "unat (of_nat (unat (ca_reserved ca) + 2 * k) :: u32) = unat (ca_reserved ca) + 2 * k"
        using le_less_trans [OF h(3) unat_u16_bound] by (intro unat_of_nat_small) (simp add: k_def)
      moreover have "unat (ucast cap :: u32) = unat cap"
        by (simp add: unsigned_ucast_eq take_bit_nat_eq_self less_trans [OF unat_u16_bound])
      moreover have "unat (ca_reserved ca) + 2 * k \<le> unat cap" using h(3) by (simp add: k_def)
      ultimately show ?thesis by (simp only: word_le_nat_alt)
    qed
    then have "\<not> (ca_reserved ?ca + of_nat (unat (epv_fragment_count ?v) * unat F) > ucast cap)"
      using fit(3) by (simp add: assms(3) k_def not_less)
    moreover have "unat (epv_fragment_count ?v) * unat F \<le> unat M" using fit(3) assms(3,5) by simp
    ultimately show thesis
      using that [of ?ca fragment_assembly_init] h off True fit v remote_reassembly.store_first [OF off fit(1), of M base now]
      by (simp add: command_assembly_for_def)
  next
    case False
    then obtain a where h: "map_of (ca_pending ca) e = Some a" "fa_active a" "fa_good F M a" "fa_message_tx_base a = base"
        "fa_fragment_count a = of_nat n" "dom (fa_slots F a) = S" "\<forall>i \<in> S. fa_slots F a i = Some (chunk_value F val i)"
      using assms(1) by (auto simp: ca_holds_def assms(3))
    then show thesis
      using that [of ca a] False fit v remote_reassembly.store_next [OF h(2,3) fit(1) h(4), of now]
      by (simp add: command_assembly_for_def)
  qed
  obtain a' where a': "store_fragment F M a ?v base now = (a', True)" "fa_good F M a'" "fa_active a'"
      "fa_message_tx_base a' = base" "fa_fragment_count a' = of_nat n"
      "fa_slots F a' = [i \<mapsto> chunk_value F val i] ++ (if S = {} then Map.empty else fa_slots F a)"
    using st by blast
  have d: "dom (fa_slots F a') = insert i S" using old by (auto simp: a'(6))
  have s: "\<forall>j \<in> insert i S. fa_slots F a' j = Some (chunk_value F val j)"
  proof (cases "S = {}")
    case False
    show ?thesis
    proof
      fix j assume j: "j \<in> insert i S"
      show "fa_slots F a' j = Some (chunk_value F val j)"
      proof (cases "fa_slots F a j")
        case None
        then have "j = i" using old [OF False] j by auto
        then show ?thesis using None by (simp add: a'(6) False map_add_def)
      next
        case (Some v)
        then have "j \<in> S" using old [OF False] by auto
        then show ?thesis using old [OF False] Some by (simp add: a'(6) False map_add_def)
      qed
    qed
  qed (simp add: a'(6))
  note c = stored_slots [OF d s a'(3,5) assms(3,4,2) sub]
  have "ca_holds F M cap e base val (insert i S) (ca1\<lparr>ca_pending := AList.update e a' (ca_pending ca1)\<rparr>)"
    using a'(2-5) d s by (auto simp: ca_holds_def assms(3) update_Some_unfold)
  moreover have "command_fragment F M cap ?v base now ca
      = (let ca = ca1\<lparr>ca_pending := AList.update e a' (ca_pending ca1)\<rparr>
         in if \<not> fragment_assembly_complete a' then (ca, FragmentStored)
            else (ca\<lparr>ca_reserved := ca_reserved ca - of_nat (length (fa_data a')), ca_pending := AList.delete e (ca_pending ca)\<rparr>,
                  FragmentComplete (assemble_fragment_payload F a')))"
    unfolding command_fragment_def f option.case prod.case if_not_P [OF room] a'(1) v(1) Let_def by simp
  ultimately show ?thesis using c by (cases "insert i S = {..<n}") (simp_all add: Let_def)
qed

section \<open>The bridge's frames at a remote\<close>

definition same_network :: "bp_env \<Rightarrow> 'h rp_env \<Rightarrow> bool" where
  "same_network env renv \<longleftrightarrow> env_hmac renv = bpe_hmac env \<and> env_crypto renv = bpe_crypto env \<and> hmac32 (bpe_hmac env)
     \<and> g_psk_set (bpe_crypto env)"

lemma rp_parse_frame_built:
  assumes hdr: "bp_hdr_ok hdr" and h: "hmac32 (bpe_hmac env)"
    and v: "fh_protocol_version hdr = ESPNOW_PROTOCOL_VER" "is_valid_packet_type (fh_packet_type hdr)"
    and hop: "fh_hop_count hdr AND ESPNOW_HOPS_PARENT_CHECK_BIT = 0"
    and enc: "is_encrypted_packet (fh_packet_type hdr) \<longleftrightarrow> key \<noteq> None"
    and len: "length payload + (if key = None then 17 else 25) \<le> 1470"
  shows "rp_parse_frame (bp_frame_bytes env key hdr payload)
    = Some (hdr\<lparr>fh_psk_tag := bp_net_tag env hdr payload\<rparr>, payload,
        map_option (\<lambda>k. bp_key_tag env k hdr payload) key, zero_mac)"
proof -
  let ?f = "bp_frame_bytes env key hdr payload" and ?t = "bp_net_tag env hdr payload"
  let ?tail = "case key of None \<Rightarrow> [] | Some k \<Rightarrow> bp_key_tag env k hdr payload"
  have ok: "bp_hdr_ok (hdr\<lparr>fh_psk_tag := ?t\<rparr>)" using hdr h by (simp add: bp_hdr_ok_def)
  have f: "?f = fh_protocol_version hdr # fh_hop_count hdr # hdr_core hdr @ ?t @ payload @ ?tail"
    by (rule bp_frame_layout [OF hdr h])
  then have "?f = c_enc espnow_frame_header_codec (hdr\<lparr>fh_psk_tag := ?t\<rparr>) @ payload @ ?tail"
    using enc_hdr [OF ok] by simp
  then have dec: "c_dec espnow_frame_header_codec ?f = Some (hdr\<lparr>fh_psk_tag := ?t\<rparr>)"
    using ok by (simp add: fh.dec_enc bp_hdr_ok_def)
  have tail: "length ?tail = (if key = None then 0 else 8)" using h by (cases key) simp_all
  have lf: "length ?f = 17 + length payload + (if key = None then 0 else 8)"
    using hdr h tail by (simp add: f)
  have d: "drop 17 ?f = payload @ ?tail" using hdr h by (simp add: f)
  show ?thesis
    using v hop enc len d lf dec tail by (cases key) (simp_all add: rp_parse_frame_def Let_def)
qed

lemma rp_validate_psk_built:
  assumes "bp_hdr_ok hdr" and "same_network env renv"
  shows "rp_validate_psk renv (hdr\<lparr>fh_psk_tag := bp_net_tag env hdr payload\<rparr>) payload"
proof -
  have "bp_hdr_ok (hdr\<lparr>fh_psk_tag := bp_net_tag env hdr payload\<rparr>)" using assms by (simp add: bp_hdr_ok_def same_network_def)
  then show ?thesis using assms by (simp add: rp_validate_psk_def same_network_def verify_psk_tag_iff enc_hdr bp_tags)
qed

lemma rp_open_built:
  assumes "bp_hdr_ok hdr" and "same_network env renv" and "rp_session_key_valid r" and "rp_session_key r = k"
  shows "rp_open renv (hdr\<lparr>fh_psk_tag := bp_net_tag env hdr c\<rparr>) c (Some (bp_key_tag env k hdr c)) r
    = Some (aes256_ctr_crypt k (fh_tx_counter hdr) c)"
proof -
  have "bp_hdr_ok (hdr\<lparr>fh_psk_tag := bp_net_tag env hdr c\<rparr>)" using assms by (simp add: bp_hdr_ok_def same_network_def)
  then show ?thesis
    using assms by (simp add: rp_open_def rp_validate_session_def same_network_def verify_session_tag_iff enc_hdr bp_tags
        espnow_crypto_crypt_def)
qed

text \<open>A frame for the remote itself, of one of the types it answers to wherever it is, reaches its handler.\<close>

lemma rp_frame_dispatched:
  assumes "rp_parse_frame frame = Some (hdr, payload, tag, parent)" and "rp_validate_psk env hdr payload"
    and "hops_count (fh_hop_count hdr) < rp_max_hops s" and "fh_hop_count hdr AND ESPNOW_HOPS_PARENT_CHECK_BIT = 0"
    and "is_encrypted_packet (fh_packet_type hdr) \<longrightarrow> length frame \<le> unat (rp_session_max_payload s)"
    and "fh_leaf_mac hdr = rp_leaf_mac s"
    and "fh_packet_type hdr \<noteq> packet_code PKT_FILE_TRANSFER" "fh_packet_type hdr \<noteq> packet_code PKT_FILE_DATA"
  obtains e h where "rp_on_espnow_frame env m frame rssi s
    = rp_dispatch env m hdr payload tag rssi (s\<lparr>rp_parent_link_rssi_ema := e, rp_hops_to_bridge := h\<rparr>)"
proof -
  obtain e where e: "rp_observe_parent_rssi m rssi s = s\<lparr>rp_parent_link_rssi_ema := e\<rparr>" using rp_observed_rssi by blast
  obtain h where h: "rp_observe_hops hdr (s\<lparr>rp_parent_link_rssi_ema := e\<rparr>) = s\<lparr>rp_parent_link_rssi_ema := e, rp_hops_to_bridge := h\<rparr>"
    using rp_observed_hops [of hdr "s\<lparr>rp_parent_link_rssi_ema := e\<rparr>"] by auto
  have "rp_should_handle_locally hdr (s\<lparr>rp_parent_link_rssi_ema := e\<rparr>)" using assms(6) by (simp add: rp_should_handle_locally_def)
  then have "rp_on_espnow_frame env m frame rssi s
    = rp_dispatch env m hdr payload tag rssi (s\<lparr>rp_parent_link_rssi_ema := e, rp_hops_to_bridge := h\<rparr>)"
    unfolding rp_on_espnow_frame_def assms(1) option.case prod.case Let_def
    using assms(2-8) by (auto simp: e h not_le [symmetric])
  then show thesis by (rule that)
qed

section \<open>A remote that awaits a command\<close>

text \<open>
  What the remote brings along: a session with key \<open>k\<close>, entity \<open>e\<close>, the sizes it cuts and joins by, and frames long
  enough for a full fragment.
\<close>

definition rp_ready :: "u16 \<Rightarrow> u16 \<Rightarrow> u16 \<Rightarrow> bytes \<Rightarrow> bytes \<Rightarrow> u8 \<Rightarrow> 'h remote \<Rightarrow> bool" where
  "rp_ready F M cap k leaf e r \<longleftrightarrow> rp_joined r \<and> rp_session_key_valid r \<and> rp_session_key r = k \<and> rp_leaf_mac r = leaf
     \<and> 0 < rp_max_hops r \<and> unat e < length (rp_entity_records r) \<and> rp_max_entity_fragment r = F
     \<and> rp_max_assembly_bytes r = M \<and> rp_max_total_fragment_bytes r = cap
     \<and> unat F + 30 \<le> unat (rp_session_max_payload r)"

abbreviation (input) last_command :: "u8 \<Rightarrow> 'h remote \<Rightarrow> u32" where
  "last_command e r \<equiv> er_last_completed_command_message_tx_base (rp_entity_records r ! unat e)"

text \<open>The fragments \<open>S\<close> of the message have arrived; once all have, the command has run after the commands \<open>runs\<close>.\<close>

definition awaits ::
  "u16 \<Rightarrow> u16 \<Rightarrow> u16 \<Rightarrow> u8 \<Rightarrow> u32 \<Rightarrow> bytes \<Rightarrow> (u8 \<times> u8 \<times> bytes) list \<Rightarrow> nat set \<Rightarrow> 'h remote \<Rightarrow> bool" where
  "awaits F M cap e base val runs S r \<longleftrightarrow>
     (if S = {..<fragment_chunk_count F (length val)}
      then last_command e r = base \<and> (\<exists>flags. rp_commands_run r = runs @ [(e, flags, val)])
      else rp_commands_run r = runs \<and> counter_is_newer base (last_command e r)
        \<and> ca_holds F M cap e base val S (rp_pending_commands r))"

lemma ready_io: "rp_io r r' \<Longrightarrow> rp_ready F M cap k leaf e r' = rp_ready F M cap k leaf e r"
  and awaits_io: "rp_io r r' \<Longrightarrow> awaits F M cap e base val runs S r' = awaits F M cap e base val runs S r"
proof -
  assume io: "rp_io r r'"
  then have c: "rp_core r' = rp_core r" by (simp add: rp_io_def)
  have "rp_ready F M cap k leaf e (rp_core r) = rp_ready F M cap k leaf e r" for r :: "'h remote"
    by (simp add: rp_ready_def rp_core_def)
  then show "rp_ready F M cap k leaf e r' = rp_ready F M cap k leaf e r" using c by metis
  show "awaits F M cap e base val runs S r' = awaits F M cap e base val runs S r"
    by (simp add: awaits_def rp_io_fields [OF io])
qed

lemma message_base:
  assumes "i < fragment_chunk_count F (length val)" and "fragment_chunk_count F (length val) < 256"
    and "fh_tx_counter hdr = base + of_nat i"
  shows "fragment_message_tx_base hdr (chunk_view F e val flags i) = base"
proof -
  have "unat (of_nat i :: u8) = i" using assms(1,2) by (simp add: unat_of_nat_small)
  then have "(ucast (of_nat i :: u8) :: u32) = of_nat i" by (metis of_nat_unat)
  then show ?thesis using assms(3) by (simp add: fragment_message_tx_base_def chunk_view_def)
qed

lemma command_advances:
  assumes r: "rp_ready F M cap k leaf e r" and S: "awaits F M cap e base val runs S r"
    and n: "n = fragment_chunk_count F (length val)" "n < 256" "n * unat F \<le> unat M" "0 < F" and i: "i < n" "S \<subseteq> {..<n}"
    and hdr: "fh_tx_counter hdr = base + of_nat i" and op: "rp_open env hdr c tag r = Some plaintext"
    and parsed: "parse_entity_payload plaintext = Some (chunk_view F e val flags i)" and fn: "env_command_fn env"
  shows "rp_ready F M cap k leaf e (fst (rp_handle_command env hdr c tag r))"
    and "awaits F M cap e base val runs (insert i S) (fst (rp_handle_command env hdr c tag r))"
proof -
  let ?v = "chunk_view F e val flags i"
  have e: "epv_entity_index ?v = e" and b: "fragment_message_tx_base hdr ?v = base"
    using message_base [of i F val hdr base e flags] n i hdr by (simp_all add: chunk_view_def)
  have j: "rp_joined r" "\<not> length (rp_entity_records r) \<le> unat e" using r by (simp_all add: rp_ready_def)
  note start = rp_handle_command_def [of env hdr c tag r, unfolded op option.case parsed, unfolded e b Let_def, simplified j, simplified]
  have "rp_ready F M cap k leaf e (fst (rp_handle_command env hdr c tag r))
      \<and> awaits F M cap e base val runs (insert i S) (fst (rp_handle_command env hdr c tag r))"
  proof (cases "S = {..<n}")
    case True
    then have l: "last_command e r = base" and ins: "insert i S = S" using S i by (auto simp: awaits_def n(1))
    have "\<not> counter_is_newer base base" by (simp add: counter_is_newer_def)
    then have "fst (rp_handle_command env hdr c tag r) = fst (rp_send_command_ack env e 0 base r)" by (simp add: start l)
    then show ?thesis using r S unfolding ins by (simp add: ready_io [OF rp_io_command_ack] awaits_io [OF rp_io_command_ack])
  next
    case False
    then have h: "rp_commands_run r = runs" "counter_is_newer base (last_command e r)" "ca_holds F M cap e base val S (rp_pending_commands r)"
      using S by (simp_all add: awaits_def n(1))
    obtain ca' where ca': "command_fragment F M cap ?v base (env_now env) (rp_pending_commands r)
        = (ca', if insert i S = {..<n} then FragmentComplete val else FragmentStored)"
      "insert i S \<noteq> {..<n} \<longrightarrow> ca_holds F M cap e base val (insert i S) ca'"
      using command_fragment_holds [OF h(3) n(4,1,2,3) i(1)] False i(2) by blast
    have sz: "rp_max_entity_fragment r = F" "rp_max_assembly_bytes r = M" "rp_max_total_fragment_bytes r = cap"
      using r by (simp_all add: rp_ready_def)
    show ?thesis
    proof (cases "insert i S = {..<n}")
      case True
      let ?r = "rp_completed env ?v base ca' (max (rp_last_seen_counter r) (fh_tx_counter hdr)) val r"
      have "fst (rp_handle_command env hdr c tag r) = fst (rp_send_command_ack env e 0 base ?r)"
        by (simp add: start h(2) sz ca' True rp_completed_def Let_def e)
      moreover have "rp_ready F M cap k leaf e ?r" using r by (simp add: rp_ready_def rp_completed_def rp_update_record_def Let_def)
      moreover have "awaits F M cap e base val runs (insert i S) ?r"
        using j(2) True h(1) n(1) fn e by (simp add: awaits_def rp_completed_def rp_update_record_def Let_def)
      ultimately show ?thesis by (simp add: ready_io [OF rp_io_command_ack] awaits_io [OF rp_io_command_ack])
    next
      case False
      then have "fst (rp_handle_command env hdr c tag r)
          = r\<lparr>rp_pending_commands := ca', rp_last_seen_counter := max (rp_last_seen_counter r) (fh_tx_counter hdr)\<rparr>"
        by (simp add: start h(2) sz ca')
      then show ?thesis using r h ca'(2) False by (simp add: rp_ready_def awaits_def n(1))
    qed
  qed
  then show "rp_ready F M cap k leaf e (fst (rp_handle_command env hdr c tag r))"
    and "awaits F M cap e base val runs (insert i S) (fst (rp_handle_command env hdr c tag r))" by simp_all
qed

section \<open>The frames of a command\<close>

definition command_frame :: "bp_env \<Rightarrow> bytes \<Rightarrow> bytes \<Rightarrow> u16 \<Rightarrow> u8 \<Rightarrow> u32 \<Rightarrow> bytes \<Rightarrow> nat \<Rightarrow> bytes" where
  "command_frame env k leaf F e base val i =
     bp_frame_bytes env (Some k) (bp_header (packet_code PKT_COMMAND) bp_down_hops leaf (base + of_nat i))
       (aes256_ctr_crypt k (base + of_nat i) (bp_command_packet F val e i))"

lemma command_packet_parses:
  assumes "i < fragment_chunk_count F (length val)" and "fragment_chunk_count F (length val) < 256"
  obtains flags where "parse_entity_payload (bp_command_packet F val e i) = Some (chunk_view F e val flags i)"
proof
  let ?flags = "if i + 1 < fragment_chunk_count F (length val) then ESPNOW_ENTITY_FLAG_MORE_FRAGMENTS else 0"
  have "bp_command_packet F val e i = fragment_packet F val e ?flags i"
    by (simp add: bp_command_packet_def fragment_packet_def Let_def)
  then show "parse_entity_payload (bp_command_packet F val e i) = Some (chunk_view F e val ?flags i)"
    using fragment_packet_parses [OF assms] by (simp add: chunk_view_def)
qed

lemma length_command_packet: "length (bp_command_packet F val e i) \<le> unat F + 5"
  using eph.enc_length
  by (simp add: bp_command_packet_def append_entity_payload_def Let_def fragment_chunk_len_def)

lemma command_frame_received:
  assumes net: "same_network env renv" and fn: "env_command_fn renv" and k: "length k = 32" "length leaf = 6"
    and r: "rp_ready F M cap k leaf e r" and S: "awaits F M cap e base val runs S r"
    and n: "n = fragment_chunk_count F (length val)" "n < 256" "n * unat F \<le> unat M" "0 < F" "unat F \<le> 1440"
    and i: "i < n" "S \<subseteq> {..<n}"
  shows "rp_ready F M cap k leaf e (fst (rp_on_espnow_frame renv m (command_frame env k leaf F e base val i) rssi r))"
    and "awaits F M cap e base val runs (insert i S) (fst (rp_on_espnow_frame renv m (command_frame env k leaf F e base val i) rssi r))"
proof -
  let ?c = "aes256_ctr_crypt k (base + of_nat i) (bp_command_packet F val e i)"
  define hdr where "hdr = bp_header (packet_code PKT_COMMAND) bp_down_hops leaf (base + of_nat i)"
  let ?h = "hdr\<lparr>fh_psk_tag := bp_net_tag env hdr ?c\<rparr>"
  have h32: "hmac32 (bpe_hmac env)" using net by (simp add: same_network_def)
  have ok: "bp_hdr_ok hdr" using k by (simp add: hdr_def)
  have len: "length ?c \<le> unat F + 5" using length_command_packet [of F val e i] k(1) by (simp add: ctr_crypt_twice)
  have f: "command_frame env k leaf F e base val i = bp_frame_bytes env (Some k) hdr ?c"
    by (simp add: command_frame_def hdr_def)
  have p: "rp_parse_frame (command_frame env k leaf F e base val i) = Some (?h, ?c, Some (bp_key_tag env k hdr ?c), zero_mac)"
    unfolding f using rp_parse_frame_built [OF ok h32, of "Some k" ?c] len n(5)
    by (simp add: hdr_def is_valid_packet_type_def is_encrypted_packet_def hops_make_def)
  have lf: "length (command_frame env k leaf F e base val i) \<le> unat F + 30"
    using len ok h32 by (simp add: f bp_frame_layout)
  obtain p' h' where d: "rp_on_espnow_frame renv m (command_frame env k leaf F e base val i) rssi r
      = rp_dispatch renv m ?h ?c (Some (bp_key_tag env k hdr ?c)) rssi (r\<lparr>rp_parent_link_rssi_ema := p', rp_hops_to_bridge := h'\<rparr>)"
    by (rule rp_frame_dispatched [OF p rp_validate_psk_built [OF ok net]])
      (use r lf in \<open>auto simp: rp_ready_def hdr_def hops_make_def hops_count_def\<close>)
  let ?r = "r\<lparr>rp_parent_link_rssi_ema := p', rp_hops_to_bridge := h'\<rparr>"
  have r': "rp_ready F M cap k leaf e ?r" "awaits F M cap e base val runs S ?r"
    using r S by (simp_all add: rp_ready_def awaits_def)
  have key: "rp_session_key_valid ?r" "rp_session_key ?r = k" using r by (simp_all add: rp_ready_def)
  have opened: "rp_open renv ?h ?c (Some (bp_key_tag env k hdr ?c)) ?r = Some (bp_command_packet F val e i)"
    using rp_open_built [OF ok net key, of ?c] k(1) by (simp add: hdr_def ctr_crypt_twice)
  obtain flags where v: "parse_entity_payload (bp_command_packet F val e i) = Some (chunk_view F e val flags i)"
    using command_packet_parses [of i F val e] n(1,2) i(1) by auto
  have tx: "fh_tx_counter ?h = base + of_nat i" by (simp add: hdr_def)
  have "rp_dispatch renv m ?h ?c (Some (bp_key_tag env k hdr ?c)) rssi ?r = rp_handle_command renv ?h ?c (Some (bp_key_tag env k hdr ?c)) ?r"
    by (simp add: rp_dispatch_def Let_def hdr_def)
  then show "rp_ready F M cap k leaf e (fst (rp_on_espnow_frame renv m (command_frame env k leaf F e base val i) rssi r))"
    and "awaits F M cap e base val runs (insert i S) (fst (rp_on_espnow_frame renv m (command_frame env k leaf F e base val i) rssi r))"
    unfolding d using command_advances [OF r' n(1-4) i tx opened v fn] by simp_all
qed

text \<open>The radio: frames of the list, by their places, heard one after the other.\<close>

fun hear :: "bytes list \<Rightarrow> ('h rp_env \<times> bytes \<times> int \<times> nat) list \<Rightarrow> 'h remote \<Rightarrow> 'h remote" where
  "hear frames [] r = r"
| "hear frames ((env, m, rssi, i) # rest) r = hear frames rest (fst (rp_on_espnow_frame env m (frames ! i) rssi r))"

lemma commands_heard:
  assumes k: "length k = 32" "length leaf = 6"
    and n: "n = fragment_chunk_count F (length val)" "n < 256" "n * unat F \<le> unat M" "0 < F" "unat F \<le> 1440"
    and frames: "frames = map (command_frame env k leaf F e base val) [0..<n]"
    and heard: "\<forall>(renv, m, rssi, i) \<in> set heard. same_network env renv \<and> env_command_fn renv \<and> i < n"
    and r: "rp_ready F M cap k leaf e r" and S: "awaits F M cap e base val runs S r" "S \<subseteq> {..<n}"
  shows "awaits F M cap e base val runs (S \<union> (\<lambda>(_, _, _, i). i) ` set heard) (hear frames heard r)"
  using heard r S
proof (induction heard arbitrary: r S)
  case (Cons x heard)
  obtain renv m rssi i where x: "x = (renv, m, rssi, i)" by (cases x)
  have h: "same_network env renv" "env_command_fn renv" "i < n" using Cons.prems(1) by (simp_all add: x)
  have fi: "frames ! i = command_frame env k leaf F e base val i" using h(3) by (simp add: frames)
  note step = command_frame_received [OF h(1,2) k Cons.prems(2,3) n h(3) Cons.prems(4), of m rssi]
  have "awaits F M cap e base val runs (insert i S \<union> (\<lambda>(_, _, _, i). i) ` set heard)
      (hear frames heard (fst (rp_on_espnow_frame renv m (frames ! i) rssi r)))"
    unfolding fi by (rule Cons.IH [OF _ step]) (use Cons.prems(1,4) h(3) in auto)
  then show ?case by (simp add: x)
qed simp

section \<open>What the bridge sends\<close>

lemma encrypted_sent:
  assumes "bp_send_encrypted_with_tx_counter env mac t h c p (b, s) = ((b', s'), True)"
  shows "bp_sent b' = bp_sent b @ [(mac, bp_frame_bytes env (Some (bs_session_key s)) (bp_header (packet_code t) h (bs_leaf_mac s) c)
      (aes256_ctr_crypt (bs_session_key s) c p))]"
    and "bs_session_key s' = bs_session_key s \<and> bs_leaf_mac s' = bs_leaf_mac s \<and> bs_max_entity_fragment s' = bs_max_entity_fragment s"
  using assms
  by (auto simp: bp_send_encrypted_with_tx_counter_def bp_send_encrypted_with_tx_counter_result_def bp_read_heap_def
      bp_log_sent_def espnow_crypto_crypt_def Let_def split: if_splits)

lemma chunks_sent:
  assumes "bp_send_command_chunks env mac e val base consume chunks (b, s) = ((b', s'), True)"
  shows "bp_sent b' = bp_sent b @ map (\<lambda>i. (mac, command_frame env (bs_session_key s) (bs_leaf_mac s) (bs_max_entity_fragment s) e base val i)) chunks"
  using assms
proof (induction chunks arbitrary: b s)
  case (Cons i chunks)
  let ?s = "if consume then s\<lparr>bs_tx_counter := base + of_nat i + 1\<rparr> else s"
  obtain b1 s1 where sent: "bp_send_encrypted_with_tx_counter env mac PKT_COMMAND (downstream_hop_count_session ?s) (base + of_nat i)
        (bp_command_packet (bs_max_entity_fragment ?s) val e i) (b, ?s) = ((b1, s1), True)"
      "bp_send_command_chunks env mac e val base consume chunks (b1, s1) = ((b', s'), True)"
    using Cons.prems by (auto simp: Let_def split: prod.splits if_splits)
  show ?case
    using encrypted_sent [OF sent(1)] Cons.IH [OF sent(2)]
    by (simp add: command_frame_def downstream_hop_count_session_def)
qed simp

lemma command_sent:
  assumes "bp_send_command_to_leaf env leaf e val b = (b', True)"
  obtains s where "bp_get_session leaf b = Some s" and "bs_online s" and "bs_session_key_valid s"
    and "bp_sent b' = bp_sent b @ map (\<lambda>i. (bs_next_hop_mac s, command_frame env (bs_session_key s) (bs_leaf_mac s)
        (bs_max_entity_fragment s) e (bs_tx_counter s) val i)) [0..<fragment_chunk_count (bs_max_entity_fragment s) (length val)]"
proof -
  obtain s where s: "bp_get_session leaf b = Some s" "bs_online s" "bs_session_key_valid s"
    using assms by (auto simp: bp_send_command_to_leaf_def split: option.splits if_splits)
  obtain b1 s1 where f: "bp_send_command_fragments env (bs_next_hop_mac s) e val (bs_tx_counter s) True (b, s) = ((b1, s1), True)"
      "bp_sent b' = bp_sent b1"
    using assms s by (auto simp: bp_send_command_to_leaf_def bp_send_command_def bp_store_def Let_def split: prod.splits bool.splits)
  show thesis
    using that [OF s] chunks_sent [OF f(1) [unfolded bp_send_command_fragments_def]] f(2) by simp
qed

text \<open>When the radio accepts what it is given, the command goes out.\<close>

definition radio_accepts :: "bp_env \<Rightarrow> bool" where
  "radio_accepts env \<longleftrightarrow> bpe_send env = Some (\<lambda>_ _ _. True) \<and> bpe_send_err env = None \<and> g_psk_set (bpe_crypto env)
     \<and> (\<forall>n. 8192 \<le> bpe_free_heap env n)"

lemma encrypted_goes_out:
  assumes "radio_accepts env" and "bs_session_key_valid s" and "length p \<le> unat (espnow_max_plaintext (bs_session_max_payload s))"
    and "length p \<le> 1445"
  shows "\<exists>b' s'. bp_send_encrypted_with_tx_counter env mac t h c p (b, s) = ((b', s'), True)
    \<and> bs_session_key_valid s' \<and> bs_session_max_payload s' = bs_session_max_payload s \<and> bs_max_entity_fragment s' = bs_max_entity_fragment s"
proof -
  have "8192 \<le> unat (bpe_free_heap env (bp_heap_reads b))"
    using assms(1) unat_mono [of 8191 "bpe_free_heap env (bp_heap_reads b)"] by (simp add: radio_accepts_def word_le_nat_alt)
  then show ?thesis
    using assms
    by (simp add: radio_accepts_def bp_send_encrypted_with_tx_counter_def bp_send_encrypted_with_tx_counter_result_def bp_read_heap_def
        bp_send_with_result_def bp_log_sent_def espnow_crypto_crypt_def Let_def)
qed

lemma chunks_go_out:
  assumes "radio_accepts env" and "bs_session_key_valid s"
    and "unat (bs_max_entity_fragment s) + 5 \<le> unat (espnow_max_plaintext (bs_session_max_payload s))" and "unat (bs_max_entity_fragment s) \<le> 1440"
  shows "snd (bp_send_command_chunks env mac e val base consume chunks (b, s))"
  using assms(2-4)
proof (induction chunks arbitrary: b s)
  case (Cons i chunks)
  define s1 where "s1 = (if consume then s\<lparr>bs_tx_counter := base + of_nat i + 1\<rparr> else s)"
  have s1: "bs_session_key_valid s1" "bs_session_max_payload s1 = bs_session_max_payload s" "bs_max_entity_fragment s1 = bs_max_entity_fragment s"
    using Cons.prems by (simp_all add: s1_def)
  have len: "length (bp_command_packet (bs_max_entity_fragment s) val e i) \<le> unat (espnow_max_plaintext (bs_session_max_payload s1))"
    "length (bp_command_packet (bs_max_entity_fragment s) val e i) \<le> 1445"
    using length_command_packet [of "bs_max_entity_fragment s" val e i] Cons.prems(2,3) unfolding s1(2) by linarith+
  obtain b' s' where sent: "bp_send_encrypted_with_tx_counter env mac PKT_COMMAND (downstream_hop_count_session s1) (base + of_nat i)
      (bp_command_packet (bs_max_entity_fragment s) val e i) (b, s1) = ((b', s'), True)" "bs_session_key_valid s'"
      "bs_session_max_payload s' = bs_session_max_payload s" "bs_max_entity_fragment s' = bs_max_entity_fragment s"
    using encrypted_goes_out [OF assms(1) s1(1) len] unfolding s1(2,3) by blast
  show ?case
    using Cons.IH [OF sent(2)] Cons.prems(2,3) sent(3,4)
    by (simp add: Let_def s1_def [symmetric] s1(3) sent(1))
qed simp

lemma command_goes_out:
  assumes "radio_accepts env" and "bp_get_session leaf b = Some s" and "bs_online s" "bs_session_key_valid s"
    and "unat (bs_max_entity_fragment s) + 5 \<le> unat (espnow_max_plaintext (bs_session_max_payload s))" and "unat (bs_max_entity_fragment s) \<le> 1440"
  shows "snd (bp_send_command_to_leaf env leaf e val b)"
proof -
  obtain b1 s1 where "bp_send_command_fragments env (bs_next_hop_mac s) e val (bs_tx_counter s) True (b, s) = ((b1, s1), True)"
    using chunks_go_out [OF assms(1,4-6)] by (metis bp_send_command_fragments_def prod.collapse)
  then show ?thesis using assms(2-4) by (simp add: bp_send_command_to_leaf_def bp_send_command_def Let_def)
qed

section \<open>Properties\<close>

lemma commands_delivered_lemma:
  assumes "bp_send_command_to_leaf env leaf e val b = (b', True)" and "bp_get_session leaf b = Some s"
    and "frames = map snd (drop (length (bp_sent b)) (bp_sent b'))"
    and "\<forall>(renv, m, rssi, i) \<in> set heard. same_network env renv \<and> env_command_fn renv"
    and "(\<lambda>(_, _, _, i). i) ` set heard = {..<length frames}"
    and "length (bs_session_key s) = 32" "length (bs_leaf_mac s) = 6" "0 < bs_max_entity_fragment s" "unat (bs_max_entity_fragment s) \<le> 1440"
    and "rp_joined r" "rp_session_key_valid r" "rp_session_key r = bs_session_key s" "rp_leaf_mac r = bs_leaf_mac s" "0 < rp_max_hops r"
    and "unat e < length (rp_entity_records r)" and "rp_max_entity_fragment r = bs_max_entity_fragment s"
    and "unat (bs_max_entity_fragment s) + 30 \<le> unat (rp_session_max_payload r)"
    and "counter_is_newer (bs_tx_counter s) (er_last_completed_command_message_tx_base (rp_entity_records r ! unat e))"
    and "map_of (ca_pending (rp_pending_commands r)) e = None" "length (ca_pending (rp_pending_commands r)) < 8"
    and "length frames < 256" "length frames * unat (bs_max_entity_fragment s) \<le> unat (rp_max_assembly_bytes r)"
    and "unat (ca_reserved (rp_pending_commands r)) + 2 * (length frames * unat (bs_max_entity_fragment s)) \<le> unat (rp_max_total_fragment_bytes r)"
  shows "\<exists>flags. rp_commands_run (hear frames heard r) = rp_commands_run r @ [(e, flags, val)]"
proof -
  let ?F = "bs_max_entity_fragment s"
  define n where "n = fragment_chunk_count ?F (length val)"
  have sent: "bp_sent b' = bp_sent b @ map (\<lambda>i. (bs_next_hop_mac s, command_frame env (bs_session_key s) (bs_leaf_mac s) ?F e (bs_tx_counter s) val i)) [0..<n]"
    using command_sent [OF assms(1)] assms(2) unfolding n_def by (metis option.inject)
  have frames: "frames = map (command_frame env (bs_session_key s) (bs_leaf_mac s) ?F e (bs_tx_counter s) val) [0..<n]"
    by (simp add: assms(3) sent)
  then have len: "length frames = n" by simp
  have "0 < n" by (simp add: n_def fragment_chunk_count_def)
  then have ne: "{} \<noteq> {..<n}" by auto
  have "i < n" if "(renv, m, rssi, i) \<in> set heard" for renv m rssi i
    using assms(5) that len by force
  then have heard: "\<forall>(renv, m, rssi, i) \<in> set heard. same_network env renv \<and> env_command_fn renv \<and> i < n" using assms(4) by blast
  have ready: "rp_ready ?F (rp_max_assembly_bytes r) (rp_max_total_fragment_bytes r) (bs_session_key s) (bs_leaf_mac s) e r"
    using assms(10-17) by (simp add: rp_ready_def)
  have "awaits ?F (rp_max_assembly_bytes r) (rp_max_total_fragment_bytes r) e (bs_tx_counter s) val (rp_commands_run r) {} r"
    using assms(18-20,23) ne by (simp add: awaits_def ca_holds_def len n_def [symmetric])
  from commands_heard [OF assms(6,7) n_def _ _ assms(8,9) frames heard ready this] assms(5,21,22)
  show ?thesis by (simp add: len awaits_def n_def [symmetric])
qed

text \<open>
  C2: A command given to the bridge is run by the remote. When the bridge has sent a command to a leaf, cut into
  frames, and a remote that shares the session hears these frames (each at least once, in any order
  and with repetitions, at whatever times), it runs exactly one command: the entity and the value
  given to the bridge. It needs a newer counter than the entity's last command, no command of that entity under way, room for twice
  the command's fragments (the code counts them twice), and the same fragment size as the bridge.
\<close>

theorem commands_delivered:
  assumes "bp_send_command_to_leaf env leaf e val b = (b', True)" and "bp_get_session leaf b = Some s"
    and "frames = map snd (drop (length (bp_sent b)) (bp_sent b'))"
    and "\<forall>(renv, m, rssi, i) \<in> set heard. same_network env renv \<and> env_command_fn renv"
    and "(\<lambda>(_, _, _, i). i) ` set heard = {..<length frames}"
    and "length (bs_session_key s) = 32" "length (bs_leaf_mac s) = 6" "0 < bs_max_entity_fragment s" "unat (bs_max_entity_fragment s) \<le> 1440"
    and "rp_joined r" "rp_session_key_valid r" "rp_session_key r = bs_session_key s" "rp_leaf_mac r = bs_leaf_mac s" "0 < rp_max_hops r"
    and "unat e < length (rp_entity_records r)" and "rp_max_entity_fragment r = bs_max_entity_fragment s"
    and "unat (bs_max_entity_fragment s) + 30 \<le> unat (rp_session_max_payload r)"
    and "counter_is_newer (bs_tx_counter s) (er_last_completed_command_message_tx_base (rp_entity_records r ! unat e))"
    and "map_of (ca_pending (rp_pending_commands r)) e = None" "length (ca_pending (rp_pending_commands r)) < 8"
    and "length frames < 256" "length frames * unat (bs_max_entity_fragment s) \<le> unat (rp_max_assembly_bytes r)"
    and "unat (ca_reserved (rp_pending_commands r)) + 2 * (length frames * unat (bs_max_entity_fragment s)) \<le> unat (rp_max_total_fragment_bytes r)"
  shows "\<exists>flags. rp_commands_run (hear frames heard r) = rp_commands_run r @ [(e, flags, val)]"
  using assms by (rule commands_delivered_lemma)

text \<open>A command of 300 bytes, in two frames heard in the order 1, 0, 1.\<close>

definition demo_sender :: bp_env where
  "demo_sender =
     \<lparr>bpe_now = 5000, bpe_random = (\<lambda>_. 0), bpe_nonce = replicate 16 9, bpe_hmac = env_hmac demo_env,
      bpe_crypto = env_crypto demo_env, bpe_send = Some (\<lambda>_ _ _. True), bpe_send_err = None,
      bpe_free_heap = (\<lambda>_. 100000), bpe_total_heap = 300000, bpe_ram_low = (\<lambda>_ _ _. False),
      bpe_ram_critical = (\<lambda>_ _. False), bpe_chip_model = 0, bpe_file_ack_fn = True\<rparr>"

definition demo_value :: bytes where
  "demo_value = replicate 300 7"

definition demo_session :: bp_session where
  "demo_session = bp_session_init\<lparr>bs_leaf_mac := demo_mac, bs_session_key := replicate 32 1, bs_session_key_valid := True,
     bs_online := True\<rparr>"

definition demo_sending :: bp where
  "demo_sending = BridgeProtocol_new\<lparr>bp_sessions := [(mac_to_key demo_mac, demo_session)]\<rparr>"

definition demo_receiver :: "unit ofh remote" where
  "demo_receiver = demo_remote\<lparr>rp_joined := True, rp_session_key := replicate 32 1, rp_session_key_valid := True,
     rp_entity_records := [\<lparr>er_schema = \<lparr>es_entity_index = 0, es_entity_type = 1, es_entity_name = [65], es_entity_unit = [],
       es_entity_options = [], es_entity_id = [66]\<rparr>, er_current_value = [], er_dirty = False, er_current_text = [],
       er_last_completed_command_message_tx_base = 0\<rparr>]\<rparr>"

lemma demo_sending_get: "bp_get_session demo_mac demo_sending = Some demo_session"
  by (simp add: bp_get_session_def demo_sending_def)

lemma demo_session_fields:
  "bs_online demo_session" "bs_session_key_valid demo_session" "bs_max_entity_fragment demo_session = 220"
  "bs_session_max_payload demo_session = 250" "bs_session_key demo_session = replicate 32 1" "bs_leaf_mac demo_session = demo_mac"
  "bs_tx_counter demo_session = 1"
  by (simp_all add: demo_session_def bp_session_init_def)

lemma demo_receiver_fields:
  "rp_joined demo_receiver" "rp_session_key_valid demo_receiver" "rp_session_key demo_receiver = replicate 32 1"
  "rp_leaf_mac demo_receiver = demo_mac" "0 < rp_max_hops demo_receiver" "length (rp_entity_records demo_receiver) = 1"
  "rp_max_entity_fragment demo_receiver = 220" "rp_session_max_payload demo_receiver = 250"
  "rp_pending_commands demo_receiver = command_assemblies_init" "rp_max_assembly_bytes demo_receiver = 1024"
  "rp_max_total_fragment_bytes demo_receiver = 4096" "rp_commands_run demo_receiver = []"
  "er_last_completed_command_message_tx_base (rp_entity_records demo_receiver ! 0) = 0"
  by code_simp+

lemma demo_network: "same_network demo_sender demo_env" "env_command_fn demo_env"
  by (simp_all add: same_network_def demo_sender_def demo_env_def hmac32_def)

lemma demo_goes_out: "snd (bp_send_command_to_leaf demo_sender demo_mac 0 demo_value demo_sending)"
  by (rule command_goes_out [OF _ demo_sending_get])
    (simp_all add: demo_session_fields radio_accepts_def demo_sender_def demo_env_def espnow_max_plaintext_def)

theorem commands_delivered_witness:
  "\<exists>b' flags. bp_send_command_to_leaf demo_sender demo_mac 0 demo_value demo_sending = (b', True)
     \<and> rp_commands_run (hear (map snd (bp_sent b')) (map (\<lambda>i. (demo_env, [3, 0, 0, 0, 0, 1], - 40, i)) [1, 0, 1]) demo_receiver)
       = [(0, flags, demo_value)]"
proof -
  obtain b' where b': "bp_send_command_to_leaf demo_sender demo_mac 0 demo_value demo_sending = (b', True)"
    using demo_goes_out by (metis prod.collapse)
  have none: "bp_sent demo_sending = []" by (simp add: demo_sending_def BridgeProtocol_new_def)
  have "length demo_value = 300" by (simp add: demo_value_def)
  then have chunks: "fragment_chunk_count 220 (length demo_value) = 2" by (simp add: fragment_chunk_count_def)
  obtain s where s: "bp_get_session demo_mac demo_sending = Some s" and sent: "bp_sent b' = bp_sent demo_sending
      @ map (\<lambda>i. (bs_next_hop_mac s, command_frame demo_sender (bs_session_key s) (bs_leaf_mac s) (bs_max_entity_fragment s) 0 (bs_tx_counter s) demo_value i))
          [0..<fragment_chunk_count (bs_max_entity_fragment s) (length demo_value)]"
    by (rule command_sent [OF b'])
  have "s = demo_session" using s demo_sending_get by simp
  then have two: "length (bp_sent b') = 2" unfolding sent none by (simp add: demo_session_fields chunks del: upt_rec_numeral)
  have places: "{Suc 0, 0, Suc 0} = {..<2}" by auto
  have "\<exists>flags. rp_commands_run (hear (map snd (bp_sent b')) (map (\<lambda>i. (demo_env, [3, 0, 0, 0, 0, 1], - 40, i)) [1, 0, 1]) demo_receiver)
      = rp_commands_run demo_receiver @ [(0, flags, demo_value)]"
    by (rule commands_delivered [OF b' demo_sending_get])
      (simp_all add: none two places demo_network demo_session_fields demo_receiver_fields command_assemblies_init_def counter_is_newer_def)
  then show ?thesis using b' demo_receiver_fields(12) by auto
qed

end
