(* ===== verification/BridgeProps.thy ===== *)
theory BridgeProps
  imports BridgeFrames
begin

text \<open>
  The invariant of the bridge (\<open>bp_ok\<close>, and \<open>bs_ok\<close> of one session) and that every operation keeps it: the
  table of sessions is sorted and keyed by the sessions' addresses, only a session with a key is online, frame sizes are the
  two of the protocol, repetitions are bounded, and every frame sent is well formed.
\<close>

section \<open>The table\<close>

lemma keys_put: "set (map fst (bp_put k s xs)) = insert k (set (map fst xs))"
  by (induction k s xs rule: bp_put.induct) auto

lemma sorted_put: "sorted_wrt (<) (map fst xs) \<Longrightarrow> sorted_wrt (<) (map fst (bp_put k s xs))"
proof (induction k s xs rule: bp_put.induct)
  case (2 k s k' s' rest)
  then show ?case using keys_put [of k s rest] by (auto simp del: set_map)
qed simp

lemma set_put: "set (bp_put k s xs) \<subseteq> insert (k, s) (set xs)"
  by (induction k s xs rule: bp_put.induct) auto

lemma map_of_put: "sorted_wrt (<) (map fst xs) \<Longrightarrow> map_of (bp_put k s xs) = (map_of xs)(k \<mapsto> s)"
  by (induction k s xs rule: bp_put.induct) (auto simp: fun_eq_iff map_of_eq_None_iff image_iff)

lemma length_put: "length (bp_put k s xs) = (if k \<in> fst ` set xs then length xs else Suc (length xs))"
  if "sorted_wrt (<) (map fst xs)"
  using that by (induction k s xs rule: bp_put.induct) (auto simp: image_iff)

lemma sorted_keys_distinct: "sorted_wrt (<) (map fst (xs :: (u64 \<times> bp_session) list)) \<Longrightarrow> distinct (map fst xs)"
  by (rule strict_sorted_iff [THEN iffD1, THEN conjunct2])

lemma sorted_delete: "sorted_wrt (<) (map fst xs) \<Longrightarrow> sorted_wrt (<) (map fst (AList.delete k xs))"
  by (induction xs) (auto simp: AList.delete_eq)

section \<open>The invariant\<close>

definition bs_ok :: "bp_session \<Rightarrow> bool" where
  "bs_ok s \<longleftrightarrow> length (bs_leaf_mac s) = 6 \<and> length (bs_bridge_nonce s) = 16 \<and> length (bs_session_key s) = 32
     \<and> (bs_session_max_payload s = 250 \<or> bs_session_max_payload s = 1470)
     \<and> (bs_max_entity_fragment s = 220 \<or> bs_max_entity_fragment s = 1440)
     \<and> (bs_online s \<longrightarrow> bs_session_key_valid s)
     \<and> bs_join_complete_retry_count s \<le> BP_MAX_RETRIES \<and> bs_schema_request_retries s \<le> BP_MAX_RETRIES"

definition bp_ok :: "bp \<Rightarrow> bool" where
  "bp_ok b \<longleftrightarrow> sorted_wrt (<) (map fst (bp_sessions b))
     \<and> (\<forall>(k, s) \<in> set (bp_sessions b). bs_ok s \<and> k = mac_to_key (bs_leaf_mac s))
     \<and> (\<forall>c \<in> snd ` set (bp_schema_cache b). csd_session_max_payload c = 250 \<or> csd_session_max_payload c = 1470)
     \<and> (\<forall>c \<in> set (bp_command_queue b). pc_retry_count c \<le> BP_MAX_RETRIES)
     \<and> (\<forall>p \<in> set (bp_pending_configs b). pcf_retry_count p \<le> CONFIG_MAX_RETRIES \<and> length (pcf_payload p) \<le> BP_MAX_CONFIG_LEN)
     \<and> length (bp_bridge_mac b) = 6 \<and> (\<forall>(mac, f) \<in> set (bp_sent b). bp_frame_ok f)"

text \<open>A session taken out of the table to be worked on, that of the leaf \<open>L\<close>.\<close>

definition bp_pair_ok :: "bytes \<Rightarrow> bp \<times> bp_session \<Rightarrow> bool" where
  "bp_pair_ok L bs \<longleftrightarrow> bp_ok (fst bs) \<and> bs_ok (snd bs) \<and> bs_leaf_mac (snd bs) = L"

lemma bp_ok_effect [simp]: "bp_ok (bp_effect e b) = bp_ok b"
  by (simp add: bp_ok_def bp_effect_def)

lemma bp_effect_sel [simp]:
  "bp_sessions (bp_effect e b) = bp_sessions b" "bp_schema_cache (bp_effect e b) = bp_schema_cache b"
  "bp_schema_hash_cache (bp_effect e b) = bp_schema_hash_cache b" "bp_sent (bp_effect e b) = bp_sent b"
  "bp_effects (bp_effect e b) = bp_effects b @ [e]"
  by (simp_all add: bp_effect_def)

lemma bp_ok_reads [simp]:
  "bp_ok (fst (bp_read_heap env b)) = bp_ok b" "bp_ok (fst (bp_draw_random env b)) = bp_ok b"
  by (simp_all add: bp_ok_def bp_read_heap_def bp_draw_random_def)

lemma bp_ok_sent [simp]: "bp_frame_ok f \<Longrightarrow> bp_ok (bp_log_sent mac f b) = bp_ok b"
  by (simp add: bp_ok_def bp_log_sent_def)

lemma bp_ok_slot [simp]:
  "bp_ok (bp_clear_joining_slot b) = bp_ok b" "bp_ok (bp_claim_joining_slot env c L b) = bp_ok b"
  by (simp_all add: bp_ok_def bp_clear_joining_slot_def bp_claim_joining_slot_def)

lemma bp_get_ok:
  "bp_ok b \<Longrightarrow> bp_get_session mac b = Some s \<Longrightarrow> bs_ok s \<and> mac_to_key (bs_leaf_mac s) = mac_to_key mac"
  by (auto simp: bp_get_session_def bp_ok_def dest!: map_of_SomeD)

lemma bp_ok_put:
  assumes "bp_ok b" and "bs_ok s" and "k = mac_to_key (bs_leaf_mac s)"
  shows "bp_ok (b\<lparr>bp_sessions := bp_put k s (bp_sessions b)\<rparr>)"
proof -
  have "sorted_wrt (<) (map fst (bp_put k s (bp_sessions b)))"
    using assms(1) by (simp add: bp_ok_def sorted_put)
  moreover have "\<forall>(k, s) \<in> set (bp_put k s (bp_sessions b)). bs_ok s \<and> k = mac_to_key (bs_leaf_mac s)"
    using assms set_put [of k s "bp_sessions b"] by (auto simp: bp_ok_def)
  ultimately show ?thesis using assms(1) by (simp add: bp_ok_def)
qed

lemma bp_ok_store:
  assumes "bp_pair_ok L bs" and "mac_to_key L = mac_to_key mac"
  shows "bp_ok (bp_store mac bs)"
proof -
  obtain b s where bs: "bs = (b, s)" by (cases bs)
  show ?thesis
    using bp_ok_put [of b s "mac_to_key mac"] assms by (simp add: bp_pair_ok_def bs bp_store_def)
qed

lemma bs_ok_init [simp]: "bs_ok bp_session_init"
  by (simp add: bs_ok_def bp_session_init_def)

lemma bp_ensure_ok:
  assumes "bp_ok b" and "length mac = 6"
  shows "bp_pair_ok mac (bp_ensure_session mac b)"
proof -
  have ok: "bs_ok (s\<lparr>bs_mac_hex_key := h, bs_leaf_mac := mac\<rparr>)" "bs_ok (s\<lparr>bs_leaf_mac := mac\<rparr>)" if "bs_ok s" for s h
    using that assms(2) by (simp_all add: bs_ok_def)
  show ?thesis
    using assms ok bp_get_ok [OF assms(1), of mac]
    by (auto simp: bp_ensure_session_def Let_def bp_pair_ok_def bp_store_def intro!: bp_ok_put split: option.split)
qed

section \<open>Sessions\<close>

lemma bs_ok_other_fields [simp]:
  "bs_ok (s\<lparr>bs_parent_mac := x0\<rparr>) = bs_ok s"
  "bs_ok (s\<lparr>bs_remote_nonce := x2\<rparr>) = bs_ok s" "bs_ok (s\<lparr>bs_schema_hash := x3\<rparr>) = bs_ok s"
  "bs_ok (s\<lparr>bs_next_hop_mac := x4\<rparr>) = bs_ok s"
  "bs_ok (s\<lparr>bs_last_seen_counter := x5\<rparr>) = bs_ok s"
  "bs_ok (s\<lparr>bs_tx_counter := x6\<rparr>) = bs_ok s"
  "bs_ok (s\<lparr>bs_last_seen_bridge_uptime_s := x7\<rparr>) = bs_ok s"
  "bs_ok (s\<lparr>bs_discover_announce_deadline_ms := x8\<rparr>) = bs_ok s"
  "bs_ok (s\<lparr>bs_discover_announce_leaf_mac := x9\<rparr>) = bs_ok s"
  "bs_ok (s\<lparr>bs_joined_ms := x10\<rparr>) = bs_ok s"
  "bs_ok (s\<lparr>bs_expected_contact_interval_s := x11\<rparr>) = bs_ok s"
  "bs_ok (s\<lparr>bs_uptime_seconds := x12\<rparr>) = bs_ok s"
  "bs_ok (s\<lparr>bs_hops_to_bridge := x13\<rparr>) = bs_ok s"
  "bs_ok (s\<lparr>bs_last_reported_hops_to_bridge := x14\<rparr>) = bs_ok s"
  "bs_ok (s\<lparr>bs_total_entities := x15\<rparr>) = bs_ok s"
  "bs_ok (s\<lparr>bs_max_assembly_bytes := x16\<rparr>) = bs_ok s"
  "bs_ok (s\<lparr>bs_max_total_fragment_bytes := x17\<rparr>) = bs_ok s"
  "bs_ok (s\<lparr>bs_leaf_session_flags := x18\<rparr>) = bs_ok s"
  "bs_ok (s\<lparr>bs_firmware_md5 := x19\<rparr>) = bs_ok s"
  "bs_ok (s\<lparr>bs_chip_model := x20\<rparr>) = bs_ok s"
  "bs_ok (s\<lparr>bs_pending_schema_index := x21\<rparr>) = bs_ok s"
  "bs_ok (s\<lparr>bs_pending_schema_descriptor_type := x22\<rparr>) = bs_ok s"
  "bs_ok (s\<lparr>bs_direct_child_count := x23\<rparr>) = bs_ok s"
  "bs_ok (s\<lparr>bs_total_child_count := x24\<rparr>) = bs_ok s"
  "bs_ok (s\<lparr>bs_last_rssi := x25\<rparr>) = bs_ok s" "bs_ok (s\<lparr>bs_rx_packets := x26\<rparr>) = bs_ok s"
  "bs_ok (s\<lparr>bs_tx_packets := x27\<rparr>) = bs_ok s"
  "bs_ok (s\<lparr>bs_last_schema_request_ms := x28\<rparr>) = bs_ok s"
  "bs_ok (s\<lparr>bs_last_join_complete_ms := x29\<rparr>) = bs_ok s"
  "bs_ok (s\<lparr>bs_last_completed_state_message_tx_base := x30\<rparr>) = bs_ok s"
  "bs_ok (s\<lparr>bs_bridge_nonce_valid := x31\<rparr>) = bs_ok s"
  "bs_ok (s\<lparr>bs_remote_nonce_valid := x32\<rparr>) = bs_ok s"
  "bs_ok (s\<lparr>bs_remote_state := x33\<rparr>) = bs_ok s"
  "bs_ok (s\<lparr>bs_schema_received := x34\<rparr>) = bs_ok s"
  "bs_ok (s\<lparr>bs_schema_request_in_flight := x35\<rparr>) = bs_ok s"
  "bs_ok (s\<lparr>bs_awaiting_discovery_confirm := x36\<rparr>) = bs_ok s"
  "bs_ok (s\<lparr>bs_pending_schema_request_index := x37\<rparr>) = bs_ok s"
  "bs_ok (s\<lparr>bs_last_discovery_confirm_ms := x38\<rparr>) = bs_ok s"
  "bs_ok (s\<lparr>bs_join_complete_pending := x39\<rparr>) = bs_ok s"
  "bs_ok (s\<lparr>bs_state_sync_pending := x40\<rparr>) = bs_ok s"
  "bs_ok (s\<lparr>bs_awaiting_more_dirty := x41\<rparr>) = bs_ok s"
  "bs_ok (s\<lparr>bs_join_in_progress := x42\<rparr>) = bs_ok s"
  "bs_ok (s\<lparr>bs_pending_discovery_count := x43\<rparr>) = bs_ok s"
  "bs_ok (s\<lparr>bs_discovery_all_confirmed := x44\<rparr>) = bs_ok s"
  "bs_ok (s\<lparr>bs_esphome_name := x45\<rparr>) = bs_ok s"
  "bs_ok (s\<lparr>bs_node_label := x46\<rparr>) = bs_ok s"
  "bs_ok (s\<lparr>bs_firmware_epoch := x47\<rparr>) = bs_ok s"
  "bs_ok (s\<lparr>bs_build_date := x48\<rparr>) = bs_ok s" "bs_ok (s\<lparr>bs_build_time := x49\<rparr>) = bs_ok s"
  "bs_ok (s\<lparr>bs_project_name := x50\<rparr>) = bs_ok s"
  "bs_ok (s\<lparr>bs_project_version := x51\<rparr>) = bs_ok s"
  "bs_ok (s\<lparr>bs_mac_hex_key := x52\<rparr>) = bs_ok s"
  "bs_ok (s\<lparr>bs_parent_mac_hex_key := x53\<rparr>) = bs_ok s"
  "bs_ok (s\<lparr>bs_last_offline_reason := x54\<rparr>) = bs_ok s"
  "bs_ok (s\<lparr>bs_schema_entities := x55\<rparr>) = bs_ok s"
  "bs_ok (s\<lparr>bs_pending_state_assemblies := x56\<rparr>) = bs_ok s"
  "bs_ok (s\<lparr>bs_pending_schema_assemblies := x57\<rparr>) = bs_ok s"
  by (simp_all add: bs_ok_def)

lemma bs_ok_fields [simp]:
  "bs_ok s \<Longrightarrow> bs_ok (s\<lparr>bs_online := False\<rparr>)"
  "bs_ok s \<Longrightarrow> \<not> bs_online s \<Longrightarrow> bs_ok (s\<lparr>bs_session_key_valid := False\<rparr>)"
  "bs_ok s \<Longrightarrow> bs_session_key_valid s \<Longrightarrow> bs_ok (s\<lparr>bs_online := True\<rparr>)"
  "bs_ok s \<Longrightarrow> bs_ok (s\<lparr>bs_session_key_valid := True\<rparr>)"
  "bs_ok s \<Longrightarrow> n \<le> 4 \<Longrightarrow> bs_ok (s\<lparr>bs_join_complete_retry_count := n\<rparr>)"
  "bs_ok s \<Longrightarrow> n \<le> 4 \<Longrightarrow> bs_ok (s\<lparr>bs_schema_request_retries := n\<rparr>)"
  "bs_ok s \<Longrightarrow> length key = 32 \<Longrightarrow> bs_ok (s\<lparr>bs_session_key := key\<rparr>)"
  "bs_ok s \<Longrightarrow> length nonce = 16 \<Longrightarrow> bs_ok (s\<lparr>bs_bridge_nonce := nonce\<rparr>)"
  "bs_ok s \<Longrightarrow> m = 250 \<or> m = 1470 \<Longrightarrow> bs_ok (s\<lparr>bs_session_max_payload := m\<rparr>)"
  "bs_ok s \<Longrightarrow> m = 220 \<or> m = 1440 \<Longrightarrow> bs_ok (s\<lparr>bs_max_entity_fragment := m\<rparr>)"
  by (auto simp: bs_ok_def)

lemma bs_ok_leaf: "bs_ok s \<Longrightarrow> length (bs_leaf_mac s) = 6"
  by (simp add: bs_ok_def)

lemma bs_ok_key: "bs_ok s \<Longrightarrow> length (bs_session_key s) = 32"
  by (simp add: bs_ok_def)

lemma bs_ok_online: "bs_ok s \<Longrightarrow> bs_online s \<Longrightarrow> bs_session_key_valid s"
  by (simp add: bs_ok_def)

section \<open>Sending\<close>

lemma max_plaintext_fits:
  assumes "bs_ok s" and "length p \<le> unat (espnow_max_plaintext (bs_session_max_payload s))"
  shows "length p + 25 \<le> 1470"
proof -
  have "unat (espnow_max_plaintext (bs_session_max_payload s)) + 25 \<le> 1470"
    using assms(1) by (auto simp: bs_ok_def espnow_max_plaintext_def)
  then show ?thesis using assms(2) by linarith
qed

lemma length_crypt: "espnow_crypto_crypt c (Some k) tx p = Some q \<Longrightarrow> length k = 32 \<Longrightarrow> length q = length p"
  by (auto simp: espnow_crypto_crypt_def ctr_crypt_twice split: if_splits)

lemma bp_plain_ok:
  assumes "bp_ok b" and "hmac32 (bpe_hmac env)" and "length L = 6" and "length payload \<le> 1000"
  shows "bp_ok (fst (bp_send_plain_psk env mac L t bp_down_hops c payload b))"
proof -
  have "bp_frame_ok (bp_frame_bytes env None (bp_header (packet_code t) bp_down_hops L c) payload)"
    using assms(2-4) by (intro bp_frame_ok_built) simp_all
  then show ?thesis using assms(1) by (simp add: bp_send_plain_psk_def Let_def split: option.split)
qed

lemma bp_encrypted_ok:
  assumes "bp_pair_ok L bs" and "hmac32 (bpe_hmac env)"
  shows "bp_pair_ok L (fst (bp_send_encrypted env mac t bp_down_hops p bs))"
proof -
  obtain b s where bs: "bs = (b, s)" by (cases bs)
  have "bp_frame_ok (bp_frame_bytes env (Some k) (bp_header (packet_code t) bp_down_hops (bs_leaf_mac s) c) q)"
    if "length q = length p" "length p \<le> unat (espnow_max_plaintext (bs_session_max_payload s))" for k c q
    using that assms max_plaintext_fits [of s p] bs_ok_leaf [of s] by (intro bp_frame_ok_built) (simp_all add: bp_pair_ok_def bs)
  then show ?thesis
    using assms(1) by (auto simp: bp_send_encrypted_def bp_pair_ok_def bs Let_def dest!: length_crypt intro!: bs_ok_key split: option.split)
qed

lemma bp_counter_result_ok:
  assumes "bp_pair_ok L bs" and "hmac32 (bpe_hmac env)"
  shows "bp_pair_ok L (fst (bp_send_encrypted_with_tx_counter_result env mac t bp_down_hops c p bs))"
proof -
  obtain b s where bs: "bs = (b, s)" by (cases bs)
  obtain b' free where rd: "bp_read_heap env b = (b', free)" by fastforce
  have "bp_ok b'" using bp_ok_reads(1) [of env b] assms(1) by (simp add: rd bs bp_pair_ok_def)
  moreover have "bp_frame_ok (bp_frame_bytes env (Some k) (bp_header (packet_code t) bp_down_hops (bs_leaf_mac s) c) q)"
    if "length q = length p" "length p \<le> unat (espnow_max_plaintext (bs_session_max_payload s))" for k q
    using that assms max_plaintext_fits [of s p] bs_ok_leaf [of s] by (intro bp_frame_ok_built) (simp_all add: bp_pair_ok_def bs)
  ultimately show ?thesis
    using assms(1)
    by (auto simp: bp_send_encrypted_with_tx_counter_result_def bp_pair_ok_def bs rd Let_def dest!: length_crypt intro!: bs_ok_key split: option.split)
qed

lemma bp_pair_simp [simp]: "bp_pair_ok L (b, s) \<longleftrightarrow> bp_ok b \<and> bs_ok s \<and> bs_leaf_mac s = L"
  by (simp add: bp_pair_ok_def)

lemma bp_pair_fst:
  assumes "bp_pair_ok L bs"
  shows "bp_ok (fst bs)" and "bs_ok (snd bs)" and "bs_leaf_mac (snd bs) = L" and "length L = 6"
  using assms by (auto simp: bp_pair_ok_def bs_ok_leaf)

lemma bp_counter_ok:
  assumes "bp_pair_ok L bs" and "hmac32 (bpe_hmac env)"
  shows "bp_pair_ok L (fst (bp_send_encrypted_with_tx_counter env mac t bp_down_hops c p bs))"
  using bp_counter_result_ok [OF assms, of mac t c p]
  by (simp add: bp_send_encrypted_with_tx_counter_def split_beta)

lemma bp_announce_ok:
  assumes "bp_ok b" and "hmac32 (bpe_hmac env)" and "length L = 6"
  shows "bp_ok (fst (bp_send_discover_announce env mac L hops b))"
proof -
  have "length (c_enc espnow_discover_announce_codec (bp_fill_discover_announce hops b)) \<le> 1000"
    using assms(1) by (simp add: espnow_discover_announce_codec_def codec_defs bp_fill_discover_announce_def bp_ok_def zero_padded_def)
  then show ?thesis
    unfolding bp_send_discover_announce_def downstream_hop_count_plain_def using assms by (intro bp_plain_ok)
qed

lemma bp_join_ack_ok:
  assumes "bp_pair_ok L bs" and "hmac32 (bpe_hmac env)"
  shows "bp_pair_ok L (fst (bp_send_join_ack env mac accepted reason stage claim bs))"
proof -
  obtain b s where bs: "bs = (b, s)" by (cases bs)
  have "length (c_enc espnow_join_ack_codec \<lparr>jack_accepted = a, jack_reason = reason, jack_stage = stage,
      jack_bridge_nonce = bs_bridge_nonce s, jack_session_flags = f\<rparr>) \<le> 1000" for a f
    using assms(1) by (simp add: bs espnow_join_ack_codec_def codec_defs bs_ok_def)
  then show ?thesis
    using assms bs_ok_leaf [of s]
    by (simp add: bp_send_join_ack_def downstream_hop_count_session_def bs Let_def split_beta bp_plain_ok)
qed

lemma bp_join_complete_ok:
  assumes "bp_pair_ok L bs" and "hmac32 (bpe_hmac env)"
  shows "bp_pair_ok L (fst (bp_send_join_complete env mac reset bs))"
  using bp_pair_fst [OF bp_join_ack_ok [OF assms, of mac True 0 BP_COMPLETE True]]
  by (simp add: bp_send_join_complete_def split_beta Let_def)

lemma bp_state_ack_ok:
  assumes "bp_pair_ok L bs" and "hmac32 (bpe_hmac env)"
  shows "bp_pair_ok L (fst (bp_send_state_ack env mac c r bs))"
  unfolding bp_send_state_ack_def downstream_hop_count_session_def by (rule bp_encrypted_ok [OF assms])

lemma bp_schema_request_ok:
  assumes "bp_pair_ok L bs" and "hmac32 (bpe_hmac env)"
  shows "bp_pair_ok L (fst (bp_send_schema_request env mac t i bs))"
  using bp_pair_fst [OF bp_encrypted_ok [OF assms]]
  by (simp add: bp_send_schema_request_def downstream_hop_count_session_def split_beta)

lemma bp_deauth_ok:
  assumes "bp_pair_ok L bs" and "hmac32 (bpe_hmac env)"
  shows "bp_pair_ok L (fst (bp_send_deauth env mac t c p bs))"
proof -
  obtain b s where bs: "bs = (b, s)" by (cases bs)
  have "length (c_enc espnow_deauth_codec \<lparr>deauth_reason = 1, deauth_response_to_packet_type = t,
      deauth_response_to_tx_counter = c, deauth_request_fingerprint = bp_trigger_fingerprint env L t c p\<rparr>) \<le> 1000"
    using length_psk_tag [OF assms(2)]
    by (simp add: espnow_deauth_codec_def codec_defs bp_trigger_fingerprint_def)
  then show ?thesis
    using assms bs_ok_leaf [of s]
    by (simp add: bp_send_deauth_def downstream_hop_count_session_def bs Let_def split_beta bp_plain_ok)
qed

lemma bp_chunks_ok:
  assumes "bp_pair_ok L bs" and "hmac32 (bpe_hmac env)"
  shows "bp_pair_ok L (fst (bp_send_command_chunks env mac i v base consume chunks bs))"
  using assms(1)
proof (induction chunks arbitrary: bs)
  case (Cons chunk chunks)
  obtain b s where bs: "bs = (b, s)" by (cases bs)
  define s1 where "s1 = (if consume then s\<lparr>bs_tx_counter := base + of_nat chunk + 1\<rparr> else s)"
  have "bp_pair_ok L (b, s1)" using Cons.prems by (simp add: bs s1_def)
  from bp_counter_ok [OF this assms(2)] Cons.IH show ?case
    by (simp add: bs s1_def [symmetric] Let_def downstream_hop_count_session_def split_beta)
qed simp

lemma bp_fragments_ok:
  assumes "bp_pair_ok L bs" and "hmac32 (bpe_hmac env)"
  shows "bp_pair_ok L (fst (bp_send_command_fragments env mac i v base consume bs))"
  unfolding bp_send_command_fragments_def by (rule bp_chunks_ok [OF assms])

lemma bp_command_ok:
  assumes "bp_pair_ok L bs" and "hmac32 (bpe_hmac env)"
  shows "bp_pair_ok L (fst (bp_send_command env mac i v bs))"
proof -
  obtain b' s' r where f: "bp_send_command_fragments env mac i v (bs_tx_counter (snd bs)) True bs = ((b', s'), r)"
    by (metis prod.collapse)
  have "bp_pair_ok L (b', s')" using bp_fragments_ok [OF assms, of mac i v "bs_tx_counter (snd bs)" True] by (simp add: f)
  then show ?thesis by (cases r) (auto simp: bp_send_command_def Let_def f bp_ok_def)
qed

lemma bp_config_frame_ok:
  assumes "bp_pair_ok L bs" and "hmac32 (bpe_hmac env)"
  shows "bp_pair_ok L (fst (bp_send_config_frame env p bs))"
  using assms bp_counter_ok [OF assms] by (simp add: bp_send_config_frame_def downstream_hop_count_session_def)

lemma bp_send_command_to_leaf_ok:
  assumes "bp_ok b" and "hmac32 (bpe_hmac env)"
  shows "bp_ok (fst (bp_send_command_to_leaf env L i v b))"
proof (cases "bp_get_session L b")
  case (Some s)
  have p: "bp_pair_ok (bs_leaf_mac s) (b, s)" using bp_get_ok [OF assms(1) Some] assms(1) by simp
  then show ?thesis
    using bp_ok_store [OF bp_command_ok [OF p assms(2)], of L] bp_get_ok [OF assms(1) Some] assms(1)
    by (simp add: bp_send_command_to_leaf_def Some split_beta)
qed (simp add: bp_send_command_to_leaf_def assms)

lemma bp_send_config_to_leaf_ok:
  assumes "bp_ok b" and "hmac32 (bpe_hmac env)"
  shows "bp_ok (fst (bp_send_config_to_leaf env L c payload callback b))"
proof (cases "bp_get_session L b")
  case (Some s)
  let ?s = "s\<lparr>bs_tx_counter := bs_tx_counter s + 1\<rparr>"
  have p: "bp_pair_ok (bs_leaf_mac s) (b, ?s)" using bp_get_ok [OF assms(1) Some] assms(1) by simp
  have "bp_ok (bp_store L (fst (bp_send_config_frame env pending (b, ?s))))" for pending
    using bp_ok_store [OF bp_config_frame_ok [OF p assms(2)], of L] bp_get_ok [OF assms(1) Some] by simp
  moreover have "bp_ok (c\<lparr>bp_pending_configs := bp_pending_configs c @ [pending]\<rparr>)"
    if "bp_ok c" "pcf_retry_count pending = 0" "length (pcf_payload pending) \<le> BP_MAX_CONFIG_LEN" for c pending
    using that by (auto simp: bp_ok_def)
  ultimately show ?thesis
    using assms(1) by (simp add: bp_send_config_to_leaf_def Some split_beta Let_def)
qed (simp add: bp_send_config_to_leaf_def assms)

lemma bp_send_ota_frame_ok:
  assumes "bp_ok b" and "hmac32 (bpe_hmac env)"
  shows "bp_ok (fst (bp_send_ota_frame env L t payload b))"
proof (cases "bp_get_session L b")
  case (Some s)
  let ?s = "s\<lparr>bs_tx_counter := bs_tx_counter s + 1\<rparr>"
  have p: "bp_pair_ok (bs_leaf_mac s) (b, ?s)" using bp_get_ok [OF assms(1) Some] assms(1) by simp
  then show ?thesis
    using bp_ok_store [OF bp_counter_result_ok [OF p assms(2)], of L] bp_get_ok [OF assms(1) Some] assms(1)
    by (simp add: bp_send_ota_frame_def Some split_beta Let_def downstream_hop_count_session_def)
qed (simp add: bp_send_ota_frame_def assms)

section \<open>Telling the component\<close>

lemma bp_mark_online_ok:
  assumes "bp_pair_ok L bs" and "bs_session_key_valid (snd bs)"
  shows "bp_pair_ok L (bp_mark_online env rssi c r bs)"
  using assms by (cases bs) (simp add: bp_mark_online_def)

lemma bp_ok_cache:
  assumes "bp_ok b" and "csd_session_max_payload v = 250 \<or> csd_session_max_payload v = 1470"
  shows "bp_ok (b\<lparr>bp_schema_cache := AList.update k v (bp_schema_cache b), bp_schema_hash_cache := h\<rparr>)"
proof -
  have "\<forall>c \<in> insert v (snd ` set (bp_schema_cache b)). csd_session_max_payload c = 250 \<or> csd_session_max_payload c = 1470"
    using assms by (simp add: bp_ok_def)
  then have "\<forall>c \<in> snd ` set (AList.update k v (bp_schema_cache b)). csd_session_max_payload c = 250 \<or> csd_session_max_payload c = 1470"
    using snd_update_subset [of k v "bp_schema_cache b"] by blast
  then show ?thesis using assms(1) unfolding bp_ok_def by simp
qed

lemma bp_refresh_cache_ok:
  assumes "bp_pair_ok L bs"
  shows "bp_ok (bp_refresh_schema_cache bs)"
proof -
  obtain b s where bs: "bs = (b, s)" by (cases bs)
  have "bs_session_max_payload s = 250 \<or> bs_session_max_payload s = 1470" using assms by (simp add: bs bs_ok_def)
  then show ?thesis using assms by (simp add: bs bp_refresh_schema_cache_def bp_ok_cache)
qed

lemma bp_publish_entity_ok [simp]: "bp_ok (bp_publish_entity s e b) = bp_ok b"
  by (simp add: bp_publish_entity_def)

lemma bp_publish_ok [simp]:
  "bp_ok (bp_publish_discovery_for_entity s i b) = bp_ok b" "bp_ok (bp_publish_all_entities s b) = bp_ok b"
proof -
  have "bp_ok (fold (bp_publish_entity s) es b) = bp_ok b" for es
    by (induction es arbitrary: b) simp_all
  then show "bp_ok (bp_publish_discovery_for_entity s i b) = bp_ok b" "bp_ok (bp_publish_all_entities s b) = bp_ok b"
    by (simp_all add: bp_publish_discovery_for_entity_def bp_publish_all_entities_def)
qed

section \<open>JOIN and DISCOVER\<close>

lemma bp_on_session_ok:
  assumes "bp_ok b"
    and "\<And>s. bp_pair_ok (bs_leaf_mac s) (b, s) \<Longrightarrow> bp_pair_ok (bs_leaf_mac s) (fst (f (b, s)))"
  shows "bp_ok (fst (bp_on_session L f b))"
proof (cases "bp_get_session L b")
  case (Some s)
  have "bp_pair_ok (bs_leaf_mac s) (fst (f (b, s)))" using assms bp_get_ok [OF assms(1) Some] by simp
  then have "bp_ok (bp_store L (fst (f (b, s))))"
    by (rule bp_ok_store) (use bp_get_ok [OF assms(1) Some] in simp)
  then show ?thesis by (simp add: bp_on_session_def Some split_beta)
qed (simp add: bp_on_session_def assms(1))

lemma bp_handle_discover_ok:
  assumes "bp_ok b" and "length (fh_leaf_mac hdr) = 6"
  shows "bp_ok (fst (bp_handle_discover env m hdr p b))"
proof -
  let ?L = "fh_leaf_mac hdr"
  obtain b1 s where e: "bp_ensure_session ?L b = (b1, s)" by fastforce
  obtain b2 r where d: "bp_draw_random env b1 = (b2, r)" by fastforce
  have "bp_pair_ok ?L (b1, s)" using bp_ensure_ok [OF assms] by (simp add: e)
  then have "bp_pair_ok ?L (b2, s\<lparr>bs_discover_announce_deadline_ms := t, bs_discover_announce_leaf_mac := m\<rparr>)" for t
    using bp_ok_reads(2) [of env b1] by (simp add: d)
  then have "bp_ok (bp_store ?L (b2, s\<lparr>bs_discover_announce_deadline_ms := t, bs_discover_announce_leaf_mac := m\<rparr>))" for t
    by (rule bp_ok_store) simp
  then show ?thesis using assms(1) by (simp add: bp_handle_discover_def e d split: option.split)
qed

lemma bp_frame_size_ok:
  assumes "bs_ok s"
  shows "bs_ok (bp_join_frame_size f g s)"
proof -
  have "espnow_max_entity_fragment 1470 = 1440" by (simp add: espnow_max_entity_fragment_def espnow_max_plaintext_def)
  then show ?thesis using assms by (simp add: bp_join_frame_size_def bs_update_from_mtu_def Let_def)
qed

lemma bp_frame_size_leaf [simp]: "bs_leaf_mac (bp_join_frame_size f g s) = bs_leaf_mac s"
  by (simp add: bp_join_frame_size_def bs_update_from_mtu_def Let_def)

lemma bp_join_reset_ok:
  assumes "bs_ok s" and "bp_env_ok env"
  shows "bs_ok (bp_join_reset env m hdr join rssi f s)" and "bs_leaf_mac (bp_join_reset env m hdr join rssi f s) = bs_leaf_mac s"
proof -
  have "bs_ok (bp_join_key env join s)" using assms length_session_key by (simp add: bp_join_key_def bp_env_ok_def)
  then show "bs_ok (bp_join_reset env m hdr join rssi f s)" by (simp add: bp_join_reset_def Let_def bp_frame_size_ok)
  show "bs_leaf_mac (bp_join_reset env m hdr join rssi f s) = bs_leaf_mac s"
    by (simp add: bp_join_reset_def Let_def bp_join_key_def)
qed

lemma bp_clear_exchange_ok [simp]:
  "bs_ok s \<Longrightarrow> bs_ok (bp_join_clear_exchange s)" "bs_leaf_mac (bp_join_clear_exchange s) = bs_leaf_mac s"
  by (simp_all add: bp_join_clear_exchange_def)

lemma bp_from_cache_ok:
  assumes "bp_ok b" and "bs_ok s"
  shows "bs_ok (bp_join_from_cache (map_of (bp_schema_cache b) k) s)"
    and "bs_leaf_mac (bp_join_from_cache (map_of (bp_schema_cache b) k) s) = bs_leaf_mac s"
proof -
  have "csd_session_max_payload c = 250 \<or> csd_session_max_payload c = 1470" if "map_of (bp_schema_cache b) k = Some c" for c
    using assms(1) map_of_SomeD [OF that] by (force simp: bp_ok_def)
  then show "bs_ok (bp_join_from_cache (map_of (bp_schema_cache b) k) s)"
    using assms(2) by (simp add: bp_join_from_cache_def split: option.split)
  show "bs_leaf_mac (bp_join_from_cache (map_of (bp_schema_cache b) k) s) = bs_leaf_mac s"
    by (simp add: bp_join_from_cache_def split: option.split)
qed

lemma bp_join_cached_ok:
  assumes "bp_pair_ok L bs" and "hmac32 (bpe_hmac env)"
  shows "bp_pair_ok L (fst (bp_join_cached env m join k bs))"
proof -
  obtain b s where bs: "bs = (b, s)" by (cases bs)
  define s1 where "s1 = bp_join_from_cache (map_of (bp_schema_cache b) k) s"
  have s1: "bs_ok s1" "bs_leaf_mac s1 = L" using bp_from_cache_ok [of b s k] assms(1) by (simp_all add: bs s1_def)
  then have p: "bp_pair_ok L (bp_effect e b, s1\<lparr>bs_schema_received := True, bs_total_entities := n\<rparr>)"
    "bp_pair_ok L (bp_effect e b, s1\<lparr>bs_schema_received := True, bs_total_entities := n, bs_state_sync_pending := True,
        bs_awaiting_more_dirty := True\<rparr>)" for e n
    using assms(1) by (simp_all add: bs)
  show ?thesis
    using bp_join_complete_ok [OF p(1) assms(2)] bp_pair_fst [OF bp_join_ack_ok [OF p(2) assms(2)]]
    by (simp add: bp_join_cached_def bs s1_def [symmetric] Let_def split_beta)
qed

lemma bp_join_refresh_ok:
  assumes "bp_pair_ok L bs" and "hmac32 (bpe_hmac env)"
  shows "bp_pair_ok L (fst (bp_join_refresh env m bs))"
proof -
  obtain b s where bs: "bs = (b, s)" by (cases bs)
  let ?s = "s\<lparr>bs_schema_entities := [], bs_schema_received := False,
    bs_pending_schema_descriptor_type := ESPNOW_DESCRIPTOR_TYPE_IDENTITY, bs_pending_schema_index := 0\<rparr>"
  obtain b1 s1 r where a: "bp_send_join_ack env m True 0 BP_SCHEMA_REFRESH True (b, ?s) = ((b1, s1), r)"
    by (metis prod.collapse)
  have p: "bp_pair_ok L (b1, s1)"
    using bp_join_ack_ok [of L "(b, ?s)" env m True 0 BP_SCHEMA_REFRESH True] assms by (simp add: a bs)
  then have "bp_pair_ok L (bp_clear_joining_slot b1, s1\<lparr>bs_schema_request_retries := 0\<rparr>)" by simp
  from bp_pair_fst [OF bp_schema_request_ok [OF this assms(2), of m ESPNOW_DESCRIPTOR_TYPE_IDENTITY 0]]
  show ?thesis using p by (cases r) (simp_all add: bp_join_refresh_def bs a split_beta)
qed

lemma bp_handle_join_ok:
  assumes "bp_ok b" and "bp_env_ok env" and "length (fh_leaf_mac hdr) = 6"
  shows "bp_ok (fst (bp_handle_join env m hdr p rssi b))"
proof -
  let ?L = "fh_leaf_mac hdr"
  have h: "hmac32 (bpe_hmac env)" using assms(2) by (simp add: bp_env_ok_def)
  obtain b1 s where e: "bp_ensure_session ?L b = (b1, s)" by fastforce
  have p1: "bp_pair_ok ?L (b1, s)" using bp_ensure_ok [OF assms(1,3)] by (simp add: e)
  have "bp_pair_ok ?L (fst (bp_join_session env m hdr join rssi (b1, s)))" for join
  proof -
    have retry: "bp_pair_ok ?L (fst (bp_join_retry env m hdr rssi (b1, s)))"
      unfolding bp_join_retry_def Let_def prod.case using p1 by (intro bp_join_ack_ok h) simp
    define s1 where "s1 = bp_join_clear_exchange (bp_join_reset env m hdr join rssi (bp_bridge_session_flags b1)
        (s\<lparr>bs_join_in_progress := False\<rparr>))"
    have p2: "bp_pair_ok ?L (b1, s1)" using p1 bp_join_reset_ok [OF _ assms(2)] by (simp add: s1_def)
    have "bp_pair_ok ?L (fst (bp_join_fresh env m hdr join rssi (b1, s\<lparr>bs_join_in_progress := False\<rparr>)))"
      using bp_join_cached_ok [OF p2 h] bp_join_refresh_ok [OF p2 h]
      by (simp add: bp_join_fresh_def Let_def s1_def)
    then show ?thesis
      using retry bp_join_ack_ok [OF p1 h] by (simp add: bp_join_session_def)
  qed
  then have "bp_ok (bp_store ?L (fst (bp_join_session env m hdr join rssi (b1, s))))" for join
    by (rule bp_ok_store) simp
  then show ?thesis using assms(1) by (simp add: bp_handle_join_def e split_beta split: option.split)
qed

section \<open>Schemas, states, heartbeats and acknowledgements\<close>

lemma bp_fragment_stores_ok:
  "bs_ok (fst (bp_schema_fragment s v c now)) = bs_ok s" "bs_leaf_mac (fst (bp_schema_fragment s v c now)) = bs_leaf_mac s"
  "bs_ok (fst (bp_state_fragment s v c now)) = bs_ok s" "bs_leaf_mac (fst (bp_state_fragment s v c now)) = bs_leaf_mac s"
  "bs_session_key_valid (fst (bp_state_fragment s v c now)) = bs_session_key_valid s"
  by (simp_all add: bp_schema_fragment_def bp_state_fragment_def split_beta)

lemma bp_validated_key: "bp_validate_session_packet env s hdr p tag = Some q \<Longrightarrow> bs_session_key_valid s"
  by (simp add: bp_validate_session_packet_def split: if_splits)

lemma bp_request_entity_ok:
  assumes "bp_pair_ok L bs" and "hmac32 (bpe_hmac env)"
  shows "bp_pair_ok L (fst (bp_request_entity env m i bs))"
  using bp_pair_fst [OF bp_schema_request_ok [OF assms]] by (simp add: bp_request_entity_def split_beta)

lemma bp_schema_done_ok:
  assumes "bp_pair_ok L bs"
  shows "bp_pair_ok L (bp_schema_done bs)"
proof -
  obtain b s where bs: "bs = (b, s)" by (cases bs)
  let ?s = "s\<lparr>bs_schema_received := True, bs_schema_request_in_flight := False, bs_pending_schema_index := 255,
    bs_pending_schema_descriptor_type := ESPNOW_DESCRIPTOR_TYPE_ENTITY\<rparr>"
  have "bp_pair_ok L (b, ?s)" using assms by (simp add: bs)
  from bp_refresh_cache_ok [OF this] assms show ?thesis by (simp add: bp_schema_done_def bs Let_def)
qed

lemma bp_identity_push_ok:
  assumes "bp_pair_ok L bs" and "hmac32 (bpe_hmac env)"
  shows "bp_pair_ok L (fst (bp_identity_push env m p bs))"
proof -
  obtain b s where bs: "bs = (b, s)" by (cases bs)
  have t: "bp_pair_ok L (bp_effect e b, bp_take_identity i s)" "bp_pair_ok L (b, bp_take_identity i s)" for e i
    using assms(1) by (simp_all add: bs bp_take_identity_def)
  have d: "bp_pair_ok L (fst (bp_send_join_complete env m r (bp_effect e' (fst bs'), snd bs')))"
    if "bp_pair_ok L bs'" for r e' bs'
    using bp_join_complete_ok [OF _ assms(2), of L "(bp_effect e' (fst bs'), snd bs')"] bp_pair_fst [OF that] by simp
  show ?thesis
    using assms(1) d [OF bp_schema_done_ok [OF t(1)]] d [OF bp_schema_done_ok [OF t(2)]]
      bp_request_entity_ok [OF t(1) assms(2)] bp_request_entity_ok [OF t(2) assms(2)]
    by (simp add: bp_identity_push_def Let_def bs split_beta split: option.split)
qed

lemma bp_entity_push_ok:
  assumes "bp_pair_ok L bs" and "hmac32 (bpe_hmac env)"
  shows "bp_pair_ok L (fst (bp_entity_push env m p bs))"
proof -
  obtain b s where bs: "bs = (b, s)" by (cases bs)
  define s1 where "s1 push = s\<lparr>bs_schema_entities := bp_put_entity (bp_entity_of_push p push) (unat (spv_entity_index push)) (bs_schema_entities s),
    bs_total_entities := spv_total_entities push, bs_next_hop_mac := m\<rparr>" for push
  define s2 where "s2 push = s1 push\<lparr>bs_awaiting_discovery_confirm := False, bs_pending_schema_request_index := 255,
    bs_last_discovery_confirm_ms := 0, bs_pending_schema_descriptor_type := ESPNOW_DESCRIPTOR_TYPE_ENTITY,
    bs_pending_schema_index := spv_entity_index push, bs_schema_request_retries := 1\<rparr>" for push
  have p1: "bp_pair_ok L (b, s1 push)" for push using assms(1) by (simp add: bs s1_def)
  have p2: "bp_pair_ok L (bp_publish_discovery_for_entity (s2 push) i b, s2 push)" for push i
    using p1 [of push] by (simp add: s2_def)
  have p3: "bp_pair_ok L (bp_effect e (fst bs'), snd bs'\<lparr>bs_pending_discovery_count := 0, bs_discovery_all_confirmed := True\<rparr>)"
    "bp_pair_ok L (bp_effect e (fst bs'), snd bs'\<lparr>bs_pending_discovery_count := 0, bs_discovery_all_confirmed := True,
       bs_state_sync_pending := True, bs_awaiting_more_dirty := True\<rparr>)" if "bp_pair_ok L bs'" for e bs'
    using bp_pair_fst [OF that] by simp_all
  show ?thesis
    using assms(1) bp_request_entity_ok [OF p2 assms(2)] bp_join_complete_ok [OF p3(1) [OF bp_schema_done_ok [OF p1]] assms(2)]
      bp_join_ack_ok [OF p3(2) [OF bp_schema_done_ok [OF p1]] assms(2)]
    by (simp add: bp_entity_push_def Let_def bs split_beta s1_def [symmetric] s2_def [symmetric] split: option.split)
qed

lemma bp_schema_push_ok:
  assumes "bp_pair_ok L bs" and "hmac32 (bpe_hmac env)"
  shows "bp_pair_ok L (fst (bp_schema_push env m hdr p tag bs))"
proof -
  obtain b s where bs: "bs = (b, s)" by (cases bs)
  define f where "f v = bp_schema_fragment s v (fragment_message_tx_base hdr v) (bpe_now env)" for v
  define g where "g s v = s\<lparr>bs_last_seen_counter := max (bs_last_seen_counter s) (fh_tx_counter hdr),
    bs_last_seen_bridge_uptime_s := bpe_now env div 1000, bs_pending_schema_index := epv_entity_index v,
    bs_schema_request_retries := 0, bs_last_schema_request_ms := 0\<rparr>" for s :: bp_session and v :: EntityPayloadView
  have f: "bp_pair_ok L (b, t)" "bp_pair_ok L (b, g t v)" if "f v = (t, out)" for v t out
    using assms(1) that bp_fragment_stores_ok(1,2) [of s v "fragment_message_tx_base hdr v" "bpe_now env"]
    by (simp_all add: f_def g_def bs)
  show ?thesis
    unfolding bp_schema_push_def bs prod.case Let_def f_def [symmetric] g_def [symmetric]
    using assms(1) f bp_identity_push_ok [OF f(2) assms(2)] bp_entity_push_ok [OF f(2) assms(2)]
    by (auto simp: bs split: option.split prod.split bp_fragment_outcome.split)
qed

lemma bp_online_ok:
  assumes "bp_pair_ok L bs" and "bs_session_key_valid (snd bs)"
  shows "bp_pair_ok L (bp_online_on_contact env rssi c bs)"
  using assms bp_mark_online_ok [OF assms] by (simp add: bp_online_on_contact_def)

lemma bp_publish_state_ok: "bp_pair_ok L bs \<Longrightarrow> bp_pair_ok L (bp_publish_state hdr i p c m bs)"
  by (cases bs) (simp add: bp_publish_state_def Let_def)

lemma bp_state_ok:
  assumes "bp_pair_ok L bs" and "hmac32 (bpe_hmac env)"
  shows "bp_pair_ok L (fst (bp_state env m hdr p rssi tag bs))"
proof -
  obtain b s where bs: "bs = (b, s)" by (cases bs)
  define f where "f v = bp_state_fragment s v (fragment_message_tx_base hdr v) (bpe_now env)" for v
  define g where "g s = s\<lparr>bs_last_seen_counter := max (bs_last_seen_counter s) (fh_tx_counter hdr),
    bs_last_seen_bridge_uptime_s := bpe_now env div 1000\<rparr>" for s :: bp_session
  define h where "h s flags = (if bs_state_sync_pending s
    then s\<lparr>bs_awaiting_more_dirty := (flags AND ESPNOW_ENTITY_FLAG_MORE_DIRTY \<noteq> 0)\<rparr> else s)" for s :: bp_session and flags :: u8
  have f: "bp_pair_ok L (b, t)" "bp_pair_ok L (b, g t)" "bp_pair_ok L (b, h (g t) flags)"
    "bs_session_key_valid (h (g t) flags) = bs_session_key_valid s" if "f v = (t, out)" for v t out flags
    using assms(1) that bp_fragment_stores_ok(3-5) [of s v "fragment_message_tx_base hdr v" "bpe_now env"]
    by (simp_all add: f_def g_def h_def bs)
  have on: "bp_pair_ok L (if bs_remote_state (h (g t) flags) = BRS_NORMAL \<and> \<not> bs_online (h (g t) flags)
      then bp_mark_online env rssi (fh_tx_counter hdr) 0 (b, h (g t) flags) else (b, h (g t) flags))"
    if "f v = (t, out)" "bs_session_key_valid s" for v t out flags
    using f(3) [OF that(1), of flags] f(4) [OF that(1), of flags] that(2) bp_mark_online_ok by simp
  show ?thesis
    unfolding bp_state_def bs prod.case Let_def f_def [symmetric] g_def [symmetric] h_def [symmetric]
    using assms(1) f bp_deauth_ok [OF assms] bp_state_ack_ok [OF assms] bp_publish_state_ok [OF on]
    by (auto simp: bs split: option.split prod.split bp_fragment_outcome.split)
qed

lemma bp_confirm_state_ok:
  assumes "bp_pair_ok L bs" and "hmac32 (bpe_hmac env)"
  shows "bp_pair_ok L (fst (bp_confirm_state env c m bs))"
proof -
  obtain b s where bs: "bs = (b, s)" by (cases bs)
  let ?s = "s\<lparr>bs_last_completed_state_message_tx_base := c\<rparr>"
  have "bp_pair_ok L (b, ?s)" "bp_pair_ok L (b, ?s\<lparr>bs_state_sync_pending := False\<rparr>)" using assms(1) by (simp_all add: bs)
  note jc = this(1) bp_join_complete_ok [OF this(2) assms(2)]
  show ?thesis
    using assms(1) bp_state_ack_ok [OF jc(1) assms(2)] bp_state_ack_ok [OF jc(2) assms(2)] bp_state_ack_ok [OF assms]
    by (simp add: bp_confirm_state_def bs Let_def)
qed

lemma bp_take_heartbeat_ok:
  assumes "bp_pair_ok L bs" and "bs_session_key_valid (snd bs)"
  shows "bp_pair_ok L (bp_take_heartbeat env m hdr hb rssi bs)"
proof -
  obtain b s where bs: "bs = (b, s)" by (cases bs)
  have t: "bp_pair_ok L (if bs_join_complete_pending (snd p)
      then (fst p, snd p\<lparr>bs_join_complete_pending := False, bs_join_complete_retry_count := 0, bs_last_join_complete_ms := 0,
             bs_join_in_progress := False\<rparr>)
      else (fst p, snd p\<lparr>bs_join_in_progress := False\<rparr>))" if "bp_pair_ok L p" for p
    using bp_pair_fst [OF that] by simp
  have on: "bp_pair_ok L (bp_mark_online env rssi c r (bp_effect e b, t\<lparr>bs_remote_state := BRS_NORMAL\<rparr>))"
    "bp_pair_ok L (bp_mark_online env rssi c r (b, t\<lparr>bs_remote_state := BRS_NORMAL\<rparr>))"
    if "bs_ok t" "bs_leaf_mac t = L" "bs_session_key_valid t" for c r e t
    using assms(1) that by (auto intro!: bp_mark_online_ok simp: bs)
  show ?thesis
    using assms
    by (auto simp: bp_take_heartbeat_def bs Let_def split_beta on bp_pair_fst [OF on(1)] bp_pair_fst [OF on(2)])
qed

lemma bp_heartbeat_ok:
  assumes "bp_pair_ok L bs"
  shows "bp_pair_ok L (fst (bp_heartbeat env m hdr p rssi tag bs))"
proof -
  obtain b s where bs: "bs = (b, s)" by (cases bs)
  show ?thesis
    using assms bp_take_heartbeat_ok [of L "(b, s)" env m hdr _ rssi]
    by (auto simp: bp_heartbeat_def bs split: option.split)
qed

lemma bp_config_done_ok [simp]: "bp_ok (bp_config_done c r b) = bp_ok b"
  by (simp add: bp_config_done_def split: option.split)

lemma bp_command_acked_ok:
  assumes "bp_ok b"
  shows "bp_ok (bp_command_acked ack L b)"
proof -
  have "bp_ok (b\<lparr>bp_command_queue := before @ after\<rparr>)" if "List.extract Q (bp_command_queue b) = Some (before, x, after)" for Q before x after
    using assms that by (auto simp: bp_ok_def extract_Some_iff)
  then show ?thesis using assms by (auto simp: bp_command_acked_def split: option.split)
qed

lemma bp_config_ack_ok:
  assumes "bp_pair_ok L bs" and "bs_session_key_valid (snd bs)"
  shows "bp_pair_ok L (bp_config_ack env hdr ack tr rssi bs)"
proof -
  obtain b s where bs: "bs = (b, s)" by (cases bs)
  have "bp_pair_ok L (bp_online_on_contact env rssi c (b\<lparr>bp_pending_configs := before @ after\<rparr>, s))"
    if "List.extract Q (bp_pending_configs b) = Some (before, x, after)" for Q before x after c
    using assms that by (intro bp_online_ok) (auto simp: bs bp_ok_def extract_Some_iff)
  note p = bp_pair_fst [OF this]
  show ?thesis using assms(1) p
    by (auto simp: bp_config_ack_def bs split_beta split: option.split)
qed

lemma bp_ack_ok:
  assumes "bp_pair_ok L bs"
  shows "bp_pair_ok L (fst (bp_ack env hdr p rssi tag bs))"
proof -
  obtain b s where bs: "bs = (b, s)" by (cases bs)
  define t where "t = s\<lparr>bs_last_seen_counter := fh_tx_counter hdr, bs_last_seen_bridge_uptime_s := bpe_now env div 1000\<rparr>"
  have t: "bs_ok t" "bs_leaf_mac t = L" "bs_session_key_valid t = bs_session_key_valid s" using assms by (simp_all add: t_def bs)
  then show ?thesis
    using assms bp_config_ack_ok [of L "(b, t)"] bp_online_ok [of L "(bp_command_acked ack L b, t)" for ack] bp_command_acked_ok [of b]
    unfolding bp_ack_def bs prod.case Let_def t_def [symmetric]
    by (auto split: option.split dest!: bp_validated_key)
qed

lemma bp_discovery_confirmed_ok:
  assumes "bp_pair_ok L bs" and "hmac32 (bpe_hmac env)"
  shows "bp_pair_ok L (bp_discovery_confirmed env i c bs)"
proof -
  obtain b s where bs: "bs = (b, s)" by (cases bs)
  have again: "bp_pair_ok L (bp_request_again env j (b, t))" if "bs_ok t" "bs_leaf_mac t = L" for j t
  proof -
    have "bp_pair_ok L (b, t\<lparr>bs_schema_request_retries := 1\<rparr>)" using assms(1) that by (simp add: bs)
    from bp_pair_fst [OF bp_schema_request_ok [OF this assms(2)]] show ?thesis
      by (simp add: bp_request_again_def split_beta)
  qed
  have count: "bs_ok (bp_count_confirmed s)" "bs_leaf_mac (bp_count_confirmed s) = L"
    using assms(1) by (simp_all add: bp_count_confirmed_def Let_def bs)
  show ?thesis
    using assms(1) again [of s] again [of "(bp_count_confirmed s)\<lparr>bs_awaiting_discovery_confirm := False\<rparr>"] count bp_pair_fst [OF again [of s]]
    by (auto simp: bp_discovery_confirmed_def bs Let_def split_beta)
qed

section \<open>Frames\<close>

lemma bp_touch_ok:
  "bp_pair_ok L (b, s) \<Longrightarrow> bp_pair_ok L (bp_touch_session hdr m rssi (b, s))"
  by (simp add: bp_touch_session_def Let_def)

lemma bp_session_frame_ok:
  assumes "bp_ok b" and "hmac32 (bpe_hmac env)" and "length (fh_leaf_mac hdr) = 6"
  shows "bp_ok (fst (bp_session_frame env m hdr len p rssi tag b))"
proof (cases "bp_get_session (fh_leaf_mac hdr) b")
  case None
  have "bs_ok (bp_session_init\<lparr>bs_leaf_mac := fh_leaf_mac hdr, bs_next_hop_mac := m\<rparr>)"
    using bs_ok_init assms(3) unfolding bs_ok_def by simp
  then have "bp_pair_ok (fh_leaf_mac hdr) (b, bp_session_init\<lparr>bs_leaf_mac := fh_leaf_mac hdr, bs_next_hop_mac := m\<rparr>)"
    using assms(1) by simp
  from bp_pair_fst(1) [OF bp_deauth_ok [OF this assms(2)]] show ?thesis
    by (simp add: bp_session_frame_def None split_beta)
next
  case (Some s)
  note s = bp_get_ok [OF assms(1) Some]
  have deauth: "bp_ok (bp_store (fh_leaf_mac hdr) (fst (bp_send_deauth env m t c p (b, s\<lparr>bs_next_hop_mac := m, bs_last_rssi := rssi\<rparr>))))" for t c
    using bp_ok_store [OF bp_deauth_ok [of "bs_leaf_mac s" "(b, s\<lparr>bs_next_hop_mac := m, bs_last_rssi := rssi\<rparr>)"]] s assms(1,2) by simp
  define b1 where "b1 = bp_store (fh_leaf_mac hdr) (bp_touch_session hdr m rssi (b, s))"
  have "bp_ok b1" unfolding b1_def using s assms(1) by (intro bp_ok_store [OF bp_touch_ok [of "bs_leaf_mac s"]]) simp_all
  then have b2: "bp_ok (fst (bp_ensure_session (fh_leaf_mac hdr) b1))"
    using bp_pair_fst(1) [OF bp_ensure_ok] assms(3) by blast
  have "bp_ok (fst (bp_handle_state env m hdr p rssi tag c))" "bp_ok (fst (bp_handle_heartbeat env m hdr p rssi tag c))"
    "bp_ok (fst (bp_handle_ack env hdr p rssi tag c))" if "bp_ok c" for c
    unfolding bp_handle_state_def bp_handle_heartbeat_def bp_handle_ack_def
    using that assms(2) bp_state_ok bp_heartbeat_ok bp_ack_ok by (auto intro!: bp_on_session_ok)
  then show ?thesis
    using deauth b2 by (simp add: bp_session_frame_def Some split_beta b1_def [symmetric])
qed

lemma bp_parse_leaf: "bp_parse_frame env f = Some (hdr, p, tag, parent) \<Longrightarrow> length (fh_leaf_mac hdr) = 6"
  using fh.dec_iff [of f hdr] by (auto simp: bp_parse_frame_def Let_def split: option.splits if_splits)

lemma bp_on_frame_ok:
  assumes "bp_ok b" and "bp_env_ok env"
  shows "bp_ok (fst (bp_on_espnow_frame env m f rssi b))"
proof (cases "bp_parse_frame env f")
  case (Some parts)
  obtain hdr p tag parent where parts: "parts = (hdr, p, tag, parent)" by (cases parts)
  have L: "length (fh_leaf_mac hdr) = 6" using bp_parse_leaf Some parts by blast
  have h: "hmac32 (bpe_hmac env)" using assms(2) by (simp add: bp_env_ok_def)
  have "bp_ok (fst (bp_handle_schema_push env m hdr p tag b))"
    unfolding bp_handle_schema_push_def by (intro bp_on_session_ok assms bp_schema_push_ok h)
  then show ?thesis
    using assms bp_handle_discover_ok [OF assms(1) L] bp_session_frame_ok [OF assms(1) h L] bp_handle_join_ok [OF assms L]
    by (simp add: bp_on_espnow_frame_def Some parts Let_def)
qed (simp add: bp_on_espnow_frame_def assms)

section \<open>The loop\<close>

lemma set_delete: "set (AList.delete k xs) \<subseteq> set xs"
  by (auto simp: AList.delete_eq)

lemma bp_ok_fewer:
  assumes "bp_ok b" and "sorted_wrt (<) (map fst xs)" and "set xs \<subseteq> set (bp_sessions b)" and "set cs \<subseteq> set (bp_schema_cache b)"
  shows "bp_ok (b\<lparr>bp_schema_cache := cs, bp_schema_hash_cache := hs, bp_sessions := xs\<rparr>)"
  using assms unfolding bp_ok_def by auto

lemma bp_ok_remove:
  assumes "bp_ok b"
  shows "bp_ok (bp_remove_session k s b)"
proof -
  have "sorted_wrt (<) (map fst (AList.delete k (bp_sessions b)))" using assms by (simp add: bp_ok_def sorted_delete)
  then show ?thesis
    unfolding bp_remove_session_def Let_def using assms set_delete
    by (intro bp_ok_fewer) (simp_all add: set_delete)
qed

lemma bp_evict_loop_ok: "bp_ok b \<Longrightarrow> bp_ok (fst (bp_evict_loop env a t keys n b))"
proof (induction keys arbitrary: n b)
  case (Cons k keys)
  obtain b' free where rd: "bp_read_heap env b = (b', free)" by fastforce
  have "bp_ok b'" using bp_ok_reads(1) [of env b] Cons.prems by (simp add: rd)
  then show ?case using Cons.IH by (auto simp: rd Let_def bp_ok_remove split: option.split)
qed simp

lemma bp_evict_ok:
  assumes "bp_ok b" and "bp_evict_sessions_for_ram env a b = Some (b', r)"
  shows "bp_ok b'"
proof -
  obtain b1 free where rd: "bp_read_heap env b = (b1, free)" by fastforce
  have b1: "bp_ok b1" using bp_ok_reads(1) [of env b] assms(1) by (simp add: rd)
  define c where "c = map fst (sort_key (\<lambda>(_, s). bs_last_seen_bridge_uptime_s s) (bp_sessions b1))"
  obtain b2 n where ev: "bp_evict_loop env a (free + RAM_EVICTION_BUFFER_BYTES) c 0 b1 = (b2, n)" by fastforce
  have "bp_ok b2" using bp_evict_loop_ok [OF b1, of env a "free + RAM_EVICTION_BUFFER_BYTES" c 0] by (simp add: ev)
  moreover from this have "bp_ok (fst (bp_read_heap env b2))" by simp
  ultimately show ?thesis
    using assms(2) b1 by (cases n) (auto simp: bp_evict_sessions_for_ram_def rd c_def [symmetric] ev split_beta split: if_splits)
qed

lemma bp_trim_ok: "bp_ok b \<Longrightarrow> bp_ok (bp_trim_sessions keys b)"
  by (induction keys b rule: bp_trim_sessions.induct) (auto simp: Let_def bp_ok_remove split: option.split)

lemma bp_each_ok:
  assumes "bp_ok b" and "\<And>c s. bp_pair_ok (bs_leaf_mac s) (c, s) \<Longrightarrow> bp_pair_ok (bs_leaf_mac s) (f (c, s))"
  shows "bp_ok (bp_each_session f b)"
proof -
  have "bp_ok (fold (\<lambda>key b. case map_of (bp_sessions b) key of
             None \<Rightarrow> b
           | Some s \<Rightarrow> (case f (b, s) of (b, s) \<Rightarrow> b\<lparr>bp_sessions := bp_put key s (bp_sessions b)\<rparr>)) keys c)"
    if "bp_ok c" for keys c
    using that
  proof (induction keys arbitrary: c)
    case (Cons k keys)
    have "bp_ok (fst (f (c, s))\<lparr>bp_sessions := bp_put k (snd (f (c, s))) (bp_sessions (fst (f (c, s))))\<rparr>)"
      if "map_of (bp_sessions c) k = Some s" for s
    proof -
      have s: "bs_ok s" "k = mac_to_key (bs_leaf_mac s)"
        using Cons.prems map_of_SomeD [OF that] by (auto simp: bp_ok_def)
      then have "bp_pair_ok (bs_leaf_mac s) (f (c, s))" using assms(2) Cons.prems by simp
      then show ?thesis using s(2) bp_pair_fst by (intro bp_ok_put) auto
    qed
    then show ?case using Cons by (auto simp: split_beta split: option.split)
  qed simp
  then show ?thesis using assms(1) by (simp add: bp_each_session_def)
qed

lemma bp_prune_ok [simp]:
  "bs_ok (bp_prune_schema now s) = bs_ok s" "bs_leaf_mac (bp_prune_schema now s) = bs_leaf_mac s"
  "bs_ok (bp_prune_state now s) = bs_ok s" "bs_leaf_mac (bp_prune_state now s) = bs_leaf_mac s"
  by (simp_all add: bp_prune_schema_def bp_prune_state_def Let_def)

lemma bp_tell_offline_ok [simp]: "bp_ok (bp_tell_offline mac b) = bp_ok b"
  by (simp add: bp_tell_offline_def)

lemma retry_inc: "n < 4 \<Longrightarrow> n + 1 \<le> (4 :: u8)"
  by (simp add: inc_le)

lemma bp_check_contact_ok: "bp_pair_ok L bs \<Longrightarrow> bp_pair_ok L (bp_check_contact env bs)"
  by (cases bs) (simp add: bp_check_contact_def)

lemma bp_draw_pair:
  "bp_draw_random env b = (c, r) \<Longrightarrow> bp_pair_ok L (b, s) \<Longrightarrow> bp_pair_ok L (c, s)"
  using bp_ok_reads(2) [of env b] by simp

lemma bp_check_schema_request_ok:
  assumes "bp_pair_ok L bs" and "hmac32 (bpe_hmac env)"
  shows "bp_pair_ok L (bp_check_schema_request env bs)"
proof -
  obtain b s where bs: "bs = (b, s)" by (cases bs)
  obtain c r where d: "bp_draw_random env b = (c, r)" by fastforce
  have c: "bp_pair_ok L (c, s)" using bp_draw_pair [OF d, of L s] assms(1) by (simp add: bs)
  have "bp_pair_ok L (c, s\<lparr>bs_schema_request_retries := bs_schema_request_retries s + 1\<rparr>)" if "bs_schema_request_retries s < 4"
    using c retry_inc [OF that] by simp
  note p = bp_pair_fst [OF bp_schema_request_ok [OF this assms(2)]]
  show ?thesis using assms(1) c p
    by (auto simp: bp_check_schema_request_def bs d split_beta)
qed

lemma bp_check_state_sync_ok [simp]:
  "bs_ok (bp_check_state_sync env s) = bs_ok s" "bs_leaf_mac (bp_check_state_sync env s) = bs_leaf_mac s"
  by (simp_all add: bp_check_state_sync_def)

lemma bp_check_join_complete_ok:
  assumes "bp_pair_ok L bs" and "hmac32 (bpe_hmac env)"
  shows "bp_pair_ok L (bp_check_join_complete env bs)"
proof -
  obtain b s where bs: "bs = (b, s)" by (cases bs)
  obtain c r where d: "bp_draw_random env b = (c, r)" by fastforce
  have c: "bp_pair_ok L (c, s)" using bp_draw_pair [OF d, of L s] assms(1) by (simp add: bs)
  have jc: "bs_join_complete_retry_count (snd (fst (bp_send_join_complete env m False (c, s)))) = bs_join_complete_retry_count s" for m
    by (simp add: bp_send_join_complete_def bp_send_join_ack_def Let_def split_beta)
  show ?thesis using assms(1) c bp_pair_fst [OF bp_join_complete_ok [OF c assms(2)]] retry_inc [of "bs_join_complete_retry_count s"]
    by (auto simp: bp_check_join_complete_def bs d split_beta jc)
qed

lemma bp_loop_session_ok:
  assumes "bp_pair_ok L bs" and "hmac32 (bpe_hmac env)"
  shows "bp_pair_ok L (bp_loop_session env bs)"
proof -
  obtain b s where bs: "bs = (b, s)" by (cases bs)
  have "bp_pair_ok L (b, bp_prune_schema (bpe_now env) (bp_prune_state (bpe_now env) s))" using assms(1) by (simp add: bs)
  note p = bp_pair_fst [OF bp_check_schema_request_ok [OF bp_check_contact_ok [OF this] assms(2)]]
  show ?thesis
    unfolding bp_loop_session_def bs prod.case split_beta by (rule bp_check_join_complete_ok [OF _ assms(2)]) (simp add: p)
qed

lemma bp_announce_due_ok:
  assumes "bp_pair_ok L bs" and "hmac32 (bpe_hmac env)"
  shows "bp_pair_ok L (bp_announce_due env bs)"
  using assms bp_announce_ok bp_pair_fst(4) [OF assms(1)] by (cases bs) (simp add: bp_announce_due_def)

lemma bp_get_pair: "bp_ok b \<Longrightarrow> bp_get_session mac b = Some s \<Longrightarrow> bp_pair_ok (bs_leaf_mac s) (b, s)"
  using bp_get_ok by simp

lemma bp_config_loop_ok:
  assumes "bp_ok b" and "hmac32 (bpe_hmac env)"
    and "\<forall>p \<in> set ps. pcf_retry_count p \<le> CONFIG_MAX_RETRIES \<and> length (pcf_payload p) \<le> BP_MAX_CONFIG_LEN"
  shows "bp_ok (snd (bp_config_loop env ps b))
    \<and> (\<forall>p \<in> set (fst (bp_config_loop env ps b)). pcf_retry_count p \<le> CONFIG_MAX_RETRIES \<and> length (pcf_payload p) \<le> BP_MAX_CONFIG_LEN)"
  using assms(1,3)
proof (induction ps arbitrary: b)
  case (Cons p ps)
  note IH = Cons.IH [OF _ Cons.prems(2) [unfolded list.set ball_simps, THEN conjunct2]]
  have inc: "pcf_retry_count p + 1 \<le> 3" if "\<not> 3 \<le> pcf_retry_count p"
    using that by (intro inc_le) simp
  have store: "bp_ok (bp_store (pcf_leaf_mac p) (fst (bp_send_config_frame env q (b, s))))"
    if "bp_get_session (pcf_leaf_mac p) b = Some s" for q s
    using bp_ok_store [OF bp_config_frame_ok [OF bp_get_pair [OF Cons.prems(1) that] assms(2)]]
      bp_get_ok [OF Cons.prems(1) that] by simp
  have told: "bp_ok (bp_config_done c r b)" for c r using Cons.prems(1) by simp
  show ?case
    using Cons.prems inc IH [OF told] IH [OF store] IH [OF Cons.prems(1)]
    by (auto simp: split_beta Let_def split: option.split)
qed simp

lemma bp_command_loop_ok:
  assumes "bp_ok b" and "hmac32 (bpe_hmac env)" and "\<forall>c \<in> set cs. pc_retry_count c \<le> BP_MAX_RETRIES"
  shows "bp_ok (snd (bp_command_loop env cs b)) \<and> (\<forall>c \<in> set (fst (bp_command_loop env cs b)). pc_retry_count c \<le> BP_MAX_RETRIES)"
  using assms(1,3)
proof (induction cs arbitrary: b)
  case (Cons c cs)
  note IH = Cons.IH [OF _ Cons.prems(2) [unfolded list.set ball_simps, THEN conjunct2]]
  obtain b1 r where d: "bp_draw_random env b = (b1, r)" by fastforce
  have b1: "bp_ok b1" using bp_ok_reads(2) [of env b] Cons.prems(1) by (simp add: d)
  have inc: "pc_retry_count c + 1 \<le> 4" if "\<not> 4 \<le> pc_retry_count c"
    using that by (intro retry_inc) simp
  have store: "bp_ok (bp_store (pc_leaf_mac c) (fst (bp_send_command_fragments env m i v t False (b1, s))))"
    if "bp_get_session (pc_leaf_mac c) b1 = Some s" for m i v t s
    using bp_ok_store [OF bp_fragments_ok [OF bp_get_pair [OF b1 that] assms(2)]] bp_get_ok [OF b1 that] by simp
  have out: "bp_ok (bp_command_timeout (pc_leaf_mac c) b)"
  proof (cases "bp_get_session (pc_leaf_mac c) b")
    case (Some s)
    have "bp_pair_ok (bs_leaf_mac s) (b, s\<lparr>bs_online := False, bs_last_offline_reason := ''timeout''\<rparr>)"
      using bp_get_ok [OF Cons.prems(1) Some] Cons.prems(1) by simp
    from bp_ok_store [OF this] show ?thesis
      using bp_get_ok [OF Cons.prems(1) Some] by (simp add: bp_command_timeout_def Some)
  qed (simp add: bp_command_timeout_def Cons.prems(1))
  define due where "due \<longleftrightarrow> bpe_now env - pc_last_tx_ms c
    \<ge> ucast (RETRY_BACKOFF_MS ! unat (pc_retry_count c)) + r mod (BP_RETRY_JITTER_MS * 2 + 1)"
  have c: "pc_retry_count c \<le> BP_MAX_RETRIES" using Cons.prems(2) by simp
  have sel: "pc_retry_count (c\<lparr>pc_retry_count := n, pc_last_tx_ms := t\<rparr>) = n" for n t by simp
  show ?case
    unfolding bp_command_loop.simps d prod.case due_def [symmetric] split_beta
    using IH [OF out] IH [OF b1] IH [OF store] inc c
    by (auto simp only: Let_def fst_conv snd_conv list.set ball_simps sel simp_thms split: option.split if_split)
qed simp

lemma bp_ok_queues:
  assumes "bp_ok b"
  shows "\<forall>c \<in> set (bp_command_queue b). pc_retry_count c \<le> BP_MAX_RETRIES"
    and "\<forall>p \<in> set (bp_pending_configs b). pcf_retry_count p \<le> CONFIG_MAX_RETRIES \<and> length (pcf_payload p) \<le> BP_MAX_CONFIG_LEN"
    and "\<forall>c \<in> set cs. pc_retry_count c \<le> BP_MAX_RETRIES \<Longrightarrow> bp_ok (b\<lparr>bp_command_queue := cs\<rparr>)"
    and "\<forall>p \<in> set ps. pcf_retry_count p \<le> CONFIG_MAX_RETRIES \<and> length (pcf_payload p) \<le> BP_MAX_CONFIG_LEN
      \<Longrightarrow> bp_ok (b\<lparr>bp_pending_configs := ps\<rparr>)"
  using assms by (simp_all add: bp_ok_def)

lemma bp_queues_ok:
  assumes "bp_ok b" and "hmac32 (bpe_hmac env)"
  shows "bp_ok (bp_queues env b)"
proof -
  obtain ps b1 where c: "bp_config_loop env (bp_pending_configs b) b = (ps, b1)" by fastforce
  note c_ok = bp_config_loop_ok [OF assms bp_ok_queues(2) [OF assms(1)], unfolded c fst_conv snd_conv]
  have b2: "bp_ok (b1\<lparr>bp_pending_configs := ps\<rparr>)" by (rule bp_ok_queues(4) [OF c_ok [THEN conjunct1] c_ok [THEN conjunct2]])
  obtain cs b3 where d: "bp_command_loop env (bp_command_queue b1) (b1\<lparr>bp_pending_configs := ps\<rparr>) = (cs, b3)" by fastforce
  note d_ok = bp_command_loop_ok [OF b2 assms(2) bp_ok_queues(1) [OF c_ok [THEN conjunct1]], unfolded d fst_conv snd_conv]
  have "bp_ok (b3\<lparr>bp_command_queue := cs\<rparr>)" by (rule bp_ok_queues(3) [OF d_ok [THEN conjunct1] d_ok [THEN conjunct2]])
  then show ?thesis unfolding bp_queues_def c prod.case
    by (simp only: d prod.case bp.simps)
qed

lemma bp_ok_small [simp]:
  "bp_ok (b\<lparr>bp_last_session_cleanup_ms := n\<rparr>) = bp_ok b" "bp_ok (bp_tick now b) = bp_ok b"
  "bp_ok (bp_join_slot_timeout now b) = bp_ok b" "bp_ok (bp_report now b) = bp_ok b"
  "bp_ok (b\<lparr>bp_bridge_session_flags := f\<rparr>) = bp_ok b"
  by (simp_all add: bp_ok_def bp_tick_def bp_join_slot_timeout_def bp_clear_joining_slot_def bp_report_def Let_def bp_effect_def)

lemma bp_cleanup_ok:
  assumes "bp_ok b" and "bp_cleanup env b = Some b'"
  shows "bp_ok b'"
proof -
  have prune: "bp_ok (bp_each_session (\<lambda>(b, s). (b, bp_prune_schema (bpe_now env) s)) c)" if "bp_ok c" for c
    by (rule bp_each_ok [OF that]) simp
  show ?thesis
    using assms prune prune [OF bp_trim_ok]
    by (auto simp: bp_cleanup_def Let_def split: if_splits option.splits
        dest!: bp_evict_ok [of "b\<lparr>bp_last_session_cleanup_ms := bpe_now env\<rparr>", simplified])
qed

lemma bp_loop_ok:
  assumes "bp_ok b" and "hmac32 (bpe_hmac env)" and "bp_loop env b = Some b'"
  shows "bp_ok b'"
proof -
  obtain b1 where c: "bp_cleanup env (bp_tick (bpe_now env) b) = Some b1"
    using assms(3) by (cases "bp_cleanup env (bp_tick (bpe_now env) b)") (simp_all add: bp_loop_def)
  have b1: "bp_ok b1" using bp_cleanup_ok [OF _ c] assms(1) by simp
  define b2 where "b2 = bp_each_session (bp_announce_due env) (bp_join_slot_timeout (bpe_now env) (bp_each_session (bp_loop_session env) b1))"
  have "bp_ok (bp_each_session (bp_loop_session env) b1)"
    by (rule bp_each_ok [OF b1 bp_loop_session_ok [OF _ assms(2)]])
  then have b2: "bp_ok b2" unfolding b2_def by (intro bp_each_ok bp_announce_due_ok assms(2)) simp_all
  obtain b3 free where h: "bp_read_heap env b2 = (b3, free)" by fastforce
  have b3: "bp_ok b3" using bp_ok_reads(1) [of env b2] b2 by (simp add: h)
  have queues: "bp_ok (bp_report (bpe_now env) (bp_queues env b4))" if "bp_ok b4" for b4
    using bp_queues_ok [OF that assms(2)] by simp
  from assms(3) have l: "(case (if bpe_ram_critical env free (bpe_total_heap env)
        then map_option fst (bp_evict_sessions_for_ram env True b3) else Some b3) of
      None \<Rightarrow> None | Some b \<Rightarrow> Some (bp_report (bpe_now env) (bp_queues env b))) = Some b'"
    unfolding bp_loop_def c option.case Let_def b2_def [symmetric] h prod.case .
  show ?thesis
  proof (cases "bpe_ram_critical env free (bpe_total_heap env)")
    case True
    then obtain b4 r where e: "bp_evict_sessions_for_ram env True b3 = Some (b4, r)"
      using l by (cases "bp_evict_sessions_for_ram env True b3") auto
    then show ?thesis using l True queues [OF bp_evict_ok [OF b3 e]] by simp
  next
    case False
    then show ?thesis using l queues [OF b3] by simp
  qed
qed

section \<open>Every call\<close>

lemma bp_invalidate_ok:
  assumes "bp_ok b"
  shows "bp_ok (bp_invalidate_all_sessions b)"
proof -
  have "bp_ok (fold (\<lambda>(_, s) b. bp_effect (ClearEntities (bs_leaf_mac s) (bs_schema_entities s))
      (bp_effect (PublishTopologyChanged (bs_leaf_mac s) ''node_removed'')
        (bp_effect (PublishAvailability (bs_leaf_mac s) False ''manual'') b))) xs b)" for xs :: "(u64 \<times> bp_session) list"
    using assms by (induction xs arbitrary: b) (simp_all add: split_beta)
  then show ?thesis unfolding bp_invalidate_all_sessions_def by (simp add: bp_ok_def)
qed

lemma bp_check_join_ok:
  assumes "bp_ok b" and "hmac32 (bpe_hmac env)"
  shows "bp_ok (bp_check_and_complete_join env mac b)"
proof (cases "bp_get_session mac b")
  case (Some s)
  have "bp_pair_ok (bs_leaf_mac s) (b, s\<lparr>bs_state_sync_pending := False\<rparr>)" using bp_get_pair [OF assms(1) Some] by simp
  from bp_ok_store [OF bp_join_complete_ok [OF this assms(2)]] show ?thesis
    using bp_get_ok [OF assms(1) Some] assms(1) by (simp add: bp_check_and_complete_join_def Some)
qed (simp add: bp_check_and_complete_join_def assms)

lemma bp_step_ok:
  assumes "bp_ok b" and "bp_env_ok env" and "bp_event_ok e" and "bp_step env e b = Some b'"
  shows "bp_ok b'"
proof -
  have h: "hmac32 (bpe_hmac env)" using assms(2) by (simp add: bp_env_ok_def)
  show ?thesis
  proof (cases e)
    case (BpConfirmState mac i c m)
    then show ?thesis using assms bp_on_session_ok [OF assms(1) bp_confirm_state_ok [OF _ h]]
      by (auto simp: bp_confirm_state_delivery_def)
  next
    case (BpDiscoveryConfirmed mac i r)
    have "bp_ok (bp_on_discovery_confirmed env mac i r b)"
      unfolding bp_on_discovery_confirmed_def by (rule bp_on_session_ok [OF assms(1)]) (simp add: bp_discovery_confirmed_ok h)
    then show ?thesis using assms(4) BpDiscoveryConfirmed by auto
  next
    case (BpSetMac mac)
    then show ?thesis using assms by (auto simp: bp_event_ok_def bp_set_bridge_mac_def bp_ok_def)
  qed (use assms h in \<open>auto simp: bp_on_frame_ok bp_send_command_to_leaf_ok bp_send_config_to_leaf_ok bp_send_ota_frame_ok
      bp_check_join_ok bp_invalidate_ok bp_set_session_flags_def intro: bp_loop_ok\<close>)
qed

lemma bp_init_ok [simp]: "bp_ok (fst (bp_init env r nid hb BridgeProtocol_new))"
  by (simp add: bp_init_def Let_def bp_ok_def BridgeProtocol_new_def)

lemma bp_reachable_ok: "bp_reachable b \<Longrightarrow> bp_ok b"
  by (induction rule: bp_reachable.induct) (auto intro: bp_step_ok)

end
