(* ===== verification/BridgeClaims.thy ===== *)
theory BridgeClaims
  imports BridgeProps
begin

text \<open>
  Properties of the bridge's table of sessions, its frames, its eviction and its commands under way.
\<close>

section \<open>What leaves the command queue alone\<close>

lemma queue_sends [simp]:
  "bp_command_queue (fst (fst (bp_send_encrypted env m t h p bs))) = bp_command_queue (fst bs)"
  "bp_command_queue (fst (fst (bp_send_encrypted_with_tx_counter_result env m t h c p bs))) = bp_command_queue (fst bs)"
  "bp_command_queue (fst (fst (bp_send_encrypted_with_tx_counter env m t h c p bs))) = bp_command_queue (fst bs)"
  "bp_command_queue (fst (bp_send_plain_psk env m L t h c p b)) = bp_command_queue b"
  by (auto simp: bp_send_encrypted_def bp_send_encrypted_with_tx_counter_def bp_send_encrypted_with_tx_counter_result_def
      bp_send_plain_psk_def bp_read_heap_def bp_log_sent_def Let_def split: option.split prod.split)

lemma queue_send_parts [simp]:
  "bp_command_queue (fst (fst (bp_send_join_ack env m a r st c bs))) = bp_command_queue (fst bs)"
  "bp_command_queue (fst (bp_send_discover_announce env m L h b)) = bp_command_queue b"
  "bp_command_queue (fst (fst (bp_send_schema_request env m t i bs))) = bp_command_queue (fst bs)"
  "bp_command_queue (fst (fst (bp_send_config_frame env p bs))) = bp_command_queue (fst bs)"
  by (simp_all add: bp_send_join_ack_def bp_claim_joining_slot_def bp_send_discover_announce_def bp_send_schema_request_def
      bp_send_config_frame_def Let_def split_beta)

lemma queue_join_complete [simp]:
  "bp_command_queue (fst (fst (bp_send_join_complete env m r bs))) = bp_command_queue (fst bs)"
  by (simp add: bp_send_join_complete_def bp_clear_joining_slot_def Let_def split_beta)

lemma queue_small [simp]:
  "bp_command_queue (bp_effect e b) = bp_command_queue b" "bp_command_queue (bp_store L bs) = bp_command_queue (fst bs)"
  "bp_command_queue (fst (bp_read_heap env b)) = bp_command_queue b"
  "bp_command_queue (fst (bp_draw_random env b)) = bp_command_queue b"
  "bp_command_queue (bp_remove_session k s b) = bp_command_queue b" "bp_command_queue (bp_tick now b) = bp_command_queue b"
  "bp_command_queue (bp_join_slot_timeout now b) = bp_command_queue b" "bp_command_queue (bp_report now b) = bp_command_queue b"
  "bp_command_queue (bp_tell_offline mac b) = bp_command_queue b" "bp_command_queue (bp_config_done c r b) = bp_command_queue b"
  by (simp_all add: bp_effect_def bp_store_def bp_read_heap_def bp_draw_random_def bp_remove_session_def bp_tick_def
      bp_join_slot_timeout_def bp_clear_joining_slot_def bp_report_def bp_tell_offline_def bp_config_done_def Let_def
      split: prod.split option.split)

lemma queue_chunks [simp]:
  "bp_command_queue (fst (fst (bp_send_command_chunks env m i v base c chunks bs))) = bp_command_queue (fst bs)"
proof (induction chunks arbitrary: bs)
  case (Cons chunk chunks)
  show ?case by (cases bs) (simp add: Cons Let_def split_beta)
qed simp

lemma queue_fragments [simp]:
  "bp_command_queue (fst (fst (bp_send_command_fragments env m i v base c bs))) = bp_command_queue (fst bs)"
  by (simp add: bp_send_command_fragments_def)

lemma queue_each:
  "(\<And>bs. bp_command_queue (fst (f bs)) = bp_command_queue (fst bs)) \<Longrightarrow> bp_command_queue (bp_each_session f b) = bp_command_queue b"
proof -
  assume f: "\<And>bs. bp_command_queue (fst (f bs)) = bp_command_queue (fst bs)"
  have "bp_command_queue (fold (\<lambda>key b. case map_of (bp_sessions b) key of
             None \<Rightarrow> b
           | Some s \<Rightarrow> (case f (b, s) of (b, s) \<Rightarrow> b\<lparr>bp_sessions := bp_put key s (bp_sessions b)\<rparr>)) keys c) = bp_command_queue c" for keys c
    by (induction keys arbitrary: c) (simp_all add: f split_beta split: option.split)
  then show ?thesis by (simp add: bp_each_session_def)
qed

lemma queue_loop_session [simp]: "bp_command_queue (fst (bp_loop_session env bs)) = bp_command_queue (fst bs)"
proof -
  have "bp_command_queue (fst (bp_check_contact env bs)) = bp_command_queue (fst bs)"
    "bp_command_queue (fst (bp_check_schema_request env bs)) = bp_command_queue (fst bs)"
    "bp_command_queue (fst (bp_check_join_complete env bs)) = bp_command_queue (fst bs)" for bs
    by (cases bs; simp add: bp_check_contact_def bp_check_schema_request_def bp_check_join_complete_def split_beta)+
  then show ?thesis by (cases bs) (simp add: bp_loop_session_def split_beta)
qed

lemma queue_announce [simp]: "bp_command_queue (fst (bp_announce_due env bs)) = bp_command_queue (fst bs)"
  by (cases bs) (simp add: bp_announce_due_def)

lemma queue_evict_loop [simp]: "bp_command_queue (fst (bp_evict_loop env a t keys n b)) = bp_command_queue b"
proof (induction keys arbitrary: a n b)
  case (Cons k keys)
  obtain b' free where rd: "bp_read_heap env b = (b', free)" by fastforce
  have "bp_command_queue b' = bp_command_queue b" using queue_small(3) [of env b] by (simp add: rd)
  then show ?case by (simp add: rd Cons Let_def split: option.split)
qed simp

lemma queue_evict: "bp_evict_sessions_for_ram env a b = Some (b', r) \<Longrightarrow> bp_command_queue b' = bp_command_queue b"
  by (auto simp: bp_evict_sessions_for_ram_def Let_def split_beta split: if_splits nat.splits)

lemma queue_trim [simp]: "bp_command_queue (bp_trim_sessions keys b) = bp_command_queue b"
  by (induction keys b rule: bp_trim_sessions.induct) (simp_all add: Let_def split: option.split)

lemma queue_cleanup: "bp_cleanup env b = Some b' \<Longrightarrow> bp_command_queue b' = bp_command_queue b"
  by (auto simp: bp_cleanup_def Let_def queue_each split_beta split: if_splits option.splits dest!: queue_evict)

lemma queue_config_loop [simp]: "bp_command_queue (snd (bp_config_loop env ps b)) = bp_command_queue b"
proof (induction ps arbitrary: b)
  case (Cons p ps)
  show ?case by (simp add: Cons split_beta Let_def split: option.split)
qed simp

lemma queue_loop:
  assumes "bp_loop env b = Some b'"
  obtains b1 where "bp_command_queue b1 = bp_command_queue b"
    and "bp_command_queue b' = fst (bp_command_loop env (bp_command_queue b) b1)"
proof -
  obtain b1 where c: "bp_cleanup env (bp_tick (bpe_now env) b) = Some b1"
    using assms by (cases "bp_cleanup env (bp_tick (bpe_now env) b)") (simp_all add: bp_loop_def)
  define b2 where "b2 = bp_each_session (bp_announce_due env) (bp_join_slot_timeout (bpe_now env) (bp_each_session (bp_loop_session env) b1))"
  have q2: "bp_command_queue b2 = bp_command_queue b" by (simp add: b2_def queue_each queue_cleanup [OF c])
  obtain b3 free where h: "bp_read_heap env b2 = (b3, free)" by fastforce
  have q3: "bp_command_queue b3 = bp_command_queue b" using queue_small(3) [of env b2] q2 by (simp add: h)
  from assms have l: "(case (if bpe_ram_critical env free (bpe_total_heap env)
        then map_option fst (bp_evict_sessions_for_ram env True b3) else Some b3) of
      None \<Rightarrow> None | Some b \<Rightarrow> Some (bp_report (bpe_now env) (bp_queues env b))) = Some b'"
    unfolding bp_loop_def c option.case Let_def b2_def [symmetric] h prod.case .
  obtain b4 where b4: "b' = bp_report (bpe_now env) (bp_queues env b4)" "bp_command_queue b4 = bp_command_queue b"
  proof (cases "bpe_ram_critical env free (bpe_total_heap env)")
    case True
    then show ?thesis
      using l that q3 by (cases "bp_evict_sessions_for_ram env True b3") (auto dest!: queue_evict)
  next
    case False
    show ?thesis by (rule that [of b3]) (use l False q3 in simp_all)
  qed
  obtain ps b5 where d: "bp_config_loop env (bp_pending_configs b4) b4 = (ps, b5)" by fastforce
  have q5: "bp_command_queue b5 = bp_command_queue b" using queue_config_loop [of env "bp_pending_configs b4" b4] b4(2) by (simp add: d)
  show ?thesis
    by (rule that [of "b5\<lparr>bp_pending_configs := ps\<rparr>"]) (simp_all add: b4(1) bp_queues_def d q5 split_beta)
qed

section \<open>Commands end\<close>

text \<open>Under way for at least \<open>k\<close> repetitions, the last of them at least 1.7 seconds ago.\<close>

definition pc_waited :: "nat \<Rightarrow> u32 \<Rightarrow> PendingCommand \<Rightarrow> bool" where
  "pc_waited k now c \<longleftrightarrow> k \<le> unat (pc_retry_count c) \<and> pc_retry_count c \<le> BP_MAX_RETRIES \<and> 1700 \<le> now - pc_last_tx_ms c"

lemma command_due:
  assumes "pc_retry_count c \<le> BP_MAX_RETRIES" and "\<not> BP_MAX_RETRIES \<le> pc_retry_count c" and "1700 \<le> now - pc_last_tx_ms c"
  shows "now - pc_last_tx_ms c \<ge> ucast (RETRY_BACKOFF_MS ! unat (pc_retry_count c)) + (r :: u32) mod (BP_RETRY_JITTER_MS * 2 + 1)"
proof -
  have "unat (pc_retry_count c) < 4" using assms(2) by (simp add: word_le_nat_alt not_le)
  then have "unat (pc_retry_count c) \<in> {0, 1, 2, 3}" by auto
  then have "unat (ucast (RETRY_BACKOFF_MS ! unat (pc_retry_count c)) :: u32) \<le> 1600" by (auto simp: RETRY_BACKOFF_MS_def)
  moreover have "unat (r mod (BP_RETRY_JITTER_MS * 2 + 1)) \<le> 100"
  proof -
    have "unat r mod 101 < 101" by (rule mod_less_divisor) simp
    then show ?thesis by (simp add: unat_mod)
  qed
  ultimately have "unat (ucast (RETRY_BACKOFF_MS ! unat (pc_retry_count c)) + r mod (BP_RETRY_JITTER_MS * 2 + 1)) \<le> 1700"
    by (simp add: unat_word_ariths)
  moreover have "1700 \<le> unat (now - pc_last_tx_ms c)" using assms(3) by (simp add: word_le_nat_alt)
  ultimately show ?thesis by (simp only: word_le_nat_alt le_trans)
qed

lemma command_loop_ages:
  assumes "\<forall>c \<in> set cs. pc_waited k (bpe_now env) c"
  shows "\<forall>c \<in> set (fst (bp_command_loop env cs b)). k < unat (pc_retry_count c) \<and> pc_retry_count c \<le> BP_MAX_RETRIES
    \<and> pc_last_tx_ms c = bpe_now env"
  using assms
proof (induction cs arbitrary: b)
  case (Cons c cs)
  note IH = Cons.IH [OF Cons.prems [unfolded list.set ball_simps, THEN conjunct2]]
  obtain b1 r where d: "bp_draw_random env b = (b1, r)" by fastforce
  have c: "k \<le> unat (pc_retry_count c)" "pc_retry_count c \<le> BP_MAX_RETRIES" "1700 \<le> bpe_now env - pc_last_tx_ms c"
    using Cons.prems by (simp_all add: pc_waited_def)
  define c' where "c' = c\<lparr>pc_retry_count := pc_retry_count c + 1, pc_last_tx_ms := bpe_now env\<rparr>"
  have c': "k < unat (pc_retry_count c') \<and> pc_retry_count c' \<le> BP_MAX_RETRIES \<and> pc_last_tx_ms c' = bpe_now env"
    if "\<not> BP_MAX_RETRIES \<le> pc_retry_count c"
  proof -
    have "unat (pc_retry_count c) < 4" using that by (simp add: word_le_nat_alt not_le)
    then have "unat (pc_retry_count c + 1) = unat (pc_retry_count c) + 1" by (simp add: unat_word_ariths)
    then show ?thesis using c(1) retry_inc [of "pc_retry_count c"] that by (simp add: c'_def)
  qed
  show ?case
    unfolding bp_command_loop.simps d prod.case split_beta c'_def [symmetric]
    using IH c' command_due [OF c(2) _ c(3), of r]
    by (auto simp only: Let_def fst_conv snd_conv list.set ball_simps simp_thms split: option.split if_split)
qed simp

fun bp_loops :: "bp_env list \<Rightarrow> bp \<Rightarrow> bp option" where
  "bp_loops [] b = Some b"
| "bp_loops (env # envs) b = (case bp_loop env b of None \<Rightarrow> None | Some b \<Rightarrow> bp_loops envs b)"

fun spaced :: "u32 \<Rightarrow> bp_env list \<Rightarrow> bool" where
  "spaced prev [] = True"
| "spaced prev (env # envs) = (1700 \<le> bpe_now env - prev \<and> spaced (bpe_now env) envs)"

lemma loops_age:
  assumes "\<forall>c \<in> set (bp_command_queue b). k \<le> unat (pc_retry_count c) \<and> pc_retry_count c \<le> BP_MAX_RETRIES \<and> pc_last_tx_ms c = prev"
    and "spaced prev envs" and "bp_loops envs b = Some b'"
  shows "\<forall>c \<in> set (bp_command_queue b'). k + length envs \<le> unat (pc_retry_count c) \<and> pc_retry_count c \<le> BP_MAX_RETRIES"
  using assms
proof (induction envs arbitrary: b k prev)
  case (Cons env envs)
  obtain b1 where l: "bp_loop env b = Some b1" "bp_loops envs b1 = Some b'"
    using Cons.prems(3) by (cases "bp_loop env b") simp_all
  obtain b2 where q: "bp_command_queue b1 = fst (bp_command_loop env (bp_command_queue b) b2)"
    using queue_loop [OF l(1)] by blast
  have "\<forall>c \<in> set (bp_command_queue b). pc_waited k (bpe_now env) c"
    using Cons.prems(1,2) by (auto simp: pc_waited_def)
  from command_loop_ages [OF this, of b2]
  have "\<forall>c \<in> set (bp_command_queue b1). Suc k \<le> unat (pc_retry_count c) \<and> pc_retry_count c \<le> BP_MAX_RETRIES
      \<and> pc_last_tx_ms c = bpe_now env"
    by (auto simp: q Suc_le_eq)
  from Cons.IH [OF this _ l(2)] Cons.prems(2) show ?case by simp
qed auto

lemma loops_empty:
  assumes "\<forall>c \<in> set (bp_command_queue b). pc_retry_count c \<le> BP_MAX_RETRIES \<and> 1700 \<le> bpe_now env - pc_last_tx_ms c"
    and "spaced (bpe_now env) envs" and "4 \<le> length envs" and "bp_loops (env # envs) b = Some b'"
  shows "bp_command_queue b' = []"
proof -
  obtain b1 where l: "bp_loop env b = Some b1" "bp_loops envs b1 = Some b'"
    using assms(4) by (cases "bp_loop env b") simp_all
  obtain b2 where q: "bp_command_queue b1 = fst (bp_command_loop env (bp_command_queue b) b2)"
    using queue_loop [OF l(1)] by blast
  have "\<forall>c \<in> set (bp_command_queue b). pc_waited 0 (bpe_now env) c" using assms(1) by (simp add: pc_waited_def)
  from command_loop_ages [OF this, of b2]
  have "\<forall>c \<in> set (bp_command_queue b1). 1 \<le> unat (pc_retry_count c) \<and> pc_retry_count c \<le> BP_MAX_RETRIES \<and> pc_last_tx_ms c = bpe_now env"
    by (auto simp: q Suc_le_eq)
  from loops_age [OF this assms(2) l(2)] assms(3)
  have "\<forall>c \<in> set (bp_command_queue b'). 5 \<le> unat (pc_retry_count c) \<and> unat (pc_retry_count c) \<le> 4"
    by (auto simp: word_le_nat_alt)
  then show ?thesis by (cases "bp_command_queue b'") auto
qed

section \<open>How far eviction goes\<close>

lemma length_delete_key:
  "distinct (map fst xs) \<Longrightarrow> k \<in> fst ` set xs \<Longrightarrow> Suc (length (AList.delete k xs)) = length xs"
proof (induction xs)
  case (Cons x xs)
  show ?case
  proof (cases "fst x = k")
    case True
    then have "k \<notin> fst ` set xs" using Cons.prems(1) by auto
    then have "AList.delete k xs = xs" by (rule delete_id)
    then show ?thesis using True by (cases x) simp
  next
    case False
    then show ?thesis using Cons by (cases x) auto
  qed
qed simp

lemma sessions_remove [simp]: "bp_sessions (bp_remove_session k s b) = AList.delete k (bp_sessions b)"
  by (simp add: bp_remove_session_def Let_def bp_effect_def)

lemma evict_loop_half:
  assumes "length (bp_sessions b) + n = N" and "distinct (map fst (bp_sessions b))" and "n = 0 \<or> 2 * n + 7 \<le> N"
    and "bp_evict_loop env a t keys n b = (b', n')"
  shows "length (bp_sessions b') + n' = N \<and> (n' = 0 \<or> 2 * n' + 7 \<le> N)"
  using assms
proof (induction keys arbitrary: n b)
  case (Cons k keys)
  obtain b1 free where rd: "bp_read_heap env b = (b1, free)" by fastforce
  have b1: "bp_sessions b1 = bp_sessions b" using rd by (auto simp: bp_read_heap_def)
  define b2 where "b2 s = (if bs_online s then bp_effect (PublishAvailability (bs_leaf_mac s) False ''evicted'') b1 else b1)" for s :: bp_session
  have b2: "bp_sessions (b2 s) = bp_sessions b" for s by (simp add: b2_def b1)
  have skip: "length (bp_sessions b1) + n = N" "distinct (map fst (bp_sessions b1))" using Cons.prems b1 by simp_all
  have removed: "length (bp_sessions (bp_remove_session k s (b2 s))) + (n + 1) = N \<and> distinct (map fst (bp_sessions (bp_remove_session k s (b2 s))))
      \<and> 2 * (n + 1) + 7 \<le> N"
    if "map_of (bp_sessions b1) k = Some s" "\<not> length (bp_sessions b1) - n \<le> MIN_SESSIONS_TO_PROTECT" for s
  proof -
    have "k \<in> fst ` set (bp_sessions b)" using that(1) b1 by (metis domI dom_map_of_conv_image_fst)
    from length_delete_key [OF Cons.prems(2) this] show ?thesis
      using Cons.prems(1,2) that(2) b1 by (auto simp: b2 AList.distinct_delete)
  qed
  define low where "low \<longleftrightarrow> t \<le> free \<or> length (bp_sessions b1) - n \<le> MIN_SESSIONS_TO_PROTECT"
  have run: "(if low then (b1, n) else case map_of (bp_sessions b1) k of
        None \<Rightarrow> bp_evict_loop env a t keys n b1
      | Some s \<Rightarrow> if \<not> a \<and> bp_has_assemblies s then bp_evict_loop env a t keys n b1
          else bp_evict_loop env a t keys (n + 1) (bp_remove_session k s (b2 s))) = (b', n')"
    using Cons.prems(4) unfolding bp_evict_loop.simps rd prod.case Let_def b2_def low_def
    by (cases "t \<le> free"; cases "length (bp_sessions b1) - n \<le> MIN_SESSIONS_TO_PROTECT"; simp only: simp_thms if_True if_False)
  show ?case
  proof (cases low)
    case True
    then show ?thesis using run skip Cons.prems(3) by simp
  next
    case False
    note off = False
    show ?thesis
    proof (cases "map_of (bp_sessions b1) k")
      case None
      with run off have "bp_evict_loop env a t keys n b1 = (b', n')" by simp
      then show ?thesis by (rule Cons.IH [OF skip Cons.prems(3)])
    next
      case (Some s)
      note r = removed [OF Some] off [unfolded low_def]
      show ?thesis
      proof (cases "\<not> a \<and> bp_has_assemblies s")
        case True
        with run off Some have "bp_evict_loop env a t keys n b1 = (b', n')" by simp
        then show ?thesis by (rule Cons.IH [OF skip Cons.prems(3)])
      next
        case False
        with run off Some have "bp_evict_loop env a t keys (n + 1) (bp_remove_session k s (b2 s)) = (b', n')" by (simp only: if_False option.case)
        then show ?thesis by (rule Cons.IH [rotated 3]) (use r in auto)
      qed
    qed
  qed
qed simp

section \<open>Examples\<close>

definition demo_bridge_env :: "u32 \<Rightarrow> bp_env" where
  "demo_bridge_env now =
     \<lparr>bpe_now = now, bpe_random = (\<lambda>_. 0), bpe_nonce = replicate 16 9, bpe_hmac = (\<lambda>_ _. replicate 32 1),
      bpe_crypto = \<lparr>g_psk = replicate 32 3, g_psk_set = True\<rparr>, bpe_send = Some (\<lambda>_ _ _. True), bpe_send_err = None,
      bpe_free_heap = (\<lambda>_. 100000), bpe_total_heap = 300000, bpe_ram_low = (\<lambda>_ free _. free < 200000),
      bpe_ram_critical = (\<lambda>_ _. False), bpe_chip_model = 0, bpe_file_ack_fn = True\<rparr>"

definition demo_leaf :: "nat \<Rightarrow> bytes" where
  "demo_leaf i = [of_nat i, 0, 0, 0, 0, 0]"

definition demo_discover :: "nat \<Rightarrow> bytes" where
  "demo_discover i = [3, 0, 0] @ demo_leaf i @ [1, 0, 0, 0] @ [1, 1, 1, 1] @ replicate 34 0"

definition demo_state_frame :: "nat \<Rightarrow> bytes" where
  "demo_state_frame i = [3, 0, 4] @ demo_leaf i @ [5, 0, 0, 0] @ [1, 1, 1, 1] @ replicate 8 1"

definition demo_many :: "nat \<Rightarrow> bp" where
  "demo_many n = BridgeProtocol_new\<lparr>bp_sessions :=
     map (\<lambda>i. (of_nat i, bp_session_init\<lparr>bs_leaf_mac := demo_leaf i\<rparr>)) [0..<n]\<rparr>"

lemma demo_leaf_key: "i < 256 \<Longrightarrow> mac_to_key (demo_leaf i) = of_nat i"
  by (simp add: mac_to_key_def demo_leaf_def upt_rec numeral_eq_Suc unsigned_of_nat take_bit_nat_eq_self)

lemma demo_many_ok: 
  assumes "n \<le> 256" shows "bp_ok (demo_many n)"
proof -
  have "sorted_wrt (\<lambda>i j. (of_nat i :: u64) < of_nat j) [0..<n]"
    by (rule sorted_wrt_mono_rel [OF _ sorted_wrt_upt]) (use assms in \<open>auto simp: word_less_nat_alt unat_of_nat\<close>)
  then show ?thesis
    using assms by (auto simp: bp_ok_def demo_many_def sorted_wrt_map bs_ok_def bp_session_init_def BridgeProtocol_new_def
        demo_leaf_key [symmetric] demo_leaf_def)
qed

lemma demo_env_ok: "bp_env_ok (demo_bridge_env now)"
  by (simp add: bp_env_ok_def demo_bridge_env_def hmac32_def)

text \<open>A new bridge that has heard one frame, from the radio's neighbour \<open>demo_leaf 7\<close>.\<close>

definition demo_heard :: "bytes \<Rightarrow> bp" where
  "demo_heard frame = fst (bp_on_espnow_frame (demo_bridge_env 1000) (demo_leaf 7) frame (- 50)
     (fst (bp_init (demo_bridge_env 0) 0 [] 60 BridgeProtocol_new)))"

lemma demo_heard_reachable: "bp_reachable (demo_heard frame)"
  unfolding demo_heard_def
  by (rule bp_reachable_step [OF bp_reachable_init demo_env_ok, of "BpFrame (demo_leaf 7) frame (- 50)" 1000])
    (simp_all add: bp_event_ok_def)

text \<open>An online session with one command under way, and a radio that sends nothing.\<close>

definition demo_silent_env :: "u32 \<Rightarrow> bp_env" where
  "demo_silent_env now = (demo_bridge_env now)\<lparr>bpe_send := None\<rparr>"

definition demo_commanding :: bp where
  "demo_commanding = BridgeProtocol_new
     \<lparr>bp_sessions := [(7, bp_session_init\<lparr>bs_leaf_mac := demo_leaf 7, bs_online := True, bs_session_key_valid := True,
        bs_last_seen_bridge_uptime_s := 1\<rparr>)],
      bp_command_queue := [\<lparr>pc_field_index = 2, pc_value = [1], pc_leaf_mac = demo_leaf 7, pc_next_hop_mac = demo_leaf 7,
        pc_tx_base = 1, pc_last_tx_ms = 0, pc_retry_count = 0\<rparr>]\<rparr>"

section \<open>Properties\<close>

text \<open>
  C6: The table of sessions. Whatever frames arrive and however the component's calls are ordered, the sessions are sorted by key without
  repetition and each is found under its own leaf's address; only a session that has a key is
  online; the frame and fragment sizes are those of short or long frames; a request, the end of a
  join, a command and a configuration are repeated at most four, four, four and three times.
\<close>

theorem bridge_sessions_invariant:
  assumes "bp_reachable b"
  shows "sorted_wrt (<) (map fst (bp_sessions b))
    \<and> (\<forall>(k, s) \<in> set (bp_sessions b). bp_get_session (bs_leaf_mac s) b = Some s
        \<and> (bs_online s \<longrightarrow> bs_session_key_valid s) \<and> length (bs_session_key s) = 32
        \<and> (bs_session_max_payload s = 250 \<or> bs_session_max_payload s = 1470)
        \<and> (bs_max_entity_fragment s = 220 \<or> bs_max_entity_fragment s = 1440)
        \<and> bs_schema_request_retries s \<le> BP_MAX_RETRIES \<and> bs_join_complete_retry_count s \<le> BP_MAX_RETRIES)
    \<and> (\<forall>c \<in> set (bp_command_queue b). pc_retry_count c \<le> BP_MAX_RETRIES)
    \<and> (\<forall>p \<in> set (bp_pending_configs b). pcf_retry_count p \<le> CONFIG_MAX_RETRIES)"
proof -
  have ok: "bp_ok b" by (rule bp_reachable_ok [OF assms])
  have "bp_get_session (bs_leaf_mac s) b = Some s" if "(k, s) \<in> set (bp_sessions b)" for k s
  proof -
    have "distinct (map fst (bp_sessions b))" "k = mac_to_key (bs_leaf_mac s)"
      using ok that sorted_keys_distinct by (auto simp: bp_ok_def)
    then show ?thesis using that map_of_eq_Some_iff by (simp add: bp_get_session_def)
  qed
  then show ?thesis using ok by (auto simp: bp_ok_def bs_ok_def)
qed

theorem bridge_sessions_invariant_witness:
  "map fst (bp_sessions (demo_heard (demo_discover 7))) = [7]
   \<and> list_all (\<lambda>(k, s). bp_get_session (bs_leaf_mac s) (demo_heard (demo_discover 7)) = Some s
        \<and> length (bs_session_key s) = 32) (bp_sessions (demo_heard (demo_discover 7)))"
proof -
  have "map fst (bp_sessions (demo_heard (demo_discover 7))) = [7]" by code_simp
  then show ?thesis using bridge_sessions_invariant [OF demo_heard_reachable, of "demo_discover 7"]
    by (auto simp: list_all_iff)
qed

text \<open>
  C18: Every frame the bridge sends is well formed: at least a header and at most a radio frame long, of the protocol's
  version, marked as going downstream, of a known packet type.
\<close>

theorem bridge_frames_well_formed:
  assumes "bp_reachable b" and "(mac, f) \<in> set (bp_sent b)"
  shows "17 \<le> length f \<and> length f \<le> 1470 \<and> f ! 0 = ESPNOW_PROTOCOL_VER \<and> hops_is_downstream (f ! 1)
    \<and> is_valid_packet_type (f ! 2)"
  using bp_reachable_ok [OF assms(1)] assms(2) by (auto simp: bp_ok_def bp_frame_ok_def)

theorem bridge_frames_well_formed_witness:
  "\<exists>f. bp_sent (demo_heard (demo_state_frame 7)) = [(demo_leaf 7, f)] \<and> 17 \<le> length f \<and> is_valid_packet_type (f ! 2)"
proof -
  have "map fst (bp_sent (demo_heard (demo_state_frame 7))) = [demo_leaf 7]" by code_simp
  then obtain f where f: "bp_sent (demo_heard (demo_state_frame 7)) = [(demo_leaf 7, f)]" by auto
  then show ?thesis using bridge_frames_well_formed [OF demo_heard_reachable, of "demo_leaf 7" f "demo_state_frame 7"] by simp
qed

text \<open>
  C19: Commands under way end. When the loop runs five times, each time 1.7 seconds or more after the time before (and
  after the commands were last sent), every command that was under way has been given up or
  answered: the queue is empty.
\<close>

theorem commands_end:
  assumes "\<forall>c \<in> set (bp_command_queue b). pc_retry_count c \<le> BP_MAX_RETRIES \<and> 1700 \<le> bpe_now env - pc_last_tx_ms c"
    and "spaced (bpe_now env) envs" and "length envs = 4" and "bp_loops (env # envs) b = Some b'"
  shows "bp_command_queue b' = []"
  by (rule loops_empty [OF assms(1,2) _ assms(4)]) (simp add: assms(3))

theorem commands_end_witness:
  "map_option bp_command_queue (bp_loops (map demo_silent_env [2000, 4000, 6000, 8000]) demo_commanding) \<noteq> Some []
   \<and> map_option bp_command_queue (bp_loops (map demo_silent_env [2000, 4000, 6000, 8000, 10000]) demo_commanding) = Some []"
proof -
  have "map_option (length \<circ> bp_command_queue) (bp_loops (map demo_silent_env [2000, 4000, 6000, 8000]) demo_commanding) = Some 1"
    by code_simp
  moreover have "bp_loops (map demo_silent_env [2000, 4000, 6000, 8000, 10000]) demo_commanding \<noteq> None" by code_simp
  then obtain b' where b': "bp_loops (demo_silent_env 2000 # map demo_silent_env [4000, 6000, 8000, 10000]) demo_commanding = Some b'"
    by auto
  have "bp_command_queue b' = []"
    by (rule commands_end [OF _ _ _ b']) (simp_all add: demo_commanding_def demo_silent_env_def demo_bridge_env_def)
  ultimately show ?thesis using b' by auto
qed

text \<open>
  C21: Eviction can write past its array. A DISCOVER of this network from an unknown leaf adds a session, whoever sent
  it; once there are more than 128 of them, the first clean-up that finds memory short
  copies them all into the array of 128 candidates (the result \<open>None\<close>).
\<close>

theorem eviction_overflows_array:
  assumes "bp_ok b"
  shows "(bp_parse_frame env f = Some (hdr, payload, tag, parent) \<and> fh_packet_type hdr = packet_code PKT_DISCOVER
      \<and> fh_hop_count hdr AND ESPNOW_HOPS_PARENT_CHECK_BIT = 0 \<and> c_dec espnow_discover_codec payload = Some d
      \<and> length payload = c_width espnow_discover_codec
      \<and> unat (disc_network_id_len d) = length (bp_network_id b) \<and> take (length (bp_network_id b)) payload = bp_network_id b
      \<and> bp_get_session (fh_leaf_mac hdr) b = None
      \<longrightarrow> length (bp_sessions (fst (bp_on_espnow_frame env m f rssi b))) = Suc (length (bp_sessions b)))
    \<and> (length (bp_sessions b) > MAX_SESSIONS \<and> bpe_now env - bp_last_session_cleanup_ms b \<ge> SESSION_CLEANUP_INTERVAL_MS
      \<and> bpe_ram_low env False (bpe_free_heap env (bp_heap_reads b)) (bpe_total_heap env) \<longrightarrow> bp_loop env b = None)"
proof (intro conjI impI; elim conjE)
  assume *: "bp_parse_frame env f = Some (hdr, payload, tag, parent)" "fh_packet_type hdr = packet_code PKT_DISCOVER"
    "fh_hop_count hdr AND ESPNOW_HOPS_PARENT_CHECK_BIT = 0" "c_dec espnow_discover_codec payload = Some d"
    "length payload = c_width espnow_discover_codec"
    "unat (disc_network_id_len d) = length (bp_network_id b)" "take (length (bp_network_id b)) payload = bp_network_id b"
    "bp_get_session (fh_leaf_mac hdr) b = None"
  let ?k = "mac_to_key (fh_leaf_mac hdr)"
  have sorted: "sorted_wrt (<) (map fst (bp_sessions b))" using assms by (simp add: bp_ok_def)
  have "?k \<notin> fst ` set (bp_sessions b)" using *(8) by (simp add: bp_get_session_def map_of_eq_None_iff)
  then have one: "length (bp_put ?k s (bp_sessions b)) = Suc (length (bp_sessions b))" for s
    using length_put [OF sorted] by simp
  have "?k \<in> fst ` set (bp_put ?k s (bp_sessions b))" for s
    using keys_put [of ?k s "bp_sessions b"] by simp
  then have "length (bp_put ?k s' (bp_put ?k s (bp_sessions b))) = Suc (length (bp_sessions b))" for s s'
    using one length_put [OF sorted_put [OF sorted]] by simp
  then have "length (bp_sessions (fst (bp_handle_discover env m hdr payload b))) = Suc (length (bp_sessions b))"
    using * by (simp add: bp_handle_discover_def bp_ensure_session_def bp_draw_random_def bp_store_def Let_def)
  then show "length (bp_sessions (fst (bp_on_espnow_frame env m f rssi b))) = Suc (length (bp_sessions b))"
    by (simp add: bp_on_espnow_frame_def * (1-3))
next
  assume *: "length (bp_sessions b) > MAX_SESSIONS" "bpe_now env - bp_last_session_cleanup_ms b \<ge> SESSION_CLEANUP_INTERVAL_MS"
    "bpe_ram_low env False (bpe_free_heap env (bp_heap_reads b)) (bpe_total_heap env)"
  have "bp_sessions (bp_tick now b) = bp_sessions b" "bp_heap_reads (bp_tick now b) = bp_heap_reads b"
    "bp_last_session_cleanup_ms (bp_tick now b) = bp_last_session_cleanup_ms b" for now
    by (simp_all add: bp_tick_def Let_def)
  then show "bp_loop env b = None"
    using * by (simp add: bp_loop_def bp_cleanup_def bp_evict_sessions_for_ram_def bp_read_heap_def)
qed

theorem eviction_overflows_array_witness:
  "length (bp_sessions (fst (bp_on_espnow_frame (demo_bridge_env 60000) (demo_leaf 200) (demo_discover 200) (- 50) (demo_many 129)))) = 130
   \<and> bp_loop (demo_bridge_env 60000) (demo_many 129) = None"
proof -
  have "map_option (\<lambda>(hdr, payload, tag, parent). (fh_packet_type hdr, fh_hop_count hdr, fh_leaf_mac hdr, payload))
      (bp_parse_frame (demo_bridge_env 60000) (demo_discover 200)) = Some (0, 0, demo_leaf 200, replicate 34 0)"
    by code_simp
  then obtain hdr tag parent where p: "bp_parse_frame (demo_bridge_env 60000) (demo_discover 200) = Some (hdr, replicate 34 0, tag, parent)"
    "fh_packet_type hdr = 0" "fh_hop_count hdr = 0" "fh_leaf_mac hdr = demo_leaf 200" by auto
  have "map_option disc_network_id_len (c_dec espnow_discover_codec (replicate 34 0)) = Some 0" by code_simp
  then obtain d where d: "c_dec espnow_discover_codec (replicate 34 0) = Some d" "disc_network_id_len d = 0" by auto
  have new: "bp_get_session (demo_leaf 200) (demo_many 129) = None" by code_simp
  have "c_width espnow_discover_codec = 34" by code_simp
  moreover have "bp_network_id (demo_many 129) = []" "length (bp_sessions (demo_many 129)) = 129"
    "bp_last_session_cleanup_ms (demo_many 129) = 0" by (simp_all add: demo_many_def BridgeProtocol_new_def)
  ultimately show ?thesis
    using eviction_overflows_array [OF demo_many_ok, of 129 "demo_bridge_env 60000" "demo_discover 200" hdr "replicate 34 0" tag parent d
        "demo_leaf 200" "- 50"] p d new
    by (simp add: demo_bridge_env_def)
qed

text \<open>
  Eviction stops half way. The sessions evicted in one run are subtracted a second time from those that are left, so
  a run that is meant to go on down to eight sessions ends while about half of them are still there.
\<close>

theorem eviction_stops_half_way:
  assumes "bp_ok b" and "bp_evict_sessions_for_ram env a b = Some (b', r)"
  shows "length (bp_sessions b') = length (bp_sessions b) \<or> length (bp_sessions b) + 7 \<le> 2 * length (bp_sessions b')"
proof -
  obtain b1 free where rd: "bp_read_heap env b = (b1, free)" by fastforce
  have b1: "bp_sessions b1 = bp_sessions b" using rd by (auto simp: bp_read_heap_def)
  define c where "c = map fst (sort_key (\<lambda>(_, s). bs_last_seen_bridge_uptime_s s) (bp_sessions b1))"
  obtain b2 n where ev: "bp_evict_loop env a (free + RAM_EVICTION_BUFFER_BYTES) c 0 b1 = (b2, n)" by fastforce
  have "distinct (map fst (bp_sessions b1))" using assms(1) b1 by (simp add: bp_ok_def sorted_keys_distinct)
  from evict_loop_half [OF _ this _ ev, of "length (bp_sessions b)"] b1
  have "length (bp_sessions b2) + n = length (bp_sessions b)" "n = 0 \<or> 2 * n + 7 \<le> length (bp_sessions b)" by simp_all
  moreover have "bp_sessions (fst (bp_read_heap env b2)) = bp_sessions b2" by (simp add: bp_read_heap_def)
  ultimately show ?thesis
    using assms(2) b1 unfolding bp_evict_sessions_for_ram_def rd prod.case c_def [symmetric] Let_def ev
    by (cases n) (auto simp: split_beta split: if_splits)
qed

theorem eviction_stops_half_way_witness:
  "\<exists>b'. bp_evict_sessions_for_ram (demo_bridge_env 60000) True (demo_many 20) = Some (b', True)
     \<and> length (bp_sessions b') = 14 \<and> 20 + 7 \<le> 2 * length (bp_sessions b')"
proof -
  have "map_option (\<lambda>(b, r). (length (bp_sessions b), r)) (bp_evict_sessions_for_ram (demo_bridge_env 60000) True (demo_many 20))
      = Some (14, True)"
    by code_simp
  then obtain b' where b': "bp_evict_sessions_for_ram (demo_bridge_env 60000) True (demo_many 20) = Some (b', True)"
    "length (bp_sessions b') = 14" by auto
  moreover have "length (bp_sessions (demo_many 20)) = 20" by (simp add: demo_many_def)
  ultimately show ?thesis using eviction_stops_half_way [OF demo_many_ok b'(1)] by simp
qed

end
