(* ===== verification/BridgeStates.thy ===== *)
theory BridgeStates
  imports BridgeClaims Aes256Props
begin

text \<open>
  Which frames make the bridge publish a state: only an authentic STATE whose message is newer than the last confirmed one, and
  once the state is confirmed that frame publishes nothing any more.
\<close>

section \<open>Everything else publishes none\<close>

definition bp_published :: "bp \<Rightarrow> bp_effect list" where
  "bp_published b = [e \<leftarrow> bp_effects b. case e of PublishState _ _ _ _ _ _ _ \<Rightarrow> True | _ \<Rightarrow> False]"

lemma published_effect:
  "bp_published (bp_effect e b) = bp_published b @ (case e of PublishState _ _ _ _ _ _ _ \<Rightarrow> [e] | _ \<Rightarrow> [])"
  by (simp add: bp_published_def bp_effect_def split: bp_effect.split)

lemma published_same: "bp_effects b' = bp_effects b \<Longrightarrow> bp_published b' = bp_published b"
  by (simp add: bp_published_def)

lemma published_sends [simp]:
  "bp_published (fst (fst (bp_send_encrypted env m t h p bs))) = bp_published (fst bs)"
  "bp_published (fst (bp_send_plain_psk env m L t h c p b)) = bp_published b"
  by (auto intro!: published_same simp: bp_send_encrypted_def bp_send_plain_psk_def bp_log_sent_def Let_def
      split: option.split prod.split)

lemma published_small [simp]:
  "bp_published (bp_store L bs) = bp_published (fst bs)" "bp_published (bp_clear_joining_slot b) = bp_published b"
  "bp_published (bp_claim_joining_slot env c L b) = bp_published b" "bp_published (bp_refresh_schema_cache bs) = bp_published (fst bs)"
  "bp_published (fst (bp_ensure_session L b)) = bp_published b" "bp_published (fst (bp_draw_random env b)) = bp_published b"
  "bp_published (bp_command_acked ack L b) = bp_published b"
  by (auto intro!: published_same simp: bp_store_def bp_clear_joining_slot_def bp_claim_joining_slot_def bp_refresh_schema_cache_def
      bp_ensure_session_def bp_draw_random_def bp_command_acked_def Let_def split: prod.split option.split)

lemma published_send_parts [simp]:
  "bp_published (fst (fst (bp_send_join_ack env m a r st claim bs))) = bp_published (fst bs)"
  "bp_published (fst (fst (bp_send_schema_request env m t i bs))) = bp_published (fst bs)"
  "bp_published (fst (fst (bp_send_deauth env m t tx p bs))) = bp_published (fst bs)"
  "bp_published (fst (fst (bp_send_state_ack env m tx r bs))) = bp_published (fst bs)"
  by (simp_all add: bp_send_join_ack_def bp_send_schema_request_def bp_send_deauth_def bp_send_state_ack_def Let_def split_beta)

lemma published_complete [simp]:
  "bp_published (fst (fst (bp_send_join_complete env m reset bs))) = bp_published (fst bs)"
  by (simp add: bp_send_join_complete_def Let_def split_beta)

lemma published_telling [simp]:
  "bp_published (fst (bp_mark_online env rssi c x bs)) = bp_published (fst bs)"
  "bp_published (fst (bp_online_on_contact env rssi c bs)) = bp_published (fst bs)"
  "bp_published (bp_publish_entity s e b) = bp_published b" "bp_published (bp_config_done cb res b) = bp_published b"
  by (simp_all add: bp_mark_online_def bp_online_on_contact_def bp_publish_entity_def bp_config_done_def published_effect split_beta
      split: option.split)

lemma published_entities [simp]:
  "bp_published (bp_publish_all_entities s b) = bp_published b" "bp_published (bp_publish_discovery_for_entity s i b) = bp_published b"
proof -
  have "bp_published (fold (bp_publish_entity s) es b) = bp_published b" for es by (induction es arbitrary: b) simp_all
  then show "bp_published (bp_publish_all_entities s b) = bp_published b"
    "bp_published (bp_publish_discovery_for_entity s i b) = bp_published b"
    by (simp_all add: bp_publish_all_entities_def bp_publish_discovery_for_entity_def)
qed

lemma published_on_session:
  "(\<And>b s. bp_published (fst (fst (f (b, s)))) = bp_published b) \<Longrightarrow> bp_published (fst (bp_on_session L f b)) = bp_published b"
  by (simp add: bp_on_session_def split_beta split: option.split)

lemma published_discover [simp]: "bp_published (fst (bp_handle_discover env m hdr p b)) = bp_published b"
proof -
  have "bp_published (fst (bp_draw_random env (fst (bp_ensure_session L b)))) = bp_published b" for L by simp
  then show ?thesis by (simp add: bp_handle_discover_def split_beta split: option.split)
qed

lemma published_join [simp]: "bp_published (fst (bp_handle_join env m hdr p rssi b)) = bp_published b"
proof -
  have cached: "bp_published (fst (fst (bp_join_cached env m j k (b, s)))) = bp_published b" for j k b s
    by (simp add: bp_join_cached_def Let_def split_beta published_effect)
  have refresh: "bp_published (fst (fst (bp_join_refresh env m (b, s)))) = bp_published b" for b s
    by (simp add: bp_join_refresh_def split_beta split: bool.split)
  have "bp_published (fst (fst (bp_join_session env m hdr j rssi bs))) = bp_published (fst bs)" for j bs
    by (cases bs) (simp add: bp_join_session_def bp_join_retry_def bp_join_fresh_def Let_def cached refresh split_beta)
  then show ?thesis by (simp add: bp_handle_join_def split_beta split: option.split)
qed

lemma published_schema_push [simp]: "bp_published (fst (bp_handle_schema_push env m hdr p tag b)) = bp_published b"
proof -
  have request: "bp_published (fst (fst (bp_request_entity env m i bs))) = bp_published (fst bs)" for i bs
    by (simp add: bp_request_entity_def split_beta)
  have finish: "bp_published (fst (bp_schema_done (b, s))) = bp_published b" for b s
    by (simp add: bp_schema_done_def Let_def)
  have identity: "bp_published (fst (fst (bp_identity_push env m c (b, s)))) = bp_published b" for c b s
    by (simp add: bp_identity_push_def Let_def split_beta request finish published_effect split: option.split)
  have entity: "bp_published (fst (fst (bp_entity_push env m c (b, s)))) = bp_published b" for c b s
    by (simp add: bp_entity_push_def Let_def split_beta request finish published_effect split: option.split)
  show ?thesis
    unfolding bp_handle_schema_push_def
    by (rule published_on_session)
      (auto simp: bp_schema_push_def Let_def identity entity split: option.split prod.split bp_fragment_outcome.split)
qed

lemma published_heartbeat [simp]: "bp_published (fst (bp_handle_heartbeat env m hdr p rssi tag b)) = bp_published b"
proof -
  have "bp_published (fst (bp_take_heartbeat env m hdr hb rssi (b, s))) = bp_published b" for hb b s
    by (simp add: bp_take_heartbeat_def Let_def split_beta published_effect)
  then show ?thesis
    unfolding bp_handle_heartbeat_def by (intro published_on_session) (simp add: bp_heartbeat_def split: option.split)
qed

lemma published_ack [simp]: "bp_published (fst (bp_handle_ack env hdr p rssi tag b)) = bp_published b"
proof -
  have config: "bp_published (fst (bp_config_ack env hdr ack t rssi (b, s))) = bp_published b" for ack t b s
  proof -
    have "bp_published (b\<lparr>bp_pending_configs := x\<rparr>) = bp_published b" for x by (simp add: bp_published_def)
    then show ?thesis by (simp add: bp_config_ack_def split_beta split: option.split)
  qed
  show ?thesis
    unfolding bp_handle_ack_def
    by (intro published_on_session) (simp add: bp_ack_def Let_def config published_effect split: option.split)
qed

lemma published_touch [simp]: "bp_published (fst (bp_touch_session hdr m rssi bs)) = bp_published (fst bs)"
  by (simp add: bp_touch_session_def Let_def split_beta published_effect)

section \<open>A STATE\<close>

text \<open>What of a session decides which frames it takes as new states.\<close>

definition state_key :: "bp_session \<Rightarrow> bool \<times> bytes \<times> u32" where
  "state_key s = (bs_session_key_valid s, bs_session_key s, bs_last_completed_state_message_tx_base s)"

text \<open>The frame is an authentic packet of a message that is newer than the last confirmed one.\<close>

definition new_state :: "bp_env \<Rightarrow> bp_session \<Rightarrow> espnow_frame_header \<Rightarrow> bytes \<Rightarrow> bytes option \<Rightarrow> EntityPayloadView \<Rightarrow> bool" where
  "new_state env s hdr payload tag view \<longleftrightarrow>
     (\<exists>plaintext. bp_validate_session_packet env s hdr payload tag = Some plaintext \<and> parse_entity_payload plaintext = Some view)
     \<and> counter_is_newer (fragment_message_tx_base hdr view) (bs_last_completed_state_message_tx_base s)"

lemma new_state_key: "state_key s' = state_key s \<Longrightarrow> new_state env s' hdr payload tag view = new_state env s hdr payload tag view"
  by (cases tag) (auto simp: state_key_def new_state_def bp_validate_session_packet_def)

lemma key_of_sends [simp]:
  "state_key (snd (fst (bp_send_encrypted env m t h p bs))) = state_key (snd bs)"
  "state_key (snd (fst (bp_send_deauth env m ty tx p bs))) = state_key (snd bs)"
  "state_key (snd (fst (bp_send_state_ack env m tx res bs))) = state_key (snd bs)"
  "state_key (snd (fst (bp_send_join_complete env m reset bs))) = state_key (snd bs)"
  "state_key (snd (bp_mark_online env rssi tx x bs)) = state_key (snd bs)"
  by (simp_all add: state_key_def bp_send_encrypted_def bp_send_deauth_def bp_send_state_ack_def bp_send_join_complete_def
      bp_send_join_ack_def bp_mark_online_def Let_def split_beta split: option.split prod.split)

lemma key_of_fragment [simp]:
  "state_key (fst (bp_state_fragment s view base now)) = state_key s"
  by (simp add: state_key_def bp_state_fragment_def split_beta)

lemma state_cases:
  assumes "bp_state env m hdr payload rssi tag (b, s) = ((b', s'), r)"
  shows "state_key s' = state_key s"
    and "bp_published b' = bp_published b
      \<or> (\<exists>view entity val str. new_state env s hdr payload tag view
           \<and> bp_published b' = bp_published b @
               [PublishState (fh_leaf_mac hdr) entity val (bes_entity_type entity) str (fragment_message_tx_base hdr view) m])"
proof -
  have "state_key s' = state_key s \<and> (bp_published b' = bp_published b
      \<or> (\<exists>view entity val str. new_state env s hdr payload tag view
           \<and> bp_published b' = bp_published b @
               [PublishState (fh_leaf_mac hdr) entity val (bes_entity_type entity) str (fragment_message_tx_base hdr view) m]))"
  proof (cases "bp_validate_session_packet env s hdr payload tag")
    case None
    obtain b1 s1 where d: "fst (bp_send_deauth env m (fh_packet_type hdr) (fh_tx_counter hdr) payload (b, s)) = (b1, s1)" by fastforce
    have "state_key s1 = state_key s" "bp_published b1 = bp_published b"
      using key_of_sends(2) [of env m "fh_packet_type hdr" "fh_tx_counter hdr" payload "(b, s)"]
        published_send_parts(3) [of env m "fh_packet_type hdr" "fh_tx_counter hdr" payload "(b, s)"] by (simp_all add: d)
    then show ?thesis using assms None d by (auto simp: bp_state_def split: if_splits)
  next
    case (Some plaintext)
    show ?thesis
    proof (cases "bs_session_key_valid s \<and> parse_entity_payload plaintext \<noteq> None")
      case False
      then have "(b', s') = (b, s)"
        using assms unfolding bp_state_def prod.case Some option.case by (cases "bs_session_key_valid s") simp_all
      then show ?thesis by simp
    next
      case True
      then obtain view where view: "parse_entity_payload plaintext = Some view" and valid: "bs_session_key_valid s" by auto
      define base where "base = fragment_message_tx_base hdr view"
      note start = assms [unfolded bp_state_def prod.case Some option.case view Let_def base_def [symmetric], simplified valid, simplified]
      show ?thesis
      proof (cases "counter_is_newer base (bs_last_completed_state_message_tx_base s)")
        case False
        obtain b1 s1 r1 where d: "bp_send_state_ack env m base 0 (b, s) = ((b1, s1), r1)" by (metis prod.collapse)
        have "state_key s1 = state_key s" "bp_published b1 = bp_published b"
          using key_of_sends(3) [of env m base 0 "(b, s)"] published_send_parts(4) [of env m base 0 "(b, s)"] by (simp_all add: d)
        moreover have "(b', s') = (b1, s1) \<or> (b', s') = (b, s)"
          using start False d by (cases "base = bs_last_completed_state_message_tx_base s") simp_all
        ultimately show ?thesis by auto
      next
        case new: True
        have n: "new_state env s hdr payload tag view" using Some view new by (simp add: new_state_def base_def)
        obtain s1 out where f: "bp_state_fragment s view base (bpe_now env) = (s1, out)" by fastforce
        have s1: "state_key s1 = state_key s" using key_of_fragment [of s view base "bpe_now env"] by (simp add: f)
        then have k: "state_key (s1\<lparr>bs_last_seen_counter := x, bs_last_seen_bridge_uptime_s := y\<rparr>) = state_key s"
          "state_key (s1\<lparr>bs_last_seen_counter := x, bs_last_seen_bridge_uptime_s := y, bs_awaiting_more_dirty := z\<rparr>) = state_key s" for x y z
          by (simp_all add: state_key_def)
        show ?thesis
        proof (cases out)
          case (BFComplete complete flags)
          define s2 where "s2 = (let s = s1\<lparr>bs_last_seen_counter := max (bs_last_seen_counter s1) (fh_tx_counter hdr),
              bs_last_seen_bridge_uptime_s := bpe_now env div 1000\<rparr>
            in if bs_state_sync_pending s then s\<lparr>bs_awaiting_more_dirty := (flags AND ESPNOW_ENTITY_FLAG_MORE_DIRTY \<noteq> 0)\<rparr> else s)"
          have s2: "state_key s2 = state_key s" by (simp add: s2_def Let_def k)
          define bs where "bs = (if bs_remote_state s2 = BRS_NORMAL \<and> \<not> bs_online s2
            then bp_mark_online env rssi (fh_tx_counter hdr) 0 (b, s2) else (b, s2))"
          have bs: "bp_published (fst bs) = bp_published b" "state_key (snd bs) = state_key s" by (simp_all add: bs_def s2)
          have "(b', s') = bp_publish_state hdr (epv_entity_index view) complete base m bs"
            using start new unfolding f prod.case BFComplete bp_fragment_outcome.case bs_def s2_def Let_def
            by (cases "bs_state_sync_pending s1") simp_all
          then show ?thesis
            using n bs by (auto simp: bp_publish_state_def Let_def published_effect split_beta base_def)
        qed (use start new k s1 f in auto)
      qed
    qed
  qed
  then show "state_key s' = state_key s"
    and "bp_published b' = bp_published b
      \<or> (\<exists>view entity val str. new_state env s hdr payload tag view
           \<and> bp_published b' = bp_published b @
               [PublishState (fh_leaf_mac hdr) entity val (bes_entity_type entity) str (fragment_message_tx_base hdr view) m])"
    by blast+
qed

section \<open>Frames\<close>

lemma found_when_put: "map_of (bp_put k s xs) k = Some s"
  by (induction k s xs rule: bp_put.induct) auto

lemma get_stored: "bp_get_session L (bp_store L (b, s)) = Some s"
  by (simp add: bp_get_session_def bp_store_def found_when_put)

lemma get_ensured: "bp_ensure_session L b = (b', s) \<Longrightarrow> bp_get_session L b' = Some s"
  by (auto simp: bp_ensure_session_def Let_def get_stored)

lemma key_of_ensured: "bp_get_session L b = Some s \<Longrightarrow> state_key (snd (bp_ensure_session L b)) = state_key s"
  by (simp add: bp_ensure_session_def Let_def state_key_def)

lemma frame_publishes:
  assumes "bp_parse_frame env f = Some (hdr, payload, tag, parent)"
  obtains (none) "bp_published (fst (bp_on_espnow_frame env m f rssi b)) = bp_published b"
  | (state) s bt st where "fh_packet_type hdr = packet_code PKT_STATE" "bp_get_session (fh_leaf_mac hdr) b = Some s"
      "bs_session_key_valid s" "bp_published bt = bp_published b" "bp_get_session (fh_leaf_mac hdr) bt = Some st" "state_key st = state_key s"
      "bp_on_espnow_frame env m f rssi b = bp_handle_state env m hdr payload rssi tag bt"
proof (cases "fh_packet_type hdr = packet_code PKT_STATE
    \<and> bp_on_espnow_frame env m f rssi b = bp_session_frame env m hdr (length f) payload rssi tag b")
  case False
  have quiet: "bp_published (fst (bp_session_frame env m hdr l payload rssi tag b)) = bp_published b"
    if "fh_packet_type hdr \<noteq> packet_code PKT_STATE" for l
  proof -
    have "bp_published (fst (bp_ensure_session L (bp_store L' (bp_touch_session hdr m rssi (b, s))))) = bp_published b" for L L' s by simp
    then show ?thesis using that by (simp add: bp_session_frame_def split_beta split: option.split)
  qed
  then show thesis
    using False by (intro none) (auto simp: bp_on_espnow_frame_def assms Let_def)
next
  case True
  let ?L = "fh_leaf_mac hdr"
  show thesis
  proof (cases "bp_get_session ?L b")
    case None
    then show thesis using True by (intro none) (simp add: bp_session_frame_def split_beta)
  next
    case (Some s)
    show thesis
    proof (cases "bs_session_key_valid s")
      case False
      then show thesis using True Some by (intro none) (simp add: bp_session_frame_def split_beta)
    next
      case valid: True
      obtain bt st where e: "bp_ensure_session ?L (bp_store ?L (bp_touch_session hdr m rssi (b, s))) = (bt, st)" by fastforce
      obtain b1 s1 where t: "bp_touch_session hdr m rssi (b, s) = (b1, s1)" by fastforce
      have p: "bp_published bt = bp_published b"
        using published_small(5) [of ?L "bp_store ?L (bp_touch_session hdr m rssi (b, s))"] by (simp add: e)
      have "state_key s1 = state_key s" using t by (auto simp: bp_touch_session_def state_key_def Let_def split: if_splits)
      moreover have "state_key st = state_key s1"
        using key_of_ensured [OF get_stored, of ?L b1 s1] e by (simp add: t)
      ultimately have k: "state_key st = state_key s" by simp
      show thesis
      proof (cases "length f > unat (bs_session_max_payload st)")
        case True
        then show thesis
          using \<open>_ \<and> _\<close> Some valid p by (intro none) (simp add: bp_session_frame_def e)
      next
        case False
        then have "bp_on_espnow_frame env m f rssi b = bp_handle_state env m hdr payload rssi tag bt"
          using True Some valid by (simp add: bp_session_frame_def e)
        then show thesis using state [OF _ Some valid p get_ensured [OF e] k] True by simp
      qed
    qed
  qed
qed

lemma confirmed_key:
  assumes "bp_get_session L b = Some s" and "counter_is_newer base (bs_last_completed_state_message_tx_base s)"
  shows "\<exists>s'. bp_get_session L (fst (bp_confirm_state_delivery env L i base hop b)) = Some s'
    \<and> state_key s' = (bs_session_key_valid s, bs_session_key s, base)"
proof -
  have "state_key (snd (fst (bp_confirm_state env base hop (b, s)))) = (bs_session_key_valid s, bs_session_key s, base)"
  proof -
    define s1 where "s1 = s\<lparr>bs_last_completed_state_message_tx_base := base\<rparr>"
    have k: "state_key s1 = (bs_session_key_valid s, bs_session_key s, base)"
      "state_key (s1\<lparr>bs_state_sync_pending := False\<rparr>) = (bs_session_key_valid s, bs_session_key s, base)"
      by (simp_all add: s1_def state_key_def)
    show ?thesis using assms(2) by (simp add: bp_confirm_state_def Let_def s1_def [symmetric] k)
  qed
  then show ?thesis
    by (cases "bp_confirm_state env base hop (b, s)")
      (auto simp: bp_confirm_state_delivery_def bp_on_session_def assms(1) get_stored)
qed

section \<open>Properties\<close>

text \<open>
  C5: The bridge publishes a state only for an authentic frame, and once. When a frame makes the bridge publish a state, the
  frame is a STATE with a valid network tag of a leaf that has a session, its session tag verifies, its message is newer
  than the last confirmed one, and exactly one state is published, that of this leaf. After the component has
  confirmed the state, the same frame publishes nothing any more, whatever the radio reports of it.
\<close>

theorem states_published_once:
  assumes "bp_on_espnow_frame env m f rssi b = (b', r)" and "bp_published b' \<noteq> bp_published b"
    and "bp_parse_frame env f = Some (hdr, payload, tag, parent)"
    and "bpe_hmac env' = bpe_hmac env" and "bpe_crypto env' = bpe_crypto env"
  shows "\<exists>s view entity val str. fh_packet_type hdr = packet_code PKT_STATE
    \<and> bp_get_session (fh_leaf_mac hdr) b = Some s \<and> new_state env s hdr payload tag view
    \<and> bp_published b' = bp_published b @
        [PublishState (fh_leaf_mac hdr) entity val (bes_entity_type entity) str (fragment_message_tx_base hdr view) m]
    \<and> (\<forall>env1 i hop b''. b'' = fst (bp_confirm_state_delivery env1 (fh_leaf_mac hdr) i (fragment_message_tx_base hdr view) hop b') \<longrightarrow>
         bp_published (fst (bp_on_espnow_frame env' m' f rssi' b'')) = bp_published b'')"
  using assms(3)
proof (cases rule: frame_publishes [where env = env and m = m and rssi = rssi and b = b])
  case none
  then show ?thesis using assms(1,2) by simp
next
  case (state s bt st)
  let ?L = "fh_leaf_mac hdr"
  obtain b1 s1 r1 where h: "bp_state env m hdr payload rssi tag (bt, st) = ((b1, s1), r1)" by (metis prod.collapse)
  have b': "b' = bp_store ?L (b1, s1)" using state(7) assms(1) by (simp add: bp_handle_state_def bp_on_session_def state(5) h)
  have key: "state_key s1 = state_key s" using state_cases(1) [OF h] state(6) by simp
  obtain view entity val str where v: "new_state env s hdr payload tag view"
      "bp_published b' = bp_published b @ [PublishState ?L entity val (bes_entity_type entity) str (fragment_message_tx_base hdr view) m]"
    using state_cases(2) [OF h] assms(2) state(4) new_state_key [OF state(6), of env hdr payload tag] by (auto simp: b')
  define base where "base = fragment_message_tx_base hdr view"
  have get: "bp_get_session ?L b' = Some s1" by (simp add: b' get_stored)
  have new: "counter_is_newer base (bs_last_completed_state_message_tx_base s1)"
    using v(1) key by (simp add: new_state_def state_key_def base_def)
  have parse: "bp_parse_frame env' f = Some (hdr, payload, tag, parent)"
    using assms(3) unfolding bp_parse_frame_def assms(4,5) .
  have "bp_published (fst (bp_on_espnow_frame env' m' f rssi' b'')) = bp_published b''"
    if "b'' = fst (bp_confirm_state_delivery env1 ?L i base hop b')" for env1 i hop b''
    using parse
  proof (cases rule: frame_publishes [where env = env' and m = m' and rssi = rssi' and b = b''])
    case (state s2 bt st)
    have k: "state_key s2 = (bs_session_key_valid s, bs_session_key s, base)"
      using confirmed_key [OF get new, of env1 i hop] key that state(2) by (auto simp: state_key_def)
    obtain b2 s3 r2 where h: "bp_state env' m' hdr payload rssi' tag (bt, st) = ((b2, s3), r2)" by (metis prod.collapse)
    have "\<not> new_state env' st hdr payload tag view'" for view'
    proof
      assume n: "new_state env' st hdr payload tag view'"
      have "bp_validate_session_packet env' st hdr payload tag = bp_validate_session_packet env s hdr payload tag"
        using k state(6) by (cases tag) (auto simp: state_key_def bp_validate_session_packet_def assms(4,5))
      then have "view' = view" using n v(1) by (auto simp: new_state_def)
      then show False
        using n k state(6) by (auto simp: new_state_def state_key_def base_def counter_is_newer_def)
    qed
    then have "bp_published b2 = bp_published b''" using state_cases(2) [OF h] state(4) by auto
    then show ?thesis unfolding state(7) by (simp add: bp_handle_state_def bp_on_session_def state(5) h)
  qed
  then show ?thesis using state(1,2) v unfolding base_def by blast
qed

text \<open>An online session, and a STATE of its leaf; the ciphertext is left unevaluated.\<close>

definition demo_online :: bp where
  "demo_online = BridgeProtocol_new\<lparr>bp_sessions := [(7, bp_session_init\<lparr>bs_leaf_mac := demo_leaf 7, bs_online := True,
     bs_session_key_valid := True, bs_session_key := replicate 32 5, bs_last_seen_bridge_uptime_s := 1\<rparr>)]\<rparr>"

abbreviation (input) demo_state_header :: espnow_frame_header where
  "demo_state_header \<equiv> bp_header (packet_code PKT_STATE) 0 (demo_leaf 7) 9"

definition demo_state_plain :: bytes where
  "demo_state_plain = append_entity_payload 0 0 0 1 (Some [1]) 1"

definition demo_state_cipher :: bytes where
  "demo_state_cipher = aes256_ctr_crypt (replicate 32 5) 9 demo_state_plain"

definition demo_published :: bytes where
  "demo_published = bp_frame_bytes (demo_bridge_env 5000) (Some (replicate 32 5)) demo_state_header demo_state_cipher"

definition demo_touched :: "bp \<times> bp_session" where
  "demo_touched = bp_ensure_session (demo_leaf 7) (bp_store (demo_leaf 7)
     (bp_touch_session (demo_state_header\<lparr>fh_psk_tag := replicate 4 1\<rparr>) (demo_leaf 7) (- 50) (demo_online, snd (hd (bp_sessions demo_online)))))"

lemma demo_published_parsed:
  "bp_parse_frame (demo_bridge_env 5000) demo_published
     = Some (demo_state_header\<lparr>fh_psk_tag := replicate 4 1\<rparr>, demo_state_cipher, Some (replicate 8 1), replicate 6 0)"
    and demo_published_length: "length demo_published = 31"
    and demo_published_opened: "bs_session_key_valid s \<Longrightarrow> bs_session_key s = replicate 32 5 \<Longrightarrow>
      bp_validate_session_packet (demo_bridge_env 5000) s (demo_state_header\<lparr>fh_psk_tag := replicate 4 1\<rparr>) demo_state_cipher
        (Some (replicate 8 1)) = Some demo_state_plain"
proof -
  have l: "length demo_state_cipher = 6"
  proof -
    have "length demo_state_plain = 6" by code_simp
    then show ?thesis by (simp add: demo_state_cipher_def ctr_crypt_twice)
  qed
  have ok: "bp_hdr_ok demo_state_header" by (simp add: demo_leaf_def)
  have h: "hmac32 (bpe_hmac (demo_bridge_env 5000))" "g_psk_set (bpe_crypto (demo_bridge_env 5000))"
    by (simp_all add: demo_bridge_env_def hmac32_def)
  have tags: "bp_net_tag (demo_bridge_env 5000) hdr p = replicate 4 1" "bp_key_tag (demo_bridge_env 5000) k hdr p = replicate 8 1" for hdr p k
    by (simp_all add: bp_net_tag_def bp_key_tag_def demo_bridge_env_def)
  show "bp_parse_frame (demo_bridge_env 5000) demo_published
     = Some (demo_state_header\<lparr>fh_psk_tag := replicate 4 1\<rparr>, demo_state_cipher, Some (replicate 8 1), replicate 6 0)"
    unfolding demo_published_def using bp_parse_frame_built [OF ok h(1), of "Some (replicate 32 5)" demo_state_cipher] h l
    by (simp add: tags is_valid_packet_type_def is_encrypted_packet_def)
  show "length demo_published = 31" using l ok h by (simp add: demo_published_def bp_frame_layout)
  show "bp_validate_session_packet (demo_bridge_env 5000) s (demo_state_header\<lparr>fh_psk_tag := replicate 4 1\<rparr>) demo_state_cipher
        (Some (replicate 8 1)) = Some demo_state_plain" if "bs_session_key_valid s" "bs_session_key s = replicate 32 5"
    using bp_validate_built [OF ok h that(1), of demo_state_cipher] that(2)
    by (simp add: tags demo_state_cipher_def ctr_crypt_twice)
qed

lemma demo_state_published:
  "bp_published (fst (bp_on_espnow_frame (demo_bridge_env 5000) (demo_leaf 7) demo_published (- 50) demo_online))
     = [PublishState (demo_leaf 7) BridgeEntitySchema_init [1] 0 [] 9 (demo_leaf 7)]"
proof -
  let ?env = "demo_bridge_env 5000" and ?hdr = "demo_state_header\<lparr>fh_psk_tag := replicate 4 1\<rparr>"
  let ?s = "snd (hd (bp_sessions demo_online))"
  have get: "bp_get_session (demo_leaf 7) demo_online = Some ?s" by code_simp
  have s: "bs_session_key_valid ?s" by code_simp
  have t: "bs_session_key_valid (snd demo_touched)" "bs_session_key (snd demo_touched) = replicate 32 5"
    "bs_session_max_payload (snd demo_touched) = 250" by code_simp+
  have "bp_on_espnow_frame ?env (demo_leaf 7) demo_published (- 50) demo_online
      = bp_handle_state ?env (demo_leaf 7) ?hdr demo_state_cipher (- 50) (Some (replicate 8 1)) (fst demo_touched)"
    using t(3) by (simp add: bp_on_espnow_frame_def demo_published_parsed bp_session_frame_def get s demo_published_length split_beta
        demo_touched_def [simplified, symmetric])
  moreover have "bp_get_session (demo_leaf 7) (fst demo_touched) = Some (snd demo_touched)"
    using get_ensured [where L = "demo_leaf 7"] unfolding demo_touched_def by (metis prod.collapse)
  moreover have "parse_entity_payload demo_state_plain
      = Some \<lparr>epv_entity_index = 0, epv_flags = 0, epv_fragment_index = 0, epv_fragment_count = 1, epv_value = [1]\<rparr>"
    by code_simp
  note view = this
  have "bp_published (fst (fst (bp_state ?env (demo_leaf 7) ?hdr demo_state_cipher (- 50) (Some (replicate 8 1)) demo_touched)))
      = [PublishState (demo_leaf 7) BridgeEntitySchema_init [1] 0 [] 9 (demo_leaf 7)]"
    unfolding bp_state_def split_beta demo_published_opened [OF t(1,2)] option.case view by code_simp
  ultimately show ?thesis by (simp add: bp_handle_state_def bp_on_session_def split_beta)
qed

theorem states_published_once_witness:
  "bp_published (fst (bp_on_espnow_frame (demo_bridge_env 5000) (demo_leaf 7) demo_published (- 50) demo_online))
     = [PublishState (demo_leaf 7) BridgeEntitySchema_init [1] 0 [] 9 (demo_leaf 7)]
   \<and> (let b = fst (bp_confirm_state_delivery (demo_bridge_env 6000) (demo_leaf 7) 0 9 (demo_leaf 7)
             (fst (bp_on_espnow_frame (demo_bridge_env 5000) (demo_leaf 7) demo_published (- 50) demo_online)))
      in bp_published (fst (bp_on_espnow_frame (demo_bridge_env 7000) (demo_leaf 3) demo_published (- 60) b)) = bp_published b)"
proof -
  let ?r = "bp_on_espnow_frame (demo_bridge_env 5000) (demo_leaf 7) demo_published (- 50) demo_online"
  have "bp_published demo_online = []" by code_simp
  then have differ: "bp_published (fst ?r) \<noteq> bp_published demo_online" by (simp add: demo_state_published)
  have env: "bpe_hmac (demo_bridge_env 7000) = bpe_hmac (demo_bridge_env 5000)" "bpe_crypto (demo_bridge_env 7000) = bpe_crypto (demo_bridge_env 5000)"
    by (simp_all add: demo_bridge_env_def)
  have "view_base = 9" if "bp_published (fst ?r) = bp_published demo_online @ [PublishState L e v t str view_base m]" for L e v t str view_base m
    using that by (simp add: demo_state_published \<open>bp_published demo_online = []\<close>)
  then show ?thesis
    using states_published_once [OF prod.collapse [symmetric] differ demo_published_parsed env, of "demo_leaf 3" "- 60"]
    by (auto simp: Let_def demo_state_published)
qed

end
