(* ===== verification/Joining.thy ===== *)
theory Joining
  imports Delivery BridgeStates
begin

text \<open>
  The join handshake of a remote and the bridge, from the JOIN a remote sends to the session key both ends
  hold after the JOIN_ACK, as the two state machines run it.
\<close>

section \<open>The remote's JOIN\<close>

lemma rp_frame_is_bp_frame:
  "same_network env renv \<Longrightarrow> rp_frame_bytes renv key (rp_header t h m c) p = bp_frame_bytes env key (bp_header t h m c) p"
  by (cases key) (simp_all add: same_network_def rp_frame_bytes_def bp_frame_bytes_def rp_header_def bp_header_def Let_def)

definition join_of :: "'h rp_env \<Rightarrow> 'h remote \<Rightarrow> espnow_join" where
  "join_of renv r =
     \<lparr>join_remote_nonce = rp_remote_nonce r, join_schema_hash = rp_compute_schema_hash renv (r\<lparr>rp_join_delay_until_ms := 0\<rparr>),
      join_hops_to_bridge = rp_hops_to_bridge r, join_dirty_count = of_nat (length (filter er_dirty (rp_entity_records r))),
      join_session_flags = rp_local_session_flags r\<rparr>"

lemma join_sent:
  assumes "rp_send_join renv r = (r1, True)" and "same_network env renv"
  shows "rp_sent r1 = rp_sent r @ [(rp_parent_mac r, bp_frame_bytes env None
      (bp_header (packet_code PKT_JOIN) (rp_up_hops r) (rp_leaf_mac r) (rp_tx_counter r)) (c_enc espnow_join_codec (join_of renv r)))]"
    and "rp_remote_nonce r1 = rp_remote_nonce r" "rp_leaf_mac r1 = rp_leaf_mac r" "rp_joined r1 = rp_joined r" "rp_max_hops r1 = rp_max_hops r"
  using assms
  by (auto simp: rp_send_join_def rp_send_frame_def rp_transmit_def Let_def join_of_def rp_frame_is_bp_frame split: if_splits option.splits)

section \<open>The bridge's answer\<close>

definition accepting_ack :: "u8 \<Rightarrow> bytes \<Rightarrow> u8 \<Rightarrow> espnow_join_ack" where
  "accepting_ack stage nonce flags =
     \<lparr>jack_accepted = 1, jack_reason = 0, jack_stage = stage, jack_bridge_nonce = nonce, jack_session_flags = flags\<rparr>"

definition answer_frame :: "bp_env \<Rightarrow> bytes \<Rightarrow> bytes \<Rightarrow> u8 \<Rightarrow> bytes \<Rightarrow> bool" where
  "answer_frame env leaf nonce flags f \<longleftrightarrow>
     (\<exists>c stage. f = bp_frame_bytes env None (bp_header (packet_code PKT_JOIN_ACK) bp_down_hops leaf c)
        (c_enc espnow_join_ack_codec (accepting_ack stage nonce flags)))"

definition answers :: "bp_env \<Rightarrow> bytes \<Rightarrow> bp \<times> bp_session \<Rightarrow> bp \<times> bp_session \<Rightarrow> bool" where
  "answers env m bs bs' \<longleftrightarrow>
     (\<exists>f rest. bp_sent (fst bs') = bp_sent (fst bs) @ (m, f) # rest
        \<and> answer_frame env (bs_leaf_mac (snd bs)) (bs_bridge_nonce (snd bs)) (bp_bridge_session_flags (fst bs)) f)
     \<and> bs_session_key (snd bs') = bs_session_key (snd bs) \<and> bs_session_key_valid (snd bs') = bs_session_key_valid (snd bs)
     \<and> bs_max_entity_fragment (snd bs') = bs_max_entity_fragment (snd bs)"

lemma ack_answers:
  assumes "bpe_send env = Some send" and "bp_send_join_ack env m True 0 stage claim (b, s) = (bs', sent)"
  shows "answers env m (b, s) bs'"
proof -
  let ?f = "bp_frame_bytes env None (bp_header (packet_code PKT_JOIN_ACK) bp_down_hops (bs_leaf_mac s) (bs_tx_counter s))
      (c_enc espnow_join_ack_codec (accepting_ack stage (bs_bridge_nonce s) (bp_bridge_session_flags b)))"
  have "answer_frame env (bs_leaf_mac s) (bs_bridge_nonce s) (bp_bridge_session_flags b) ?f"
    unfolding answer_frame_def by blast
  then show ?thesis
    using assms
    by (auto simp: answers_def accepting_ack_def bp_send_join_ack_def bp_send_plain_psk_def bp_log_sent_def bp_claim_joining_slot_def
        downstream_hop_count_session_def Let_def split: if_splits)
qed

lemma answers_complete:
  assumes "bpe_send env = Some send"
  shows "answers env m (b, s) (fst (bp_send_join_complete env m reset (b, s)))"
proof -
  obtain b1 s1 sent where a: "bp_send_join_ack env m True 0 BP_COMPLETE True (b, s) = ((b1, s1), sent)"
    by (metis prod.collapse)
  show ?thesis
    using ack_answers(1) [OF assms a]
    by (auto simp: answers_def bp_send_join_complete_def a bp_clear_joining_slot_def Let_def)
qed

lemma request_sends:
  "\<exists>rest. bp_sent (fst (fst (bp_send_schema_request env m t i (b, s)))) = bp_sent b @ rest"
  "bs_session_key (snd (fst (bp_send_schema_request env m t i (b, s)))) = bs_session_key s"
  "bs_session_key_valid (snd (fst (bp_send_schema_request env m t i (b, s)))) = bs_session_key_valid s"
  "bs_max_entity_fragment (snd (fst (bp_send_schema_request env m t i (b, s)))) = bs_max_entity_fragment s"
  by (auto simp: bp_send_schema_request_def bp_send_encrypted_def bp_log_sent_def Let_def split_beta split: option.split)

lemma refresh_answers:
  assumes "bpe_send env = Some send" and "bp_join_refresh env m (b, s) = (bs', True)"
  shows "answers env m (b, s) bs'"
proof -
  let ?s = "s\<lparr>bs_schema_entities := [], bs_schema_received := False,
    bs_pending_schema_descriptor_type := ESPNOW_DESCRIPTOR_TYPE_IDENTITY, bs_pending_schema_index := 0\<rparr>"
  obtain b1 s1 sent where a: "bp_send_join_ack env m True 0 BP_SCHEMA_REFRESH True (b, ?s) = ((b1, s1), sent)"
    by (metis prod.collapse)
  have sent: "sent" using assms(2) by (cases sent) (simp_all add: bp_join_refresh_def a)
  obtain b2 s2 where q: "bp_send_schema_request env m ESPNOW_DESCRIPTOR_TYPE_IDENTITY 0
      (bp_clear_joining_slot b1, s1\<lparr>bs_schema_request_retries := 0\<rparr>) = ((b2, s2), True)"
    and bs': "bs' = (b2, s2\<lparr>bs_schema_request_in_flight := True, bs_last_schema_request_ms := bpe_now env\<rparr>)"
    using assms(2) sent by (auto simp: bp_join_refresh_def a split: prod.splits if_splits)
  have "\<exists>rest. bp_sent b2 = bp_sent b1 @ rest"
    using request_sends(1) [of env m ESPNOW_DESCRIPTOR_TYPE_IDENTITY 0 "bp_clear_joining_slot b1"] q
    by (metis bp_clear_joining_slot_def bp.ext_inject bp.surjective bp.update_convs fst_conv)
  then show ?thesis
    using ack_answers(1) [OF assms(1) a] request_sends(2-4) [of env m ESPNOW_DESCRIPTOR_TYPE_IDENTITY 0 "bp_clear_joining_slot b1" "s1\<lparr>bs_schema_request_retries := 0\<rparr>"]
    unfolding q by (auto simp: answers_def bs')
qed

lemma cached_answers:
  assumes "bpe_send env = Some send" and "bp_join_cached env m j key (b, s) = (bs', True)"
  shows "answers env m (b, s) bs'"
proof -
  define s1 where "s1 = (let s = bp_join_from_cache (map_of (bp_schema_cache b) key) s
      in s\<lparr>bs_schema_received := True, bs_total_entities := of_nat (length (bs_schema_entities s))\<rparr>)"
  have s1: "bs_leaf_mac s1 = bs_leaf_mac s" "bs_bridge_nonce s1 = bs_bridge_nonce s" "bs_session_key s1 = bs_session_key s"
    "bs_session_key_valid s1 = bs_session_key_valid s" "bs_max_entity_fragment s1 = bs_max_entity_fragment s"
    by (simp_all add: s1_def bp_join_from_cache_def Let_def split: option.split)
  let ?b = "bp_effect (SchemaComplete (bs_leaf_mac s1) (bs_total_entities s1)) b"
  have same: "answers env m (?b, s1\<lparr>bs_state_sync_pending := p, bs_awaiting_more_dirty := q\<rparr>) x \<longleftrightarrow> answers env m (b, s) x"
    "answers env m (?b, s1) x \<longleftrightarrow> answers env m (b, s) x" for p q x
    by (simp_all add: answers_def s1 bp_effect_def)
  show ?thesis
  proof (cases "join_dirty_count j = 0")
    case True
    then have "bs' = fst (bp_send_join_complete env m True (?b, s1))"
      using assms(2) by (simp add: bp_join_cached_def s1_def Let_def)
    then show ?thesis using answers_complete [OF assms(1)] same(2) by blast
  next
    case False
    let ?s = "s1\<lparr>bs_state_sync_pending := True, bs_awaiting_more_dirty := True\<rparr>"
    obtain b2 s2 where a: "bp_send_join_ack env m True 0 BP_SEND_STATE True (?b, ?s) = ((b2, s2), True)"
      and bs': "bs' = (bp_clear_joining_slot b2, s2)"
      using assms(2) False unfolding bp_join_cached_def prod.case Let_def s1_def [unfolded Let_def, symmetric]
      by (auto split: prod.splits if_splits)
    from ack_answers(1) [OF assms(1) a] have "answers env m (b, s) (b2, s2)" using same(1) by blast
    then show ?thesis by (auto simp: answers_def bs' bp_clear_joining_slot_def)
  qed
qed

lemma reset_session:
  "bs_leaf_mac (bp_join_clear_exchange (bp_join_reset env m hdr j rssi flags s)) = bs_leaf_mac s"
  "bs_bridge_nonce (bp_join_clear_exchange (bp_join_reset env m hdr j rssi flags s)) = bpe_nonce env"
  "bs_session_key_valid (bp_join_clear_exchange (bp_join_reset env m hdr j rssi flags s))"
  "bs_session_key (bp_join_clear_exchange (bp_join_reset env m hdr j rssi flags s))
     = espnow_crypto_derive_session_key (bpe_hmac env) (bpe_crypto env) (bpe_nonce env) (join_remote_nonce j)"
  "bs_max_entity_fragment (bp_join_clear_exchange (bp_join_reset env m hdr j rssi flags s))
     = (if join_session_flags j AND ESPNOW_SESSION_FLAG_V2_MTU \<noteq> 0 \<and> flags AND ESPNOW_SESSION_FLAG_V2_MTU \<noteq> 0 then 1440 else 220)"
proof -
  have "espnow_max_entity_fragment 1470 = 1440" by code_simp
  then show "bs_leaf_mac (bp_join_clear_exchange (bp_join_reset env m hdr j rssi flags s)) = bs_leaf_mac s"
    "bs_bridge_nonce (bp_join_clear_exchange (bp_join_reset env m hdr j rssi flags s)) = bpe_nonce env"
    "bs_session_key_valid (bp_join_clear_exchange (bp_join_reset env m hdr j rssi flags s))"
    "bs_session_key (bp_join_clear_exchange (bp_join_reset env m hdr j rssi flags s))
       = espnow_crypto_derive_session_key (bpe_hmac env) (bpe_crypto env) (bpe_nonce env) (join_remote_nonce j)"
    "bs_max_entity_fragment (bp_join_clear_exchange (bp_join_reset env m hdr j rssi flags s))
       = (if join_session_flags j AND ESPNOW_SESSION_FLAG_V2_MTU \<noteq> 0 \<and> flags AND ESPNOW_SESSION_FLAG_V2_MTU \<noteq> 0 then 1440 else 220)"
    by (simp_all add: bp_join_clear_exchange_def bp_join_reset_def bp_join_key_def bp_join_frame_size_def bs_update_from_mtu_def Let_def)
qed

lemma join_answered:
  assumes "bp_handle_join env m hdr payload rssi b = (b', True)" and "bpe_send env = Some send"
    and "c_dec espnow_join_codec payload = Some j" and "bp_joining_in_progress b \<longrightarrow> bp_joining_leaf_mac b = fh_leaf_mac hdr"
    and "\<forall>s. bp_get_session (fh_leaf_mac hdr) b = Some s \<longrightarrow> \<not> bs_join_in_progress s"
  obtains s f rest where "bp_get_session (fh_leaf_mac hdr) b' = Some s" and "bs_session_key_valid s"
    and "bs_session_key s = espnow_crypto_derive_session_key (bpe_hmac env) (bpe_crypto env) (bpe_nonce env) (join_remote_nonce j)"
    and "bs_max_entity_fragment s = (if join_session_flags j AND ESPNOW_SESSION_FLAG_V2_MTU \<noteq> 0
        \<and> bp_bridge_session_flags b AND ESPNOW_SESSION_FLAG_V2_MTU \<noteq> 0 then 1440 else 220)"
    and "bp_sent b' = bp_sent b @ (m, f) # rest"
    and "answer_frame env (fh_leaf_mac hdr) (bpe_nonce env) (bp_bridge_session_flags b) f"
proof -
  let ?L = "fh_leaf_mac hdr"
  obtain b0 s0 where e: "bp_ensure_session ?L b = (b0, s0)" by fastforce
  have b0: "bp_sent b0 = bp_sent b" "bp_joining_in_progress b0 = bp_joining_in_progress b" "bp_joining_leaf_mac b0 = bp_joining_leaf_mac b"
      "bp_bridge_session_flags b0 = bp_bridge_session_flags b"
    using e by (auto simp: bp_ensure_session_def bp_store_def Let_def)
  have s0: "bs_leaf_mac s0 = ?L" "\<not> bs_join_in_progress s0"
    using e assms(5) by (auto simp: bp_ensure_session_def bp_session_init_def Let_def split: option.splits if_splits)
  have "length payload = c_width espnow_join_codec" using assms(1) by (simp add: bp_handle_join_def split: if_splits)
  then obtain bs' where bs': "bp_join_session env m hdr j rssi (b0, s0) = (bs', True)" "b' = bp_store ?L bs'"
    using assms(1,3) by (auto simp: bp_handle_join_def e split: prod.splits)
  define s1 where "s1 = bp_join_clear_exchange (bp_join_reset env m hdr j rssi (bp_bridge_session_flags b0) (s0\<lparr>bs_join_in_progress := False\<rparr>))"
  have fresh: "bp_join_fresh env m hdr j rssi (b0, s0\<lparr>bs_join_in_progress := False\<rparr>) = (bs', True)"
    using bs'(1) s0(2) assms(4) b0 by (auto simp: bp_join_session_def)
  have "answers env m (b0, s1) bs'"
    using fresh cached_answers [OF assms(2)] refresh_answers [OF assms(2)]
    unfolding bp_join_fresh_def prod.case Let_def s1_def [symmetric] by (auto split: if_splits)
  moreover have "bp_get_session ?L b' = Some (snd bs')"
    by (simp add: bs'(2) bp_store_def bp_get_session_def split_beta found_when_put)
  ultimately show thesis
    using that reset_session [of env m hdr j rssi "bp_bridge_session_flags b0" "s0\<lparr>bs_join_in_progress := False\<rparr>"] s0 b0
    unfolding answers_def s1_def by (auto simp: bs'(2) bp_store_def split_beta)
qed

section \<open>The remote takes the answer\<close>

text \<open>The part of a remote's state that is its session.\<close>

definition session_of :: "'h remote \<Rightarrow> bool \<times> bool \<times> bytes \<times> u16" where
  "session_of r = (rp_joined r, rp_session_key_valid r, rp_session_key r, rp_max_entity_fragment r)"

lemma session_of_io: "rp_io r r' \<Longrightarrow> session_of r' = session_of r"
  by (simp add: session_of_def rp_io_fields)

lemma session_of_heartbeat: "session_of (fst (rp_send_heartbeat env r)) = session_of r"
proof -
  have "session_of (fst (rp_send_frame env m t h tx p e pre (r\<lparr>rp_tx_counter := c\<rparr>))) = session_of r" for m t h tx p e pre c
    using session_of_io [OF rp_io_send_frame] by (metis rp_io_updates(1) session_of_io)
  then show ?thesis by (simp add: rp_send_heartbeat_def Let_def split_beta session_of_def)
qed

lemma session_of_complete: "session_of (rp_join_complete env r) = session_of r"
  unfolding rp_join_complete_def Let_def session_of_heartbeat by (simp add: session_of_def rp_refresh_can_relay_def)

lemma fragment_sizes_v: "espnow_max_entity_fragment 1470 = 1440" "espnow_max_entity_fragment 250 = 220"
  by code_simp+

lemma session_of_join:
  "session_of (rp_join_session env hdr ack r) =
    (True, True, espnow_crypto_derive_session_key (env_hmac env) (env_crypto env) (jack_bridge_nonce ack) (rp_remote_nonce r),
     if jack_session_flags ack AND ESPNOW_SESSION_FLAG_V2_MTU \<noteq> 0 then 1440 else 220)"
  by (simp add: session_of_def rp_join_session_def rp_update_mtu_from_route_def Let_def fragment_sizes_v)

lemma ack_taken:
  assumes "answer_frame env leaf nonce flags g" and net: "same_network env renv" and "length leaf = 6" "length nonce = 16"
    and r: "rp_leaf_mac r = leaf" "\<not> rp_joined r" "0 < rp_max_hops r"
  shows "session_of (fst (rp_on_espnow_frame renv m g rssi r)) =
    (True, True, espnow_crypto_derive_session_key (bpe_hmac env) (bpe_crypto env) nonce (rp_remote_nonce r),
     if flags AND ESPNOW_SESSION_FLAG_V2_MTU \<noteq> 0 then 1440 else 220)"
proof -
  obtain c stage where g: "g = bp_frame_bytes env None (bp_header (packet_code PKT_JOIN_ACK) bp_down_hops leaf c)
      (c_enc espnow_join_ack_codec (accepting_ack stage nonce flags))"
    using assms(1) by (auto simp: answer_frame_def)
  define hdr where "hdr = bp_header (packet_code PKT_JOIN_ACK) bp_down_hops leaf c"
  define ack where "ack = accepting_ack stage nonce flags"
  let ?p = "c_enc espnow_join_ack_codec ack"
  let ?h = "hdr\<lparr>fh_psk_tag := bp_net_tag env hdr ?p\<rparr>"
  have fits: "c_fits espnow_join_ack_codec ack" using assms(4) by (simp add: ack_def accepting_ack_def)
  have w: "c_width espnow_join_ack_codec \<le> 100" by code_simp
  have len: "length ?p = c_width espnow_join_ack_codec" using jack.enc_length [OF fits] by simp
  have ok: "bp_hdr_ok hdr" using assms(3) by (simp add: hdr_def)
  have g': "g = bp_frame_bytes env None hdr ?p" by (simp add: g hdr_def ack_def)
  have parsed: "rp_parse_frame g = Some (?h, ?p, None, zero_mac)"
    unfolding g' using rp_parse_frame_built [OF ok, of env None ?p] net w len
    by (simp add: hdr_def is_valid_packet_type_def is_encrypted_packet_def hops_make_def same_network_def)
  obtain e h where d: "rp_on_espnow_frame renv m g rssi r
      = rp_dispatch renv m ?h ?p None rssi (r\<lparr>rp_parent_link_rssi_ema := e, rp_hops_to_bridge := h\<rparr>)"
    by (rule rp_frame_dispatched [OF parsed rp_validate_psk_built [OF ok net]])
      (use r in \<open>auto simp: hdr_def hops_make_def hops_count_def is_encrypted_packet_def\<close>)
  let ?r = "r\<lparr>rp_parent_link_rssi_ema := e, rp_hops_to_bridge := h\<rparr>"
  have disp: "rp_dispatch renv m ?h ?p None rssi ?r = rp_handle_join_ack renv ?h ?p ?r"
    by (simp add: rp_dispatch_def Let_def hdr_def)
  have dec: "c_dec espnow_join_ack_codec ?p = Some ack" by (rule jack.dec_enc_exact [OF fits])
  let ?s = "rp_join_session renv ?h ack ?r"
  have quiet: "session_of (x\<lparr>rp_state_push_enabled := a, rp_state_name := n, rp_joined_started_ms := t\<rparr>) = session_of x"
    "session_of (rp_refresh_can_relay (x\<lparr>rp_normal := a\<rparr>)) = session_of x"
    "session_of (x\<lparr>rp_state_push_enabled := a, rp_waiting_for_state_ack := a', rp_state_retry_count := k, rp_state_name := n, rp_joined_started_ms := t\<rparr>) = session_of x"
    "session_of (rp_mark_all_entities_dirty x) = session_of x" for x :: "'a remote" and a a' n t k
    by (simp_all add: session_of_def rp_refresh_can_relay_def rp_mark_all_entities_dirty_def)
  have acc: "jack_accepted ack = 1" by (simp add: ack_def accepting_ack_def)
  have "session_of (fst (rp_handle_join_ack renv ?h ?p ?r)) = session_of ?s"
    using r(2) len by (simp add: rp_handle_join_ack_def dec acc Let_def quiet session_of_complete)
  then show ?thesis
    unfolding d disp using net by (simp add: session_of_join same_network_def) (simp add: ack_def accepting_ack_def)
qed

section \<open>Properties\<close>

text \<open>
  C4: The two ends of a join agree. A remote that has no session sends a JOIN; the bridge, free to join this leaf, takes the frame and
  accepts; the remote hears the first frame of the answer. Then both have a valid session key, the same one. They
  cut values by the same fragment size when the remote announced long frames or the bridge does not offer them;
  otherwise the remote takes long frames because the bridge offers them, while the bridge goes by short ones.
\<close>

theorem join_agrees:
  assumes net: "same_network env renv" "same_network env renv'" and radio: "bpe_send env = Some send" and nonce: "length (bpe_nonce env) = 16"
    and remote: "length (rp_leaf_mac r) = 6" "length (rp_remote_nonce r) = 16" "\<forall>x. length (env_sha256 renv x) = 32" "\<not> rp_joined r" "0 < rp_max_hops r"
    and join: "rp_send_join renv r = (r1, True)" "(mac, f) = last (rp_sent r1)"
    and bridge: "bp_joining_in_progress b \<longrightarrow> bp_joining_leaf_mac b = rp_leaf_mac r"
      "\<forall>s. bp_get_session (rp_leaf_mac r) b = Some s \<longrightarrow> \<not> bs_join_in_progress s"
    and taken: "bp_on_espnow_frame env m f rssi b = (b1, True)"
    and heard: "g = snd (bp_sent b1 ! length (bp_sent b))" "r2 = fst (rp_on_espnow_frame renv' m' g rssi' r1)"
  shows "\<exists>s. bp_get_session (rp_leaf_mac r) b1 = Some s \<and> rp_joined r2 \<and> rp_session_key_valid r2 \<and> bs_session_key_valid s
    \<and> rp_session_key r2 = bs_session_key s
    \<and> rp_max_entity_fragment r2 = (if bp_bridge_session_flags b AND ESPNOW_SESSION_FLAG_V2_MTU \<noteq> 0 then 1440 else 220)
    \<and> bs_max_entity_fragment s = (if rp_local_session_flags r AND ESPNOW_SESSION_FLAG_V2_MTU \<noteq> 0
        \<and> bp_bridge_session_flags b AND ESPNOW_SESSION_FLAG_V2_MTU \<noteq> 0 then 1440 else 220)"
proof -
  let ?L = "rp_leaf_mac r"
  define hdr where "hdr = bp_header (packet_code PKT_JOIN) (rp_up_hops r) ?L (rp_tx_counter r)"
  define j where "j = join_of renv r"
  let ?p = "c_enc espnow_join_codec j"
  let ?h = "hdr\<lparr>fh_psk_tag := bp_net_tag env hdr ?p\<rparr>"
  have fits: "c_fits espnow_join_codec j" using remote(2,3) by (simp add: j_def join_of_def rp_compute_schema_hash_def)
  have w: "c_width espnow_join_codec \<le> 100" by code_simp
  have len: "length ?p = c_width espnow_join_codec" using join.enc_length [OF fits] by simp
  have f: "f = bp_frame_bytes env None hdr ?p" using join_sent(1) [OF join(1) net(1)] join(2) by (simp add: hdr_def j_def)
  have ok: "bp_hdr_ok hdr" using remote(1) by (simp add: hdr_def)
  have hop: "fh_hop_count hdr AND ESPNOW_HOPS_PARENT_CHECK_BIT = 0"
  proof -
    have "hops_make ESPNOW_HOPS_DIR_UP x AND 64 = 0" for x
    proof (rule bit_word_eqI)
      fix n :: nat assume "n < LENGTH(8)"
      then have "n \<in> {0, 1, 2, 3, 4, 5, 6, 7}" by auto
      then show "bit (hops_make ESPNOW_HOPS_DIR_UP x AND 64) n = bit 0 n" by (auto simp: hops_make_def bit_simps)
    qed
    then show ?thesis by (simp add: hdr_def)
  qed
  have p: "bp_parse_frame env f = Some (?h, ?p, None, replicate 6 0)"
    unfolding f using bp_parse_frame_built [OF ok, of env None ?p] net(1) w len hop
    by (simp add: hdr_def is_valid_packet_type_def is_encrypted_packet_def same_network_def)
  have "bp_handle_join env m ?h ?p rssi b = (b1, True)"
    using taken hop by (simp add: bp_on_espnow_frame_def p Let_def hdr_def)
  moreover have "fh_leaf_mac ?h = ?L" by (simp add: hdr_def)
  ultimately obtain s g' rest where s: "bp_get_session ?L b1 = Some s" "bs_session_key_valid s"
      "bs_session_key s = espnow_crypto_derive_session_key (bpe_hmac env) (bpe_crypto env) (bpe_nonce env) (join_remote_nonce j)"
      "bs_max_entity_fragment s = (if join_session_flags j AND ESPNOW_SESSION_FLAG_V2_MTU \<noteq> 0
        \<and> bp_bridge_session_flags b AND ESPNOW_SESSION_FLAG_V2_MTU \<noteq> 0 then 1440 else 220)"
      "bp_sent b1 = bp_sent b @ (m, g') # rest" "answer_frame env ?L (bpe_nonce env) (bp_bridge_session_flags b) g'"
    using join_answered [OF _ radio join.dec_enc_exact [OF fits], of m ?h rssi b b1] bridge by metis
  have g: "g = g'" by (simp add: heard(1) s(5))
  have "session_of r2 = (True, True, bs_session_key s, if bp_bridge_session_flags b AND ESPNOW_SESSION_FLAG_V2_MTU \<noteq> 0 then 1440 else 220)"
    unfolding heard(2) g
    using ack_taken [OF s(6) net(2) remote(1) nonce, of r1 m' rssi'] join_sent(2-5) [OF join(1) net(1)] remote(4,5) s(3)
    by (simp add: j_def join_of_def)
  then show ?thesis using s by (auto simp: session_of_def j_def join_of_def)
qed

text \<open>A remote without entities that the bridge knows from before, so that the first answer ends the join.\<close>

definition joiner_env :: "unit ofh rp_env" where
  "joiner_env = demo_env\<lparr>env_send := Some (\<lambda>_ _ _. True)\<rparr>"

definition joiner :: "unit ofh remote" where
  "joiner = demo_remote\<lparr>rp_remote_nonce := replicate 16 8, rp_local_session_flags := 1, rp_parent_valid := True,
     rp_parent_mac := [3, 0, 0, 0, 0, 1], rp_best_parent := (rp_best_parent demo_remote)\<lparr>dc_valid := True\<rparr>\<rparr>"

definition knowing_bridge :: bp where
  "knowing_bridge = BridgeProtocol_new\<lparr>bp_bridge_session_flags := 1,
     bp_schema_hash_cache := [(mac_hex (Some demo_mac), replicate 32 2)]\<rparr>"

definition joiner_frame :: bytes where
  "joiner_frame = snd (last (rp_sent (fst (rp_send_join joiner_env joiner))))"

theorem join_agrees_witness:
  "\<exists>r1 b1 r2 s. rp_send_join joiner_env joiner = (r1, True)
     \<and> bp_on_espnow_frame demo_sender demo_mac joiner_frame (- 50) knowing_bridge = (b1, True)
     \<and> r2 = fst (rp_on_espnow_frame joiner_env [3, 0, 0, 0, 0, 1] (snd (bp_sent b1 ! 0)) (- 50) r1)
     \<and> bp_get_session demo_mac b1 = Some s \<and> rp_session_key r2 = bs_session_key s
     \<and> rp_max_entity_fragment r2 = 1440 \<and> bs_max_entity_fragment s = 1440"
proof -
  have "snd (rp_send_join joiner_env joiner)" by code_simp
  then obtain r1 where r1: "rp_send_join joiner_env joiner = (r1, True)" by (metis prod.collapse)
  have "snd (bp_on_espnow_frame demo_sender demo_mac joiner_frame (- 50) knowing_bridge)" by code_simp
  then obtain b1 where b1: "bp_on_espnow_frame demo_sender demo_mac joiner_frame (- 50) knowing_bridge = (b1, True)" by (metis prod.collapse)
  have net: "same_network demo_sender joiner_env"
    by (simp add: same_network_def demo_sender_def joiner_env_def demo_env_def hmac32_def)
  have fields: "rp_leaf_mac joiner = demo_mac" "length (rp_remote_nonce joiner) = 16" "\<not> rp_joined joiner" "0 < rp_max_hops joiner"
    "rp_local_session_flags joiner = 1" "bp_joining_in_progress knowing_bridge = False" "bp_get_session demo_mac knowing_bridge = None"
    "bp_sent knowing_bridge = []" "bp_bridge_session_flags knowing_bridge = 1"
    by code_simp+
  have radio: "bpe_send demo_sender = Some (\<lambda>_ _ _. True)" "length (bpe_nonce demo_sender) = 16" "\<forall>x. length (env_sha256 joiner_env x) = 32"
    by (simp_all add: demo_sender_def joiner_env_def demo_env_def)
  have "(fst (last (rp_sent r1)), joiner_frame) = last (rp_sent r1)" by (simp add: joiner_frame_def r1)
  from join_agrees [where m' = "[3, 0, 0, 0, 0, 1]" and rssi' = "- 50",
      OF net net radio(1,2) _ fields(2) radio(3) fields(3,4) r1 this _ _ b1 refl refl] fields r1 b1
  show ?thesis by auto
qed

end
