(* ===== verification/ProtocolSpec.thy ===== *)
theory ProtocolSpec
  imports Delivery
begin

text \<open>
  Where the code and the specification of the radio protocol (\<^verbatim>\<open>docs/esptree_radio_v3_spec.md\<close>)
  meet or part: what a relay does to the frames it passes on, and which DEAUTH a remote obeys.
\<close>

section \<open>Relaying\<close>

lemma header_of_frame:
  assumes "rp_parse_frame f = Some (hdr, payload, tag, parent)"
  defines "pc \<equiv> fh_hop_count hdr AND ESPNOW_HOPS_PARENT_CHECK_BIT \<noteq> 0"
  shows "bp_hdr_ok hdr" and "take 17 f = c_enc espnow_frame_header_codec hdr" and "17 \<le> length f"
    and "drop (17 + (if pc then 6 else 0)) f = payload @ (case tag of None \<Rightarrow> [] | Some t \<Rightarrow> take 8 t)"
proof -
  have dec: "c_dec espnow_frame_header_codec f = Some hdr"
    using assms(1) by (auto simp: rp_parse_frame_def Let_def split: option.splits if_splits)
  then obtain rest where rest: "f = c_enc espnow_frame_header_codec hdr @ rest" "c_fits espnow_frame_header_codec hdr"
    by (auto simp: fh.dec_iff)
  then show ok: "bp_hdr_ok hdr" by (simp add: bp_hdr_ok_def)
  have l: "length (c_enc espnow_frame_header_codec hdr) = 17" using fh.enc_length [OF rest(2)] by simp
  show "take 17 f = c_enc espnow_frame_header_codec hdr" "17 \<le> length f" using l by (simp_all add: rest(1))
  show "drop (17 + (if pc then 6 else 0)) f = payload @ (case tag of None \<Rightarrow> [] | Some t \<Rightarrow> take 8 t)"
  proof -
    have split: "drop k f = take (length f - (k + 8)) (drop k f) @ drop (length f - 8) f" if "8 \<le> length f - k" for k
    proof -
      have "drop (length f - 8) f = drop (length f - (k + 8)) (drop k f)" using that by simp
      then show ?thesis by (simp only: append_take_drop_id)
    qed
    show ?thesis
      using assms(1) split [of 17] split [of 23] unfolding pc_def by (auto simp: rp_parse_frame_def Let_def dec split: if_splits)
  qed
qed

lemma retagged_header:
  assumes "bp_hdr_ok hdr" and "hmac32 (env_hmac env)" and "rp_validate_psk env hdr payload"
  shows "c_enc espnow_frame_header_codec (hdr\<lparr>fh_hop_count := h, fh_psk_tag := espnow_crypto_psk_tag (env_hmac env) (env_crypto env)
      (c_enc espnow_frame_header_codec (hdr\<lparr>fh_hop_count := h\<rparr>)) payload\<rparr>)
    = (c_enc espnow_frame_header_codec hdr)[1 := h]"
proof -
  have core: "length (hdr_core hdr) = 11" "hdr_core (hdr\<lparr>fh_hop_count := h\<rparr>) = hdr_core hdr"
    "hdr_core (hdr\<lparr>fh_hop_count := h, fh_psk_tag := t\<rparr>) = hdr_core hdr" for t
    using assms(1) by simp (simp_all add: hdr_core_def)
  have ok: "bp_hdr_ok (hdr\<lparr>fh_hop_count := h\<rparr>)" using assms(1) by (simp add: bp_hdr_ok_def)
  have tag: "espnow_crypto_psk_tag (env_hmac env) (env_crypto env) (c_enc espnow_frame_header_codec (hdr\<lparr>fh_hop_count := h\<rparr>)) payload
      = espnow_crypto_psk_tag (env_hmac env) (env_crypto env) (c_enc espnow_frame_header_codec hdr) payload"
    using enc_hdr [OF ok] enc_hdr [OF assms(1)] core by (simp add: espnow_crypto_psk_tag_def tag_data_core)
  have "length (fh_psk_tag hdr) = 4" using assms(1) by (simp add: bp_hdr_ok_def)
  then have "fh_psk_tag hdr = espnow_crypto_psk_tag (env_hmac env) (env_crypto env) (c_enc espnow_frame_header_codec hdr) payload"
    using assms(2,3) by (simp add: rp_validate_psk_def verify_psk_tag_iff)
  then show ?thesis using enc_hdr [OF ok] enc_hdr [OF assms(1)] core tag by simp
qed

text \<open>
  The hop byte of a relayed frame as a number: the direction and parent bits (the two highest) stay,
  the two reserved bits are cleared, and the count in the four lowest bits grows by \<open>delta\<close>.
\<close>

lemma forwarded_hops_bytes:
  "list_all (\<lambda>n. unat (rp_forwarded_hops (of_nat n) 0) = n div 64 * 64 + n mod 16
    \<and> unat (rp_forwarded_hops (of_nat n) 1) = n div 64 * 64 + (n mod 16 + 1) mod 16) [0..<256]"
  by code_simp

lemma forwarded_hops_value:
  "unat (rp_forwarded_hops hc 0) = unat hc div 64 * 64 + unat hc mod 16"
  "unat (rp_forwarded_hops hc 1) = unat hc div 64 * 64 + (unat hc mod 16 + 1) mod 16"
proof -
  have "unat hc \<in> set [0..<256]" by simp
  then have "unat (rp_forwarded_hops (of_nat (unat hc)) 0) = unat hc div 64 * 64 + unat hc mod 16
      \<and> unat (rp_forwarded_hops (of_nat (unat hc)) 1) = unat hc div 64 * 64 + (unat hc mod 16 + 1) mod 16"
    using forwarded_hops_bytes by (simp only: list_all_iff)
  then show "unat (rp_forwarded_hops hc 0) = unat hc div 64 * 64 + unat hc mod 16"
    "unat (rp_forwarded_hops hc 1) = unat hc div 64 * 64 + (unat hc mod 16 + 1) mod 16" by simp_all
qed

section \<open>Properties\<close>

text \<open>
  C20: A relay changes nothing but the hop byte. Of a frame of its network that it passes on, the next node gets the
  same bytes except for the hop byte and the parent's address, which is cleared; so the
  session tag and the ciphertext arrive as the sender made them. In the hop byte the direction and the
  parent bit (bits 7 and 6) stay and the reserved bits 5 and 4 are cleared; the count in the four
  lowest bits stays as it is upstream (the specification says that a relay increments it) and grows
  by one, modulo 16, downstream.
\<close>

theorem relay_changes_hop_byte:
  assumes "rp_parse_frame f = Some (hdr, payload, tag, parent)" and "rp_validate_psk env hdr payload" and "hmac32 (env_hmac env)"
    and "rp_forward_packet env hdr payload tag s = (s', True)"
  defines "pc \<equiv> fh_hop_count hdr AND ESPNOW_HOPS_PARENT_CHECK_BIT \<noteq> 0"
  shows "\<exists>mac h. rp_sent s' = rp_sent s @ [(mac, (take 17 f)[1 := h] @ (if pc then zero_mac else []) @ drop (if pc then 23 else 17) f)]
    \<and> (if hops_is_upstream (fh_hop_count hdr) then mac = rp_parent_mac s \<and> unat h = unat (fh_hop_count hdr) div 64 * 64 + unat (fh_hop_count hdr) mod 16
       else unat h = unat (fh_hop_count hdr) div 64 * 64 + (unat (fh_hop_count hdr) mod 16 + 1) mod 16
         \<and> (\<exists>route. find_route (fh_leaf_mac hdr) (rp_routes s) = Some route \<and> mac = rr_next_hop_mac route))"
proof -
  note fr = header_of_frame [OF assms(1)]
  have forwarded: "rp_sent (fst (rp_forward_frame env mac hdr payload tag d s1)) = rp_sent s1 @
      [(mac, (take 17 f)[1 := rp_forwarded_hops (fh_hop_count hdr) d] @ (if pc then zero_mac else []) @ drop (if pc then 23 else 17) f)]"
    if "snd (rp_forward_frame env mac hdr payload tag d s1)" for mac d s1
    using that retagged_header [OF fr(1) assms(3,2), of "rp_forwarded_hops (fh_hop_count hdr) d"] fr(2,4)
    by (cases "env_send env"; cases pc) (simp_all add: rp_forward_frame_def Let_def pc_def)
  show ?thesis
  proof (cases "hops_is_upstream (fh_hop_count hdr)")
    case True
    then show ?thesis
      using assms(4) forwarded [of "rp_parent_mac s" 0 s] by (auto simp: rp_forward_packet_def forwarded_hops_value split: if_splits)
  next
    case False
    then obtain route where route: "find_route (fh_leaf_mac hdr) (rp_routes s) = Some route"
        "rp_forward_frame env (rr_next_hop_mac route) hdr payload tag 1 (rp_refresh_route env (fh_leaf_mac hdr) (rr_next_hop_mac route) s) = (s', True)"
      using assms(4) by (auto simp: rp_forward_packet_def split: option.splits)
    moreover have "rp_sent (rp_refresh_route env l m s) = rp_sent s" for l m by (simp add: rp_refresh_route_def Let_def)
    ultimately show ?thesis
      using False forwarded [of "rr_next_hop_mac route" 1 "rp_refresh_route env (fh_leaf_mac hdr) (rr_next_hop_mac route) s"] by (auto simp: forwarded_hops_value)
  qed
qed

definition relay_env :: "unit ofh rp_env" where
  "relay_env = demo_env\<lparr>env_send := Some (\<lambda>_ _ _. True)\<rparr>"

definition relay_remote :: "unit ofh remote" where
  "relay_remote = demo_remote\<lparr>rp_parent_valid := True, rp_parent_mac := [3, 0, 0, 0, 0, 1]\<rparr>"

definition relayed_frame :: bytes where
  "relayed_frame = [3, 66, 4] @ [7, 0, 0, 0, 0, 0] @ [5, 0, 0, 0] @ [1, 1, 1, 1] @ [9, 9, 9, 9, 9, 9] @ replicate 12 8"

theorem relay_changes_hop_byte_witness:
  "\<exists>s' h. rp_forward_packet relay_env \<lparr>fh_protocol_version = 3, fh_hop_count = 66, fh_packet_type = 4, fh_leaf_mac = [7, 0, 0, 0, 0, 0],
       fh_tx_counter = 5, fh_psk_tag = replicate 4 1\<rparr> (replicate 4 8) (Some (replicate 8 8)) relay_remote = (s', True)
     \<and> rp_sent s' = [([3, 0, 0, 0, 0, 1], [3, h, 4] @ [7, 0, 0, 0, 0, 0] @ [5, 0, 0, 0] @ [1, 1, 1, 1] @ zero_mac @ replicate 12 8)]
     \<and> unat h = 66"
proof -
  let ?h = "\<lparr>fh_protocol_version = 3, fh_hop_count = 66, fh_packet_type = 4, fh_leaf_mac = [7, 0, 0, 0, 0, 0],
       fh_tx_counter = 5, fh_psk_tag = replicate 4 1\<rparr> :: espnow_frame_header"
  have p: "rp_parse_frame relayed_frame = Some (?h, replicate 4 8, Some (replicate 8 8), [9, 9, 9, 9, 9, 9])" by code_simp
  have v: "rp_validate_psk relay_env ?h (replicate 4 8)" by code_simp
  have "snd (rp_forward_packet relay_env ?h (replicate 4 8) (Some (replicate 8 8)) relay_remote)" by code_simp
  then obtain s' where f: "rp_forward_packet relay_env ?h (replicate 4 8) (Some (replicate 8 8)) relay_remote = (s', True)"
    by (metis prod.collapse)
  have h: "hmac32 (env_hmac relay_env)" by (simp add: relay_env_def demo_env_def hmac32_def)
  have r: "rp_sent relay_remote = []" "rp_parent_mac relay_remote = [3, 0, 0, 0, 0, 1]" by code_simp+
  have up: "hops_is_upstream 66" "(66 :: u8) AND 64 \<noteq> 0" by code_simp+
  have b: "(take 17 relayed_frame)[1 := x] = [3, x, 4] @ [7, 0, 0, 0, 0, 0] @ [5, 0, 0, 0] @ [1, 1, 1, 1]"
      "drop 23 relayed_frame = replicate 12 8" for x
    by (simp_all add: relayed_frame_def eval_nat_numeral)
  show ?thesis
    using relay_changes_hop_byte [OF p v h f] f by (auto simp: r up b b(1) [unfolded One_nat_def])
qed

text \<open>
  C22: Any DEAUTH ends the session. A remote that gets a DEAUTH of its network for itself gives its session up, whatever the DEAUTH
  says it answers, also when no outstanding request matches: the specification has it dropped then. So one that was recorded, or made
  by any other node of the network, does.
\<close>

theorem deauth_needs_no_request:
  assumes "same_network env renv" and "length (rp_leaf_mac r) = 6" and "0 < rp_max_hops r"
    and "length payload = c_width espnow_deauth_codec"
    and "r' = fst (rp_on_espnow_frame renv m
      (bp_frame_bytes env None (bp_header (packet_code PKT_DEAUTH) bp_down_hops (rp_leaf_mac r) c) payload) rssi r)"
  shows "\<not> rp_joined r' \<and> \<not> rp_session_key_valid r' \<and> \<not> rp_normal r'"
proof -
  define hdr where "hdr = bp_header (packet_code PKT_DEAUTH) bp_down_hops (rp_leaf_mac r) c"
  let ?h = "hdr\<lparr>fh_psk_tag := bp_net_tag env hdr payload\<rparr>"
  have ok: "bp_hdr_ok hdr" using assms(2) by (simp add: hdr_def)
  have w: "c_width espnow_deauth_codec = 10" by code_simp
  have p: "rp_parse_frame (bp_frame_bytes env None hdr payload) = Some (?h, payload, None, zero_mac)"
    using rp_parse_frame_built [OF ok, of env None payload] assms(1,4) w
    by (simp add: hdr_def is_valid_packet_type_def is_encrypted_packet_def hops_make_def same_network_def)
  obtain e h where d: "rp_on_espnow_frame renv m (bp_frame_bytes env None hdr payload) rssi r
      = rp_dispatch renv m ?h payload None rssi (r\<lparr>rp_parent_link_rssi_ema := e, rp_hops_to_bridge := h\<rparr>)"
    by (rule rp_frame_dispatched [OF p rp_validate_psk_built [OF ok assms(1)]])
      (use assms(3) in \<open>auto simp: hdr_def hops_make_def hops_count_def is_encrypted_packet_def\<close>)
  let ?r = "r\<lparr>rp_parent_link_rssi_ema := e, rp_hops_to_bridge := h\<rparr>"
  have "rp_dispatch renv m ?h payload None rssi ?r = rp_handle_deauth renv ?h payload ?r"
    by (simp add: rp_dispatch_def Let_def hdr_def)
  then have r': "r' = fst (rp_handle_deauth renv ?h payload ?r)" unfolding assms(5) hdr_def [symmetric] d by simp
  define s where "s = (rp_clear_session_state renv True ?r)
    \<lparr>rp_discovering := True, rp_sweep_complete := True, rp_fast_rejoin := False, rp_discovery_resume_normal_after_success := False,
     rp_discovery_current_channel_only := True, rp_remote_nonce := env_nonce renv 1\<rparr>"
  have none: "\<not> rp_joined (rp_clear_session_state env b x) \<and> \<not> rp_session_key_valid (rp_clear_session_state env b x) \<and> \<not> rp_normal (rp_clear_session_state env b x)"
    for env b and x :: "'a remote"
    by (simp add: rp_clear_session_state_def Let_def rp_refresh_can_relay_def)
  have s: "\<not> rp_joined s \<and> \<not> rp_session_key_valid s \<and> \<not> rp_normal s" using none by (simp add: s_def)
  have join: "rp_joined (fst (rp_send_join renv x)) = rp_joined x" "rp_session_key_valid (fst (rp_send_join renv x)) = rp_session_key_valid x"
    "rp_normal (fst (rp_send_join renv x)) = rp_normal x" for x
    by (simp_all add: rp_send_join_def Let_def split_beta rp_io_fields [OF rp_io_send_frame])
  have start: "\<not> rp_joined (rp_start_discovery_cycle renv False x) \<and> \<not> rp_session_key_valid (rp_start_discovery_cycle renv False x)
      \<and> \<not> rp_normal (rp_start_discovery_cycle renv False x)" for x
    using none by (simp add: rp_start_discovery_cycle_def Let_def rp_tune_def)
  have "rp_should_handle_locally ?h ?r" by (simp add: rp_should_handle_locally_def hdr_def)
  then have "r' = (case (if rp_parent_valid ?r \<and> dc_valid (rp_best_parent ?r) then rp_send_join renv s else (s, False)) of (s, joining) \<Rightarrow>
      if joining then s\<lparr>rp_state_name := RS_JOINING\<rparr> else rp_start_discovery_cycle renv False s)"
    using assms(4) unfolding r' rp_handle_deauth_def Let_def s_def [symmetric] by (simp add: split_beta)
  then show ?thesis using s join [of s] start by (auto simp: split_beta)
qed

text \<open>A joined remote without outstanding requests, and a DEAUTH whose fields are all zero.\<close>

theorem deauth_needs_no_request_witness:
  "\<exists>env :: bp_env. rp_joined demo_receiver \<and> \<not> rp_request_matches_outstanding (replicate 10 0) demo_receiver
     \<and> \<not> rp_joined (fst (rp_on_espnow_frame demo_env [3, 0, 0, 0, 0, 1]
         (bp_frame_bytes env None (bp_header (packet_code PKT_DEAUTH) bp_down_hops (rp_leaf_mac demo_receiver) 77) (replicate 10 0)) (- 40) demo_receiver))"
proof (intro exI conjI)
  show "rp_joined demo_receiver" "\<not> rp_request_matches_outstanding (replicate 10 0) demo_receiver" by code_simp+
  have "c_width espnow_deauth_codec = 10" by code_simp
  then show "\<not> rp_joined (fst (rp_on_espnow_frame demo_env [3, 0, 0, 0, 0, 1]
       (bp_frame_bytes demo_sender None (bp_header (packet_code PKT_DEAUTH) bp_down_hops (rp_leaf_mac demo_receiver) 77) (replicate 10 0)) (- 40) demo_receiver))"
    using deauth_needs_no_request [OF demo_network(1) _ _ _ refl, of demo_receiver "replicate 10 0"] demo_receiver_fields by simp
qed

end
