(* ===== verification/RuntimePb.thy ===== *)
theory RuntimePb
  imports Prelude
begin

text \<open>
  The binary messages of the bridge's runtime interface
  (\<^verbatim>\<open>esp_tree_bridge/bridge_api_proto_messages.cpp\<close>): a hand-written writer and reader of the protobuf
  wire format, the reader of each request and the encoder of each answer. A \<^verbatim>\<open>Writer\<close> appends to the
  vector it was made for, so its operations are functions on that vector; a builder is one too.
  A pointer into the message with a length is the bytes it points at, \<open>None\<close> where it is null. What a reader
  leaves in its output when it returns false is not used by any caller and not kept. The text of a
  \<^verbatim>\<open>double\<close> (\<^verbatim>\<open>std::to_string\<close>) is the argument \<open>double_text\<close> of its eight bytes.
\<close>

section \<open>Constants\<close>

definition ascii :: "string \<Rightarrow> bytes" where
  "ascii s = map of_char s"

abbreviation (input) kRuntimeApiVersion :: u32 where "kRuntimeApiVersion \<equiv> 2"
abbreviation (input) kRuntimeProtocol :: bytes where "kRuntimeProtocol \<equiv> ascii ''esp-tree-pb''"
abbreviation (input) kRuntimeProtocolVersionLabel :: bytes where "kRuntimeProtocolVersionLabel \<equiv> ascii ''v2''"
abbreviation (input) kRuntimeServerNonceBytes :: nat where "kRuntimeServerNonceBytes \<equiv> 16"
abbreviation (input) kRuntimeHmacBytes :: nat where "kRuntimeHmacBytes \<equiv> 32"
abbreviation (input) kRuntimeMaxFrameBytes :: nat where "kRuntimeMaxFrameBytes \<equiv> 65536"
abbreviation (input) kRuntimeHeartbeatIntervalMs :: u32 where "kRuntimeHeartbeatIntervalMs \<equiv> 30000"

abbreviation (input) PB_AUTH_CHALLENGE :: u32 where "PB_AUTH_CHALLENGE \<equiv> 10"
abbreviation (input) PB_AUTH_RESPONSE :: u32 where "PB_AUTH_RESPONSE \<equiv> 11"
abbreviation (input) PB_AUTH_OK :: u32 where "PB_AUTH_OK \<equiv> 12"
abbreviation (input) PB_AUTH_FAILED :: u32 where "PB_AUTH_FAILED \<equiv> 13"
abbreviation (input) PB_CLIENT_HELLO :: u32 where "PB_CLIENT_HELLO \<equiv> 14"
abbreviation (input) PB_COMMAND_REQUEST :: u32 where "PB_COMMAND_REQUEST \<equiv> 17"
abbreviation (input) PB_CONFIG_COMMAND_REQUEST :: u32 where "PB_CONFIG_COMMAND_REQUEST \<equiv> 19"
abbreviation (input) PB_PING :: u32 where "PB_PING \<equiv> 21"
abbreviation (input) PB_PONG :: u32 where "PB_PONG \<equiv> 22"
abbreviation (input) PB_STATE_RECEIPT :: u32 where "PB_STATE_RECEIPT \<equiv> 23"
abbreviation (input) PB_OTA_START_REQUEST :: u32 where "PB_OTA_START_REQUEST \<equiv> 30"
abbreviation (input) PB_OTA_CHUNK_BATCH :: u32 where "PB_OTA_CHUNK_BATCH \<equiv> 31"
abbreviation (input) PB_OTA_ABORT_REQUEST :: u32 where "PB_OTA_ABORT_REQUEST \<equiv> 32"
abbreviation (input) PB_OTA_ACCEPTED :: u32 where "PB_OTA_ACCEPTED \<equiv> 33"
abbreviation (input) PB_OTA_CHUNK_REQUEST :: u32 where "PB_OTA_CHUNK_REQUEST \<equiv> 34"
abbreviation (input) PB_OTA_STATUS :: u32 where "PB_OTA_STATUS \<equiv> 35"
abbreviation (input) PB_OTA_ABORTED :: u32 where "PB_OTA_ABORTED \<equiv> 36"
abbreviation (input) PB_ERROR :: u32 where "PB_ERROR \<equiv> 99"
abbreviation (input) OTA_STATE_ANNOUNCING :: u32 where "OTA_STATE_ANNOUNCING \<equiv> 2"

section \<open>The writer\<close>

lemma drop_bit_7_less: "0x80 \<le> (v :: u64) \<Longrightarrow> unat (drop_bit 7 v) < unat v"
  by (simp add: unat_drop_bit_eq drop_bit_nat_def word_le_nat_alt)

function raw_varint :: "u64 \<Rightarrow> bytes \<Rightarrow> bytes" where
  "raw_varint val out =
     (if 0x80 \<le> val then raw_varint (drop_bit 7 val) (out @ [ucast (val OR 0x80)])
      else out @ [ucast val])"
  by pat_completeness auto

termination
  by (relation "measure (\<lambda>(v, _). unat v)") (auto intro: drop_bit_7_less)

declare raw_varint.simps [simp del]

definition pb_tag :: "u32 \<Rightarrow> u8 \<Rightarrow> bytes \<Rightarrow> bytes" where
  "pb_tag fld wire_type = raw_varint (push_bit 3 (ucast fld) OR ucast wire_type)"

definition pb_varint :: "u32 \<Rightarrow> u64 \<Rightarrow> bytes \<Rightarrow> bytes" where
  "pb_varint fld val out = raw_varint val (pb_tag fld 0 out)"

definition zigzag32 :: "32 word \<Rightarrow> u64" where
  "zigzag32 val = ucast (push_bit 1 val XOR signed_drop_bit 31 val)"

definition zigzag64 :: "64 word \<Rightarrow> u64" where
  "zigzag64 val = push_bit 1 val XOR signed_drop_bit 63 val"

definition pb_sint32 :: "u32 \<Rightarrow> 32 word \<Rightarrow> bytes \<Rightarrow> bytes" where
  "pb_sint32 fld val out = raw_varint (zigzag32 val) (pb_tag fld 0 out)"

definition pb_sint64 :: "u32 \<Rightarrow> 64 word \<Rightarrow> bytes \<Rightarrow> bytes" where
  "pb_sint64 fld val out = raw_varint (zigzag64 val) (pb_tag fld 0 out)"

definition pb_boolean :: "u32 \<Rightarrow> bool \<Rightarrow> bytes \<Rightarrow> bytes" where
  "pb_boolean fld val = pb_varint fld (if val then 1 else 0)"

definition pb_fixed64 :: "u32 \<Rightarrow> u64 \<Rightarrow> bytes \<Rightarrow> bytes" where
  "pb_fixed64 fld val out =
     pb_tag fld 1 out @ map (\<lambda>i. ucast (drop_bit (8 * i) val AND 0xFF)) [0..<8]"

definition pb_bytes :: "u32 \<Rightarrow> bytes \<Rightarrow> bytes \<Rightarrow> bytes" where
  "pb_bytes fld data out = raw_varint (of_nat (length data)) (pb_tag fld 2 out) @ data"

definition pb_string :: "u32 \<Rightarrow> bytes \<Rightarrow> bytes \<Rightarrow> bytes" where
  "pb_string fld val out = (if val = [] then out else pb_bytes fld val out)"

definition pb_message :: "u32 \<Rightarrow> (bytes \<Rightarrow> bytes) \<Rightarrow> bytes \<Rightarrow> bytes" where
  "pb_message fld builder out = pb_bytes fld (builder []) out"

definition pb_envelope :: "bytes \<Rightarrow> u32 \<Rightarrow> (bytes \<Rightarrow> bytes) \<Rightarrow> bytes" where
  "pb_envelope request_id msg_field builder =
     pb_message msg_field builder (pb_varint 2 (ucast kRuntimeApiVersion) (pb_string 1 request_id []))"

section \<open>The answers\<close>

definition encode_ota_accepted ::
  "bytes \<Rightarrow> bytes \<Rightarrow> bytes \<Rightarrow> u32 \<Rightarrow> u32 \<Rightarrow> u32 \<Rightarrow> bytes" where
  "encode_ota_accepted request_id job_id target_mac max_chunk_size total_chunks max_chunks_per_batch =
     pb_envelope request_id PB_OTA_ACCEPTED (\<lambda>w.
       pb_varint 5 (ucast max_chunks_per_batch) (pb_varint 4 (ucast total_chunks)
         (pb_varint 3 (ucast max_chunk_size) (pb_string 2 target_mac (pb_string 1 job_id w)))))"

record ota_progress =
  op_chunks_sent :: u32
  op_chunks_confirmed :: u32
  op_current_increment :: u32
  op_total_increments :: u32
  op_retransmit_round :: u32
  op_buffer_size_kb :: u32
  op_percent :: u32

definition encode_ota_chunk_request ::
  "bytes \<Rightarrow> bytes \<Rightarrow> bytes \<Rightarrow> u32 list \<Rightarrow> ota_progress \<Rightarrow> bytes" where
  "encode_ota_chunk_request request_id job_id chunk_request_id seqs p =
     pb_envelope request_id PB_OTA_CHUNK_REQUEST (\<lambda>w.
       pb_message 4 (\<lambda>w. pb_varint 7 (ucast (op_percent p)) (pb_varint 6 (ucast (op_buffer_size_kb p))
           (pb_varint 5 (ucast (op_retransmit_round p)) (pb_varint 4 (ucast (op_total_increments p))
           (pb_varint 3 (ucast (op_current_increment p)) (pb_varint 2 (ucast (op_chunks_confirmed p))
           (pb_varint 1 (ucast (op_chunks_sent p)) w)))))))
         (fold (\<lambda>s. pb_varint 3 (ucast s)) seqs (pb_string 2 chunk_request_id (pb_string 1 job_id w))))"

definition encode_ota_status :: "bytes \<Rightarrow> bytes \<Rightarrow> u32 \<Rightarrow> u32 \<Rightarrow> u32 \<Rightarrow> u32 \<Rightarrow> bytes \<Rightarrow> bytes" where
  "encode_ota_status request_id job_id state percent bytes_received file_size error_detail =
     pb_envelope request_id PB_OTA_STATUS (\<lambda>w.
       pb_string 6 error_detail (pb_varint 5 (ucast file_size) (pb_varint 4 (ucast bytes_received)
         (pb_varint 3 (ucast percent) (pb_varint 2 (ucast state) (pb_string 1 job_id w))))))"

definition encode_ota_aborted :: "bytes \<Rightarrow> bytes \<Rightarrow> bytes \<Rightarrow> bytes" where
  "encode_ota_aborted request_id job_id reason =
     pb_envelope request_id PB_OTA_ABORTED (\<lambda>w. pb_string 2 reason (pb_string 1 job_id w))"

definition error_envelope :: "bytes \<Rightarrow> bytes \<Rightarrow> bytes \<Rightarrow> bytes" where
  "error_envelope request_id code message =
     pb_envelope request_id PB_ERROR (\<lambda>w. pb_string 2 message (pb_string 1 code w))"

definition auth_failed_envelope :: "bytes \<Rightarrow> bytes \<Rightarrow> bytes \<Rightarrow> bytes" where
  "auth_failed_envelope request_id code message =
     pb_envelope request_id PB_AUTH_FAILED (\<lambda>w. pb_string 2 message (pb_string 1 code w))"

section \<open>The reader\<close>

function read_varint_loop :: "bytes \<Rightarrow> nat \<Rightarrow> u8 \<Rightarrow> u64 \<Rightarrow> (nat \<times> u64) option" where
  "read_varint_loop data pos shift out =
     (if pos < length data \<and> shift < 64
      then (let byte = data ! pos;
                out = out OR push_bit (unat shift) (ucast (byte AND 0x7F))
            in if byte AND 0x80 = 0 then Some (Suc pos, out)
               else read_varint_loop data (Suc pos) (shift + 7) out)
      else None)"
  by pat_completeness auto

termination
  by (relation "measure (\<lambda>(d, p, _, _). length d - p)") auto

declare read_varint_loop.simps [simp del]

definition read_varint :: "bytes \<Rightarrow> nat \<Rightarrow> (nat \<times> u64) option" where
  "read_varint data pos = read_varint_loop data pos 0 0"

record pb_field =
  pf_field :: u32
  pf_wire :: u8
  pf_value :: "bytes option"
  pf_varint :: u64

definition read_field :: "bytes \<Rightarrow> nat \<Rightarrow> (nat \<times> pb_field) option" where
  "read_field data pos =
     (case read_varint data pos of None \<Rightarrow> None | Some (pos, tag) \<Rightarrow>
       (let f = \<lparr>pf_field = ucast (drop_bit 3 tag), pf_wire = ucast (tag AND 7), pf_value = None, pf_varint = 0\<rparr> in
        if pf_wire f = 0 then
          (case read_varint data pos of None \<Rightarrow> None | Some (pos, v) \<Rightarrow> Some (pos, f\<lparr>pf_varint := v\<rparr>))
        else if pf_wire f = 1 then
          (if length data < pos + 8 then None
           else Some (pos + 8, f\<lparr>pf_value := Some (take 8 (drop pos data))\<rparr>))
        else if pf_wire f = 2 then
          (case read_varint data pos of None \<Rightarrow> None | Some (pos, n) \<Rightarrow>
             if length data - pos < unat n then None
             else Some (pos + unat n, f\<lparr>pf_value := Some (take (unat n) (drop pos data))\<rparr>))
        else None))"


lemma read_varint_loop_advances: "read_varint_loop data pos shift out = Some (p, v) \<Longrightarrow> pos < p \<and> p \<le> length data"
proof (induction data pos shift out rule: read_varint_loop.induct)
  case (1 data pos shift out)
  note IH = 1(1) [OF _ refl refl]
  show ?case
  proof (cases "pos < length data \<and> shift < 64 \<and> data ! pos AND 0x80 \<noteq> 0")
    case True
    with IH 1(2) show ?thesis
      by (subst (asm) (2) read_varint_loop.simps) (fastforce simp: Let_def)
  next
    case False
    with 1(2) show ?thesis
      by (subst (asm) read_varint_loop.simps) (auto simp: Let_def split: if_splits)
  qed
qed

lemma read_varint_advances: "read_varint data pos = Some (p, v) \<Longrightarrow> pos < p \<and> p \<le> length data"
  unfolding read_varint_def by (rule read_varint_loop_advances)

lemma read_field_advances: "read_field data pos = Some (p, f) \<Longrightarrow> pos < p \<and> p \<le> length data"
  by (auto simp: read_field_def Let_def not_less le_diff_conv2 add.commute split: option.splits if_splits
           dest!: read_varint_advances)

section \<open>The requests\<close>

text \<open>Every reader is this loop over the fields of its message, with its own treatment of a field.\<close>

function parse_fields :: "(pb_field \<Rightarrow> 'a \<Rightarrow> 'a option) \<Rightarrow> bytes \<Rightarrow> nat \<Rightarrow> 'a \<Rightarrow> 'a option" where
  "parse_fields upd data pos out =
     (if pos < length data
      then (case read_field data pos of None \<Rightarrow> None
            | Some (pos', f) \<Rightarrow> (case upd f out of None \<Rightarrow> None | Some out \<Rightarrow> parse_fields upd data pos' out))
      else Some out)"
  by pat_completeness auto

termination
  by (relation "measure (\<lambda>(_, d, p, _). length d - p)") (auto dest!: read_field_advances)

declare parse_fields.simps [simp del]

text \<open>The value of a field of wire type 2.\<close>

definition pf_bytes :: "pb_field \<Rightarrow> bytes" where
  "pf_bytes f = (case pf_value f of None \<Rightarrow> [] | Some v \<Rightarrow> v)"

record ParsedEnvelope =
  pe_request_id :: bytes
  pe_api_version :: u32
  pe_msg_field :: u32
  pe_msg_data :: bytes

definition envelope_field :: "pb_field \<Rightarrow> ParsedEnvelope \<Rightarrow> ParsedEnvelope option" where
  "envelope_field f out = Some (
     if pf_field f = 1 \<and> pf_wire f = 2 then out\<lparr>pe_request_id := pf_bytes f\<rparr>
     else if pf_field f = 2 \<and> pf_wire f = 0 then out\<lparr>pe_api_version := ucast (pf_varint f)\<rparr>
     else if 10 \<le> pf_field f \<and> pf_wire f = 2 then out\<lparr>pe_msg_field := pf_field f, pe_msg_data := pf_bytes f\<rparr>
     else out)"

definition parse_envelope :: "bytes \<Rightarrow> ParsedEnvelope option" where
  "parse_envelope data =
     (case parse_fields envelope_field data 0
             \<lparr>pe_request_id = [], pe_api_version = 0, pe_msg_field = 0, pe_msg_data = []\<rparr> of
        None \<Rightarrow> None
      | Some out \<Rightarrow> if pe_msg_field out \<noteq> 0 then Some out else None)"

record ParsedAuthResponse =
  ar_client_kind :: bytes
  ar_client_name :: bytes
  ar_client_nonce :: bytes
  ar_hmac_sha256 :: bytes

definition auth_response_field :: "pb_field \<Rightarrow> ParsedAuthResponse \<Rightarrow> ParsedAuthResponse option" where
  "auth_response_field f out = Some (
     if pf_wire f \<noteq> 2 then out
     else if pf_field f = 1 then out\<lparr>ar_client_kind := pf_bytes f\<rparr>
     else if pf_field f = 2 then out\<lparr>ar_client_name := pf_bytes f\<rparr>
     else if pf_field f = 3 then out\<lparr>ar_client_nonce := pf_bytes f\<rparr>
     else if pf_field f = 4 then out\<lparr>ar_hmac_sha256 := pf_bytes f\<rparr>
     else out)"

definition parse_auth_response :: "bytes \<Rightarrow> ParsedAuthResponse option" where
  "parse_auth_response data =
     (case parse_fields auth_response_field data 0
             \<lparr>ar_client_kind = [], ar_client_name = [], ar_client_nonce = [], ar_hmac_sha256 = []\<rparr> of
        None \<Rightarrow> None
      | Some out \<Rightarrow> if ar_client_kind out \<noteq> [] \<and> ar_client_nonce out \<noteq> []
                       \<and> length (ar_hmac_sha256 out) = kRuntimeHmacBytes then Some out else None)"

function dec_digits :: "nat \<Rightarrow> bytes" where
  "dec_digits n = (if n < 10 then [of_nat (48 + n)] else dec_digits (n div 10) @ [of_nat (48 + n mod 10)])"
  by pat_completeness auto

termination
  by (relation "measure id") auto

declare dec_digits.simps [simp del]

definition value_to_string :: "(bytes \<Rightarrow> bytes) \<Rightarrow> pb_field \<Rightarrow> bytes" where
  "value_to_string double_text f =
     (if pf_wire f = 0 then dec_digits (unat (pf_varint f))
      else if pf_wire f = 1 \<and> length (pf_bytes f) = 8 then double_text (pf_bytes f)
      else if pf_wire f = 2 then pf_bytes f
      else [])"

record ParsedCommandRequest =
  cr_remote_mac :: bytes
  cr_object_id :: bytes
  cr_command :: bytes
  cr_args :: "(bytes \<times> bytes) list"

definition command_argument_field ::
  "(bytes \<Rightarrow> bytes) \<Rightarrow> pb_field \<Rightarrow> bytes \<times> bytes \<Rightarrow> (bytes \<times> bytes) option" where
  "command_argument_field double_text f arg = Some (
     if pf_field f = 1 \<and> pf_wire f = 2 then (pf_bytes f, snd arg)
     else if 10 \<le> pf_field f then (fst arg, value_to_string double_text f)
     else arg)"

definition command_request_field ::
  "(bytes \<Rightarrow> bytes) \<Rightarrow> pb_field \<Rightarrow> ParsedCommandRequest \<Rightarrow> ParsedCommandRequest option" where
  "command_request_field double_text f out =
     (if pf_wire f = 2 \<and> pf_field f = 1 then Some (out\<lparr>cr_remote_mac := pf_bytes f\<rparr>)
      else if pf_wire f = 2 \<and> pf_field f = 2 then Some (out\<lparr>cr_object_id := pf_bytes f\<rparr>)
      else if pf_wire f = 2 \<and> pf_field f = 3 then Some (out\<lparr>cr_command := pf_bytes f\<rparr>)
      else if pf_wire f = 2 \<and> pf_field f = 4 then
        (case parse_fields (command_argument_field double_text) (pf_bytes f) 0 ([], []) of
           None \<Rightarrow> None | Some arg \<Rightarrow> Some (out\<lparr>cr_args := cr_args out @ [arg]\<rparr>))
      else Some out)"

definition parse_command_request :: "(bytes \<Rightarrow> bytes) \<Rightarrow> bytes \<Rightarrow> ParsedCommandRequest option" where
  "parse_command_request double_text data =
     (case parse_fields (command_request_field double_text) data 0
             \<lparr>cr_remote_mac = [], cr_object_id = [], cr_command = [], cr_args = []\<rparr> of
        None \<Rightarrow> None
      | Some out \<Rightarrow> if cr_remote_mac out \<noteq> [] \<and> cr_object_id out \<noteq> [] \<and> cr_command out \<noteq> []
                    then Some out else None)"

record ParsedConfigCommandRequest =
  cc_remote_mac :: bytes
  cc_command :: bytes
  cc_interval_seconds :: u32
  cc_parent_mac :: bytes
  cc_clear_parent :: bool
  cc_relay_enable :: bool

definition config_command_request_field ::
  "pb_field \<Rightarrow> ParsedConfigCommandRequest \<Rightarrow> ParsedConfigCommandRequest option" where
  "config_command_request_field f out = Some (
     if pf_field f = 1 \<and> pf_wire f = 2 then out\<lparr>cc_remote_mac := pf_bytes f\<rparr>
     else if pf_field f = 2 \<and> pf_wire f = 2 then out\<lparr>cc_command := pf_bytes f\<rparr>
     else if pf_field f = 3 \<and> pf_wire f = 0 then out\<lparr>cc_interval_seconds := ucast (pf_varint f)\<rparr>
     else if pf_field f = 4 \<and> pf_wire f = 2 then out\<lparr>cc_parent_mac := pf_bytes f\<rparr>
     else if pf_field f = 5 \<and> pf_wire f = 0 then out\<lparr>cc_clear_parent := pf_varint f \<noteq> 0\<rparr>
     else if pf_field f = 6 \<and> pf_wire f = 0 then out\<lparr>cc_relay_enable := pf_varint f \<noteq> 0\<rparr>
     else out)"

definition parse_config_command_request :: "bytes \<Rightarrow> ParsedConfigCommandRequest option" where
  "parse_config_command_request data =
     (case parse_fields config_command_request_field data 0
             \<lparr>cc_remote_mac = [], cc_command = [], cc_interval_seconds = 0, cc_parent_mac = [],
              cc_clear_parent = False, cc_relay_enable = False\<rparr> of
        None \<Rightarrow> None
      | Some out \<Rightarrow> if cc_remote_mac out \<noteq> [] \<and> cc_command out \<noteq> [] then Some out else None)"

record ParsedStateReceipt =
  sr_remote_mac :: bytes
  sr_bridge_mac :: bytes
  sr_session_id :: bytes
  sr_state_tx_counter :: u32
  sr_entity_index :: u8

definition state_receipt_field :: "pb_field \<Rightarrow> ParsedStateReceipt \<Rightarrow> ParsedStateReceipt option" where
  "state_receipt_field f out = Some (
     if pf_field f = 1 \<and> pf_wire f = 2 then out\<lparr>sr_remote_mac := pf_bytes f\<rparr>
     else if pf_field f = 2 \<and> pf_wire f = 2 then out\<lparr>sr_bridge_mac := pf_bytes f\<rparr>
     else if pf_field f = 3 \<and> pf_wire f = 2 then out\<lparr>sr_session_id := pf_bytes f\<rparr>
     else if pf_field f = 4 \<and> pf_wire f = 0 then out\<lparr>sr_state_tx_counter := ucast (pf_varint f)\<rparr>
     else if pf_field f = 5 \<and> pf_wire f = 0 then out\<lparr>sr_entity_index := ucast (pf_varint f)\<rparr>
     else out)"

definition parse_state_receipt :: "bytes \<Rightarrow> ParsedStateReceipt option" where
  "parse_state_receipt data =
     (case parse_fields state_receipt_field data 0
             \<lparr>sr_remote_mac = [], sr_bridge_mac = [], sr_session_id = [], sr_state_tx_counter = 0,
              sr_entity_index = 0\<rparr> of
        None \<Rightarrow> None
      | Some out \<Rightarrow> if sr_remote_mac out \<noteq> [] \<and> sr_state_tx_counter out \<noteq> 0 then Some out else None)"

record ParsedOtaStartRequest =
  os_target_mac :: bytes
  os_file_size :: u32
  os_md5 :: bytes
  os_sha256 :: bytes
  os_filename :: bytes
  os_preferred_chunk_size :: u16

definition ota_start_request_field :: "pb_field \<Rightarrow> ParsedOtaStartRequest \<Rightarrow> ParsedOtaStartRequest option" where
  "ota_start_request_field f out = Some (
     if pf_field f = 1 \<and> pf_wire f = 2 then out\<lparr>os_target_mac := pf_bytes f\<rparr>
     else if pf_field f = 2 \<and> pf_wire f = 0 then out\<lparr>os_file_size := ucast (pf_varint f)\<rparr>
     else if pf_field f = 3 \<and> pf_wire f = 2 then out\<lparr>os_md5 := pf_bytes f\<rparr>
     else if pf_field f = 4 \<and> pf_wire f = 2 then out\<lparr>os_sha256 := pf_bytes f\<rparr>
     else if pf_field f = 5 \<and> pf_wire f = 2 then out\<lparr>os_filename := pf_bytes f\<rparr>
     else if pf_field f = 6 \<and> pf_wire f = 0 then out\<lparr>os_preferred_chunk_size := ucast (pf_varint f)\<rparr>
     else out)"

definition parse_ota_start_request :: "bytes \<Rightarrow> ParsedOtaStartRequest option" where
  "parse_ota_start_request data =
     (case parse_fields ota_start_request_field data 0
             \<lparr>os_target_mac = [], os_file_size = 0, os_md5 = [], os_sha256 = [], os_filename = [],
              os_preferred_chunk_size = 0\<rparr> of
        None \<Rightarrow> None
      | Some out \<Rightarrow> if os_target_mac out \<noteq> [] \<and> 0 < os_file_size out \<and> os_md5 out \<noteq> []
                    then Some out else None)"

record ParsedOtaChunk =
  oc_sequence :: u32
  oc_offset :: u32
  oc_payload :: "bytes option"
  oc_flags :: u32
  oc_crc32 :: u32

definition ota_chunk_field :: "pb_field \<Rightarrow> ParsedOtaChunk \<Rightarrow> ParsedOtaChunk option" where
  "ota_chunk_field f out = Some (
     if pf_field f = 1 \<and> pf_wire f = 0 then out\<lparr>oc_sequence := ucast (pf_varint f)\<rparr>
     else if pf_field f = 2 \<and> pf_wire f = 0 then out\<lparr>oc_offset := ucast (pf_varint f)\<rparr>
     else if pf_field f = 3 \<and> pf_wire f = 2 then out\<lparr>oc_payload := pf_value f\<rparr>
     else if pf_field f = 4 \<and> pf_wire f = 0 then out\<lparr>oc_flags := ucast (pf_varint f)\<rparr>
     else if pf_field f = 5 \<and> pf_wire f = 0 then out\<lparr>oc_crc32 := ucast (pf_varint f)\<rparr>
     else out)"

definition parse_ota_chunk_message :: "bytes \<Rightarrow> ParsedOtaChunk option" where
  "parse_ota_chunk_message data =
     (case parse_fields ota_chunk_field data 0
             \<lparr>oc_sequence = 0, oc_offset = 0, oc_payload = None, oc_flags = 0, oc_crc32 = 0\<rparr> of
        None \<Rightarrow> None
      | Some out \<Rightarrow> if oc_payload out \<noteq> None then Some out else None)"

record ParsedOtaChunkBatch =
  cb_job_id :: bytes
  cb_response_request_id :: bytes
  cb_chunks :: "ParsedOtaChunk list"

definition ota_chunk_batch_field :: "pb_field \<Rightarrow> ParsedOtaChunkBatch \<Rightarrow> ParsedOtaChunkBatch option" where
  "ota_chunk_batch_field f out =
     (if pf_field f = 1 \<and> pf_wire f = 2 then Some (out\<lparr>cb_job_id := pf_bytes f\<rparr>)
      else if pf_field f = 2 \<and> pf_wire f = 2 then Some (out\<lparr>cb_response_request_id := pf_bytes f\<rparr>)
      else if pf_field f = 3 \<and> pf_wire f = 2 then
        (case parse_ota_chunk_message (pf_bytes f) of None \<Rightarrow> None
         | Some chunk \<Rightarrow> Some (out\<lparr>cb_chunks := cb_chunks out @ [chunk]\<rparr>))
      else Some out)"

definition parse_ota_chunk_batch :: "bytes \<Rightarrow> ParsedOtaChunkBatch option" where
  "parse_ota_chunk_batch data =
     (case parse_fields ota_chunk_batch_field data 0
             \<lparr>cb_job_id = [], cb_response_request_id = [], cb_chunks = []\<rparr> of
        None \<Rightarrow> None
      | Some out \<Rightarrow> if cb_job_id out \<noteq> [] \<and> cb_response_request_id out \<noteq> [] \<and> cb_chunks out \<noteq> []
                    then Some out else None)"

record ParsedOtaAbortRequest =
  ab_job_id :: bytes
  ab_reason :: bytes

definition ota_abort_request_field :: "pb_field \<Rightarrow> ParsedOtaAbortRequest \<Rightarrow> ParsedOtaAbortRequest option" where
  "ota_abort_request_field f out = Some (
     if pf_field f = 1 \<and> pf_wire f = 2 then out\<lparr>ab_job_id := pf_bytes f\<rparr>
     else if pf_field f = 2 \<and> pf_wire f = 2 then out\<lparr>ab_reason := pf_bytes f\<rparr>
     else out)"

definition parse_ota_abort_request :: "bytes \<Rightarrow> ParsedOtaAbortRequest option" where
  "parse_ota_abort_request data =
     (case parse_fields ota_abort_request_field data 0 \<lparr>ab_job_id = [], ab_reason = []\<rparr> of
        None \<Rightarrow> None
      | Some out \<Rightarrow> Some (if ab_reason out = [] then out\<lparr>ab_reason := ascii ''user''\<rparr> else out))"

function ping_monotonic_loop :: "bytes \<Rightarrow> nat \<Rightarrow> u64" where
  "ping_monotonic_loop data pos =
     (if pos < length data
      then (case read_field data pos of None \<Rightarrow> 0
            | Some (pos', f) \<Rightarrow> if pf_field f = 1 \<and> pf_wire f = 0 then pf_varint f
                               else ping_monotonic_loop data pos')
      else 0)"
  by pat_completeness auto

termination
  by (relation "measure (\<lambda>(d, p). length d - p)") (auto dest!: read_field_advances)

declare ping_monotonic_loop.simps [simp del]

definition ping_monotonic_ms :: "bytes \<Rightarrow> u64" where
  "ping_monotonic_ms data = ping_monotonic_loop data 0"

end
