(* ===== verification/RuntimePbProps.thy ===== *)
theory RuntimePbProps
  imports RuntimePb
begin

text \<open>
  What the writer writes the reader reads: integers of 64 bits, fields, whole messages and the envelope around them.
\<close>

section \<open>Integers\<close>

lemma raw_varint_append: "raw_varint v out = out @ raw_varint v []"
proof (induction "unat v" arbitrary: v out rule: less_induct)
  case less
  show ?case
  proof (cases "0x80 \<le> v")
    case True
    note IH = less [OF drop_bit_7_less [OF True]]
    have "raw_varint v out = raw_varint (drop_bit 7 v) (out @ [ucast (v OR 0x80)])"
      by (subst raw_varint.simps) (simp add: True)
    also have "\<dots> = out @ ucast (v OR 0x80) # raw_varint (drop_bit 7 v) []"
      by (subst IH) simp
    also have "\<dots> = out @ raw_varint (drop_bit 7 v) [ucast (v OR 0x80)]"
      by (subst (2) IH) simp
    also have "\<dots> = out @ raw_varint v []"
      by (subst (2) raw_varint.simps) (simp add: True)
    finally show ?thesis .
  next
    case False
    then show ?thesis by (simp add: raw_varint.simps)
  qed
qed

lemma raw_varint_short: "v < 0x80 \<Longrightarrow> raw_varint v [] = [ucast v]"
  by (simp add: raw_varint.simps)

lemma raw_varint_long: "0x80 \<le> v \<Longrightarrow> raw_varint v [] = ucast (v OR 0x80) # raw_varint (drop_bit 7 v) []"
  by (subst raw_varint.simps) (subst raw_varint_append, simp)

lemma and_7F: "(v :: 'a::len word) AND 0x7F = take_bit 7 v"
  by (simp add: take_bit_eq_mask mask_eq_exp_minus_1)

lemma bit_80: "bit (0x80 :: 'a::len word) n \<longleftrightarrow> n = 7 \<and> 7 < LENGTH('a)"
proof -
  have "(0x80 :: 'a word) = push_bit 7 1" by simp
  then show ?thesis by (simp only: bit_push_bit_iff bit_1_iff) auto
qed

lemma bit_80_int: "bit (0x80 :: int) n \<longleftrightarrow> n = 7"
proof -
  have "(0x80 :: int) = push_bit 7 1" by simp
  then show ?thesis by (simp only: bit_push_bit_iff bit_1_iff) auto
qed

lemma and_80_iff: "(v :: u8) AND 0x80 = 0 \<longleftrightarrow> \<not> bit v 7"
proof
  assume "v AND 0x80 = 0"
  then have "\<not> bit (v AND 0x80) 7" by simp
  then show "\<not> bit v 7" by (simp add: bit_and_iff bit_80_int)
next
  assume "\<not> bit v 7"
  then show "v AND 0x80 = 0" by (intro bit_word_eqI) (auto simp: bit_and_iff bit_80_int)
qed

lemma short_varint_bits: "(v :: u64) < 0x80 \<Longrightarrow> take_bit 7 v = v"
  by (simp add: word_unat_eq_iff unsigned_take_bit_eq take_bit_nat_eq_self word_less_nat_alt)

lemma long_varint_bit:
  "push_bit s (take_bit 7 v) OR push_bit (s + 7) (drop_bit 7 v) = push_bit s (v :: u64)"
proof (rule bit_word_eqI)
  fix n
  show "bit (push_bit s (take_bit 7 v) OR push_bit (s + 7) (drop_bit 7 v)) n = bit (push_bit s v) n"
    by (cases "n < s + 7") (auto simp: bit_or_iff bit_push_bit_iff bit_take_bit_iff bit_drop_bit_eq not_less
        dest: bit_imp_le_length)
qed

lemma first_byte_short: "(v :: u64) < 0x80 \<Longrightarrow> ucast ((ucast v :: u8) AND 0x7F) = v \<and> (ucast v :: u8) AND 0x80 = 0"
proof -
  assume "v < 0x80"
  then have v: "take_bit 7 v = v" by (rule short_varint_bits)
  have "\<not> bit v 7" by (subst v [symmetric]) (simp add: bit_simps)
  then have "(ucast v :: u8) AND 0x80 = 0" by (simp add: and_80_iff bit_simps)
  moreover have "ucast ((ucast v :: u8) AND 0x7F) = take_bit 7 v"
    by (rule bit_word_eqI) (auto simp: and_7F bit_simps)
  ultimately show ?thesis using v by simp
qed

lemma first_byte_long: "ucast ((ucast ((v :: u64) OR 0x80) :: u8) AND 0x7F) = take_bit 7 v
    \<and> (ucast (v OR 0x80) :: u8) AND 0x80 \<noteq> 0"
proof
  show "ucast ((ucast (v OR 0x80) :: u8) AND 0x7F) = take_bit 7 v"
    by (rule bit_word_eqI) (auto simp: and_7F bit_80_int bit_or_iff bit_take_bit_iff bit_unsigned_iff)
  show "(ucast (v OR 0x80) :: u8) AND 0x80 \<noteq> 0"
    by (simp add: and_80_iff bit_80_int bit_or_iff bit_unsigned_iff)
qed

lemma read_varint_loop_step:
  assumes "pos < length data" and "data ! pos = b" and "shift < 64" and "unat shift = k"
  shows "read_varint_loop data pos shift out =
    (if b AND 0x80 = 0 then Some (Suc pos, out OR push_bit k (ucast (b AND 0x7F)))
     else read_varint_loop data (Suc pos) (shift + 7) (out OR push_bit k (ucast (b AND 0x7F))))"
  by (subst read_varint_loop.simps) (simp add: assms Let_def)

lemma read_varint_loop_raw:
  assumes "unat shift = 7 * k" and "k \<le> 9" and "unat v < 2 ^ (64 - 7 * k)"
  shows "read_varint_loop (pre @ raw_varint v [] @ rest) (length pre) shift out
    = Some (length pre + length (raw_varint v []), out OR push_bit (7 * k) v)"
  using assms
proof (induction "unat v" arbitrary: v k shift pre out rule: less_induct)
  case less
  have shift: "shift < 64" using less.prems(1,2) by (simp add: word_less_nat_alt)
  show ?case
  proof (cases "0x80 \<le> v")
    case False
    then have v: "v < 0x80" by simp
    show ?thesis unfolding raw_varint_short [OF v]
      by (subst read_varint_loop_step [where b = "ucast v" and k = "7 * k"])
         (use first_byte_short [OF v] shift less.prems(1) in \<open>auto simp: nth_append\<close>)
  next
    case True
    have "128 \<le> unat v" using True by (simp add: word_le_nat_alt)
    with less.prems(3) have k: "k \<le> 8"
      using less.prems(2) by (cases "k = 9") auto
    have "unat v div 128 < 2 ^ (64 - 7 * Suc k)"
    proof -
      have "64 - 7 * k = (64 - 7 * Suc k) + 7" using k by simp
      then have "unat v < 2 ^ (64 - 7 * Suc k) * 128" using less.prems(3) by (simp only: power_add) simp
      then show ?thesis by (simp add: less_mult_imp_div_less)
    qed
    then have small: "unat (drop_bit 7 v) < 2 ^ (64 - 7 * Suc k)"
      by (simp add: unat_drop_bit_eq drop_bit_nat_def)
    have next_shift: "unat (shift + 7) = 7 * Suc k"
      using less.prems(1) k by (simp add: unat_word_ariths)
    let ?b = "ucast (v OR 0x80) :: u8"
    have "read_varint_loop (pre @ raw_varint v [] @ rest) (length pre) shift out
        = read_varint_loop (pre @ raw_varint v [] @ rest) (Suc (length pre)) (shift + 7)
            (out OR push_bit (7 * k) (take_bit 7 v))"
      by (subst read_varint_loop_step [where b = ?b and k = "7 * k"])
         (use first_byte_long [of v] shift less.prems(1) in \<open>auto simp: nth_append raw_varint_long [OF True]\<close>)
    also have "\<dots> = read_varint_loop ((pre @ [?b]) @ raw_varint (drop_bit 7 v) [] @ rest) (length (pre @ [?b]))
        (shift + 7) (out OR push_bit (7 * k) (take_bit 7 v))"
      by (simp add: raw_varint_long [OF True])
    also have "\<dots> = Some (length (pre @ [?b]) + length (raw_varint (drop_bit 7 v) []),
        (out OR push_bit (7 * k) (take_bit 7 v)) OR push_bit (7 * Suc k) (drop_bit 7 v))"
      by (rule less.hyps [OF drop_bit_7_less [OF True] next_shift _ small]) (use k in simp)
    also have "\<dots> = Some (length pre + length (raw_varint v []), out OR push_bit (7 * k) v)"
      using long_varint_bit [of "7 * k" v] by (simp add: raw_varint_long [OF True] or.assoc add.commute)
    finally show ?thesis .
  qed
qed

lemma read_varint_raw:
  "read_varint (pre @ raw_varint v [] @ rest) (length pre) = Some (length pre + length (raw_varint v []), v)"
  using read_varint_loop_raw [of 0 0 v pre rest 0] unsigned_less [of v] by (simp add: read_varint_def)

section \<open>Fields\<close>

text \<open>A field as the writer is asked for it, the bytes it writes, and the field the reader should see.\<close>

datatype pb_item = PbVarint u32 u64 | PbBytes u32 bytes

fun pb_write :: "pb_item \<Rightarrow> bytes \<Rightarrow> bytes" where
  "pb_write (PbVarint f v) out = pb_varint f v out"
| "pb_write (PbBytes f d) out = pb_bytes f d out"

fun pb_seen :: "pb_item \<Rightarrow> pb_field" where
  "pb_seen (PbVarint f v) = \<lparr>pf_field = f, pf_wire = 0, pf_value = None, pf_varint = v\<rparr>"
| "pb_seen (PbBytes f d) = \<lparr>pf_field = f, pf_wire = 2, pf_value = Some d, pf_varint = 0\<rparr>"

fun pb_fits :: "pb_item \<Rightarrow> bool" where
  "pb_fits (PbVarint f v) = True"
| "pb_fits (PbBytes f d) = (length d < 2 ^ 64)"

lemma pb_tag_append: "pb_tag f w out = out @ pb_tag f w []"
  unfolding pb_tag_def by (rule raw_varint_append)

lemma pb_varint_append: "pb_varint f v out = out @ pb_varint f v []"
  unfolding pb_varint_def by (metis append.assoc pb_tag_append raw_varint_append)

lemma pb_bytes_append: "pb_bytes f d out = out @ pb_bytes f d []"
  unfolding pb_bytes_def by (metis append.assoc pb_tag_append raw_varint_append)

lemma pb_write_append: "pb_write i out = out @ pb_write i []"
  by (cases i) (simp_all only: pb_write.simps, (rule pb_varint_append pb_bytes_append)+)

lemma read_tag:
  assumes "w < 8"
  shows "read_varint (pre @ pb_tag f w [] @ rest) (length pre)
    = Some (length pre + length (pb_tag f w []), push_bit 3 (ucast f) OR ucast w)"
  unfolding pb_tag_def by (rule read_varint_raw)

lemma tag_parts:
  fixes f :: u32 and w :: u8
  assumes "w < 8"
  shows "ucast (drop_bit 3 (push_bit 3 (ucast f) OR ucast w :: u64)) = f
    \<and> ucast ((push_bit 3 (ucast f) OR ucast w :: u64) AND 7) = w"
proof
  have w: "take_bit 3 w = w"
    using assms by (simp add: word_unat_eq_iff unsigned_take_bit_eq take_bit_nat_eq_self word_less_nat_alt)
  have b: "\<not> bit w n" if "3 \<le> n" for n
    using that by (subst w [symmetric]) (simp add: bit_take_bit_iff)
  show "ucast (drop_bit 3 (push_bit 3 (ucast f) OR ucast w :: u64)) = f"
    by (rule bit_word_eqI) (simp add: b bit_unsigned_iff bit_drop_bit_eq bit_or_iff bit_push_bit_iff)
  have "(push_bit 3 (ucast f) OR ucast w :: u64) AND 7 = take_bit 3 (push_bit 3 (ucast f) OR ucast w)"
    by (simp add: take_bit_eq_mask mask_eq_exp_minus_1)
  also have "\<dots> = ucast w"
    by (rule bit_word_eqI) (use b in \<open>auto simp: bit_unsigned_iff bit_or_iff bit_push_bit_iff bit_take_bit_iff not_less
        dest: bit_imp_le_length\<close>)
  finally have "ucast ((push_bit 3 (ucast f) OR ucast w :: u64) AND 7) = (ucast (ucast w :: u64) :: u8)"
    by simp
  also have "\<dots> = w" by (rule bit_word_eqI) (simp add: bit_unsigned_iff)
  finally show "ucast ((push_bit 3 (ucast f) OR ucast w :: u64) AND 7) = w" .
qed

lemma read_written:
  assumes "pb_fits i"
  shows "read_field (pre @ pb_write i [] @ rest) (length pre) = Some (length pre + length (pb_write i []), pb_seen i)"
proof (cases i)
  case (PbVarint f v)
  let ?t = "pb_tag f 0 []" and ?v = "raw_varint v []"
  have w: "pb_varint f v [] = ?t @ ?v" unfolding pb_varint_def by (rule raw_varint_append)
  have r1: "read_varint (pre @ ?t @ ?v @ rest) (length pre) = Some (length (pre @ ?t), push_bit 3 (ucast f) OR ucast (0 :: u8))"
    using read_tag [of 0 pre f "?v @ rest"] by simp
  have r2: "read_varint (pre @ ?t @ ?v @ rest) (length (pre @ ?t)) = Some (length (pre @ ?t) + length ?v, v)"
    using read_varint_raw [of "pre @ ?t" v rest] by simp
  show ?thesis
    using r1 r2 tag_parts [of 0 f] by (simp add: PbVarint w) (simp add: read_field_def Let_def)
next
  case (PbBytes f d)
  let ?t = "pb_tag f 2 []" and ?v = "raw_varint (of_nat (length d)) []"
  have w: "pb_bytes f d [] = ?t @ ?v @ d" unfolding pb_bytes_def
    by (subst raw_varint_append) simp
  have len: "unat (of_nat (length d) :: u64) = length d"
    using assms by (simp add: PbBytes unat_of_nat_small)
  have r1: "read_varint (pre @ ?t @ ?v @ d @ rest) (length pre) = Some (length (pre @ ?t), push_bit 3 (ucast f) OR ucast (2 :: u8))"
    using read_tag [of 2 pre f "?v @ d @ rest"] by simp
  have r2: "read_varint (pre @ ?t @ ?v @ d @ rest) (length (pre @ ?t)) = Some (length (pre @ ?t) + length ?v, of_nat (length d))"
    using read_varint_raw [of "pre @ ?t" "of_nat (length d)" "d @ rest"] by simp
  show ?thesis
    using r1 r2 tag_parts [of 2 f] by (simp add: PbBytes w) (simp add: read_field_def Let_def len)
qed

section \<open>Messages\<close>

fun pb_fold :: "(pb_field \<Rightarrow> 'a \<Rightarrow> 'a option) \<Rightarrow> pb_item list \<Rightarrow> 'a \<Rightarrow> 'a option" where
  "pb_fold upd [] out = Some out"
| "pb_fold upd (i # is) out = (case upd (pb_seen i) out of None \<Rightarrow> None | Some out \<Rightarrow> pb_fold upd is out)"

definition pb_written :: "pb_item list \<Rightarrow> bytes" where
  "pb_written is = concat (map (\<lambda>i. pb_write i []) is)"

lemma pb_written_simps [simp]:
  "pb_written [] = []"
  "pb_written (i # is) = pb_write i [] @ pb_written is"
  "pb_written (is @ js) = pb_written is @ pb_written js"
  by (simp_all add: pb_written_def)

lemma pb_write_nonempty: "pb_fits i \<Longrightarrow> pb_write i [] \<noteq> []"
  using read_field_advances [OF read_written [of i "[]" "[]"]] by auto

lemma parse_written_from:
  "list_all pb_fits is \<Longrightarrow> parse_fields upd (pre @ pb_written is) (length pre) out = pb_fold upd is out"
proof (induction "is" arbitrary: pre out)
  case Nil
  then show ?case by (simp add: parse_fields.simps)
next
  case (Cons i "is")
  then have fits: "pb_fits i" and rest: "list_all pb_fits is" by simp_all
  have "parse_fields upd (pre @ pb_written (i # is)) (length pre) out
      = (case upd (pb_seen i) out of None \<Rightarrow> None
         | Some out' \<Rightarrow> parse_fields upd ((pre @ pb_write i []) @ pb_written is) (length (pre @ pb_write i [])) out')"
    using read_written [OF fits, of pre "pb_written is"] pb_write_nonempty [OF fits]
    by (subst parse_fields.simps) (simp split: option.split)
  then show ?case using Cons.IH [OF rest, of "pre @ pb_write i []"] by (simp split: option.split)
qed

lemma parse_written: "list_all pb_fits is \<Longrightarrow> parse_fields upd (pb_written is) 0 out = pb_fold upd is out"
  using parse_written_from [of "is" upd "[]" out] by simp

section \<open>Writers as lists of fields\<close>

lemma pb_writes:
  "pb_varint f v [] = pb_written [PbVarint f v]"
  "pb_bytes f d [] = pb_written [PbBytes f d]"
  "pb_string f d [] = pb_written (if d = [] then [] else [PbBytes f d])"
  "pb_message f m [] = pb_written [PbBytes f (m [])]"
  "pb_varint f v (pb_written is) = pb_written (is @ [PbVarint f v])"
  "pb_bytes f d (pb_written is) = pb_written (is @ [PbBytes f d])"
  "pb_string f d (pb_written is) = pb_written (is @ (if d = [] then [] else [PbBytes f d]))"
  "pb_message f m (pb_written is) = pb_written (is @ [PbBytes f (m [])])"
  using pb_varint_append [of f v "pb_written is"] pb_bytes_append [of f d "pb_written is"]
    pb_bytes_append [of f "m []" "pb_written is"]
  by (simp_all add: pb_string_def pb_message_def)

lemma raw_varint_length: "unat v < 2 ^ (7 * Suc n) \<Longrightarrow> length (raw_varint v []) \<le> Suc n"
proof (induction n arbitrary: v)
  case 0
  then show ?case by (simp add: raw_varint_short word_less_nat_alt)
next
  case (Suc n)
  show ?case
  proof (cases "0x80 \<le> v")
    case True
    have "unat v < 2 ^ (7 * Suc n) * 2 ^ 7" using Suc.prems by (simp add: power_add)
    then have "unat (drop_bit 7 v) < 2 ^ (7 * Suc n)"
      by (simp only: unat_drop_bit_eq drop_bit_nat_def less_mult_imp_div_less)
    from Suc.IH [OF this] show ?thesis by (simp add: raw_varint_long [OF True])
  next
    case False
    then show ?thesis by (simp add: raw_varint_short not_le)
  qed
qed

lemma raw_varint_at_most_10: "length (raw_varint v []) \<le> 10"
proof -
  have "unat v < 2 ^ 64" using unsigned_less [of v] by simp
  then have "unat v < 2 ^ (7 * Suc 9)" by (rule less_le_trans) simp
  then show ?thesis using raw_varint_length [of v 9] by simp
qed

fun pb_size :: "pb_item \<Rightarrow> nat" where
  "pb_size (PbVarint _ _) = 20"
| "pb_size (PbBytes _ d) = 20 + length d"

lemma pb_write_length: "length (pb_write i []) \<le> pb_size i"
proof (cases i)
  case (PbVarint f v)
  have "pb_varint f v [] = pb_tag f 0 [] @ raw_varint v []" unfolding pb_varint_def by (rule raw_varint_append)
  then show ?thesis using raw_varint_at_most_10 [of v] raw_varint_at_most_10
    by (simp add: PbVarint pb_tag_def) (metis add_mono mult_2 numeral_Bit0)
next
  case (PbBytes f d)
  have "pb_bytes f d [] = pb_tag f 2 [] @ raw_varint (of_nat (length d)) [] @ d"
    unfolding pb_bytes_def by (subst raw_varint_append) simp
  then show ?thesis using raw_varint_at_most_10 [of "of_nat (length d)"] raw_varint_at_most_10 [of "push_bit 3 (ucast f) OR ucast (2 :: u8)"]
    by (simp add: PbBytes pb_tag_def)
qed

lemma pb_written_length: "length (pb_written is) \<le> sum_list (map pb_size is)"
  by (induction "is") (simp_all add: add_mono pb_write_length)

section \<open>The envelope\<close>

lemma pb_envelope_written:
  "pb_envelope rid f builder =
     pb_written ((if rid = [] then [] else [PbBytes 1 rid]) @ [PbVarint 2 2, PbBytes f (builder [])])"
proof -
  have "pb_envelope rid f builder = pb_string 1 rid [] @ pb_varint 2 2 [] @ pb_bytes f (builder []) []"
    unfolding pb_envelope_def pb_message_def by (subst pb_bytes_append, subst pb_varint_append) simp
  then show ?thesis by (simp add: pb_string_def)
qed

lemma parse_written_envelope:
  assumes "length rid < 2 ^ 64" and "length (builder []) < 2 ^ 64" and "10 \<le> f"
  shows "parse_envelope (pb_envelope rid f builder)
    = Some \<lparr>pe_request_id = rid, pe_api_version = kRuntimeApiVersion, pe_msg_field = f, pe_msg_data = builder []\<rparr>"
proof -
  let ?is = "(if rid = [] then [] else [PbBytes 1 rid]) @ [PbVarint 2 2, PbBytes f (builder [])]"
  have fits: "list_all pb_fits ?is" using assms by simp
  have f: "f \<noteq> 0" "f \<noteq> 1" "f \<noteq> 2" using assms(3) by (auto simp: word_le_nat_alt)
  show ?thesis
    unfolding parse_envelope_def pb_envelope_written parse_written [OF fits]
    using assms(3) f by (simp add: envelope_field_def pf_bytes_def)
qed

text \<open>
  C36: An envelope that the bridge wrote, with any request id, message and message number from ten on, is read back as
  this request id, the interface's version, this number and these bytes.
\<close>

theorem envelope_roundtrip:
  assumes "length rid < 2 ^ 64" and "length (builder []) < 2 ^ 64" and "10 \<le> f"
  shows "parse_envelope (pb_envelope rid f builder)
    = Some \<lparr>pe_request_id = rid, pe_api_version = kRuntimeApiVersion, pe_msg_field = f, pe_msg_data = builder []\<rparr>"
  using assms by (rule parse_written_envelope)

theorem envelope_roundtrip_witness:
  "parse_envelope (error_envelope [49] (ascii ''busy'') (replicate 300 46))
    = Some \<lparr>pe_request_id = [49], pe_api_version = 2, pe_msg_field = 99,
            pe_msg_data = pb_string 2 (replicate 300 46) (pb_string 1 (ascii ''busy'') [])\<rparr>"
proof -
  let ?b = "\<lambda>w. pb_string 2 (replicate 300 46) (pb_string 1 (ascii ''busy'') w)"
  have "length (?b []) = 309" by code_simp
  then have "length (?b []) < 2 ^ 64" by (simp only:) simp
  then show ?thesis unfolding error_envelope_def
    by (intro envelope_roundtrip) simp_all
qed

section \<open>The answer to a challenge\<close>

definition client_auth_response :: "bytes \<Rightarrow> bytes \<Rightarrow> bytes \<Rightarrow> bytes \<Rightarrow> bytes" where
  "client_auth_response kind nom nonce mac =
     pb_written [PbBytes 1 kind, PbBytes 2 nom, PbBytes 3 nonce, PbBytes 4 mac]"

lemma parse_client_auth_response:
  assumes "list_all (\<lambda>d. length d < 2 ^ 64) [kind, nom, nonce]" and "kind \<noteq> []" and "nonce \<noteq> []" and "length mac = 32"
  shows "parse_auth_response (client_auth_response kind nom nonce mac)
    = Some \<lparr>ar_client_kind = kind, ar_client_name = nom, ar_client_nonce = nonce, ar_hmac_sha256 = mac\<rparr>"
proof -
  let ?is = "[PbBytes 1 kind, PbBytes 2 nom, PbBytes 3 nonce, PbBytes 4 mac]"
  have fits: "list_all pb_fits ?is" using assms by simp
  show ?thesis
    unfolding parse_auth_response_def client_auth_response_def parse_written [OF fits]
    using assms by (simp add: auth_response_field_def pf_bytes_def)
qed

end
