(* ===== verification/JsonText.thy ===== *)
theory JsonText
  imports RuntimePb WireTypes
begin

text \<open>
  The texts in which the bridge shows values (\<^verbatim>\<open>esp_tree_bridge/bridge_json_utils.cpp\<close>): escaping,
  the options of an entity, and the JSON value of a state. Strings are their bytes. Arithmetic and printing of
  \<^verbatim>\<open>float\<close> are arguments: \<open>float_text\<close> is what \<^verbatim>\<open>ostringstream\<close> prints for the four
  bytes of a number, \<open>hsv_to_rgb\<close> what \<^verbatim>\<open>hsv_u8_to_rgb\<close> computes in single precision. A null value is
  the empty one, which is treated alike.
\<close>

section \<open>Strings\<close>

definition lower_hex_digit :: "u8 \<Rightarrow> u8" where
  "lower_hex_digit val = ascii ''0123456789abcdef'' ! unat (val AND 0x0F)"

definition bytes_to_lower_hex :: "bytes \<Rightarrow> bytes" where
  "bytes_to_lower_hex data = concat (map (\<lambda>b. [lower_hex_digit (drop_bit 4 b), lower_hex_digit b]) data)"

definition escape_char :: "u8 \<Rightarrow> bytes" where
  "escape_char ch =
     (if ch = 34 then [92, 34]
      else if ch = 92 then [92, 92]
      else if ch = 8 then [92, 98]
      else if ch = 12 then [92, 102]
      else if ch = 10 then [92, 110]
      else if ch = 13 then [92, 114]
      else if ch = 9 then [92, 116]
      else if ch < 0x20 then [92, 117, 48, 48, lower_hex_digit (drop_bit 4 ch), lower_hex_digit ch]
      else [ch])"

definition escape_json :: "bytes \<Rightarrow> bytes" where
  "escape_json val = concat (map escape_char val)"

definition quoted_json_string :: "bytes \<Rightarrow> bytes" where
  "quoted_json_string raw = [34] @ escape_json raw @ [34]"

fun split_loop :: "u8 \<Rightarrow> bytes \<Rightarrow> bytes list \<Rightarrow> bytes \<Rightarrow> bytes list" where
  "split_loop sep [] result current = result @ [current]"
| "split_loop sep (ch # input) result current =
     (if ch = sep then split_loop sep input (result @ [current]) []
      else split_loop sep input result (current @ [ch]))"

definition split_string :: "bytes \<Rightarrow> u8 \<Rightarrow> bytes list" where
  "split_string input sep = split_loop sep input [] []"

text \<open>A part of the form \<^verbatim>\<open>key=value\<close>, divided at its first equals sign.\<close>

definition key_value :: "bytes \<Rightarrow> (bytes \<times> bytes) option" where
  "key_value part =
     (if 61 \<in> set part then Some (takeWhile (\<lambda>c. c \<noteq> 61) part, tl (dropWhile (\<lambda>c. c \<noteq> 61) part)) else None)"

fun select_options_loop :: "bytes list \<Rightarrow> bytes list \<Rightarrow> bytes list" where
  "select_options_loop fallback [] = fallback"
| "select_options_loop fallback (part # parts) =
     (case key_value part of
        None \<Rightarrow> select_options_loop fallback parts
      | Some (key, val) \<Rightarrow>
          (if key = ascii ''options'' \<and> split_string val 124 \<noteq> [] then split_string val 124
           else select_options_loop fallback parts))"

definition parse_select_options :: "bytes \<Rightarrow> bytes list" where
  "parse_select_options entity_options =
     select_options_loop (split_string entity_options 124) (split_string entity_options 59)"

definition parse_options_map :: "bytes \<Rightarrow> bytes \<Rightarrow> bytes option" where
  "parse_options_map entity_options =
     fold (\<lambda>part opts. case key_value part of None \<Rightarrow> opts | Some (key, val) \<Rightarrow> opts(key \<mapsto> val))
       (split_string entity_options 59) (\<lambda>_. None)"

definition option_list :: "(bytes \<Rightarrow> bytes option) \<Rightarrow> bytes \<Rightarrow> bytes list" where
  "option_list opts key = (case opts key of None \<Rightarrow> [] | Some v \<Rightarrow> split_string v 124)"

definition option_has_list_value :: "(bytes \<Rightarrow> bytes option) \<Rightarrow> bytes \<Rightarrow> bytes \<Rightarrow> bool" where
  "option_has_list_value opts key val =
     (case opts key of None \<Rightarrow> False | Some v \<Rightarrow> val \<in> set (split_string v 124))"

section \<open>Values\<close>

definition color_mode_name_json :: "u8 \<Rightarrow> string" where
  "color_mode_name_json cm =
     (if cm = 1 then ''onoff'' else if cm = 3 then ''brightness'' else if cm = 7 then ''white''
      else if cm = 11 then ''color_temp'' else if cm = 19 then ''color_temp'' else if cm = 35 then ''rgb''
      else if cm = 39 then ''rgbw'' else if cm = 47 then ''rgbw'' else if cm = 51 then ''rgbww''
      else ''brightness'')"

text \<open>A member of an object: a comma, the quoted name, a colon and the value.\<close>

definition json_member :: "string \<Rightarrow> bytes \<Rightarrow> bytes" where
  "json_member nam val = [44, 34] @ ascii nam @ [34, 58] @ val"

definition json_bool :: "bool \<Rightarrow> bytes" where
  "json_bool b = (if b then ascii ''true'' else ascii ''false'')"

definition json_int :: "u8 \<Rightarrow> bytes" where
  "json_int b = dec_digits (unat b)"

definition has_mode :: "(bytes \<Rightarrow> bytes option) \<Rightarrow> string \<Rightarrow> bool" where
  "has_mode opts mode = option_has_list_value opts (ascii ''color_modes'') (ascii mode)"

definition json_object :: "bytes \<Rightarrow> bytes" where
  "json_object members = [123] @ members @ [125]"

definition state_member :: "bytes \<Rightarrow> bytes" where
  "state_member val = [34] @ ascii ''state'' @ [34, 58] @ json_bool (val ! 0 \<noteq> 0)"

definition light_color_mode :: "bytes \<Rightarrow> (bytes \<Rightarrow> bytes option) \<Rightarrow> string" where
  "light_color_mode val opts =
     (if 5 < length val then color_mode_name_json (val ! 5)
      else if 3 < length val \<and> (has_mode opts ''rgb'' \<or> has_mode opts ''rgbw'' \<or> has_mode opts ''rgbww'')
      then ''rgb''
      else if 1 < length val \<and> has_mode opts ''color_temp'' then ''color_temp''
      else ''brightness'')"

definition build_light_state_json :: "(u8 \<Rightarrow> u8 \<Rightarrow> u8 \<Rightarrow> u8 \<times> u8 \<times> u8) \<Rightarrow> bytes \<Rightarrow> bytes \<Rightarrow> bytes" where
  "build_light_state_json hsv_to_rgb val entity_options =
     (if length val < 1 then ascii ''{}'' else
      let opts = parse_options_map entity_options;
          rgb = has_mode opts ''rgb'' \<or> has_mode opts ''rgbw'' \<or> has_mode opts ''rgbww'';
          effects = option_list opts (ascii ''effects'')
      in json_object (state_member val
        @ json_member ''color_mode'' ([34] @ ascii (light_color_mode val opts) @ [34])
        @ (if 1 < length val \<and> (has_mode opts ''brightness'' \<or> rgb \<or> has_mode opts ''white''
                \<or> has_mode opts ''color_temp'')
           then json_member ''brightness'' (json_int (val ! 1)) else [])
        @ (if 3 < length val \<and> rgb
           then (let (r, g, b) = hsv_to_rgb (val ! 2) (val ! 3) (val ! 1) in
                 json_member ''color'' (json_object ([34] @ ascii ''r'' @ [34, 58] @ json_int r
                   @ json_member ''g'' (json_int g) @ json_member ''b'' (json_int b))))
           else [])
        @ (if 7 < length val \<and> 0 < rd16 val 6
           then json_member ''color_temp'' (dec_digits (unat (rd16 val 6))) else [])
        @ (if 8 < length val \<and> 0 < val ! 8 then json_member ''white'' (json_int (val ! 8)) else [])
        @ (if effects \<noteq> [] \<and> 4 < length val
           then (if 0 < val ! 4 \<and> unat (val ! 4) \<le> length effects
                 then json_member ''effect'' (quoted_json_string (effects ! (unat (val ! 4) - 1)))
                 else json_member ''effect'' ([34] @ ascii ''None'' @ [34]))
           else [])))"

definition build_fan_state_json :: "bytes \<Rightarrow> bytes" where
  "build_fan_state_json val =
     (if length val < 1 then ascii ''{}'' else
      json_object (state_member val
        @ (if 1 < length val then json_member ''speed_level'' (json_int (val ! 1)) else [])
        @ (if 2 < length val then json_member ''oscillating'' (json_bool (val ! 2 \<noteq> 0)) else [])
        @ (if 3 < length val
           then json_member ''direction'' ([34] @ ascii (if val ! 3 \<noteq> 0 then ''reverse'' else ''forward'') @ [34])
           else [])))"

definition alarm_state_name :: "u8 \<Rightarrow> string" where
  "alarm_state_name v =
     (if v = 1 then ''armed_home'' else if v = 2 then ''armed_away'' else if v = 3 then ''armed_night''
      else if v = 4 then ''armed_vacation'' else if v = 5 then ''armed_custom_bypass''
      else if v = 6 then ''triggered'' else if v = 7 then ''pending'' else if v = 8 then ''arming''
      else if v = 9 then ''disarming'' else ''disarmed'')"

definition state_value_json ::
  "(bytes \<Rightarrow> bytes) \<Rightarrow> (u8 \<Rightarrow> u8 \<Rightarrow> u8 \<Rightarrow> u8 \<times> u8 \<times> u8) \<Rightarrow> espnow_field_type \<Rightarrow> bytes \<Rightarrow> bytes \<Rightarrow> bytes" where
  "state_value_json float_text hsv_to_rgb ftype val entity_options =
     (if val = [] then ascii ''null'' else
      case ftype of
        FIELD_TYPE_SENSOR \<Rightarrow> if length val < 4 then ascii ''0'' else float_text (take 4 val)
      | FIELD_TYPE_NUMBER \<Rightarrow> if length val < 4 then ascii ''0'' else float_text (take 4 val)
      | FIELD_TYPE_SWITCH \<Rightarrow> json_bool (val ! 0 \<noteq> 0)
      | FIELD_TYPE_BINARY \<Rightarrow> json_bool (val ! 0 \<noteq> 0)
      | FIELD_TYPE_BUTTON \<Rightarrow> json_bool (val ! 0 \<noteq> 0)
      | FIELD_TYPE_HUMIDIFIER \<Rightarrow> json_bool (val ! 0 \<noteq> 0)
      | FIELD_TYPE_DEHUMIDIFIER \<Rightarrow> json_bool (val ! 0 \<noteq> 0)
      | FIELD_TYPE_LIGHT \<Rightarrow> build_light_state_json hsv_to_rgb val entity_options
      | FIELD_TYPE_FAN \<Rightarrow> build_fan_state_json val
      | FIELD_TYPE_COVER \<Rightarrow> json_int (val ! 0)
      | FIELD_TYPE_VALVE \<Rightarrow> json_int (val ! 0)
      | FIELD_TYPE_LOCK \<Rightarrow> quoted_json_string
          (ascii (if val ! 0 = 1 then ''LOCKED'' else if val ! 0 = 2 then ''JAMMED'' else ''UNLOCKED''))
      | FIELD_TYPE_ALARM \<Rightarrow> quoted_json_string (ascii (alarm_state_name (val ! 0)))
      | FIELD_TYPE_SELECT \<Rightarrow>
          (if entity_options \<noteq> [] \<and> unat (val ! 0) < length (parse_select_options entity_options)
           then quoted_json_string (parse_select_options entity_options ! unat (val ! 0))
           else json_int (val ! 0))
      | FIELD_TYPE_TEXT \<Rightarrow> quoted_json_string val
      | FIELD_TYPE_TEXT_SENSOR \<Rightarrow> quoted_json_string val
      | FIELD_TYPE_EVENT \<Rightarrow> quoted_json_string val
      | FIELD_TYPE_TIME \<Rightarrow> quoted_json_string val
      | FIELD_TYPE_DATETIME \<Rightarrow> quoted_json_string val
      | FIELD_TYPE_CLIMATE \<Rightarrow> ascii ''null'')"

section \<open>A reader of JSON\<close>

text \<open>
  What RFC 8259 takes for a string: \<open>read_string\<close> reads the inside of a string up to its closing quote, undoing the escapes; of the escapes with four digits
  those of single bytes are read.
\<close>

definition hex_value :: "u8 \<Rightarrow> nat option" where
  "hex_value c = (if 48 \<le> c \<and> c \<le> 57 then Some (unat c - 48)
     else if 97 \<le> c \<and> c \<le> 102 then Some (unat c - 87)
     else if 65 \<le> c \<and> c \<le> 70 then Some (unat c - 55) else None)"

definition simple_escape :: "u8 \<Rightarrow> u8 option" where
  "simple_escape c = (if c = 34 \<or> c = 92 \<or> c = 47 then Some c else if c = 98 then Some 8
     else if c = 102 then Some 12 else if c = 110 then Some 10 else if c = 114 then Some 13
     else if c = 116 then Some 9 else None)"

fun read_string :: "bytes \<Rightarrow> bytes \<Rightarrow> (bytes \<times> bytes) option" where
  "read_string [] acc = None"
| "read_string (c # r) acc =
     (if c = 34 then Some (acc, r)
      else if c < 0x20 then None
      else if c \<noteq> 92 then read_string r (acc @ [c])
      else (case r of [] \<Rightarrow> None
        | e # r' \<Rightarrow>
            (if e = 117 then
               (case r' of a # b # h # l # r'' \<Rightarrow>
                  (case (hex_value h, hex_value l) of (Some x, Some y) \<Rightarrow>
                     (if a = 48 \<and> b = 48 \<and> x < 8 then read_string r'' (acc @ [of_nat (16 * x + y)]) else None)
                   | _ \<Rightarrow> None)
                | _ \<Rightarrow> None)
             else (case simple_escape e of None \<Rightarrow> None | Some b \<Rightarrow> read_string r' (acc @ [b])))))"

end
