(* ===== verification/JsonTextProps.thy ===== *)
theory JsonTextProps
  imports JsonText Crypto
begin

text \<open>
  The bridge's JSON texts: a string cannot leave its quotes and is read back byte for byte, every value shown is a
  JSON value but for numbers, which are shown as the stream prints them, a text is UTF-8 exactly when the strings in it
  are, and hexadecimal texts are those of the common code.
\<close>

section \<open>Hexadecimal\<close>

lemma nibble_digit: "n < 16 \<Longrightarrow> ascii ''0123456789abcdef'' ! n = hex_digit False n"
proof -
  assume "n < 16"
  then have "n \<in> set [0..<16]" by simp
  moreover have "\<forall>n \<in> set [0..<16]. ascii ''0123456789abcdef'' ! n = hex_digit False n"
    by code_simp
  ultimately show ?thesis by blast
qed

lemma and_0F: "(v :: u8) AND 0x0F = take_bit 4 v"
  by (simp add: take_bit_eq_mask mask_eq_exp_minus_1)

lemma unat_and_0F: "unat ((v :: u8) AND 0x0F) = unat v mod 16"
  unfolding and_0F by (simp only: unsigned_take_bit_eq) (simp add: take_bit_eq_mod)

lemma lower_hex_digit_eq: "lower_hex_digit v = hex_digit False (unat v mod 16)"
  by (simp add: lower_hex_digit_def unat_and_0F nibble_digit)

lemma unat_high_nibble: "unat (drop_bit 4 (v :: u8)) = unat v div 16"
  by (simp only: unat_drop_bit_eq) (simp add: drop_bit_eq_div)

lemma lower_hex: "bytes_to_lower_hex data = to_hex False data"
proof (induction data)
  case (Cons b data)
  have "unat b div 16 < 16" using unat_u8_bound [of b] by linarith
  with Cons show ?case
    by (simp add: bytes_to_lower_hex_def lower_hex_digit_eq unat_high_nibble)
qed (simp add: bytes_to_lower_hex_def)

lemma hex_value_digit: "n < 16 \<Longrightarrow> hex_value (hex_digit False n) = Some n"
proof -
  assume "n < 16"
  then have "n \<in> set [0..<16]" by simp
  moreover have "\<forall>n \<in> set [0..<16]. hex_value (hex_digit False n) = Some n"
    by code_simp
  ultimately show ?thesis by blast
qed

section \<open>Strings\<close>

lemma read_control:
  assumes "ch < 0x20"
  shows "read_string ([92, 117, 48, 48, lower_hex_digit (drop_bit 4 ch), lower_hex_digit ch] @ r) acc
    = read_string r (acc @ [ch])"
proof -
  have "unat ch < 32" using assms by (simp add: word_less_nat_alt)
  then have "unat ch div 16 < 8" and m: "unat ch div 16 < 16" "unat ch mod 16 < 16" by linarith+
  then show ?thesis
    by (simp add: lower_hex_digit_eq unat_high_nibble hex_value_digit)
qed

lemma read_plain:
  "ch \<noteq> 34 \<Longrightarrow> ch \<noteq> 92 \<Longrightarrow> \<not> ch < 0x20 \<Longrightarrow> read_string ([ch] @ r) acc = read_string r (acc @ [ch])"
  by simp

lemma read_pair:
  "simple_escape e = Some b \<Longrightarrow> e \<noteq> 117 \<Longrightarrow> read_string ([92, e] @ r) acc = read_string r (acc @ [b])"
  by simp

lemma read_escaped_char: "read_string (escape_char ch @ r) acc = read_string r (acc @ [ch])"
proof -
  consider "ch \<in> {34, 92, 8, 12, 10, 13, 9}" | "ch \<notin> {34, 92, 8, 12, 10, 13, 9}" "ch < 0x20"
    | "ch \<notin> {34, 92, 8, 12, 10, 13, 9}" "\<not> ch < 0x20" by blast
  then show ?thesis
  proof cases
    case 1
    then show ?thesis by (auto simp: escape_char_def simple_escape_def)
  next
    case 2
    then have "escape_char ch = [92, 117, 48, 48, lower_hex_digit (drop_bit 4 ch), lower_hex_digit ch]"
      by (simp add: escape_char_def)
    then show ?thesis using read_control [OF 2(2)] by (simp only:)
  next
    case 3
    then have "escape_char ch = [ch]" by (simp add: escape_char_def)
    then show ?thesis using read_plain [of ch r acc] 3 by (simp only:) blast
  qed
qed

lemma read_escaped: "read_string (escape_json s @ 34 # rest) acc = Some (acc @ s, rest)"
proof (induction s arbitrary: acc)
  case Nil
  then show ?case by (simp add: escape_json_def)
next
  case (Cons c s)
  have "escape_json (c # s) @ 34 # rest = escape_char c @ (escape_json s @ 34 # rest)"
    by (simp add: escape_json_def)
  then show ?case using Cons by (simp only: read_escaped_char) simp
qed

section \<open>Encoding\<close>

text \<open>
  RFC 8259 asks for UTF-8. The reader of RFC 3629 as an automaton: what may follow of a character that has begun; after
  the bytes E0, ED, F0 and F4 the next byte is restricted further (overlong forms, surrogates, beyond the last character).
\<close>

datatype utf8_state = Char_Start | Need_1 | Need_2 | After_E0 | After_ED | Need_3 | After_F0 | After_F4

definition byte_in :: "u8 \<Rightarrow> u8 \<Rightarrow> u8 \<Rightarrow> utf8_state \<Rightarrow> utf8_state option" where
  "byte_in lo hi b st = (if lo \<le> b \<and> b \<le> hi then Some st else None)"

fun utf8_step :: "utf8_state \<Rightarrow> u8 \<Rightarrow> utf8_state option" where
  "utf8_step Char_Start b =
     (if b < 0x80 then Some Char_Start
      else if 0xC2 \<le> b \<and> b \<le> 0xDF then Some Need_1
      else if b = 0xE0 then Some After_E0
      else if b = 0xED then Some After_ED
      else if 0xE1 \<le> b \<and> b \<le> 0xEF then Some Need_2
      else if b = 0xF0 then Some After_F0
      else if b = 0xF4 then Some After_F4
      else if 0xF1 \<le> b \<and> b \<le> 0xF3 then Some Need_3
      else None)"
| "utf8_step Need_1 b = byte_in 0x80 0xBF b Char_Start"
| "utf8_step Need_2 b = byte_in 0x80 0xBF b Need_1"
| "utf8_step After_E0 b = byte_in 0xA0 0xBF b Need_1"
| "utf8_step After_ED b = byte_in 0x80 0x9F b Need_1"
| "utf8_step Need_3 b = byte_in 0x80 0xBF b Need_2"
| "utf8_step After_F0 b = byte_in 0x90 0xBF b Need_2"
| "utf8_step After_F4 b = byte_in 0x80 0x8F b Need_2"

fun utf8_run :: "utf8_state \<Rightarrow> bytes \<Rightarrow> utf8_state option" where
  "utf8_run st [] = Some st"
| "utf8_run st (b # bs) = (case utf8_step st b of None \<Rightarrow> None | Some st' \<Rightarrow> utf8_run st' bs)"

definition utf8 :: "bytes \<Rightarrow> bool" where
  "utf8 s \<longleftrightarrow> utf8_run Char_Start s = Some Char_Start"

definition ascii_bytes :: "bytes \<Rightarrow> bool" where
  "ascii_bytes s \<longleftrightarrow> list_all (\<lambda>b. b < 0x80) s"

lemma step_ascii: "b < 0x80 \<Longrightarrow> utf8_step st b = (if st = Char_Start then Some Char_Start else None)"
  by (cases st) (auto simp: byte_in_def word_less_nat_alt word_le_nat_alt)

lemma run_append: "utf8_run st (a @ b) = (case utf8_run st a of None \<Rightarrow> None | Some st' \<Rightarrow> utf8_run st' b)"
  by (induction a arbitrary: st) (auto split: option.split)

lemma run_ascii: "ascii_bytes s \<Longrightarrow> s \<noteq> [] \<Longrightarrow> utf8_run st s = (if st = Char_Start then Some Char_Start else None)"
proof (induction s arbitrary: st)
  case (Cons b s)
  then show ?case by (cases "s = []") (auto simp: ascii_bytes_def step_ascii)
qed simp

lemma utf8_ascii: "ascii_bytes s \<Longrightarrow> utf8 s"
  using run_ascii [of s Char_Start] by (cases "s = []") (simp_all add: utf8_def)

lemma utf8_append: "utf8 a \<Longrightarrow> utf8 (a @ b) = utf8 b"
  by (simp add: utf8_def run_append)

lemma utf8_nil [simp]: "utf8 []"
  by (simp add: utf8_def)

lemma utf8_cons [simp]: "b < 0x80 \<Longrightarrow> utf8 (b # s) = utf8 s"
  by (simp add: utf8_def step_ascii)

lemma utf8_split:
  assumes "utf8 (a @ sep # b)" and "sep < 0x80"
  shows "utf8 a" and "utf8 b"
proof -
  obtain st where st: "utf8_run Char_Start a = Some st" "utf8_run st (sep # b) = Some Char_Start"
    using assms(1) by (auto simp: utf8_def run_append simp del: utf8_run.simps split: option.splits)
  then have "st = Char_Start" using assms(2) by (simp add: step_ascii split: if_splits)
  then show "utf8 a" "utf8 b" using st assms(2) by (simp_all add: utf8_def step_ascii)
qed

lemma escape_ascii: "ch < 0x80 \<Longrightarrow> ascii_bytes (escape_char ch) \<and> escape_char ch \<noteq> []"
proof -
  have "lower_hex_digit v < 0x80" for v
  proof -
    have "unat v mod 16 \<in> set [0..<16]" by simp
    moreover have "\<forall>n \<in> set [0..<16]. hex_digit False n < 0x80" by code_simp
    ultimately show ?thesis by (simp only: lower_hex_digit_eq)
  qed
  then show "ch < 0x80 \<Longrightarrow> ?thesis" by (simp add: escape_char_def ascii_bytes_def)
qed

lemma run_escape_char: "utf8_run st (escape_char ch) = utf8_run st [ch]"
proof (cases "ch < 0x80")
  case True
  then show ?thesis using run_ascii [of "escape_char ch" st] escape_ascii by (simp add: step_ascii)
next
  case False
  then have "escape_char ch = [ch]" by (auto simp: escape_char_def word_less_nat_alt)
  then show ?thesis by simp
qed

lemma utf8_escape: "utf8 (escape_json s) = utf8 s"
proof -
  have "utf8_run st (escape_json s) = utf8_run st s" for st
  proof (induction s arbitrary: st)
    case (Cons c s)
    have "utf8_run st (escape_json (c # s)) = utf8_run st (escape_char c @ escape_json s)" by (simp add: escape_json_def)
    also have "\<dots> = utf8_run st ([c] @ s)" unfolding run_append run_escape_char Cons.IH by (rule refl)
    finally show ?case by simp
  qed (simp add: escape_json_def)
  then show ?thesis by (simp add: utf8_def)
qed

lemma utf8_snoc: "b < 0x80 \<Longrightarrow> utf8 (s @ [b]) = utf8 s"
  using utf8_split(1) [of s b "[]"] utf8_append [of s "[b]"] by auto

lemma utf8_quoted: "utf8 (quoted_json_string s) = utf8 s"
  by (simp add: quoted_json_string_def utf8_snoc utf8_escape)

lemma utf8_split_loop:
  "sep < 0x80 \<Longrightarrow> utf8 (current @ input) \<Longrightarrow> \<forall>p \<in> set result. utf8 p \<Longrightarrow>
    \<forall>p \<in> set (split_loop sep input result current). utf8 p"
proof (induction sep input result current rule: split_loop.induct)
  case (2 sep ch input result current)
  show ?case
  proof (cases "ch = sep")
    case True
    then have "utf8 current" "utf8 ([] @ input)" using 2(3,4) utf8_split [of current sep input] by simp_all
    then show ?thesis using 2(1) [OF True 2(3)] 2(5) True by auto
  next
    case False
    then show ?thesis using 2(2) [OF False 2(3)] 2(4,5) by simp
  qed
qed simp

lemma utf8_split_string: "sep < 0x80 \<Longrightarrow> utf8 input \<Longrightarrow> p \<in> set (split_string input sep) \<Longrightarrow> utf8 p"
  using utf8_split_loop [of sep "[]" input "[]"] by (simp add: split_string_def)

lemma utf8_key_value: "key_value part = Some (k, v) \<Longrightarrow> utf8 part \<Longrightarrow> utf8 v"
proof -
  assume kv: "key_value part = Some (k, v)" and u: "utf8 part"
  then have "61 \<in> set part" by (simp add: key_value_def split: if_splits)
  then have "part = takeWhile (\<lambda>c. c \<noteq> 61) part @ 61 # tl (dropWhile (\<lambda>c. c \<noteq> 61) part)"
    by (induction part) auto
  moreover have "v = tl (dropWhile (\<lambda>c. c \<noteq> 61) part)" using kv by (simp add: key_value_def split: if_splits)
  ultimately show ?thesis using u utf8_split(2) [of "takeWhile (\<lambda>c. c \<noteq> 61) part" 61 v] by simp
qed

lemma utf8_options_map: "utf8 opts \<Longrightarrow> parse_options_map opts key = Some v \<Longrightarrow> utf8 v"
proof -
  assume "utf8 opts"
  then have "\<forall>p \<in> set (split_string opts 59). utf8 p" using utf8_split_string [of 59 opts] by simp
  then have "\<forall>k v. fold (\<lambda>part opts. case key_value part of None \<Rightarrow> opts | Some (key, val) \<Rightarrow> opts(key \<mapsto> val)) ps m k = Some v
      \<longrightarrow> utf8 v" if "set ps \<subseteq> set (split_string opts 59)" "\<forall>k v. m k = Some v \<longrightarrow> utf8 v" for ps m
    using that
  proof (induction ps arbitrary: m)
    case (Cons p ps)
    have "\<forall>k v. (case key_value p of None \<Rightarrow> m | Some (key, val) \<Rightarrow> m(key \<mapsto> val)) k = Some v \<longrightarrow> utf8 v"
      using Cons.prems utf8_key_value [of p] by (auto split: option.split)
    then show ?case using Cons.IH Cons.prems by simp
  qed simp
  from this [of "split_string opts 59" "\<lambda>_. None"]
  show "parse_options_map opts key = Some v \<Longrightarrow> utf8 v" by (simp add: parse_options_map_def)
qed

lemma utf8_option_list: "utf8 opts \<Longrightarrow> e \<in> set (option_list (parse_options_map opts) key) \<Longrightarrow> utf8 e"
proof -
  assume u: "utf8 opts" and e: "e \<in> set (option_list (parse_options_map opts) key)"
  then obtain v where v: "parse_options_map opts key = Some v" and ev: "e \<in> set (split_string v 124)"
    by (cases "parse_options_map opts key") (simp_all add: option_list_def)
  show ?thesis by (rule utf8_split_string [OF _ utf8_options_map [OF u v] ev]) simp
qed

lemma utf8_select_options: "utf8 opts \<Longrightarrow> e \<in> set (parse_select_options opts) \<Longrightarrow> utf8 e"
proof -
  assume u: "utf8 opts" and e: "e \<in> set (parse_select_options opts)"
  have parts: "\<forall>p \<in> set (split_string opts 59). utf8 p" and fb: "\<forall>p \<in> set (split_string opts 124). utf8 p"
    using utf8_split_string [OF _ u, of 59] utf8_split_string [OF _ u, of 124] by simp_all
  have "\<forall>p \<in> set (select_options_loop fb ps). utf8 p" if "\<forall>p \<in> set ps. utf8 p" "\<forall>p \<in> set fb. utf8 p" for fb ps
    using that
  proof (induction fb ps rule: select_options_loop.induct)
    case (2 fb part parts)
    have rest: "\<forall>p \<in> set (select_options_loop fb parts). utf8 p" if "key_value part = None" using 2(1) that 2(3,4) by simp
    show ?case
    proof (cases "key_value part")
      case None
      then show ?thesis using rest by simp
    next
      case (Some kv)
      obtain k v where kv: "key_value part = Some (k, v)" using Some by (cases kv) simp
      then have "utf8 v" using 2(3) utf8_key_value by auto
      then have "\<forall>p \<in> set (split_string v 124). utf8 p" using utf8_split_string [of 124 v] by simp
      moreover have "\<forall>p \<in> set (select_options_loop fb parts). utf8 p"
        if "\<not> (k = ascii ''options'' \<and> split_string v 124 \<noteq> [])"
        using 2(2) [OF kv refl that] 2(3,4) by simp
      ultimately show ?thesis using kv by simp
    qed
  qed simp
  from this [OF parts fb] show ?thesis using e by (simp add: parse_select_options_def)
qed

section \<open>Values\<close>

text \<open>
  The grammar of RFC 8259 over bytes, without arrays and white space, which the bridge does not write here: literals,
  numbers (sign, integer, fraction, exponent), strings and objects.
\<close>

definition json_digits :: "bytes \<Rightarrow> bool" where
  "json_digits ds \<longleftrightarrow> ds \<noteq> [] \<and> list_all (\<lambda>d. 48 \<le> d \<and> d \<le> 57) ds"

definition json_integer :: "bytes \<Rightarrow> bool" where
  "json_integer ds \<longleftrightarrow> json_digits ds \<and> (hd ds = 48 \<longrightarrow> length ds = 1)"

definition json_fraction :: "bytes \<Rightarrow> bool" where
  "json_fraction t \<longleftrightarrow> t = [] \<or> hd t = 46 \<and> json_digits (tl t)"

definition json_exponent :: "bytes \<Rightarrow> bool" where
  "json_exponent t \<longleftrightarrow> t = [] \<or>
     hd t \<in> {101, 69} \<and> (json_digits (tl t) \<or> tl t \<noteq> [] \<and> hd (tl t) \<in> {43, 45} \<and> json_digits (tl (tl t)))"

inductive json_value :: "bytes \<Rightarrow> bool" and json_members :: "bytes \<Rightarrow> bool" where
  json_literal: "w \<in> {ascii ''true'', ascii ''false'', ascii ''null''} \<Longrightarrow> json_value w"
| json_number: "sg \<in> {[], [45]} \<Longrightarrow> json_integer ds \<Longrightarrow> json_fraction fr \<Longrightarrow> json_exponent ex \<Longrightarrow>
    json_value (sg @ ds @ fr @ ex)"
| json_string: "read_string body [] = Some (s, []) \<Longrightarrow> json_value (34 # body)"
| json_empty: "json_value [123, 125]"
| json_object: "json_members ms \<Longrightarrow> json_value (123 # ms @ [125])"
| json_one: "read_string nm [] = Some (n, []) \<Longrightarrow> json_value v \<Longrightarrow> json_members (34 # nm @ 58 # v)"
| json_more: "json_members ms \<Longrightarrow> json_members m \<Longrightarrow> json_members (ms @ 44 # m)"

lemma json_integer_value: "json_integer ds \<Longrightarrow> json_value ds"
  using json_number [of "[]" ds "[]" "[]"] by (simp add: json_fraction_def json_exponent_def)

lemma digit_range: "n < 10 \<Longrightarrow> 48 \<le> (of_nat (48 + n) :: u8) \<and> of_nat (48 + n) \<le> (57 :: u8)"
  by (simp only: word_le_nat_alt unat_of_nat_small) (simp add: unat_of_nat_small del: of_nat_add)

lemma digit_nonzero: "0 < n \<Longrightarrow> n < 10 \<Longrightarrow> (of_nat n :: u8) \<noteq> 0"
  using unat_of_nat_small [of n, where 'a = 8] by auto

lemma dec_digits_first: "dec_digits n \<noteq> [] \<and> (0 < n \<longrightarrow> hd (dec_digits n) \<noteq> 48)"
proof (induction n rule: dec_digits.induct)
  case (1 n)
  show ?case
  proof (cases "n < 10")
    case True
    then show ?thesis using digit_nonzero [of n] by (simp add: dec_digits.simps)
  next
    case False
    then have "0 < n div 10" by (simp add: div_greater_zero_iff)
    with 1 [OF False] False show ?thesis by (subst (1 2) dec_digits.simps) simp
  qed
qed

lemma dec_digits_digits: "list_all (\<lambda>d. 48 \<le> d \<and> d \<le> 57) (dec_digits n)"
proof (induction n rule: dec_digits.induct)
  case (1 n)
  have d: "48 \<le> (of_nat (48 + n mod 10) :: u8) \<and> of_nat (48 + n mod 10) \<le> (57 :: u8)"
    by (rule digit_range) simp
  show ?case
  proof (cases "n < 10")
    case True
    then show ?thesis using digit_range [of n] by (subst dec_digits.simps) simp
  next
    case False
    then show ?thesis using 1 [OF False] d by (subst dec_digits.simps) simp
  qed
qed

lemma json_dec_digits: "json_value (dec_digits n)"
proof (rule json_integer_value)
  have "hd (dec_digits n) = 48 \<longrightarrow> length (dec_digits n) = 1"
    using dec_digits_first [of n] by (cases "n = 0") (simp_all add: dec_digits.simps [of 0])
  then show "json_integer (dec_digits n)"
    using dec_digits_first [of n] dec_digits_digits [of n] by (simp add: json_integer_def json_digits_def)
qed

lemma json_int_value: "json_value (json_int b)"
  unfolding json_int_def by (rule json_dec_digits)

lemma json_bool_value: "json_value (json_bool b)"
  unfolding json_bool_def by (rule json_literal) simp

lemma json_null_value: "json_value (ascii ''null'')"
  by (rule json_literal) simp

lemma json_quoted_value: "json_value (quoted_json_string s)"
  using json_string [of "escape_json s @ [34]" s] read_escaped [of s "[]" "[]"] by (simp add: quoted_json_string_def)

text \<open>Names and words that need no escapes.\<close>

definition plain_text :: "bytes \<Rightarrow> bool" where
  "plain_text s \<longleftrightarrow> list_all (\<lambda>c. c \<noteq> 34 \<and> c \<noteq> 92 \<and> \<not> c < 0x20) s"

lemma escape_plain: "plain_text s \<Longrightarrow> escape_json s = s"
proof (induction s)
  case (Cons c s)
  then have c: "c \<noteq> 34" "c \<noteq> 92" "\<not> c < 0x20" and s: "plain_text s" by (auto simp: plain_text_def)
  have "c \<noteq> 8 \<and> c \<noteq> 12 \<and> c \<noteq> 10 \<and> c \<noteq> 13 \<and> c \<noteq> 9" using c(3) by (auto simp: word_less_nat_alt)
  with c have "escape_char c = [c]" by (simp add: escape_char_def)
  with Cons.IH [OF s] show ?case by (simp add: escape_json_def)
qed (simp add: escape_json_def)

lemma json_plain_value: "plain_text s \<Longrightarrow> json_value ([34] @ s @ [34])"
  using json_quoted_value [of s] by (simp add: quoted_json_string_def escape_plain)

lemma json_pair: "plain_text nm \<Longrightarrow> json_value v \<Longrightarrow> json_members ([34] @ nm @ [34, 58] @ v)"
  using json_one [of "nm @ [34]" nm v] read_escaped [of nm "[]" "[]"] by (simp add: escape_plain)

lemma json_add_member:
  "json_members ms \<Longrightarrow> plain_text (ascii nam) \<Longrightarrow> json_value v \<Longrightarrow> json_members (ms @ json_member nam v)"
  using json_more [of ms "[34] @ ascii nam @ [34, 58] @ v"] json_pair [of "ascii nam" v] by (simp add: json_member_def)

lemma json_add_optional:
  "json_members ms \<Longrightarrow> (c \<Longrightarrow> json_members (ms @ a)) \<Longrightarrow> (\<not> c \<Longrightarrow> json_members (ms @ b))
    \<Longrightarrow> json_members (ms @ (if c then a else b))"
  by simp

lemma json_object_value: "json_members ms \<Longrightarrow> json_value (json_object ms)"
  using json_value_json_members.json_object [of ms] by (simp add: json_object_def)

lemmas json_intros = json_int_value json_bool_value json_null_value json_quoted_value json_dec_digits
  json_add_member json_object_value

lemma state_member_members: "json_members (state_member v)"
  unfolding state_member_def by (intro json_pair json_bool_value) code_simp

lemma light_mode_plain: "plain_text (ascii (light_color_mode v opts))"
  by (simp add: light_color_mode_def color_mode_name_json_def plain_text_def ascii_def)

lemma json_add_option:
  assumes "json_members ms" and "c \<Longrightarrow> plain_text (ascii nam) \<and> json_value v"
  shows "json_members (ms @ (if c then json_member nam v else []))"
  using assms json_add_member by simp

lemma light_names:
  "list_all (\<lambda>n. plain_text (ascii n)) [''color_mode'', ''brightness'', ''color'', ''r'', ''g'', ''b'', ''color_temp'',
     ''white'', ''effect'', ''None'', ''speed_level'', ''oscillating'', ''direction'', ''reverse'', ''forward'']"
  by code_simp

lemma json_light: "json_value (build_light_state_json hsv v opts)"
proof (cases "length v < 1")
  case True
  then show ?thesis using json_empty by (simp add: build_light_state_json_def ascii_def)
next
  case False
  note names = light_names
  define om where "om = parse_options_map opts"
  define eff where "eff = option_list om (ascii ''effects'')"
  obtain r g b where rgb: "hsv (v ! 2) (v ! 3) (v ! 1) = (r, g, b)" by (metis prod.exhaust)
  let ?m = "state_member v @ json_member ''color_mode'' ([34] @ ascii (light_color_mode v om) @ [34])"
  have m: "json_members ?m"
    using names by (intro json_add_member state_member_members json_plain_value light_mode_plain) simp
  have col: "json_value (json_object ([34] @ ascii ''r'' @ [34, 58] @ json_int r
      @ json_member ''g'' (json_int g) @ json_member ''b'' (json_int b)))"
  proof (rule json_object_value)
    have "json_members ([34] @ ascii ''r'' @ [34, 58] @ json_int r)"
      using names by (intro json_pair json_int_value) simp
    from json_add_member [OF json_add_member [OF this _ json_int_value] _ json_int_value, of "''g''" "''b''" g b]
    show "json_members ([34] @ ascii ''r'' @ [34, 58] @ json_int r
      @ json_member ''g'' (json_int g) @ json_member ''b'' (json_int b))"
      using names by simp
  qed
  have eff: "json_value ([34] @ ascii ''None'' @ [34])" using names by (intro json_plain_value) simp
  have last: "json_members (ms @ (if eff \<noteq> [] \<and> 4 < length v
       then (if 0 < v ! 4 \<and> unat (v ! 4) \<le> length eff
             then json_member ''effect'' (quoted_json_string (eff ! (unat (v ! 4) - 1)))
             else json_member ''effect'' ([34] @ ascii ''None'' @ [34]))
       else []))" if "json_members ms" for ms
    using that names json_add_member [OF that _ json_quoted_value] json_add_member [OF that _ eff] by simp
  have nest: "a @ p @ u @ w @ x @ y @ z = ((((((a @ p) @ u) @ w) @ x) @ y) @ z)" for a p u w x y z :: bytes
    by simp
  have "json_members (state_member v
        @ json_member ''color_mode'' ([34] @ ascii (light_color_mode v om) @ [34])
        @ (if 1 < length v \<and> c1 then json_member ''brightness'' (json_int (v ! 1)) else [])
        @ (if 3 < length v \<and> c2 then json_member ''color'' (json_object ([34] @ ascii ''r'' @ [34, 58] @ json_int r
                   @ json_member ''g'' (json_int g) @ json_member ''b'' (json_int b))) else [])
        @ (if 7 < length v \<and> 0 < rd16 v 6
           then json_member ''color_temp'' (dec_digits (unat (rd16 v 6))) else [])
        @ (if 8 < length v \<and> 0 < v ! 8 then json_member ''white'' (json_int (v ! 8)) else [])
        @ (if eff \<noteq> [] \<and> 4 < length v
           then (if 0 < v ! 4 \<and> unat (v ! 4) \<le> length eff
                 then json_member ''effect'' (quoted_json_string (eff ! (unat (v ! 4) - 1)))
                 else json_member ''effect'' ([34] @ ascii ''None'' @ [34]))
           else []))" for c1 c2
    unfolding nest
    by (rule last, rule json_add_option, rule json_add_option, rule json_add_option, rule json_add_option, rule m)
       (use names col json_int_value json_dec_digits in simp_all)
  then show ?thesis
    using False unfolding build_light_state_json_def Let_def om_def [symmetric] eff_def [symmetric] rgb prod.case
    by (simp only: if_False json_object_value)
qed

lemma json_fan: "json_value (build_fan_state_json v)"
proof (cases "length v < 1")
  case True
  then show ?thesis using json_empty by (simp add: build_fan_state_json_def ascii_def)
next
  case False
  have dir: "json_value ([34] @ ascii (if v ! 3 \<noteq> 0 then ''reverse'' else ''forward'') @ [34])"
    using light_names by (intro json_plain_value) simp
  have nest: "a @ p @ u @ w = ((a @ p) @ u) @ w" for a p u w :: bytes
    by simp
  show ?thesis
    unfolding build_fan_state_json_def nest if_not_P [OF False]
    by (rule json_object_value, rule json_add_option, rule json_add_option, rule json_add_option,
        rule state_member_members)
       (use light_names dir json_int_value json_bool_value in simp_all)
qed

section \<open>The encoding of the values\<close>

lemma utf8_dec_digits: "utf8 (dec_digits n)"
proof -
  have "list_all (\<lambda>d. d < (0x80 :: u8)) (dec_digits n)"
    by (rule list.pred_mono_strong [OF dec_digits_digits]) (simp add: word_less_nat_alt word_le_nat_alt)
  then show ?thesis by (simp add: utf8_ascii ascii_bytes_def)
qed

lemma utf8_words:
  "list_all (\<lambda>n. utf8 (ascii n)) [''true'', ''false'', ''null'', ''{}'', ''0'', ''None'', ''reverse'', ''forward'', ''state'',
     ''color_mode'', ''brightness'', ''color'', ''r'', ''g'', ''b'', ''color_temp'', ''white'', ''effect'', ''speed_level'',
     ''oscillating'', ''direction'', ''LOCKED'', ''JAMMED'', ''UNLOCKED'', ''onoff'', ''rgb'', ''rgbw'', ''rgbww'']"
  by code_simp

lemma utf8_app: "utf8 a \<Longrightarrow> utf8 b \<Longrightarrow> utf8 (a @ b)"
  by (simp add: utf8_append)

lemma utf8_bool: "utf8 (json_bool b)"
  using utf8_words by (simp add: json_bool_def)

lemma utf8_int: "utf8 (json_int b)"
  by (simp add: json_int_def utf8_dec_digits)

lemma utf8_member: "utf8 (ascii nam) \<Longrightarrow> utf8 v \<Longrightarrow> utf8 (json_member nam v)"
  by (simp add: json_member_def utf8_append)

lemma utf8_object: "utf8 ms \<Longrightarrow> utf8 (json_object ms)"
  by (simp add: json_object_def utf8_append)

lemma utf8_text: "utf8 s \<Longrightarrow> utf8 ([34] @ s @ [34])"
  by (simp add: utf8_append)

lemma utf8_state: "utf8 (state_member v)"
  using utf8_words utf8_bool by (simp add: state_member_def utf8_append)

lemma utf8_mode: "utf8 (ascii (light_color_mode v om))"
  using utf8_words by (simp add: light_color_mode_def color_mode_name_json_def)

lemma utf8_optional: "(c \<Longrightarrow> utf8 a) \<Longrightarrow> utf8 (if c then a else [])"
  by simp

lemma utf8_light: "utf8 opts \<Longrightarrow> utf8 (build_light_state_json hsv v opts)"
proof (cases "length v < 1")
  case True
  then show ?thesis using utf8_words by (simp add: build_light_state_json_def)
next
  case False
  assume u: "utf8 opts"
  define om where "om = parse_options_map opts"
  define eff where "eff = option_list om (ascii ''effects'')"
  obtain r g b where rgb: "hsv (v ! 2) (v ! 3) (v ! 1) = (r, g, b)" by (metis prod.exhaust)
  have eff: "utf8 (eff ! i)" if "i < length eff" for i
    using utf8_option_list [OF u, of "eff ! i" "ascii ''effects''"] nth_mem [OF that] by (simp add: eff_def om_def)
  have "utf8 (json_member ''effect'' (quoted_json_string (eff ! (unat (v ! 4) - 1))))"
    if "0 < v ! 4 \<and> unat (v ! 4) \<le> length eff"
  proof -
    have "unat (v ! 4) - 1 < length eff" using that unfolding word_less_nat_alt by simp linarith
    then show ?thesis using utf8_words eff by (intro utf8_member) (simp_all add: utf8_quoted)
  qed
  moreover have "utf8 (json_member ''effect'' ([34] @ ascii ''None'' @ [34]))"
    using utf8_words by (intro utf8_member utf8_text) simp_all
  ultimately have e: "utf8 (if 0 < v ! 4 \<and> unat (v ! 4) \<le> length eff
      then json_member ''effect'' (quoted_json_string (eff ! (unat (v ! 4) - 1)))
      else json_member ''effect'' ([34] @ ascii ''None'' @ [34]))" by simp
  have col: "utf8 (json_object ([34] @ ascii ''r'' @ [34, 58] @ json_int r
      @ json_member ''g'' (json_int g) @ json_member ''b'' (json_int b)))"
    using utf8_words by (intro utf8_object) (simp add: utf8_append utf8_int utf8_member)
  have words: "utf8 (ascii ''color_mode'')" "utf8 (ascii ''brightness'')" "utf8 (ascii ''color'')"
    "utf8 (ascii ''color_temp'')" "utf8 (ascii ''white'')"
    using utf8_words by simp_all
  show ?thesis
    using False unfolding build_light_state_json_def Let_def om_def [symmetric] eff_def [symmetric] rgb prod.case
    by (simp only: if_False)
      (intro utf8_object utf8_app utf8_optional utf8_state utf8_member utf8_text utf8_mode utf8_int utf8_dec_digits col e words)
qed

lemma utf8_fan: "utf8 (build_fan_state_json v)"
proof (cases "length v < 1")
  case True
  then show ?thesis using utf8_words by (simp add: build_fan_state_json_def)
next
  case False
  have words: "utf8 (ascii ''speed_level'')" "utf8 (ascii ''oscillating'')" "utf8 (ascii ''direction'')"
    "utf8 (ascii (if c then ''reverse'' else ''forward''))" for c
    using utf8_words by simp_all
  show ?thesis
    using False unfolding build_fan_state_json_def
    by (simp only: if_False)
      (intro utf8_object utf8_app utf8_optional utf8_state utf8_member utf8_text utf8_int utf8_bool words)
qed

lemma utf8_alarm: "utf8 (ascii (alarm_state_name b))"
proof -
  have "list_all (\<lambda>n. utf8 (ascii n)) [''armed_home'', ''armed_away'', ''armed_night'', ''armed_vacation'',
      ''armed_custom_bypass'', ''triggered'', ''pending'', ''arming'', ''disarming'', ''disarmed'']" by code_simp
  then show ?thesis by (simp add: alarm_state_name_def)
qed

definition text_kind :: "espnow_field_type \<Rightarrow> bool" where
  "text_kind ftype \<longleftrightarrow>
     ftype \<in> {FIELD_TYPE_TEXT, FIELD_TYPE_TEXT_SENSOR, FIELD_TYPE_EVENT, FIELD_TYPE_TIME, FIELD_TYPE_DATETIME}"

text \<open>
  C37: Whatever bytes a remote reports as the value of an entity, and whatever its options are, the text the bridge shows
  matches the JSON grammar, except that a number of at least four bytes is shown exactly as the stream prints the first four
  as a floating point number. The text of a text entity is UTF-8 if and only if the reported bytes are, so that bytes which
  are not are shown as they are, in a text that is not JSON; the text of every other entity, numbers apart, is UTF-8 when the
  options are.
\<close>

theorem state_values_are_json:
  fixes float_text hsv_to_rgb ftype val opts
  defines "shown \<equiv> state_value_json float_text hsv_to_rgb ftype val opts"
  shows "(if ftype \<in> {FIELD_TYPE_SENSOR, FIELD_TYPE_NUMBER} \<and> 4 \<le> length val
       then shown = float_text (take 4 val) else json_value shown)
    \<and> (text_kind ftype \<longrightarrow> utf8 shown = utf8 val)
    \<and> (ftype \<notin> {FIELD_TYPE_SENSOR, FIELD_TYPE_NUMBER} \<and> \<not> text_kind ftype \<and> utf8 opts \<longrightarrow> utf8 shown)"
proof (intro conjI impI)
  have zero: "json_value (ascii ''0'')" by (rule json_integer_value) code_simp
  show "if ftype \<in> {FIELD_TYPE_SENSOR, FIELD_TYPE_NUMBER} \<and> 4 \<le> length val
       then shown = float_text (take 4 val) else json_value shown"
    by (cases ftype)
       (auto simp: shown_def state_value_json_def zero json_bool_value json_int_value json_quoted_value json_light json_fan
          json_null_value)
  have null: "utf8 (ascii ''null'')" using utf8_words by simp
  show "utf8 shown = utf8 val" if "text_kind ftype"
    using that null by (auto simp: text_kind_def shown_def state_value_json_def utf8_quoted)
  show "utf8 shown"
    if "ftype \<notin> {FIELD_TYPE_SENSOR, FIELD_TYPE_NUMBER} \<and> \<not> text_kind ftype \<and> utf8 opts"
  proof -
    have sel: "utf8 (parse_select_options opts ! i)" if "i < length (parse_select_options opts)" for i
      using utf8_select_options [OF _ nth_mem [OF that]] \<open>_ \<and> _ \<and> utf8 opts\<close> by blast
    show ?thesis using that null sel utf8_words
      by (cases ftype)
         (simp_all add: text_kind_def shown_def state_value_json_def utf8_quoted utf8_bool utf8_int utf8_light utf8_fan utf8_alarm)
  qed
qed

theorem state_values_are_json_witness:
  "json_value (state_value_json (\<lambda>_. ascii ''21.5'') (\<lambda>h s v. (v, s, h)) FIELD_TYPE_TEXT [34, 10, 65] [])
   \<and> state_value_json (\<lambda>_. ascii ''21.5'') (\<lambda>h s v. (v, s, h)) FIELD_TYPE_TEXT [34, 10, 65] []
     = [34, 92, 34, 92, 110, 65, 34]
   \<and> state_value_json (\<lambda>_. ascii ''21.5'') (\<lambda>h s v. (v, s, h)) FIELD_TYPE_SENSOR [0, 0, 172, 65] [] = ascii ''21.5''
   \<and> json_value (ascii ''21.5'') \<and> json_value (ascii ''-1e-05'')
   \<and> \<not> utf8 (state_value_json (\<lambda>_. ascii ''21.5'') (\<lambda>h s v. (v, s, h)) FIELD_TYPE_TEXT [0xC0, 0x80] [])"
proof (intro conjI)
  note c = state_values_are_json [of FIELD_TYPE_TEXT "[34, 10, 65]" "\<lambda>_. ascii ''21.5''" "\<lambda>h s v. (v, s, h)" "[]"]
    state_values_are_json [of FIELD_TYPE_TEXT "[0xC0, 0x80]" "\<lambda>_. ascii ''21.5''" "\<lambda>h s v. (v, s, h)" "[]"]
    state_values_are_json [of FIELD_TYPE_SENSOR "[0, 0, 172, 65]" "\<lambda>_. ascii ''21.5''" "\<lambda>h s v. (v, s, h)" "[]"]
  show "json_value (state_value_json (\<lambda>_. ascii ''21.5'') (\<lambda>h s v. (v, s, h)) FIELD_TYPE_TEXT [34, 10, 65] [])"
    using c(1) by simp
  have "\<not> utf8 [0xC0, 0x80]" by code_simp
  then show "\<not> utf8 (state_value_json (\<lambda>_. ascii ''21.5'') (\<lambda>h s v. (v, s, h)) FIELD_TYPE_TEXT [0xC0, 0x80] [])"
    using c(2) by (simp add: text_kind_def)
  show "state_value_json (\<lambda>_. ascii ''21.5'') (\<lambda>h s v. (v, s, h)) FIELD_TYPE_SENSOR [0, 0, 172, 65] [] = ascii ''21.5''"
    using c(3) by simp
  have "json_value ([] @ ascii ''21'' @ ascii ''.5'' @ [])" by (rule json_number) code_simp+
  then show "json_value (ascii ''21.5'')" by (simp add: ascii_def)
  have "json_value ([45] @ ascii ''1'' @ [] @ ascii ''e-05'')" by (rule json_number) code_simp+
  then show "json_value (ascii ''-1e-05'')" by (simp add: ascii_def)
qed code_simp

text \<open>\<^verbatim>\<open>ostringstream\<close> prints a number that is not one as \<^verbatim>\<open>nan\<close>, which is no JSON value.\<close>

lemma nan_is_no_json: "\<not> json_value (state_value_json (\<lambda>_. ascii ''nan'') hsv FIELD_TYPE_SENSOR [0, 0, 192, 127] opts)"
proof -
  have "state_value_json (\<lambda>_. ascii ''nan'') hsv FIELD_TYPE_SENSOR [0, 0, 192, 127] opts = [110, 97, 110]"
    by (simp add: state_value_json_def ascii_def)
  moreover have "[110, 97, 110] \<noteq> sg @ ds @ fr @ ex" if "sg \<in> {[], [45]}" "json_integer ds" for sg ds fr ex :: bytes
  proof -
    have "ds \<noteq> []" "48 \<le> hd ds \<and> hd ds \<le> 57" using that(2) by (cases ds; simp add: json_integer_def json_digits_def)+
    then show ?thesis using that(1) by (cases ds) (auto simp: word_le_nat_alt)
  qed
  then have "\<not> json_value [110, 97, 110]"
    by (auto elim!: json_value.cases simp: ascii_def)
  ultimately show ?thesis by simp
qed

end
