(* ===== verification/ApiTypes.thy ===== *)
theory ApiTypes
  imports RuntimePb
begin

text \<open>
  What the transports of the runtime interface share (\<^verbatim>\<open>esp_tree_bridge/bridge_api_types.h\<close>,
  \<^verbatim>\<open>bridge_api_auth.cpp\<close>): the checksum of firmware chunks, the codes of failed starts, and
  the comparison of keys.
\<close>

section \<open>The checksum\<close>

definition crc_bit :: "u32 \<Rightarrow> u32" where
  "crc_bit crc = drop_bit 1 crc XOR (0xEDB88320 AND (0 - (crc AND 1)))"

fun crc_bits :: "nat \<Rightarrow> u32 \<Rightarrow> u32" where
  "crc_bits 0 crc = crc"
| "crc_bits (Suc n) crc = crc_bits n (crc_bit crc)"

fun crc32_loop :: "bytes \<Rightarrow> u32 \<Rightarrow> u32" where
  "crc32_loop [] crc = crc"
| "crc32_loop (b # data) crc = crc32_loop data (crc_bits 8 (crc XOR ucast b))"

definition crc32_bytes :: "bytes option \<Rightarrow> u32" where
  "crc32_bytes data =
     (case data of None \<Rightarrow> 0xFFFFFFFF XOR 0xFFFFFFFF | Some d \<Rightarrow> crc32_loop d 0xFFFFFFFF XOR 0xFFFFFFFF)"

section \<open>Error codes\<close>

definition lower_ascii :: "u8 \<Rightarrow> u8" where
  "lower_ascii c = (if 65 \<le> c \<and> c \<le> 90 then c - 65 + 97 else c)"

fun contains_text :: "bytes \<Rightarrow> bytes \<Rightarrow> bool" where
  "contains_text [] sub \<longleftrightarrow> sub = []"
| "contains_text (c # s) sub \<longleftrightarrow> take (length sub) (c # s) = sub \<or> contains_text s sub"

definition ota_start_error_code :: "bytes option \<Rightarrow> bytes" where
  "ota_start_error_code message =
     (case message of None \<Rightarrow> ascii ''internal_error'' | Some m \<Rightarrow>
       (let text_of = map lower_ascii m in
        if contains_text text_of (ascii ''not found'') \<or> contains_text text_of (ascii ''offline'')
        then ascii ''remote_not_found''
        else if contains_text text_of (ascii ''busy'') then ascii ''ota_busy''
        else if contains_text text_of (ascii ''md5'') then ascii ''ota_invalid_md5''
        else if contains_text text_of (ascii ''size'') then ascii ''ota_invalid_size''
        else if contains_text text_of (ascii ''reject'') then ascii ''ota_rejected''
        else ascii ''internal_error''))"

section \<open>Keys\<close>

definition has_api_key :: "bytes option \<Rightarrow> bool" where
  "has_api_key api_key \<longleftrightarrow> (case api_key of None \<Rightarrow> False | Some k \<Rightarrow> k \<noteq> [])"

definition is_lower_or_upper_hex :: "bytes \<Rightarrow> bool" where
  "is_lower_or_upper_hex val \<longleftrightarrow>
     list_all (\<lambda>ch. (48 \<le> ch \<and> ch \<le> 57) \<or> (97 \<le> ch \<and> ch \<le> 102) \<or> (65 \<le> ch \<and> ch \<le> 70)) val"

function api_diff_loop :: "bytes \<Rightarrow> bytes \<Rightarrow> nat \<Rightarrow> nat \<Rightarrow> u8 \<Rightarrow> u8" where
  "api_diff_loop a b max_len i diff =
     (if i < max_len
      then api_diff_loop a b max_len (Suc i)
             (diff OR ((if i < length a then a ! i else 0) XOR (if i < length b then b ! i else 0)))
      else diff)"
  by pat_completeness auto

termination
  by (relation "measure (\<lambda>(_, _, max_len, i, _). max_len - i)") auto

declare api_diff_loop.simps [simp del]

definition api_constant_time_equal :: "bytes \<Rightarrow> bytes \<Rightarrow> bool" where
  "api_constant_time_equal a b \<longleftrightarrow>
     api_diff_loop a b (if length b < length a then length a else length b) 0
       (of_nat (length a) XOR of_nat (length b)) = 0"

section \<open>The checksum detects bursts\<close>

lemma poly_top: "bit (0xEDB88320 :: u32) 31"
  by code_simp

lemma minus_bit: "(0 :: u32) - (crc AND 1) = (if bit crc 0 then - 1 else 0)"
  by (simp add: and_one_eq odd_iff_mod_2_eq_one bit_0)

lemma crc_bit_cases: "crc_bit crc = drop_bit 1 crc XOR (if bit crc 0 then 0xEDB88320 else 0)"
  unfolding crc_bit_def minus_bit by simp

lemma crc_bit_top: "bit (crc_bit crc) 31 \<longleftrightarrow> bit crc 0"
proof -
  have "\<not> bit (drop_bit 1 crc) 31" using bit_imp_le_length [of crc 32] by (auto simp: bit_drop_bit_eq)
  then show ?thesis using poly_top by (cases "bit crc 0") (simp_all only: crc_bit_cases if_True if_False bit_xor_iff, simp_all)
qed

lemma crc_bit_xor: "crc_bit (x XOR y) = crc_bit x XOR crc_bit y"
  by (cases "bit x 0"; cases "bit y 0")
     (simp_all only: crc_bit_cases drop_bit_xor bit_xor_iff if_True if_False simp_thms xor.assoc xor.left_commute
        xor_self_eq xor.right_neutral, simp_all add: xor.commute xor.left_commute)

lemma crc_bit_zero: "crc_bit x = 0 \<Longrightarrow> x = 0"
proof -
  assume z: "crc_bit x = 0"
  then have b: "\<not> bit x 0" using crc_bit_top [of x] by simp
  with z have d: "drop_bit 1 x = 0" by (simp add: crc_bit_cases)
  show "x = 0"
  proof (rule bit_word_eqI)
    fix n assume "n < LENGTH(32)"
    have "\<not> bit x (Suc m)" for m
      using d bit_drop_bit_eq [of 1 x] by (metis bit_0_eq bot_apply comp_apply plus_1_eq_Suc bot_bool_def)
    then show "bit x n = bit 0 n" using b by (cases n) auto
  qed
qed

lemma crc_bits_xor: "crc_bits n (x XOR y) = crc_bits n x XOR crc_bits n y"
  by (induction n arbitrary: x y) (simp_all add: crc_bit_xor)

lemma crc_bits_zero: "crc_bits n x = 0 \<Longrightarrow> x = 0"
  by (induction n arbitrary: x) (auto dest: crc_bit_zero)

lemma crc_bits_shift: "take_bit n x = 0 \<Longrightarrow> crc_bits n x = drop_bit n x"
proof (induction n arbitrary: x)
  case (Suc n)
  have b0: "\<not> bit x 0" using Suc.prems by (metis bit_take_bit_iff bit_0_eq bot_apply bot_bool_def zero_less_Suc)
  have "take_bit n (drop_bit 1 x) = 0"
  proof (rule bit_word_eqI)
    fix m assume "m < LENGTH(32)"
    have "\<not> (Suc m < Suc n \<and> bit x (Suc m))" using Suc.prems by (metis bit_take_bit_iff bit_0_eq bot_apply bot_bool_def)
    then show "bit (take_bit n (drop_bit 1 x)) m = bit 0 m" by (simp add: bit_take_bit_iff bit_drop_bit_eq)
  qed
  from Suc.IH [OF this] b0 show ?case by (simp add: crc_bit_cases)
qed simp

lemma crc_bits_inj: "crc_bits n x = crc_bits n y \<Longrightarrow> x = y"
proof -
  assume "crc_bits n x = crc_bits n y"
  then have "crc_bits n (x XOR y) = 0" by (simp add: crc_bits_xor)
  then have "x XOR y = 0" by (rule crc_bits_zero)
  then show "x = y" by (metis xor_cancel xor.right_neutral)
qed

lemma crc_bits_add: "crc_bits m (crc_bits n x) = crc_bits (n + m) x"
  by (induction n arbitrary: x) simp_all

text \<open>The bytes of a burst as one number, the first byte lowest.\<close>

fun le_value :: "bytes \<Rightarrow> u32" where
  "le_value [] = 0"
| "le_value (b # x) = ucast b XOR push_bit 8 (le_value x)"

lemma bit_le_value_Cons:
  "bit (le_value (d # z)) n \<longleftrightarrow> (if n < 8 then bit d n else n < 32 \<and> bit (le_value z) (n - 8))"
proof (cases "n < 8")
  case True
  then show ?thesis by (simp add: bit_xor_iff bit_push_bit_iff bit_unsigned_iff)
next
  case False
  then have "\<not> bit d n" using bit_imp_le_length [of d n] by auto
  then show ?thesis using False by (auto simp: bit_xor_iff bit_push_bit_iff bit_unsigned_iff)
qed

lemma le_value_small: "bit (le_value x) n \<Longrightarrow> n < 8 * length x"
proof (induction x arbitrary: n)
  case (Cons b x)
  show ?case
  proof (cases "n < 8")
    case False
    then have "n - 8 < 8 * length x" using Cons.IH [of "n - 8"] Cons.prems unfolding bit_le_value_Cons by simp
    then show ?thesis using False by simp
  qed simp
qed simp

lemma crc_shift_byte: "length x \<le> 3 \<Longrightarrow> crc_bits 8 (push_bit 8 (le_value x)) = le_value x"
proof -
  assume len: "length x \<le> 3"
  have "take_bit 8 (push_bit 8 (le_value x)) = 0"
    by (rule bit_word_eqI) (auto simp: bit_take_bit_iff bit_push_bit_iff)
  then have "crc_bits 8 (push_bit 8 (le_value x)) = drop_bit 8 (push_bit 8 (le_value x))"
    by (rule crc_bits_shift)
  also have "\<dots> = le_value x"
  proof (rule bit_word_eqI)
    fix n
    have "bit (le_value x) n \<Longrightarrow> n < 24" using len le_value_small [of x n] by linarith
    then show "bit (drop_bit 8 (push_bit 8 (le_value x))) n = bit (le_value x) n"
      by (auto simp: bit_drop_bit_eq bit_push_bit_iff)
  qed
  finally show ?thesis .
qed

lemma crc32_loop_burst: "length x \<le> 4 \<Longrightarrow> crc32_loop x s = crc_bits (8 * length x) (s XOR le_value x)"
proof (induction x arbitrary: s)
  case (Cons b x)
  then have len: "length x \<le> 3" by simp
  have "crc32_loop (b # x) s = crc_bits (8 * length x) (crc_bits 8 (s XOR ucast b) XOR le_value x)"
    using Cons by simp
  also have "\<dots> = crc_bits (8 * length x) (crc_bits 8 ((s XOR ucast b) XOR push_bit 8 (le_value x)))"
    by (simp only: crc_bits_xor crc_shift_byte [OF len])
  also have "\<dots> = crc_bits (8 * length (b # x)) (s XOR le_value (b # x))"
    by (simp only: crc_bits_add le_value.simps xor.assoc) (simp add: algebra_simps)
  finally show ?case .
qed simp

lemma le_value_inj: "length x = length y \<Longrightarrow> length x \<le> 4 \<Longrightarrow> le_value x = le_value y \<Longrightarrow> x = y"
proof (induction x y rule: list_induct2)
  case (Cons b x c y)
  have same: "bit (le_value (b # x)) n = bit (le_value (c # y)) n" for n using Cons.prems(2) by simp
  have "b = c"
  proof (rule bit_word_eqI)
    fix n assume "n < LENGTH(8)"
    then show "bit b n = bit c n" using same [of n] by (simp only: bit_le_value_Cons) simp
  qed
  moreover have "le_value x = le_value y"
  proof (rule bit_word_eqI)
    fix n :: nat
    show "bit (le_value x) n = bit (le_value y) n"
    proof (cases "n < 24")
      case True
      then show ?thesis using same [of "n + 8"] by (simp only: bit_le_value_Cons) simp
    next
      case False
      then show ?thesis using le_value_small [of x n] le_value_small [of y n] Cons.hyps Cons.prems by auto
    qed
  qed
  ultimately show ?case using Cons by simp
qed simp

lemma crc32_loop_append: "crc32_loop (x @ y) s = crc32_loop y (crc32_loop x s)"
  by (induction x arbitrary: s) simp_all

lemma crc32_loop_inj: "crc32_loop x s = crc32_loop x t \<Longrightarrow> s = t"
proof (induction x arbitrary: s t)
  case (Cons b x)
  then have "crc_bits 8 (s XOR ucast b) = crc_bits 8 (t XOR ucast b)" by simp
  then have "s XOR ucast b = t XOR ucast b" by (rule crc_bits_inj)
  then show ?case by (metis xor_cancel_right)
qed simp

text \<open>
  The checksum of a firmware chunk finds every error that is confined to four consecutive bytes, wherever they are
  in the chunk and whatever surrounds them.
\<close>

theorem crc_detects_bursts:
  assumes "length x = length y" and "length x \<le> 4" and "x \<noteq> y"
  shows "crc32_bytes (Some (pre @ x @ post)) \<noteq> crc32_bytes (Some (pre @ y @ post))"
proof
  let ?s = "crc32_loop pre 0xFFFFFFFF"
  assume "crc32_bytes (Some (pre @ x @ post)) = crc32_bytes (Some (pre @ y @ post))"
  then have "crc32_loop (pre @ x @ post) 0xFFFFFFFF = crc32_loop (pre @ y @ post) 0xFFFFFFFF"
    unfolding crc32_bytes_def option.case by (metis xor_cancel_right)
  then have "crc32_loop x ?s = crc32_loop y ?s"
    unfolding crc32_loop_append by (rule crc32_loop_inj)
  then have "crc_bits (8 * length x) (?s XOR le_value x) = crc_bits (8 * length x) (?s XOR le_value y)"
    using assms(1,2) by (simp only: crc32_loop_burst)
  then have "?s XOR le_value x = ?s XOR le_value y" by (rule crc_bits_inj)
  then have "le_value x = le_value y" by (metis xor_cancel)
  then show False using le_value_inj [OF assms(1,2)] assms(3) by blast
qed

theorem crc_detects_bursts_witness:
  "crc32_bytes (Some (ascii ''a'')) = 0xE8B7BE43
   \<and> crc32_bytes (Some (ascii ''12'' @ ascii ''6543'' @ ascii ''789'')) \<noteq> crc32_bytes (Some (ascii ''12'' @ ascii ''3456'' @ ascii ''789''))"
proof
  show "crc32_bytes (Some (ascii ''12'' @ ascii ''6543'' @ ascii ''789'')) \<noteq> crc32_bytes (Some (ascii ''12'' @ ascii ''3456'' @ ascii ''789''))"
    by (rule crc_detects_bursts) (simp_all add: ascii_def)
qed code_simp

end
