(* ===== verification/SerialApi.thy ===== *)
theory SerialApi
  imports RuntimePb ApiTypes JsonText CobsCodec
begin

text \<open>
  The runtime interface over a serial line (\<^verbatim>\<open>esp_tree_bridge/bridge_api_serial.cpp\<close>). The transport
  is the record \<open>'b serial\<close>; \<open>'b\<close> is the bridge component behind it, whose calls are the record
  \<open>'b bridge_calls\<close> of functions on its state (the pointer to it is never null: the bridge makes the transport
  with itself). What one call sees of the platform is \<open>serial_env\<close>: the clock, the random numbers and the
  keyed hash. Arrays given to the UART are appended to \<open>sa_written\<close>. \<open>api_ota_resend_chunk_request\<close> may
  call the transport back, which it does as its last action: it returns the arguments of that call. A configuration
  command whose outcome comes later sends it through \<open>send_cobs_frame\<close>, an event of its own.
\<close>

section \<open>The bridge and the platform\<close>

record chunk_request =
  cq_job_id :: bytes
  cq_chunk_request_id :: bytes
  cq_sequences :: "u32 list"
  cq_progress :: ota_progress

record 'b bridge_calls =
  bc_api_key :: "'b \<Rightarrow> bytes"
  bc_bridge_mac :: "'b \<Rightarrow> bytes"
  bc_encode_auth_ok :: "'b \<Rightarrow> bytes \<Rightarrow> bytes"
  bc_encode_full_snapshot :: "'b \<Rightarrow> bytes \<Rightarrow> bytes"
  bc_encode_heartbeat :: "'b \<Rightarrow> bytes"
  bc_handle_command :: "'b \<Rightarrow> bytes \<Rightarrow> ParsedCommandRequest \<Rightarrow> 'b \<times> bytes"
  bc_handle_config_command :: "'b \<Rightarrow> bytes \<Rightarrow> ParsedConfigCommandRequest \<Rightarrow> 'b \<times> bytes option"
  bc_handle_state_receipt :: "'b \<Rightarrow> ParsedStateReceipt \<Rightarrow> 'b"
  bc_ota_start :: "'b \<Rightarrow> ParsedOtaStartRequest \<Rightarrow> bytes \<Rightarrow> 'b \<times> (bytes + bytes)"
  bc_ota_has_active_job :: "'b \<Rightarrow> bool"
  bc_ota_active_job_id :: "'b \<Rightarrow> bytes"
  bc_ota_resend_chunk_request :: "'b \<Rightarrow> 'b \<times> chunk_request option"
  bc_ota_abort :: "'b \<Rightarrow> bytes \<Rightarrow> bytes \<Rightarrow> 'b"
  bc_ota_inject_chunk :: "'b \<Rightarrow> u32 \<Rightarrow> bytes \<Rightarrow> 'b \<times> bool"
  bc_set_ota_transport_callbacks :: "'b \<Rightarrow> 'b"
  bc_clear_ota_transport_callbacks :: "'b \<Rightarrow> 'b"

record serial_env =
  se_millis :: u32
  se_random :: bytes
  se_hmac :: "bytes \<Rightarrow> bytes \<Rightarrow> bytes"
  se_double_text :: "bytes \<Rightarrow> bytes"

section \<open>The transport\<close>

datatype SerialAuthState = WAITING_HELLO | CHALLENGE_SENT | WAITING_AUTH_RESPONSE | AUTHENTICATED | AUTH_FAILED

abbreviation (input) CONNECTION_TIMEOUT_MS :: u32 where "CONNECTION_TIMEOUT_MS \<equiv> 60000"

definition MAX_RX_BUFFER :: nat where "MAX_RX_BUFFER = kRuntimeMaxFrameBytes * 2"

record 'b serial =
  sa_bridge :: 'b
  sa_auth_state :: SerialAuthState
  sa_rx_buffer :: bytes
  sa_server_nonce :: bytes
  sa_last_data_ms :: u32
  sa_last_heartbeat_ms :: u32
  sa_rx_dropped :: u32
  sa_ota_chunk_request_id :: bytes
  sa_ota_job_id :: bytes
  sa_ota_pending_sequences :: "u32 set"
  sa_ota_max_chunk_size :: u32
  sa_ota_max_chunks_per_batch :: u32
  sa_written :: "bytes list"

definition serial_init :: "'b \<Rightarrow> 'b serial" where
  "serial_init b =
     \<lparr>sa_bridge = b, sa_auth_state = WAITING_HELLO, sa_rx_buffer = [], sa_server_nonce = replicate 16 0,
      sa_last_data_ms = 0, sa_last_heartbeat_ms = 0, sa_rx_dropped = 0, sa_ota_chunk_request_id = [],
      sa_ota_job_id = [], sa_ota_pending_sequences = {}, sa_ota_max_chunk_size = 2048,
      sa_ota_max_chunks_per_batch = 6, sa_written = []\<rparr>"

definition sa_has_authenticated_client :: "'b serial \<Rightarrow> bool" where
  "sa_has_authenticated_client s \<longleftrightarrow> sa_auth_state s = AUTHENTICATED"

definition sa_send_cobs_frame :: "bytes \<Rightarrow> 'b serial \<Rightarrow> 'b serial" where
  "sa_send_cobs_frame payload s =
     (if payload = [] then s
      else s\<lparr>sa_written := sa_written s
               @ [cobs_encoded payload (replicate (length payload + length payload div 254 + 3) 0) @ [0]]\<rparr>)"

definition sa_send_auth_challenge :: "serial_env \<Rightarrow> 'b bridge_calls \<Rightarrow> 'b serial \<Rightarrow> 'b serial" where
  "sa_send_auth_challenge env B s =
     (let s = s\<lparr>sa_server_nonce := take 16 (se_random env), sa_auth_state := CHALLENGE_SENT\<rparr>
      in sa_send_cobs_frame
           (pb_envelope [] PB_AUTH_CHALLENGE (\<lambda>w.
              pb_string 5 (bc_bridge_mac B (sa_bridge s)) (pb_string 4 kRuntimeProtocol
                (pb_varint 3 (ucast kRuntimeApiVersion) (pb_varint 2 (ucast kRuntimeApiVersion)
                  (pb_bytes 1 (sa_server_nonce s) w)))))) s)"

fun bytes_diff :: "bytes \<Rightarrow> bytes \<Rightarrow> u8 \<Rightarrow> u8" where
  "bytes_diff (a # as) (b # bs) diff = bytes_diff as bs (diff OR (a XOR b))"
| "bytes_diff _ _ diff = diff"

text \<open>The text whose keyed hash proves that the client has the key.\<close>

definition auth_input :: "bytes \<Rightarrow> bytes \<Rightarrow> bytes \<Rightarrow> bytes" where
  "auth_input client_kind server_nonce client_nonce =
     kRuntimeProtocol @ [124] @ kRuntimeProtocolVersionLabel @ [124] @ client_kind @ [124]
       @ bytes_to_lower_hex server_nonce @ [124] @ bytes_to_lower_hex client_nonce"

definition sa_verify_auth_response ::
  "serial_env \<Rightarrow> 'b bridge_calls \<Rightarrow> 'b serial \<Rightarrow> ParsedAuthResponse \<Rightarrow> bool" where
  "sa_verify_auth_response env B s r \<longleftrightarrow>
     (if ar_client_kind r = [] \<or> ar_client_nonce r = [] \<or> length (ar_hmac_sha256 r) \<noteq> kRuntimeHmacBytes then False
      else bytes_diff
             (se_hmac env (bc_api_key B (sa_bridge s))
                (auth_input (ar_client_kind r) (sa_server_nonce s) (ar_client_nonce r)))
             (ar_hmac_sha256 r) 0 = 0)"

definition sa_send_auth_ok :: "'b bridge_calls \<Rightarrow> bytes \<Rightarrow> 'b serial \<Rightarrow> 'b serial" where
  "sa_send_auth_ok B request_id s = sa_send_cobs_frame (bc_encode_auth_ok B (sa_bridge s) request_id) s"

definition sa_send_auth_failed :: "bytes \<Rightarrow> bytes \<Rightarrow> bytes \<Rightarrow> 'b serial \<Rightarrow> 'b serial" where
  "sa_send_auth_failed request_id code message s =
     sa_send_cobs_frame (auth_failed_envelope request_id code message) s"

definition sa_send_error :: "bytes \<Rightarrow> string \<Rightarrow> string \<Rightarrow> 'b serial \<Rightarrow> 'b serial" where
  "sa_send_error request_id code message = sa_send_cobs_frame (error_envelope request_id (ascii code) (ascii message))"

definition sa_reset_auth :: "'b bridge_calls \<Rightarrow> 'b serial \<Rightarrow> 'b serial" where
  "sa_reset_auth B s =
     s\<lparr>sa_auth_state := WAITING_HELLO, sa_last_data_ms := 0, sa_last_heartbeat_ms := 0, sa_rx_buffer := [],
       sa_bridge := bc_clear_ota_transport_callbacks B (sa_bridge s)\<rparr>"

section \<open>Calls of the bridge back\<close>

definition sa_on_ota_accepted ::
  "bytes \<Rightarrow> bytes \<Rightarrow> bytes \<Rightarrow> u16 \<Rightarrow> u32 \<Rightarrow> u16 \<Rightarrow> 'b serial \<Rightarrow> 'b serial" where
  "sa_on_ota_accepted request_id job_id target_mac max_chunk_size total_chunks max_chunks_per_batch s =
     (if \<not> sa_has_authenticated_client s then s else
      sa_send_cobs_frame
        (encode_ota_accepted request_id job_id target_mac (ucast max_chunk_size) total_chunks (ucast max_chunks_per_batch))
        (s\<lparr>sa_ota_job_id := job_id, sa_ota_max_chunk_size := ucast max_chunk_size,
           sa_ota_max_chunks_per_batch := ucast max_chunks_per_batch\<rparr>))"

definition sa_on_ota_chunk_request :: "chunk_request \<Rightarrow> 'b serial \<Rightarrow> 'b serial" where
  "sa_on_ota_chunk_request q s =
     (if \<not> sa_has_authenticated_client s then s else
      sa_send_cobs_frame
        (encode_ota_chunk_request [] (cq_job_id q) (cq_chunk_request_id q) (cq_sequences q) (cq_progress q))
        (s\<lparr>sa_ota_job_id := cq_job_id q, sa_ota_chunk_request_id := cq_chunk_request_id q,
           sa_ota_pending_sequences := set (cq_sequences q)\<rparr>))"

definition sa_on_ota_status :: "bytes \<Rightarrow> u32 \<Rightarrow> u32 \<Rightarrow> u32 \<Rightarrow> u32 \<Rightarrow> bytes \<Rightarrow> 'b serial \<Rightarrow> 'b serial" where
  "sa_on_ota_status job_id state percent bytes_received file_size error_detail s =
     (if \<not> sa_has_authenticated_client s then s else
      sa_send_cobs_frame (encode_ota_status [] job_id state percent bytes_received file_size error_detail) s)"

definition sa_on_ota_aborted :: "bytes \<Rightarrow> bytes \<Rightarrow> bytes \<Rightarrow> 'b serial \<Rightarrow> 'b serial" where
  "sa_on_ota_aborted request_id job_id reason s =
     (if \<not> sa_has_authenticated_client s then s else
      sa_send_cobs_frame (encode_ota_aborted request_id job_id reason)
        (s\<lparr>sa_ota_chunk_request_id := [], sa_ota_job_id := [], sa_ota_pending_sequences := {}\<rparr>))"

section \<open>Firmware over the line\<close>

definition sa_handle_ota_start :: "'b bridge_calls \<Rightarrow> ParsedEnvelope \<Rightarrow> 'b serial \<Rightarrow> 'b serial" where
  "sa_handle_ota_start B env s =
     (case parse_ota_start_request (pe_msg_data env) of
        None \<Rightarrow> sa_send_error (pe_request_id env) ''invalid_ota_start'' ''Invalid OTA start request'' s
      | Some request \<Rightarrow>
          (case bc_ota_start B (sa_bridge s) request (pe_request_id env) of
             (b, Inl error_msg) \<Rightarrow>
               sa_send_cobs_frame
                 (error_envelope (pe_request_id env) (ota_start_error_code (Some error_msg))
                    (if error_msg = [] then ascii ''OTA start failed'' else error_msg)) (s\<lparr>sa_bridge := b\<rparr>)
           | (b, Inr job_id) \<Rightarrow>
               sa_send_cobs_frame
                 (encode_ota_status [] job_id OTA_STATE_ANNOUNCING 0 0 (os_file_size request) []) (s\<lparr>sa_bridge := b\<rparr>)))"

definition sa_chunk_invalid :: "'b serial \<Rightarrow> ParsedOtaChunk \<Rightarrow> bool" where
  "sa_chunk_invalid s chunk \<longleftrightarrow>
     oc_sequence chunk \<notin> sa_ota_pending_sequences s
     \<or> oc_payload chunk = None
     \<or> length (the (oc_payload chunk)) = 0
     \<or> unat (sa_ota_max_chunk_size s) < length (the (oc_payload chunk))
     \<or> (ucast (oc_offset chunk) :: u64) \<noteq> ucast (oc_sequence chunk) * ucast (sa_ota_max_chunk_size s)
     \<or> oc_flags chunk AND NOT 1 \<noteq> 0
     \<or> crc32_bytes (oc_payload chunk) \<noteq> oc_crc32 chunk"

text \<open>
  One chunk of a batch: the result says whether it was taken. An invalid chunk is not given to the bridge.
\<close>

definition sa_take_chunk :: "'b bridge_calls \<Rightarrow> ParsedOtaChunk \<Rightarrow> 'b serial \<Rightarrow> 'b serial \<times> bool" where
  "sa_take_chunk B chunk s =
     (if sa_chunk_invalid s chunk then (s, False) else
      case bc_ota_inject_chunk B (sa_bridge s) (oc_sequence chunk) (the (oc_payload chunk)) of
        (b, ok) \<Rightarrow>
          (let s = s\<lparr>sa_bridge := b\<rparr> in
           if \<not> ok then (s, False) else
           let pending = sa_ota_pending_sequences s - {oc_sequence chunk} in
           (s\<lparr>sa_ota_pending_sequences := pending,
              sa_ota_chunk_request_id := (if pending = {} then [] else sa_ota_chunk_request_id s)\<rparr>, True)))"

fun sa_take_chunks ::
  "'b bridge_calls \<Rightarrow> bytes \<Rightarrow> bytes \<Rightarrow> ParsedOtaChunk list \<Rightarrow> 'b serial \<Rightarrow> 'b serial" where
  "sa_take_chunks B request_id job_id [] s = s"
| "sa_take_chunks B request_id job_id (chunk # chunks) s =
     (case sa_take_chunk B chunk s of
        (s, True) \<Rightarrow> sa_take_chunks B request_id job_id chunks s
      | (s, False) \<Rightarrow>
          (let s = sa_send_error request_id ''ota_invalid_chunk'' ''OTA chunk rejected'' s
           in s\<lparr>sa_bridge := bc_ota_abort B (sa_bridge s) job_id (ascii ''invalid_chunk'')\<rparr>))"

definition sa_handle_ota_chunk_batch :: "'b bridge_calls \<Rightarrow> ParsedEnvelope \<Rightarrow> 'b serial \<Rightarrow> 'b serial" where
  "sa_handle_ota_chunk_batch B env s =
     (case parse_ota_chunk_batch (pe_msg_data env) of
        None \<Rightarrow> sa_send_error (pe_request_id env) ''ota_invalid_chunk'' ''Invalid OTA chunk batch'' s
      | Some batch \<Rightarrow>
          if \<not> bc_ota_has_active_job B (sa_bridge s) \<or> cb_job_id batch \<noteq> bc_ota_active_job_id B (sa_bridge s)
          then sa_send_error (pe_request_id env) ''ota_not_active'' ''No active OTA job for batch'' s
          else if cb_response_request_id batch \<noteq> sa_ota_chunk_request_id s
          then (case bc_ota_resend_chunk_request B (sa_bridge s) of
                  (b, None) \<Rightarrow> s\<lparr>sa_bridge := b\<rparr>
                | (b, Some q) \<Rightarrow> sa_on_ota_chunk_request q (s\<lparr>sa_bridge := b\<rparr>))
          else if unat (sa_ota_max_chunks_per_batch s) < length (cb_chunks batch)
          then (let s = sa_send_error (pe_request_id env) ''ota_invalid_chunk'' ''OTA chunk batch too large'' s
                in s\<lparr>sa_bridge := bc_ota_abort B (sa_bridge s) (cb_job_id batch) (ascii ''invalid_chunk_batch'')\<rparr>)
          else sa_take_chunks B (pe_request_id env) (cb_job_id batch) (cb_chunks batch) s)"

definition sa_handle_ota_abort :: "'b bridge_calls \<Rightarrow> ParsedEnvelope \<Rightarrow> 'b serial \<Rightarrow> 'b serial" where
  "sa_handle_ota_abort B env s =
     (case parse_ota_abort_request (pe_msg_data env) of
        None \<Rightarrow> sa_send_error (pe_request_id env) ''ota_not_active'' ''Invalid OTA abort request'' s
      | Some r \<Rightarrow>
          sa_send_cobs_frame (encode_ota_aborted (pe_request_id env) (ab_job_id r) (ab_reason r))
            (s\<lparr>sa_bridge := bc_ota_abort B (sa_bridge s) (ab_job_id r) (ab_reason r)\<rparr>))"

section \<open>Requests\<close>

definition sa_authenticate ::
  "serial_env \<Rightarrow> 'b bridge_calls \<Rightarrow> ParsedEnvelope \<Rightarrow> 'b serial \<Rightarrow> 'b serial" where
  "sa_authenticate env B e s =
     (case parse_auth_response (pe_msg_data e) of
        Some response \<Rightarrow>
          if sa_verify_auth_response env B s response
          then (let s = s\<lparr>sa_auth_state := AUTHENTICATED, sa_last_heartbeat_ms := se_millis env,
                          sa_last_data_ms := se_millis env,
                          sa_bridge := bc_set_ota_transport_callbacks B (sa_bridge s)\<rparr>;
                    s = sa_send_auth_ok B (pe_request_id e) s
                in sa_send_cobs_frame (bc_encode_full_snapshot B (sa_bridge s) (pe_request_id e)) s)
          else sa_reset_auth B
                 (sa_send_auth_failed (pe_request_id e) (ascii ''auth_failed'') (ascii ''Authentication failed'') s)
      | None \<Rightarrow> sa_reset_auth B
                 (sa_send_auth_failed (pe_request_id e) (ascii ''auth_failed'') (ascii ''Authentication failed'') s))"

definition sa_handle_command ::
  "serial_env \<Rightarrow> 'b bridge_calls \<Rightarrow> ParsedEnvelope \<Rightarrow> 'b serial \<Rightarrow> 'b serial" where
  "sa_handle_command env B e s =
     (case parse_command_request (se_double_text env) (pe_msg_data e) of
        None \<Rightarrow> sa_send_error (pe_request_id e) ''invalid_command'' ''Invalid command request'' s
      | Some request \<Rightarrow>
          (case bc_handle_command B (sa_bridge s) (pe_request_id e) request of
             (b, result) \<Rightarrow> sa_send_cobs_frame result (s\<lparr>sa_bridge := b\<rparr>)))"

definition sa_handle_config_command :: "'b bridge_calls \<Rightarrow> ParsedEnvelope \<Rightarrow> 'b serial \<Rightarrow> 'b serial" where
  "sa_handle_config_command B e s =
     (case parse_config_command_request (pe_msg_data e) of
        None \<Rightarrow> sa_send_error (pe_request_id e) ''invalid_config_command'' ''Invalid config command request'' s
      | Some request \<Rightarrow>
          (case bc_handle_config_command B (sa_bridge s) (pe_request_id e) request of
             (b, None) \<Rightarrow> s\<lparr>sa_bridge := b\<rparr>
           | (b, Some result) \<Rightarrow> sa_send_cobs_frame result (s\<lparr>sa_bridge := b\<rparr>)))"

definition sa_handle_state_receipt :: "'b bridge_calls \<Rightarrow> ParsedEnvelope \<Rightarrow> 'b serial \<Rightarrow> 'b serial" where
  "sa_handle_state_receipt B e s =
     (case parse_state_receipt (pe_msg_data e) of
        None \<Rightarrow> s
      | Some receipt \<Rightarrow> s\<lparr>sa_bridge := bc_handle_state_receipt B (sa_bridge s) receipt\<rparr>)"

definition sa_dispatch ::
  "serial_env \<Rightarrow> 'b bridge_calls \<Rightarrow> ParsedEnvelope \<Rightarrow> 'b serial \<Rightarrow> 'b serial" where
  "sa_dispatch env B e s =
     (if pe_msg_field e = PB_PING then
        sa_send_cobs_frame
          (pb_envelope (pe_request_id e) PB_PONG (pb_varint 1 (ping_monotonic_ms (pe_msg_data e)))) s
      else if pe_msg_field e = PB_COMMAND_REQUEST then sa_handle_command env B e s
      else if pe_msg_field e = PB_CONFIG_COMMAND_REQUEST then sa_handle_config_command B e s
      else if pe_msg_field e = PB_STATE_RECEIPT then sa_handle_state_receipt B e s
      else if pe_msg_field e = PB_OTA_START_REQUEST then sa_handle_ota_start B e s
      else if pe_msg_field e = PB_OTA_CHUNK_BATCH then sa_handle_ota_chunk_batch B e s
      else if pe_msg_field e = PB_OTA_ABORT_REQUEST then sa_handle_ota_abort B e s
      else sa_send_error (pe_request_id e) ''unsupported_message'' ''Unsupported runtime request'' s)"

definition sa_handle_envelope ::
  "serial_env \<Rightarrow> 'b bridge_calls \<Rightarrow> ParsedEnvelope \<Rightarrow> 'b serial \<Rightarrow> 'b serial" where
  "sa_handle_envelope env B e s =
     (if pe_msg_field e = PB_CLIENT_HELLO then sa_send_auth_challenge env B (sa_reset_auth B s)
      else if sa_auth_state s = WAITING_HELLO \<or> sa_auth_state s = CHALLENGE_SENT then
        (if pe_msg_field e = PB_AUTH_RESPONSE then sa_authenticate env B e s
         else sa_send_auth_challenge env B s)
      else if sa_auth_state s \<noteq> AUTHENTICATED then s
      else sa_dispatch env B e (s\<lparr>sa_last_data_ms := se_millis env\<rparr>))"

section \<open>The line\<close>

text \<open>One frame of the line, without its delimiter.\<close>

definition sa_frame :: "serial_env \<Rightarrow> 'b bridge_calls \<Rightarrow> bytes \<Rightarrow> 'b serial \<Rightarrow> 'b serial" where
  "sa_frame env B frame_data s =
     (if frame_data = [] then s else
      case cobs_decode frame_data of
        (False, _) \<Rightarrow> s
      | (True, decoded) \<Rightarrow>
          if decoded = [] then s else
          (case parse_envelope decoded of
             None \<Rightarrow> s
           | Some e \<Rightarrow>
               if pe_api_version e \<noteq> kRuntimeApiVersion
               then sa_send_error (pe_request_id e) ''unsupported_version'' ''Unsupported API version'' s
               else sa_handle_envelope env B e s))"

lemma rx_send [simp]: "sa_rx_buffer (sa_send_cobs_frame p s) = sa_rx_buffer s"
  by (simp add: sa_send_cobs_frame_def)

lemma rx_error [simp]: "sa_rx_buffer (sa_send_error r c m s) = sa_rx_buffer s"
  by (simp add: sa_send_error_def)

lemma rx_challenge [simp]: "sa_rx_buffer (sa_send_auth_challenge env B s) = sa_rx_buffer s"
  by (simp add: sa_send_auth_challenge_def Let_def)

lemma rx_reset [simp]: "sa_rx_buffer (sa_reset_auth B s) = []"
  by (simp add: sa_reset_auth_def)

lemma rx_take_chunk: "sa_take_chunk B c s = (s', ok) \<Longrightarrow> sa_rx_buffer s' = sa_rx_buffer s"
  by (auto simp: sa_take_chunk_def Let_def split: if_splits prod.splits)

lemma rx_take_chunks [simp]: "sa_rx_buffer (sa_take_chunks B r j cs s) = sa_rx_buffer s"
  by (induction B r j cs s rule: sa_take_chunks.induct)
     (auto simp: Let_def dest: rx_take_chunk split: prod.splits bool.splits)

lemma rx_handlers [simp]:
  "sa_rx_buffer (sa_on_ota_chunk_request q s) = sa_rx_buffer s"
  "sa_rx_buffer (sa_handle_command env B e s) = sa_rx_buffer s"
  "sa_rx_buffer (sa_handle_config_command B e s) = sa_rx_buffer s"
  "sa_rx_buffer (sa_handle_state_receipt B e s) = sa_rx_buffer s"
  "sa_rx_buffer (sa_handle_ota_start B e s) = sa_rx_buffer s"
  "sa_rx_buffer (sa_handle_ota_abort B e s) = sa_rx_buffer s"
  by (simp_all add: sa_on_ota_chunk_request_def sa_handle_command_def sa_handle_config_command_def
        sa_handle_state_receipt_def sa_handle_ota_start_def sa_handle_ota_abort_def
        split: option.split prod.split sum.split)

lemma rx_batch [simp]: "sa_rx_buffer (sa_handle_ota_chunk_batch B e s) = sa_rx_buffer s"
  by (simp add: sa_handle_ota_chunk_batch_def Let_def split: option.split prod.split)

lemma rx_dispatch [simp]: "sa_rx_buffer (sa_dispatch env B e s) = sa_rx_buffer s"
  by (simp add: sa_dispatch_def)

lemma rx_envelope: "length (sa_rx_buffer (sa_handle_envelope env B e s)) \<le> length (sa_rx_buffer s)"
  by (simp add: sa_handle_envelope_def sa_authenticate_def sa_send_auth_ok_def Let_def
        split: option.split)

lemma rx_frame: "length (sa_rx_buffer (sa_frame env B f s)) \<le> length (sa_rx_buffer s)"
  by (simp add: sa_frame_def rx_envelope split: prod.split bool.split option.split)

function sa_process_rx_buffer :: "serial_env \<Rightarrow> 'b bridge_calls \<Rightarrow> 'b serial \<Rightarrow> 'b serial" where
  "sa_process_rx_buffer env B s =
     (if 0 \<in> set (sa_rx_buffer s)
      then (let frame_data = takeWhile (\<lambda>b. b \<noteq> 0) (sa_rx_buffer s);
                s = s\<lparr>sa_rx_buffer := drop (Suc (length frame_data)) (sa_rx_buffer s)\<rparr>
            in sa_process_rx_buffer env B (sa_frame env B frame_data s))
      else s)"
  by pat_completeness auto

termination
proof (relation "measure (\<lambda>(_, _, s). length (sa_rx_buffer s))", goal_cases)
  case (2 env B s fd s1)
  then have "0 < length (sa_rx_buffer s)" by (cases "sa_rx_buffer s") auto
  with 2 rx_frame [of env B fd s1] show ?case by (simp del: length_greater_0_conv)
qed simp

declare sa_process_rx_buffer.simps [simp del]

definition sa_check_connection_timeout :: "serial_env \<Rightarrow> 'b bridge_calls \<Rightarrow> 'b serial \<Rightarrow> 'b serial" where
  "sa_check_connection_timeout env B s =
     (if sa_auth_state s = AUTHENTICATED \<and> sa_last_data_ms s \<noteq> 0
         \<and> CONNECTION_TIMEOUT_MS \<le> se_millis env - sa_last_data_ms s
      then sa_reset_auth B s else s)"

definition sa_emit_heartbeat_if_due :: "serial_env \<Rightarrow> 'b bridge_calls \<Rightarrow> 'b serial \<Rightarrow> 'b serial" where
  "sa_emit_heartbeat_if_due env B s =
     (if \<not> sa_has_authenticated_client s then s
      else if sa_last_heartbeat_ms s \<noteq> 0
              \<and> se_millis env - sa_last_heartbeat_ms s < kRuntimeHeartbeatIntervalMs then s
      else sa_send_cobs_frame (bc_encode_heartbeat B (sa_bridge s)) (s\<lparr>sa_last_heartbeat_ms := se_millis env\<rparr>))"

fun sa_receive :: "bytes \<Rightarrow> 'b serial \<Rightarrow> 'b serial" where
  "sa_receive [] s = s"
| "sa_receive (byte # available) s =
     sa_receive available
       (if length (sa_rx_buffer s) < MAX_RX_BUFFER then s\<lparr>sa_rx_buffer := sa_rx_buffer s @ [byte]\<rparr>
        else s\<lparr>sa_rx_dropped := sa_rx_dropped s + 1\<rparr>)"

definition sa_loop :: "serial_env \<Rightarrow> 'b bridge_calls \<Rightarrow> bytes \<Rightarrow> 'b serial \<Rightarrow> 'b serial" where
  "sa_loop env B available s =
     sa_emit_heartbeat_if_due env B (sa_check_connection_timeout env B
       (sa_process_rx_buffer env B (sa_receive available s)))"

definition sa_send_envelope :: "bytes \<Rightarrow> 'b serial \<Rightarrow> 'b serial" where
  "sa_send_envelope data s = (if \<not> sa_has_authenticated_client s then s else sa_send_cobs_frame data s)"

end
