(* ===== verification/BridgeJob.thy ===== *)
theory BridgeJob
  imports SerialApi BridgeOta BridgeExchange
begin

text \<open>
  The bridge component behind the serial transport (\<^verbatim>\<open>esp_tree_bridge/esp_tree_bridge.cpp\<close>), as far as
  firmware jobs go: starting and aborting a job, its chunks, and the events of every loop that tell the transport
  what the sender of \<^verbatim>\<open>bridge_ota_manager.cpp\<close> does. The component is the record \<open>eb\<close>, the build the
  one for a serial line without MQTT. Calls of the registered transport are returned in their order; the transport
  applies them. The sender's own frames and the protocol's go out through the records they are modelled by.
\<close>

section \<open>Texts\<close>

definition is_hex_digit :: "u8 \<Rightarrow> bool" where
  "is_hex_digit c \<longleftrightarrow> (48 \<le> c \<and> c \<le> 57) \<or> (97 \<le> c \<and> c \<le> 102) \<or> (65 \<le> c \<and> c \<le> 70)"

definition is_space :: "u8 \<Rightarrow> bool" where
  "is_space c \<longleftrightarrow> c = 32 \<or> (9 \<le> c \<and> c \<le> 13)"

definition hex_digit_value :: "u8 \<Rightarrow> nat" where
  "hex_digit_value c = (if 48 \<le> c \<and> c \<le> 57 then unat c - 48 else if 97 \<le> c \<and> c \<le> 102 then unat c - 87 else unat c - 55)"

text \<open>
  One conversion \<^verbatim>\<open>%2x\<close> of \<^verbatim>\<open>sscanf\<close>: white space is skipped, then a sign or digits of at most two characters.
\<close>

definition scan_hex2 :: "bytes \<Rightarrow> (u8 \<times> bytes) option" where
  "scan_hex2 input =
     (case dropWhile is_space input of
        c # d # rest \<Rightarrow>
          if c = 43 \<or> c = 45 then
            (if is_hex_digit d
             then Some (if c = 45 then - of_nat (hex_digit_value d) else of_nat (hex_digit_value d), rest) else None)
          else if \<not> is_hex_digit c then None
          else if is_hex_digit d then Some (of_nat (16 * hex_digit_value c + hex_digit_value d), rest)
          else if c = 48 \<and> (d = 120 \<or> d = 88) then None
          else Some (of_nat (hex_digit_value c), d # rest)
      | [c] \<Rightarrow> if is_hex_digit c then Some (of_nat (hex_digit_value c), []) else None
      | [] \<Rightarrow> None)"

fun scan_hex2s :: "nat \<Rightarrow> bytes \<Rightarrow> bytes option" where
  "scan_hex2s 0 input = Some []"
| "scan_hex2s (Suc n) input =
     (case scan_hex2 input of None \<Rightarrow> None
      | Some (v, rest) \<Rightarrow> (case scan_hex2s n rest of None \<Rightarrow> None | Some vs \<Rightarrow> Some (v # vs)))"

definition parse_mac_hex :: "bytes \<Rightarrow> bytes option" where
  "parse_mac_hex mac_hex_str =
     (if length mac_hex_str \<noteq> 12 then None else scan_hex2s 6 (takeWhile (\<lambda>c. c \<noteq> 0) mac_hex_str))"

definition clean_mac :: "bytes \<Rightarrow> bytes" where
  "clean_mac mac = filter (\<lambda>c. c \<noteq> 58 \<and> c \<noteq> 45 \<and> c \<noteq> 32) mac"

definition parse_hex_nibble :: "u8 \<Rightarrow> int" where
  "parse_hex_nibble ch = (if is_hex_digit ch then int (hex_digit_value ch) else - 1)"

fun parse_md5_loop :: "bytes \<Rightarrow> bytes option" where
  "parse_md5_loop (h # l # rest) =
     (if parse_hex_nibble h < 0 \<or> parse_hex_nibble l < 0 then None
      else (case parse_md5_loop rest of None \<Rightarrow> None
            | Some md5 \<Rightarrow> Some (of_nat (16 * hex_digit_value h + hex_digit_value l) # md5)))"
| "parse_md5_loop _ = Some []"

definition parse_md5_hex :: "bytes \<Rightarrow> bytes option" where
  "parse_md5_hex md5_hex = (if length md5_hex \<noteq> 32 then None else parse_md5_loop md5_hex)"

text \<open>Strings are compared by their bytes; a map is the list of its entries in that order.\<close>

fun text_less :: "bytes \<Rightarrow> bytes \<Rightarrow> bool" where
  "text_less [] ys \<longleftrightarrow> ys \<noteq> []"
| "text_less (x # xs) [] \<longleftrightarrow> False"
| "text_less (x # xs) (y # ys) \<longleftrightarrow> x < y \<or> x = y \<and> text_less xs ys"

fun text_map_set :: "bytes \<Rightarrow> 'a \<Rightarrow> (bytes \<times> 'a) list \<Rightarrow> (bytes \<times> 'a) list" where
  "text_map_set k v [] = [(k, v)]"
| "text_map_set k v ((k', v') # m) =
     (if k = k' then (k, v) # m else if text_less k k' then (k, v) # (k', v') # m else (k', v') # text_map_set k v m)"

section \<open>The component\<close>

text \<open>
  The maps of values and of pending deliveries have texts as keys; the one that is walked through is a list in the order
  of its keys. A callback given to the protocol for the outcome of a
  configuration command is its number in \<open>eb_config_requests\<close>, which keeps what the callback captured: the
  request's id, the remote's address as given and the command.
\<close>

datatype OtaJobState = JOB_IDLE | WAITING_FOR_LEAF | JOB_TRANSFERRING | JOB_VERIFYING | JOB_SUCCESS | JOB_FAILED | JOB_ABORTED

record EntityValueCache =
  evc_current_value :: bytes
  evc_current_type :: u8
  evc_schema :: BridgeEntitySchema

record PendingStateDelivery =
  psd_leaf_mac :: bytes
  psd_next_hop_mac :: bytes
  psd_entity_index :: u8
  psd_message_tx_base :: u32
  psd_required_sinks :: u8
  psd_delivered_sinks :: u8
  psd_created_ms :: u32

record eb =
  eb_protocol :: bp
  eb_ota_manager :: "bo option"
  eb_api_key :: bytes
  eb_network_id :: bytes
  eb_sta_mac :: bytes
  eb_ota_job_state :: OtaJobState
  eb_ota_job_id :: bytes
  eb_ota_job_counter :: u32
  eb_ota_request_id :: bytes
  eb_ota_session_id :: bytes
  eb_ota_target_mac :: bytes
  eb_ota_manager_prev_public_state :: string
  eb_ota_transport_callbacks :: bool
  eb_ota_last_requested_sequences :: "u32 list"
  eb_ota_chunk_request_counter :: u32
  eb_ota_last_status_percent :: u8
  eb_ota_last_status_ms :: u32
  eb_entity_values :: "(bytes \<times> EntityValueCache) list"
  eb_pending_state_deliveries :: "bytes \<Rightarrow> PendingStateDelivery option"
  eb_config_requests :: "(bytes \<times> bytes \<times> bytes) list"

text \<open>Calls of the registered transport.\<close>

datatype ota_callback =
    OtaAccepted bytes bytes bytes u16 u32 u16
  | OtaChunkRequest chunk_request
  | OtaStatus bytes u32 u32 u32 u32 bytes

definition eb_set_callbacks :: "eb \<Rightarrow> eb" where
  "eb_set_callbacks b =
     (let b = b\<lparr>eb_ota_transport_callbacks := True\<rparr>
      in if eb_ota_job_state b \<noteq> JOB_IDLE then b\<lparr>eb_ota_manager_prev_public_state := []\<rparr> else b)"

definition eb_clear_callbacks :: "eb \<Rightarrow> eb" where
  "eb_clear_callbacks b = b\<lparr>eb_ota_transport_callbacks := False\<rparr>"

section \<open>Starting, aborting and feeding a job\<close>

definition hex4 :: "u32 \<Rightarrow> bytes" where
  "hex4 n = (let v = unat (n AND 0xFFFF) in
     map (\<lambda>d. ascii ''0123456789abcdef'' ! d) [v div 4096 mod 16, v div 256 mod 16, v div 16 mod 16, v mod 16])"

definition eb_ota_start :: "u32 \<Rightarrow> ParsedOtaStartRequest \<Rightarrow> bytes \<Rightarrow> eb \<Rightarrow> eb \<times> (bytes + bytes)" where
  "eb_ota_start now r request_id b =
     (case parse_mac_hex (clean_mac (os_target_mac r)) of
        None \<Rightarrow> (b, Inl (ascii ''invalid target_mac''))
      | Some mac \<Rightarrow>
        (case bp_get_session mac (eb_protocol b) of
           None \<Rightarrow> (b, Inl (ascii ''remote not found or offline''))
         | Some session \<Rightarrow>
           if \<not> bs_online session then (b, Inl (ascii ''remote not found or offline'')) else
           (case eb_ota_manager b of
              None \<Rightarrow> (b, Inl (ascii ''ota busy''))
            | Some m \<Rightarrow>
              if bo_is_busy m then (b, Inl (ascii ''ota busy'')) else
              (case parse_md5_hex (os_md5 r) of
                 None \<Rightarrow> (b, Inl (ascii ''invalid md5 hex''))
               | Some md5 \<Rightarrow>
                 (case bo_start_transfer now (Some mac) (os_file_size r) (Some md5) ESPNOW_FILE_ACTION_OTA_FLASH
                         (bs_session_max_payload session)
                         (Some (if os_filename r = [] then ascii ''ota.bin'' else takeWhile (\<lambda>c. c \<noteq> 0) (os_filename r))) m of
                    (m, False) \<Rightarrow>
                      (b\<lparr>eb_ota_manager := Some m\<rparr>,
                       Inl (if bo_last_error m = [] then ascii ''start_transfer failed'' else ascii (bo_last_error m)))
                  | (m, True) \<Rightarrow>
                      (let counter = eb_ota_job_counter b + 1; job_id = hex4 counter in
                       (b\<lparr>eb_ota_manager := Some m, eb_ota_job_counter := counter, eb_ota_job_id := job_id,
                          eb_ota_job_state := WAITING_FOR_LEAF, eb_ota_request_id := request_id,
                          eb_ota_target_mac := mac, eb_ota_session_id := [],
                          eb_ota_last_requested_sequences := [], eb_ota_chunk_request_counter := 0,
                          eb_ota_last_status_percent := 255, eb_ota_last_status_ms := 0\<rparr>,
                        Inr job_id)))))))"

definition eb_ota_abort :: "u32 \<Rightarrow> bytes \<Rightarrow> bytes \<Rightarrow> eb \<Rightarrow> eb" where
  "eb_ota_abort now job_id reason b =
     (if eb_ota_job_state b = JOB_IDLE then b
      else if job_id \<noteq> [] \<and> job_id \<noteq> eb_ota_job_id b then b
      else b\<lparr>eb_ota_manager := (case eb_ota_manager b of None \<Rightarrow> None
               | Some m \<Rightarrow> Some (if bo_is_busy m then bo_on_source_abort now ESPNOW_FILE_ABORT_USER m else m)),
             eb_ota_job_state := JOB_IDLE\<rparr>)"

definition eb_ota_inject_chunk :: "u32 \<Rightarrow> bytes \<Rightarrow> eb \<Rightarrow> eb \<times> bool" where
  "eb_ota_inject_chunk sequence chunk b =
     (if eb_ota_job_state b \<noteq> JOB_TRANSFERRING then (b, False)
      else case eb_ota_manager b of None \<Rightarrow> (b, False)
        | Some m \<Rightarrow> (case bo_on_source_chunk sequence (Some chunk) m of (m, ok) \<Rightarrow> (b\<lparr>eb_ota_manager := Some m\<rparr>, ok)))"

definition eb_ota_has_active_job :: "eb \<Rightarrow> bool" where
  "eb_ota_has_active_job b \<longleftrightarrow> eb_ota_job_state b \<noteq> JOB_IDLE"

definition eb_ota_active_job_id :: "eb \<Rightarrow> bytes" where
  "eb_ota_active_job_id b = (if eb_ota_job_state b \<noteq> JOB_IDLE then eb_ota_job_id b else [])"

section \<open>Telling the transport\<close>

definition eb_requested_sequences :: "eb \<Rightarrow> u32 list" where
  "eb_requested_sequences b =
     (case eb_ota_manager b of None \<Rightarrow> []
      | Some m \<Rightarrow> sorted_list_of_set (it_requested_sequences (bo_tracker m)))"

definition eb_next_chunk_request_id :: "eb \<Rightarrow> eb" where
  "eb_next_chunk_request_id b =
     (let counter = eb_ota_chunk_request_counter b + 1 in
      b\<lparr>eb_ota_chunk_request_counter := counter,
        eb_ota_session_id := eb_ota_job_id b @ [45] @ dec_digits (unat counter)\<rparr>)"

text \<open>The fields of a chunk request; without a manager they are the constants of \<^verbatim>\<open>api_ota_resend_chunk_request\<close>.\<close>

definition eb_progress :: "eb \<Rightarrow> ota_progress" where
  "eb_progress b =
     (case eb_ota_manager b of
        None \<Rightarrow> \<lparr>op_chunks_sent = 0, op_chunks_confirmed = 0, op_current_increment = 0, op_total_increments = 0,
                 op_retransmit_round = 0, op_buffer_size_kb = ucast ESPNOW_MAX_INCREMENT_KB, op_percent = 0\<rparr>
      | Some m \<Rightarrow> \<lparr>op_chunks_sent = 0, op_chunks_confirmed = 0,
                 op_current_increment = ucast (it_current_increment (bo_tracker m)),
                 op_total_increments = ucast (it_total_increments (bo_tracker m)),
                 op_retransmit_round = ucast (it_retransmit_round (bo_tracker m)),
                 op_buffer_size_kb = ucast (it_buffer_size_kb (bo_tracker m)),
                 op_percent = ucast (bo_public_progress_pct m)\<rparr>)"

text \<open>A new request for the given chunks: it gets the next id.\<close>

definition eb_request_chunks :: "u32 list \<Rightarrow> eb \<Rightarrow> eb \<times> ota_callback list" where
  "eb_request_chunks requested b =
     (let b = eb_next_chunk_request_id (b\<lparr>eb_ota_last_requested_sequences := requested\<rparr>) in
      (b, [OtaChunkRequest \<lparr>cq_job_id = eb_ota_job_id b, cq_chunk_request_id = eb_ota_session_id b,
             cq_sequences = requested, cq_progress = eb_progress b\<rparr>]))"

definition eb_ota_resend_chunk_request :: "eb \<Rightarrow> eb \<times> ota_callback list" where
  "eb_ota_resend_chunk_request b =
     (if eb_ota_job_state b = JOB_TRANSFERRING \<and> eb_ota_transport_callbacks b then
        (let b = b\<lparr>eb_ota_last_requested_sequences := []\<rparr>; requested = eb_requested_sequences b in
         if requested \<noteq> [] then eb_request_chunks requested b else (b, []))
      else (b, []))"

definition eb_ota_status :: "u32 \<Rightarrow> bytes \<Rightarrow> eb \<Rightarrow> ota_callback list" where
  "eb_ota_status state error_detail b =
     (if \<not> eb_ota_transport_callbacks b then [] else
      (let percent = (case eb_ota_manager b of None \<Rightarrow> 0 | Some m \<Rightarrow> ucast (bo_public_progress_pct m));
           file_size = (case eb_ota_manager b of None \<Rightarrow> 0 | Some m \<Rightarrow> bo_file_size m);
           bytes_received = (if 0 < file_size then (file_size * percent) div 100 else 0)
       in [OtaStatus (eb_ota_job_id b) state percent bytes_received file_size error_detail]))"

abbreviation (input) OTA_STATE_TRANSFERRING :: u32 where "OTA_STATE_TRANSFERRING \<equiv> 3"
abbreviation (input) OTA_STATE_VERIFYING :: u32 where "OTA_STATE_VERIFYING \<equiv> 4"
abbreviation (input) OTA_STATE_SUCCESS :: u32 where "OTA_STATE_SUCCESS \<equiv> 5"
abbreviation (input) OTA_STATE_FAILED :: u32 where "OTA_STATE_FAILED \<equiv> 6"

definition eb_job_idle :: "eb \<Rightarrow> eb" where
  "eb_job_idle b = b\<lparr>eb_ota_job_state := JOB_IDLE, eb_ota_manager_prev_public_state := [],
     eb_ota_last_requested_sequences := []\<rparr>"

definition eb_emit_waiting :: "u32 \<Rightarrow> eb \<Rightarrow> eb \<times> ota_callback list" where
  "eb_emit_waiting now b =
     (case eb_ota_manager b of
        None \<Rightarrow> (eb_job_idle b, eb_ota_status OTA_STATE_FAILED (ascii ''OTA transfer failed before leaf accepted'') b)
      | Some m \<Rightarrow>
          if bo_is_busy m \<and> bo_public_state m = ''TRANSFERRING''
             \<and> eb_ota_manager_prev_public_state b \<noteq> ''TRANSFERRING'' then
            (let requested = eb_requested_sequences b;
                 b = b\<lparr>eb_ota_job_state := JOB_TRANSFERRING, eb_ota_manager_prev_public_state := ''TRANSFERRING'',
                       eb_ota_last_status_percent := 255, eb_ota_last_status_ms := now\<rparr>
             in case eb_request_chunks requested b of (b, calls) \<Rightarrow>
                  (b, OtaAccepted (eb_ota_request_id b) (eb_ota_job_id b) (mac_display (Some (eb_ota_target_mac b)))
                        (bo_negotiated_chunk_size m) (it_total_chunks (bo_tracker m)) 6 # calls))
          else if \<not> bo_is_busy m then
            (eb_job_idle b, eb_ota_status OTA_STATE_FAILED (ascii ''OTA transfer failed before leaf accepted'') b)
          else (b\<lparr>eb_ota_manager_prev_public_state := bo_public_state m\<rparr>, []))"

text \<open>The requests of a round: new ones are told to the transport, parts of the last ones are not.\<close>

definition eb_emit_requests :: "eb \<Rightarrow> eb \<times> ota_callback list" where
  "eb_emit_requests b =
     (let requested = eb_requested_sequences b; prev = eb_ota_last_requested_sequences b in
      if requested = [] then (b\<lparr>eb_ota_last_requested_sequences := []\<rparr>, [])
      else if prev = [] \<or> \<not> list_all (\<lambda>s. s \<in> set prev) requested then eb_request_chunks requested b
      else (b, []))"

definition eb_emit_progress :: "u32 \<Rightarrow> bo \<Rightarrow> eb \<Rightarrow> eb \<times> ota_callback list" where
  "eb_emit_progress now m b =
     (let state = (if bo_public_state m = ''VERIFYING'' then OTA_STATE_VERIFYING else OTA_STATE_TRANSFERRING);
          percent = bo_public_progress_pct m
      in if state = OTA_STATE_VERIFYING \<or> eb_ota_last_status_percent b = 255
            \<or> unat (eb_ota_last_status_percent b) + 10 \<le> unat percent
            \<or> 5000 \<le> now - eb_ota_last_status_ms b
         then (b\<lparr>eb_ota_last_status_percent := percent, eb_ota_last_status_ms := now\<rparr>, eb_ota_status state [] b)
         else (b, []))"

definition eb_emit_transferring :: "u32 \<Rightarrow> eb \<Rightarrow> eb \<times> ota_callback list" where
  "eb_emit_transferring now b =
     (case eb_ota_manager b of
        None \<Rightarrow> (b\<lparr>eb_ota_job_state := JOB_IDLE, eb_ota_manager_prev_public_state := []\<rparr>, [])
      | Some m \<Rightarrow>
          if bo_public_state m = ''SUCCESS'' \<and> eb_ota_manager_prev_public_state b \<noteq> ''SUCCESS'' then
            (b\<lparr>eb_ota_job_state := JOB_SUCCESS, eb_ota_manager_prev_public_state := ''SUCCESS'',
               eb_ota_last_requested_sequences := []\<rparr>, eb_ota_status OTA_STATE_SUCCESS [] b)
          else if bo_public_state m = ''FAIL'' \<and> eb_ota_manager_prev_public_state b \<noteq> ''FAIL'' then
            (b\<lparr>eb_ota_job_state := JOB_FAILED, eb_ota_manager_prev_public_state := ''FAIL'',
               eb_ota_last_requested_sequences := []\<rparr>, eb_ota_status OTA_STATE_FAILED (ascii (bo_last_error m)) b)
          else if \<not> bo_is_busy m then (eb_job_idle b, [])
          else (case eb_emit_requests b of (b, requests) \<Rightarrow>
                (case eb_emit_progress now m b of (b, status) \<Rightarrow>
                  (b\<lparr>eb_ota_manager_prev_public_state := bo_public_state m\<rparr>, requests @ status))))"

definition eb_emit_ota_events :: "u32 \<Rightarrow> eb \<Rightarrow> eb \<times> ota_callback list" where
  "eb_emit_ota_events now b =
     (if \<not> eb_ota_transport_callbacks b then (b, [])
      else if eb_ota_job_state b = JOB_IDLE then (b, [])
      else if eb_ota_job_state b = WAITING_FOR_LEAF then eb_emit_waiting now b
      else if eb_ota_job_state b = JOB_TRANSFERRING then eb_emit_transferring now b
      else (b, []))"

section \<open>The transport's side of the calls\<close>

definition sa_apply_callback :: "ota_callback \<Rightarrow> 'b serial \<Rightarrow> 'b serial" where
  "sa_apply_callback c s =
     (case c of
        OtaAccepted request_id job_id target_mac max_chunk_size total_chunks max_chunks_per_batch \<Rightarrow>
          sa_on_ota_accepted request_id job_id target_mac max_chunk_size total_chunks max_chunks_per_batch s
      | OtaChunkRequest q \<Rightarrow> sa_on_ota_chunk_request q s
      | OtaStatus job_id state percent bytes_received file_size error_detail \<Rightarrow>
          sa_on_ota_status job_id state percent bytes_received file_size error_detail s)"

end
