(* ===== verification/CommandValues.thy ===== *)
theory CommandValues
  imports BridgeJob "HOL-Library.Signed_Division"
begin

text \<open>
  The value a command of the runtime interface stands for (\<^verbatim>\<open>decode_command_payload_\<close> of
  \<^verbatim>\<open>esp_tree_bridge/esp_tree_bridge.cpp\<close>). What the component sees of the platform and of libraries is
  \<open>request_env\<close>: the JSON parser (\<open>parse_json\<close>, with what its object answers for a member),
  \<^verbatim>\<open>strtof\<close>, the arithmetic on colours in single precision, the cut of a number to an integer, the
  widening to double precision, the clock and the texts the build sets.
\<close>

section \<open>The platform\<close>

text \<open>
  What a JSON member answers: its text, its value as \<^verbatim>\<open>int\<close>, as \<^verbatim>\<open>bool\<close>, as
  \<^verbatim>\<open>float\<close> (as four bytes), or the integers among its own members if it is an object; \<open>None\<close>
  where it is not of that type.
\<close>

record JsonVariant =
  jm_string :: "bytes option"
  jm_int :: "int option"
  jm_bool :: "bool option"
  jm_float :: "bytes option"
  jm_object :: "(bytes \<Rightarrow> int option) option"

record request_env =
  re_bp :: bp_env
  re_parse_json :: "bytes \<Rightarrow> (bytes \<Rightarrow> JsonVariant) option"
  re_strtof :: "bytes \<Rightarrow> bytes option"
  re_color_bytes :: "int \<Rightarrow> int \<Rightarrow> int \<Rightarrow> u8 \<times> u8 \<times> u8"
  re_clamped_u16 :: "bytes \<Rightarrow> u16"
  re_double_bits :: "bytes \<Rightarrow> u64"
  re_float_text :: "bytes \<Rightarrow> bytes"
  re_hsv_to_rgb :: "u8 \<Rightarrow> u8 \<Rightarrow> u8 \<Rightarrow> u8 \<times> u8 \<times> u8"
  re_unix_ms :: u64
  re_app_name :: bytes
  re_friendly_name :: bytes

abbreviation re_now :: "request_env \<Rightarrow> u32" where "re_now env \<equiv> bpe_now (re_bp env)"
abbreviation re_hmac :: "request_env \<Rightarrow> bytes \<Rightarrow> bytes \<Rightarrow> bytes" where "re_hmac env \<equiv> bpe_hmac (re_bp env)"

section \<open>Texts to values\<close>

definition parse_on :: "bytes \<Rightarrow> bool" where
  "parse_on payload \<longleftrightarrow>
     payload = ascii ''ON'' \<or> payload = ascii ''on'' \<or> payload = ascii ''1'' \<or> payload = ascii ''true''"

text \<open>The digits \<^verbatim>\<open>strtol\<close> reads, with the sign before them; \<open>None\<close> if there are none.\<close>

definition digits_value :: "bytes \<Rightarrow> nat" where
  "digits_value ds = fold (\<lambda>d n. 10 * n + (unat d - 48)) ds 0"

definition scan_long :: "bytes \<Rightarrow> (bool \<times> nat) option" where
  "scan_long input =
     (let t = dropWhile is_space (takeWhile (\<lambda>c. c \<noteq> 0) input);
          negative = (t \<noteq> [] \<and> hd t = 45);
          ds = takeWhile (\<lambda>c. 48 \<le> c \<and> c \<le> 57) (if t \<noteq> [] \<and> (hd t = 43 \<or> hd t = 45) then tl t else t)
      in if ds = [] then None else Some (negative, digits_value ds))"

text \<open>\<^verbatim>\<open>long\<close> has 32 bits on the targets; out of range both functions give the nearest value.\<close>

definition c_strtol :: "bytes \<Rightarrow> int option" where
  "c_strtol input = (case scan_long input of None \<Rightarrow> None
     | Some (negative, n) \<Rightarrow> Some (if negative then max (- (2 ^ 31)) (- int n) else min (2 ^ 31 - 1) (int n)))"

definition c_atoi :: "bytes \<Rightarrow> int" where
  "c_atoi input = (case c_strtol input of None \<Rightarrow> 0 | Some v \<Rightarrow> v)"

definition c_strtoul :: "bytes \<Rightarrow> u32" where
  "c_strtoul input = (case scan_long input of None \<Rightarrow> 0
     | Some (negative, n) \<Rightarrow> (if 2 ^ 32 \<le> n then 0xFFFFFFFF else if negative then - of_nat n else of_nat n))"

definition eb_option_list :: "(bytes \<Rightarrow> bytes option) \<Rightarrow> string \<Rightarrow> bytes list" where
  "eb_option_list options key = (case options (ascii key) of
     None \<Rightarrow> [] | Some v \<Rightarrow> if v = [] then [] else split_string v 124)"

definition option_u32 :: "(bytes \<Rightarrow> bytes option) \<Rightarrow> string \<Rightarrow> u32 \<Rightarrow> u32" where
  "option_u32 options key fallback = (case options (ascii key) of None \<Rightarrow> fallback | Some v \<Rightarrow> c_strtoul v)"

definition clamp_int :: "int \<Rightarrow> int \<Rightarrow> int" where
  "clamp_int upper v = max 0 (min upper v)"

definition first_index :: "bytes \<Rightarrow> bytes list \<Rightarrow> nat option" where
  "first_index x xs = (if x \<in> set xs then Some (length (takeWhile (\<lambda>y. y \<noteq> x) xs)) else None)"

text \<open>The states of an alarm a command can ask for.\<close>

definition alarm_command :: "bytes \<Rightarrow> u8" where
  "alarm_command command =
     (if command = ascii ''ARM_HOME'' then 1 else if command = ascii ''ARM_AWAY'' then 2
      else if command = ascii ''ARM_NIGHT'' then 3 else if command = ascii ''ARM_VACATION'' then 4
      else if command = ascii ''ARM_CUSTOM_BYPASS'' then 5 else if command = ascii ''TRIGGERED'' then 6
      else if command = ascii ''PENDING'' then 7 else 0)"

definition is_json :: "bytes \<Rightarrow> bool" where
  "is_json payload \<longleftrightarrow> payload \<noteq> [] \<and> payload ! 0 = 123"

datatype CommandRouteKind = PRIMARY | FAN_SPEED | FAN_OSCILLATION | FAN_DIRECTION

definition decode_alarm :: "request_env \<Rightarrow> bytes \<Rightarrow> bytes option" where
  "decode_alarm env payload =
     (if is_json payload then
        (case re_parse_json env payload of None \<Rightarrow> None
         | Some root \<Rightarrow>
             (case jm_string (root (ascii ''state'')) of None \<Rightarrow> None
              | Some state \<Rightarrow>
                  Some (alarm_command (takeWhile (\<lambda>c. c \<noteq> 0) state)
                    # (case jm_string (root (ascii ''code'')) of None \<Rightarrow> [] | Some code \<Rightarrow> code))))
      else Some [alarm_command payload])"

text \<open>
  A JSON payload for a fan: each member that is there writes its byte; the result says whether there was any. The
  percentage is multiplied by an unsigned number, so a negative one wraps.
\<close>

definition fan_json :: "u32 \<Rightarrow> (bytes \<Rightarrow> JsonVariant) \<Rightarrow> bytes \<Rightarrow> bytes \<times> bool" where
  "fan_json speed_count root val =
     (let (val, ok) = (case jm_string (root (ascii ''state'')) of None \<Rightarrow> (val, False)
            | Some s \<Rightarrow> (val[0 := if parse_on s then 1 else 0], True));
          (val, ok) = (case jm_int (root (ascii ''speed_level'')) of None \<Rightarrow> (val, ok)
            | Some l \<Rightarrow> (val[1 := word_of_int l], True));
          (val, ok) = (case jm_bool (root (ascii ''oscillating'')) of None \<Rightarrow> (val, ok)
            | Some o' \<Rightarrow> (val[2 := if o' then 1 else 0], True));
          (val, ok) = (case jm_string (root (ascii ''direction'')) of None \<Rightarrow> (val, ok)
            | Some d \<Rightarrow> (val[3 := if d = ascii ''reverse'' \<or> d = ascii ''REVERSE'' then 1 else 0], True))
      in case jm_int (root (ascii ''percentage'')) of None \<Rightarrow> (val, ok)
         | Some p \<Rightarrow> if 0 < speed_count
             then (val[1 := ucast ((word_of_int p * speed_count + 50) div 100 :: u32)], True) else (val, ok))"

definition decode_fan ::
  "request_env \<Rightarrow> bytes \<Rightarrow> CommandRouteKind \<Rightarrow> bytes \<Rightarrow> bytes \<Rightarrow> bytes option" where
  "decode_fan env entity_options route_kind payload current_value =
     (let speed_count = option_u32 (parse_options_map entity_options) ''speed_count'' 0;
          known = 4 \<le> length current_value;
          kept = (if known then take 4 current_value else replicate 4 0)
      in if is_json payload then
           (case re_parse_json env payload of None \<Rightarrow> None
            | Some root \<Rightarrow> (case fan_json speed_count root kept of (val, ok) \<Rightarrow> if ok then Some val else None))
         else (case route_kind of
             PRIMARY \<Rightarrow> Some (kept[0 := if parse_on payload then 1 else 0])
           | FAN_SPEED \<Rightarrow>
               (case c_strtol payload of None \<Rightarrow> None
                | Some parsed \<Rightarrow>
                    (let pct = clamp_int 100 parsed;
                         level = (if 0 < speed_count then (pct * sint speed_count + 50) sdiv 100 else 0);
                         level = clamp_int (sint speed_count) level;
                         val = kept[1 := word_of_int level]
                     in Some (if known then val else val[0 := if 0 < level then 1 else 0])))
           | FAN_OSCILLATION \<Rightarrow>
               Some (kept[2 := if payload = ascii ''oscillate_on'' \<or> payload = ascii ''ON'' \<or> payload = ascii ''on''
                                 \<or> payload = ascii ''1'' then 1 else 0])
           | FAN_DIRECTION \<Rightarrow>
               Some (kept[3 := if payload = ascii ''reverse'' \<or> payload = ascii ''REVERSE'' then 1 else 0])))"

text \<open>The same for a light; the result says whether a member was understood and whether one asks for more than the state.\<close>

definition light_effect :: "bytes list \<Rightarrow> bytes \<Rightarrow> bytes \<times> bool \<Rightarrow> bytes \<times> bool" where
  "light_effect effects effect vo =
     (case vo of (val, ok) \<Rightarrow>
       (let (val, ok) = (case first_index effect effects of None \<Rightarrow> (val, ok)
              | Some i \<Rightarrow> (val[4 := of_nat i], True))
        in if effect = ascii ''None'' then (val[4 := 0], True) else (val, ok)))"

definition light_color :: "request_env \<Rightarrow> (bytes \<Rightarrow> int option) \<Rightarrow> bytes \<Rightarrow> bytes" where
  "light_color env color val =
     (let part = (\<lambda>n. case color (ascii n) of None \<Rightarrow> 0 | Some v \<Rightarrow> v);
          (hue, sat, bright) = re_color_bytes env (part ''r'') (part ''g'') (part ''b'');
          val = val[2 := hue, 3 := sat]
      in if val ! 1 = 0 then val[1 := bright] else val)"

definition light_json ::
  "request_env \<Rightarrow> bytes list \<Rightarrow> (bytes \<Rightarrow> JsonVariant) \<Rightarrow> bytes \<Rightarrow> bytes \<times> bool" where
  "light_json env effects root val =
     (let state = jm_string (root (ascii ''state''));
          (val, ok) = (case state of None \<Rightarrow> (val, False) | Some s \<Rightarrow> (val[0 := if parse_on s then 1 else 0], True));
          bright = jm_int (root (ascii ''brightness''));
          (val, ok) = (case bright of None \<Rightarrow> (val, ok) | Some v \<Rightarrow> (val[1 := word_of_int (clamp_int 255 v)], True));
          effect = jm_string (root (ascii ''effect''));
          (val, ok) = (case effect of None \<Rightarrow> (val, ok) | Some e \<Rightarrow> light_effect effects e (val, ok));
          color = jm_object (root (ascii ''color''));
          (val, ok) = (case color of None \<Rightarrow> (val, ok) | Some c \<Rightarrow> (light_color env c val, True));
          temp = jm_float (root (ascii ''color_temp''));
          (val, ok) = (case temp of None \<Rightarrow> (val, ok)
            | Some f \<Rightarrow> (let ct = re_clamped_u16 env f in (val[6 := ucast (ct AND 0xFF), 7 := ucast (drop_bit 8 ct AND 0xFF)], True)));
          white = jm_int (root (ascii ''white''));
          (val, ok) = (case white of None \<Rightarrow> (val, ok) | Some v \<Rightarrow> (val[8 := word_of_int (clamp_int 255 v)], True));
          other = bright \<noteq> None \<or> effect \<noteq> None \<or> color \<noteq> None \<or> temp \<noteq> None \<or> white \<noteq> None
      in (if state = None \<and> other then val[0 := 1] else val, ok))"

definition decode_light :: "request_env \<Rightarrow> bytes \<Rightarrow> bytes \<Rightarrow> bytes option" where
  "decode_light env entity_options payload =
     (if is_json payload then
        (case re_parse_json env payload of None \<Rightarrow> None
         | Some root \<Rightarrow>
             (case light_json env (eb_option_list (parse_options_map entity_options) ''effects'') root (replicate 9 0) of
                (val, ok) \<Rightarrow> if ok then Some val else None))
      else Some (if parse_on payload then [1, 255, 0, 0, 0, 0, 0, 0, 0] else replicate 9 0))"

definition decode_position :: "bytes \<Rightarrow> bytes" where
  "decode_position payload =
     (if payload = ascii ''OPEN'' then [1, 100] else if payload = ascii ''CLOSE'' then [2, 0]
      else if payload = ascii ''STOP'' then [3, 0] else [0, word_of_int (clamp_int 100 (c_atoi payload))])"

definition decode_select :: "bytes \<Rightarrow> bytes \<Rightarrow> bytes" where
  "decode_select entity_options payload =
     (let options = (if eb_option_list (parse_options_map entity_options) ''options'' = []
            then split_string entity_options 124
            else eb_option_list (parse_options_map entity_options) ''options'')
      in if entity_options = [] then [word_of_int (c_atoi payload)]
         else (case first_index payload options of
             Some i \<Rightarrow> [of_nat i] | None \<Rightarrow> [word_of_int (c_atoi payload)]))"

definition decode_command_payload ::
  "request_env \<Rightarrow> BridgeEntitySchema \<Rightarrow> CommandRouteKind \<Rightarrow> bytes \<Rightarrow> bytes \<Rightarrow> bytes option" where
  "decode_command_payload env entity route_kind payload current_value =
     (let t = bes_entity_type entity; options = bes_entity_options entity in
      if t = field_type_code FIELD_TYPE_SWITCH then Some [if parse_on payload then 1 else 0]
      else if t = field_type_code FIELD_TYPE_NUMBER then
        (case re_strtof env payload of None \<Rightarrow> None | Some f \<Rightarrow> Some (f @ replicate 246 0))
      else if t = field_type_code FIELD_TYPE_TEXT then Some payload
      else if t = field_type_code FIELD_TYPE_COVER \<or> t = field_type_code FIELD_TYPE_VALVE then Some (decode_position payload)
      else if t = field_type_code FIELD_TYPE_LOCK then
        Some [if payload = ascii ''LOCK'' \<or> payload = ascii ''LOCKED'' then 1 else 0]
      else if t = field_type_code FIELD_TYPE_SELECT then Some (decode_select options payload)
      else if t = field_type_code FIELD_TYPE_ALARM then decode_alarm env payload
      else if t = field_type_code FIELD_TYPE_FAN then decode_fan env options route_kind payload current_value
      else if t = field_type_code FIELD_TYPE_LIGHT then decode_light env options payload
      else if t = field_type_code FIELD_TYPE_BUTTON then Some [1]
      else None)"

end
