(* ===== verification/BridgeRequests.thy ===== *)
theory BridgeRequests
  imports CommandValues
begin

text \<open>
  Requests to the bridge component (\<^verbatim>\<open>esp_tree_bridge/esp_tree_bridge.cpp\<close>): commands for entities,
  configuration commands for remotes, and the delivery of states, which is confirmed to a remote when every sink has
  taken them. The commands and confirmations themselves are the protocol's. A handler returns the component and the
  answer it hands to its caller.
\<close>

abbreviation (input) PB_COMMAND_RESULT :: u32 where "PB_COMMAND_RESULT \<equiv> 18"
abbreviation (input) PB_CONFIG_COMMAND_RESULT :: u32 where "PB_CONFIG_COMMAND_RESULT \<equiv> 20"

datatype CommandStatus =
    COMMAND_STATUS_UNSPECIFIED
  | COMMAND_STATUS_ACCEPTED
  | COMMAND_STATUS_DELIVERED
  | COMMAND_STATUS_FAILED
  | COMMAND_STATUS_UNAVAILABLE
  | COMMAND_STATUS_UNSUPPORTED
  | COMMAND_STATUS_TIMEOUT

fun command_status_code :: "CommandStatus \<Rightarrow> u64" where
  "command_status_code COMMAND_STATUS_UNSPECIFIED = 0"
| "command_status_code COMMAND_STATUS_ACCEPTED = 1"
| "command_status_code COMMAND_STATUS_DELIVERED = 2"
| "command_status_code COMMAND_STATUS_FAILED = 3"
| "command_status_code COMMAND_STATUS_UNAVAILABLE = 4"
| "command_status_code COMMAND_STATUS_UNSUPPORTED = 5"
| "command_status_code COMMAND_STATUS_TIMEOUT = 6"

section \<open>Commands\<close>

definition runtime_session_id :: "(bytes \<Rightarrow> bytes \<Rightarrow> bytes) \<Rightarrow> bp_session \<Rightarrow> bytes \<Rightarrow> bytes" where
  "runtime_session_id hmac session network_id =
     bytes_to_lower_hex (take 8 (hmac (bs_session_key session)
       (bs_bridge_nonce session @ bs_remote_nonce session @ bs_leaf_mac session @ network_id)))"

definition entity_object_id :: "BridgeEntitySchema \<Rightarrow> bytes" where
  "entity_object_id entity =
     (if bes_entity_id entity = [] then sanitize_object_id (bes_entity_name entity) else bes_entity_id entity)"

text \<open>The first entity of a schema with the asked id; places not yet filled have type zero.\<close>

definition entity_match :: "bytes \<Rightarrow> BridgeEntitySchema list \<Rightarrow> BridgeEntitySchema option" where
  "entity_match object_id entities =
     find (\<lambda>entity. bes_entity_type entity \<noteq> 0 \<and> entity_object_id entity = object_id) entities"

definition command_payload :: "ParsedCommandRequest \<Rightarrow> bytes" where
  "command_payload r =
     (let c = cr_command r; args = cr_args r;
          payload =
            (if c = ascii ''turn_on'' then ascii ''ON''
             else if c = ascii ''turn_off'' then ascii ''OFF''
             else if c = ascii ''press'' then ascii ''PRESS''
             else if c = ascii ''open'' then ascii ''OPEN''
             else if c = ascii ''close'' then ascii ''CLOSE''
             else if c = ascii ''stop'' then ascii ''STOP''
             else if c = ascii ''lock'' then ascii ''LOCK''
             else if c = ascii ''unlock'' then ascii ''UNLOCK''
             else if c = ascii ''arm_home'' then ascii ''ARM_HOME''
             else if c = ascii ''arm_away'' then ascii ''ARM_AWAY''
             else if c = ascii ''arm_night'' then ascii ''ARM_NIGHT''
             else if c = ascii ''arm_vacation'' then ascii ''ARM_VACATION''
             else if c = ascii ''arm_custom_bypass'' then ascii ''ARM_CUSTOM_BYPASS''
             else if c = ascii ''disarm'' then ascii ''DISARM''
             else if c = ascii ''trigger'' then ascii ''TRIGGERED''
             else if args \<noteq> [] then snd (hd args)
             else c)
      in if args \<noteq> [] \<and> is_json (snd (hd args)) then snd (hd args) else payload)"

definition command_route :: "BridgeEntitySchema \<Rightarrow> bytes \<Rightarrow> CommandRouteKind" where
  "command_route entity command =
     (if bes_entity_type entity = field_type_code FIELD_TYPE_FAN then
        (if command = ascii ''set_speed'' then FAN_SPEED
         else if command = ascii ''set_oscillation'' then FAN_OSCILLATION
         else if command = ascii ''set_direction'' then FAN_DIRECTION
         else PRIMARY)
      else PRIMARY)"

definition eb_entity_value_key :: "bytes \<Rightarrow> u8 \<Rightarrow> bytes" where
  "eb_entity_value_key mac entity_index = mac_hex (Some mac) @ [95] @ dec_digits (unat entity_index)"

definition eb_current_value :: "bytes \<Rightarrow> u8 \<Rightarrow> eb \<Rightarrow> bytes" where
  "eb_current_value mac entity_index b =
     (case map_of (eb_entity_values b) (eb_entity_value_key mac entity_index) of None \<Rightarrow> [] | Some v \<Rightarrow> evc_current_value v)"

record command_outcome =
  co_status :: CommandStatus
  co_session_id :: bytes
  co_error_code :: bytes
  co_error_message :: bytes

definition command_refused :: "CommandStatus \<Rightarrow> bytes \<Rightarrow> string \<Rightarrow> string \<Rightarrow> command_outcome" where
  "command_refused status session_id code message =
     \<lparr>co_status = status, co_session_id = session_id, co_error_code = ascii code, co_error_message = ascii message\<rparr>"

definition eb_run_command ::
  "request_env \<Rightarrow> bytes \<Rightarrow> bp_session \<Rightarrow> ParsedCommandRequest \<Rightarrow> eb \<Rightarrow> eb \<times> command_outcome" where
  "eb_run_command env mac session r b =
     (let session_id = runtime_session_id (re_hmac env) session (eb_network_id b) in
      case entity_match (cr_object_id r) (bs_schema_entities session) of
        None \<Rightarrow> (b, command_refused COMMAND_STATUS_UNSUPPORTED session_id ''entity_not_found''
                     ''Entity object_id is not in the current remote schema'')
      | Some match \<Rightarrow>
          (case decode_command_payload env match (command_route match (cr_command r)) (command_payload r)
                  (eb_current_value mac (bes_entity_index match) b) of
             None \<Rightarrow> (b, command_refused COMMAND_STATUS_UNSUPPORTED session_id ''unsupported_command''
                          ''Command is not supported for this entity'')
           | Some val \<Rightarrow>
               (case bp_send_command_to_leaf (re_bp env) mac (bes_entity_index match) val (eb_protocol b) of
                  (p, sent) \<Rightarrow>
                    (b\<lparr>eb_protocol := p\<rparr>,
                     if \<not> sent then command_refused COMMAND_STATUS_FAILED session_id ''send_failed''
                                      ''Bridge failed to queue command''
                     else \<lparr>co_status = COMMAND_STATUS_ACCEPTED, co_session_id = session_id,
                            co_error_code = [], co_error_message = []\<rparr>))))"

definition eb_command_outcome :: "request_env \<Rightarrow> ParsedCommandRequest \<Rightarrow> eb \<Rightarrow> eb \<times> command_outcome" where
  "eb_command_outcome env r b =
     (case parse_mac_hex (clean_mac (cr_remote_mac r)) of
        None \<Rightarrow> (b, command_refused COMMAND_STATUS_FAILED [] ''invalid_remote_mac'' ''Invalid remote MAC'')
      | Some mac \<Rightarrow>
          (case bp_get_session mac (eb_protocol b) of
             None \<Rightarrow> (b, command_refused COMMAND_STATUS_UNAVAILABLE [] ''remote_unavailable'' ''Remote session is unavailable'')
           | Some session \<Rightarrow>
               if \<not> bs_online session \<or> \<not> bs_session_key_valid session
               then (b, command_refused COMMAND_STATUS_UNAVAILABLE [] ''remote_unavailable'' ''Remote session is unavailable'')
               else eb_run_command env mac session r b))"

definition eb_handle_command :: "request_env \<Rightarrow> bytes \<Rightarrow> ParsedCommandRequest \<Rightarrow> eb \<Rightarrow> eb \<times> bytes" where
  "eb_handle_command env request_id r b =
     (case eb_command_outcome env r b of
        (b', out) \<Rightarrow>
          (b', pb_envelope request_id PB_COMMAND_RESULT (\<lambda>w.
             pb_string 8 (co_error_message out) (pb_string 7 (co_error_code out)
               (pb_varint 6 (command_status_code (co_status out)) (pb_string 5 (co_session_id out)
                 (pb_string 4 (mac_display (Some (eb_sta_mac b))) (pb_string 3 (cr_command r)
                   (pb_string 2 (cr_object_id r) (pb_string 1 (cr_remote_mac r) w)))))))))) "

section \<open>Configuration commands\<close>

definition config_result_string :: "ConfigAckResult \<Rightarrow> string" where
  "config_result_string r =
     (if car_no_session r then ''no_session''
      else if car_timed_out r then ''timeout''
      else if \<not> car_acked r then ''timeout''
      else if car_result r = CFG_RESULT_OK then ''ok''
      else if car_result r = CFG_RESULT_REJECTED then ''rejected''
      else if car_result r = CFG_RESULT_UNSUPPORTED then ''unsupported''
      else if car_result r = CFG_RESULT_INVALID_PAYLOAD then ''invalid_payload''
      else if car_result r = CFG_RESULT_BUSY then ''busy''
      else ''rejected'')"

definition config_result_frame :: "bytes \<Rightarrow> bytes \<Rightarrow> bytes \<Rightarrow> bytes \<Rightarrow> CommandStatus \<Rightarrow> string \<Rightarrow> bytes" where
  "config_result_frame request_id remote_mac command sta_mac status result =
     pb_envelope request_id PB_CONFIG_COMMAND_RESULT (\<lambda>w.
       pb_string 7 (ascii result) (pb_varint 5 (command_status_code status)
         (pb_string 3 (mac_display (Some sta_mac)) (pb_string 2 command (pb_string 1 remote_mac w)))))"

text \<open>The status a remote's answer, or the lack of one, gives.\<close>

definition config_ack_status :: "string \<Rightarrow> CommandStatus" where
  "config_ack_status result =
     (if result = ''timeout'' \<or> result = ''no_session'' then COMMAND_STATUS_TIMEOUT
      else if result = ''busy'' then COMMAND_STATUS_UNAVAILABLE
      else if result = ''rejected'' \<or> result = ''unsupported'' \<or> result = ''invalid_payload'' then COMMAND_STATUS_FAILED
      else COMMAND_STATUS_ACCEPTED)"

definition config_immediate_status :: "string \<Rightarrow> CommandStatus" where
  "config_immediate_status result =
     (if result = ''timeout'' then COMMAND_STATUS_TIMEOUT
      else if result = ''busy'' then COMMAND_STATUS_UNAVAILABLE
      else COMMAND_STATUS_FAILED)"

text \<open>The configuration command to send, or the error there is to answer.\<close>

definition config_command :: "ParsedConfigCommandRequest \<Rightarrow> (string \<times> string) + (u8 \<times> bytes)" where
  "config_command r =
     (if cc_command r = ascii ''reboot'' then Inr (CFG_CMD_REBOOT, [])
      else if cc_command r = ascii ''heartbeat_interval'' then Inr (CFG_CMD_HEARTBEAT_INTERVAL, le32 (cc_interval_seconds r))
      else if cc_command r = ascii ''force_rediscover'' then Inr (CFG_CMD_FORCE_REDISCOVER, [])
      else if cc_command r = ascii ''set_parent_mac'' then
        (let flags = (if cc_clear_parent r then 1 else 0 :: u8); clean = clean_mac (cc_parent_mac r) in
         if clean = [] then Inr (CFG_CMD_SET_PARENT_MAC, flags # replicate 6 0)
         else (case parse_mac_hex clean of
             None \<Rightarrow> Inl (''invalid_parent_mac'', ''Invalid parent MAC'')
           | Some mac \<Rightarrow> Inr (CFG_CMD_SET_PARENT_MAC, flags # mac)))
      else if cc_command r = ascii ''relay'' then Inr (CFG_CMD_RELAY, [if cc_relay_enable r then 1 else 0])
      else Inl (''unsupported_config_command'', ''Unsupported config command''))"

text \<open>Starting it: the reason why not, or nothing when it is under way.\<close>

definition eb_node_config_start ::
  "request_env \<Rightarrow> bytes \<Rightarrow> u8 \<Rightarrow> bytes \<Rightarrow> nat option \<Rightarrow> eb \<Rightarrow> eb \<times> string option" where
  "eb_node_config_start env mac_colon command payload callback b =
     (case parse_mac_hex (clean_mac mac_colon) of
        None \<Rightarrow> (b, Some ''invalid_payload'')
      | Some mac \<Rightarrow>
          if mac = eb_sta_mac b then (b, Some ''not_remote'') else
          (case bp_get_session mac (eb_protocol b) of
             None \<Rightarrow> (b, Some ''no_session'')
           | Some session \<Rightarrow>
               if \<not> bs_online session \<or> \<not> bs_session_key_valid session then (b, Some ''no_session'')
               else (case bp_send_config_to_leaf (re_bp env) mac command payload callback (eb_protocol b) of
                       (p, sent) \<Rightarrow> (b\<lparr>eb_protocol := p\<rparr>, if sent then None else Some ''no_session''))))"

definition eb_handle_config_command ::
  "request_env \<Rightarrow> bytes \<Rightarrow> ParsedConfigCommandRequest \<Rightarrow> eb \<Rightarrow> eb \<times> bytes option" where
  "eb_handle_config_command env request_id r b =
     (case config_command r of
        Inl (code, message) \<Rightarrow> (b, Some (error_envelope request_id (ascii code) (ascii message)))
      | Inr (command, payload) \<Rightarrow>
          (let callback = length (eb_config_requests b);
               b = b\<lparr>eb_config_requests := eb_config_requests b @ [(request_id, cc_remote_mac r, cc_command r)]\<rparr>
           in case eb_node_config_start env (cc_remote_mac r) command payload (Some callback) b of
                (b, None) \<Rightarrow> (b, None)
              | (b, Some immediate) \<Rightarrow>
                  (b, Some (config_result_frame request_id (cc_remote_mac r) (cc_command r) (eb_sta_mac b)
                              (config_immediate_status immediate) immediate))))"

text \<open>The callback the protocol makes when the remote has answered or the time is over.\<close>

definition eb_config_done :: "nat \<Rightarrow> ConfigAckResult \<Rightarrow> eb \<Rightarrow> bytes" where
  "eb_config_done callback result b =
     (case eb_config_requests b ! callback of
        (request_id, remote_mac, command) \<Rightarrow>
          config_result_frame request_id remote_mac command (eb_sta_mac b)
            (config_ack_status (config_result_string result)) (config_result_string result))"

section \<open>Delivery of states\<close>

abbreviation (input) STATE_DELIVERY_SINK_PROTOBUF :: u8 where "STATE_DELIVERY_SINK_PROTOBUF \<equiv> 0x02"
abbreviation (input) STATE_DELIVERY_TIMEOUT_MS :: u32 where "STATE_DELIVERY_TIMEOUT_MS \<equiv> 2000"

definition eb_state_delivery_key :: "bytes \<Rightarrow> u8 \<Rightarrow> u32 \<Rightarrow> bytes" where
  "eb_state_delivery_key mac entity_index message_tx_base =
     mac_hex (Some mac) @ [95] @ dec_digits (unat entity_index) @ [95] @ dec_digits (unat message_tx_base)"

definition active_state_delivery_sinks :: "bool \<Rightarrow> u8" where
  "active_state_delivery_sinks authenticated_client = (if authenticated_client then STATE_DELIVERY_SINK_PROTOBUF else 0)"

definition eb_confirm_state :: "bp_env \<Rightarrow> bytes \<Rightarrow> u8 \<Rightarrow> u32 \<Rightarrow> bytes \<Rightarrow> eb \<Rightarrow> eb" where
  "eb_confirm_state env mac entity_index message_tx_base next_hop_mac b =
     b\<lparr>eb_protocol := fst (bp_confirm_state_delivery env mac entity_index message_tx_base next_hop_mac (eb_protocol b))\<rparr>"

definition eb_begin_state_delivery :: "bp_env \<Rightarrow> bytes \<Rightarrow> u8 \<Rightarrow> u32 \<Rightarrow> bytes \<Rightarrow> u8 \<Rightarrow> eb \<Rightarrow> eb" where
  "eb_begin_state_delivery env mac entity_index message_tx_base next_hop_mac required_sinks b =
     (if required_sinks = 0 then eb_confirm_state env mac entity_index message_tx_base next_hop_mac b
      else b\<lparr>eb_pending_state_deliveries := (eb_pending_state_deliveries b)
               (eb_state_delivery_key mac entity_index message_tx_base \<mapsto>
                 \<lparr>psd_leaf_mac = mac, psd_next_hop_mac = next_hop_mac, psd_entity_index = entity_index,
                  psd_message_tx_base = message_tx_base, psd_required_sinks = required_sinks,
                  psd_delivered_sinks = 0, psd_created_ms = bpe_now env\<rparr>)\<rparr>)"

definition eb_mark_state_sink_delivered :: "bp_env \<Rightarrow> bytes \<Rightarrow> u8 \<Rightarrow> u32 \<Rightarrow> u8 \<Rightarrow> eb \<Rightarrow> eb" where
  "eb_mark_state_sink_delivered env mac entity_index message_tx_base sink b =
     (let key = eb_state_delivery_key mac entity_index message_tx_base in
      case eb_pending_state_deliveries b key of
        None \<Rightarrow> b
      | Some d \<Rightarrow>
          (let d = d\<lparr>psd_delivered_sinks := psd_delivered_sinks d OR sink\<rparr> in
           if psd_delivered_sinks d AND psd_required_sinks d \<noteq> psd_required_sinks d
           then b\<lparr>eb_pending_state_deliveries := (eb_pending_state_deliveries b)(key \<mapsto> d)\<rparr>
           else (eb_confirm_state env (psd_leaf_mac d) (psd_entity_index d) (psd_message_tx_base d) (psd_next_hop_mac d) b)
                  \<lparr>eb_pending_state_deliveries := (eb_pending_state_deliveries b)(key := None)\<rparr>))"

definition eb_expire_state_deliveries :: "u32 \<Rightarrow> eb \<Rightarrow> eb" where
  "eb_expire_state_deliveries now b =
     b\<lparr>eb_pending_state_deliveries := (\<lambda>key. case eb_pending_state_deliveries b key of None \<Rightarrow> None
        | Some d \<Rightarrow> if now - psd_created_ms d < STATE_DELIVERY_TIMEOUT_MS then Some d else None)\<rparr>"

definition eb_handle_state_receipt :: "bp_env \<Rightarrow> ParsedStateReceipt \<Rightarrow> eb \<Rightarrow> eb" where
  "eb_handle_state_receipt env r b =
     (case parse_mac_hex (clean_mac (sr_remote_mac r)) of
        None \<Rightarrow> b
      | Some mac \<Rightarrow>
          (case bp_get_session mac (eb_protocol b) of
             None \<Rightarrow> b
           | Some session \<Rightarrow>
               if sr_session_id r \<noteq> [] \<and> sr_session_id r \<noteq> runtime_session_id (bpe_hmac env) session (eb_network_id b)
               then b
               else eb_mark_state_sink_delivered env mac (sr_entity_index r) (sr_state_tx_counter r)
                      STATE_DELIVERY_SINK_PROTOBUF b))"

text \<open>What the component does with a state the protocol publishes, before it tells the transport.\<close>

definition eb_publish_state ::
  "bp_env \<Rightarrow> u8 \<Rightarrow> bytes \<Rightarrow> BridgeEntitySchema \<Rightarrow> bytes \<Rightarrow> u8 \<Rightarrow> u32 \<Rightarrow> bytes \<Rightarrow> eb \<Rightarrow> eb" where
  "eb_publish_state env required_sinks mac entity val type message_tx_base next_hop_mac b =
     eb_begin_state_delivery env mac (bes_entity_index entity) message_tx_base next_hop_mac required_sinks
       (b\<lparr>eb_entity_values := text_map_set (eb_entity_value_key mac (bes_entity_index entity))
            \<lparr>evc_current_value = val, evc_current_type = type, evc_schema = entity\<rparr> (eb_entity_values b)\<rparr>)"

end
