(* ===== verification/BridgeRadio.thy ===== *)
theory BridgeRadio
  imports BridgeRequests
begin

text \<open>
  The bridge component's side of the radio (\<^verbatim>\<open>esp_tree_bridge/esp_tree_bridge.cpp\<close>): the peers
  entered into the driver, whose number it bounds, and the queue of received frames between the driver's task and the
  component's loop. The driver is the state \<open>'d\<close> with its calls \<open>'d radio_driver\<close>; a lock that is not
  to be had in time is an argument of the operation that asks for it.
\<close>

section \<open>Peers\<close>

record 'd radio_driver =
  rd_is_peer_exist :: "'d \<Rightarrow> bytes \<Rightarrow> bool"
  rd_add_peer :: "'d \<Rightarrow> bytes \<Rightarrow> 'd \<times> bool"
  rd_del_peer :: "'d \<Rightarrow> bytes \<Rightarrow> 'd \<times> bool"
  rd_send :: "'d \<Rightarrow> bytes \<Rightarrow> bytes \<Rightarrow> 'd \<times> esp_err_t"

record AirtimeStats =
  as_tx_packets :: u32
  as_rx_packets :: u32
  as_tx_airtime_us :: u64
  as_rx_airtime_us :: u64
  as_rssi_sum :: int
  as_rssi_count :: u32

record PendingRxFrame =
  prf_mac :: bytes
  prf_data :: bytes
  prf_rssi :: int

record 'd radio =
  ra_driver :: 'd
  ra_protocol :: bp
  ra_peer_last_used_ms :: "(bytes \<times> u32) list"
  ra_rolling_airtime :: AirtimeStats
  ra_pending_rx_frames :: "PendingRxFrame list"
  ra_espnow_allowed :: bool
  ra_rx_packets :: u32
  ra_rx_dropped :: u32
  ra_rx_dropped_while_disallowed :: u32

definition calc_airtime_lr_us :: "nat \<Rightarrow> u32" where
  "calc_airtime_lr_us frame_bytes = 336 + 16 * of_nat frame_bytes"

definition ra_note_peer_activity :: "u32 \<Rightarrow> bytes \<Rightarrow> 'd radio \<Rightarrow> 'd radio" where
  "ra_note_peer_activity now mac r =
     r\<lparr>ra_peer_last_used_ms := text_map_set (mac_hex (Some mac)) now (ra_peer_last_used_ms r)\<rparr>"

definition ra_is_peer_protected :: "bytes \<Rightarrow> 'd radio \<Rightarrow> bool" where
  "ra_is_peer_protected mac r \<longleftrightarrow>
     list_ex (\<lambda>(_, session). bs_online session \<and> (bs_next_hop_mac session = mac \<or> bs_leaf_mac session = mac))
       (bp_sessions (ra_protocol r))"

definition ra_evictable :: "bytes \<Rightarrow> 'd radio \<Rightarrow> bytes \<Rightarrow> bool" where
  "ra_evictable preferred_mac r key \<longleftrightarrow>
     (case parse_mac_hex key of None \<Rightarrow> False | Some mac \<Rightarrow> mac \<noteq> preferred_mac \<and> \<not> ra_is_peer_protected mac r)"

text \<open>The peer unused for longest among those that may go; the first of them where two are equal.\<close>

fun oldest_peer :: "(bytes \<Rightarrow> bool) \<Rightarrow> (bytes \<times> u32) option \<Rightarrow> (bytes \<times> u32) list \<Rightarrow> (bytes \<times> u32) option" where
  "oldest_peer evictable best [] = best"
| "oldest_peer evictable best ((key, used) # peers) =
     (if \<not> evictable key then oldest_peer evictable best peers
      else if (case best of None \<Rightarrow> True | Some (_, best_used) \<Rightarrow> used < best_used)
      then oldest_peer evictable (Some (key, used)) peers
      else oldest_peer evictable best peers)"

definition ra_evict_stale_peer :: "'d radio_driver \<Rightarrow> bytes \<Rightarrow> 'd radio \<Rightarrow> 'd radio \<times> bool" where
  "ra_evict_stale_peer D preferred_mac r =
     (case oldest_peer (ra_evictable preferred_mac r) None (ra_peer_last_used_ms r) of
        None \<Rightarrow> (r, False)
      | Some (key, _) \<Rightarrow>
          (let r = r\<lparr>ra_peer_last_used_ms := filter (\<lambda>(k, _). k \<noteq> key) (ra_peer_last_used_ms r)\<rparr> in
           case parse_mac_hex key of None \<Rightarrow> (r, False)
           | Some evict_mac \<Rightarrow>
               (case rd_del_peer D (ra_driver r) evict_mac of (d, ok) \<Rightarrow> (r\<lparr>ra_driver := d\<rparr>, ok))))"

definition ra_add_peer :: "'d radio_driver \<Rightarrow> u32 \<Rightarrow> bytes \<Rightarrow> 'd radio \<Rightarrow> 'd radio \<times> bool" where
  "ra_add_peer D now mac r =
     (if rd_is_peer_exist D (ra_driver r) mac then (ra_note_peer_activity now mac r, True)
      else case rd_add_peer D (ra_driver r) mac of
        (d, True) \<Rightarrow> (ra_note_peer_activity now mac (r\<lparr>ra_driver := d\<rparr>), True)
      | (d, False) \<Rightarrow>
          (case ra_evict_stale_peer D mac (r\<lparr>ra_driver := d\<rparr>) of
             (r, False) \<Rightarrow> (r, False)
           | (r, True) \<Rightarrow>
               (case rd_add_peer D (ra_driver r) mac of
                  (d, True) \<Rightarrow> (ra_note_peer_activity now mac (r\<lparr>ra_driver := d\<rparr>), True)
                | (d, False) \<Rightarrow> (r\<lparr>ra_driver := d\<rparr>, False))))"

text \<open>Sending; \<open>ESP_ERR_other\<close> stands for \<^verbatim>\<open>ESP_FAIL\<close>.\<close>

definition ra_send_frame_result :: "'d radio_driver \<Rightarrow> u32 \<Rightarrow> bytes \<Rightarrow> bytes \<Rightarrow> 'd radio \<Rightarrow> 'd radio \<times> esp_err_t" where
  "ra_send_frame_result D now mac frame r =
     (case ra_add_peer D now mac r of
        (r, False) \<Rightarrow> (r, ESP_ERR_other)
      | (r, True) \<Rightarrow>
          (let a = ra_rolling_airtime r;
               r = ra_note_peer_activity now mac
                 (r\<lparr>ra_rolling_airtime := a\<lparr>as_tx_airtime_us := as_tx_airtime_us a + ucast (calc_airtime_lr_us (length frame)),
                       as_tx_packets := as_tx_packets a + 1\<rparr>\<rparr>)
           in case rd_send D (ra_driver r) mac frame of (d, err) \<Rightarrow> (r\<lparr>ra_driver := d\<rparr>, err)))"

definition ra_send_frame :: "'d radio_driver \<Rightarrow> u32 \<Rightarrow> bytes \<Rightarrow> bytes \<Rightarrow> 'd radio \<Rightarrow> 'd radio \<times> bool" where
  "ra_send_frame D now mac frame r = (case ra_send_frame_result D now mac frame r of (r, err) \<Rightarrow> (r, err = ESP_OK))"

section \<open>Received frames\<close>

abbreviation (input) MAX_PENDING_RX_FRAMES :: nat where "MAX_PENDING_RX_FRAMES \<equiv> 64"

definition ra_handle_received_frame :: "bool \<Rightarrow> bytes \<Rightarrow> bytes \<Rightarrow> int \<Rightarrow> 'd radio \<Rightarrow> 'd radio" where
  "ra_handle_received_frame locked mac data rssi r =
     (if \<not> ra_espnow_allowed r then r\<lparr>ra_rx_dropped_while_disallowed := ra_rx_dropped_while_disallowed r + 1\<rparr>
      else if data = [] then r
      else if \<not> locked then r\<lparr>ra_rx_dropped := ra_rx_dropped r + 1\<rparr>
      else if MAX_PENDING_RX_FRAMES \<le> length (ra_pending_rx_frames r) then r\<lparr>ra_rx_dropped := ra_rx_dropped r + 1\<rparr>
      else r\<lparr>ra_pending_rx_frames := ra_pending_rx_frames r @ [\<lparr>prf_mac = mac, prf_data = data, prf_rssi = rssi\<rparr>]\<rparr>)"

definition ra_take_frame :: "bp_env \<Rightarrow> PendingRxFrame \<Rightarrow> 'd radio \<Rightarrow> 'd radio" where
  "ra_take_frame env f r =
     (case bp_on_espnow_frame env (prf_mac f) (prf_data f) (prf_rssi f) (ra_protocol r) of
        (p, False) \<Rightarrow> r\<lparr>ra_protocol := p, ra_rx_dropped := ra_rx_dropped r + 1\<rparr>
      | (p, True) \<Rightarrow>
          (let a = ra_rolling_airtime r;
               a = a\<lparr>as_rx_airtime_us := as_rx_airtime_us a + ucast (calc_airtime_lr_us (length (prf_data f))),
                     as_rx_packets := as_rx_packets a + 1\<rparr>;
               a = (if prf_rssi f \<noteq> 0
                    then a\<lparr>as_rssi_sum := as_rssi_sum a + prf_rssi f, as_rssi_count := as_rssi_count a + 1\<rparr> else a)
           in r\<lparr>ra_protocol := p, ra_rx_packets := ra_rx_packets r + 1, ra_rolling_airtime := a\<rparr>))"

definition ra_drain_received_frames :: "bool \<Rightarrow> bp_env \<Rightarrow> 'd radio \<Rightarrow> 'd radio" where
  "ra_drain_received_frames locked env r =
     (if \<not> locked then r
      else fold (ra_take_frame env) (ra_pending_rx_frames r) (r\<lparr>ra_pending_rx_frames := []\<rparr>))"

section \<open>Names\<close>

definition node_key :: "bytes \<Rightarrow> bp \<Rightarrow> bytes" where
  "node_key mac p = (case bp_get_session mac p of
       Some s \<Rightarrow> if bs_esphome_name s \<noteq> [] then sanitize_object_id (bs_esphome_name s) else mac_hex (Some mac)
     | None \<Rightarrow> mac_hex (Some mac))"

definition remote_display_name :: "bytes \<Rightarrow> bp \<Rightarrow> bytes" where
  "remote_display_name mac p =
     (let fallback = ascii ''ESP-NOW LR Remote '' @ mac_hex (Some mac) in
      case bp_get_session mac p of None \<Rightarrow> fallback
      | Some s \<Rightarrow> if bs_node_label s \<noteq> [] then bs_node_label s
          else if bs_esphome_name s \<noteq> [] then bs_esphome_name s else fallback)"

text \<open>The object id MQTT uses: entities without an id of their own and with the same name are numbered.\<close>

definition eb_entity_object_id :: "bytes \<Rightarrow> BridgeEntitySchema \<Rightarrow> bp \<Rightarrow> bytes" where
  "eb_entity_object_id mac entity p =
     (let base = sanitize_object_id (if bes_entity_id entity \<noteq> [] then bes_entity_id entity else bes_entity_name entity);
          base = (if base = [] then ascii ''entity'' else base);
          index = unat (bes_entity_index entity)
      in case bp_get_session mac p of None \<Rightarrow> base
         | Some s \<Rightarrow>
             if length (bs_schema_entities s) \<le> index \<or> bes_entity_id entity \<noteq> [] then base
             else (let same = filter (\<lambda>c. bes_entity_type c \<noteq> 0 \<and> sanitize_object_id (bes_entity_name c) = base)
                         (take (Suc index) (bs_schema_entities s))
                   in if 1 < length same then base @ [95] @ dec_digits (length same) else base))"

definition get_online_macs :: "bp \<Rightarrow> bytes list" where
  "get_online_macs p = map (bs_leaf_mac \<circ> snd) (filter (bs_online \<circ> snd) (bp_sessions p))"

fun remote_mac_by_node_key :: "bytes \<Rightarrow> (u64 \<times> bp_session) list \<Rightarrow> bytes option" where
  "remote_mac_by_node_key wanted [] = None"
| "remote_mac_by_node_key wanted ((_, session) # sessions) =
     (if sanitize_object_id (bs_esphome_name session) = wanted \<or> mac_hex (Some (bs_leaf_mac session)) = wanted
      then Some (bs_leaf_mac session) else remote_mac_by_node_key wanted sessions)"

end
