(* ===== verification/BridgeSnapshots.thy ===== *)
theory BridgeSnapshots
  imports BridgeRequests
begin

text \<open>
  What the bridge component tells a client (\<^verbatim>\<open>esp_tree_bridge/esp_tree_bridge.cpp\<close>): the answer to an
  authentication, the snapshot of all remotes, the heartbeat and the events. \<open>pb_all\<close> makes the given writes one
  after the other, so that a message reads as in the code; names given to fields are those of the code's writers.
\<close>

abbreviation (input) PB_FULL_SNAPSHOT :: u32 where "PB_FULL_SNAPSHOT \<equiv> 15"
abbreviation (input) PB_EVENT_BATCH :: u32 where "PB_EVENT_BATCH \<equiv> 16"

definition pb_all :: "(bytes \<Rightarrow> bytes) list \<Rightarrow> bytes \<Rightarrow> bytes" where
  "pb_all writes w = fold (\<lambda>f w. f w) writes w"

section \<open>Texts\<close>

text \<open>\<^verbatim>\<open>%d\<close> of \<^verbatim>\<open>sscanf\<close>: white space, a sign, digits; the nearest value if it does not fit.\<close>

definition scan_int :: "bytes \<Rightarrow> (int \<times> bytes) option" where
  "scan_int input =
     (let t = dropWhile is_space input;
          digits = (if t \<noteq> [] \<and> (hd t = 43 \<or> hd t = 45) then tl t else t)
      in case c_strtol input of None \<Rightarrow> None
         | Some v \<Rightarrow> Some (v, dropWhile (\<lambda>c. 48 \<le> c \<and> c \<le> 57) digits))"

definition int_digits :: "nat \<Rightarrow> int \<Rightarrow> bytes" where
  "int_digits width n =
     (let digits = dec_digits (nat \<bar>n\<bar>); sgn = (if n < 0 then [45] else [])
      in sgn @ replicate (width - length sgn - length digits) 48 @ digits)"

definition month_names :: "string list" where
  "month_names = [''Jan'', ''Feb'', ''Mar'', ''Apr'', ''May'', ''Jun'', ''Jul'', ''Aug'', ''Sep'', ''Oct'', ''Nov'', ''Dec'']"

definition format_build_date :: "bytes \<Rightarrow> bytes \<Rightarrow> bytes" where
  "format_build_date date_str time_str =
     (let t = dropWhile is_space (takeWhile (\<lambda>c. c \<noteq> 0) date_str);
          mon_str = take 7 (takeWhile (\<lambda>c. \<not> is_space c) t)
      in if mon_str = [] then ascii ''unknown''
         else case scan_int (drop (length mon_str) t) of None \<Rightarrow> ascii ''unknown''
         | Some (day, rest) \<Rightarrow>
             (case scan_int rest of None \<Rightarrow> ascii ''unknown''
              | Some (year, _) \<Rightarrow>
                  if mon_str \<notin> set (map ascii month_names) then ascii ''unknown''
                  else take 31 (mon_str @ [32] @ int_digits 0 day @ [32] @ int_digits 4 year @ [32]
                                @ takeWhile (\<lambda>c. c \<noteq> 0) time_str)))"

definition chip_model_string :: "u32 \<Rightarrow> bytes" where
  "chip_model_string model =
     ascii (if model = 1 then ''ESP32'' else if model = 2 then ''ESP32-S2'' else if model = 5 then ''ESP32-C3''
       else if model = 9 then ''ESP32-S3'' else if model = 12 then ''ESP32-C2'' else if model = 13 then ''ESP32-C6''
       else if model = 16 then ''ESP32-H2'' else if model = 18 then ''ESP32-P4'' else if model = 20 then ''ESP32-C61''
       else if model = 23 then ''ESP32-C5'' else if model = 33382 then ''ESP8266'' else ''Unknown'')"

definition field_type_of :: "u8 \<Rightarrow> espnow_field_type option" where
  "field_type_of t = find (\<lambda>f. field_type_code f = t)
     [FIELD_TYPE_SENSOR, FIELD_TYPE_SWITCH, FIELD_TYPE_BINARY, FIELD_TYPE_BUTTON, FIELD_TYPE_NUMBER, FIELD_TYPE_TEXT,
      FIELD_TYPE_TEXT_SENSOR, FIELD_TYPE_COVER, FIELD_TYPE_LIGHT, FIELD_TYPE_FAN, FIELD_TYPE_LOCK, FIELD_TYPE_ALARM,
      FIELD_TYPE_SELECT, FIELD_TYPE_EVENT, FIELD_TYPE_VALVE, FIELD_TYPE_HUMIDIFIER, FIELD_TYPE_DEHUMIDIFIER,
      FIELD_TYPE_TIME, FIELD_TYPE_DATETIME, FIELD_TYPE_CLIMATE]"

definition component_for_type :: "espnow_field_type option \<Rightarrow> string" where
  "component_for_type t = (case t of
       Some FIELD_TYPE_SENSOR \<Rightarrow> ''sensor'' | Some FIELD_TYPE_SWITCH \<Rightarrow> ''switch''
     | Some FIELD_TYPE_BINARY \<Rightarrow> ''binary_sensor'' | Some FIELD_TYPE_BUTTON \<Rightarrow> ''button''
     | Some FIELD_TYPE_NUMBER \<Rightarrow> ''number'' | Some FIELD_TYPE_TEXT \<Rightarrow> ''text''
     | Some FIELD_TYPE_TEXT_SENSOR \<Rightarrow> ''text_sensor'' | Some FIELD_TYPE_COVER \<Rightarrow> ''cover''
     | Some FIELD_TYPE_LIGHT \<Rightarrow> ''light'' | Some FIELD_TYPE_FAN \<Rightarrow> ''fan''
     | Some FIELD_TYPE_LOCK \<Rightarrow> ''lock'' | Some FIELD_TYPE_ALARM \<Rightarrow> ''alarm_control_panel''
     | Some FIELD_TYPE_SELECT \<Rightarrow> ''select'' | Some FIELD_TYPE_EVENT \<Rightarrow> ''event''
     | Some FIELD_TYPE_VALVE \<Rightarrow> ''valve'' | _ \<Rightarrow> ''sensor'')"

definition native_type_for_type :: "espnow_field_type option \<Rightarrow> string" where
  "native_type_for_type t = (case t of
       None \<Rightarrow> ''float''
     | Some f \<Rightarrow>
         if f \<in> {FIELD_TYPE_SENSOR, FIELD_TYPE_NUMBER} then ''float''
         else if f \<in> {FIELD_TYPE_SWITCH, FIELD_TYPE_BINARY, FIELD_TYPE_BUTTON, FIELD_TYPE_HUMIDIFIER, FIELD_TYPE_DEHUMIDIFIER}
         then ''bool''
         else if f \<in> {FIELD_TYPE_TEXT, FIELD_TYPE_TEXT_SENSOR, FIELD_TYPE_SELECT, FIELD_TYPE_TIME, FIELD_TYPE_DATETIME}
         then ''string''
         else ''int'')"

definition runtime_entity_writable :: "espnow_field_type option \<Rightarrow> bool" where
  "runtime_entity_writable t \<longleftrightarrow> t \<in> Some ` {FIELD_TYPE_SWITCH, FIELD_TYPE_BUTTON, FIELD_TYPE_NUMBER, FIELD_TYPE_TEXT,
     FIELD_TYPE_SELECT, FIELD_TYPE_LIGHT, FIELD_TYPE_FAN, FIELD_TYPE_COVER, FIELD_TYPE_VALVE, FIELD_TYPE_LOCK,
     FIELD_TYPE_ALARM}"

section \<open>Parts of the messages\<close>

definition runtime_schema_hash :: "bp_session \<Rightarrow> bytes" where
  "runtime_schema_hash session = ascii ''sha256:'' @ bytes_to_lower_hex (bs_schema_hash session)"

definition runtime_write_capabilities :: "bytes \<Rightarrow> bytes" where
  "runtime_write_capabilities = pb_all [pb_boolean 1 True, pb_boolean 2 True, pb_boolean 3 True, pb_boolean 4 True,
     pb_boolean 5 True, pb_boolean 6 True]"

text \<open>The state of one entity; a type that is none of the table's is shown as the JSON text of unknown values.\<close>

definition runtime_write_entity_state ::
  "request_env \<Rightarrow> bytes \<Rightarrow> bool \<Rightarrow> u8 \<Rightarrow> bytes \<Rightarrow> bytes \<Rightarrow> bytes \<Rightarrow> bytes" where
  "runtime_write_entity_state env object_id available type val options =
     pb_all [pb_string 1 object_id, pb_boolean 2 available, pb_varint 3 (re_unix_ms env),
       (case field_type_of type of
          None \<Rightarrow> pb_string 13 (ascii ''null'')
        | Some t \<Rightarrow>
            if t \<in> {FIELD_TYPE_SWITCH, FIELD_TYPE_BINARY} then pb_boolean 10 (val \<noteq> [] \<and> val ! 0 \<noteq> 0)
            else if t = FIELD_TYPE_LOCK then
              pb_string 13 (ascii (if val \<noteq> [] \<and> val ! 0 = 1 then ''LOCKED''
                else if val \<noteq> [] \<and> val ! 0 = 2 then ''JAMMED'' else ''UNLOCKED''))
            else if t = FIELD_TYPE_ALARM then
              pb_string 13 (ascii (if val = [] then ''disarmed'' else alarm_state_name (val ! 0)))
            else if t \<in> {FIELD_TYPE_COVER, FIELD_TYPE_VALVE, FIELD_TYPE_SELECT} then
              pb_sint64 11 (if val = [] then 0 else ucast (val ! 0))
            else if t \<in> {FIELD_TYPE_SENSOR, FIELD_TYPE_NUMBER} then
              pb_fixed64 12 (if length val < 4 then 0 else re_double_bits env (take 4 val))
            else if t \<in> {FIELD_TYPE_TEXT, FIELD_TYPE_TEXT_SENSOR, FIELD_TYPE_EVENT} then pb_string 13 val
            else pb_string 13 (state_value_json (re_float_text env) (re_hsv_to_rgb env) t val options))]"

text \<open>The bridge's identity; the snapshot adds the chip.\<close>

definition write_bridge_identity :: "request_env \<Rightarrow> eb \<Rightarrow> bytes \<Rightarrow> bytes" where
  "write_bridge_identity env b =
     pb_all [pb_string 1 (mac_display (Some (eb_sta_mac b))), pb_string 2 (sanitize_object_id (re_app_name env)),
       pb_string 3 (re_friendly_name env), pb_string 4 (eb_network_id b), pb_string 5 (ascii ''ESPHome''),
       pb_string 6 (ascii ''esp_tree_bridge''), pb_string 7 (bi_project_name (bp_identity (eb_protocol b))),
       pb_string 8 (bi_project_version (bp_identity (eb_protocol b))),
       pb_string 9 (format_build_date (bi_build_date (bp_identity (eb_protocol b))) (bi_build_time (bp_identity (eb_protocol b)))),
       pb_string 10 kRuntimeProtocol]"

definition write_remote_identity :: "bp_session \<Rightarrow> bytes \<Rightarrow> bytes \<Rightarrow> bytes" where
  "write_remote_identity session schema_hash =
     pb_all [pb_string 1 (mac_display (Some (bs_leaf_mac session))), pb_string 2 (bs_esphome_name session),
       pb_string 3 (if bs_node_label session = [] then mac_display (Some (bs_leaf_mac session)) else bs_node_label session),
       pb_string 4 (ascii ''ESPHome''), pb_string 5 (ascii ''esp_tree_remote''),
       pb_string 6 (bs_project_name session), pb_string 7 (bs_project_version session),
       pb_string 8 (if bs_build_date session \<noteq> [] \<and> bs_build_time session \<noteq> []
                    then format_build_date (bs_build_date session) (bs_build_time session) else []),
       pb_string 9 (bytes_to_lower_hex (bs_firmware_md5 session)), pb_string 10 schema_hash,
       pb_varint 11 (of_nat (length (bs_schema_entities session))),
       pb_string 12 (chip_model_string (bs_chip_model session)),
       pb_boolean 13 (bs_online session \<and> bs_session_key_valid session),
       pb_boolean 14 (0 < bs_direct_child_count session \<or> 0 < bs_total_child_count session)]"

definition write_entity :: "BridgeEntitySchema \<Rightarrow> bytes \<Rightarrow> bytes" where
  "write_entity entity =
     (let type = field_type_of (bes_entity_type entity) in
      pb_message 2 (pb_all [pb_string 1 (entity_object_id entity), pb_string 2 (ascii (component_for_type type)),
        pb_string 3 (bes_entity_name entity), pb_string 6 (bes_entity_unit entity),
        pb_boolean 11 (runtime_entity_writable type), pb_string 12 (ascii (native_type_for_type type)),
        pb_string 13 (bes_entity_options entity)]))"

definition write_schema :: "bp_session \<Rightarrow> bytes \<Rightarrow> bytes \<Rightarrow> bytes" where
  "write_schema session schema_hash =
     pb_all (pb_string 1 schema_hash
       # map write_entity (filter (\<lambda>entity. bes_entity_type entity \<noteq> 0) (bs_schema_entities session)))"

definition rssi_word :: "int \<Rightarrow> 32 word" where
  "rssi_word r = word_of_int r"

section \<open>Messages\<close>

definition eb_encode_auth_ok :: "request_env \<Rightarrow> bytes \<Rightarrow> eb \<Rightarrow> bytes" where
  "eb_encode_auth_ok env request_id b =
     pb_envelope request_id PB_AUTH_OK
       (pb_all [pb_varint 1 (ucast kRuntimeApiVersion), pb_string 2 (re_friendly_name env),
          pb_message 3 (write_bridge_identity env b), pb_message 4 runtime_write_capabilities])"

definition write_remote_snapshot :: "request_env \<Rightarrow> eb \<Rightarrow> bp_session \<Rightarrow> bytes \<Rightarrow> bytes" where
  "write_remote_snapshot env b session =
     pb_message 3 (pb_all
       ([pb_message 1 (write_remote_identity session (runtime_schema_hash session)),
         pb_message 2 (pb_all [pb_boolean 1 (bs_online session), pb_string 2 (mac_display (Some (eb_sta_mac b))),
           pb_string 3 (mac_display (Some (bs_parent_mac session))), pb_varint 4 (ucast (bs_hops_to_bridge session)),
           pb_sint32 5 (rssi_word (bs_last_rssi session)), pb_varint 7 (ucast (bs_last_seen_bridge_uptime_s session)),
           pb_string 8 (runtime_session_id (re_hmac env) session (eb_network_id b)),
           pb_varint 9 (ucast (bs_last_seen_counter session)), pb_varint 10 (ucast (bs_uptime_seconds session))]),
         pb_message 3 (write_schema session (runtime_schema_hash session))]
        @ map (\<lambda>(_, rec). pb_message 4 (runtime_write_entity_state env (entity_object_id (evc_schema rec)) (bs_online session)
              (evc_current_type rec) (evc_current_value rec) (bes_entity_options (evc_schema rec))))
            (filter (\<lambda>(key, rec). take 12 key = mac_hex (Some (bs_leaf_mac session)) \<and> evc_current_value rec \<noteq> [])
              (eb_entity_values b))))"

definition eb_encode_full_snapshot :: "request_env \<Rightarrow> bytes \<Rightarrow> eb \<Rightarrow> bytes" where
  "eb_encode_full_snapshot env request_id b =
     pb_envelope request_id PB_FULL_SNAPSHOT (pb_all
       ([pb_message 1 (pb_all [write_bridge_identity env b,
           pb_string 11 (chip_model_string (bi_chip_model (bp_identity (eb_protocol b))))]),
         pb_message 2 (pb_all [pb_boolean 1 True, pb_sint32 2 0, pb_varint 3 (ucast (bp_bridge_uptime_s (eb_protocol b))),
           pb_varint 4 (ucast (bp_active_remote_count (eb_protocol b)))])]
        @ map (\<lambda>(_, session). write_remote_snapshot env b session) (bp_sessions (eb_protocol b))
        @ [pb_varint 4 (re_unix_ms env)]))"

text \<open>An event is the only one of its batch.\<close>

definition pb_event :: "u32 \<Rightarrow> (bytes \<Rightarrow> bytes) list \<Rightarrow> bytes" where
  "pb_event fld writes = pb_envelope [] PB_EVENT_BATCH (pb_message 1 (pb_message fld (pb_all writes)))"

definition eb_encode_bridge_heartbeat :: "request_env \<Rightarrow> eb \<Rightarrow> bytes" where
  "eb_encode_bridge_heartbeat env b =
     pb_event 10
       ([pb_string 1 (mac_display (Some (eb_sta_mac b))), pb_varint 2 (re_unix_ms env),
         pb_varint 3 (ucast (bp_bridge_uptime_s (eb_protocol b)))]
        @ map (\<lambda>(_, session). pb_message 4 (pb_all [pb_string 1 (mac_display (Some (bs_leaf_mac session))),
              pb_varint 2 (ucast (bs_last_seen_bridge_uptime_s session))]))
            (filter (\<lambda>(_, session). bs_online session \<and> bs_last_seen_bridge_uptime_s session \<noteq> 0)
              (bp_sessions (eb_protocol b))))"

definition eb_encode_topology_changed :: "request_env \<Rightarrow> bytes \<Rightarrow> eb \<Rightarrow> bytes" where
  "eb_encode_topology_changed env mac b =
     (let session = bp_get_session mac (eb_protocol b) in
      pb_event 15 [pb_string 1 (mac_display (Some mac)), pb_string 2 (mac_display (Some (eb_sta_mac b))),
        pb_string 3 (case session of None \<Rightarrow> [] | Some s \<Rightarrow> mac_display (Some (bs_parent_mac s))),
        pb_varint 4 (case session of None \<Rightarrow> 0 | Some s \<Rightarrow> ucast (bs_hops_to_bridge s)),
        pb_sint32 5 (case session of None \<Rightarrow> - 127 | Some s \<Rightarrow> rssi_word (bs_last_rssi s)),
        pb_varint 6 (re_unix_ms env),
        pb_varint 7 (case session of None \<Rightarrow> 0 | Some s \<Rightarrow> ucast (bs_uptime_seconds s))])"

definition session_id_of :: "request_env \<Rightarrow> bytes \<Rightarrow> eb \<Rightarrow> bytes" where
  "session_id_of env mac b = (case bp_get_session mac (eb_protocol b) of None \<Rightarrow> []
     | Some s \<Rightarrow> runtime_session_id (re_hmac env) s (eb_network_id b))"

definition last_counter_of :: "bytes \<Rightarrow> eb \<Rightarrow> u64" where
  "last_counter_of mac b = (case bp_get_session mac (eb_protocol b) of None \<Rightarrow> 0
     | Some s \<Rightarrow> ucast (bs_last_seen_counter s))"

definition eb_encode_remote_availability :: "request_env \<Rightarrow> bytes \<Rightarrow> bool \<Rightarrow> bytes \<Rightarrow> int \<Rightarrow> u8 \<Rightarrow> eb \<Rightarrow> bytes" where
  "eb_encode_remote_availability env mac online reason rssi hop_count b =
     pb_event 11 [pb_string 1 (mac_display (Some mac)), pb_boolean 2 online,
       pb_string 3 (mac_display (Some (eb_sta_mac b))), pb_string 4 (session_id_of env mac b),
       pb_varint 5 (last_counter_of mac b), pb_varint 6 (re_unix_ms env), pb_sint32 7 (rssi_word rssi),
       pb_varint 8 (ucast hop_count), pb_string 9 reason,
       pb_varint 10 (case bp_get_session mac (eb_protocol b) of None \<Rightarrow> 0 | Some s \<Rightarrow> ucast (bs_uptime_seconds s))]"

definition eb_encode_remote_state ::
  "request_env \<Rightarrow> bytes \<Rightarrow> BridgeEntitySchema \<Rightarrow> bytes \<Rightarrow> u8 \<Rightarrow> u32 \<Rightarrow> eb \<Rightarrow> bytes" where
  "eb_encode_remote_state env mac entity val type state_tx_counter b =
     pb_event 12 [pb_string 1 (mac_display (Some mac)), pb_string 2 (mac_display (Some (eb_sta_mac b))),
       pb_string 3 (session_id_of env mac b), pb_varint 4 (last_counter_of mac b),
       pb_message 5 (runtime_write_entity_state env (entity_object_id entity) True type val (bes_entity_options entity)),
       pb_varint 6 (re_unix_ms env), pb_varint 7 (ucast state_tx_counter), pb_varint 8 (ucast (bes_entity_index entity))]"

definition eb_encode_remote_schema_changed :: "request_env \<Rightarrow> bytes \<Rightarrow> bytes \<Rightarrow> eb \<Rightarrow> bytes" where
  "eb_encode_remote_schema_changed env mac schema_hash b =
     pb_event 13
       ([pb_string 1 (mac_display (Some mac)), pb_string 2 (mac_display (Some (eb_sta_mac b))),
         pb_string 3 (session_id_of env mac b), pb_string 4 []]
        @ (case bp_get_session mac (eb_protocol b) of None \<Rightarrow> []
           | Some session \<Rightarrow>
               [pb_message 5 (pb_all
                  [pb_message 1 (write_remote_identity session schema_hash),
                   pb_message 2 (pb_all [pb_boolean 1 (bs_online session), pb_string 2 (mac_display (Some (eb_sta_mac b))),
                     pb_string 3 (mac_display (Some (bs_parent_mac session))), pb_varint 4 (ucast (bs_hops_to_bridge session)),
                     pb_sint32 5 (rssi_word (bs_last_rssi session)), pb_string 8 (session_id_of env mac b),
                     pb_varint 9 (ucast (bs_last_seen_counter session))]),
                   pb_message 3 (write_schema session schema_hash)])]))"

end
