(* ===== verification/SerialBridge.thy ===== *)
theory SerialBridge
  imports BridgeSnapshots
begin

text \<open>
  The bridge component behind its serial transport: the calls \<open>eb_calls\<close> the transport makes, with the component of
  the other theories, and what the component tells the transport. The protocol's callbacks are the effects its model
  records; the component takes them in their order when the handler that recorded them is through.
\<close>

section \<open>What the transport calls\<close>

definition eb_resend :: "eb \<Rightarrow> eb \<times> chunk_request option" where
  "eb_resend b =
     (case eb_ota_resend_chunk_request b of
        (b, [OtaChunkRequest q]) \<Rightarrow> (b, Some q)
      | (b, _) \<Rightarrow> (b, None))"

definition eb_calls :: "request_env \<Rightarrow> eb bridge_calls" where
  "eb_calls env =
     \<lparr>bc_api_key = eb_api_key,
      bc_bridge_mac = (\<lambda>b. mac_display (Some (eb_sta_mac b))),
      bc_encode_auth_ok = (\<lambda>b request_id. eb_encode_auth_ok env request_id b),
      bc_encode_full_snapshot = (\<lambda>b request_id. eb_encode_full_snapshot env request_id b),
      bc_encode_heartbeat = (\<lambda>b. eb_encode_bridge_heartbeat env b),
      bc_handle_command = (\<lambda>b request_id r. eb_handle_command env request_id r b),
      bc_handle_config_command = (\<lambda>b request_id r. eb_handle_config_command env request_id r b),
      bc_handle_state_receipt = (\<lambda>b r. eb_handle_state_receipt (re_bp env) r b),
      bc_ota_start = (\<lambda>b r request_id. eb_ota_start (re_now env) r request_id b),
      bc_ota_has_active_job = eb_ota_has_active_job,
      bc_ota_active_job_id = eb_ota_active_job_id,
      bc_ota_resend_chunk_request = eb_resend,
      bc_ota_abort = (\<lambda>b job_id reason. eb_ota_abort (re_now env) job_id reason b),
      bc_ota_inject_chunk = (\<lambda>b sequence chunk. eb_ota_inject_chunk sequence chunk b),
      bc_set_ota_transport_callbacks = eb_set_callbacks,
      bc_clear_ota_transport_callbacks = eb_clear_callbacks\<rparr>"

definition serial_env_of :: "request_env \<Rightarrow> bytes \<Rightarrow> (bytes \<Rightarrow> bytes) \<Rightarrow> serial_env" where
  "serial_env_of env random double_text =
     \<lparr>se_millis = re_now env, se_random = random, se_hmac = re_hmac env, se_double_text = double_text\<rparr>"

section \<open>What the component tells the transport\<close>

definition sb_publish_state ::
  "request_env \<Rightarrow> bytes \<Rightarrow> BridgeEntitySchema \<Rightarrow> bytes \<Rightarrow> u8 \<Rightarrow> u32 \<Rightarrow> bytes \<Rightarrow> eb serial \<Rightarrow> eb serial" where
  "sb_publish_state env mac entity val type message_tx_base next_hop_mac s =
     (let s = s\<lparr>sa_bridge := eb_publish_state (re_bp env) (active_state_delivery_sinks (sa_has_authenticated_client s))
                 mac entity val type message_tx_base next_hop_mac (sa_bridge s)\<rparr>
      in sa_send_envelope (eb_encode_remote_state env mac entity val type message_tx_base (sa_bridge s)) s)"

definition sb_publish_availability :: "request_env \<Rightarrow> bytes \<Rightarrow> bool \<Rightarrow> bytes \<Rightarrow> eb serial \<Rightarrow> eb serial" where
  "sb_publish_availability env mac online reason s =
     (let session = bp_get_session mac (eb_protocol (sa_bridge s));
          rssi = (case session of None \<Rightarrow> - 127 | Some v \<Rightarrow> bs_last_rssi v);
          hop_count = (case session of None \<Rightarrow> 0 | Some v \<Rightarrow> bs_hops_to_bridge v)
      in sa_send_envelope (eb_encode_remote_availability env mac online reason rssi hop_count (sa_bridge s)) s)"

definition sb_schema_complete :: "request_env \<Rightarrow> bytes \<Rightarrow> eb serial \<Rightarrow> eb serial" where
  "sb_schema_complete env mac s =
     (case bp_get_session mac (eb_protocol (sa_bridge s)) of None \<Rightarrow> s
      | Some session \<Rightarrow>
          sa_send_envelope (eb_encode_remote_schema_changed env mac (runtime_schema_hash session) (sa_bridge s)) s)"

definition sb_effect :: "request_env \<Rightarrow> bp_effect \<Rightarrow> eb serial \<Rightarrow> eb serial" where
  "sb_effect env e s =
     (case e of
        PublishState mac entity val type text_value message_tx_base next_hop_mac \<Rightarrow>
          sb_publish_state env mac entity val type message_tx_base next_hop_mac s
      | PublishAvailability mac online reason \<Rightarrow> sb_publish_availability env mac online (ascii reason) s
      | PublishTopologyChanged mac reason \<Rightarrow> sa_send_envelope (eb_encode_topology_changed env mac (sa_bridge s)) s
      | SchemaComplete mac total_entities \<Rightarrow> sb_schema_complete env mac s
      | ConfigDone callback result \<Rightarrow> sa_send_cobs_frame (eb_config_done callback result (sa_bridge s)) s
      | FileAck mac ack trailing \<Rightarrow>
          s\<lparr>sa_bridge := (sa_bridge s)\<lparr>eb_ota_manager := (case eb_ota_manager (sa_bridge s) of None \<Rightarrow> None
              | Some m \<Rightarrow> Some (fst (bo_on_file_ack (re_now env) (Some mac) ack trailing m)))\<rparr>\<rparr>
      | _ \<Rightarrow> s)"

definition sb_take_effects :: "request_env \<Rightarrow> eb serial \<Rightarrow> eb serial" where
  "sb_take_effects env s =
     (let es = bp_effects (eb_protocol (sa_bridge s));
          s = s\<lparr>sa_bridge := (sa_bridge s)\<lparr>eb_protocol := (eb_protocol (sa_bridge s))\<lparr>bp_effects := []\<rparr>\<rparr>\<rparr>
      in fold (sb_effect env) es s)"

text \<open>
  One round of the component's loop after the received frames and the protocol's loop: their effects, the deliveries that have
  waited too long, the sender of firmware with its events, and the transport.
\<close>

definition sb_emit_ota_events :: "u32 \<Rightarrow> eb serial \<Rightarrow> eb serial" where
  "sb_emit_ota_events now s =
     (case eb_emit_ota_events now (sa_bridge s) of (b, calls) \<Rightarrow> fold sa_apply_callback calls (s\<lparr>sa_bridge := b\<rparr>))"

definition sb_loop :: "request_env \<Rightarrow> serial_env \<Rightarrow> bytes \<Rightarrow> eb serial \<Rightarrow> eb serial" where
  "sb_loop env senv available s =
     (let s = sb_take_effects env s;
          s = s\<lparr>sa_bridge := eb_expire_state_deliveries (re_now env) (sa_bridge s)\<rparr>;
          s = (case eb_ota_manager (sa_bridge s) of None \<Rightarrow> s
               | Some m \<Rightarrow> sb_emit_ota_events (re_now env)
                   (s\<lparr>sa_bridge := (sa_bridge s)\<lparr>eb_ota_manager := Some (bo_loop (re_now env) m)\<rparr>\<rparr>))
      in sa_loop senv (eb_calls env) available s)"

end
