(* ===== verification/SerialClaims.thy ===== *)
theory SerialClaims
  imports SerialApi RuntimePbProps
begin

text \<open>
  Properties of the serial transport: who gets past its authentication and what an unauthenticated line can reach, a
  response that is accepted twice, a receive buffer that stays full, and what is written to the line.
\<close>

section \<open>Comparing digests\<close>

lemma bytes_diff_iff: "length as = length bs \<Longrightarrow> bytes_diff as bs d = 0 \<longleftrightarrow> d = 0 \<and> as = bs"
proof (induction as bs arbitrary: d rule: list_induct2)
  case (Cons a as b bs)
  have "d OR (a XOR b) = 0 \<longleftrightarrow> d = 0 \<and> a = b" by (metis or_eq_0_iff xor_cancel xor.right_neutral xor_self_eq)
  with Cons show ?case by auto
qed simp

section \<open>What unauthenticated lines reach\<close>

lemma bridge_simps [simp]:
  "sa_bridge (sa_send_cobs_frame p s) = sa_bridge s"
  "sa_bridge (sa_send_error r c m s) = sa_bridge s"
  "sa_bridge (sa_send_auth_challenge env B s) = sa_bridge s"
  "sa_bridge (sa_send_auth_failed r c' m' s) = sa_bridge s"
  "sa_bridge (sa_send_auth_ok B r s) = sa_bridge s"
  "sa_bridge (sa_reset_auth B s) = bc_clear_ota_transport_callbacks B (sa_bridge s)"
  by (simp_all add: sa_send_cobs_frame_def sa_send_error_def sa_send_auth_challenge_def sa_send_auth_failed_def
        sa_send_auth_ok_def sa_reset_auth_def Let_def)

lemma state_simps [simp]:
  "sa_auth_state (sa_send_cobs_frame p s) = sa_auth_state s"
  "sa_auth_state (sa_send_error r c m s) = sa_auth_state s"
  "sa_auth_state (sa_send_auth_challenge env B s) = CHALLENGE_SENT"
  "sa_auth_state (sa_send_auth_failed r c' m' s) = sa_auth_state s"
  "sa_auth_state (sa_send_auth_ok B r s) = sa_auth_state s"
  "sa_auth_state (sa_reset_auth B s) = WAITING_HELLO"
  by (simp_all add: sa_send_cobs_frame_def sa_send_error_def sa_send_auth_challenge_def sa_send_auth_failed_def
        sa_send_auth_ok_def sa_reset_auth_def Let_def)

lemma nonce_simps [simp]:
  "sa_server_nonce (sa_send_cobs_frame p s) = sa_server_nonce s"
  "sa_server_nonce (sa_send_auth_failed r c' m' s) = sa_server_nonce s"
  "sa_server_nonce (sa_send_auth_ok B r s) = sa_server_nonce s"
  "sa_server_nonce (sa_reset_auth B s) = sa_server_nonce s"
  by (simp_all add: sa_send_cobs_frame_def sa_send_auth_failed_def sa_send_auth_ok_def sa_reset_auth_def)

text \<open>The message a frame of the line carries, if it carries one of the interface's version.\<close>

definition line_message :: "bytes \<Rightarrow> ParsedEnvelope option" where
  "line_message frame_data =
     (if frame_data = [] then None else
      case cobs_decode frame_data of
        (False, _) \<Rightarrow> None
      | (True, decoded) \<Rightarrow> if decoded = [] then None else
          (case parse_envelope decoded of None \<Rightarrow> None
           | Some e \<Rightarrow> if pe_api_version e = kRuntimeApiVersion then Some e else None))"

lemma frame_message: "line_message f = Some e \<Longrightarrow> sa_frame env B f s = sa_handle_envelope env B e s"
  by (auto simp: line_message_def sa_frame_def split: if_splits prod.splits bool.splits option.splits)

lemma frame_no_message:
  "line_message f = None \<Longrightarrow> sa_frame env B f s = s \<or> (\<exists>r c m. sa_frame env B f s = sa_send_error r c m s)"
  by (auto simp: line_message_def sa_frame_def split: if_splits prod.splits bool.splits option.splits)

text \<open>A response that proves the key for the nonce the transport holds.\<close>

definition proves_key :: "serial_env \<Rightarrow> bytes \<Rightarrow> bytes \<Rightarrow> ParsedEnvelope \<Rightarrow> bool" where
  "proves_key env key nonce e \<longleftrightarrow> pe_msg_field e = PB_AUTH_RESPONSE
     \<and> (\<exists>r. parse_auth_response (pe_msg_data e) = Some r
          \<and> ar_hmac_sha256 r = se_hmac env key (auth_input (ar_client_kind r) nonce (ar_client_nonce r)))"

lemma parse_auth_response_fields:
  "parse_auth_response d = Some r \<Longrightarrow> ar_client_kind r \<noteq> [] \<and> ar_client_nonce r \<noteq> [] \<and> length (ar_hmac_sha256 r) = 32"
  by (auto simp: parse_auth_response_def split: option.splits if_splits)

lemma verify_iff:
  assumes "\<And>k d. length (se_hmac env k d) = 32" and "parse_auth_response d = Some r"
  shows "sa_verify_auth_response env B s r \<longleftrightarrow>
    ar_hmac_sha256 r = se_hmac env (bc_api_key B (sa_bridge s)) (auth_input (ar_client_kind r) (sa_server_nonce s) (ar_client_nonce r))"
  using parse_auth_response_fields [OF assms(2)] assms(1)
  by (auto simp: sa_verify_auth_response_def bytes_diff_iff)

lemma authenticate_cases:
  assumes "\<And>k d. length (se_hmac env k d) = 32" and "pe_msg_field e = PB_AUTH_RESPONSE"
  shows "if proves_key env (bc_api_key B (sa_bridge s)) (sa_server_nonce s) e
    then sa_auth_state (sa_authenticate env B e s) = AUTHENTICATED
       \<and> sa_bridge (sa_authenticate env B e s) = bc_set_ota_transport_callbacks B (sa_bridge s)
       \<and> sa_server_nonce (sa_authenticate env B e s) = sa_server_nonce s
    else sa_auth_state (sa_authenticate env B e s) = WAITING_HELLO
       \<and> sa_bridge (sa_authenticate env B e s) = bc_clear_ota_transport_callbacks B (sa_bridge s)"
proof (cases "parse_auth_response (pe_msg_data e)")
  case None
  then show ?thesis by (simp add: proves_key_def sa_authenticate_def)
next
  case (Some r)
  show ?thesis
    using verify_iff [OF assms(1) Some, of B s] assms(2)
    by (simp add: proves_key_def Some sa_authenticate_def Let_def)
qed

lemma authenticate_data:
  "sa_auth_state (sa_authenticate env B e s) = AUTHENTICATED \<Longrightarrow> sa_auth_state s \<noteq> AUTHENTICATED
    \<Longrightarrow> sa_last_data_ms (sa_authenticate env B e s) = se_millis env"
  by (auto simp: sa_authenticate_def Let_def sa_send_auth_ok_def sa_send_cobs_frame_def split: option.splits if_splits)

lemma serial_gate_lemma:
  assumes "\<And>k d. length (se_hmac env k d) = 32"
    and "sa_auth_state s \<in> {WAITING_HELLO, CHALLENGE_SENT}"
  shows "(sa_auth_state (sa_frame env B f s) = AUTHENTICATED
      \<longleftrightarrow> (\<exists>e. line_message f = Some e \<and> proves_key env (bc_api_key B (sa_bridge s)) (sa_server_nonce s) e))
    \<and> sa_bridge (sa_frame env B f s) \<in> {sa_bridge s, bc_clear_ota_transport_callbacks B (sa_bridge s),
        bc_set_ota_transport_callbacks B (sa_bridge s)}"
proof (cases "line_message f")
  case None
  with assms(2) show ?thesis using frame_no_message [OF None, of env B s] by auto
next
  case (Some e)
  have fr: "sa_frame env B f s = sa_handle_envelope env B e s" by (rule frame_message [OF Some])
  consider "pe_msg_field e = PB_CLIENT_HELLO" | "pe_msg_field e = PB_AUTH_RESPONSE"
    | "pe_msg_field e \<noteq> PB_CLIENT_HELLO" "pe_msg_field e \<noteq> PB_AUTH_RESPONSE" by blast
  then show ?thesis
  proof cases
    case 1
    then show ?thesis by (simp add: Some fr sa_handle_envelope_def proves_key_def)
  next
    case 2
    then have "sa_handle_envelope env B e s = sa_authenticate env B e s"
      using assms(2) by (auto simp: sa_handle_envelope_def)
    then show ?thesis
      using authenticate_cases [OF assms(1) 2, of B s] by (simp add: Some fr split: if_splits)
  next
    case 3
    then have "sa_handle_envelope env B e s = sa_send_auth_challenge env B s"
      using assms(2) by (auto simp: sa_handle_envelope_def)
    then show ?thesis using 3 by (simp add: Some fr proves_key_def)
  qed
qed

text \<open>
  C13: The gate of the serial interface. While a line is not authenticated, a frame of it changes nothing of the bridge but
  the registration of the transport, and it authenticates the line if and only if it is a response whose digest is the keyed hash,
  under the bridge's key, of the client's kind and nonce and the nonce the transport holds.
\<close>

theorem serial_gate:
  assumes "\<And>k d. length (se_hmac env k d) = 32"
    and "sa_auth_state s \<in> {WAITING_HELLO, CHALLENGE_SENT}"
  shows "(sa_auth_state (sa_frame env B f s) = AUTHENTICATED
      \<longleftrightarrow> (\<exists>e. line_message f = Some e \<and> proves_key env (bc_api_key B (sa_bridge s)) (sa_server_nonce s) e))
    \<and> sa_bridge (sa_frame env B f s) \<in> {sa_bridge s, bc_clear_ota_transport_callbacks B (sa_bridge s),
        bc_set_ota_transport_callbacks B (sa_bridge s)}"
  using assms by (rule serial_gate_lemma)

section \<open>A response accepted twice\<close>

lemma timeout_resets:
  assumes "sa_auth_state s = AUTHENTICATED" and "sa_last_data_ms s \<noteq> 0"
    and "CONNECTION_TIMEOUT_MS \<le> se_millis env - sa_last_data_ms s"
  shows "sa_check_connection_timeout env B s = sa_reset_auth B s"
  using assms by (simp add: sa_check_connection_timeout_def)

text \<open>
  C39: An answer to a challenge is not spent. When a line that a response authenticated has been silent for a minute and
  the transport has dropped the session, the same frame, sent again by anyone who recorded it, authenticates the line anew,
  without a new challenge: the transport keeps its nonce and accepts a response while it waits for a hello.
\<close>

theorem auth_response_replays:
  assumes "\<And>k d. length (se_hmac env k d) = 32" and "se_hmac env' = se_hmac env"
    and "\<And>b. bc_api_key B (bc_set_ota_transport_callbacks B b) = bc_api_key B b"
    and "\<And>b. bc_api_key B (bc_clear_ota_transport_callbacks B b) = bc_api_key B b"
    and "sa_auth_state s \<in> {WAITING_HELLO, CHALLENGE_SENT}"
    and "sa_auth_state (sa_frame env B f s) = AUTHENTICATED"
    and "se_millis env \<noteq> 0" and "CONNECTION_TIMEOUT_MS \<le> se_millis env' - se_millis env"
  shows "sa_auth_state (sa_check_connection_timeout env' B (sa_frame env B f s)) = WAITING_HELLO
    \<and> sa_auth_state (sa_frame env' B f (sa_check_connection_timeout env' B (sa_frame env B f s))) = AUTHENTICATED"
proof -
  from serial_gate_lemma [of env s B f, OF assms(1,5)] assms(6)
  obtain e where e: "line_message f = Some e" and p: "proves_key env (bc_api_key B (sa_bridge s)) (sa_server_nonce s) e"
    by blast
  let ?s1 = "sa_frame env B f s"
  have h: "pe_msg_field e = PB_AUTH_RESPONSE" using p by (simp add: proves_key_def)
  have fr: "?s1 = sa_authenticate env B e s"
    using assms(5) h frame_message [OF e, of env B s] by (auto simp: sa_handle_envelope_def)
  have s1: "sa_auth_state ?s1 = AUTHENTICATED" "sa_last_data_ms ?s1 = se_millis env"
      "sa_server_nonce ?s1 = sa_server_nonce s"
      "bc_api_key B (sa_bridge ?s1) = bc_api_key B (sa_bridge s)"
    using authenticate_cases [OF assms(1) h, of B s] p assms(3) authenticate_data [of env B e s] assms(5)
    by (auto simp: fr)
  let ?s2 = "sa_check_connection_timeout env' B ?s1"
  have s2: "?s2 = sa_reset_auth B ?s1" using timeout_resets [of ?s1 env' B] s1(1,2) assms(7,8) by simp
  have "proves_key env' (bc_api_key B (sa_bridge ?s2)) (sa_server_nonce ?s2) e"
    using p s1 assms(2,4) by (simp add: s2 proves_key_def)
  moreover have "\<And>k d. length (se_hmac env' k d) = 32" and w: "sa_auth_state ?s2 \<in> {WAITING_HELLO, CHALLENGE_SENT}"
    using assms(1,2) by (simp_all add: s2)
  ultimately show ?thesis
    using serial_gate_lemma [of env' ?s2 B f] e by (simp add: s2)
qed

section \<open>A receive buffer that stays full\<close>

lemma receive_full:
  "MAX_RX_BUFFER \<le> length (sa_rx_buffer s) \<Longrightarrow>
    sa_receive bs s = s\<lparr>sa_rx_dropped := sa_rx_dropped s + of_nat (length bs)\<rparr>"
  by (induction bs arbitrary: s) (simp_all add: add.assoc)

lemma receive_fills:
  "length (sa_rx_buffer s) \<le> MAX_RX_BUFFER \<Longrightarrow>
    \<exists>d. sa_receive bs s = s\<lparr>sa_rx_buffer := sa_rx_buffer s @ take (MAX_RX_BUFFER - length (sa_rx_buffer s)) bs,
                            sa_rx_dropped := d\<rparr>"
proof (induction bs arbitrary: s)
  case Nil
  show ?case by (intro exI [of _ "sa_rx_dropped s"]) simp
next
  case (Cons b bs)
  show ?case
  proof (cases "length (sa_rx_buffer s) < MAX_RX_BUFFER")
    case True
    then obtain n where n: "MAX_RX_BUFFER - length (sa_rx_buffer s) = Suc n"
      by (metis Suc_diff_Suc)
    then have n': "MAX_RX_BUFFER - Suc (length (sa_rx_buffer s)) = n" by simp
    from Cons.IH [of "s\<lparr>sa_rx_buffer := sa_rx_buffer s @ [b]\<rparr>"] True show ?thesis
      by (simp add: n n')
  next
    case False
    then show ?thesis using Cons.prems receive_full [of s "b # bs"] by (intro exI) simp
  qed
qed

definition serial_run :: "'b bridge_calls \<Rightarrow> (serial_env \<times> bytes) list \<Rightarrow> 'b serial \<Rightarrow> 'b serial" where
  "serial_run B calls s = fold (\<lambda>(env, available). sa_loop env B available) calls s"

lemma loop_full:
  assumes "length (sa_rx_buffer s) = MAX_RX_BUFFER" and "0 \<notin> set (sa_rx_buffer s)" and "sa_auth_state s \<noteq> AUTHENTICATED"
  shows "sa_loop env B bs s = s\<lparr>sa_rx_dropped := sa_rx_dropped s + of_nat (length bs)\<rparr>"
  using assms
  by (simp add: sa_loop_def receive_full sa_process_rx_buffer.simps [of env B "s\<lparr>sa_rx_dropped := d\<rparr>" for d]
      sa_check_connection_timeout_def sa_emit_heartbeat_if_due_def sa_has_authenticated_client_def)

lemma run_full:
  assumes "length (sa_rx_buffer s) = MAX_RX_BUFFER" and "0 \<notin> set (sa_rx_buffer s)" and "sa_auth_state s \<noteq> AUTHENTICATED"
  shows "\<exists>d. serial_run B calls s = s\<lparr>sa_rx_dropped := d\<rparr>"
  using assms
proof (induction calls arbitrary: s)
  case Nil
  show ?case by (intro exI [of _ "sa_rx_dropped s"]) (simp add: serial_run_def)
next
  case (Cons c calls)
  obtain env bs where c: "c = (env, bs)" by (cases c)
  have "serial_run B (c # calls) s = serial_run B calls (s\<lparr>sa_rx_dropped := sa_rx_dropped s + of_nat (length bs)\<rparr>)"
    using loop_full [OF Cons.prems, of env B bs] by (simp add: serial_run_def c)
  then show ?case using Cons.IH [of "s\<lparr>sa_rx_dropped := sa_rx_dropped s + of_nat (length bs)\<rparr>"] Cons.prems by simp
qed

text \<open>
  C40: A line that is not authenticated and on which 131072 bytes without a zero have come in, as a line at the wrong speed has,
  is dead: whatever comes afterwards, hellos and delimiters included, nothing is answered and no client can authenticate,
  because a full buffer drops the delimiters too and only the end of a session clears it.
\<close>

theorem full_buffer_is_dead:
  assumes "sa_auth_state s \<noteq> AUTHENTICATED" and "length (sa_rx_buffer s) \<le> MAX_RX_BUFFER"
    and "0 \<notin> set (sa_rx_buffer s @ noise)" and "MAX_RX_BUFFER \<le> length (sa_rx_buffer s @ noise)"
  shows "sa_written (serial_run B calls (sa_loop env B noise s)) = sa_written s
    \<and> sa_auth_state (serial_run B calls (sa_loop env B noise s)) = sa_auth_state s"
proof -
  obtain d where r: "sa_receive noise s
      = s\<lparr>sa_rx_buffer := sa_rx_buffer s @ take (MAX_RX_BUFFER - length (sa_rx_buffer s)) noise, sa_rx_dropped := d\<rparr>"
    using receive_fills [OF assms(2), of noise] by blast
  let ?s = "s\<lparr>sa_rx_buffer := sa_rx_buffer s @ take (MAX_RX_BUFFER - length (sa_rx_buffer s)) noise, sa_rx_dropped := d\<rparr>"
  have z: "0 \<notin> set (sa_rx_buffer ?s)" using assms(3) by (auto dest: in_set_takeD)
  have l: "length (sa_rx_buffer ?s) = MAX_RX_BUFFER" using assms(2,4) by simp
  have "sa_loop env B noise s = ?s"
    using z assms(1)
    by (simp add: sa_loop_def r sa_process_rx_buffer.simps [of env B ?s] sa_check_connection_timeout_def
        sa_emit_heartbeat_if_due_def sa_has_authenticated_client_def)
  then show ?thesis using run_full [OF l z, of B calls] assms(1) by auto
qed

section \<open>What is written\<close>

text \<open>A line of the serial protocol: a payload in COBS and the delimiter.\<close>

definition line_ok :: "bytes \<Rightarrow> bool" where
  "line_ok w \<longleftrightarrow> (\<exists>p. p \<noteq> [] \<and> w = cobs_spec [] p @ [0])"

definition serial_ok :: "'b serial \<Rightarrow> bool" where
  "serial_ok s \<longleftrightarrow> list_all line_ok (sa_written s) \<and> length (sa_rx_buffer s) \<le> MAX_RX_BUFFER
     \<and> sa_auth_state s \<in> {WAITING_HELLO, CHALLENGE_SENT, AUTHENTICATED}"

lemma encoded_line: "cobs_encoded p (replicate (length p + length p div 254 + 3) 0) = cobs_spec [] p"
  by (rule cobs_encode_ok) (simp add: cobs_max_encoded_def)

lemma ok_update [simp]:
  "serial_ok (s\<lparr>sa_bridge := b\<rparr>) = serial_ok s"
  "serial_ok (s\<lparr>sa_server_nonce := n\<rparr>) = serial_ok s"
  "serial_ok (s\<lparr>sa_last_data_ms := t\<rparr>) = serial_ok s"
  "serial_ok (s\<lparr>sa_last_heartbeat_ms := t\<rparr>) = serial_ok s"
  "serial_ok (s\<lparr>sa_rx_dropped := t\<rparr>) = serial_ok s"
  "serial_ok (s\<lparr>sa_ota_chunk_request_id := n\<rparr>) = serial_ok s"
  "serial_ok (s\<lparr>sa_ota_job_id := n\<rparr>) = serial_ok s"
  "serial_ok (s\<lparr>sa_ota_pending_sequences := q\<rparr>) = serial_ok s"
  "serial_ok (s\<lparr>sa_ota_max_chunk_size := t\<rparr>) = serial_ok s"
  "serial_ok (s\<lparr>sa_ota_max_chunks_per_batch := t\<rparr>) = serial_ok s"
  by (simp_all add: serial_ok_def)

lemma ok_state: "serial_ok s \<Longrightarrow> a \<in> {WAITING_HELLO, CHALLENGE_SENT, AUTHENTICATED} \<Longrightarrow> serial_ok (s\<lparr>sa_auth_state := a\<rparr>)"
  by (simp add: serial_ok_def)

lemma ok_rx: "serial_ok s \<Longrightarrow> length r \<le> length (sa_rx_buffer s) \<Longrightarrow> serial_ok (s\<lparr>sa_rx_buffer := r\<rparr>)"
  by (simp add: serial_ok_def)

lemma ok_send [simp]: "serial_ok s \<Longrightarrow> serial_ok (sa_send_cobs_frame p s)"
  by (auto simp: serial_ok_def sa_send_cobs_frame_def encoded_line line_ok_def)

lemma ok_error [simp]: "serial_ok s \<Longrightarrow> serial_ok (sa_send_error r c m s)"
  by (simp add: sa_send_error_def)

lemma ok_challenge [simp]: "serial_ok s \<Longrightarrow> serial_ok (sa_send_auth_challenge env B s)"
  by (simp add: sa_send_auth_challenge_def Let_def ok_state)

lemma ok_reset [simp]: "serial_ok s \<Longrightarrow> serial_ok (sa_reset_auth B s)"
  unfolding sa_reset_auth_def by (simp add: ok_state ok_rx)

lemma ok_callbacks [simp]:
  "serial_ok s \<Longrightarrow> serial_ok (sa_on_ota_accepted r j t m c n s)"
  "serial_ok s \<Longrightarrow> serial_ok (sa_on_ota_chunk_request q s)"
  "serial_ok s \<Longrightarrow> serial_ok (sa_on_ota_status j st p br fs e s)"
  "serial_ok s \<Longrightarrow> serial_ok (sa_on_ota_aborted r j reason s)"
  by (simp_all add: sa_on_ota_accepted_def sa_on_ota_chunk_request_def sa_on_ota_status_def sa_on_ota_aborted_def)

lemma ok_take_chunk: "serial_ok s \<Longrightarrow> sa_take_chunk B c s = (s', ok) \<Longrightarrow> serial_ok s'"
  by (auto simp: sa_take_chunk_def Let_def split: if_splits prod.splits)

lemma ok_take_chunks [simp]: "serial_ok s \<Longrightarrow> serial_ok (sa_take_chunks B r j cs s)"
  by (induction B r j cs s rule: sa_take_chunks.induct)
     (auto simp: Let_def dest: ok_take_chunk split: prod.splits bool.splits)

lemma ok_handlers [simp]:
  "serial_ok s \<Longrightarrow> serial_ok (sa_handle_command env B e s)"
  "serial_ok s \<Longrightarrow> serial_ok (sa_handle_config_command B e s)"
  "serial_ok s \<Longrightarrow> serial_ok (sa_handle_state_receipt B e s)"
  "serial_ok s \<Longrightarrow> serial_ok (sa_handle_ota_start B e s)"
  "serial_ok s \<Longrightarrow> serial_ok (sa_handle_ota_abort B e s)"
  by (simp_all add: sa_handle_command_def sa_handle_config_command_def
        sa_handle_state_receipt_def sa_handle_ota_start_def sa_handle_ota_abort_def
        split: option.split prod.split sum.split)

lemma ok_batch [simp]: "serial_ok s \<Longrightarrow> serial_ok (sa_handle_ota_chunk_batch B e s)"
  by (simp add: sa_handle_ota_chunk_batch_def Let_def split: option.split prod.split)

lemma ok_authenticate [simp]: "serial_ok s \<Longrightarrow> serial_ok (sa_authenticate env B e s)"
  by (simp add: sa_authenticate_def sa_send_auth_ok_def sa_send_auth_failed_def Let_def ok_state split: option.split)

lemma ok_envelope [simp]: "serial_ok s \<Longrightarrow> serial_ok (sa_handle_envelope env B e s)"
  by (simp add: sa_handle_envelope_def sa_dispatch_def)

lemma ok_frame [simp]: "serial_ok s \<Longrightarrow> serial_ok (sa_frame env B f s)"
  by (simp add: sa_frame_def split: prod.split bool.split option.split)

lemma ok_process: "serial_ok s \<Longrightarrow> serial_ok (sa_process_rx_buffer env B s)"
proof (induction env B s rule: sa_process_rx_buffer.induct)
  case (1 env B s)
  show ?case
  proof (cases "0 \<in> set (sa_rx_buffer s)")
    case True
    then show ?thesis using 1(1) [OF True refl refl] 1(2)
      by (subst sa_process_rx_buffer.simps) (simp add: Let_def ok_rx)
  next
    case False
    then show ?thesis using 1(2) by (subst sa_process_rx_buffer.simps) simp
  qed
qed

lemma ok_receive: "serial_ok s \<Longrightarrow> serial_ok (sa_receive bs s)"
  by (induction bs arbitrary: s) (auto simp: serial_ok_def)

lemma ok_loop: "serial_ok s \<Longrightarrow> serial_ok (sa_loop env B bs s)"
  by (simp add: sa_loop_def sa_check_connection_timeout_def sa_emit_heartbeat_if_due_def ok_process ok_receive)

text \<open>The calls of a transport: its loop, the bridge's calls back, its events, late results, the end of a session.\<close>

inductive serial_reachable :: "'b bridge_calls \<Rightarrow> 'b serial \<Rightarrow> bool" for B where
  sr_init: "serial_reachable B (serial_init b)"
| sr_loop: "serial_reachable B s \<Longrightarrow> serial_reachable B (sa_loop env B available s)"
| sr_accepted: "serial_reachable B s \<Longrightarrow> serial_reachable B (sa_on_ota_accepted r j t m c n s)"
| sr_chunk_request: "serial_reachable B s \<Longrightarrow> serial_reachable B (sa_on_ota_chunk_request q s)"
| sr_status: "serial_reachable B s \<Longrightarrow> serial_reachable B (sa_on_ota_status j st p br fs e s)"
| sr_aborted: "serial_reachable B s \<Longrightarrow> serial_reachable B (sa_on_ota_aborted r j reason s)"
| sr_event: "serial_reachable B s \<Longrightarrow> serial_reachable B (sa_send_envelope frame s)"
| sr_config_result: "serial_reachable B s \<Longrightarrow> serial_reachable B (sa_send_cobs_frame frame s)"
| sr_close: "serial_reachable B s \<Longrightarrow> serial_reachable B (sa_reset_auth B s)"
| sr_bridge: "serial_reachable B s \<Longrightarrow> serial_reachable B (s\<lparr>sa_bridge := b\<rparr>)"

lemma reachable_ok: "serial_reachable B s \<Longrightarrow> serial_ok s"
  by (induction rule: serial_reachable.induct)
     (simp_all add: ok_loop sa_send_envelope_def, simp add: serial_init_def serial_ok_def)

lemma line_decodes: "line_ok w \<Longrightarrow> \<exists>p. p \<noteq> [] \<and> w = butlast w @ [0] \<and> 0 \<notin> set (butlast w) \<and> cobs_decode (butlast w) = (True, p)"
proof -
  assume "line_ok w"
  then obtain p where p: "p \<noteq> []" "w = cobs_spec [] p @ [0]" by (auto simp: line_ok_def)
  moreover have "0 \<notin> set (cobs_spec [] p)" using cobs_spec_no_zero [of "[]" p] by simp
  moreover have "cobs_decode (cobs_spec [] p) = (True, p)"
    using cobs_decode_loop_spec [of "[]" "[]" p "[]"] by (simp add: cobs_decode_def)
  ultimately show ?thesis by auto
qed

text \<open>
  C31: Everything the transport ever writes is a sequence of lines: each ends in its only zero byte, and what is before it
  decodes to a message; the receive buffer keeps its bound, and the states in which the transport would answer nothing are
  never entered.
\<close>

theorem serial_lines:
  assumes "serial_reachable B s"
  shows "list_all (\<lambda>w. \<exists>p. p \<noteq> [] \<and> w = butlast w @ [0] \<and> 0 \<notin> set (butlast w) \<and> cobs_decode (butlast w) = (True, p)) (sa_written s)
    \<and> length (sa_rx_buffer s) \<le> MAX_RX_BUFFER \<and> sa_auth_state s \<notin> {WAITING_AUTH_RESPONSE, AUTH_FAILED}"
  using reachable_ok [OF assms] by (auto simp: serial_ok_def list_all_iff dest: line_decodes)

section \<open>A client of the line\<close>

lemma line_message_written:
  assumes "length rid < 2 ^ 64" and "length (builder []) < 2 ^ 64" and "10 \<le> f"
  shows "line_message (cobs_spec [] (pb_envelope rid f builder))
    = Some \<lparr>pe_request_id = rid, pe_api_version = kRuntimeApiVersion, pe_msg_field = f, pe_msg_data = builder []\<rparr>"
proof -
  let ?p = "pb_envelope rid f builder"
  have p: "?p \<noteq> []"
    using parse_written_envelope [of rid builder f] assms by (auto simp: parse_envelope_def parse_fields.simps)
  have d: "cobs_decode (cobs_spec [] ?p) = (True, ?p)"
    using cobs_decode_loop_spec [of "[]" "[]" ?p "[]"] by (simp add: cobs_decode_def)
  have "cobs_spec [] ?p \<noteq> []"
    using d p by (auto simp: cobs_decode_def cobs_decode_loop.simps)
  then show ?thesis by (simp add: line_message_def d p parse_written_envelope [of rid builder f, OF assms])
qed

text \<open>A client of the line: what it reads of a challenge, and its answer.\<close>

definition client_reads_challenge :: "bytes \<Rightarrow> bytes option" where
  "client_reads_challenge w =
     (case line_message (butlast w) of None \<Rightarrow> None
      | Some e \<Rightarrow> if pe_msg_field e \<noteq> PB_AUTH_CHALLENGE then None
          else parse_fields (\<lambda>f out. Some (if pf_field f = 1 \<and> pf_wire f = 2 then pf_bytes f else out)) (pe_msg_data e) 0 [])"

definition client_line :: "bytes \<Rightarrow> u32 \<Rightarrow> bytes \<Rightarrow> bytes" where
  "client_line request_id fld message = cobs_spec [] (pb_envelope request_id fld (\<lambda>w. w @ message))"

definition client_answer :: "(bytes \<Rightarrow> bytes \<Rightarrow> bytes) \<Rightarrow> bytes \<Rightarrow> bytes \<Rightarrow> bytes \<Rightarrow> bytes \<Rightarrow> bytes" where
  "client_answer hmac key kind nonce challenge =
     client_line [] PB_AUTH_RESPONSE
       (client_auth_response kind [] nonce (hmac key (auth_input kind challenge nonce)))"

lemma client_line_message:
  assumes "length rid < 2 ^ 64" and "length m < 2 ^ 64" and "10 \<le> f"
  shows "line_message (client_line rid f m)
    = Some \<lparr>pe_request_id = rid, pe_api_version = kRuntimeApiVersion, pe_msg_field = f, pe_msg_data = m\<rparr>"
  using line_message_written [of rid "\<lambda>w. w @ m" f] assms by (simp add: client_line_def)

lemma challenge_written:
  "sa_send_auth_challenge env B s =
     (let nonce = take 16 (se_random env) in
      sa_send_cobs_frame (pb_envelope [] PB_AUTH_CHALLENGE
        (\<lambda>w. pb_string 5 (bc_bridge_mac B (sa_bridge s)) (pb_string 4 kRuntimeProtocol
                (pb_varint 3 (ucast kRuntimeApiVersion) (pb_varint 2 (ucast kRuntimeApiVersion) (pb_bytes 1 nonce w))))))
        (s\<lparr>sa_server_nonce := nonce, sa_auth_state := CHALLENGE_SENT\<rparr>))"
  by (simp add: sa_send_auth_challenge_def Let_def)

lemma challenge_read:
  assumes "length mac < 2 ^ 32" and "length nonce < 2 ^ 32"
  shows "client_reads_challenge (cobs_spec [] (pb_envelope [] PB_AUTH_CHALLENGE
        (\<lambda>w. pb_string 5 mac (pb_string 4 kRuntimeProtocol (pb_varint 3 (ucast kRuntimeApiVersion)
           (pb_varint 2 (ucast kRuntimeApiVersion) (pb_bytes 1 nonce w)))))) @ [0]) = Some nonce"
proof -
  let ?m = "\<lambda>w. pb_string 5 mac (pb_string 4 kRuntimeProtocol (pb_varint 3 2 (pb_varint 2 2 (pb_bytes 1 nonce w))))"
  let ?is = "[PbBytes 1 nonce, PbVarint 2 2, PbVarint 3 2, PbBytes 4 kRuntimeProtocol]
      @ (if mac = [] then [] else [PbBytes 5 mac])"
  have m: "?m [] = pb_written ?is" by (simp only: pb_writes) (simp add: ascii_def)
  have "length (pb_written ?is) \<le> 200 + length mac + length nonce"
    using pb_written_length [of ?is] by (auto simp: ascii_def split: if_splits)
  then have l: "length (?m []) < 2 ^ 64" using assms unfolding m by simp
  have "length mac < 2 ^ 64" "length nonce < 2 ^ 64" "length (kRuntimeProtocol) < 2 ^ 64" using assms by (simp_all add: ascii_def)
  then show ?thesis
    using line_message_written [of "[]" ?m PB_AUTH_CHALLENGE] l
    by (simp add: client_reads_challenge_def) (simp add: m parse_written pf_bytes_def del: pb_written_simps)
qed

text \<open>A frame of the line as the transport receives it, with its delimiter.\<close>

definition client_sends :: "bytes \<Rightarrow> bytes" where
  "client_sends frame = frame @ [0]"

lemma client_line_safe:
  assumes "length rid < 2 ^ 64" and "length m < 2 ^ 64" and "10 \<le> f"
  shows "0 \<notin> set (client_line rid f m)" and "client_line rid f m \<noteq> []"
  using client_line_message [OF assms] cobs_spec_no_zero [of "[]" "pb_envelope rid f (\<lambda>w. w @ m)"]
  by (auto simp: client_line_def line_message_def)

lemma client_answer_proves:
  assumes "\<And>k d. length (se_hmac env k d) = 32" and "kind \<noteq> []" and "nonce \<noteq> []"
    and "length kind < 2 ^ 32" and "length nonce < 2 ^ 32"
  shows "\<exists>e. line_message (client_answer (se_hmac env) key kind nonce challenge) = Some e
    \<and> proves_key env key challenge e"
proof -
  let ?mac = "se_hmac env key (auth_input kind challenge nonce)"
  let ?m = "client_auth_response kind [] nonce ?mac"
  have "length ?m \<le> 80 + length kind + length nonce + 32"
    using pb_written_length [of "[PbBytes 1 kind, PbBytes 2 [], PbBytes 3 nonce, PbBytes 4 ?mac]"] assms(1)
    by (simp add: client_auth_response_def)
  then have l: "length ?m < 2 ^ 64" using assms(4,5) by simp
  have "parse_auth_response ?m
      = Some \<lparr>ar_client_kind = kind, ar_client_name = [], ar_client_nonce = nonce, ar_hmac_sha256 = ?mac\<rparr>"
    using assms by (intro parse_client_auth_response) simp_all
  then show ?thesis
    using client_line_message [of "[]" ?m PB_AUTH_RESPONSE] l by (simp add: client_answer_def proves_key_def)
qed

text \<open>What comes in while there is room is appended, and a whole frame is taken at once.\<close>

lemma receive_room:
  "length (sa_rx_buffer s) + length bs \<le> MAX_RX_BUFFER \<Longrightarrow> sa_receive bs s = s\<lparr>sa_rx_buffer := sa_rx_buffer s @ bs\<rparr>"
  by (induction bs arbitrary: s) simp_all

lemma loop_one_frame:
  assumes "sa_rx_buffer s = []" and "0 \<notin> set f" and "length f < MAX_RX_BUFFER"
  shows "sa_loop env B (client_sends f) s
    = sa_emit_heartbeat_if_due env B (sa_check_connection_timeout env B (sa_frame env B f s))"
proof -
  let ?s = "s\<lparr>sa_rx_buffer := f @ [0]\<rparr>"
  have r: "sa_receive (client_sends f) s = ?s"
    using receive_room [of s "f @ [0]"] assms(1,3) by (simp add: client_sends_def)
  have s: "s\<lparr>sa_rx_buffer := []\<rparr> = s" using assms(1) by simp
  have t: "takeWhile (\<lambda>b. b \<noteq> 0) (f @ [0]) = f" using assms(2) by (induction f) auto
  have e: "sa_rx_buffer (sa_frame env B f s) = []" using rx_frame [of env B f s] assms(1) by simp
  have "sa_process_rx_buffer env B ?s = sa_process_rx_buffer env B (sa_frame env B f s)"
    using s by (subst sa_process_rx_buffer.simps) (simp add: t Let_def)
  also have "\<dots> = sa_frame env B f s" using e by (subst sa_process_rx_buffer.simps) simp
  finally show ?thesis by (simp add: sa_loop_def r)
qed

lemma loop_one_frame_unauthenticated:
  assumes "sa_rx_buffer s = []" and "0 \<notin> set f" and "length f < MAX_RX_BUFFER"
    and "sa_auth_state (sa_frame env B f s) \<noteq> AUTHENTICATED"
  shows "sa_loop env B (client_sends f) s = sa_frame env B f s"
  using loop_one_frame [OF assms(1-3), of env B] assms(4)
  by (simp add: sa_check_connection_timeout_def sa_emit_heartbeat_if_due_def sa_has_authenticated_client_def)

lemma client_line_length: "length (client_line [] f m) \<le> 2 * length m + 120"
proof -
  have "length (pb_envelope [] f (\<lambda>w. w @ m)) \<le> length m + 50"
    using pb_written_length [of "[PbVarint 2 (ucast kRuntimeApiVersion), PbBytes f m]"]
    by (simp add: pb_envelope_written)
  then show ?thesis
    using cobs_spec_length_le [of "[]" "pb_envelope [] f (\<lambda>w. w @ m)"] by (simp add: client_line_def)
qed

lemma client_answer_length:
  assumes "\<And>k d. length (hmac k d) = 32"
  shows "length (client_answer hmac key kind nonce challenge) \<le> 2 * (length kind + length nonce) + 350"
proof -
  let ?mac = "hmac key (auth_input kind challenge nonce)"
  have "length (client_auth_response kind [] nonce ?mac) \<le> 80 + length kind + length nonce + 32"
    using pb_written_length [of "[PbBytes 1 kind, PbBytes 2 [], PbBytes 3 nonce, PbBytes 4 ?mac]"] assms
    by (simp add: client_auth_response_def)
  then show ?thesis
    using client_line_length [of PB_AUTH_RESPONSE "client_auth_response kind [] nonce ?mac"] by (simp add: client_answer_def)
qed

text \<open>
  C17: A client that has the key gets in. On a line whose receive buffer is empty, in whatever state it is otherwise, the
  bytes of a hello and its delimiter make the transport's last line a challenge that such a client reads, and the bytes of its
  answer and the delimiter authenticate the line. The hello's message is at most 65000 bytes, and so are the client's kind and
  nonce together; a longer line would not fit the receive buffer.
\<close>

theorem honest_client_authenticates:
  assumes "\<And>k d. length (se_hmac env k d) = 32" and "se_hmac env' = se_hmac env"
    and "length (bc_bridge_mac B (bc_clear_ota_transport_callbacks B (sa_bridge s))) < 2 ^ 32"
    and "kind \<noteq> []" and "nonce \<noteq> []" and "length kind + length nonce \<le> 65000" and "length hello \<le> 65000"
    and "sa_rx_buffer s = []"
    and "sa_loop env B (client_sends (client_line [] PB_CLIENT_HELLO hello)) s = s1"
    and "bc_api_key B (sa_bridge s1) = key"
  shows "\<exists>challenge. client_reads_challenge (last (sa_written s1)) = Some challenge
    \<and> sa_auth_state (sa_loop env' B (client_sends (client_answer (se_hmac env) key kind nonce challenge)) s1) = AUTHENTICATED"
proof -
  let ?s = "sa_reset_auth B s" and ?n = "take 16 (se_random env)"
  have hl: "length hello < 2 ^ 64" using assms(7) by simp
  have fr: "sa_frame env B (client_line [] PB_CLIENT_HELLO hello) s = sa_send_auth_challenge env B ?s"
    using frame_message [OF client_line_message [of "[]" hello PB_CLIENT_HELLO], of env B s] hl
    by (simp add: sa_handle_envelope_def)
  have "sa_auth_state (sa_send_auth_challenge env B ?s) = CHALLENGE_SENT" by (simp add: challenge_written Let_def)
  then have s1: "s1 = sa_send_auth_challenge env B ?s"
    using loop_one_frame_unauthenticated [OF assms(8), of "client_line [] PB_CLIENT_HELLO hello" env B]
      client_line_safe(1) [of "[]" hello PB_CLIENT_HELLO] client_line_length [of PB_CLIENT_HELLO hello] assms(7,9) hl fr
    by (simp add: MAX_RX_BUFFER_def)
  have c: "sa_auth_state s1 = CHALLENGE_SENT" "sa_server_nonce s1 = ?n" "sa_rx_buffer s1 = []"
    by (simp_all add: s1) (simp_all add: challenge_written Let_def)
  let ?p = "pb_envelope [] PB_AUTH_CHALLENGE (\<lambda>w. pb_string 5 (bc_bridge_mac B (sa_bridge ?s)) (pb_string 4 kRuntimeProtocol
                (pb_varint 3 (ucast kRuntimeApiVersion) (pb_varint 2 (ucast kRuntimeApiVersion) (pb_bytes 1 ?n w)))))"
  have r: "client_reads_challenge (cobs_spec [] ?p @ [0]) = Some ?n"
    using assms(3) by (intro challenge_read) simp_all
  then have "?p \<noteq> []" by (auto simp: client_reads_challenge_def line_message_def cobs_decode_def cobs_decode_loop.simps)
  then have "last (sa_written s1) = cobs_spec [] ?p @ [0]"
    by (simp add: s1 challenge_written Let_def sa_send_cobs_frame_def encoded_line)
  moreover
  let ?a = "client_answer (se_hmac env') key kind nonce ?n"
  have kn: "length kind < 2 ^ 32" "length nonce < 2 ^ 32" using assms(6) by simp_all
  have hmac: "length (se_hmac env' k d) = 32" for k d using assms(1,2) by simp
  obtain e where e: "line_message ?a = Some e" "proves_key env' key ?n e"
    using client_answer_proves [of env' kind nonce key ?n] hmac assms(4,5) kn by auto
  then have "sa_auth_state (sa_frame env' B ?a s1) = AUTHENTICATED"
    using serial_gate_lemma [of env' s1 B ?a] hmac assms(10) c by auto
  moreover have "sa_last_data_ms (sa_frame env' B ?a s1) = se_millis env'"
  proof -
    have "sa_frame env' B ?a s1 = sa_authenticate env' B e s1"
      using frame_message [OF e(1), of env' B s1] e(2) c by (simp add: sa_handle_envelope_def proves_key_def)
    then show ?thesis using authenticate_data [of env' B e s1] calculation(2) c by simp
  qed
  moreover have "0 \<notin> set ?a"
    by (simp add: client_answer_def client_line_def cobs_spec_no_zero)
  moreover have "length ?a < MAX_RX_BUFFER"
    using client_answer_length [of "se_hmac env'" key kind nonce ?n] hmac assms(6) by (simp add: MAX_RX_BUFFER_def)
  ultimately have "sa_auth_state (sa_loop env' B (client_sends ?a) s1) = AUTHENTICATED"
    using loop_one_frame [OF c(3), of ?a env' B]
    by (simp add: sa_check_connection_timeout_def sa_emit_heartbeat_if_due_def)
  then show ?thesis using r assms(2) \<open>last (sa_written s1) = _\<close> by auto
qed

section \<open>Runs\<close>

text \<open>
  Concrete runs: a bridge that only notes whether the transport is registered, and a keyed function of the right length.
\<close>

definition demo_calls :: "bool bridge_calls" where
  "demo_calls =
     \<lparr>bc_api_key = (\<lambda>_. [7, 7]), bc_bridge_mac = (\<lambda>_. [65]), bc_encode_auth_ok = (\<lambda>_ _. [1]),
      bc_encode_full_snapshot = (\<lambda>_ _. [2]), bc_encode_heartbeat = (\<lambda>_. [3]), bc_handle_command = (\<lambda>b _ _. (b, [4])),
      bc_handle_config_command = (\<lambda>b _ _. (b, None)), bc_handle_state_receipt = (\<lambda>b _. b),
      bc_ota_start = (\<lambda>b _ _. (b, Inl [])), bc_ota_has_active_job = (\<lambda>_. False), bc_ota_active_job_id = (\<lambda>_. []),
      bc_ota_resend_chunk_request = (\<lambda>b. (b, None)), bc_ota_abort = (\<lambda>b _ _. b), bc_ota_inject_chunk = (\<lambda>b _ _. (b, False)),
      bc_set_ota_transport_callbacks = (\<lambda>_. True), bc_clear_ota_transport_callbacks = (\<lambda>_. False)\<rparr>"

definition demo_hmac :: "bytes \<Rightarrow> bytes \<Rightarrow> bytes" where
  "demo_hmac k d = take 32 (k @ rev d @ replicate 32 0)"

definition demo_senv :: "u32 \<Rightarrow> serial_env" where
  "demo_senv now = \<lparr>se_millis = now, se_random = [1, 2, 3, 4, 5, 6, 7, 8, 9, 10, 11, 12, 13, 14, 15, 16], se_hmac = demo_hmac,
     se_double_text = (\<lambda>d. d)\<rparr>"

lemma demo_simps [simp]:
  "length (demo_hmac k d) = 32"
  "se_hmac (demo_senv now) = demo_hmac" "se_millis (demo_senv now) = now"
  "bc_api_key demo_calls b = [7, 7]" "bc_bridge_mac demo_calls b = [65]"
  by (simp_all add: demo_hmac_def demo_senv_def demo_calls_def)

text \<open>The answer to the nonce a transport starts with, without any challenge.\<close>

definition demo_answer :: bytes where
  "demo_answer = client_answer demo_hmac [7, 7] [97] [98] (replicate 16 0)"

lemma demo_answer_proves:
  "\<exists>e. line_message demo_answer = Some e \<and> proves_key (demo_senv now) [7, 7] (replicate 16 0) e"
  using client_answer_proves [of "demo_senv now" "[97]" "[98]" "[7, 7]" "replicate 16 0"] by (simp add: demo_answer_def)

lemma demo_init [simp]:
  "sa_auth_state (serial_init b) = WAITING_HELLO" "sa_server_nonce (serial_init b) = replicate 16 0"
  "sa_bridge (serial_init b) = b" "sa_rx_buffer (serial_init b) = []" "sa_written (serial_init b) = []"
  by (simp_all add: serial_init_def)

theorem serial_gate_witness:
  "sa_auth_state (sa_frame (demo_senv 5) demo_calls demo_answer (serial_init False)) = AUTHENTICATED
    \<and> sa_auth_state (sa_frame (demo_senv 5) demo_calls [] (serial_init False)) \<noteq> AUTHENTICATED"
  using serial_gate [of "demo_senv 5" "serial_init False" demo_calls demo_answer]
    serial_gate [of "demo_senv 5" "serial_init False" demo_calls "[]"] demo_answer_proves [of 5]
  by (simp add: line_message_def)

lemma demo_accepted: "sa_auth_state (sa_frame (demo_senv now) demo_calls demo_answer (serial_init False)) = AUTHENTICATED"
  using serial_gate_lemma [of "demo_senv now" "serial_init False" demo_calls demo_answer] demo_answer_proves [of now] by simp

theorem auth_response_replays_witness:
  "sa_auth_state (sa_frame (demo_senv 60005) demo_calls demo_answer
     (sa_check_connection_timeout (demo_senv 60005) demo_calls
       (sa_frame (demo_senv 5) demo_calls demo_answer (serial_init False)))) = AUTHENTICATED"
  using auth_response_replays [of "demo_senv 5" "demo_senv 60005" demo_calls "serial_init False" demo_answer]
    demo_accepted [of 5] by simp

definition demo_noise :: bytes where
  "demo_noise = replicate MAX_RX_BUFFER 85"

theorem full_buffer_is_dead_witness:
  "sa_written (serial_run demo_calls [(demo_senv 9, client_sends (client_line [] PB_CLIENT_HELLO []))]
     (sa_loop (demo_senv 5) demo_calls demo_noise (serial_init False))) = []"
  using full_buffer_is_dead [of "serial_init False" demo_noise demo_calls
      "[(demo_senv 9, client_sends (client_line [] PB_CLIENT_HELLO []))]" "demo_senv 5"]
  by (simp add: demo_noise_def)

theorem serial_lines_witness:
  "length (sa_rx_buffer (sa_loop (demo_senv 5) demo_calls (client_sends demo_answer) (serial_init False))) \<le> MAX_RX_BUFFER"
  using serial_lines [OF sr_loop [OF sr_init, of demo_calls "demo_senv 5" "client_sends demo_answer" False]] by simp

theorem honest_client_authenticates_witness:
  "\<exists>challenge. client_reads_challenge (last (sa_written
        (sa_loop (demo_senv 5) demo_calls (client_sends (client_line [] PB_CLIENT_HELLO [])) (serial_init True)))) = Some challenge
    \<and> sa_auth_state (sa_loop (demo_senv 6) demo_calls (client_sends (client_answer demo_hmac [7, 7] [97] [98] challenge))
        (sa_loop (demo_senv 5) demo_calls (client_sends (client_line [] PB_CLIENT_HELLO [])) (serial_init True))) = AUTHENTICATED"
  using honest_client_authenticates [of "demo_senv 5" "demo_senv 6" demo_calls "serial_init True" "[97]" "[98]" "[]"
      "sa_loop (demo_senv 5) demo_calls (client_sends (client_line [] PB_CLIENT_HELLO [])) (serial_init True)" "[7, 7]"] by simp

end
