(* ===== verification/BridgeDemo.thy ===== *)
theory BridgeDemo
  imports SerialBridge SerialClaims
begin

text \<open>A bridge with one remote, at which the properties of the component are shown to apply.\<close>

definition demo_hop :: bytes where
  "demo_hop = [2, 0, 0, 0, 0, 1]"

definition demo_benv :: bp_env where
  "demo_benv =
     \<lparr>bpe_now = 5000, bpe_random = (\<lambda>_. 0), bpe_nonce = replicate 16 9, bpe_hmac = demo_hmac,
      bpe_crypto = crypto_initial, bpe_send = Some (\<lambda>_ _ _. True), bpe_send_err = None,
      bpe_free_heap = (\<lambda>_. 100000), bpe_total_heap = 300000, bpe_ram_low = (\<lambda>_ _ _. False),
      bpe_ram_critical = (\<lambda>_ _. False), bpe_chip_model = 0, bpe_file_ack_fn = True\<rparr>"

text \<open>A parser that takes any text for an object that asks for the effect Snow.\<close>

definition demo_json :: "bytes \<Rightarrow> JsonVariant" where
  "demo_json key =
     \<lparr>jm_string = (if key = ascii ''effect'' then Some (ascii ''Snow'') else None), jm_int = None, jm_bool = None,
      jm_float = None, jm_object = None\<rparr>"

definition demo_renv :: request_env where
  "demo_renv =
     \<lparr>re_bp = demo_benv, re_parse_json = (\<lambda>_. Some demo_json), re_strtof = (\<lambda>_. Some [0, 0, 0, 0]),
      re_color_bytes = (\<lambda>_ _ _. (0, 0, 0)), re_clamped_u16 = (\<lambda>_. 0), re_double_bits = (\<lambda>_. 0),
      re_float_text = (\<lambda>_. [48]), re_hsv_to_rgb = (\<lambda>_ _ _. (0, 0, 0)), re_unix_ms = 0, re_app_name = ascii ''Bridge'',
      re_friendly_name = ascii ''My bridge''\<rparr>"

definition demo_entities :: "BridgeEntitySchema list" where
  "demo_entities =
     [\<lparr>bes_entity_index = 0, bes_entity_type = 2, bes_entity_name = ascii ''Pump'', bes_entity_unit = [],
       bes_entity_options = [], bes_entity_id = []\<rparr>,
      \<lparr>bes_entity_index = 1, bes_entity_type = 9, bes_entity_name = ascii ''Lamp'', bes_entity_unit = [],
       bes_entity_options = ascii ''effects=Rain|Snow'', bes_entity_id = []\<rparr>]"

definition demo_pump_session :: bp_session where
  "demo_pump_session = bp_session_init\<lparr>bs_leaf_mac := demo_hop, bs_session_key := replicate 32 1, bs_session_key_valid := True,
     bs_online := True, bs_next_hop_mac := demo_hop, bs_schema_entities := demo_entities\<rparr>"

definition demo_component :: eb where
  "demo_component =
     \<lparr>eb_protocol = BridgeProtocol_new\<lparr>bp_sessions := [(mac_to_key demo_hop, demo_pump_session)]\<rparr>, eb_ota_manager = None,
      eb_api_key = [7, 7], eb_network_id = ascii ''net'', eb_sta_mac = [2, 0, 0, 0, 0, 9], eb_ota_job_state = JOB_IDLE,
      eb_ota_job_id = [], eb_ota_job_counter = 0, eb_ota_request_id = [], eb_ota_session_id = [],
      eb_ota_target_mac = replicate 6 0, eb_ota_manager_prev_public_state = [], eb_ota_transport_callbacks = True,
      eb_ota_last_requested_sequences = [], eb_ota_chunk_request_counter = 0, eb_ota_last_status_percent = 255,
      eb_ota_last_status_ms = 0, eb_entity_values = [], eb_pending_state_deliveries = (\<lambda>_. None),
      eb_config_requests = []\<rparr>"

text \<open>Its transport, with a client.\<close>

definition demo_line :: "eb serial" where
  "demo_line = (serial_init demo_component)\<lparr>sa_auth_state := AUTHENTICATED, sa_last_data_ms := 4000\<rparr>"

lemma demo_bridge_simps [simp]:
  "re_bp demo_renv = demo_benv" "re_parse_json demo_renv t = Some demo_json" "bpe_hmac demo_benv = demo_hmac"
  "bp_get_session demo_hop (eb_protocol demo_component) = Some demo_pump_session"
  "bs_online demo_pump_session" "bs_session_key_valid demo_pump_session" "bs_schema_entities demo_pump_session = demo_entities"
  "sa_bridge demo_line = demo_component" "sa_auth_state demo_line = AUTHENTICATED" "sa_written demo_line = []"
  by (simp_all add: demo_renv_def demo_benv_def demo_component_def bp_get_session_def demo_pump_session_def demo_line_def)

end
