(* ===== verification/CommandClaims.thy ===== *)
theory CommandClaims
  imports BridgeDemo
begin

text \<open>
  Properties of the commands of the runtime interface: what a command does and what it is answered, and the effects of
  lights, whose numbers a command and a state count differently.
\<close>

section \<open>Effects of lights\<close>

lemma first_index_distinct:
  assumes "distinct xs" and "i < length xs"
  shows "first_index (xs ! i) xs = Some i"
proof -
  have "takeWhile (\<lambda>y. y \<noteq> xs ! i) xs = take i xs"
  proof (rule takeWhile_eq_take_P_nth)
    show "xs ! j \<noteq> xs ! i" if "j < i" "j < length xs" for j
      using that assms nth_eq_iff_index_eq [of xs j i] by simp
  qed simp
  then show ?thesis using assms by (simp add: first_index_def)
qed

lemma option_lists_agree: "eb_option_list opts key \<noteq> [] \<Longrightarrow> option_list opts (ascii key) = eb_option_list opts key"
  by (auto simp: eb_option_list_def option_list_def split: option.splits if_splits)

text \<open>A JSON object whose only member is the effect.\<close>

definition effect_object :: "bytes \<Rightarrow> bytes \<Rightarrow> JsonVariant" where
  "effect_object effect key =
     \<lparr>jm_string = (if key = ascii ''effect'' then Some effect else None), jm_int = None, jm_bool = None,
      jm_float = None, jm_object = None\<rparr>"

lemma effect_object_simps [simp]:
  "jm_string (effect_object effect (ascii ''effect'')) = Some effect"
  "jm_string (effect_object effect (ascii ''state'')) = None"
  "jm_int (effect_object effect k) = None" "jm_bool (effect_object effect k) = None"
  "jm_float (effect_object effect k) = None" "jm_object (effect_object effect k) = None"
  by (simp_all add: effect_object_def ascii_def)

lemma light_decoded:
  "bes_entity_type entity = field_type_code FIELD_TYPE_LIGHT \<Longrightarrow>
    decode_command_payload env entity route payload current_value = decode_light env (bes_entity_options entity) payload"
  by (simp add: decode_command_payload_def Let_def)

lemma light_effect_decoded:
  assumes "is_json payload" and "re_parse_json env payload = Some (effect_object effect)"
    and "first_index effect (eb_option_list (parse_options_map options) ''effects'') = Some i" and "effect \<noteq> ascii ''None''"
  shows "decode_light env options payload = Some [1, 0, 0, 0, of_nat i, 0, 0, 0, 0]"
proof -
  have "(replicate 9 0)[4 := of_nat i, 0 := 1] = ([1, 0, 0, 0, of_nat i, 0, 0, 0, 0] :: bytes)"
    by (simp add: eval_nat_numeral)
  then show ?thesis using assms by (simp add: decode_light_def light_json_def light_effect_def)
qed

lemma light_effect_shown:
  assumes "option_list (parse_options_map options) (ascii ''effects'') = effects" and "effects \<noteq> []"
    and "4 < length val" and "0 < val ! 4" and "unat (val ! 4) \<le> length effects"
  shows "\<exists>members. build_light_state_json hsv_to_rgb val options
    = json_object (members @ json_member ''effect'' (quoted_json_string (effects ! (unat (val ! 4) - 1))))"
proof -
  have split: "\<exists>m. json_object (a @ b @ c @ d @ e @ f @ g) = json_object (m @ g)" for a b c d e f g
    by (rule exI [of _ "a @ b @ c @ d @ e @ f"]) simp
  have "\<not> length val < 1" using assms(3) by (cases val) simp_all
  then show ?thesis
    unfolding build_light_state_json_def Let_def assms(1)
    using assms(2-5) by (simp only: if_False if_True HOL.simp_thms split)
qed

text \<open>
  C38: The effects of a light are counted from zero in a command and from one in a state: asked for the effect number
  \<open>Suc i\<close> of its list, a light is given a value that, sent back as its state, is shown as the effect before it.
\<close>

theorem effects_one_off:
  assumes "bes_entity_type entity = field_type_code FIELD_TYPE_LIGHT"
    and "eb_option_list (parse_options_map (bes_entity_options entity)) ''effects'' = effects"
    and "distinct effects" and "Suc i < length effects" and "length effects \<le> 255"
    and "effects ! Suc i \<noteq> ascii ''None''"
    and "is_json payload" and "re_parse_json env payload = Some (effect_object (effects ! Suc i))"
  shows "\<exists>val members. decode_command_payload env entity route payload current_value = Some val
    \<and> build_light_state_json hsv_to_rgb val (bes_entity_options entity)
        = json_object (members @ json_member ''effect'' (quoted_json_string (effects ! i)))"
proof -
  let ?val = "[1, 0, 0, 0, of_nat (Suc i), 0, 0, 0, 0] :: bytes"
  have d: "decode_command_payload env entity route payload current_value = Some ?val"
    using light_effect_decoded [OF assms(7,8), of "bes_entity_options entity" "Suc i"] assms(2,6)
      first_index_distinct [OF assms(3,4)] light_decoded [OF assms(1), of env route payload current_value] by simp
  have "effects \<noteq> []" using assms(4) by auto
  then have e: "option_list (parse_options_map (bes_entity_options entity)) (ascii ''effects'') = effects"
    using option_lists_agree [of "parse_options_map (bes_entity_options entity)" "''effects''"] assms(2) by simp
  have n: "unat (of_nat (Suc i) :: u8) = Suc i"
    using assms(4,5) by (intro unat_of_nat_small) simp
  have "0 < unat (?val ! 4)" "unat (?val ! 4) \<le> length effects" using n assms(4) by (simp_all del: of_nat_Suc)
  then show ?thesis
    using light_effect_shown [OF e, of ?val hsv_to_rgb] d assms(4) n \<open>effects \<noteq> []\<close>
    by (auto simp: word_less_nat_alt simp del: of_nat_Suc)
qed

theorem effects_one_off_witness:
  "\<exists>val members. decode_command_payload demo_renv (demo_entities ! 1) PRIMARY (ascii ''{}'') [] = Some val
    \<and> build_light_state_json (re_hsv_to_rgb demo_renv) val (ascii ''effects=Rain|Snow'')
        = json_object (members @ json_member ''effect'' (quoted_json_string (ascii ''Rain'')))"
proof -
  have o: "eb_option_list (parse_options_map (ascii ''effects=Rain|Snow'')) ''effects'' = [ascii ''Rain'', ascii ''Snow'']"
    by code_simp
  have j: "demo_json = effect_object (ascii ''Snow'')"
    by (rule ext) (simp add: demo_json_def effect_object_def)
  have "ascii ''Snow'' \<noteq> ascii ''None''" "ascii ''Rain'' \<noteq> ascii ''Snow''" "is_json (ascii ''{}'')" by code_simp+
  then show ?thesis
    using effects_one_off [of "demo_entities ! 1" "[ascii ''Rain'', ascii ''Snow'']" 0 "ascii ''{}''" demo_renv PRIMARY "[]"
        "re_hsv_to_rgb demo_renv"] o j
    by (simp add: demo_entities_def)
qed

section \<open>What a command does and is answered\<close>

text \<open>
  What a command request asks for: the remote, the number of the entity and the value, if the request names a remote that is
  there and an entity that takes it.
\<close>

definition command_plan :: "request_env \<Rightarrow> ParsedCommandRequest \<Rightarrow> eb \<Rightarrow> (bytes \<times> u8 \<times> bytes) option" where
  "command_plan env r b =
     (case parse_mac_hex (clean_mac (cr_remote_mac r)) of None \<Rightarrow> None
      | Some mac \<Rightarrow>
          (case bp_get_session mac (eb_protocol b) of None \<Rightarrow> None
           | Some session \<Rightarrow>
               if \<not> bs_online session \<or> \<not> bs_session_key_valid session then None else
               (case entity_match (cr_object_id r) (bs_schema_entities session) of None \<Rightarrow> None
                | Some entity \<Rightarrow>
                    map_option (\<lambda>val. (mac, bes_entity_index entity, val))
                      (decode_command_payload env entity (command_route entity (cr_command r)) (command_payload r)
                        (eb_current_value mac (bes_entity_index entity) b)))))"

text \<open>
  What the words of a command mean, independent of the code that decodes them: the value the remote is given for a kind of
  entity. A position is a command and a percentage, a light is state, brightness and colours, a fan keeps what is known of
  its speed, oscillation and direction.
\<close>

definition fan_rest :: "bytes \<Rightarrow> bytes" where
  "fan_rest current = (if 4 \<le> length current then [current ! 1, current ! 2, current ! 3] else [0, 0, 0])"

definition position_words :: "(string \<times> bytes) list" where
  "position_words = [(''open'', [1, 100]), (''close'', [2, 0]), (''stop'', [3, 0])]"

definition plain_value :: "espnow_field_type \<Rightarrow> string \<Rightarrow> bytes \<Rightarrow> bytes option" where
  "plain_value kind word current =
     (case kind of
        FIELD_TYPE_SWITCH \<Rightarrow> map_of [(''turn_on'', [1]), (''turn_off'', [0])] word
      | FIELD_TYPE_BUTTON \<Rightarrow> map_of [(''press'', [1])] word
      | FIELD_TYPE_LOCK \<Rightarrow> map_of [(''lock'', [1]), (''unlock'', [0])] word
      | FIELD_TYPE_COVER \<Rightarrow> map_of position_words word
      | FIELD_TYPE_VALVE \<Rightarrow> map_of position_words word
      | FIELD_TYPE_ALARM \<Rightarrow> map_of [(''disarm'', [0]), (''arm_home'', [1]), (''arm_away'', [2]), (''arm_night'', [3]),
          (''arm_vacation'', [4]), (''arm_custom_bypass'', [5]), (''trigger'', [6])] word
      | FIELD_TYPE_LIGHT \<Rightarrow> map_of [(''turn_on'', [1, 255, 0, 0, 0, 0, 0, 0, 0]), (''turn_off'', replicate 9 0)] word
      | FIELD_TYPE_FAN \<Rightarrow> map_of [(''turn_on'', 1 # fan_rest current), (''turn_off'', 0 # fan_rest current)] word
      | _ \<Rightarrow> None)"

text \<open>The entity an object id names: the first one there is whose own id, or whose name as an id, is the object id.\<close>

definition has_object_id :: "bytes \<Rightarrow> BridgeEntitySchema \<Rightarrow> bool" where
  "has_object_id object_id entity \<longleftrightarrow> bes_entity_type entity \<noteq> 0
     \<and> (if bes_entity_id entity \<noteq> [] then object_id = bes_entity_id entity
        else object_id = sanitize_object_id (bes_entity_name entity))"

definition names_entity :: "BridgeEntitySchema list \<Rightarrow> bytes \<Rightarrow> BridgeEntitySchema \<Rightarrow> bool" where
  "names_entity entities object_id entity \<longleftrightarrow>
     (\<exists>j < length entities. entities ! j = entity \<and> has_object_id object_id entity
        \<and> (\<forall>i < j. \<not> has_object_id object_id (entities ! i)))"

text \<open>
  A request without arguments that asks to give the entity of the remote \<open>mac\<close> the value \<open>val\<close>: the remote is online with a
  session key, the object id names the entity in its schema, and the word means the value for an entity of its kind.
\<close>

definition asks_plainly :: "eb \<Rightarrow> ParsedCommandRequest \<Rightarrow> bytes \<Rightarrow> BridgeEntitySchema \<Rightarrow> bytes \<Rightarrow> bool" where
  "asks_plainly b r mac entity val \<longleftrightarrow>
     cr_args r = [] \<and> parse_mac_hex (clean_mac (cr_remote_mac r)) = Some mac
     \<and> (\<exists>session. bp_get_session mac (eb_protocol b) = Some session \<and> bs_online session \<and> bs_session_key_valid session
          \<and> names_entity (bs_schema_entities session) (cr_object_id r) entity)
     \<and> (\<exists>kind word. bes_entity_type entity = field_type_code kind \<and> cr_command r = ascii word
          \<and> plain_value kind word (eb_current_value mac (bes_entity_index entity) b) = Some val)"

lemma has_object_id_matches: "has_object_id oid e \<longleftrightarrow> bes_entity_type e \<noteq> 0 \<and> entity_object_id e = oid"
  by (auto simp: has_object_id_def entity_object_id_def)

lemma match_iff_named: "entity_match object_id entities = Some entity \<longleftrightarrow> names_entity entities object_id entity"
  unfolding entity_match_def find_Some_iff names_entity_def has_object_id_matches by blast

lemmas named_entity_found = match_iff_named [THEN iffD2]

lemmas found_entity_named = match_iff_named [THEN iffD1]

lemma fan_kept:
  "4 \<le> length current \<Longrightarrow> (take 4 current)[0 := x] = x # fan_rest current"
  "\<not> 4 \<le> length current \<Longrightarrow> (replicate 4 0)[0 := x] = x # fan_rest current"
proof -
  assume "4 \<le> length current"
  then obtain a b c d r where "current = a # b # c # d # r"
    by (cases current; cases "tl current"; cases "tl (tl current)"; cases "tl (tl (tl current))") auto
  then show "(take 4 current)[0 := x] = x # fan_rest current" by (simp add: fan_rest_def eval_nat_numeral)
next
  assume "\<not> 4 \<le> length current"
  then show "(replicate 4 0)[0 := x] = x # fan_rest current" by (simp add: fan_rest_def eval_nat_numeral)
qed

lemma ascii_eq_iff: "ascii x = ascii y \<longleftrightarrow> x = y"
proof
  assume e: "ascii x = ascii y"
  have "inj (of_char :: char \<Rightarrow> u8)"
  proof (rule injI)
    fix c d :: char
    assume "(of_char c :: u8) = of_char d"
    then have "unat (of_nat (of_char c) :: u8) = unat (of_nat (of_char d) :: u8)" by (simp only: of_nat_of_char)
    then have "(of_char c :: nat) mod 256 = of_char d mod 256" by (simp add: unat_of_nat)
    then show "c = d" by simp
  qed
  then show "x = y" using e by (simp add: ascii_def inj_map_eq_map)
qed simp

lemma plain_decoded:
  assumes "cr_args r = []" and "bes_entity_type entity = field_type_code kind" and "cr_command r = ascii word"
    and "plain_value kind word current = Some val"
  shows "decode_command_payload env entity (command_route entity (cr_command r)) (command_payload r) current = Some val"
proof -
  have "command_payload r = ascii upper" if "(word, upper) \<in> set [(''turn_on'', ''ON''), (''turn_off'', ''OFF''), (''press'', ''PRESS''),
      (''open'', ''OPEN''), (''close'', ''CLOSE''), (''stop'', ''STOP''), (''lock'', ''LOCK''), (''unlock'', ''UNLOCK''),
      (''arm_home'', ''ARM_HOME''), (''arm_away'', ''ARM_AWAY''), (''arm_night'', ''ARM_NIGHT''), (''arm_vacation'', ''ARM_VACATION''),
      (''arm_custom_bypass'', ''ARM_CUSTOM_BYPASS''), (''disarm'', ''DISARM''), (''trigger'', ''TRIGGERED'')]" for upper
    using that assms(1,3) by (auto simp: command_payload_def ascii_eq_iff)
  note payload = this
  have j: "is_json (ascii (c # cs)) \<longleftrightarrow> c = CHR ''{''" for c cs
    using ascii_eq_iff [of "[c]" "''{''"] by (simp add: is_json_def ascii_def)
  show ?thesis
    using assms(2,4) payload
    by (cases kind)
       (auto simp: plain_value_def position_words_def decode_command_payload_def parse_on_def command_route_def assms(3) ascii_eq_iff j
          decode_position_def decode_alarm_def alarm_command_def decode_light_def decode_fan_def fan_kept Let_def
          split: if_splits)
qed

lemma plain_plan:
  assumes "asks_plainly b r mac entity val"
  shows "command_plan env r b = Some (mac, bes_entity_index entity, val)"
  using assms named_entity_found plain_decoded [of r entity _ _ "eb_current_value mac (bes_entity_index entity) b" val env]
  by (auto simp: asks_plainly_def command_plan_def)

lemma plan_names:
  assumes "command_plan env r b = Some (mac, index, val)"
  shows "\<exists>session entity. parse_mac_hex (clean_mac (cr_remote_mac r)) = Some mac
    \<and> bp_get_session mac (eb_protocol b) = Some session \<and> bs_online session \<and> bs_session_key_valid session
    \<and> names_entity (bs_schema_entities session) (cr_object_id r) entity \<and> index = bes_entity_index entity"
  using assms by (auto simp: command_plan_def dest: found_entity_named split: option.splits if_splits)

text \<open>What a client reads of an answer: the request it is for and its status.\<close>

definition answer_read :: "bytes \<Rightarrow> (bytes \<times> u64) option" where
  "answer_read w =
     (case line_message (butlast w) of None \<Rightarrow> None
      | Some e \<Rightarrow> if pe_msg_field e \<noteq> PB_COMMAND_RESULT then None
          else map_option (\<lambda>status. (pe_request_id e, status))
                 (parse_fields (\<lambda>f out. Some (if pf_field f = 6 \<and> pf_wire f = 0 then pf_varint f else out)) (pe_msg_data e) 0 0))"

lemma outcome_of_plan:
  "case command_plan env r b of
     None \<Rightarrow> fst (eb_command_outcome env r b) = b
       \<and> command_status_code (co_status (snd (eb_command_outcome env r b))) \<in> {3, 4, 5}
   | Some (mac, index, val) \<Rightarrow>
       (case bp_send_command_to_leaf (re_bp env) mac index val (eb_protocol b) of
          (p, sent) \<Rightarrow> fst (eb_command_outcome env r b) = b\<lparr>eb_protocol := p\<rparr>
            \<and> command_status_code (co_status (snd (eb_command_outcome env r b))) = (if sent then 1 else 3))"
  by (simp add: command_plan_def eb_command_outcome_def eb_run_command_def command_refused_def Let_def
      split: option.split prod.split)

definition outcome_short :: "command_outcome \<Rightarrow> bool" where
  "outcome_short out \<longleftrightarrow> length (co_session_id out) \<le> 1000 \<and> length (co_error_code out) \<le> 1000 \<and> length (co_error_message out) \<le> 1000"

lemma hex_length: "length (bytes_to_lower_hex d) = 2 * length d"
  by (induction d) (simp_all add: bytes_to_lower_hex_def)

lemma session_id_short: "length (runtime_session_id h s n) \<le> 16"
  by (simp add: runtime_session_id_def hex_length)

lemma outcome_is_short: "outcome_short (snd (eb_command_outcome env r b))"
proof -
  have s: "length (runtime_session_id h s n) \<le> 1000" for h s n
    using session_id_short [of h s n] by simp
  show ?thesis
    by (simp add: eb_command_outcome_def eb_run_command_def Let_def command_refused_def outcome_short_def s ascii_def
        split: option.split prod.split)
qed

lemma mac_display_short: "length (mac_display (Some m)) \<le> 18"
  by (simp add: mac_display_def espnow_mac_to_display_string_def format_mac_def)

lemma answer_written:
  assumes "outcome_short out" and "length (cr_remote_mac r) < 2 ^ 32" and "length (cr_object_id r) < 2 ^ 32"
    and "length (cr_command r) < 2 ^ 32" and "length rid < 2 ^ 32"
  shows "answer_read (cobs_spec [] (pb_envelope rid PB_COMMAND_RESULT (\<lambda>w.
      pb_string 8 (co_error_message out) (pb_string 7 (co_error_code out)
        (pb_varint 6 (command_status_code (co_status out)) (pb_string 5 (co_session_id out)
          (pb_string 4 (mac_display (Some mac)) (pb_string 3 (cr_command r)
            (pb_string 2 (cr_object_id r) (pb_string 1 (cr_remote_mac r) w))))))))) @ [0])
    = Some (rid, command_status_code (co_status out))"
proof -
  let ?m = "\<lambda>w. pb_string 8 (co_error_message out) (pb_string 7 (co_error_code out)
        (pb_varint 6 (command_status_code (co_status out)) (pb_string 5 (co_session_id out)
          (pb_string 4 (mac_display (Some mac)) (pb_string 3 (cr_command r)
            (pb_string 2 (cr_object_id r) (pb_string 1 (cr_remote_mac r) w)))))))"
  let ?opt = "\<lambda>f d. if d = [] then [] else [PbBytes f d]"
  let ?is = "?opt 1 (cr_remote_mac r) @ ?opt 2 (cr_object_id r) @ ?opt 3 (cr_command r)
    @ ?opt 4 (mac_display (Some mac)) @ ?opt 5 (co_session_id out) @ [PbVarint 6 (command_status_code (co_status out))]
    @ ?opt 7 (co_error_code out) @ ?opt 8 (co_error_message out)"
  have m: "?m [] = pb_written ?is" by (simp only: pb_writes append_assoc)
  have o: "sum_list (map pb_size (?opt f d)) \<le> 20 + length d" "list_all pb_fits (?opt f d) = (length d < 2 ^ 64)" for f d
    by simp_all
  have "length (pb_written ?is) \<le> 4000 + length (cr_remote_mac r) + length (cr_object_id r) + length (cr_command r)"
    using pb_written_length [of ?is] assms(1) mac_display_short [of mac] o(1) [of "cr_remote_mac r" 1]
      o(1) [of "cr_object_id r" 2] o(1) [of "cr_command r" 3] o(1) [of "mac_display (Some mac)" 4]
      o(1) [of "co_session_id out" 5] o(1) [of "co_error_code out" 7] o(1) [of "co_error_message out" 8]
    unfolding outcome_short_def map_append sum_list_append by simp
  then have l: "length (?m []) < 2 ^ 64" using assms unfolding m by simp
  have fits: "list_all pb_fits ?is"
    using assms mac_display_short [of mac] unfolding list_all_append o(2) outcome_short_def by simp
  have "parse_fields (\<lambda>f out. Some (if pf_field f = 6 \<and> pf_wire f = 0 then pf_varint f else out)) (?m []) 0 0
      = Some (command_status_code (co_status out))"
    unfolding m parse_written [OF fits] by (simp add: pf_bytes_def)
  then show ?thesis
    using line_message_written [of rid ?m PB_COMMAND_RESULT] l assms(5) by (simp add: answer_read_def)
qed

lemma command_result_nonempty:
  assumes "length rid < 2 ^ 32" and "length (cr_remote_mac r) < 2 ^ 32" and "length (cr_object_id r) < 2 ^ 32"
    and "length (cr_command r) < 2 ^ 32"
  shows "snd (eb_handle_command env rid r b) \<noteq> []
    \<and> answer_read (cobs_spec [] (snd (eb_handle_command env rid r b)) @ [0])
        = Some (rid, command_status_code (co_status (snd (eb_command_outcome env r b))))
    \<and> fst (eb_handle_command env rid r b) = fst (eb_command_outcome env r b)"
proof -
  obtain b' out where o: "eb_command_outcome env r b = (b', out)" by (cases "eb_command_outcome env r b")
  have a: "answer_read (cobs_spec [] (snd (eb_handle_command env rid r b)) @ [0])
        = Some (rid, command_status_code (co_status out))"
    using answer_written [OF _ assms(2-4,1), of out "eb_sta_mac b"] outcome_is_short [of env r b]
    by (simp add: eb_handle_command_def o)
  then have "snd (eb_handle_command env rid r b) \<noteq> []"
    by (auto simp: answer_read_def line_message_def cobs_decode_def cobs_decode_loop.simps)
  then show ?thesis using a by (simp add: eb_handle_command_def o)
qed

lemma command_answered_lemma:
  assumes "sa_auth_state s = AUTHENTICATED" and "line_message f = Some e" and "pe_msg_field e = PB_COMMAND_REQUEST"
    and "parse_command_request (se_double_text senv) (pe_msg_data e) = Some r"
    and "length (pe_request_id e) < 2 ^ 32" and "length (cr_remote_mac r) < 2 ^ 32" and "length (cr_object_id r) < 2 ^ 32"
    and "length (cr_command r) < 2 ^ 32"
  shows "\<exists>w status. sa_written (sa_frame senv (eb_calls env) f s) = sa_written s @ [w]
    \<and> answer_read w = Some (pe_request_id e, status)
    \<and> (case command_plan env r (sa_bridge s) of
         None \<Rightarrow> sa_bridge (sa_frame senv (eb_calls env) f s) = sa_bridge s \<and> status \<in> {3, 4, 5}
       | Some (mac, index, val) \<Rightarrow>
           (case bp_send_command_to_leaf (re_bp env) mac index val (eb_protocol (sa_bridge s)) of
              (p, sent) \<Rightarrow> sa_bridge (sa_frame senv (eb_calls env) f s) = (sa_bridge s)\<lparr>eb_protocol := p\<rparr>
                \<and> status = (if sent then 1 else 3)))"
proof -
  let ?b = "sa_bridge s" and ?rid = "pe_request_id e"
  let ?out = "eb_command_outcome env r ?b"
  obtain b' frame where h: "eb_handle_command env ?rid r ?b = (b', frame)"
    by (cases "eb_handle_command env ?rid r ?b")
  have c: "frame \<noteq> []" "answer_read (cobs_spec [] frame @ [0]) = Some (?rid, command_status_code (co_status (snd ?out)))"
      "b' = fst ?out"
    using command_result_nonempty [OF assms(5-8), of env ?b] h by simp_all
  have fr: "sa_frame senv (eb_calls env) f s
      = sa_send_cobs_frame frame (s\<lparr>sa_last_data_ms := se_millis senv, sa_bridge := b'\<rparr>)"
    using frame_message [OF assms(2), of senv "eb_calls env" s] assms(1,3,4) h
    by (simp add: sa_handle_envelope_def sa_dispatch_def sa_handle_command_def eb_calls_def)
  have "sa_written (sa_frame senv (eb_calls env) f s) = sa_written s @ [cobs_spec [] frame @ [0]]"
    using c(1) by (simp add: fr sa_send_cobs_frame_def encoded_line)
  moreover have "sa_bridge (sa_frame senv (eb_calls env) f s) = b'" by (simp add: fr)
  ultimately show ?thesis
    using outcome_of_plan [of env r ?b] c(2,3) by (intro exI conjI) (assumption, assumption, simp split: option.splits prod.splits)
qed

text \<open>
  C12: A command line of an authenticated client is answered by one line, for its own request id. If the request names a remote
  that is online and an entity of its schema, and its value can be had, the answer says accepted exactly if the protocol took the
  command for this entity with this value (a refusal may have changed the protocol's state); else the bridge is left as it was. For a
  request without arguments the value is what its word means for an entity of that kind (turning on, pressing, opening, locking,
  arming and so on), and it can always be had.
\<close>

theorem command_answered:
  assumes "sa_auth_state s = AUTHENTICATED" and "line_message f = Some e" and "pe_msg_field e = PB_COMMAND_REQUEST"
    and "parse_command_request (se_double_text senv) (pe_msg_data e) = Some r"
    and "length (pe_request_id e) < 2 ^ 32" and "length (cr_remote_mac r) < 2 ^ 32" and "length (cr_object_id r) < 2 ^ 32"
    and "length (cr_command r) < 2 ^ 32"
  shows "(\<exists>w status. sa_written (sa_frame senv (eb_calls env) f s) = sa_written s @ [w]
      \<and> answer_read w = Some (pe_request_id e, status)
      \<and> (case command_plan env r (sa_bridge s) of
           None \<Rightarrow> sa_bridge (sa_frame senv (eb_calls env) f s) = sa_bridge s \<and> status \<in> {3, 4, 5}
         | Some (mac, index, val) \<Rightarrow>
             (case bp_send_command_to_leaf (re_bp env) mac index val (eb_protocol (sa_bridge s)) of
                (p, sent) \<Rightarrow> sa_bridge (sa_frame senv (eb_calls env) f s) = (sa_bridge s)\<lparr>eb_protocol := p\<rparr>
                  \<and> status = (if sent then 1 else 3))))
    \<and> (\<forall>mac index val. command_plan env r (sa_bridge s) = Some (mac, index, val) \<longrightarrow>
         (\<exists>session entity. parse_mac_hex (clean_mac (cr_remote_mac r)) = Some mac
            \<and> bp_get_session mac (eb_protocol (sa_bridge s)) = Some session \<and> bs_online session \<and> bs_session_key_valid session
            \<and> names_entity (bs_schema_entities session) (cr_object_id r) entity \<and> index = bes_entity_index entity))
    \<and> (\<forall>mac entity val. asks_plainly (sa_bridge s) r mac entity val \<longrightarrow>
         command_plan env r (sa_bridge s) = Some (mac, bes_entity_index entity, val))"
  using command_answered_lemma [OF assms, of env] plan_names [of env r "sa_bridge s"] plain_plan [of "sa_bridge s" r _ _ _ env]
  by blast

text \<open>A client that asks to turn on the pump of the remote with the address \<open>m\<close>.\<close>

definition demo_command :: "bytes \<Rightarrow> bytes" where
  "demo_command m = client_line [55] PB_COMMAND_REQUEST (pb_written [PbBytes 1 m, PbBytes 2 (ascii ''pump''),
     PbBytes 3 (ascii ''turn_on'')])"

definition demo_request :: "bytes \<Rightarrow> ParsedCommandRequest" where
  "demo_request m = \<lparr>cr_remote_mac = m, cr_object_id = ascii ''pump'', cr_command = ascii ''turn_on'', cr_args = []\<rparr>"

lemma demo_request_fields:
  "cr_remote_mac (demo_request m) = m" "cr_object_id (demo_request m) = ascii ''pump''" "cr_command (demo_request m) = ascii ''turn_on''"
  by (simp_all add: demo_request_def)

lemma demo_command_message:
  assumes "m \<noteq> []" and "length m < 100"
  shows "\<exists>e. line_message (demo_command m) = Some e \<and> pe_msg_field e = PB_COMMAND_REQUEST \<and> pe_request_id e = [55]
    \<and> parse_command_request t (pe_msg_data e) = Some (demo_request m)"
proof -
  let ?is = "[PbBytes 1 m, PbBytes 2 (ascii ''pump''), PbBytes 3 (ascii ''turn_on'')]"
  have fits: "list_all pb_fits ?is" using assms(2) by (simp add: ascii_def)
  have "length (pb_written ?is) < 2 ^ 64" using pb_written_length [of ?is] assms(2) by (simp add: ascii_def)
  then have "line_message (demo_command m) = Some \<lparr>pe_request_id = [55], pe_api_version = 2, pe_msg_field = 17,
      pe_msg_data = pb_written ?is\<rparr>"
    unfolding demo_command_def by (intro client_line_message) simp_all
  moreover have "parse_command_request t (pb_written ?is) = Some (demo_request m)"
    unfolding parse_command_request_def parse_written [OF fits]
    using assms(1) by (simp add: command_request_field_def pf_bytes_def demo_request_def ascii_def)
  ultimately show ?thesis by simp
qed

lemma pump_asked:
  assumes "parse_mac_hex (clean_mac m) = Some mac" and "bp_get_session mac (eb_protocol b) = Some session"
    and "bs_online session" and "bs_session_key_valid session" and "bs_schema_entities session = demo_entities"
  shows "asks_plainly b (demo_request m) mac (demo_entities ! 0) [1]"
proof -
  have "entity_match (cr_object_id (demo_request m)) demo_entities = Some (demo_entities ! 0)"
    unfolding demo_request_def by code_simp
  then have named: "names_entity (bs_schema_entities session) (cr_object_id (demo_request m)) (demo_entities ! 0)"
    by (simp add: match_iff_named assms(5))
  have "bes_entity_type (demo_entities ! 0) = field_type_code FIELD_TYPE_SWITCH" by (simp add: demo_entities_def)
  moreover have "plain_value FIELD_TYPE_SWITCH ''turn_on'' current = Some [1]" for current by (simp add: plain_value_def)
  moreover have "cr_command (demo_request m) = ascii ''turn_on''" by (rule demo_request_fields)
  ultimately have "\<exists>kind word. bes_entity_type (demo_entities ! 0) = field_type_code kind \<and> cr_command (demo_request m) = ascii word
      \<and> plain_value kind word (eb_current_value mac (bes_entity_index (demo_entities ! 0)) b) = Some [1]"
    by blast
  then show ?thesis
    using assms(1-4) named by (simp add: asks_plainly_def demo_request_def)
qed

lemma pump_plan:
  assumes "parse_mac_hex (clean_mac m) = Some mac" and "bp_get_session mac (eb_protocol b) = Some session"
    and "bs_online session" and "bs_session_key_valid session" and "bs_schema_entities session = demo_entities"
  shows "command_plan env (demo_request m) b = Some (mac, 0, [1])"
  using plain_plan [OF pump_asked [OF assms], of env] by (simp add: demo_entities_def)

theorem command_answered_witness:
  "\<exists>w status. sa_written (sa_frame (demo_senv 5) (eb_calls demo_renv) (demo_command (ascii ''02:00:00:00:00:01'')) demo_line) = [w]
    \<and> answer_read w = Some ([55], status)
    \<and> status = (if snd (bp_send_command_to_leaf demo_benv demo_hop 0 [1] (eb_protocol demo_component)) then 1 else 3)"
proof -
  let ?m = "ascii ''02:00:00:00:00:01''"
  have m: "?m \<noteq> []" "length ?m < 100" by (simp_all add: ascii_def)
  obtain e where e: "line_message (demo_command ?m) = Some e" "pe_msg_field e = PB_COMMAND_REQUEST" "pe_request_id e = [55]"
      "parse_command_request (se_double_text (demo_senv 5)) (pe_msg_data e) = Some (demo_request ?m)"
    using demo_command_message [OF m] by blast
  have "parse_mac_hex (clean_mac ?m) = Some demo_hop" by code_simp
  then have asked: "asks_plainly demo_component (demo_request ?m) demo_hop (demo_entities ! 0) [1]"
    by (rule pump_asked [where session = demo_pump_session]) simp_all
  have first: "bes_entity_index (demo_entities ! 0) = 0" by (simp add: demo_entities_def)
  obtain p sent where ps: "bp_send_command_to_leaf demo_benv demo_hop 0 [1] (eb_protocol demo_component) = (p, sent)"
    by (metis surj_pair)
  have short: "length (pe_request_id e) < 2 ^ 32" "length (cr_remote_mac (demo_request ?m)) < 2 ^ 32"
      "length (cr_object_id (demo_request ?m)) < 2 ^ 32" "length (cr_command (demo_request ?m)) < 2 ^ 32"
    using m(2) by (simp_all add: e(3) demo_request_fields ascii_def [of "''pump''"] ascii_def [of "''turn_on''"])
  have auth: "sa_auth_state demo_line = AUTHENTICATED" by simp
  note c = command_answered [OF auth e(1,2,4) short, of demo_renv]
  have plan: "command_plan demo_renv (demo_request ?m) (sa_bridge demo_line) = Some (demo_hop, 0, [1])"
    using c asked first by auto
  show ?thesis
    using conjunct1 [OF c] plan ps e(3) by auto
qed

end
