(* ===== verification/ClientCommands.thy ===== *)
theory ClientCommands
  imports Delivery CommandClaims
begin

text \<open>
  The way of a command through the whole program: from the line of a client over the serial transport, the component and
  the bridge's protocol to the remote.
\<close>

text \<open>
  What the remote needs to run a command for its entity \<open>e\<close> that the bridge sends in \<open>n\<close> frames of the session \<open>s\<close>: the
  bridge's key, address and fragment size, a command older than this one as its last, none under way, and room for twice the fragments.
\<close>

definition takes_command :: "bp_session \<Rightarrow> u8 \<Rightarrow> nat \<Rightarrow> 'h remote \<Rightarrow> bool" where
  "takes_command s e n r \<longleftrightarrow>
     length (bs_session_key s) = 32 \<and> length (bs_leaf_mac s) = 6 \<and> 0 < bs_max_entity_fragment s
     \<and> unat (bs_max_entity_fragment s) \<le> 1440 \<and> rp_joined r \<and> rp_session_key_valid r \<and> rp_session_key r = bs_session_key s
     \<and> rp_leaf_mac r = bs_leaf_mac s \<and> 0 < rp_max_hops r \<and> unat e < length (rp_entity_records r)
     \<and> rp_max_entity_fragment r = bs_max_entity_fragment s
     \<and> unat (bs_max_entity_fragment s) + 30 \<le> unat (rp_session_max_payload r)
     \<and> counter_is_newer (bs_tx_counter s) (er_last_completed_command_message_tx_base (rp_entity_records r ! unat e))
     \<and> map_of (ca_pending (rp_pending_commands r)) e = None \<and> length (ca_pending (rp_pending_commands r)) < 8
     \<and> n < 256 \<and> n * unat (bs_max_entity_fragment s) \<le> unat (rp_max_assembly_bytes r)
     \<and> unat (ca_reserved (rp_pending_commands r)) + 2 * (n * unat (bs_max_entity_fragment s))
         \<le> unat (rp_max_total_fragment_bytes r)"

text \<open>The frames the protocol handed to the radio between two states of the component.\<close>

definition new_frames :: "eb serial \<Rightarrow> eb serial \<Rightarrow> bytes list" where
  "new_frames s s' = map snd (drop (length (bp_sent (eb_protocol (sa_bridge s)))) (bp_sent (eb_protocol (sa_bridge s'))))"

lemma accepted_was_sent:
  assumes "sa_auth_state s = AUTHENTICATED" and "line_message f = Some e" and "pe_msg_field e = PB_COMMAND_REQUEST"
    and "parse_command_request (se_double_text senv) (pe_msg_data e) = Some r"
    and "length (pe_request_id e) < 2 ^ 32" and "length (cr_remote_mac r) < 2 ^ 32" and "length (cr_object_id r) < 2 ^ 32"
    and "length (cr_command r) < 2 ^ 32"
    and "answer_read (last (sa_written (sa_frame senv (eb_calls env) f s))) = Some (pe_request_id e, 1)"
    and "command_plan env r (sa_bridge s) = Some (mac, index, val)"
  shows "bp_send_command_to_leaf (re_bp env) mac index val (eb_protocol (sa_bridge s))
    = (eb_protocol (sa_bridge (sa_frame senv (eb_calls env) f s)), True)"
proof -
  obtain p sent where ps: "bp_send_command_to_leaf (re_bp env) mac index val (eb_protocol (sa_bridge s)) = (p, sent)"
    by (metis surj_pair)
  obtain w status where w: "sa_written (sa_frame senv (eb_calls env) f s) = sa_written s @ [w]"
      "answer_read w = Some (pe_request_id e, status)"
      "sa_bridge (sa_frame senv (eb_calls env) f s) = (sa_bridge s)\<lparr>eb_protocol := p\<rparr>" "status = (if sent then 1 else 3)"
    using command_answered_lemma [OF assms(1-8), of env] ps assms(10) by auto
  then have "sent" using assms(9) by (auto split: if_splits)
  then show ?thesis using ps w(3) by simp
qed

text \<open>
  C11: A client's command reaches the entity. Let a command line without arguments, of an authenticated client, name an entity
  of a remote that is online, with a word that means a value for an entity of that kind; let the line be answered with accepted. If the
  remote of that session takes the command (it has the session's key and fragment size, last ran an older command, has none under
  way for the entity and has room for twice the fragments) and hears the frames that went out for it, each at least once, in any
  order and with repetitions, it runs exactly one command: for that entity, with that value.
\<close>

theorem client_command_runs:
  assumes "sa_auth_state s = AUTHENTICATED" and "line_message f = Some e" and "pe_msg_field e = PB_COMMAND_REQUEST"
    and "parse_command_request (se_double_text senv) (pe_msg_data e) = Some req"
    and "length (pe_request_id e) < 2 ^ 32" and "length (cr_remote_mac req) < 2 ^ 32" and "length (cr_object_id req) < 2 ^ 32"
    and "length (cr_command req) < 2 ^ 32"
    and "s' = sa_frame senv (eb_calls env) f s" and "answer_read (last (sa_written s')) = Some (pe_request_id e, 1)"
    and "asks_plainly (sa_bridge s) req mac entity val"
    and "bp_get_session mac (eb_protocol (sa_bridge s)) = Some session"
    and "\<forall>(renv, m, rssi, i) \<in> set heard. same_network (re_bp env) renv \<and> env_command_fn renv"
    and "(\<lambda>(_, _, _, i). i) ` set heard = {..<length (new_frames s s')}"
    and "takes_command session (bes_entity_index entity) (length (new_frames s s')) r"
  shows "\<exists>flags. rp_commands_run (hear (new_frames s s') heard r) = rp_commands_run r @ [(bes_entity_index entity, flags, val)]"
proof -
  have sent: "bp_send_command_to_leaf (re_bp env) mac (bes_entity_index entity) val (eb_protocol (sa_bridge s))
      = (eb_protocol (sa_bridge s'), True)"
    using accepted_was_sent [OF assms(1-8), of env] assms(9,10) plain_plan [OF assms(11), of env] by simp
  show ?thesis
    by (rule commands_delivered_lemma [OF sent assms(12) new_frames_def assms(13,14)])
       (use assms(15) in \<open>simp_all add: takes_command_def\<close>)
qed

text \<open>The pump is turned on; its remote hears the one frame twice.\<close>

definition pump_session :: bp_session where
  "pump_session = demo_session\<lparr>bs_schema_entities := demo_entities\<rparr>"

definition pump_line :: "eb serial" where
  "pump_line = demo_line\<lparr>sa_bridge := demo_component\<lparr>eb_protocol :=
     BridgeProtocol_new\<lparr>bp_sessions := [(mac_to_key demo_mac, pump_session)]\<rparr>\<rparr>\<rparr>"

definition pump_env :: request_env where
  "pump_env = demo_renv\<lparr>re_bp := demo_sender\<rparr>"

theorem client_command_runs_witness:
  "\<exists>s' flags. s' = sa_frame (demo_senv 5) (eb_calls pump_env) (demo_command (ascii ''02:00:00:00:00:09'')) pump_line
    \<and> rp_commands_run (hear (new_frames pump_line s') [(demo_env, demo_hop, - 40, 0), (demo_env, demo_hop, - 40, 0)] demo_receiver)
        = [(0, flags, [1])]"
proof -
  let ?m = "ascii ''02:00:00:00:00:09''"
  let ?p = "eb_protocol (sa_bridge pump_line)"
  define s' where "s' = sa_frame (demo_senv 5) (eb_calls pump_env) (demo_command ?m) pump_line"
  have m: "?m \<noteq> []" "length ?m < 100" by (simp_all add: ascii_def)
  obtain e where e: "line_message (demo_command ?m) = Some e" "pe_msg_field e = PB_COMMAND_REQUEST" "pe_request_id e = [55]"
      "parse_command_request (se_double_text (demo_senv 5)) (pe_msg_data e) = Some (demo_request ?m)"
    using demo_command_message [OF m] by blast
  have auth: "sa_auth_state pump_line = AUTHENTICATED" by (simp add: pump_line_def)
  have get: "bp_get_session demo_mac ?p = Some pump_session" by (simp add: bp_get_session_def pump_line_def)
  have fields: "bs_online pump_session" "bs_session_key_valid pump_session" "bs_schema_entities pump_session = demo_entities"
      "bs_max_entity_fragment pump_session = 220" "bs_session_max_payload pump_session = 250"
      "bs_session_key pump_session = replicate 32 1" "bs_leaf_mac pump_session = demo_mac" "bs_tx_counter pump_session = 1"
    using demo_session_fields by (simp_all add: pump_session_def)
  have env: "re_bp pump_env = demo_sender" by (simp add: pump_env_def)
  have "parse_mac_hex (clean_mac ?m) = Some demo_mac" by code_simp
  then have asked: "asks_plainly (sa_bridge pump_line) (demo_request ?m) demo_mac (demo_entities ! 0) [1]"
    by (rule pump_asked [OF _ get fields(1-3)])
  have first: "bes_entity_index (demo_entities ! 0) = 0" by (simp add: demo_entities_def)
  have plan: "command_plan pump_env (demo_request ?m) (sa_bridge pump_line) = Some (demo_mac, 0, [1])"
    using plain_plan [OF asked, of pump_env] first by simp
  have out: "snd (bp_send_command_to_leaf demo_sender demo_mac 0 [1] ?p)"
    by (rule command_goes_out [OF _ get])
       (simp_all add: fields radio_accepts_def demo_sender_def demo_env_def espnow_max_plaintext_def)
  then obtain p where p: "bp_send_command_to_leaf demo_sender demo_mac 0 [1] ?p = (p, True)" by (metis prod.collapse)
  have short: "length (pe_request_id e) < 2 ^ 32" "length (cr_remote_mac (demo_request ?m)) < 2 ^ 32"
      "length (cr_object_id (demo_request ?m)) < 2 ^ 32" "length (cr_command (demo_request ?m)) < 2 ^ 32"
    using m(2) by (simp_all add: e(3) demo_request_fields ascii_def [of "''pump''"] ascii_def [of "''turn_on''"])
  obtain w where w: "sa_written s' = sa_written pump_line @ [w]" "answer_read w = Some (pe_request_id e, 1)"
      "sa_bridge s' = (sa_bridge pump_line)\<lparr>eb_protocol := p\<rparr>"
    using command_answered_lemma [OF auth e(1,2,4) short, of pump_env] plan p env by (auto simp: s'_def)
  have none: "bp_sent ?p = []" by (simp add: pump_line_def BridgeProtocol_new_def)
  obtain t where t: "bp_get_session demo_mac ?p = Some t" and sent: "bp_sent p = bp_sent ?p
      @ map (\<lambda>i. (bs_next_hop_mac t, command_frame demo_sender (bs_session_key t) (bs_leaf_mac t) (bs_max_entity_fragment t) 0 (bs_tx_counter t) [1] i))
          [0..<fragment_chunk_count (bs_max_entity_fragment t) (length [1 :: u8])]"
    by (rule command_sent [OF p])
  have "t = pump_session" using t get by simp
  then have "length (bp_sent p) = 1" unfolding sent none by (simp add: fields fragment_chunk_count_def)
  then have one: "length (new_frames pump_line s') = 1" by (simp add: new_frames_def none w(3))
  have "takes_command pump_session 0 1 demo_receiver"
    by (simp add: takes_command_def fields demo_receiver_fields command_assemblies_init_def counter_is_newer_def)
  then have "\<exists>flags. rp_commands_run (hear (new_frames pump_line s') [(demo_env, demo_hop, - 40, 0), (demo_env, demo_hop, - 40, 0)]
      demo_receiver) = rp_commands_run demo_receiver @ [(bes_entity_index (demo_entities ! 0), flags, [1])]"
    by (intro client_command_runs [OF auth e(1,2,4) short s'_def _ asked get])
       (simp_all add: w one env first demo_network lessThan_Suc)
  then show ?thesis using demo_receiver_fields(12) first unfolding s'_def by auto
qed

end
