(* ===== verification/StateDelivery.thy ===== *)
theory StateDelivery
  imports BridgeDemo
begin

text \<open>
  Properties of the delivery of states to the host: while a client is there, a state is confirmed to its remote when, and only
  when, the client has acknowledged it.
\<close>

section \<open>Keys\<close>

lemma dec_digits_range: "c \<in> set (dec_digits n) \<Longrightarrow> 48 \<le> c \<and> c \<le> 57"
proof (induction n rule: dec_digits.induct)
  case (1 n)
  have d: "48 \<le> (of_nat (48 + k) :: u8) \<and> (of_nat (48 + k) :: u8) \<le> 57" if "k < 10" for k
  proof -
    have "unat (of_nat (48 + k) :: u8) = 48 + k" using that by (intro unat_of_nat_small) simp
    then show ?thesis using that by (simp add: word_le_nat_alt)
  qed
  show ?case
  proof (cases "n < 10")
    case True
    then have "c = of_nat (48 + n)" using 1(2) by (subst (asm) dec_digits.simps) simp
    then show ?thesis using d [OF True] by (simp only:)
  next
    case False
    then have "c \<in> set (dec_digits (n div 10)) \<or> c = of_nat (48 + n mod 10)"
      using 1(2) by (subst (asm) dec_digits.simps) auto
    then show ?thesis using 1(1) [OF False] d [of "n mod 10"] by (elim disjE) (assumption | simp only: | simp)+
  qed
qed

fun digits_nat :: "bytes \<Rightarrow> nat \<Rightarrow> nat" where
  "digits_nat [] acc = acc"
| "digits_nat (d # ds) acc = digits_nat ds (10 * acc + (unat d - 48))"

lemma digits_nat_append: "digits_nat (xs @ ys) acc = digits_nat ys (digits_nat xs acc)"
  by (induction xs arbitrary: acc) simp_all

lemma digits_nat_dec: "digits_nat (dec_digits n) 0 = n"
proof (induction n rule: dec_digits.induct)
  case (1 n)
  have u: "unat (of_nat (48 + k) :: u8) = 48 + k" if "k < 10" for k
    using that by (intro unat_of_nat_small) simp
  show ?case
  proof (cases "n < 10")
    case True
    then show ?thesis using u [OF True] by (subst dec_digits.simps) (simp del: of_nat_add)
  next
    case False
    then have "digits_nat (dec_digits n) 0 = digits_nat [of_nat (48 + n mod 10)] (digits_nat (dec_digits (n div 10)) 0)"
      by (subst dec_digits.simps) (simp only: if_False digits_nat_append)
    then show ?thesis using u [of "n mod 10"] 1 [OF False] by (simp del: of_nat_add)
  qed
qed

lemma dec_digits_inject: "dec_digits m = dec_digits n \<longleftrightarrow> m = n"
  by (metis digits_nat_dec)

lemma until_bar: "(95 :: u8) \<notin> set (dec_digits n)"
  using dec_digits_range [of 95 n] by auto

lemma digits_bar_inject: "dec_digits m @ [95] @ r = dec_digits n @ [95] @ r' \<longleftrightarrow> m = n \<and> r = r'"
proof
  assume e: "dec_digits m @ [95] @ r = dec_digits n @ [95] @ r'"
  then have "takeWhile (\<lambda>c. c \<noteq> 95) (dec_digits m @ [95] @ r) = takeWhile (\<lambda>c. c \<noteq> 95) (dec_digits n @ [95] @ r')" by simp
  moreover have "takeWhile (\<lambda>c. c \<noteq> 95) (dec_digits k @ [95] @ t) = dec_digits k" for k t
    using until_bar [of k] by (subst takeWhile_append2) auto
  ultimately have "m = n" by (simp add: dec_digits_inject)
  then show "m = n \<and> r = r'" using e by simp
qed simp

lemma delivery_key_inject:
  assumes "length mac = 6" and "length mac' = 6"
  shows "eb_state_delivery_key mac i tx = eb_state_delivery_key mac' i' tx' \<longleftrightarrow> mac = mac' \<and> i = i' \<and> tx = tx'"
proof -
  have six: "[x ! 0, x ! 1, x ! 2, x ! 3, x ! 4, x ! 5] = x" if "length x = 6" for x :: bytes
    using that by (intro nth_equalityI) (auto simp: less_Suc_eq numeral_eq_Suc)
  have h: "mac_hex (Some x) = to_hex True x" if "length x = 6" for x
  proof -
    have "length (to_hex True x) \<le> 13" using that by simp
    then show ?thesis by (simp only: mac_hex_def option.case espnow_mac_to_hex_string_def six [OF that] take_all)
  qed
  have "length (mac_hex (Some mac)) = length (mac_hex (Some mac'))" using assms by (simp add: h)
  then have "eb_state_delivery_key mac i tx = eb_state_delivery_key mac' i' tx' \<longleftrightarrow>
      mac_hex (Some mac) = mac_hex (Some mac') \<and> dec_digits (unat i) @ [95] @ dec_digits (unat tx)
        = dec_digits (unat i') @ [95] @ dec_digits (unat tx')"
    by (simp add: eb_state_delivery_key_def)
  also have "\<dots> \<longleftrightarrow> mac = mac' \<and> i = i' \<and> tx = tx'"
    unfolding digits_bar_inject dec_digits_inject h [OF assms(1)] h [OF assms(2)]
    by (auto dest: to_hex_inj simp: word_unat_eq_iff)
  finally show ?thesis .
qed

section \<open>Receipts\<close>

text \<open>A receipt that the component takes: it names a remote with a session, and no session but the current one.\<close>

definition receipt_accepted :: "bp_env \<Rightarrow> ParsedStateReceipt \<Rightarrow> bytes \<Rightarrow> eb \<Rightarrow> bool" where
  "receipt_accepted env r mac b \<longleftrightarrow>
     parse_mac_hex (clean_mac (sr_remote_mac r)) = Some mac
     \<and> (\<exists>session. bp_get_session mac (eb_protocol b) = Some session
          \<and> (sr_session_id r = [] \<or> sr_session_id r = runtime_session_id (bpe_hmac env) session (eb_network_id b)))"

lemma receipt_taken:
  "receipt_accepted env r mac b \<Longrightarrow> eb_handle_state_receipt env r b
    = eb_mark_state_sink_delivered env mac (sr_entity_index r) (sr_state_tx_counter r) STATE_DELIVERY_SINK_PROTOBUF b"
  by (auto simp: eb_handle_state_receipt_def receipt_accepted_def)

lemma receipt_refused: "(\<And>mac. \<not> receipt_accepted env r mac b) \<Longrightarrow> eb_handle_state_receipt env r b = b"
  by (force simp: eb_handle_state_receipt_def receipt_accepted_def split: option.splits)

lemma scan_hex2s_length: "scan_hex2s n t = Some m \<Longrightarrow> length m = n"
  by (induction n arbitrary: t m) (auto split: option.splits prod.splits)

lemma parse_mac_length: "parse_mac_hex t = Some mac \<Longrightarrow> length mac = 6"
  by (auto simp: parse_mac_hex_def split: if_splits dest: scan_hex2s_length)

lemma confirm_keeps [simp]:
  "eb_pending_state_deliveries (eb_confirm_state env mac i tx hop b) = eb_pending_state_deliveries b"
  by (simp add: eb_confirm_state_def)

lemma mark_keeps_others:
  "k \<noteq> eb_state_delivery_key mac i tx \<Longrightarrow>
    eb_pending_state_deliveries (eb_mark_state_sink_delivered env mac i tx sink b) k = eb_pending_state_deliveries b k"
  by (simp add: eb_mark_state_sink_delivered_def Let_def split: option.split)

text \<open>A receipt for another state.\<close>

definition other_state :: "bytes \<Rightarrow> u8 \<Rightarrow> u32 \<Rightarrow> ParsedStateReceipt \<Rightarrow> bool" where
  "other_state mac i tx r \<longleftrightarrow>
     \<not> (parse_mac_hex (clean_mac (sr_remote_mac r)) = Some mac \<and> sr_entity_index r = i \<and> sr_state_tx_counter r = tx)"

lemma other_receipt_keeps:
  assumes "length mac = 6" and "other_state mac i tx r"
  shows "eb_pending_state_deliveries (eb_handle_state_receipt env r b) (eb_state_delivery_key mac i tx)
    = eb_pending_state_deliveries b (eb_state_delivery_key mac i tx)"
proof (cases "\<exists>m. receipt_accepted env r m b")
  case True
  then obtain m where m: "receipt_accepted env r m b" by blast
  then have p: "parse_mac_hex (clean_mac (sr_remote_mac r)) = Some m" by (simp add: receipt_accepted_def)
  then have "eb_state_delivery_key mac i tx \<noteq> eb_state_delivery_key m (sr_entity_index r) (sr_state_tx_counter r)"
    using delivery_key_inject [OF assms(1) parse_mac_length [OF p]] assms(2) by (auto simp: other_state_def)
  then show ?thesis by (simp add: receipt_taken [OF m] mark_keeps_others)
next
  case False
  then show ?thesis using receipt_refused [of env r b] by simp
qed

lemma other_receipts_keep:
  assumes "length mac = 6"
  shows "list_all (\<lambda>(_, r). other_state mac i tx r) rs \<Longrightarrow>
    eb_pending_state_deliveries (fold (\<lambda>(env, r). eb_handle_state_receipt env r) rs b) (eb_state_delivery_key mac i tx)
    = eb_pending_state_deliveries b (eb_state_delivery_key mac i tx)"
  by (induction rs arbitrary: b) (auto simp: other_receipt_keeps [OF assms])

lemma publish_waits:
  assumes "sa_auth_state s = AUTHENTICATED"
    and "b = sa_bridge (sb_publish_state env mac entity val type tx hop s)"
  shows "eb_protocol b = eb_protocol (sa_bridge s)"
    and "eb_pending_state_deliveries b (eb_state_delivery_key mac (bes_entity_index entity) tx)
      = Some \<lparr>psd_leaf_mac = mac, psd_next_hop_mac = hop, psd_entity_index = bes_entity_index entity, psd_message_tx_base = tx,
              psd_required_sinks = 2, psd_delivered_sinks = 0, psd_created_ms = re_now env\<rparr>"
  using assms
  by (simp_all add: sb_publish_state_def Let_def sa_send_envelope_def sa_has_authenticated_client_def eb_publish_state_def
      eb_begin_state_delivery_def active_state_delivery_sinks_def sa_send_cobs_frame_def)

text \<open>
  C14: While a client is there, a published state is not confirmed to its remote; whatever receipts for other states come in
  between, the receipt for this one confirms it, to the neighbour it came from, and once: the same receipt again changes nothing.
\<close>

theorem states_await_receipts:
  assumes "sa_auth_state s = AUTHENTICATED" and "length mac = 6"
    and "b1 = sa_bridge (sb_publish_state env mac entity val type tx hop s)"
    and "b2 = fold (\<lambda>(env, r). eb_handle_state_receipt env r) others b1"
    and "list_all (\<lambda>(_, r). other_state mac (bes_entity_index entity) tx r) others"
    and "receipt_accepted env2 r mac b2" and "sr_entity_index r = bes_entity_index entity" and "sr_state_tx_counter r = tx"
    and "b3 = eb_handle_state_receipt env2 r b2"
  shows "eb_protocol b1 = eb_protocol (sa_bridge s)
    \<and> eb_protocol b3 = fst (bp_confirm_state_delivery env2 mac (bes_entity_index entity) tx hop (eb_protocol b2))
    \<and> eb_handle_state_receipt env3 r b3 = b3"
proof (intro conjI)
  let ?key = "eb_state_delivery_key mac (bes_entity_index entity) tx"
  let ?d = "\<lparr>psd_leaf_mac = mac, psd_next_hop_mac = hop, psd_entity_index = bes_entity_index entity, psd_message_tx_base = tx,
              psd_required_sinks = 2, psd_delivered_sinks = 0, psd_created_ms = re_now env\<rparr>"
  show "eb_protocol b1 = eb_protocol (sa_bridge s)" by (rule publish_waits(1) [OF assms(1,3)])
  have d: "eb_pending_state_deliveries b2 ?key = Some ?d"
    using other_receipts_keep [OF assms(2,5)] publish_waits(2) [OF assms(1,3)] by (simp add: assms(4))
  have b3: "b3 = (eb_confirm_state env2 mac (bes_entity_index entity) tx hop b2)
      \<lparr>eb_pending_state_deliveries := (eb_pending_state_deliveries b2)(?key := None)\<rparr>"
    using d by (simp add: assms(7,8,9) receipt_taken [OF assms(6)] eb_mark_state_sink_delivered_def Let_def)
  then show "eb_protocol b3 = fst (bp_confirm_state_delivery env2 mac (bes_entity_index entity) tx hop (eb_protocol b2))"
    by (simp add: eb_confirm_state_def)
  have gone: "eb_pending_state_deliveries b3 ?key = None" by (simp add: b3)
  show "eb_handle_state_receipt env3 r b3 = b3"
  proof (cases "\<exists>m. receipt_accepted env3 r m b3")
    case True
    then obtain m where m: "receipt_accepted env3 r m b3" by blast
    then have "m = mac" using assms(6) by (simp add: receipt_accepted_def)
    then show ?thesis using gone by (simp add: receipt_taken [OF m] eb_mark_state_sink_delivered_def assms(7,8))
  next
    case False
    then show ?thesis using receipt_refused [of env3 r b3] by simp
  qed
qed

definition demo_receipt :: "u8 \<Rightarrow> ParsedStateReceipt" where
  "demo_receipt i = \<lparr>sr_remote_mac = ascii ''020000000001'', sr_bridge_mac = [], sr_session_id = [], sr_state_tx_counter = 77,
     sr_entity_index = i\<rparr>"

theorem states_await_receipts_witness:
  "\<exists>b2. b2 = eb_handle_state_receipt demo_benv (demo_receipt 1)
        (sa_bridge (sb_publish_state demo_renv demo_hop (demo_entities ! 0) [1] 2 77 demo_hop demo_line))
    \<and> eb_protocol (eb_handle_state_receipt demo_benv (demo_receipt 0) b2)
        = fst (bp_confirm_state_delivery demo_benv demo_hop 0 77 demo_hop (eb_protocol b2))"
proof -
  let ?b1 = "sa_bridge (sb_publish_state demo_renv demo_hop (demo_entities ! 0) [1] 2 77 demo_hop demo_line)"
  let ?b2 = "eb_handle_state_receipt demo_benv (demo_receipt 1) ?b1"
  have p: "parse_mac_hex (clean_mac (ascii ''020000000001'')) = Some demo_hop" by code_simp
  have i: "bes_entity_index (demo_entities ! 0) = 0" by (simp add: demo_entities_def)
  have b1: "eb_protocol ?b1 = eb_protocol demo_component" using publish_waits(1) [of demo_line ?b1] by simp
  have "receipt_accepted demo_benv (demo_receipt 1) demo_hop ?b1"
    by (simp add: receipt_accepted_def demo_receipt_def p b1)
  then have "eb_protocol ?b2 = eb_protocol demo_component"
    using delivery_key_inject [of demo_hop demo_hop 0 77 1 77] b1
    by (simp add: receipt_taken eb_mark_state_sink_delivered_def sb_publish_state_def sa_send_envelope_def
        sa_has_authenticated_client_def eb_publish_state_def eb_begin_state_delivery_def active_state_delivery_sinks_def
        demo_receipt_def i demo_hop_def demo_component_def Let_def)
  then have "receipt_accepted demo_benv (demo_receipt 0) demo_hop ?b2"
    by (simp add: receipt_accepted_def demo_receipt_def p)
  then have "eb_protocol (eb_handle_state_receipt demo_benv (demo_receipt 0) ?b2)
      = fst (bp_confirm_state_delivery demo_benv demo_hop 0 77 demo_hop (eb_protocol ?b2))"
    using states_await_receipts [of demo_line demo_hop ?b1 demo_renv "demo_entities ! 0" "[1]" 2 77 demo_hop ?b2
        "[(demo_benv, demo_receipt 1)]" demo_benv "demo_receipt 0"] i
    by (simp add: other_state_def demo_receipt_def demo_hop_def)
  then show ?thesis by blast
qed

end
