(* ===== verification/SerialOta.thy ===== *)
theory SerialOta
  imports BridgeDemo FileGeometry
begin

text \<open>
  Firmware over the serial line: the chunks the transport expects and those the sender of \<^verbatim>\<open>bridge_ota_manager.cpp\<close>
  has asked for are the same set, and chunks that answer a request get through to the sender.
\<close>

section \<open>The expected and the requested chunks\<close>

definition ota_in_step :: "bo \<Rightarrow> eb serial \<Rightarrow> bool" where
  "ota_in_step m s \<longleftrightarrow> sa_auth_state s = AUTHENTICATED \<and> eb_ota_job_state (sa_bridge s) = JOB_TRANSFERRING
     \<and> eb_ota_manager (sa_bridge s) = Some m \<and> bo_state m = BO_BLASTING
     \<and> sa_ota_pending_sequences s = it_requested_sequences (bo_tracker m)
     \<and> sa_ota_max_chunk_size s = ucast (bo_negotiated_chunk_size m)"

text \<open>A chunk cut from the image as the request asks for it.\<close>

definition honest_chunk :: "bo \<Rightarrow> ParsedOtaChunk \<Rightarrow> bool" where
  "honest_chunk m c \<longleftrightarrow>
     (case oc_payload c of None \<Rightarrow> False
      | Some d \<Rightarrow> bo_expected_chunk_len (oc_sequence c) m \<noteq> 0
          \<and> length d = unat (bo_expected_chunk_len (oc_sequence c) m)
          \<and> oc_crc32 c = crc32_bytes (Some d))
     \<and> oc_offset c = oc_sequence c * ucast (bo_negotiated_chunk_size m) \<and> oc_flags c AND NOT 1 = 0"

lemma unat_less_exp: "unat (w :: 'a::len word) < 2 ^ LENGTH('a)"
  by (rule unsigned_less)

lemma expected_bounds:
  assumes "bo_expected_chunk_len q m \<noteq> 0"
  shows "unat q * unat (bo_negotiated_chunk_size m) < unat (bo_file_size m)"
    and "unat (bo_expected_chunk_len q m) \<le> unat (bo_negotiated_chunk_size m)"
proof -
  let ?off = "ucast q * ucast (bo_negotiated_chunk_size m) :: u64"
  have q: "unat q < 2 ^ 32" and c: "unat (bo_negotiated_chunk_size m) < 2 ^ 16"
    using unsigned_less [of q] unsigned_less [of "bo_negotiated_chunk_size m"] by simp_all
  have "unat q * unat (bo_negotiated_chunk_size m) < 2 ^ 32 * 2 ^ 16" by (rule mult_strict_mono [OF q c]) simp_all
  then have u: "unat ?off = unat q * unat (bo_negotiated_chunk_size m)"
    by (simp add: unat_word_ariths unat_ucast_up)
  have o: "?off < ucast (bo_file_size m)"
    using assms by (auto simp: bo_expected_chunk_len_def Let_def not_le split: if_splits)
  then show "unat q * unat (bo_negotiated_chunk_size m) < unat (bo_file_size m)"
    by (simp add: word_less_nat_alt u unat_ucast_up)
  have e: "bo_expected_chunk_len q m = ucast (min (ucast (bo_file_size m) - ?off) (ucast (bo_negotiated_chunk_size m)))"
    using assms by (auto simp: bo_expected_chunk_len_def Let_def split: if_splits)
  have "unat (bo_expected_chunk_len q m) \<le> unat (min (ucast (bo_file_size m) - ?off) (ucast (bo_negotiated_chunk_size m)))"
    unfolding e by (simp add: unsigned_ucast_eq take_bit_nat_less_eq_self)
  also have "\<dots> \<le> unat (ucast (bo_negotiated_chunk_size m) :: u64)"
    by (simp add: min_def word_le_nat_alt)
  finally show "unat (bo_expected_chunk_len q m) \<le> unat (bo_negotiated_chunk_size m)"
    by (simp add: unat_ucast_up)
qed

lemma honest_offset:
  assumes "bo_expected_chunk_len q m \<noteq> 0"
  shows "(ucast (q * ucast (bo_negotiated_chunk_size m)) :: u64) = ucast q * ucast (ucast (bo_negotiated_chunk_size m) :: u32)"
proof -
  have l: "unat q * unat (bo_negotiated_chunk_size m) < 2 ^ 32"
  proof -
    have "unat (bo_file_size m) < 2 ^ 32" using unat_less_exp [of "bo_file_size m"] by simp
    then show ?thesis using expected_bounds(1) [OF assms] by linarith
  qed
  have "unat (q * ucast (bo_negotiated_chunk_size m)) = unat q * unat (bo_negotiated_chunk_size m)"
    using l by (simp add: unat_word_ariths unat_ucast_up)
  then have "unat (ucast (q * ucast (bo_negotiated_chunk_size m)) :: u64) = unat q * unat (bo_negotiated_chunk_size m)"
    by (simp add: unat_ucast_up)
  moreover have "unat (ucast q * ucast (ucast (bo_negotiated_chunk_size m) :: u32) :: u64)
      = unat q * unat (bo_negotiated_chunk_size m)"
    using l by (simp add: unat_word_ariths unat_ucast_up)
  ultimately show ?thesis by (simp add: word_unat_eq_iff)
qed

lemma expected_of_tracker [simp]:
  "bo_expected_chunk_len q (m\<lparr>bo_pending_chunks := p\<rparr>) = bo_expected_chunk_len q m"
  "it_total_chunks t' = it_total_chunks (bo_tracker m) \<Longrightarrow> bo_expected_chunk_len q (m\<lparr>bo_tracker := t'\<rparr>) = bo_expected_chunk_len q m"
  by (simp_all add: bo_expected_chunk_len_def Let_def)

section \<open>One chunk\<close>

definition bo_taken :: "ParsedOtaChunk \<Rightarrow> bo \<Rightarrow> bo" where
  "bo_taken c m =
     m\<lparr>bo_pending_chunks := bo_pending_chunks m @ [\<lparr>qc_sequence = oc_sequence c, qc_data = the (oc_payload c)\<rparr>],
       bo_tracker := (bo_tracker m)\<lparr>it_requested_sequences := it_requested_sequences (bo_tracker m) - {oc_sequence c}\<rparr>\<rparr>"

lemma bo_taken_simps [simp]:
  "bo_state (bo_taken c m) = bo_state m" "bo_negotiated_chunk_size (bo_taken c m) = bo_negotiated_chunk_size m"
  "it_requested_sequences (bo_tracker (bo_taken c m)) = it_requested_sequences (bo_tracker m) - {oc_sequence c}"
  "bo_expected_chunk_len q (bo_taken c m) = bo_expected_chunk_len q m"
  by (simp_all add: bo_taken_def bo_expected_chunk_len_def Let_def)

lemma honest_taken [simp]: "honest_chunk (bo_taken c m) = honest_chunk m"
  by (simp add: honest_chunk_def fun_eq_iff split: option.split)

lemma chunk_taken:
  assumes "ota_in_step m s" and "honest_chunk m c" and "oc_sequence c \<in> sa_ota_pending_sequences s"
  shows "\<exists>s'. sa_take_chunk (eb_calls env) c s = (s', True) \<and> ota_in_step (bo_taken c m) s'
    \<and> sa_written s' = sa_written s \<and> sa_bridge s' = (sa_bridge s)\<lparr>eb_ota_manager := Some (bo_taken c m)\<rparr>"
proof -
  obtain d where d: "oc_payload c = Some d" "bo_expected_chunk_len (oc_sequence c) m \<noteq> 0"
      "length d = unat (bo_expected_chunk_len (oc_sequence c) m)" "oc_crc32 c = crc32_bytes (Some d)"
      "oc_offset c = oc_sequence c * ucast (bo_negotiated_chunk_size m)" "oc_flags c AND NOT 1 = 0"
    using assms(2) by (auto simp: honest_chunk_def split: option.splits)
  have "0 < length d" using d(2,3) by (metis neq0_conv unat_eq_zero)
  moreover have "length d \<le> unat (ucast (bo_negotiated_chunk_size m) :: u32)"
    using expected_bounds(2) [OF d(2)] d(3) by (simp add: unat_ucast_up)
  ultimately have valid: "\<not> sa_chunk_invalid s c"
    using assms(1,3) d honest_offset [OF d(2)] by (auto simp: sa_chunk_invalid_def ota_in_step_def not_less)
  have inj: "bc_ota_inject_chunk (eb_calls env) (sa_bridge s) (oc_sequence c) d
      = ((sa_bridge s)\<lparr>eb_ota_manager := Some (bo_taken c m)\<rparr>, True)"
    using assms(1,3) d by (auto simp: eb_calls_def eb_ota_inject_chunk_def ota_in_step_def bo_on_source_chunk_def bo_taken_def Let_def)
  show ?thesis
    using assms(1) valid inj d(1) by (simp add: sa_take_chunk_def Let_def ota_in_step_def)
qed

lemma chunks_taken:
  assumes "ota_in_step m s" and "list_all (honest_chunk m) cs" and "distinct (map oc_sequence cs)"
    and "set (map oc_sequence cs) \<subseteq> sa_ota_pending_sequences s"
  shows "ota_in_step (fold bo_taken cs m) (sa_take_chunks (eb_calls env) rid job cs s)
    \<and> sa_written (sa_take_chunks (eb_calls env) rid job cs s) = sa_written s
    \<and> sa_bridge (sa_take_chunks (eb_calls env) rid job cs s)
        = (sa_bridge s)\<lparr>eb_ota_manager := Some (fold bo_taken cs m)\<rparr>"
  using assms
proof (induction cs arbitrary: m s)
  case Nil
  then show ?case by (auto simp: ota_in_step_def)
next
  case (Cons c cs)
  have c: "honest_chunk m c" "oc_sequence c \<in> sa_ota_pending_sequences s" using Cons.prems by simp_all
  obtain s' where s': "sa_take_chunk (eb_calls env) c s = (s', True)" "ota_in_step (bo_taken c m) s'"
      "sa_written s' = sa_written s" "sa_bridge s' = (sa_bridge s)\<lparr>eb_ota_manager := Some (bo_taken c m)\<rparr>"
    using chunk_taken [OF Cons.prems(1) c] by blast
  have p: "set (map oc_sequence cs) \<subseteq> sa_ota_pending_sequences s'"
    using Cons.prems(1,3,4) s'(2) by (auto simp: ota_in_step_def) (metis imageI)
  show ?case
    using Cons.IH [OF s'(2) _ _ p] Cons.prems(2,3) s' by simp
qed

lemma fold_taken:
  "bo_pending_chunks (fold bo_taken cs m)
     = bo_pending_chunks m @ map (\<lambda>c. \<lparr>qc_sequence = oc_sequence c, qc_data = the (oc_payload c)\<rparr>) cs"
  "it_requested_sequences (bo_tracker (fold bo_taken cs m)) = it_requested_sequences (bo_tracker m) - set (map oc_sequence cs)"
  by (induction cs arbitrary: m) (auto simp: bo_taken_def)

section \<open>A batch\<close>

text \<open>An image of three bytes in chunks of two, of which the last chunk is asked for; and a batch of it.\<close>

definition demo_manager :: bo where
  "demo_manager = (ESPNowOTAManager_init bo_default_config)\<lparr>bo_state := BO_BLASTING, bo_file_size := 3,
     bo_negotiated_chunk_size := 2, bo_tracker := it_reset\<lparr>it_total_chunks := 2, it_requested_sequences := {1}\<rparr>\<rparr>"

definition demo_ota_line :: "eb serial" where
  "demo_ota_line = demo_line\<lparr>sa_bridge := demo_component\<lparr>eb_ota_job_state := JOB_TRANSFERRING, eb_ota_job_id := [74],
       eb_ota_manager := Some demo_manager\<rparr>,
     sa_ota_pending_sequences := {1}, sa_ota_max_chunk_size := 2, sa_ota_max_chunks_per_batch := 8,
     sa_ota_chunk_request_id := [81]\<rparr>"

definition demo_chunk :: ParsedOtaChunk where
  "demo_chunk = \<lparr>oc_sequence = 1, oc_offset = 2, oc_payload = Some [3], oc_flags = 0, oc_crc32 = crc32_bytes (Some [3])\<rparr>"

definition demo_batch :: "bytes \<Rightarrow> bytes" where
  "demo_batch answered = client_line [] PB_OTA_CHUNK_BATCH (pb_written [PbBytes 1 [74], PbBytes 2 answered,
     PbBytes 3 (pb_written [PbVarint 1 1, PbVarint 2 2, PbBytes 3 [3], PbVarint 5 (ucast (crc32_bytes (Some [3])))])])"

lemma demo_batch_message:
  assumes "answered \<noteq> []" and "length answered < 1000"
  shows "\<exists>e. line_message (demo_batch answered) = Some e \<and> pe_msg_field e = PB_OTA_CHUNK_BATCH
    \<and> parse_ota_chunk_batch (pe_msg_data e)
        = Some \<lparr>cb_job_id = [74], cb_response_request_id = answered, cb_chunks = [demo_chunk]\<rparr>"
proof -
  let ?c = "[PbVarint 1 1, PbVarint 2 2, PbBytes 3 [3], PbVarint 5 (ucast (crc32_bytes (Some [3])))]"
  let ?is = "[PbBytes 1 [74], PbBytes 2 answered, PbBytes 3 (pb_written ?c)]"
  have cl: "length (pb_written ?c) \<le> 81" using pb_written_length [of ?c] by simp
  have fits: "list_all pb_fits ?is" "list_all pb_fits ?c" using cl assms(2) by simp_all
  have "parse_ota_chunk_message (pb_written ?c) = Some demo_chunk"
    unfolding parse_ota_chunk_message_def parse_written [OF fits(2)]
    by (simp add: ota_chunk_field_def demo_chunk_def ucast_up_ucast_id is_up)
  then have "parse_ota_chunk_batch (pb_written ?is)
      = Some \<lparr>cb_job_id = [74], cb_response_request_id = answered, cb_chunks = [demo_chunk]\<rparr>"
    unfolding parse_ota_chunk_batch_def parse_written [OF fits(1)]
    using assms(1) by (simp add: ota_chunk_batch_field_def pf_bytes_def)
  moreover have "length (pb_written ?is) < 2 ^ 64"
    using pb_written_length [of ?is] cl assms(2) by simp
  ultimately show ?thesis
    using client_line_message [of "[]" "pb_written ?is" PB_OTA_CHUNK_BATCH] by (simp add: demo_batch_def)
qed

lemma demo_ota_simps [simp]:
  "sa_auth_state demo_ota_line = AUTHENTICATED" "sa_written demo_ota_line = []" "sa_ota_pending_sequences demo_ota_line = {1}"
  "sa_ota_chunk_request_id demo_ota_line = [81]" "sa_ota_max_chunks_per_batch demo_ota_line = 8"
  "sa_ota_max_chunk_size demo_ota_line = 2" "eb_ota_job_state (sa_bridge demo_ota_line) = JOB_TRANSFERRING"
  "eb_ota_job_id (sa_bridge demo_ota_line) = [74]" "eb_ota_manager (sa_bridge demo_ota_line) = Some demo_manager"
  "eb_ota_transport_callbacks (sa_bridge demo_ota_line)" "eb_ota_chunk_request_counter (sa_bridge demo_ota_line) = 0"
  "oc_sequence demo_chunk = 1" "oc_payload demo_chunk = Some [3]" "bo_state demo_manager = BO_BLASTING"
  "bo_negotiated_chunk_size demo_manager = 2" "bo_pending_chunks demo_manager = []"
  "it_requested_sequences (bo_tracker demo_manager) = {1}"
  by (simp_all add: demo_ota_line_def demo_chunk_def demo_manager_def it_reset_def demo_component_def ESPNowOTAManager_init_def)

lemma demo_in_step: "ota_in_step demo_manager demo_ota_line"
  by (simp add: ota_in_step_def)

lemma demo_chunk_honest: "honest_chunk demo_manager demo_chunk"
  by (simp add: honest_chunk_def demo_chunk_def demo_manager_def bo_expected_chunk_len_def Let_def it_reset_def min_def
      word_le_nat_alt)

text \<open>
  C15: Chunks that answer the last request get through: if the transport and the sender agree on the open chunks, a batch for
  that request, of some of them, each once and cut from the image as asked, is taken whole without an error. Its chunks are queued for the
  radio in their order, the sender waits for the others only, and both still agree.
\<close>

theorem ota_batch_taken:
  assumes "ota_in_step m s" and "line_message f = Some e" and "pe_msg_field e = PB_OTA_CHUNK_BATCH"
    and "parse_ota_chunk_batch (pe_msg_data e) = Some batch" and "cb_job_id batch = eb_ota_job_id (sa_bridge s)"
    and "cb_response_request_id batch = sa_ota_chunk_request_id s"
    and "length (cb_chunks batch) \<le> unat (sa_ota_max_chunks_per_batch s)"
    and "list_all (honest_chunk m) (cb_chunks batch)" and "distinct (map oc_sequence (cb_chunks batch))"
    and "set (map oc_sequence (cb_chunks batch)) \<subseteq> sa_ota_pending_sequences s"
  shows "\<exists>m'. ota_in_step m' (sa_frame senv (eb_calls env) f s)
    \<and> sa_written (sa_frame senv (eb_calls env) f s) = sa_written s
    \<and> bo_pending_chunks m' = bo_pending_chunks m
        @ map (\<lambda>c. \<lparr>qc_sequence = oc_sequence c, qc_data = the (oc_payload c)\<rparr>) (cb_chunks batch)
    \<and> it_requested_sequences (bo_tracker m') = it_requested_sequences (bo_tracker m) - set (map oc_sequence (cb_chunks batch))"
proof -
  let ?s = "s\<lparr>sa_last_data_ms := se_millis senv\<rparr>"
  have step: "ota_in_step m ?s" using assms(1) by (simp add: ota_in_step_def)
  have active: "bc_ota_has_active_job (eb_calls env) (sa_bridge s)" "bc_ota_active_job_id (eb_calls env) (sa_bridge s) = eb_ota_job_id (sa_bridge s)"
    using assms(1) by (simp_all add: eb_calls_def eb_ota_has_active_job_def eb_ota_active_job_id_def ota_in_step_def)
  have "sa_frame senv (eb_calls env) f s
      = sa_take_chunks (eb_calls env) (pe_request_id e) (cb_job_id batch) (cb_chunks batch) ?s"
    using frame_message [OF assms(2), of senv "eb_calls env" s] assms(1,3-7) active
    by (simp add: sa_handle_envelope_def sa_dispatch_def sa_handle_ota_chunk_batch_def ota_in_step_def)
  then show ?thesis
    using chunks_taken [OF step assms(8,9), of env "pe_request_id e" "cb_job_id batch"] assms(10) fold_taken [of "cb_chunks batch" m]
    by auto
qed

theorem ota_batch_taken_witness:
  "\<exists>m'. ota_in_step m' (sa_frame (demo_senv 5) (eb_calls demo_renv) (demo_batch [81]) demo_ota_line)
    \<and> bo_pending_chunks m' = [\<lparr>qc_sequence = 1, qc_data = [3]\<rparr>] \<and> it_requested_sequences (bo_tracker m') = {}"
proof -
  obtain e where e: "line_message (demo_batch [81]) = Some e" "pe_msg_field e = PB_OTA_CHUNK_BATCH"
      "parse_ota_chunk_batch (pe_msg_data e) = Some \<lparr>cb_job_id = [74], cb_response_request_id = [81], cb_chunks = [demo_chunk]\<rparr>"
    using demo_batch_message [of "[81]"] by auto
  show ?thesis
    using ota_batch_taken [OF demo_in_step e, of "demo_senv 5" demo_renv] demo_chunk_honest
    by auto
qed

section \<open>Getting in step\<close>

lemma requested_set: "set (sorted_list_of_set (it_requested_sequences t)) = it_requested_sequences t"
  by (rule set_sorted_list_of_set) (rule finite)










text \<open>The remote's acceptance brings them in step for the first time.\<close>

lemma acceptance_in_step:
  assumes "sa_auth_state s = AUTHENTICATED" and "eb_ota_transport_callbacks (sa_bridge s)"
    and "eb_ota_job_state (sa_bridge s) = WAITING_FOR_LEAF" and "eb_ota_manager (sa_bridge s) = Some m"
    and "bo_state m = BO_BLASTING" and "bo_public_state m = ''TRANSFERRING''"
    and "eb_ota_manager_prev_public_state (sa_bridge s) \<noteq> ''TRANSFERRING''"
  shows "ota_in_step m (sb_emit_ota_events now s)"
proof -
  have "bo_is_busy m" using assms(5) by (simp add: bo_is_busy_def)
  then show ?thesis
    using assms requested_set [of "bo_tracker m"]
    by (simp add: sb_emit_ota_events_def eb_emit_ota_events_def eb_emit_waiting_def eb_request_chunks_def
        eb_next_chunk_request_id_def eb_requested_sequences_def Let_def sa_apply_callback_def sa_on_ota_accepted_def
        sa_on_ota_chunk_request_def sa_has_authenticated_client_def sa_send_cobs_frame_def ota_in_step_def)
qed

end
