(* ===== verification/WsApi.thy ===== *)
theory WsApi
  imports SerialApi
begin

text \<open>
  The runtime interface over a WebSocket (\<^verbatim>\<open>esp_tree_bridge/bridge_api_proto_ws.cpp\<close>). The transport is the
  record \<open>'b ws\<close> over the same calls \<open>'b bridge_calls\<close> of the component as the serial transport. Two tasks work on it:
  the component's loop queues frames, the socket's task reads requests and writes the queue. Every operation below is one stretch
  of code between two waits, so an interleaving of the tasks is a sequence of operations. Bytes given to a
  socket are appended to \<open>ws_sent\<close>; what a socket delivers until it ends or times out is the list a reader is
  given. Whether a socket takes bytes, the accept key (SHA-1 and Base64 of mbedtls) and the outcome of starting a
  task are arguments. The counters of the status log have no effect and are left out.
\<close>

section \<open>The transport\<close>

record ws_env =
  we_millis :: u32
  we_random :: bytes
  we_hmac :: "bytes \<Rightarrow> bytes \<Rightarrow> bytes"
  we_double_text :: "bytes \<Rightarrow> bytes"
  we_send_ok :: "int \<Rightarrow> bytes \<Rightarrow> bool"

abbreviation (input) MAX_OUTBOUND_QUEUE_FRAMES :: nat where "MAX_OUTBOUND_QUEUE_FRAMES \<equiv> 256"
abbreviation (input) MAX_OUTBOUND_QUEUE_BYTES :: nat where "MAX_OUTBOUND_QUEUE_BYTES \<equiv> 262144"

record 'b ws =
  ws_bridge :: 'b
  ws_active_fd :: int
  ws_connected :: bool
  ws_authenticated :: bool
  ws_last_heartbeat_ms :: u32
  ws_outbound_frames :: "bytes list"
  ws_outbound_bytes :: nat
  ws_server_nonce :: bytes
  ws_ota_chunk_request_id :: bytes
  ws_ota_job_id :: bytes
  ws_ota_pending_sequences :: "u32 set"
  ws_ota_max_chunk_size :: u32
  ws_ota_max_chunks_per_batch :: u32
  ws_sent :: "(int \<times> bytes) list"

definition ws_init :: "'b \<Rightarrow> 'b ws" where
  "ws_init b =
     \<lparr>ws_bridge = b, ws_active_fd = - 1, ws_connected = False, ws_authenticated = False, ws_last_heartbeat_ms = 0,
      ws_outbound_frames = [], ws_outbound_bytes = 0, ws_server_nonce = replicate 16 0, ws_ota_chunk_request_id = [],
      ws_ota_job_id = [], ws_ota_pending_sequences = {}, ws_ota_max_chunk_size = 2048,
      ws_ota_max_chunks_per_batch = 6, ws_sent = []\<rparr>"

definition ws_has_authenticated_client :: "'b ws \<Rightarrow> bool" where
  "ws_has_authenticated_client s \<longleftrightarrow> ws_connected s \<and> ws_authenticated s \<and> 0 \<le> ws_active_fd s"

definition ws_is_active_fd :: "int \<Rightarrow> 'b ws \<Rightarrow> bool" where
  "ws_is_active_fd fd s \<longleftrightarrow> ws_connected s \<and> ws_active_fd s = fd"

section \<open>Frames of the socket\<close>

definition ws_frame_header :: "u8 \<Rightarrow> nat \<Rightarrow> bytes option" where
  "ws_frame_header opcode len =
     (let first = 0x80 OR (opcode AND 0x0F) in
      if len < 126 then Some [first, of_nat len]
      else if len \<le> 0xFFFF then Some [first, 126, of_nat (len div 256 mod 256), of_nat (len mod 256)]
      else None)"

definition ws_send_frame :: "ws_env \<Rightarrow> u8 \<Rightarrow> bytes \<Rightarrow> 'b ws \<Rightarrow> 'b ws \<times> bool" where
  "ws_send_frame env opcode payload s =
     (let fd = ws_active_fd s in
      if \<not> ws_connected s \<or> fd < 0 then (s, False)
      else if kRuntimeMaxFrameBytes < length payload then (s, False)
      else case ws_frame_header opcode (length payload) of None \<Rightarrow> (s, False)
      | Some header \<Rightarrow>
          if \<not> we_send_ok env fd header then (s, False)
          else (let s = s\<lparr>ws_sent := ws_sent s @ [(fd, header)]\<rparr> in
                if payload = [] then (s, True)
                else if \<not> we_send_ok env fd payload then (s, False)
                else (s\<lparr>ws_sent := ws_sent s @ [(fd, payload)]\<rparr>, True)))"

definition ws_read_exact :: "nat \<Rightarrow> bytes \<Rightarrow> (bytes \<times> bytes) option" where
  "ws_read_exact n input = (if length input < n then None else Some (take n input, drop n input))"

definition ws_unmask :: "bytes \<Rightarrow> bytes \<Rightarrow> bytes" where
  "ws_unmask masking payload = map (\<lambda>(i, b). b XOR masking ! (i mod 4)) (enumerate 0 payload)"

definition ws_read_payload :: "nat \<Rightarrow> bytes \<Rightarrow> (bytes \<times> bytes) option" where
  "ws_read_payload len input =
     (if kRuntimeMaxFrameBytes < len then None else
      case ws_read_exact 4 input of None \<Rightarrow> None
      | Some (masking, input) \<Rightarrow>
          (case ws_read_exact len input of None \<Rightarrow> None
           | Some (payload, input) \<Rightarrow> Some (ws_unmask masking payload, input)))"

definition ws_read_frame :: "bytes \<Rightarrow> (u8 \<times> bytes \<times> bytes) option" where
  "ws_read_frame input =
     (case ws_read_exact 2 input of None \<Rightarrow> None
      | Some (header, input) \<Rightarrow>
          (let opcode = header ! 0 AND 0x0F; len = unat (header ! 1 AND 0x7F) in
           if header ! 0 AND 0x80 = 0 \<or> header ! 1 AND 0x80 = 0 then None
           else if len = 126 then
             (case ws_read_exact 2 input of None \<Rightarrow> None
              | Some (ext, input) \<Rightarrow>
                  map_option (Pair opcode) (ws_read_payload (unat (ext ! 0) * 256 + unat (ext ! 1)) input))
           else if len = 127 then None
           else map_option (Pair opcode) (ws_read_payload len input)))"

lemma read_payload_shorter: "ws_read_payload len input = Some (p, rest) \<Longrightarrow> length rest < length input"
  by (auto simp: ws_read_payload_def ws_read_exact_def split: if_splits)

lemma read_frame_shorter: "ws_read_frame input = Some (opcode, p, rest) \<Longrightarrow> length rest < length input"
  by (auto simp: ws_read_frame_def ws_read_exact_def Let_def split: if_splits option.splits dest!: read_payload_shorter)

section \<open>The queue\<close>

definition ws_close_client :: "ws_env \<Rightarrow> 'b ws \<Rightarrow> 'b ws" where
  "ws_close_client env s =
     (let fd = ws_active_fd s;
          s = s\<lparr>ws_connected := False, ws_authenticated := False, ws_active_fd := - 1, ws_outbound_frames := [],
                ws_outbound_bytes := 0\<rparr>
      in if 0 \<le> fd then fst (ws_send_frame env 0x8 [] s) else s)"

definition ws_send_binary :: "ws_env \<Rightarrow> bytes \<Rightarrow> 'b ws \<Rightarrow> 'b ws \<times> bool" where
  "ws_send_binary env payload s =
     (if \<not> ws_connected s \<or> ws_active_fd s < 0 then (s, False)
      else if MAX_OUTBOUND_QUEUE_FRAMES \<le> length (ws_outbound_frames s)
              \<or> MAX_OUTBOUND_QUEUE_BYTES < ws_outbound_bytes s + length payload
      then (ws_close_client env s, False)
      else (s\<lparr>ws_outbound_frames := ws_outbound_frames s @ [payload],
              ws_outbound_bytes := ws_outbound_bytes s + length payload\<rparr>, True))"

abbreviation (input) ws_send :: "ws_env \<Rightarrow> bytes \<Rightarrow> 'b ws \<Rightarrow> 'b ws" where
  "ws_send env payload s \<equiv> fst (ws_send_binary env payload s)"

lemma outbound_send_frame [simp]:
  "ws_outbound_frames (fst (ws_send_frame env op p s)) = ws_outbound_frames s"
  "ws_send_frame env op p s = (s', ok) \<Longrightarrow> ws_outbound_frames s' = ws_outbound_frames s"
proof -
  show "ws_outbound_frames (fst (ws_send_frame env op p s)) = ws_outbound_frames s"
    by (simp add: ws_send_frame_def Let_def split: option.split)
  then show "ws_send_frame env op p s = (s', ok) \<Longrightarrow> ws_outbound_frames s' = ws_outbound_frames s" by simp
qed

function ws_flush_pending_sends :: "ws_env \<Rightarrow> 'b ws \<Rightarrow> 'b ws \<times> bool" where
  "ws_flush_pending_sends env s =
     (if \<not> ws_connected s \<or> ws_active_fd s < 0 then (s, False)
      else case ws_outbound_frames s of [] \<Rightarrow> (s, True)
      | payload # frames \<Rightarrow>
          (case ws_send_frame env 0x2 payload
                  (s\<lparr>ws_outbound_bytes := ws_outbound_bytes s - length payload, ws_outbound_frames := frames\<rparr>) of
             (s, False) \<Rightarrow> (ws_close_client env s, False)
           | (s, True) \<Rightarrow> ws_flush_pending_sends env s))"
  by pat_completeness auto

termination
  by (relation "measure (\<lambda>(_, s). length (ws_outbound_frames s))") (auto dest: sym [THEN outbound_send_frame(2)])

declare ws_flush_pending_sends.simps [simp del]

abbreviation (input) ws_flush :: "ws_env \<Rightarrow> 'b ws \<Rightarrow> 'b ws" where
  "ws_flush env s \<equiv> fst (ws_flush_pending_sends env s)"

section \<open>Sessions\<close>

datatype ws_upgrade = UpgradeNoKey | UpgradeNoApiKey | UpgradeConflict | UpgradeFailed | Upgraded bytes

definition ws_finish_session :: "'b bridge_calls \<Rightarrow> int \<Rightarrow> 'b ws \<Rightarrow> 'b ws" where
  "ws_finish_session B fd s =
     (if ws_active_fd s \<noteq> fd then s
      else s\<lparr>ws_connected := False, ws_authenticated := False, ws_active_fd := - 1, ws_outbound_frames := [],
             ws_outbound_bytes := 0, ws_ota_chunk_request_id := [], ws_ota_job_id := [],
             ws_ota_pending_sequences := {}, ws_bridge := bc_clear_ota_transport_callbacks B (ws_bridge s)\<rparr>)"

definition ws_run_socket_session ::
  "ws_env \<Rightarrow> 'b bridge_calls \<Rightarrow> (bytes \<Rightarrow> bytes) \<Rightarrow> bool \<Rightarrow> bool \<Rightarrow> bytes option \<Rightarrow> int \<Rightarrow> 'b ws \<Rightarrow> 'b ws \<times> ws_upgrade" where
  "ws_run_socket_session env B accept_key async_ok task_ok client_key fd s =
     (case client_key of None \<Rightarrow> (s, UpgradeNoKey)
      | Some k \<Rightarrow>
          if bc_api_key B (ws_bridge s) = [] then (s, UpgradeNoApiKey)
          else if ws_connected s then (s, UpgradeConflict)
          else (let s = s\<lparr>ws_connected := True, ws_authenticated := False, ws_active_fd := fd,
                          ws_server_nonce := take 16 (we_random env)\<rparr>
                in if accept_key k = [] \<or> \<not> async_ok then (ws_finish_session B fd s, UpgradeFailed)
                   else if \<not> task_ok then (ws_finish_session B fd s, Upgraded (accept_key k))
                   else (s, Upgraded (accept_key k))))"

definition ws_send_auth_challenge :: "ws_env \<Rightarrow> 'b bridge_calls \<Rightarrow> 'b ws \<Rightarrow> 'b ws" where
  "ws_send_auth_challenge env B s =
     ws_send env
       (pb_envelope [] PB_AUTH_CHALLENGE (\<lambda>w.
          pb_string 5 (bc_bridge_mac B (ws_bridge s)) (pb_string 4 kRuntimeProtocol
            (pb_varint 3 (ucast kRuntimeApiVersion) (pb_varint 2 (ucast kRuntimeApiVersion)
              (pb_bytes 1 (ws_server_nonce s) w)))))) s"

definition ws_verify_auth_response :: "ws_env \<Rightarrow> 'b bridge_calls \<Rightarrow> 'b ws \<Rightarrow> ParsedAuthResponse \<Rightarrow> bool" where
  "ws_verify_auth_response env B s r \<longleftrightarrow>
     (if ar_client_kind r \<noteq> ascii ''ha_integration'' \<or> ar_client_nonce r = []
         \<or> length (ar_hmac_sha256 r) \<noteq> kRuntimeHmacBytes then False
      else bytes_diff
             (we_hmac env (bc_api_key B (ws_bridge s))
                (auth_input (ar_client_kind r) (ws_server_nonce s) (ar_client_nonce r)))
             (ar_hmac_sha256 r) 0 = 0)"

definition ws_send_error :: "ws_env \<Rightarrow> bytes \<Rightarrow> string \<Rightarrow> string \<Rightarrow> 'b ws \<Rightarrow> 'b ws" where
  "ws_send_error env request_id code message = ws_send env (error_envelope request_id (ascii code) (ascii message))"

section \<open>Calls of the bridge back\<close>

definition ws_emit :: "ws_env \<Rightarrow> bytes \<Rightarrow> 'b ws \<Rightarrow> 'b ws" where
  "ws_emit env frame s = (if \<not> ws_has_authenticated_client s then s else ws_send env frame s)"

definition ws_emit_remote_state :: "ws_env \<Rightarrow> bytes \<Rightarrow> bytes \<Rightarrow> 'b ws \<Rightarrow> 'b ws" where
  "ws_emit_remote_state env val frame s =
     (if \<not> ws_has_authenticated_client s \<or> val = [] then s else ws_send env frame s)"

definition ws_on_ota_accepted ::
  "ws_env \<Rightarrow> bytes \<Rightarrow> bytes \<Rightarrow> bytes \<Rightarrow> u16 \<Rightarrow> u32 \<Rightarrow> u16 \<Rightarrow> 'b ws \<Rightarrow> 'b ws" where
  "ws_on_ota_accepted env request_id job_id target_mac max_chunk_size total_chunks max_chunks_per_batch s =
     (if \<not> ws_has_authenticated_client s then s else
      ws_send env
        (encode_ota_accepted request_id job_id target_mac (ucast max_chunk_size) total_chunks (ucast max_chunks_per_batch))
        (s\<lparr>ws_ota_job_id := job_id, ws_ota_max_chunk_size := ucast max_chunk_size,
           ws_ota_max_chunks_per_batch := ucast max_chunks_per_batch\<rparr>))"

definition ws_on_ota_chunk_request :: "ws_env \<Rightarrow> chunk_request \<Rightarrow> 'b ws \<Rightarrow> 'b ws" where
  "ws_on_ota_chunk_request env q s =
     (if \<not> ws_has_authenticated_client s then s else
      ws_send env
        (encode_ota_chunk_request [] (cq_job_id q) (cq_chunk_request_id q) (cq_sequences q) (cq_progress q))
        (s\<lparr>ws_ota_job_id := cq_job_id q, ws_ota_chunk_request_id := cq_chunk_request_id q,
           ws_ota_pending_sequences := set (cq_sequences q)\<rparr>))"

definition ws_on_ota_status :: "ws_env \<Rightarrow> bytes \<Rightarrow> u32 \<Rightarrow> u32 \<Rightarrow> u32 \<Rightarrow> u32 \<Rightarrow> bytes \<Rightarrow> 'b ws \<Rightarrow> 'b ws" where
  "ws_on_ota_status env job_id state percent bytes_received file_size error_detail s =
     (if \<not> ws_has_authenticated_client s then s else
      ws_send env (encode_ota_status [] job_id state percent bytes_received file_size error_detail) s)"

definition ws_on_ota_aborted :: "ws_env \<Rightarrow> bytes \<Rightarrow> bytes \<Rightarrow> bytes \<Rightarrow> 'b ws \<Rightarrow> 'b ws" where
  "ws_on_ota_aborted env request_id job_id reason s =
     (if \<not> ws_has_authenticated_client s then s else
      ws_send env (encode_ota_aborted request_id job_id reason)
        (s\<lparr>ws_ota_chunk_request_id := [], ws_ota_job_id := [], ws_ota_pending_sequences := {}\<rparr>))"

definition ws_emit_heartbeat_if_due :: "ws_env \<Rightarrow> 'b bridge_calls \<Rightarrow> 'b ws \<Rightarrow> 'b ws" where
  "ws_emit_heartbeat_if_due env B s =
     (if \<not> ws_has_authenticated_client s then s
      else if ws_last_heartbeat_ms s \<noteq> 0
              \<and> we_millis env - ws_last_heartbeat_ms s < kRuntimeHeartbeatIntervalMs then s
      else ws_send env (bc_encode_heartbeat B (ws_bridge s)) (s\<lparr>ws_last_heartbeat_ms := we_millis env\<rparr>))"

section \<open>Firmware\<close>

definition ws_handle_ota_start :: "ws_env \<Rightarrow> 'b bridge_calls \<Rightarrow> ParsedEnvelope \<Rightarrow> 'b ws \<Rightarrow> 'b ws" where
  "ws_handle_ota_start env B e s =
     (case parse_ota_start_request (pe_msg_data e) of
        None \<Rightarrow> ws_send_error env (pe_request_id e) ''invalid_ota_start'' ''Invalid OTA start request'' s
      | Some request \<Rightarrow>
          (case bc_ota_start B (ws_bridge s) request (pe_request_id e) of
             (b, Inl error_msg) \<Rightarrow>
               ws_send env
                 (error_envelope (pe_request_id e) (ota_start_error_code (Some error_msg))
                    (if error_msg = [] then ascii ''OTA start failed'' else error_msg)) (s\<lparr>ws_bridge := b\<rparr>)
           | (b, Inr job_id) \<Rightarrow>
               ws_send env
                 (encode_ota_status [] job_id OTA_STATE_ANNOUNCING 0 0 (os_file_size request) []) (s\<lparr>ws_bridge := b\<rparr>)))"

definition ws_chunk_invalid :: "'b ws \<Rightarrow> ParsedOtaChunk \<Rightarrow> bool" where
  "ws_chunk_invalid s chunk \<longleftrightarrow>
     oc_sequence chunk \<notin> ws_ota_pending_sequences s
     \<or> oc_payload chunk = None
     \<or> length (the (oc_payload chunk)) = 0
     \<or> unat (ws_ota_max_chunk_size s) < length (the (oc_payload chunk))
     \<or> (ucast (oc_offset chunk) :: u64) \<noteq> ucast (oc_sequence chunk) * ucast (ws_ota_max_chunk_size s)
     \<or> oc_flags chunk AND NOT 1 \<noteq> 0
     \<or> crc32_bytes (oc_payload chunk) \<noteq> oc_crc32 chunk"

definition ws_take_chunk :: "'b bridge_calls \<Rightarrow> ParsedOtaChunk \<Rightarrow> 'b ws \<Rightarrow> 'b ws \<times> bool" where
  "ws_take_chunk B chunk s =
     (if ws_chunk_invalid s chunk then (s, False) else
      case bc_ota_inject_chunk B (ws_bridge s) (oc_sequence chunk) (the (oc_payload chunk)) of
        (b, ok) \<Rightarrow>
          (let s = s\<lparr>ws_bridge := b\<rparr> in
           if \<not> ok then (s, False) else
           let pending = ws_ota_pending_sequences s - {oc_sequence chunk} in
           (s\<lparr>ws_ota_pending_sequences := pending,
              ws_ota_chunk_request_id := (if pending = {} then [] else ws_ota_chunk_request_id s)\<rparr>, True)))"

fun ws_take_chunks ::
  "ws_env \<Rightarrow> 'b bridge_calls \<Rightarrow> bytes \<Rightarrow> bytes \<Rightarrow> ParsedOtaChunk list \<Rightarrow> 'b ws \<Rightarrow> 'b ws" where
  "ws_take_chunks env B request_id job_id [] s = s"
| "ws_take_chunks env B request_id job_id (chunk # chunks) s =
     (case ws_take_chunk B chunk s of
        (s, True) \<Rightarrow> ws_take_chunks env B request_id job_id chunks s
      | (s, False) \<Rightarrow>
          (let s = ws_send_error env request_id ''ota_invalid_chunk'' ''OTA chunk rejected'' s
           in s\<lparr>ws_bridge := bc_ota_abort B (ws_bridge s) job_id (ascii ''invalid_chunk'')\<rparr>))"

definition ws_handle_ota_chunk_batch :: "ws_env \<Rightarrow> 'b bridge_calls \<Rightarrow> ParsedEnvelope \<Rightarrow> 'b ws \<Rightarrow> 'b ws" where
  "ws_handle_ota_chunk_batch env B e s =
     (case parse_ota_chunk_batch (pe_msg_data e) of
        None \<Rightarrow> ws_send_error env (pe_request_id e) ''ota_invalid_chunk'' ''Invalid OTA chunk batch'' s
      | Some batch \<Rightarrow>
          if \<not> bc_ota_has_active_job B (ws_bridge s) \<or> cb_job_id batch \<noteq> bc_ota_active_job_id B (ws_bridge s)
          then ws_send_error env (pe_request_id e) ''ota_not_active'' ''No active OTA job for batch'' s
          else if cb_response_request_id batch \<noteq> ws_ota_chunk_request_id s
          then (case bc_ota_resend_chunk_request B (ws_bridge s) of
                  (b, None) \<Rightarrow> s\<lparr>ws_bridge := b\<rparr>
                | (b, Some q) \<Rightarrow> ws_on_ota_chunk_request env q (s\<lparr>ws_bridge := b\<rparr>))
          else if unat (ws_ota_max_chunks_per_batch s) < length (cb_chunks batch)
          then (let s = ws_send_error env (pe_request_id e) ''ota_invalid_chunk'' ''OTA chunk batch too large'' s
                in s\<lparr>ws_bridge := bc_ota_abort B (ws_bridge s) (cb_job_id batch) (ascii ''invalid_chunk_batch'')\<rparr>)
          else ws_take_chunks env B (pe_request_id e) (cb_job_id batch) (cb_chunks batch) s)"

definition ws_handle_ota_abort :: "ws_env \<Rightarrow> 'b bridge_calls \<Rightarrow> ParsedEnvelope \<Rightarrow> 'b ws \<Rightarrow> 'b ws" where
  "ws_handle_ota_abort env B e s =
     (case parse_ota_abort_request (pe_msg_data e) of
        None \<Rightarrow> ws_send_error env (pe_request_id e) ''ota_not_active'' ''Invalid OTA abort request'' s
      | Some r \<Rightarrow>
          ws_send env (encode_ota_aborted (pe_request_id e) (ab_job_id r) (ab_reason r))
            (s\<lparr>ws_bridge := bc_ota_abort B (ws_bridge s) (ab_job_id r) (ab_reason r)\<rparr>))"

section \<open>Requests\<close>

definition ws_refuse :: "ws_env \<Rightarrow> bytes \<Rightarrow> string \<Rightarrow> string \<Rightarrow> 'b ws \<Rightarrow> 'b ws" where
  "ws_refuse env request_id code message s =
     ws_close_client env (ws_flush env (ws_send env (auth_failed_envelope request_id (ascii code) (ascii message)) s))"

definition ws_authenticate :: "ws_env \<Rightarrow> 'b bridge_calls \<Rightarrow> ParsedEnvelope \<Rightarrow> 'b ws \<Rightarrow> 'b ws" where
  "ws_authenticate env B e s =
     (case (if pe_msg_field e = PB_AUTH_RESPONSE then Some (parse_auth_response (pe_msg_data e)) else None) of
        None \<Rightarrow> ws_refuse env (pe_request_id e) ''auth_required'' ''Authenticate before sending runtime requests'' s
      | Some None \<Rightarrow> ws_refuse env (pe_request_id e) ''auth_failed'' ''Authentication failed'' s
      | Some (Some response) \<Rightarrow>
          if \<not> ws_verify_auth_response env B s response
          then ws_refuse env (pe_request_id e) ''auth_failed'' ''Authentication failed'' s
          else (let s = s\<lparr>ws_authenticated := True, ws_last_heartbeat_ms := we_millis env,
                          ws_bridge := bc_set_ota_transport_callbacks B (ws_bridge s)\<rparr>
                in ws_send env (bc_encode_auth_ok B (ws_bridge s) (pe_request_id e)) s))"

definition ws_handle_command :: "ws_env \<Rightarrow> 'b bridge_calls \<Rightarrow> ParsedEnvelope \<Rightarrow> 'b ws \<Rightarrow> 'b ws" where
  "ws_handle_command env B e s =
     (case parse_command_request (we_double_text env) (pe_msg_data e) of
        None \<Rightarrow> ws_send_error env (pe_request_id e) ''invalid_command'' ''Invalid command request'' s
      | Some request \<Rightarrow>
          (case bc_handle_command B (ws_bridge s) (pe_request_id e) request of
             (b, result) \<Rightarrow> ws_send env result (s\<lparr>ws_bridge := b\<rparr>)))"

definition ws_handle_config_command :: "ws_env \<Rightarrow> 'b bridge_calls \<Rightarrow> ParsedEnvelope \<Rightarrow> 'b ws \<Rightarrow> 'b ws" where
  "ws_handle_config_command env B e s =
     (case parse_config_command_request (pe_msg_data e) of
        None \<Rightarrow> ws_send_error env (pe_request_id e) ''invalid_config_command'' ''Invalid config command request'' s
      | Some request \<Rightarrow>
          (case bc_handle_config_command B (ws_bridge s) (pe_request_id e) request of
             (b, None) \<Rightarrow> s\<lparr>ws_bridge := b\<rparr>
           | (b, Some result) \<Rightarrow> ws_send env result (s\<lparr>ws_bridge := b\<rparr>)))"

definition ws_handle_state_receipt :: "ws_env \<Rightarrow> 'b bridge_calls \<Rightarrow> ParsedEnvelope \<Rightarrow> 'b ws \<Rightarrow> 'b ws" where
  "ws_handle_state_receipt env B e s =
     (case parse_state_receipt (pe_msg_data e) of
        None \<Rightarrow> ws_send_error env (pe_request_id e) ''invalid_state_receipt'' ''Invalid state receipt'' s
      | Some receipt \<Rightarrow> s\<lparr>ws_bridge := bc_handle_state_receipt B (ws_bridge s) receipt\<rparr>)"

definition ws_dispatch :: "ws_env \<Rightarrow> 'b bridge_calls \<Rightarrow> ParsedEnvelope \<Rightarrow> 'b ws \<Rightarrow> 'b ws" where
  "ws_dispatch env B e s =
     (if pe_msg_field e = PB_CLIENT_HELLO then ws_send env (bc_encode_full_snapshot B (ws_bridge s) (pe_request_id e)) s
      else if pe_msg_field e = PB_PING then
        ws_send env (pb_envelope (pe_request_id e) PB_PONG (pb_varint 1 (ping_monotonic_ms (pe_msg_data e)))) s
      else if pe_msg_field e = PB_COMMAND_REQUEST then ws_handle_command env B e s
      else if pe_msg_field e = PB_CONFIG_COMMAND_REQUEST then ws_handle_config_command env B e s
      else if pe_msg_field e = PB_STATE_RECEIPT then ws_handle_state_receipt env B e s
      else if pe_msg_field e = PB_OTA_START_REQUEST then ws_handle_ota_start env B e s
      else if pe_msg_field e = PB_OTA_CHUNK_BATCH then ws_handle_ota_chunk_batch env B e s
      else if pe_msg_field e = PB_OTA_ABORT_REQUEST then ws_handle_ota_abort env B e s
      else ws_send_error env (pe_request_id e) ''unsupported_message'' ''Unsupported runtime request'' s)"

definition ws_handle_binary :: "ws_env \<Rightarrow> 'b bridge_calls \<Rightarrow> bytes \<Rightarrow> 'b ws \<Rightarrow> 'b ws" where
  "ws_handle_binary env B payload s =
     (case parse_envelope payload of
        None \<Rightarrow> ws_send_error env [] ''invalid_envelope'' ''Invalid protobuf envelope'' s
      | Some e \<Rightarrow>
          if pe_api_version e \<noteq> 0 \<and> pe_api_version e \<noteq> kRuntimeApiVersion
          then ws_send_error env [] ''invalid_envelope'' ''Invalid protobuf envelope'' s
          else if \<not> ws_has_authenticated_client s then ws_authenticate env B e s
          else ws_dispatch env B e s)"

section \<open>The socket's task\<close>

text \<open>One frame of the client; the result says whether the session goes on.\<close>

definition ws_frame :: "ws_env \<Rightarrow> 'b bridge_calls \<Rightarrow> u8 \<Rightarrow> bytes \<Rightarrow> 'b ws \<Rightarrow> 'b ws \<times> bool" where
  "ws_frame env B opcode payload s =
     (if opcode = 0x8 then (fst (ws_send_frame env 0x8 payload s), False)
      else if opcode = 0x9 then (fst (ws_send_frame env 0xA payload s), True)
      else if opcode = 0x1 then
        (fst (ws_send_frame env 0x2 (error_envelope [] (ascii ''text_frames_unsupported'')
           (ascii ''Runtime API accepts binary protobuf frames only'')) s), False)
      else if opcode \<noteq> 0x2 then (s, False)
      else (ws_flush env (ws_handle_binary env B payload s), True))"

text \<open>
  The reading loop as long as the socket delivers: the result says whether the session goes on, with the socket silent for now.
\<close>

function ws_read_loop :: "ws_env \<Rightarrow> 'b bridge_calls \<Rightarrow> int \<Rightarrow> bytes \<Rightarrow> 'b ws \<Rightarrow> 'b ws \<times> bool" where
  "ws_read_loop env B fd input s =
     (if \<not> ws_is_active_fd fd s then (s, False)
      else if input = [] then (ws_flush env s, True)
      else case ws_read_frame input of None \<Rightarrow> (ws_flush env s, False)
      | Some (opcode, payload, rest) \<Rightarrow>
          (case ws_frame env B opcode payload (ws_flush env s) of
             (s, False) \<Rightarrow> (s, False)
           | (s, True) \<Rightarrow> ws_read_loop env B fd rest s))"
  by pat_completeness auto

termination
  by (relation "measure (\<lambda>(_, _, _, input, _). length input)") (auto dest: read_frame_shorter)

declare ws_read_loop.simps [simp del]

definition ws_socket_task :: "ws_env \<Rightarrow> 'b bridge_calls \<Rightarrow> int \<Rightarrow> bytes \<Rightarrow> 'b ws \<Rightarrow> 'b ws" where
  "ws_socket_task env B fd input s =
     (case ws_read_loop env B fd input s of (s, True) \<Rightarrow> s | (s, False) \<Rightarrow> ws_finish_session B fd s)"

definition ws_socket_start :: "ws_env \<Rightarrow> 'b bridge_calls \<Rightarrow> 'b ws \<Rightarrow> 'b ws" where
  "ws_socket_start env B s = ws_flush env (ws_send_auth_challenge env B s)"

end
