(* ===== verification/WsClaims.thy ===== *)
theory WsClaims
  imports WsApi BridgeDemo
begin

text \<open>
  Properties of the WebSocket transport: its frames and those of a client are read back; its queue keeps its bounds;
  only a proof of the key opens it; and what a client loses whose queue overflows.
\<close>

section \<open>Frames\<close>

text \<open>A client's frame (RFC 6455): final, masked, of one of the two lengths the transport takes.\<close>

definition ws_client_frame :: "u8 \<Rightarrow> bytes \<Rightarrow> bytes \<Rightarrow> bytes" where
  "ws_client_frame opcode masking payload =
     (let n = length payload in
      (0x80 OR opcode)
        # (if n < 126 then [0x80 OR of_nat n] else [0x80 OR 126, of_nat (n div 256), of_nat (n mod 256)])
        @ masking @ ws_unmask masking payload)"

text \<open>How a client reads a frame of the server, which is not masked.\<close>

definition ws_client_reads :: "bytes \<Rightarrow> (u8 \<times> bytes) option" where
  "ws_client_reads w =
     (if length w < 2 \<or> w ! 0 AND 0x80 = 0 \<or> w ! 1 AND 0x80 \<noteq> 0 then None
      else let n = unat (w ! 1) in
        if n < 126 then (if length w = 2 + n then Some (w ! 0 AND 0x0F, drop 2 w) else None)
        else if n = 126 \<and> 4 \<le> length w \<and> length w = 4 + (unat (w ! 2) * 256 + unat (w ! 3))
        then Some (w ! 0 AND 0x0F, drop 4 w) else None)"

lemma unmask_length [simp]: "length (ws_unmask m p) = length p"
  by (simp add: ws_unmask_def)

lemma unmask_nth [simp]: "i < length p \<Longrightarrow> ws_unmask m p ! i = p ! i XOR m ! (i mod 4)"
  by (simp add: ws_unmask_def nth_enumerate_eq)

lemma unmask_twice [simp]: "ws_unmask m (ws_unmask m p) = p"
  by (rule nth_equalityI) (simp_all add: xor.assoc)

lemma opcode_bits:
  assumes "(opcode :: u8) < 16"
  shows "(0x80 OR opcode) AND 0x0F = opcode" and "(0x80 OR opcode) AND 0x80 \<noteq> 0"
    and "opcode AND 0x0F = opcode"
proof -
  have o: "opcode AND 0x0F = opcode"
  proof (rule word_unat_eq_iff [THEN iffD2])
    have "opcode AND 0x0F = take_bit 4 opcode" by (simp add: take_bit_eq_mask mask_eq_exp_minus_1)
    then show "unat (opcode AND 0x0F) = unat opcode"
      using assms by (simp add: unat_mod take_bit_eq_mod word_less_nat_alt)
  qed
  then show "opcode AND 0x0F = opcode" .
  show "(0x80 OR opcode) AND 0x0F = opcode" by (simp add: o word_ao_dist)
  show "(0x80 OR opcode) AND 0x80 \<noteq> 0" by (simp add: word_ao_dist)
qed

lemma length_bits:
  assumes "n < 128"
  shows "unat ((0x80 OR of_nat n :: u8) AND 0x7F) = n" and "(0x80 OR of_nat n :: u8) AND 0x80 \<noteq> 0"
    and "(of_nat n :: u8) AND 0x80 = 0"
proof -
  have "(of_nat n :: u8) AND 0x7F = take_bit 7 (of_nat n)" by (simp add: take_bit_eq_mask mask_eq_exp_minus_1)
  then have a: "(of_nat n :: u8) AND 0x7F = of_nat n"
    using assms by (intro word_unat_eq_iff [THEN iffD2]) (simp add: unat_mod take_bit_eq_mod unat_of_nat_small)
  show "unat ((0x80 OR of_nat n :: u8) AND 0x7F) = n" using assms by (simp add: word_ao_dist a unat_of_nat_small)
  show "(0x80 OR of_nat n :: u8) AND 0x80 \<noteq> 0" by (simp add: word_ao_dist)
  have "(of_nat n :: u8) AND 0x80 = (of_nat n AND 0x7F) AND 0x80" by (simp only: a)
  also have "\<dots> = 0" by (simp add: and.assoc)
  finally show "(of_nat n :: u8) AND 0x80 = 0" .
qed

lemma read_payload_exact:
  assumes "length m = 4" and "length p \<le> 65535"
  shows "ws_read_payload (length p) (m @ ws_unmask m p @ rest) = Some (p, rest)"
  using assms by (simp add: ws_read_payload_def ws_read_exact_def)

lemma client_frame_read:
  assumes "opcode < 16" and "length m = 4" and "length p \<le> 65535"
  shows "ws_read_frame (ws_client_frame opcode m p @ rest) = Some (opcode, p, rest)"
proof (cases "length p < 126")
  case True
  then show ?thesis
    using read_payload_exact [OF assms(2,3)] opcode_bits [OF assms(1)] length_bits [of "length p"]
    by (simp add: ws_read_frame_def ws_client_frame_def ws_read_exact_def Let_def)
next
  case False
  have "length p div 256 < 256" using assms(3) by (simp add: less_mult_imp_div_less)
  then have d: "unat (of_nat (length p div 256) :: u8) * 256 + unat (of_nat (length p mod 256) :: u8) = length p"
    by (simp add: unat_of_nat_small)
  show ?thesis
    using False read_payload_exact [OF assms(2,3)] opcode_bits [OF assms(1)] length_bits [of 126] d
    by (simp add: ws_read_frame_def ws_client_frame_def ws_read_exact_def Let_def)
qed

lemma four_first:
  "([a, b, c, d] @ p) ! 0 = a" "([a, b, c, d] @ p) ! 1 = b" "([a, b, c, d] @ p) ! 2 = c" "([a, b, c, d] @ p) ! 3 = d"
  "drop 4 ([a, b, c, d] @ p) = p" "length ([a, b, c, d] @ p) = 4 + length p"
  by (simp_all add: numeral_eq_Suc)

lemma server_frame_read:
  assumes "opcode < 16" and "length p \<le> 65535" and "ws_frame_header opcode (length p) = Some h"
  shows "ws_client_reads (h @ p) = Some (opcode, p)"
proof (cases "length p < 126")
  case True
  have h: "h = [0x80 OR opcode, of_nat (length p)]"
    using assms(3) True by (simp add: ws_frame_header_def Let_def opcode_bits(3) [OF assms(1)])
  have n: "unat (of_nat (length p) :: u8) = length p" using True by (simp add: unat_of_nat_small)
  show ?thesis
    using True opcode_bits(1,2) [OF assms(1)] length_bits(3) [of "length p"]
    by (simp add: h ws_client_reads_def Let_def n)
next
  case False
  have h: "h = [0x80 OR opcode, 126, of_nat (length p div 256 mod 256), of_nat (length p mod 256)]"
    using assms(2,3) False by (simp add: ws_frame_header_def Let_def opcode_bits(3) [OF assms(1)])
  have l: "length p div 256 < 256" using assms(2) by (simp add: less_mult_imp_div_less)
  have n: "unat (of_nat (length p div 256 mod 256) :: u8) * 256 + unat (of_nat (length p mod 256) :: u8) = length p"
    using l by (simp add: unat_of_nat_small)
  show ?thesis
    using opcode_bits(1,2) [OF assms(1)]
    unfolding ws_client_reads_def Let_def h four_first n by simp
qed

text \<open>
  C34: Frames of the WebSocket are read back. The transport reads a client's frame of up to 65535 bytes, with any masking key and with
  whatever follows it, as its opcode and payload; and what the transport gives to the socket for a payload a client reads as that payload.
\<close>

theorem ws_frames_roundtrip:
  assumes "opcode < 16" and "length m = 4" and "length payload \<le> 65535"
  shows "ws_read_frame (ws_client_frame opcode m payload @ rest) = Some (opcode, payload, rest)
    \<and> (\<forall>s'. ws_send_frame env opcode payload s = (s', True) \<longrightarrow>
         (\<exists>ws. ws_sent s' = ws_sent s @ map (Pair (ws_active_fd s)) ws \<and> ws_client_reads (concat ws) = Some (opcode, payload)))"
proof (intro conjI allI impI)
  show "ws_read_frame (ws_client_frame opcode m payload @ rest) = Some (opcode, payload, rest)"
    by (rule client_frame_read [OF assms])
  fix s' assume sent: "ws_send_frame env opcode payload s = (s', True)"
  then obtain h where h: "ws_frame_header opcode (length payload) = Some h"
    by (auto simp: ws_send_frame_def Let_def split: if_splits option.splits)
  then have "ws_sent s' = ws_sent s @ map (Pair (ws_active_fd s)) (if payload = [] then [h] else [h, payload])"
    using sent by (auto simp: ws_send_frame_def Let_def split: if_splits)
  moreover have "concat (if payload = [] then [h] else [h, payload]) = h @ payload" by simp
  ultimately show "\<exists>ws. ws_sent s' = ws_sent s @ map (Pair (ws_active_fd s)) ws \<and> ws_client_reads (concat ws) = Some (opcode, payload)"
    using server_frame_read [OF assms(1,3) h] by metis
qed

theorem ws_frames_roundtrip_witness:
  "ws_read_frame (ws_client_frame 2 [1, 2, 3, 4] (replicate 300 7) @ [9, 9]) = Some (2, replicate 300 7, [9, 9])"
  by (rule ws_frames_roundtrip [THEN conjunct1]) simp_all

section \<open>The queue\<close>

definition ws_ok :: "'b ws \<Rightarrow> bool" where
  "ws_ok s \<longleftrightarrow> (ws_connected s \<longleftrightarrow> 0 \<le> ws_active_fd s)
     \<and> ws_outbound_bytes s = sum_list (map length (ws_outbound_frames s))
     \<and> length (ws_outbound_frames s) \<le> MAX_OUTBOUND_QUEUE_FRAMES \<and> ws_outbound_bytes s \<le> MAX_OUTBOUND_QUEUE_BYTES
     \<and> (\<not> ws_connected s \<longrightarrow> ws_outbound_frames s = [])"

lemma ws_ok_update [simp]:
  "ws_ok (s\<lparr>ws_bridge := b\<rparr>) = ws_ok s" "ws_ok (s\<lparr>ws_sent := w\<rparr>) = ws_ok s" "ws_ok (s\<lparr>ws_authenticated := a\<rparr>) = ws_ok s"
  "ws_ok (s\<lparr>ws_last_heartbeat_ms := t\<rparr>) = ws_ok s" "ws_ok (s\<lparr>ws_server_nonce := n\<rparr>) = ws_ok s"
  "ws_ok (s\<lparr>ws_ota_chunk_request_id := i\<rparr>) = ws_ok s" "ws_ok (s\<lparr>ws_ota_job_id := i\<rparr>) = ws_ok s"
  "ws_ok (s\<lparr>ws_ota_pending_sequences := q\<rparr>) = ws_ok s" "ws_ok (s\<lparr>ws_ota_max_chunk_size := c\<rparr>) = ws_ok s"
  "ws_ok (s\<lparr>ws_ota_max_chunks_per_batch := c\<rparr>) = ws_ok s"
  by (simp_all add: ws_ok_def)

lemma send_frame_keeps [simp]:
  "ws_bridge (fst (ws_send_frame env op p s)) = ws_bridge s"
  "ws_connected (fst (ws_send_frame env op p s)) = ws_connected s"
  "ws_active_fd (fst (ws_send_frame env op p s)) = ws_active_fd s"
  "ws_outbound_bytes (fst (ws_send_frame env op p s)) = ws_outbound_bytes s"
  by (simp_all add: ws_send_frame_def Let_def split: option.split)

lemma ws_ok_send_frame [simp]: "ws_ok (fst (ws_send_frame env op p s)) = ws_ok s"
  by (simp add: ws_ok_def)

lemma not_connected_send: "\<not> ws_connected s \<Longrightarrow> ws_send_frame env op p s = (s, False)"
  unfolding ws_send_frame_def Let_def by simp

lemma close_client_eq:
  "ws_close_client env s = s\<lparr>ws_connected := False, ws_authenticated := False, ws_active_fd := - 1,
     ws_outbound_frames := [], ws_outbound_bytes := 0\<rparr>"
  unfolding ws_close_client_def Let_def by (simp add: not_connected_send)

lemma ws_ok_close [simp]: "ws_ok (ws_close_client env s)"
  by (simp add: close_client_eq ws_ok_def)

lemma ws_ok_send [simp]: "ws_ok s \<Longrightarrow> ws_ok (fst (ws_send_binary env p s))"
  by (simp add: ws_send_binary_def) (auto simp: ws_ok_def not_less)

lemma ws_ok_flush [simp]: "ws_ok s \<Longrightarrow> ws_ok (fst (ws_flush_pending_sends env s))"
proof (induction env s rule: ws_flush_pending_sends.induct)
  case (1 env s)
  show ?case
  proof (cases "\<not> ws_connected s \<or> ws_active_fd s < 0 \<or> ws_outbound_frames s = []")
    case True
    then show ?thesis using 1(2) by (subst ws_flush_pending_sends.simps) (auto split: list.split)
  next
    case False
    then obtain p ps where ps: "ws_outbound_frames s = p # ps" by (cases "ws_outbound_frames s") auto
    let ?s = "s\<lparr>ws_outbound_bytes := ws_outbound_bytes s - length p, ws_outbound_frames := ps\<rparr>"
    have ok: "ws_ok ?s" using 1(2) False ps by (auto simp: ws_ok_def)
    obtain s' sent where s': "ws_send_frame env 2 p ?s = (s', sent)" by (metis surj_pair)
    have "ws_ok s'" using ws_ok_send_frame [of env 2 p ?s] ok by (simp add: s')
    then show ?thesis
      using 1(1) [of p ps s' sent] False ps s'
      by (subst ws_flush_pending_sends.simps) (simp split: bool.split)
  qed
qed

lemma ws_ok_handlers [simp]:
  "ws_ok s \<Longrightarrow> ws_ok (ws_send_error env r c m s)"
  "ws_ok s \<Longrightarrow> ws_ok (ws_on_ota_chunk_request env q s)"
  "ws_ok s \<Longrightarrow> ws_ok (ws_on_ota_accepted env r j t mc n mb s)"
  "ws_ok s \<Longrightarrow> ws_ok (ws_on_ota_status env j st pc br fs e s)"
  "ws_ok s \<Longrightarrow> ws_ok (ws_on_ota_aborted env r j re s)"
  "ws_ok s \<Longrightarrow> ws_ok (ws_emit env f s)"
  "ws_ok s \<Longrightarrow> ws_ok (ws_emit_remote_state env v f s)"
  "ws_ok s \<Longrightarrow> ws_ok (ws_emit_heartbeat_if_due env B s)"
  "ws_ok s \<Longrightarrow> ws_ok (ws_refuse env r c m s)"
  by (simp_all add: ws_send_error_def ws_on_ota_chunk_request_def ws_on_ota_accepted_def ws_on_ota_status_def
      ws_on_ota_aborted_def ws_emit_def ws_emit_remote_state_def ws_emit_heartbeat_if_due_def ws_refuse_def)

lemma ws_ok_take_chunk: "ws_take_chunk B c s = (s', ok) \<Longrightarrow> ws_ok s' = ws_ok s"
  by (auto simp: ws_take_chunk_def Let_def split: if_splits prod.splits)

lemma ws_ok_take_chunks [simp]: "ws_ok s \<Longrightarrow> ws_ok (ws_take_chunks env B r j cs s)"
proof (induction cs arbitrary: s)
  case (Cons c cs)
  obtain s' ok where t: "ws_take_chunk B c s = (s', ok)" by (metis surj_pair)
  have "ws_ok s'" using Cons.prems ws_ok_take_chunk [OF t] by simp
  then show ?case by (cases ok) (simp_all add: t Let_def Cons.IH)
qed simp

lemma ws_ok_requests [simp]:
  "ws_ok s \<Longrightarrow> ws_ok (ws_handle_command env B e s)"
  "ws_ok s \<Longrightarrow> ws_ok (ws_handle_config_command env B e s)"
  "ws_ok s \<Longrightarrow> ws_ok (ws_handle_state_receipt env B e s)"
  "ws_ok s \<Longrightarrow> ws_ok (ws_handle_ota_start env B e s)"
  "ws_ok s \<Longrightarrow> ws_ok (ws_handle_ota_abort env B e s)"
  by (simp_all add: ws_handle_command_def ws_handle_config_command_def ws_handle_state_receipt_def
      ws_handle_ota_start_def ws_handle_ota_abort_def split: option.split prod.split sum.split)

lemma ws_ok_batch [simp]: "ws_ok s \<Longrightarrow> ws_ok (ws_handle_ota_chunk_batch env B e s)"
  by (simp add: ws_handle_ota_chunk_batch_def Let_def split: option.split prod.split)

lemma ws_ok_binary [simp]: "ws_ok s \<Longrightarrow> ws_ok (ws_handle_binary env B p s)"
  by (simp add: ws_handle_binary_def ws_dispatch_def ws_authenticate_def Let_def split: option.split)

lemma ws_ok_finish [simp]: "ws_ok s \<Longrightarrow> ws_ok (ws_finish_session B fd s)"
  by (simp add: ws_finish_session_def ws_ok_def)

lemma ws_ok_frame: "ws_ok s \<Longrightarrow> ws_ok (fst (ws_frame env B op p s))"
  by (simp add: ws_frame_def)

lemma ws_ok_read_loop: "ws_ok s \<Longrightarrow> ws_ok (fst (ws_read_loop env B fd input s))"
proof (induction env B fd input s rule: ws_read_loop.induct)
  case (1 env B fd input s)
  show ?case
  proof (cases "ws_is_active_fd fd s \<and> input \<noteq> [] \<and> ws_read_frame input \<noteq> None")
    case False
    then show ?thesis using 1(2) by (subst ws_read_loop.simps) (auto split: option.split)
  next
    case True
    then obtain op p rest where f: "ws_read_frame input = Some (op, p, rest)" by auto
    obtain s' goes_on where s': "ws_frame env B op p (fst (ws_flush_pending_sends env s)) = (s', goes_on)" by (metis surj_pair)
    have "ws_ok s'" using ws_ok_frame [of "fst (ws_flush_pending_sends env s)" env B op p] 1(2) by (simp add: s')
    then show ?thesis
      using 1(1) [of "(op, p, rest)" op "(p, rest)" p rest s' goes_on] True f s'
      by (subst ws_read_loop.simps) (simp split: bool.split)
  qed
qed

text \<open>What can happen to a transport: the server's requests, its socket's task, the loop's events, the component's own changes.\<close>

inductive ws_reachable :: "'b bridge_calls \<Rightarrow> 'b ws \<Rightarrow> bool" for B where
  wr_init: "ws_reachable B (ws_init b)"
| wr_open: "ws_reachable B s \<Longrightarrow> 0 \<le> fd \<Longrightarrow> ws_reachable B (fst (ws_run_socket_session env B ak ao tk key fd s))"
| wr_start: "ws_reachable B s \<Longrightarrow> ws_reachable B (ws_socket_start env B s)"
| wr_task: "ws_reachable B s \<Longrightarrow> ws_reachable B (ws_socket_task env B fd input s)"
| wr_emit: "ws_reachable B s \<Longrightarrow> ws_reachable B (ws_emit env frame s)"
| wr_state: "ws_reachable B s \<Longrightarrow> ws_reachable B (ws_emit_remote_state env val frame s)"
| wr_heartbeat: "ws_reachable B s \<Longrightarrow> ws_reachable B (ws_emit_heartbeat_if_due env B s)"
| wr_accepted: "ws_reachable B s \<Longrightarrow> ws_reachable B (ws_on_ota_accepted env r j t m c n s)"
| wr_chunk_request: "ws_reachable B s \<Longrightarrow> ws_reachable B (ws_on_ota_chunk_request env q s)"
| wr_status: "ws_reachable B s \<Longrightarrow> ws_reachable B (ws_on_ota_status env j st p br fs e s)"
| wr_aborted: "ws_reachable B s \<Longrightarrow> ws_reachable B (ws_on_ota_aborted env r j reason s)"
| wr_config_result: "ws_reachable B s \<Longrightarrow> ws_reachable B (fst (ws_send_binary env frame s))"
| wr_close: "ws_reachable B s \<Longrightarrow> ws_reachable B (ws_close_client env s)"
| wr_bridge: "ws_reachable B s \<Longrightarrow> ws_reachable B (s\<lparr>ws_bridge := b\<rparr>)"

lemma ws_ok_open:
  assumes "ws_ok s" and "0 \<le> fd"
  shows "ws_ok (fst (ws_run_socket_session env B ak ao tk key fd s))"
proof -
  have "ws_ok (s\<lparr>ws_connected := True, ws_authenticated := False, ws_active_fd := fd, ws_server_nonce := n\<rparr>)"
    if "\<not> ws_connected s" for n
    using assms that by (simp add: ws_ok_def)
  then show ?thesis using assms(1) by (simp add: ws_run_socket_session_def Let_def split: option.split)
qed

lemma ws_reachable_ok: "ws_reachable B s \<Longrightarrow> ws_ok s"
proof (induction rule: ws_reachable.induct)
  case (wr_task s env fd input)
  then show ?case
    using ws_ok_read_loop [of s env B fd input] by (cases "ws_read_loop env B fd input s") (simp add: ws_socket_task_def split: bool.split)
qed (simp_all add: ws_ok_open ws_socket_start_def ws_send_auth_challenge_def, simp add: ws_init_def ws_ok_def)

text \<open>
  C33: However requests, events of the loop and the ends of sessions interleave, the transport is connected exactly while it has a
  socket, its queue holds at most 256 frames and 262144 bytes, the number it keeps is the number of bytes in the queue (so its unsigned
  subtraction never wraps), and nothing is left in the queue for the next client.
\<close>

theorem ws_queue_bounded:
  assumes "ws_reachable B s"
  shows "(ws_connected s \<longleftrightarrow> 0 \<le> ws_active_fd s) \<and> length (ws_outbound_frames s) \<le> 256 \<and> ws_outbound_bytes s \<le> 262144
    \<and> ws_outbound_bytes s = sum_list (map length (ws_outbound_frames s)) \<and> (ws_outbound_frames s = [] \<or> ws_connected s)"
  using ws_reachable_ok [OF assms] by (auto simp: ws_ok_def)

theorem ws_queue_bounded_witness:
  "ws_outbound_bytes (fst (ws_run_socket_session \<lparr>we_millis = 1, we_random = [], we_hmac = demo_hmac, we_double_text = id, we_send_ok = \<lambda>_ _. True\<rparr>
     (eb_calls demo_renv) id True True (Some [1]) 4 (ws_init demo_component))) \<le> 262144"
  by (rule ws_queue_bounded [THEN conjunct2, THEN conjunct2, THEN conjunct1, OF wr_open [OF wr_init]]) simp

section \<open>The gate\<close>

text \<open>
  The envelope of a payload that the gate looks at: one that can be read and names the interface's version, or none. Every
  other payload is answered by the error frame \<open>invalid_envelope_error\<close>.
\<close>

definition ws_readable_envelope :: "bytes \<Rightarrow> ParsedEnvelope option" where
  "ws_readable_envelope payload =
     (case parse_envelope payload of None \<Rightarrow> None
      | Some e \<Rightarrow> if pe_api_version e = 0 \<or> pe_api_version e = kRuntimeApiVersion then Some e else None)"

definition invalid_envelope_error :: bytes where
  "invalid_envelope_error = error_envelope [] (ascii ''invalid_envelope'') (ascii ''Invalid protobuf envelope'')"

text \<open>One more frame waits to be sent, if there is room; without room the connection is closed.\<close>

definition ws_answered_or_closed :: "bytes \<Rightarrow> 'b ws \<Rightarrow> 'b ws \<Rightarrow> bool" where
  "ws_answered_or_closed frame s s' \<longleftrightarrow>
     (if length (ws_outbound_frames s) < 256 \<and> ws_outbound_bytes s + length frame \<le> 262144
      then s' = s\<lparr>ws_outbound_frames := ws_outbound_frames s @ [frame], ws_outbound_bytes := ws_outbound_bytes s + length frame\<rparr>
      else ws_bridge s' = ws_bridge s \<and> \<not> ws_connected s' \<and> ws_outbound_frames s' = [])"

definition ws_proves_key :: "ws_env \<Rightarrow> bytes \<Rightarrow> bytes \<Rightarrow> ParsedEnvelope \<Rightarrow> bool" where
  "ws_proves_key env key nonce e \<longleftrightarrow> pe_msg_field e = PB_AUTH_RESPONSE
     \<and> (case parse_auth_response (pe_msg_data e) of None \<Rightarrow> False
        | Some r \<Rightarrow> ar_client_kind r = ascii ''ha_integration''
            \<and> ar_hmac_sha256 r = we_hmac env key (auth_input (ar_client_kind r) nonce (ar_client_nonce r)))"

lemma ws_verify_iff:
  assumes "\<And>k d. length (we_hmac env k d) = 32" and "parse_auth_response d = Some r"
  shows "ws_verify_auth_response env B s r \<longleftrightarrow> ar_client_kind r = ascii ''ha_integration'' \<and>
    ar_hmac_sha256 r = we_hmac env (bc_api_key B (ws_bridge s)) (auth_input (ar_client_kind r) (ws_server_nonce s) (ar_client_nonce r))"
  using parse_auth_response_fields [OF assms(2)] assms(1)
  by (auto simp: ws_verify_auth_response_def bytes_diff_iff)

lemma ws_bridge_sends [simp]:
  "ws_bridge (ws_close_client env s) = ws_bridge s"
  "ws_bridge (fst (ws_send_binary env p s)) = ws_bridge s"
  "ws_connected (ws_close_client env s) = False"
  by (simp_all add: close_client_eq ws_send_binary_def)

lemma ws_bridge_flush [simp]: "ws_bridge (fst (ws_flush_pending_sends env s)) = ws_bridge s"
proof (induction env s rule: ws_flush_pending_sends.induct)
  case (1 env s)
  have f: "ws_send_frame env 2 p t = (s', sent) \<Longrightarrow> ws_bridge s' = ws_bridge t" for p t s' sent
    using send_frame_keeps(1) [of env 2 p t] by simp
  show ?case using 1 by (subst ws_flush_pending_sends.simps) (auto dest: f split: list.split prod.split bool.split)
qed

lemma ws_refused: "ws_bridge (ws_refuse env r c m s) = ws_bridge s \<and> \<not> ws_connected (ws_refuse env r c m s)"
  by (simp add: ws_refuse_def)

lemma ws_gate_lemma:
  assumes "\<And>k d. length (we_hmac env k d) = 32" and "ws_connected s" and "0 \<le> ws_active_fd s" and "\<not> ws_authenticated s"
    and "s' = ws_handle_binary env B payload s"
  shows "case ws_readable_envelope payload of
      None \<Rightarrow> ws_answered_or_closed invalid_envelope_error s s'
    | Some e \<Rightarrow>
        if ws_proves_key env (bc_api_key B (ws_bridge s)) (ws_server_nonce s) e
        then ws_bridge s' = bc_set_ota_transport_callbacks B (ws_bridge s) \<and> ws_has_authenticated_client s' = ws_connected s'
        else ws_bridge s' = ws_bridge s \<and> \<not> ws_connected s'"
proof (cases "ws_readable_envelope payload")
  case None
  then have s': "s' = ws_send_error env [] ''invalid_envelope'' ''Invalid protobuf envelope'' s"
    using assms(5) by (auto simp: ws_handle_binary_def ws_readable_envelope_def split: option.splits if_splits)
  have "ws_answered_or_closed invalid_envelope_error s s'"
    using assms(2,3)
    by (auto simp: s' ws_send_error_def ws_send_binary_def ws_answered_or_closed_def invalid_envelope_error_def close_client_eq
        not_le not_less)
  then show ?thesis by (simp add: None)
next
  case (Some e)
  have s': "s' = ws_authenticate env B e s"
    using Some assms(4,5) by (auto simp: ws_handle_binary_def ws_readable_envelope_def ws_has_authenticated_client_def split: option.splits if_splits)
  show ?thesis
  proof (cases "ws_proves_key env (bc_api_key B (ws_bridge s)) (ws_server_nonce s) e")
    case True
    then obtain r where r: "pe_msg_field e = PB_AUTH_RESPONSE" "parse_auth_response (pe_msg_data e) = Some r"
        "ws_verify_auth_response env B s r"
      using ws_verify_iff [OF assms(1)] by (auto simp: ws_proves_key_def split: option.splits)
    then show ?thesis
      using True assms(2,3) Some
      by (simp add: s' ws_authenticate_def Let_def) (simp add: ws_send_binary_def ws_has_authenticated_client_def)
  next
    case False
    then have "\<exists>c m. s' = ws_refuse env (pe_request_id e) c m s"
      by (auto simp: s' ws_authenticate_def ws_proves_key_def Let_def ws_verify_iff [OF assms(1)] split: option.splits)
    then show ?thesis using False Some ws_refused [of env _ _ _ s] by auto
  qed
qed

text \<open>
  C32: The gate of the WebSocket. Of a payload that comes in on a connection that is not authenticated: if it is an envelope of
  the interface's version, or of none, it either is a response that proves the key for this connection's nonce as a Home Assistant
  integration, and then registers the transport with the bridge, or it changes nothing of the bridge and closes the connection. Any
  other payload (one that cannot be read as an envelope, or names another version) is answered by an error frame and changes
  nothing else, or closes the connection if that frame finds no room in the queue.
\<close>

theorem ws_gate:
  assumes "\<And>k d. length (we_hmac env k d) = 32" and "ws_connected s" and "0 \<le> ws_active_fd s" and "\<not> ws_authenticated s"
    and "s' = ws_handle_binary env B payload s"
  shows "case ws_readable_envelope payload of
      None \<Rightarrow> ws_answered_or_closed invalid_envelope_error s s'
    | Some e \<Rightarrow>
        if ws_proves_key env (bc_api_key B (ws_bridge s)) (ws_server_nonce s) e
        then ws_bridge s' = bc_set_ota_transport_callbacks B (ws_bridge s) \<and> ws_has_authenticated_client s' = ws_connected s'
        else ws_bridge s' = ws_bridge s \<and> \<not> ws_connected s'"
  using assms by (rule ws_gate_lemma)

text \<open>A client that greets instead of answering the challenge is closed.\<close>

theorem ws_gate_witness:
  "\<exists>s. s = ws_handle_binary \<lparr>we_millis = 1, we_random = [], we_hmac = demo_hmac, we_double_text = id, we_send_ok = \<lambda>_ _. True\<rparr>
      (eb_calls demo_renv) (pb_envelope [7] PB_CLIENT_HELLO (\<lambda>w. w)) ((ws_init demo_component)\<lparr>ws_connected := True, ws_active_fd := 4\<rparr>)
    \<and> ws_bridge s = demo_component \<and> \<not> ws_connected s"
proof -
  have e: "ws_readable_envelope (pb_envelope [7] PB_CLIENT_HELLO (\<lambda>w. w))
      = Some \<lparr>pe_request_id = [7], pe_api_version = kRuntimeApiVersion, pe_msg_field = PB_CLIENT_HELLO, pe_msg_data = []\<rparr>"
    by (simp add: ws_readable_envelope_def parse_written_envelope)
  show ?thesis
    by (rule exI, rule conjI [OF refl], insert ws_gate [of "\<lparr>we_millis = 1, we_random = [], we_hmac = demo_hmac, we_double_text = id,
        we_send_ok = \<lambda>_ _. True\<rparr>", OF _ _ _ _ refl, of "(ws_init demo_component)\<lparr>ws_connected := True, ws_active_fd := 4\<rparr>"
        "eb_calls demo_renv" "pb_envelope [7] PB_CLIENT_HELLO (\<lambda>w. w)"])
       (simp add: e ws_init_def ws_proves_key_def demo_hmac_def)
qed

end
