(* ===== verification/WsOta.thy ===== *)
theory WsOta
  imports WsClaims
begin

text \<open>
  Firmware over the WebSocket: what the client learns of a transfer that ends while it is away depends on how its
  connection ended.
\<close>

definition ws_apply_callback :: "ws_env \<Rightarrow> ota_callback \<Rightarrow> 'b ws \<Rightarrow> 'b ws" where
  "ws_apply_callback env c s =
     (case c of
        OtaAccepted request_id job_id target_mac max_chunk_size total_chunks max_chunks_per_batch \<Rightarrow>
          ws_on_ota_accepted env request_id job_id target_mac max_chunk_size total_chunks max_chunks_per_batch s
      | OtaChunkRequest q \<Rightarrow> ws_on_ota_chunk_request env q s
      | OtaStatus job_id state percent bytes_received file_size error_detail \<Rightarrow>
          ws_on_ota_status env job_id state percent bytes_received file_size error_detail s)"

lemma no_client_no_callback: "\<not> ws_has_authenticated_client s \<Longrightarrow> ws_apply_callback env c s = s"
  by (simp add: ws_apply_callback_def ws_on_ota_accepted_def ws_on_ota_chunk_request_def ws_on_ota_status_def split: ota_callback.split)

lemma no_client_no_callbacks: "\<not> ws_has_authenticated_client s \<Longrightarrow> fold (ws_apply_callback env) cs s = s"
  by (induction cs) (simp_all add: no_client_no_callback)

lemma overflow_closes:
  assumes "ws_has_authenticated_client s" and "length (ws_outbound_frames s) = 256"
  shows "ws_emit env frame s = s\<lparr>ws_connected := False, ws_authenticated := False, ws_active_fd := - 1,
    ws_outbound_frames := [], ws_outbound_bytes := 0\<rparr>"
  using assms by (auto simp: ws_emit_def ws_send_binary_def ws_has_authenticated_client_def close_client_eq)

lemma task_of_closed:
  assumes "\<not> ws_connected s" and "ws_active_fd s \<noteq> fd"
  shows "ws_socket_task env B fd input s = s"
  using assms by (simp add: ws_socket_task_def ws_read_loop.simps ws_is_active_fd_def ws_finish_session_def)

text \<open>
  C35: A client whose queue overflows loses the result of its transfer. The connection is closed without telling the component, whose
  events then go to nobody: when the transfer succeeds, the job ends, nothing is sent, and a client that connects
  later is told nothing. After a connection that the client ended, the component keeps the event and the next client is told.
\<close>

theorem overflow_loses_result:
  assumes "ws_has_authenticated_client s" and "length (ws_outbound_frames s) = 256" and "fd = ws_active_fd s"
    and "eb_ota_transport_callbacks (ws_bridge s)" and "eb_ota_job_state (ws_bridge s) = JOB_TRANSFERRING"
    and "eb_ota_manager_prev_public_state (ws_bridge s) \<noteq> ''SUCCESS''" and "bo_public_state m = ''SUCCESS''"
    and "s1 = ws_socket_task env (eb_calls renv) fd input (ws_emit env frame s)"
    and "eb_emit_ota_events now ((ws_bridge s1)\<lparr>eb_ota_manager := Some m\<rparr>) = (b, calls)"
    and "s2 = fold (ws_apply_callback env') calls (s1\<lparr>ws_bridge := b\<rparr>)"
  shows "calls \<noteq> [] \<and> eb_ota_job_state b = JOB_SUCCESS \<and> ws_sent s2 = ws_sent s \<and> ws_outbound_frames s2 = []
    \<and> eb_emit_ota_events later (eb_set_callbacks b) = (eb_set_callbacks b, [])
    \<and> (let kept = (ws_bridge (ws_finish_session (eb_calls renv) fd s))\<lparr>eb_ota_manager := Some m\<rparr> in
         eb_emit_ota_events now kept = (kept, []) \<and> snd (eb_emit_ota_events later (eb_set_callbacks kept)) \<noteq> [])"
proof -
  have "0 \<le> fd" using assms(1,3) by (simp add: ws_has_authenticated_client_def)
  then have s1: "s1 = s\<lparr>ws_connected := False, ws_authenticated := False, ws_active_fd := - 1,
      ws_outbound_frames := [], ws_outbound_bytes := 0\<rparr>"
    unfolding assms(8) overflow_closes [OF assms(1,2)] by (intro task_of_closed) auto
  then have b: "calls \<noteq> []" "eb_ota_job_state b = JOB_SUCCESS"
    using assms(4-7,9) by (auto simp: eb_emit_ota_events_def eb_emit_transferring_def eb_ota_status_def Let_def)
  have "s2 = s1\<lparr>ws_bridge := b\<rparr>"
    unfolding assms(10) by (rule no_client_no_callbacks) (simp add: s1 ws_has_authenticated_client_def)
  then have quiet: "ws_sent s2 = ws_sent s \<and> ws_outbound_frames s2 = []" by (simp add: s1)
  have later: "eb_emit_ota_events later (eb_set_callbacks b) = (eb_set_callbacks b, [])"
    using b(2) by (simp add: eb_emit_ota_events_def eb_set_callbacks_def Let_def)
  let ?kept = "(ws_bridge (ws_finish_session (eb_calls renv) fd s))\<lparr>eb_ota_manager := Some m\<rparr>"
  have kept: "?kept = (eb_clear_callbacks (ws_bridge s))\<lparr>eb_ota_manager := Some m\<rparr>"
    by (simp add: ws_finish_session_def assms(3) eb_calls_def)
  have "eb_emit_ota_events now ?kept = (?kept, [])"
    unfolding kept by (simp add: eb_emit_ota_events_def eb_clear_callbacks_def)
  moreover have "snd (eb_emit_ota_events later (eb_set_callbacks ?kept)) \<noteq> []"
    unfolding kept using assms(5,7)
    by (simp add: eb_emit_ota_events_def eb_set_callbacks_def eb_clear_callbacks_def eb_emit_transferring_def eb_ota_status_def Let_def)
  ultimately show ?thesis using b quiet later by (simp add: Let_def)
qed

text \<open>A client with a full queue while its transfer is under way.\<close>

definition demo_wenv :: ws_env where
  "demo_wenv = \<lparr>we_millis = 5, we_random = replicate 16 1, we_hmac = demo_hmac, we_double_text = (\<lambda>_. []), we_send_ok = (\<lambda>_ _. True)\<rparr>"

definition demo_full :: "eb ws" where
  "demo_full = (ws_init (demo_component\<lparr>eb_ota_job_state := JOB_TRANSFERRING\<rparr>))
     \<lparr>ws_connected := True, ws_authenticated := True, ws_active_fd := 5, ws_outbound_frames := replicate 256 [1], ws_outbound_bytes := 256\<rparr>"

theorem overflow_loses_result_witness:
  "\<exists>s1 b calls. s1 = ws_socket_task demo_wenv (eb_calls demo_renv) 5 [] (ws_emit demo_wenv [1] demo_full)
    \<and> eb_emit_ota_events 0 ((ws_bridge s1)\<lparr>eb_ota_manager := Some ((ESPNowOTAManager_init bo_default_config)\<lparr>bo_public_state := ''SUCCESS''\<rparr>)\<rparr>)
        = (b, calls)
    \<and> calls \<noteq> [] \<and> ws_outbound_frames (fold (ws_apply_callback demo_wenv) calls (s1\<lparr>ws_bridge := b\<rparr>)) = []
    \<and> eb_emit_ota_events 1 (eb_set_callbacks b) = (eb_set_callbacks b, [])"
proof -
  let ?m = "(ESPNowOTAManager_init bo_default_config)\<lparr>bo_public_state := ''SUCCESS''\<rparr>"
  define s1 where "s1 = ws_socket_task demo_wenv (eb_calls demo_renv) 5 [] (ws_emit demo_wenv [1] demo_full)"
  obtain b calls where e: "eb_emit_ota_events 0 ((ws_bridge s1)\<lparr>eb_ota_manager := Some ?m\<rparr>) = (b, calls)" by (metis surj_pair)
  have s: "ws_has_authenticated_client demo_full" "length (ws_outbound_frames demo_full) = 256" "5 = ws_active_fd demo_full"
      "eb_ota_transport_callbacks (ws_bridge demo_full)" "eb_ota_job_state (ws_bridge demo_full) = JOB_TRANSFERRING"
      "eb_ota_manager_prev_public_state (ws_bridge demo_full) \<noteq> ''SUCCESS''" "bo_public_state ?m = ''SUCCESS''"
    by (simp_all add: demo_full_def ws_init_def demo_component_def ws_has_authenticated_client_def)
  show ?thesis
    using overflow_loses_result [OF s s1_def e refl, of demo_wenv 1] e unfolding s1_def [symmetric] by blast
qed

end
