(* ===== verification/Spec2Isabelle.thy ===== *)
theory Spec2Isabelle
  imports CobsCodec Payloads Aes256Props Crypto Frames OtaRestart BridgeOtaClaims Fragments RemoteCommands Joining ProtocolSpec
    RuntimePbProps JsonTextProps BridgeRadio ClientCommands StateDelivery SerialOta WsOta
begin

text \<open>
  ESP-Tree firmware: a verification library for the C++ components under
  \<^verbatim>\<open>src/device_code/components\<close>.

  \<^bold>\<open>The program.\<close> Battery powered sensors (remotes) talk to one bridge over ESP-NOW frames, some through
  other remotes that relay. The bridge shows them to a host (Home Assistant or an add-on) and lets it send commands and
  firmware. \<^verbatim>\<open>esp_tree_common\<close> is the vocabulary, cryptography and framing both ends share,
  \<^verbatim>\<open>esp_tree_remote\<close> the remote, \<^verbatim>\<open>esp_tree_bridge\<close> the bridge. A remote looks for
  the network with DISCOVER, joins with JOIN / JOIN_ACK (which fixes a session key), sends its schema, then STATE and
  HEARTBEAT; the bridge sends COMMAND, CONFIG and the packets of a file transfer. Frames carry a network tag (keyed with
  the pre-shared key) and, once joined, a session tag; payloads are encrypted in counter mode.

  \<^bold>\<open>Conventions.\<close> A class is a record, its methods functions on it that return the new state and the C++
  result; a method's early returns are branches. Machine integers are words of their width, byte strings and C strings
  lists of bytes. What a class does to the outside (frames given to the radio, callbacks, restarts) is appended to lists
  of its state. The clock, random numbers, the radio's answers, HMAC-SHA256, SHA-256, MD5 and the calls into ESP-IDF are
  arguments of the definitions; the properties hold for all of them but for what a hypothesis names (\<open>hmac32\<close>: the
  hash has 32 bytes). Log output has no effect. Public calls are atomic: the code holds its mutex over them.

  \<^bold>\<open>Theories, in the order of the program.\<close>
  \<^item> \<open>Prelude\<close>, \<open>Codec\<close>: byte strings, little-endian integers; the interface \<open>lawful_codec\<close> of a packed
    layout, with combinators that keep it.
  \<^item> \<open>WireTypes\<close>, \<open>Payloads\<close> (\<^verbatim>\<open>espnow_types.h\<close>): constants, packet types and
    their classes, the hop byte, every packed struct as a record with an interpretation of \<open>lawful_codec\<close>; entity
    packets, descriptors, the order of counters, derived sizes.
  \<^item> \<open>CobsCodec\<close> (\<^verbatim>\<open>cobs_codec.h\<close>): the framing of the serial line, the array encoder
    refining a functional specification.
  \<^item> \<open>Aes256\<close>, \<open>Aes256Props\<close>, \<open>Crypto\<close> (\<^verbatim>\<open>espnow_crypto.cpp\<close>): cipher,
    key schedule and counter mode, then the keys and tags. The key schedule is the FIPS 197 recurrence, the expansion
    RFC 5869 where a block fits the code's array of 96 bytes (a write past it is \<open>None\<close>; the code's two calls fit), no keystream
    block repeats.
  \<^item> \<open>Frames\<close> (\<^verbatim>\<open>espnow_frames.h\<close>, \<^verbatim>\<open>espnow_mac_utils.h\<close>,
    \<^verbatim>\<open>esp_tree_utils.h\<close>): building and parsing frames, texts of addresses.
  \<^item> \<open>FileReceiver\<close>, \<open>OtaFlash\<close> (\<^verbatim>\<open>remote_file_receiver.cpp\<close>): the receiving
    side of a file transfer and the handler that flashes firmware. \<open>FileGeometry\<close>, \<open>IncrementBitmap\<close>,
    \<open>FileReceiverProps\<close>, \<open>FileDelivery\<close>, \<open>OtaDelivery\<close>, \<open>OtaRestart\<close>: sizes, the bitmap as a set,
    the invariant, delivery of the image in whatever order packets come, the digest before every completion phase, and that every
    restart is the end of such a phase, whose results are all sent. Handlers enter
    through the locales \<open>bounded_handler\<close> and \<open>file_sink\<close>, both interpreted on the flash handler.
  \<^item> \<open>BridgeOta\<close>, \<open>BridgeOtaProps\<close>, \<open>BridgeOtaClaims\<close>
    (\<^verbatim>\<open>bridge_ota_manager.cpp\<close>): the sending side, its invariant, that both ends compute the same
    geometry, that the radio has accepted every chunk of a round before gaps are asked for, how transfers end.
  \<^item> \<open>Fragments\<close>: the reassembly buffers of both ends (locale \<open>reassembly\<close>, interpreted for each).
  \<^item> \<open>RemoteState\<close>, \<open>RemoteOps\<close>, \<open>RemoteSend\<close>, \<open>RemotePhases\<close>, \<open>RemoteHandlers\<close>,
    \<open>RemoteProtocol\<close>, \<open>RemoteLoop\<close> (\<^verbatim>\<open>remote_protocol.cpp\<close>, \<^verbatim>\<open>.h\<close>): a
    remote, its handlers, its loop and its public calls as events. \<open>RemoteProps\<close>, \<open>RemoteClaims\<close>,
    \<open>RemoteCommands\<close>: the invariant of its phases and tables, what forged and repeated frames do, which frames make
    it run a command.
  \<^item> \<open>BridgeState\<close>, \<open>BridgeSend\<close>, \<open>BridgeHandlers\<close>, \<open>BridgeExchange\<close>, \<open>BridgeLoop\<close>
    (\<^verbatim>\<open>bridge_protocol.cpp\<close>, \<^verbatim>\<open>.h\<close>): the bridge's sessions, its handlers,
    its loop. \<open>BridgeFrames\<close>, \<open>BridgeProps\<close>, \<open>BridgeClaims\<close>, \<open>BridgeStates\<close>: every frame sent is well
    formed, the invariant of the sessions, that commands end, eviction of sessions, which frames publish a state.
  \<^item> \<open>Delivery\<close>, \<open>Joining\<close>, \<open>ProtocolSpec\<close>: both ends together. A command given to the bridge is
    run once by the remote, JOIN and its answer leave both with one session key, relays; and where the code parts from
    \<^verbatim>\<open>docs/esptree_radio_v3_spec.md\<close>.

  \<^item> \<open>RuntimePb\<close>, \<open>ApiTypes\<close> (\<^verbatim>\<open>bridge_api_proto_messages.cpp\<close>,
    \<^verbatim>\<open>bridge_api_types.h\<close>, \<^verbatim>\<open>bridge_api_auth.cpp\<close>): the protobuf writer and
    reader of the host interface, its requests and answers, error codes, the checksum of chunks. \<open>RuntimePbProps\<close>: what
    the writer writes the reader reads.
  \<^item> \<open>JsonText\<close>, \<open>JsonTextProps\<close> (\<^verbatim>\<open>bridge_json_utils.cpp\<close>): the text of states and
    options; it matches the JSON grammar whatever a remote reports, except for numbers that are none, and it is UTF-8 except for
    texts that are not.
  \<^item> \<open>SerialApi\<close> (\<^verbatim>\<open>bridge_api_serial.cpp\<close>): the serial transport, over the calls it makes of
    the component (the record \<open>bridge_calls\<close>). \<open>SerialClaims\<close>: only a response with the right keyed hash opens
    it and a client with the key gets in, what it writes is lines; a recorded response opens it again, and a full buffer closes it for good.
  \<^item> \<open>BridgeJob\<close>, \<open>CommandValues\<close>, \<open>BridgeRequests\<close>, \<open>BridgeSnapshots\<close>, \<open>BridgeRadio\<close>,
    \<open>SerialBridge\<close> (\<^verbatim>\<open>esp_tree_bridge.cpp\<close>): the component behind the transport. Its firmware
    job, the values of commands, command and configuration requests, state delivery, the documents it writes, its radio peers and
    received frames; \<open>SerialBridge\<close> puts component and transport together. \<open>BridgeDemo\<close> is a bridge at which
    properties are shown to apply. \<open>CommandClaims\<close>, \<open>StateDelivery\<close>, \<open>SerialOta\<close>: a command is answered
    truthfully and has the value its word means (the table \<open>plain_value\<close>, independent of the code's decoding), a state is confirmed to its remote when the client has it, chunks that answer a request get through to the sender.
    \<open>ClientCommands\<close> follows a client's command through the transport, the component, the bridge's protocol and the radio to the
    remote that runs it.
  \<^item> \<open>WsApi\<close> (\<^verbatim>\<open>bridge_api_proto_ws.cpp\<close>): the WebSocket transport, over the same calls. The
    tasks of the socket and of the component's loop are interleaved between their waits. \<open>WsClaims\<close>, \<open>WsOta\<close>: frames are read
    back, the queue keeps its bounds, only a proof of the key opens the connection; a client whose queue overflows loses the result of
    its transfer.

  \<^bold>\<open>Bounds.\<close> No definition uses fuel: loops are structural or have a termination proof by a measure (bytes or
  queue entries left). Transfers are of any size the 16-bit count of increments can hold, which each property states.

  \<^bold>\<open>Where the model simplifies.\<close> Callbacks of the bridge protocol are effects that the component takes in their
  order when the handler is through, not in its middle. Within one stretch of a task between two waits the other task of the WebSocket does
  not run, although the code gives up its mutex in between. Floating-point arithmetic, the conversion of colours, the scanning of a float
  and the JSON parser are arguments (\<open>request_env\<close>); a parsed JSON object is the function from its keys to what
  ArduinoJson's conversions yield. The deliveries under way, an ordered map in the code, are a function, as only single entries and all
  of them independently are ever touched.

  \<^bold>\<open>Not modelled.\<close> The web server with its pages, HTTP upload and topology document, the MQTT export
  (\<^verbatim>\<open>bridge_mqtt_export.cpp\<close>: discovery documents over an MQTT client), the setup of the Wi-Fi and
  ESP-NOW drivers, the remote's ESPHome glue (\<^verbatim>\<open>esp_tree_remote.cpp\<close>: entity callbacks and preferences),
  the ESP8266 port of the remote (\<^verbatim>\<open>espnow_82xx_remote\<close>, in the main the remote's code again), the
  standalone host build, and the Python and TypeScript programs outside the firmware.
\<close>

end
